(* ===== verification/DHF_Prelude.thy ===== *)
theory DHF_Prelude
  imports Main "HOL-Library.Word" "HOL-Library.List_Lexorder" "HOL-Library.Char_ord"
begin

text \<open>
  Prelude of the distributed hardware framework development: the return codes of
  \<open>common/utils/include/distributed_hardware_errno.h\<close>, the bounds and names of
  \<open>common/utils/include/constants.h\<close>, the hardware types of \<open>device_type.h\<close>, the C and C++
  string operations the sources call (\<open>c_str\<close>, \<open>find\<close>, \<open>find_first_of\<close>, \<open>substr\<close>), and the
  collections of lemmas the component theories share.

  A C++ \<open>std::string\<close> is a \<^typ>\<open>string\<close> (one \<^typ>\<open>char\<close> per byte); \<open>std::string::compare\<close>
  compares unsigned bytes, which is the lexicographic order that
  \<^theory_text>\<open>List_Lexorder\<close> and \<^theory_text>\<open>Char_ord\<close> put on \<^typ>\<open>string\<close>.
  An \<open>int32_t\<close> return code is an \<^typ>\<open>int\<close>: the codes are compared and returned, never computed with.
\<close>

named_theorems dhf_simps \<open>rewrite rules of the shared library\<close>
named_theorems dhf_inv \<open>every operation keeps its component's invariant\<close>
named_theorems dhf_frame \<open>the parts of a state an operation leaves alone\<close>

section \<open>Return codes\<close>

type_synonym ret = int

abbreviation (input) DH_FWK_SUCCESS :: ret where "DH_FWK_SUCCESS \<equiv> 0"
abbreviation (input) ERR_DH_FWK_PARA_INVALID :: ret where "ERR_DH_FWK_PARA_INVALID \<equiv> - 10000"
abbreviation (input) ERR_DH_FWK_TYPE_NOT_EXIST :: ret where "ERR_DH_FWK_TYPE_NOT_EXIST \<equiv> - 10003"
abbreviation (input) ERR_DH_FWK_JSON_PARSE_FAILED :: ret where "ERR_DH_FWK_JSON_PARSE_FAILED \<equiv> - 10004"
abbreviation (input) ERR_DH_FWK_POINTER_IS_NULL :: ret where "ERR_DH_FWK_POINTER_IS_NULL \<equiv> - 10005"
abbreviation (input) ERR_DH_FWK_VERSION_DEVICE_ID_NOT_EXIST :: ret
  where "ERR_DH_FWK_VERSION_DEVICE_ID_NOT_EXIST \<equiv> - 10200"
abbreviation (input) ERR_DH_FWK_RESOURCE_DB_ADAPTER_POINTER_NULL :: ret
  where "ERR_DH_FWK_RESOURCE_DB_ADAPTER_POINTER_NULL \<equiv> - 10400"
abbreviation (input) ERR_DH_FWK_RESOURCE_KV_STORAGE_POINTER_NULL :: ret
  where "ERR_DH_FWK_RESOURCE_KV_STORAGE_POINTER_NULL \<equiv> - 10401"
abbreviation (input) ERR_DH_FWK_RESOURCE_DB_ADAPTER_OPERATION_FAIL :: ret
  where "ERR_DH_FWK_RESOURCE_DB_ADAPTER_OPERATION_FAIL \<equiv> - 10402"
abbreviation (input) ERR_DH_FWK_RESOURCE_KV_STORAGE_OPERATION_FAIL :: ret
  where "ERR_DH_FWK_RESOURCE_KV_STORAGE_OPERATION_FAIL \<equiv> - 10403"
abbreviation (input) ERR_DH_FWK_RESOURCE_CAPABILITY_MAP_NOT_FOUND :: ret
  where "ERR_DH_FWK_RESOURCE_CAPABILITY_MAP_NOT_FOUND \<equiv> - 10404"
abbreviation (input) ERR_DH_FWK_RESOURCE_INIT_DB_FAILED :: ret
  where "ERR_DH_FWK_RESOURCE_INIT_DB_FAILED \<equiv> - 10406"
abbreviation (input) ERR_DH_FWK_RESOURCE_UNINIT_DB_FAILED :: ret
  where "ERR_DH_FWK_RESOURCE_UNINIT_DB_FAILED \<equiv> - 10407"
abbreviation (input) ERR_DH_FWK_RESOURCE_REGISTER_DB_FAILED :: ret
  where "ERR_DH_FWK_RESOURCE_REGISTER_DB_FAILED \<equiv> - 10408"
abbreviation (input) ERR_DH_FWK_RESOURCE_UNREGISTER_DB_FAILED :: ret
  where "ERR_DH_FWK_RESOURCE_UNREGISTER_DB_FAILED \<equiv> - 10409"
abbreviation (input) ERR_DH_FWK_RESOURCE_UUID_NOT_FOUND :: ret
  where "ERR_DH_FWK_RESOURCE_UUID_NOT_FOUND \<equiv> - 10413"
abbreviation (input) ERR_DH_FWK_RESOURCE_RES_DB_DATA_INVALID :: ret
  where "ERR_DH_FWK_RESOURCE_RES_DB_DATA_INVALID \<equiv> - 10415"
abbreviation (input) ERR_DH_FWK_HARDWARE_MANAGER_DEVICE_REPEAT_ONLINE :: ret
  where "ERR_DH_FWK_HARDWARE_MANAGER_DEVICE_REPEAT_ONLINE \<equiv> - 10500"
abbreviation (input) ERR_DH_FWK_HARDWARE_MANAGER_DEVICE_REPEAT_OFFLINE :: ret
  where "ERR_DH_FWK_HARDWARE_MANAGER_DEVICE_REPEAT_OFFLINE \<equiv> - 10501"
abbreviation (input) ERR_DH_FWK_HARDWARE_MANAGER_INIT_FAILED :: ret
  where "ERR_DH_FWK_HARDWARE_MANAGER_INIT_FAILED \<equiv> - 10502"
abbreviation (input) ERR_DH_FWK_TASK_TIMEOUT :: ret where "ERR_DH_FWK_TASK_TIMEOUT \<equiv> - 10700"

section \<open>Bounds and names of constants.h\<close>

abbreviation (input) MAX_MESSAGE_LEN :: nat where "MAX_MESSAGE_LEN \<equiv> 41943040"
abbreviation (input) MIN_MESSAGE_LEN :: nat where "MIN_MESSAGE_LEN \<equiv> 0"
abbreviation (input) MAX_ID_LEN :: nat where "MAX_ID_LEN \<equiv> 256"
abbreviation (input) MAX_ARR_SIZE :: nat where "MAX_ARR_SIZE \<equiv> 10000"
abbreviation (input) MAX_DB_RECORD_SIZE :: nat where "MAX_DB_RECORD_SIZE \<equiv> 10000"
abbreviation (input) MAX_ONLINE_DEVICE_SIZE :: nat where "MAX_ONLINE_DEVICE_SIZE \<equiv> 10000"
abbreviation (input) MAX_JSON_SIZE :: nat where "MAX_JSON_SIZE \<equiv> 41943040"
abbreviation (input) MAX_HASH_SIZE :: nat where "MAX_HASH_SIZE \<equiv> 64"
abbreviation (input) MAX_KEY_SIZE :: nat where "MAX_KEY_SIZE \<equiv> 256"

abbreviation (input) RESOURCE_SEPARATOR :: string where "RESOURCE_SEPARATOR \<equiv> ''###''"
abbreviation (input) DH_TASK_NAME_PREFIX :: string where "DH_TASK_NAME_PREFIX \<equiv> ''Task_''"
abbreviation (input) APP_ID :: string where "APP_ID \<equiv> ''dtbhardware_manager_service''"
abbreviation (input) GLOBAL_CAPABILITY_ID :: string where "GLOBAL_CAPABILITY_ID \<equiv> ''global_capability_info''"
abbreviation (input) GLOBAL_VERSION_ID :: string where "GLOBAL_VERSION_ID \<equiv> ''global_version_info''"
abbreviation (input) LOCAL_CAPABILITY_ID :: string where "LOCAL_CAPABILITY_ID \<equiv> ''local_capability_info''"
abbreviation (input) GLOBAL_META_INFO :: string where "GLOBAL_META_INFO \<equiv> ''global_meta_info''"

section \<open>Hardware types\<close>

text \<open>
  \<open>enum class DHType : uint32_t\<close>. The JSON decoders cast any \<open>uint32_t\<close> to it, so a value need
  not be one of the enumerators: the type is the 32-bit word and the enumerators are constants.
\<close>

type_synonym dhtype = "32 word"

abbreviation (input) DHType_UNKNOWN :: dhtype where "DHType_UNKNOWN \<equiv> 0"
abbreviation (input) DHType_CAMERA :: dhtype where "DHType_CAMERA \<equiv> 0x01"
abbreviation (input) DHType_AUDIO :: dhtype where "DHType_AUDIO \<equiv> 0x02"
abbreviation (input) DHType_SCREEN :: dhtype where "DHType_SCREEN \<equiv> 0x08"
abbreviation (input) DHType_GPS :: dhtype where "DHType_GPS \<equiv> 0x10"
abbreviation (input) DHType_INPUT :: dhtype where "DHType_INPUT \<equiv> 0x20"
abbreviation (input) DHType_HFP :: dhtype where "DHType_HFP \<equiv> 0x40"
abbreviation (input) DHType_A2D :: dhtype where "DHType_A2D \<equiv> 0x80"
abbreviation (input) DHType_VIRMODEM_AUDIO :: dhtype where "DHType_VIRMODEM_AUDIO \<equiv> 0x100"
abbreviation (input) DHType_MODEM :: dhtype where "DHType_MODEM \<equiv> 0x200"
abbreviation (input) DHType_MAX_DH :: dhtype where "DHType_MAX_DH \<equiv> 0x80000000"

section \<open>C and C++ strings\<close>

text \<open>\<open>s.c_str()\<close> read as a C string ends at the first NUL byte.\<close>

definition c_str :: "string \<Rightarrow> string" where
  "c_str s = takeWhile (\<lambda>c. c \<noteq> CHR 0x00) s"

text \<open>\<open>s.find(p)\<close>: the first index where \<open>p\<close> occurs, \<open>None\<close> for \<open>std::string::npos\<close>.\<close>

fun str_prefix :: "string \<Rightarrow> string \<Rightarrow> bool" where
  "str_prefix [] _ = True"
| "str_prefix (_ # _) [] = False"
| "str_prefix (p # ps) (c # cs) = (p = c \<and> str_prefix ps cs)"

fun str_find :: "string \<Rightarrow> string \<Rightarrow> nat option" where
  "str_find [] p = (if p = [] then Some 0 else None)"
| "str_find (c # cs) p =
     (if str_prefix p (c # cs) then Some 0 else map_option Suc (str_find cs p))"

text \<open>\<open>s.find_first_of(p)\<close>: the first index that holds any one character of \<open>p\<close>.\<close>

fun str_find_first_of :: "string \<Rightarrow> string \<Rightarrow> nat option" where
  "str_find_first_of [] p = None"
| "str_find_first_of (c # cs) p =
     (if c \<in> set p then Some 0 else map_option Suc (str_find_first_of cs p))"

text \<open>\<open>s.substr(0, n)\<close> with \<open>npos\<close> for the count takes the whole string.\<close>

definition str_head :: "string \<Rightarrow> nat option \<Rightarrow> string" where
  "str_head s n = (case n of None \<Rightarrow> s | Some i \<Rightarrow> take i s)"

lemma c_str_id [dhf_simps]: "CHR 0x00 \<notin> set s \<Longrightarrow> c_str s = s"
  by (auto simp: c_str_def takeWhile_eq_all_conv)

lemma c_str_no_nul [dhf_simps]: "CHR 0x00 \<notin> set (c_str s)"
  by (auto simp: c_str_def dest: set_takeWhileD)

lemma c_str_idem [simp]: "c_str (c_str s) = c_str s"
  by (rule c_str_id) (rule c_str_no_nul)

lemma str_prefix_append [simp]: "str_prefix p (p @ s)"
  by (induction p) auto

lemma str_prefix_iff: "str_prefix p s \<longleftrightarrow> (\<exists>t. s = p @ t)"
  by (induction p s rule: str_prefix.induct) auto

lemma str_find_SomeD:
  "str_find s p = Some i \<Longrightarrow> \<exists>t. s = take i s @ p @ t \<and> i \<le> length s"
proof (induction s p arbitrary: i rule: str_find.induct)
  case (1 p)
  then show ?case by (auto split: if_splits)
next
  case (2 c cs p)
  show ?case
  proof (cases "str_prefix p (c # cs)")
    case True
    with "2.prems" show ?thesis by (auto simp: str_prefix_iff)
  next
    case False
    with "2.prems" obtain j where j: "str_find cs p = Some j" and i: "i = Suc j" by auto
    from "2.IH" [OF False j] show ?thesis by (auto simp: i)
  qed
qed

text \<open>A separator is found right after a head that has none of its characters.\<close>

lemma str_find_fresh_head:
  assumes "p \<noteq> []" and "hd p \<notin> set d"
  shows "str_find (d @ p @ t) p = Some (length d)"
  using assms(2)
proof (induction d)
  case Nil
  from assms(1) show ?case by (cases p) auto
next
  case (Cons c d)
  with assms(1) have "\<not> str_prefix p (c # d @ p @ t)"
    by (cases p) auto
  with Cons show ?case by simp
qed

lemma str_find_first_of_fresh_head:
  assumes "c \<in> set p" and "set d \<inter> set p = {}"
  shows "str_find_first_of (d @ c # t) p = Some (length d)"
  using assms by (induction d) auto

lemma str_find_None_sub: "str_find s p = None \<Longrightarrow> s \<noteq> a @ p @ b"
proof (induction s p arbitrary: a rule: str_find.induct)
  case (1 p)
  then show ?case by (auto split: if_splits)
next
  case (2 c cs p)
  then show ?case by (cases a) (auto split: if_splits simp: str_prefix_iff)
qed

section \<open>Option and list helpers\<close>

lemma list_all_filterI: "list_all P xs \<Longrightarrow> list_all P (filter Q xs)"
  by (auto simp: list_all_iff)

lemma find_Some_mem: "List.find P xs = Some x \<Longrightarrow> x \<in> set xs \<and> P x"
  by (auto simp: find_Some_iff)

lemma find_append:
  "List.find P (xs @ ys) = (case List.find P xs of None \<Rightarrow> List.find P ys | Some x \<Rightarrow> Some x)"
  by (induction xs) auto

lemma find_None_all: "List.find P xs = None \<longleftrightarrow> (\<forall>x \<in> set xs. \<not> P x)"
  by (auto simp: find_None_iff)

section \<open>Decimal numbers in text\<close>

text \<open>
  What \<open>std::stoi\<close>, \<open>std::stoll\<close> and \<open>atoi\<close> read: white space, an optional sign and decimal digits. The first two
  throw an exception (\<open>None\<close>) when there is no digit or the value does not fit; \<open>atoi\<close> gives 0 when there is no digit,
  and what it gives for a value that is no \<open>int\<close> is not defined (\<open>None\<close>).
\<close>

definition is_space :: "char \<Rightarrow> bool" where
  "is_space c \<longleftrightarrow> (of_char c :: nat) = 32 \<or> (9 \<le> (of_char c :: nat) \<and> (of_char c :: nat) \<le> 13)"

definition is_digit :: "char \<Rightarrow> bool" where
  "is_digit c \<longleftrightarrow> 48 \<le> (of_char c :: nat) \<and> (of_char c :: nat) \<le> 57"

definition read_decimal :: "string \<Rightarrow> int option" where
  "read_decimal s =
     (let t = dropWhile is_space s;
          neg = (t \<noteq> [] \<and> hd t = CHR ''-'');
          u = (if t \<noteq> [] \<and> (hd t = CHR ''-'' \<or> hd t = CHR ''+'') then tl t else t);
          ds = takeWhile is_digit u;
          n = foldl (\<lambda>a c. a * 10 + (of_char c - 48)) (0 :: int) ds
      in if ds = [] then None else Some (if neg then - n else n))"

definition in_range :: "nat \<Rightarrow> int \<Rightarrow> bool" where
  "in_range w v \<longleftrightarrow> - (2 ^ (w - 1)) \<le> v \<and> v < 2 ^ (w - 1)"

definition stoi :: "string \<Rightarrow> int option" where
  "stoi s = (case read_decimal s of None \<Rightarrow> None | Some v \<Rightarrow> if in_range 32 v then Some v else None)"

definition stoll :: "string \<Rightarrow> int option" where
  "stoll s = (case read_decimal s of None \<Rightarrow> None | Some v \<Rightarrow> if in_range 64 v then Some v else None)"

definition atoi :: "string \<Rightarrow> int option" where
  "atoi s = (case read_decimal s of None \<Rightarrow> Some 0 | Some v \<Rightarrow> if in_range 32 v then Some v else None)"

text \<open>\<open>std::to_string\<close>\<close>

fun nat_text :: "nat \<Rightarrow> string" where
  "nat_text n = (if n < 10 then [char_of (48 + n)] else nat_text (n div 10) @ [char_of (48 + n mod 10)])"

declare nat_text.simps [simp del]

definition int_text :: "int \<Rightarrow> string" where
  "int_text i = (if i < 0 then ''-'' @ nat_text (nat (- i)) else nat_text (nat i))"

lemma of_char_digit: "d < 10 \<Longrightarrow> of_char (char_of (48 + d) :: char) = 48 + d" for d :: nat
  by (simp add: of_char_of)

lemma nat_text_digits: "nat_text n \<noteq> [] \<and> list_all is_digit (nat_text n)"
proof (induction n rule: nat_text.induct)
  case (1 n)
  have "is_digit (char_of (48 + d))" if "d < 10" for d :: nat using that by (simp add: is_digit_def of_char_digit)
  then show ?case using 1 by (simp add: nat_text.simps [of n])
qed

lemma nat_text_value: "foldl (\<lambda>a c. a * 10 + (of_char c - 48)) (0 :: int) (nat_text n) = int n"
proof (induction n rule: nat_text.induct)
  case (1 n)
  have d: "(of_char (char_of (48 + d) :: char) :: int) = 48 + int d" if "d < 10" for d :: nat
    using of_char_digit [OF that] by (metis of_nat_of_char of_nat_add of_nat_numeral)
  show ?case
  proof (cases "n < 10")
    case True
    then show ?thesis by (simp add: nat_text.simps [of n] d)
  next
    case False
    then show ?thesis using 1 by (simp add: nat_text.simps [of n] d zdiv_int zmod_int flip: of_nat_mult of_nat_add)
  qed
qed

lemma read_int_text: "read_decimal (int_text i) = Some i"
proof -
  have ds: "takeWhile is_digit (nat_text n) = nat_text n" and ne: "nat_text n \<noteq> []" for n
    using nat_text_digits [of n] by (auto simp: takeWhile_eq_all_conv list_all_iff)
  have hd: "is_digit (hd (nat_text n))" for n using nat_text_digits [of n] by (auto simp: list_all_iff)
  have plain: "\<not> is_space c" "c \<noteq> CHR ''-''" "c \<noteq> CHR ''+''" if "is_digit c" for c
    using that by (auto simp: is_digit_def is_space_def)
  have sp: "dropWhile is_space (nat_text n) = nat_text n" for n
    using hd [of n] plain(1) ne [of n] by (cases "nat_text n") auto
  have minus: "\<not> is_space CHR ''-''" by (simp add: is_space_def)
  show ?thesis
    using hd plain ne by (auto simp: read_decimal_def int_text_def Let_def sp ds nat_text_value minus)
qed

lemma stoll_int_text: "in_range 64 i \<Longrightarrow> stoll (int_text i) = Some i"
  by (simp add: stoll_def read_int_text)

lemma atoi_int_text: "in_range 32 i \<Longrightarrow> atoi (int_text i) = Some i"
  by (simp add: atoi_def read_int_text)

end
