(* ===== verification/DHF_Utils.thy ===== *)
theory DHF_Utils
  imports DHF_Prelude
begin

unbundle bit_operations_syntax

text \<open>
  \<open>utils/src/dh_utils_tool.cpp\<close> and \<open>utils/src/anonymous_string.cpp\<close>: the length checks every
  entry point makes, the hexadecimal form of a SHA-256 digest (an in-place loop over one buffer),
  the random task identifiers, and the anonymised form of identifiers that goes to the log.

  OpenSSL's digest and the random device are not part of the repository: \<open>Sha256\<close> takes the digest
  function as an argument, \<open>GetRandomID\<close> the two 64-bit words it draws.
\<close>

section \<open>Length checks\<close>

definition IsIdLengthValid :: "string \<Rightarrow> bool" where
  "IsIdLengthValid inputID = (\<not> (inputID = [] \<or> length inputID > MAX_ID_LEN))"

definition IsMessageLengthValid :: "string \<Rightarrow> bool" where
  "IsMessageLengthValid inputMessage = (\<not> (inputMessage = [] \<or> length inputMessage > MAX_MESSAGE_LEN))"

definition IsJsonLengthValid :: "string \<Rightarrow> bool" where
  "IsJsonLengthValid inputJsonStr = (\<not> (inputJsonStr = [] \<or> length inputJsonStr > MAX_JSON_SIZE))"

definition IsArrayLengthValid :: "string list \<Rightarrow> bool" where
  "IsArrayLengthValid inputArray = (\<not> (inputArray = [] \<or> length inputArray > MAX_ARR_SIZE))"

definition IsKeySizeValid :: "string \<Rightarrow> bool" where
  "IsKeySizeValid inputKey = (\<not> (inputKey = [] \<or> length inputKey > MAX_KEY_SIZE))"

definition IsHashSizeValid :: "string \<Rightarrow> bool" where
  "IsHashSizeValid inputHashValue = (\<not> (inputHashValue = [] \<or> length inputHashValue > MAX_HASH_SIZE))"

lemmas length_checks = IsIdLengthValid_def IsMessageLengthValid_def IsJsonLengthValid_def
  IsArrayLengthValid_def IsKeySizeValid_def IsHashSizeValid_def

lemma IsIdLengthValid_Nil [simp]: "\<not> IsIdLengthValid []"
  by (simp add: length_checks)

section \<open>The hexadecimal form of a digest\<close>

type_synonym byte = "8 word"

text \<open>\<open>hexCode[v]\<close> for \<open>hexCode = "0123456789abcdef"\<close>, read with an index masked to four bits.\<close>

definition hex_char :: "nat \<Rightarrow> char" where
  "hex_char n = ''0123456789abcdef'' ! n"

definition hex_byte :: "byte \<Rightarrow> byte" where
  "hex_byte v = word_of_nat (of_char (hex_char (unat v)))"

definition byte_char :: "byte \<Rightarrow> char" where
  "byte_char b = char_of (unat b)"

text \<open>
  The loop of \<open>Sha256\<close>. The digest lies at \<open>out[32..63]\<close>; iteration \<open>i\<close> reads \<open>out[32 + i]\<close> and
  overwrites \<open>out[2 * i]\<close> and \<open>out[2 * i + 1]\<close> of the same buffer.
\<close>

function sha256_hex_loop :: "nat \<Rightarrow> byte list \<Rightarrow> byte list" where
  "sha256_hex_loop i out =
     (if i < 32
      then let value = out ! (32 + i);
               out1 = out[i * 2 := hex_byte (drop_bit 4 value AND 0x0F)];
               out2 = out1[i * 2 + 1 := hex_byte (value AND 0x0F)]
           in sha256_hex_loop (Suc i) out2
      else out)"
  by pat_completeness auto
termination
  by (relation "measure (\<lambda>(i, out). 32 - i)") auto

declare sha256_hex_loop.simps [simp del]

text \<open>
  \<open>Sha256\<close>: a zeroed buffer of 65 bytes, the digest written at \<open>&out[32]\<close>, the loop, the
  terminator at \<open>out[64]\<close>, and the C string read back.
\<close>

definition Sha256 :: "(string \<Rightarrow> byte list) \<Rightarrow> string \<Rightarrow> string" where
  "Sha256 digest s =
     (let out0 = replicate 65 0;
          out1 = take 32 out0 @ digest s @ drop (32 + length (digest s)) out0;
          out2 = sha256_hex_loop 0 out1;
          out3 = out2[64 := 0]
      in map byte_char (takeWhile (\<lambda>b. b \<noteq> 0) out3))"

definition GetDeviceIdByUUID :: "(string \<Rightarrow> byte list) \<Rightarrow> string \<Rightarrow> string" where
  "GetDeviceIdByUUID digest uuid = (if \<not> IsIdLengthValid uuid then [] else Sha256 digest uuid)"

text \<open>The reference: two digits per byte, high nibble first.\<close>

definition hex_pair :: "byte \<Rightarrow> char list" where
  "hex_pair b = [hex_char (unat b div 16), hex_char (unat b mod 16)]"

definition hex_string :: "byte list \<Rightarrow> string" where
  "hex_string d = concat (map hex_pair d)"

definition hex_digits :: string where
  "hex_digits = ''0123456789abcdef''"

lemma hex_char_mem: "n < 16 \<Longrightarrow> hex_char n \<in> set hex_digits"
  unfolding hex_char_def hex_digits_def by (rule nth_mem) simp

lemma hex_char_inj: "m < 16 \<Longrightarrow> n < 16 \<Longrightarrow> hex_char m = hex_char n \<longleftrightarrow> m = n"
  unfolding hex_char_def by (rule nth_eq_iff_index_eq) auto

lemma hash_not_hex: "CHR ''#'' \<notin> set hex_digits"
  by (simp add: hex_digits_def)

lemma nul_not_hex: "CHR 0x00 \<notin> set hex_digits"
  by (simp add: hex_digits_def)

lemma unat_nibble_lt [simp]: "unat ((x :: byte) AND 0x0F) < 16"
proof -
  have "unat (x AND 0x0F) \<le> unat (0x0F :: byte)"
    by (rule word_and_le1 [THEN word_le_nat_alt [THEN iffD1]])
  then show ?thesis by simp
qed

lemma low_nibble: "unat ((b :: byte) AND 0x0F) = unat b mod 16"
proof -
  have "b AND 0x0F = take_bit 4 b" by (simp add: take_bit_eq_mask mask_numeral)
  then show ?thesis by (simp add: take_bit_eq_mod unat_mod)
qed

lemma unat_byte_lt: "unat (b :: byte) < 256"
  using unsigned_less [of b] by simp

lemma high_nibble: "unat (drop_bit 4 (b :: byte) AND 0x0F) = unat b div 16"
proof -
  have "unat b div 16 < 16" using unat_byte_lt [of b] by simp
  moreover have "unat (drop_bit 4 b) = unat b div 16"
    by (simp add: unsigned_drop_bit_eq drop_bit_eq_div unat_div)
  ultimately show ?thesis by (simp add: low_nibble)
qed

lemma byte_char_hex_byte: "unat v < 16 \<Longrightarrow> byte_char (hex_byte v) = hex_char (unat v)"
proof -
  have "(of_char (hex_char (unat v)) :: nat) < 256" by simp
  then have "unat (word_of_nat (of_char (hex_char (unat v))) :: byte) = of_char (hex_char (unat v))"
    by (simp add: unsigned_of_nat take_bit_nat_eq_self)
  then show ?thesis by (simp add: byte_char_def hex_byte_def)
qed

lemma hex_byte_nonzero: "unat v < 16 \<Longrightarrow> hex_byte v \<noteq> 0"
proof
  assume *: "unat v < 16" and "hex_byte v = 0"
  then have "hex_char (unat v) = CHR 0x00"
    using byte_char_hex_byte [OF *] by (simp add: byte_char_def char_of_def)
  with hex_char_mem [OF *] nul_not_hex show False by simp
qed

lemma hex_pair_bytes:
  "map byte_char [hex_byte (drop_bit 4 b AND 0x0F), hex_byte (b AND 0x0F)] = hex_pair b"
proof -
  have "byte_char (hex_byte (drop_bit 4 b AND 0x0F)) = hex_char (unat b div 16)"
    using byte_char_hex_byte [OF unat_nibble_lt] by (simp only: high_nibble)
  moreover have "byte_char (hex_byte (b AND 0x0F)) = hex_char (unat b mod 16)"
    using byte_char_hex_byte [OF unat_nibble_lt] by (simp only: low_nibble)
  ultimately show ?thesis by (simp only: list.map hex_pair_def)
qed

text \<open>
  The loop invariant: after \<open>i\<close> rounds the first \<open>2 * i\<close> bytes are the digits of the first \<open>i\<close>
  digest bytes, and the bytes of the digest that are still to be read are untouched. The latter
  holds because the writes of round \<open>i\<close> stay below \<open>2 * i + 2 \<le> 32 + i + 1\<close>.
\<close>

definition hex_codes :: "byte list \<Rightarrow> byte list" where
  "hex_codes d = concat (map (\<lambda>b. [hex_byte (drop_bit 4 b AND 0x0F), hex_byte (b AND 0x0F)]) d)"

lemma length_hex_codes [simp]: "length (hex_codes d) = 2 * length d"
  by (induction d) (auto simp: hex_codes_def)

lemma hex_codes_append: "hex_codes (d @ e) = hex_codes d @ hex_codes e"
  by (simp add: hex_codes_def)

lemma sha256_hex_loop_inv:
  assumes "length d = 32" and "length tail = 65 - 2 * i" and "i \<le> 32"
    and "\<And>j. i \<le> j \<Longrightarrow> j < 32 \<Longrightarrow> tail ! (32 + j - 2 * i) = d ! j"
  shows "\<exists>z. sha256_hex_loop i (hex_codes (take i d) @ tail) = hex_codes d @ [z]"
  using assms(2-)
proof (induction "32 - i" arbitrary: i tail)
  case 0
  then have i: "i = 32" by simp
  with 0 obtain z where "tail = [z]" by (cases tail) auto
  then show ?case
    by (subst sha256_hex_loop.simps) (simp add: i \<open>length d = 32\<close>)
next
  case (Suc n)
  then have lt: "i < 32" by simp
  let ?out = "hex_codes (take i d) @ tail"
  from Suc.prems(1) lt obtain x y tail' where t: "tail = x # y # tail'"
    by (cases tail; cases "tl tail") auto
  have len: "length (hex_codes (take i d)) = 2 * i" using lt assms(1) by simp
  have rd: "?out ! (32 + i) = d ! i"
    using Suc.prems(3) [of i] lt len by (simp add: nth_append)
  have upd: "?out[i * 2 := u, Suc (i * 2) := w] = hex_codes (take i d) @ u # w # tail'" for u w
    using len by (simp add: t list_update_append mult.commute)
  have nx: "hex_codes (take (Suc i) d)
      = hex_codes (take i d) @ [hex_byte (drop_bit 4 (d ! i) AND 0x0F), hex_byte (d ! i AND 0x0F)]"
    using lt assms(1) by (simp add: take_Suc_conv_app_nth hex_codes_append) (simp add: hex_codes_def)
  have "\<exists>z. sha256_hex_loop (Suc i) (hex_codes (take (Suc i) d) @ tail') = hex_codes d @ [z]"
  proof (rule Suc.hyps(1))
    show "n = 32 - Suc i" using Suc.hyps(2) by simp
    show "length tail' = 65 - 2 * Suc i" using Suc.prems(1) by (simp add: t)
    show "Suc i \<le> 32" using lt by simp
    fix j assume "Suc i \<le> j" and "j < 32"
    then have e: "32 + j - 2 * i = Suc (Suc (32 + j - 2 * Suc i))" by simp
    show "tail' ! (32 + j - 2 * Suc i) = d ! j"
      using Suc.prems(3) [of j] \<open>Suc i \<le> j\<close> \<open>j < 32\<close> by (simp add: t e del: mult_Suc_right)
  qed
  then show ?case
    using lt by (subst sha256_hex_loop.simps) (simp add: Let_def rd upd nx)
qed

lemma map_byte_char_hex_codes: "map byte_char (hex_codes d) = hex_string d"
  by (induction d) (simp_all add: hex_codes_def hex_string_def hex_pair_bytes [simplified])

lemma hex_codes_nonzero: "b \<in> set (hex_codes d) \<Longrightarrow> b \<noteq> 0"
  by (auto simp: hex_codes_def hex_byte_nonzero)

lemma Sha256_eq:
  assumes "length (digest s) = 32"
  shows "Sha256 digest s = hex_string (digest s)"
proof -
  let ?tail = "take 32 (replicate 65 0) @ digest s @ drop (32 + 32) (replicate 65 (0 :: byte))"
  have "\<exists>z. sha256_hex_loop 0 (hex_codes (take 0 (digest s)) @ ?tail) = hex_codes (digest s) @ [z]"
  proof (rule sha256_hex_loop_inv)
    fix j :: nat assume "j < 32"
    with assms show "?tail ! (32 + j - 2 * 0) = digest s ! j" by (simp add: nth_append)
  qed (use assms in simp_all)
  then obtain z where z: "sha256_hex_loop 0 ?tail = hex_codes (digest s) @ [z]"
    by (auto simp: hex_codes_def)
  have "takeWhile (\<lambda>b. b \<noteq> 0) (hex_codes (digest s) @ [0]) = hex_codes (digest s)"
    by (subst takeWhile_append2) (auto dest: hex_codes_nonzero)
  moreover have "(hex_codes (digest s) @ [z])[64 := 0] = hex_codes (digest s) @ [0]"
    using assms by (simp add: list_update_append)
  ultimately show ?thesis
    using z assms by (simp add: Sha256_def Let_def map_byte_char_hex_codes)
qed

lemma length_hex_string: "length (hex_string d) = 2 * length d"
  by (induction d) (auto simp: hex_string_def hex_pair_def)

lemma hex_string_chars: "set (hex_string d) \<subseteq> set hex_digits"
proof -
  have "set (hex_pair b) \<subseteq> set hex_digits" for b
  proof -
    have "unat b < 256" by (rule unat_byte_lt)
    then have "unat b div 16 < 16" and "unat b mod 16 < 16" by simp_all
    then show ?thesis by (auto simp: hex_pair_def intro: hex_char_mem)
  qed
  then show ?thesis by (auto simp: hex_string_def)
qed

lemma hex_pair_inj: "hex_pair a = hex_pair b \<Longrightarrow> a = b"
proof -
  assume *: "hex_pair a = hex_pair b"
  have "unat a < 256" and "unat b < 256" by (rule unat_byte_lt)+
  with * have "unat a div 16 = unat b div 16" and "unat a mod 16 = unat b mod 16"
    by (auto simp: hex_pair_def hex_char_inj)
  then have "unat a = unat b" by (metis div_mult_mod_eq)
  then show "a = b" by (simp add: word_unat_eq_iff)
qed

lemma hex_string_inj: "hex_string d = hex_string e \<Longrightarrow> d = e"
proof (induction d arbitrary: e)
  case Nil
  then show ?case by (cases e) (auto simp: hex_string_def hex_pair_def)
next
  case (Cons a d)
  then obtain b e' where e: "e = b # e'" by (cases e) (auto simp: hex_string_def hex_pair_def)
  with Cons.prems have "hex_pair a = hex_pair b" and "hex_string d = hex_string e'"
    by (auto simp: hex_string_def hex_pair_def)
  with Cons.IH hex_pair_inj e show ?case by auto
qed

text \<open>What the code relies on of OpenSSL: a digest has \<open>SHA256_DIGEST_LENGTH = 32\<close> bytes.\<close>

definition digest_ok :: "(string \<Rightarrow> byte list) \<Rightarrow> bool" where
  "digest_ok digest \<longleftrightarrow> (\<forall>s. length (digest s) = 32)"

lemma digest_okD: "digest_ok digest \<Longrightarrow> length (digest s) = 32"
  by (simp add: digest_ok_def)

lemma length_Sha256: "digest_ok digest \<Longrightarrow> length (Sha256 digest s) = 64"
  by (simp add: Sha256_eq digest_okD length_hex_string)

lemma Sha256_chars: "digest_ok digest \<Longrightarrow> set (Sha256 digest s) \<subseteq> set hex_digits"
  by (simp add: Sha256_eq digest_okD hex_string_chars)

lemma Sha256_id_valid: "digest_ok digest \<Longrightarrow> IsIdLengthValid (Sha256 digest s)"
  using length_Sha256 [of digest s] by (auto simp: IsIdLengthValid_def)

lemma Sha256_no_hash: "digest_ok digest \<Longrightarrow> CHR ''#'' \<notin> set (Sha256 digest s)"
  using Sha256_chars hash_not_hex by blast

text \<open>
  Property C25. \<open>Sha256\<close> translates the digest to hexadecimal inside the buffer that holds it, the
  writes running over the upper half while it is still being read. The loop is right all the same:
  the result is the 64-digit hexadecimal form of the digest, and it loses nothing of it.
\<close>

theorem Sha256_in_place_correct:
  assumes "digest_ok digest"
  shows "Sha256 digest s = hex_string (digest s) \<and> length (Sha256 digest s) = 64
     \<and> set (Sha256 digest s) \<subseteq> set hex_digits
     \<and> (Sha256 digest s = Sha256 digest t \<longleftrightarrow> digest s = digest t)"
  using assms Sha256_chars [OF assms] length_Sha256 [OF assms]
  by (auto simp: Sha256_eq digest_okD dest: hex_string_inj)

theorem Sha256_in_place_correct_witness:
  "Sha256 (\<lambda>s. replicate 32 (word_of_nat (length s))) ''ab''
     = concat (replicate 32 ''02'')"
proof -
  let ?d = "\<lambda>s :: string. replicate 32 (word_of_nat (length s)) :: byte list"
  have ok: "digest_ok ?d" by (simp add: digest_ok_def)
  have "hex_pair (2 :: byte) = ''02''" by (simp add: hex_pair_def hex_char_def)
  then have "hex_string (?d ''ab'') = concat (replicate 32 ''02'')"
    by (simp add: hex_string_def map_replicate_const [symmetric])
  then show ?thesis using Sha256_in_place_correct [OF ok, of "''ab''" "''ab''"] by simp
qed

section \<open>Random identifiers\<close>

text \<open>A stream in \<open>std::hex\<close> mode prints without leading zeros; \<open>setw\<close> and \<open>setfill('0')\<close> pad on the left.\<close>

fun hex_of_nat :: "nat \<Rightarrow> string" where
  "hex_of_nat n = (if n < 16 then [hex_char n] else hex_of_nat (n div 16) @ [hex_char (n mod 16)])"

declare hex_of_nat.simps [simp del]

definition put_hex :: "nat \<Rightarrow> nat \<Rightarrow> string" where
  "put_hex width n = (let s = hex_of_nat n in replicate (width - length s) (CHR ''0'') @ s)"

definition random_ab :: "64 word \<Rightarrow> 64 word" where
  "random_ab ab = (ab AND 0xFFFFFFFFFFFF0FFF) OR 0x0000000000004000"

definition random_cd :: "64 word \<Rightarrow> 64 word" where
  "random_cd cd = (cd AND 0x3FFFFFFFFFFFFFFF) OR 0x8000000000000000"

text \<open>
  \<open>GetRandomID\<close> on the two words it draws. The halves \<open>a, b, c, d\<close> are \<open>uint32_t\<close>: assigning a
  64-bit value to them keeps its low 32 bits.
\<close>

definition GetRandomID :: "64 word \<Rightarrow> 64 word \<Rightarrow> string" where
  "GetRandomID ab0 cd0 =
     (let ab = random_ab ab0;
          cd = random_cd cd0;
          a = (ucast (drop_bit 32 ab) :: 32 word);
          b = (ucast (ab AND 0xFFFFFFFF) :: 32 word);
          c = (ucast (drop_bit 32 cd) :: 32 word);
          d = (ucast (cd AND 0xFFFFFFFF) :: 32 word)
      in put_hex 8 (unat a)
       @ put_hex 4 (unat (drop_bit 16 b)) @ put_hex 4 (unat (b AND 0xFFFF))
       @ put_hex 4 (unat (drop_bit 16 c)) @ put_hex 4 (unat (c AND 0xFFFF))
       @ put_hex 8 (unat d))"

text \<open>The reference form of a number in a fixed number of digits.\<close>

fun hex_fix :: "nat \<Rightarrow> nat \<Rightarrow> string" where
  "hex_fix 0 n = []"
| "hex_fix (Suc w) n = hex_fix w (n div 16) @ [hex_char (n mod 16)]"

lemma length_hex_fix [simp]: "length (hex_fix w n) = w"
  by (induction w n rule: hex_fix.induct) auto

lemma hex_fix_chars: "set (hex_fix w n) \<subseteq> set hex_digits"
  by (induction w n rule: hex_fix.induct) (auto intro: hex_char_mem)

lemma hex_fix_zero: "hex_fix w 0 = replicate w (CHR ''0'')"
proof (induction w)
  case (Suc w)
  have "hex_char 0 = CHR ''0''" by (simp add: hex_char_def)
  with Suc show ?case by (simp add: replicate_append_same)
qed simp

lemma put_hex_fix: "0 < w \<Longrightarrow> n < 16 ^ w \<Longrightarrow> put_hex w n = hex_fix w n"
proof (induction w arbitrary: n)
  case 0
  then show ?case by simp
next
  case (Suc w)
  show ?case
  proof (cases "n < 16")
    case True
    then show ?thesis by (simp add: put_hex_def hex_of_nat.simps [of n] hex_fix_zero)
  next
    case False
    then have "0 < w" using Suc.prems(2) by (cases w) auto
    moreover have "n div 16 < 16 ^ w" using Suc.prems(2) by (simp add: less_mult_imp_div_less)
    ultimately have "put_hex w (n div 16) = hex_fix w (n div 16)" by (rule Suc.IH)
    with False show ?thesis by (simp add: put_hex_def hex_of_nat.simps [of n] Let_def)
  qed
qed

lemma hex_fix_inj:
  "m < 16 ^ w \<Longrightarrow> n < 16 ^ w \<Longrightarrow> hex_fix w m = hex_fix w n \<Longrightarrow> m = n"
proof (induction w arbitrary: m n)
  case 0
  then show ?case by simp
next
  case (Suc w)
  then have "m div 16 = n div 16" by (simp add: less_mult_imp_div_less)
  moreover from Suc.prems(3) have "m mod 16 = n mod 16" by (simp add: hex_char_inj)
  ultimately show ?case by (metis div_mult_mod_eq)
qed

lemma hex_fix_hd: "n < 16 ^ Suc w \<Longrightarrow> hex_fix (Suc w) n ! 0 = hex_char (n div 16 ^ w)"
proof (induction w arbitrary: n)
  case 0
  then show ?case by simp
next
  case (Suc w)
  then have "n div 16 < 16 ^ Suc w" by (simp add: less_mult_imp_div_less)
  moreover have "hex_fix (Suc (Suc w)) n ! 0 = hex_fix (Suc w) (n div 16) ! 0"
    by (subst hex_fix.simps(2)) (simp only: nth_append length_hex_fix zero_less_Suc if_True)
  moreover have "n div 16 div 16 ^ w = n div 16 ^ Suc w" by (simp add: div_mult2_eq)
  ultimately show ?case using Suc.IH by metis
qed

text \<open>The six groups of digits of an identifier, as numbers below \<open>16 ^ width\<close>.\<close>

lemma unat_word32_lt: "unat (a :: 32 word) < 16 ^ 8"
  using unsigned_less [of a] by simp

lemma unat_low16: "unat ((w :: 32 word) AND 0xFFFF) = unat w mod 2 ^ 16"
proof -
  have "w AND 0xFFFF = take_bit 16 w" by (simp add: take_bit_eq_mask mask_numeral)
  then show ?thesis by (simp add: take_bit_eq_mod unat_mod)
qed

lemma unat_high16: "unat (drop_bit 16 (w :: 32 word)) = unat w div 2 ^ 16"
  by (simp add: drop_bit_eq_div unat_div)

lemma unat_low32: "unat (ucast ((x :: 64 word) AND 0xFFFFFFFF) :: 32 word) = unat x mod 2 ^ 32"
proof -
  have "x AND 0xFFFFFFFF = take_bit 32 x" by (simp add: take_bit_eq_mask mask_numeral)
  then show ?thesis by (simp add: unsigned_ucast_eq take_bit_eq_mod unat_mod)
qed

lemma unat_high32: "unat (ucast (drop_bit 32 (x :: 64 word)) :: 32 word) = unat x div 2 ^ 32"
proof -
  have "unat x < 2 ^ LENGTH(64)" by (rule unsigned_less)
  then have "unat x div 2 ^ 32 < 2 ^ 32" by (simp add: less_mult_imp_div_less)
  then show ?thesis
    by (simp add: unsigned_ucast_eq take_bit_eq_mod drop_bit_eq_div unat_div)
qed

lemma unat_high16_lt: "unat (drop_bit 16 (a :: 32 word)) < 16 ^ 4"
  using unat_word32_lt [of a] by (simp add: unat_high16 less_mult_imp_div_less)

lemma unat_low16_lt: "unat ((a :: 32 word) AND 0xFFFF) < 16 ^ 4"
  by (simp add: unat_low16)

lemmas random_group_lt = unat_word32_lt unat_high16_lt unat_low16_lt

lemma GetRandomID_groups:
  "GetRandomID ab cd =
     (let a = (ucast (drop_bit 32 (random_ab ab)) :: 32 word);
          b = (ucast (random_ab ab AND 0xFFFFFFFF) :: 32 word);
          c = (ucast (drop_bit 32 (random_cd cd)) :: 32 word);
          d = (ucast (random_cd cd AND 0xFFFFFFFF) :: 32 word)
      in hex_fix 8 (unat a) @ hex_fix 4 (unat (drop_bit 16 b)) @ hex_fix 4 (unat (b AND 0xFFFF))
       @ hex_fix 4 (unat (drop_bit 16 c)) @ hex_fix 4 (unat (c AND 0xFFFF)) @ hex_fix 8 (unat d))"
  by (simp only: GetRandomID_def Let_def put_hex_fix random_group_lt zero_less_numeral)

text \<open>The version digit and the variant digit of the two masked words.\<close>

lemma hex_fix_4_hd: "n < 2 ^ 16 \<Longrightarrow> hex_fix 4 n ! 0 = hex_char (n div 2 ^ 12)"
  using hex_fix_hd [of n 3] by (simp del: hex_fix.simps)

lemma random_ab_digit: "unat (random_ab x) mod 2 ^ 16 div 2 ^ 12 = 4"
proof -
  have "drop_bit 12 (random_ab x AND 0xFFFF) = drop_bit 12 (x AND 0x0FFF) OR drop_bit 12 0x4000"
    by (simp add: random_ab_def bit.conj_disj_distrib2 and.assoc drop_bit_or)
  also have "drop_bit 12 (x AND 0x0FFF) = 0"
    by (rule bit_word_eqI) (simp add: bit_simps)
  finally have "drop_bit 12 (random_ab x AND 0xFFFF) = 4" by simp
  moreover have "random_ab x AND 0xFFFF = take_bit 16 (random_ab x)"
    by (simp add: take_bit_eq_mask mask_numeral)
  ultimately have "unat (drop_bit 12 (take_bit 16 (random_ab x))) = 4" by simp
  then show ?thesis
    by (simp add: drop_bit_eq_div take_bit_eq_mod unat_div unat_mod)
qed

lemma word_le_3_cases: "unat (y :: 64 word) \<le> 3 \<Longrightarrow> y = 0 \<or> y = 1 \<or> y = 2 \<or> y = 3"
proof -
  assume "unat y \<le> 3"
  then have "unat y = 0 \<or> unat y = 1 \<or> unat y = 2 \<or> unat y = 3" by linarith
  then obtain k where k: "k = unat y" and "k = 0 \<or> k = 1 \<or> k = 2 \<or> k = 3" by blast
  moreover from k have "y = word_of_nat k" by simp
  ultimately show ?thesis by auto
qed

lemma random_cd_digit: "unat (random_cd x) div 2 ^ 60 \<in> {8, 9, 10, 11}"
proof -
  have *: "drop_bit 60 (random_cd x) = drop_bit 60 x AND 3 OR 8"
    by (simp add: random_cd_def drop_bit_and drop_bit_or)
  have "unat (drop_bit 60 x AND 3) \<le> unat (3 :: 64 word)"
    by (rule word_and_le1 [THEN word_le_nat_alt [THEN iffD1]])
  then have "unat (drop_bit 60 x AND 3) \<le> 3" by simp
  then have "unat (drop_bit 60 (random_cd x)) \<in> {8, 9, 10, 11}"
    unfolding * by (elim word_le_3_cases [elim_format] disjE) simp_all
  then show ?thesis by (simp add: drop_bit_eq_div unat_div)
qed

text \<open>
  An identifier drawn by \<open>GetRandomID\<close> always has 32 lower-case hexadecimal digits, no
  group is widened or cut by the stream's field widths, its thirteenth digit is the version digit
  \<open>4\<close> and its seventeenth digit is one of the four RFC 4122 variant digits.
\<close>

theorem GetRandomID_format:
  "length (GetRandomID ab cd) = 32 \<and> set (GetRandomID ab cd) \<subseteq> set hex_digits
     \<and> GetRandomID ab cd ! 12 = CHR ''4'' \<and> GetRandomID ab cd ! 16 \<in> set ''89ab''"
proof -
  have "unat ((ucast (random_ab ab AND 0xFFFFFFFF) :: 32 word) AND 0xFFFF) = unat (random_ab ab) mod 2 ^ 16"
    by (simp add: unat_low16 unat_low32 mod_mod_cancel)
  then have v: "hex_fix 4 (unat ((ucast (random_ab ab AND 0xFFFFFFFF) :: 32 word) AND 0xFFFF)) ! 0 = CHR ''4''"
    using random_ab_digit [of ab] by (simp add: hex_fix_4_hd hex_char_def del: hex_fix.simps)
  have c: "unat (drop_bit 16 (ucast (drop_bit 32 (random_cd cd)) :: 32 word)) = unat (random_cd cd) div 2 ^ 48"
    by (simp add: unat_high16 unat_high32 div_mult2_eq [symmetric])
  then have "unat (random_cd cd) div 2 ^ 48 < 2 ^ 16"
    using unat_high16_lt [of "ucast (drop_bit 32 (random_cd cd))"] by simp
  then have w: "hex_fix 4 (unat (drop_bit 16 (ucast (drop_bit 32 (random_cd cd)) :: 32 word))) ! 0 \<in> set ''89ab''"
    using random_cd_digit [of cd] unfolding c
    by (auto simp: hex_fix_4_hd div_mult2_eq [symmetric] hex_char_def simp del: hex_fix.simps)
  show ?thesis
    using v w hex_fix_chars by (simp add: GetRandomID_groups Let_def nth_append)
qed

lemma word_halves_eq:
  "unat (drop_bit 16 (b :: 32 word)) = unat (drop_bit 16 b') \<Longrightarrow>
   unat (b AND 0xFFFF) = unat (b' AND 0xFFFF) \<Longrightarrow> b = b'"
  unfolding unat_high16 unat_low16 word_unat_eq_iff by (metis div_mult_mod_eq)

lemma word_quarters_eq:
  fixes x y :: "64 word"
  assumes "(ucast (drop_bit 32 x) :: 32 word) = ucast (drop_bit 32 y)"
    and "(ucast (x AND 0xFFFFFFFF) :: 32 word) = ucast (y AND 0xFFFFFFFF)"
  shows "x = y"
proof -
  from assms have "unat x div 2 ^ 32 = unat y div 2 ^ 32" and "unat x mod 2 ^ 32 = unat y mod 2 ^ 32"
    by (metis unat_high32, metis unat_low32)
  then show ?thesis unfolding word_unat_eq_iff by (metis div_mult_mod_eq)
qed

lemma GetRandomID_eq_iff:
  "GetRandomID ab cd = GetRandomID ab' cd'
     \<longleftrightarrow> random_ab ab = random_ab ab' \<and> random_cd cd = random_cd cd'"
proof
  note inj = hex_fix_inj [OF random_group_lt(1) random_group_lt(1)]
    hex_fix_inj [OF random_group_lt(2) random_group_lt(2)]
    hex_fix_inj [OF random_group_lt(3) random_group_lt(3)]
  assume "GetRandomID ab cd = GetRandomID ab' cd'"
  then show "random_ab ab = random_ab ab' \<and> random_cd cd = random_cd cd'"
    unfolding GetRandomID_groups Let_def
    by (auto simp del: hex_fix.simps simp: word_unat_eq_iff [symmetric] dest!: inj
        intro!: word_quarters_eq intro: word_halves_eq)
qed (simp add: GetRandomID_def)

text \<open>
  Two draws give the same identifier only when all the random bits the masks keep are
  the same: no digit of the printed form drops one of the 122 bits.
\<close>

theorem GetRandomID_injective:
  "GetRandomID ab cd = GetRandomID ab' cd'
     \<longleftrightarrow> random_ab ab = random_ab ab' \<and> random_cd cd = random_cd cd'"
  by (rule GetRandomID_eq_iff)

section \<open>Anonymised strings\<close>

definition GetAnonyString :: "string \<Rightarrow> string" where
  "GetAnonyString value =
     (if \<not> IsMessageLengthValid value then []
      else let tmpStr = ''******''; strLen = length value in
        if strLen < 3 then tmpStr
        else if strLen \<le> 20 then [value ! 0] @ tmpStr @ [value ! (strLen - 1)]
        else take 4 value @ tmpStr @ take 4 (drop (strLen - 4) value))"

text \<open>
  The anonymised form of an identifier never has more than 14 characters, and for an
  identifier of more than 20 characters it depends only on the first four and the last four: two
  identifiers that differ only in between are indistinguishable in the log.
\<close>

theorem GetAnonyString_hides:
  "length (GetAnonyString value) \<le> 14
     \<and> (20 < length value \<and> length value \<le> MAX_MESSAGE_LEN
        \<and> 20 < length other \<and> length other \<le> MAX_MESSAGE_LEN
        \<and> take 4 value = take 4 other \<and> drop (length value - 4) value = drop (length other - 4) other
        \<longrightarrow> GetAnonyString value = GetAnonyString other)"
  by (auto simp: GetAnonyString_def Let_def IsMessageLengthValid_def)

theorem GetAnonyString_hides_witness:
  "GetAnonyString ''0123456789abcdefghijWXYZ'' = GetAnonyString ''0123-----------------WXYZ''"
  using GetAnonyString_hides [of "''0123456789abcdefghijWXYZ''" "''0123-----------------WXYZ''"]
  by simp

end
