(* ===== verification/DHF_Json.thy ===== *)
theory DHF_Json
  imports Complex_Main DHF_Utils
begin

text \<open>
  The JSON layer. cJSON itself is a third-party library: its functions are the fields of the record
  \<open>cjson\<close>, over an abstract type \<open>'j\<close> of nodes, and every definition that parses or prints takes such
  a record. What the sources rely on of cJSON is stated by \<open>cjson_build_laws\<close> (what a lookup returns
  after an addition) and \<open>cj_prints_back\<close> (a printed object parses to an object with the same items).

  From \<open>utils/src/dh_utils_tool.cpp\<close>: the typed item checks \<open>IsUInt8\<close>, \<open>IsUInt16\<close>, \<open>IsInt32\<close>,
  \<open>IsUInt32\<close>, \<open>IsBool\<close>, \<open>IsString\<close>, \<open>IsArray\<close>. The functions \<open>FromJsonString\<close> and \<open>ToJsonString\<close>
  have one text in the three classes that have them; \<open>json_decode\<close> and \<open>json_encode\<close> are that text,
  and the locale \<open>json_codec\<close> proves their round trip once for all three.

  A \<open>double\<close> that cJSON holds is a rational number; \<open>valuestring\<close> is a \<open>char *\<close> and is read up to
  its NUL byte.
\<close>

record 'j cjson =
  cJSON_Parse :: "string \<Rightarrow> 'j option"
  cJSON_PrintUnformatted :: "'j \<Rightarrow> string option"
  cJSON_CreateObject :: "'j option"
  cJSON_CreateArray :: "'j option"
  cJSON_GetObjectItem :: "'j \<Rightarrow> string \<Rightarrow> 'j option"
  cJSON_GetObjectItemCaseSensitive :: "'j \<Rightarrow> string \<Rightarrow> 'j option"
  cJSON_IsString :: "'j \<Rightarrow> bool"
  cJSON_IsNumber :: "'j \<Rightarrow> bool"
  cJSON_IsBool :: "'j \<Rightarrow> bool"
  cJSON_IsTrue :: "'j \<Rightarrow> bool"
  cJSON_IsArray :: "'j \<Rightarrow> bool"
  valuestring :: "'j \<Rightarrow> string"
  valuedouble :: "'j \<Rightarrow> rat"
  cJSON_Children :: "'j \<Rightarrow> 'j list"
  cJSON_AddStringToObject :: "'j \<Rightarrow> string \<Rightarrow> string \<Rightarrow> 'j"
  cJSON_AddNumberToObject :: "'j \<Rightarrow> string \<Rightarrow> rat \<Rightarrow> 'j"
  cJSON_AddItemToObject :: "'j \<Rightarrow> string \<Rightarrow> 'j \<Rightarrow> 'j"
  cJSON_AddItemToArray :: "'j \<Rightarrow> 'j \<Rightarrow> 'j"

section \<open>Typed item checks\<close>

definition number_in :: "'j cjson \<Rightarrow> 'j \<Rightarrow> string \<Rightarrow> rat \<Rightarrow> rat \<Rightarrow> bool" where
  "number_in cj jsonObj key lo hi =
     (case cJSON_GetObjectItem cj jsonObj key of
        None \<Rightarrow> False
      | Some value \<Rightarrow> cJSON_IsNumber cj value \<and> lo \<le> valuedouble cj value \<and> valuedouble cj value \<le> hi)"

definition IsUInt8 :: "'j cjson \<Rightarrow> 'j \<Rightarrow> string \<Rightarrow> bool" where
  "IsUInt8 cj jsonObj key = number_in cj jsonObj key 0 255"

definition IsUInt16 :: "'j cjson \<Rightarrow> 'j \<Rightarrow> string \<Rightarrow> bool" where
  "IsUInt16 cj jsonObj key = number_in cj jsonObj key 0 65535"

definition IsInt32 :: "'j cjson \<Rightarrow> 'j \<Rightarrow> string \<Rightarrow> bool" where
  "IsInt32 cj jsonObj key = number_in cj jsonObj key (- 2147483648) 2147483647"

definition IsUInt32 :: "'j cjson \<Rightarrow> 'j \<Rightarrow> string \<Rightarrow> bool" where
  "IsUInt32 cj jsonObj key = number_in cj jsonObj key 0 4294967295"

definition IsBool :: "'j cjson \<Rightarrow> 'j \<Rightarrow> string \<Rightarrow> bool" where
  "IsBool cj jsonObj key =
     (case cJSON_GetObjectItem cj jsonObj key of None \<Rightarrow> False | Some value \<Rightarrow> cJSON_IsBool cj value)"

text \<open>\<open>strlen(value->valuestring)\<close>\<close>

definition item_strlen :: "'j cjson \<Rightarrow> 'j \<Rightarrow> nat" where
  "item_strlen cj value = length (c_str (valuestring cj value))"

definition IsString :: "'j cjson \<Rightarrow> 'j \<Rightarrow> string \<Rightarrow> bool" where
  "IsString cj jsonObj key =
     (case cJSON_GetObjectItem cj jsonObj key of
        None \<Rightarrow> False
      | Some value \<Rightarrow> cJSON_IsString cj value
          \<and> item_strlen cj value > MIN_MESSAGE_LEN \<and> item_strlen cj value \<le> MAX_MESSAGE_LEN)"

text \<open>The lower bound of the array check compares an unsigned number with zero.\<close>

definition IsArray :: "'j cjson \<Rightarrow> 'j \<Rightarrow> string \<Rightarrow> bool" where
  "IsArray cj jsonObj key =
     (case cJSON_GetObjectItem cj jsonObj key of
        None \<Rightarrow> False
      | Some value \<Rightarrow> cJSON_IsArray cj value
          \<and> length (cJSON_Children cj value) \<ge> 0 \<and> length (cJSON_Children cj value) \<le> MAX_ARR_SIZE)"

text \<open>
  \<open>cJSON_GetObjectItem(jsonObject, key)->valuestring\<close> and \<open>->valuedouble\<close>, which the decoders read
  after the check of the item, so that the pointer is not null.
\<close>

definition get_string :: "'j cjson \<Rightarrow> 'j \<Rightarrow> string \<Rightarrow> string" where
  "get_string cj jsonObj key =
     (case cJSON_GetObjectItem cj jsonObj key of None \<Rightarrow> [] | Some v \<Rightarrow> c_str (valuestring cj v))"

definition get_word :: "'j cjson \<Rightarrow> 'j \<Rightarrow> string \<Rightarrow> 'a::len word" where
  "get_word cj jsonObj key =
     (case cJSON_GetObjectItem cj jsonObj key of None \<Rightarrow> 0 | Some v \<Rightarrow> word_of_int \<lfloor>valuedouble cj v\<rfloor>)"

text \<open>
  \<open>static_cast<int32_t>(->valuedouble)\<close> of a value in the range of the type drops the fraction;
  \<open>cJSON_IsTrue(cJSON_GetObjectItem(...))\<close> is false for a missing item.
\<close>

definition trunc :: "rat \<Rightarrow> int" where
  "trunc q = (if 0 \<le> q then \<lfloor>q\<rfloor> else - \<lfloor>- q\<rfloor>)"

definition get_int32 :: "'j cjson \<Rightarrow> 'j \<Rightarrow> string \<Rightarrow> int" where
  "get_int32 cj jsonObj key =
     (case cJSON_GetObjectItem cj jsonObj key of None \<Rightarrow> 0 | Some v \<Rightarrow> trunc (valuedouble cj v))"

definition item_is_true :: "'j cjson \<Rightarrow> 'j \<Rightarrow> string \<Rightarrow> bool" where
  "item_is_true cj jsonObj key =
     (case cJSON_GetObjectItem cj jsonObj key of None \<Rightarrow> False | Some v \<Rightarrow> cJSON_IsTrue cj v)"

section \<open>What the sources rely on of cJSON\<close>

definition to_lower :: "char \<Rightarrow> char" where
  "to_lower c = (if 65 \<le> (of_char c :: nat) \<and> (of_char c :: nat) \<le> 90
                 then char_of (of_char c + 32 :: nat) else c)"

text \<open>Object keys are compared without regard to case.\<close>

definition same_key :: "string \<Rightarrow> string \<Rightarrow> bool" where
  "same_key k k' \<longleftrightarrow> map to_lower k = map to_lower k'"

definition has_string :: "'j cjson \<Rightarrow> 'j \<Rightarrow> string \<Rightarrow> string \<Rightarrow> bool" where
  "has_string cj ob k s \<longleftrightarrow>
     (\<exists>v. cJSON_GetObjectItem cj ob k = Some v \<and> cJSON_IsString cj v \<and> valuestring cj v = s)"

definition has_number :: "'j cjson \<Rightarrow> 'j \<Rightarrow> string \<Rightarrow> nat \<Rightarrow> bool" where
  "has_number cj ob k n \<longleftrightarrow>
     (\<exists>v. cJSON_GetObjectItem cj ob k = Some v \<and> cJSON_IsNumber cj v \<and> valuedouble cj v = of_nat n)"

definition cjson_build_laws :: "'j cjson \<Rightarrow> bool" where
  "cjson_build_laws cj \<longleftrightarrow>
     (\<forall>ob k. cJSON_CreateObject cj = Some ob \<longrightarrow> cJSON_GetObjectItem cj ob k = None)
   \<and> (\<forall>ob k s. cJSON_GetObjectItem cj ob k = None \<and> CHR 0x00 \<notin> set s
        \<longrightarrow> has_string cj (cJSON_AddStringToObject cj ob k s) k s)
   \<and> (\<forall>ob k n. cJSON_GetObjectItem cj ob k = None \<and> n < 2 ^ 53
        \<longrightarrow> has_number cj (cJSON_AddNumberToObject cj ob k (of_nat n)) k n)
   \<and> (\<forall>ob k s k'. \<not> same_key k k' \<longrightarrow>
        cJSON_GetObjectItem cj (cJSON_AddStringToObject cj ob k s) k' = cJSON_GetObjectItem cj ob k')
   \<and> (\<forall>ob k d k'. \<not> same_key k k' \<longrightarrow>
        cJSON_GetObjectItem cj (cJSON_AddNumberToObject cj ob k d) k' = cJSON_GetObjectItem cj ob k')
   \<and> (\<forall>ob k it. cJSON_GetObjectItem cj ob k = None
        \<longrightarrow> cJSON_GetObjectItem cj (cJSON_AddItemToObject cj ob k it) k = Some it)
   \<and> (\<forall>ob k it k'. \<not> same_key k k' \<longrightarrow>
        cJSON_GetObjectItem cj (cJSON_AddItemToObject cj ob k it) k' = cJSON_GetObjectItem cj ob k')
   \<and> (\<forall>ar. cJSON_CreateArray cj = Some ar \<longrightarrow> cJSON_Children cj ar = [])
   \<and> (\<forall>ar it. cJSON_Children cj (cJSON_AddItemToArray cj ar it) = cJSON_Children cj ar @ [it])"

definition cj_prints_back :: "'j cjson \<Rightarrow> 'j \<Rightarrow> bool" where
  "cj_prints_back cj ob \<longleftrightarrow>
     (\<exists>t ob'. cJSON_PrintUnformatted cj ob = Some t \<and> CHR 0x00 \<notin> set t \<and> IsJsonLengthValid t
        \<and> cJSON_Parse cj t = Some ob' \<and> cJSON_GetObjectItem cj ob' = cJSON_GetObjectItem cj ob)"

lemma law_create: "cjson_build_laws cj \<Longrightarrow> cJSON_CreateObject cj = Some ob \<Longrightarrow> cJSON_GetObjectItem cj ob k = None"
  by (simp add: cjson_build_laws_def)

lemma law_add_string:
  "cjson_build_laws cj \<Longrightarrow> cJSON_GetObjectItem cj ob k = None \<Longrightarrow> CHR 0x00 \<notin> set s \<Longrightarrow>
   has_string cj (cJSON_AddStringToObject cj ob k s) k s"
  by (simp add: cjson_build_laws_def)

lemma law_add_number:
  "cjson_build_laws cj \<Longrightarrow> cJSON_GetObjectItem cj ob k = None \<Longrightarrow> n < 2 ^ 53 \<Longrightarrow>
   has_number cj (cJSON_AddNumberToObject cj ob k (of_nat n)) k n"
  by (simp add: cjson_build_laws_def)

lemma law_other:
  assumes "cjson_build_laws cj" and "\<not> same_key k k'"
  shows law_other_string: "cJSON_GetObjectItem cj (cJSON_AddStringToObject cj ob k s) k' = cJSON_GetObjectItem cj ob k'"
    and law_other_number: "cJSON_GetObjectItem cj (cJSON_AddNumberToObject cj ob k d) k' = cJSON_GetObjectItem cj ob k'"
    and law_other_item: "cJSON_GetObjectItem cj (cJSON_AddItemToObject cj ob k it) k' = cJSON_GetObjectItem cj ob k'"
  using assms by (simp_all add: cjson_build_laws_def)

lemma law_add_item:
  "cjson_build_laws cj \<Longrightarrow> cJSON_GetObjectItem cj ob k = None \<Longrightarrow>
   cJSON_GetObjectItem cj (cJSON_AddItemToObject cj ob k it) k = Some it"
  by (simp add: cjson_build_laws_def)

lemma law_array:
  assumes "cjson_build_laws cj"
  shows law_create_array: "cJSON_CreateArray cj = Some ar \<Longrightarrow> cJSON_Children cj ar = []"
    and law_add_elem: "cJSON_Children cj (cJSON_AddItemToArray cj ar it) = cJSON_Children cj ar @ [it]"
  using assms by (simp_all add: cjson_build_laws_def)

lemma has_string_other:
  assumes "cjson_build_laws cj" and "\<not> same_key k k'"
  shows "has_string cj (cJSON_AddStringToObject cj ob k s) k' t = has_string cj ob k' t"
    and "has_string cj (cJSON_AddNumberToObject cj ob k d) k' t = has_string cj ob k' t"
    and "has_string cj (cJSON_AddItemToObject cj ob k it) k' t = has_string cj ob k' t"
    and "has_number cj (cJSON_AddStringToObject cj ob k s) k' n = has_number cj ob k' n"
    and "has_number cj (cJSON_AddNumberToObject cj ob k d) k' n = has_number cj ob k' n"
    and "has_number cj (cJSON_AddItemToObject cj ob k it) k' n = has_number cj ob k' n"
  using law_other [OF assms] by (simp_all add: has_string_def has_number_def)

lemmas json_build = law_create law_other_string law_other_number law_other_item has_string_other
  law_add_string law_add_number law_add_item

text \<open>A string that survives \<open>c_str\<close> and the \<open>IsString\<close> check.\<close>

definition json_str_ok :: "string \<Rightarrow> bool" where
  "json_str_ok s \<longleftrightarrow> s \<noteq> [] \<and> length s \<le> MAX_MESSAGE_LEN \<and> CHR 0x00 \<notin> set s"

lemma json_str_ok_c_str: "json_str_ok s \<Longrightarrow> c_str s = s"
  by (simp add: json_str_ok_def c_str_id)

lemma json_str_ok_nul: "json_str_ok s \<Longrightarrow> CHR 0x00 \<notin> set s"
  by (simp add: json_str_ok_def)

lemma IsString_has_string: "has_string cj ob k s \<Longrightarrow> json_str_ok s \<Longrightarrow> IsString cj ob k"
  by (auto simp: has_string_def IsString_def item_strlen_def json_str_ok_def c_str_id)

lemma get_string_has_string: "has_string cj ob k s \<Longrightarrow> get_string cj ob k = c_str s"
  by (auto simp: has_string_def get_string_def)

lemma number_in_has_number:
  assumes "has_number cj ob k n" and "n \<le> numeral m"
  shows "number_in cj ob k 0 (numeral m)"
proof -
  from assms(2) have "(of_nat n :: rat) \<le> numeral m" by (metis of_nat_le_iff of_nat_numeral)
  with assms(1) show ?thesis by (auto simp: has_number_def number_in_def)
qed

lemma IsUInt16_has_number: "has_number cj ob k n \<Longrightarrow> n \<le> 65535 \<Longrightarrow> IsUInt16 cj ob k"
  unfolding IsUInt16_def by (rule number_in_has_number)

lemma IsUInt32_has_number: "has_number cj ob k n \<Longrightarrow> n \<le> 4294967295 \<Longrightarrow> IsUInt32 cj ob k"
  unfolding IsUInt32_def by (rule number_in_has_number)

lemma get_word_has_number: "has_number cj ob k n \<Longrightarrow> get_word cj ob k = word_of_nat n"
  by (auto simp: has_number_def get_word_def)

lemma item_cong:
  assumes "cJSON_GetObjectItem cj ob = cJSON_GetObjectItem cj ob'"
  shows "has_string cj ob k s = has_string cj ob' k s" and "has_number cj ob k n = has_number cj ob' k n"
  by (simp_all add: has_string_def has_number_def assms)

lemmas json_read = IsString_has_string get_string_has_string IsUInt16_has_number IsUInt32_has_number
  get_word_has_number

section \<open>FromJsonString and ToJsonString\<close>

definition json_decode ::
  "'j cjson \<Rightarrow> ('j cjson \<Rightarrow> 'j \<Rightarrow> 'a \<Rightarrow> 'a) \<Rightarrow> string \<Rightarrow> 'a \<Rightarrow> ret \<times> 'a" where
  "json_decode cj from_json jsonStr x =
     (if \<not> IsJsonLengthValid jsonStr then (ERR_DH_FWK_PARA_INVALID, x)
      else case cJSON_Parse cj (c_str jsonStr) of
        None \<Rightarrow> (ERR_DH_FWK_JSON_PARSE_FAILED, x)
      | Some jsonObj \<Rightarrow> (DH_FWK_SUCCESS, from_json cj jsonObj x))"

definition json_encode :: "'j cjson \<Rightarrow> ('j cjson \<Rightarrow> 'j \<Rightarrow> 'a \<Rightarrow> 'j) \<Rightarrow> 'a \<Rightarrow> string" where
  "json_encode cj to_json x =
     (case cJSON_CreateObject cj of
        None \<Rightarrow> []
      | Some jsonObj \<Rightarrow>
          (case cJSON_PrintUnformatted cj (to_json cj jsonObj x) of None \<Rightarrow> [] | Some cjson \<Rightarrow> c_str cjson))"

lemma json_decode_empty: "json_decode cj fj [] x = (ERR_DH_FWK_PARA_INVALID, x)"
  by (simp add: json_decode_def IsJsonLengthValid_def)

lemma json_decode_codes:
  "fst (json_decode cj fj s x) \<in> {DH_FWK_SUCCESS, ERR_DH_FWK_PARA_INVALID, ERR_DH_FWK_JSON_PARSE_FAILED}"
  by (auto simp: json_decode_def split: option.splits)

text \<open>
  The contract of a class with a JSON form: what \<open>from_json\<close> reads, from an object with the items
  that \<open>to_json\<close> put in, into a fresh object of the class.
\<close>

locale json_codec =
  fixes to_json :: "'j cjson \<Rightarrow> 'j \<Rightarrow> 'a \<Rightarrow> 'j"
    and from_json :: "'j cjson \<Rightarrow> 'j \<Rightarrow> 'a \<Rightarrow> 'a"
    and fresh :: 'a
    and encodable :: "'j cjson \<Rightarrow> 'a \<Rightarrow> bool"
  assumes item_round_trip:
    "cjson_build_laws cj \<Longrightarrow> encodable cj x \<Longrightarrow> cJSON_CreateObject cj = Some ob0 \<Longrightarrow>
     cJSON_GetObjectItem cj ob = cJSON_GetObjectItem cj (to_json cj ob0 x) \<Longrightarrow>
     from_json cj ob fresh = x"
begin

lemma string_round_trip:
  assumes "cjson_build_laws cj" and "encodable cj x" and "cJSON_CreateObject cj = Some ob0"
    and "cj_prints_back cj (to_json cj ob0 x)"
  shows "json_decode cj from_json (json_encode cj to_json x) fresh = (DH_FWK_SUCCESS, x)"
proof -
  from assms(4) obtain t ob where t: "cJSON_PrintUnformatted cj (to_json cj ob0 x) = Some t"
    and nul: "CHR 0x00 \<notin> set t" and len: "IsJsonLengthValid t" and ob: "cJSON_Parse cj t = Some ob"
    and it: "cJSON_GetObjectItem cj ob = cJSON_GetObjectItem cj (to_json cj ob0 x)"
    by (auto simp: cj_prints_back_def)
  from t nul assms(3) have "json_encode cj to_json x = t" by (simp add: json_encode_def c_str_id)
  moreover from item_round_trip [OF assms(1-3) it] have "from_json cj ob fresh = x" .
  ultimately show ?thesis using len ob nul by (simp add: json_decode_def c_str_id)
qed

end

end
