(* ===== verification/DHF_Json_Model.thy ===== *)
theory DHF_Json_Model
  imports DHF_Json
begin

text \<open>
  A small model of cJSON, used where a theorem that rests on \<open>cjson_build_laws\<close> is applied to
  concrete data: nodes are a datatype, an object is its keys and items in insertion order, lookup
  finds the first item whose key matches without regard to case, and the text form is a prefix
  notation with a decoder. It satisfies the laws, so that they can hold together.
\<close>

datatype jnode = JNull | JBool bool | JNum rat | JStr string | JArr "jnode list" | JObj "(string \<times> jnode) list"

fun jn_fields :: "jnode \<Rightarrow> (string \<times> jnode) list" where
  "jn_fields (JObj fs) = fs"
| "jn_fields _ = []"

definition jn_get :: "jnode \<Rightarrow> string \<Rightarrow> jnode option" where
  "jn_get n k = map_option snd (List.find (\<lambda>f. same_key (fst f) k) (jn_fields n))"

definition jn_add :: "jnode \<Rightarrow> string \<Rightarrow> jnode \<Rightarrow> jnode" where
  "jn_add n k v = JObj (jn_fields n @ [(k, v)])"

fun jn_children :: "jnode \<Rightarrow> jnode list" where
  "jn_children (JArr xs) = xs"
| "jn_children (JObj fs) = map snd fs"
| "jn_children _ = []"

fun jn_str :: "jnode \<Rightarrow> string" where
  "jn_str (JStr s) = s"
| "jn_str _ = []"

fun jn_num :: "jnode \<Rightarrow> rat" where
  "jn_num (JNum d) = d"
| "jn_num _ = 0"

subsection \<open>Text form\<close>

text \<open>A string is coded with a mark before each character and ends with a full stop.\<close>

definition jn_enc :: "string \<Rightarrow> string" where
  "jn_enc s = concat (map (\<lambda>c. [CHR ''c'', c]) s) @ ''.''"

fun jn_dec :: "string \<Rightarrow> (string \<times> string) option" where
  "jn_dec [] = None"
| "jn_dec (h # r) =
     (if h = CHR ''.'' then Some ([], r)
      else case r of [] \<Rightarrow> None
        | l # t \<Rightarrow> map_option (\<lambda>(s, u). (l # s, u)) (jn_dec t))"

text \<open>A number is its binary digits, the lowest first.\<close>

function jn_bits :: "int \<Rightarrow> string" where
  "jn_bits i = (if i \<le> 0 then [] else (if i mod 2 = 1 then CHR ''1'' else CHR ''0'') # jn_bits (i div 2))"
  by auto
termination by (relation "measure nat") auto

fun jn_unbits :: "string \<Rightarrow> int" where
  "jn_unbits [] = 0"
| "jn_unbits (c # cs) = (if c = CHR ''1'' then 1 else 0) + 2 * jn_unbits cs"

text \<open>Printing is by depth, parsing by the length of the text.\<close>

fun jn_print :: "nat \<Rightarrow> jnode \<Rightarrow> string" where
  "jn_print 0 _ = ''n''"
| "jn_print (Suc d) n =
     (case n of
        JNull \<Rightarrow> ''n''
      | JBool b \<Rightarrow> (if b then ''t'' else ''f'')
      | JNum q \<Rightarrow> CHR ''d'' # jn_bits \<lfloor>q\<rfloor> @ ''.''
      | JStr s \<Rightarrow> CHR ''s'' # jn_enc s
      | JArr xs \<Rightarrow> CHR ''a'' # concat (map (jn_print d) xs) @ ''e''
      | JObj fs \<Rightarrow> CHR ''o'' # concat (map (\<lambda>f. CHR ''k'' # jn_enc (fst f) @ jn_print d (snd f)) fs) @ ''e'')"

fun jn_parse :: "nat \<Rightarrow> string \<Rightarrow> (jnode \<times> string) option"
  and jn_items :: "nat \<Rightarrow> string \<Rightarrow> (jnode list \<times> string) option"
  and jn_members :: "nat \<Rightarrow> string \<Rightarrow> ((string \<times> jnode) list \<times> string) option" where
  "jn_parse 0 s = None"
| "jn_parse (Suc n) s =
     (case s of [] \<Rightarrow> None | c # r \<Rightarrow>
        if c = CHR ''n'' then Some (JNull, r)
        else if c = CHR ''t'' then Some (JBool True, r)
        else if c = CHR ''f'' then Some (JBool False, r)
        else if c = CHR ''d''
        then Some (JNum (of_int (jn_unbits (takeWhile (\<lambda>x. x \<noteq> CHR ''.'') r))), tl (dropWhile (\<lambda>x. x \<noteq> CHR ''.'') r))
        else if c = CHR ''s'' then map_option (\<lambda>(t, u). (JStr t, u)) (jn_dec r)
        else if c = CHR ''a'' then map_option (\<lambda>(xs, u). (JArr xs, u)) (jn_items n r)
        else if c = CHR ''o'' then map_option (\<lambda>(fs, u). (JObj fs, u)) (jn_members n r)
        else None)"
| "jn_items 0 s = None"
| "jn_items (Suc n) s =
     (case s of [] \<Rightarrow> None | c # r \<Rightarrow>
        if c = CHR ''e'' then Some ([], r)
        else case jn_parse n s of None \<Rightarrow> None
          | Some (x, t) \<Rightarrow> map_option (\<lambda>(xs, u). (x # xs, u)) (jn_items n t))"
| "jn_members 0 s = None"
| "jn_members (Suc n) s =
     (case s of [] \<Rightarrow> None | c # r \<Rightarrow>
        if c = CHR ''e'' then Some ([], r)
        else case jn_dec r of None \<Rightarrow> None
          | Some (k, t) \<Rightarrow>
              (case jn_parse n t of None \<Rightarrow> None
               | Some (v, t') \<Rightarrow> map_option (\<lambda>(fs, u). ((k, v) # fs, u)) (jn_members n t')))"

definition model_cjson :: "jnode cjson" where
  "model_cjson =
     \<lparr> cJSON_Parse = (\<lambda>s. map_option fst (jn_parse (length s) s)),
       cJSON_PrintUnformatted = (\<lambda>n. Some (jn_print 10 n)),
       cJSON_CreateObject = Some (JObj []),
       cJSON_CreateArray = Some (JArr []),
       cJSON_GetObjectItem = jn_get,
       cJSON_GetObjectItemCaseSensitive = (\<lambda>n k. map_option snd (List.find (\<lambda>f. fst f = k) (jn_fields n))),
       cJSON_IsString = (\<lambda>n. case n of JStr _ \<Rightarrow> True | _ \<Rightarrow> False),
       cJSON_IsNumber = (\<lambda>n. case n of JNum _ \<Rightarrow> True | _ \<Rightarrow> False),
       cJSON_IsBool = (\<lambda>n. case n of JBool _ \<Rightarrow> True | _ \<Rightarrow> False),
       cJSON_IsTrue = (\<lambda>n. case n of JBool b \<Rightarrow> b | _ \<Rightarrow> False),
       cJSON_IsArray = (\<lambda>n. case n of JArr _ \<Rightarrow> True | _ \<Rightarrow> False),
       valuestring = jn_str,
       valuedouble = jn_num,
       cJSON_Children = jn_children,
       cJSON_AddStringToObject = (\<lambda>ob k s. jn_add ob k (JStr s)),
       cJSON_AddNumberToObject = (\<lambda>ob k d. jn_add ob k (JNum d)),
       cJSON_AddItemToObject = jn_add,
       cJSON_AddItemToArray = (\<lambda>ar it. JArr (jn_children ar @ [it])) \<rparr>"

lemma same_key_refl [simp]: "same_key k k"
  by (simp add: same_key_def)

lemma jn_get_add_same: "jn_get n k = None \<Longrightarrow> jn_get (jn_add n k v) k = Some v"
  by (auto simp: jn_get_def jn_add_def find_append)

lemma jn_get_add_other: "\<not> same_key k k' \<Longrightarrow> jn_get (jn_add n k v) k' = jn_get n k'"
  by (auto simp: jn_get_def jn_add_def find_append split: option.splits)

lemma jn_get_empty: "jn_get (JObj []) k = None"
  by (simp add: jn_get_def)

lemma model_cjson_laws: "cjson_build_laws model_cjson"
  unfolding cjson_build_laws_def has_string_def has_number_def
  by (auto simp: model_cjson_def jn_get_add_same jn_get_add_other jn_get_empty)

text \<open>A node the model prints and parses back; the premises are evaluated on concrete objects.\<close>

lemma jn_prints_back_model:
  assumes "t = jn_print 10 ob" and "list_all (\<lambda>c. c \<noteq> CHR 0x00) t" and "t \<noteq> []"
    and "int (length t) \<le> 41943040" and "map_option fst (jn_parse (length t) t) = Some ob"
  shows "cj_prints_back model_cjson ob"
  unfolding cj_prints_back_def using assms
  by (intro exI [of _ t] exI [of _ ob]) (auto simp: model_cjson_def IsJsonLengthValid_def list_all_iff)

end
