(* ===== verification/DHF_Containers.thy ===== *)
theory DHF_Containers
  imports DHF_Prelude
begin

text \<open>
  The C++ containers of the sources. \<open>std::map<K, V>\<close> is an association list with strictly
  ascending keys, so that iterating it visits the keys in the order the C++ loop does;
  \<open>std::set<T>\<close> is a strictly ascending list. An \<open>std::unordered_map\<close> or \<open>std::unordered_set\<close>
  has an iteration order C++ leaves open; it is modelled by the same structures, and no theorem
  depends on the order of such a container.

  The interface \<open>ordered_map\<close> states what a map promises to its clients, and it is interpreted on
  the operations defined here; \<open>keyed_cache\<close> extends it with a key function and is the contract of
  the caches of the resource managers, in which every record stands under its own key.
\<close>

section \<open>Maps\<close>

type_synonym ('k, 'v) smap = "('k \<times> 'v) list"

definition smap_sorted :: "('k::linorder, 'v) smap \<Rightarrow> bool" where
  "smap_sorted m \<longleftrightarrow> sorted_wrt (<) (map fst m)"

definition smap_get :: "('k, 'v) smap \<Rightarrow> 'k \<Rightarrow> 'v option" where
  "smap_get m k = map_of m k"

text \<open>\<open>m[k] = v\<close>\<close>

fun smap_put :: "'k::linorder \<Rightarrow> 'v \<Rightarrow> ('k, 'v) smap \<Rightarrow> ('k, 'v) smap" where
  "smap_put k v [] = [(k, v)]"
| "smap_put k v ((k', v') # m) =
     (if k < k' then (k, v) # (k', v') # m
      else if k = k' then (k, v) # m
      else (k', v') # smap_put k v m)"

text \<open>\<open>m.emplace(k, v)\<close> and \<open>m.insert({k, v})\<close> keep the value that is there.\<close>

definition smap_emplace :: "'k::linorder \<Rightarrow> 'v \<Rightarrow> ('k, 'v) smap \<Rightarrow> ('k, 'v) smap" where
  "smap_emplace k v m = (case smap_get m k of None \<Rightarrow> smap_put k v m | Some _ \<Rightarrow> m)"

text \<open>\<open>m.erase(k)\<close>\<close>

definition smap_erase :: "'k \<Rightarrow> ('k, 'v) smap \<Rightarrow> ('k, 'v) smap" where
  "smap_erase k m = filter (\<lambda>e. fst e \<noteq> k) m"

text \<open>The loop that erases at its iterator every entry that matches.\<close>

fun smap_erase_if :: "('k \<Rightarrow> bool) \<Rightarrow> ('k, 'v) smap \<Rightarrow> ('k, 'v) smap" where
  "smap_erase_if P [] = []"
| "smap_erase_if P (e # m) = (if P (fst e) then smap_erase_if P m else e # smap_erase_if P m)"

lemma smap_sorted_Nil [simp]: "smap_sorted []"
  by (simp add: smap_sorted_def)

lemma smap_get_Nil [simp]: "smap_get [] k = None"
  by (simp add: smap_get_def)

lemma smap_sorted_Cons:
  "smap_sorted ((k, v) # m) \<longleftrightarrow> (\<forall>k' \<in> fst ` set m. k < k') \<and> smap_sorted m"
  by (auto simp: smap_sorted_def)

lemma fst_set_smap_put: "fst ` set (smap_put k v m) = insert k (fst ` set m)"
  by (induction m rule: smap_put.induct) auto

lemma smap_put_sorted [simp, intro]: "smap_sorted m \<Longrightarrow> smap_sorted (smap_put k v m)"
proof (induction k v m rule: smap_put.induct)
  case (1 k v)
  then show ?case by (simp add: smap_sorted_def)
next
  case (2 k v k' v' m)
  show ?case
  proof (cases "k < k'")
    case True
    with "2.prems" show ?thesis by (fastforce simp: smap_sorted_Cons)
  next
    case False
    with 2 show ?thesis by (auto simp: smap_sorted_Cons fst_set_smap_put)
  qed
qed

lemma smap_get_put [simp]: "smap_get (smap_put k v m) = (smap_get m)(k \<mapsto> v)"
  by (induction k v m rule: smap_put.induct) (auto simp: smap_get_def fun_eq_iff)

lemma smap_erase_sorted [simp, intro]: "smap_sorted m \<Longrightarrow> smap_sorted (smap_erase k m)"
  by (induction m) (auto simp: smap_erase_def smap_sorted_def)

lemma smap_get_erase [simp]: "smap_get (smap_erase k m) = (smap_get m)(k := None)"
  by (induction m) (auto simp: smap_erase_def smap_get_def fun_eq_iff)

lemma smap_erase_if_filter: "smap_erase_if P m = filter (\<lambda>e. \<not> P (fst e)) m"
  by (induction m) auto

lemma smap_erase_if_sorted [simp, intro]: "smap_sorted m \<Longrightarrow> smap_sorted (smap_erase_if P m)"
  by (induction m) (auto simp: smap_erase_if_filter smap_sorted_def)

lemma smap_get_erase_if [simp]:
  "smap_get (smap_erase_if P m) k = (if P k then None else smap_get m k)"
  by (induction m) (auto simp: smap_get_def)

lemma smap_get_SomeD: "smap_get m k = Some v \<Longrightarrow> (k, v) \<in> set m"
  by (auto simp: smap_get_def dest: map_of_SomeD)

lemma smap_sorted_distinct: "smap_sorted m \<Longrightarrow> distinct (map fst m)"
  unfolding smap_sorted_def using strict_sorted_iff by blast

lemma smap_get_iff: "smap_sorted m \<Longrightarrow> smap_get m k = Some v \<longleftrightarrow> (k, v) \<in> set m"
  by (simp add: smap_get_def smap_sorted_distinct)

lemma smap_get_None_iff: "smap_get m k = None \<longleftrightarrow> k \<notin> fst ` set m"
  by (simp add: smap_get_def map_of_eq_None_iff)

lemma smap_emplace_sorted [simp, intro]: "smap_sorted m \<Longrightarrow> smap_sorted (smap_emplace k v m)"
  by (simp add: smap_emplace_def split: option.splits)

lemma smap_get_emplace:
  "smap_get (smap_emplace k v m) = (case smap_get m k of None \<Rightarrow> (smap_get m)(k \<mapsto> v) | Some _ \<Rightarrow> smap_get m)"
  by (simp add: smap_emplace_def split: option.splits)

section \<open>Sets\<close>

definition sset_sorted :: "'a::linorder list \<Rightarrow> bool" where
  "sset_sorted s \<longleftrightarrow> sorted_wrt (<) s"

fun sset_insert :: "'a::linorder \<Rightarrow> 'a list \<Rightarrow> 'a list" where
  "sset_insert x [] = [x]"
| "sset_insert x (y # s) =
     (if x < y then x # y # s else if x = y then y # s else y # sset_insert x s)"

definition sset_erase :: "'a \<Rightarrow> 'a list \<Rightarrow> 'a list" where
  "sset_erase x s = filter (\<lambda>y. y \<noteq> x) s"

text \<open>The loop that erases the first element that matches and stops.\<close>

fun sset_erase_first :: "('a \<Rightarrow> bool) \<Rightarrow> 'a list \<Rightarrow> 'a list" where
  "sset_erase_first P [] = []"
| "sset_erase_first P (x # s) = (if P x then s else x # sset_erase_first P s)"

lemma sset_sorted_Nil [simp]: "sset_sorted []"
  by (simp add: sset_sorted_def)

lemma sset_sorted_Cons: "sset_sorted (x # s) \<longleftrightarrow> (\<forall>y \<in> set s. x < y) \<and> sset_sorted s"
  by (simp add: sset_sorted_def)

lemma set_sset_insert [simp]: "set (sset_insert x s) = insert x (set s)"
  by (induction x s rule: sset_insert.induct) auto

lemma sset_insert_sorted [simp, intro]: "sset_sorted s \<Longrightarrow> sset_sorted (sset_insert x s)"
  by (induction x s rule: sset_insert.induct) (fastforce simp: sset_sorted_Cons)+

lemma length_sset_insert_le: "length (sset_insert x s) \<le> Suc (length s)"
  by (induction x s rule: sset_insert.induct) auto

lemma set_sset_erase [simp]: "set (sset_erase x s) = set s - {x}"
  by (auto simp: sset_erase_def)

lemma sset_erase_sorted [simp, intro]: "sset_sorted s \<Longrightarrow> sset_sorted (sset_erase x s)"
  by (induction s) (auto simp: sset_erase_def sset_sorted_def)

lemma set_sset_erase_first_subset: "set (sset_erase_first P s) \<subseteq> set s"
  by (induction s) auto

lemma sset_erase_first_sorted [simp, intro]: "sset_sorted s \<Longrightarrow> sset_sorted (sset_erase_first P s)"
  by (induction s)
    (auto simp: sset_sorted_Cons dest: subsetD [OF set_sset_erase_first_subset])

lemma sset_erase_first_noop: "\<forall>x \<in> set s. \<not> P x \<Longrightarrow> sset_erase_first P s = s"
  by (induction s) auto

lemma set_sset_erase_first:
  assumes "distinct s" and "List.find P s = Some x"
  shows "set (sset_erase_first P s) = set s - {x}"
  using assms
proof (induction s)
  case Nil
  then show ?case by simp
next
  case (Cons y s)
  show ?case
  proof (cases "P y")
    case True
    with Cons.prems show ?thesis by auto
  next
    case False
    with Cons.prems have "List.find P s = Some x" and "distinct s" by simp_all
    with Cons.IH have "set (sset_erase_first P s) = set s - {x}" by blast
    moreover from \<open>List.find P s = Some x\<close> False have "x \<noteq> y" by (auto dest: find_Some_mem)
    ultimately show ?thesis using False by auto
  qed
qed

lemma sset_sorted_distinct: "sset_sorted s \<Longrightarrow> distinct s"
  by (induction s) (auto simp: sset_sorted_Cons)

lemma length_sset_erase_first_le: "length (sset_erase_first P s) \<le> length s"
  by (induction s) auto

section \<open>The interface of a map\<close>

locale ordered_map =
  fixes get :: "'m \<Rightarrow> 'k::linorder \<Rightarrow> 'v option"
    and put :: "'k \<Rightarrow> 'v \<Rightarrow> 'm \<Rightarrow> 'm"
    and erase :: "'k \<Rightarrow> 'm \<Rightarrow> 'm"
    and entries :: "'m \<Rightarrow> ('k \<times> 'v) list"
    and invar :: "'m \<Rightarrow> bool"
  assumes get_put: "invar m \<Longrightarrow> get (put k v m) = (get m)(k \<mapsto> v)"
    and get_erase: "invar m \<Longrightarrow> get (erase k m) = (get m)(k := None)"
    and invar_put: "invar m \<Longrightarrow> invar (put k v m)"
    and invar_erase: "invar m \<Longrightarrow> invar (erase k m)"
    and entries_get: "invar m \<Longrightarrow> (k, v) \<in> set (entries m) \<longleftrightarrow> get m k = Some v"
    and entries_sorted: "invar m \<Longrightarrow> sorted_wrt (<) (map fst (entries m))"
begin

lemma entries_distinct: "invar m \<Longrightarrow> distinct (map fst (entries m))"
  using entries_sorted strict_sorted_iff by blast

lemma entries_put_mem:
  "invar m \<Longrightarrow> e \<in> set (entries (put k v m)) \<longleftrightarrow> e = (k, v) \<or> (e \<in> set (entries m) \<and> fst e \<noteq> k)"
  by (cases e) (auto simp: entries_get get_put invar_put)

lemma entries_erase_mem:
  "invar m \<Longrightarrow> e \<in> set (entries (erase k m)) \<longleftrightarrow> e \<in> set (entries m) \<and> fst e \<noteq> k"
  by (cases e) (auto simp: entries_get get_erase invar_erase)

end

interpretation smap: ordered_map smap_get smap_put smap_erase "\<lambda>m. m" smap_sorted
  by unfold_locales (auto simp: smap_get_iff simp flip: smap_sorted_def)

text \<open>
  The contract of a cache of records: every record is stored under the key it computes itself.
  A client that only stores through \<open>store\<close> and only removes by key keeps it.
\<close>

locale keyed_cache = ordered_map get put erase entries invar
  for get :: "'m \<Rightarrow> 'k::linorder \<Rightarrow> 'v option" and put erase entries invar +
  fixes key_of :: "'v \<Rightarrow> 'k"
begin

definition keyed :: "'m \<Rightarrow> bool" where
  "keyed m \<longleftrightarrow> invar m \<and> (\<forall>k v. get m k = Some v \<longrightarrow> key_of v = k)"

definition store :: "'v \<Rightarrow> 'm \<Rightarrow> 'm" where
  "store v m = put (key_of v) v m"

lemma keyed_store: "keyed m \<Longrightarrow> keyed (store v m)"
  by (auto simp: keyed_def store_def get_put invar_put)

lemma keyed_erase: "keyed m \<Longrightarrow> keyed (erase k m)"
  by (auto simp: keyed_def get_erase invar_erase)

lemma get_store: "keyed m \<Longrightarrow> get (store v m) = (get m)(key_of v \<mapsto> v)"
  by (simp add: keyed_def store_def get_put)

lemma keyed_store_all: "keyed m \<Longrightarrow> keyed (fold store vs m)"
  by (induction vs arbitrary: m) (auto intro: keyed_store)

text \<open>Storing a list of records leaves exactly the last record of each key.\<close>

lemma get_store_all:
  "keyed m \<Longrightarrow> get (fold store vs m) k
     = (case List.find (\<lambda>v. key_of v = k) (rev vs) of None \<Rightarrow> get m k | Some v \<Rightarrow> Some v)"
proof (induction vs arbitrary: m)
  case Nil
  then show ?case by simp
next
  case (Cons v vs)
  from Cons.prems have "keyed (store v m)" by (rule keyed_store)
  from Cons.IH [OF this] Cons.prems show ?case
    by (auto simp: get_store find_append split: option.splits)
qed

end

end
