(* ===== verification/DHF_Capability.thy ===== *)
theory DHF_Capability
  imports DHF_Json DHF_Json_Model DHF_Containers
begin

text \<open>
  The capability records: \<open>resourcemanager/capability_info.cpp\<close>, \<open>meta_capability_info.cpp\<close> and
  \<open>capability_utils.cpp\<close> with its header. \<open>capability_info\<close> has the fields of \<open>CapabilityInfo\<close>;
  \<open>MetaCapabilityInfo\<close> derives from it and its record extends the other. The getters and setters are
  the record's selectors and updates.
\<close>

abbreviation (input) DH_ID :: string where "DH_ID \<equiv> ''dh_id''"
abbreviation (input) DEV_ID :: string where "DEV_ID \<equiv> ''dev_id''"
abbreviation (input) DEV_NAME :: string where "DEV_NAME \<equiv> ''dev_name''"
abbreviation (input) DEV_TYPE :: string where "DEV_TYPE \<equiv> ''dev_type''"
abbreviation (input) DH_TYPE :: string where "DH_TYPE \<equiv> ''dh_type''"
abbreviation (input) DH_ATTRS :: string where "DH_ATTRS \<equiv> ''dh_attrs''"
abbreviation (input) DH_SUBTYPE :: string where "DH_SUBTYPE \<equiv> ''dh_subtype''"
abbreviation (input) DEV_UDID_HASH :: string where "DEV_UDID_HASH \<equiv> ''udid_hash''"
abbreviation (input) SINK_VER :: string where "SINK_VER \<equiv> ''sink_ver''"

section \<open>Records\<close>

record capability_info =
  ci_dhId :: string
  ci_deviceId :: string
  ci_deviceName :: string
  ci_deviceType :: "16 word"
  ci_dhType :: dhtype
  ci_dhAttrs :: string
  ci_dhSubtype :: string

record meta_capability_info = capability_info +
  ci_udidHash :: string
  ci_sinkVersion :: string

definition CapabilityInfo_new :: capability_info where
  "CapabilityInfo_new = \<lparr> ci_dhId = [], ci_deviceId = [], ci_deviceName = [], ci_deviceType = 0,
     ci_dhType = DHType_UNKNOWN, ci_dhAttrs = [], ci_dhSubtype = [] \<rparr>"

definition MetaCapabilityInfo_new :: meta_capability_info where
  "MetaCapabilityInfo_new = \<lparr> ci_dhId = [], ci_deviceId = [], ci_deviceName = [], ci_deviceType = 0,
     ci_dhType = DHType_UNKNOWN, ci_dhAttrs = [], ci_dhSubtype = [], ci_udidHash = [], ci_sinkVersion = [] \<rparr>"

section \<open>Keys\<close>

definition CapabilityInfo_GetKey :: "capability_info \<Rightarrow> string" where
  "CapabilityInfo_GetKey c = ci_deviceId c @ RESOURCE_SEPARATOR @ ci_dhId c"

definition CapabilityInfo_GetAnonymousKey :: "capability_info \<Rightarrow> string" where
  "CapabilityInfo_GetAnonymousKey c =
     GetAnonyString (ci_deviceId c) @ RESOURCE_SEPARATOR @ GetAnonyString (ci_dhId c)"

definition MetaCapabilityInfo_GetKey :: "meta_capability_info \<Rightarrow> string" where
  "MetaCapabilityInfo_GetKey c = ci_udidHash c @ RESOURCE_SEPARATOR @ ci_dhId c"

definition MetaCapabilityInfo_GetAnonymousKey :: "meta_capability_info \<Rightarrow> string" where
  "MetaCapabilityInfo_GetAnonymousKey c =
     GetAnonyString (ci_udidHash c) @ RESOURCE_SEPARATOR @ GetAnonyString (ci_dhId c)"

definition GetCapabilityKey :: "string \<Rightarrow> string \<Rightarrow> string" where
  "GetCapabilityKey deviceId dhId = deviceId @ RESOURCE_SEPARATOR @ dhId"

definition IsCapKeyMatchDeviceId :: "string \<Rightarrow> string \<Rightarrow> bool" where
  "IsCapKeyMatchDeviceId key deviceId =
     (if \<not> IsIdLengthValid key \<or> \<not> IsIdLengthValid deviceId then False
      else case str_find key RESOURCE_SEPARATOR of
        None \<Rightarrow> False
      | Some separatorPos \<Rightarrow> take separatorPos key = deviceId)"

section \<open>Comparison\<close>

text \<open>\<open>strcmp\<close> of two \<open>c_str()\<close> results is zero when they agree up to the first NUL byte.\<close>

definition strcmp_eq :: "string \<Rightarrow> string \<Rightarrow> bool" where
  "strcmp_eq a b \<longleftrightarrow> c_str a = c_str b"

definition CapabilityInfo_Compare :: "capability_info \<Rightarrow> capability_info \<Rightarrow> bool" where
  "CapabilityInfo_Compare this capInfo =
     (if \<not> strcmp_eq (ci_deviceId this) (ci_deviceId capInfo) then False
      else if \<not> strcmp_eq (ci_dhId this) (ci_dhId capInfo) then False
      else if \<not> strcmp_eq (ci_deviceName this) (ci_deviceName capInfo) then False
      else if ci_deviceType this \<noteq> ci_deviceType capInfo then False
      else if ci_dhType this \<noteq> ci_dhType capInfo then False
      else if \<not> strcmp_eq (ci_dhAttrs this) (ci_dhAttrs capInfo) then False
      else if \<not> strcmp_eq (ci_dhSubtype this) (ci_dhSubtype capInfo) then False
      else True)"

definition MetaCapabilityInfo_Compare :: "meta_capability_info \<Rightarrow> meta_capability_info \<Rightarrow> bool" where
  "MetaCapabilityInfo_Compare this metaCapInfo =
     (if \<not> strcmp_eq (ci_deviceId this) (ci_deviceId metaCapInfo) then False
      else if \<not> strcmp_eq (ci_dhId this) (ci_dhId metaCapInfo) then False
      else if \<not> strcmp_eq (ci_deviceName this) (ci_deviceName metaCapInfo) then False
      else if ci_deviceType this \<noteq> ci_deviceType metaCapInfo then False
      else if ci_dhType this \<noteq> ci_dhType metaCapInfo then False
      else if \<not> strcmp_eq (ci_dhAttrs this) (ci_dhAttrs metaCapInfo) then False
      else if \<not> strcmp_eq (ci_dhSubtype this) (ci_dhSubtype metaCapInfo) then False
      else if \<not> strcmp_eq (ci_udidHash this) (ci_udidHash metaCapInfo) then False
      else if \<not> strcmp_eq (ci_sinkVersion this) (ci_sinkVersion metaCapInfo) then False
      else True)"

section \<open>JSON form\<close>

text \<open>\<open>(double)\<close> of an unsigned number.\<close>

definition to_double :: "'a::len word \<Rightarrow> rat" where
  "to_double w = of_nat (unat w)"

definition CapabilityInfo_ToJson :: "'j cjson \<Rightarrow> 'j \<Rightarrow> capability_info \<Rightarrow> 'j" where
  "CapabilityInfo_ToJson cj jsonObject capability =
     (let j1 = cJSON_AddStringToObject cj jsonObject DH_ID (c_str (ci_dhId capability));
          j2 = cJSON_AddStringToObject cj j1 DEV_ID (c_str (ci_deviceId capability));
          j3 = cJSON_AddStringToObject cj j2 DEV_NAME (c_str (ci_deviceName capability));
          j4 = cJSON_AddNumberToObject cj j3 DEV_TYPE (to_double (ci_deviceType capability));
          j5 = cJSON_AddNumberToObject cj j4 DH_TYPE (to_double (ci_dhType capability));
          j6 = cJSON_AddStringToObject cj j5 DH_ATTRS (c_str (ci_dhAttrs capability))
      in cJSON_AddStringToObject cj j6 DH_SUBTYPE (c_str (ci_dhSubtype capability)))"

text \<open>The decoder returns at the first item that is missing or out of bounds.\<close>

definition CapabilityInfo_FromJson :: "'j cjson \<Rightarrow> 'j \<Rightarrow> capability_info \<Rightarrow> capability_info" where
  "CapabilityInfo_FromJson cj ob c0 =
     (if \<not> IsString cj ob DH_ID then c0 else
      let c1 = c0\<lparr>ci_dhId := get_string cj ob DH_ID\<rparr> in
      if \<not> IsString cj ob DEV_ID then c1 else
      let c2 = c1\<lparr>ci_deviceId := get_string cj ob DEV_ID\<rparr> in
      if \<not> IsString cj ob DEV_NAME then c2 else
      let c3 = c2\<lparr>ci_deviceName := get_string cj ob DEV_NAME\<rparr> in
      if \<not> IsUInt16 cj ob DEV_TYPE then c3 else
      let c4 = c3\<lparr>ci_deviceType := get_word cj ob DEV_TYPE\<rparr> in
      if \<not> IsUInt32 cj ob DH_TYPE then c4 else
      let c5 = c4\<lparr>ci_dhType := get_word cj ob DH_TYPE\<rparr> in
      if \<not> IsString cj ob DH_ATTRS then c5 else
      let c6 = c5\<lparr>ci_dhAttrs := get_string cj ob DH_ATTRS\<rparr> in
      if \<not> IsString cj ob DH_SUBTYPE then c6 else
      c6\<lparr>ci_dhSubtype := get_string cj ob DH_SUBTYPE\<rparr>)"

definition CapabilityInfo_FromJsonString :: "'j cjson \<Rightarrow> string \<Rightarrow> capability_info \<Rightarrow> ret \<times> capability_info" where
  "CapabilityInfo_FromJsonString cj jsonStr this = json_decode cj CapabilityInfo_FromJson jsonStr this"

definition CapabilityInfo_ToJsonString :: "'j cjson \<Rightarrow> capability_info \<Rightarrow> string" where
  "CapabilityInfo_ToJsonString cj this = json_encode cj CapabilityInfo_ToJson this"

definition MetaCapabilityInfo_ToJson :: "'j cjson \<Rightarrow> 'j \<Rightarrow> meta_capability_info \<Rightarrow> 'j" where
  "MetaCapabilityInfo_ToJson cj jsonObject metaCapInfo =
     (let j1 = cJSON_AddStringToObject cj jsonObject DH_ID (c_str (ci_dhId metaCapInfo));
          j2 = cJSON_AddStringToObject cj j1 DEV_ID (c_str (ci_deviceId metaCapInfo));
          j3 = cJSON_AddStringToObject cj j2 DEV_NAME (c_str (ci_deviceName metaCapInfo));
          j4 = cJSON_AddNumberToObject cj j3 DEV_TYPE (to_double (ci_deviceType metaCapInfo));
          j5 = cJSON_AddNumberToObject cj j4 DH_TYPE (to_double (ci_dhType metaCapInfo));
          j6 = cJSON_AddStringToObject cj j5 DH_ATTRS (c_str (ci_dhAttrs metaCapInfo));
          j7 = cJSON_AddStringToObject cj j6 DH_SUBTYPE (c_str (ci_dhSubtype metaCapInfo));
          j8 = cJSON_AddStringToObject cj j7 DEV_UDID_HASH (c_str (ci_udidHash metaCapInfo))
      in cJSON_AddStringToObject cj j8 SINK_VER (c_str (ci_sinkVersion metaCapInfo)))"

definition MetaCapabilityInfo_FromJson ::
  "'j cjson \<Rightarrow> 'j \<Rightarrow> meta_capability_info \<Rightarrow> meta_capability_info" where
  "MetaCapabilityInfo_FromJson cj ob c0 =
     (if \<not> IsString cj ob DH_ID then c0 else
      let c1 = c0\<lparr>ci_dhId := get_string cj ob DH_ID\<rparr> in
      if \<not> IsString cj ob DEV_ID then c1 else
      let c2 = c1\<lparr>ci_deviceId := get_string cj ob DEV_ID\<rparr> in
      if \<not> IsString cj ob DEV_NAME then c2 else
      let c3 = c2\<lparr>ci_deviceName := get_string cj ob DEV_NAME\<rparr> in
      if \<not> IsUInt16 cj ob DEV_TYPE then c3 else
      let c4 = c3\<lparr>ci_deviceType := get_word cj ob DEV_TYPE\<rparr> in
      if \<not> IsUInt32 cj ob DH_TYPE then c4 else
      let c5 = c4\<lparr>ci_dhType := get_word cj ob DH_TYPE\<rparr> in
      if \<not> IsString cj ob DH_ATTRS then c5 else
      let c6 = c5\<lparr>ci_dhAttrs := get_string cj ob DH_ATTRS\<rparr> in
      if \<not> IsString cj ob DH_SUBTYPE then c6 else
      let c7 = c6\<lparr>ci_dhSubtype := get_string cj ob DH_SUBTYPE\<rparr> in
      if \<not> IsString cj ob DEV_UDID_HASH then c7 else
      let c8 = c7\<lparr>ci_udidHash := get_string cj ob DEV_UDID_HASH\<rparr> in
      if \<not> IsString cj ob SINK_VER then c8 else
      c8\<lparr>ci_sinkVersion := get_string cj ob SINK_VER\<rparr>)"

definition MetaCapabilityInfo_FromJsonString ::
  "'j cjson \<Rightarrow> string \<Rightarrow> meta_capability_info \<Rightarrow> ret \<times> meta_capability_info" where
  "MetaCapabilityInfo_FromJsonString cj jsonStr this = json_decode cj MetaCapabilityInfo_FromJson jsonStr this"

definition MetaCapabilityInfo_ToJsonString :: "'j cjson \<Rightarrow> meta_capability_info \<Rightarrow> string" where
  "MetaCapabilityInfo_ToJsonString cj this = json_encode cj MetaCapabilityInfo_ToJson this"

text \<open>
  \<open>GetCapabilityByValue<T>\<close> of \<open>capability_utils.h\<close>, called with a null pointer: it makes a fresh
  record and decodes into it. \<open>IsCapInfoJsonEqual<T>\<close> decodes both texts without a length check.
\<close>

definition GetCapabilityByValue :: "'j cjson \<Rightarrow> string \<Rightarrow> ret \<times> capability_info" where
  "GetCapabilityByValue cj value = CapabilityInfo_FromJsonString cj value CapabilityInfo_new"

definition GetMetaCapabilityByValue :: "'j cjson \<Rightarrow> string \<Rightarrow> ret \<times> meta_capability_info" where
  "GetMetaCapabilityByValue cj value = MetaCapabilityInfo_FromJsonString cj value MetaCapabilityInfo_new"

definition IsCapInfoJsonEqual :: "'j cjson \<Rightarrow> string \<Rightarrow> string \<Rightarrow> bool" where
  "IsCapInfoJsonEqual cj firstData lastData =
     (case cJSON_Parse cj (c_str firstData) of
        None \<Rightarrow> False
      | Some firstJson \<Rightarrow>
          (case cJSON_Parse cj (c_str lastData) of
             None \<Rightarrow> False
           | Some lastJson \<Rightarrow>
               CapabilityInfo_Compare (CapabilityInfo_FromJson cj firstJson CapabilityInfo_new)
                 (CapabilityInfo_FromJson cj lastJson CapabilityInfo_new)))"

section \<open>Lemmas on keys\<close>

lemma CapabilityInfo_GetKey_eq: "CapabilityInfo_GetKey c = GetCapabilityKey (ci_deviceId c) (ci_dhId c)"
  by (simp add: CapabilityInfo_GetKey_def GetCapabilityKey_def)

lemma MetaCapabilityInfo_GetKey_eq: "MetaCapabilityInfo_GetKey c = GetCapabilityKey (ci_udidHash c) (ci_dhId c)"
  by (simp add: MetaCapabilityInfo_GetKey_def GetCapabilityKey_def)

lemma str_find_key:
  "CHR ''#'' \<notin> set d \<Longrightarrow> str_find (GetCapabilityKey d h) RESOURCE_SEPARATOR = Some (length d)"
  using str_find_fresh_head [of "''###''" d h] by (simp add: GetCapabilityKey_def)

lemma IsCapKeyMatch_key:
  assumes "CHR ''#'' \<notin> set d"
  shows "IsCapKeyMatchDeviceId (GetCapabilityKey d h) d'
     \<longleftrightarrow> d = d' \<and> d \<noteq> [] \<and> length d + 3 + length h \<le> MAX_ID_LEN"
  unfolding IsCapKeyMatchDeviceId_def str_find_key [OF assms]
  by (auto simp: IsIdLengthValid_def GetCapabilityKey_def)

lemma GetCapabilityKey_inj:
  assumes "CHR ''#'' \<notin> set d" and "CHR ''#'' \<notin> set d'"
    and "GetCapabilityKey d h = GetCapabilityKey d' h'"
  shows "d = d' \<and> h = h'"
proof -
  from assms have "length d = length d'"
    using str_find_key [OF assms(1), of h] str_find_key [OF assms(2), of h'] by simp
  with assms(3) show ?thesis by (simp add: GetCapabilityKey_def)
qed

text \<open>
  For a device identifier without \<open>#\<close> (a hexadecimal digest), the key of a record
  matches exactly its own device, and it does so only while the whole key has at most 256
  characters; and a key determines both the device and the hardware identifier.
\<close>

theorem capability_key_match:
  assumes "CHR ''#'' \<notin> set d" and "CHR ''#'' \<notin> set d'"
  shows "(IsCapKeyMatchDeviceId (GetCapabilityKey d h) d'
            \<longleftrightarrow> d = d' \<and> d \<noteq> [] \<and> length d + 3 + length h \<le> MAX_ID_LEN)
       \<and> (GetCapabilityKey d h = GetCapabilityKey d' h' \<longleftrightarrow> d = d' \<and> h = h')"
  using IsCapKeyMatch_key [OF assms(1)] GetCapabilityKey_inj [OF assms, of h h'] by auto

theorem capability_key_match_witness:
  "IsCapKeyMatchDeviceId (GetCapabilityKey ''0af3'' ''Camera_1'') ''0af3''
   \<and> \<not> IsCapKeyMatchDeviceId (GetCapabilityKey ''0af3'' ''Camera_1'') ''0af''
   \<and> GetCapabilityKey ''0af3'' ''Camera_1'' \<noteq> GetCapabilityKey ''0af'' ''Camera_1''"
  using capability_key_match [of "''0af3''" "''0af3''" "''Camera_1''" "''Camera_1''"]
    capability_key_match [of "''0af3''" "''0af''" "''Camera_1''" "''Camera_1''"]
  by simp

section \<open>Round trip through JSON\<close>

definition cap_encodable :: "'j cjson \<Rightarrow> ('a) capability_info_scheme \<Rightarrow> bool" where
  "cap_encodable cj c \<longleftrightarrow> json_str_ok (ci_dhId c) \<and> json_str_ok (ci_deviceId c) \<and> json_str_ok (ci_deviceName c)
     \<and> json_str_ok (ci_dhAttrs c) \<and> json_str_ok (ci_dhSubtype c)"

definition meta_encodable :: "'j cjson \<Rightarrow> meta_capability_info \<Rightarrow> bool" where
  "meta_encodable cj c \<longleftrightarrow> cap_encodable cj c \<and> json_str_ok (ci_udidHash c) \<and> json_str_ok (ci_sinkVersion c)"

lemma unat_u16_le: "unat (w :: 16 word) \<le> 65535"
proof -
  have "unat w < 2 ^ LENGTH(16)" by (rule unsigned_less)
  then show ?thesis by simp
qed

lemma unat_u32_le: "unat (w :: 32 word) \<le> 4294967295"
proof -
  have "unat w < 2 ^ LENGTH(32)" by (rule unsigned_less)
  then show ?thesis by simp
qed

lemma law_add_u16:
  "cjson_build_laws cj \<Longrightarrow> cJSON_GetObjectItem cj ob k = None \<Longrightarrow>
   has_number cj (cJSON_AddNumberToObject cj ob k (to_double (w :: 16 word))) k (unat w)"
  unfolding to_double_def using unat_u16_le [of w] by (intro law_add_number) simp_all

lemma law_add_u32:
  "cjson_build_laws cj \<Longrightarrow> cJSON_GetObjectItem cj ob k = None \<Longrightarrow>
   has_number cj (cJSON_AddNumberToObject cj ob k (to_double (w :: 32 word))) k (unat w)"
  unfolding to_double_def using unat_u32_le [of w] by (intro law_add_number) simp_all

lemma cap_keys_differ:
  "\<forall>k \<in> set [DH_ID, DEV_ID, DEV_NAME, DEV_TYPE, DH_TYPE, DH_ATTRS, DH_SUBTYPE, DEV_UDID_HASH, SINK_VER].
   \<forall>k' \<in> set [DH_ID, DEV_ID, DEV_NAME, DEV_TYPE, DH_TYPE, DH_ATTRS, DH_SUBTYPE, DEV_UDID_HASH, SINK_VER].
     k \<noteq> k' \<longrightarrow> \<not> same_key k k'"
  by code_simp

lemmas cap_key_rules = cap_keys_differ [simplified]
lemmas cap_build = json_build law_add_u16 law_add_u32

lemma cap_items:
  fixes c :: capability_info
  assumes laws: "cjson_build_laws cj" and ob0: "cJSON_CreateObject cj = Some ob0"
  defines "ob \<equiv> CapabilityInfo_ToJson cj ob0 c"
  shows "has_string cj ob DH_ID (c_str (ci_dhId c))"
    and "has_string cj ob DEV_ID (c_str (ci_deviceId c))"
    and "has_string cj ob DEV_NAME (c_str (ci_deviceName c))"
    and "has_number cj ob DEV_TYPE (unat (ci_deviceType c))"
    and "has_number cj ob DH_TYPE (unat (ci_dhType c))"
    and "has_string cj ob DH_ATTRS (c_str (ci_dhAttrs c))"
    and "has_string cj ob DH_SUBTYPE (c_str (ci_dhSubtype c))"
  unfolding ob_def CapabilityInfo_ToJson_def Let_def
  by (simp_all add: cap_build [OF laws] law_create [OF laws ob0] c_str_no_nul cap_key_rules)

interpretation cap_codec: json_codec CapabilityInfo_ToJson CapabilityInfo_FromJson CapabilityInfo_new cap_encodable
proof unfold_locales
  fix cj :: "'j cjson" and x ob0 ob
  assume laws: "cjson_build_laws cj" and enc: "cap_encodable cj x" and ob0: "cJSON_CreateObject cj = Some ob0"
    and it: "cJSON_GetObjectItem cj ob = cJSON_GetObjectItem cj (CapabilityInfo_ToJson cj ob0 x)"
  from enc show "CapabilityInfo_FromJson cj ob CapabilityInfo_new = x"
    using cap_items [OF laws ob0, of x, folded item_cong [OF it]]
    by (simp add: cap_encodable_def CapabilityInfo_FromJson_def CapabilityInfo_new_def json_read json_str_ok_c_str
        unat_u16_le unat_u32_le)
qed

lemma meta_items:
  fixes c :: meta_capability_info
  assumes laws: "cjson_build_laws cj" and ob0: "cJSON_CreateObject cj = Some ob0"
  defines "ob \<equiv> MetaCapabilityInfo_ToJson cj ob0 c"
  shows "has_string cj ob DH_ID (c_str (ci_dhId c))"
    and "has_string cj ob DEV_ID (c_str (ci_deviceId c))"
    and "has_string cj ob DEV_NAME (c_str (ci_deviceName c))"
    and "has_number cj ob DEV_TYPE (unat (ci_deviceType c))"
    and "has_number cj ob DH_TYPE (unat (ci_dhType c))"
    and "has_string cj ob DH_ATTRS (c_str (ci_dhAttrs c))"
    and "has_string cj ob DH_SUBTYPE (c_str (ci_dhSubtype c))"
    and "has_string cj ob DEV_UDID_HASH (c_str (ci_udidHash c))"
    and "has_string cj ob SINK_VER (c_str (ci_sinkVersion c))"
  unfolding ob_def MetaCapabilityInfo_ToJson_def Let_def
  by (simp_all add: cap_build [OF laws] law_create [OF laws ob0] c_str_no_nul cap_key_rules)

interpretation meta_codec: json_codec MetaCapabilityInfo_ToJson MetaCapabilityInfo_FromJson
  MetaCapabilityInfo_new meta_encodable
proof unfold_locales
  fix cj :: "'j cjson" and x ob0 ob
  assume laws: "cjson_build_laws cj" and enc: "meta_encodable cj x" and ob0: "cJSON_CreateObject cj = Some ob0"
    and it: "cJSON_GetObjectItem cj ob = cJSON_GetObjectItem cj (MetaCapabilityInfo_ToJson cj ob0 x)"
  from enc show "MetaCapabilityInfo_FromJson cj ob MetaCapabilityInfo_new = x"
    using meta_items [OF laws ob0, of x, folded item_cong [OF it]]
    by (simp add: cap_encodable_def meta_encodable_def MetaCapabilityInfo_FromJson_def MetaCapabilityInfo_new_def
        json_read json_str_ok_c_str unat_u16_le unat_u32_le)
qed

definition sample_cap :: capability_info where
  "sample_cap = \<lparr> ci_dhId = ''Camera_1'', ci_deviceId = ''0af3'', ci_deviceName = ''phone'', ci_deviceType = 14,
     ci_dhType = DHType_CAMERA, ci_dhAttrs = ''a'', ci_dhSubtype = ''camera'' \<rparr>"

definition sample_meta :: meta_capability_info where
  "sample_meta = \<lparr> ci_dhId = ''Camera_1'', ci_deviceId = ''0af3'', ci_deviceName = ''phone'', ci_deviceType = 14,
     ci_dhType = DHType_CAMERA, ci_dhAttrs = ''a'', ci_dhSubtype = ''camera'', ci_udidHash = ''77be'',
     ci_sinkVersion = ''1.0'' \<rparr>"

definition sample_cap_json :: jnode where
  "sample_cap_json = CapabilityInfo_ToJson model_cjson (JObj []) sample_cap"

definition sample_cap_text :: string where
  "sample_cap_text = jn_print 10 sample_cap_json"

definition sample_meta_json :: jnode where
  "sample_meta_json = MetaCapabilityInfo_ToJson model_cjson (JObj []) sample_meta"

definition sample_meta_text :: string where
  "sample_meta_text = jn_print 10 sample_meta_json"

lemma model_create: "cJSON_CreateObject model_cjson = Some (JObj [])"
  by (simp add: model_cjson_def)

lemma sample_cap_encodable: "cap_encodable model_cjson sample_cap"
  by (simp add: cap_encodable_def json_str_ok_def sample_cap_def)

lemma sample_meta_encodable: "meta_encodable model_cjson sample_meta"
  by (simp add: meta_encodable_def cap_encodable_def json_str_ok_def sample_meta_def)

lemma sample_cap_prints_back: "cj_prints_back model_cjson sample_cap_json"
  by (rule jn_prints_back_model [OF sample_cap_text_def]) code_simp+

lemma sample_meta_prints_back: "cj_prints_back model_cjson sample_meta_json"
  by (rule jn_prints_back_model [OF sample_meta_text_def]) code_simp+

lemma sample_cap_decodes:
  "GetCapabilityByValue model_cjson (CapabilityInfo_ToJsonString model_cjson sample_cap) = (DH_FWK_SUCCESS, sample_cap)"
  unfolding GetCapabilityByValue_def CapabilityInfo_FromJsonString_def CapabilityInfo_ToJsonString_def
  using model_cjson_laws sample_cap_encodable model_create sample_cap_prints_back [unfolded sample_cap_json_def]
  by (rule cap_codec.string_round_trip)

lemma sample_meta_decodes:
  "GetMetaCapabilityByValue model_cjson (MetaCapabilityInfo_ToJsonString model_cjson sample_meta)
     = (DH_FWK_SUCCESS, sample_meta)"
  unfolding GetMetaCapabilityByValue_def MetaCapabilityInfo_FromJsonString_def MetaCapabilityInfo_ToJsonString_def
  using model_cjson_laws sample_meta_encodable model_create sample_meta_prints_back [unfolded sample_meta_json_def]
  by (rule meta_codec.string_round_trip)

text \<open>
  Property C20. A capability record written by \<open>ToJsonString\<close> and read back by \<open>GetCapabilityByValue\<close>
  is the same record, with the success code, when its five text fields are non-empty texts that fit
  a message and the printed text is one cJSON parses back.
\<close>

theorem capability_json_round_trip:
  assumes "cjson_build_laws cj" and "cap_encodable cj c" and "cJSON_CreateObject cj = Some ob0"
    and "cj_prints_back cj (CapabilityInfo_ToJson cj ob0 c)"
  shows "GetCapabilityByValue cj (CapabilityInfo_ToJsonString cj c) = (DH_FWK_SUCCESS, c)"
  unfolding GetCapabilityByValue_def CapabilityInfo_FromJsonString_def CapabilityInfo_ToJsonString_def
  using assms by (rule cap_codec.string_round_trip)

theorem capability_json_round_trip_witness:
  "GetCapabilityByValue model_cjson (CapabilityInfo_ToJsonString model_cjson sample_cap) = (DH_FWK_SUCCESS, sample_cap)"
  using model_cjson_laws sample_cap_encodable model_create sample_cap_prints_back [unfolded sample_cap_json_def]
  by (rule capability_json_round_trip)

text \<open>
  The same for the meta capability record, whose key and derived fields include the
  hash of the udid and the sink version.
\<close>

theorem meta_capability_json_round_trip:
  assumes "cjson_build_laws cj" and "meta_encodable cj c" and "cJSON_CreateObject cj = Some ob0"
    and "cj_prints_back cj (MetaCapabilityInfo_ToJson cj ob0 c)"
  shows "GetMetaCapabilityByValue cj (MetaCapabilityInfo_ToJsonString cj c) = (DH_FWK_SUCCESS, c)"
  unfolding GetMetaCapabilityByValue_def MetaCapabilityInfo_FromJsonString_def MetaCapabilityInfo_ToJsonString_def
  using assms by (rule meta_codec.string_round_trip)

theorem meta_capability_json_round_trip_witness:
  "GetMetaCapabilityByValue model_cjson (MetaCapabilityInfo_ToJsonString model_cjson sample_meta)
     = (DH_FWK_SUCCESS, sample_meta)"
  using model_cjson_laws sample_meta_encodable model_create sample_meta_prints_back [unfolded sample_meta_json_def]
  by (rule meta_capability_json_round_trip)

end
