(* ===== verification/DHF_Context.thy ===== *)
theory DHF_Context
  imports DHF_Capability "HOL-Library.Product_Lexorder"
begin

text \<open>
  The process-wide context \<open>DHContext\<close> (\<open>utils/dh_context.cpp\<close>) and the look-ups of the local device
  in \<open>utils/src/dh_utils_tool.cpp\<close>: the set of devices that are online, the network identifiers that
  are online in real time, the devices connected to an isomerism device, the sleeping flag.

  \<open>devIdEntrySet_\<close> is a \<open>std::set<DeviceIdEntry>\<close>: a strictly ascending list in the order of
  \<open>DeviceIdEntry::operator<\<close>, so that the first match of a loop is the first match of the list. The
  device manager's calls are the fields of \<open>dm_api\<close>, each \<open>None\<close> when the call does not return 0.
\<close>

section \<open>The device manager\<close>

record dm_api =
  dm_GetLocalDeviceInfo :: "(string \<times> string \<times> 16 word) option"
  dm_GetUuidByNetworkId :: "string \<Rightarrow> string option"
  dm_GetUdidByNetworkId :: "string \<Rightarrow> string option"

definition GetUUIDByDm :: "dm_api \<Rightarrow> string \<Rightarrow> string" where
  "GetUUIDByDm dm networkId =
     (if \<not> IsIdLengthValid networkId then []
      else case dm_GetUuidByNetworkId dm networkId of Some uuid \<Rightarrow> uuid | None \<Rightarrow> [])"

definition GetUDIDByDm :: "dm_api \<Rightarrow> string \<Rightarrow> string" where
  "GetUDIDByDm dm networkId =
     (if \<not> IsIdLengthValid networkId then []
      else case dm_GetUdidByNetworkId dm networkId of Some udid \<Rightarrow> udid | None \<Rightarrow> [])"

record device_info =
  di_networkId :: string
  di_uuid :: string
  di_deviceId :: string
  di_udid :: string
  di_udidHash :: string
  di_deviceName :: string
  di_deviceType :: "16 word"

definition DeviceInfo_empty :: device_info where
  "DeviceInfo_empty = \<lparr> di_networkId = [], di_uuid = [], di_deviceId = [], di_udid = [], di_udidHash = [],
     di_deviceName = [], di_deviceType = 0 \<rparr>"

definition GetLocalDeviceInfo :: "dm_api \<Rightarrow> (string \<Rightarrow> byte list) \<Rightarrow> device_info" where
  "GetLocalDeviceInfo dm digest =
     (case dm_GetLocalDeviceInfo dm of
        None \<Rightarrow> DeviceInfo_empty
      | Some (networkId, deviceName, deviceTypeId) \<Rightarrow>
          (let uuid = GetUUIDByDm dm networkId; udid = GetUDIDByDm dm networkId in
           \<lparr> di_networkId = networkId, di_uuid = uuid, di_deviceId = GetDeviceIdByUUID digest uuid,
             di_udid = udid, di_udidHash = Sha256 digest udid,
             di_deviceName = deviceName, di_deviceType = deviceTypeId \<rparr>))"

definition GetLocalNetworkId :: "dm_api \<Rightarrow> string" where
  "GetLocalNetworkId dm = (case dm_GetLocalDeviceInfo dm of None \<Rightarrow> [] | Some (networkId, _) \<Rightarrow> networkId)"

section \<open>Entries of the online set\<close>

datatype device_id_entry = DeviceIdEntry (de_networkId: string) (de_uuid: string) (de_deviceId: string)
  (de_udid: string) (de_udidHash: string)

text \<open>\<open>DeviceIdEntry::operator<\<close>, clause by clause.\<close>

definition DeviceIdEntry_less :: "device_id_entry \<Rightarrow> device_id_entry \<Rightarrow> bool" where
  "DeviceIdEntry_less a b \<longleftrightarrow>
     de_networkId a < de_networkId b
   \<or> (de_networkId a = de_networkId b \<and> de_uuid a < de_uuid b)
   \<or> (de_networkId a = de_networkId b \<and> de_uuid a = de_uuid b \<and> de_deviceId a < de_deviceId b)
   \<or> (de_networkId a = de_networkId b \<and> de_uuid a = de_uuid b \<and> de_deviceId a = de_deviceId b
        \<and> de_udid a < de_udid b)
   \<or> (de_networkId a = de_networkId b \<and> de_uuid a = de_uuid b \<and> de_deviceId a = de_deviceId b
        \<and> de_udid a = de_udid b \<and> de_udidHash a < de_udidHash b)"

definition de_tuple :: "device_id_entry \<Rightarrow> string \<times> string \<times> string \<times> string \<times> string" where
  "de_tuple e = (de_networkId e, de_uuid e, de_deviceId e, de_udid e, de_udidHash e)"

lemma de_tuple_inj: "de_tuple a = de_tuple b \<longleftrightarrow> a = b"
  by (cases a; cases b) (simp add: de_tuple_def)

lemma DeviceIdEntry_less_tuple: "DeviceIdEntry_less a b \<longleftrightarrow> de_tuple a < de_tuple b"
  by (auto simp: DeviceIdEntry_less_def de_tuple_def less_prod_def less_le)

text \<open>The operator is a strict linear order, as \<open>std::set\<close> requires of it.\<close>

instantiation device_id_entry :: linorder
begin

definition less_device_id_entry :: "device_id_entry \<Rightarrow> device_id_entry \<Rightarrow> bool" where
  "less_device_id_entry a b \<longleftrightarrow> DeviceIdEntry_less a b"

definition less_eq_device_id_entry :: "device_id_entry \<Rightarrow> device_id_entry \<Rightarrow> bool" where
  "less_eq_device_id_entry a b \<longleftrightarrow> a = b \<or> DeviceIdEntry_less a b"

instance
proof
  fix x y z :: device_id_entry
  note defs = less_device_id_entry_def less_eq_device_id_entry_def DeviceIdEntry_less_tuple
  show "(x < y) = (x \<le> y \<and> \<not> y \<le> x)" by (auto simp: defs)
  show "x \<le> x" by (simp add: defs)
  show "x \<le> y \<Longrightarrow> y \<le> z \<Longrightarrow> x \<le> z" by (auto simp: defs)
  show "x \<le> y \<Longrightarrow> y \<le> x \<Longrightarrow> x = y" by (auto simp: defs)
  show "x \<le> y \<or> y \<le> x" by (metis de_tuple_inj defs(2,3) linorder_less_linear)
qed

end

section \<open>State and operations\<close>

record dh_context =
  cx_devInfo :: device_info
  cx_devIdEntrySet :: "device_id_entry list"
  cx_realTimeOnLineNetworkIdSet :: "string list"
  cx_isSleeping :: bool
  cx_connectedDevIds :: "string list"

definition DHContext_new :: dh_context where
  "DHContext_new = \<lparr> cx_devInfo = DeviceInfo_empty, cx_devIdEntrySet = [], cx_realTimeOnLineNetworkIdSet = [],
     cx_isSleeping = False, cx_connectedDevIds = [] \<rparr>"

text \<open>The power states that \<open>OnPowerStateChanged\<close> tests; every other state is \<open>POWER_OTHER\<close>.\<close>

datatype power_state = POWER_SLEEP | POWER_HIBERNATE | POWER_SHUTDOWN | POWER_OTHER

definition SetIsSleeping :: "bool \<Rightarrow> dh_context \<Rightarrow> dh_context" where
  "SetIsSleeping isSleeping cx = cx\<lparr>cx_isSleeping := isSleeping\<rparr>"

definition OnPowerStateChanged :: "power_state \<Rightarrow> dh_context \<Rightarrow> dh_context" where
  "OnPowerStateChanged state cx =
     (if state = POWER_SLEEP \<or> state = POWER_HIBERNATE \<or> state = POWER_SHUTDOWN
      then SetIsSleeping True cx else SetIsSleeping False cx)"

definition GetDeviceInfo :: "dm_api \<Rightarrow> (string \<Rightarrow> byte list) \<Rightarrow> dh_context \<Rightarrow> device_info \<times> dh_context" where
  "GetDeviceInfo dm digest cx =
     (if di_uuid (cx_devInfo cx) \<noteq> [] then (cx_devInfo cx, cx)
      else let info = GetLocalDeviceInfo dm digest in (info, cx\<lparr>cx_devInfo := info\<rparr>))"

definition AddOnlineDevice ::
  "(string \<Rightarrow> byte list) \<Rightarrow> string \<Rightarrow> string \<Rightarrow> string \<Rightarrow> dh_context \<Rightarrow> dh_context" where
  "AddOnlineDevice digest udid uuid networkId cx =
     (if \<not> IsIdLengthValid udid \<or> \<not> IsIdLengthValid uuid \<or> \<not> IsIdLengthValid networkId then cx
      else if length (cx_devIdEntrySet cx) > MAX_ONLINE_DEVICE_SIZE then cx
      else let deviceId = Sha256 digest uuid;
               udidHash = Sha256 digest udid;
               idEntry = DeviceIdEntry networkId uuid deviceId udid udidHash
           in cx\<lparr>cx_devIdEntrySet := sset_insert idEntry (cx_devIdEntrySet cx)\<rparr>)"

definition RemoveOnlineDeviceIdEntryByNetworkId :: "string \<Rightarrow> dh_context \<Rightarrow> dh_context" where
  "RemoveOnlineDeviceIdEntryByNetworkId networkId cx =
     (if \<not> IsIdLengthValid networkId then cx
      else cx\<lparr>cx_devIdEntrySet := sset_erase_first (\<lambda>e. de_networkId e = networkId) (cx_devIdEntrySet cx)\<rparr>)"

definition IsDeviceOnline :: "dh_context \<Rightarrow> string \<Rightarrow> bool" where
  "IsDeviceOnline cx uuid =
     (if \<not> IsIdLengthValid uuid then False else list_ex (\<lambda>e. de_uuid e = uuid) (cx_devIdEntrySet cx))"

definition GetOnlineCount :: "dh_context \<Rightarrow> nat" where
  "GetOnlineCount cx = length (cx_devIdEntrySet cx)"

text \<open>The loop of the look-ups: the field of the first entry that matches, the empty string otherwise.\<close>

definition first_entry ::
  "(device_id_entry \<Rightarrow> bool) \<Rightarrow> (device_id_entry \<Rightarrow> string) \<Rightarrow> device_id_entry list \<Rightarrow> string" where
  "first_entry P sel es = (case List.find P es of None \<Rightarrow> [] | Some e \<Rightarrow> sel e)"

definition GetNetworkIdByUUID :: "dh_context \<Rightarrow> string \<Rightarrow> string" where
  "GetNetworkIdByUUID cx uuid =
     (if \<not> IsIdLengthValid uuid then [] else first_entry (\<lambda>e. de_uuid e = uuid) de_networkId (cx_devIdEntrySet cx))"

definition GetNetworkIdByUDID :: "dh_context \<Rightarrow> string \<Rightarrow> string" where
  "GetNetworkIdByUDID cx udid =
     (if \<not> IsIdLengthValid udid then [] else first_entry (\<lambda>e. de_udid e = udid) de_networkId (cx_devIdEntrySet cx))"

definition GetUdidHashIdByUUID :: "dh_context \<Rightarrow> string \<Rightarrow> string" where
  "GetUdidHashIdByUUID cx uuid =
     (if \<not> IsIdLengthValid uuid then [] else first_entry (\<lambda>e. de_uuid e = uuid) de_udidHash (cx_devIdEntrySet cx))"

definition GetUUIDByNetworkId :: "dh_context \<Rightarrow> string \<Rightarrow> string" where
  "GetUUIDByNetworkId cx networkId =
     (if \<not> IsIdLengthValid networkId then []
      else first_entry (\<lambda>e. de_networkId e = networkId) de_uuid (cx_devIdEntrySet cx))"

definition GetUDIDByNetworkId :: "dh_context \<Rightarrow> string \<Rightarrow> string" where
  "GetUDIDByNetworkId cx networkId =
     (if \<not> IsIdLengthValid networkId then []
      else first_entry (\<lambda>e. de_networkId e = networkId) de_udid (cx_devIdEntrySet cx))"

definition GetUUIDByDeviceId :: "dh_context \<Rightarrow> string \<Rightarrow> string" where
  "GetUUIDByDeviceId cx deviceId =
     (if \<not> IsIdLengthValid deviceId then []
      else first_entry (\<lambda>e. de_deviceId e = deviceId \<or> de_udidHash e = deviceId) de_uuid (cx_devIdEntrySet cx))"

definition GetNetworkIdByDeviceId :: "dh_context \<Rightarrow> string \<Rightarrow> string" where
  "GetNetworkIdByDeviceId cx deviceId =
     (if \<not> IsIdLengthValid deviceId then []
      else first_entry (\<lambda>e. de_deviceId e = deviceId) de_networkId (cx_devIdEntrySet cx))"

definition GetOnlineDeviceUdidHash :: "dh_context \<Rightarrow> string list \<Rightarrow> string list" where
  "GetOnlineDeviceUdidHash cx udidHashVec = udidHashVec @ map de_udidHash (cx_devIdEntrySet cx)"

definition GetOnlineDeviceDeviceId :: "dh_context \<Rightarrow> string list \<Rightarrow> string list" where
  "GetOnlineDeviceDeviceId cx deviceIdVec = deviceIdVec @ map de_deviceId (cx_devIdEntrySet cx)"

definition GetDeviceIdByDBGetPrefix :: "string \<Rightarrow> string" where
  "GetDeviceIdByDBGetPrefix prefix =
     (if \<not> IsIdLengthValid prefix then []
      else if prefix = [] then []
      else if str_find prefix RESOURCE_SEPARATOR \<noteq> None
      then str_head prefix (str_find_first_of prefix RESOURCE_SEPARATOR)
      else prefix)"

definition AddRealTimeOnlineDeviceNetworkId :: "string \<Rightarrow> dh_context \<Rightarrow> dh_context" where
  "AddRealTimeOnlineDeviceNetworkId networkId cx =
     cx\<lparr>cx_realTimeOnLineNetworkIdSet := sset_insert networkId (cx_realTimeOnLineNetworkIdSet cx)\<rparr>"

definition DeleteRealTimeOnlineDeviceNetworkId :: "string \<Rightarrow> dh_context \<Rightarrow> dh_context" where
  "DeleteRealTimeOnlineDeviceNetworkId networkId cx =
     cx\<lparr>cx_realTimeOnLineNetworkIdSet := sset_erase networkId (cx_realTimeOnLineNetworkIdSet cx)\<rparr>"

definition GetRealTimeOnlineDeviceCount :: "dh_context \<Rightarrow> nat" where
  "GetRealTimeOnlineDeviceCount cx = length (cx_realTimeOnLineNetworkIdSet cx)"

definition AddIsomerismConnectDev :: "string \<Rightarrow> dh_context \<Rightarrow> dh_context" where
  "AddIsomerismConnectDev isomerismDeviceId cx =
     (if \<not> IsIdLengthValid isomerismDeviceId then cx
      else cx\<lparr>cx_connectedDevIds := sset_insert isomerismDeviceId (cx_connectedDevIds cx)\<rparr>)"

definition DelIsomerismConnectDev :: "string \<Rightarrow> dh_context \<Rightarrow> dh_context" where
  "DelIsomerismConnectDev isomerismDeviceId cx =
     (if \<not> IsIdLengthValid isomerismDeviceId then cx
      else if isomerismDeviceId \<notin> set (cx_connectedDevIds cx) then cx
      else cx\<lparr>cx_connectedDevIds := sset_erase isomerismDeviceId (cx_connectedDevIds cx)\<rparr>)"

definition GetIsomerismConnectCount :: "dh_context \<Rightarrow> 32 word" where
  "GetIsomerismConnectCount cx = word_of_nat (length (cx_connectedDevIds cx))"

abbreviation (input) TOPIC_ISOMERISM :: "32 word" where "TOPIC_ISOMERISM \<equiv> 8"
abbreviation (input) ISOMERISM_EVENT_KEY :: string where "ISOMERISM_EVENT_KEY \<equiv> ''isomerism_event''"
abbreviation (input) ISOMERISM_EVENT_CONNECT_VAL :: string where "ISOMERISM_EVENT_CONNECT_VAL \<equiv> ''isomerism_connect''"
abbreviation (input) ISOMERISM_EVENT_DISCONNECT_VAL :: string
  where "ISOMERISM_EVENT_DISCONNECT_VAL \<equiv> ''isomerism_disconnect''"

text \<open>\<open>DHFWKIsomerismListener::OnMessage\<close>.\<close>

definition Isomerism_OnMessage :: "'j cjson \<Rightarrow> 32 word \<Rightarrow> string \<Rightarrow> dh_context \<Rightarrow> dh_context" where
  "Isomerism_OnMessage cj topic message cx =
     (if \<not> IsMessageLengthValid message then cx
      else if topic \<noteq> TOPIC_ISOMERISM then cx
      else case cJSON_Parse cj (c_str message) of
        None \<Rightarrow> cx
      | Some messageJson \<Rightarrow>
          (case cJSON_GetObjectItemCaseSensitive cj messageJson ISOMERISM_EVENT_KEY of
             None \<Rightarrow> cx
           | Some eventObj \<Rightarrow>
               if \<not> IsString cj messageJson ISOMERISM_EVENT_KEY then cx
               else (case cJSON_GetObjectItemCaseSensitive cj messageJson DEV_ID of
                  None \<Rightarrow> cx
                | Some devObj \<Rightarrow>
                    if \<not> IsString cj messageJson DEV_ID then cx
                    else let event = c_str (valuestring cj eventObj); deviceId = c_str (valuestring cj devObj) in
                      if event = ISOMERISM_EVENT_CONNECT_VAL then AddIsomerismConnectDev deviceId cx
                      else if event = ISOMERISM_EVENT_DISCONNECT_VAL then DelIsomerismConnectDev deviceId cx
                      else cx)))"

section \<open>Invariant\<close>

definition entry_ok :: "(string \<Rightarrow> byte list) \<Rightarrow> device_id_entry \<Rightarrow> bool" where
  "entry_ok digest e \<longleftrightarrow> IsIdLengthValid (de_networkId e) \<and> IsIdLengthValid (de_uuid e) \<and> IsIdLengthValid (de_udid e)
     \<and> de_deviceId e = Sha256 digest (de_uuid e) \<and> de_udidHash e = Sha256 digest (de_udid e)"

definition context_ok :: "(string \<Rightarrow> byte list) \<Rightarrow> dh_context \<Rightarrow> bool" where
  "context_ok digest cx \<longleftrightarrow> sset_sorted (cx_devIdEntrySet cx) \<and> list_all (entry_ok digest) (cx_devIdEntrySet cx)
     \<and> length (cx_devIdEntrySet cx) \<le> Suc MAX_ONLINE_DEVICE_SIZE
     \<and> sset_sorted (cx_realTimeOnLineNetworkIdSet cx)
     \<and> sset_sorted (cx_connectedDevIds cx) \<and> list_all IsIdLengthValid (cx_connectedDevIds cx)"

text \<open>The operations as a sequence of steps.\<close>

datatype context_op =
    CxAdd string string string
  | CxRemove string
  | CxAddRealTime string
  | CxDeleteRealTime string
  | CxAddIsomerism string
  | CxDelIsomerism string
  | CxIsomerism "32 word" string
  | CxPower power_state
  | CxDeviceInfo

fun context_step :: "dm_api \<Rightarrow> 'j cjson \<Rightarrow> (string \<Rightarrow> byte list) \<Rightarrow> context_op \<Rightarrow> dh_context \<Rightarrow> dh_context" where
  "context_step dm cj digest (CxAdd udid uuid networkId) cx = AddOnlineDevice digest udid uuid networkId cx"
| "context_step dm cj digest (CxRemove networkId) cx = RemoveOnlineDeviceIdEntryByNetworkId networkId cx"
| "context_step dm cj digest (CxAddRealTime networkId) cx = AddRealTimeOnlineDeviceNetworkId networkId cx"
| "context_step dm cj digest (CxDeleteRealTime networkId) cx = DeleteRealTimeOnlineDeviceNetworkId networkId cx"
| "context_step dm cj digest (CxAddIsomerism d) cx = AddIsomerismConnectDev d cx"
| "context_step dm cj digest (CxDelIsomerism d) cx = DelIsomerismConnectDev d cx"
| "context_step dm cj digest (CxIsomerism topic message) cx = Isomerism_OnMessage cj topic message cx"
| "context_step dm cj digest (CxPower st) cx = OnPowerStateChanged st cx"
| "context_step dm cj digest CxDeviceInfo cx = snd (GetDeviceInfo dm digest cx)"

lemma list_all_sset_insert: "list_all P (sset_insert x s) \<longleftrightarrow> P x \<and> list_all P s"
  by (simp add: list_all_iff)

lemma list_all_sset_erase_first: "list_all P s \<Longrightarrow> list_all P (sset_erase_first Q s)"
  by (induction s) auto

lemma list_all_sset_erase: "list_all P s \<Longrightarrow> list_all P (sset_erase x s)"
  by (auto simp: list_all_iff)

lemmas sset_all = list_all_sset_insert list_all_sset_erase_first list_all_sset_erase

lemma context_ok_new: "context_ok digest DHContext_new"
  by (simp add: context_ok_def DHContext_new_def)

lemma context_ok_add [dhf_inv]: "context_ok digest cx \<Longrightarrow> context_ok digest (AddOnlineDevice digest udid uuid networkId cx)"
  using length_sset_insert_le [of "DeviceIdEntry networkId uuid (Sha256 digest uuid) udid (Sha256 digest udid)"
      "cx_devIdEntrySet cx"]
  by (auto simp: AddOnlineDevice_def context_ok_def Let_def sset_all entry_ok_def)

lemma context_ok_remove [dhf_inv]:
  "context_ok digest cx \<Longrightarrow> context_ok digest (RemoveOnlineDeviceIdEntryByNetworkId networkId cx)"
  using length_sset_erase_first_le [of "\<lambda>e. de_networkId e = networkId" "cx_devIdEntrySet cx"]
  by (auto simp: RemoveOnlineDeviceIdEntryByNetworkId_def context_ok_def sset_all)

lemma context_ok_sets [dhf_inv]:
  assumes "context_ok digest cx"
  shows "context_ok digest (AddRealTimeOnlineDeviceNetworkId n cx)"
    and "context_ok digest (DeleteRealTimeOnlineDeviceNetworkId n cx)"
    and "context_ok digest (AddIsomerismConnectDev n cx)"
    and "context_ok digest (DelIsomerismConnectDev n cx)"
    and "context_ok digest (OnPowerStateChanged st cx)"
    and "context_ok digest (snd (GetDeviceInfo dm digest cx))"
  using assms
  by (simp_all add: context_ok_def AddRealTimeOnlineDeviceNetworkId_def DeleteRealTimeOnlineDeviceNetworkId_def
      AddIsomerismConnectDev_def DelIsomerismConnectDev_def OnPowerStateChanged_def SetIsSleeping_def
      GetDeviceInfo_def Let_def sset_all)

lemma context_ok_isomerism [dhf_inv]:
  "context_ok digest cx \<Longrightarrow> context_ok digest (Isomerism_OnMessage cj topic message cx)"
  by (simp add: Isomerism_OnMessage_def Let_def dhf_inv split: option.splits)

lemma context_ok_step: "context_ok digest cx \<Longrightarrow> context_ok digest (context_step dm cj digest op cx)"
  by (cases op) (simp_all add: dhf_inv)

lemma context_ok_run: "context_ok digest cx \<Longrightarrow> context_ok digest (fold (context_step dm cj digest) ops cx)"
  by (induction ops arbitrary: cx) (simp_all add: context_ok_step)

text \<open>
  Property C22. Whatever sequence of operations a fresh context goes through, its online set stays
  strictly ascending in the order of \<open>DeviceIdEntry::operator<\<close>, each entry has valid identifiers and
  the hashes of its own uuid and udid, and the set never has more than one entry above
  \<open>MAX_ONLINE_DEVICE_SIZE\<close> (the code refuses a device only once the size is already above the bound).
\<close>

theorem context_invariant: "context_ok digest (fold (context_step dm cj digest) ops DHContext_new)"
  by (rule context_ok_run) (rule context_ok_new)

section \<open>Look-ups\<close>

lemma find_unique:
  assumes "e \<in> set es" and "P e" and "\<And>x. x \<in> set es \<Longrightarrow> P x \<Longrightarrow> x = e"
  shows "List.find P es = Some e"
proof -
  from assms(1,2) obtain x where "List.find P es = Some x"
    by (metis find_None_iff option.exhaust)
  with assms(3) show ?thesis by (auto dest: find_Some_mem)
qed

lemma first_entry_unique:
  assumes "e \<in> set es" and "P e" and "\<And>x. x \<in> set es \<Longrightarrow> P x \<Longrightarrow> x = e"
  shows "first_entry P sel es = sel e"
proof -
  have "List.find P es = Some e" using assms by (rule find_unique)
  then show ?thesis by (simp add: first_entry_def)
qed

lemma first_entry_none: "\<forall>e \<in> set es. \<not> P e \<Longrightarrow> first_entry P sel es = []"
  by (simp add: first_entry_def find_None_all [of P es, THEN iffD2])

lemma first_entry_nonempty:
  assumes "list_all (\<lambda>e. sel e \<noteq> []) es"
  shows "first_entry P sel es \<noteq> [] \<longleftrightarrow> (\<exists>e \<in> set es. P e)"
proof (cases "List.find P es")
  case None
  then have "\<forall>e \<in> set es. \<not> P e" by (simp add: find_None_all)
  with None show ?thesis by (simp add: first_entry_def)
next
  case (Some e)
  with find_Some_mem [OF Some] assms show ?thesis by (auto simp: first_entry_def list_all_iff)
qed

lemma sset_sorted_set_eq: "sset_sorted s \<Longrightarrow> sset_sorted t \<Longrightarrow> set s = set t \<Longrightarrow> s = t"
  unfolding sset_sorted_def by (simp add: strict_sorted_equal)

text \<open>The entry \<open>AddOnlineDevice\<close> makes, and when it makes one.\<close>

definition new_entry :: "(string \<Rightarrow> byte list) \<Rightarrow> string \<Rightarrow> string \<Rightarrow> string \<Rightarrow> device_id_entry" where
  "new_entry digest udid uuid networkId =
     DeviceIdEntry networkId uuid (Sha256 digest uuid) udid (Sha256 digest udid)"

definition add_accepted :: "dh_context \<Rightarrow> string \<Rightarrow> string \<Rightarrow> string \<Rightarrow> bool" where
  "add_accepted cx udid uuid networkId \<longleftrightarrow> IsIdLengthValid udid \<and> IsIdLengthValid uuid \<and> IsIdLengthValid networkId
     \<and> length (cx_devIdEntrySet cx) \<le> MAX_ONLINE_DEVICE_SIZE"

lemma AddOnlineDevice_entries:
  "add_accepted cx udid uuid networkId \<Longrightarrow>
   cx_devIdEntrySet (AddOnlineDevice digest udid uuid networkId cx)
     = sset_insert (new_entry digest udid uuid networkId) (cx_devIdEntrySet cx)"
  by (simp add: AddOnlineDevice_def add_accepted_def new_entry_def)

lemma AddOnlineDevice_refused: "\<not> add_accepted cx udid uuid networkId \<Longrightarrow> AddOnlineDevice digest udid uuid networkId cx = cx"
  by (auto simp: AddOnlineDevice_def add_accepted_def)

definition fresh_device :: "dh_context \<Rightarrow> string \<Rightarrow> string \<Rightarrow> bool" where
  "fresh_device cx uuid networkId \<longleftrightarrow>
     list_all (\<lambda>e. de_uuid e \<noteq> uuid \<and> de_networkId e \<noteq> networkId) (cx_devIdEntrySet cx)"

text \<open>
  When a device that is not yet known comes online, each look-up by its uuid or network
  identifier gives what was registered; when it is then removed by its network identifier, the online
  set is the one from before, and the device is offline again.
\<close>

theorem online_device_life_cycle:
  assumes ok: "context_ok digest cx" and acc: "add_accepted cx udid uuid networkId"
    and fresh: "fresh_device cx uuid networkId"
  defines "cx1 \<equiv> AddOnlineDevice digest udid uuid networkId cx"
  defines "cx2 \<equiv> RemoveOnlineDeviceIdEntryByNetworkId networkId cx1"
  shows "IsDeviceOnline cx1 uuid \<and> GetNetworkIdByUUID cx1 uuid = networkId
       \<and> GetUUIDByNetworkId cx1 networkId = uuid \<and> GetUDIDByNetworkId cx1 networkId = udid
       \<and> GetUdidHashIdByUUID cx1 uuid = Sha256 digest udid
       \<and> GetOnlineCount cx1 = Suc (GetOnlineCount cx)
       \<and> cx_devIdEntrySet cx2 = cx_devIdEntrySet cx \<and> \<not> IsDeviceOnline cx2 uuid"
proof -
  let ?e = "new_entry digest udid uuid networkId" and ?es = "cx_devIdEntrySet cx"
  have es1: "cx_devIdEntrySet cx1 = sset_insert ?e ?es"
    unfolding cx1_def by (rule AddOnlineDevice_entries [OF acc])
  have val: "IsIdLengthValid uuid" "IsIdLengthValid networkId" using acc by (simp_all add: add_accepted_def)
  have fr: "x \<in> set ?es \<Longrightarrow> de_uuid x \<noteq> uuid \<and> de_networkId x \<noteq> networkId" for x
    using fresh by (simp add: fresh_device_def list_all_iff)
  have sel: "de_uuid ?e = uuid" "de_networkId ?e = networkId" "de_udid ?e = udid"
      "de_udidHash ?e = Sha256 digest udid" by (simp_all add: new_entry_def)
  have by_uuid: "first_entry (\<lambda>e. de_uuid e = uuid) f (sset_insert ?e ?es) = f ?e" for f
    by (rule first_entry_unique) (auto simp: sel dest: fr)
  have by_net: "first_entry (\<lambda>e. de_networkId e = networkId) f (sset_insert ?e ?es) = f ?e" for f
    by (rule first_entry_unique) (auto simp: sel dest: fr)
  have srt: "sset_sorted ?es" using ok by (simp add: context_ok_def)
  have notin: "?e \<notin> set ?es" using fr [of ?e] by (auto simp: sel)
  have len: "length (sset_insert ?e ?es) = Suc (length ?es)"
    using notin srt by (metis distinct_card sset_insert_sorted sset_sorted_distinct set_sset_insert
        card_insert_disjoint List.finite_set)
  have "List.find (\<lambda>e. de_networkId e = networkId) (sset_insert ?e ?es) = Some ?e"
    by (rule find_unique) (auto simp: sel dest: fr)
  then have "set (sset_erase_first (\<lambda>e. de_networkId e = networkId) (sset_insert ?e ?es)) = set (sset_insert ?e ?es) - {?e}"
    using srt by (intro set_sset_erase_first) (auto intro: sset_sorted_distinct)
  then have es2: "cx_devIdEntrySet cx2 = ?es"
    unfolding cx2_def RemoveOnlineDeviceIdEntryByNetworkId_def using notin srt val
    by (auto simp: es1 intro!: sset_sorted_set_eq)
  show ?thesis
    using val fr es1 es2 len by_uuid by_net sel
    by (auto simp: IsDeviceOnline_def GetNetworkIdByUUID_def GetUUIDByNetworkId_def GetUDIDByNetworkId_def
        GetUdidHashIdByUUID_def GetOnlineCount_def list_ex_iff)
qed

theorem online_device_life_cycle_witness:
  "(let digest = (\<lambda>_. replicate 32 0);
        cx1 = AddOnlineDevice digest ''udid'' ''uuid'' ''net'' DHContext_new;
        cx2 = RemoveOnlineDeviceIdEntryByNetworkId ''net'' cx1
    in IsDeviceOnline cx1 ''uuid'' \<and> GetNetworkIdByUUID cx1 ''uuid'' = ''net'' \<and> \<not> IsDeviceOnline cx2 ''uuid'')"
proof -
  have "add_accepted DHContext_new ''udid'' ''uuid'' ''net''" and "fresh_device DHContext_new ''uuid'' ''net''"
    by (simp_all add: add_accepted_def fresh_device_def DHContext_new_def IsIdLengthValid_def)
  from online_device_life_cycle [OF context_ok_new this] show ?thesis by (simp add: Let_def)
qed

text \<open>
  In a context the operations reach, a uuid is online exactly when the look-up of its
  network identifier answers, and the uuid found for a hashed device identifier has that hash, or its
  udid has.
\<close>

theorem context_lookups_agree:
  assumes "context_ok digest cx"
  shows "(IsDeviceOnline cx uuid \<longleftrightarrow> GetNetworkIdByUUID cx uuid \<noteq> [])
       \<and> (GetUUIDByDeviceId cx d \<noteq> [] \<longrightarrow> IsDeviceOnline cx (GetUUIDByDeviceId cx d)
            \<and> (Sha256 digest (GetUUIDByDeviceId cx d) = d
               \<or> (\<exists>e \<in> set (cx_devIdEntrySet cx). de_uuid e = GetUUIDByDeviceId cx d \<and> Sha256 digest (de_udid e) = d)))"
proof -
  have ok: "e \<in> set (cx_devIdEntrySet cx) \<Longrightarrow> entry_ok digest e" for e
    using assms by (simp add: context_ok_def list_all_iff)
  then have ne: "list_all (\<lambda>e. de_networkId e \<noteq> []) (cx_devIdEntrySet cx)"
    unfolding list_all_iff entry_ok_def using IsIdLengthValid_Nil by metis
  have "IsDeviceOnline cx uuid \<longleftrightarrow> GetNetworkIdByUUID cx uuid \<noteq> []"
    by (simp add: IsDeviceOnline_def GetNetworkIdByUUID_def first_entry_nonempty [OF ne] list_ex_iff)
  moreover have "IsDeviceOnline cx (GetUUIDByDeviceId cx d)
      \<and> (Sha256 digest (GetUUIDByDeviceId cx d) = d
         \<or> (\<exists>e \<in> set (cx_devIdEntrySet cx). de_uuid e = GetUUIDByDeviceId cx d \<and> Sha256 digest (de_udid e) = d))"
    if ne: "GetUUIDByDeviceId cx d \<noteq> []"
  proof -
    from ne obtain e where e: "e \<in> set (cx_devIdEntrySet cx)" "de_deviceId e = d \<or> de_udidHash e = d"
      and u: "GetUUIDByDeviceId cx d = de_uuid e"
      by (auto simp: GetUUIDByDeviceId_def first_entry_def split: option.splits if_splits dest!: find_Some_mem)
    from ok [OF e(1)] e show ?thesis
      by (auto simp: u entry_ok_def IsDeviceOnline_def list_ex_iff)
  qed
  ultimately show ?thesis by blast
qed

theorem context_lookups_agree_witness:
  "(let cx = AddOnlineDevice (\<lambda>_. replicate 32 0) ''udid'' ''uuid'' ''net'' DHContext_new
    in IsDeviceOnline cx ''uuid'' = (GetNetworkIdByUUID cx ''uuid'' \<noteq> []))"
  using context_lookups_agree [OF context_ok_add [OF context_ok_new]] by (simp add: Let_def)

text \<open>
  The device identifier that \<open>GetDeviceIdByDBGetPrefix\<close> cuts out of a database key is the
  part before the separator, when the identifier has no \<open>#\<close> and the key is at most 256 characters long;
  an identifier that contains a single \<open>#\<close> is cut at that character instead, since the position comes
  from \<open>find_first_of\<close>.
\<close>

theorem db_prefix_device_id:
  assumes "CHR ''#'' \<notin> set d" and "length d + 3 + length h \<le> MAX_ID_LEN"
  shows "GetDeviceIdByDBGetPrefix (GetCapabilityKey d h) = d
       \<and> GetDeviceIdByDBGetPrefix (GetCapabilityKey (d @ ''#'') h) = (if length d + 4 + length h \<le> MAX_ID_LEN then d else [])"
proof -
  have first: "str_find_first_of (d @ ''#'' @ t) RESOURCE_SEPARATOR = Some (length d)" for t
    using str_find_first_of_fresh_head [of "CHR ''#''" "''###''" d t] assms(1) by auto
  have found: "str_find (a @ ''###'' @ b) RESOURCE_SEPARATOR \<noteq> None" for a b
    using str_find_None_sub [of "a @ ''###'' @ b" "''###''" a b] by auto
  from found [of d h] first [of "''##'' @ h"] found [of "d @ ''#''" h] first [of "''###'' @ h"] assms(2)
  show ?thesis
    by (auto simp: GetDeviceIdByDBGetPrefix_def GetCapabilityKey_def str_head_def IsIdLengthValid_def)
qed

theorem db_prefix_device_id_witness:
  "GetDeviceIdByDBGetPrefix (GetCapabilityKey ''0af3'' ''Camera_1'') = ''0af3''
   \<and> GetDeviceIdByDBGetPrefix (GetCapabilityKey ''0af3#'' ''Camera_1'') = ''0af3''"
  using db_prefix_device_id [of "''0af3''" "''Camera_1''"] by simp

end
