(* ===== verification/DHF_DB.thy ===== *)
theory DHF_DB
  imports DHF_Context
begin

text \<open>
  The database adapter \<open>DBAdapter\<close> (\<open>resourcemanager/db_adapter.cpp\<close>) over the distributed key-value
  store. The store is a service outside the repository: its calls are the fields of \<open>kv_api\<close> over an
  abstract world \<open>'w\<close>, each with the status it returns. A call that opens the store also tells whether
  the pointer it fills is non-null.

  \<open>env\<close> holds what the whole library takes as given: the device manager, the digest, the key-value
  service, cJSON, and whether the code is compiled with \<open>DHARDWARE_OPEN_SOURCE\<close>. \<open>sys\<close> is the state
  that is shared in the process: the context, the world, and the events that were sent to the event
  handlers of the resource managers and not yet handled.
\<close>

section \<open>The key-value service\<close>

text \<open>The statuses the sources tell apart; every other error is \<open>KV_ERROR\<close>.\<close>

datatype kv_status = KV_SUCCESS | KV_NOT_FOUND | KV_IPC_ERROR | KV_STORE_META_CHANGED | KV_ERROR

datatype data_type = TYPE_STATICS | TYPE_DYNAMICAL

text \<open>\<open>autoSync\<close>, \<open>dataType\<close>, and \<open>enableCloud\<close> with the cloud's \<open>autoSync\<close>; the options of a local store are fixed.\<close>

datatype kv_options = SyncOptions bool data_type bool bool | LocalOptions

datatype subscribe_type = SUBSCRIBE_TYPE_REMOTE | SUBSCRIBE_TYPE_CLOUD

record 'w kv_api =
  kv_GetSingleKvStore :: "kv_options \<Rightarrow> string \<Rightarrow> 'w \<Rightarrow> kv_status \<times> bool \<times> 'w"
  kv_DeleteKvStore :: "string \<Rightarrow> 'w \<Rightarrow> kv_status \<times> 'w"
  kv_Get :: "'w \<Rightarrow> string \<Rightarrow> string \<Rightarrow> kv_status \<times> string"
  kv_GetEntries :: "'w \<Rightarrow> string \<Rightarrow> string \<Rightarrow> kv_status \<times> (string \<times> string) list"
  kv_Put :: "string \<Rightarrow> string \<Rightarrow> string \<Rightarrow> 'w \<Rightarrow> kv_status \<times> 'w"
  kv_PutBatch :: "string \<Rightarrow> (string \<times> string) list \<Rightarrow> 'w \<Rightarrow> kv_status \<times> 'w"
  kv_Delete :: "string \<Rightarrow> string \<Rightarrow> 'w \<Rightarrow> kv_status \<times> 'w"
  kv_DeleteBatch :: "string \<Rightarrow> string list \<Rightarrow> 'w \<Rightarrow> kv_status \<times> 'w"
  kv_RemoveDeviceData :: "string \<Rightarrow> string \<Rightarrow> 'w \<Rightarrow> kv_status \<times> 'w"
  kv_Sync :: "string \<Rightarrow> string list \<Rightarrow> 'w \<Rightarrow> kv_status \<times> 'w"
  kv_SubscribeKvStore :: "subscribe_type \<Rightarrow> string \<Rightarrow> 'w \<Rightarrow> kv_status \<times> 'w"
  kv_UnSubscribeKvStore :: "subscribe_type \<Rightarrow> string \<Rightarrow> 'w \<Rightarrow> kv_status \<times> 'w"
  kv_RegisterDeath :: "string \<Rightarrow> 'w \<Rightarrow> 'w"
  kv_UnRegisterDeath :: "string \<Rightarrow> 'w \<Rightarrow> 'w"

record ('w, 'j) env =
  env_dm :: dm_api
  env_digest :: "string \<Rightarrow> byte list"
  env_kv :: "'w kv_api"
  env_cj :: "'j cjson"
  env_open_source :: bool

datatype recover_event = EVENT_CAPABILITY_INFO_DB_RECOVER | EVENT_VERSION_INFO_DB_RECOVER | EVENT_META_INFO_DB_RECOVER

record 'w sys =
  sys_cx :: dh_context
  sys_world :: 'w
  sys_events :: "recover_event list"

record db_adapter =
  db_storeId :: string
  db_open :: bool
  db_isAutoSync :: bool
  db_dataType :: data_type

type_synonym 'w db_state = "db_adapter \<times> 'w sys"

abbreviation (input) MAX_INIT_RETRY_TIMES :: nat where "MAX_INIT_RETRY_TIMES \<equiv> 20"
abbreviation (input) DIED_CHECK_MAX_TIMES :: nat where "DIED_CHECK_MAX_TIMES \<equiv> 300"

definition DBAdapter_new :: "string \<Rightarrow> db_adapter" where
  "DBAdapter_new storeId = \<lparr> db_storeId = storeId, db_open = False, db_isAutoSync = False,
     db_dataType = TYPE_DYNAMICAL \<rparr>"

text \<open>A call of the service on the store of an adapter: its status and the state after it.\<close>

definition kv_call :: "('w \<Rightarrow> kv_status \<times> 'w) \<Rightarrow> 'w sys \<Rightarrow> kv_status \<times> 'w sys" where
  "kv_call f s = (let (st, w) = f (sys_world s) in (st, s\<lparr>sys_world := w\<rparr>))"

section \<open>Opening and closing\<close>

definition open_store :: "('w, 'j) env \<Rightarrow> kv_options \<Rightarrow> 'w db_state \<Rightarrow> kv_status \<times> 'w db_state" where
  "open_store E opts = (\<lambda>(db, s).
     let (st, ptr, w) = kv_GetSingleKvStore (env_kv E) opts (db_storeId db) (sys_world s)
     in (st, (db\<lparr>db_open := ptr\<rparr>, s\<lparr>sys_world := w\<rparr>)))"

definition GetKvStorePtr :: "('w, 'j) env \<Rightarrow> bool \<Rightarrow> data_type \<Rightarrow> 'w db_state \<Rightarrow> kv_status \<times> 'w db_state" where
  "GetKvStorePtr E isAutoSync dataType =
     open_store E (if dataType = TYPE_DYNAMICAL then SyncOptions isAutoSync dataType False False
                   else SyncOptions isAutoSync dataType True True)"

definition GetLocalKvStorePtr :: "('w, 'j) env \<Rightarrow> 'w db_state \<Rightarrow> kv_status \<times> 'w db_state" where
  "GetLocalKvStorePtr E = open_store E LocalOptions"

definition RegisterChangeListener :: "('w, 'j) env \<Rightarrow> 'w db_state \<Rightarrow> ret \<times> 'w db_state" where
  "RegisterChangeListener E = (\<lambda>(db, s).
     if \<not> db_open db then (ERR_DH_FWK_RESOURCE_KV_STORAGE_POINTER_NULL, (db, s))
     else let (st1, s1) = kv_call (kv_SubscribeKvStore (env_kv E) SUBSCRIBE_TYPE_REMOTE (db_storeId db)) s in
       if st1 = KV_IPC_ERROR then (ERR_DH_FWK_RESOURCE_REGISTER_DB_FAILED, (db, s1))
       else let (st2, s2) = kv_call (kv_SubscribeKvStore (env_kv E) SUBSCRIBE_TYPE_CLOUD (db_storeId db)) s1 in
         if st2 = KV_IPC_ERROR then (ERR_DH_FWK_RESOURCE_REGISTER_DB_FAILED, (db, s2))
         else (DH_FWK_SUCCESS, (db, s2)))"

definition UnRegisterChangeListener :: "('w, 'j) env \<Rightarrow> 'w db_state \<Rightarrow> ret \<times> 'w db_state" where
  "UnRegisterChangeListener E = (\<lambda>(db, s).
     if \<not> db_open db then (ERR_DH_FWK_RESOURCE_KV_STORAGE_POINTER_NULL, (db, s))
     else let (st1, s1) = kv_call (kv_UnSubscribeKvStore (env_kv E) SUBSCRIBE_TYPE_REMOTE (db_storeId db)) s in
       if st1 = KV_IPC_ERROR then (ERR_DH_FWK_RESOURCE_UNREGISTER_DB_FAILED, (db, s1))
       else let (st2, s2) = kv_call (kv_UnSubscribeKvStore (env_kv E) SUBSCRIBE_TYPE_CLOUD (db_storeId db)) s1 in
         if st2 = KV_IPC_ERROR then (ERR_DH_FWK_RESOURCE_UNREGISTER_DB_FAILED, (db, s2))
         else (DH_FWK_SUCCESS, (db, s2)))"

definition RegisterKvStoreDeathListener :: "('w, 'j) env \<Rightarrow> 'w db_state \<Rightarrow> 'w db_state" where
  "RegisterKvStoreDeathListener E = (\<lambda>(db, s).
     (db, s\<lparr>sys_world := kv_RegisterDeath (env_kv E) (db_storeId db) (sys_world s)\<rparr>))"

definition UnRegisterKvStoreDeathListener :: "('w, 'j) env \<Rightarrow> 'w db_state \<Rightarrow> 'w db_state" where
  "UnRegisterKvStoreDeathListener E = (\<lambda>(db, s).
     (db, s\<lparr>sys_world := kv_UnRegisterDeath (env_kv E) (db_storeId db) (sys_world s)\<rparr>))"

text \<open>The retry loop of \<open>Init\<close>; the flag tells that it returned from inside the loop.\<close>

fun Init_loop :: "('w, 'j) env \<Rightarrow> bool \<Rightarrow> data_type \<Rightarrow> nat \<Rightarrow> 'w db_state \<Rightarrow> bool \<times> 'w db_state" where
  "Init_loop E isAutoSync dataType 0 ds = (False, ds)"
| "Init_loop E isAutoSync dataType (Suc tryTimes) ds =
     (let (status, (db1, s1)) = GetKvStorePtr E isAutoSync dataType ds in
      if status = KV_SUCCESS \<and> db_open db1
      then (True, RegisterKvStoreDeathListener E (snd (RegisterChangeListener E (db1, s1))))
      else let s2 = (if status = KV_STORE_META_CHANGED
                     then snd (kv_call (kv_DeleteKvStore (env_kv E) (db_storeId db1)) s1) else s1)
           in Init_loop E isAutoSync dataType tryTimes (db1, s2))"

definition DBAdapter_Init :: "('w, 'j) env \<Rightarrow> bool \<Rightarrow> data_type \<Rightarrow> 'w db_state \<Rightarrow> ret \<times> 'w db_state" where
  "DBAdapter_Init E isAutoSync dataType = (\<lambda>(db, s).
     let db0 = db\<lparr>db_isAutoSync := isAutoSync, db_dataType := dataType\<rparr>;
         (returned, ds) = Init_loop E isAutoSync dataType MAX_INIT_RETRY_TIMES (db0, s)
     in if returned then (DH_FWK_SUCCESS, ds)
        else if \<not> db_open (fst ds) then (ERR_DH_FWK_RESOURCE_KV_STORAGE_POINTER_NULL, ds)
        else (DH_FWK_SUCCESS, ds))"

fun InitLocal_loop :: "('w, 'j) env \<Rightarrow> nat \<Rightarrow> 'w db_state \<Rightarrow> bool \<times> 'w db_state" where
  "InitLocal_loop E 0 ds = (False, ds)"
| "InitLocal_loop E (Suc tryTimes) ds =
     (let (status, (db1, s1)) = GetLocalKvStorePtr E ds in
      if status = KV_SUCCESS \<and> db_open db1 then (True, RegisterKvStoreDeathListener E (db1, s1))
      else InitLocal_loop E tryTimes (db1, s1))"

definition DBAdapter_InitLocal :: "('w, 'j) env \<Rightarrow> 'w db_state \<Rightarrow> ret \<times> 'w db_state" where
  "DBAdapter_InitLocal E = (\<lambda>(db, s).
     let db0 = db\<lparr>db_isAutoSync := False, db_dataType := TYPE_STATICS\<rparr>;
         (returned, ds) = InitLocal_loop E MAX_INIT_RETRY_TIMES (db0, s)
     in if returned then (DH_FWK_SUCCESS, ds)
        else if \<not> db_open (fst ds) then (ERR_DH_FWK_RESOURCE_KV_STORAGE_POINTER_NULL, ds)
        else (DH_FWK_SUCCESS, ds))"

definition DBAdapter_UnInit :: "('w, 'j) env \<Rightarrow> 'w db_state \<Rightarrow> 'w db_state" where
  "DBAdapter_UnInit E = (\<lambda>(db, s).
     if \<not> db_open db then (db, s)
     else let (db1, s1) = UnRegisterKvStoreDeathListener E (db, s);
              (db2, s2) = (if db_isAutoSync db1 then snd (UnRegisterChangeListener E (db1, s1)) else (db1, s1))
          in (db2\<lparr>db_open := False\<rparr>, s2))"

definition DBAdapter_ReInit :: "('w, 'j) env \<Rightarrow> bool \<Rightarrow> 'w db_state \<Rightarrow> ret \<times> 'w db_state" where
  "DBAdapter_ReInit E isAutoSync = (\<lambda>(db, s).
     if \<not> db_open db then (ERR_DH_FWK_RESOURCE_KV_STORAGE_POINTER_NULL, (db, s))
     else let db0 = db\<lparr>db_open := False\<rparr>;
              (status, (db1, s1)) = (if db_isAutoSync db0 then GetKvStorePtr E isAutoSync (db_dataType db0) (db0, s)
                                     else GetLocalKvStorePtr E (db0, s))
          in if status \<noteq> KV_SUCCESS \<or> \<not> db_open db1
             then (ERR_DH_FWK_RESOURCE_KV_STORAGE_OPERATION_FAIL, (db1, s1))
             else (DH_FWK_SUCCESS, RegisterKvStoreDeathListener E (db1, s1)))"

section \<open>Reading\<close>

definition GetNetworkIdByKey :: "('w, 'j) env \<Rightarrow> string \<Rightarrow> 'w sys \<Rightarrow> string \<times> 'w sys" where
  "GetNetworkIdByKey E key s =
     (if \<not> IsIdLengthValid key then ([], s)
      else let deviceId = GetDeviceIdByDBGetPrefix key in
        if deviceId = [] then ([], s)
        else let (info, cx) = GetDeviceInfo (env_dm E) (env_digest E) (sys_cx s); s1 = s\<lparr>sys_cx := cx\<rparr> in
          if deviceId = di_deviceId info then ([], s1)
          else let uuid = GetUUIDByDeviceId cx deviceId in
            if uuid = [] then ([], s1)
            else if \<not> IsDeviceOnline cx uuid then ([], s1)
            else (GetNetworkIdByUUID cx uuid, s1))"

definition SyncByNotFound :: "('w, 'j) env \<Rightarrow> string \<Rightarrow> 'w db_state \<Rightarrow> 'w db_state" where
  "SyncByNotFound E key = (\<lambda>(db, s).
     if \<not> IsIdLengthValid key then (db, s)
     else let (networkId, s1) = GetNetworkIdByKey E key s in
       if networkId = [] then (db, s1)
       else (db, snd (kv_call (kv_Sync (env_kv E) (db_storeId db) [networkId]) s1)))"

text \<open>The two blocks that ask the peer for data that was not found.\<close>

definition sync_if_missing :: "('w, 'j) env \<Rightarrow> bool \<Rightarrow> string \<Rightarrow> 'w db_state \<Rightarrow> 'w db_state" where
  "sync_if_missing E missing key = (\<lambda>(db, s).
     if missing then
       let (db1, s1) = (if db_dataType db = TYPE_DYNAMICAL then SyncByNotFound E key (db, s) else (db, s)) in
       if env_open_source E \<and> db_dataType db1 = TYPE_STATICS \<and> db_storeId db1 = GLOBAL_META_INFO
       then SyncByNotFound E key (db1, s1) else (db1, s1)
     else (db, s))"

definition GetDataByKey :: "('w, 'j) env \<Rightarrow> string \<Rightarrow> string \<Rightarrow> 'w db_state \<Rightarrow> ret \<times> string \<times> 'w db_state" where
  "GetDataByKey E key data = (\<lambda>(db, s).
     if \<not> IsIdLengthValid key then (ERR_DH_FWK_PARA_INVALID, data, (db, s))
     else if \<not> db_open db then (ERR_DH_FWK_RESOURCE_KV_STORAGE_POINTER_NULL, data, (db, s))
     else let (status, kvValue) = kv_Get (env_kv E) (sys_world s) (db_storeId db) key;
              ds = sync_if_missing E (status = KV_NOT_FOUND) key (db, s)
          in if status \<noteq> KV_SUCCESS then (ERR_DH_FWK_RESOURCE_KV_STORAGE_OPERATION_FAIL, data, ds)
             else (DH_FWK_SUCCESS, kvValue, ds))"

definition GetDataByKeyPrefix ::
  "('w, 'j) env \<Rightarrow> string \<Rightarrow> string list \<Rightarrow> 'w db_state \<Rightarrow> ret \<times> string list \<times> 'w db_state" where
  "GetDataByKeyPrefix E keyPrefix values = (\<lambda>(db, s).
     if \<not> db_open db then (ERR_DH_FWK_RESOURCE_KV_STORAGE_POINTER_NULL, values, (db, s))
     else let (status, allEntries) = kv_GetEntries (env_kv E) (sys_world s) (db_storeId db) keyPrefix;
              ds = sync_if_missing E (status = KV_SUCCESS \<and> length allEntries = 0) keyPrefix (db, s)
          in if status \<noteq> KV_SUCCESS then (ERR_DH_FWK_RESOURCE_KV_STORAGE_OPERATION_FAIL, values, ds)
             else if allEntries = [] \<or> length allEntries > MAX_DB_RECORD_SIZE
             then (ERR_DH_FWK_RESOURCE_RES_DB_DATA_INVALID, values, ds)
             else (DH_FWK_SUCCESS, values @ map snd allEntries, ds))"

definition GetEntriesByKeys :: "('w, 'j) env \<Rightarrow> string list \<Rightarrow> 'w db_state \<Rightarrow> (string \<times> string) list" where
  "GetEntriesByKeys E keys = (\<lambda>(db, s).
     if \<not> IsArrayLengthValid keys then []
     else if \<not> db_open db then []
     else concat (map (\<lambda>key. let (status, kvValue) = kv_Get (env_kv E) (sys_world s) (db_storeId db) key in
                              if status \<noteq> KV_SUCCESS then [] else [(key, kvValue)]) keys))"

section \<open>Writing\<close>

definition PutData :: "('w, 'j) env \<Rightarrow> string \<Rightarrow> string \<Rightarrow> 'w db_state \<Rightarrow> ret \<times> 'w db_state" where
  "PutData E key value = (\<lambda>(db, s).
     if \<not> IsIdLengthValid key \<or> \<not> IsMessageLengthValid value then (ERR_DH_FWK_PARA_INVALID, (db, s))
     else if \<not> db_open db then (ERR_DH_FWK_RESOURCE_KV_STORAGE_POINTER_NULL, (db, s))
     else let (status, s1) = kv_call (kv_Put (env_kv E) (db_storeId db) key value) s in
       if status = KV_IPC_ERROR then (ERR_DH_FWK_RESOURCE_KV_STORAGE_OPERATION_FAIL, (db, s1))
       else (DH_FWK_SUCCESS, (db, s1)))"

definition PutDataBatch :: "('w, 'j) env \<Rightarrow> string list \<Rightarrow> string list \<Rightarrow> 'w db_state \<Rightarrow> ret \<times> 'w db_state" where
  "PutDataBatch E keys values = (\<lambda>(db, s).
     if \<not> IsArrayLengthValid keys \<or> \<not> IsArrayLengthValid values then (ERR_DH_FWK_PARA_INVALID, (db, s))
     else if \<not> db_open db then (ERR_DH_FWK_RESOURCE_KV_STORAGE_POINTER_NULL, (db, s))
     else if length keys \<noteq> length values \<or> keys = [] \<or> values = [] then (ERR_DH_FWK_PARA_INVALID, (db, s))
     else let (status, s1) = kv_call (kv_PutBatch (env_kv E) (db_storeId db) (zip keys values)) s in
       if status \<noteq> KV_SUCCESS then (ERR_DH_FWK_RESOURCE_KV_STORAGE_OPERATION_FAIL, (db, s1))
       else (DH_FWK_SUCCESS, (db, s1)))"

definition RemoveDeviceData :: "('w, 'j) env \<Rightarrow> string \<Rightarrow> 'w db_state \<Rightarrow> ret \<times> 'w db_state" where
  "RemoveDeviceData E deviceId = (\<lambda>(db, s).
     if \<not> IsIdLengthValid deviceId then (ERR_DH_FWK_PARA_INVALID, (db, s))
     else if \<not> db_open db then (ERR_DH_FWK_RESOURCE_KV_STORAGE_POINTER_NULL, (db, s))
     else let (status, s1) = kv_call (kv_RemoveDeviceData (env_kv E) (db_storeId db) deviceId) s in
       if status \<noteq> KV_SUCCESS then (ERR_DH_FWK_RESOURCE_KV_STORAGE_OPERATION_FAIL, (db, s1))
       else (DH_FWK_SUCCESS, (db, s1)))"

definition RemoveDataByKey :: "('w, 'j) env \<Rightarrow> string \<Rightarrow> 'w db_state \<Rightarrow> ret \<times> 'w db_state" where
  "RemoveDataByKey E key = (\<lambda>(db, s).
     if \<not> IsIdLengthValid key then (ERR_DH_FWK_PARA_INVALID, (db, s))
     else if \<not> db_open db then (ERR_DH_FWK_RESOURCE_KV_STORAGE_POINTER_NULL, (db, s))
     else let (status, s1) = kv_call (kv_Delete (env_kv E) (db_storeId db) key) s in
       if status \<noteq> KV_SUCCESS then (ERR_DH_FWK_RESOURCE_KV_STORAGE_OPERATION_FAIL, (db, s1))
       else (DH_FWK_SUCCESS, (db, s1)))"

definition DBAdapter_DeleteKvStore :: "('w, 'j) env \<Rightarrow> 'w db_state \<Rightarrow> 'w db_state" where
  "DBAdapter_DeleteKvStore E = (\<lambda>(db, s). (db, snd (kv_call (kv_DeleteKvStore (env_kv E) (db_storeId db)) s)))"

definition SyncDataByNetworkId :: "('w, 'j) env \<Rightarrow> string \<Rightarrow> 'w db_state \<Rightarrow> bool \<times> 'w db_state" where
  "SyncDataByNetworkId E networkId = (\<lambda>(db, s).
     if \<not> db_open db then (False, (db, s))
     else let (status, s1) = kv_call (kv_Sync (env_kv E) (db_storeId db) [networkId]) s in
       (status = KV_SUCCESS, (db, s1)))"

definition ClearDataWhenPeerLogout :: "('w, 'j) env \<Rightarrow> string \<Rightarrow> string \<Rightarrow> 'w db_state \<Rightarrow> bool \<times> 'w db_state" where
  "ClearDataWhenPeerLogout E peerudid peeruuid = (\<lambda>(db, s).
     if \<not> db_open db then (False, (db, s))
     else let udIdHash = Sha256 (env_digest E) peerudid;
              (status, peerEntries) = kv_GetEntries (env_kv E) (sys_world s) (db_storeId db) udIdHash
          in if status \<noteq> KV_SUCCESS \<or> length peerEntries = 0 then (False, (db, s))
             else let (st1, s1) = kv_call (kv_DeleteBatch (env_kv E) (db_storeId db) (map fst peerEntries)) s in
               if st1 \<noteq> KV_SUCCESS then (False, (db, s1))
               else let (st2, s2) = kv_call (kv_RemoveDeviceData (env_kv E) (db_storeId db) peeruuid) s1 in
                 (st2 = KV_SUCCESS, (db, s2)))"

section \<open>Recovery when the service died\<close>

definition SyncDBForRecover :: "'w db_state \<Rightarrow> 'w db_state" where
  "SyncDBForRecover = (\<lambda>(db, s).
     let s1 = (if db_storeId db = GLOBAL_CAPABILITY_ID
               then s\<lparr>sys_events := sys_events s @ [EVENT_CAPABILITY_INFO_DB_RECOVER]\<rparr> else s);
         s2 = (if db_storeId db = GLOBAL_VERSION_ID
               then s1\<lparr>sys_events := sys_events s1 @ [EVENT_VERSION_INFO_DB_RECOVER]\<rparr> else s1);
         s3 = (if db_storeId db = GLOBAL_META_INFO
               then s2\<lparr>sys_events := sys_events s2 @ [EVENT_META_INFO_DB_RECOVER]\<rparr> else s2)
     in (db, s3))"

definition DBDiedOpt :: "('w, 'j) env \<Rightarrow> nat \<Rightarrow> 'w db_state \<Rightarrow> bool \<times> nat \<times> 'w db_state" where
  "DBDiedOpt E nTimes = (\<lambda>(db, s).
     let (ret, (db1, s1)) = DBAdapter_ReInit E (db_isAutoSync db) (db, s) in
     if ret = DH_FWK_SUCCESS
     then let ds2 = (if db_isAutoSync db1 then snd (RegisterChangeListener E (db1, s1)) else (db1, s1))
          in (True, nTimes, SyncDBForRecover ds2)
     else (False, Suc nTimes, (db1, s1)))"

text \<open>The task that \<open>OnRemoteDied\<close> posts.\<close>

function OnRemoteDied_loop :: "('w, 'j) env \<Rightarrow> nat \<Rightarrow> 'w db_state \<Rightarrow> 'w db_state" where
  "OnRemoteDied_loop E nTimes ds =
     (if nTimes < DIED_CHECK_MAX_TIMES
      then let (stop, nTimes1, ds1) = DBDiedOpt E nTimes ds in
        if stop then ds1 else OnRemoteDied_loop E nTimes1 ds1
      else ds)"
  by pat_completeness auto

lemma DBDiedOpt_times: "DBDiedOpt E nTimes ds = (False, nTimes1, ds1) \<Longrightarrow> nTimes1 = Suc nTimes"
  by (auto simp: DBDiedOpt_def Let_def split: prod.splits if_splits)

termination OnRemoteDied_loop
  by (relation "measure (\<lambda>(E, nTimes, ds). DIED_CHECK_MAX_TIMES - nTimes)") (auto dest!: DBDiedOpt_times [OF sym])

definition OnRemoteDied :: "('w, 'j) env \<Rightarrow> 'w db_state \<Rightarrow> 'w db_state" where
  "OnRemoteDied E ds = OnRemoteDied_loop E 0 ds"

declare OnRemoteDied_loop.simps [simp del]

section \<open>Opening: what the result code says\<close>

lemma db_open_listeners [dhf_frame]:
  "fst (RegisterKvStoreDeathListener E ds) = fst ds"
  "fst (UnRegisterKvStoreDeathListener E ds) = fst ds"
  "fst (snd (RegisterChangeListener E ds)) = fst ds"
  "fst (snd (UnRegisterChangeListener E ds)) = fst ds"
  by (cases ds; simp add: RegisterKvStoreDeathListener_def UnRegisterKvStoreDeathListener_def
      RegisterChangeListener_def UnRegisterChangeListener_def Let_def split: prod.splits)+

lemma Init_loop_open: "Init_loop E a t n ds = (True, ds') \<Longrightarrow> db_open (fst ds')"
  by (induction E a t n ds rule: Init_loop.induct)
    (auto simp: Let_def dhf_frame split: prod.splits if_splits)

lemma InitLocal_loop_open: "InitLocal_loop E n ds = (True, ds') \<Longrightarrow> db_open (fst ds')"
  by (induction E n ds rule: InitLocal_loop.induct)
    (auto simp: Let_def dhf_frame split: prod.splits if_splits)

text \<open>
  \<open>Init\<close> and \<open>InitLocal\<close> always return, with success exactly when the adapter has a store
  after the call and the null-pointer code otherwise.
\<close>

theorem DBAdapter_Init_result:
  "(case DBAdapter_Init E a t ds of (r, (db, s)) \<Rightarrow>
      (r = DH_FWK_SUCCESS \<longleftrightarrow> db_open db) \<and> (r = DH_FWK_SUCCESS \<or> r = ERR_DH_FWK_RESOURCE_KV_STORAGE_POINTER_NULL))
 \<and> (case DBAdapter_InitLocal E ds of (r, (db, s)) \<Rightarrow>
      (r = DH_FWK_SUCCESS \<longleftrightarrow> db_open db) \<and> (r = DH_FWK_SUCCESS \<or> r = ERR_DH_FWK_RESOURCE_KV_STORAGE_POINTER_NULL))"
  by (cases ds)
    (auto simp: DBAdapter_Init_def DBAdapter_InitLocal_def Let_def split: prod.splits
      dest!: Init_loop_open InitLocal_loop_open)

text \<open>
  A store whose meta data changed is removed and rebuilt: when the first attempt reports
  the change and the attempt after the removal opens the store, \<open>Init\<close> succeeds at the second attempt,
  registers both listeners and leaves an open adapter with the given options.
\<close>

theorem Init_rebuilds_changed_store:
  fixes E :: "('w, 'j) env"
  defines "opts \<equiv> (\<lambda>a t. if t = TYPE_DYNAMICAL then SyncOptions a t False False else SyncOptions a t True True)"
  assumes "kv_GetSingleKvStore (env_kv E) (opts a t) (db_storeId db) (sys_world s) = (KV_STORE_META_CHANGED, p, w1)"
    and "kv_DeleteKvStore (env_kv E) (db_storeId db) w1 = (st, w2)"
    and "kv_GetSingleKvStore (env_kv E) (opts a t) (db_storeId db) w2 = (KV_SUCCESS, True, w3)"
  shows "DBAdapter_Init E a t (db, s) =
    (DH_FWK_SUCCESS,
     RegisterKvStoreDeathListener E (snd (RegisterChangeListener E
       (db\<lparr>db_isAutoSync := a, db_dataType := t, db_open := True\<rparr>, s\<lparr>sys_world := w3\<rparr>))))"
  using assms by (auto simp: DBAdapter_Init_def eval_nat_numeral GetKvStorePtr_def open_store_def kv_call_def Let_def
      split: prod.splits)

section \<open>A closed adapter\<close>

text \<open>
  While the adapter has no store, every operation on it refuses with an error and changes
  nothing: neither the store, nor the context, nor the adapter.
\<close>

theorem closed_adapter_inert:
  assumes "\<not> db_open (fst ds)"
  shows "fst (GetDataByKey E k d ds) \<noteq> DH_FWK_SUCCESS \<and> snd (GetDataByKey E k d ds) = (d, ds)
       \<and> fst (GetDataByKeyPrefix E k vs ds) \<noteq> DH_FWK_SUCCESS \<and> snd (GetDataByKeyPrefix E k vs ds) = (vs, ds)
       \<and> fst (PutData E k d ds) \<noteq> DH_FWK_SUCCESS \<and> snd (PutData E k d ds) = ds
       \<and> fst (PutDataBatch E vs us ds) \<noteq> DH_FWK_SUCCESS \<and> snd (PutDataBatch E vs us ds) = ds
       \<and> fst (RemoveDeviceData E k ds) \<noteq> DH_FWK_SUCCESS \<and> snd (RemoveDeviceData E k ds) = ds
       \<and> fst (RemoveDataByKey E k ds) \<noteq> DH_FWK_SUCCESS \<and> snd (RemoveDataByKey E k ds) = ds
       \<and> GetEntriesByKeys E vs ds = [] \<and> SyncDataByNetworkId E k ds = (False, ds)
       \<and> ClearDataWhenPeerLogout E k d ds = (False, ds)
       \<and> DBAdapter_UnInit E ds = ds \<and> fst (DBAdapter_ReInit E a ds) \<noteq> DH_FWK_SUCCESS \<and> snd (DBAdapter_ReInit E a ds) = ds"
  using assms
  by (cases ds)
    (simp add: GetDataByKey_def GetDataByKeyPrefix_def PutData_def PutDataBatch_def RemoveDeviceData_def
      RemoveDataByKey_def GetEntriesByKeys_def SyncDataByNetworkId_def ClearDataWhenPeerLogout_def
      DBAdapter_UnInit_def DBAdapter_ReInit_def)

section \<open>Recovery\<close>

lemma DBDiedOpt_closed: "\<not> db_open (fst ds) \<Longrightarrow> DBDiedOpt E n ds = (False, Suc n, ds)"
  by (cases ds) (simp add: DBDiedOpt_def DBAdapter_ReInit_def)

lemma OnRemoteDied_loop_closed: "\<not> db_open (fst ds) \<Longrightarrow> OnRemoteDied_loop E n ds = ds"
proof (induction E n ds rule: OnRemoteDied_loop.induct)
  case (1 E n ds)
  then show ?case
    by (subst OnRemoteDied_loop.simps) (auto simp: DBDiedOpt_closed [OF "1.prems"])
qed

definition reopen :: "('w, 'j) env \<Rightarrow> 'w db_state \<Rightarrow> kv_status \<times> 'w db_state" where
  "reopen E = (\<lambda>(db, s). if db_isAutoSync db then GetKvStorePtr E True (db_dataType db) (db\<lparr>db_open := False\<rparr>, s)
                         else GetLocalKvStorePtr E (db\<lparr>db_open := False\<rparr>, s))"

lemma open_store_fields:
  "open_store E opts (db, s) = (st, (db1, s1)) \<Longrightarrow>
   db_isAutoSync db1 = db_isAutoSync db \<and> db_storeId db1 = db_storeId db \<and> db_dataType db1 = db_dataType db
   \<and> sys_events s1 = sys_events s \<and> sys_cx s1 = sys_cx s"
  by (auto simp: open_store_def Let_def split: prod.splits)

lemma reopen_fields:
  "reopen E (db, s) = (st, (db1, s1)) \<Longrightarrow>
   db_isAutoSync db1 = db_isAutoSync db \<and> db_storeId db1 = db_storeId db \<and> db_dataType db1 = db_dataType db
   \<and> sys_events s1 = sys_events s \<and> sys_cx s1 = sys_cx s"
  by (auto simp: reopen_def GetKvStorePtr_def GetLocalKvStorePtr_def dest!: open_store_fields split: if_splits)

lemma ReInit_reopen:
  assumes "db_open db" and "reopen E (db, s) = (st, (db1, s1))"
  shows "DBAdapter_ReInit E (db_isAutoSync db) (db, s) =
    (if st \<noteq> KV_SUCCESS \<or> \<not> db_open db1 then (ERR_DH_FWK_RESOURCE_KV_STORAGE_OPERATION_FAIL, (db1, s1))
     else (DH_FWK_SUCCESS, RegisterKvStoreDeathListener E (db1, s1)))"
  using assms by (auto simp: DBAdapter_ReInit_def reopen_def Let_def split: if_splits)

text \<open>
  When the key-value service died and the first attempt to reopen the store fails and
  leaves no store, the recovery task tries nothing more: each of its remaining attempts finds a null
  pointer and returns at once, so that the adapter stays closed and no recovery event is sent.
\<close>

theorem recovery_gives_up_after_failed_reopen:
  assumes op: "db_open db" and re: "reopen E (db, s) = (st, (db1, s1))" and cl: "\<not> db_open db1"
  shows "OnRemoteDied E (db, s) = (db1, s1) \<and> sys_events s1 = sys_events s"
proof -
  have "DBDiedOpt E 0 (db, s) = (False, 1, (db1, s1))"
    using ReInit_reopen [OF op re] cl by (simp add: DBDiedOpt_def Let_def)
  then have "OnRemoteDied E (db, s) = OnRemoteDied_loop E 1 (db1, s1)"
    by (simp add: OnRemoteDied_def OnRemoteDied_loop.simps [of E 0])
  with cl reopen_fields [OF re] show ?thesis by (simp add: OnRemoteDied_loop_closed)
qed

definition recover_event_of :: "string \<Rightarrow> recover_event list" where
  "recover_event_of storeId =
     (if storeId = GLOBAL_CAPABILITY_ID then [EVENT_CAPABILITY_INFO_DB_RECOVER]
      else if storeId = GLOBAL_VERSION_ID then [EVENT_VERSION_INFO_DB_RECOVER]
      else if storeId = GLOBAL_META_INFO then [EVENT_META_INFO_DB_RECOVER] else [])"

lemma SyncDBForRecover_events:
  "SyncDBForRecover (db, s) = (db, s\<lparr>sys_events := sys_events s @ recover_event_of (db_storeId db)\<rparr>)"
  by (simp add: SyncDBForRecover_def recover_event_of_def Let_def)

lemma kv_call_frame: "kv_call f s = (st, s') \<Longrightarrow> sys_events s' = sys_events s \<and> sys_cx s' = sys_cx s"
  by (auto simp: kv_call_def Let_def split: prod.splits)

lemma listeners_frame:
  "sys_events (snd (RegisterKvStoreDeathListener E ds)) = sys_events (snd ds)"
  "sys_events (snd (snd (RegisterChangeListener E ds))) = sys_events (snd ds)"
  by (cases ds; auto simp: RegisterKvStoreDeathListener_def RegisterChangeListener_def Let_def
      split: prod.splits dest!: kv_call_frame)+

text \<open>
  When the first attempt to reopen succeeds, the recovery task stops there with an open
  adapter, has registered the death listener, has registered the change listener again exactly for an
  automatically synchronised store, and has sent the recovery event of the store's manager once.
\<close>

theorem recovery_after_reopen:
  assumes op: "db_open db" and re: "reopen E (db, s) = (KV_SUCCESS, (db1, s1))" and op1: "db_open db1"
  shows "OnRemoteDied E (db, s) =
      SyncDBForRecover (let ds = RegisterKvStoreDeathListener E (db1, s1)
                        in if db_isAutoSync db then snd (RegisterChangeListener E ds) else ds)
    \<and> db_open (fst (OnRemoteDied E (db, s)))
    \<and> sys_events (snd (OnRemoteDied E (db, s))) = sys_events s @ recover_event_of (db_storeId db)"
proof -
  let ?ds = "RegisterKvStoreDeathListener E (db1, s1)"
  let ?ds2 = "if db_isAutoSync db then snd (RegisterChangeListener E ?ds) else ?ds"
  have f: "fst ?ds = db1" "db_isAutoSync db1 = db_isAutoSync db" "db_storeId db1 = db_storeId db"
      "sys_events s1 = sys_events s"
    using reopen_fields [OF re] by (simp_all add: dhf_frame)
  have "DBDiedOpt E 0 (db, s) = (True, 0, SyncDBForRecover ?ds2)"
    using ReInit_reopen [OF op re] op1 f by (cases ?ds) (simp add: DBDiedOpt_def Let_def)
  then have eq: "OnRemoteDied E (db, s) = SyncDBForRecover ?ds2"
    by (simp add: OnRemoteDied_def OnRemoteDied_loop.simps [of E 0])
  have "fst ?ds2 = db1" and "sys_events (snd ?ds2) = sys_events s"
    using f by (simp_all add: dhf_frame listeners_frame)
  then have "SyncDBForRecover ?ds2 = (db1, (snd ?ds2)\<lparr>sys_events := sys_events s @ recover_event_of (db_storeId db)\<rparr>)"
    using SyncDBForRecover_events [of db1 "snd ?ds2"] f(3) by (metis prod.collapse)
  with eq op1 show ?thesis by (simp add: Let_def)
qed

section \<open>The data\<close>

text \<open>
  What the adapter relies on of the key-value service, for an abstraction \<open>kv\<close> of the world to the
  records of each store: a look-up answers with the record or \<open>NOT_FOUND\<close>, a prefix query with the
  records whose key begins with the prefix, and a write or a deletion that reports success has been
  carried out and touches nothing else. A look-up or a query that fails for another reason is outside of the laws: a
  property that rests on them says what happens as long as the store can be read.
\<close>

definition kv_laws :: "'w kv_api \<Rightarrow> ('w \<Rightarrow> string \<Rightarrow> string \<Rightarrow> string option) \<Rightarrow> bool" where
  "kv_laws api kv \<longleftrightarrow>
     (\<forall>w st k. case kv w st k of
          Some v \<Rightarrow> kv_Get api w st k = (KV_SUCCESS, v)
        | None \<Rightarrow> fst (kv_Get api w st k) = KV_NOT_FOUND)
   \<and> (\<forall>w st p. fst (kv_GetEntries api w st p) = KV_SUCCESS
        \<and> set (snd (kv_GetEntries api w st p)) = {(k, v). kv w st k = Some v \<and> str_prefix p k})
   \<and> (\<forall>w st k v w'. kv_Put api st k v w = (KV_SUCCESS, w') \<longrightarrow> kv w' = (kv w)(st := (kv w st)(k \<mapsto> v)))
   \<and> (\<forall>w st es w'. kv_PutBatch api st es w = (KV_SUCCESS, w') \<longrightarrow> kv w' = (kv w)(st := kv w st ++ map_of (rev es)))
   \<and> (\<forall>w st k w'. kv_Delete api st k w = (KV_SUCCESS, w') \<longrightarrow> kv w' = (kv w)(st := (kv w st)(k := None)))
   \<and> (\<forall>w st ks w'. kv_DeleteBatch api st ks w = (KV_SUCCESS, w')
        \<longrightarrow> kv w' = (kv w)(st := (\<lambda>k. if k \<in> set ks then None else kv w st k)))"

lemma kv_laws_get:
  assumes "kv_laws api kv"
  shows "kv w st k = Some v \<Longrightarrow> kv_Get api w st k = (KV_SUCCESS, v)"
    and "kv w st k = None \<Longrightarrow> \<exists>d. kv_Get api w st k = (KV_NOT_FOUND, d)"
proof -
  from assms have *: "case kv w st k of Some v \<Rightarrow> kv_Get api w st k = (KV_SUCCESS, v)
      | None \<Rightarrow> fst (kv_Get api w st k) = KV_NOT_FOUND"
    by (simp add: kv_laws_def)
  then show "kv w st k = Some v \<Longrightarrow> kv_Get api w st k = (KV_SUCCESS, v)" by simp
  from * show "kv w st k = None \<Longrightarrow> \<exists>d. kv_Get api w st k = (KV_NOT_FOUND, d)"
    by (cases "kv_Get api w st k") simp
qed

lemma kv_laws_write:
  assumes "kv_laws api kv"
  shows "kv_Put api st k v w = (KV_SUCCESS, w') \<Longrightarrow> kv w' = (kv w)(st := (kv w st)(k \<mapsto> v))"
    and "kv_Delete api st k w = (KV_SUCCESS, w') \<Longrightarrow> kv w' = (kv w)(st := (kv w st)(k := None))"
    and "kv_PutBatch api st es w = (KV_SUCCESS, w') \<Longrightarrow> kv w' = (kv w)(st := kv w st ++ map_of (rev es))"
  using assms by (simp_all add: kv_laws_def)

text \<open>What the caller of \<open>GetDataByKey\<close> gets, up to the requests for synchronisation.\<close>

definition read_key :: "('w, 'j) env \<Rightarrow> string \<Rightarrow> 'w db_state \<Rightarrow> string option" where
  "read_key E k ds = (case GetDataByKey E k [] ds of (r, d, _) \<Rightarrow> if r = DH_FWK_SUCCESS then Some d else None)"

lemma read_key_abs:
  assumes laws: "kv_laws (env_kv E) kv" and op: "db_open db" and val: "IsIdLengthValid k"
  shows "read_key E k (db, s) = kv (sys_world s) (db_storeId db) k"
proof (cases "kv (sys_world s) (db_storeId db) k")
  case None
  then obtain d where "kv_Get (env_kv E) (sys_world s) (db_storeId db) k = (KV_NOT_FOUND, d)"
    using kv_laws_get(2) [OF laws] by blast
  with None op val show ?thesis by (simp add: read_key_def GetDataByKey_def)
next
  case (Some v)
  with kv_laws_get(1) [OF laws Some] op val show ?thesis by (simp add: read_key_def GetDataByKey_def)
qed

text \<open>
  On an open adapter over a service that keeps its laws, data that was put is what a read
  of the same key returns and every other key reads as before; after a removal the key is not found
  and every other key reads as before. The service has to report success for the write: \<open>PutData\<close> on its
  own reports success for every status but \<open>IPC_ERROR\<close>.
\<close>

theorem put_get_remove:
  assumes laws: "kv_laws (env_kv E) kv" and op: "db_open db"
    and ids: "IsIdLengthValid k" "IsIdLengthValid k'" "IsMessageLengthValid v"
    and put: "fst (kv_Put (env_kv E) (db_storeId db) k v (sys_world s)) = KV_SUCCESS"
    and del: "fst (kv_Delete (env_kv E) (db_storeId db) k (sys_world s)) = KV_SUCCESS"
  shows "fst (PutData E k v (db, s)) = DH_FWK_SUCCESS
       \<and> read_key E k' (snd (PutData E k v (db, s))) = (if k' = k then Some v else read_key E k' (db, s))
       \<and> fst (RemoveDataByKey E k (db, s)) = DH_FWK_SUCCESS
       \<and> read_key E k' (snd (RemoveDataByKey E k (db, s))) = (if k' = k then None else read_key E k' (db, s))"
proof -
  obtain w where w: "kv_Put (env_kv E) (db_storeId db) k v (sys_world s) = (KV_SUCCESS, w)"
    using put by (metis prod.collapse)
  obtain u where u: "kv_Delete (env_kv E) (db_storeId db) k (sys_world s) = (KV_SUCCESS, u)"
    using del by (metis prod.collapse)
  have P: "PutData E k v (db, s) = (DH_FWK_SUCCESS, (db, s\<lparr>sys_world := w\<rparr>))"
    using op ids w by (simp add: PutData_def kv_call_def)
  have R: "RemoveDataByKey E k (db, s) = (DH_FWK_SUCCESS, (db, s\<lparr>sys_world := u\<rparr>))"
    using op ids u by (simp add: RemoveDataByKey_def kv_call_def)
  show ?thesis
    by (simp add: P R read_key_abs [OF laws op ids(2)] kv_laws_write(1) [OF laws w] kv_laws_write(2) [OF laws u])
qed

text \<open>
  \<open>PutData\<close> reports success for a write the service refused, unless the refusal was an
  \<open>IPC_ERROR\<close>; \<open>RemoveDataByKey\<close> reports every refusal.
\<close>

theorem PutData_hides_refusals:
  assumes "db_open db" and "IsIdLengthValid k" and "IsMessageLengthValid v"
  shows "(fst (PutData E k v (db, s)) = DH_FWK_SUCCESS
           \<longleftrightarrow> fst (kv_Put (env_kv E) (db_storeId db) k v (sys_world s)) \<noteq> KV_IPC_ERROR)
       \<and> (fst (RemoveDataByKey E k (db, s)) = DH_FWK_SUCCESS
           \<longleftrightarrow> fst (kv_Delete (env_kv E) (db_storeId db) k (sys_world s)) = KV_SUCCESS)"
  using assms by (simp add: PutData_def RemoveDataByKey_def kv_call_def Let_def split: prod.splits)

text \<open>
  The peer's records are gone after a logout that reports success: no key that begins with
  the hash of the peer's udid is left in the store, and every other key of it stays, when the service
  keeps its laws and the removal of device data leaves the store's own records alone.
\<close>

theorem ClearDataWhenPeerLogout_clears:
  assumes laws: "kv_laws (env_kv E) kv"
    and rdd: "\<And>w u. kv (snd (kv_RemoveDeviceData (env_kv E) (db_storeId db) u w)) = kv w"
    and res: "ClearDataWhenPeerLogout E udid uuid (db, s) = (True, (db', s'))"
  shows "kv (sys_world s') (db_storeId db) k =
    (if str_prefix (Sha256 (env_digest E) udid) k then None else kv (sys_world s) (db_storeId db) k)"
proof -
  let ?st = "db_storeId db" and ?h = "Sha256 (env_digest E) udid"
  obtain es where es: "kv_GetEntries (env_kv E) (sys_world s) ?st ?h = (KV_SUCCESS, es)"
    and set_es: "set es = {(k, v). kv (sys_world s) ?st k = Some v \<and> str_prefix ?h k}"
    using laws unfolding kv_laws_def by (metis prod.collapse)
  obtain st1 w1 where d: "kv_DeleteBatch (env_kv E) ?st (map fst es) (sys_world s) = (st1, w1)"
    by (metis prod.collapse)
  from res have st1: "st1 = KV_SUCCESS" and w2: "sys_world s' = snd (kv_RemoveDeviceData (env_kv E) ?st uuid w1)"
    by (auto simp: ClearDataWhenPeerLogout_def es d kv_call_def Let_def split: if_splits prod.splits)
  have "kv w1 ?st k = (if k \<in> set (map fst es) then None else kv (sys_world s) ?st k)"
    using laws d st1 by (simp add: kv_laws_def)
  moreover have "k \<in> set (map fst es) \<longleftrightarrow> kv (sys_world s) ?st k \<noteq> None \<and> str_prefix ?h k"
    by (force simp: set_es)
  ultimately show ?thesis by (auto simp: w2 rdd)
qed

text \<open>Asking a peer for data changes neither the adapter nor, at once, what the store holds.\<close>

lemma sync_if_missing_frame:
  assumes "\<And>w ids. kv (snd (kv_Sync (env_kv E) (db_storeId db) ids w)) = kv w"
  shows "fst (sync_if_missing E b k (db, s)) = db
       \<and> kv (sys_world (snd (sync_if_missing E b k (db, s)))) = kv (sys_world s)"
proof -
  have w: "sys_world (snd (GetNetworkIdByKey E k s')) = sys_world s'" for s'
    by (simp add: GetNetworkIdByKey_def Let_def split: prod.splits)
  have "fst (SyncByNotFound E k (db, s')) = db
      \<and> kv (sys_world (snd (SyncByNotFound E k (db, s')))) = kv (sys_world s')" for s'
    using w [of s'] by (auto simp: SyncByNotFound_def kv_call_def Let_def split: prod.splits) (metis assms snd_conv)
  then show ?thesis
    by (auto simp: sync_if_missing_def Let_def split: prod.splits)
      (metis fst_conv snd_conv)+
qed

section \<open>A model of the service\<close>

text \<open>
  A store that keeps its records in a list, for the concrete instances of the theorems: every call
  succeeds, and the laws hold.
\<close>

type_synonym kv_world = "((string \<times> string) \<times> string) list"

definition kvm_get :: "kv_world \<Rightarrow> string \<Rightarrow> string \<Rightarrow> string option" where
  "kvm_get w st k = map_of w (st, k)"

definition kvm_del :: "string \<Rightarrow> string list \<Rightarrow> kv_world \<Rightarrow> kv_world" where
  "kvm_del st ks w = filter (\<lambda>e. \<not> (fst (fst e) = st \<and> snd (fst e) \<in> set ks)) w"

definition kvm_put :: "string \<Rightarrow> string \<Rightarrow> string \<Rightarrow> kv_world \<Rightarrow> kv_world" where
  "kvm_put st k v w = ((st, k), v) # w"

definition kvm_entries :: "kv_world \<Rightarrow> string \<Rightarrow> string \<Rightarrow> (string \<times> string) list" where
  "kvm_entries w st p =
     concat (map (\<lambda>e. if fst (fst e) = st \<and> str_prefix p (snd (fst e)) \<and> kvm_get w st (snd (fst e)) = Some (snd e)
                      then [(snd (fst e), snd e)] else []) w)"

definition kv_model :: "kv_world kv_api" where
  "kv_model = \<lparr>
     kv_GetSingleKvStore = (\<lambda>_ _ w. (KV_SUCCESS, True, w)),
     kv_DeleteKvStore = (\<lambda>st w. (KV_SUCCESS, filter (\<lambda>e. fst (fst e) \<noteq> st) w)),
     kv_Get = (\<lambda>w st k. case kvm_get w st k of Some v \<Rightarrow> (KV_SUCCESS, v) | None \<Rightarrow> (KV_NOT_FOUND, [])),
     kv_GetEntries = (\<lambda>w st p. (KV_SUCCESS, kvm_entries w st p)),
     kv_Put = (\<lambda>st k v w. (KV_SUCCESS, kvm_put st k v w)),
     kv_PutBatch = (\<lambda>st es w. (KV_SUCCESS, fold (\<lambda>e. kvm_put st (fst e) (snd e)) es w)),
     kv_Delete = (\<lambda>st k w. (KV_SUCCESS, kvm_del st [k] w)),
     kv_DeleteBatch = (\<lambda>st ks w. (KV_SUCCESS, kvm_del st ks w)),
     kv_RemoveDeviceData = (\<lambda>_ _ w. (KV_SUCCESS, w)),
     kv_Sync = (\<lambda>_ _ w. (KV_SUCCESS, w)),
     kv_SubscribeKvStore = (\<lambda>_ _ w. (KV_SUCCESS, w)),
     kv_UnSubscribeKvStore = (\<lambda>_ _ w. (KV_SUCCESS, w)),
     kv_RegisterDeath = (\<lambda>_ w. w),
     kv_UnRegisterDeath = (\<lambda>_ w. w) \<rparr>"

lemma kvm_get_del: "kvm_get (kvm_del st ks w) st' k = (if st' = st \<and> k \<in> set ks then None else kvm_get w st' k)"
  by (induction w) (auto simp: kvm_get_def kvm_del_def)

lemma kvm_get_put: "kvm_get (kvm_put st k v w) = (kvm_get w)(st := (kvm_get w st)(k \<mapsto> v))"
  by (auto simp: kvm_get_def kvm_put_def fun_eq_iff)

lemma kvm_get_put_all:
  "kvm_get (fold (\<lambda>e. kvm_put st (fst e) (snd e)) es w) = (kvm_get w)(st := kvm_get w st ++ map_of (rev es))"
  by (induction es arbitrary: w) (auto simp: kvm_get_put map_add_def fun_eq_iff split: option.splits)

lemma set_kvm_entries: "set (kvm_entries w st p) = {(k, v). kvm_get w st k = Some v \<and> str_prefix p k}"
  by (auto simp: kvm_entries_def kvm_get_def dest: map_of_SomeD split: if_splits)

lemma kv_model_laws: "kv_laws kv_model kvm_get"
  unfolding kv_laws_def
proof (intro conjI allI impI)
  fix w st k
  show "case kvm_get w st k of Some v \<Rightarrow> kv_Get kv_model w st k = (KV_SUCCESS, v)
      | None \<Rightarrow> fst (kv_Get kv_model w st k) = KV_NOT_FOUND"
    by (auto simp: kv_model_def split: option.splits)
qed (auto simp: kv_model_def set_kvm_entries kvm_get_put kvm_get_put_all, auto simp: kvm_get_del fun_eq_iff)

definition env_model :: "(kv_world, jnode) env" where
  "env_model = \<lparr>
     env_dm = \<lparr> dm_GetLocalDeviceInfo = Some (''local'', ''phone'', 14),
       dm_GetUuidByNetworkId = Some, dm_GetUdidByNetworkId = Some \<rparr>,
     env_digest = (\<lambda>_. replicate 32 0), env_kv = kv_model, env_cj = model_cjson, env_open_source = True \<rparr>"

definition sys_model :: "kv_world sys" where
  "sys_model = \<lparr> sys_cx = DHContext_new, sys_world = [], sys_events = [] \<rparr>"

definition db_model :: "string \<Rightarrow> db_adapter" where
  "db_model st = \<lparr> db_storeId = st, db_open = True, db_isAutoSync = True, db_dataType = TYPE_DYNAMICAL \<rparr>"

lemma env_model_kv [simp]: "env_kv env_model = kv_model" and env_model_cj [simp]: "env_cj env_model = model_cjson"
  by (simp_all add: env_model_def)

section \<open>Instances\<close>

theorem Init_rebuilds_changed_store_witness:
  "let api = kv_model\<lparr>kv_GetSingleKvStore :=
         (\<lambda>_ _ w. if w = [] then (KV_SUCCESS, True, w) else (KV_STORE_META_CHANGED, False, w))\<rparr>;
       E = env_model\<lparr>env_kv := api\<rparr>
   in fst (DBAdapter_Init E True TYPE_DYNAMICAL
        (DBAdapter_new ''db'', sys_model\<lparr>sys_world := [((''db'', ''k''), ''v'')]\<rparr>)) = DH_FWK_SUCCESS"
  unfolding Let_def
  by (subst Init_rebuilds_changed_store [where ?w1.0 = "[((''db'', ''k''), ''v'')]" and ?w2.0 = "[]" and ?w3.0 = "[]" and p = False and st = KV_SUCCESS])
    (simp_all add: kv_model_def DBAdapter_new_def)

theorem closed_adapter_inert_witness:
  "snd (PutData env_model ''k'' ''v'' (DBAdapter_new ''db'', sys_model)) = (DBAdapter_new ''db'', sys_model)"
  using closed_adapter_inert [of "(DBAdapter_new ''db'', sys_model)" env_model "''k''" "''v''" "[]" "[]" True]
  by (simp add: DBAdapter_new_def)

theorem recovery_gives_up_after_failed_reopen_witness:
  "let E = env_model\<lparr>env_kv := kv_model\<lparr>kv_GetSingleKvStore := (\<lambda>_ _ w. (KV_ERROR, False, w))\<rparr>\<rparr>
   in OnRemoteDied E (db_model ''db'', sys_model) = ((db_model ''db'')\<lparr>db_open := False\<rparr>, sys_model)"
  unfolding Let_def
  using recovery_gives_up_after_failed_reopen [of "db_model ''db''"
      "env_model\<lparr>env_kv := kv_model\<lparr>kv_GetSingleKvStore := (\<lambda>_ _ w. (KV_ERROR, False, w))\<rparr>\<rparr>" sys_model KV_ERROR
      "(db_model ''db'')\<lparr>db_open := False\<rparr>" sys_model]
  by (simp add: reopen_def GetKvStorePtr_def open_store_def db_model_def sys_model_def)

theorem recovery_after_reopen_witness:
  "sys_events (snd (OnRemoteDied env_model (db_model GLOBAL_CAPABILITY_ID, sys_model))) = [EVENT_CAPABILITY_INFO_DB_RECOVER]"
proof -
  let ?db = "db_model GLOBAL_CAPABILITY_ID"
  have "db_open ?db" by (simp add: db_model_def)
  moreover have "reopen env_model (?db, sys_model) = (KV_SUCCESS, (?db, sys_model))"
    by (simp add: reopen_def GetKvStorePtr_def open_store_def db_model_def sys_model_def kv_model_def)
  ultimately have "sys_events (snd (OnRemoteDied env_model (?db, sys_model)))
      = sys_events sys_model @ recover_event_of (db_storeId ?db)"
    using recovery_after_reopen [of ?db env_model sys_model ?db sys_model] by blast
  then show ?thesis by (simp add: sys_model_def db_model_def recover_event_of_def)
qed

theorem ClearDataWhenPeerLogout_clears_witness:
  "let k = hex_string (replicate 32 0); s = sys_model\<lparr>sys_world := [((''db'', k), ''v'')]\<rparr>
   in kvm_get (sys_world (snd (snd (ClearDataWhenPeerLogout env_model ''udid'' ''uuid'' (db_model ''db'', s))))) ''db'' k = None"
proof -
  let ?k = "hex_string (replicate 32 0)" let ?s = "sys_model\<lparr>sys_world := [((''db'', ?k), ''v'')]\<rparr>"
  have h: "Sha256 (env_digest env_model) ''udid'' = ?k" by (simp add: env_model_def Sha256_eq)
  have pre: "str_prefix ?k ?k" by (simp add: str_prefix_iff)
  have res: "ClearDataWhenPeerLogout env_model ''udid'' ''uuid'' (db_model ''db'', ?s)
      = (True, (db_model ''db'', sys_model))"
    by (simp add: ClearDataWhenPeerLogout_def h kv_call_def kv_model_def db_model_def sys_model_def
        kvm_entries_def kvm_get_def kvm_del_def pre)
  have "kvm_get (sys_world sys_model) (db_storeId (db_model ''db'')) ?k =
    (if str_prefix (Sha256 (env_digest env_model) ''udid'') ?k then None
     else kvm_get (sys_world ?s) (db_storeId (db_model ''db'')) ?k)"
    by (rule ClearDataWhenPeerLogout_clears [OF _ _ res]) (simp_all add: kv_model_laws, simp add: kv_model_def)
  with res h pre show ?thesis by (simp add: Let_def db_model_def)
qed

theorem put_get_remove_witness:
  "read_key env_model ''k'' (snd (PutData env_model ''k'' ''v'' (db_model ''db'', sys_model))) = Some ''v''"
  using put_get_remove [of env_model kvm_get "db_model ''db''" "''k''" "''k''" "''v''" sys_model]
  by (simp add: kv_model_laws db_model_def IsIdLengthValid_def IsMessageLengthValid_def) (simp add: kv_model_def)

theorem PutData_hides_refusals_witness:
  "let E = env_model\<lparr>env_kv := kv_model\<lparr>kv_Put := (\<lambda>_ _ _ w. (KV_ERROR, w))\<rparr>\<rparr>
   in fst (PutData E ''k'' ''v'' (db_model ''db'', sys_model)) = DH_FWK_SUCCESS"
  unfolding Let_def
  using PutData_hides_refusals [of "db_model ''db''" "''k''" "''v''"
      "env_model\<lparr>env_kv := kv_model\<lparr>kv_Put := (\<lambda>_ _ _ w. (KV_ERROR, w))\<rparr>\<rparr>" sys_model]
  by (simp add: db_model_def IsIdLengthValid_def IsMessageLengthValid_def)

end
