(* ===== verification/DHF_Task.thy ===== *)
theory DHF_Task
  imports DHF_Context
begin

text \<open>
  Tasks, the task board, the task factory and the task executor (\<open>src/task/task.cpp\<close>,
  \<open>task_board.cpp\<close>, \<open>task_factory.cpp\<close>, \<open>task_executor.cpp\<close>, and the constructors of the six task
  classes). A \<open>std::shared_ptr<Task>\<close> is an index into \<open>ts_heap\<close>, the tasks that were ever created, so
  that the board, the queue and a father refer to one object. The tasks' bodies are in the theory
  \<open>DHF_Flow\<close>.

  \<open>GetRandomID\<close> draws two random words: \<open>rand n\<close> is the pair the \<open>n\<close>-th task draws. The executor's
  thread moves tasks from its queue to the event handler, which runs what was posted in order.
\<close>

section \<open>Data\<close>

datatype task_type = TaskType_UNKNOWN | TaskType_ENABLE | TaskType_DISABLE | TaskType_ON_LINE
  | TaskType_OFF_LINE | TaskType_META_ENABLE | TaskType_META_DISABLE

datatype task_step = DO_ENABLE | DO_DISABLE | SYNC_ONLINE_INFO | REGISTER_ONLINE_DISTRIBUTED_HARDWARE
  | UNREGISTER_OFFLINE_DISTRIBUTED_HARDWARE | CLEAR_OFFLINE_INFO | WAIT_UNREGISTGER_COMPLETE
  | META_ENABLE_TASK | META_DISABLE_TASK | DO_MODEM_META_ENABLE | DO_MODEM_META_DISABLE

datatype task_state = TaskState_INIT | TaskState_RUNNING | TaskState_SUCCESS | TaskState_FAIL

record task_param =
  tp_networkId :: string
  tp_uuid :: string
  tp_udid :: string
  tp_dhId :: string
  tp_dhType :: dhtype

text \<open>\<open>unFinishChildrenTasks_\<close> is a member of \<open>OffLineTask\<close>; it stays empty in the other classes.\<close>

record task =
  tk_id :: string
  tk_networkId :: string
  tk_uuid :: string
  tk_udid :: string
  tk_dhId :: string
  tk_dhType :: dhtype
  tk_taskType :: task_type
  tk_taskSteps :: "task_step list"
  tk_fatherTask :: "nat option"
  tk_childrenTasks :: "nat list"
  tk_taskState :: task_state
  tk_unFinishChildrenTasks :: "string list"

record task_dump =
  td_id :: string
  td_taskType :: task_type
  td_taskParm :: task_param
  td_taskState :: task_state
  td_taskSteps :: "task_step list"

record task_sys =
  ts_heap :: "task list"
  ts_tasks :: "(string, nat) smap"
  ts_enabledDevices :: "(string, task_param) smap"
  ts_taskQueue :: "nat list"
  ts_posted :: "nat list"

definition task_sys_new :: task_sys where
  "task_sys_new = \<lparr> ts_heap = [], ts_tasks = [], ts_enabledDevices = [], ts_taskQueue = [], ts_posted = [] \<rparr>"

abbreviation (input) MAX_TASK_QUEUE_LENGTH :: nat where "MAX_TASK_QUEUE_LENGTH \<equiv> 256"

type_synonym rand = "nat \<Rightarrow> 64 word \<times> 64 word"

section \<open>Task objects\<close>

text \<open>The constructor of \<open>Task\<close>; the body of the derived class then sets the type and the steps.\<close>

definition Task_new :: "string \<Rightarrow> task_param \<Rightarrow> task" where
  "Task_new rid p = \<lparr> tk_id = DH_TASK_NAME_PREFIX @ rid, tk_networkId = tp_networkId p, tk_uuid = tp_uuid p,
     tk_udid = tp_udid p, tk_dhId = tp_dhId p, tk_dhType = tp_dhType p, tk_taskType = TaskType_UNKNOWN,
     tk_taskSteps = [], tk_fatherTask = None, tk_childrenTasks = [], tk_taskState = TaskState_INIT,
     tk_unFinishChildrenTasks = [] \<rparr>"

definition EnableTask_new :: "string \<Rightarrow> task_param \<Rightarrow> task" where
  "EnableTask_new rid p = (Task_new rid p)\<lparr>tk_taskType := TaskType_ENABLE, tk_taskSteps := [DO_ENABLE]\<rparr>"

definition DisableTask_new :: "string \<Rightarrow> task_param \<Rightarrow> task" where
  "DisableTask_new rid p = (Task_new rid p)\<lparr>tk_taskType := TaskType_DISABLE, tk_taskSteps := [DO_DISABLE]\<rparr>"

definition OnLineTask_new :: "string \<Rightarrow> task_param \<Rightarrow> task" where
  "OnLineTask_new rid p = (Task_new rid p)\<lparr>tk_taskType := TaskType_ON_LINE,
     tk_taskSteps := [SYNC_ONLINE_INFO, REGISTER_ONLINE_DISTRIBUTED_HARDWARE, META_ENABLE_TASK]\<rparr>"

definition OffLineTask_new :: "string \<Rightarrow> task_param \<Rightarrow> task" where
  "OffLineTask_new rid p = (Task_new rid p)\<lparr>tk_taskType := TaskType_OFF_LINE,
     tk_taskSteps := [META_DISABLE_TASK, UNREGISTER_OFFLINE_DISTRIBUTED_HARDWARE, WAIT_UNREGISTGER_COMPLETE,
       CLEAR_OFFLINE_INFO]\<rparr>"

definition MetaEnableTask_new :: "string \<Rightarrow> task_param \<Rightarrow> task" where
  "MetaEnableTask_new rid p =
     (Task_new rid p)\<lparr>tk_taskType := TaskType_META_ENABLE, tk_taskSteps := [DO_MODEM_META_ENABLE]\<rparr>"

definition MetaDisableTask_new :: "string \<Rightarrow> task_param \<Rightarrow> task" where
  "MetaDisableTask_new rid p =
     (Task_new rid p)\<lparr>tk_taskType := TaskType_META_DISABLE, tk_taskSteps := [DO_MODEM_META_DISABLE]\<rparr>"

text \<open>An update of the object a pointer refers to.\<close>

definition upd_task :: "nat \<Rightarrow> (task \<Rightarrow> task) \<Rightarrow> task_sys \<Rightarrow> task_sys" where
  "upd_task r f ts = (if r < length (ts_heap ts) then ts\<lparr>ts_heap := (ts_heap ts)[r := f (ts_heap ts ! r)]\<rparr> else ts)"

definition SetTaskState :: "nat \<Rightarrow> task_state \<Rightarrow> task_sys \<Rightarrow> task_sys" where
  "SetTaskState r st = upd_task r (\<lambda>t. t\<lparr>tk_taskState := st\<rparr>)"

definition SetFatherTask :: "nat \<Rightarrow> nat \<Rightarrow> task_sys \<Rightarrow> task_sys" where
  "SetFatherTask r father = upd_task r (\<lambda>t. t\<lparr>tk_fatherTask := Some father\<rparr>)"

definition Task_AddChildrenTask :: "nat \<Rightarrow> task \<Rightarrow> task" where
  "Task_AddChildrenTask child t = t\<lparr>tk_childrenTasks := tk_childrenTasks t @ [child]\<rparr>"

definition OffLineTask_AddChildrenTask :: "string \<Rightarrow> task \<Rightarrow> task" where
  "OffLineTask_AddChildrenTask childId t =
     t\<lparr>tk_unFinishChildrenTasks := sset_insert childId (tk_unFinishChildrenTasks t)\<rparr>"

definition NotifyFatherFinish :: "nat \<Rightarrow> string \<Rightarrow> task_sys \<Rightarrow> task_sys" where
  "NotifyFatherFinish father taskId =
     upd_task father (\<lambda>t. t\<lparr>tk_unFinishChildrenTasks := sset_erase taskId (tk_unFinishChildrenTasks t)\<rparr>)"

text \<open>The virtual call \<open>fatherTask->AddChildrenTask(task)\<close>: \<open>OffLineTask\<close> overrides it.\<close>

definition AddChildrenTask :: "nat \<Rightarrow> nat \<Rightarrow> string \<Rightarrow> task_sys \<Rightarrow> task_sys" where
  "AddChildrenTask father child childId =
     upd_task father (\<lambda>t. if tk_taskType t = TaskType_OFF_LINE then OffLineTask_AddChildrenTask childId t
                          else Task_AddChildrenTask child t)"

section \<open>The task board\<close>

definition IsAllTaskFinish :: "task_sys \<Rightarrow> bool" where
  "IsAllTaskFinish ts \<longleftrightarrow> ts_tasks ts = []"

text \<open>\<open>WaitForALLTaskFinish\<close>, with the state at the end of the wait: within the timeout the wait
  ends when the board is empty.\<close>

definition WaitForALLTaskFinish :: "task_sys \<Rightarrow> ret" where
  "WaitForALLTaskFinish ts = (if \<not> IsAllTaskFinish ts then ERR_DH_FWK_TASK_TIMEOUT else DH_FWK_SUCCESS)"

definition AddTask :: "nat option \<Rightarrow> task_sys \<Rightarrow> task_sys" where
  "AddTask task ts =
     (case task of
        None \<Rightarrow> ts
      | Some r \<Rightarrow>
          if smap_get (ts_tasks ts) (tk_id (ts_heap ts ! r)) \<noteq> None then ts
          else ts\<lparr>ts_tasks := smap_emplace (tk_id (ts_heap ts ! r)) r (ts_tasks ts)\<rparr>)"

definition RemoveTaskInner :: "string \<Rightarrow> task_sys \<Rightarrow> task_sys" where
  "RemoveTaskInner taskId ts =
     (if smap_get (ts_tasks ts) taskId = None then ts else ts\<lparr>ts_tasks := smap_erase taskId (ts_tasks ts)\<rparr>)"

text \<open>\<open>RemoveTask\<close> also wakes the waiter of \<open>WaitForALLTaskFinish\<close> when the board becomes empty.\<close>

definition RemoveTask :: "string \<Rightarrow> task_sys \<Rightarrow> task_sys" where
  "RemoveTask taskId ts = RemoveTaskInner taskId ts"

text \<open>The dump names no task state, so the member has its zero value \<open>INIT\<close>; likewise the udid is empty.\<close>

definition DumpAllTasks :: "task_sys \<Rightarrow> task_dump list \<Rightarrow> task_dump list" where
  "DumpAllTasks ts taskInfos = taskInfos @
     map (\<lambda>(k, r). let t = ts_heap ts ! r in
       \<lparr> td_id = tk_id t, td_taskType = tk_taskType t,
         td_taskParm = \<lparr> tp_networkId = tk_networkId t, tp_uuid = tk_uuid t, tp_udid = [], tp_dhId = tk_dhId t,
           tp_dhType = tk_dhType t \<rparr>,
         td_taskState = TaskState_INIT,
         td_taskSteps = tk_taskSteps t \<rparr>) (ts_tasks ts)"

definition SaveEnabledDevice :: "string \<Rightarrow> task_param \<Rightarrow> task_sys \<Rightarrow> task_sys" where
  "SaveEnabledDevice enabledDeviceKey taskParam ts =
     ts\<lparr>ts_enabledDevices := smap_put enabledDeviceKey taskParam (ts_enabledDevices ts)\<rparr>"

definition RemoveEnabledDevice :: "string \<Rightarrow> task_sys \<Rightarrow> task_sys" where
  "RemoveEnabledDevice enabledDeviceKey ts =
     ts\<lparr>ts_enabledDevices := smap_erase enabledDeviceKey (ts_enabledDevices ts)\<rparr>"

definition GetEnabledDevice :: "task_sys \<Rightarrow> (string, task_param) smap" where
  "GetEnabledDevice ts = ts_enabledDevices ts"

definition IsEnabledDevice :: "task_sys \<Rightarrow> string \<Rightarrow> bool" where
  "IsEnabledDevice ts enabledDeviceKey = list_ex (\<lambda>e. fst e = enabledDeviceKey) (ts_enabledDevices ts)"

section \<open>The task factory\<close>

definition make_task :: "task_type \<Rightarrow> string \<Rightarrow> task_param \<Rightarrow> task option" where
  "make_task taskType rid p =
     (case taskType of
        TaskType_ENABLE \<Rightarrow> Some (EnableTask_new rid p)
      | TaskType_DISABLE \<Rightarrow> Some (DisableTask_new rid p)
      | TaskType_ON_LINE \<Rightarrow> Some (OnLineTask_new rid p)
      | TaskType_OFF_LINE \<Rightarrow> Some (OffLineTask_new rid p)
      | TaskType_META_ENABLE \<Rightarrow> Some (MetaEnableTask_new rid p)
      | TaskType_META_DISABLE \<Rightarrow> Some (MetaDisableTask_new rid p)
      | TaskType_UNKNOWN \<Rightarrow> None)"

definition random_id :: "rand \<Rightarrow> nat \<Rightarrow> string" where
  "random_id rand n = (case rand n of (ab, cd) \<Rightarrow> GetRandomID ab cd)"

definition CreateTask :: "rand \<Rightarrow> task_type \<Rightarrow> task_param \<Rightarrow> nat option \<Rightarrow> task_sys \<Rightarrow> nat option \<times> task_sys" where
  "CreateTask rand taskType taskParam fatherTask ts =
     (case make_task taskType (random_id rand (length (ts_heap ts))) taskParam of
        None \<Rightarrow> (None, ts)
      | Some t \<Rightarrow>
          (let r = length (ts_heap ts);
               ts1 = ts\<lparr>ts_heap := ts_heap ts @ [t]\<rparr>;
               ts2 = (case fatherTask of None \<Rightarrow> ts1 | Some f \<Rightarrow> AddChildrenTask f r (tk_id t) (SetFatherTask r f ts1))
           in (Some r, AddTask (Some r) ts2)))"

section \<open>The task executor\<close>

definition PushTask :: "nat option \<Rightarrow> task_sys \<Rightarrow> task_sys" where
  "PushTask task ts =
     (case task of
        None \<Rightarrow> ts
      | Some r \<Rightarrow>
          if length (ts_taskQueue ts) > MAX_TASK_QUEUE_LENGTH then ts
          else ts\<lparr>ts_taskQueue := ts_taskQueue ts @ [r]\<rparr>)"

text \<open>\<open>PopTask\<close> waits while the queue is empty: \<open>None\<close> is the state in which it waits.\<close>

definition PopTask :: "task_sys \<Rightarrow> (nat \<times> task_sys) option" where
  "PopTask ts = (case ts_taskQueue ts of [] \<Rightarrow> None | r # q \<Rightarrow> Some (r, ts\<lparr>ts_taskQueue := q\<rparr>))"

text \<open>One round of the loop of \<open>TriggerTask\<close>: the task is posted to the event handler.\<close>

definition TriggerTask :: "task_sys \<Rightarrow> task_sys option" where
  "TriggerTask ts = map_option (\<lambda>(r, ts1). ts1\<lparr>ts_posted := ts_posted ts1 @ [r]\<rparr>) (PopTask ts)"

definition create_and_push :: "rand \<Rightarrow> task_type \<Rightarrow> task_param \<Rightarrow> nat option \<Rightarrow> task_sys \<Rightarrow> task_sys" where
  "create_and_push rand taskType taskParam fatherTask ts =
     (let (task, ts1) = CreateTask rand taskType taskParam fatherTask ts in PushTask task ts1)"

section \<open>The queue\<close>

text \<open>
  The contract of the executor's queue: what is pushed comes out in the order of the pushes, and a push
  onto a queue with more than \<open>cap\<close> elements is dropped.
\<close>

primrec pop_n :: "('q \<Rightarrow> ('a \<times> 'q) option) \<Rightarrow> nat \<Rightarrow> 'q \<Rightarrow> ('a list \<times> 'q) option" where
  "pop_n pop 0 q = Some ([], q)"
| "pop_n pop (Suc n) q =
     (case pop q of None \<Rightarrow> None | Some (x, q1) \<Rightarrow> map_option (\<lambda>(xs, q2). (x # xs, q2)) (pop_n pop n q1))"

locale bounded_fifo =
  fixes push :: "'a \<Rightarrow> 'q \<Rightarrow> 'q" and pop :: "'q \<Rightarrow> ('a \<times> 'q) option" and items :: "'q \<Rightarrow> 'a list" and cap :: nat
  assumes push_items: "items (push x q) = (if length (items q) > cap then items q else items q @ [x])"
    and pop_None: "pop q = None \<longleftrightarrow> items q = []"
    and pop_Some: "pop q = Some (x, q') \<Longrightarrow> items q = x # items q'"
begin

lemma push_bound: "length (items q) \<le> Suc cap \<Longrightarrow> length (items (push x q)) \<le> Suc cap"
  by (simp add: push_items)

lemma push_all_bound: "length (items q) \<le> Suc cap \<Longrightarrow> length (items (fold push xs q)) \<le> Suc cap"
  by (induction xs arbitrary: q) (simp_all add: push_bound)

lemma push_all: "length (items q) + length xs \<le> Suc cap \<Longrightarrow> items (fold push xs q) = items q @ xs"
  by (induction xs arbitrary: q) (simp_all add: push_items)

lemma push_all_full: "length (items q) = Suc cap \<Longrightarrow> items (fold push xs q) = items q"
  by (induction xs arbitrary: q) (simp_all add: push_items)

lemma pop_n_items:
  "n \<le> length (items q) \<Longrightarrow> \<exists>q'. pop_n pop n q = Some (take n (items q), q') \<and> items q' = drop n (items q)"
proof (induction n arbitrary: q)
  case 0
  then show ?case by simp
next
  case (Suc n)
  then have "pop q \<noteq> None" by (auto simp: pop_None)
  then obtain x q1 where pop: "pop q = Some (x, q1)" by auto
  with pop_Some [OF pop] Suc.prems have "n \<le> length (items q1)" by simp
  from Suc.IH [OF this] pop pop_Some [OF pop] show ?case by auto
qed

lemma fifo:
  assumes "length (items q) + length xs \<le> Suc cap" and "n = length (items q) + length xs"
  shows "\<exists>q'. pop_n pop n (fold push xs q) = Some (items q @ xs, q') \<and> items q' = []"
  using pop_n_items [of n "fold push xs q"] assms by (simp add: push_all)

end

interpretation executor: bounded_fifo "\<lambda>r. PushTask (Some r)" PopTask ts_taskQueue MAX_TASK_QUEUE_LENGTH
  by unfold_locales (auto simp: PushTask_def PopTask_def split: list.splits)

text \<open>
  Property C23. The executor's queue is first-in first-out: as long as the pushed tasks fit, popping until
  the queue is empty returns the waiting tasks and then the pushed ones, in their order. The queue takes
  at most 257 tasks, one more than \<open>MAX_TASK_QUEUE_LENGTH\<close>, and drops the rest without a trace.
\<close>

theorem executor_fifo:
  "(length (ts_taskQueue ts) + length rs \<le> 257 \<longrightarrow>
      (\<exists>ts'. pop_n PopTask (length (ts_taskQueue ts) + length rs) (fold (\<lambda>r. PushTask (Some r)) rs ts)
               = Some (ts_taskQueue ts @ rs, ts') \<and> ts_taskQueue ts' = []))
   \<and> (length (ts_taskQueue ts) \<le> 257 \<longrightarrow> length (ts_taskQueue (fold (\<lambda>r. PushTask (Some r)) rs ts)) \<le> 257)
   \<and> (length (ts_taskQueue ts) = 257 \<longrightarrow> ts_taskQueue (fold (\<lambda>r. PushTask (Some r)) rs ts) = ts_taskQueue ts)"
  using executor.fifo [of ts rs "length (ts_taskQueue ts) + length rs"] executor.push_all_bound [of ts rs]
    executor.push_all_full [of ts rs]
  by simp

theorem executor_fifo_witness:
  "\<exists>ts'. pop_n PopTask 2 (fold (\<lambda>r. PushTask (Some r)) [4, 7] task_sys_new) = Some ([4, 7], ts') \<and> ts_taskQueue ts' = []"
  using executor_fifo [of task_sys_new "[4, 7]"] by (simp add: task_sys_new_def numeral_2_eq_2)

section \<open>Invariant\<close>

definition task_id :: "rand \<Rightarrow> nat \<Rightarrow> string" where
  "task_id rand n = DH_TASK_NAME_PREFIX @ random_id rand n"

definition heap_ok :: "rand \<Rightarrow> task list \<Rightarrow> bool" where
  "heap_ok rand h \<longleftrightarrow> (\<forall>r < length h. tk_id (h ! r) = task_id rand r
     \<and> (\<forall>f. tk_fatherTask (h ! r) = Some f \<longrightarrow> f < r) \<and> sset_sorted (tk_unFinishChildrenTasks (h ! r)))"

definition task_sys_ok :: "rand \<Rightarrow> task_sys \<Rightarrow> bool" where
  "task_sys_ok rand ts \<longleftrightarrow> heap_ok rand (ts_heap ts)
     \<and> smap_sorted (ts_tasks ts) \<and> smap_sorted (ts_enabledDevices ts)
     \<and> (\<forall>k r. smap_get (ts_tasks ts) k = Some r \<longrightarrow> r < length (ts_heap ts) \<and> k = task_id rand r)
     \<and> (\<forall>r \<in> set (ts_taskQueue ts) \<union> set (ts_posted ts). r < length (ts_heap ts))
     \<and> length (ts_taskQueue ts) \<le> 257"

lemma make_task_fields:
  "make_task tt rid p = Some t \<Longrightarrow> tk_id t = DH_TASK_NAME_PREFIX @ rid \<and> tk_taskType t = tt \<and> tk_fatherTask t = None
   \<and> tk_unFinishChildrenTasks t = [] \<and> tk_childrenTasks t = [] \<and> tk_taskState t = TaskState_INIT
   \<and> tk_networkId t = tp_networkId p \<and> tk_uuid t = tp_uuid p \<and> tk_udid t = tp_udid p \<and> tk_dhId t = tp_dhId p
   \<and> tk_dhType t = tp_dhType p"
  by (auto simp: make_task_def Task_new_def EnableTask_new_def DisableTask_new_def OnLineTask_new_def
      OffLineTask_new_def MetaEnableTask_new_def MetaDisableTask_new_def split: task_type.splits)

lemma make_task_None: "make_task tt rid p = None \<longleftrightarrow> tt = TaskType_UNKNOWN"
  by (simp add: make_task_def split: task_type.splits)

text \<open>Updates of an object that keep its identifier, its father and the order of the waiting set.\<close>

definition keeps_identity :: "(task \<Rightarrow> task) \<Rightarrow> bool" where
  "keeps_identity f \<longleftrightarrow> (\<forall>t. tk_id (f t) = tk_id t \<and> tk_fatherTask (f t) = tk_fatherTask t
     \<and> (sset_sorted (tk_unFinishChildrenTasks t) \<longrightarrow> sset_sorted (tk_unFinishChildrenTasks (f t))))"

lemma upd_task_frame [simp]:
  "ts_tasks (upd_task r f ts) = ts_tasks ts" "ts_enabledDevices (upd_task r f ts) = ts_enabledDevices ts"
  "ts_taskQueue (upd_task r f ts) = ts_taskQueue ts" "ts_posted (upd_task r f ts) = ts_posted ts"
  "length (ts_heap (upd_task r f ts)) = length (ts_heap ts)"
  by (simp_all add: upd_task_def)

lemma upd_task_nth:
  "r' < length (ts_heap ts) \<Longrightarrow> ts_heap (upd_task r f ts) ! r' = (if r' = r then f (ts_heap ts ! r) else ts_heap ts ! r')"
  by (simp add: upd_task_def)

lemma task_sys_ok_upd: "keeps_identity f \<Longrightarrow> task_sys_ok rand ts \<Longrightarrow> task_sys_ok rand (upd_task r f ts)"
  by (simp add: task_sys_ok_def heap_ok_def upd_task_nth keeps_identity_def)

lemma keeps_identity_ops:
  "keeps_identity (\<lambda>t. t\<lparr>tk_taskState := st\<rparr>)"
  "keeps_identity (\<lambda>t. if tk_taskType t = TaskType_OFF_LINE then OffLineTask_AddChildrenTask cid t
                       else Task_AddChildrenTask c t)"
  "keeps_identity (\<lambda>t. t\<lparr>tk_unFinishChildrenTasks := sset_erase cid (tk_unFinishChildrenTasks t)\<rparr>)"
  by (auto simp: keeps_identity_def OffLineTask_AddChildrenTask_def Task_AddChildrenTask_def)

lemma task_sys_ok_new: "task_sys_ok rand task_sys_new"
  by (simp add: task_sys_ok_def task_sys_new_def heap_ok_def)

lemma task_sys_ok_objects [dhf_inv]:
  assumes "task_sys_ok rand ts"
  shows "task_sys_ok rand (SetTaskState r st ts)" and "task_sys_ok rand (AddChildrenTask f c cid ts)"
    and "task_sys_ok rand (NotifyFatherFinish f cid ts)"
  unfolding SetTaskState_def AddChildrenTask_def NotifyFatherFinish_def
  using assms by (auto intro: task_sys_ok_upd keeps_identity_ops)

lemma task_sys_ok_board [dhf_inv]:
  assumes "task_sys_ok rand ts"
  shows "task_sys_ok rand (RemoveTask cid ts)" and "task_sys_ok rand (SaveEnabledDevice k p ts)"
    and "task_sys_ok rand (RemoveEnabledDevice k ts)"
  using assms
  by (auto simp: task_sys_ok_def RemoveTask_def RemoveTaskInner_def SaveEnabledDevice_def RemoveEnabledDevice_def
      split: if_splits)

lemma task_sys_ok_push [dhf_inv]:
  "task_sys_ok rand ts \<Longrightarrow> (\<And>r. task = Some r \<Longrightarrow> r < length (ts_heap ts)) \<Longrightarrow> task_sys_ok rand (PushTask task ts)"
  by (auto simp: task_sys_ok_def PushTask_def split: option.splits)

lemma task_sys_ok_trigger [dhf_inv]:
  "task_sys_ok rand ts \<Longrightarrow> TriggerTask ts = Some ts' \<Longrightarrow> task_sys_ok rand ts'"
  by (auto simp: task_sys_ok_def TriggerTask_def PopTask_def split: list.splits)

section \<open>Creation\<close>

text \<open>The identifier the next task draws is not one that was drawn before.\<close>

definition fresh_id :: "rand \<Rightarrow> nat \<Rightarrow> bool" where
  "fresh_id rand n \<longleftrightarrow> (\<forall>r < n. task_id rand r \<noteq> task_id rand n)"

text \<open>The object that a creation leaves behind, and the father after it.\<close>

definition created :: "task_type \<Rightarrow> string \<Rightarrow> task_param \<Rightarrow> nat option \<Rightarrow> task" where
  "created tt rid p father = (the (make_task tt rid p))\<lparr>tk_fatherTask := father\<rparr>"

lemma heap_ok_snoc:
  assumes "heap_ok rand h" and "tk_id t = task_id rand (length h)" and "\<And>f. tk_fatherTask t = Some f \<Longrightarrow> f < length h"
    and "sset_sorted (tk_unFinishChildrenTasks t)"
  shows "heap_ok rand (h @ [t])"
  using assms by (auto simp: heap_ok_def nth_append less_Suc_eq)

lemma task_sys_ok_append:
  assumes "task_sys_ok rand ts" and "tk_id t = task_id rand (length (ts_heap ts))"
    and "\<And>f. tk_fatherTask t = Some f \<Longrightarrow> f < length (ts_heap ts)" and "sset_sorted (tk_unFinishChildrenTasks t)"
  shows "task_sys_ok rand (ts\<lparr>ts_heap := ts_heap ts @ [t]\<rparr>)"
  using assms by (auto simp: task_sys_ok_def heap_ok_snoc less_Suc_eq)

lemma AddTask_ok:
  "task_sys_ok rand ts \<Longrightarrow> r < length (ts_heap ts) \<Longrightarrow> task_sys_ok rand (AddTask (Some r) ts)"
  by (auto simp: task_sys_ok_def heap_ok_def AddTask_def smap_get_emplace split: if_splits)

lemma AddTask_frame [simp]:
  "ts_heap (AddTask t ts) = ts_heap ts" "ts_enabledDevices (AddTask t ts) = ts_enabledDevices ts"
  "ts_taskQueue (AddTask t ts) = ts_taskQueue ts" "ts_posted (AddTask t ts) = ts_posted ts"
  by (simp_all add: AddTask_def split: option.splits)

lemma AddChildrenTask_frame [simp]:
  "ts_tasks (AddChildrenTask f c i ts) = ts_tasks ts" "ts_enabledDevices (AddChildrenTask f c i ts) = ts_enabledDevices ts"
  "ts_taskQueue (AddChildrenTask f c i ts) = ts_taskQueue ts" "ts_posted (AddChildrenTask f c i ts) = ts_posted ts"
  "length (ts_heap (AddChildrenTask f c i ts)) = length (ts_heap ts)"
  by (simp_all add: AddChildrenTask_def)

text \<open>\<open>SetFatherTask\<close> right after the object was made writes into the new object.\<close>

lemma SetFather_append:
  "SetFatherTask (length (ts_heap ts)) f (ts\<lparr>ts_heap := ts_heap ts @ [t]\<rparr>)
     = ts\<lparr>ts_heap := ts_heap ts @ [t\<lparr>tk_fatherTask := Some f\<rparr>]\<rparr>"
  by (simp add: SetFatherTask_def upd_task_def)

lemma no_father: "tk_fatherTask t = None \<Longrightarrow> t\<lparr>tk_fatherTask := None\<rparr> = t"
  by (cases t) simp

lemma CreateTask_unfold:
  fixes rand :: rand and ts :: task_sys
  assumes "tt \<noteq> TaskType_UNKNOWN"
  defines "rid \<equiv> random_id rand (length (ts_heap ts))"
  shows "CreateTask rand tt p father ts =
    (Some (length (ts_heap ts)),
     AddTask (Some (length (ts_heap ts)))
       (case father of
          None \<Rightarrow> ts\<lparr>ts_heap := ts_heap ts @ [created tt rid p None]\<rparr>
        | Some f \<Rightarrow> AddChildrenTask f (length (ts_heap ts)) (task_id rand (length (ts_heap ts)))
                     (ts\<lparr>ts_heap := ts_heap ts @ [created tt rid p (Some f)]\<rparr>)))"
proof -
  from assms obtain t where t: "make_task tt rid p = Some t" using make_task_None by blast
  have "tk_fatherTask t = None" "tk_id t = task_id rand (length (ts_heap ts))"
    using make_task_fields [OF t] by (simp_all add: task_id_def rid_def)
  then show ?thesis using t
    by (auto simp: CreateTask_def rid_def created_def Let_def SetFather_append no_father split: option.splits)
qed

lemma created_fields [simp]:
  assumes "tt \<noteq> TaskType_UNKNOWN"
  shows "tk_id (created tt rid p f) = DH_TASK_NAME_PREFIX @ rid" "tk_fatherTask (created tt rid p f) = f"
    "tk_unFinishChildrenTasks (created tt rid p f) = []" "tk_taskState (created tt rid p f) = TaskState_INIT"
    "tk_taskType (created tt rid p f) = tt" "tk_networkId (created tt rid p f) = tp_networkId p"
    "tk_uuid (created tt rid p f) = tp_uuid p" "tk_udid (created tt rid p f) = tp_udid p"
    "tk_dhId (created tt rid p f) = tp_dhId p" "tk_dhType (created tt rid p f) = tp_dhType p"
proof -
  from assms obtain t where t: "make_task tt rid p = Some t" using make_task_None by blast
  from make_task_fields [OF t]
  show "tk_id (created tt rid p f) = DH_TASK_NAME_PREFIX @ rid" "tk_fatherTask (created tt rid p f) = f"
    "tk_unFinishChildrenTasks (created tt rid p f) = []" "tk_taskState (created tt rid p f) = TaskState_INIT"
    "tk_taskType (created tt rid p f) = tt" "tk_networkId (created tt rid p f) = tp_networkId p"
    "tk_uuid (created tt rid p f) = tp_uuid p" "tk_udid (created tt rid p f) = tp_udid p"
    "tk_dhId (created tt rid p f) = tp_dhId p" "tk_dhType (created tt rid p f) = tp_dhType p"
    by (simp_all add: created_def t)
qed

lemma task_sys_ok_create [dhf_inv]:
  assumes "task_sys_ok rand ts" and "\<And>f. father = Some f \<Longrightarrow> f < length (ts_heap ts)"
  shows "task_sys_ok rand (snd (CreateTask rand tt p father ts))"
proof (cases "tt = TaskType_UNKNOWN")
  case True
  with assms show ?thesis by (simp add: CreateTask_def make_task_def)
next
  case False
  let ?t = "created tt (random_id rand (length (ts_heap ts))) p father"
  let ?ts1 = "ts\<lparr>ts_heap := ts_heap ts @ [?t]\<rparr>"
  have "task_sys_ok rand ?ts1"
    using assms False by (intro task_sys_ok_append) (auto simp: task_id_def)
  then show ?thesis
    unfolding CreateTask_unfold [OF False]
    by (auto split: option.splits intro!: AddTask_ok task_sys_ok_objects)
qed

lemma CreateTask_board:
  assumes ok: "task_sys_ok rand ts" and tt: "tt \<noteq> TaskType_UNKNOWN" and fr: "fresh_id rand (length (ts_heap ts))"
  shows "ts_tasks (snd (CreateTask rand tt p father ts))
       = smap_put (task_id rand (length (ts_heap ts))) (length (ts_heap ts)) (ts_tasks ts)"
proof -
  have none: "smap_get (ts_tasks ts) (task_id rand (length (ts_heap ts))) = None"
    using ok fr unfolding task_sys_ok_def fresh_id_def by (metis not_None_eq)
  have id: "tk_id (created tt (random_id rand (length (ts_heap ts))) p f) = task_id rand (length (ts_heap ts))" for f
    using tt by (simp add: task_id_def)
  show ?thesis
    unfolding CreateTask_unfold [OF tt]
    by (cases father) (auto simp: AddTask_def AddChildrenTask_def upd_task_def nth_append nth_list_update id none
        smap_emplace_def OffLineTask_AddChildrenTask_def Task_AddChildrenTask_def)
qed

lemma CreateTask_unknown: "CreateTask rand TaskType_UNKNOWN p father ts = (None, ts)"
  by (simp add: CreateTask_def make_task_def)

lemma CreateTask_length:
  assumes "tt \<noteq> TaskType_UNKNOWN"
  shows "fst (CreateTask rand tt p father ts) = Some (length (ts_heap ts))"
    and "length (ts_heap (snd (CreateTask rand tt p father ts))) = Suc (length (ts_heap ts))"
  by (simp_all add: CreateTask_unfold [OF assms] split: option.splits)

lemma create_and_push_ok [dhf_inv]:
  assumes "task_sys_ok rand ts" and "\<And>f. father = Some f \<Longrightarrow> f < length (ts_heap ts)"
  shows "task_sys_ok rand (create_and_push rand tt p father ts)"
proof (cases "tt = TaskType_UNKNOWN")
  case True
  with assms(1) show ?thesis by (simp add: create_and_push_def CreateTask_unknown PushTask_def)
next
  case False
  have "task_sys_ok rand (snd (CreateTask rand tt p father ts))" using assms by (rule task_sys_ok_create)
  with CreateTask_length [OF False, of rand p father ts] show ?thesis
    by (auto simp: create_and_push_def Let_def split: prod.splits intro!: task_sys_ok_push)
qed

lemma CreateTask_father:
  fixes rand :: rand and ts :: task_sys and f :: nat and tt :: task_type and p :: task_param
  assumes "tt \<noteq> TaskType_UNKNOWN" and "f < length (ts_heap ts)"
  defines "r \<equiv> length (ts_heap ts)" and "h \<equiv> ts_heap (snd (CreateTask rand tt p (Some f) ts))"
  shows "h ! f = (if tk_taskType (ts_heap ts ! f) = TaskType_OFF_LINE
                  then OffLineTask_AddChildrenTask (task_id rand r) (ts_heap ts ! f)
                  else Task_AddChildrenTask r (ts_heap ts ! f))"
    and "h ! r = created tt (random_id rand r) p (Some f)"
    and "length h = Suc r" and "\<And>i. i < r \<Longrightarrow> i \<noteq> f \<Longrightarrow> h ! i = ts_heap ts ! i"
  using assms(2) unfolding h_def r_def CreateTask_unfold [OF assms(1)]
  by (simp_all add: AddChildrenTask_def upd_task_def nth_append nth_list_update)

text \<open>
  A task created for a father is a new object with the given parameters in state \<open>INIT\<close>,
  stands on the board under its own identifier, and is registered with its father: an \<open>OffLineTask\<close>
  adds the identifier to the set it will wait for, any other task appends it to its children. Nothing
  else on the board and no other task changes.
\<close>

theorem CreateTask_registers:
  fixes rand :: rand and ts :: task_sys and p :: task_param
  assumes ok: "task_sys_ok rand ts" and tt: "tt \<noteq> TaskType_UNKNOWN" and f: "f < length (ts_heap ts)"
    and fr: "fresh_id rand (length (ts_heap ts))"
  defines "r \<equiv> length (ts_heap ts)" and "ts' \<equiv> snd (CreateTask rand tt p (Some f) ts)"
  shows "fst (CreateTask rand tt p (Some f) ts) = Some r
       \<and> ts_heap ts' ! r = created tt (random_id rand r) p (Some f)
       \<and> smap_get (ts_tasks ts') = (smap_get (ts_tasks ts))(task_id rand r \<mapsto> r)
       \<and> (if tk_taskType (ts_heap ts ! f) = TaskType_OFF_LINE
          then set (tk_unFinishChildrenTasks (ts_heap ts' ! f))
                 = insert (task_id rand r) (set (tk_unFinishChildrenTasks (ts_heap ts ! f)))
          else tk_childrenTasks (ts_heap ts' ! f) = tk_childrenTasks (ts_heap ts ! f) @ [r])
       \<and> (\<forall>i < r. i \<noteq> f \<longrightarrow> ts_heap ts' ! i = ts_heap ts ! i)
       \<and> ts_taskQueue ts' = ts_taskQueue ts \<and> task_sys_ok rand ts'"
proof -
  note F = CreateTask_father [where rand = rand and p = p, OF tt f]
  have "fst (CreateTask rand tt p (Some f) ts) = Some r" and q: "ts_taskQueue ts' = ts_taskQueue ts"
    by (simp_all add: CreateTask_unfold [OF tt] r_def ts'_def)
  moreover have "smap_get (ts_tasks ts') = (smap_get (ts_tasks ts))(task_id rand r \<mapsto> r)"
    unfolding ts'_def r_def by (simp add: CreateTask_board [OF ok tt fr])
  moreover have "task_sys_ok rand ts'" unfolding ts'_def using ok f by (intro task_sys_ok_create) auto
  ultimately show ?thesis
    using F by (auto simp: r_def ts'_def OffLineTask_AddChildrenTask_def Task_AddChildrenTask_def)
qed

definition sample_param :: task_param where
  "sample_param = \<lparr> tp_networkId = ''net'', tp_uuid = ''uuid'', tp_udid = ''udid'', tp_dhId = ''Camera_1'',
     tp_dhType = DHType_CAMERA \<rparr>"

definition sample_rand :: rand where
  "sample_rand n = (word_of_nat n * 0x10000, 0)"

text \<open>A system with one offline task that has not begun.\<close>

definition sample_ts :: task_sys where
  "sample_ts = snd (CreateTask sample_rand TaskType_OFF_LINE sample_param None task_sys_new)"

lemma sample_ts_ok: "task_sys_ok sample_rand sample_ts"
  unfolding sample_ts_def by (rule task_sys_ok_create [OF task_sys_ok_new]) simp

lemma sample_ts_heap:
  "ts_heap sample_ts = [created TaskType_OFF_LINE (random_id sample_rand 0) sample_param None]"
  "ts_taskQueue sample_ts = []"
  by (simp_all add: sample_ts_def CreateTask_unfold task_sys_new_def)

lemma sample_fresh: "fresh_id sample_rand 1"
  by (simp add: fresh_id_def task_id_def random_id_def sample_rand_def GetRandomID_eq_iff random_ab_def)

theorem CreateTask_registers_witness:
  "tk_unFinishChildrenTasks (ts_heap (snd (CreateTask sample_rand TaskType_DISABLE sample_param (Some 0) sample_ts)) ! 0) \<noteq> []
   \<and> smap_get (ts_tasks (snd (CreateTask sample_rand TaskType_DISABLE sample_param (Some 0) sample_ts)))
       (task_id sample_rand 1) = Some 1"
proof -
  have "0 < length (ts_heap sample_ts)" and len: "length (ts_heap sample_ts) = 1"
    and off: "tk_taskType (ts_heap sample_ts ! 0) = TaskType_OFF_LINE"
    by (simp_all add: sample_ts_heap)
  from CreateTask_registers [OF sample_ts_ok _ this(1), of TaskType_DISABLE sample_param] sample_fresh
  show ?thesis by (metis len off fun_upd_same insert_not_empty list.set(1) task_type.distinct(3))
qed

text \<open>
  A task created and pushed while the queue is full is lost for execution but not for its
  bookkeeping: the queue does not get it, yet it stays on the board, and an offline task that created it
  waits for it.
\<close>

theorem dropped_task_stays_registered:
  fixes rand :: rand and ts :: task_sys and p :: task_param
  assumes ok: "task_sys_ok rand ts" and tt: "tt \<noteq> TaskType_UNKNOWN" and f: "f < length (ts_heap ts)"
    and fr: "fresh_id rand (length (ts_heap ts))" and full: "length (ts_taskQueue ts) = 257"
    and off: "tk_taskType (ts_heap ts ! f) = TaskType_OFF_LINE"
  defines "ts' \<equiv> create_and_push rand tt p (Some f) ts" and "i \<equiv> task_id rand (length (ts_heap ts))"
  shows "ts_taskQueue ts' = ts_taskQueue ts \<and> length (ts_heap ts) \<notin> set (ts_taskQueue ts')
       \<and> smap_get (ts_tasks ts') i = Some (length (ts_heap ts)) \<and> i \<in> set (tk_unFinishChildrenTasks (ts_heap ts' ! f))"
proof -
  have "create_and_push rand tt p (Some f) ts = snd (CreateTask rand tt p (Some f) ts)"
    using full by (simp add: create_and_push_def PushTask_def CreateTask_unfold [OF tt])
  moreover have "length (ts_heap ts) \<notin> set (ts_taskQueue ts)"
    using ok by (auto simp: task_sys_ok_def)
  moreover have "ts_taskQueue (snd (CreateTask rand tt p (Some f) ts)) = ts_taskQueue ts"
    by (simp add: CreateTask_unfold [OF tt])
  ultimately show ?thesis
    using CreateTask_father(1) [where rand = rand and p = p, OF tt f] off
    by (simp add: ts'_def i_def CreateTask_board [OF ok tt fr] OffLineTask_AddChildrenTask_def)
qed

lemma sample_full_ok:
  "task_sys_ok sample_rand (sample_ts\<lparr>ts_taskQueue := replicate 257 0\<rparr>)"
  using sample_ts_ok by (auto simp: task_sys_ok_def sample_ts_heap)

theorem dropped_task_stays_registered_witness:
  "let ts' = create_and_push sample_rand TaskType_DISABLE sample_param (Some 0) (sample_ts\<lparr>ts_taskQueue := replicate 257 0\<rparr>)
   in 1 \<notin> set (ts_taskQueue ts') \<and> smap_get (ts_tasks ts') (task_id sample_rand 1) = Some 1"
  using dropped_task_stays_registered [OF sample_full_ok, of TaskType_DISABLE 0 sample_param] sample_fresh
  by (simp add: sample_ts_heap Let_def)

end
