(* ===== verification/DHF_InfoMgr.thy ===== *)
theory DHF_InfoMgr
  imports DHF_DB DHF_Task
begin

text \<open>
  What the three resource managers of capability records have in common
  (\<open>capability_info_manager.cpp\<close>, \<open>local_capability_info_manager.cpp\<close>, \<open>meta_info_manager.cpp\<close>): an
  adapter that may be null and a map of records by key. The blocks that stand in all three sources in
  the same words are definitions of this theory, with the decoder and the key function of the record
  as arguments; the contract \<open>keyed_cache\<close> gives what the blocks keep of the map.
\<close>

record 'v info_mgr =
  im_db :: "db_adapter option"
  im_map :: "(string, 'v) smap"

definition info_mgr_new :: "'v info_mgr" where
  "info_mgr_new = \<lparr> im_db = None, im_map = [] \<rparr>"

type_synonym ('v, 'w) mgr_state = "'v info_mgr \<times> 'w sys"

section \<open>Shared blocks\<close>

text \<open>\<open>Init\<close>: a new adapter for the store, which stays in place when opening it fails.\<close>

definition mgr_Init ::
  "string \<Rightarrow> ('w db_state \<Rightarrow> ret \<times> 'w db_state) \<Rightarrow> ('v, 'w) mgr_state \<Rightarrow> ret \<times> ('v, 'w) mgr_state" where
  "mgr_Init storeId init = (\<lambda>(m, s).
     let (r, (db, s1)) = init (DBAdapter_new storeId, s); m1 = m\<lparr>im_db := Some db\<rparr> in
     if r \<noteq> DH_FWK_SUCCESS then (ERR_DH_FWK_RESOURCE_INIT_DB_FAILED, (m1, s1))
     else (DH_FWK_SUCCESS, (m1, s1)))"

text \<open>\<open>UnInit\<close> drops the adapter; the map of records stays.\<close>

definition mgr_UnInit :: "('w, 'j) env \<Rightarrow> ('v, 'w) mgr_state \<Rightarrow> ret \<times> ('v, 'w) mgr_state" where
  "mgr_UnInit E = (\<lambda>(m, s).
     case im_db m of
       None \<Rightarrow> (ERR_DH_FWK_RESOURCE_UNINIT_DB_FAILED, (m, s))
     | Some db \<Rightarrow> (let (db1, s1) = DBAdapter_UnInit E (db, s) in (DH_FWK_SUCCESS, (m\<lparr>im_db := None\<rparr>, s1))))"

text \<open>The read of all values under a prefix, with the checks of its result.\<close>

definition mgr_read_prefix ::
  "('w, 'j) env \<Rightarrow> string \<Rightarrow> ('v, 'w) mgr_state \<Rightarrow> ret \<times> string list \<times> ('v, 'w) mgr_state" where
  "mgr_read_prefix E prefix = (\<lambda>(m, s).
     case im_db m of
       None \<Rightarrow> (ERR_DH_FWK_RESOURCE_DB_ADAPTER_POINTER_NULL, [], (m, s))
     | Some db \<Rightarrow>
         (let (r, dataVector, (db1, s1)) = GetDataByKeyPrefix E prefix [] (db, s);
              ms1 = (m\<lparr>im_db := Some db1\<rparr>, s1)
          in if r \<noteq> DH_FWK_SUCCESS then (ERR_DH_FWK_RESOURCE_DB_ADAPTER_OPERATION_FAIL, [], ms1)
             else if dataVector = [] \<or> length dataVector > MAX_DB_RECORD_SIZE
             then (ERR_DH_FWK_RESOURCE_RES_DB_DATA_INVALID, [], ms1)
             else (DH_FWK_SUCCESS, dataVector, ms1)))"

text \<open>\<open>map[record->GetKey()] = record\<close> for the records that decode; the others are skipped.\<close>

definition store_decoded ::
  "(string \<Rightarrow> ret \<times> 'v) \<Rightarrow> ('v \<Rightarrow> string) \<Rightarrow> string \<Rightarrow> (string, 'v) smap \<Rightarrow> (string, 'v) smap" where
  "store_decoded dec key data m =
     (let (r, c) = dec data in if r \<noteq> DH_FWK_SUCCESS then m else smap_put (key c) c m)"

definition mgr_sync_prefix ::
  "('w, 'j) env \<Rightarrow> (string \<Rightarrow> ret \<times> 'v) \<Rightarrow> ('v \<Rightarrow> string) \<Rightarrow> string \<Rightarrow> ('v, 'w) mgr_state \<Rightarrow> ret \<times> ('v, 'w) mgr_state" where
  "mgr_sync_prefix E dec key prefix ms =
     (let (r, dataVector, (m1, s1)) = mgr_read_prefix E prefix ms in
      if r \<noteq> DH_FWK_SUCCESS then (r, (m1, s1))
      else (DH_FWK_SUCCESS, (m1\<lparr>im_map := fold (store_decoded dec key) dataVector (im_map m1)\<rparr>, s1)))"

text \<open>\<open>GetDataByKeyPrefix\<close> of a manager fills the map the caller passes.\<close>

definition mgr_read_into ::
  "('w, 'j) env \<Rightarrow> (string \<Rightarrow> ret \<times> 'v) \<Rightarrow> ('v \<Rightarrow> string) \<Rightarrow> string \<Rightarrow> (string, 'v) smap \<Rightarrow> ('v, 'w) mgr_state
     \<Rightarrow> ret \<times> (string, 'v) smap \<times> ('v, 'w) mgr_state" where
  "mgr_read_into E dec key prefix out ms =
     (let (r, dataVector, ms1) = mgr_read_prefix E prefix ms in
      if r \<noteq> DH_FWK_SUCCESS then (r, out, ms1)
      else (DH_FWK_SUCCESS, fold (store_decoded dec key) dataVector out, ms1))"

text \<open>
  The recovery loop: the records of each online device, except those of the local device. \<open>owner\<close> reads
  the identifier of the device from the record, \<open>self\<close> that of the local device.
\<close>

fun store_remote ::
  "('w, 'j) env \<Rightarrow> (string \<Rightarrow> ret \<times> 'v) \<Rightarrow> ('v \<Rightarrow> string) \<Rightarrow> ('v \<Rightarrow> string) \<Rightarrow> (device_info \<Rightarrow> string) \<Rightarrow> string list
     \<Rightarrow> ('v, 'w) mgr_state \<Rightarrow> ('v, 'w) mgr_state" where
  "store_remote E dec key owner self [] (m, s) = (m, s)"
| "store_remote E dec key owner self (data # ds) (m, s) =
     (let (r, c) = dec data in
      if r \<noteq> DH_FWK_SUCCESS then store_remote E dec key owner self ds (m, s)
      else let (info, cx) = GetDeviceInfo (env_dm E) (env_digest E) (sys_cx s); s1 = s\<lparr>sys_cx := cx\<rparr> in
        if owner c = self info then store_remote E dec key owner self ds (m, s1)
        else store_remote E dec key owner self ds (m\<lparr>im_map := smap_put (key c) c (im_map m)\<rparr>, s1))"

fun mgr_sync_remote ::
  "('w, 'j) env \<Rightarrow> (string \<Rightarrow> ret \<times> 'v) \<Rightarrow> ('v \<Rightarrow> string) \<Rightarrow> ('v \<Rightarrow> string) \<Rightarrow> (device_info \<Rightarrow> string) \<Rightarrow> string list
     \<Rightarrow> ('v, 'w) mgr_state \<Rightarrow> ('v, 'w) mgr_state" where
  "mgr_sync_remote E dec key owner self [] ms = ms"
| "mgr_sync_remote E dec key owner self (d # ids) ms =
     (let (r, dataVector, ms1) = mgr_read_prefix E d ms in
      if r \<noteq> DH_FWK_SUCCESS then mgr_sync_remote E dec key owner self ids ms1
      else mgr_sync_remote E dec key owner self ids (store_remote E dec key owner self dataVector ms1))"

text \<open>
  The loop of \<open>AddCapability\<close> and \<open>AddMetaCapInfos\<close>: each record goes into the map; it is collected for
  the database unless the database holds it already, which \<open>same\<close> decides on the stored text. A null
  pointer in the vector is \<open>None\<close>.
\<close>

fun add_loop ::
  "('w, 'j) env \<Rightarrow> ('v \<Rightarrow> string) \<Rightarrow> ('v \<Rightarrow> string) \<Rightarrow> (string \<Rightarrow> 'v \<Rightarrow> bool) \<Rightarrow> 'v option list \<Rightarrow> string
     \<Rightarrow> (string, 'v) smap \<Rightarrow> 'w db_state \<Rightarrow> string list \<times> string list \<times> (string, 'v) smap \<times> 'w db_state" where
  "add_loop E key enc same [] data m ds = ([], [], m, ds)"
| "add_loop E key enc same (None # cs) data m ds = add_loop E key enc same cs data m ds"
| "add_loop E key enc same (Some c # cs) data m ds =
     (let m1 = smap_put (key c) c m;
          (r, data1, ds1) = GetDataByKey E (key c) data ds
      in if r = DH_FWK_SUCCESS \<and> same data1 c then add_loop E key enc same cs data1 m1 ds1
         else let (keys, values, m2, ds2) = add_loop E key enc same cs data1 m1 ds1
              in (key c # keys, enc c # values, m2, ds2))"

definition mgr_add ::
  "('w, 'j) env \<Rightarrow> ('v \<Rightarrow> string) \<Rightarrow> ('v \<Rightarrow> string) \<Rightarrow> (string \<Rightarrow> 'v \<Rightarrow> bool) \<Rightarrow> 'v option list \<Rightarrow> ('v, 'w) mgr_state
     \<Rightarrow> ret \<times> ('v, 'w) mgr_state" where
  "mgr_add E key enc same infos = (\<lambda>(m, s).
     if infos = [] \<or> length infos > MAX_DB_RECORD_SIZE then (ERR_DH_FWK_RESOURCE_RES_DB_DATA_INVALID, (m, s))
     else case im_db m of
       None \<Rightarrow> (ERR_DH_FWK_RESOURCE_DB_ADAPTER_POINTER_NULL, (m, s))
     | Some db \<Rightarrow>
         (let (keys, values, map1, (db1, s1)) = add_loop E key enc same infos [] (im_map m) (db, s);
              m1 = m\<lparr>im_db := Some db1, im_map := map1\<rparr>
          in if keys = [] \<or> values = [] then (DH_FWK_SUCCESS, (m1, s1))
             else let (r, (db2, s2)) = PutDataBatch E keys values (db1, s1); m2 = m1\<lparr>im_db := Some db2\<rparr> in
               if r \<noteq> DH_FWK_SUCCESS then (ERR_DH_FWK_RESOURCE_DB_ADAPTER_OPERATION_FAIL, (m2, s2))
               else (DH_FWK_SUCCESS, (m2, s2))))"

text \<open>Removal of one record from the map and from the database.\<close>

definition mgr_remove_key :: "('w, 'j) env \<Rightarrow> string \<Rightarrow> ('v, 'w) mgr_state \<Rightarrow> ret \<times> ('v, 'w) mgr_state" where
  "mgr_remove_key E key = (\<lambda>(m, s).
     case im_db m of
       None \<Rightarrow> (ERR_DH_FWK_RESOURCE_DB_ADAPTER_POINTER_NULL, (m, s))
     | Some db \<Rightarrow>
         (let m1 = m\<lparr>im_map := smap_erase key (im_map m)\<rparr>;
              (r, (db1, s1)) = RemoveDataByKey E key (db, s);
              m2 = m1\<lparr>im_db := Some db1\<rparr>
          in if r \<noteq> DH_FWK_SUCCESS then (ERR_DH_FWK_RESOURCE_DB_ADAPTER_OPERATION_FAIL, (m2, s1))
             else (DH_FWK_SUCCESS, (m2, s1))))"

definition mgr_read_key ::
  "('w, 'j) env \<Rightarrow> (string \<Rightarrow> ret \<times> 'v) \<Rightarrow> string \<Rightarrow> ('v, 'w) mgr_state \<Rightarrow> ret \<times> 'v option \<times> ('v, 'w) mgr_state" where
  "mgr_read_key E dec key = (\<lambda>(m, s).
     case im_db m of
       None \<Rightarrow> (ERR_DH_FWK_RESOURCE_DB_ADAPTER_POINTER_NULL, None, (m, s))
     | Some db \<Rightarrow>
         (let (r, data, (db1, s1)) = GetDataByKey E key [] (db, s); ms1 = (m\<lparr>im_db := Some db1\<rparr>, s1) in
          if r \<noteq> DH_FWK_SUCCESS then (ERR_DH_FWK_RESOURCE_DB_ADAPTER_OPERATION_FAIL, None, ms1)
          else let (r1, c) = dec data in (r1, Some c, ms1)))"

definition map_get_cap :: "string \<Rightarrow> (string, 'v) smap \<Rightarrow> ret \<times> 'v option" where
  "map_get_cap key m = (case smap_get m key of
     None \<Rightarrow> (ERR_DH_FWK_RESOURCE_CAPABILITY_MAP_NOT_FOUND, None) | Some c \<Rightarrow> (DH_FWK_SUCCESS, Some c))"

definition map_by_device :: "string \<Rightarrow> (string, 'v) smap \<Rightarrow> 'v list" where
  "map_by_device deviceId m = map snd (filter (\<lambda>e. IsCapKeyMatchDeviceId (fst e) deviceId) m)"

definition map_by_type :: "('v \<Rightarrow> dhtype) \<Rightarrow> dhtype \<Rightarrow> (string, 'v) smap \<Rightarrow> (string, 'v) smap \<Rightarrow> (string, 'v) smap" where
  "map_by_type tp dhType m out = fold (\<lambda>(k, c) o1. if tp c \<noteq> dhType then o1 else smap_put k c o1) m out"

section \<open>Change notifications\<close>

text \<open>
  The handlers of remote changes work on the map and on the task system. A record of a device that is
  not online is skipped; a record of an online device is stored and an enable task is created for it.
  The texts of the two managers agree for insertions and updates.
\<close>

definition change_param :: "string \<Rightarrow> string \<Rightarrow> ('a) capability_info_scheme \<Rightarrow> task_param" where
  "change_param networkId uuid c = \<lparr> tp_networkId = networkId, tp_uuid = uuid, tp_udid = [], tp_dhId = ci_dhId c,
     tp_dhType = ci_dhType c \<rparr>"

definition change_add_item ::
  "rand \<Rightarrow> dh_context \<Rightarrow> (string \<Rightarrow> ret \<times> 'a capability_info_scheme) \<Rightarrow> ('a capability_info_scheme \<Rightarrow> string)
     \<Rightarrow> string \<times> string \<Rightarrow> (string, 'a capability_info_scheme) smap \<times> task_sys
     \<Rightarrow> (string, 'a capability_info_scheme) smap \<times> task_sys" where
  "change_add_item rand cx dec key item = (\<lambda>(m, ts).
     let (r, c) = dec (snd item) in
     if r \<noteq> DH_FWK_SUCCESS then (m, ts)
     else let uuid = GetUUIDByDeviceId cx (ci_deviceId c) in
       if uuid = [] then (m, ts)
       else let networkId = GetNetworkIdByUUID cx uuid in
         if networkId = [] then (m, ts)
         else (smap_put (key c) c m, create_and_push rand TaskType_ENABLE (change_param networkId uuid c) None ts))"

definition change_update_item ::
  "rand \<Rightarrow> dh_context \<Rightarrow> (string \<Rightarrow> ret \<times> 'a capability_info_scheme) \<Rightarrow> ('a capability_info_scheme \<Rightarrow> string)
     \<Rightarrow> string \<times> string \<Rightarrow> (string, 'a capability_info_scheme) smap \<times> task_sys
     \<Rightarrow> (string, 'a capability_info_scheme) smap \<times> task_sys" where
  "change_update_item rand cx dec key item = (\<lambda>(m, ts).
     let (r, c) = dec (snd item) in
     if r \<noteq> DH_FWK_SUCCESS then (m, ts)
     else let uuid = GetUUIDByDeviceId cx (ci_deviceId c) in
       if uuid = [] then (m, ts)
       else let networkId = GetNetworkIdByUUID cx uuid in
         if networkId = [] then (m, ts)
         else let enabledDeviceKey = GetCapabilityKey (ci_deviceId c) (ci_dhId c) in
           if IsEnabledDevice ts enabledDeviceKey then (m, ts)
           else (smap_put (key c) c m, create_and_push rand TaskType_ENABLE (change_param networkId uuid c) None ts))"

text \<open>The entries of a change notification: key and value.\<close>

record change_notification =
  cn_insert :: "(string \<times> string) list"
  cn_update :: "(string \<times> string) list"
  cn_delete :: "(string \<times> string) list"

text \<open>The test of both \<open>OnChange\<close> methods on a list of records.\<close>

definition records_ok :: "'x list \<Rightarrow> bool" where
  "records_ok es \<longleftrightarrow> es \<noteq> [] \<and> length es \<le> MAX_DB_RECORD_SIZE"

section \<open>What the blocks keep\<close>

text \<open>Every record stands under its own key.\<close>

definition keyed_map :: "('v \<Rightarrow> string) \<Rightarrow> (string, 'v) smap \<Rightarrow> bool" where
  "keyed_map key m \<longleftrightarrow> smap_sorted m \<and> (\<forall>k c. smap_get m k = Some c \<longrightarrow> key c = k)"

interpretation cache: keyed_cache smap_get smap_put smap_erase "\<lambda>m. m" smap_sorted key for key :: "'v \<Rightarrow> string"
  by unfold_locales

lemma keyed_map_cache: "keyed_map key m \<longleftrightarrow> cache.keyed key m"
  by (simp add: keyed_map_def cache.keyed_def)

lemma keyed_map_Nil [simp]: "keyed_map key []"
  by (simp add: keyed_map_def)

lemma keyed_map_put: "keyed_map key m \<Longrightarrow> keyed_map key (smap_put (key c) c m)"
  using cache.keyed_store [of key m c] by (simp add: keyed_map_cache cache.store_def)

lemma keyed_map_erase: "keyed_map key m \<Longrightarrow> keyed_map key (smap_erase k m)"
  by (simp add: keyed_map_cache cache.keyed_erase)

lemma smap_get_put_all:
  "keyed_map key m \<Longrightarrow> smap_get (fold (\<lambda>c. smap_put (key c) c) cs m) k
     = (case List.find (\<lambda>c. key c = k) (rev cs) of None \<Rightarrow> smap_get m k | Some c \<Rightarrow> Some c)"
  using cache.get_store_all [of key m cs k] by (simp add: keyed_map_cache cache.store_def [abs_def])

lemma keyed_map_put_all: "keyed_map key m \<Longrightarrow> keyed_map key (fold (\<lambda>c. smap_put (key c) c) cs m)"
  using cache.keyed_store_all [of key m cs] by (simp add: keyed_map_cache cache.store_def [abs_def])

lemma keyed_map_erase_if: "keyed_map key m \<Longrightarrow> keyed_map key (smap_erase_if P m)"
  by (auto simp: keyed_map_def split: if_splits)

lemma keyed_map_store: "keyed_map key m \<Longrightarrow> keyed_map key (store_decoded dec key data m)"
  by (auto simp: store_decoded_def Let_def keyed_map_put split: prod.splits)

lemma keyed_map_store_all: "keyed_map key m \<Longrightarrow> keyed_map key (fold (store_decoded dec key) vs m)"
  by (induction vs arbitrary: m) (simp_all add: keyed_map_store)

lemma mgr_read_prefix_map [dhf_frame]: "im_map (fst (snd (snd (mgr_read_prefix E p ms)))) = im_map (fst ms)"
  by (cases ms) (simp add: mgr_read_prefix_def Let_def split: option.splits prod.splits)

lemma keyed_map_sync: "keyed_map key (im_map (fst ms)) \<Longrightarrow> keyed_map key (im_map (fst (snd (mgr_sync_prefix E dec key p ms))))"
  using mgr_read_prefix_map [of E p ms]
  by (auto simp: mgr_sync_prefix_def Let_def keyed_map_store_all split: prod.splits)

lemma keyed_map_store_remote:
  "keyed_map key (im_map (fst ms)) \<Longrightarrow> keyed_map key (im_map (fst (store_remote E dec key owner self vs ms)))"
proof (induction vs arbitrary: ms)
  case Nil
  then show ?case by (cases ms) simp
next
  case (Cons v vs)
  from Cons.prems show ?case
    by (cases ms) (simp add: Let_def Cons.IH keyed_map_put split: prod.splits)
qed

lemma keyed_map_sync_remote:
  "keyed_map key (im_map (fst ms)) \<Longrightarrow> keyed_map key (im_map (fst (mgr_sync_remote E dec key owner self ids ms)))"
proof (induction ids arbitrary: ms)
  case (Cons d ids)
  have "keyed_map key (im_map (fst (snd (snd (mgr_read_prefix E d ms)))))"
    by (simp add: mgr_read_prefix_map Cons.prems)
  then show ?case
    by (auto simp: Let_def Cons.IH keyed_map_store_remote split: prod.splits)
qed simp

lemma add_loop_map: "fst (snd (snd (add_loop E key enc same cs data m ds))) = fold (\<lambda>c. smap_put (key c) c) (List.map_filter id cs) m"
proof (induction E key enc same cs data m ds rule: add_loop.induct)
  case (3 E key enc same c cs data m ds)
  obtain r d1 ds1 where g: "GetDataByKey E (key c) data ds = (r, d1, ds1)" by (metis prod_cases3)
  from "3.IH" [OF refl g [symmetric] refl refl] show ?case
    by (auto simp: g Let_def List.map_filter_simps split: prod.splits)
qed (simp_all add: List.map_filter_simps)

lemma add_loop_mapD:
  "add_loop E key enc same cs data m ds = (ks, vs, m', ds') \<Longrightarrow> m' = fold (\<lambda>c. smap_put (key c) c) (List.map_filter id cs) m"
  using add_loop_map [of E key enc same cs data m ds] by simp

lemma im_db_frame [dhf_frame]:
  "im_map (fst (snd (mgr_Init st f ms))) = im_map (fst ms)" "im_map (fst (snd (mgr_UnInit E ms))) = im_map (fst ms)"
  "im_map (fst (snd (snd (mgr_read_key E dec k ms)))) = im_map (fst ms)"
  by (cases ms; simp add: mgr_Init_def mgr_UnInit_def mgr_read_key_def Let_def split: option.splits prod.splits)+

lemma mgr_read_into_map [dhf_frame]:
  "im_map (fst (snd (snd (mgr_read_into E dec key p out ms)))) = im_map (fst ms)"
  using mgr_read_prefix_map [of E p ms] by (auto simp: mgr_read_into_def Let_def split: prod.splits)

lemma mgr_add_map:
  "im_map (fst (snd (mgr_add E key enc same infos ms))) =
     (if infos = [] \<or> length infos > MAX_DB_RECORD_SIZE \<or> im_db (fst ms) = None then im_map (fst ms)
      else fold (\<lambda>c. smap_put (key c) c) (List.map_filter id infos) (im_map (fst ms)))"
  by (cases ms) (auto simp: mgr_add_def Let_def split: option.splits prod.splits dest!: add_loop_mapD)

lemma mgr_remove_key_map:
  "im_map (fst (snd (mgr_remove_key E k ms)))
     = (if im_db (fst ms) = None then im_map (fst ms) else smap_erase k (im_map (fst ms)))"
  by (cases ms) (auto simp: mgr_remove_key_def Let_def split: option.splits prod.splits)

lemma keyed_map_add [dhf_inv]:
  "keyed_map key (im_map (fst ms)) \<Longrightarrow> keyed_map key (im_map (fst (snd (mgr_add E key enc same infos ms))))"
  by (simp add: mgr_add_map keyed_map_put_all)

lemma keyed_map_remove_key [dhf_inv]:
  "keyed_map key (im_map (fst ms)) \<Longrightarrow> keyed_map key (im_map (fst (snd (mgr_remove_key E k ms))))"
  by (simp add: mgr_remove_key_map keyed_map_erase)

lemma keyed_map_change_add: "keyed_map key (fst st) \<Longrightarrow> keyed_map key (fst (change_add_item rand cx dec key item st))"
  by (cases st) (auto simp: change_add_item_def Let_def keyed_map_put split: prod.splits)

lemma keyed_map_change_update: "keyed_map key (fst st) \<Longrightarrow> keyed_map key (fst (change_update_item rand cx dec key item st))"
  by (cases st) (auto simp: change_update_item_def Let_def keyed_map_put split: prod.splits)

lemma keyed_map_fold:
  "(\<And>x st. keyed_map key (fst st) \<Longrightarrow> keyed_map key (fst (f x st))) \<Longrightarrow> keyed_map key (fst st) \<Longrightarrow> keyed_map key (fst (fold f xs st))"
  by (induction xs arbitrary: st) simp_all

lemma change_add_ok [dhf_inv]: "task_sys_ok rand (snd st) \<Longrightarrow> task_sys_ok rand (snd (change_add_item rand cx dec key item st))"
  by (cases st) (auto simp: change_add_item_def Let_def intro!: create_and_push_ok split: prod.splits)

lemma change_update_ok [dhf_inv]:
  "task_sys_ok rand (snd st) \<Longrightarrow> task_sys_ok rand (snd (change_update_item rand cx dec key item st))"
  by (cases st) (auto simp: change_update_item_def Let_def intro!: create_and_push_ok split: prod.splits)

section \<open>What a synchronisation brings into the map\<close>

lemma store_decoded_all_get:
  assumes "(r, c) = dec v" and "r = DH_FWK_SUCCESS" and "v \<in> set vs"
    and "\<And>v' c'. v' \<in> set vs \<Longrightarrow> dec v' = (DH_FWK_SUCCESS, c') \<Longrightarrow> key c' = key c \<Longrightarrow> c' = c"
  shows "smap_get (fold (store_decoded dec key) vs m) (key c) = Some c"
  using assms(3,4)
proof (induction vs rule: rev_induct)
  case (snoc x vs)
  obtain rx cx where x: "dec x = (rx, cx)" by fastforce
  have rest: "smap_get (fold (store_decoded dec key) vs m) (key c) = Some c" if "v \<in> set vs"
    using snoc.IH [OF that] snoc.prems(2) by (metis in_set_butlast_appendI butlast_snoc)
  show ?case
  proof (cases "rx = DH_FWK_SUCCESS \<and> key cx = key c")
    case True
    with snoc.prems(2) [of x cx] x have "cx = c" by simp
    with True x show ?thesis by (simp add: store_decoded_def)
  next
    case False
    with x assms(1,2) snoc.prems(1) have "v \<in> set vs" by auto
    from rest [OF this] False x show ?thesis by (auto simp: store_decoded_def [of dec key x])
  qed
qed simp

end
