(* ===== verification/DHF_CapMgr.thy ===== *)
theory DHF_CapMgr
  imports DHF_InfoMgr
begin

text \<open>
  \<open>CapabilityInfoManager\<close> (\<open>resourcemanager/capability_info_manager.cpp\<close>): the cache of the capability
  records of all devices, its database, the queries and the handlers of database changes.
\<close>

abbreviation (input) cap_dec :: "('w, 'j) env \<Rightarrow> string \<Rightarrow> ret \<times> capability_info" where
  "cap_dec E \<equiv> GetCapabilityByValue (env_cj E)"

type_synonym 'w cap_state = "(capability_info, 'w) mgr_state"
type_synonym cap_map = "(string, capability_info) smap"

section \<open>Life cycle and synchronisation\<close>

definition CapMgr_Init :: "('w, 'j) env \<Rightarrow> 'w cap_state \<Rightarrow> ret \<times> 'w cap_state" where
  "CapMgr_Init E = mgr_Init GLOBAL_CAPABILITY_ID (DBAdapter_Init E False TYPE_DYNAMICAL)"

definition CapMgr_UnInit :: "('w, 'j) env \<Rightarrow> 'w cap_state \<Rightarrow> ret \<times> 'w cap_state" where
  "CapMgr_UnInit E = mgr_UnInit E"

definition CapMgr_SyncDeviceInfoFromDB :: "('w, 'j) env \<Rightarrow> string \<Rightarrow> 'w cap_state \<Rightarrow> ret \<times> 'w cap_state" where
  "CapMgr_SyncDeviceInfoFromDB E deviceId ms =
     (if \<not> IsIdLengthValid deviceId then (ERR_DH_FWK_PARA_INVALID, ms)
      else mgr_sync_prefix E (cap_dec E) CapabilityInfo_GetKey deviceId ms)"

definition CapMgr_SyncRemoteCapabilityInfos :: "('w, 'j) env \<Rightarrow> 'w cap_state \<Rightarrow> ret \<times> 'w cap_state" where
  "CapMgr_SyncRemoteCapabilityInfos E = (\<lambda>(m, s).
     if im_db m = None then (ERR_DH_FWK_RESOURCE_DB_ADAPTER_POINTER_NULL, (m, s))
     else (DH_FWK_SUCCESS,
       mgr_sync_remote E (cap_dec E) CapabilityInfo_GetKey ci_deviceId di_deviceId
         (GetOnlineDeviceDeviceId (sys_cx s) []) (m, s)))"

definition CapMgr_ProcessEvent :: "('w, 'j) env \<Rightarrow> recover_event \<Rightarrow> 'w cap_state \<Rightarrow> 'w cap_state" where
  "CapMgr_ProcessEvent E eventId ms =
     (if eventId = EVENT_CAPABILITY_INFO_DB_RECOVER then snd (CapMgr_SyncRemoteCapabilityInfos E ms) else ms)"

section \<open>Adding and removing\<close>

definition CapMgr_AddCapability ::
  "('w, 'j) env \<Rightarrow> capability_info option list \<Rightarrow> 'w cap_state \<Rightarrow> ret \<times> 'w cap_state" where
  "CapMgr_AddCapability E =
     mgr_add E CapabilityInfo_GetKey (CapabilityInfo_ToJsonString (env_cj E))
       (\<lambda>data c. IsCapInfoJsonEqual (env_cj E) data (CapabilityInfo_ToJsonString (env_cj E) c))"

definition CapMgr_AddCapabilityInMem :: "capability_info option list \<Rightarrow> 'w cap_state \<Rightarrow> ret \<times> 'w cap_state" where
  "CapMgr_AddCapabilityInMem resInfos = (\<lambda>(m, s).
     if resInfos = [] \<or> length resInfos > MAX_DB_RECORD_SIZE then (ERR_DH_FWK_RESOURCE_RES_DB_DATA_INVALID, (m, s))
     else (DH_FWK_SUCCESS,
       (m\<lparr>im_map := fold (\<lambda>c m1. case c of None \<Rightarrow> m1 | Some c1 \<Rightarrow> smap_put (CapabilityInfo_GetKey c1) c1 m1)
                        resInfos (im_map m)\<rparr>, s)))"

definition CapMgr_RemoveCapabilityInfoInDB :: "('w, 'j) env \<Rightarrow> string \<Rightarrow> 'w cap_state \<Rightarrow> ret \<times> 'w cap_state" where
  "CapMgr_RemoveCapabilityInfoInDB E deviceId = (\<lambda>(m, s).
     if \<not> IsIdLengthValid deviceId then (ERR_DH_FWK_PARA_INVALID, (m, s))
     else case im_db m of
       None \<Rightarrow> (ERR_DH_FWK_RESOURCE_DB_ADAPTER_POINTER_NULL, (m, s))
     | Some db \<Rightarrow>
         (let m1 = m\<lparr>im_map := smap_erase_if (\<lambda>k. IsCapKeyMatchDeviceId k deviceId) (im_map m)\<rparr>;
              (r, (db1, s1)) = RemoveDeviceData E deviceId (db, s);
              m2 = m1\<lparr>im_db := Some db1\<rparr>
          in if r \<noteq> DH_FWK_SUCCESS then (ERR_DH_FWK_RESOURCE_DB_ADAPTER_OPERATION_FAIL, (m2, s1))
             else (DH_FWK_SUCCESS, (m2, s1))))"

definition CapMgr_RemoveCapabilityInfoByKey :: "('w, 'j) env \<Rightarrow> string \<Rightarrow> 'w cap_state \<Rightarrow> ret \<times> 'w cap_state" where
  "CapMgr_RemoveCapabilityInfoByKey E key ms =
     (if \<not> IsIdLengthValid key then (ERR_DH_FWK_PARA_INVALID, ms) else mgr_remove_key E key ms)"

definition CapMgr_RemoveCapabilityInfoInMem :: "string \<Rightarrow> 'w cap_state \<Rightarrow> ret \<times> 'w cap_state" where
  "CapMgr_RemoveCapabilityInfoInMem deviceId = (\<lambda>(m, s).
     if \<not> IsIdLengthValid deviceId then (ERR_DH_FWK_PARA_INVALID, (m, s))
     else (DH_FWK_SUCCESS,
       (m\<lparr>im_map := smap_erase_if (\<lambda>k. IsCapKeyMatchDeviceId k deviceId) (im_map m)\<rparr>, s)))"

section \<open>Queries\<close>

definition CapMgr_GetCapabilitiesByDeviceId ::
  "string \<Rightarrow> cap_map \<Rightarrow> capability_info list \<Rightarrow> capability_info list" where
  "CapMgr_GetCapabilitiesByDeviceId deviceId m resInfos =
     (if \<not> IsIdLengthValid deviceId then resInfos else resInfos @ map_by_device deviceId m)"

definition CapMgr_HasCapability :: "string \<Rightarrow> string \<Rightarrow> cap_map \<Rightarrow> bool" where
  "CapMgr_HasCapability deviceId dhId m =
     (if \<not> IsIdLengthValid deviceId \<or> \<not> IsIdLengthValid dhId then False
      else if smap_get m (GetCapabilityKey deviceId dhId) = None then False else True)"

definition CapMgr_GetCapability :: "string \<Rightarrow> string \<Rightarrow> cap_map \<Rightarrow> ret \<times> capability_info option" where
  "CapMgr_GetCapability deviceId dhId m =
     (if \<not> IsIdLengthValid deviceId \<or> \<not> IsIdLengthValid dhId then (ERR_DH_FWK_PARA_INVALID, None)
      else map_get_cap (GetCapabilityKey deviceId dhId) m)"

definition CapMgr_GetDataByKey ::
  "('w, 'j) env \<Rightarrow> string \<Rightarrow> 'w cap_state \<Rightarrow> ret \<times> capability_info option \<times> 'w cap_state" where
  "CapMgr_GetDataByKey E key ms =
     (if \<not> IsIdLengthValid key then (ERR_DH_FWK_PARA_INVALID, None, ms) else mgr_read_key E (cap_dec E) key ms)"

definition CapMgr_GetDataByDHType :: "dhtype \<Rightarrow> cap_map \<Rightarrow> cap_map \<Rightarrow> ret \<times> cap_map" where
  "CapMgr_GetDataByDHType dhType m capabilityMap = (DH_FWK_SUCCESS, map_by_type ci_dhType dhType m capabilityMap)"

definition CapMgr_GetDataByKeyPrefix ::
  "('w, 'j) env \<Rightarrow> string \<Rightarrow> cap_map \<Rightarrow> 'w cap_state \<Rightarrow> ret \<times> cap_map \<times> 'w cap_state" where
  "CapMgr_GetDataByKeyPrefix E keyPrefix capabilityMap ms =
     (if \<not> IsIdLengthValid keyPrefix then (ERR_DH_FWK_PARA_INVALID, capabilityMap, ms)
      else mgr_read_into E (cap_dec E) CapabilityInfo_GetKey keyPrefix capabilityMap ms)"

definition CapMgr_DumpCapabilityInfos :: "cap_map \<Rightarrow> capability_info list \<Rightarrow> capability_info list" where
  "CapMgr_DumpCapabilityInfos m capInfos = capInfos @ map snd m"

definition CapMgr_GetEntriesByKeys :: "('w, 'j) env \<Rightarrow> string list \<Rightarrow> 'w cap_state \<Rightarrow> (string \<times> string) list" where
  "CapMgr_GetEntriesByKeys E keys = (\<lambda>(m, s).
     if \<not> IsArrayLengthValid keys then []
     else case im_db m of None \<Rightarrow> [] | Some db \<Rightarrow> GetEntriesByKeys E keys (db, s))"

subsection \<open>Filters\<close>

text \<open>The enumerators of \<open>CapabilityInfoFilter\<close> are \<open>0\<close> to \<open>5\<close>; any other value takes the default branch.\<close>

type_synonym cap_filter = "32 word"

abbreviation (input) FILTER_DH_ID :: cap_filter where "FILTER_DH_ID \<equiv> 0"
abbreviation (input) FILTER_DEVICE_ID :: cap_filter where "FILTER_DEVICE_ID \<equiv> 1"
abbreviation (input) FILTER_DEVICE_NAME :: cap_filter where "FILTER_DEVICE_NAME \<equiv> 2"
abbreviation (input) FILTER_DEVICE_TYPE :: cap_filter where "FILTER_DEVICE_TYPE \<equiv> 3"
abbreviation (input) FILTER_DH_TYPE :: cap_filter where "FILTER_DH_TYPE \<equiv> 4"
abbreviation (input) FILTER_DH_ATTRS :: cap_filter where "FILTER_DH_ATTRS \<equiv> 5"

definition IsCapabilityMatchFilter :: "capability_info \<Rightarrow> cap_filter \<Rightarrow> string \<Rightarrow> bool option" where
  "IsCapabilityMatchFilter cap filt value =
     (if filt = FILTER_DH_ID then Some (ci_dhId cap = value)
      else if filt = FILTER_DEVICE_ID then Some (ci_deviceId cap = value)
      else if filt = FILTER_DEVICE_NAME then Some (ci_deviceName cap = value)
      else if filt = FILTER_DEVICE_TYPE then map_option (\<lambda>n. ci_deviceType cap = word_of_int n) (stoi value)
      else if filt = FILTER_DH_TYPE then map_option (\<lambda>n. ci_dhType cap = word_of_int n) (stoi value)
      else if filt = FILTER_DH_ATTRS then Some (ci_dhAttrs cap = value)
      else Some False)"

text \<open>The inner loop stops at the first filter that does not match; an exception leaves both loops.\<close>

fun match_filters :: "capability_info \<Rightarrow> (cap_filter \<times> string) list \<Rightarrow> bool option" where
  "match_filters c [] = Some True"
| "match_filters c ((f, v) # fs) =
     (case IsCapabilityMatchFilter c f v of
        None \<Rightarrow> None
      | Some False \<Rightarrow> Some False
      | Some True \<Rightarrow> match_filters c fs)"

fun query_loop :: "(cap_filter \<times> string) list \<Rightarrow> cap_map \<Rightarrow> cap_map \<Rightarrow> cap_map option" where
  "query_loop fs [] capMap = Some capMap"
| "query_loop fs ((k, c) # m) capMap =
     (case match_filters c fs of
        None \<Rightarrow> None
      | Some isMatch \<Rightarrow> query_loop fs m (if isMatch then smap_emplace k c capMap else capMap))"

definition QueryCapabilityByFilters :: "(cap_filter \<times> string) list \<Rightarrow> cap_map \<Rightarrow> cap_map option" where
  "QueryCapabilityByFilters filters m = query_loop filters m []"

section \<open>Database changes\<close>

definition HandleCapabilityAddChange ::
  "('w, 'j) env \<Rightarrow> rand \<Rightarrow> dh_context \<Rightarrow> (string \<times> string) list \<Rightarrow> cap_map \<times> task_sys \<Rightarrow> cap_map \<times> task_sys" where
  "HandleCapabilityAddChange E rand cx insertRecords =
     fold (change_add_item rand cx (cap_dec E) CapabilityInfo_GetKey) insertRecords"

definition HandleCapabilityUpdateChange ::
  "('w, 'j) env \<Rightarrow> rand \<Rightarrow> bool \<Rightarrow> dh_context \<Rightarrow> (string \<times> string) list \<Rightarrow> cap_map \<times> task_sys \<Rightarrow> cap_map \<times> task_sys" where
  "HandleCapabilityUpdateChange E rand unInitFlag cx updateRecords st =
     (if unInitFlag then st
      else fold (change_update_item rand cx (cap_dec E) CapabilityInfo_GetKey) updateRecords st)"

definition cap_delete_item ::
  "('w, 'j) env \<Rightarrow> rand \<Rightarrow> dh_context \<Rightarrow> string \<times> string \<Rightarrow> cap_map \<times> task_sys \<Rightarrow> cap_map \<times> task_sys" where
  "cap_delete_item E rand cx item = (\<lambda>(m, ts).
     let (r, c) = cap_dec E (snd item) in
     if r \<noteq> DH_FWK_SUCCESS then (m, ts)
     else let keyString = CapabilityInfo_GetKey c; uuid = GetUUIDByDeviceId cx (ci_deviceId c) in
       if uuid = [] then (m, ts)
       else let networkId = GetNetworkIdByUUID cx uuid in
         if networkId = [] then (m, ts)
         else (smap_erase keyString m,
               create_and_push rand TaskType_DISABLE (change_param networkId uuid c) None ts))"

definition HandleCapabilityDeleteChange ::
  "('w, 'j) env \<Rightarrow> rand \<Rightarrow> bool \<Rightarrow> dh_context \<Rightarrow> (string \<times> string) list \<Rightarrow> cap_map \<times> task_sys \<Rightarrow> cap_map \<times> task_sys" where
  "HandleCapabilityDeleteChange E rand unInitFlag cx deleteRecords st =
     (if unInitFlag then st else fold (cap_delete_item E rand cx) deleteRecords st)"

definition CapMgr_OnChange ::
  "('w, 'j) env \<Rightarrow> rand \<Rightarrow> bool \<Rightarrow> dh_context \<Rightarrow> change_notification \<Rightarrow> cap_map \<times> task_sys \<Rightarrow> cap_map \<times> task_sys" where
  "CapMgr_OnChange E rand unInitFlag cx cn st =
     (let st1 = (if records_ok (cn_insert cn) then HandleCapabilityAddChange E rand cx (cn_insert cn) st else st);
          st2 = (if records_ok (cn_update cn) then HandleCapabilityUpdateChange E rand unInitFlag cx (cn_update cn) st1
                 else st1)
      in if records_ok (cn_delete cn) then HandleCapabilityDeleteChange E rand unInitFlag cx (cn_delete cn) st2
         else st2)"

text \<open>
  The notification of the cloud carries keys: the records of inserted and updated keys are read from the
  database, those of deleted keys get an empty value.
\<close>

definition CapMgr_OnChange_cloud ::
  "('w, 'j) env \<Rightarrow> rand \<Rightarrow> bool \<Rightarrow> string list \<Rightarrow> string list \<Rightarrow> string list \<Rightarrow> 'w cap_state \<times> task_sys \<Rightarrow> 'w cap_state \<times> task_sys" where
  "CapMgr_OnChange_cloud E rand unInitFlag insKeys updKeys delKeys = (\<lambda>((m, s), ts).
     let cx = sys_cx s;
         insertRecords = CapMgr_GetEntriesByKeys E insKeys (m, s);
         st1 = (if records_ok insertRecords then HandleCapabilityAddChange E rand cx insertRecords (im_map m, ts)
                else (im_map m, ts));
         updateRecords = CapMgr_GetEntriesByKeys E updKeys (m, s);
         st2 = (if records_ok updateRecords then HandleCapabilityUpdateChange E rand unInitFlag cx updateRecords st1
                else st1);
         st3 = (if records_ok delKeys
                then HandleCapabilityDeleteChange E rand unInitFlag cx (map (\<lambda>k. (k, [])) delKeys) st2 else st2)
     in ((m\<lparr>im_map := fst st3\<rparr>, s), snd st3))"

section \<open>Invariant\<close>

abbreviation (input) cap_keyed :: "cap_map \<Rightarrow> bool" where
  "cap_keyed \<equiv> keyed_map CapabilityInfo_GetKey"

text \<open>The operations that change the manager, as steps of a sequence; the key lists are those of the cloud.\<close>

datatype cap_op =
    CapInit | CapUnInit | CapSync string | CapRecover recover_event
  | CapAdd "capability_info option list" | CapAddInMem "capability_info option list"
  | CapRemoveDB string | CapRemoveKey string | CapRemoveMem string
  | CapChange bool change_notification | CapChangeCloud bool "string list" "string list" "string list"

fun cap_step :: "('w, 'j) env \<Rightarrow> rand \<Rightarrow> cap_op \<Rightarrow> 'w cap_state \<times> task_sys \<Rightarrow> 'w cap_state \<times> task_sys" where
  "cap_step E rand CapInit (ms, ts) = (snd (CapMgr_Init E ms), ts)"
| "cap_step E rand CapUnInit (ms, ts) = (snd (CapMgr_UnInit E ms), ts)"
| "cap_step E rand (CapSync d) (ms, ts) = (snd (CapMgr_SyncDeviceInfoFromDB E d ms), ts)"
| "cap_step E rand (CapRecover ev) (ms, ts) = (CapMgr_ProcessEvent E ev ms, ts)"
| "cap_step E rand (CapAdd cs) (ms, ts) = (snd (CapMgr_AddCapability E cs ms), ts)"
| "cap_step E rand (CapAddInMem cs) (ms, ts) = (snd (CapMgr_AddCapabilityInMem cs ms), ts)"
| "cap_step E rand (CapRemoveDB d) (ms, ts) = (snd (CapMgr_RemoveCapabilityInfoInDB E d ms), ts)"
| "cap_step E rand (CapRemoveKey k) (ms, ts) = (snd (CapMgr_RemoveCapabilityInfoByKey E k ms), ts)"
| "cap_step E rand (CapRemoveMem d) (ms, ts) = (snd (CapMgr_RemoveCapabilityInfoInMem d ms), ts)"
| "cap_step E rand (CapChange u cn) ((m, s), ts) =
     (let (map1, ts1) = CapMgr_OnChange E rand u (sys_cx s) cn (im_map m, ts) in ((m\<lparr>im_map := map1\<rparr>, s), ts1))"
| "cap_step E rand (CapChangeCloud u i p d) st = CapMgr_OnChange_cloud E rand u i p d st"

definition cap_ok :: "rand \<Rightarrow> 'w cap_state \<times> task_sys \<Rightarrow> bool" where
  "cap_ok rand st \<longleftrightarrow> cap_keyed (im_map (fst (fst st))) \<and> task_sys_ok rand (snd st)"

text \<open>The same for the map and the task system alone, on which the handlers work.\<close>

definition map_tasks_ok :: "rand \<Rightarrow> cap_map \<times> task_sys \<Rightarrow> bool" where
  "map_tasks_ok rand st \<longleftrightarrow> cap_keyed (fst st) \<and> task_sys_ok rand (snd st)"

lemma fold_inv: "(\<And>x st. P st \<Longrightarrow> P (f x st)) \<Longrightarrow> P st \<Longrightarrow> P (fold f xs st)"
  by (induction xs arbitrary: st) simp_all

lemma map_tasks_ok_add: "map_tasks_ok rand st \<Longrightarrow> map_tasks_ok rand (HandleCapabilityAddChange E rand cx es st)"
  unfolding HandleCapabilityAddChange_def
  by (rule fold_inv) (auto simp: map_tasks_ok_def keyed_map_change_add change_add_ok)

lemma map_tasks_ok_update: "map_tasks_ok rand st \<Longrightarrow> map_tasks_ok rand (HandleCapabilityUpdateChange E rand u cx es st)"
proof -
  assume "map_tasks_ok rand st"
  then have "map_tasks_ok rand (fold (change_update_item rand cx (cap_dec E) CapabilityInfo_GetKey) es st)"
    by (rule fold_inv [rotated]) (auto simp: map_tasks_ok_def keyed_map_change_update change_update_ok)
  with \<open>map_tasks_ok rand st\<close> show ?thesis by (simp add: HandleCapabilityUpdateChange_def)
qed

lemma cap_delete_item_ok: "map_tasks_ok rand st \<Longrightarrow> map_tasks_ok rand (cap_delete_item E rand cx item st)"
  by (cases st)
    (auto simp: map_tasks_ok_def cap_delete_item_def Let_def keyed_map_erase intro!: create_and_push_ok split: prod.splits)

lemma map_tasks_ok_delete: "map_tasks_ok rand st \<Longrightarrow> map_tasks_ok rand (HandleCapabilityDeleteChange E rand u cx es st)"
proof -
  assume "map_tasks_ok rand st"
  then have "map_tasks_ok rand (fold (cap_delete_item E rand cx) es st)"
    by (rule fold_inv [rotated]) (rule cap_delete_item_ok)
  with \<open>map_tasks_ok rand st\<close> show ?thesis by (simp add: HandleCapabilityDeleteChange_def)
qed

lemmas map_tasks_ok_handlers = map_tasks_ok_add map_tasks_ok_update map_tasks_ok_delete

lemma map_tasks_ok_change: "map_tasks_ok rand st \<Longrightarrow> map_tasks_ok rand (CapMgr_OnChange E rand u cx cn st)"
  by (simp add: CapMgr_OnChange_def Let_def map_tasks_ok_handlers)

lemma cap_ok_map: "cap_ok rand ((m\<lparr>im_map := fst x\<rparr>, s), snd x) \<longleftrightarrow> map_tasks_ok rand x"
  by (simp add: cap_ok_def map_tasks_ok_def)

lemma cap_ok_cloud: "cap_ok rand st \<Longrightarrow> cap_ok rand (CapMgr_OnChange_cloud E rand u i p d st)"
proof -
  obtain m s ts where st: "st = ((m, s), ts)" by (metis prod.collapse)
  assume "cap_ok rand st"
  then have "map_tasks_ok rand (im_map m, ts)" by (simp add: cap_ok_def map_tasks_ok_def st)
  then show ?thesis
    by (simp add: st CapMgr_OnChange_cloud_def Let_def cap_ok_map map_tasks_ok_handlers)
qed

lemma fold_put_option:
  "fold (\<lambda>c m1. case c of None \<Rightarrow> m1 | Some c1 \<Rightarrow> smap_put (key c1) c1 m1) cs m
     = fold (\<lambda>c. smap_put (key c) c) (List.map_filter id cs) m"
  by (induction cs arbitrary: m) (auto simp: List.map_filter_simps split: option.splits)

lemma cap_keyed_ops [dhf_inv]:
  assumes "cap_keyed (im_map (fst ms))"
  shows "cap_keyed (im_map (fst (snd (CapMgr_AddCapabilityInMem cs ms))))"
    and "cap_keyed (im_map (fst (snd (CapMgr_RemoveCapabilityInfoInDB E d ms))))"
    and "cap_keyed (im_map (fst (snd (CapMgr_RemoveCapabilityInfoInMem d ms))))"
    and "cap_keyed (im_map (fst (CapMgr_ProcessEvent E ev ms)))"
  using assms
  by (cases ms; auto simp: CapMgr_AddCapabilityInMem_def CapMgr_RemoveCapabilityInfoInDB_def Let_def fold_put_option
      CapMgr_RemoveCapabilityInfoInMem_def CapMgr_ProcessEvent_def CapMgr_SyncRemoteCapabilityInfos_def
      keyed_map_put_all keyed_map_erase_if keyed_map_sync_remote split: option.splits prod.splits)+

lemma cap_ok_step: "cap_ok rand st \<Longrightarrow> cap_ok rand (cap_step E rand op st)"
proof -
  obtain m s ts where st: "st = ((m, s), ts)" by (metis prod.collapse)
  assume ok: "cap_ok rand st"
  then have k: "cap_keyed (im_map (fst (m, s)))" and t: "task_sys_ok rand ts" by (simp_all add: cap_ok_def st)
  have mt: "map_tasks_ok rand (im_map m, ts)" using k t by (simp add: map_tasks_ok_def)
  note ops = cap_keyed_ops [OF k] keyed_map_add [OF k] keyed_map_remove_key [OF k] keyed_map_sync [OF k]
  show ?thesis
  proof (cases op)
    case (CapChange u cn)
    with map_tasks_ok_change [OF mt, of E u "sys_cx s" cn] show ?thesis
      by (auto simp: st cap_ok_def map_tasks_ok_def Let_def split: prod.splits)
  next
    case (CapChangeCloud u i p d)
    with cap_ok_cloud [OF ok] show ?thesis by simp
  qed (use k t in \<open>simp_all add: ops st cap_ok_def CapMgr_Init_def CapMgr_UnInit_def dhf_frame
      CapMgr_SyncDeviceInfoFromDB_def CapMgr_AddCapability_def CapMgr_RemoveCapabilityInfoByKey_def\<close>)
qed

text \<open>
  Property C21. Whatever sequence of operations the manager goes through (opening and closing its
  database, synchronisation, additions, removals, notifications of the database and of the cloud), every
  record of its cache stands under the key made of the record's own device and hardware identifiers, the
  cache has one entry per key in ascending order, and the task system the notifications feed stays well
  formed.
\<close>

theorem capability_cache_invariant:
  "cap_ok rand (fold (cap_step E rand) ops ((info_mgr_new, s), task_sys_new))"
proof -
  have "cap_ok rand ((info_mgr_new, s), task_sys_new)"
    by (simp add: cap_ok_def info_mgr_new_def task_sys_ok_new)
  then show ?thesis by (rule fold_inv [rotated]) (rule cap_ok_step)
qed

section \<open>Additions and look-ups\<close>

text \<open>
  After an accepted \<open>AddCapability\<close> a look-up by device and hardware identifier returns the
  last added record of that key, and what the cache held before for every other key; this does not
  depend on whether the database takes the batch.
\<close>

theorem AddCapability_lookup:
  assumes ok: "cap_keyed (im_map m)" and db: "im_db m \<noteq> None"
    and len: "infos \<noteq> []" "length infos \<le> MAX_DB_RECORD_SIZE"
    and ids: "IsIdLengthValid d" "IsIdLengthValid h"
  shows "CapMgr_GetCapability d h (im_map (fst (snd (CapMgr_AddCapability E infos (m, s))))) =
    (case List.find (\<lambda>c. CapabilityInfo_GetKey c = GetCapabilityKey d h) (rev (List.map_filter id infos)) of
       Some c \<Rightarrow> (DH_FWK_SUCCESS, Some c)
     | None \<Rightarrow> CapMgr_GetCapability d h (im_map m))"
  using assms
  by (auto simp: CapMgr_AddCapability_def mgr_add_map CapMgr_GetCapability_def map_get_cap_def smap_get_put_all [OF ok]
      split: option.splits)

theorem AddCapability_lookup_witness:
  "CapMgr_GetCapability ''0af3'' ''Camera_1'' (im_map (fst (snd (CapMgr_AddCapability env_model [Some sample_cap]
      (\<lparr> im_db = Some (DBAdapter_new ''db''), im_map = [] \<rparr>, sys_model))))) = (DH_FWK_SUCCESS, Some sample_cap)"
  by (subst AddCapability_lookup)
    (simp_all add: IsIdLengthValid_def List.map_filter_simps CapabilityInfo_GetKey_eq sample_cap_def)

section \<open>Removal of a device\<close>

definition hash_free_devices :: "cap_map \<Rightarrow> bool" where
  "hash_free_devices m \<longleftrightarrow> (\<forall>k c. smap_get m k = Some c \<longrightarrow> CHR ''#'' \<notin> set (ci_deviceId c))"

lemma keyed_match:
  assumes "cap_keyed m" and "hash_free_devices m" and "smap_get m k = Some c"
  shows "IsCapKeyMatchDeviceId k d \<longleftrightarrow> ci_deviceId c = d \<and> d \<noteq> [] \<and> length k \<le> MAX_ID_LEN"
proof -
  from assms have "k = GetCapabilityKey (ci_deviceId c) (ci_dhId c)"
    by (auto simp: keyed_map_def CapabilityInfo_GetKey_eq)
  moreover from assms have "CHR ''#'' \<notin> set (ci_deviceId c)" by (auto simp: hash_free_devices_def)
  ultimately show ?thesis by (auto simp: IsCapKeyMatch_key) (simp_all add: GetCapabilityKey_def)
qed

lemma map_by_device_mem:
  assumes "cap_keyed m" and "hash_free_devices m"
  shows "c \<in> set (map_by_device d m)
     \<longleftrightarrow> (\<exists>k. smap_get m k = Some c \<and> ci_deviceId c = d \<and> d \<noteq> [] \<and> length k \<le> MAX_ID_LEN)"
proof -
  have "c \<in> set (map_by_device d m) \<longleftrightarrow> (\<exists>k. (k, c) \<in> set m \<and> IsCapKeyMatchDeviceId k d)"
    by (force simp: map_by_device_def)
  also have "\<dots> \<longleftrightarrow> (\<exists>k. smap_get m k = Some c \<and> IsCapKeyMatchDeviceId k d)"
    using assms(1) by (simp add: keyed_map_def smap_get_iff)
  finally show ?thesis using keyed_match [OF assms] by blast
qed

text \<open>
  Removing a device from the cache removes exactly the records of that device whose key has
  at most 256 characters and keeps every other record, so that listing the device's records gives none
  afterwards. Records of the device with a longer key are neither listed nor removed.
\<close>

theorem RemoveInMem_exact:
  fixes m :: "capability_info info_mgr" and s :: "'w sys"
  assumes ok: "cap_keyed (im_map m)" and hf: "hash_free_devices (im_map m)" and d: "IsIdLengthValid d"
  defines "m' \<equiv> im_map (fst (snd (CapMgr_RemoveCapabilityInfoInMem d (m, s))))"
  shows "fst (CapMgr_RemoveCapabilityInfoInMem d (m, s)) = DH_FWK_SUCCESS
       \<and> smap_get m' k = (case smap_get (im_map m) k of
            None \<Rightarrow> None
          | Some c \<Rightarrow> if ci_deviceId c = d \<and> length k \<le> MAX_ID_LEN then None else Some c)
       \<and> CapMgr_GetCapabilitiesByDeviceId d m' [] = []"
proof -
  have "d \<noteq> []" using d by (auto simp: IsIdLengthValid_def)
  have m': "m' = smap_erase_if (\<lambda>k. IsCapKeyMatchDeviceId k d) (im_map m)"
    using d by (simp add: m'_def CapMgr_RemoveCapabilityInfoInMem_def)
  have "map_by_device d m' = []"
    by (auto simp: map_by_device_def m' smap_erase_if_filter filter_empty_conv)
  moreover have "smap_get m' k = (case smap_get (im_map m) k of None \<Rightarrow> None
      | Some c \<Rightarrow> if ci_deviceId c = d \<and> length k \<le> MAX_ID_LEN then None else Some c)"
    using \<open>d \<noteq> []\<close> keyed_match [OF ok hf] by (auto simp: m' split: option.splits)
  ultimately show ?thesis
    using d by (simp add: CapMgr_RemoveCapabilityInfoInMem_def CapMgr_GetCapabilitiesByDeviceId_def)
qed

theorem RemoveInMem_exact_witness:
  "let m = \<lparr> im_db = None, im_map = [(CapabilityInfo_GetKey sample_cap, sample_cap)] \<rparr>
   in CapMgr_GetCapabilitiesByDeviceId ''0af3''
        (im_map (fst (snd (CapMgr_RemoveCapabilityInfoInMem ''0af3'' (m, sys_model))))) [] = []"
proof -
  let ?m = "\<lparr> im_db = None, im_map = [(CapabilityInfo_GetKey sample_cap, sample_cap)] \<rparr>"
  have "cap_keyed (im_map ?m)" by (simp add: keyed_map_def smap_sorted_def smap_get_def)
  moreover have "hash_free_devices (im_map ?m)"
    by (simp add: hash_free_devices_def smap_get_def sample_cap_def)
  moreover have "IsIdLengthValid ''0af3''" by (simp add: IsIdLengthValid_def)
  ultimately show ?thesis using RemoveInMem_exact [of ?m "''0af3''" sys_model "[]"] unfolding Let_def by blast
qed

section \<open>Notifications\<close>

lemma cap_delete_item_empty: "cap_delete_item E rand cx (k, []) st = st"
  by (cases st) (simp add: cap_delete_item_def GetCapabilityByValue_def CapabilityInfo_FromJsonString_def
      json_decode_empty)

text \<open>
  The deletions of a cloud notification have no effect: the handler looks for the record in
  the value of an entry, and the entries made from the deleted keys have no value. The cache keeps the
  deleted records and no disable task is created.
\<close>

theorem cloud_deletions_ignored:
  "CapMgr_OnChange_cloud E rand u insKeys updKeys delKeys st = CapMgr_OnChange_cloud E rand u insKeys updKeys [] st"
proof -
  have "fold (cap_delete_item E rand cx) (map (\<lambda>k. (k, [])) ks) x = x" for cx ks x
    by (induction ks arbitrary: x) (simp_all add: cap_delete_item_empty)
  then have "HandleCapabilityDeleteChange E rand u cx (map (\<lambda>k. (k, [])) ks) x = x" for cx ks x
    by (simp add: HandleCapabilityDeleteChange_def)
  moreover obtain m s ts where "st = ((m, s), ts)" by (metis prod.collapse)
  ultimately show ?thesis by (simp add: CapMgr_OnChange_cloud_def Let_def records_ok_def)
qed

text \<open>
  When the database reports a new record of a device that is online, the record is cached
  under its key and one enable task with the device's identifiers is created and pushed; when it then
  reports the deletion of the same record, the cache is without it and one disable task is created and
  pushed. While the framework is being uninitialised, the deletion is ignored.
\<close>

theorem remote_insert_then_delete:
  assumes dec: "GetCapabilityByValue (env_cj E) v = (DH_FWK_SUCCESS, c)"
    and uuid: "GetUUIDByDeviceId cx (ci_deviceId c) = uuid" "uuid \<noteq> []"
    and net: "GetNetworkIdByUUID cx uuid = net" "net \<noteq> []"
  defines "p \<equiv> change_param net uuid c" and "k \<equiv> CapabilityInfo_GetKey c"
  shows "HandleCapabilityAddChange E rand cx [(k', v)] (m, ts)
           = (smap_put k c m, create_and_push rand TaskType_ENABLE p None ts)
       \<and> HandleCapabilityDeleteChange E rand False cx [(k', v)] (smap_put k c m, ts)
           = (smap_erase k (smap_put k c m), create_and_push rand TaskType_DISABLE p None ts)
       \<and> smap_get (smap_erase k (smap_put k c m)) = (smap_get m)(k := None)
       \<and> HandleCapabilityDeleteChange E rand True cx [(k', v)] (m, ts) = (m, ts)"
  using assms
  by (auto simp: HandleCapabilityAddChange_def HandleCapabilityDeleteChange_def change_add_item_def cap_delete_item_def
      Let_def)

text \<open>A context in which the device of the sample record is online.\<close>

definition sample_cx :: dh_context where
  "sample_cx = DHContext_new\<lparr>cx_devIdEntrySet := [DeviceIdEntry ''net'' ''uuid'' ''0af3'' ''udid'' ''77be'']\<rparr>"

lemma sample_cx_lookups:
  "GetUUIDByDeviceId sample_cx ''0af3'' = ''uuid''" "GetNetworkIdByUUID sample_cx ''uuid'' = ''net''"
  by (simp_all add: sample_cx_def GetUUIDByDeviceId_def GetNetworkIdByUUID_def first_entry_def IsIdLengthValid_def)

theorem remote_insert_then_delete_witness:
  "HandleCapabilityAddChange env_model sample_rand sample_cx
     [(''k'', CapabilityInfo_ToJsonString model_cjson sample_cap)] ([], task_sys_new)
   = ([(''0af3###Camera_1'', sample_cap)],
      create_and_push sample_rand TaskType_ENABLE (change_param ''net'' ''uuid'' sample_cap) None task_sys_new)"
  using remote_insert_then_delete [of env_model "CapabilityInfo_ToJsonString model_cjson sample_cap" sample_cap sample_cx
      "''uuid''" "''net''" sample_rand "''k''" "[]" task_sys_new] sample_cap_decodes sample_cx_lookups
  by (simp add: sample_cap_def CapabilityInfo_GetKey_def)

section \<open>Queries by filters\<close>

lemma query_loop_None: "query_loop fs m r = None \<longleftrightarrow> (\<exists>e \<in> set m. match_filters (snd e) fs = None)"
  by (induction fs m r rule: query_loop.induct) (auto split: option.splits)

lemma query_loop_Some:
  "query_loop fs m r = Some res \<Longrightarrow> distinct (map fst m) \<Longrightarrow> (\<forall>k \<in> fst ` set m. smap_get r k = None) \<Longrightarrow>
   smap_get res k = (case smap_get r k of Some c \<Rightarrow> Some c
      | None \<Rightarrow> (case map_of m k of Some c \<Rightarrow> if match_filters c fs = Some True then Some c else None | None \<Rightarrow> None))"
proof (induction fs m r rule: query_loop.induct)
  case (1 fs r)
  then show ?case by (auto split: option.splits)
next
  case (2 fs k' c m r)
  from "2.prems"(1) obtain b where b: "match_filters c fs = Some b"
    and q: "query_loop fs m (if b then smap_emplace k' c r else r) = Some res"
    by (auto split: option.splits)
  have none: "smap_get r k' = None" using "2.prems"(3) by simp
  have emp: "smap_get (smap_emplace k' c r) = (smap_get r)(k' \<mapsto> c)" using none by (simp add: smap_get_emplace)
  have fresh: "\<forall>x \<in> fst ` set m. smap_get (if b then smap_emplace k' c r else r) x = None"
    using "2.prems"(2,3) by (auto simp: emp)
  have "k' \<notin> fst ` set m" using "2.prems"(2) by simp
  then have "map_of m k' = None" by (simp add: map_of_eq_None_iff)
  with "2.IH" [OF b q _ fresh] "2.prems"(2) b none show ?case by (auto simp: emp split: option.splits)
qed

text \<open>
  A query returns exactly the cached records that match every filter; it fails with an
  exception exactly when, for some cached record, a numeric filter whose text is not an \<open>int\<close> is reached
  before one that does not match, and so never when the filters are on texts only.
\<close>

theorem query_by_filters:
  assumes "cap_keyed m"
  shows "(case QueryCapabilityByFilters fs m of
            None \<Rightarrow> \<exists>e \<in> set m. match_filters (snd e) fs = None
          | Some res \<Rightarrow> smap_get res k = Some c \<longleftrightarrow> smap_get m k = Some c \<and> match_filters c fs = Some True)
       \<and> ((\<forall>f \<in> fst ` set fs. f \<noteq> FILTER_DEVICE_TYPE \<and> f \<noteq> FILTER_DH_TYPE) \<longrightarrow> QueryCapabilityByFilters fs m \<noteq> None)"
proof -
  have dist: "distinct (map fst m)" using assms by (simp add: keyed_map_def smap_sorted_distinct)
  have some: "smap_get res k = Some c \<longleftrightarrow> smap_get m k = Some c \<and> match_filters c fs = Some True"
    if "query_loop fs m [] = Some res" for res
    using query_loop_Some [OF that dist] by (auto simp: smap_get_def split: option.splits if_splits)
  have text_only: "match_filters c' fs \<noteq> None"
    if "\<forall>f \<in> fst ` set fs. f \<noteq> FILTER_DEVICE_TYPE \<and> f \<noteq> FILTER_DH_TYPE" for c'
    using that
    by (induction c' fs rule: match_filters.induct) (auto simp: IsCapabilityMatchFilter_def split: option.splits bool.splits)
  show ?thesis
    using some query_loop_None [of fs m "[]"] text_only
    by (auto simp: QueryCapabilityByFilters_def split: option.splits)
qed

theorem query_by_filters_witness:
  "(case QueryCapabilityByFilters [(FILTER_DH_ID, ''Camera_1'')] [(CapabilityInfo_GetKey sample_cap, sample_cap)] of
      None \<Rightarrow> False
    | Some res \<Rightarrow> smap_get res (CapabilityInfo_GetKey sample_cap) = Some sample_cap)"
proof -
  let ?m = "[(CapabilityInfo_GetKey sample_cap, sample_cap)]"
  have "cap_keyed ?m" by (simp add: keyed_map_def smap_sorted_def smap_get_def)
  from query_by_filters [OF this, of "[(FILTER_DH_ID, ''Camera_1'')]" "CapabilityInfo_GetKey sample_cap" sample_cap]
  show ?thesis
    by (auto simp: IsCapabilityMatchFilter_def smap_get_def sample_cap_def split: option.splits)
qed

section \<open>Persistence\<close>

text \<open>Every value of a store that decodes stands under the key of the record it decodes to.\<close>

definition store_keyed ::
  "(string \<Rightarrow> ret \<times> 'v) \<Rightarrow> ('v \<Rightarrow> string) \<Rightarrow> (string \<Rightarrow> string option) \<Rightarrow> bool" where
  "store_keyed dec key kv \<longleftrightarrow> (\<forall>k v c. kv k = Some v \<and> dec v = (DH_FWK_SUCCESS, c) \<longrightarrow> key c = k)"

lemma sync_prefix_finds:
  assumes laws: "kv_laws (env_kv E) kv" and op: "db_open db" and sk: "store_keyed dec key (kv (sys_world s) (db_storeId db))"
    and v: "kv (sys_world s) (db_storeId db) (key c) = Some v" "dec v = (DH_FWK_SUCCESS, c)"
    and pre: "str_prefix p (key c)"
    and few: "length (snd (kv_GetEntries (env_kv E) (sys_world s) (db_storeId db) p)) \<le> MAX_DB_RECORD_SIZE"
  shows "case mgr_sync_prefix E dec key p (\<lparr> im_db = Some db, im_map = m0 \<rparr>, s) of
           (r, (m1, s1)) \<Rightarrow> r = DH_FWK_SUCCESS \<and> smap_get (im_map m1) (key c) = Some c"
proof -
  obtain es where es: "kv_GetEntries (env_kv E) (sys_world s) (db_storeId db) p = (KV_SUCCESS, es)"
    and set_es: "set es = {(k, v). kv (sys_world s) (db_storeId db) k = Some v \<and> str_prefix p k}"
    using laws unfolding kv_laws_def by (metis prod.collapse)
  have mem: "(key c, v) \<in> set es" using v pre set_es by simp
  then have vmem: "v \<in> set (map snd es)" by force
  have uniq: "c' = c" if "v' \<in> set (map snd es)" "dec v' = (DH_FWK_SUCCESS, c')" "key c' = key c" for v' c'
  proof -
    from that(1) set_es obtain k where "kv (sys_world s) (db_storeId db) k = Some v'" by auto
    with sk that(2,3) v show ?thesis unfolding store_keyed_def by (metis option.inject prod.inject)
  qed
  have "smap_get (fold (store_decoded dec key) (map snd es) m0) (key c) = Some c"
    by (rule store_decoded_all_get [where dec = dec and key = key, OF v(2) [symmetric] refl vmem uniq])
  moreover have "es \<noteq> []" using mem by auto
  ultimately show ?thesis
    using op few es by (simp add: mgr_sync_prefix_def mgr_read_prefix_def GetDataByKeyPrefix_def Let_def
        split: prod.splits)
qed

text \<open>
  Property C1. A record that is new to the database survives a restart: after \<open>AddCapability\<close> reports
  success, a manager that starts with an empty cache on the same database and synchronises the device
  finds the same record. The service has to keep its laws and report success, the record has to be one
  that JSON carries, and the device may not have more than 10000 records.
\<close>

theorem capability_survives_restart:
  fixes E :: "('w, 'j) env" and c :: capability_info and s :: "'w sys" and m :: "capability_info info_mgr"
  defines "k \<equiv> CapabilityInfo_GetKey c" and "v \<equiv> CapabilityInfo_ToJsonString (env_cj E) c"
    and "res \<equiv> CapMgr_AddCapability E [Some c] (m, s)"
  assumes laws: "kv_laws (env_kv E) kv" and db: "im_db m = Some db" "db_open db"
    and sync: "\<And>w ids. kv (snd (kv_Sync (env_kv E) (db_storeId db) ids w)) = kv w"
    and put: "\<And>w. fst (kv_PutBatch (env_kv E) (db_storeId db) [(k, v)] w) = KV_SUCCESS"
    and dec: "GetCapabilityByValue (env_cj E) v = (DH_FWK_SUCCESS, c)"
    and ids: "IsIdLengthValid k" "IsIdLengthValid (ci_deviceId c)" "IsIdLengthValid (ci_dhId c)"
    and new: "kv (sys_world s) (db_storeId db) k = None"
    and sk: "store_keyed (cap_dec E) CapabilityInfo_GetKey (kv (sys_world s) (db_storeId db))"
    and few: "length (snd (kv_GetEntries (env_kv E) (sys_world (snd (snd res))) (db_storeId db) (ci_deviceId c)))
                \<le> MAX_DB_RECORD_SIZE"
  shows "fst res = DH_FWK_SUCCESS
       \<and> (case CapMgr_SyncDeviceInfoFromDB E (ci_deviceId c) (\<lparr> im_db = Some db, im_map = [] \<rparr>, snd (snd res)) of
            (r, (m2, s2)) \<Rightarrow> r = DH_FWK_SUCCESS
              \<and> CapMgr_GetCapability (ci_deviceId c) (ci_dhId c) (im_map m2) = (DH_FWK_SUCCESS, Some c))"
proof -
  let ?st = "db_storeId db"
  obtain d where nf: "kv_Get (env_kv E) (sys_world s) ?st k = (KV_NOT_FOUND, d)"
    using kv_laws_get(2) [OF laws new] by blast
  define s1 where "s1 = snd (sync_if_missing E True k (db, s))"
  have s1: "sync_if_missing E True k (db, s) = (db, s1)" and kv1: "kv (sys_world s1) = kv (sys_world s)"
    using sync_if_missing_frame [of kv E db, OF sync] by (auto simp: s1_def intro: prod_eqI)
  obtain w2 where w2: "kv_PutBatch (env_kv E) ?st [(k, v)] (sys_world s1) = (KV_SUCCESS, w2)"
    using put by (metis prod.collapse)
  have kv2: "kv w2 = (kv (sys_world s))(?st := (kv (sys_world s) ?st)(k \<mapsto> v))"
    using kv_laws_write(3) [OF laws w2] kv1 by simp
  have res: "res = (DH_FWK_SUCCESS, (\<lparr> im_db = Some db, im_map = smap_put k c (im_map m) \<rparr>, s1\<lparr>sys_world := w2\<rparr>))"
    using db nf ids(1) w2 s1
    by (simp add: res_def CapMgr_AddCapability_def mgr_add_def GetDataByKey_def PutDataBatch_def kv_call_def
        IsArrayLengthValid_def k_def [symmetric] v_def [symmetric])
  have "store_keyed (cap_dec E) CapabilityInfo_GetKey (kv w2 ?st)"
    using sk dec by (auto simp: store_keyed_def kv2 k_def)
  moreover have "str_prefix (ci_deviceId c) k" by (simp add: k_def CapabilityInfo_GetKey_def)
  ultimately have "case mgr_sync_prefix E (cap_dec E) CapabilityInfo_GetKey (ci_deviceId c)
      (\<lparr> im_db = Some db, im_map = [] \<rparr>, snd (snd res)) of
      (r, (m1, s1)) \<Rightarrow> r = DH_FWK_SUCCESS \<and> smap_get (im_map m1) (CapabilityInfo_GetKey c) = Some c"
    using dec few db(2) by (intro sync_prefix_finds [OF laws]) (auto simp: res kv2 k_def)
  then show ?thesis
    using ids(2,3) res
    by (auto simp: CapMgr_SyncDeviceInfoFromDB_def CapMgr_GetCapability_def map_get_cap_def CapabilityInfo_GetKey_eq
        split: prod.splits)
qed

lemma length_kvm_entries: "length (kvm_entries w st p) \<le> length w"
proof -
  have "length (concat (map (\<lambda>e. if Q e then [f e] else []) xs)) \<le> length xs" for Q f and xs :: kv_world
    by (induction xs) auto
  then show ?thesis unfolding kvm_entries_def .
qed

lemma sync_if_missing_model: "sys_world (snd (sync_if_missing env_model b k (db, s))) = sys_world s"
  by (auto simp: sync_if_missing_def SyncByNotFound_def GetNetworkIdByKey_def kv_call_def kv_model_def Let_def
      split: prod.splits if_splits)

theorem capability_survives_restart_witness:
  "let m = \<lparr> im_db = Some (db_model ''db''), im_map = [] \<rparr>;
       (r, (m1, s1)) = CapMgr_AddCapability env_model [Some sample_cap] (m, sys_model);
       (r2, (m2, s2)) = CapMgr_SyncDeviceInfoFromDB env_model ''0af3'' (m, s1)
   in CapMgr_GetCapability ''0af3'' ''Camera_1'' (im_map m2) = (DH_FWK_SUCCESS, Some sample_cap)"
proof -
  let ?db = "db_model ''db''" let ?m = "\<lparr> im_db = Some ?db, im_map = [] \<rparr>"
  let ?v = "CapabilityInfo_ToJsonString (env_cj env_model) sample_cap" and ?k = "CapabilityInfo_GetKey sample_cap"
  let ?res = "CapMgr_AddCapability env_model [Some sample_cap] (?m, sys_model)"
  have open_db: "db_open ?db" "db_storeId ?db = ''db''" by (simp_all add: db_model_def)
  have get: "GetDataByKey env_model ?k [] (?db, sys_model) = (ERR_DH_FWK_RESOURCE_KV_STORAGE_OPERATION_FAIL, [],
      sync_if_missing env_model True ?k (?db, sys_model))"
    by (simp add: GetDataByKey_def db_model_def kv_model_def sys_model_def kvm_get_def IsIdLengthValid_def
        CapabilityInfo_GetKey_def sample_cap_def)
  obtain db1 s1 where s1: "sync_if_missing env_model True ?k (?db, sys_model) = (db1, s1)" by fastforce
  have db1: "db1 = ?db" and w1: "sys_world s1 = []"
    using sync_if_missing_frame [of kvm_get env_model ?db True ?k sys_model] sync_if_missing_model [of True ?k ?db sys_model]
    by (simp_all add: s1 kv_model_def) (simp add: sys_model_def)
  have "sys_world (snd (snd ?res)) = [((''db'', ?k), ?v)]"
    by (simp add: CapMgr_AddCapability_def mgr_add_def get s1 db1 w1 PutDataBatch_def kv_call_def kv_model_def
        IsArrayLengthValid_def kvm_put_def open_db)
  then have few: "length (snd (kv_GetEntries (env_kv env_model) (sys_world (snd (snd ?res))) (db_storeId ?db)
      (ci_deviceId sample_cap))) \<le> MAX_DB_RECORD_SIZE"
    using length_kvm_entries [of "[((''db'', ?k), ?v)]" "db_storeId ?db" "ci_deviceId sample_cap"]
    by (simp add: kv_model_def)
  have "fst ?res = DH_FWK_SUCCESS
      \<and> (case CapMgr_SyncDeviceInfoFromDB env_model (ci_deviceId sample_cap) (\<lparr> im_db = Some ?db, im_map = [] \<rparr>, snd (snd ?res)) of
            (r, (m2, s2)) \<Rightarrow> r = DH_FWK_SUCCESS
              \<and> CapMgr_GetCapability (ci_deviceId sample_cap) (ci_dhId sample_cap) (im_map m2) = (DH_FWK_SUCCESS, Some sample_cap))"
  proof (rule capability_survives_restart [where kv = kvm_get and db = ?db, OF _ _ _ _ _ _ _ _ _ _ _ few])
    show "kv_laws (env_kv env_model) kvm_get" by (simp add: kv_model_laws)
    show "GetCapabilityByValue (env_cj env_model) ?v = (DH_FWK_SUCCESS, sample_cap)"
      by (simp add: sample_cap_decodes)
  qed (simp_all add: db_model_def kv_model_def sys_model_def kvm_get_def store_keyed_def IsIdLengthValid_def
      CapabilityInfo_GetKey_def sample_cap_def)
  then show ?thesis by (auto simp: Let_def sample_cap_def split: prod.splits)
qed

end
