(* ===== verification/DHF_LocalMeta.thy ===== *)
theory DHF_LocalMeta
  imports DHF_CapMgr
begin

text \<open>
  \<open>LocalCapabilityInfoManager\<close> (\<open>resourcemanager/local_capability_info_manager.cpp\<close>) and
  \<open>MetaInfoManager\<close> (\<open>resourcemanager/meta_info_manager.cpp\<close>): the same structure as the capability
  manager, the first on a local store with the same records, the second on a static store with the meta
  records, whose keys begin with the hash of the udid.
\<close>

section \<open>The local capability manager\<close>

definition LocalMgr_Init :: "('w, 'j) env \<Rightarrow> 'w cap_state \<Rightarrow> ret \<times> 'w cap_state" where
  "LocalMgr_Init E = mgr_Init LOCAL_CAPABILITY_ID (DBAdapter_InitLocal E)"

definition LocalMgr_UnInit :: "('w, 'j) env \<Rightarrow> 'w cap_state \<Rightarrow> ret \<times> 'w cap_state" where
  "LocalMgr_UnInit E = mgr_UnInit E"

definition LocalMgr_SyncDeviceInfoFromDB :: "('w, 'j) env \<Rightarrow> string \<Rightarrow> 'w cap_state \<Rightarrow> ret \<times> 'w cap_state" where
  "LocalMgr_SyncDeviceInfoFromDB E deviceId ms =
     (if \<not> IsIdLengthValid deviceId then (ERR_DH_FWK_PARA_INVALID, ms)
      else mgr_sync_prefix E (cap_dec E) CapabilityInfo_GetKey deviceId ms)"

text \<open>Here every record goes into the batch, whether the database holds it or not.\<close>

definition LocalMgr_AddCapability ::
  "('w, 'j) env \<Rightarrow> capability_info option list \<Rightarrow> 'w cap_state \<Rightarrow> ret \<times> 'w cap_state" where
  "LocalMgr_AddCapability E resInfos = (\<lambda>(m, s).
     if resInfos = [] \<or> length resInfos > MAX_DB_RECORD_SIZE then (ERR_DH_FWK_RESOURCE_RES_DB_DATA_INVALID, (m, s))
     else case im_db m of
       None \<Rightarrow> (ERR_DH_FWK_RESOURCE_DB_ADAPTER_POINTER_NULL, (m, s))
     | Some db \<Rightarrow>
         (let infos = List.map_filter id resInfos;
              keys = map CapabilityInfo_GetKey infos;
              values = map (CapabilityInfo_ToJsonString (env_cj E)) infos;
              m1 = m\<lparr>im_map := fold (\<lambda>c. smap_put (CapabilityInfo_GetKey c) c) infos (im_map m)\<rparr>
          in if keys = [] \<or> values = [] then (DH_FWK_SUCCESS, (m1, s))
             else let (r, (db1, s1)) = PutDataBatch E keys values (db, s); m2 = m1\<lparr>im_db := Some db1\<rparr> in
               if r \<noteq> DH_FWK_SUCCESS then (ERR_DH_FWK_RESOURCE_DB_ADAPTER_OPERATION_FAIL, (m2, s1))
               else (DH_FWK_SUCCESS, (m2, s1))))"

definition LocalMgr_RemoveCapabilityInfoByKey :: "('w, 'j) env \<Rightarrow> string \<Rightarrow> 'w cap_state \<Rightarrow> ret \<times> 'w cap_state" where
  "LocalMgr_RemoveCapabilityInfoByKey E key ms =
     (if \<not> IsKeySizeValid key then (ERR_DH_FWK_PARA_INVALID, ms) else mgr_remove_key E key ms)"

definition LocalMgr_GetCapabilitiesByDeviceId ::
  "string \<Rightarrow> cap_map \<Rightarrow> capability_info list \<Rightarrow> capability_info list" where
  "LocalMgr_GetCapabilitiesByDeviceId deviceId m resInfos =
     (if \<not> IsIdLengthValid deviceId \<or> resInfos = [] \<or> length resInfos > MAX_DB_RECORD_SIZE then resInfos
      else resInfos @ map_by_device deviceId m)"

definition LocalMgr_GetCapability :: "string \<Rightarrow> string \<Rightarrow> cap_map \<Rightarrow> ret \<times> capability_info option" where
  "LocalMgr_GetCapability deviceId dhId m =
     (if \<not> IsIdLengthValid deviceId \<or> \<not> IsIdLengthValid dhId then (ERR_DH_FWK_PARA_INVALID, None)
      else map_get_cap (GetCapabilityKey deviceId dhId) m)"

definition LocalMgr_GetDataByKey ::
  "('w, 'j) env \<Rightarrow> string \<Rightarrow> 'w cap_state \<Rightarrow> ret \<times> capability_info option \<times> 'w cap_state" where
  "LocalMgr_GetDataByKey E key ms =
     (if \<not> IsIdLengthValid key then (ERR_DH_FWK_PARA_INVALID, None, ms) else mgr_read_key E (cap_dec E) key ms)"

definition LocalMgr_GetDataByDHType :: "dhtype \<Rightarrow> cap_map \<Rightarrow> cap_map \<Rightarrow> ret \<times> cap_map" where
  "LocalMgr_GetDataByDHType dhType m capabilityMap = (DH_FWK_SUCCESS, map_by_type ci_dhType dhType m capabilityMap)"

text \<open>The loop decodes each value twice into the same object.\<close>

definition local_dec :: "('w, 'j) env \<Rightarrow> string \<Rightarrow> ret \<times> capability_info" where
  "local_dec E data =
     (let (r, c) = GetCapabilityByValue (env_cj E) data in
      if r \<noteq> DH_FWK_SUCCESS then (r, c) else CapabilityInfo_FromJsonString (env_cj E) data c)"

definition LocalMgr_GetDataByKeyPrefix ::
  "('w, 'j) env \<Rightarrow> string \<Rightarrow> cap_map \<Rightarrow> 'w cap_state \<Rightarrow> ret \<times> cap_map \<times> 'w cap_state" where
  "LocalMgr_GetDataByKeyPrefix E keyPrefix capabilityMap ms =
     (if \<not> IsKeySizeValid keyPrefix then (ERR_DH_FWK_PARA_INVALID, capabilityMap, ms)
      else mgr_read_into E (local_dec E) CapabilityInfo_GetKey keyPrefix capabilityMap ms)"

section \<open>The meta information manager\<close>

type_synonym 'w meta_state = "(meta_capability_info, 'w) mgr_state"
type_synonym meta_map = "(string, meta_capability_info) smap"

definition GetMetaCapByValue :: "('w, 'j) env \<Rightarrow> string \<Rightarrow> ret \<times> meta_capability_info" where
  "GetMetaCapByValue E value =
     (if \<not> IsMessageLengthValid value then (ERR_DH_FWK_PARA_INVALID, MetaCapabilityInfo_new)
      else MetaCapabilityInfo_FromJsonString (env_cj E) value MetaCapabilityInfo_new)"

definition MetaMgr_Init :: "('w, 'j) env \<Rightarrow> 'w meta_state \<Rightarrow> ret \<times> 'w meta_state" where
  "MetaMgr_Init E = mgr_Init GLOBAL_META_INFO (DBAdapter_Init E False TYPE_STATICS)"

definition MetaMgr_UnInit :: "('w, 'j) env \<Rightarrow> 'w meta_state \<Rightarrow> ret \<times> 'w meta_state" where
  "MetaMgr_UnInit E = mgr_UnInit E"

definition MetaMgr_AddMetaCapInfos ::
  "('w, 'j) env \<Rightarrow> meta_capability_info option list \<Rightarrow> 'w meta_state \<Rightarrow> ret \<times> 'w meta_state" where
  "MetaMgr_AddMetaCapInfos E =
     mgr_add E MetaCapabilityInfo_GetKey (MetaCapabilityInfo_ToJsonString (env_cj E))
       (\<lambda>data c. data = MetaCapabilityInfo_ToJsonString (env_cj E) c)"

definition MetaMgr_SyncMetaInfoFromDB :: "('w, 'j) env \<Rightarrow> string \<Rightarrow> 'w meta_state \<Rightarrow> ret \<times> 'w meta_state" where
  "MetaMgr_SyncMetaInfoFromDB E udidHash ms =
     (if \<not> IsHashSizeValid udidHash then (ERR_DH_FWK_PARA_INVALID, ms)
      else mgr_sync_prefix E (GetMetaCapByValue E) MetaCapabilityInfo_GetKey udidHash ms)"

definition MetaMgr_SyncRemoteMetaInfos :: "('w, 'j) env \<Rightarrow> 'w meta_state \<Rightarrow> ret \<times> 'w meta_state" where
  "MetaMgr_SyncRemoteMetaInfos E = (\<lambda>(m, s).
     if im_db m = None then (ERR_DH_FWK_RESOURCE_DB_ADAPTER_POINTER_NULL, (m, s))
     else (DH_FWK_SUCCESS,
       mgr_sync_remote E (GetMetaCapByValue E) MetaCapabilityInfo_GetKey ci_udidHash di_udidHash
         (GetOnlineDeviceUdidHash (sys_cx s) []) (m, s)))"

definition MetaMgr_ProcessEvent :: "('w, 'j) env \<Rightarrow> recover_event \<Rightarrow> 'w meta_state \<Rightarrow> 'w meta_state" where
  "MetaMgr_ProcessEvent E eventId ms =
     (if eventId = EVENT_META_INFO_DB_RECOVER then snd (MetaMgr_SyncRemoteMetaInfos E ms) else ms)"

definition MetaMgr_GetDataByKeyPrefix ::
  "('w, 'j) env \<Rightarrow> string \<Rightarrow> meta_map \<Rightarrow> 'w meta_state \<Rightarrow> ret \<times> meta_map \<times> 'w meta_state" where
  "MetaMgr_GetDataByKeyPrefix E keyPrefix metaCapMap ms =
     (if \<not> IsKeySizeValid keyPrefix then (ERR_DH_FWK_PARA_INVALID, metaCapMap, ms)
      else mgr_read_into E (GetMetaCapByValue E) MetaCapabilityInfo_GetKey keyPrefix metaCapMap ms)"

definition MetaMgr_RemoveMetaInfoByKey :: "('w, 'j) env \<Rightarrow> string \<Rightarrow> 'w meta_state \<Rightarrow> ret \<times> 'w meta_state" where
  "MetaMgr_RemoveMetaInfoByKey E key ms =
     (if \<not> IsKeySizeValid key then (ERR_DH_FWK_PARA_INVALID, ms) else mgr_remove_key E key ms)"

definition MetaMgr_GetMetaCapInfo :: "string \<Rightarrow> string \<Rightarrow> meta_map \<Rightarrow> ret \<times> meta_capability_info option" where
  "MetaMgr_GetMetaCapInfo udidHash dhId m =
     (if \<not> IsHashSizeValid udidHash \<or> \<not> IsIdLengthValid dhId then (ERR_DH_FWK_PARA_INVALID, None)
      else map_get_cap (GetCapabilityKey udidHash dhId) m)"

definition MetaMgr_GetMetaCapInfosByUdidHash ::
  "string \<Rightarrow> meta_map \<Rightarrow> meta_capability_info list \<Rightarrow> meta_capability_info list" where
  "MetaMgr_GetMetaCapInfosByUdidHash udidHash m metaCapInfos =
     (if \<not> IsHashSizeValid udidHash then metaCapInfos else metaCapInfos @ map_by_device udidHash m)"

definition MetaMgr_GetMetaDataByDHType :: "dhtype \<Rightarrow> meta_map \<Rightarrow> meta_map \<Rightarrow> ret \<times> meta_map" where
  "MetaMgr_GetMetaDataByDHType dhType m metaInfoMap = (DH_FWK_SUCCESS, map_by_type ci_dhType dhType m metaInfoMap)"

definition MetaMgr_SyncDataByNetworkId :: "('w, 'j) env \<Rightarrow> string \<Rightarrow> 'w meta_state \<Rightarrow> ret \<times> 'w meta_state" where
  "MetaMgr_SyncDataByNetworkId E networkId = (\<lambda>(m, s).
     if \<not> IsIdLengthValid networkId then (ERR_DH_FWK_PARA_INVALID, (m, s))
     else case im_db m of
       None \<Rightarrow> (ERR_DH_FWK_RESOURCE_DB_ADAPTER_POINTER_NULL, (m, s))
     | Some db \<Rightarrow> (let (ok, (db1, s1)) = SyncDataByNetworkId E networkId (db, s)
                  in (DH_FWK_SUCCESS, (m\<lparr>im_db := Some db1\<rparr>, s1))))"

definition MetaMgr_ClearDataWhenPeerLogout :: "('w, 'j) env \<Rightarrow> string \<Rightarrow> string \<Rightarrow> 'w meta_state \<Rightarrow> ret \<times> 'w meta_state" where
  "MetaMgr_ClearDataWhenPeerLogout E peerudid peeruuid = (\<lambda>(m, s).
     case im_db m of
       None \<Rightarrow> (ERR_DH_FWK_RESOURCE_DB_ADAPTER_POINTER_NULL, (m, s))
     | Some db \<Rightarrow> (let (ok, (db1, s1)) = ClearDataWhenPeerLogout E peerudid peeruuid (db, s)
                  in (DH_FWK_SUCCESS, (m\<lparr>im_db := Some db1\<rparr>, s1))))"

definition MetaMgr_GetEntriesByKeys :: "('w, 'j) env \<Rightarrow> string list \<Rightarrow> 'w meta_state \<Rightarrow> (string \<times> string) list" where
  "MetaMgr_GetEntriesByKeys E keys = (\<lambda>(m, s).
     if \<not> IsArrayLengthValid keys then []
     else if keys = [] then []
     else case im_db m of None \<Rightarrow> [] | Some db \<Rightarrow> GetEntriesByKeys E keys (db, s))"

abbreviation (input) meta_dec :: "('w, 'j) env \<Rightarrow> string \<Rightarrow> ret \<times> meta_capability_info" where
  "meta_dec E \<equiv> GetMetaCapabilityByValue (env_cj E)"

definition HandleMetaCapabilityAddChange ::
  "('w, 'j) env \<Rightarrow> rand \<Rightarrow> dh_context \<Rightarrow> (string \<times> string) list \<Rightarrow> meta_map \<times> task_sys \<Rightarrow> meta_map \<times> task_sys" where
  "HandleMetaCapabilityAddChange E rand cx insertRecords =
     fold (change_add_item rand cx (meta_dec E) MetaCapabilityInfo_GetKey) insertRecords"

definition HandleMetaCapabilityUpdateChange ::
  "('w, 'j) env \<Rightarrow> rand \<Rightarrow> dh_context \<Rightarrow> (string \<times> string) list \<Rightarrow> meta_map \<times> task_sys \<Rightarrow> meta_map \<times> task_sys" where
  "HandleMetaCapabilityUpdateChange E rand cx updateRecords =
     fold (change_update_item rand cx (meta_dec E) MetaCapabilityInfo_GetKey) updateRecords"

definition meta_delete_item :: "('w, 'j) env \<Rightarrow> string \<times> string \<Rightarrow> meta_map \<Rightarrow> meta_map" where
  "meta_delete_item E item m =
     (let (r, c) = meta_dec E (snd item) in
      if r \<noteq> DH_FWK_SUCCESS then m else smap_erase (MetaCapabilityInfo_GetKey c) m)"

definition HandleMetaCapabilityDeleteChange ::
  "('w, 'j) env \<Rightarrow> (string \<times> string) list \<Rightarrow> meta_map \<times> task_sys \<Rightarrow> meta_map \<times> task_sys" where
  "HandleMetaCapabilityDeleteChange E deleteRecords = (\<lambda>(m, ts). (fold (meta_delete_item E) deleteRecords m, ts))"

definition MetaMgr_OnChange ::
  "('w, 'j) env \<Rightarrow> rand \<Rightarrow> dh_context \<Rightarrow> change_notification \<Rightarrow> meta_map \<times> task_sys \<Rightarrow> meta_map \<times> task_sys" where
  "MetaMgr_OnChange E rand cx cn st =
     (let st1 = (if records_ok (cn_insert cn) then HandleMetaCapabilityAddChange E rand cx (cn_insert cn) st else st);
          st2 = (if records_ok (cn_update cn) then HandleMetaCapabilityUpdateChange E rand cx (cn_update cn) st1 else st1)
      in if records_ok (cn_delete cn) then HandleMetaCapabilityDeleteChange E (cn_delete cn) st2 else st2)"

definition MetaMgr_OnChange_cloud ::
  "('w, 'j) env \<Rightarrow> rand \<Rightarrow> string list \<Rightarrow> string list \<Rightarrow> string list \<Rightarrow> 'w meta_state \<times> task_sys \<Rightarrow> 'w meta_state \<times> task_sys" where
  "MetaMgr_OnChange_cloud E rand insKeys updKeys delKeys = (\<lambda>((m, s), ts).
     let cx = sys_cx s;
         insertRecords = MetaMgr_GetEntriesByKeys E insKeys (m, s);
         st1 = (if records_ok insertRecords then HandleMetaCapabilityAddChange E rand cx insertRecords (im_map m, ts)
                else (im_map m, ts));
         updateRecords = MetaMgr_GetEntriesByKeys E updKeys (m, s);
         st2 = (if records_ok updateRecords then HandleMetaCapabilityUpdateChange E rand cx updateRecords st1 else st1);
         st3 = (if records_ok delKeys then HandleMetaCapabilityDeleteChange E (map (\<lambda>k. (k, [])) delKeys) st2 else st2)
     in ((m\<lparr>im_map := fst st3\<rparr>, s), snd st3))"

section \<open>Properties\<close>

text \<open>
  The look-up of a device's records in the local manager, called with an empty result
  vector, returns an empty vector whatever the manager holds: the guard that should refuse a bad
  parameter refuses the empty output vector.
\<close>

theorem local_lookup_needs_results: "LocalMgr_GetCapabilitiesByDeviceId deviceId m [] = []"
  by (simp add: LocalMgr_GetCapabilitiesByDeviceId_def)

abbreviation (input) meta_keyed :: "meta_map \<Rightarrow> bool" where
  "meta_keyed \<equiv> keyed_map MetaCapabilityInfo_GetKey"

datatype meta_op =
    MetaInit | MetaUnInit | MetaSync string | MetaRecover recover_event
  | MetaAdd "meta_capability_info option list" | MetaRemoveKey string
  | MetaSyncNet string | MetaLogout string string
  | MetaChange change_notification | MetaChangeCloud "string list" "string list" "string list"

fun meta_step :: "('w, 'j) env \<Rightarrow> rand \<Rightarrow> meta_op \<Rightarrow> 'w meta_state \<times> task_sys \<Rightarrow> 'w meta_state \<times> task_sys" where
  "meta_step E rand MetaInit (ms, ts) = (snd (MetaMgr_Init E ms), ts)"
| "meta_step E rand MetaUnInit (ms, ts) = (snd (MetaMgr_UnInit E ms), ts)"
| "meta_step E rand (MetaSync h) (ms, ts) = (snd (MetaMgr_SyncMetaInfoFromDB E h ms), ts)"
| "meta_step E rand (MetaRecover ev) (ms, ts) = (MetaMgr_ProcessEvent E ev ms, ts)"
| "meta_step E rand (MetaAdd cs) (ms, ts) = (snd (MetaMgr_AddMetaCapInfos E cs ms), ts)"
| "meta_step E rand (MetaRemoveKey k) (ms, ts) = (snd (MetaMgr_RemoveMetaInfoByKey E k ms), ts)"
| "meta_step E rand (MetaSyncNet n) (ms, ts) = (snd (MetaMgr_SyncDataByNetworkId E n ms), ts)"
| "meta_step E rand (MetaLogout a b) (ms, ts) = (snd (MetaMgr_ClearDataWhenPeerLogout E a b ms), ts)"
| "meta_step E rand (MetaChange cn) ((m, s), ts) =
     (let (map1, ts1) = MetaMgr_OnChange E rand (sys_cx s) cn (im_map m, ts) in ((m\<lparr>im_map := map1\<rparr>, s), ts1))"
| "meta_step E rand (MetaChangeCloud i p d) st = MetaMgr_OnChange_cloud E rand i p d st"

definition meta_ok :: "rand \<Rightarrow> 'w meta_state \<times> task_sys \<Rightarrow> bool" where
  "meta_ok rand st \<longleftrightarrow> meta_keyed (im_map (fst (fst st))) \<and> task_sys_ok rand (snd st)"

definition meta_tasks_ok :: "rand \<Rightarrow> meta_map \<times> task_sys \<Rightarrow> bool" where
  "meta_tasks_ok rand st \<longleftrightarrow> meta_keyed (fst st) \<and> task_sys_ok rand (snd st)"

lemma meta_tasks_add: "meta_tasks_ok rand st \<Longrightarrow> meta_tasks_ok rand (HandleMetaCapabilityAddChange E rand cx es st)"
  unfolding HandleMetaCapabilityAddChange_def
  by (rule fold_inv) (auto simp: meta_tasks_ok_def keyed_map_change_add change_add_ok)

lemma meta_tasks_update: "meta_tasks_ok rand st \<Longrightarrow> meta_tasks_ok rand (HandleMetaCapabilityUpdateChange E rand cx es st)"
  unfolding HandleMetaCapabilityUpdateChange_def
  by (rule fold_inv) (auto simp: meta_tasks_ok_def keyed_map_change_update change_update_ok)

lemma meta_keyed_delete: "meta_keyed m \<Longrightarrow> meta_keyed (fold (meta_delete_item E) es m)"
  by (rule fold_inv) (auto simp: meta_delete_item_def keyed_map_erase split: prod.splits)

lemma meta_tasks_delete: "meta_tasks_ok rand st \<Longrightarrow> meta_tasks_ok rand (HandleMetaCapabilityDeleteChange E es st)"
  by (cases st) (simp add: HandleMetaCapabilityDeleteChange_def meta_tasks_ok_def meta_keyed_delete)

lemmas meta_tasks_handlers = meta_tasks_add meta_tasks_update meta_tasks_delete

lemma meta_ok_map: "meta_ok rand ((m\<lparr>im_map := fst x\<rparr>, s), snd x) \<longleftrightarrow> meta_tasks_ok rand x"
  by (simp add: meta_ok_def meta_tasks_ok_def)

lemma meta_db_frame:
  "im_map (fst (snd (MetaMgr_SyncDataByNetworkId E n ms))) = im_map (fst ms)"
  "im_map (fst (snd (MetaMgr_ClearDataWhenPeerLogout E a b ms))) = im_map (fst ms)"
  by (cases ms; simp add: MetaMgr_SyncDataByNetworkId_def MetaMgr_ClearDataWhenPeerLogout_def Let_def
      split: option.splits prod.splits)+

lemma meta_ok_step: "meta_ok rand st \<Longrightarrow> meta_ok rand (meta_step E rand op st)"
proof -
  obtain m s ts where st: "st = ((m, s), ts)" by (metis prod.collapse)
  assume ok: "meta_ok rand st"
  then have k: "meta_keyed (im_map (fst (m, s)))" and t: "task_sys_ok rand ts" by (simp_all add: meta_ok_def st)
  have mt: "meta_tasks_ok rand (im_map m, ts)" using k t by (simp add: meta_tasks_ok_def)
  note ops = keyed_map_add [OF k] keyed_map_remove_key [OF k] keyed_map_sync [OF k] keyed_map_sync_remote [OF k]
  show ?thesis
  proof (cases op)
    case (MetaChange cn)
    have "meta_tasks_ok rand (MetaMgr_OnChange E rand (sys_cx s) cn (im_map m, ts))"
      using mt by (simp add: MetaMgr_OnChange_def Let_def meta_tasks_handlers)
    with MetaChange show ?thesis
      by (auto simp: st meta_ok_def meta_tasks_ok_def Let_def split: prod.splits)
  next
    case (MetaChangeCloud i p d)
    with mt show ?thesis by (simp add: st MetaMgr_OnChange_cloud_def Let_def meta_ok_map meta_tasks_handlers)
  qed (use k t in \<open>simp_all add: ops st meta_ok_def MetaMgr_Init_def MetaMgr_UnInit_def dhf_frame meta_db_frame
      MetaMgr_SyncMetaInfoFromDB_def MetaMgr_AddMetaCapInfos_def MetaMgr_RemoveMetaInfoByKey_def MetaMgr_ProcessEvent_def
      MetaMgr_SyncRemoteMetaInfos_def\<close>)
qed

text \<open>
  Whatever operations the meta manager goes through, every record of its cache stands under
  the key made of the record's own udid hash and hardware identifier, and the task system its
  notifications feed stays well formed.
\<close>

theorem meta_cache_invariant:
  "meta_ok rand (fold (meta_step E rand) ops ((info_mgr_new, s), task_sys_new))"
proof -
  have "meta_ok rand ((info_mgr_new, s), task_sys_new)"
    by (simp add: meta_ok_def info_mgr_new_def task_sys_ok_new)
  then show ?thesis by (rule fold_inv [rotated]) (rule meta_ok_step)
qed

lemma local_add_map:
  "cap_keyed (im_map (fst ms)) \<Longrightarrow> cap_keyed (im_map (fst (snd (LocalMgr_AddCapability E cs ms))))"
  by (cases ms) (auto simp: LocalMgr_AddCapability_def Let_def keyed_map_put_all split: option.splits prod.splits)

end
