(* ===== verification/DHF_Version.thy ===== *)
theory DHF_Version
  imports DHF_InfoMgr
begin

text \<open>
  Versions: \<open>resourcemanager/version_info.cpp\<close> (the record and its JSON form),
  \<open>versionmanager/version_manager.cpp\<close> (the versions of all devices by uuid) and
  \<open>resourcemanager/version_info_manager.cpp\<close> (their database and its notifications).

  \<open>compVersions\<close> is an \<open>std::unordered_map\<close> from the hardware type; it is kept in ascending order of the
  type. A \<open>CompVersion\<close> that is decoded without a valid type keeps the value the uninitialised member
  has: it is the argument \<open>junk\<close>.
\<close>

abbreviation (input) DH_VER :: string where "DH_VER \<equiv> ''dh_ver''"
abbreviation (input) COMP_VER :: string where "COMP_VER \<equiv> ''comp_ver''"
abbreviation (input) NAME :: string where "NAME \<equiv> ''name''"
abbreviation (input) TYPE_KEY :: string where "TYPE_KEY \<equiv> ''type''"
abbreviation (input) HANDLER :: string where "HANDLER \<equiv> ''handler''"
abbreviation (input) SOURCE_VER :: string where "SOURCE_VER \<equiv> ''source_ver''"
abbreviation (input) DH_LOCAL_VERSION :: string where "DH_LOCAL_VERSION \<equiv> ''1.0''"

section \<open>Records and JSON form\<close>

record comp_version =
  cv_name :: string
  cv_dhType :: dhtype
  cv_handlerVersion :: string
  cv_sourceVersion :: string
  cv_sinkVersion :: string

type_synonym comp_versions = "(dhtype, comp_version) smap"

record version_info =
  vi_deviceId :: string
  vi_dhVersion :: string
  vi_compVersions :: comp_versions

record dh_version =
  dv_uuid :: string
  dv_dhVersion :: string
  dv_compVersions :: comp_versions

definition VersionInfo_new :: version_info where
  "VersionInfo_new = \<lparr> vi_deviceId = [], vi_dhVersion = [], vi_compVersions = [] \<rparr>"

definition CompVersion_ToJson :: "'j cjson \<Rightarrow> 'j \<Rightarrow> comp_version \<Rightarrow> 'j" where
  "CompVersion_ToJson cj compVer c =
     (let j1 = cJSON_AddStringToObject cj compVer NAME (c_str (cv_name c));
          j2 = cJSON_AddNumberToObject cj j1 TYPE_KEY (to_double (cv_dhType c));
          j3 = cJSON_AddStringToObject cj j2 HANDLER (c_str (cv_handlerVersion c));
          j4 = cJSON_AddStringToObject cj j3 SOURCE_VER (c_str (cv_sourceVersion c))
      in cJSON_AddStringToObject cj j4 SINK_VER (c_str (cv_sinkVersion c)))"

fun add_comps :: "'j cjson \<Rightarrow> 'j \<Rightarrow> comp_version list \<Rightarrow> 'j option" where
  "add_comps cj compVers [] = Some compVers"
| "add_comps cj compVers (c # cs) =
     (case cJSON_CreateObject cj of
        None \<Rightarrow> None
      | Some compVer \<Rightarrow> add_comps cj (cJSON_AddItemToArray cj compVers (CompVersion_ToJson cj compVer c)) cs)"

definition VersionInfo_ToJson :: "'j cjson \<Rightarrow> 'j \<Rightarrow> version_info \<Rightarrow> 'j" where
  "VersionInfo_ToJson cj jsonObject versionInfo =
     (let j1 = cJSON_AddStringToObject cj jsonObject DEV_ID (c_str (vi_deviceId versionInfo));
          j2 = cJSON_AddStringToObject cj j1 DH_VER (c_str (vi_dhVersion versionInfo))
      in case cJSON_CreateArray cj of
           None \<Rightarrow> j2
         | Some compVers \<Rightarrow>
             (case add_comps cj compVers (map snd (vi_compVersions versionInfo)) of
                None \<Rightarrow> j2
              | Some compVers1 \<Rightarrow> cJSON_AddItemToObject cj j2 COMP_VER compVers1))"

definition CompVersion_FromJson :: "'j cjson \<Rightarrow> 'j \<Rightarrow> comp_version \<Rightarrow> comp_version" where
  "CompVersion_FromJson cj ob c0 =
     (let c1 = (if IsString cj ob NAME then c0\<lparr>cv_name := get_string cj ob NAME\<rparr> else c0);
          c2 = (if IsUInt32 cj ob TYPE_KEY \<and> (get_word cj ob TYPE_KEY :: dhtype) \<le> DHType_MAX_DH
                then c1\<lparr>cv_dhType := get_word cj ob TYPE_KEY\<rparr> else c1);
          c3 = (if IsString cj ob HANDLER then c2\<lparr>cv_handlerVersion := get_string cj ob HANDLER\<rparr> else c2);
          c4 = (if IsString cj ob SOURCE_VER then c3\<lparr>cv_sourceVersion := get_string cj ob SOURCE_VER\<rparr> else c3)
      in if IsString cj ob SINK_VER then c4\<lparr>cv_sinkVersion := get_string cj ob SINK_VER\<rparr> else c4)"

definition CompVersion_new :: "dhtype \<Rightarrow> comp_version" where
  "CompVersion_new junk = \<lparr> cv_name = [], cv_dhType = junk, cv_handlerVersion = [], cv_sourceVersion = [],
     cv_sinkVersion = [] \<rparr>"

definition VersionInfo_FromJson :: "dhtype \<Rightarrow> 'j cjson \<Rightarrow> 'j \<Rightarrow> version_info \<Rightarrow> version_info" where
  "VersionInfo_FromJson junk cj ob v0 =
     (let v1 = (if IsString cj ob DEV_ID then v0\<lparr>vi_deviceId := get_string cj ob DEV_ID\<rparr> else v0);
          v2 = (if IsString cj ob DH_VER then v1\<lparr>vi_dhVersion := get_string cj ob DH_VER\<rparr> else v1)
      in case cJSON_GetObjectItem cj ob COMP_VER of
           None \<Rightarrow> v2
         | Some compVer \<Rightarrow>
             v2\<lparr>vi_compVersions :=
               fold (\<lambda>compVerObj m. let compVerValue = CompVersion_FromJson cj compVerObj (CompVersion_new junk)
                                    in smap_emplace (cv_dhType compVerValue) compVerValue m)
                 (cJSON_Children cj compVer) (vi_compVersions v2)\<rparr>)"

definition VersionInfo_FromJsonString :: "dhtype \<Rightarrow> 'j cjson \<Rightarrow> string \<Rightarrow> version_info \<Rightarrow> ret \<times> version_info" where
  "VersionInfo_FromJsonString junk cj jsonStr this = json_decode cj (VersionInfo_FromJson junk) jsonStr this"

definition VersionInfo_ToJsonString :: "'j cjson \<Rightarrow> version_info \<Rightarrow> string" where
  "VersionInfo_ToJsonString cj this = json_encode cj VersionInfo_ToJson this"

section \<open>The version manager\<close>

type_synonym versions = "(string, dh_version) smap"

definition AddDHVersion :: "string \<Rightarrow> dh_version \<Rightarrow> versions \<Rightarrow> ret \<times> versions" where
  "AddDHVersion uuid dhVersion vs =
     (if \<not> IsIdLengthValid uuid then (ERR_DH_FWK_PARA_INVALID, vs)
      else (DH_FWK_SUCCESS, smap_put uuid dhVersion vs))"

definition RemoveDHVersion :: "string \<Rightarrow> versions \<Rightarrow> ret \<times> versions" where
  "RemoveDHVersion uuid vs =
     (if \<not> IsIdLengthValid uuid then (ERR_DH_FWK_PARA_INVALID, vs)
      else if smap_get vs uuid = None then (ERR_DH_FWK_VERSION_DEVICE_ID_NOT_EXIST, vs)
      else (DH_FWK_SUCCESS, smap_erase uuid vs))"

definition GetDHVersion :: "string \<Rightarrow> versions \<Rightarrow> ret \<times> dh_version option" where
  "GetDHVersion uuid vs =
     (if \<not> IsIdLengthValid uuid then (ERR_DH_FWK_PARA_INVALID, None)
      else case smap_get vs uuid of
        None \<Rightarrow> (ERR_DH_FWK_VERSION_DEVICE_ID_NOT_EXIST, None)
      | Some v \<Rightarrow> (DH_FWK_SUCCESS, Some v))"

definition GetCompVersion :: "string \<Rightarrow> dhtype \<Rightarrow> versions \<Rightarrow> ret \<times> comp_version option" where
  "GetCompVersion uuid dhType vs =
     (if \<not> IsIdLengthValid uuid then (ERR_DH_FWK_PARA_INVALID, None)
      else case GetDHVersion uuid vs of
        (ret, None) \<Rightarrow> (ret, None)
      | (ret, Some dhVersion) \<Rightarrow>
          (case smap_get (dv_compVersions dhVersion) dhType of
             None \<Rightarrow> (ERR_DH_FWK_TYPE_NOT_EXIST, None)
           | Some compVersion \<Rightarrow> (DH_FWK_SUCCESS, Some compVersion)))"

definition VersionManager_UnInit :: "versions \<Rightarrow> versions" where
  "VersionManager_UnInit vs = []"

text \<open>
  \<open>VersionManager::Init\<close>, on the result of \<open>ComponentLoader::GetLocalDHVersion\<close> (its return code and
  the version it fills).
\<close>

definition VersionManager_Init ::
  "('w, 'j) env \<Rightarrow> ret \<times> dh_version \<Rightarrow> versions \<times> 'w sys \<Rightarrow> ret \<times> versions \<times> 'w sys" where
  "VersionManager_Init E localDHVersion = (\<lambda>(vs, s).
     let (ret, dhVersion) = localDHVersion in
     if ret \<noteq> DH_FWK_SUCCESS then (ret, (vs, s))
     else let dhVersion1 = dhVersion\<lparr>dv_dhVersion := DH_LOCAL_VERSION\<rparr>;
              (info, cx) = GetDeviceInfo (env_dm E) (env_digest E) (sys_cx s)
          in (DH_FWK_SUCCESS, (snd (AddDHVersion (di_uuid info) dhVersion1 vs), s\<lparr>sys_cx := cx\<rparr>)))"

section \<open>The version information manager\<close>

record ver_mgr =
  vm_db :: "db_adapter option"
  vm_versions :: versions

type_synonym 'w ver_state = "ver_mgr \<times> 'w sys"

definition VerInfoMgr_Init :: "('w, 'j) env \<Rightarrow> 'w ver_state \<Rightarrow> ret \<times> 'w ver_state" where
  "VerInfoMgr_Init E = (\<lambda>(m, s).
     let (r, (db, s1)) = DBAdapter_Init E False TYPE_DYNAMICAL (DBAdapter_new GLOBAL_VERSION_ID, s);
         m1 = m\<lparr>vm_db := Some db\<rparr>
     in if r \<noteq> DH_FWK_SUCCESS then (ERR_DH_FWK_RESOURCE_INIT_DB_FAILED, (m1, s1)) else (DH_FWK_SUCCESS, (m1, s1)))"

definition VerInfoMgr_UnInit :: "('w, 'j) env \<Rightarrow> 'w ver_state \<Rightarrow> ret \<times> 'w ver_state" where
  "VerInfoMgr_UnInit E = (\<lambda>(m, s).
     case vm_db m of
       None \<Rightarrow> (ERR_DH_FWK_RESOURCE_UNINIT_DB_FAILED, (m, s))
     | Some db \<Rightarrow> (let (db1, s1) = DBAdapter_UnInit E (db, s) in (DH_FWK_SUCCESS, (m\<lparr>vm_db := None\<rparr>, s1))))"

definition AddVersion :: "('w, 'j) env \<Rightarrow> version_info \<Rightarrow> 'w ver_state \<Rightarrow> ret \<times> 'w ver_state" where
  "AddVersion E versionInfo = (\<lambda>(m, s).
     case vm_db m of
       None \<Rightarrow> (ERR_DH_FWK_RESOURCE_DB_ADAPTER_POINTER_NULL, (m, s))
     | Some db \<Rightarrow>
         (let (r, data, (db1, s1)) = GetDataByKey E (vi_deviceId versionInfo) [] (db, s); m1 = m\<lparr>vm_db := Some db1\<rparr> in
          if data = VersionInfo_ToJsonString (env_cj E) versionInfo then (DH_FWK_SUCCESS, (m1, s1))
          else let (r2, (db2, s2)) = PutData E (vi_deviceId versionInfo)
                     (VersionInfo_ToJsonString (env_cj E) versionInfo) (db1, s1);
                   m2 = m1\<lparr>vm_db := Some db2\<rparr>
               in if r2 \<noteq> DH_FWK_SUCCESS then (ERR_DH_FWK_RESOURCE_DB_ADAPTER_OPERATION_FAIL, (m2, s2))
                  else (DH_FWK_SUCCESS, (m2, s2))))"

definition GetVersionInfoByDeviceId ::
  "dhtype \<Rightarrow> ('w, 'j) env \<Rightarrow> string \<Rightarrow> version_info \<Rightarrow> 'w ver_state \<Rightarrow> ret \<times> version_info \<times> 'w ver_state" where
  "GetVersionInfoByDeviceId junk E deviceId versionInfo = (\<lambda>(m, s).
     if \<not> IsIdLengthValid deviceId then (ERR_DH_FWK_PARA_INVALID, versionInfo, (m, s))
     else case vm_db m of
       None \<Rightarrow> (ERR_DH_FWK_RESOURCE_DB_ADAPTER_POINTER_NULL, versionInfo, (m, s))
     | Some db \<Rightarrow>
         (let (r, data, (db1, s1)) = GetDataByKey E deviceId [] (db, s); ms1 = (m\<lparr>vm_db := Some db1\<rparr>, s1) in
          if r \<noteq> DH_FWK_SUCCESS then (ERR_DH_FWK_RESOURCE_DB_ADAPTER_OPERATION_FAIL, versionInfo, ms1)
          else let (r1, v1) = VersionInfo_FromJsonString junk (env_cj E) data versionInfo in (r1, v1, ms1)))"

definition UpdateVersionCache :: "dh_context \<Rightarrow> version_info \<Rightarrow> versions \<Rightarrow> versions" where
  "UpdateVersionCache cx versionInfo vs =
     (let uuid = GetUUIDByDeviceId cx (vi_deviceId versionInfo) in
      if uuid = [] then vs
      else snd (AddDHVersion uuid \<lparr> dv_uuid = uuid, dv_dhVersion = vi_dhVersion versionInfo,
                  dv_compVersions = vi_compVersions versionInfo \<rparr> vs))"

definition RemoveVersionInfoByDeviceId :: "('w, 'j) env \<Rightarrow> string \<Rightarrow> 'w ver_state \<Rightarrow> ret \<times> 'w ver_state" where
  "RemoveVersionInfoByDeviceId E deviceId = (\<lambda>(m, s).
     if \<not> IsIdLengthValid deviceId then (ERR_DH_FWK_PARA_INVALID, (m, s))
     else case vm_db m of
       None \<Rightarrow> (ERR_DH_FWK_RESOURCE_DB_ADAPTER_POINTER_NULL, (m, s))
     | Some db \<Rightarrow>
         (let (r, (db1, s1)) = RemoveDataByKey E deviceId (db, s); m1 = m\<lparr>vm_db := Some db1\<rparr> in
          if r \<noteq> DH_FWK_SUCCESS then (ERR_DH_FWK_RESOURCE_DB_ADAPTER_OPERATION_FAIL, (m1, s1))
          else let uuid = GetUUIDByDeviceId (sys_cx s1) deviceId in
            if uuid = [] then (ERR_DH_FWK_RESOURCE_UUID_NOT_FOUND, (m1, s1))
            else (DH_FWK_SUCCESS, (m1\<lparr>vm_versions := snd (RemoveDHVersion uuid (vm_versions m1))\<rparr>, s1))))"

definition SyncVersionInfoFromDB :: "dhtype \<Rightarrow> ('w, 'j) env \<Rightarrow> string \<Rightarrow> 'w ver_state \<Rightarrow> ret \<times> 'w ver_state" where
  "SyncVersionInfoFromDB junk E deviceId = (\<lambda>(m, s).
     if \<not> IsIdLengthValid deviceId then (ERR_DH_FWK_PARA_INVALID, (m, s))
     else case vm_db m of
       None \<Rightarrow> (ERR_DH_FWK_RESOURCE_DB_ADAPTER_POINTER_NULL, (m, s))
     | Some db \<Rightarrow>
         (let (r, data, (db1, s1)) = GetDataByKey E deviceId [] (db, s); m1 = m\<lparr>vm_db := Some db1\<rparr> in
          if r \<noteq> DH_FWK_SUCCESS then (ERR_DH_FWK_RESOURCE_DB_ADAPTER_OPERATION_FAIL, (m1, s1))
          else let (ret, versionInfo) = VersionInfo_FromJsonString junk (env_cj E) data VersionInfo_new in
            if ret \<noteq> DH_FWK_SUCCESS then (ret, (m1, s1))
            else (DH_FWK_SUCCESS,
                  (m1\<lparr>vm_versions := UpdateVersionCache (sys_cx s1) versionInfo (vm_versions m1)\<rparr>, s1))))"

fun update_remote :: "dhtype \<Rightarrow> ('w, 'j) env \<Rightarrow> string list \<Rightarrow> 'w ver_state \<Rightarrow> 'w ver_state" where
  "update_remote junk E [] ms = ms"
| "update_remote junk E (data # ds) (m, s) =
     (let (r, versionInfo) = VersionInfo_FromJsonString junk (env_cj E) data VersionInfo_new in
      if r \<noteq> DH_FWK_SUCCESS then update_remote junk E ds (m, s)
      else let (info, cx) = GetDeviceInfo (env_dm E) (env_digest E) (sys_cx s); s1 = s\<lparr>sys_cx := cx\<rparr> in
        if vi_deviceId versionInfo = di_deviceId info then update_remote junk E ds (m, s1)
        else update_remote junk E ds (m\<lparr>vm_versions := UpdateVersionCache cx versionInfo (vm_versions m)\<rparr>, s1))"

fun sync_remote_versions :: "dhtype \<Rightarrow> ('w, 'j) env \<Rightarrow> db_adapter \<Rightarrow> string list \<Rightarrow> 'w ver_state \<Rightarrow> 'w ver_state" where
  "sync_remote_versions junk E db [] (m, s) = (m\<lparr>vm_db := Some db\<rparr>, s)"
| "sync_remote_versions junk E db (d # ids) (m, s) =
     (let (r, dataVector, (db1, s1)) = GetDataByKeyPrefix E d [] (db, s) in
      if r \<noteq> DH_FWK_SUCCESS then sync_remote_versions junk E db1 ids (m, s1)
      else if dataVector = [] \<or> length dataVector > MAX_DB_RECORD_SIZE
      then sync_remote_versions junk E db1 ids (m, s1)
      else sync_remote_versions junk E db1 ids (update_remote junk E dataVector (m, s1)))"

definition SyncRemoteVersionInfos :: "dhtype \<Rightarrow> ('w, 'j) env \<Rightarrow> 'w ver_state \<Rightarrow> ret \<times> 'w ver_state" where
  "SyncRemoteVersionInfos junk E = (\<lambda>(m, s).
     case vm_db m of
       None \<Rightarrow> (ERR_DH_FWK_RESOURCE_DB_ADAPTER_POINTER_NULL, (m, s))
     | Some db \<Rightarrow> (DH_FWK_SUCCESS, sync_remote_versions junk E db (GetOnlineDeviceDeviceId (sys_cx s) []) (m, s)))"

definition VerInfoMgr_ProcessEvent :: "dhtype \<Rightarrow> ('w, 'j) env \<Rightarrow> recover_event \<Rightarrow> 'w ver_state \<Rightarrow> 'w ver_state" where
  "VerInfoMgr_ProcessEvent junk E eventId ms =
     (if eventId = EVENT_VERSION_INFO_DB_RECOVER then snd (SyncRemoteVersionInfos junk E ms) else ms)"

definition HandleVersionAddChange ::
  "dhtype \<Rightarrow> ('w, 'j) env \<Rightarrow> dh_context \<Rightarrow> (string \<times> string) list \<Rightarrow> versions \<Rightarrow> versions" where
  "HandleVersionAddChange junk E cx insertRecords =
     fold (\<lambda>item vs. let (r, versionInfo) = VersionInfo_FromJsonString junk (env_cj E) (snd item) VersionInfo_new in
                     if r \<noteq> DH_FWK_SUCCESS then vs else UpdateVersionCache cx versionInfo vs) insertRecords"

definition HandleVersionUpdateChange ::
  "dhtype \<Rightarrow> ('w, 'j) env \<Rightarrow> dh_context \<Rightarrow> (string \<times> string) list \<Rightarrow> versions \<Rightarrow> versions" where
  "HandleVersionUpdateChange junk E cx updateRecords =
     fold (\<lambda>item vs. let (r, versionInfo) = VersionInfo_FromJsonString junk (env_cj E) (snd item) VersionInfo_new in
                     if r \<noteq> DH_FWK_SUCCESS then vs else UpdateVersionCache cx versionInfo vs) updateRecords"

definition HandleVersionDeleteChange ::
  "dhtype \<Rightarrow> ('w, 'j) env \<Rightarrow> dh_context \<Rightarrow> (string \<times> string) list \<Rightarrow> versions \<Rightarrow> versions" where
  "HandleVersionDeleteChange junk E cx deleteRecords =
     fold (\<lambda>item vs. let (r, versionInfo) = VersionInfo_FromJsonString junk (env_cj E) (snd item) VersionInfo_new in
                     if r \<noteq> DH_FWK_SUCCESS then vs
                     else let uuid = GetUUIDByDeviceId cx (vi_deviceId versionInfo) in
                       if uuid = [] then vs else snd (RemoveDHVersion uuid vs)) deleteRecords"

definition VerInfoMgr_OnChange ::
  "dhtype \<Rightarrow> ('w, 'j) env \<Rightarrow> dh_context \<Rightarrow> change_notification \<Rightarrow> versions \<Rightarrow> versions" where
  "VerInfoMgr_OnChange junk E cx cn vs =
     (let vs1 = (if records_ok (cn_insert cn) then HandleVersionAddChange junk E cx (cn_insert cn) vs else vs);
          vs2 = (if records_ok (cn_update cn) then HandleVersionUpdateChange junk E cx (cn_update cn) vs1 else vs1)
      in if records_ok (cn_delete cn) then HandleVersionDeleteChange junk E cx (cn_delete cn) vs2 else vs2)"

section \<open>Round trip through JSON\<close>

text \<open>
  Unlike the capability record, a missing or empty text item is skipped and leaves the member empty, so
  texts may be empty here.
\<close>

definition json_text_ok :: "string \<Rightarrow> bool" where
  "json_text_ok s \<longleftrightarrow> length s \<le> MAX_MESSAGE_LEN \<and> CHR 0x00 \<notin> set s"

definition comp_encodable :: "comp_version \<Rightarrow> bool" where
  "comp_encodable c \<longleftrightarrow> json_text_ok (cv_name c) \<and> json_text_ok (cv_handlerVersion c)
     \<and> json_text_ok (cv_sourceVersion c) \<and> json_text_ok (cv_sinkVersion c) \<and> cv_dhType c \<le> DHType_MAX_DH"

definition ver_encodable :: "'j cjson \<Rightarrow> version_info \<Rightarrow> bool" where
  "ver_encodable cj v \<longleftrightarrow> json_text_ok (vi_deviceId v) \<and> json_text_ok (vi_dhVersion v)
     \<and> cJSON_CreateArray cj \<noteq> None \<and> smap_sorted (vi_compVersions v)
     \<and> list_all (\<lambda>(t, c). cv_dhType c = t \<and> comp_encodable c) (vi_compVersions v)"

lemma text_item:
  assumes "has_string cj ob k (c_str s)" and "json_text_ok s"
  shows "IsString cj ob k \<longleftrightarrow> s \<noteq> []" and "get_string cj ob k = s"
  using assms by (auto simp: has_string_def IsString_def item_strlen_def get_string_def json_text_ok_def c_str_id)

lemma ver_keys_differ:
  "\<forall>k \<in> set [DEV_ID, DH_VER, COMP_VER, NAME, TYPE_KEY, HANDLER, SOURCE_VER, SINK_VER].
   \<forall>k' \<in> set [DEV_ID, DH_VER, COMP_VER, NAME, TYPE_KEY, HANDLER, SOURCE_VER, SINK_VER].
     k \<noteq> k' \<longrightarrow> \<not> same_key k k'"
  by code_simp

lemmas ver_key_rules = ver_keys_differ [simplified]

lemma comp_items:
  fixes c :: comp_version
  assumes laws: "cjson_build_laws cj" and ob0: "cJSON_CreateObject cj = Some ob0"
  defines "ob \<equiv> CompVersion_ToJson cj ob0 c"
  shows "has_string cj ob NAME (c_str (cv_name c))" and "has_number cj ob TYPE_KEY (unat (cv_dhType c))"
    and "has_string cj ob HANDLER (c_str (cv_handlerVersion c))"
    and "has_string cj ob SOURCE_VER (c_str (cv_sourceVersion c))"
    and "has_string cj ob SINK_VER (c_str (cv_sinkVersion c))"
  unfolding ob_def CompVersion_ToJson_def Let_def
  by (simp_all add: cap_build [OF laws] law_create [OF laws ob0] c_str_no_nul ver_key_rules)

lemma comp_round_trip:
  assumes laws: "cjson_build_laws cj" and ob0: "cJSON_CreateObject cj = Some ob0" and enc: "comp_encodable c"
  shows "CompVersion_FromJson cj (CompVersion_ToJson cj ob0 c) (CompVersion_new junk) = c"
proof -
  note it = comp_items [OF laws ob0, of c]
  from enc have ok: "json_text_ok (cv_name c)" "json_text_ok (cv_handlerVersion c)"
    "json_text_ok (cv_sourceVersion c)" "json_text_ok (cv_sinkVersion c)" "cv_dhType c \<le> DHType_MAX_DH"
    by (simp_all add: comp_encodable_def)
  show ?thesis
    by (simp add: CompVersion_FromJson_def CompVersion_new_def Let_def text_item [OF it(1) ok(1)]
        text_item [OF it(3) ok(2)] text_item [OF it(4) ok(3)] text_item [OF it(5) ok(4)]
        IsUInt32_has_number [OF it(2) unat_u32_le] get_word_has_number [OF it(2)] ok)
qed

lemma add_comps_children:
  assumes laws: "cjson_build_laws cj" and ob0: "cJSON_CreateObject cj = Some ob0"
  shows "\<exists>ar'. add_comps cj ar cs = Some ar'
           \<and> cJSON_Children cj ar' = cJSON_Children cj ar @ map (CompVersion_ToJson cj ob0) cs"
proof (induction cs arbitrary: ar)
  case Nil
  then show ?case by simp
next
  case (Cons c cs)
  from Cons [of "cJSON_AddItemToArray cj ar (CompVersion_ToJson cj ob0 c)"] show ?case
    by (simp add: ob0 law_add_elem [OF laws])
qed

lemma smap_emplace_last:
  "\<forall>k' \<in> fst ` set m. k' < k \<Longrightarrow> smap_emplace k v m = m @ [(k, v)]"
proof -
  assume *: "\<forall>k' \<in> fst ` set m. k' < k"
  then have "smap_get m k = None" by (auto simp: smap_get_None_iff)
  moreover from * have "smap_put k v m = m @ [(k, v)]" by (induction m rule: smap_put.induct [of _ k v]) auto
  ultimately show ?thesis by (simp add: smap_emplace_def)
qed

lemma fold_emplace_sorted:
  assumes "smap_sorted (m0 @ m)"
  shows "fold (\<lambda>e. smap_emplace (fst e) (snd e)) m m0 = m0 @ m"
  using assms
proof (induction m arbitrary: m0)
  case Nil
  then show ?case by simp
next
  case (Cons e m)
  obtain k v where e: "e = (k, v)" by (cases e)
  from Cons.prems have "\<forall>k' \<in> fst ` set m0. k' < k"
    by (auto simp: smap_sorted_def sorted_wrt_append e)
  then have "smap_emplace k v m0 = m0 @ [(k, v)]" by (rule smap_emplace_last)
  moreover from Cons.prems have "smap_sorted ((m0 @ [(k, v)]) @ m)" by (simp add: e)
  ultimately show ?case using Cons.IH by (simp add: e)
qed

text \<open>The decoding loop rebuilds the map of component versions.\<close>

lemma comps_decode:
  assumes laws: "cjson_build_laws cj" and ob0: "cJSON_CreateObject cj = Some ob0"
    and ok: "list_all (\<lambda>(t, c). cv_dhType c = t \<and> comp_encodable c) cs" and srt: "smap_sorted (m0 @ cs)"
  shows "fold (\<lambda>compVerObj m. let compVerValue = CompVersion_FromJson cj compVerObj (CompVersion_new junk)
                              in smap_emplace (cv_dhType compVerValue) compVerValue m)
           (map (CompVersion_ToJson cj ob0) (map snd cs)) m0 = m0 @ cs"
proof -
  have "fold (\<lambda>compVerObj m. let compVerValue = CompVersion_FromJson cj compVerObj (CompVersion_new junk)
                              in smap_emplace (cv_dhType compVerValue) compVerValue m)
          (map (CompVersion_ToJson cj ob0) (map snd cs)) m0
      = fold (\<lambda>e. smap_emplace (fst e) (snd e)) cs m0"
    unfolding fold_map map_map using ok
    by (intro fold_cong) (auto simp: list_all_iff comp_round_trip [OF laws ob0])
  with fold_emplace_sorted [OF srt] show ?thesis by simp
qed

lemma ver_items:
  fixes v :: version_info
  assumes laws: "cjson_build_laws cj" and ob0: "cJSON_CreateObject cj = Some ob0"
    and arr: "cJSON_CreateArray cj \<noteq> None"
  defines "ob \<equiv> VersionInfo_ToJson cj ob0 v"
  shows "has_string cj ob DEV_ID (c_str (vi_deviceId v))" and "has_string cj ob DH_VER (c_str (vi_dhVersion v))"
    and "\<exists>ar. cJSON_GetObjectItem cj ob COMP_VER = Some ar
           \<and> cJSON_Children cj ar = map (CompVersion_ToJson cj ob0) (map snd (vi_compVersions v))"
proof -
  from arr obtain ar0 where ar0: "cJSON_CreateArray cj = Some ar0" by auto
  from add_comps_children [OF laws ob0, of ar0 "map snd (vi_compVersions v)"] law_create_array [OF laws ar0]
  obtain ar where ar: "add_comps cj ar0 (map snd (vi_compVersions v)) = Some ar"
      and ch: "cJSON_Children cj ar = map (CompVersion_ToJson cj ob0) (map snd (vi_compVersions v))"
    by auto
  have ob: "ob = cJSON_AddItemToObject cj (cJSON_AddStringToObject cj
              (cJSON_AddStringToObject cj ob0 DEV_ID (c_str (vi_deviceId v))) DH_VER (c_str (vi_dhVersion v))) COMP_VER ar"
    by (simp add: ob_def VersionInfo_ToJson_def Let_def ar0 ar)
  show "has_string cj ob DEV_ID (c_str (vi_deviceId v))" and "has_string cj ob DH_VER (c_str (vi_dhVersion v))"
    and "\<exists>ar. cJSON_GetObjectItem cj ob COMP_VER = Some ar
           \<and> cJSON_Children cj ar = map (CompVersion_ToJson cj ob0) (map snd (vi_compVersions v))"
    unfolding ob
    by (simp_all add: cap_build [OF laws] law_create [OF laws ob0] c_str_no_nul ver_key_rules ch)
qed

interpretation ver_codec: json_codec VersionInfo_ToJson "VersionInfo_FromJson junk" VersionInfo_new ver_encodable
  for junk
proof unfold_locales
  fix cj :: "'j cjson" and x ob0 ob
  assume laws: "cjson_build_laws cj" and enc: "ver_encodable cj x" and ob0: "cJSON_CreateObject cj = Some ob0"
    and it: "cJSON_GetObjectItem cj ob = cJSON_GetObjectItem cj (VersionInfo_ToJson cj ob0 x)"
  from enc have ok: "json_text_ok (vi_deviceId x)" "json_text_ok (vi_dhVersion x)" "cJSON_CreateArray cj \<noteq> None"
      "smap_sorted ([] @ vi_compVersions x)"
      "list_all (\<lambda>(t, c). cv_dhType c = t \<and> comp_encodable c) (vi_compVersions x)"
    by (simp_all add: ver_encodable_def)
  note items = ver_items [OF laws ob0 ok(3), of x, folded it item_cong [OF it]]
  from items(3) obtain ar where "cJSON_GetObjectItem cj ob COMP_VER = Some ar"
    and "cJSON_Children cj ar = map (CompVersion_ToJson cj ob0) (map snd (vi_compVersions x))" by blast
  then show "VersionInfo_FromJson junk cj ob VersionInfo_new = x"
    using comps_decode [OF laws ob0 ok(5,4), of junk]
    by (simp add: VersionInfo_FromJson_def VersionInfo_new_def Let_def text_item [OF items(1) ok(1)]
        text_item [OF items(2) ok(2)])
qed

definition sample_ver :: version_info where
  "sample_ver = \<lparr> vi_deviceId = ''0af3'', vi_dhVersion = ''1.0'', vi_compVersions =
     [(DHType_CAMERA, \<lparr> cv_name = ''cam'', cv_dhType = DHType_CAMERA, cv_handlerVersion = ''1.0'',
        cv_sourceVersion = ''1.0'', cv_sinkVersion = [] \<rparr>)] \<rparr>"

definition sample_ver_json :: jnode where
  "sample_ver_json = VersionInfo_ToJson model_cjson (JObj []) sample_ver"

definition sample_ver_text :: string where
  "sample_ver_text = jn_print 10 sample_ver_json"

lemma sample_ver_encodable: "ver_encodable model_cjson sample_ver"
  by (simp add: ver_encodable_def comp_encodable_def json_text_ok_def sample_ver_def smap_sorted_def model_cjson_def)

lemma sample_ver_prints_back: "cj_prints_back model_cjson sample_ver_json"
  by (rule jn_prints_back_model [OF sample_ver_text_def]) code_simp+

text \<open>
  The version record of a device, written by \<open>ToJsonString\<close> and read by
  \<open>FromJsonString\<close> into a fresh record, is the same record, its map of component versions included,
  when its texts fit a message, every component stands under its own type, and no type exceeds
  \<open>MAX_DH\<close>. The result does not depend on what the uninitialised type of a fresh component holds.
\<close>

theorem version_json_round_trip:
  assumes "cjson_build_laws cj" and "ver_encodable cj v" and "cJSON_CreateObject cj = Some ob0"
    and "cj_prints_back cj (VersionInfo_ToJson cj ob0 v)"
  shows "VersionInfo_FromJsonString junk cj (VersionInfo_ToJsonString cj v) VersionInfo_new = (DH_FWK_SUCCESS, v)"
  unfolding VersionInfo_FromJsonString_def VersionInfo_ToJsonString_def
  using assms by (rule ver_codec.string_round_trip)

theorem version_json_round_trip_witness:
  "VersionInfo_FromJsonString 7 model_cjson (VersionInfo_ToJsonString model_cjson sample_ver) VersionInfo_new
     = (DH_FWK_SUCCESS, sample_ver)"
  using model_cjson_laws sample_ver_encodable model_create sample_ver_prints_back [unfolded sample_ver_json_def]
  by (rule version_json_round_trip)

section \<open>Look-up after synchronisation\<close>

lemma GetCompVersion_put:
  assumes "IsIdLengthValid u"
  shows "GetCompVersion u t (smap_put uuid v vs) =
    (if u = uuid then (case smap_get (dv_compVersions v) t of
        None \<Rightarrow> (ERR_DH_FWK_TYPE_NOT_EXIST, None) | Some c \<Rightarrow> (DH_FWK_SUCCESS, Some c))
     else GetCompVersion u t vs)"
  using assms by (simp add: GetCompVersion_def GetDHVersion_def)

lemma sync_if_missing_no: "sync_if_missing E False k ds = ds"
  by (cases ds) (simp add: sync_if_missing_def)

text \<open>
  After the version record of an online device is synchronised from the database, the
  version manager answers, for the uuid of that device, each type of the record with its component
  version and any other type with \<open>ERR_DH_FWK_TYPE_NOT_EXIST\<close>; what it answers for other devices is
  unchanged. Removing the record makes every look-up of that uuid fail with
  \<open>ERR_DH_FWK_VERSION_DEVICE_ID_NOT_EXIST\<close>.
\<close>

theorem version_lookup_after_sync:
  fixes E :: "('w, 'j) env" and s :: "'w sys" and m :: ver_mgr
  assumes laws: "kv_laws (env_kv E) kv" and db: "vm_db m = Some db" "db_open db"
    and ids: "IsIdLengthValid deviceId" "IsIdLengthValid uuid" "IsIdLengthValid u"
    and v: "kv (sys_world s) (db_storeId db) deviceId = Some v"
    and dec: "VersionInfo_FromJsonString junk (env_cj E) v VersionInfo_new = (DH_FWK_SUCCESS, info)"
    and uuid: "GetUUIDByDeviceId (sys_cx s) (vi_deviceId info) = uuid"
  shows "case SyncVersionInfoFromDB junk E deviceId (m, s) of
     (r, (m1, s1)) \<Rightarrow> r = DH_FWK_SUCCESS \<and> s1 = s
       \<and> GetCompVersion u t (vm_versions m1) =
           (if u = uuid then (case smap_get (vi_compVersions info) t of
               None \<Rightarrow> (ERR_DH_FWK_TYPE_NOT_EXIST, None) | Some c \<Rightarrow> (DH_FWK_SUCCESS, Some c))
            else GetCompVersion u t (vm_versions m))
       \<and> GetCompVersion u t (snd (RemoveDHVersion uuid (vm_versions m1))) =
           (if u = uuid then (ERR_DH_FWK_VERSION_DEVICE_ID_NOT_EXIST, None) else GetCompVersion u t (vm_versions m))"
proof -
  let ?v = "\<lparr> dv_uuid = uuid, dv_dhVersion = vi_dhVersion info, dv_compVersions = vi_compVersions info \<rparr>"
  have get: "GetDataByKey E deviceId [] (db, s) = (DH_FWK_SUCCESS, v, (db, s))"
    using kv_laws_get(1) [OF laws v] db(2) ids(1) by (simp add: GetDataByKey_def sync_if_missing_no)
  have ne: "uuid \<noteq> []" using ids(2) by (auto simp: IsIdLengthValid_def)
  have "SyncVersionInfoFromDB junk E deviceId (m, s)
      = (DH_FWK_SUCCESS, (m\<lparr>vm_db := Some db, vm_versions := smap_put uuid ?v (vm_versions m)\<rparr>, s))"
    using ids db ne by (simp add: SyncVersionInfoFromDB_def get dec UpdateVersionCache_def uuid AddDHVersion_def Let_def)
  moreover have "GetCompVersion u t (snd (RemoveDHVersion uuid (smap_put uuid ?v (vm_versions m)))) =
      (if u = uuid then (ERR_DH_FWK_VERSION_DEVICE_ID_NOT_EXIST, None) else GetCompVersion u t (vm_versions m))"
    using ids by (simp add: RemoveDHVersion_def GetCompVersion_def GetDHVersion_def)
  ultimately show ?thesis using ids(3) by (simp add: GetCompVersion_put)
qed

definition ver_witness_sys :: "kv_world sys" where
  "ver_witness_sys = \<lparr> sys_cx = DHContext_new\<lparr>cx_devIdEntrySet :=
       [DeviceIdEntry ''net'' ''uuid'' ''0af3'' ''udid'' ''77be'']\<rparr>,
     sys_world = [((''db'', ''0af3''), VersionInfo_ToJsonString model_cjson sample_ver)], sys_events = [] \<rparr>"

lemma sample_ver_decodes:
  "VersionInfo_FromJsonString 0 model_cjson (VersionInfo_ToJsonString model_cjson sample_ver) VersionInfo_new
     = (DH_FWK_SUCCESS, sample_ver)"
  unfolding VersionInfo_FromJsonString_def VersionInfo_ToJsonString_def
  using model_cjson_laws sample_ver_encodable model_create sample_ver_prints_back [unfolded sample_ver_json_def]
  by (rule ver_codec.string_round_trip)

theorem version_lookup_after_sync_witness:
  "case SyncVersionInfoFromDB 0 env_model ''0af3'' (\<lparr> vm_db = Some (db_model ''db''), vm_versions = [] \<rparr>, ver_witness_sys) of
     (r, (m1, s1)) \<Rightarrow> fst (GetCompVersion ''uuid'' DHType_CAMERA (vm_versions m1)) = DH_FWK_SUCCESS"
proof -
  let ?m = "\<lparr> vm_db = Some (db_model ''db''), vm_versions = [] \<rparr>"
  have "kv_laws (env_kv env_model) kvm_get" by (simp add: kv_model_laws)
  moreover have "kvm_get (sys_world ver_witness_sys) (db_storeId (db_model ''db'')) ''0af3''
      = Some (VersionInfo_ToJsonString model_cjson sample_ver)"
    by (simp add: ver_witness_sys_def kvm_get_def db_model_def)
  moreover have "GetUUIDByDeviceId (sys_cx ver_witness_sys) (vi_deviceId sample_ver) = ''uuid''"
    by (simp add: ver_witness_sys_def GetUUIDByDeviceId_def sample_ver_def first_entry_def IsIdLengthValid_def DHContext_new_def)
  ultimately show ?thesis
    using version_lookup_after_sync [of env_model kvm_get ?m "db_model ''db''" "''0af3''" "''uuid''" "''uuid''"
        ver_witness_sys _ 0 sample_ver DHType_CAMERA] sample_ver_decodes
    by (auto simp: IsIdLengthValid_def db_model_def sample_ver_def smap_get_def split: prod.splits)
qed

end
