(* ===== verification/DHF_LocalHw.thy ===== *)
theory DHF_LocalHw
  imports DHF_LocalMeta DHF_Version
begin

text \<open>
  The resource managers together, and the local hardware: \<open>LocalHardwareManager\<close>
  (\<open>localhardwaremanager/local_hardware_manager.cpp\<close>) and its hot-plug listener
  (\<open>plugin_listener_impl.cpp\<close>).

  A component's hardware handler is loaded from a library outside the repository; \<open>hw_handler\<close> holds
  what its calls return: whether the loader found it, its initialisation, the items of the \<open>n\<close>-th query,
  and whether it supports hot plug. \<open>GetDeviceInfo\<close> is called once where the source calls it several
  times in a row, since every call after the first returns the same.
\<close>

section \<open>State\<close>

record dh_item =
  it_dhId :: string
  it_attrs :: string
  it_subtype :: string

record hw_handler =
  hh_found :: bool
  hh_Initialize :: ret
  hh_Query :: "nat \<Rightarrow> dh_item list"
  hh_IsSupportPlugin :: bool

text \<open>The maps of the manager; of the handlers and listeners only the types they stand under matter.\<close>

record local_hw =
  lh_localDHItemsMap :: "(dhtype, dh_item list) smap"
  lh_compToolFuncsMap :: "dhtype list"
  lh_pluginListenerMap :: "dhtype list"

record 'w resources =
  rs_sys :: "'w sys"
  rs_cap :: "capability_info info_mgr"
  rs_local :: "capability_info info_mgr"
  rs_meta :: "meta_capability_info info_mgr"
  rs_ver :: ver_mgr
  rs_hw :: local_hw

text \<open>A call of one manager within the whole.\<close>

definition on_cap :: "('w cap_state \<Rightarrow> ret \<times> 'w cap_state) \<Rightarrow> 'w resources \<Rightarrow> ret \<times> 'w resources" where
  "on_cap f rs = (let (r, (m, s)) = f (rs_cap rs, rs_sys rs) in (r, rs\<lparr>rs_cap := m, rs_sys := s\<rparr>))"

definition on_local :: "('w cap_state \<Rightarrow> ret \<times> 'w cap_state) \<Rightarrow> 'w resources \<Rightarrow> ret \<times> 'w resources" where
  "on_local f rs = (let (r, (m, s)) = f (rs_local rs, rs_sys rs) in (r, rs\<lparr>rs_local := m, rs_sys := s\<rparr>))"

definition on_meta :: "('w meta_state \<Rightarrow> ret \<times> 'w meta_state) \<Rightarrow> 'w resources \<Rightarrow> ret \<times> 'w resources" where
  "on_meta f rs = (let (r, (m, s)) = f (rs_meta rs, rs_sys rs) in (r, rs\<lparr>rs_meta := m, rs_sys := s\<rparr>))"

definition on_ver :: "('w ver_state \<Rightarrow> ret \<times> 'w ver_state) \<Rightarrow> 'w resources \<Rightarrow> ret \<times> 'w resources" where
  "on_ver f rs = (let (r, (m, s)) = f (rs_ver rs, rs_sys rs) in (r, rs\<lparr>rs_ver := m, rs_sys := s\<rparr>))"

definition local_device :: "('w, 'j) env \<Rightarrow> 'w resources \<Rightarrow> device_info \<times> 'w resources" where
  "local_device E rs =
     (let (info, cx) = GetDeviceInfo (env_dm E) (env_digest E) (sys_cx (rs_sys rs))
      in (info, rs\<lparr>rs_sys := (rs_sys rs)\<lparr>sys_cx := cx\<rparr>\<rparr>))"

section \<open>The local hardware manager\<close>

definition DHTypePrefixMap :: "(dhtype \<times> string) list" where
  "DHTypePrefixMap = [(DHType_CAMERA, ''Camera''), (DHType_SCREEN, ''Screen''), (DHType_INPUT, ''Input'')]"

definition GetLocalCapabilityMapByPrefix ::
  "('w, 'j) env \<Rightarrow> dhtype \<Rightarrow> cap_map \<Rightarrow> 'w resources \<Rightarrow> cap_map \<times> 'w resources" where
  "GetLocalCapabilityMapByPrefix E dhType capabilityInfoMap rs =
     (let (info, rs1) = local_device E rs; localDeviceId = di_deviceId info in
      if \<not> IsIdLengthValid localDeviceId then (capabilityInfoMap, rs1)
      else case map_of DHTypePrefixMap dhType of
        None \<Rightarrow> (capabilityInfoMap, rs1)
      | Some prefix \<Rightarrow>
          (let (r, out, (m, s)) = CapMgr_GetDataByKeyPrefix E (localDeviceId @ RESOURCE_SEPARATOR @ prefix)
                 capabilityInfoMap (rs_cap rs1, rs_sys rs1)
           in (out, rs1\<lparr>rs_cap := m, rs_sys := s\<rparr>)))"

definition CheckNonExistCapabilityInfo ::
  "('w, 'j) env \<Rightarrow> dh_item list \<Rightarrow> dhtype \<Rightarrow> 'w resources \<Rightarrow> 'w resources" where
  "CheckNonExistCapabilityInfo E dhItems dhType rs =
     (if dhType \<noteq> DHType_INPUT then rs
      else let (allLocalCapabilityInfos, rs1) = GetLocalCapabilityMapByPrefix E dhType [] rs in
        fold (\<lambda>(k, c) rs2.
                if list_ex (\<lambda>dhItem. ci_dhId c = it_dhId dhItem) dhItems then rs2
                else snd (on_cap (CapMgr_RemoveCapabilityInfoByKey E (CapabilityInfo_GetKey c)) rs2))
          allLocalCapabilityInfos rs1)"

text \<open>The retry loop; \<open>n\<close> counts the queries made so far, \<open>retryTimes\<close> those left.\<close>

fun query_retry ::
  "('w, 'j) env \<Rightarrow> dhtype \<Rightarrow> hw_handler \<Rightarrow> nat \<Rightarrow> nat \<Rightarrow> 'w resources \<Rightarrow> 'w resources" where
  "query_retry E dhType handler n 0 rs = rs"
| "query_retry E dhType handler n (Suc retryTimes) rs =
     (let dhItems = hh_Query handler n in
      if dhItems = [] then query_retry E dhType handler (Suc n) retryTimes rs
      else let rs1 = CheckNonExistCapabilityInfo E dhItems dhType rs
           in rs1\<lparr>rs_hw := (rs_hw rs1)\<lparr>lh_localDHItemsMap := smap_put dhType dhItems (lh_localDHItemsMap (rs_hw rs1))\<rparr>\<rparr>)"

definition QueryLocalHardware :: "('w, 'j) env \<Rightarrow> dhtype \<Rightarrow> hw_handler \<Rightarrow> 'w resources \<Rightarrow> 'w resources" where
  "QueryLocalHardware E dhType handler = query_retry E dhType handler 0 3"

definition AddLocalCapabilityInfo ::
  "device_info \<Rightarrow> dh_item list \<Rightarrow> dhtype \<Rightarrow> capability_info list \<Rightarrow> capability_info list" where
  "AddLocalCapabilityInfo info dhItems dhType capabilityInfos = capabilityInfos @
     map (\<lambda>dhItem. \<lparr> ci_dhId = it_dhId dhItem, ci_deviceId = di_deviceId info, ci_deviceName = di_deviceName info,
       ci_deviceType = di_deviceType info, ci_dhType = dhType, ci_dhAttrs = it_attrs dhItem,
       ci_dhSubtype = it_subtype dhItem \<rparr>) dhItems"

definition AddLocalMetaCapInfo ::
  "device_info \<Rightarrow> versions \<Rightarrow> dh_item list \<Rightarrow> dhtype \<Rightarrow> meta_capability_info list \<Rightarrow> meta_capability_info list" where
  "AddLocalMetaCapInfo info vs dhItems dhType metaCapInfos =
     (let sinkVersion = (case snd (GetCompVersion (di_uuid info) dhType vs) of None \<Rightarrow> [] | Some c \<Rightarrow> cv_sinkVersion c)
      in metaCapInfos @
     map (\<lambda>dhItem. \<lparr> ci_dhId = it_dhId dhItem, ci_deviceId = di_deviceId info, ci_deviceName = di_deviceName info,
       ci_deviceType = di_deviceType info, ci_dhType = dhType, ci_dhAttrs = it_attrs dhItem,
       ci_dhSubtype = it_subtype dhItem, ci_udidHash = di_udidHash info, ci_sinkVersion = sinkVersion \<rparr>) dhItems)"

text \<open>The loop over the component types of \<open>Init\<close>.\<close>

definition init_comp :: "('w, 'j) env \<Rightarrow> dhtype \<times> hw_handler \<Rightarrow> 'w resources \<Rightarrow> 'w resources" where
  "init_comp E entry rs =
     (let (dhType, hardwareHandler) = entry in
      if \<not> hh_found hardwareHandler then rs
      else if hh_Initialize hardwareHandler \<noteq> DH_FWK_SUCCESS then rs
      else let rs1 = QueryLocalHardware E dhType hardwareHandler rs; hw = rs_hw rs1 in
        if \<not> hh_IsSupportPlugin hardwareHandler then rs1
        else rs1\<lparr>rs_hw := hw\<lparr>lh_compToolFuncsMap := sset_insert dhType (lh_compToolFuncsMap hw),
                             lh_pluginListenerMap := sset_insert dhType (lh_pluginListenerMap hw)\<rparr>\<rparr>)"

definition local_caps :: "device_info \<Rightarrow> (dhtype, dh_item list) smap \<Rightarrow> capability_info list" where
  "local_caps info items = fold (\<lambda>(t, dhItems). AddLocalCapabilityInfo info dhItems t) items []"

definition local_metas :: "device_info \<Rightarrow> versions \<Rightarrow> (dhtype, dh_item list) smap \<Rightarrow> meta_capability_info list" where
  "local_metas info vs items = fold (\<lambda>(t, dhItems). AddLocalMetaCapInfo info vs dhItems t) items []"

definition LocalHardwareManager_Init ::
  "('w, 'j) env \<Rightarrow> (dhtype \<times> hw_handler) list \<Rightarrow> 'w resources \<Rightarrow> 'w resources" where
  "LocalHardwareManager_Init E comps rs =
     (let rs0 = rs\<lparr>rs_hw := (rs_hw rs)\<lparr>lh_localDHItemsMap := []\<rparr>\<rparr>;
          rs1 = fold (init_comp E) comps rs0;
          items = lh_localDHItemsMap (rs_hw rs1);
          (info, rs2) = (if items = [] then (DeviceInfo_empty, rs1) else local_device E rs1);
          (r, rs3) = on_cap (CapMgr_AddCapability E (map Some (local_caps info items))) rs2;
          (r4, rs4) = on_meta (MetaMgr_AddMetaCapInfos E (map Some (local_metas info (vm_versions (rs_ver rs3)) items))) rs3
      in rs4)"

definition LocalHardwareManager_UnInit :: "'w resources \<Rightarrow> 'w resources" where
  "LocalHardwareManager_UnInit rs =
     rs\<lparr>rs_hw := (rs_hw rs)\<lparr>lh_compToolFuncsMap := [], lh_pluginListenerMap := []\<rparr>\<rparr>"

section \<open>Hot plug\<close>

text \<open>The listener's methods; the messages to the publisher are not part of this state.\<close>

definition PluginHardware ::
  "('w, 'j) env \<Rightarrow> dhtype \<Rightarrow> string \<Rightarrow> string \<Rightarrow> string \<Rightarrow> 'w resources \<Rightarrow> 'w resources" where
  "PluginHardware E dhType dhId attrs subtype rs =
     (if \<not> IsIdLengthValid dhId \<or> \<not> IsMessageLengthValid attrs then rs
      else if cx_isSleeping (sys_cx (rs_sys rs)) then rs
      else let (info, rs1) = local_device E rs;
               dhCapabilityInfo = \<lparr> ci_dhId = dhId, ci_deviceId = di_deviceId info, ci_deviceName = di_deviceName info,
                 ci_deviceType = di_deviceType info, ci_dhType = dhType, ci_dhAttrs = attrs, ci_dhSubtype = subtype \<rparr>
           in snd (on_cap (CapMgr_AddCapability E [Some dhCapabilityInfo]) rs1))"

definition UnPluginHardware :: "('w, 'j) env \<Rightarrow> string \<Rightarrow> 'w resources \<Rightarrow> 'w resources" where
  "UnPluginHardware E dhId rs =
     (if \<not> IsIdLengthValid dhId then rs
      else if cx_isSleeping (sys_cx (rs_sys rs)) then rs
      else let (info, rs1) = local_device E rs in
        case CapMgr_GetCapability (di_deviceId info) dhId (im_map (rs_cap rs1)) of
          (ret, None) \<Rightarrow> rs1
        | (ret, Some capability) \<Rightarrow>
            if ret \<noteq> DH_FWK_SUCCESS then rs1
            else snd (on_cap (CapMgr_RemoveCapabilityInfoByKey E (CapabilityInfo_GetKey capability)) rs1))"

section \<open>What the operations keep of the capability cache\<close>

text \<open>The manager is initialised and its cache is well formed.\<close>

definition cap_ready :: "'w resources \<Rightarrow> bool" where
  "cap_ready rs \<longleftrightarrow> cap_keyed (im_map (rs_cap rs)) \<and> im_db (rs_cap rs) \<noteq> None"

lemma mgr_read_into_db: "im_db (fst ms) \<noteq> None \<Longrightarrow> im_db (fst (snd (snd (mgr_read_into E dec key p out ms)))) \<noteq> None"
  by (cases ms) (auto simp: mgr_read_into_def mgr_read_prefix_def Let_def split: option.splits prod.splits)

lemma mgr_remove_key_db: "im_db (fst ms) \<noteq> None \<Longrightarrow> im_db (fst (snd (mgr_remove_key E k ms))) \<noteq> None"
  by (cases ms) (auto simp: mgr_remove_key_def Let_def split: option.splits prod.splits)

lemma on_cap_fields:
  "rs_cap (snd (on_cap f rs)) = fst (snd (f (rs_cap rs, rs_sys rs)))"
  "rs_hw (snd (on_cap f rs)) = rs_hw rs" "rs_meta (snd (on_cap f rs)) = rs_meta rs" "rs_ver (snd (on_cap f rs)) = rs_ver rs"
  by (simp_all add: on_cap_def Let_def split: prod.splits)

lemma on_meta_fields:
  "rs_cap (snd (on_meta f rs)) = rs_cap rs" "rs_hw (snd (on_meta f rs)) = rs_hw rs" "rs_ver (snd (on_meta f rs)) = rs_ver rs"
  by (simp_all add: on_meta_def Let_def split: prod.splits)

lemma local_device_fields:
  "rs_cap (snd (local_device E rs)) = rs_cap rs" "rs_hw (snd (local_device E rs)) = rs_hw rs"
  "rs_meta (snd (local_device E rs)) = rs_meta rs" "rs_ver (snd (local_device E rs)) = rs_ver rs"
  by (simp_all add: local_device_def Let_def split: prod.splits)

lemmas resource_fields = on_cap_fields on_meta_fields local_device_fields

lemma cap_ready_remove: "cap_ready rs \<Longrightarrow> cap_ready (snd (on_cap (CapMgr_RemoveCapabilityInfoByKey E k) rs))"
  using keyed_map_remove_key [of CapabilityInfo_GetKey "(rs_cap rs, rs_sys rs)" E k]
    mgr_remove_key_db [of "(rs_cap rs, rs_sys rs)" E k]
  by (auto simp: cap_ready_def resource_fields CapMgr_RemoveCapabilityInfoByKey_def)

lemma prefix_read_keeps:
  assumes "cap_ready rs"
  shows "cap_ready (snd (GetLocalCapabilityMapByPrefix E t out rs))"
    and "rs_hw (snd (GetLocalCapabilityMapByPrefix E t out rs)) = rs_hw rs"
proof -
  obtain info rs1 where d: "local_device E rs = (info, rs1)" by fastforce
  have rs1: "rs_cap rs1 = rs_cap rs" "rs_hw rs1 = rs_hw rs" using local_device_fields [of E rs] by (simp_all add: d)
  have read: "im_db (fst ms') \<noteq> None \<and> im_map (fst ms') = im_map (rs_cap rs)"
    if "mgr_read_into E (cap_dec E) CapabilityInfo_GetKey k out (rs_cap rs, rs_sys rs1) = (r, o1, ms')" for k r o1 ms'
    using assms mgr_read_into_db [of "(rs_cap rs, rs_sys rs1)" E "cap_dec E" CapabilityInfo_GetKey k out]
      mgr_read_into_map [of E "cap_dec E" CapabilityInfo_GetKey k out "(rs_cap rs, rs_sys rs1)"]
    by (simp add: that cap_ready_def)
  show "cap_ready (snd (GetLocalCapabilityMapByPrefix E t out rs))"
    using assms
    by (auto simp: GetLocalCapabilityMapByPrefix_def d rs1 cap_ready_def CapMgr_GetDataByKeyPrefix_def Let_def
        split: option.splits prod.splits dest!: read)
  show "rs_hw (snd (GetLocalCapabilityMapByPrefix E t out rs)) = rs_hw rs"
    by (auto simp: GetLocalCapabilityMapByPrefix_def d rs1 Let_def split: option.splits prod.splits)
qed

lemma check_keeps:
  assumes "cap_ready rs"
  shows "cap_ready (CheckNonExistCapabilityInfo E its t rs) \<and> rs_hw (CheckNonExistCapabilityInfo E its t rs) = rs_hw rs"
proof (cases "t = DHType_INPUT")
  case True
  obtain caps rs1 where g: "GetLocalCapabilityMapByPrefix E t [] rs = (caps, rs1)" by fastforce
  have rs1: "cap_ready rs1 \<and> rs_hw rs1 = rs_hw rs" using prefix_read_keeps [OF assms, of E t "[]"] by (simp add: g)
  let ?f = "\<lambda>(k, c) rs2. if list_ex (\<lambda>dhItem. ci_dhId c = it_dhId dhItem) its then rs2
      else snd (on_cap (CapMgr_RemoveCapabilityInfoByKey E (CapabilityInfo_GetKey c)) rs2)"
  have step: "cap_ready (?f e rs2) \<and> rs_hw (?f e rs2) = rs_hw rs" if "cap_ready rs2 \<and> rs_hw rs2 = rs_hw rs" for e rs2
    using that by (cases e) (simp add: cap_ready_remove resource_fields)
  have "cap_ready (fold ?f caps rs1) \<and> rs_hw (fold ?f caps rs1) = rs_hw rs"
    using step rs1 by (rule fold_inv [where P = "\<lambda>x. cap_ready x \<and> rs_hw x = rs_hw rs"])
  then show ?thesis using True g by (simp add: CheckNonExistCapabilityInfo_def)
qed (use assms in \<open>simp add: CheckNonExistCapabilityInfo_def\<close>)

text \<open>What the queries of a handler give: the items of the first of three that are not empty.\<close>

definition first_query :: "hw_handler \<Rightarrow> nat \<Rightarrow> dh_item list option" where
  "first_query handler n = List.find (\<lambda>its. its \<noteq> []) (map (hh_Query handler) [0..<n])"

lemma query_retry_keeps:
  "cap_ready rs \<Longrightarrow> cap_ready (query_retry E t h n k rs)
     \<and> lh_localDHItemsMap (rs_hw (query_retry E t h n k rs)) =
        (case List.find (\<lambda>its. its \<noteq> []) (map (hh_Query h) [n..<n + k]) of
           None \<Rightarrow> lh_localDHItemsMap (rs_hw rs) | Some its \<Rightarrow> smap_put t its (lh_localDHItemsMap (rs_hw rs)))"
proof (induction k arbitrary: n)
  case (Suc k)
  have upt: "[n..<n + Suc k] = n # [Suc n..<Suc n + k]" by (simp add: upt_rec)
  show ?case
    unfolding upt
    using Suc.IH [of "Suc n"] Suc.prems check_keeps [OF Suc.prems, of E "hh_Query h n" t]
    by (simp add: cap_ready_def Let_def del: upt_Suc)
qed simp

lemma QueryLocalHardware_keeps:
  assumes "cap_ready rs"
  shows "cap_ready (QueryLocalHardware E t h rs)"
    and "lh_localDHItemsMap (rs_hw (QueryLocalHardware E t h rs)) =
       (case first_query h 3 of None \<Rightarrow> lh_localDHItemsMap (rs_hw rs)
        | Some its \<Rightarrow> smap_put t its (lh_localDHItemsMap (rs_hw rs)))"
  using query_retry_keeps [OF assms, of E t h 0 3] by (simp_all add: QueryLocalHardware_def first_query_def)

definition usable :: "hw_handler \<Rightarrow> bool" where
  "usable h \<longleftrightarrow> hh_found h \<and> hh_Initialize h = DH_FWK_SUCCESS \<and> first_query h 3 \<noteq> None"

lemma init_comp_keeps:
  assumes "cap_ready rs"
  shows "cap_ready (init_comp E (t, h) rs)"
    and "lh_localDHItemsMap (rs_hw (init_comp E (t, h) rs)) =
       (if usable h then smap_put t (the (first_query h 3)) (lh_localDHItemsMap (rs_hw rs)) else lh_localDHItemsMap (rs_hw rs))"
  using QueryLocalHardware_keeps [OF assms, of E t h] assms
  by (auto simp: init_comp_def usable_def cap_ready_def Let_def split: option.splits)

text \<open>The items the manager holds after its loop over the components, as a function of the handlers.\<close>

definition local_items :: "(dhtype \<times> hw_handler) list \<Rightarrow> (dhtype, dh_item list) smap \<Rightarrow> (dhtype, dh_item list) smap" where
  "local_items comps m0 = fold (\<lambda>(t, h) m. if usable h then smap_put t (the (first_query h 3)) m else m) comps m0"

lemma init_loop_keeps:
  "cap_ready rs \<Longrightarrow> cap_ready (fold (init_comp E) comps rs)
     \<and> lh_localDHItemsMap (rs_hw (fold (init_comp E) comps rs)) = local_items comps (lh_localDHItemsMap (rs_hw rs))"
proof (induction comps arbitrary: rs)
  case (Cons e comps)
  obtain t h where e: "e = (t, h)" by fastforce
  from Cons.IH [OF init_comp_keeps(1) [OF Cons.prems, of E t h]] init_comp_keeps(2) [OF Cons.prems, of E t h]
  show ?case by (simp add: e local_items_def)
qed (simp add: local_items_def)

lemma local_caps_eq:
  "local_caps info items = concat (map (\<lambda>(t, its). AddLocalCapabilityInfo info its t []) items)"
proof -
  have "fold (\<lambda>(t, its). AddLocalCapabilityInfo info its t) items acc
      = acc @ concat (map (\<lambda>(t, its). AddLocalCapabilityInfo info its t []) items)" for acc
    by (induction items arbitrary: acc) (auto simp: AddLocalCapabilityInfo_def)
  then show ?thesis by (simp add: local_caps_def)
qed

section \<open>Properties\<close>

text \<open>
  Property C24. After the start of the local hardware manager the items it holds are, for each component
  whose handler was found and initialised, those of the first of three queries that is not empty; and
  every such item can be looked up in the capability cache under the local device and its own
  identifier, if there are at most 10000 of them.
\<close>

theorem local_hardware_published:
  fixes E :: "('w, 'j) env" and rs :: "'w resources"
  assumes ready: "cap_ready rs" and items: "items = local_items comps []"
    and info: "info = fst (local_device E (fold (init_comp E) comps (rs\<lparr>rs_hw := (rs_hw rs)\<lparr>lh_localDHItemsMap := []\<rparr>\<rparr>)))"
    and mem: "(t, its) \<in> set items" "it \<in> set its" and few: "length (local_caps info items) \<le> MAX_DB_RECORD_SIZE"
    and ids: "IsIdLengthValid (di_deviceId info)" "IsIdLengthValid (it_dhId it)"
  shows "lh_localDHItemsMap (rs_hw (LocalHardwareManager_Init E comps rs)) = items
       \<and> (\<exists>c. CapMgr_GetCapability (di_deviceId info) (it_dhId it)
                 (im_map (rs_cap (LocalHardwareManager_Init E comps rs))) = (DH_FWK_SUCCESS, Some c)
               \<and> c \<in> set (local_caps info items))"
proof -
  let ?rs0 = "rs\<lparr>rs_hw := (rs_hw rs)\<lparr>lh_localDHItemsMap := []\<rparr>\<rparr>"
  define rs1 where "rs1 = fold (init_comp E) comps ?rs0"
  have rs1: "cap_ready rs1" "lh_localDHItemsMap (rs_hw rs1) = items"
    using init_loop_keeps [of ?rs0 E comps] ready by (simp_all add: rs1_def items cap_ready_def)
  obtain rs2 where d: "local_device E rs1 = (info, rs2)" using info by (metis prod.collapse rs1_def)
  have rs2: "rs_cap rs2 = rs_cap rs1" "rs_hw rs2 = rs_hw rs1" using local_device_fields [of E rs1] by (simp_all add: d)
  let ?caps = "local_caps info items" let ?k = "GetCapabilityKey (di_deviceId info) (it_dhId it)"
  obtain c0 where c0: "c0 \<in> set ?caps" "CapabilityInfo_GetKey c0 = ?k"
    using mem by (force simp: local_caps_eq AddLocalCapabilityInfo_def CapabilityInfo_GetKey_eq)
  define rs3 where "rs3 = snd (on_cap (CapMgr_AddCapability E (map Some ?caps)) rs2)"
  have "?caps \<noteq> []" using c0 by auto
  then have map3: "im_map (rs_cap rs3) = fold (\<lambda>c. smap_put (CapabilityInfo_GetKey c) c) ?caps (im_map (rs_cap rs1))"
    using few rs1(1) by (auto simp: rs3_def resource_fields CapMgr_AddCapability_def mgr_add_map rs2 cap_ready_def
        List.map_filter_def comp_def)
  have "items \<noteq> []" using mem(1) by auto
  then have "LocalHardwareManager_Init E comps rs =
      snd (on_meta (MetaMgr_AddMetaCapInfos E (map Some (local_metas info (vm_versions (rs_ver rs3)) items))) rs3)"
    by (simp add: LocalHardwareManager_Init_def rs1_def [symmetric] rs1(2) d rs3_def Let_def case_prod_unfold)
  then have init: "rs_cap (LocalHardwareManager_Init E comps rs) = rs_cap rs3"
    "rs_hw (LocalHardwareManager_Init E comps rs) = rs_hw rs3"
    by (simp_all add: resource_fields)
  obtain c where c: "List.find (\<lambda>c. CapabilityInfo_GetKey c = ?k) (rev ?caps) = Some c"
    using c0 find_None_all [of "\<lambda>c. CapabilityInfo_GetKey c = ?k" "rev ?caps"] by (metis not_None_eq set_rev)
  have "smap_get (im_map (rs_cap rs3)) ?k = Some c"
    using c rs1(1) smap_get_put_all [of CapabilityInfo_GetKey "im_map (rs_cap rs1)" ?caps ?k]
    by (simp add: map3 cap_ready_def)
  moreover have "c \<in> set ?caps" using find_Some_mem [OF c] by simp
  moreover have "rs_hw rs3 = rs_hw rs1" by (simp add: rs3_def resource_fields rs2)
  ultimately show ?thesis
    using ids rs1(2) by (simp add: init CapMgr_GetCapability_def map_get_cap_def)
qed

text \<open>
  A hot-plugged item can be looked up with its attributes, and after it is unplugged the
  look-up fails; every other key is answered as before. While the system sleeps both are ignored.
\<close>

theorem hot_plug:
  fixes E :: "('w, 'j) env" and rs :: "'w resources"
  assumes ready: "cap_ready rs" and info: "info = fst (local_device E rs)"
    and ids: "IsIdLengthValid dhId" "IsIdLengthValid (di_deviceId info)" "IsMessageLengthValid attrs"
      "IsIdLengthValid (GetCapabilityKey (di_deviceId info) dhId)"
  shows "if cx_isSleeping (sys_cx (rs_sys rs))
    then PluginHardware E t dhId attrs subtype rs = rs \<and> UnPluginHardware E dhId rs = rs
    else CapMgr_GetCapability (di_deviceId info) dhId (im_map (rs_cap (PluginHardware E t dhId attrs subtype rs)))
           = (DH_FWK_SUCCESS, Some \<lparr> ci_dhId = dhId, ci_deviceId = di_deviceId info, ci_deviceName = di_deviceName info,
                ci_deviceType = di_deviceType info, ci_dhType = t, ci_dhAttrs = attrs, ci_dhSubtype = subtype \<rparr>)
       \<and> CapMgr_GetCapability (di_deviceId info) dhId (im_map (rs_cap (UnPluginHardware E dhId rs)))
           = (ERR_DH_FWK_RESOURCE_CAPABILITY_MAP_NOT_FOUND, None)
       \<and> (\<forall>k. k \<noteq> GetCapabilityKey (di_deviceId info) dhId \<longrightarrow>
            smap_get (im_map (rs_cap (PluginHardware E t dhId attrs subtype rs))) k = smap_get (im_map (rs_cap rs)) k
          \<and> smap_get (im_map (rs_cap (UnPluginHardware E dhId rs))) k = smap_get (im_map (rs_cap rs)) k)"
proof (cases "cx_isSleeping (sys_cx (rs_sys rs))")
  case True
  with ids show ?thesis by (simp add: PluginHardware_def UnPluginHardware_def)
next
  case False
  let ?k = "GetCapabilityKey (di_deviceId info) dhId"
  obtain rs1 where d: "local_device E rs = (info, rs1)" using info by (metis prod.collapse)
  have rs1: "rs_cap rs1 = rs_cap rs" using local_device_fields [of E rs] by (simp add: d)
  have db: "im_db (rs_cap rs) \<noteq> None" and keyed: "cap_keyed (im_map (rs_cap rs))" using ready by (simp_all add: cap_ready_def)
  have plug: "im_map (rs_cap (PluginHardware E t dhId attrs subtype rs)) = smap_put ?k
      \<lparr> ci_dhId = dhId, ci_deviceId = di_deviceId info, ci_deviceName = di_deviceName info,
        ci_deviceType = di_deviceType info, ci_dhType = t, ci_dhAttrs = attrs, ci_dhSubtype = subtype \<rparr> (im_map (rs_cap rs))"
    using False ids db
    by (auto simp: PluginHardware_def d resource_fields CapMgr_AddCapability_def mgr_add_map rs1 List.map_filter_simps
        CapabilityInfo_GetKey_eq)
  have unplug: "smap_get (im_map (rs_cap (UnPluginHardware E dhId rs))) = (smap_get (im_map (rs_cap rs)))(?k := None)"
  proof (cases "smap_get (im_map (rs_cap rs)) ?k")
    case None
    with False ids show ?thesis
      by (auto simp: UnPluginHardware_def d rs1 CapMgr_GetCapability_def map_get_cap_def)
  next
    case (Some c)
    with keyed have "CapabilityInfo_GetKey c = ?k" by (simp add: keyed_map_def)
    with Some False ids db show ?thesis
      by (auto simp: UnPluginHardware_def d rs1 CapMgr_GetCapability_def map_get_cap_def resource_fields
          CapMgr_RemoveCapabilityInfoByKey_def mgr_remove_key_map)
  qed
  show ?thesis using False ids by (simp add: plug unplug CapMgr_GetCapability_def map_get_cap_def)
qed

section \<open>Instances\<close>

definition sample_item :: dh_item where
  "sample_item = \<lparr> it_dhId = ''Camera_1'', it_attrs = ''a'', it_subtype = ''camera'' \<rparr>"

text \<open>A handler whose first query is empty.\<close>

definition sample_handler :: hw_handler where
  "sample_handler = \<lparr> hh_found = True, hh_Initialize = DH_FWK_SUCCESS,
     hh_Query = (\<lambda>n. if n = 0 then [] else [sample_item]), hh_IsSupportPlugin = False \<rparr>"

definition sample_resources :: "kv_world resources" where
  "sample_resources = \<lparr> rs_sys = sys_model, rs_cap = \<lparr> im_db = Some (db_model ''cap''), im_map = [] \<rparr>,
     rs_local = \<lparr> im_db = Some (db_model ''local''), im_map = [] \<rparr>,
     rs_meta = \<lparr> im_db = Some (db_model ''meta''), im_map = [] \<rparr>, rs_ver = \<lparr> vm_db = None, vm_versions = [] \<rparr>,
     rs_hw = \<lparr> lh_localDHItemsMap = [], lh_compToolFuncsMap = [], lh_pluginListenerMap = [] \<rparr> \<rparr>"

definition sample_info :: device_info where
  "sample_info = GetLocalDeviceInfo (env_dm env_model) (env_digest env_model)"

lemma sample_ready: "cap_ready sample_resources"
  by (simp add: cap_ready_def sample_resources_def)

lemma sample_local_device: "fst (local_device env_model sample_resources) = sample_info"
  by (simp add: local_device_def GetDeviceInfo_def sample_resources_def sys_model_def DHContext_new_def
      DeviceInfo_empty_def sample_info_def Let_def)

lemma sample_info_valid: "IsIdLengthValid (di_deviceId sample_info)"
  "IsIdLengthValid (GetCapabilityKey (di_deviceId sample_info) ''Camera_1'')"
proof -
  have "digest_ok (env_digest env_model)" by (simp add: digest_ok_def env_model_def)
  then have "length (di_deviceId sample_info) = 64"
    by (simp add: sample_info_def GetLocalDeviceInfo_def GetDeviceIdByUUID_def GetUUIDByDm_def env_model_def
        IsIdLengthValid_def length_Sha256 Let_def)
  then show "IsIdLengthValid (di_deviceId sample_info)"
    "IsIdLengthValid (GetCapabilityKey (di_deviceId sample_info) ''Camera_1'')"
    by (auto simp: IsIdLengthValid_def GetCapabilityKey_def)
qed

theorem hot_plug_witness:
  "fst (CapMgr_GetCapability (di_deviceId sample_info) ''Camera_1''
     (im_map (rs_cap (PluginHardware env_model DHType_CAMERA ''Camera_1'' ''a'' ''camera'' sample_resources)))) = DH_FWK_SUCCESS"
  using hot_plug [OF sample_ready sample_local_device [symmetric], of "''Camera_1''" "''a''" DHType_CAMERA "''camera''"]
    sample_info_valid
  by (simp add: IsIdLengthValid_def IsMessageLengthValid_def)
    (simp add: sample_resources_def sys_model_def DHContext_new_def)

lemma sample_items: "local_items [(DHType_CAMERA, sample_handler)] [] = [(DHType_CAMERA, [sample_item])]"
  by (simp add: local_items_def usable_def first_query_def sample_handler_def numeral_3_eq_3)

lemma sample_init_device:
  "fst (local_device env_model (fold (init_comp env_model) [(DHType_CAMERA, sample_handler)]
     (sample_resources\<lparr>rs_hw := (rs_hw sample_resources)\<lparr>lh_localDHItemsMap := []\<rparr>\<rparr>))) = sample_info"
  by (simp add: init_comp_def sample_handler_def QueryLocalHardware_def numeral_3_eq_3 CheckNonExistCapabilityInfo_def
      local_device_def GetDeviceInfo_def sample_resources_def sys_model_def DHContext_new_def
      DeviceInfo_empty_def sample_info_def Let_def)

theorem local_hardware_published_witness:
  "\<exists>c. CapMgr_GetCapability (di_deviceId sample_info) ''Camera_1''
     (im_map (rs_cap (LocalHardwareManager_Init env_model [(DHType_CAMERA, sample_handler)] sample_resources)))
     = (DH_FWK_SUCCESS, Some c)"
  using local_hardware_published [OF sample_ready sample_items [symmetric] sample_init_device [symmetric],
      of DHType_CAMERA "[sample_item]" sample_item] sample_info_valid
  by (auto simp: local_caps_eq AddLocalCapabilityInfo_def sample_item_def IsIdLengthValid_def)

end
