(* ===== verification/DHF_Manager.thy ===== *)
theory DHF_Manager
  imports DHF_LocalHw
begin

text \<open>
  The whole framework: \<open>DistributedHardwareManager\<close> (\<open>distributed_hardware_manager.cpp\<close>), the factory
  that starts and stops it (\<open>distributed_hardware_manager_factory.cpp\<close>) and the entry points that the
  device manager calls (\<open>accessmanager/access_manager.cpp\<close>).

  The component loader, the component manager, the device parameters, the publisher and the modem
  extension have a state of their own, \<open>'c\<close>; their calls are the fields of \<open>comp_api\<close>. What the device
  manager's \<open>GetTrustedDeviceList\<close> returns is an argument of the operations that call it: the network
  identifiers of the devices, since the device type is not used further on.
\<close>

abbreviation (input) ERR_DH_FWK_ACCESS_INIT_DM_FAILED :: ret where "ERR_DH_FWK_ACCESS_INIT_DM_FAILED \<equiv> - 10900"
abbreviation (input) ERR_DH_FWK_ACCESS_UNINIT_DM_FAILED :: ret where "ERR_DH_FWK_ACCESS_UNINIT_DM_FAILED \<equiv> - 10901"
abbreviation (input) ERR_DH_FWK_ACCESS_REGISTER_DM_FAILED :: ret where "ERR_DH_FWK_ACCESS_REGISTER_DM_FAILED \<equiv> - 10902"
abbreviation (input) ERR_DH_FWK_ACCESS_UNREGISTER_DM_FAILED :: ret
  where "ERR_DH_FWK_ACCESS_UNREGISTER_DM_FAILED \<equiv> - 10903"

section \<open>State\<close>

record 'c comp_api =
  cp_LoaderInit :: "'c \<Rightarrow> 'c"
  cp_LoaderUnInit :: "'c \<Rightarrow> 'c"
  cp_GetLocalDHVersion :: "'c \<Rightarrow> ret \<times> dh_version"
  cp_Handlers :: "'c \<Rightarrow> (dhtype \<times> hw_handler) list"
  cp_CompInit :: "'c \<Rightarrow> 'c"
  cp_CompUnInit :: "'c \<Rightarrow> 'c"
  cp_QueryDeviceDataSyncMode :: "'c \<Rightarrow> 'c"
  cp_IsDeviceE2ESync :: "'c \<Rightarrow> bool"
  cp_PublishOffline :: "string \<Rightarrow> 'c \<Rightarrow> 'c"
  cp_Enable :: "string \<Rightarrow> string \<Rightarrow> string \<Rightarrow> dhtype \<Rightarrow> 'c \<Rightarrow> ret \<times> 'c"
  cp_Disable :: "string \<Rightarrow> string \<Rightarrow> string \<Rightarrow> dhtype \<Rightarrow> 'c \<Rightarrow> ret \<times> 'c"
  cp_ModemSource :: "'c \<Rightarrow> bool"
  cp_ModemHandler :: "'c \<Rightarrow> 'c"
  cp_ModemInstance :: "'c \<Rightarrow> bool \<times> 'c"
  cp_ModemEnable :: "string \<Rightarrow> 'c \<Rightarrow> ret \<times> 'c"
  cp_ModemDisable :: "string \<Rightarrow> 'c \<Rightarrow> ret \<times> 'c"
  cp_ModemUnInit :: "'c \<Rightarrow> 'c"

text \<open>
  \<open>fw_sendThreads\<close> are the detached threads that \<open>CheckExitSAOrNot\<close> starts and that have not run yet;
  \<open>fw_exitRequested\<close> tells that the service asked the system to unload it.
\<close>

record ('w, 'c) fwk =
  fw_rs :: "'w resources"
  fw_ts :: task_sys
  fw_comp :: 'c
  fw_isLocalInit :: bool
  fw_isAllInit :: bool
  fw_isInit :: bool
  fw_flagUnInit :: bool
  fw_sendThreads :: "(string \<times> string \<times> string) list"
  fw_exitRequested :: bool

definition fw_cx :: "('w, 'c) fwk \<Rightarrow> dh_context" where
  "fw_cx f = sys_cx (rs_sys (fw_rs f))"

definition upd_cx :: "(dh_context \<Rightarrow> dh_context) \<Rightarrow> ('w, 'c) fwk \<Rightarrow> ('w, 'c) fwk" where
  "upd_cx g f = f\<lparr>fw_rs := (fw_rs f)\<lparr>rs_sys := (rs_sys (fw_rs f))\<lparr>sys_cx := g (fw_cx f)\<rparr>\<rparr>\<rparr>"

section \<open>The manager\<close>

definition start_versions :: "('w, 'j) env \<Rightarrow> ret \<times> dh_version \<Rightarrow> 'w resources \<Rightarrow> 'w resources" where
  "start_versions E localDHVersion rs =
     (let (r, (vs, s)) = VersionManager_Init E localDHVersion (vm_versions (rs_ver rs), rs_sys rs)
      in rs\<lparr>rs_ver := (rs_ver rs)\<lparr>vm_versions := vs\<rparr>, rs_sys := s\<rparr>)"

definition LocalInit :: "('w, 'j) env \<Rightarrow> 'c comp_api \<Rightarrow> ('w, 'c) fwk \<Rightarrow> ret \<times> ('w, 'c) fwk" where
  "LocalInit E P f =
     (if fw_isLocalInit f then (DH_FWK_SUCCESS, f)
      else let rs1 = snd (on_ver (VerInfoMgr_Init E) (fw_rs f));
               rs2 = snd (on_cap (CapMgr_Init E) rs1);
               rs3 = snd (on_meta (MetaMgr_Init E) rs2);
               rs4 = snd (on_local (LocalMgr_Init E) rs3);
               c1 = cp_LoaderInit P (fw_comp f);
               rs5 = start_versions E (cp_GetLocalDHVersion P c1) rs4;
               rs6 = LocalHardwareManager_Init E (cp_Handlers P c1) rs5;
               c2 = cp_QueryDeviceDataSyncMode P c1
           in (DH_FWK_SUCCESS, f\<lparr>fw_rs := rs6, fw_comp := c2, fw_isLocalInit := True\<rparr>))"

definition Initialize :: "('w, 'j) env \<Rightarrow> 'c comp_api \<Rightarrow> ('w, 'c) fwk \<Rightarrow> ret \<times> ('w, 'c) fwk" where
  "Initialize E P f =
     (if fw_isAllInit f then (DH_FWK_SUCCESS, f)
      else let f1 = snd (LocalInit E P f)
           in (DH_FWK_SUCCESS, f1\<lparr>fw_comp := cp_CompInit P (fw_comp f1), fw_isAllInit := True\<rparr>))"

definition Release :: "('w, 'j) env \<Rightarrow> 'c comp_api \<Rightarrow> ('w, 'c) fwk \<Rightarrow> ret \<times> ('w, 'c) fwk" where
  "Release E P f =
     (let rs1 = LocalHardwareManager_UnInit (fw_rs f);
          c1 = cp_CompUnInit P (fw_comp f);
          rs2 = rs1\<lparr>rs_ver := (rs_ver rs1)\<lparr>vm_versions := VersionManager_UnInit (vm_versions (rs_ver rs1))\<rparr>\<rparr>;
          c2 = cp_LoaderUnInit P c1;
          rs3 = snd (on_ver (VerInfoMgr_UnInit E) rs2);
          rs4 = snd (on_cap (CapMgr_UnInit E) rs3);
          rs5 = snd (on_meta (MetaMgr_UnInit E) rs4);
          rs6 = snd (on_local (LocalMgr_UnInit E) rs5);
          c3 = cp_ModemUnInit P c2
      in (DH_FWK_SUCCESS, f\<lparr>fw_rs := rs6, fw_comp := c3, fw_isAllInit := False, fw_isLocalInit := False\<rparr>))"

definition line_param :: "string \<Rightarrow> string \<Rightarrow> string \<Rightarrow> task_param" where
  "line_param networkId uuid udid = \<lparr> tp_networkId = networkId, tp_uuid = uuid, tp_udid = udid, tp_dhId = [],
     tp_dhType = DHType_UNKNOWN \<rparr>"

definition Manager_SendOnLineEvent ::
  "rand \<Rightarrow> string \<Rightarrow> string \<Rightarrow> string \<Rightarrow> ('w, 'c) fwk \<Rightarrow> ret \<times> ('w, 'c) fwk" where
  "Manager_SendOnLineEvent rand networkId uuid udid f =
     (if \<not> IsIdLengthValid networkId \<or> \<not> IsIdLengthValid uuid \<or> \<not> IsIdLengthValid udid
      then (ERR_DH_FWK_PARA_INVALID, f)
      else (DH_FWK_SUCCESS,
            f\<lparr>fw_ts := create_and_push rand TaskType_ON_LINE (line_param networkId uuid udid) None (fw_ts f)\<rparr>))"

definition Manager_SendOffLineEvent ::
  "'c comp_api \<Rightarrow> rand \<Rightarrow> string \<Rightarrow> string \<Rightarrow> string \<Rightarrow> ('w, 'c) fwk \<Rightarrow> ret \<times> ('w, 'c) fwk" where
  "Manager_SendOffLineEvent P rand networkId uuid udid f =
     (if \<not> IsIdLengthValid networkId \<or> \<not> IsIdLengthValid uuid \<or> \<not> IsIdLengthValid udid
      then (ERR_DH_FWK_PARA_INVALID, f)
      else (DH_FWK_SUCCESS,
            f\<lparr>fw_ts := create_and_push rand TaskType_OFF_LINE (line_param networkId uuid udid) None (fw_ts f),
              fw_comp := cp_PublishOffline P networkId (fw_comp f)\<rparr>))"

definition GetComponentVersion :: "ret \<times> dh_version \<Rightarrow> (dhtype, string) smap \<Rightarrow> ret \<times> (dhtype, string) smap" where
  "GetComponentVersion localDHVersion versionMap =
     (let (ret, dhVersion) = localDHVersion in
      if ret \<noteq> DH_FWK_SUCCESS then (ret, versionMap)
      else (DH_FWK_SUCCESS, fold (\<lambda>(t, c). smap_emplace t (cv_sinkVersion c)) (dv_compVersions dhVersion) versionMap))"

section \<open>The factory\<close>

definition Factory_Init :: "('w, 'j) env \<Rightarrow> 'c comp_api \<Rightarrow> ('w, 'c) fwk \<Rightarrow> bool \<times> ('w, 'c) fwk" where
  "Factory_Init E P f =
     (let (initResult, f1) = Initialize E P f in
      if initResult \<noteq> DH_FWK_SUCCESS then (False, f1) else (True, f1\<lparr>fw_isInit := True\<rparr>))"

definition ExitDHFWK :: "('w, 'c) fwk \<Rightarrow> ('w, 'c) fwk" where
  "ExitDHFWK f = f\<lparr>fw_exitRequested := True\<rparr>"

definition no_trusted_device :: "string list \<Rightarrow> ('w, 'c) fwk \<Rightarrow> bool" where
  "no_trusted_device deviceList f \<longleftrightarrow>
     (length deviceList = 0 \<or> length deviceList > MAX_ONLINE_DEVICE_SIZE) \<and> GetIsomerismConnectCount (fw_cx f) = 0"

definition CheckExitSAOrNot ::
  "('w, 'j) env \<Rightarrow> 'c comp_api \<Rightarrow> string list \<Rightarrow> ('w, 'c) fwk \<Rightarrow> ('w, 'c) fwk" where
  "CheckExitSAOrNot E P deviceList f =
     (if no_trusted_device deviceList f then ExitDHFWK f
      else let f1 = snd (Factory_Init E P f)
           in f1\<lparr>fw_sendThreads := fw_sendThreads f1 @
                map (\<lambda>networkId. (networkId, GetUUIDByDm (env_dm E) networkId, GetUDIDByDm (env_dm E) networkId)) deviceList\<rparr>)"

definition Factory_UnInit ::
  "('w, 'j) env \<Rightarrow> 'c comp_api \<Rightarrow> string list \<Rightarrow> ('w, 'c) fwk \<Rightarrow> ('w, 'c) fwk" where
  "Factory_UnInit E P deviceList f =
     CheckExitSAOrNot E P deviceList ((snd (Release E P f))\<lparr>fw_isInit := False, fw_flagUnInit := False\<rparr>)"

definition InitLocalDevInfo ::
  "('w, 'j) env \<Rightarrow> 'c comp_api \<Rightarrow> string list \<Rightarrow> string list \<Rightarrow> ('w, 'c) fwk \<Rightarrow> bool \<times> ('w, 'c) fwk" where
  "InitLocalDevInfo E P deviceList deviceList2 f =
     (if length deviceList > 0 \<and> length deviceList \<le> MAX_ONLINE_DEVICE_SIZE then (True, f)
      else let (initResult, f1) = LocalInit E P f in
        if initResult \<noteq> DH_FWK_SUCCESS then (False, f1)
        else if no_trusted_device deviceList2 f1 then (True, ExitDHFWK f1) else (True, f1))"

definition SendOnLineEvent ::
  "('w, 'j) env \<Rightarrow> 'c comp_api \<Rightarrow> rand \<Rightarrow> string \<Rightarrow> string \<Rightarrow> string \<Rightarrow> ('w, 'c) fwk \<Rightarrow> ret \<times> ('w, 'c) fwk" where
  "SendOnLineEvent E P rand networkId uuid udid f =
     (if \<not> IsIdLengthValid networkId \<or> \<not> IsIdLengthValid uuid \<or> \<not> IsIdLengthValid udid
      then (ERR_DH_FWK_PARA_INVALID, f)
      else if fw_flagUnInit f then (ERR_DH_FWK_HARDWARE_MANAGER_INIT_FAILED, f)
      else if IsDeviceOnline (fw_cx f) uuid then (ERR_DH_FWK_HARDWARE_MANAGER_DEVICE_REPEAT_ONLINE, f)
      else let f1 = upd_cx (\<lambda>cx. AddRealTimeOnlineDeviceNetworkId networkId
                                  (AddOnlineDevice (env_digest E) udid uuid networkId cx)) f;
               (ok, f2) = (if fw_isInit f1 then (True, f1) else Factory_Init E P f1)
           in if \<not> ok then (ERR_DH_FWK_HARDWARE_MANAGER_INIT_FAILED, f2)
              else let f3 = (if cp_IsDeviceE2ESync P (fw_comp f2)
                             then f2\<lparr>fw_rs := snd (on_meta (MetaMgr_SyncDataByNetworkId E networkId) (fw_rs f2))\<rparr> else f2);
                       (onlineResult, f4) = Manager_SendOnLineEvent rand networkId uuid udid f3
                   in if onlineResult \<noteq> DH_FWK_SUCCESS then (onlineResult, f4) else (DH_FWK_SUCCESS, f4))"

definition SendOffLineEvent ::
  "('w, 'j) env \<Rightarrow> 'c comp_api \<Rightarrow> rand \<Rightarrow> string \<Rightarrow> string \<Rightarrow> string \<Rightarrow> ('w, 'c) fwk \<Rightarrow> ret \<times> ('w, 'c) fwk" where
  "SendOffLineEvent E P rand networkId uuid udid f =
     (if \<not> IsIdLengthValid networkId \<or> \<not> IsIdLengthValid uuid \<or> \<not> IsIdLengthValid udid
      then (ERR_DH_FWK_PARA_INVALID, f)
      else let (ok, f1) = (if fw_isInit f then (True, f) else Factory_Init E P f) in
        if \<not> ok then (ERR_DH_FWK_HARDWARE_MANAGER_INIT_FAILED, f1)
        else if \<not> IsDeviceOnline (fw_cx f1) uuid then (ERR_DH_FWK_HARDWARE_MANAGER_DEVICE_REPEAT_OFFLINE, f1)
        else let f2 = upd_cx (DeleteRealTimeOnlineDeviceNetworkId networkId) f1;
                 f3 = (if GetRealTimeOnlineDeviceCount (fw_cx f2) = 0 \<and> GetIsomerismConnectCount (fw_cx f2) = 0
                       then f2\<lparr>fw_flagUnInit := True\<rparr> else f2)
             in (DH_FWK_SUCCESS, snd (Manager_SendOffLineEvent P rand networkId uuid udid f3)))"

definition Factory_ClearDataWhenPeerLogout ::
  "('w, 'j) env \<Rightarrow> string \<Rightarrow> string \<Rightarrow> ('w, 'c) fwk \<Rightarrow> ('w, 'c) fwk" where
  "Factory_ClearDataWhenPeerLogout E peerudid peeruuid f =
     f\<lparr>fw_rs := snd (on_meta (MetaMgr_ClearDataWhenPeerLogout E peerudid peeruuid) (fw_rs f))\<rparr>"

section \<open>The access manager\<close>

text \<open>The three registrations of \<open>Init\<close> return the given codes; the retry loop tries up to six times.\<close>

definition AccessManager_Init :: "ret \<times> ret \<times> ret \<Rightarrow> ret" where
  "AccessManager_Init = (\<lambda>(initDm, regState, regTrust).
     if initDm \<noteq> DH_FWK_SUCCESS then ERR_DH_FWK_ACCESS_INIT_DM_FAILED
     else if regState \<noteq> DH_FWK_SUCCESS then ERR_DH_FWK_ACCESS_REGISTER_DM_FAILED
     else if regTrust \<noteq> DH_FWK_SUCCESS then ERR_DH_FWK_ACCESS_REGISTER_DM_FAILED
     else DH_FWK_SUCCESS)"

definition AccessManager_UnInit :: "ret \<times> ret \<Rightarrow> ret" where
  "AccessManager_UnInit = (\<lambda>(unInitDm, unRegState).
     if unInitDm \<noteq> DH_FWK_SUCCESS then ERR_DH_FWK_ACCESS_UNINIT_DM_FAILED
     else if unRegState \<noteq> DH_FWK_SUCCESS then ERR_DH_FWK_ACCESS_UNREGISTER_DM_FAILED
     else DH_FWK_SUCCESS)"

text \<open>\<open>OnRemoteDied\<close>: the number of the attempt that succeeded, if one did.\<close>

fun access_retry :: "(nat \<Rightarrow> ret \<times> ret \<times> ret) \<Rightarrow> nat \<Rightarrow> nat \<Rightarrow> nat option" where
  "access_retry results tryCount 0 = None"
| "access_retry results tryCount (Suc left) =
     (if AccessManager_Init (results tryCount) = DH_FWK_SUCCESS then Some tryCount
      else access_retry results (Suc tryCount) left)"

definition AccessManager_OnRemoteDied :: "(nat \<Rightarrow> ret \<times> ret \<times> ret) \<Rightarrow> nat option" where
  "AccessManager_OnRemoteDied results = access_retry results 0 6"

definition OnDeviceOffline ::
  "('w, 'j) env \<Rightarrow> 'c comp_api \<Rightarrow> rand \<Rightarrow> string \<Rightarrow> ('w, 'c) fwk \<Rightarrow> ('w, 'c) fwk" where
  "OnDeviceOffline E P rand networkId f =
     (if \<not> IsIdLengthValid networkId then f
      else let uuid = GetUUIDByNetworkId (fw_cx f) networkId in
        if \<not> IsIdLengthValid uuid then f
        else let udid = GetUDIDByNetworkId (fw_cx f) networkId in
          if \<not> IsIdLengthValid udid then f
          else snd (SendOffLineEvent E P rand networkId uuid udid f))"

definition OnDeviceReady ::
  "('w, 'j) env \<Rightarrow> 'c comp_api \<Rightarrow> rand \<Rightarrow> string \<Rightarrow> ('w, 'c) fwk \<Rightarrow> ('w, 'c) fwk" where
  "OnDeviceReady E P rand networkId f =
     (if \<not> IsIdLengthValid networkId then f
      else let uuid = GetUUIDByDm (env_dm E) networkId in
        if \<not> IsIdLengthValid uuid then f
        else let udid = GetUDIDByDm (env_dm E) networkId in
          if \<not> IsIdLengthValid udid then f
          else snd (SendOnLineEvent E P rand networkId uuid udid f))"

definition OnDeviceTrustChange ::
  "('w, 'j) env \<Rightarrow> string \<Rightarrow> string \<Rightarrow> bool \<Rightarrow> ('w, 'c) fwk \<Rightarrow> ('w, 'c) fwk" where
  "OnDeviceTrustChange E peerudid peeruuid identicalAccount f =
     (if \<not> IsIdLengthValid peerudid \<or> \<not> IsIdLengthValid peeruuid then f
      else if \<not> identicalAccount then f
      else Factory_ClearDataWhenPeerLogout E peerudid peeruuid f)"

definition CheckTrustedDeviceOnline ::
  "('w, 'j) env \<Rightarrow> 'c comp_api \<Rightarrow> rand \<Rightarrow> string list \<Rightarrow> ('w, 'c) fwk \<Rightarrow> ('w, 'c) fwk" where
  "CheckTrustedDeviceOnline E P rand deviceList f =
     (if length deviceList = 0 \<or> length deviceList > MAX_ONLINE_DEVICE_SIZE then f
      else fold (\<lambda>networkId f1. snd (SendOnLineEvent E P rand networkId (GetUUIDByDm (env_dm E) networkId)
                                       (GetUDIDByDm (env_dm E) networkId) f1)) deviceList f)"

end
