(* ===== verification/DHF_Jobs.thy ===== *)
theory DHF_Jobs
  imports DHF_Manager
begin

text \<open>
  The bodies of the six task classes (\<open>DoTask\<close> and \<open>DoTaskInner\<close> of \<open>task/enable_task.cpp\<close>,
  \<open>disable_task.cpp\<close>, \<open>online_task.cpp\<close>, \<open>offline_task.cpp\<close>, \<open>meta_enable_task.cpp\<close>,
  \<open>meta_disable_task.cpp\<close>).

  Bodies run on several threads. A body is a list of actions, each of which is one access to the shared
  state: a change of the task's own state, one call of another component, one creation of a child task
  with its push, the notification of the father, the removal from the board. \<open>program\<close> gives the actions
  of a task's class in the order of the source; a step that creates child tasks puts one \<open>Spawn\<close> action
  per child in front of the rest. \<open>exec_action\<close> runs one action; it is \<open>None\<close> where the source waits.
\<close>

section \<open>Programs\<close>

datatype action =
    SetRunning | SetSuccess | DoStep task_step | Spawn task_type task_param
  | CallEnable | EndEnable | CallDisable | EndDisable | CallMetaEnable | CallMetaDisable | EndMeta
  | NotifyFather | RemoveSelf | CheckUnInit

definition program :: "task \<Rightarrow> action list" where
  "program t =
     (case tk_taskType t of
        TaskType_ENABLE \<Rightarrow> [SetRunning, CallEnable, EndEnable, RemoveSelf]
      | TaskType_DISABLE \<Rightarrow> [SetRunning, CallDisable, EndDisable, NotifyFather, RemoveSelf]
      | TaskType_META_ENABLE \<Rightarrow> [SetRunning, CallMetaEnable, EndMeta, RemoveSelf]
      | TaskType_META_DISABLE \<Rightarrow> [SetRunning, CallMetaDisable, EndMeta, NotifyFather, RemoveSelf]
      | TaskType_ON_LINE \<Rightarrow> SetRunning # map DoStep (tk_taskSteps t) @ [SetSuccess, RemoveSelf]
      | TaskType_OFF_LINE \<Rightarrow> SetRunning # map DoStep (tk_taskSteps t) @ [SetSuccess, RemoveSelf, CheckUnInit]
      | TaskType_UNKNOWN \<Rightarrow> [])"

text \<open>A body that runs: its task, the result of its last call, and what is left to do.\<close>

record job =
  jb_task :: nat
  jb_ret :: ret
  jb_pc :: "action list"

definition start_job :: "nat \<Rightarrow> task_sys \<Rightarrow> job" where
  "start_job r ts = \<lparr> jb_task = r, jb_ret = DH_FWK_SUCCESS, jb_pc = program (ts_heap ts ! r) \<rparr>"

definition upd_ts :: "(task_sys \<Rightarrow> task_sys) \<Rightarrow> ('w, 'c) fwk \<Rightarrow> ('w, 'c) fwk" where
  "upd_ts g f = f\<lparr>fw_ts := g (fw_ts f)\<rparr>"

section \<open>Steps of the online task\<close>

definition DoSyncInfo :: "('w, 'j) env \<Rightarrow> task \<Rightarrow> ('w, 'c) fwk \<Rightarrow> ('w, 'c) fwk" where
  "DoSyncInfo E t f =
     (let deviceId = GetDeviceIdByUUID (env_digest E) (tk_uuid t);
          udidHash = Sha256 (env_digest E) (tk_udid t);
          rs1 = snd (on_local (LocalMgr_SyncDeviceInfoFromDB E deviceId) (fw_rs f));
          rs2 = snd (on_meta (MetaMgr_SyncMetaInfoFromDB E udidHash) rs1)
      in f\<lparr>fw_rs := rs2\<rparr>)"

definition dh_infos :: "('a) capability_info_scheme list \<Rightarrow> (string \<times> dhtype) list" where
  "dh_infos cs = map (\<lambda>c. (ci_dhId c, ci_dhType c)) cs"

text \<open>
  The hardware of the device: from the capability manager, else from the local manager (which is handed
  the vector that is empty then), else from the meta manager.
\<close>

definition online_infos :: "('w, 'j) env \<Rightarrow> task \<Rightarrow> 'w resources \<Rightarrow> (string \<times> dhtype) list" where
  "online_infos E t rs =
     (let deviceId = GetDeviceIdByUUID (env_digest E) (tk_uuid t);
          capabilityInfos = CapMgr_GetCapabilitiesByDeviceId deviceId (im_map (rs_cap rs)) [];
          devDhInfos = dh_infos capabilityInfos;
          devDhInfos1 = (if devDhInfos = []
                         then devDhInfos @ dh_infos (LocalMgr_GetCapabilitiesByDeviceId deviceId (im_map (rs_local rs)) capabilityInfos)
                         else devDhInfos)
      in if devDhInfos1 = []
         then devDhInfos1 @ dh_infos (MetaMgr_GetMetaCapInfosByUdidHash (Sha256 (env_digest E) (tk_udid t)) (im_map (rs_meta rs)) [])
         else devDhInfos1)"

definition CreateEnableTask :: "('w, 'j) env \<Rightarrow> task \<Rightarrow> 'w resources \<Rightarrow> action list" where
  "CreateEnableTask E t rs =
     map (\<lambda>info. Spawn TaskType_ENABLE \<lparr> tp_networkId = tk_networkId t, tp_uuid = tk_uuid t, tp_udid = tk_udid t,
       tp_dhId = fst info, tp_dhType = snd info \<rparr>) (online_infos E t rs)"

definition CreateMetaEnableTask :: "task \<Rightarrow> action list" where
  "CreateMetaEnableTask t = [Spawn TaskType_META_ENABLE \<lparr> tp_networkId = tk_networkId t, tp_uuid = tk_uuid t,
     tp_udid = tk_udid t, tp_dhId = tk_dhId t, tp_dhType = tk_dhType t \<rparr>]"

definition online_step ::
  "('w, 'j) env \<Rightarrow> task \<Rightarrow> task_step \<Rightarrow> ('w, 'c) fwk \<Rightarrow> (action list \<times> ('w, 'c) fwk) option" where
  "online_step E t step f =
     (case step of
        SYNC_ONLINE_INFO \<Rightarrow> Some ([], DoSyncInfo E t f)
      | REGISTER_ONLINE_DISTRIBUTED_HARDWARE \<Rightarrow> Some (CreateEnableTask E t (fw_rs f), f)
      | META_ENABLE_TASK \<Rightarrow> Some (CreateMetaEnableTask t, f)
      | _ \<Rightarrow> Some ([], f))"

section \<open>Steps of the offline task\<close>

definition offline_infos :: "('w, 'j) env \<Rightarrow> task \<Rightarrow> 'w resources \<Rightarrow> (string \<times> dhtype) list" where
  "offline_infos E t rs =
     (let deviceId = GetDeviceIdByUUID (env_digest E) (tk_uuid t);
          devDhInfos = dh_infos (CapMgr_GetCapabilitiesByDeviceId deviceId (im_map (rs_cap rs)) [])
      in if devDhInfos = []
         then devDhInfos @ dh_infos (MetaMgr_GetMetaCapInfosByUdidHash
                (GetUdidHashIdByUUID (sys_cx (rs_sys rs)) (tk_uuid t)) (im_map (rs_meta rs)) [])
         else devDhInfos)"

definition CreateDisableTask :: "('w, 'j) env \<Rightarrow> task \<Rightarrow> 'w resources \<Rightarrow> action list" where
  "CreateDisableTask E t rs =
     map (\<lambda>info. Spawn TaskType_DISABLE \<lparr> tp_networkId = tk_networkId t, tp_uuid = tk_uuid t, tp_udid = [],
       tp_dhId = fst info, tp_dhType = snd info \<rparr>) (offline_infos E t rs)"

definition CreateMetaDisableTask :: "task \<Rightarrow> action list" where
  "CreateMetaDisableTask t = [Spawn TaskType_META_DISABLE \<lparr> tp_networkId = tk_networkId t, tp_uuid = tk_uuid t,
     tp_udid = [], tp_dhId = tk_dhId t, tp_dhType = tk_dhType t \<rparr>]"

text \<open>The wait on the condition variable, then the removal from the online set.\<close>

definition WaitDisableTaskFinish :: "task \<Rightarrow> ('w, 'c) fwk \<Rightarrow> ('w, 'c) fwk option" where
  "WaitDisableTaskFinish t f =
     (if tk_unFinishChildrenTasks t \<noteq> [] then None
      else Some (upd_cx (RemoveOnlineDeviceIdEntryByNetworkId (tk_networkId t)) f))"

definition ClearOffLineInfo :: "('w, 'j) env \<Rightarrow> task \<Rightarrow> ('w, 'c) fwk \<Rightarrow> ('w, 'c) fwk" where
  "ClearOffLineInfo E t f =
     f\<lparr>fw_rs := snd (on_cap (CapMgr_RemoveCapabilityInfoInMem (GetDeviceIdByUUID (env_digest E) (tk_uuid t))) (fw_rs f))\<rparr>"

definition offline_step ::
  "('w, 'j) env \<Rightarrow> task \<Rightarrow> task_step \<Rightarrow> ('w, 'c) fwk \<Rightarrow> (action list \<times> ('w, 'c) fwk) option" where
  "offline_step E t step f =
     (case step of
        UNREGISTER_OFFLINE_DISTRIBUTED_HARDWARE \<Rightarrow> Some (CreateDisableTask E t (fw_rs f), f)
      | WAIT_UNREGISTGER_COMPLETE \<Rightarrow> map_option (\<lambda>f1. ([], f1)) (WaitDisableTaskFinish t f)
      | CLEAR_OFFLINE_INFO \<Rightarrow> Some ([], ClearOffLineInfo E t f)
      | META_DISABLE_TASK \<Rightarrow> Some (CreateMetaDisableTask t, f)
      | _ \<Rightarrow> Some ([], f))"

text \<open>The end of \<open>OffLineTask::DoTaskInner\<close>; \<open>deviceList\<close> is what the device manager reports then.\<close>

definition offline_end ::
  "('w, 'j) env \<Rightarrow> 'c comp_api \<Rightarrow> string list \<Rightarrow> ('w, 'c) fwk \<Rightarrow> ('w, 'c) fwk" where
  "offline_end E P deviceList f =
     (if GetRealTimeOnlineDeviceCount (fw_cx f) = 0 \<and> GetIsomerismConnectCount (fw_cx f) = 0 \<and> IsAllTaskFinish (fw_ts f)
      then Factory_UnInit E P deviceList f else f)"

section \<open>Calls of the enable and disable tasks\<close>

definition MetaEnable :: "'c comp_api \<Rightarrow> task \<Rightarrow> 'c \<Rightarrow> ret \<times> 'c" where
  "MetaEnable P t c =
     (let c1 = cp_ModemHandler P c in
      if \<not> cp_ModemSource P c1 then (ERR_DH_FWK_POINTER_IS_NULL, c1)
      else let (ext, c2) = cp_ModemInstance P c1 in
        if \<not> ext then (ERR_DH_FWK_POINTER_IS_NULL, c2)
        else let (r, c3) = cp_ModemEnable P (tk_networkId t) c2 in
          if r \<noteq> DH_FWK_SUCCESS then (ERR_DH_FWK_PARA_INVALID, c3) else (DH_FWK_SUCCESS, c3))"

definition MetaDisable :: "'c comp_api \<Rightarrow> task \<Rightarrow> 'c \<Rightarrow> ret \<times> 'c" where
  "MetaDisable P t c =
     (if \<not> cp_ModemSource P c then (ERR_DH_FWK_POINTER_IS_NULL, c)
      else let (ext, c1) = cp_ModemInstance P c in
        if \<not> ext then (ERR_DH_FWK_POINTER_IS_NULL, c1)
        else let (r, c2) = cp_ModemDisable P (tk_networkId t) c1 in
          if r \<noteq> DH_FWK_SUCCESS then (ERR_DH_FWK_PARA_INVALID, c2) else (DH_FWK_SUCCESS, c2))"

definition end_state :: "ret \<Rightarrow> task_state" where
  "end_state result = (if result = DH_FWK_SUCCESS then TaskState_SUCCESS else TaskState_FAIL)"

definition task_key :: "('w, 'j) env \<Rightarrow> task \<Rightarrow> string" where
  "task_key E t = GetCapabilityKey (GetDeviceIdByUUID (env_digest E) (tk_uuid t)) (tk_dhId t)"

definition EnableTask_end :: "('w, 'j) env \<Rightarrow> nat \<Rightarrow> task \<Rightarrow> ret \<Rightarrow> task_sys \<Rightarrow> task_sys" where
  "EnableTask_end E r t result ts =
     (let ts1 = SetTaskState r (end_state result) ts in
      if result = DH_FWK_SUCCESS
      then SaveEnabledDevice (task_key E t) \<lparr> tp_networkId = tk_networkId t, tp_uuid = tk_uuid t, tp_udid = tk_udid t,
             tp_dhId = tk_dhId t, tp_dhType = tk_dhType t \<rparr> ts1
      else ts1)"

definition DisableTask_end :: "('w, 'j) env \<Rightarrow> nat \<Rightarrow> task \<Rightarrow> ret \<Rightarrow> task_sys \<Rightarrow> task_sys" where
  "DisableTask_end E r t result ts =
     (let ts1 = (if result = DH_FWK_SUCCESS then RemoveEnabledDevice (task_key E t) ts else ts)
      in SetTaskState r (end_state result) ts1)"

definition notify_father :: "task \<Rightarrow> task_sys \<Rightarrow> task_sys" where
  "notify_father t ts =
     (case tk_fatherTask t of None \<Rightarrow> ts | Some father \<Rightarrow> NotifyFatherFinish father (tk_id t) ts)"

section \<open>One action\<close>

definition exec_action ::
  "('w, 'j) env \<Rightarrow> 'c comp_api \<Rightarrow> rand \<Rightarrow> string list \<Rightarrow> nat \<Rightarrow> ret \<Rightarrow> action \<Rightarrow> ('w, 'c) fwk
     \<Rightarrow> (ret \<times> action list \<times> ('w, 'c) fwk) option" where
  "exec_action E P rand deviceList r result act f =
     (let t = ts_heap (fw_ts f) ! r;
          on_comp = (\<lambda>(ret, c). Some (ret, [], f\<lparr>fw_comp := c\<rparr>));
          on_ts = (\<lambda>g. Some (result, [], upd_ts g f))
      in case act of
        SetRunning \<Rightarrow> on_ts (SetTaskState r TaskState_RUNNING)
      | SetSuccess \<Rightarrow> on_ts (SetTaskState r TaskState_SUCCESS)
      | DoStep step \<Rightarrow>
          map_option (\<lambda>(acts, f1). (result, acts, f1))
            (if tk_taskType t = TaskType_ON_LINE then online_step E t step f else offline_step E t step f)
      | Spawn tt p \<Rightarrow> on_ts (create_and_push rand tt p (Some r))
      | CallEnable \<Rightarrow> on_comp (cp_Enable P (tk_networkId t) (tk_uuid t) (tk_dhId t) (tk_dhType t) (fw_comp f))
      | EndEnable \<Rightarrow> on_ts (EnableTask_end E r t result)
      | CallDisable \<Rightarrow> on_comp (cp_Disable P (tk_networkId t) (tk_uuid t) (tk_dhId t) (tk_dhType t) (fw_comp f))
      | EndDisable \<Rightarrow> on_ts (DisableTask_end E r t result)
      | CallMetaEnable \<Rightarrow> on_comp (MetaEnable P t (fw_comp f))
      | CallMetaDisable \<Rightarrow> on_comp (MetaDisable P t (fw_comp f))
      | EndMeta \<Rightarrow> on_ts (SetTaskState r (end_state result))
      | NotifyFather \<Rightarrow> on_ts (notify_father t)
      | RemoveSelf \<Rightarrow> on_ts (RemoveTask (tk_id t))
      | CheckUnInit \<Rightarrow> Some (result, [], offline_end E P deviceList f))"

definition run_job ::
  "('w, 'j) env \<Rightarrow> 'c comp_api \<Rightarrow> rand \<Rightarrow> string list \<Rightarrow> job \<Rightarrow> ('w, 'c) fwk \<Rightarrow> (job \<times> ('w, 'c) fwk) option" where
  "run_job E P rand deviceList j f =
     (case jb_pc j of
        [] \<Rightarrow> None
      | act # pc \<Rightarrow>
          map_option (\<lambda>(result, acts, f1). (j\<lparr>jb_ret := result, jb_pc := acts @ pc\<rparr>, f1))
            (exec_action E P rand deviceList (jb_task j) (jb_ret j) act f))"

end
