(* ===== verification/DHF_Reach.thy ===== *)
theory DHF_Reach
  imports Main
begin

text \<open>
  Reachable states of a system with several initial states and a step relation, and the interface
  \<open>guarded_system\<close>: an invariant that every step keeps as long as a guard holds after it, for a guard
  that no step can restore. The guard says what the environment grants (here: that the identifiers drawn
  so far differ); the invariant then holds in every reachable state that satisfies the guard.
\<close>

inductive reach :: "('s \<Rightarrow> bool) \<Rightarrow> ('s \<Rightarrow> 's \<Rightarrow> bool) \<Rightarrow> 's \<Rightarrow> bool" for init step where
  reach_init: "init s \<Longrightarrow> reach init step s"
| reach_step: "reach init step s \<Longrightarrow> step s t \<Longrightarrow> reach init step t"

lemma reach_mono:
  assumes "reach init step s" and "\<And>x. init x \<Longrightarrow> init' x" and "\<And>x y. step x y \<Longrightarrow> step' x y"
  shows "reach init' step' s"
  using assms(1)
proof (induction rule: reach.induct)
  case (reach_init s)
  then show ?case by (auto intro: reach.intros assms(2))
next
  case (reach_step s t)
  then show ?case by (auto intro: reach.intros assms(3))
qed

locale guarded_system =
  fixes init :: "'s \<Rightarrow> bool" and step :: "'s \<Rightarrow> 's \<Rightarrow> bool" and guard :: "'s \<Rightarrow> bool" and inv :: "'s \<Rightarrow> bool"
  assumes init_inv: "init s \<Longrightarrow> inv s"
    and guard_back: "step s t \<Longrightarrow> guard t \<Longrightarrow> guard s"
    and step_inv: "step s t \<Longrightarrow> guard t \<Longrightarrow> inv s \<Longrightarrow> inv t"
begin

lemma reach_inv: "reach init step s \<Longrightarrow> guard s \<Longrightarrow> inv s"
proof (induction rule: reach.induct)
  case (reach_init s)
  then show ?case by (simp add: init_inv)
next
  case (reach_step s t)
  with guard_back [OF reach_step.hyps(2) reach_step.prems] show ?case by (auto intro: step_inv)
qed

lemma reach_step_inv: "reach init step s \<Longrightarrow> step s t \<Longrightarrow> guard t \<Longrightarrow> inv s \<and> inv t"
  using reach_inv guard_back step_inv by blast

end

end
