(* ===== verification/DHF_Flow.thy ===== *)
theory DHF_Flow
  imports DHF_Jobs DHF_Reach
begin

text \<open>
  The framework at run time. The state adds to the framework's own state the bodies that run: those
  submitted to the thread pool (\<open>fl_jobs\<close>) and the one on the thread of the event handler
  (\<open>fl_handler\<close>), which runs an online task to its end before it takes the next posted task. A step is
  an event from outside (\<open>env_event\<close>) or one atomic move of one of the threads (\<open>internal_step\<close>): the
  executor's thread moves a task to the event handler, the event handler starts a task, a body executes
  one action. Any interleaving of the steps is possible.
\<close>

section \<open>State and steps\<close>

record ('w, 'c) flow =
  fl_fw :: "('w, 'c) fwk"
  fl_jobs :: "job list"
  fl_handler :: "job option"

datatype fwk_event =
    Ev_Ready string | Ev_Offline string | Ev_Trust string string bool | Ev_Trusted "string list"
  | Ev_SendThread nat | Ev_Power power_state | Ev_Isomerism "32 word" string
  | Ev_CapChange change_notification | Ev_CapCloud "string list" "string list" "string list"
  | Ev_MetaChange change_notification | Ev_MetaCloud "string list" "string list" "string list"
  | Ev_VerChange change_notification | Ev_Recover recover_event
  | Ev_Plug dhtype string string string | Ev_UnPlug string
  | Ev_LocalInit "string list" "string list"

definition cap_change ::
  "('w cap_state \<times> task_sys \<Rightarrow> 'w cap_state \<times> task_sys) \<Rightarrow> ('w, 'c) fwk \<Rightarrow> ('w, 'c) fwk" where
  "cap_change g f =
     (let ((m, s), ts) = g ((rs_cap (fw_rs f), rs_sys (fw_rs f)), fw_ts f)
      in f\<lparr>fw_rs := (fw_rs f)\<lparr>rs_cap := m, rs_sys := s\<rparr>, fw_ts := ts\<rparr>)"

definition meta_change ::
  "('w meta_state \<times> task_sys \<Rightarrow> 'w meta_state \<times> task_sys) \<Rightarrow> ('w, 'c) fwk \<Rightarrow> ('w, 'c) fwk" where
  "meta_change g f =
     (let ((m, s), ts) = g ((rs_meta (fw_rs f), rs_sys (fw_rs f)), fw_ts f)
      in f\<lparr>fw_rs := (fw_rs f)\<lparr>rs_meta := m, rs_sys := s\<rparr>, fw_ts := ts\<rparr>)"

text \<open>\<open>junk\<close> is the value of the uninitialised member of \<open>CompVersion\<close>.\<close>

definition recover_all ::
  "dhtype \<Rightarrow> ('w, 'j) env \<Rightarrow> recover_event \<Rightarrow> 'w resources \<Rightarrow> 'w resources" where
  "recover_all junk E ev rs =
     (let (m, s) = CapMgr_ProcessEvent E ev (rs_cap rs, rs_sys rs);
          (mm, s1) = MetaMgr_ProcessEvent E ev (rs_meta rs, s);
          (mv, s2) = VerInfoMgr_ProcessEvent junk E ev (rs_ver rs, s1)
      in rs\<lparr>rs_cap := m, rs_meta := mm, rs_ver := mv, rs_sys := s2\<rparr>)"

definition env_event ::
  "dhtype \<Rightarrow> ('w, 'j) env \<Rightarrow> 'c comp_api \<Rightarrow> rand \<Rightarrow> fwk_event \<Rightarrow> ('w, 'c) fwk \<Rightarrow> ('w, 'c) fwk" where
  "env_event junk E P rand ev f =
     (case ev of
        Ev_Ready n \<Rightarrow> OnDeviceReady E P rand n f
      | Ev_Offline n \<Rightarrow> OnDeviceOffline E P rand n f
      | Ev_Trust a b same \<Rightarrow> OnDeviceTrustChange E a b same f
      | Ev_Trusted devs \<Rightarrow> CheckTrustedDeviceOnline E P rand devs f
      | Ev_SendThread i \<Rightarrow>
          if i < length (fw_sendThreads f)
          then case fw_sendThreads f ! i of (n, uuid, udid) \<Rightarrow>
            snd (SendOnLineEvent E P rand n uuid udid
                  (f\<lparr>fw_sendThreads := take i (fw_sendThreads f) @ drop (Suc i) (fw_sendThreads f)\<rparr>))
          else f
      | Ev_Power st \<Rightarrow> upd_cx (OnPowerStateChanged st) f
      | Ev_Isomerism topic msg \<Rightarrow> upd_cx (Isomerism_OnMessage (env_cj E) topic msg) f
      | Ev_CapChange cn \<Rightarrow> cap_change (cap_step E rand (CapChange (fw_flagUnInit f) cn)) f
      | Ev_CapCloud i u d \<Rightarrow> cap_change (cap_step E rand (CapChangeCloud (fw_flagUnInit f) i u d)) f
      | Ev_MetaChange cn \<Rightarrow> meta_change (meta_step E rand (MetaChange cn)) f
      | Ev_MetaCloud i u d \<Rightarrow> meta_change (meta_step E rand (MetaChangeCloud i u d)) f
      | Ev_VerChange cn \<Rightarrow>
          f\<lparr>fw_rs := (fw_rs f)\<lparr>rs_ver := (rs_ver (fw_rs f))\<lparr>vm_versions :=
             VerInfoMgr_OnChange junk E (fw_cx f) cn (vm_versions (rs_ver (fw_rs f)))\<rparr>\<rparr>\<rparr>
      | Ev_Recover e \<Rightarrow> f\<lparr>fw_rs := recover_all junk E e (fw_rs f)\<rparr>
      | Ev_Plug t dhId attrs sub \<Rightarrow> f\<lparr>fw_rs := PluginHardware E t dhId attrs sub (fw_rs f)\<rparr>
      | Ev_UnPlug dhId \<Rightarrow> f\<lparr>fw_rs := UnPluginHardware E dhId (fw_rs f)\<rparr>
      | Ev_LocalInit devs devs2 \<Rightarrow> snd (InitLocalDevInfo E P devs devs2 f))"

text \<open>A body that has nothing left to do is dropped.\<close>

definition put_job :: "nat \<Rightarrow> job \<Rightarrow> job list \<Rightarrow> job list" where
  "put_job i j js = (if jb_pc j = [] then take i js @ drop (Suc i) js else js[i := j])"

text \<open>Which thread moves, and, for a body, what the device manager reports if it asks.\<close>

datatype move = Mv_Trigger | Mv_Handle | Mv_Handler "string list" | Mv_Job nat "string list"

definition internal_step ::
  "('w, 'j) env \<Rightarrow> 'c comp_api \<Rightarrow> rand \<Rightarrow> move \<Rightarrow> ('w, 'c) flow \<Rightarrow> ('w, 'c) flow option" where
  "internal_step E P rand mv fl =
     (let f = fl_fw fl in
      case mv of
        Mv_Trigger \<Rightarrow> map_option (\<lambda>ts. fl\<lparr>fl_fw := f\<lparr>fw_ts := ts\<rparr>\<rparr>) (TriggerTask (fw_ts f))
      | Mv_Handle \<Rightarrow>
          (case (ts_posted (fw_ts f), fl_handler fl) of
             (r # q, None) \<Rightarrow>
               (let f1 = upd_ts (\<lambda>ts. ts\<lparr>ts_posted := q\<rparr>) f; j = start_job r (fw_ts f) in
                if tk_taskType (ts_heap (fw_ts f) ! r) = TaskType_ON_LINE
                then Some (fl\<lparr>fl_fw := f1, fl_handler := Some j\<rparr>)
                else Some (fl\<lparr>fl_fw := f1, fl_jobs := fl_jobs fl @ [j]\<rparr>))
           | _ \<Rightarrow> None)
      | Mv_Handler devs \<Rightarrow>
          (case fl_handler fl of
             None \<Rightarrow> None
           | Some j \<Rightarrow> map_option (\<lambda>(j1, f1). fl\<lparr>fl_fw := f1, fl_handler := (if jb_pc j1 = [] then None else Some j1)\<rparr>)
                        (run_job E P rand devs j f))
      | Mv_Job i devs \<Rightarrow>
          if i < length (fl_jobs fl)
          then map_option (\<lambda>(j1, f1). fl\<lparr>fl_fw := f1, fl_jobs := put_job i j1 (fl_jobs fl)\<rparr>)
                 (run_job E P rand devs (fl_jobs fl ! i) f)
          else None)"

inductive flow_step ::
  "dhtype \<Rightarrow> ('w, 'j) env \<Rightarrow> 'c comp_api \<Rightarrow> rand \<Rightarrow> ('w, 'c) flow \<Rightarrow> ('w, 'c) flow \<Rightarrow> bool" for junk E P rand where
  step_env: "flow_step junk E P rand fl (fl\<lparr>fl_fw := env_event junk E P rand ev (fl_fw fl)\<rparr>)"
| step_internal: "internal_step E P rand mv fl = Some fl' \<Longrightarrow> flow_step junk E P rand fl fl'"

inductive_cases flow_stepE: "flow_step junk E P rand fl fl'"

text \<open>
  At the start no task exists and no body runs; the caches, the context, the flags and the components may
  be in any state.
\<close>

definition flow_init :: "('w, 'c) flow \<Rightarrow> bool" where
  "flow_init fl \<longleftrightarrow> fw_ts (fl_fw fl) = task_sys_new \<and> fl_jobs fl = [] \<and> fl_handler fl = None"

end
