(* ===== verification/DHF_Pipeline.thy ===== *)
theory DHF_Pipeline
  imports DHF_Jobs "HOL-Library.Sublist"
begin

text \<open>
  The invariant of the task pipeline: the executor's queue, the posted tasks and the running bodies, in
  relation to the task objects and the board. It is stated over the task system and the set of running
  bodies, and it is kept by every kind of change a step makes to them: a creation with a push, a move to
  the event handler, the start of a body, and each action of a body.

  Identifiers are drawn at random; the lemmas ask for the identifiers drawn so far to differ
  (\<open>ids_distinct\<close>).
\<close>

section \<open>Shapes of programs\<close>

definition steps_of :: "task_type \<Rightarrow> task_step list" where
  "steps_of tt =
     (case tt of
        TaskType_UNKNOWN \<Rightarrow> []
      | TaskType_ENABLE \<Rightarrow> [DO_ENABLE]
      | TaskType_DISABLE \<Rightarrow> [DO_DISABLE]
      | TaskType_ON_LINE \<Rightarrow> [SYNC_ONLINE_INFO, REGISTER_ONLINE_DISTRIBUTED_HARDWARE, META_ENABLE_TASK]
      | TaskType_OFF_LINE \<Rightarrow> [META_DISABLE_TASK, UNREGISTER_OFFLINE_DISTRIBUTED_HARDWARE, WAIT_UNREGISTGER_COMPLETE,
          CLEAR_OFFLINE_INFO]
      | TaskType_META_ENABLE \<Rightarrow> [DO_MODEM_META_ENABLE]
      | TaskType_META_DISABLE \<Rightarrow> [DO_MODEM_META_DISABLE])"

abbreviation (input) Wait :: action where "Wait \<equiv> DoStep WAIT_UNREGISTGER_COMPLETE"

text \<open>The program of each class, written out.\<close>

definition prog :: "task_type \<Rightarrow> action list" where
  "prog tt =
     (case tt of
        TaskType_UNKNOWN \<Rightarrow> []
      | TaskType_ENABLE \<Rightarrow> [SetRunning, CallEnable, EndEnable, RemoveSelf]
      | TaskType_DISABLE \<Rightarrow> [SetRunning, CallDisable, EndDisable, NotifyFather, RemoveSelf]
      | TaskType_ON_LINE \<Rightarrow> [SetRunning, DoStep SYNC_ONLINE_INFO, DoStep REGISTER_ONLINE_DISTRIBUTED_HARDWARE,
          DoStep META_ENABLE_TASK, SetSuccess, RemoveSelf]
      | TaskType_OFF_LINE \<Rightarrow> [SetRunning, DoStep META_DISABLE_TASK, DoStep UNREGISTER_OFFLINE_DISTRIBUTED_HARDWARE, Wait,
          DoStep CLEAR_OFFLINE_INFO, SetSuccess, RemoveSelf, CheckUnInit]
      | TaskType_META_ENABLE \<Rightarrow> [SetRunning, CallMetaEnable, EndMeta, RemoveSelf]
      | TaskType_META_DISABLE \<Rightarrow> [SetRunning, CallMetaDisable, EndMeta, NotifyFather, RemoveSelf])"

lemma program_prog: "tk_taskSteps t = steps_of (tk_taskType t) \<Longrightarrow> program t = prog (tk_taskType t)"
  by (simp add: program_def prog_def steps_of_def split: task_type.splits)

lemma make_task_steps: "make_task tt rid p = Some t \<Longrightarrow> tk_taskSteps t = steps_of tt"
  by (auto simp: make_task_def steps_of_def Task_new_def EnableTask_new_def DisableTask_new_def OnLineTask_new_def
      OffLineTask_new_def MetaEnableTask_new_def MetaDisableTask_new_def split: task_type.splits)

lemma created_steps: "tt \<noteq> TaskType_UNKNOWN \<Longrightarrow> tk_taskSteps (created tt rid p f) = steps_of tt"
  using make_task_None [of tt rid p] make_task_steps [of tt rid p] by (auto simp: created_def)

section \<open>The invariant\<close>

definition terminal :: "task_state \<Rightarrow> bool" where
  "terminal st \<longleftrightarrow> st = TaskState_SUCCESS \<or> st = TaskState_FAIL"

text \<open>Which children a task may create.\<close>

definition child_type :: "task_type \<Rightarrow> task_type \<Rightarrow> bool" where
  "child_type father child \<longleftrightarrow>
     (father = TaskType_ON_LINE \<and> (child = TaskType_ENABLE \<or> child = TaskType_META_ENABLE))
   \<or> (father = TaskType_OFF_LINE \<and> (child = TaskType_DISABLE \<or> child = TaskType_META_DISABLE))"

fun spawn_ok :: "task_type \<Rightarrow> action \<Rightarrow> bool" where
  "spawn_ok father (Spawn child p) = child_type father child"
| "spawn_ok father _ = False"

text \<open>
  What a body has left to do: pending creations, which are ahead of its removal from the board, then a
  suffix of its program. An offline task has creations only ahead of its wait, and a disable task that has nothing but its notification and removal
  left has a final state.
\<close>

definition job_ok :: "task \<Rightarrow> job \<Rightarrow> bool" where
  "job_ok t j \<longleftrightarrow> (\<exists>sp rest. jb_pc j = sp @ rest \<and> suffix rest (prog (tk_taskType t))
     \<and> list_all (spawn_ok (tk_taskType t)) sp \<and> (sp \<noteq> [] \<longrightarrow> RemoveSelf \<in> set rest)
     \<and> (tk_taskType t = TaskType_OFF_LINE \<and> sp \<noteq> [] \<longrightarrow> Wait \<in> set rest)
     \<and> (child_type TaskType_OFF_LINE (tk_taskType t) \<and> length rest \<le> 2 \<longrightarrow> terminal (tk_taskState t)))"

definition on_board :: "rand \<Rightarrow> task_sys \<Rightarrow> nat \<Rightarrow> bool" where
  "on_board rand ts r \<longleftrightarrow> smap_get (ts_tasks ts) (task_id rand r) = Some r"

definition ids_distinct :: "rand \<Rightarrow> task_sys \<Rightarrow> bool" where
  "ids_distinct rand ts \<longleftrightarrow> inj_on (task_id rand) {..<length (ts_heap ts)}"

abbreviation heap_at :: "task_sys \<Rightarrow> nat \<Rightarrow> task" where
  "heap_at ts r \<equiv> ts_heap ts ! r"

text \<open>Every task is in one place only.\<close>

definition places_ok :: "job set \<Rightarrow> task_sys \<Rightarrow> bool" where
  "places_ok J ts \<longleftrightarrow> distinct (ts_taskQueue ts @ ts_posted ts)
     \<and> (\<forall>j \<in> J. jb_task j < length (ts_heap ts) \<and> jb_task j \<notin> set (ts_taskQueue ts) \<union> set (ts_posted ts))"

definition jobs_ok :: "job set \<Rightarrow> task_sys \<Rightarrow> bool" where
  "jobs_ok J ts \<longleftrightarrow> (\<forall>j \<in> J. job_ok (heap_at ts (jb_task j)) j)"

text \<open>A task is on the board from its creation to its removal by its own body.\<close>

definition board_ok :: "rand \<Rightarrow> job set \<Rightarrow> task_sys \<Rightarrow> bool" where
  "board_ok rand J ts \<longleftrightarrow> (\<forall>r \<in> set (ts_taskQueue ts) \<union> set (ts_posted ts). on_board rand ts r)
     \<and> (\<forall>j \<in> J. RemoveSelf \<in> set (jb_pc j) \<longrightarrow> on_board rand ts (jb_task j))"

text \<open>
  A child of an offline task is in the set the father waits for, or it has a final state. An \<open>OffLineTask\<close>
  is the father of disable tasks only, which makes the cast of the father in their bodies safe.
\<close>

definition family_ok :: "rand \<Rightarrow> task_sys \<Rightarrow> bool" where
  "family_ok rand ts \<longleftrightarrow> (\<forall>r < length (ts_heap ts).
     tk_taskType (heap_at ts r) \<noteq> TaskType_UNKNOWN \<and> tk_taskSteps (heap_at ts r) = steps_of (tk_taskType (heap_at ts r))
     \<and> (\<forall>f. tk_fatherTask (heap_at ts r) = Some f \<longrightarrow>
          child_type (tk_taskType (heap_at ts f)) (tk_taskType (heap_at ts r))
        \<and> (tk_taskType (heap_at ts f) = TaskType_OFF_LINE \<longrightarrow>
             task_id rand r \<in> set (tk_unFinishChildrenTasks (heap_at ts f)) \<or> terminal (tk_taskState (heap_at ts r)))))"

text \<open>
  An identifier in the waiting set of a task is that of a child that is on the board and has not yet
  notified its father, and the father's body has its wait still ahead.
\<close>

definition waits_ok :: "rand \<Rightarrow> job set \<Rightarrow> task_sys \<Rightarrow> bool" where
  "waits_ok rand J ts \<longleftrightarrow> (\<forall>f < length (ts_heap ts). \<forall>i \<in> set (tk_unFinishChildrenTasks (heap_at ts f)).
     (\<exists>r < length (ts_heap ts). i = task_id rand r \<and> tk_fatherTask (heap_at ts r) = Some f \<and> on_board rand ts r
        \<and> (\<forall>j \<in> J. jb_task j = r \<longrightarrow> NotifyFather \<in> set (jb_pc j)))
   \<and> (\<exists>j \<in> J. jb_task j = f \<and> Wait \<in> set (jb_pc j)))"

text \<open>A child that has not notified its father is in the set the father waits for.\<close>

definition pending :: "job set \<Rightarrow> task_sys \<Rightarrow> nat \<Rightarrow> bool" where
  "pending J ts r \<longleftrightarrow> r \<in> set (ts_taskQueue ts) \<union> set (ts_posted ts)
     \<or> (\<exists>j \<in> J. jb_task j = r \<and> NotifyFather \<in> set (jb_pc j))"

definition pending_ok :: "rand \<Rightarrow> job set \<Rightarrow> task_sys \<Rightarrow> bool" where
  "pending_ok rand J ts \<longleftrightarrow> (\<forall>r f. pending J ts r \<and> tk_fatherTask (heap_at ts r) = Some f
     \<and> tk_taskType (heap_at ts f) = TaskType_OFF_LINE \<longrightarrow> task_id rand r \<in> set (tk_unFinishChildrenTasks (heap_at ts f)))"

definition pipe_inv :: "rand \<Rightarrow> job set \<Rightarrow> task_sys \<Rightarrow> bool" where
  "pipe_inv rand J ts \<longleftrightarrow> task_sys_ok rand ts \<and> places_ok J ts \<and> jobs_ok J ts \<and> board_ok rand J ts
     \<and> family_ok rand ts \<and> waits_ok rand J ts \<and> pending_ok rand J ts"

lemma pipe_inv_new: "pipe_inv rand {} task_sys_new"
  unfolding pipe_inv_def places_ok_def jobs_ok_def board_ok_def family_ok_def waits_ok_def pending_ok_def pending_def
  by (simp add: task_sys_ok_new) (simp add: task_sys_new_def)

section \<open>Creation and push\<close>

lemma same_child:
  "tk_id (OffLineTask_AddChildrenTask i t) = tk_id t" "tk_taskType (OffLineTask_AddChildrenTask i t) = tk_taskType t"
  "tk_taskSteps (OffLineTask_AddChildrenTask i t) = tk_taskSteps t" "tk_taskState (OffLineTask_AddChildrenTask i t) = tk_taskState t"
  "tk_fatherTask (OffLineTask_AddChildrenTask i t) = tk_fatherTask t"
  "tk_id (Task_AddChildrenTask c t) = tk_id t" "tk_taskType (Task_AddChildrenTask c t) = tk_taskType t"
  "tk_taskSteps (Task_AddChildrenTask c t) = tk_taskSteps t" "tk_taskState (Task_AddChildrenTask c t) = tk_taskState t"
  "tk_fatherTask (Task_AddChildrenTask c t) = tk_fatherTask t"
  "tk_unFinishChildrenTasks (Task_AddChildrenTask c t) = tk_unFinishChildrenTasks t"
  "tk_unFinishChildrenTasks (OffLineTask_AddChildrenTask i t) = sset_insert i (tk_unFinishChildrenTasks t)"
  by (simp_all add: OffLineTask_AddChildrenTask_def Task_AddChildrenTask_def)

lemma PushTask_fields [simp]:
  "ts_heap (PushTask t ts) = ts_heap ts" "ts_tasks (PushTask t ts) = ts_tasks ts" "ts_posted (PushTask t ts) = ts_posted ts"
  "ts_enabledDevices (PushTask t ts) = ts_enabledDevices ts"
  by (simp_all add: PushTask_def split: option.splits)

lemma create_and_push_Push:
  "tt \<noteq> TaskType_UNKNOWN \<Longrightarrow>
   create_and_push rand tt p father ts = PushTask (Some (length (ts_heap ts))) (snd (CreateTask rand tt p father ts))"
  by (simp add: create_and_push_def CreateTask_unfold)

lemma CreateTask_queue [simp]:
  "ts_taskQueue (snd (CreateTask rand tt p father ts)) = ts_taskQueue ts"
  "ts_posted (snd (CreateTask rand tt p father ts)) = ts_posted ts"
  "ts_enabledDevices (snd (CreateTask rand tt p father ts)) = ts_enabledDevices ts"
  by (cases "tt = TaskType_UNKNOWN"; simp add: CreateTask_unknown CreateTask_unfold split: option.splits)+

lemma create_heap:
  fixes rand :: rand and ts :: task_sys and tt :: task_type and p :: task_param and father :: "nat option"
  assumes tt: "tt \<noteq> TaskType_UNKNOWN" and f: "\<forall>f. father = Some f \<longrightarrow> f < length (ts_heap ts)"
  defines "n \<equiv> length (ts_heap ts)" and "ts' \<equiv> create_and_push rand tt p father ts"
  shows "length (ts_heap ts') = Suc n" and "heap_at ts' n = created tt (random_id rand n) p father"
    and "i < n \<Longrightarrow> tk_id (heap_at ts' i) = tk_id (heap_at ts i) \<and> tk_taskType (heap_at ts' i) = tk_taskType (heap_at ts i)
        \<and> tk_taskSteps (heap_at ts' i) = tk_taskSteps (heap_at ts i) \<and> tk_taskState (heap_at ts' i) = tk_taskState (heap_at ts i)
        \<and> tk_fatherTask (heap_at ts' i) = tk_fatherTask (heap_at ts i)"
    and "i < n \<Longrightarrow> tk_unFinishChildrenTasks (heap_at ts' i) =
        (if father = Some i \<and> tk_taskType (heap_at ts i) = TaskType_OFF_LINE
         then sset_insert (task_id rand n) (tk_unFinishChildrenTasks (heap_at ts i)) else tk_unFinishChildrenTasks (heap_at ts i))"
proof -
  have h: "ts_heap ts' = ts_heap (snd (CreateTask rand tt p father ts))"
    by (simp add: ts'_def create_and_push_Push [OF tt])
  show "length (ts_heap ts') = Suc n" unfolding h n_def by (rule CreateTask_length(2) [OF tt])
  show "heap_at ts' n = created tt (random_id rand n) p father"
    unfolding h n_def using f CreateTask_father(2) [OF tt]
    by (cases father) (auto simp: CreateTask_unfold [OF tt])
  have none: "father = None \<Longrightarrow> i < n \<Longrightarrow> heap_at ts' i = heap_at ts i"
    unfolding h n_def by (simp add: CreateTask_unfold [OF tt] nth_append)
  have some: "heap_at ts' i = (if i = g then (if tk_taskType (heap_at ts g) = TaskType_OFF_LINE
        then OffLineTask_AddChildrenTask (task_id rand n) (heap_at ts g) else Task_AddChildrenTask n (heap_at ts g))
      else heap_at ts i)" if "father = Some g" "i < n" for g
    using that CreateTask_father(1,4) [where rand = rand and p = p, OF tt f [rule_format, OF that(1)]]
    unfolding h n_def by (simp add: that(1))
  show "i < n \<Longrightarrow> tk_id (heap_at ts' i) = tk_id (heap_at ts i) \<and> tk_taskType (heap_at ts' i) = tk_taskType (heap_at ts i)
      \<and> tk_taskSteps (heap_at ts' i) = tk_taskSteps (heap_at ts i) \<and> tk_taskState (heap_at ts' i) = tk_taskState (heap_at ts i)
      \<and> tk_fatherTask (heap_at ts' i) = tk_fatherTask (heap_at ts i)"
    by (cases father) (simp_all add: none some same_child)
  show "i < n \<Longrightarrow> tk_unFinishChildrenTasks (heap_at ts' i) =
      (if father = Some i \<and> tk_taskType (heap_at ts i) = TaskType_OFF_LINE
       then sset_insert (task_id rand n) (tk_unFinishChildrenTasks (heap_at ts i)) else tk_unFinishChildrenTasks (heap_at ts i))"
    by (cases father) (simp_all add: none some same_child)
qed

lemma create_board:
  fixes rand :: rand and ts :: task_sys and tt :: task_type and p :: task_param and father :: "nat option"
  assumes ok: "task_sys_ok rand ts" and tt: "tt \<noteq> TaskType_UNKNOWN"
    and ids: "ids_distinct rand (create_and_push rand tt p father ts)"
  defines "n \<equiv> length (ts_heap ts)" and "ts' \<equiv> create_and_push rand tt p father ts"
  shows "smap_get (ts_tasks ts') = (smap_get (ts_tasks ts))(task_id rand n \<mapsto> n)"
    and "r < n \<Longrightarrow> task_id rand r \<noteq> task_id rand n"
    and "r < n \<Longrightarrow> on_board rand ts' r = on_board rand ts r" and "on_board rand ts' n"
    and "set (ts_taskQueue ts') \<subseteq> insert n (set (ts_taskQueue ts))" and "ts_posted ts' = ts_posted ts"
    and "distinct (ts_taskQueue ts) \<Longrightarrow> n \<notin> set (ts_taskQueue ts) \<Longrightarrow> distinct (ts_taskQueue ts')"
proof -
  have len: "length (ts_heap ts') = Suc n"
    by (simp add: ts'_def n_def create_and_push_Push [OF tt] CreateTask_length(2) [OF tt])
  have ne: "task_id rand r \<noteq> task_id rand n" if "r < n" for r
    using ids that inj_onD [of "task_id rand" "{..<Suc n}" r n] by (auto simp: ids_distinct_def len ts'_def [symmetric])
  then have fr: "fresh_id rand (length (ts_heap ts))" by (simp add: fresh_id_def n_def)
  show g: "smap_get (ts_tasks ts') = (smap_get (ts_tasks ts))(task_id rand n \<mapsto> n)"
    by (simp add: ts'_def n_def create_and_push_Push [OF tt] CreateTask_board [OF ok tt fr])
  show "r < n \<Longrightarrow> task_id rand r \<noteq> task_id rand n" by (rule ne)
  show "r < n \<Longrightarrow> on_board rand ts' r = on_board rand ts r" using ne by (simp add: on_board_def g)
  show "on_board rand ts' n" by (simp add: on_board_def g)
  have q: "ts_taskQueue ts' = (if length (ts_taskQueue ts) > 256 then ts_taskQueue ts else ts_taskQueue ts @ [n])"
    by (simp add: ts'_def n_def create_and_push_Push [OF tt] PushTask_def)
  show "set (ts_taskQueue ts') \<subseteq> insert n (set (ts_taskQueue ts))" by (auto simp: q)
  show "distinct (ts_taskQueue ts) \<Longrightarrow> n \<notin> set (ts_taskQueue ts) \<Longrightarrow> distinct (ts_taskQueue ts')" by (simp add: q)
  show "ts_posted ts' = ts_posted ts" by (simp add: ts'_def create_and_push_Push [OF tt])
qed

lemma job_ok_cong:
  "tk_taskType t = tk_taskType t' \<Longrightarrow> tk_taskState t = tk_taskState t' \<Longrightarrow> job_ok t j = job_ok t' j"
  by (simp add: job_ok_def)

lemma task_sys_okD:
  assumes "task_sys_ok rand ts"
  shows "r \<in> set (ts_taskQueue ts) \<Longrightarrow> r < length (ts_heap ts)" and "r \<in> set (ts_posted ts) \<Longrightarrow> r < length (ts_heap ts)"
    and "r < length (ts_heap ts) \<Longrightarrow> tk_id (heap_at ts r) = task_id rand r"
    and "r < length (ts_heap ts) \<Longrightarrow> tk_fatherTask (heap_at ts r) = Some f \<Longrightarrow> f < r"
    and "r < length (ts_heap ts) \<Longrightarrow> tk_fatherTask (heap_at ts r) = Some f \<Longrightarrow> f < length (ts_heap ts)"
  using assms by (auto simp: task_sys_ok_def heap_ok_def)

lemma pipe_invD:
  assumes "pipe_inv rand J ts"
  shows "task_sys_ok rand ts" and "places_ok J ts" and "jobs_ok J ts" and "board_ok rand J ts"
    and "family_ok rand ts" and "waits_ok rand J ts" and "pending_ok rand J ts"
  using assms by (simp_all add: pipe_inv_def)

lemma pipe_create:
  fixes rand :: rand and ts :: task_sys and tt :: task_type and p :: task_param and father :: "nat option" and J :: "job set"
  assumes inv: "pipe_inv rand J ts" and tt: "tt \<noteq> TaskType_UNKNOWN"
    and ids: "ids_distinct rand (create_and_push rand tt p father ts)"
    and father: "\<And>f. father = Some f \<Longrightarrow> f < length (ts_heap ts) \<and> child_type (tk_taskType (heap_at ts f)) tt
       \<and> (tk_taskType (heap_at ts f) = TaskType_OFF_LINE \<longrightarrow> (\<exists>j \<in> J. jb_task j = f \<and> Wait \<in> set (jb_pc j)))"
  shows "pipe_inv rand J (create_and_push rand tt p father ts)"
proof -
  let ?n = "length (ts_heap ts)"
  define ts' where ts': "ts' = create_and_push rand tt p father ts"
  note ok = pipe_invD(1) [OF inv] and P = pipe_invD(2) [OF inv, unfolded places_ok_def]
  have fl: "\<forall>f. father = Some f \<longrightarrow> f < ?n" using father by blast
  note H = create_heap [where rand = rand and p = p, OF tt fl, folded ts'] and B = create_board [OF ok tt ids, folded ts']
  have qn: "r < ?n" if "r \<in> set (ts_taskQueue ts) \<union> set (ts_posted ts)" for r
    using that task_sys_okD(1,2) [OF ok] by blast
  have same: "tk_taskType (heap_at ts' i) = tk_taskType (heap_at ts i)" "tk_taskState (heap_at ts' i) = tk_taskState (heap_at ts i)"
    "tk_taskSteps (heap_at ts' i) = tk_taskSteps (heap_at ts i)" "tk_fatherTask (heap_at ts' i) = tk_fatherTask (heap_at ts i)"
    if "i < ?n" for i using H(3) [OF that] by auto
  have new: "tk_taskType (heap_at ts' ?n) = tt" "tk_fatherTask (heap_at ts' ?n) = father"
    "tk_unFinishChildrenTasks (heap_at ts' ?n) = []" "tk_taskSteps (heap_at ts' ?n) = steps_of tt"
    using H(2) tt by (simp_all add: created_steps)
  have len: "length (ts_heap ts') = Suc ?n" using H(1) by simp
  have unf: "tk_unFinishChildrenTasks (heap_at ts' i) =
      (if father = Some i \<and> tk_taskType (heap_at ts i) = TaskType_OFF_LINE
       then sset_insert (task_id rand ?n) (tk_unFinishChildrenTasks (heap_at ts i)) else tk_unFinishChildrenTasks (heap_at ts i))"
    if "i < ?n" for i using H(4) [OF that] by simp
  have "task_sys_ok rand ts'" unfolding ts' using ok fl by (intro create_and_push_ok) auto
  moreover have "places_ok J ts'"
  proof -
    have nq: "?n \<notin> set (ts_taskQueue ts)" "?n \<notin> set (ts_posted ts)" using qn by blast+
    have d: "distinct (ts_taskQueue ts)" "distinct (ts_posted ts)" "set (ts_taskQueue ts) \<inter> set (ts_posted ts) = {}"
      using P by auto
    have "distinct (ts_taskQueue ts' @ ts_posted ts')"
      using B(5) B(7) [OF d(1) nq(1)] d(2,3) nq(2) unfolding B(6) distinct_append by blast
    moreover have "jb_task j < Suc ?n \<and> jb_task j \<notin> set (ts_taskQueue ts') \<union> set (ts_posted ts')" if "j \<in> J" for j
    proof -
      have "jb_task j < ?n" "jb_task j \<notin> set (ts_taskQueue ts) \<union> set (ts_posted ts)" using P that by blast+
      then show ?thesis using B(5) unfolding B(6) by auto
    qed
    ultimately show ?thesis by (simp add: places_ok_def len)
  qed
  moreover have "jobs_ok J ts'"
    using pipe_invD(3) [OF inv] P same(1,2) job_ok_cong unfolding jobs_ok_def by blast
  moreover have "board_ok rand J ts'"
    unfolding board_ok_def
  proof (intro conjI ballI impI)
    fix r assume "r \<in> set (ts_taskQueue ts') \<union> set (ts_posted ts')"
    then have "r = ?n \<or> r \<in> set (ts_taskQueue ts) \<union> set (ts_posted ts)" using B(5,6) by auto
    then show "on_board rand ts' r"
      using B(3,4) qn pipe_invD(4) [OF inv] unfolding board_ok_def by blast
  next
    fix j assume "j \<in> J" "RemoveSelf \<in> set (jb_pc j)"
    then show "on_board rand ts' (jb_task j)" using B(3) P pipe_invD(4) [OF inv] unfolding board_ok_def by blast
  qed
  moreover have "family_ok rand ts'"
    unfolding family_ok_def len
  proof (intro allI impI)
    fix r assume "r < Suc ?n"
    then consider "r < ?n" | "r = ?n" by linarith
    then show "tk_taskType (heap_at ts' r) \<noteq> TaskType_UNKNOWN \<and> tk_taskSteps (heap_at ts' r) = steps_of (tk_taskType (heap_at ts' r))
      \<and> (\<forall>f. tk_fatherTask (heap_at ts' r) = Some f \<longrightarrow> child_type (tk_taskType (heap_at ts' f)) (tk_taskType (heap_at ts' r))
        \<and> (tk_taskType (heap_at ts' f) = TaskType_OFF_LINE \<longrightarrow>
             task_id rand r \<in> set (tk_unFinishChildrenTasks (heap_at ts' f)) \<or> terminal (tk_taskState (heap_at ts' r))))"
    proof cases
      case 1
      with pipe_invD(5) [OF inv] task_sys_okD(5) [OF ok 1] show ?thesis
        unfolding family_ok_def by (auto simp: same unf)
    next
      case 2
      with father tt show ?thesis by (auto simp: new same unf)
    qed
  qed
  moreover have "waits_ok rand J ts'"
    unfolding waits_ok_def len
  proof (intro allI ballI impI)
    fix f i assume f: "f < Suc ?n" and i: "i \<in> set (tk_unFinishChildrenTasks (heap_at ts' f))"
    from i new(3) f have fn: "f < ?n" by (cases "f = ?n") auto
    have old: "(\<exists>r < ?n. i = task_id rand r \<and> tk_fatherTask (heap_at ts r) = Some f \<and> on_board rand ts r
        \<and> (\<forall>j \<in> J. jb_task j = r \<longrightarrow> NotifyFather \<in> set (jb_pc j))) \<and> (\<exists>j \<in> J. jb_task j = f \<and> Wait \<in> set (jb_pc j))"
      if "i \<in> set (tk_unFinishChildrenTasks (heap_at ts f))"
      using pipe_invD(6) [OF inv] fn that unfolding waits_ok_def by blast
    show "(\<exists>r < Suc ?n. i = task_id rand r \<and> tk_fatherTask (heap_at ts' r) = Some f \<and> on_board rand ts' r
        \<and> (\<forall>j \<in> J. jb_task j = r \<longrightarrow> NotifyFather \<in> set (jb_pc j))) \<and> (\<exists>j \<in> J. jb_task j = f \<and> Wait \<in> set (jb_pc j))"
    proof (cases "i \<in> set (tk_unFinishChildrenTasks (heap_at ts f))")
      case True
      from old [OF True] show ?thesis using same(4) B(3) by (metis less_SucI)
    next
      case False
      with i unf [OF fn] have i': "i = task_id rand ?n" "father = Some f" "tk_taskType (heap_at ts f) = TaskType_OFF_LINE"
        by (auto split: if_splits)
      have "\<forall>j \<in> J. jb_task j \<noteq> ?n" using P by fastforce
      with i' new(2) B(4) father show ?thesis by blast
    qed
  qed
  moreover have "pending_ok rand J ts'"
    unfolding pending_ok_def
  proof (intro allI impI, elim conjE)
    fix r f assume pend: "pending J ts' r" and fa: "tk_fatherTask (heap_at ts' r) = Some f"
      and off: "tk_taskType (heap_at ts' f) = TaskType_OFF_LINE"
    from pend B(5,6) have "r = ?n \<or> pending J ts r" by (auto simp: pending_def)
    then show "task_id rand r \<in> set (tk_unFinishChildrenTasks (heap_at ts' f))"
    proof
      assume "r = ?n"
      with fa new(2) have "father = Some f" by simp
      with father off same(1) unf \<open>r = ?n\<close> show ?thesis by auto
    next
      assume old: "pending J ts r"
      then have r: "r < ?n" using qn P by (auto simp: pending_def)
      with fa same(4) have fa': "tk_fatherTask (heap_at ts r) = Some f" by simp
      then have f: "f < ?n" using task_sys_okD(5) [OF ok r] by blast
      with old fa' off pipe_invD(7) [OF inv] have "task_id rand r \<in> set (tk_unFinishChildrenTasks (heap_at ts f))"
        by (auto simp: pending_ok_def same(1))
      then show ?thesis by (simp add: unf [OF f])
    qed
  qed
  ultimately show ?thesis unfolding ts' [symmetric] by (simp add: pipe_inv_def)
qed

section \<open>What a body has left\<close>

lemma job_ok_mem:
  assumes "job_ok t j" and "a \<in> set (jb_pc j)"
  shows "(\<exists>k p. a = Spawn k p \<and> child_type (tk_taskType t) k) \<or> a \<in> set (prog (tk_taskType t))"
proof -
  from assms(1) obtain sp rest where pc: "jb_pc j = sp @ rest" and rest: "suffix rest (prog (tk_taskType t))"
    and sp: "list_all (spawn_ok (tk_taskType t)) sp" by (auto simp: job_ok_def)
  from assms(2) pc consider "a \<in> set sp" | "a \<in> set rest" by auto
  then show ?thesis
  proof cases
    case 1
    with sp have "spawn_ok (tk_taskType t) a" by (simp add: list_all_iff)
    then show ?thesis by (cases a) auto
  next
    case 2
    with set_mono_suffix [OF rest] show ?thesis by blast
  qed
qed

lemma prog_mem:
  "Wait \<in> set (prog tt) \<longleftrightarrow> tt = TaskType_OFF_LINE"
  "NotifyFather \<in> set (prog tt) \<longleftrightarrow> child_type TaskType_OFF_LINE tt"
  "RemoveSelf \<in> set (prog tt) \<longleftrightarrow> tt \<noteq> TaskType_UNKNOWN"
  "CheckUnInit \<in> set (prog tt) \<longleftrightarrow> tt = TaskType_OFF_LINE"
  "Spawn k p \<notin> set (prog tt)"
  by (cases tt; simp add: prog_def child_type_def)+

lemma job_wait_type: "job_ok t j \<Longrightarrow> Wait \<in> set (jb_pc j) \<Longrightarrow> tk_taskType t = TaskType_OFF_LINE"
  using job_ok_mem [of t j Wait] by (auto simp: prog_mem)

section \<open>Moves to the event handler and starts\<close>

lemma pipe_same_view:
  assumes inv: "pipe_inv rand J ts" and ok: "task_sys_ok rand ts'" and heap: "ts_heap ts' = ts_heap ts"
    and board: "ts_tasks ts' = ts_tasks ts" and places: "places_ok J ts'"
    and sub: "set (ts_taskQueue ts') \<union> set (ts_posted ts') \<subseteq> set (ts_taskQueue ts) \<union> set (ts_posted ts)"
  shows "pipe_inv rand J ts'"
proof -
  have ob: "on_board rand ts' = on_board rand ts" by (simp add: on_board_def board fun_eq_iff)
  have pend: "pending J ts r" if "pending J ts' r" for r
    using that sub unfolding pending_def by blast
  have "pending_ok rand J ts'"
    using pipe_invD(7) [OF inv] pend unfolding pending_ok_def heap by blast
  moreover have "board_ok rand J ts'"
    using pipe_invD(4) [OF inv] sub unfolding board_ok_def ob by blast
  ultimately show ?thesis
    using inv ok places by (simp add: pipe_inv_def jobs_ok_def family_ok_def waits_ok_def heap ob)
qed

lemma pipe_trigger:
  assumes inv: "pipe_inv rand J ts" and step: "TriggerTask ts = Some ts'"
  shows "pipe_inv rand J ts'"
proof -
  from step obtain r q where q: "ts_taskQueue ts = r # q" and ts': "ts' = ts\<lparr>ts_taskQueue := q, ts_posted := ts_posted ts @ [r]\<rparr>"
    by (auto simp: TriggerTask_def PopTask_def split: list.splits)
  have "task_sys_ok rand ts'" using pipe_invD(1) [OF inv] step by (rule task_sys_ok_trigger)
  moreover have "places_ok J ts'" using pipe_invD(2) [OF inv] by (auto simp: places_ok_def ts' q)
  ultimately show ?thesis using inv by (rule_tac pipe_same_view) (auto simp: ts' q)
qed

lemma job_ok_start:
  assumes "tk_taskSteps (heap_at ts r) = steps_of (tk_taskType (heap_at ts r))" and "tk_taskType (heap_at ts r) \<noteq> TaskType_UNKNOWN"
  shows "job_ok (heap_at ts r) (start_job r ts)"
  unfolding job_ok_def start_job_def program_prog [OF assms(1)]
  by (rule exI [of _ "[]"], rule exI [of _ "prog (tk_taskType (heap_at ts r))"])
    (auto simp: prog_def child_type_def)

lemma start_pc:
  assumes "tk_taskSteps (heap_at ts r) = steps_of (tk_taskType (heap_at ts r))"
  shows "jb_pc (start_job r ts) = prog (tk_taskType (heap_at ts r))" "jb_task (start_job r ts) = r"
  by (simp_all add: start_job_def program_prog [OF assms])

lemma pipe_start:
  assumes inv: "pipe_inv rand J ts" and p: "ts_posted ts = r # q"
  shows "pipe_inv rand (insert (start_job r ts) J) (ts\<lparr>ts_posted := q\<rparr>)"
proof -
  let ?ts' = "ts\<lparr>ts_posted := q\<rparr>" and ?j = "start_job r ts"
  note ok = pipe_invD(1) [OF inv] and P = pipe_invD(2) [OF inv, unfolded places_ok_def]
  have r: "r < length (ts_heap ts)" using task_sys_okD(2) [OF ok] p by simp
  have fam: "tk_taskType (heap_at ts r) \<noteq> TaskType_UNKNOWN" "tk_taskSteps (heap_at ts r) = steps_of (tk_taskType (heap_at ts r))"
    using pipe_invD(5) [OF inv] r by (auto simp: family_ok_def)
  have rb: "on_board rand ts r" using pipe_invD(4) [OF inv] p by (auto simp: board_ok_def)
  have ob: "on_board rand ?ts' = on_board rand ts" by (simp add: on_board_def fun_eq_iff)
  have "task_sys_ok rand ?ts'" using ok p by (auto simp: task_sys_ok_def)
  moreover have "places_ok (insert ?j J) ?ts'"
    unfolding places_ok_def using P r by (auto simp: p start_pc [OF fam(2)])
  moreover have "jobs_ok (insert ?j J) ?ts'"
    using pipe_invD(3) [OF inv] job_ok_start [OF fam(2,1)] by (simp add: jobs_ok_def start_job_def)
  moreover have "board_ok rand (insert ?j J) ?ts'"
    using pipe_invD(4) [OF inv] rb by (auto simp: board_ok_def ob p start_pc [OF fam(2)])
  moreover have "family_ok rand ?ts'" using pipe_invD(5) [OF inv] by (simp add: family_ok_def)
  moreover have "waits_ok rand (insert ?j J) ?ts'"
    unfolding waits_ok_def
  proof (intro allI ballI impI)
    fix f i assume f: "f < length (ts_heap ?ts')" and i: "i \<in> set (tk_unFinishChildrenTasks (heap_at ?ts' f))"
    then have W: "(\<exists>c < length (ts_heap ts). i = task_id rand c \<and> tk_fatherTask (heap_at ts c) = Some f \<and> on_board rand ts c
        \<and> (\<forall>j \<in> J. jb_task j = c \<longrightarrow> NotifyFather \<in> set (jb_pc j))) \<and> (\<exists>j \<in> J. jb_task j = f \<and> Wait \<in> set (jb_pc j))"
      using pipe_invD(6) [OF inv] by (auto simp: waits_ok_def)
    then obtain c j where c: "c < length (ts_heap ts)" "i = task_id rand c" "tk_fatherTask (heap_at ts c) = Some f" "on_board rand ts c"
        "\<forall>j \<in> J. jb_task j = c \<longrightarrow> NotifyFather \<in> set (jb_pc j)" and j: "j \<in> J" "jb_task j = f" "Wait \<in> set (jb_pc j)"
      by blast
    have "job_ok (heap_at ts f) j" using pipe_invD(3) [OF inv] j by (auto simp: jobs_ok_def)
    from job_wait_type [OF this j(3)] have "child_type TaskType_OFF_LINE (tk_taskType (heap_at ts c))"
      using pipe_invD(5) [OF inv] c by (auto simp: family_ok_def)
    then have "r = c \<Longrightarrow> NotifyFather \<in> set (jb_pc ?j)" using start_pc(1) [OF fam(2)] by (auto simp: prog_mem)
    with c j show "(\<exists>c < length (ts_heap ?ts'). i = task_id rand c \<and> tk_fatherTask (heap_at ?ts' c) = Some f \<and> on_board rand ?ts' c
        \<and> (\<forall>j \<in> insert ?j J. jb_task j = c \<longrightarrow> NotifyFather \<in> set (jb_pc j)))
      \<and> (\<exists>j \<in> insert ?j J. jb_task j = f \<and> Wait \<in> set (jb_pc j))"
      by (auto simp: ob start_pc [OF fam(2)])
  qed
  moreover have "pending_ok rand (insert ?j J) ?ts'"
    using pipe_invD(7) [OF inv] by (auto simp: pending_ok_def pending_def p start_pc [OF fam(2)])
  ultimately show ?thesis by (simp add: pipe_inv_def)
qed

section \<open>One action of a body\<close>

text \<open>A body that is about to do something else than a creation is at a point of its program.\<close>

lemma job_ok_at:
  assumes "job_ok t j" and "jb_pc j = a # pc" and "\<forall>k p. a \<noteq> Spawn k p"
  shows "suffix (a # pc) (prog (tk_taskType t))"
    and "child_type TaskType_OFF_LINE (tk_taskType t) \<and> length pc \<le> 1 \<longrightarrow> terminal (tk_taskState t)"
proof -
  from assms(1,2) obtain sp rest where pc: "a # pc = sp @ rest" and rest: "suffix rest (prog (tk_taskType t))"
    and sp: "list_all (spawn_ok (tk_taskType t)) sp"
    and tm: "child_type TaskType_OFF_LINE (tk_taskType t) \<and> length rest \<le> 2 \<longrightarrow> terminal (tk_taskState t)"
    by (auto simp: job_ok_def)
  have "sp = []" using pc sp assms(3) by (cases sp; cases a) auto
  with pc rest tm show "suffix (a # pc) (prog (tk_taskType t))"
    and "child_type TaskType_OFF_LINE (tk_taskType t) \<and> length pc \<le> 1 \<longrightarrow> terminal (tk_taskState t)"
    by auto
qed

lemma suffix_append_ConsD: "suffix (a # pc) xs \<Longrightarrow> \<exists>ys. xs = ys @ a # pc"
  by (auto simp: suffix_def)

text \<open>Where the program of a class stands after an action that occurs in it.\<close>

lemma prog_at:
  "suffix (NotifyFather # pc) (prog tt) \<longleftrightarrow> child_type TaskType_OFF_LINE tt \<and> pc = [RemoveSelf]"
  "suffix (RemoveSelf # pc) (prog tt) \<longleftrightarrow> tt \<noteq> TaskType_UNKNOWN \<and> pc = (if tt = TaskType_OFF_LINE then [CheckUnInit] else [])"
  "suffix (Wait # pc) (prog tt) \<longleftrightarrow> tt = TaskType_OFF_LINE \<and> pc = [DoStep CLEAR_OFFLINE_INFO, SetSuccess, RemoveSelf, CheckUnInit]"
  "suffix (CheckUnInit # pc) (prog tt) \<longleftrightarrow> tt = TaskType_OFF_LINE \<and> pc = []"
  by (cases tt; auto simp: prog_def child_type_def suffix_Cons)+

lemma job_ok_pop:
  assumes "suffix (a # pc) (prog (tk_taskType t))" and "list_all (spawn_ok (tk_taskType t)) acts"
    and "acts \<noteq> [] \<longrightarrow> RemoveSelf \<in> set pc" and "tk_taskType t = TaskType_OFF_LINE \<and> acts \<noteq> [] \<longrightarrow> Wait \<in> set pc"
    and "child_type TaskType_OFF_LINE (tk_taskType t) \<and> length pc \<le> 2 \<longrightarrow> terminal (tk_taskState t)"
    and "jb_pc j = acts @ pc"
  shows "job_ok t j"
  unfolding job_ok_def
  by (rule exI [of _ acts], rule exI [of _ pc]) (use assms in \<open>auto dest: suffix_ConsD2 simp: suffix_def\<close>)

lemma job_ok_spawn:
  assumes "job_ok t j" and "jb_pc j = Spawn k p # pc"
  shows "child_type (tk_taskType t) k" and "tk_taskType t = TaskType_OFF_LINE \<longrightarrow> Wait \<in> set (jb_pc j)"
    and "jb_pc j' = pc \<Longrightarrow> job_ok t j'"
proof -
  from assms obtain sp rest where pc: "Spawn k p # pc = sp @ rest" and rest: "suffix rest (prog (tk_taskType t))"
    and sp: "list_all (spawn_ok (tk_taskType t)) sp" "sp \<noteq> [] \<longrightarrow> RemoveSelf \<in> set rest"
      "tk_taskType t = TaskType_OFF_LINE \<and> sp \<noteq> [] \<longrightarrow> Wait \<in> set rest"
    and tm: "child_type TaskType_OFF_LINE (tk_taskType t) \<and> length rest \<le> 2 \<longrightarrow> terminal (tk_taskState t)"
    by (auto simp: job_ok_def)
  have "sp \<noteq> []"
  proof
    assume "sp = []"
    with pc rest have "Spawn k p \<in> set (prog (tk_taskType t))" using set_mono_suffix [OF rest] by auto
    then show False by (simp add: prog_mem)
  qed
  with pc obtain sp' where sp': "sp = Spawn k p # sp'" "pc = sp' @ rest" by (cases sp) auto
  with sp show "child_type (tk_taskType t) k" "tk_taskType t = TaskType_OFF_LINE \<longrightarrow> Wait \<in> set (jb_pc j)"
    by (auto simp: assms(2))
  show "job_ok t j'" if "jb_pc j' = pc"
    unfolding job_ok_def using rest sp sp' tm that by (intro exI [of _ sp'] exI [of _ rest]) auto
qed

text \<open>The body \<open>j\<close> becomes \<open>j'\<close>; it is the only body of its task.\<close>

definition swap_job :: "job \<Rightarrow> job \<Rightarrow> job set \<Rightarrow> job set" where
  "swap_job j j' J = insert j' (J - {j})"

definition only_body :: "job \<Rightarrow> job \<Rightarrow> job set \<Rightarrow> bool" where
  "only_body j j' J \<longleftrightarrow> j \<in> J \<and> jb_task j' = jb_task j \<and> (\<forall>k \<in> J. jb_task k = jb_task j \<longrightarrow> k = j)"

lemma swap_job_iff:
  assumes "only_body j j' J"
  shows "k \<in> swap_job j j' J \<longleftrightarrow> k = j' \<or> k \<in> J \<and> jb_task k \<noteq> jb_task j"
  using assms by (auto simp: swap_job_def only_body_def)

lemma swap_places:
  assumes "places_ok J ts" and "only_body j j' J" and "length (ts_heap ts') = length (ts_heap ts)"
    and "ts_taskQueue ts' = ts_taskQueue ts" and "ts_posted ts' = ts_posted ts"
  shows "places_ok (swap_job j j' J) ts'"
  using assms by (auto simp: places_ok_def swap_job_iff only_body_def)

text \<open>
  A body changes at most the state of its own task; it keeps its notification and its removal ahead, and
  passes its wait only when nothing is left to wait for.
\<close>

definition own_change :: "nat \<Rightarrow> task_sys \<Rightarrow> task_sys \<Rightarrow> bool" where
  "own_change r ts ts' \<longleftrightarrow> length (ts_heap ts') = length (ts_heap ts) \<and> ts_tasks ts' = ts_tasks ts
     \<and> ts_taskQueue ts' = ts_taskQueue ts \<and> ts_posted ts' = ts_posted ts
     \<and> (\<forall>i < length (ts_heap ts). (\<exists>st. heap_at ts' i = (heap_at ts i)\<lparr>tk_taskState := st\<rparr>)
          \<and> (i \<noteq> r \<longrightarrow> heap_at ts' i = heap_at ts i))"

lemma own_changeD:
  assumes "own_change r ts ts'"
  shows "length (ts_heap ts') = length (ts_heap ts)" "ts_tasks ts' = ts_tasks ts" "ts_taskQueue ts' = ts_taskQueue ts"
    "ts_posted ts' = ts_posted ts"
    and "i < length (ts_heap ts) \<Longrightarrow> i \<noteq> r \<Longrightarrow> heap_at ts' i = heap_at ts i"
    and "i < length (ts_heap ts) \<Longrightarrow> tk_taskType (heap_at ts' i) = tk_taskType (heap_at ts i)
       \<and> tk_taskSteps (heap_at ts' i) = tk_taskSteps (heap_at ts i) \<and> tk_fatherTask (heap_at ts' i) = tk_fatherTask (heap_at ts i)
       \<and> tk_unFinishChildrenTasks (heap_at ts' i) = tk_unFinishChildrenTasks (heap_at ts i)"
  using assms unfolding own_change_def by (simp_all, metis task.ext_inject task.surjective task.update_convs(11))

lemma waits_swap:
  assumes W: "waits_ok rand J ts" and only: "only_body j j' J"
    and len: "length (ts_heap ts') = length (ts_heap ts)"
    and same: "\<forall>i < length (ts_heap ts). tk_fatherTask (heap_at ts' i) = tk_fatherTask (heap_at ts i)
       \<and> set (tk_unFinishChildrenTasks (heap_at ts' i)) \<subseteq> set (tk_unFinishChildrenTasks (heap_at ts i))"
    and board: "\<forall>f < length (ts_heap ts). \<forall>i < length (ts_heap ts). task_id rand i \<in> set (tk_unFinishChildrenTasks (heap_at ts' f)) \<longrightarrow>
        tk_fatherTask (heap_at ts i) = Some f \<longrightarrow> on_board rand ts i \<longrightarrow> on_board rand ts' i
        \<and> (i = jb_task j \<longrightarrow> NotifyFather \<in> set (jb_pc j) \<longrightarrow> NotifyFather \<in> set (jb_pc j'))"
    and wait: "Wait \<in> set (jb_pc j) \<longrightarrow> Wait \<in> set (jb_pc j') \<or> tk_unFinishChildrenTasks (heap_at ts' (jb_task j)) = []"
  shows "waits_ok rand (swap_job j j' J) ts'"
  unfolding waits_ok_def len
proof (intro allI ballI impI)
  fix f i assume f: "f < length (ts_heap ts)" and i: "i \<in> set (tk_unFinishChildrenTasks (heap_at ts' f))"
  then have "i \<in> set (tk_unFinishChildrenTasks (heap_at ts f))" using same by blast
  with W f obtain r k where r: "r < length (ts_heap ts)" "i = task_id rand r" "tk_fatherTask (heap_at ts r) = Some f"
      "on_board rand ts r" "\<forall>k \<in> J. jb_task k = r \<longrightarrow> NotifyFather \<in> set (jb_pc k)"
    and k: "k \<in> J" "jb_task k = f" "Wait \<in> set (jb_pc k)"
    unfolding waits_ok_def by blast
  have "\<exists>k \<in> swap_job j j' J. jb_task k = f \<and> Wait \<in> set (jb_pc k)"
  proof (cases "jb_task j = f")
    case True
    with k only have "k = j" by (auto simp: only_body_def)
    with True i k wait only have "Wait \<in> set (jb_pc j')" by auto
    with True only show ?thesis by (auto simp: swap_job_def only_body_def)
  next
    case False
    with k show ?thesis by (auto simp: swap_job_iff [OF only])
  qed
  moreover have "on_board rand ts' r" using board f r i by blast
  moreover have "NotifyFather \<in> set (jb_pc k')" if "k' \<in> swap_job j j' J" "jb_task k' = r" for k'
    using that r i board f only by (auto simp: swap_job_iff [OF only] only_body_def)
  moreover have "tk_fatherTask (heap_at ts' r) = Some f" using same r by auto
  ultimately show "(\<exists>r < length (ts_heap ts). i = task_id rand r \<and> tk_fatherTask (heap_at ts' r) = Some f \<and> on_board rand ts' r
      \<and> (\<forall>k \<in> swap_job j j' J. jb_task k = r \<longrightarrow> NotifyFather \<in> set (jb_pc k)))
    \<and> (\<exists>k \<in> swap_job j j' J. jb_task k = f \<and> Wait \<in> set (jb_pc k))"
    using r by blast
qed

lemma jobs_swap:
  assumes "jobs_ok J ts" and "places_ok J ts" and "only_body j j' J" and "job_ok (heap_at ts' (jb_task j)) j'"
    and "\<forall>i < length (ts_heap ts). i \<noteq> jb_task j \<longrightarrow> tk_taskType (heap_at ts' i) = tk_taskType (heap_at ts i)
       \<and> tk_taskState (heap_at ts' i) = tk_taskState (heap_at ts i)"
  shows "jobs_ok (swap_job j j' J) ts'"
  unfolding jobs_ok_def
proof
  fix k assume "k \<in> swap_job j j' J"
  then consider "k = j'" | "k \<in> J" "jb_task k \<noteq> jb_task j" by (auto simp: swap_job_iff [OF assms(3)])
  then show "job_ok (heap_at ts' (jb_task k)) k"
  proof cases
    case 1
    with assms(3,4) show ?thesis by (simp add: only_body_def)
  next
    case 2
    with assms(2) have "jb_task k < length (ts_heap ts)" by (simp add: places_ok_def)
    with 2 assms(1,5) show ?thesis by (metis job_ok_cong jobs_ok_def)
  qed
qed

lemma pipe_local:
  assumes inv: "pipe_inv rand J ts" and only: "only_body j j' J" and own: "own_change (jb_task j) ts ts'"
    and ok: "task_sys_ok rand ts'" and job: "job_ok (heap_at ts' (jb_task j)) j'"
    and state: "tk_taskState (heap_at ts' (jb_task j)) = tk_taskState (heap_at ts (jb_task j))
       \<or> terminal (tk_taskState (heap_at ts' (jb_task j))) \<or> NotifyFather \<in> set (jb_pc j)
       \<or> \<not> child_type TaskType_OFF_LINE (tk_taskType (heap_at ts (jb_task j)))"
    and rem: "RemoveSelf \<in> set (jb_pc j') \<longrightarrow> RemoveSelf \<in> set (jb_pc j)"
    and notify: "NotifyFather \<in> set (jb_pc j') \<longleftrightarrow> NotifyFather \<in> set (jb_pc j)"
    and wait: "Wait \<in> set (jb_pc j) \<longrightarrow> Wait \<in> set (jb_pc j') \<or> tk_unFinishChildrenTasks (heap_at ts (jb_task j)) = []"
  shows "pipe_inv rand (swap_job j j' J) ts'"
proof -
  let ?r = "jb_task j" and ?J = "swap_job j j' J"
  note D = own_changeD(1-4) [OF own] and own6 = own_changeD(6) [OF own] and sok = pipe_invD(1) [OF inv]
  have r: "?r < length (ts_heap ts)" using pipe_invD(2) [OF inv] only by (auto simp: places_ok_def only_body_def)
  have ob: "on_board rand ts' = on_board rand ts" by (simp add: on_board_def fun_eq_iff D)
  have "places_ok ?J ts'" using pipe_invD(2) [OF inv] only D by (intro swap_places)
  moreover have "jobs_ok ?J ts'"
    using pipe_invD(3,2) [OF inv] only job by (rule jobs_swap) (simp add: own_changeD(5) [OF own])
  moreover have "board_ok rand ?J ts'"
    using pipe_invD(4) [OF inv] rem only by (auto simp: board_ok_def D ob swap_job_iff [OF only] only_body_def)
  moreover have "family_ok rand ts'"
    unfolding family_ok_def D(1)
  proof (intro allI impI)
    fix i assume i: "i < length (ts_heap ts)"
    have F: "tk_taskType (heap_at ts i) \<noteq> TaskType_UNKNOWN" "tk_taskSteps (heap_at ts i) = steps_of (tk_taskType (heap_at ts i))"
      using pipe_invD(5) [OF inv] i by (auto simp: family_ok_def)
    have "child_type (tk_taskType (heap_at ts' f)) (tk_taskType (heap_at ts' i))
        \<and> (tk_taskType (heap_at ts' f) = TaskType_OFF_LINE \<longrightarrow>
             task_id rand i \<in> set (tk_unFinishChildrenTasks (heap_at ts' f)) \<or> terminal (tk_taskState (heap_at ts' i)))"
      if fa: "tk_fatherTask (heap_at ts' i) = Some f" for f
    proof -
      have fa': "tk_fatherTask (heap_at ts i) = Some f" using fa own6 [OF i] by simp
      then have f: "f < length (ts_heap ts)" using task_sys_okD(5) [OF sok i] by blast
      have old: "child_type (tk_taskType (heap_at ts f)) (tk_taskType (heap_at ts i))"
        "tk_taskType (heap_at ts f) = TaskType_OFF_LINE \<Longrightarrow>
           task_id rand i \<in> set (tk_unFinishChildrenTasks (heap_at ts f)) \<or> terminal (tk_taskState (heap_at ts i))"
        using pipe_invD(5) [OF inv] i fa' by (auto simp: family_ok_def)
      have "task_id rand i \<in> set (tk_unFinishChildrenTasks (heap_at ts f)) \<or> terminal (tk_taskState (heap_at ts' i))"
        if off: "tk_taskType (heap_at ts f) = TaskType_OFF_LINE"
      proof (cases "i = ?r \<and> NotifyFather \<in> set (jb_pc j)")
        case True
        then have "pending J ts i" using only by (auto simp: pending_def only_body_def)
        with pipe_invD(7) [OF inv] fa' off show ?thesis unfolding pending_ok_def by blast
      next
        case False
        then show ?thesis using state old off own_changeD(5) [OF own i] by (cases "i = ?r") auto
      qed
      with old own6 [OF i] own6 [OF f] show ?thesis by simp
    qed
    with F own6 [OF i] show "tk_taskType (heap_at ts' i) \<noteq> TaskType_UNKNOWN
      \<and> tk_taskSteps (heap_at ts' i) = steps_of (tk_taskType (heap_at ts' i))
      \<and> (\<forall>f. tk_fatherTask (heap_at ts' i) = Some f \<longrightarrow> child_type (tk_taskType (heap_at ts' f)) (tk_taskType (heap_at ts' i))
        \<and> (tk_taskType (heap_at ts' f) = TaskType_OFF_LINE \<longrightarrow>
             task_id rand i \<in> set (tk_unFinishChildrenTasks (heap_at ts' f)) \<or> terminal (tk_taskState (heap_at ts' i))))"
      by simp
  qed
  moreover have "waits_ok rand ?J ts'"
    using pipe_invD(6) [OF inv] only D(1)
    by (rule waits_swap) (use own6 notify wait r in \<open>simp_all add: ob\<close>)
  moreover have "pending_ok rand ?J ts'"
    unfolding pending_ok_def
  proof (intro allI impI, elim conjE)
    fix i f assume pend: "pending ?J ts' i" and fa: "tk_fatherTask (heap_at ts' i) = Some f"
      and off: "tk_taskType (heap_at ts' f) = TaskType_OFF_LINE"
    from pend notify only have pend': "pending J ts i"
      by (auto simp: pending_def D swap_job_iff [OF only] only_body_def)
    then have i: "i < length (ts_heap ts)"
      using task_sys_okD(1,2) [OF sok] pipe_invD(2) [OF inv] by (auto simp: pending_def places_ok_def)
    with fa own6 have fa': "tk_fatherTask (heap_at ts i) = Some f" by simp
    then have f: "f < length (ts_heap ts)" using task_sys_okD(5) [OF sok i] by blast
    with pend' fa' off own6 [OF f] pipe_invD(7) [OF inv]
    show "task_id rand i \<in> set (tk_unFinishChildrenTasks (heap_at ts' f))" by (auto simp: pending_ok_def)
  qed
  ultimately show ?thesis using ok by (simp add: pipe_inv_def)
qed

section \<open>The notification of the father\<close>

text \<open>The waiting sets after the task \<open>r\<close> has notified its father.\<close>

definition unwaits :: "rand \<Rightarrow> nat \<Rightarrow> task_sys \<Rightarrow> task_sys \<Rightarrow> bool" where
  "unwaits rand r ts ts' \<longleftrightarrow> length (ts_heap ts') = length (ts_heap ts) \<and> ts_tasks ts' = ts_tasks ts
     \<and> ts_taskQueue ts' = ts_taskQueue ts \<and> ts_posted ts' = ts_posted ts
     \<and> (\<forall>i < length (ts_heap ts). tk_taskType (heap_at ts' i) = tk_taskType (heap_at ts i)
          \<and> tk_taskState (heap_at ts' i) = tk_taskState (heap_at ts i)
          \<and> tk_taskSteps (heap_at ts' i) = tk_taskSteps (heap_at ts i) \<and> tk_fatherTask (heap_at ts' i) = tk_fatherTask (heap_at ts i)
          \<and> set (tk_unFinishChildrenTasks (heap_at ts' i)) =
              (if tk_fatherTask (heap_at ts r) = Some i then set (tk_unFinishChildrenTasks (heap_at ts i)) - {task_id rand r}
               else set (tk_unFinishChildrenTasks (heap_at ts i))))"

lemma unwaitsD:
  assumes "unwaits rand r ts ts'"
  shows "length (ts_heap ts') = length (ts_heap ts)" "ts_tasks ts' = ts_tasks ts" "ts_taskQueue ts' = ts_taskQueue ts"
    "ts_posted ts' = ts_posted ts"
    and "i < length (ts_heap ts) \<Longrightarrow> tk_taskType (heap_at ts' i) = tk_taskType (heap_at ts i)
       \<and> tk_taskState (heap_at ts' i) = tk_taskState (heap_at ts i)
       \<and> tk_taskSteps (heap_at ts' i) = tk_taskSteps (heap_at ts i) \<and> tk_fatherTask (heap_at ts' i) = tk_fatherTask (heap_at ts i)"
    and "i < length (ts_heap ts) \<Longrightarrow> set (tk_unFinishChildrenTasks (heap_at ts' i)) =
       (if tk_fatherTask (heap_at ts r) = Some i then set (tk_unFinishChildrenTasks (heap_at ts i)) - {task_id rand r}
        else set (tk_unFinishChildrenTasks (heap_at ts i)))"
  using assms unfolding unwaits_def by simp_all

lemma notify_unwaits:
  assumes ok: "task_sys_ok rand ts" and r: "r < length (ts_heap ts)"
  shows "unwaits rand r ts (notify_father (heap_at ts r) ts)" and "task_sys_ok rand (notify_father (heap_at ts r) ts)"
proof -
  have srt: "i < length (ts_heap ts) \<Longrightarrow> sset_sorted (tk_unFinishChildrenTasks (heap_at ts i))" for i
    using ok by (simp add: task_sys_ok_def heap_ok_def)
  show "unwaits rand r ts (notify_father (heap_at ts r) ts)"
    using srt by (simp add: unwaits_def notify_father_def NotifyFatherFinish_def upd_task_nth task_sys_okD(3) [OF ok r]
        split: option.splits)
  show "task_sys_ok rand (notify_father (heap_at ts r) ts)"
    using ok by (simp add: notify_father_def task_sys_ok_objects split: option.splits)
qed

lemma pipe_notify:
  assumes inv: "pipe_inv rand J ts" and only: "only_body j j' J" and un: "unwaits rand (jb_task j) ts ts'"
    and ok: "task_sys_ok rand ts'" and ids: "ids_distinct rand ts"
    and job: "job_ok (heap_at ts' (jb_task j)) j'" and fin: "terminal (tk_taskState (heap_at ts (jb_task j)))"
    and rem: "RemoveSelf \<in> set (jb_pc j') \<longrightarrow> RemoveSelf \<in> set (jb_pc j)"
    and notify: "NotifyFather \<notin> set (jb_pc j')" and wait: "Wait \<notin> set (jb_pc j)"
  shows "pipe_inv rand (swap_job j j' J) ts'"
proof -
  let ?r = "jb_task j" and ?J = "swap_job j j' J"
  note D = unwaitsD(1-4) [OF un] and same = unwaitsD(5) [OF un] and unf = unwaitsD(6) [OF un] and sok = pipe_invD(1) [OF inv]
  have r: "?r < length (ts_heap ts)" using pipe_invD(2) [OF inv] only by (auto simp: places_ok_def only_body_def)
  have ob: "on_board rand ts' = on_board rand ts" by (simp add: on_board_def fun_eq_iff D)
  have keep: "task_id rand i \<in> set (tk_unFinishChildrenTasks (heap_at ts' f))"
    if "i < length (ts_heap ts)" "i \<noteq> ?r" "f < length (ts_heap ts)" "task_id rand i \<in> set (tk_unFinishChildrenTasks (heap_at ts f))" for i f
    using that unf [of f] ids r by (auto simp: ids_distinct_def dest: inj_onD)
  have "places_ok ?J ts'" using pipe_invD(2) [OF inv] only D by (intro swap_places)
  moreover have "jobs_ok ?J ts'" using pipe_invD(3,2) [OF inv] only job by (rule jobs_swap) (simp add: same)
  moreover have "board_ok rand ?J ts'"
    using pipe_invD(4) [OF inv] rem only by (auto simp: board_ok_def D ob swap_job_iff [OF only] only_body_def)
  moreover have "family_ok rand ts'"
    unfolding family_ok_def D(1)
  proof (intro allI impI)
    fix i assume i: "i < length (ts_heap ts)"
    show "tk_taskType (heap_at ts' i) \<noteq> TaskType_UNKNOWN \<and> tk_taskSteps (heap_at ts' i) = steps_of (tk_taskType (heap_at ts' i))
      \<and> (\<forall>f. tk_fatherTask (heap_at ts' i) = Some f \<longrightarrow> child_type (tk_taskType (heap_at ts' f)) (tk_taskType (heap_at ts' i))
        \<and> (tk_taskType (heap_at ts' f) = TaskType_OFF_LINE \<longrightarrow>
             task_id rand i \<in> set (tk_unFinishChildrenTasks (heap_at ts' f)) \<or> terminal (tk_taskState (heap_at ts' i))))"
      using pipe_invD(5) [OF inv] i fin same [OF i] same task_sys_okD(5) [OF sok i] keep [OF i]
      unfolding family_ok_def by (cases "i = ?r") auto
  qed
  moreover have "waits_ok rand ?J ts'"
    using pipe_invD(6) [OF inv] only D(1)
    by (rule waits_swap) (use same unf wait r in \<open>auto simp: ob split: if_splits\<close>)
  moreover have "pending_ok rand ?J ts'"
    unfolding pending_ok_def
  proof (intro allI impI, elim conjE)
    fix i f assume pend: "pending ?J ts' i" and fa: "tk_fatherTask (heap_at ts' i) = Some f"
      and off: "tk_taskType (heap_at ts' f) = TaskType_OFF_LINE"
    from pend notify pipe_invD(2) [OF inv] only have pend': "pending J ts i" "i \<noteq> ?r"
      by (auto simp: pending_def D swap_job_iff [OF only] only_body_def places_ok_def)
    then have i: "i < length (ts_heap ts)"
      using task_sys_okD(1,2) [OF sok] pipe_invD(2) [OF inv] by (auto simp: pending_def places_ok_def)
    with fa same have fa': "tk_fatherTask (heap_at ts i) = Some f" by simp
    then have f: "f < length (ts_heap ts)" using task_sys_okD(5) [OF sok i] by blast
    with pend'(1) fa' off same [OF f] pipe_invD(7) [OF inv]
    have "task_id rand i \<in> set (tk_unFinishChildrenTasks (heap_at ts f))" by (auto simp: pending_ok_def)
    with keep i pend'(2) f show "task_id rand i \<in> set (tk_unFinishChildrenTasks (heap_at ts' f))" by blast
  qed
  ultimately show ?thesis using ok by (simp add: pipe_inv_def)
qed

section \<open>The removal from the board, and the end of a body\<close>

lemma pipe_remove:
  assumes inv: "pipe_inv rand J ts" and only: "only_body j j' J" and ids: "ids_distinct rand ts"
    and job: "job_ok (heap_at ts (jb_task j)) j'"
    and rem: "RemoveSelf \<notin> set (jb_pc j')" and notify: "NotifyFather \<notin> set (jb_pc j)" "NotifyFather \<notin> set (jb_pc j')"
    and wait: "Wait \<notin> set (jb_pc j)"
  shows "pipe_inv rand (swap_job j j' J) (RemoveTask (task_id rand (jb_task j)) ts)"
proof -
  let ?r = "jb_task j" and ?J = "swap_job j j' J"
  define ts' where ts': "ts' = RemoveTask (task_id rand ?r) ts"
  have D: "ts_heap ts' = ts_heap ts" "ts_taskQueue ts' = ts_taskQueue ts" "ts_posted ts' = ts_posted ts"
    by (simp_all add: ts' RemoveTask_def RemoveTaskInner_def)
  note sok = pipe_invD(1) [OF inv] and P = pipe_invD(2) [OF inv]
  have r: "?r < length (ts_heap ts)" using P only by (auto simp: places_ok_def only_body_def)
  have ob: "on_board rand ts' i" if "on_board rand ts i" "i \<noteq> ?r" "i < length (ts_heap ts)" for i
  proof -
    have "task_id rand i \<noteq> task_id rand ?r" using that(2,3) ids r by (auto simp: ids_distinct_def dest: inj_onD)
    moreover have "smap_sorted (ts_tasks ts)" using sok by (simp add: task_sys_ok_def)
    ultimately show ?thesis using that(1) by (simp add: on_board_def ts' RemoveTask_def RemoveTaskInner_def)
  qed
  have ok: "task_sys_ok rand ts'" unfolding ts' using sok by (rule task_sys_ok_board)
  moreover have "places_ok ?J ts'" using P only by (rule swap_places) (simp_all add: D)
  moreover have "jobs_ok ?J ts'" using pipe_invD(3) [OF inv] P only by (rule jobs_swap) (simp_all add: D job)
  moreover have "board_ok rand ?J ts'"
    unfolding board_ok_def
  proof (intro conjI ballI impI)
    fix i assume "i \<in> set (ts_taskQueue ts') \<union> set (ts_posted ts')"
    then have i: "i \<in> set (ts_taskQueue ts) \<union> set (ts_posted ts)" by (simp add: D)
    then have "i \<noteq> ?r" using P only by (auto simp: places_ok_def only_body_def)
    with i show "on_board rand ts' i"
      using ob task_sys_okD(1,2) [OF sok] pipe_invD(4) [OF inv] unfolding board_ok_def by blast
  next
    fix k assume "k \<in> ?J" "RemoveSelf \<in> set (jb_pc k)"
    with rem have "k \<in> J" "jb_task k \<noteq> ?r" by (auto simp: swap_job_iff [OF only])
    with \<open>RemoveSelf \<in> set (jb_pc k)\<close> show "on_board rand ts' (jb_task k)"
      using ob P pipe_invD(4) [OF inv] unfolding board_ok_def places_ok_def by blast
  qed
  moreover have "family_ok rand ts'" using pipe_invD(5) [OF inv] by (simp add: family_ok_def D)
  moreover have "waits_ok rand ?J ts'"
    using pipe_invD(6) [OF inv] only
  proof (rule waits_swap)
    have "i \<noteq> ?r" if "f < length (ts_heap ts)" "i < length (ts_heap ts)"
        "task_id rand i \<in> set (tk_unFinishChildrenTasks (heap_at ts f))" for f i
    proof
      assume "i = ?r"
      with that pipe_invD(6) [OF inv] obtain c where c: "c < length (ts_heap ts)" "task_id rand ?r = task_id rand c"
        "\<forall>k \<in> J. jb_task k = c \<longrightarrow> NotifyFather \<in> set (jb_pc k)" unfolding waits_ok_def by blast
      then have "c = ?r" using ids r by (auto simp: ids_distinct_def dest: inj_onD)
      with c(3) only notify(1) show False by (auto simp: only_body_def)
    qed
    then show "\<forall>f<length (ts_heap ts). \<forall>i<length (ts_heap ts). task_id rand i \<in> set (tk_unFinishChildrenTasks (heap_at ts' f)) \<longrightarrow>
        tk_fatherTask (heap_at ts i) = Some f \<longrightarrow> on_board rand ts i \<longrightarrow> on_board rand ts' i
        \<and> (i = ?r \<longrightarrow> NotifyFather \<in> set (jb_pc j) \<longrightarrow> NotifyFather \<in> set (jb_pc j'))"
      using ob by (auto simp: D)
  qed (use wait in \<open>simp_all add: D\<close>)
  moreover have "pending J ts i" if "pending ?J ts' i" for i
    using that notify by (auto simp: pending_def D swap_job_iff [OF only])
  then have "pending_ok rand ?J ts'" using pipe_invD(7) [OF inv] unfolding pending_ok_def D by blast
  ultimately show ?thesis unfolding ts' [symmetric] by (simp add: pipe_inv_def)
qed

lemma pipe_finish:
  assumes inv: "pipe_inv rand J ts" and fin: "jb_pc j = []"
  shows "pipe_inv rand (J - {j}) ts"
proof -
  have "waits_ok rand (J - {j}) ts"
    unfolding waits_ok_def
  proof (intro allI ballI impI)
    fix f i assume "f < length (ts_heap ts)" "i \<in> set (tk_unFinishChildrenTasks (heap_at ts f))"
    with pipe_invD(6) [OF inv]
    have W: "\<exists>r < length (ts_heap ts). i = task_id rand r \<and> tk_fatherTask (heap_at ts r) = Some f \<and> on_board rand ts r
        \<and> (\<forall>j \<in> J. jb_task j = r \<longrightarrow> NotifyFather \<in> set (jb_pc j))"
      and "\<exists>k \<in> J. jb_task k = f \<and> Wait \<in> set (jb_pc k)"
      unfolding waits_ok_def by blast+
    then have "\<exists>k \<in> J - {j}. jb_task k = f \<and> Wait \<in> set (jb_pc k)" using fin by force
    with W show "(\<exists>r < length (ts_heap ts). i = task_id rand r \<and> tk_fatherTask (heap_at ts r) = Some f \<and> on_board rand ts r
        \<and> (\<forall>k \<in> J - {j}. jb_task k = r \<longrightarrow> NotifyFather \<in> set (jb_pc k)))
      \<and> (\<exists>k \<in> J - {j}. jb_task k = f \<and> Wait \<in> set (jb_pc k))"
      by blast
  qed
  moreover have "pending_ok rand (J - {j}) ts"
    using pipe_invD(7) [OF inv] unfolding pending_ok_def pending_def by blast
  ultimately show ?thesis
    using inv by (auto simp: pipe_inv_def places_ok_def jobs_ok_def board_ok_def)
qed

end
