(* ===== verification/DHF_FlowInv.thy ===== *)
theory DHF_FlowInv
  imports DHF_Flow DHF_Pipeline
begin

text \<open>
  Every reachable state of the framework satisfies the invariant of the task pipeline, as long as the
  identifiers drawn so far differ: the events from outside only create tasks without a father, and each
  action of a body is one of the changes of the theory \<open>DHF_Pipeline\<close>. The interpretation of
  \<open>guarded_system\<close> at the end gives the invariant in every reachable state.
\<close>

section \<open>What leaves the task system alone\<close>

lemma fw_ts_frame [simp]:
  "fw_ts (upd_cx g f) = fw_ts f" "fw_ts (DoSyncInfo E t f) = fw_ts f" "fw_ts (ClearOffLineInfo E t f) = fw_ts f"
  "fw_ts (snd (LocalInit E P f)) = fw_ts f" "fw_ts (snd (Release E P f)) = fw_ts f" "fw_ts (ExitDHFWK f) = fw_ts f"
  "fw_ts (upd_ts h f) = h (fw_ts f)"
  by (simp_all add: upd_cx_def DoSyncInfo_def ClearOffLineInfo_def LocalInit_def Release_def ExitDHFWK_def upd_ts_def Let_def)

lemma fw_ts_Init [simp]: "fw_ts (snd (Initialize E P f)) = fw_ts f" "fw_ts (snd (Factory_Init E P f)) = fw_ts f"
  by (simp_all add: Initialize_def Factory_Init_def Let_def case_prod_unfold)

lemma fw_ts_UnInit [simp]: "fw_ts (Factory_UnInit E P devs f) = fw_ts f" "fw_ts (offline_end E P devs f) = fw_ts f"
  by (simp_all add: Factory_UnInit_def CheckExitSAOrNot_def offline_end_def Let_def)

lemma fw_ts_InitLocal [simp]: "fw_ts (snd (InitLocalDevInfo E P d1 d2 f)) = fw_ts f"
  by (simp add: InitLocalDevInfo_def Let_def case_prod_unfold)

section \<open>Creations from outside\<close>

text \<open>A sequence of creations without a father, of tasks of the types \<open>A\<close>.\<close>

inductive spawns :: "task_type set \<Rightarrow> rand \<Rightarrow> task_sys \<Rightarrow> task_sys \<Rightarrow> bool" for A rand where
  spawns_refl: "spawns A rand ts ts"
| spawns_step: "spawns A rand ts ts1 \<Longrightarrow> tt \<in> A \<Longrightarrow> spawns A rand ts (create_and_push rand tt p None ts1)"

lemma spawns_one: "tt \<in> A \<Longrightarrow> spawns A rand ts (create_and_push rand tt p None ts)"
  by (intro spawns_step spawns_refl)

lemma spawns_trans: "spawns A rand ts1 ts2 \<Longrightarrow> spawns A rand ts ts1 \<Longrightarrow> spawns A rand ts ts2"
  by (induction rule: spawns.induct) (auto intro: spawns.intros)

lemma spawns_mono: "spawns A rand ts ts' \<Longrightarrow> A \<subseteq> B \<Longrightarrow> spawns B rand ts ts'"
  by (induction rule: spawns.induct) (auto intro: spawns.intros)

lemma spawns_fold:
  assumes "\<And>x st. spawns A rand (snd st) (snd (g x st))"
  shows "spawns A rand (snd st) (snd (fold g xs st))"
proof (induction xs arbitrary: st)
  case (Cons x xs)
  from Cons.IH [of "g x st"] assms show ?case by (simp add: spawns_trans)
qed (simp add: spawns_refl)

lemma create_grows: "length (ts_heap ts) \<le> length (ts_heap (create_and_push rand tt p father ts))"
  by (cases "tt = TaskType_UNKNOWN")
    (simp_all add: create_and_push_def CreateTask_unknown PushTask_def CreateTask_length create_and_push_Push CreateTask_unfold
      split: option.splits)

lemma spawns_grows: "spawns A rand ts ts' \<Longrightarrow> length (ts_heap ts) \<le> length (ts_heap ts')"
  by (induction rule: spawns.induct) (auto intro: order_trans create_grows)

lemma ids_back: "ids_distinct rand ts' \<Longrightarrow> length (ts_heap ts) \<le> length (ts_heap ts') \<Longrightarrow> ids_distinct rand ts"
  unfolding ids_distinct_def by (erule inj_on_subset) auto

lemma pipe_spawns:
  assumes "spawns A rand ts ts'" and "TaskType_UNKNOWN \<notin> A" and "pipe_inv rand J ts" and "ids_distinct rand ts'"
  shows "pipe_inv rand J ts'"
  using assms
proof (induction rule: spawns.induct)
  case (spawns_step ts ts1 tt p)
  from spawns_step.prems(3) have "ids_distinct rand ts1" by (rule ids_back) (rule create_grows)
  with spawns_step have "pipe_inv rand J ts1" by blast
  moreover have "tt \<noteq> TaskType_UNKNOWN" using spawns_step by blast
  ultimately show ?case using spawns_step.prems(3) by (intro pipe_create) auto
qed

section \<open>Events from outside\<close>

abbreviation (input) Changes :: "task_type set" where "Changes \<equiv> {TaskType_ENABLE, TaskType_DISABLE}"

lemma spawns_change_add: "spawns Changes rand (snd st) (snd (change_add_item rand cx dec key item st))"
  by (cases st) (auto simp: change_add_item_def Let_def case_prod_unfold intro: spawns_refl spawns_one)

lemma spawns_change_update: "spawns Changes rand (snd st) (snd (change_update_item rand cx dec key item st))"
  by (cases st) (auto simp: change_update_item_def Let_def case_prod_unfold intro: spawns_refl spawns_one)

lemma spawns_cap_delete: "spawns Changes rand (snd st) (snd (cap_delete_item E rand cx item st))"
  by (cases st) (auto simp: cap_delete_item_def Let_def case_prod_unfold intro: spawns_refl spawns_one)

lemma spawns_cap_handlers:
  "spawns Changes rand (snd st) (snd (HandleCapabilityAddChange E rand cx es st))"
  "spawns Changes rand (snd st) (snd (HandleCapabilityUpdateChange E rand u cx es st))"
  "spawns Changes rand (snd st) (snd (HandleCapabilityDeleteChange E rand u cx es st))"
  by (auto simp: HandleCapabilityAddChange_def HandleCapabilityUpdateChange_def HandleCapabilityDeleteChange_def
      intro: spawns_refl spawns_fold spawns_change_add spawns_change_update spawns_cap_delete)

lemma spawns_if: "(c \<Longrightarrow> spawns A rand x (snd y)) \<Longrightarrow> (\<not> c \<Longrightarrow> spawns A rand x (snd z)) \<Longrightarrow> spawns A rand x (snd (if c then y else z))"
  by simp

lemma spawns_cap_change: "spawns Changes rand (snd st) (snd (CapMgr_OnChange E rand u cx cn st))"
  unfolding CapMgr_OnChange_def Let_def
  by (intro spawns_if spawns_trans [OF spawns_cap_handlers(1)] spawns_trans [OF spawns_cap_handlers(2)]
      spawns_trans [OF spawns_cap_handlers(3)] spawns_refl)

lemma spawns_cap_cloud: "spawns Changes rand (snd st) (snd (CapMgr_OnChange_cloud E rand u i p d st))"
proof -
  obtain m s ts where st: "st = ((m, s), ts)" by (metis prod.collapse)
  have base: "spawns Changes rand ts (snd (im_map m, ts))" by (simp add: spawns_refl)
  show ?thesis
    unfolding st CapMgr_OnChange_cloud_def Let_def split_beta snd_conv fst_conv
    by (intro spawns_if spawns_trans [OF spawns_cap_handlers(1)] spawns_trans [OF spawns_cap_handlers(2)]
      spawns_trans [OF spawns_cap_handlers(3)] base)
qed

lemma spawns_meta_handlers:
  "spawns Changes rand (snd st) (snd (HandleMetaCapabilityAddChange E rand cx es st))"
  "spawns Changes rand (snd st) (snd (HandleMetaCapabilityUpdateChange E rand cx es st))"
  "spawns Changes rand (snd st) (snd (HandleMetaCapabilityDeleteChange E es st))"
  by (auto simp: HandleMetaCapabilityAddChange_def HandleMetaCapabilityUpdateChange_def HandleMetaCapabilityDeleteChange_def
      split_beta intro: spawns_refl spawns_fold spawns_change_add spawns_change_update)

lemma spawns_meta_change: "spawns Changes rand (snd st) (snd (MetaMgr_OnChange E rand cx cn st))"
  unfolding MetaMgr_OnChange_def Let_def
  by (intro spawns_if spawns_trans [OF spawns_meta_handlers(1)] spawns_trans [OF spawns_meta_handlers(2)]
      spawns_trans [OF spawns_meta_handlers(3)] spawns_refl)

lemma spawns_meta_cloud: "spawns Changes rand (snd st) (snd (MetaMgr_OnChange_cloud E rand i p d st))"
proof -
  obtain m s ts where st: "st = ((m, s), ts)" by (metis prod.collapse)
  have base: "spawns Changes rand ts (snd (im_map m, ts))" by (simp add: spawns_refl)
  show ?thesis
    unfolding st MetaMgr_OnChange_cloud_def Let_def split_beta snd_conv fst_conv
    by (intro spawns_if spawns_trans [OF spawns_meta_handlers(1)] spawns_trans [OF spawns_meta_handlers(2)]
      spawns_trans [OF spawns_meta_handlers(3)] base)
qed

lemma spawns_cap_event:
  "spawns Changes rand (fw_ts f) (fw_ts (cap_change (cap_step E rand (CapChange u cn)) f))"
  "spawns Changes rand (fw_ts f) (fw_ts (cap_change (cap_step E rand (CapChangeCloud u i p d)) f))"
  using spawns_cap_change [of rand "(im_map (rs_cap (fw_rs f)), fw_ts f)"]
    spawns_cap_cloud [of rand "((rs_cap (fw_rs f), rs_sys (fw_rs f)), fw_ts f)"]
  by (simp_all add: cap_change_def case_prod_unfold Let_def)

lemma spawns_meta_event:
  "spawns Changes rand (fw_ts f) (fw_ts (meta_change (meta_step E rand (MetaChange cn)) f))"
  "spawns Changes rand (fw_ts f) (fw_ts (meta_change (meta_step E rand (MetaChangeCloud i p d)) f))"
  using spawns_meta_change [of rand "(im_map (rs_meta (fw_rs f)), fw_ts f)"]
    spawns_meta_cloud [of rand "((rs_meta (fw_rs f), rs_sys (fw_rs f)), fw_ts f)"]
  by (simp_all add: meta_change_def case_prod_unfold Let_def)

lemma spawns_online: "spawns {TaskType_ON_LINE} rand (fw_ts f) (fw_ts (snd (SendOnLineEvent E P rand n uuid udid f)))"
  by (auto simp: SendOnLineEvent_def Manager_SendOnLineEvent_def Let_def case_prod_unfold intro: spawns_refl spawns_one)

lemma spawns_offline: "spawns {TaskType_OFF_LINE} rand (fw_ts f) (fw_ts (snd (SendOffLineEvent E P rand n uuid udid f)))"
  by (auto simp: SendOffLineEvent_def Manager_SendOffLineEvent_def Let_def case_prod_unfold intro: spawns_refl spawns_one)

lemma spawns_trusted: "spawns {TaskType_ON_LINE} rand (fw_ts f) (fw_ts (CheckTrustedDeviceOnline E P rand devs f))"
proof -
  have "spawns {TaskType_ON_LINE} rand (fw_ts f)
    (fw_ts (fold (\<lambda>n f1. snd (SendOnLineEvent E P rand n (GetUUIDByDm (env_dm E) n) (GetUDIDByDm (env_dm E) n) f1)) devs f))"
    by (induction devs arbitrary: f) (auto intro: spawns_refl spawns_trans spawns_online)
  then show ?thesis by (simp add: CheckTrustedDeviceOnline_def spawns_refl)
qed

text \<open>What an event may create.\<close>

definition event_types :: "fwk_event \<Rightarrow> task_type set" where
  "event_types ev =
     (case ev of
        Ev_Ready n \<Rightarrow> {TaskType_ON_LINE} | Ev_Trusted devs \<Rightarrow> {TaskType_ON_LINE} | Ev_SendThread i \<Rightarrow> {TaskType_ON_LINE}
      | Ev_Offline n \<Rightarrow> {TaskType_OFF_LINE}
      | Ev_CapChange cn \<Rightarrow> Changes | Ev_CapCloud i u d \<Rightarrow> Changes
      | Ev_MetaChange cn \<Rightarrow> Changes | Ev_MetaCloud i u d \<Rightarrow> Changes
      | _ \<Rightarrow> {})"

lemma spawns_event: "spawns (event_types ev) rand (fw_ts f) (fw_ts (env_event junk E P rand ev f))"
proof (cases ev)
  case (Ev_Ready n)
  then show ?thesis by (auto simp: env_event_def event_types_def OnDeviceReady_def Let_def intro: spawns_refl spawns_online)
next
  case (Ev_Offline n)
  then show ?thesis by (auto simp: env_event_def event_types_def OnDeviceOffline_def Let_def intro: spawns_refl spawns_offline)
next
  case (Ev_Trusted devs)
  then show ?thesis by (simp add: env_event_def event_types_def spawns_trusted)
next
  case (Ev_SendThread i)
  let ?g = "f\<lparr>fw_sendThreads := take i (fw_sendThreads f) @ drop (Suc i) (fw_sendThreads f)\<rparr>"
  have "spawns {TaskType_ON_LINE} rand (fw_ts f) (fw_ts (snd (SendOnLineEvent E P rand n uuid udid ?g)))" for n uuid udid
    using spawns_online [of rand ?g] by simp
  with Ev_SendThread show ?thesis by (auto simp: env_event_def event_types_def intro: spawns_refl split: prod.splits)
qed (simp_all add: env_event_def event_types_def spawns_cap_event spawns_meta_event spawns_refl OnDeviceTrustChange_def
    Factory_ClearDataWhenPeerLogout_def)

lemma event_types_known: "TaskType_UNKNOWN \<notin> event_types ev"
  by (simp add: event_types_def split: fwk_event.splits)

section \<open>The actions of a body\<close>

lemma prog_tail:
  assumes "suffix (a # pc) (prog tt)" and "child_type TaskType_OFF_LINE tt"
  shows "length pc \<le> 2 \<Longrightarrow> a \<in> {EndDisable, EndMeta, NotifyFather, RemoveSelf}" and "a = SetRunning \<Longrightarrow> NotifyFather \<in> set pc"
  using assms by (cases tt; auto simp: prog_def child_type_def suffix_Cons)+

lemma spawns_only_kept:
  assumes "list_all (spawn_ok tt) acts" and "\<forall>k p. a \<noteq> Spawn k p"
  shows "a \<in> set (acts @ pc) \<longleftrightarrow> a \<in> set pc"
proof -
  have "a \<notin> set acts" using assms by (cases a) (auto simp: list_all_iff)
  then show ?thesis by simp
qed

lemma pipe_action:
  assumes inv: "pipe_inv rand J ts" and only: "only_body j j' J" and pc: "jb_pc j = a # pc" "jb_pc j' = acts @ pc"
    and a: "\<forall>k p. a \<noteq> Spawn k p" "a \<notin> {NotifyFather, RemoveSelf}"
    and acts: "list_all (spawn_ok (tk_taskType (heap_at ts (jb_task j)))) acts"
      "acts \<noteq> [] \<longrightarrow> RemoveSelf \<in> set pc" "tk_taskType (heap_at ts (jb_task j)) = TaskType_OFF_LINE \<and> acts \<noteq> [] \<longrightarrow> Wait \<in> set pc"
    and own: "own_change (jb_task j) ts ts'" and ok: "task_sys_ok rand ts'"
    and state: "a \<in> {EndDisable, EndMeta} \<longrightarrow> terminal (tk_taskState (heap_at ts' (jb_task j)))"
      "a = SetRunning \<or> terminal (tk_taskState (heap_at ts' (jb_task j)))
         \<or> tk_taskState (heap_at ts' (jb_task j)) = tk_taskState (heap_at ts (jb_task j))"
    and wait: "a = Wait \<longrightarrow> tk_unFinishChildrenTasks (heap_at ts (jb_task j)) = []"
  shows "pipe_inv rand (swap_job j j' J) ts'"
proof -
  let ?t = "heap_at ts (jb_task j)" and ?t' = "heap_at ts' (jb_task j)"
  have j: "j \<in> J" using only by (simp add: only_body_def)
  have r: "jb_task j < length (ts_heap ts)" using pipe_invD(2) [OF inv] j by (auto simp: places_ok_def)
  have "job_ok ?t j" using pipe_invD(3) [OF inv] j by (auto simp: jobs_ok_def)
  then have suf: "suffix (a # pc) (prog (tk_taskType ?t))" using pc(1) a(1) by (rule job_ok_at)
  have ty: "tk_taskType ?t' = tk_taskType ?t" using own_changeD(6) [OF own r] by simp
  have kept: "b \<in> set (jb_pc j') \<longleftrightarrow> b \<in> set pc" if "\<forall>k p. b \<noteq> Spawn k p" for b
    using spawns_only_kept [OF acts(1) that] by (simp add: pc)
  have "job_ok ?t' j'"
  proof (rule job_ok_pop)
    show "suffix (a # pc) (prog (tk_taskType ?t'))" using suf by (simp add: ty)
    show "child_type TaskType_OFF_LINE (tk_taskType ?t') \<and> length pc \<le> 2 \<longrightarrow> terminal (tk_taskState ?t')"
      using prog_tail(1) [OF suf] a(2) state(1) by (auto simp: ty)
  qed (use acts pc in \<open>simp_all add: ty\<close>)
  then show ?thesis
  proof (rule pipe_local [OF inv only own ok])
    show "tk_taskState ?t' = tk_taskState ?t \<or> terminal (tk_taskState ?t') \<or> NotifyFather \<in> set (jb_pc j)
        \<or> \<not> child_type TaskType_OFF_LINE (tk_taskType ?t)"
      using state(2) prog_tail(2) [OF suf] pc(1) by auto
  qed (use pc(1) a(2) wait in \<open>auto simp: kept\<close>)
qed

lemma same_state: "\<exists>st. t = t\<lparr>tk_taskState := st\<rparr>" for t :: task
  by (rule exI [of _ "tk_taskState t"]) simp

lemma own_change_refl: "own_change r ts ts"
  by (simp add: own_change_def same_state)

lemma own_change_state: "own_change r ts (SetTaskState r st ts)"
  by (auto simp: own_change_def SetTaskState_def upd_task_nth same_state)

lemma own_change_enabled:
  "own_change r ts (EnableTask_end E r t result ts)" "own_change r ts (DisableTask_end E r t result ts)"
  using own_change_state [of r ts] own_change_state [of r "RemoveEnabledDevice (task_key E t) ts"]
  by (simp_all add: own_change_def EnableTask_end_def DisableTask_end_def Let_def SaveEnabledDevice_def RemoveEnabledDevice_def)

lemma SetTaskState_get: "r < length (ts_heap ts) \<Longrightarrow> tk_taskState (heap_at (SetTaskState r st ts) r) = st"
  by (simp add: SetTaskState_def upd_task_nth)

lemma end_get:
  assumes "r < length (ts_heap ts)"
  shows "tk_taskState (heap_at (EnableTask_end E r t result ts) r) = end_state result"
    and "tk_taskState (heap_at (DisableTask_end E r t result ts) r) = end_state result"
  using assms SetTaskState_get [of r "RemoveEnabledDevice (task_key E t) ts" "end_state result"]
  by (simp_all add: EnableTask_end_def DisableTask_end_def Let_def SaveEnabledDevice_def SetTaskState_get RemoveEnabledDevice_def)

lemma task_sys_ok_end:
  "task_sys_ok rand ts \<Longrightarrow> task_sys_ok rand (EnableTask_end E r t result ts)"
  "task_sys_ok rand ts \<Longrightarrow> task_sys_ok rand (DisableTask_end E r t result ts)"
  by (simp_all add: EnableTask_end_def DisableTask_end_def Let_def task_sys_ok_objects task_sys_ok_board)

lemma terminal_end [simp]: "terminal (end_state result)" "terminal TaskState_SUCCESS"
  by (simp_all add: terminal_def end_state_def)

lemma spawn_ok_creates:
  "list_all (spawn_ok TaskType_ON_LINE) (CreateEnableTask E t rs)" "list_all (spawn_ok TaskType_ON_LINE) (CreateMetaEnableTask t)"
  "list_all (spawn_ok TaskType_OFF_LINE) (CreateDisableTask E t rs)" "list_all (spawn_ok TaskType_OFF_LINE) (CreateMetaDisableTask t)"
  by (simp_all add: CreateEnableTask_def CreateMetaEnableTask_def CreateDisableTask_def CreateMetaDisableTask_def list_all_iff
      child_type_def)

text \<open>A step of an online or offline task leaves the task system as it is and puts creations in front.\<close>

lemma do_step:
  assumes suf: "suffix (DoStep step # pc) (prog (tk_taskType t))"
    and step: "exec_action E P rand devs r result (DoStep step) f = Some (result', acts, f')" and t: "t = heap_at (fw_ts f) r"
  shows "fw_ts f' = fw_ts f" and "list_all (spawn_ok (tk_taskType t)) acts"
    and "acts \<noteq> [] \<longrightarrow> RemoveSelf \<in> set pc" and "tk_taskType t = TaskType_OFF_LINE \<and> acts \<noteq> [] \<longrightarrow> Wait \<in> set pc"
    and "DoStep step = Wait \<longrightarrow> tk_unFinishChildrenTasks t = []"
proof -
  consider (on) "tk_taskType t = TaskType_ON_LINE" | (off) "tk_taskType t = TaskType_OFF_LINE"
    using suf by (cases "tk_taskType t") (auto simp: prog_def suffix_Cons)
  then have "fw_ts f' = fw_ts f \<and> list_all (spawn_ok (tk_taskType t)) acts \<and> (acts \<noteq> [] \<longrightarrow> RemoveSelf \<in> set pc)
    \<and> (tk_taskType t = TaskType_OFF_LINE \<and> acts \<noteq> [] \<longrightarrow> Wait \<in> set pc)
    \<and> (DoStep step = Wait \<longrightarrow> tk_unFinishChildrenTasks t = [])"
  proof cases
    case on
    with suf step t show ?thesis
      by (auto simp: prog_def suffix_Cons exec_action_def online_step_def spawn_ok_creates)
  next
    case off
    with suf step t show ?thesis
      by (auto simp: prog_def suffix_Cons exec_action_def offline_step_def WaitDisableTaskFinish_def spawn_ok_creates Let_def
          split: if_splits)
  qed
  then show "fw_ts f' = fw_ts f" "list_all (spawn_ok (tk_taskType t)) acts" "acts \<noteq> [] \<longrightarrow> RemoveSelf \<in> set pc"
    "tk_taskType t = TaskType_OFF_LINE \<and> acts \<noteq> [] \<longrightarrow> Wait \<in> set pc"
    "DoStep step = Wait \<longrightarrow> tk_unFinishChildrenTasks t = []" by blast+
qed

text \<open>What an action that is neither a step, a creation, the notification nor the removal does.\<close>

definition plain :: "action \<Rightarrow> bool" where
  "plain a \<longleftrightarrow> (\<forall>s. a \<noteq> DoStep s) \<and> (\<forall>k p. a \<noteq> Spawn k p) \<and> a \<noteq> NotifyFather \<and> a \<noteq> RemoveSelf"

lemma plain_ts:
  assumes "plain a" and "exec_action E P rand devs r result a f = Some (result', acts, f')"
  shows "acts = [] \<and> (fw_ts f' = fw_ts f \<and> a \<notin> {EndDisable, EndMeta} \<or> a = SetRunning \<and> fw_ts f' = SetTaskState r TaskState_RUNNING (fw_ts f)
    \<or> (\<exists>st. terminal st \<and> fw_ts f' = SetTaskState r st (fw_ts f))
    \<or> (\<exists>t. fw_ts f' = EnableTask_end E r t result (fw_ts f)) \<or> (\<exists>t. fw_ts f' = DisableTask_end E r t result (fw_ts f)))"
proof (cases a)
  case EndMeta
  with assms(2) have "acts = [] \<and> fw_ts f' = SetTaskState r (end_state result) (fw_ts f)" by (auto simp: exec_action_def)
  then show ?thesis using terminal_end by blast
next
  case SetSuccess
  with assms(2) have "acts = [] \<and> fw_ts f' = SetTaskState r TaskState_SUCCESS (fw_ts f)" by (auto simp: exec_action_def)
  then show ?thesis using terminal_end by blast
next
  case EndEnable
  with assms(2) have "acts = [] \<and> fw_ts f' = EnableTask_end E r (heap_at (fw_ts f) r) result (fw_ts f)" by (auto simp: exec_action_def Let_def)
  then show ?thesis by blast
next
  case EndDisable
  with assms(2) have "acts = [] \<and> fw_ts f' = DisableTask_end E r (heap_at (fw_ts f) r) result (fw_ts f)" by (auto simp: exec_action_def Let_def)
  then show ?thesis by blast
qed (use assms in \<open>auto simp: plain_def exec_action_def Let_def split: prod.splits\<close>)

lemma plain_action:
  assumes "plain a" and "exec_action E P rand devs r result a f = Some (result', acts, f')"
    and r: "r < length (ts_heap (fw_ts f))" and ok: "task_sys_ok rand (fw_ts f)"
  shows "acts = []" "own_change r (fw_ts f) (fw_ts f')" "task_sys_ok rand (fw_ts f')"
    "a \<in> {EndDisable, EndMeta} \<longrightarrow> terminal (tk_taskState (heap_at (fw_ts f') r))"
    "a = SetRunning \<or> terminal (tk_taskState (heap_at (fw_ts f') r))
       \<or> tk_taskState (heap_at (fw_ts f') r) = tk_taskState (heap_at (fw_ts f) r)"
  using plain_ts [OF assms(1,2)] ok
  by (auto simp: SetTaskState_get [OF r] end_get [OF r] own_change_refl own_change_state own_change_enabled task_sys_ok_objects task_sys_ok_end)

lemma run_jobD:
  assumes "run_job E P rand devs j f = Some (j', f')"
  obtains a pc result acts where "jb_pc j = a # pc" "exec_action E P rand devs (jb_task j) (jb_ret j) a f = Some (result, acts, f')"
    "j' = j\<lparr>jb_ret := result, jb_pc := acts @ pc\<rparr>"
  using assms by (auto simp: run_job_def split: list.splits)

lemma pipe_run:
  assumes inv: "pipe_inv rand J (fw_ts f)" and run: "run_job E P rand devs j f = Some (j', f')"
    and j: "j \<in> J" "inj_on jb_task J" and ids: "ids_distinct rand (fw_ts f')"
  shows "pipe_inv rand (swap_job j j' J) (fw_ts f')"
proof -
  let ?r = "jb_task j" and ?ts = "fw_ts f"
  from run obtain a pc result acts where pc: "jb_pc j = a # pc"
    and ex: "exec_action E P rand devs ?r (jb_ret j) a f = Some (result, acts, f')"
    and j': "j' = j\<lparr>jb_ret := result, jb_pc := acts @ pc\<rparr>" by (rule run_jobD)
  have pc': "jb_pc j' = acts @ pc" by (simp add: j')
  have only: "only_body j j' J" using j by (auto simp: only_body_def j' dest: inj_onD)
  note sok = pipe_invD(1) [OF inv]
  have r: "?r < length (ts_heap ?ts)" using pipe_invD(2) [OF inv] j by (auto simp: places_ok_def)
  have job: "job_ok (heap_at ?ts ?r) j" using pipe_invD(3) [OF inv] j by (auto simp: jobs_ok_def)
  consider (plain) "plain a" | (step) s where "a = DoStep s" | (spawn) k p where "a = Spawn k p"
    | (notify) "a = NotifyFather" | (remove) "a = RemoveSelf"
    unfolding plain_def by blast
  then show ?thesis
  proof cases
    case plain
    note A = plain_action [OF plain ex r sok]
    show ?thesis
      by (rule pipe_action [OF inv only pc pc' _ _ _ _ _ A(2-5)]) (use plain A(1) in \<open>auto simp: plain_def\<close>)
  next
    case step
    have "suffix (DoStep s # pc) (prog (tk_taskType (heap_at ?ts ?r)))"
      using job_ok_at(1) [OF job pc] by (simp add: step)
    note S = do_step [OF this ex [unfolded step] refl]
    show ?thesis
      by (rule pipe_action [OF inv only pc pc' _ _ S(2-4)])
        (use S(1,5) sok in \<open>simp_all add: step own_change_refl\<close>)
  next
    case spawn
    have ts': "fw_ts f' = create_and_push rand k p (Some ?r) ?ts" and acts: "acts = []"
      using ex by (auto simp: spawn exec_action_def)
    note K = job_ok_spawn [OF job pc [unfolded spawn]]
    have k: "k \<noteq> TaskType_UNKNOWN" using K(1) by (auto simp: child_type_def)
    have "pipe_inv rand J (fw_ts f')"
      unfolding ts' using inv k ids [unfolded ts'] by (rule pipe_create) (use K(1,2) r j in auto)
    moreover have "tk_taskType (heap_at (fw_ts f') ?r) = tk_taskType (heap_at ?ts ?r)
        \<and> tk_taskState (heap_at (fw_ts f') ?r) = tk_taskState (heap_at ?ts ?r)"
      unfolding ts' using create_heap(3) [OF k, of "Some ?r" ?ts ?r rand p] r by simp
    then have "job_ok (heap_at (fw_ts f') ?r) j'" using K(3) [of j'] job_ok_cong pc' acts by (metis append_Nil)
    ultimately show ?thesis
      by (intro pipe_local [OF _ only own_change_refl])
        (use pc pc' in \<open>auto simp: acts spawn pipe_inv_def\<close>)
  next
    case notify
    have ts': "fw_ts f' = notify_father (heap_at ?ts ?r) ?ts" and acts: "acts = []"
      using ex by (auto simp: notify exec_action_def Let_def)
    note N = notify_unwaits [OF sok r, folded ts']
    have suf: "suffix (NotifyFather # pc) (prog (tk_taskType (heap_at ?ts ?r)))"
      using job_ok_at(1) [OF job pc] by (simp add: notify)
    then have rest: "child_type TaskType_OFF_LINE (tk_taskType (heap_at ?ts ?r))" "pc = [RemoveSelf]" by (simp_all add: prog_at)
    have fin: "terminal (tk_taskState (heap_at ?ts ?r))"
      using job_ok_at(2) [OF job pc] rest by (simp add: notify)
    have "ids_distinct rand ?ts" using ids by (rule ids_back) (simp add: unwaitsD(1) [OF N(1)])
    moreover have "job_ok (heap_at (fw_ts f') ?r) j'"
      using unwaitsD(5) [OF N(1) r] suf fin
      by (intro job_ok_pop [where acts = acts and pc = pc]) (auto simp: acts pc')
    ultimately show ?thesis
      by (intro pipe_notify [OF inv only N]) (use fin pc pc' in \<open>simp_all add: acts rest notify\<close>)
  next
    case remove
    have ts': "fw_ts f' = RemoveTask (task_id rand ?r) ?ts" and acts: "acts = []"
      using ex by (auto simp: remove exec_action_def task_sys_okD(3) [OF sok r])
    have suf: "suffix (RemoveSelf # pc) (prog (tk_taskType (heap_at ?ts ?r)))"
      using job_ok_at(1) [OF job pc] by (simp add: remove)
    then have rest: "pc = (if tk_taskType (heap_at ?ts ?r) = TaskType_OFF_LINE then [CheckUnInit] else [])" by (simp add: prog_at)
    have "ids_distinct rand ?ts" using ids by (rule ids_back) (simp add: ts' RemoveTask_def RemoveTaskInner_def)
    moreover have "child_type TaskType_OFF_LINE (tk_taskType (heap_at ?ts ?r)) \<longrightarrow> terminal (tk_taskState (heap_at ?ts ?r))"
      using job_ok_at(2) [OF job pc] by (auto simp: remove rest)
    then have "job_ok (heap_at ?ts ?r) j'"
      using suf by (intro job_ok_pop [where acts = acts and pc = pc]) (auto simp: acts pc')
    ultimately show ?thesis
      unfolding ts' by (intro pipe_remove [OF inv only]) (use pc pc' in \<open>simp_all add: acts rest remove\<close>)
  qed
qed

section \<open>The invariant of the run-time state\<close>

definition job_list :: "('w, 'c) flow \<Rightarrow> job list" where
  "job_list fl = fl_jobs fl @ (case fl_handler fl of None \<Rightarrow> [] | Some j \<Rightarrow> [j])"

abbreviation (input) flow_ts :: "('w, 'c) flow \<Rightarrow> task_sys" where
  "flow_ts fl \<equiv> fw_ts (fl_fw fl)"

text \<open>Each task has at most one body, no body is at its end, and the event handler runs online tasks only.\<close>

definition flow_inv :: "rand \<Rightarrow> ('w, 'c) flow \<Rightarrow> bool" where
  "flow_inv rand fl \<longleftrightarrow> distinct (map jb_task (job_list fl)) \<and> (\<forall>j \<in> set (job_list fl). jb_pc j \<noteq> [])
     \<and> (\<forall>j. fl_handler fl = Some j \<longrightarrow> tk_taskType (heap_at (flow_ts fl) (jb_task j)) = TaskType_ON_LINE)
     \<and> pipe_inv rand (set (job_list fl)) (flow_ts fl)"

lemma flow_invD:
  assumes "flow_inv rand fl"
  shows "distinct (map jb_task (job_list fl))" "j \<in> set (job_list fl) \<Longrightarrow> jb_pc j \<noteq> []"
    "fl_handler fl = Some j \<Longrightarrow> tk_taskType (heap_at (flow_ts fl) (jb_task j)) = TaskType_ON_LINE"
    "pipe_inv rand (set (job_list fl)) (flow_ts fl)" "inj_on jb_task (set (job_list fl))"
  using assms by (simp_all add: flow_inv_def distinct_map)

text \<open>Tasks keep their place in the heap and their type.\<close>

definition types_kept :: "task_sys \<Rightarrow> task_sys \<Rightarrow> bool" where
  "types_kept ts ts' \<longleftrightarrow> length (ts_heap ts) \<le> length (ts_heap ts')
     \<and> (\<forall>i < length (ts_heap ts). tk_taskType (heap_at ts' i) = tk_taskType (heap_at ts i))"

lemma types_kept_create:
  assumes "tt \<noteq> TaskType_UNKNOWN" and "\<forall>f. father = Some f \<longrightarrow> f < length (ts_heap ts)"
  shows "types_kept ts (create_and_push rand tt p father ts)"
  using create_heap(1,3) [OF assms, where rand = rand and p = p] by (auto simp: types_kept_def)

lemma types_kept_spawns: "spawns A rand ts ts' \<Longrightarrow> TaskType_UNKNOWN \<notin> A \<Longrightarrow> types_kept ts ts'"
proof (induction rule: spawns.induct)
  case (spawns_step ts ts1 tt p)
  then have "types_kept ts1 (create_and_push rand tt p None ts1)" by (intro types_kept_create) auto
  with spawns_step show ?case by (auto simp: types_kept_def)
qed (simp add: types_kept_def)

lemma types_kept_run:
  assumes inv: "pipe_inv rand J (fw_ts f)" and run: "run_job E P rand devs j f = Some (j', f')" and j: "j \<in> J"
  shows "types_kept (fw_ts f) (fw_ts f')"
proof -
  let ?r = "jb_task j" and ?ts = "fw_ts f"
  from run obtain a pc result acts where pc: "jb_pc j = a # pc"
    and ex: "exec_action E P rand devs ?r (jb_ret j) a f = Some (result, acts, f')" by (rule run_jobD)
  note sok = pipe_invD(1) [OF inv]
  have r: "?r < length (ts_heap ?ts)" using pipe_invD(2) [OF inv] j by (auto simp: places_ok_def)
  have job: "job_ok (heap_at ?ts ?r) j" using pipe_invD(3) [OF inv] j by (auto simp: jobs_ok_def)
  consider (plain) "plain a" | (step) s where "a = DoStep s" | (spawn) k p where "a = Spawn k p"
    | (notify) "a = NotifyFather" | (remove) "a = RemoveSelf"
    unfolding plain_def by blast
  then show ?thesis
  proof cases
    case plain
    from plain_action(2) [OF plain ex r sok] show ?thesis by (auto simp: types_kept_def own_changeD)
  next
    case step
    have "suffix (DoStep s # pc) (prog (tk_taskType (heap_at ?ts ?r)))" using job_ok_at(1) [OF job pc] by (simp add: step)
    from do_step(1) [OF this ex [unfolded step] refl] show ?thesis by (simp add: types_kept_def)
  next
    case spawn
    have "k \<noteq> TaskType_UNKNOWN" using job_ok_spawn(1) [OF job pc [unfolded spawn]] by (auto simp: child_type_def)
    with ex r show ?thesis by (auto simp: spawn exec_action_def intro!: types_kept_create)
  next
    case notify
    with ex have "fw_ts f' = notify_father (heap_at ?ts ?r) ?ts" by (auto simp: exec_action_def Let_def)
    with notify_unwaits(1) [OF sok r] show ?thesis by (auto simp: types_kept_def unwaitsD)
  next
    case remove
    with ex show ?thesis by (auto simp: exec_action_def types_kept_def RemoveTask_def RemoveTaskInner_def)
  qed
qed

text \<open>The bodies after one of them has moved.\<close>

lemma set_put_job:
  assumes d: "distinct (map jb_task (js @ hs))" and i: "i < length js" and t: "jb_task j' = jb_task (js ! i)"
  shows "set (put_job i j' js @ hs) =
      (if jb_pc j' = [] then swap_job (js ! i) j' (set (js @ hs)) - {j'} else swap_job (js ! i) j' (set (js @ hs)))"
    and "distinct (map jb_task (put_job i j' js @ hs))"
proof -
  have js: "js = take i js @ js ! i # drop (Suc i) js" using i by (simp add: id_take_nth_drop)
  define a b where ab: "a = take i js" "b = drop (Suc i) js"
  have J: "js = a @ js ! i # b" unfolding ab by (rule js)
  have upd: "js[i := j'] = a @ j' # b" using i by (simp add: ab upd_conv_take_nth_drop)
  have d': "distinct (map jb_task (a @ js ! i # b @ hs))" using d J by (metis append.assoc append_Cons)
  have S: "set (js @ hs) = insert (js ! i) (set (a @ b @ hs))" by (subst J) auto
  have ni: "js ! i \<notin> set (a @ b @ hs)" "j' \<notin> set (a @ b @ hs)" using d' t by (auto simp: image_iff)
  show "set (put_job i j' js @ hs) =
      (if jb_pc j' = [] then swap_job (js ! i) j' (set (js @ hs)) - {j'} else swap_job (js ! i) j' (set (js @ hs)))"
    unfolding S put_job_def upd swap_job_def ab [symmetric] using ni by auto
  show "distinct (map jb_task (put_job i j' js @ hs))"
    unfolding put_job_def upd ab [symmetric] using d' t by auto
qed

lemma run_task: "run_job E P rand devs j f = Some (j', f') \<Longrightarrow> jb_task j' = jb_task j"
  by (erule run_jobD) auto

lemma set_put_pc: "\<forall>k \<in> set js. jb_pc k \<noteq> [] \<Longrightarrow> \<forall>k \<in> set (put_job i j js). jb_pc k \<noteq> []"
  using set_update_subset_insert [of js i j] by (auto simp: put_job_def dest: in_set_takeD in_set_dropD)

lemma pipe_put:
  assumes inv: "pipe_inv rand J (fw_ts f)" and run: "run_job E P rand devs j f = Some (j', f')"
    and j: "j \<in> J" "inj_on jb_task J" and ids: "ids_distinct rand (fw_ts f')"
  shows "pipe_inv rand (if jb_pc j' = [] then swap_job j j' J - {j'} else swap_job j j' J) (fw_ts f')"
  using pipe_run [OF assms] pipe_finish by auto

lemma flow_inv_init: "flow_init fl \<Longrightarrow> flow_inv rand fl"
  by (auto simp: flow_init_def flow_inv_def job_list_def pipe_inv_new)

lemma flow_inv_env:
  assumes inv: "flow_inv rand fl" and ids: "ids_distinct rand (fw_ts (env_event junk E P rand ev (fl_fw fl)))"
  shows "flow_inv rand (fl\<lparr>fl_fw := env_event junk E P rand ev (fl_fw fl)\<rparr>)"
proof -
  note sp = spawns_event [of ev rand "fl_fw fl" junk E P]
  have jl: "job_list (fl\<lparr>fl_fw := env_event junk E P rand ev (fl_fw fl)\<rparr>) = job_list fl" by (simp add: job_list_def)
  have P: "pipe_inv rand (set (job_list fl)) (fw_ts (env_event junk E P rand ev (fl_fw fl)))"
    using sp event_types_known flow_invD(4) [OF inv] ids by (rule pipe_spawns)
  have "tk_taskType (heap_at (fw_ts (env_event junk E P rand ev (fl_fw fl))) (jb_task j)) = TaskType_ON_LINE"
    if h: "fl_handler fl = Some j" for j
  proof -
    have "jb_task j < length (ts_heap (flow_ts fl))"
      using pipe_invD(2) [OF flow_invD(4) [OF inv]] h by (auto simp: places_ok_def job_list_def)
    with types_kept_spawns [OF sp event_types_known] flow_invD(3) [OF inv h] show ?thesis by (simp add: types_kept_def)
  qed
  with P flow_invD(1,2) [OF inv] show ?thesis by (simp add: flow_inv_def jl)
qed

lemma flow_inv_trigger:
  assumes inv: "flow_inv rand fl" and step: "TriggerTask (flow_ts fl) = Some ts"
  shows "flow_inv rand (fl\<lparr>fl_fw := (fl_fw fl)\<lparr>fw_ts := ts\<rparr>\<rparr>)"
proof -
  have "ts_heap ts = ts_heap (flow_ts fl)" using step by (auto simp: TriggerTask_def PopTask_def split: list.splits)
  with pipe_trigger [OF flow_invD(4) [OF inv] step] flow_invD(1-3) [OF inv] show ?thesis
    by (simp add: flow_inv_def job_list_def)
qed

lemma flow_inv_handle:
  assumes inv: "flow_inv rand fl" and step: "internal_step E P rand Mv_Handle fl = Some fl'"
  shows "flow_inv rand fl'"
proof -
  let ?ts = "flow_ts fl"
  from step obtain r q where p: "ts_posted ?ts = r # q" and h: "fl_handler fl = None"
    and fl': "fl' = (let f1 = upd_ts (\<lambda>ts. ts\<lparr>ts_posted := q\<rparr>) (fl_fw fl); j = start_job r ?ts in
        if tk_taskType (heap_at ?ts r) = TaskType_ON_LINE then fl\<lparr>fl_fw := f1, fl_handler := Some j\<rparr>
        else fl\<lparr>fl_fw := f1, fl_jobs := fl_jobs fl @ [j]\<rparr>)"
    by (auto simp: internal_step_def Let_def split: list.splits option.splits if_splits)
  have jl: "job_list fl' = job_list fl @ [start_job r ?ts]" and ts': "flow_ts fl' = ?ts\<lparr>ts_posted := q\<rparr>"
    by (simp_all add: fl' Let_def job_list_def h)
  note P = pipe_invD [OF flow_invD(4) [OF inv]]
  have r: "r < length (ts_heap ?ts)" using task_sys_okD(2) [OF P(1)] p by simp
  have fam: "tk_taskType (heap_at ?ts r) \<noteq> TaskType_UNKNOWN" "tk_taskSteps (heap_at ?ts r) = steps_of (tk_taskType (heap_at ?ts r))"
    using P(5) r by (auto simp: family_ok_def)
  have "jb_pc (start_job r ?ts) \<noteq> []" using start_pc(1) [OF fam(2)] fam(1) by (auto simp: prog_def split: task_type.splits)
  moreover have "r \<notin> jb_task ` set (job_list fl)" using P(2) p by (auto simp: places_ok_def)
  moreover have "pipe_inv rand (set (job_list fl')) (flow_ts fl')"
    using pipe_start [OF flow_invD(4) [OF inv] p] by (simp add: jl ts' insert_commute)
  moreover have "tk_taskType (heap_at ?ts (jb_task j)) = TaskType_ON_LINE" if "fl_handler fl' = Some j" for j
    using that h by (auto simp: fl' Let_def start_job_def split: if_splits)
  ultimately show ?thesis
    using flow_invD(1,2) [OF inv] unfolding flow_inv_def jl by (auto simp: ts' start_job_def)
qed

lemma flow_inv_handler:
  assumes inv: "flow_inv rand fl" and step: "internal_step E P rand (Mv_Handler devs) fl = Some fl'"
    and ids: "ids_distinct rand (flow_ts fl')"
  shows "flow_inv rand fl'"
proof -
  from step obtain j j' f' where h: "fl_handler fl = Some j" and run: "run_job E P rand devs j (fl_fw fl) = Some (j', f')"
    and fl': "fl' = fl\<lparr>fl_fw := f', fl_handler := (if jb_pc j' = [] then None else Some j')\<rparr>"
    by (auto simp: internal_step_def Let_def split: option.splits)
  have j: "j \<in> set (job_list fl)" by (simp add: job_list_def h)
  note R = run_task [OF run] and I = flow_invD [OF inv]
  have only: "only_body j j' (set (job_list fl))" using j I(5) R by (auto simp: only_body_def dest: inj_onD)
  have nt: "jb_task j \<notin> jb_task ` set (fl_jobs fl)" using I(1) by (simp add: job_list_def h)
  then have "j' \<notin> set (fl_jobs fl)" "j \<notin> set (fl_jobs fl)" using R by (auto simp: image_iff)
  then have S: "set (job_list fl') = (if jb_pc j' = [] then swap_job j j' (set (job_list fl)) - {j'} else swap_job j j' (set (job_list fl)))"
    by (auto simp: fl' job_list_def h swap_job_def)
  have "pipe_inv rand (set (job_list fl')) f'_ts" if "f'_ts = fw_ts f'" for f'_ts
    unfolding S that using ids by (intro pipe_put [OF I(4) run j I(5)]) (simp add: fl')
  moreover have "jb_task j < length (ts_heap (flow_ts fl))" using pipe_invD(2) [OF I(4)] j by (auto simp: places_ok_def)
  then have "tk_taskType (heap_at (fw_ts f') (jb_task j')) = TaskType_ON_LINE"
    using types_kept_run [OF I(4) run j] I(3) [OF h] R by (simp add: types_kept_def)
  moreover have "distinct (map jb_task (job_list fl'))" using I(1) R by (auto simp: fl' job_list_def h)
  moreover have "\<forall>k \<in> set (job_list fl'). jb_pc k \<noteq> []" using I(2) by (auto simp: fl' job_list_def h)
  moreover have "flow_ts fl' = fw_ts f'" "fl_handler fl' = Some k \<Longrightarrow> k = j'" for k by (simp_all add: fl' split: if_splits)
  ultimately show ?thesis unfolding flow_inv_def by metis
qed

lemma flow_inv_job:
  assumes inv: "flow_inv rand fl" and step: "internal_step E P rand (Mv_Job i devs) fl = Some fl'"
    and ids: "ids_distinct rand (flow_ts fl')"
  shows "flow_inv rand fl'"
proof -
  define j where "j = fl_jobs fl ! i"
  from step obtain j' f' where i: "i < length (fl_jobs fl)" and run: "run_job E P rand devs j (fl_fw fl) = Some (j', f')"
    and fl': "fl' = fl\<lparr>fl_fw := f', fl_jobs := put_job i j' (fl_jobs fl)\<rparr>"
    by (auto simp: internal_step_def Let_def j_def split: if_splits)
  have j: "j \<in> set (job_list fl)" using i by (simp add: job_list_def j_def)
  note R = run_task [OF run] and I = flow_invD [OF inv]
  let ?h = "case fl_handler fl of None \<Rightarrow> [] | Some j \<Rightarrow> [j]"
  have d: "distinct (map jb_task (fl_jobs fl @ ?h))" using I(1) by (simp add: job_list_def)
  have jl: "job_list fl' = put_job i j' (fl_jobs fl) @ ?h" by (simp add: fl' job_list_def)
  note S = set_put_job [OF d i, of j', folded j_def job_list_def, OF R]
  have P: "pipe_inv rand (set (job_list fl')) (fw_ts f')"
    unfolding jl S(1) using ids by (intro pipe_put [OF I(4) run j I(5)]) (simp add: fl')
  have N: "\<forall>k \<in> set (job_list fl'). jb_pc k \<noteq> []"
    using set_put_pc [of "fl_jobs fl"] I(2) by (auto simp: fl' job_list_def)
  have D: "distinct (map jb_task (job_list fl'))" using S(2) by (simp add: jl)
  have "tk_taskType (heap_at (fw_ts f') (jb_task k)) = TaskType_ON_LINE" if h: "fl_handler fl = Some k" for k
  proof -
    have "jb_task k < length (ts_heap (flow_ts fl))" using pipe_invD(2) [OF I(4)] h by (auto simp: places_ok_def job_list_def)
    with types_kept_run [OF I(4) run j] I(3) [OF h] show ?thesis by (simp add: types_kept_def)
  qed
  with P D N show ?thesis by (simp add: flow_inv_def fl')
qed

lemma flow_inv_internal:
  assumes "flow_inv rand fl" and "internal_step E P rand mv fl = Some fl'" and "ids_distinct rand (flow_ts fl')"
  shows "flow_inv rand fl'"
proof (cases mv)
  case Mv_Trigger
  with assms(2) show ?thesis by (auto simp: internal_step_def Let_def intro: flow_inv_trigger [OF assms(1)])
next
  case Mv_Handle
  with assms(1,2) show ?thesis by (auto intro: flow_inv_handle)
next
  case (Mv_Handler devs)
  with assms show ?thesis by (auto intro: flow_inv_handler)
next
  case (Mv_Job i devs)
  with assms show ?thesis by (auto intro: flow_inv_job)
qed

section \<open>Reachable states\<close>

lemma fw_ts_steps:
  "online_step E t step f = Some (acts, f') \<Longrightarrow> fw_ts f' = fw_ts f"
  "offline_step E t step f = Some (acts, f') \<Longrightarrow> fw_ts f' = fw_ts f"
  by (auto simp: online_step_def offline_step_def WaitDisableTaskFinish_def split: task_step.splits if_splits)

lemma exec_grows:
  assumes "exec_action E P rand devs r result a f = Some (result', acts, f')"
  shows "length (ts_heap (fw_ts f)) \<le> length (ts_heap (fw_ts f'))"
  using assms
  by (cases a) (auto simp: exec_action_def Let_def SetTaskState_def EnableTask_end_def DisableTask_end_def SaveEnabledDevice_def
      RemoveEnabledDevice_def RemoveTask_def RemoveTaskInner_def notify_father_def NotifyFatherFinish_def create_grows fw_ts_steps
      split: prod.splits if_splits option.splits)

lemma run_grows: "run_job E P rand devs j f = Some (j', f') \<Longrightarrow> length (ts_heap (fw_ts f)) \<le> length (ts_heap (fw_ts f'))"
  by (erule run_jobD) (rule exec_grows)

lemma internal_grows:
  "internal_step E P rand mv fl = Some fl' \<Longrightarrow> length (ts_heap (flow_ts fl)) \<le> length (ts_heap (flow_ts fl'))"
  by (cases mv) (auto simp: internal_step_def Let_def TriggerTask_def PopTask_def run_grows
      split: list.splits option.splits if_splits)

lemma step_grows: "flow_step junk E P rand fl fl' \<Longrightarrow> length (ts_heap (flow_ts fl)) \<le> length (ts_heap (flow_ts fl'))"
  by (erule flow_stepE) (auto intro: internal_grows spawns_grows spawns_event)

interpretation fwkrun: guarded_system flow_init "flow_step junk E P rand" "\<lambda>fl. ids_distinct rand (flow_ts fl)" "flow_inv rand"
  for junk E P rand
proof
  fix fl fl' assume step: "flow_step junk E P rand fl fl'" and ids: "ids_distinct rand (flow_ts fl')"
  show "ids_distinct rand (flow_ts fl)" using ids step_grows [OF step] by (rule ids_back)
  show "flow_inv rand fl'" if "flow_inv rand fl"
    using step ids that by (auto elim!: flow_stepE intro: flow_inv_env flow_inv_internal)
qed (rule flow_inv_init)

end
