(* ===== verification/DHF_FlowProps.thy ===== *)
theory DHF_FlowProps
  imports DHF_FlowInv "HOL-Library.Multiset"
begin

text \<open>
  What the invariant of the run-time state gives in every reachable state: an offline task clears the
  device only after its children ended, the cast of the father in a disable task is safe, the task of a
  running body exists, the framework is released only when nothing is under way, the internal steps
  terminate and do not block. The concrete instances are in the theory \<open>DHF_Sample\<close>.
\<close>

abbreviation (input) reachable ::
  "dhtype \<Rightarrow> ('w, 'j) env \<Rightarrow> 'c comp_api \<Rightarrow> rand \<Rightarrow> ('w, 'c) flow \<Rightarrow> bool" where
  "reachable junk E P rand \<equiv> reach flow_init (flow_step junk E P rand)"

lemma reachable_inv: "reachable junk E P rand fl \<Longrightarrow> ids_distinct rand (flow_ts fl) \<Longrightarrow> flow_inv rand fl"
  by (rule fwkrun.reach_inv)

section \<open>The offline task and its children\<close>

lemma no_wait_no_children:
  assumes inv: "flow_inv rand fl" and j: "j \<in> set (job_list fl)" and w: "Wait \<notin> set (jb_pc j)"
  shows "tk_unFinishChildrenTasks (heap_at (flow_ts fl) (jb_task j)) = []"
proof (rule ccontr)
  assume "tk_unFinishChildrenTasks (heap_at (flow_ts fl) (jb_task j)) \<noteq> []"
  then obtain i where "i \<in> set (tk_unFinishChildrenTasks (heap_at (flow_ts fl) (jb_task j)))" by (meson last_in_set)
  moreover have "jb_task j < length (ts_heap (flow_ts fl))"
    using pipe_invD(2) [OF flow_invD(4) [OF inv]] j by (auto simp: places_ok_def)
  ultimately obtain k where "k \<in> set (job_list fl)" "jb_task k = jb_task j" "Wait \<in> set (jb_pc k)"
    using pipe_invD(6) [OF flow_invD(4) [OF inv]] unfolding waits_ok_def by blast
  with flow_invD(5) [OF inv] j w show False by (auto dest: inj_onD)
qed

lemma waiting_father:
  assumes inv: "flow_inv rand fl" and j: "j \<in> set (job_list fl)" and n: "NotifyFather \<in> set (jb_pc j)"
    and f: "tk_fatherTask (heap_at (flow_ts fl) (jb_task j)) = Some f"
  shows "tk_taskType (heap_at (flow_ts fl) f) = TaskType_OFF_LINE"
    and "task_id rand (jb_task j) \<in> set (tk_unFinishChildrenTasks (heap_at (flow_ts fl) f))"
    and "\<exists>k \<in> set (job_list fl). jb_task k = f \<and> Wait \<in> set (jb_pc k)"
proof -
  let ?ts = "flow_ts fl"
  note P = pipe_invD [OF flow_invD(4) [OF inv]]
  have r: "jb_task j < length (ts_heap ?ts)" using P(2) j by (auto simp: places_ok_def)
  have "job_ok (heap_at ?ts (jb_task j)) j" using P(3) j by (auto simp: jobs_ok_def)
  from job_ok_mem [OF this n] have "child_type TaskType_OFF_LINE (tk_taskType (heap_at ?ts (jb_task j)))" by (auto simp: prog_mem)
  moreover have "child_type (tk_taskType (heap_at ?ts f)) (tk_taskType (heap_at ?ts (jb_task j)))"
    using P(5) r f by (auto simp: family_ok_def)
  ultimately show off: "tk_taskType (heap_at ?ts f) = TaskType_OFF_LINE" by (auto simp: child_type_def)
  have "pending (set (job_list fl)) ?ts (jb_task j)" using j n by (auto simp: pending_def)
  with P(7) f off show mem: "task_id rand (jb_task j) \<in> set (tk_unFinishChildrenTasks (heap_at ?ts f))"
    unfolding pending_ok_def by blast
  have "f < length (ts_heap ?ts)" using task_sys_okD(5) [OF P(1) r f] .
  with P(6) mem show "\<exists>k \<in> set (job_list fl). jb_task k = f \<and> Wait \<in> set (jb_pc k)" unfolding waits_ok_def by blast
qed

lemma wait_before_remove: "job_ok t j \<Longrightarrow> Wait \<in> set (jb_pc j) \<Longrightarrow> RemoveSelf \<in> set (jb_pc j)"
proof -
  assume ok: "job_ok t j" and w: "Wait \<in> set (jb_pc j)"
  then obtain sp rest where pc: "jb_pc j = sp @ rest" "suffix rest (prog (tk_taskType t))" "list_all (spawn_ok (tk_taskType t)) sp"
    by (auto simp: job_ok_def)
  have "tk_taskType t = TaskType_OFF_LINE" using job_wait_type [OF ok w] .
  moreover have "Wait \<in> set rest" using w spawns_only_kept [OF pc(3), of Wait rest] pc(1) by simp
  ultimately show ?thesis using pc(1,2) by (auto simp: prog_def suffix_Cons)
qed

text \<open>
  A disable task that is about to notify its father has a final state; its father is an
  \<open>OffLineTask\<close>, as the cast in its body takes for granted, and is still there: it is on the board (so the
  weak pointer to it can be locked), it runs, it has its wait ahead, and it waits for this very child.
\<close>

theorem notified_father_waits:
  assumes "reachable junk E P rand fl" and "ids_distinct rand (fw_ts (fl_fw fl))"
    and j: "j \<in> set (job_list fl)" and pc: "jb_pc j = NotifyFather # pc"
    and f: "tk_fatherTask (ts_heap (fw_ts (fl_fw fl)) ! jb_task j) = Some f"
  shows "terminal (tk_taskState (ts_heap (fw_ts (fl_fw fl)) ! jb_task j))
    \<and> tk_taskType (ts_heap (fw_ts (fl_fw fl)) ! f) = TaskType_OFF_LINE
    \<and> smap_get (ts_tasks (fw_ts (fl_fw fl))) (task_id rand f) = Some f
    \<and> task_id rand (jb_task j) \<in> set (tk_unFinishChildrenTasks (ts_heap (fw_ts (fl_fw fl)) ! f))
    \<and> (\<exists>k \<in> set (job_list fl). jb_task k = f \<and> DoStep WAIT_UNREGISTGER_COMPLETE \<in> set (jb_pc k))"
proof -
  have inv: "flow_inv rand fl" using assms(1,2) by (rule reachable_inv)
  note P = pipe_invD [OF flow_invD(4) [OF inv]]
  have ok: "k \<in> set (job_list fl) \<Longrightarrow> job_ok (heap_at (flow_ts fl) (jb_task k)) k" for k using P(3) by (simp add: jobs_ok_def)
  have "suffix (NotifyFather # pc) (prog (tk_taskType (heap_at (flow_ts fl) (jb_task j))))"
    using job_ok_at(1) [OF ok [OF j] pc] by simp
  then have "terminal (tk_taskState (heap_at (flow_ts fl) (jb_task j)))"
    using job_ok_at(2) [OF ok [OF j] pc] by (simp add: prog_at)
  moreover note W = waiting_father [OF inv j _ f]
  have n: "NotifyFather \<in> set (jb_pc j)" by (simp add: pc)
  from W(3) [OF n] obtain k where k: "k \<in> set (job_list fl)" "jb_task k = f" "Wait \<in> set (jb_pc k)" by blast
  then have "on_board rand (flow_ts fl) f" using P(4) wait_before_remove [OF ok] unfolding board_ok_def by blast
  ultimately show ?thesis using W(1,2) [OF n] k by (auto simp: on_board_def)
qed

text \<open>
  Property C3. Once an offline task is past its wait (it removes the device from the online set with the
  wait, clears the device's capabilities, ends and checks for the release), every task it ever created has
  a final state.
\<close>

theorem offline_clears_after_children:
  assumes "reachable junk E P rand fl" and "ids_distinct rand (fw_ts (fl_fw fl))"
    and j: "j \<in> set (job_list fl)" and off: "tk_taskType (ts_heap (fw_ts (fl_fw fl)) ! jb_task j) = TaskType_OFF_LINE"
    and past: "DoStep WAIT_UNREGISTGER_COMPLETE \<notin> set (jb_pc j)"
    and c: "c < length (ts_heap (fw_ts (fl_fw fl)))" "tk_fatherTask (ts_heap (fw_ts (fl_fw fl)) ! c) = Some (jb_task j)"
  shows "terminal (tk_taskState (ts_heap (fw_ts (fl_fw fl)) ! c))"
proof -
  have inv: "flow_inv rand fl" using assms(1,2) by (rule reachable_inv)
  from no_wait_no_children [OF inv j past] pipe_invD(5) [OF flow_invD(4) [OF inv]] off c show ?thesis
    by (auto simp: family_ok_def)
qed

section \<open>The board\<close>

lemma past_removal:
  assumes ok: "job_ok t j" and ne: "jb_pc j \<noteq> []" and rem: "RemoveSelf \<notin> set (jb_pc j)"
  shows "jb_pc j = [CheckUnInit] \<and> tk_taskType t = TaskType_OFF_LINE"
proof -
  from ok obtain sp rest where pc: "jb_pc j = sp @ rest" and suf: "suffix rest (prog (tk_taskType t))"
    and sp: "sp \<noteq> [] \<longrightarrow> RemoveSelf \<in> set rest"
    unfolding job_ok_def by blast
  have "rest = [] \<or> rest = [CheckUnInit] \<and> tk_taskType t = TaskType_OFF_LINE"
    using suf rem pc by (cases "tk_taskType t") (auto simp: prog_def suffix_Cons)
  with pc sp rem ne show ?thesis by auto
qed

text \<open>
  The task whose body runs is held by the board, so that the object the body works on (the
  thread pool's closure has a plain pointer to it) exists; only the check at the end of an offline task
  runs after the task has left the board, and it does not use the object.
\<close>

theorem running_task_is_held:
  assumes "reachable junk E P rand fl" and "ids_distinct rand (fw_ts (fl_fw fl))" and j: "j \<in> set (job_list fl)"
  shows "smap_get (ts_tasks (fw_ts (fl_fw fl))) (task_id rand (jb_task j)) = Some (jb_task j) \<or> jb_pc j = [CheckUnInit]"
proof -
  have inv: "flow_inv rand fl" using assms(1,2) by (rule reachable_inv)
  note P = pipe_invD [OF flow_invD(4) [OF inv]]
  have "job_ok (heap_at (flow_ts fl) (jb_task j)) j" using P(3) j by (simp add: jobs_ok_def)
  from past_removal [OF this flow_invD(2) [OF inv j]] P(4) j show ?thesis by (auto simp: board_ok_def on_board_def)
qed

text \<open>
  When the board is empty, which is when an offline task may release the framework, nothing
  is queued or posted, and every body that still runs is an offline task with nothing left but this check.
\<close>

theorem empty_board_is_quiet:
  assumes "reachable junk E P rand fl" and "ids_distinct rand (fw_ts (fl_fw fl))" and empty: "IsAllTaskFinish (fw_ts (fl_fw fl))"
  shows "ts_taskQueue (fw_ts (fl_fw fl)) = [] \<and> ts_posted (fw_ts (fl_fw fl)) = []
    \<and> list_all (\<lambda>j. jb_pc j = [CheckUnInit] \<and> tk_taskType (ts_heap (fw_ts (fl_fw fl)) ! jb_task j) = TaskType_OFF_LINE) (job_list fl)"
proof -
  let ?ts = "flow_ts fl"
  have inv: "flow_inv rand fl" using assms(1,2) by (rule reachable_inv)
  note P = pipe_invD [OF flow_invD(4) [OF inv]]
  have nb: "\<not> on_board rand ?ts r" for r using empty by (simp add: IsAllTaskFinish_def on_board_def smap_get_def)
  have "r \<notin> set (ts_taskQueue ?ts) \<union> set (ts_posted ?ts)" for r using P(4) nb by (auto simp: board_ok_def)
  then have "ts_taskQueue ?ts = [] \<and> ts_posted ?ts = []" by (metis UnI1 UnI2 last_in_set)
  moreover have "jb_pc j = [CheckUnInit] \<and> tk_taskType (heap_at ?ts (jb_task j)) = TaskType_OFF_LINE" if j: "j \<in> set (job_list fl)" for j
  proof (rule past_removal)
    show "job_ok (heap_at ?ts (jb_task j)) j" using P(3) j by (simp add: jobs_ok_def)
    show "RemoveSelf \<notin> set (jb_pc j)" using P(4) nb j unfolding board_ok_def by blast
  qed (rule flow_invD(2) [OF inv j])
  ultimately show ?thesis by (simp add: list_all_iff)
qed

section \<open>Progress\<close>

text \<open>Every task on the board is queued, posted or has a body: none was dropped by a full queue.\<close>

definition none_dropped :: "('w, 'c) flow \<Rightarrow> bool" where
  "none_dropped fl \<longleftrightarrow> list_all (\<lambda>(k, r). r \<in> set (ts_taskQueue (fw_ts (fl_fw fl))) \<or> r \<in> set (ts_posted (fw_ts (fl_fw fl)))
     \<or> r \<in> jb_task ` set (job_list fl)) (ts_tasks (fw_ts (fl_fw fl)))"

text \<open>A body can always act, except an offline task at its wait with children that have not notified it.\<close>

lemma run_blocked:
  assumes ok: "job_ok (heap_at (fw_ts f) (jb_task j)) j" and pc: "jb_pc j \<noteq> []" and blocked: "run_job E P rand devs j f = None"
  shows "tk_taskType (heap_at (fw_ts f) (jb_task j)) = TaskType_OFF_LINE
    \<and> tk_unFinishChildrenTasks (heap_at (fw_ts f) (jb_task j)) \<noteq> []"
proof -
  from pc obtain a rest where a: "jb_pc j = a # rest" by (cases "jb_pc j") auto
  with blocked have no: "exec_action E P rand devs (jb_task j) (jb_ret j) a f = None" by (simp add: run_job_def)
  then obtain s where s: "a = DoStep s" by (cases a) (auto simp: exec_action_def Let_def split: prod.splits)
  from no s have "tk_taskType (heap_at (fw_ts f) (jb_task j)) \<noteq> TaskType_ON_LINE
      \<and> s = WAIT_UNREGISTGER_COMPLETE \<and> tk_unFinishChildrenTasks (heap_at (fw_ts f) (jb_task j)) \<noteq> []"
    by (auto simp: exec_action_def Let_def online_step_def offline_step_def WaitDisableTaskFinish_def
        split: task_step.splits if_splits)
  moreover have "suffix (Wait # rest) (prog (tk_taskType (heap_at (fw_ts f) (jb_task j))))"
    using calculation job_ok_at(1) [OF ok a] s by simp
  ultimately show ?thesis by (simp add: prog_at)
qed

lemma blocked_shape:
  assumes inv: "flow_inv rand fl" and stuck: "\<forall>mv. internal_step E P rand mv fl = None"
  shows "ts_taskQueue (flow_ts fl) = []" and "ts_posted (flow_ts fl) = []"
    and "j \<in> set (job_list fl) \<Longrightarrow> tk_taskType (heap_at (flow_ts fl) (jb_task j)) = TaskType_OFF_LINE
       \<and> tk_unFinishChildrenTasks (heap_at (flow_ts fl) (jb_task j)) \<noteq> []"
proof -
  note P = pipe_invD [OF flow_invD(4) [OF inv]]
  have ok: "j \<in> set (job_list fl) \<Longrightarrow> job_ok (heap_at (flow_ts fl) (jb_task j)) j" for j using P(3) by (simp add: jobs_ok_def)
  have "internal_step E P rand Mv_Trigger fl = None" using stuck by blast
  then show "ts_taskQueue (flow_ts fl) = []"
    by (auto simp: internal_step_def Let_def TriggerTask_def PopTask_def split: list.splits)
  have h: "fl_handler fl = None"
  proof (rule ccontr)
    assume "fl_handler fl \<noteq> None"
    then obtain j where h: "fl_handler fl = Some j" by auto
    then have j: "j \<in> set (job_list fl)" by (simp add: job_list_def)
    have "internal_step E P rand (Mv_Handler []) fl = None" using stuck by blast
    then have "run_job E P rand [] j (fl_fw fl) = None" by (simp add: internal_step_def h)
    from run_blocked [OF ok [OF j] flow_invD(2) [OF inv j] this] flow_invD(3) [OF inv h] show False by simp
  qed
  have "internal_step E P rand Mv_Handle fl = None" using stuck by blast
  with h show "ts_posted (flow_ts fl) = []" by (auto simp: internal_step_def Let_def split: list.splits if_splits)
  assume j: "j \<in> set (job_list fl)"
  with h obtain i where i: "i < length (fl_jobs fl)" "fl_jobs fl ! i = j" by (auto simp: job_list_def in_set_conv_nth)
  have "internal_step E P rand (Mv_Job i []) fl = None" using stuck by blast
  with i have "run_job E P rand [] j (fl_fw fl) = None" by (simp add: internal_step_def)
  from run_blocked [OF ok [OF j] flow_invD(2) [OF inv j] this]
  show "tk_taskType (heap_at (flow_ts fl) (jb_task j)) = TaskType_OFF_LINE
     \<and> tk_unFinishChildrenTasks (heap_at (flow_ts fl) (jb_task j)) \<noteq> []" .
qed

text \<open>
  Property C4. The framework does not block by itself: as long as a task is on the board, and no task was
  dropped by a full queue, some thread can make a move without any further event from outside.
\<close>

theorem no_deadlock:
  assumes "reachable junk E P rand fl" and "ids_distinct rand (fw_ts (fl_fw fl))" and "none_dropped fl"
    and busy: "\<not> IsAllTaskFinish (fw_ts (fl_fw fl))"
  shows "\<exists>mv fl'. internal_step E P rand mv fl = Some fl'"
proof (rule ccontr)
  let ?ts = "flow_ts fl"
  assume "\<not> (\<exists>mv fl'. internal_step E P rand mv fl = Some fl')"
  then have stuck: "\<forall>mv. internal_step E P rand mv fl = None" by auto
  have inv: "flow_inv rand fl" using assms(1,2) by (rule reachable_inv)
  note P = pipe_invD [OF flow_invD(4) [OF inv]] and B = blocked_shape [OF inv stuck]
  have srt: "smap_sorted (ts_tasks ?ts)" using P(1) by (simp add: task_sys_ok_def)
  have bodies: "\<exists>j \<in> set (job_list fl). jb_task j = r" if "(k, r) \<in> set (ts_tasks ?ts)" for k r
    using assms(3) that B(1,2) by (auto simp: none_dropped_def list_all_iff)
  from busy obtain k r where "(k, r) \<in> set (ts_tasks ?ts)" by (cases "ts_tasks ?ts") (auto simp: IsAllTaskFinish_def)
  from bodies [OF this] obtain j where j: "j \<in> set (job_list fl)" by blast
  have "tk_unFinishChildrenTasks (heap_at ?ts (jb_task j)) \<noteq> []" and off: "tk_taskType (heap_at ?ts (jb_task j)) = TaskType_OFF_LINE"
    using B(3) [OF j] by simp_all
  moreover have "jb_task j < length (ts_heap ?ts)" using P(2) j by (simp add: places_ok_def)
  ultimately obtain c where c: "c < length (ts_heap ?ts)" "tk_fatherTask (heap_at ?ts c) = Some (jb_task j)" "on_board rand ?ts c"
    using P(6) unfolding waits_ok_def by (meson last_in_set)
  have "(task_id rand c, c) \<in> set (ts_tasks ?ts)" using c(3) srt by (simp add: on_board_def smap_get_iff)
  from bodies [OF this] obtain k where k: "k \<in> set (job_list fl)" "jb_task k = c" by blast
  have "child_type TaskType_OFF_LINE (tk_taskType (heap_at ?ts c))" using P(5) c off by (auto simp: family_ok_def)
  with B(3) [OF k(1)] k(2) show False by (simp add: child_type_def)
qed

section \<open>Termination\<close>

text \<open>
  What holds in every reachable state whatever identifiers were drawn: the tasks of the queues and the bodies are in
  the heap, and no body has a creation of an online or offline task ahead.
\<close>

definition line_type :: "task_type \<Rightarrow> bool" where
  "line_type tt \<longleftrightarrow> tt = TaskType_ON_LINE \<or> tt = TaskType_OFF_LINE"

definition spawn_fits :: "action \<Rightarrow> bool" where
  "spawn_fits a \<longleftrightarrow> (\<forall>k p. a = Spawn k p \<longrightarrow> \<not> line_type k \<and> k \<noteq> TaskType_UNKNOWN)"

definition job_fits :: "task_sys \<Rightarrow> job \<Rightarrow> bool" where
  "job_fits ts j \<longleftrightarrow> jb_task j < length (ts_heap ts) \<and> list_all spawn_fits (jb_pc j)"

definition shape_ok :: "rand \<Rightarrow> ('w, 'c) flow \<Rightarrow> bool" where
  "shape_ok rand fl \<longleftrightarrow> task_sys_ok rand (flow_ts fl) \<and> (\<forall>j\<in>set (job_list fl). job_fits (flow_ts fl) j)"

lemma step_acts:
  assumes "online_step E t s f = Some (acts, f') \<or> offline_step E t s f = Some (acts, f')" and "b \<in> set acts"
  shows "spawn_fits b \<and> (\<exists>k p. b = Spawn k p)"
  using assms
  by (auto simp: online_step_def offline_step_def CreateEnableTask_def CreateMetaEnableTask_def CreateDisableTask_def
      CreateMetaDisableTask_def spawn_fits_def line_type_def split: task_step.splits if_splits)

text \<open>What one action does to the shape.\<close>

lemma exec_acts:
  assumes "exec_action E P rand devs r result a f = Some (result', acts, f')"
  shows "list_all spawn_fits acts" "b \<in> set acts \<Longrightarrow> (\<exists>s. a = DoStep s) \<and> (\<exists>k p. b = Spawn k p)"
proof -
  have "acts = [] \<or> (\<exists>s t. a = DoStep s \<and> (online_step E t s f = Some (acts, f') \<or> offline_step E t s f = Some (acts, f')))"
    using assms by (cases a) (auto simp: exec_action_def Let_def split: prod.splits if_splits)
  then show "list_all spawn_fits acts" "b \<in> set acts \<Longrightarrow> (\<exists>s. a = DoStep s) \<and> (\<exists>k p. b = Spawn k p)"
    using step_acts by (fastforce simp: list_all_iff)+
qed

lemma exec_shape:
  assumes ok: "task_sys_ok rand (fw_ts f)" and r: "r < length (ts_heap (fw_ts f))" and fits: "spawn_fits a"
    and ex: "exec_action E P rand devs r result a f = Some (result', acts, f')"
  shows "task_sys_ok rand (fw_ts f') \<and> types_kept (fw_ts f) (fw_ts f')"
proof -
  consider (plain) "plain a" | (step) s where "a = DoStep s" | (spawn) k p where "a = Spawn k p"
    | (notify) "a = NotifyFather" | (remove) "a = RemoveSelf"
    unfolding plain_def by blast
  then show ?thesis
  proof cases
    case plain
    from plain_action(2,3) [OF plain ex r ok] show ?thesis by (auto simp: types_kept_def own_changeD)
  next
    case step
    then have "fw_ts f' = fw_ts f" using ex by (auto simp: exec_action_def Let_def fw_ts_steps split: if_splits)
    with ok show ?thesis by (simp add: types_kept_def)
  next
    case spawn
    with fits have "k \<noteq> TaskType_UNKNOWN" by (simp add: spawn_fits_def)
    with ex r ok spawn show ?thesis by (auto simp: exec_action_def intro!: types_kept_create create_and_push_ok)
  next
    case notify
    with ex have "fw_ts f' = notify_father (heap_at (fw_ts f) r) (fw_ts f)" by (auto simp: exec_action_def Let_def)
    with notify_unwaits [OF ok r] show ?thesis by (auto simp: types_kept_def unwaitsD)
  next
    case remove
    with ex ok show ?thesis
      by (auto simp: exec_action_def types_kept_def task_sys_ok_board) (simp_all add: RemoveTask_def RemoveTaskInner_def)
  qed
qed

lemma job_fits_kept: "types_kept ts ts' \<Longrightarrow> job_fits ts j \<Longrightarrow> job_fits ts' j"
  by (auto simp: job_fits_def types_kept_def)

lemma run_shape:
  assumes ok: "task_sys_ok rand (fw_ts f)" and j: "job_fits (fw_ts f) j" and run: "run_job E P rand devs j f = Some (j', f')"
  shows "task_sys_ok rand (fw_ts f')" "types_kept (fw_ts f) (fw_ts f')" "job_fits (fw_ts f') j'"
proof -
  from run obtain a pc result acts where pc: "jb_pc j = a # pc"
    and ex: "exec_action E P rand devs (jb_task j) (jb_ret j) a f = Some (result, acts, f')"
    and j': "j' = j\<lparr>jb_ret := result, jb_pc := acts @ pc\<rparr>" by (rule run_jobD)
  from j pc have r: "jb_task j < length (ts_heap (fw_ts f))" and fits: "spawn_fits a" by (simp_all add: job_fits_def)
  note shape = exec_shape [OF ok r fits ex]
  then show "task_sys_ok rand (fw_ts f')" "types_kept (fw_ts f) (fw_ts f')" by blast+
  have "job_fits (fw_ts f) j'" using j pc exec_acts(1) [OF ex] by (simp add: job_fits_def j')
  with shape show "job_fits (fw_ts f') j'" using job_fits_kept by blast
qed

lemma spawns_ok: "spawns A rand ts ts' \<Longrightarrow> task_sys_ok rand ts \<Longrightarrow> task_sys_ok rand ts'"
  by (induction rule: spawns.induct) (auto intro: create_and_push_ok)

lemma program_fits: "list_all spawn_fits (program t)"
  by (cases "tk_taskType t") (auto simp: program_def spawn_fits_def list_all_iff)

lemma shape_env:
  assumes "shape_ok rand fl"
  shows "shape_ok rand (fl\<lparr>fl_fw := env_event junk E P rand ev (fl_fw fl)\<rparr>)"
proof -
  note sp = spawns_event [of ev rand "fl_fw fl" junk E P]
  have "types_kept (flow_ts fl) (fw_ts (env_event junk E P rand ev (fl_fw fl)))" by (rule types_kept_spawns [OF sp event_types_known])
  with assms spawns_ok [OF sp] show ?thesis by (auto simp: shape_ok_def job_list_def intro: job_fits_kept)
qed

lemma put_job_jobs: "k \<in> set (put_job i j js) \<Longrightarrow> k = j \<or> k \<in> set js"
  using set_update_subset_insert [of js i j] by (auto simp: put_job_def dest: in_set_takeD in_set_dropD split: if_splits)

lemma shape_internal:
  assumes shape: "shape_ok rand fl" and step: "internal_step E P rand mv fl = Some fl'"
  shows "shape_ok rand fl'"
proof -
  have ok: "task_sys_ok rand (flow_ts fl)" and fits: "j \<in> set (job_list fl) \<Longrightarrow> job_fits (flow_ts fl) j" for j
    using shape by (auto simp: shape_ok_def)
  have moved: "shape_ok rand fl'"
    if "j \<in> set (job_list fl)" "run_job E P rand devs j (fl_fw fl) = Some (j', fl_fw fl')" "set (job_list fl') \<subseteq> insert j' (set (job_list fl))" for j j' devs
    using run_shape [OF ok fits that(2)] that fits by (auto simp: shape_ok_def intro: job_fits_kept)
  show ?thesis
  proof (cases mv)
    case Mv_Trigger
    with step obtain ts where ts: "TriggerTask (flow_ts fl) = Some ts" and fl': "fl' = fl\<lparr>fl_fw := (fl_fw fl)\<lparr>fw_ts := ts\<rparr>\<rparr>"
      by (auto simp: internal_step_def Let_def)
    have "ts_heap ts = ts_heap (flow_ts fl)" using ts by (auto simp: TriggerTask_def PopTask_def split: list.splits)
    with task_sys_ok_trigger [OF ok ts] shape show ?thesis by (auto simp: shape_ok_def fl' job_list_def job_fits_def)
  next
    case Mv_Handle
    with step obtain r q where p: "ts_posted (flow_ts fl) = r # q"
      and jl: "job_list fl' = job_list fl @ [start_job r (flow_ts fl)]" and ts': "flow_ts fl' = (flow_ts fl)\<lparr>ts_posted := q\<rparr>"
      by (auto simp: internal_step_def Let_def job_list_def split: list.splits option.splits if_splits)
    have "task_sys_ok rand (flow_ts fl')" "r < length (ts_heap (flow_ts fl))" using ok by (auto simp: ts' task_sys_ok_def p)
    then show ?thesis using fits program_fits by (auto simp: shape_ok_def jl job_fits_def start_job_def ts')
  next
    case (Mv_Handler devs)
    with step obtain j j' where "fl_handler fl = Some j" "run_job E P rand devs j (fl_fw fl) = Some (j', fl_fw fl')"
      "fl_jobs fl' = fl_jobs fl" "fl_handler fl' = (if jb_pc j' = [] then None else Some j')"
      by (auto simp: internal_step_def Let_def split: option.splits)
    then show ?thesis by (intro moved [of j devs j']) (auto simp: job_list_def)
  next
    case (Mv_Job i devs)
    with step obtain j' where i: "i < length (fl_jobs fl)" and run: "run_job E P rand devs (fl_jobs fl ! i) (fl_fw fl) = Some (j', fl_fw fl')"
      and fl': "fl_jobs fl' = put_job i j' (fl_jobs fl)" "fl_handler fl' = fl_handler fl"
      by (auto simp: internal_step_def Let_def split: if_splits)
    have "set (job_list fl') \<subseteq> insert j' (set (job_list fl))" by (auto simp: job_list_def fl' dest: put_job_jobs)
    with i run show ?thesis by (intro moved) (auto simp: job_list_def)
  qed
qed

interpretation fwkshape: guarded_system flow_init "flow_step junk E P rand" "\<lambda>fl. True" "shape_ok rand" for junk E P rand
proof
  show "flow_init fl \<Longrightarrow> shape_ok rand fl" for fl
    by (simp add: flow_init_def shape_ok_def job_list_def task_sys_ok_new)
qed (auto elim!: flow_stepE intro: shape_env shape_internal)

text \<open>
  The work that is left, as a multiset of ranks. Each piece of work is replaced by pieces of smaller rank: a queued task
  by a posted one, that by the actions of its body; the check at the end of an offline task by the threads that
  it may start, one for each trusted device; such a thread by a queued online task; a step of an online or offline
  task by creations, and a creation by a queued task of another type, whose body creates nothing.
\<close>

fun act_rank :: "action \<Rightarrow> nat" where
  "act_rank CheckUnInit = 8"
| "act_rank (DoStep s) = 4"
| "act_rank (Spawn k p) = 3"
| "act_rank _ = 0"

definition posted_rank :: "task_sys \<Rightarrow> nat \<Rightarrow> nat" where
  "posted_rank ts r = (case tk_taskType (heap_at ts r) of TaskType_OFF_LINE \<Rightarrow> 9 | TaskType_ON_LINE \<Rightarrow> 5 | _ \<Rightarrow> 1)"

definition queue_rank :: "task_sys \<Rightarrow> nat \<Rightarrow> nat" where
  "queue_rank ts r = Suc (posted_rank ts r)"

definition waiting_work :: "task_sys \<Rightarrow> nat multiset" where
  "waiting_work ts = mset (map (queue_rank ts) (ts_taskQueue ts)) + mset (map (posted_rank ts) (ts_posted ts))"

definition send_work :: "('w, 'c) fwk \<Rightarrow> nat multiset" where
  "send_work f = replicate_mset (length (fw_sendThreads f)) 7"

definition body_work :: "job list \<Rightarrow> nat multiset" where
  "body_work js = mset (concat (map (\<lambda>j. map act_rank (jb_pc j)) js))"

definition work :: "('w, 'c) flow \<Rightarrow> nat multiset" where
  "work fl = waiting_work (flow_ts fl) + send_work (fl_fw fl) + body_work (job_list fl)"

lemma waiting_work_kept:
  assumes "types_kept ts ts'" and "task_sys_ok rand ts" and "ts_taskQueue ts' = ts_taskQueue ts" and "ts_posted ts' = ts_posted ts"
  shows "waiting_work ts' = waiting_work ts"
proof -
  have "r \<in> set (ts_taskQueue ts) \<union> set (ts_posted ts) \<Longrightarrow> tk_taskType (heap_at ts' r) = tk_taskType (heap_at ts r)" for r
    using assms(1,2) by (auto simp: types_kept_def task_sys_ok_def)
  then show ?thesis
    by (auto simp: waiting_work_def assms(3,4) queue_rank_def posted_rank_def intro!: arg_cong2 [where f = "(+)"] image_mset_cong)
qed

lemma waiting_work_push:
  "waiting_work (PushTask (Some r) ts) =
     (if length (ts_taskQueue ts) > MAX_TASK_QUEUE_LENGTH then waiting_work ts else waiting_work ts + {#queue_rank ts r#})"
proof -
  have "queue_rank (ts\<lparr>ts_taskQueue := q\<rparr>) = queue_rank ts" "posted_rank (ts\<lparr>ts_taskQueue := q\<rparr>) = posted_rank ts" for q
    by (simp_all add: queue_rank_def posted_rank_def fun_eq_iff)
  then show ?thesis by (simp add: PushTask_def waiting_work_def)
qed

text \<open>A creation adds the new task's rank, or nothing when the queue is full.\<close>

lemma waiting_work_create:
  assumes ok: "task_sys_ok rand ts" and k: "k \<noteq> TaskType_UNKNOWN" and f: "\<forall>f. father = Some f \<longrightarrow> f < length (ts_heap ts)"
    and m: "(case k of TaskType_OFF_LINE \<Rightarrow> 10 | TaskType_ON_LINE \<Rightarrow> 6 | _ \<Rightarrow> 2) < m"
  shows "\<exists>K. waiting_work (create_and_push rand k p father ts) = waiting_work ts + K \<and> (\<forall>n\<in>#K. n < m)"
proof -
  define ts1 where "ts1 = snd (CreateTask rand k p father ts)"
  have push: "create_and_push rand k p father ts = PushTask (Some (length (ts_heap ts))) ts1"
    by (simp add: create_and_push_Push [OF k] ts1_def)
  have "types_kept ts ts1" using types_kept_create [OF k f, of rand p] by (simp add: types_kept_def push)
  then have w: "waiting_work ts1 = waiting_work ts" by (rule waiting_work_kept [OF _ ok]) (simp_all add: ts1_def)
  have "tk_taskType (heap_at ts1 (length (ts_heap ts))) = k"
    using create_heap(2) [OF k f, of rand p] k by (simp add: ts1_def create_and_push_Push)
  then have "queue_rank ts1 (length (ts_heap ts)) = (case k of TaskType_OFF_LINE \<Rightarrow> 10 | TaskType_ON_LINE \<Rightarrow> 6 | _ \<Rightarrow> 2)"
    by (cases k) (simp_all add: queue_rank_def posted_rank_def)
  with m show ?thesis unfolding push waiting_work_push w by (auto intro: exI [of _ "{#}"] exI [of _ "{#queue_rank ts1 (length (ts_heap ts))#}"])
qed

lemma body_work_put:
  assumes "i < length js"
  shows "body_work (put_job i j' js @ hs) + mset (map act_rank (jb_pc (js ! i)))
       = body_work (js @ hs) + mset (map act_rank (jb_pc j'))"
proof -
  have "js = take i js @ js ! i # drop (Suc i) js" using assms by (simp add: id_take_nth_drop)
  then have "body_work (js @ hs) = body_work (take i js) + mset (map act_rank (jb_pc (js ! i))) + body_work (drop (Suc i) js) + body_work hs"
    unfolding body_work_def by (metis (no_types, lifting) concat_append mset_append map_append append.assoc concat.simps(2) list.simps(9) append_Cons union_assoc)
  moreover have "body_work (put_job i j' js @ hs) = body_work (take i js) + mset (map act_rank (jb_pc j')) + body_work (drop (Suc i) js) + body_work hs"
    using assms by (simp add: body_work_def put_job_def upd_conv_take_nth_drop)
  ultimately show ?thesis by (simp add: ac_simps)
qed

text \<open>Only the check at the end of an offline task starts threads, and only such a thread goes away.\<close>

lemma fw_send_frame [simp]:
  "fw_sendThreads (upd_cx g f) = fw_sendThreads f" "fw_sendThreads (upd_ts h f) = fw_sendThreads f"
  "fw_sendThreads (DoSyncInfo E t f) = fw_sendThreads f" "fw_sendThreads (ClearOffLineInfo E t f) = fw_sendThreads f"
  "fw_sendThreads (snd (LocalInit E P f)) = fw_sendThreads f" "fw_sendThreads (snd (Release E P f)) = fw_sendThreads f"
  "fw_sendThreads (ExitDHFWK f) = fw_sendThreads f"
  by (simp_all add: upd_cx_def upd_ts_def DoSyncInfo_def ClearOffLineInfo_def LocalInit_def Release_def ExitDHFWK_def Let_def)

lemma fw_send_Init [simp]: "fw_sendThreads (snd (Factory_Init E P f)) = fw_sendThreads f"
  by (simp add: Initialize_def Factory_Init_def Let_def case_prod_unfold)

lemma exec_send:
  assumes "exec_action E P rand devs r result a f = Some (result', acts, f')"
  shows "\<exists>n. length (fw_sendThreads f') = length (fw_sendThreads f) + n \<and> (n > 0 \<longrightarrow> a = CheckUnInit)"
proof (cases a)
  case CheckUnInit
  then have "f' = offline_end E P devs f" using assms by (simp add: exec_action_def)
  then show ?thesis using CheckUnInit by (auto simp: offline_end_def Factory_UnInit_def CheckExitSAOrNot_def Let_def)
next
  case (DoStep s)
  then show ?thesis using assms
    by (auto simp: exec_action_def Let_def online_step_def offline_step_def WaitDisableTaskFinish_def split: if_splits task_step.splits)
qed (use assms in \<open>auto simp: exec_action_def Let_def split: prod.splits\<close>)

text \<open>One action replaces its own rank by smaller ones.\<close>

lemma exec_work:
  assumes ok: "task_sys_ok rand (fw_ts f)" and r: "r < length (ts_heap (fw_ts f))" and fits: "spawn_fits a"
    and ex: "exec_action E P rand devs r result a f = Some (result', acts, f')"
  shows "\<exists>K. waiting_work (fw_ts f') = waiting_work (fw_ts f) + K \<and> (\<forall>k\<in>#K. k < act_rank a)"
proof -
  have same: ?thesis if "ts_taskQueue (fw_ts f') = ts_taskQueue (fw_ts f)" "ts_posted (fw_ts f') = ts_posted (fw_ts f)"
    using waiting_work_kept [OF conjunct2 [OF exec_shape [OF assms]] ok that] by (intro exI [of _ "{#}"]) simp
  consider (plain) "plain a" | (step) s where "a = DoStep s" | (spawn) k p where "a = Spawn k p"
    | (notify) "a = NotifyFather" | (remove) "a = RemoveSelf"
    unfolding plain_def by blast
  then show ?thesis
  proof cases
    case plain
    from own_changeD(3,4) [OF plain_action(2) [OF plain ex r ok]] show ?thesis by (rule same)
  next
    case step
    then have "fw_ts f' = fw_ts f" using ex by (auto simp: exec_action_def Let_def fw_ts_steps split: if_splits)
    then show ?thesis by (intro same) simp_all
  next
    case spawn
    with fits have k: "\<not> line_type k" "k \<noteq> TaskType_UNKNOWN" by (simp_all add: spawn_fits_def)
    have "fw_ts f' = create_and_push rand k p (Some r) (fw_ts f)" using ex by (auto simp: spawn exec_action_def)
    moreover have "(case k of TaskType_OFF_LINE \<Rightarrow> 10 | TaskType_ON_LINE \<Rightarrow> 6 | _ \<Rightarrow> 2) < act_rank a"
      using k(1) by (cases k) (simp_all add: spawn line_type_def)
    ultimately show ?thesis using waiting_work_create [OF ok k(2), of "Some r" "act_rank a" p] r by simp
  next
    case notify
    with ex have "fw_ts f' = notify_father (heap_at (fw_ts f) r) (fw_ts f)" by (auto simp: exec_action_def Let_def)
    with notify_unwaits(1) [OF ok r] show ?thesis by (intro same) (auto simp: unwaitsD)
  next
    case remove
    with ex show ?thesis by (intro same) (auto simp: exec_action_def RemoveTask_def RemoveTaskInner_def)
  qed
qed

lemma run_work:
  assumes ok: "task_sys_ok rand (fw_ts f)" and j: "job_fits (fw_ts f) j" and run: "run_job E P rand devs j f = Some (j', f')"
  shows "\<exists>a pc K. jb_pc j = a # pc \<and> (\<forall>k \<in># K. k < act_rank a)
    \<and> waiting_work (fw_ts f') + send_work f' + mset (map act_rank (jb_pc j')) = waiting_work (fw_ts f) + send_work f + mset (map act_rank pc) + K"
proof -
  from run obtain a pc result acts where pc: "jb_pc j = a # pc"
    and ex: "exec_action E P rand devs (jb_task j) (jb_ret j) a f = Some (result, acts, f')"
    and j': "j' = j\<lparr>jb_ret := result, jb_pc := acts @ pc\<rparr>" by (rule run_jobD)
  from j pc have r: "jb_task j < length (ts_heap (fw_ts f))" and fits: "spawn_fits a" by (simp_all add: job_fits_def)
  from exec_work [OF ok r fits ex] obtain W where W: "waiting_work (fw_ts f') = waiting_work (fw_ts f) + W" "\<forall>k\<in>#W. k < act_rank a" by blast
  from exec_send [OF ex] obtain n where n: "length (fw_sendThreads f') = length (fw_sendThreads f) + n" "n > 0 \<longrightarrow> a = CheckUnInit" by blast
  have S: "send_work f' = send_work f + replicate_mset n 7" by (simp add: send_work_def n(1) multiset_eq_iff)
  have "\<forall>k\<in>#replicate_mset n 7. k < act_rank a" using n(2) by (cases n) auto
  moreover have "\<forall>k\<in>#mset (map act_rank acts). k < act_rank a" using exec_acts(2) [OF ex] by fastforce
  ultimately show ?thesis using W pc S
    by (intro exI [of _ a] exI [of _ pc] exI [of _ "W + replicate_mset n 7 + mset (map act_rank acts)"]) (auto simp: j' ac_simps)
qed

lemma work_step:
  assumes K: "\<forall>k \<in># K. k < n" and "w' = I + K" and "w = I + {#n#}"
  shows "(w', w) \<in> mult less_than"
  unfolding assms(2,3) using K by (intro one_step_implies_mult) auto

lemma work_run:
  assumes shape: "shape_ok rand fl" and run: "run_job E P rand devs j (fl_fw fl) = Some (j', f')" and j: "j \<in> set (job_list fl)"
    and B: "B' + mset (map act_rank (jb_pc j)) = body_work (job_list fl) + mset (map act_rank (jb_pc j'))"
  shows "(waiting_work (fw_ts f') + send_work f' + B', work fl) \<in> mult less_than"
proof -
  have "task_sys_ok rand (flow_ts fl)" "job_fits (flow_ts fl) j" using shape j by (auto simp: shape_ok_def)
  from run_work [OF this run] obtain a pc K where pc: "jb_pc j = a # pc" and K: "\<forall>k \<in># K. k < act_rank a"
    and w: "waiting_work (fw_ts f') + send_work f' + mset (map act_rank (jb_pc j'))
      = waiting_work (flow_ts fl) + send_work (fl_fw fl) + mset (map act_rank pc) + K"
    by blast
  let ?P = "mset (map act_rank pc)" and ?j = "mset (map act_rank (jb_pc j'))" and ?B = "body_work (job_list fl)"
    and ?W = "waiting_work (fw_ts f') + send_work f'"
  have "?W + B' + add_mset (act_rank a) ?P = ?W + ?j + ?B"
    using B by (simp add: pc ac_simps)
  also have "\<dots> = waiting_work (flow_ts fl) + send_work (fl_fw fl) + ?P + K + ?B" by (simp only: w)
  finally have "?W + B' + {#act_rank a#} = work fl + K"
    by (simp add: work_def ac_simps)
  then have eq: "work fl + K = ?W + B' + {#act_rank a#}" by simp
  have "act_rank a \<notin># K" using K by auto
  then have "act_rank a \<in># work fl" using eq by (metis union_iff union_single_eq_member add_mset_add_single)
  then obtain I where I: "work fl = I + {#act_rank a#}" by (metis add_mset_add_single insert_DiffM)
  with eq have "?W + B' = I + K" by (simp add: ac_simps)
  with K I show ?thesis by (rule_tac work_step)
qed

lemma start_ranks: "\<forall>k \<in># mset (map act_rank (jb_pc (start_job r ts))). k < posted_rank ts r"
  by (cases "tk_taskType (heap_at ts r)") (auto simp: start_job_def program_def posted_rank_def)

lemma internal_work:
  assumes shape: "shape_ok rand fl" and step: "internal_step E P rand mv fl = Some fl'"
  shows "(work fl', work fl) \<in> mult less_than"
proof (cases mv)
  case Mv_Trigger
  with step obtain r q where q: "ts_taskQueue (flow_ts fl) = r # q"
    and fl': "fl' = fl\<lparr>fl_fw := (fl_fw fl)\<lparr>fw_ts := (flow_ts fl)\<lparr>ts_taskQueue := q, ts_posted := ts_posted (flow_ts fl) @ [r]\<rparr>\<rparr>\<rparr>"
    by (auto simp: internal_step_def Let_def TriggerTask_def PopTask_def split: list.splits)
  have same: "queue_rank (flow_ts fl') = queue_rank (flow_ts fl)" "posted_rank (flow_ts fl') = posted_rank (flow_ts fl)"
    "job_list fl' = job_list fl" "send_work (fl_fw fl') = send_work (fl_fw fl)" and lt: "posted_rank (flow_ts fl) r < queue_rank (flow_ts fl) r"
    by (simp_all add: fl' queue_rank_def posted_rank_def job_list_def send_work_def fun_eq_iff)
  show ?thesis
    by (rule work_step [where n = "queue_rank (flow_ts fl) r" and K = "{#posted_rank (flow_ts fl) r#}"
        and I = "mset (map (queue_rank (flow_ts fl)) q) + mset (map (posted_rank (flow_ts fl)) (ts_posted (flow_ts fl)))
          + send_work (fl_fw fl) + body_work (job_list fl)"])
      (simp_all add: lt work_def waiting_work_def same q, simp add: fl')
next
  case Mv_Handle
  with step obtain r q where p: "ts_posted (flow_ts fl) = r # q"
    and jl: "job_list fl' = job_list fl @ [start_job r (flow_ts fl)]" and ts': "flow_ts fl' = (flow_ts fl)\<lparr>ts_posted := q\<rparr>"
    and snd: "fw_sendThreads (fl_fw fl') = fw_sendThreads (fl_fw fl)"
    by (auto simp: internal_step_def Let_def job_list_def split: list.splits option.splits if_splits)
  have same: "queue_rank (flow_ts fl') = queue_rank (flow_ts fl)" "posted_rank (flow_ts fl') = posted_rank (flow_ts fl)"
    "send_work (fl_fw fl') = send_work (fl_fw fl)"
    by (simp_all add: ts' queue_rank_def posted_rank_def send_work_def snd fun_eq_iff)
  show ?thesis
    by (rule work_step [OF start_ranks, where I = "mset (map (queue_rank (flow_ts fl)) (ts_taskQueue (flow_ts fl)))
        + mset (map (posted_rank (flow_ts fl)) q) + send_work (fl_fw fl) + body_work (job_list fl)"])
      (simp_all add: work_def waiting_work_def same jl p body_work_def, simp_all add: ts')
next
  case (Mv_Handler devs)
  with step obtain j j' f' where h: "fl_handler fl = Some j" and run: "run_job E P rand devs j (fl_fw fl) = Some (j', f')"
    and fl': "fl' = fl\<lparr>fl_fw := f', fl_handler := (if jb_pc j' = [] then None else Some j')\<rparr>"
    by (auto simp: internal_step_def Let_def split: option.splits)
  have "(waiting_work (fw_ts f') + send_work f' + body_work (job_list fl'), work fl) \<in> mult less_than"
    by (rule work_run [OF shape run]) (auto simp: job_list_def h fl' body_work_def)
  then show ?thesis by (simp add: work_def fl')
next
  case (Mv_Job i devs)
  with step obtain j' f' where i: "i < length (fl_jobs fl)" and run: "run_job E P rand devs (fl_jobs fl ! i) (fl_fw fl) = Some (j', f')"
    and fl': "fl' = fl\<lparr>fl_fw := f', fl_jobs := put_job i j' (fl_jobs fl)\<rparr>"
    by (auto simp: internal_step_def Let_def split: if_splits)
  have "(waiting_work (fw_ts f') + send_work f' + body_work (job_list fl'), work fl) \<in> mult less_than"
    by (rule work_run [OF shape run]) (use i body_work_put [OF i, of j'] in \<open>auto simp: job_list_def fl'\<close>)
  then show ?thesis by (simp add: work_def fl')
qed

text \<open>A thread of \<open>SendOnLineEvent\<close> creates at most one online task and starts no thread.\<close>

lemma SendOnLineEvent_effect:
  "fw_sendThreads (snd (SendOnLineEvent E P rand n uuid udid f)) = fw_sendThreads f
   \<and> (fw_ts (snd (SendOnLineEvent E P rand n uuid udid f)) = fw_ts f
      \<or> (\<exists>p. fw_ts (snd (SendOnLineEvent E P rand n uuid udid f)) = create_and_push rand TaskType_ON_LINE p None (fw_ts f)))"
  by (auto simp: SendOnLineEvent_def Manager_SendOnLineEvent_def Let_def case_prod_unfold)

lemma send_thread_work:
  assumes shape: "shape_ok rand fl" and i: "i < length (fw_sendThreads (fl_fw fl))"
    and fl': "fl' = fl\<lparr>fl_fw := env_event junk E P rand (Ev_SendThread i) (fl_fw fl)\<rparr>"
  shows "(work fl', work fl) \<in> mult less_than"
proof -
  let ?f = "fl_fw fl"
  let ?g = "?f\<lparr>fw_sendThreads := take i (fw_sendThreads ?f) @ drop (Suc i) (fw_sendThreads ?f)\<rparr>"
  obtain n uuid udid where t: "fw_sendThreads ?f ! i = (n, uuid, udid)" by (rule prod_cases3)
  have f': "fl_fw fl' = snd (SendOnLineEvent E P rand n uuid udid ?g)" using i t by (simp add: fl' env_event_def)
  note eff = SendOnLineEvent_effect [of E P rand n uuid udid ?g, folded f']
  have ok: "task_sys_ok rand (flow_ts fl)" using shape by (simp add: shape_ok_def)
  have "\<exists>K. waiting_work (flow_ts fl') = waiting_work (flow_ts fl) + K \<and> (\<forall>k\<in>#K. k < 7)"
  proof (cases "flow_ts fl' = flow_ts fl")
    case True
    then show ?thesis by (intro exI [of _ "{#}"]) simp
  next
    case False
    with eff obtain p where "flow_ts fl' = create_and_push rand TaskType_ON_LINE p None (flow_ts fl)" by auto
    then show ?thesis using waiting_work_create [OF ok, of TaskType_ON_LINE None 7 p] by simp
  qed
  then obtain K where K: "waiting_work (flow_ts fl') = waiting_work (flow_ts fl) + K" "\<forall>k\<in>#K. k < 7" by blast
  have "length (fw_sendThreads ?f) = Suc (length (fw_sendThreads (fl_fw fl')))" using eff i by simp
  then have "send_work ?f = send_work (fl_fw fl') + {#7#}" by (simp add: send_work_def)
  then show ?thesis
    by (intro work_step [OF K(2), where I = "waiting_work (flow_ts fl) + send_work (fl_fw fl') + body_work (job_list fl)"])
      (simp_all add: work_def K(1), simp_all add: fl' job_list_def)
qed

text \<open>The moves of all threads of the framework, the detached threads of \<open>SendOnLineEvent\<close> among them.\<close>

definition own_step ::
  "dhtype \<Rightarrow> ('w, 'j) env \<Rightarrow> 'c comp_api \<Rightarrow> rand \<Rightarrow> ('w, 'c) flow \<Rightarrow> ('w, 'c) flow \<Rightarrow> bool" where
  "own_step junk E P rand fl fl' \<longleftrightarrow> (\<exists>mv. internal_step E P rand mv fl = Some fl')
     \<or> (\<exists>i < length (fw_sendThreads (fl_fw fl)). fl' = fl\<lparr>fl_fw := env_event junk E P rand (Ev_SendThread i) (fl_fw fl)\<rparr>)"

text \<open>
  Property C19. Without further events from outside the framework comes to rest: from no reachable state is
  there an infinite sequence of moves of its threads, those that \<open>CheckExitSAOrNot\<close> starts for the trusted devices
  included. It holds whatever identifiers are drawn and whatever components, databases and device manager answer;
  what comes from outside are the reports of device manager, databases and hardware, and with them the tasks
  that the component manager makes for a report of a component or a message of another device.
\<close>

theorem internal_steps_terminate:
  "\<not> (\<exists>s. reachable junk E P rand (s 0) \<and> (\<forall>n. own_step junk E P rand (s n) (s (Suc n))))"
proof
  assume "\<exists>s. reachable junk E P rand (s 0) \<and> (\<forall>n. own_step junk E P rand (s n) (s (Suc n)))"
  then obtain s where start: "reachable junk E P rand (s 0)" and step: "\<And>n. own_step junk E P rand (s n) (s (Suc n))" by blast
  have "flow_step junk E P rand (s n) (s (Suc n))" for n
    using step [of n] by (auto simp: own_step_def intro: step_internal step_env)
  then have "reachable junk E P rand (s n)" for n
    by (induction n) (use start in \<open>auto intro: reach.reach_step\<close>)
  then have shape: "shape_ok rand (s n)" for n by (rule fwkshape.reach_inv) simp
  have dec: "(work (s (Suc n)), work (s n)) \<in> mult less_than" for n
    using step [of n] internal_work [OF shape] send_thread_work [OF shape] unfolding own_step_def by blast
  have "wf (mult (less_than :: (nat \<times> nat) set))" by (simp add: wf_mult)
  then have "\<not> (\<exists>w. \<forall>n. (w (Suc n), w n) \<in> mult (less_than :: (nat \<times> nat) set))"
    by (simp only: wf_iff_no_infinite_down_chain not_False_eq_True)
  with dec show False by (auto dest: spec [of _ "\<lambda>n. work (s n)"])
qed

end
