(* ===== verification/DHF_Online.thy ===== *)
theory DHF_Online
  imports DHF_FlowProps
begin

text \<open>
  The online set of the process context across the operations of the other components: the database
  adapter, the managers, the local hardware manager and the start of the framework read and write the
  context, but none of them changes which devices are online. With this, the flag that is set when the
  last device leaves (\<open>flagUnInit_\<close>) is shown to stay set once the release was skipped.
\<close>

section \<open>Database adapter\<close>

abbreviation (input) ents :: "'w sys \<Rightarrow> device_id_entry list" where
  "ents s \<equiv> cx_devIdEntrySet (sys_cx s)"

lemma ents_device [simp]: "cx_devIdEntrySet (snd (GetDeviceInfo dm dig cx)) = cx_devIdEntrySet cx"
  by (simp add: GetDeviceInfo_def Let_def)

lemma ents_kv_call [simp]: "ents (snd (kv_call f s)) = ents s"
  by (simp add: kv_call_def case_prod_unfold Let_def)

lemma ents_open [simp]:
  "ents (snd (snd (open_store E opts ds))) = ents (snd ds)" "ents (snd (snd (GetKvStorePtr E a d ds))) = ents (snd ds)"
  "ents (snd (snd (GetLocalKvStorePtr E ds))) = ents (snd ds)"
  by (simp_all add: open_store_def GetKvStorePtr_def GetLocalKvStorePtr_def case_prod_unfold Let_def)

lemma ents_listeners [simp]:
  "ents (snd (snd (RegisterChangeListener E ds))) = ents (snd ds)" "ents (snd (snd (UnRegisterChangeListener E ds))) = ents (snd ds)"
  "ents (snd (RegisterKvStoreDeathListener E ds)) = ents (snd ds)" "ents (snd (UnRegisterKvStoreDeathListener E ds)) = ents (snd ds)"
  by (simp_all add: RegisterChangeListener_def UnRegisterChangeListener_def RegisterKvStoreDeathListener_def
      UnRegisterKvStoreDeathListener_def case_prod_unfold Let_def)

lemma ents_Init_loop [simp]: "ents (snd (snd (Init_loop E a d n ds))) = ents (snd ds)"
  by (induction n arbitrary: ds) (simp_all add: case_prod_unfold Let_def)

lemma ents_InitLocal_loop [simp]: "ents (snd (snd (InitLocal_loop E n ds))) = ents (snd ds)"
  by (induction n arbitrary: ds) (simp_all add: case_prod_unfold Let_def)

lemma ents_Init [simp]:
  "ents (snd (snd (DBAdapter_Init E a d ds))) = ents (snd ds)" "ents (snd (snd (DBAdapter_InitLocal E ds))) = ents (snd ds)"
  "ents (snd (DBAdapter_UnInit E ds)) = ents (snd ds)"
  by (simp_all add: DBAdapter_Init_def DBAdapter_InitLocal_def DBAdapter_UnInit_def case_prod_unfold Let_def)

lemma ents_sync [simp]:
  "ents (snd (GetNetworkIdByKey E k s)) = ents s" "ents (snd (SyncByNotFound E k ds)) = ents (snd ds)"
  "ents (snd (sync_if_missing E b k ds)) = ents (snd ds)"
  by (simp_all add: GetNetworkIdByKey_def SyncByNotFound_def sync_if_missing_def case_prod_unfold Let_def)

lemma ents_data [simp]:
  "ents (snd (snd (snd (GetDataByKey E k data ds)))) = ents (snd ds)"
  "ents (snd (snd (snd (GetDataByKeyPrefix E k vs ds)))) = ents (snd ds)"
  "ents (snd (snd (PutData E k v ds))) = ents (snd ds)" "ents (snd (snd (PutDataBatch E ks vs ds))) = ents (snd ds)"
  "ents (snd (snd (RemoveDataByKey E k ds))) = ents (snd ds)" "ents (snd (snd (RemoveDeviceData E k ds))) = ents (snd ds)"
  "ents (snd (snd (SyncDataByNetworkId E n ds))) = ents (snd ds)" "ents (snd (snd (ClearDataWhenPeerLogout E a b ds))) = ents (snd ds)"
  by (simp_all add: GetDataByKey_def GetDataByKeyPrefix_def PutData_def PutDataBatch_def RemoveDataByKey_def RemoveDeviceData_def
      SyncDataByNetworkId_def ClearDataWhenPeerLogout_def case_prod_unfold Let_def)

section \<open>Managers\<close>

lemma ents_mgr_init [simp]:
  "(\<And>ds. ents (snd (snd (ini ds))) = ents (snd ds)) \<Longrightarrow> ents (snd (snd (mgr_Init st ini ms))) = ents (snd ms)"
  "ents (snd (snd (mgr_UnInit E ms))) = ents (snd ms)"
  by (simp_all add: mgr_Init_def mgr_UnInit_def case_prod_unfold Let_def split: option.splits)

lemma ents_mgr_read [simp]:
  "ents (snd (snd (snd (mgr_read_prefix E p ms)))) = ents (snd ms)" "ents (snd (snd (mgr_sync_prefix E dec key p ms))) = ents (snd ms)"
  "ents (snd (snd (snd (mgr_read_into E dec key p out ms)))) = ents (snd ms)"
  by (simp_all add: mgr_read_prefix_def mgr_sync_prefix_def mgr_read_into_def case_prod_unfold Let_def split: option.splits)

lemma ents_store_remote [simp]: "ents (snd (store_remote E dec key owner self ds ms)) = ents (snd ms)"
proof (induction ds arbitrary: ms)
  case Nil
  then show ?case by (cases ms) simp
next
  case (Cons d ds)
  then show ?case by (cases ms) (simp add: case_prod_unfold Let_def)
qed

lemma ents_sync_remote [simp]: "ents (snd (mgr_sync_remote E dec key owner self ids ms)) = ents (snd ms)"
  by (induction ids arbitrary: ms) (simp_all add: case_prod_unfold Let_def)

lemma ents_add_loop [simp]: "ents (snd (snd (snd (snd (add_loop E key enc same cs data m ds))))) = ents (snd ds)"
proof (induction cs arbitrary: data m ds)
  case (Cons c cs)
  then show ?case by (cases c) (simp_all add: case_prod_unfold Let_def)
qed simp

lemma ents_mgr_write [simp]:
  "ents (snd (snd (mgr_add E key enc same cs ms))) = ents (snd ms)" "ents (snd (snd (mgr_remove_key E k ms))) = ents (snd ms)"
  by (simp_all add: mgr_add_def mgr_remove_key_def case_prod_unfold Let_def split: option.splits)

lemma ents_on [simp]:
  "ents (rs_sys (snd (on_cap f rs))) = ents (snd (snd (f (rs_cap rs, rs_sys rs))))"
  "ents (rs_sys (snd (on_local g rs))) = ents (snd (snd (g (rs_local rs, rs_sys rs))))"
  "ents (rs_sys (snd (on_meta h rs))) = ents (snd (snd (h (rs_meta rs, rs_sys rs))))"
  "ents (rs_sys (snd (on_ver i rs))) = ents (snd (snd (i (rs_ver rs, rs_sys rs))))"
  by (simp_all add: on_cap_def on_local_def on_meta_def on_ver_def case_prod_unfold Let_def)

lemma ents_caps [simp]:
  "ents (snd (snd (CapMgr_Init E ms))) = ents (snd ms)" "ents (snd (snd (CapMgr_UnInit E ms))) = ents (snd ms)"
  "ents (snd (CapMgr_ProcessEvent E ev ms)) = ents (snd ms)" "ents (snd (snd (CapMgr_AddCapability E cs ms))) = ents (snd ms)"
  "ents (snd (snd (CapMgr_RemoveCapabilityInfoByKey E k ms))) = ents (snd ms)"
  "ents (snd (snd (CapMgr_RemoveCapabilityInfoInMem d ms))) = ents (snd ms)"
  "ents (snd (snd (snd (CapMgr_GetDataByKeyPrefix E k out ms)))) = ents (snd ms)"
  by (simp_all add: CapMgr_Init_def CapMgr_UnInit_def CapMgr_ProcessEvent_def CapMgr_SyncRemoteCapabilityInfos_def
      CapMgr_AddCapability_def CapMgr_RemoveCapabilityInfoByKey_def CapMgr_RemoveCapabilityInfoInMem_def
      CapMgr_GetDataByKeyPrefix_def case_prod_unfold Let_def)

lemma ents_locals [simp]:
  "ents (snd (snd (LocalMgr_Init E ms))) = ents (snd ms)" "ents (snd (snd (LocalMgr_UnInit E ms))) = ents (snd ms)"
  "ents (snd (snd (LocalMgr_SyncDeviceInfoFromDB E d ms))) = ents (snd ms)"
  by (simp_all add: LocalMgr_Init_def LocalMgr_UnInit_def LocalMgr_SyncDeviceInfoFromDB_def)

lemma ents_metas [simp]:
  "ents (snd (snd (MetaMgr_Init E ms'))) = ents (snd ms')" "ents (snd (snd (MetaMgr_UnInit E ms'))) = ents (snd ms')"
  "ents (snd (MetaMgr_ProcessEvent E ev ms')) = ents (snd ms')" "ents (snd (snd (MetaMgr_AddMetaCapInfos E cs ms'))) = ents (snd ms')"
  "ents (snd (snd (MetaMgr_SyncMetaInfoFromDB E h ms'))) = ents (snd ms')"
  "ents (snd (snd (MetaMgr_SyncDataByNetworkId E n ms'))) = ents (snd ms')"
  "ents (snd (snd (MetaMgr_ClearDataWhenPeerLogout E a b ms'))) = ents (snd ms')"
  by (simp_all add: MetaMgr_Init_def MetaMgr_UnInit_def MetaMgr_ProcessEvent_def MetaMgr_SyncRemoteMetaInfos_def
      MetaMgr_AddMetaCapInfos_def MetaMgr_SyncMetaInfoFromDB_def MetaMgr_SyncDataByNetworkId_def
      MetaMgr_ClearDataWhenPeerLogout_def case_prod_unfold Let_def split: option.splits)

lemma ents_update_remote [simp]: "ents (snd (update_remote junk E ds vs)) = ents (snd vs)"
proof (induction ds arbitrary: vs)
  case (Cons d ds)
  then show ?case by (cases vs) (simp add: case_prod_unfold Let_def)
qed simp

lemma ents_remote_versions [simp]: "ents (snd (sync_remote_versions junk E db ids vs)) = ents (snd vs)"
proof (induction ids arbitrary: db vs)
  case Nil
  then show ?case by (cases vs) simp
next
  case (Cons d ids)
  then show ?case by (cases vs) (simp add: case_prod_unfold Let_def)
qed

lemma ents_vers [simp]:
  "ents (snd (snd (VerInfoMgr_Init E vs))) = ents (snd vs)" "ents (snd (snd (VerInfoMgr_UnInit E vs))) = ents (snd vs)"
  "ents (snd (VerInfoMgr_ProcessEvent junk E ev vs)) = ents (snd vs)"
  by (simp_all add: VerInfoMgr_Init_def VerInfoMgr_UnInit_def VerInfoMgr_ProcessEvent_def SyncRemoteVersionInfos_def
      case_prod_unfold Let_def split: option.splits)

lemma ents_start_versions [simp]: "ents (rs_sys (start_versions E v rs)) = ents (rs_sys rs)"
  by (simp add: start_versions_def VersionManager_Init_def case_prod_unfold Let_def)

section \<open>Local hardware and the whole framework\<close>

lemma ents_local_device [simp]: "ents (rs_sys (snd (local_device E rs))) = ents (rs_sys rs)"
  by (simp add: local_device_def case_prod_unfold Let_def)

lemma ents_fold: "(\<And>x rs. ents (rs_sys (f x rs)) = ents (rs_sys rs)) \<Longrightarrow> ents (rs_sys (fold f xs rs)) = ents (rs_sys rs)"
  by (induction xs arbitrary: rs) simp_all

lemma ents_prefix [simp]: "ents (rs_sys (snd (GetLocalCapabilityMapByPrefix E t m rs))) = ents (rs_sys rs)"
  by (simp add: GetLocalCapabilityMapByPrefix_def case_prod_unfold Let_def split: option.splits)

lemma ents_check [simp]: "ents (rs_sys (CheckNonExistCapabilityInfo E items t rs)) = ents (rs_sys rs)"
  by (simp add: CheckNonExistCapabilityInfo_def case_prod_unfold Let_def ents_fold)

lemma ents_query [simp]: "ents (rs_sys (query_retry E t h n k rs)) = ents (rs_sys rs)"
  by (induction k arbitrary: n) (simp_all add: Let_def)

lemma ents_init_comp [simp]: "ents (rs_sys (init_comp E e rs)) = ents (rs_sys rs)"
  by (simp add: init_comp_def QueryLocalHardware_def case_prod_unfold Let_def)

lemma ents_hardware [simp]:
  "ents (rs_sys (LocalHardwareManager_Init E cs rs)) = ents (rs_sys rs)" "ents (rs_sys (LocalHardwareManager_UnInit rs)) = ents (rs_sys rs)"
  "ents (rs_sys (PluginHardware E t d a sub rs)) = ents (rs_sys rs)" "ents (rs_sys (UnPluginHardware E d rs)) = ents (rs_sys rs)"
  by (simp_all add: LocalHardwareManager_Init_def LocalHardwareManager_UnInit_def PluginHardware_def UnPluginHardware_def
      case_prod_unfold Let_def ents_fold split: option.splits)

abbreviation (input) online :: "('w, 'c) fwk \<Rightarrow> device_id_entry list" where
  "online f \<equiv> cx_devIdEntrySet (fw_cx f)"

lemma online_frame [simp]:
  "online (snd (LocalInit E P f)) = online f" "online (snd (Initialize E P f)) = online f"
  "online (snd (Factory_Init E P f)) = online f" "online (snd (InitLocalDevInfo E P d1 d2 f)) = online f"
  "online (DoSyncInfo E t f) = online f"
  by (simp_all add: LocalInit_def Initialize_def Factory_Init_def InitLocalDevInfo_def DoSyncInfo_def ExitDHFWK_def fw_cx_def
      case_prod_unfold Let_def)

section \<open>The flag that refuses new devices\<close>

text \<open>No offline task is on its way: none is queued, posted or running.\<close>

definition no_offline_waiting :: "task_sys \<Rightarrow> bool" where
  "no_offline_waiting ts \<longleftrightarrow> (\<forall>r \<in> set (ts_taskQueue ts) \<union> set (ts_posted ts). tk_taskType (heap_at ts r) \<noteq> TaskType_OFF_LINE)"

definition no_offline_body :: "('w, 'c) flow \<Rightarrow> bool" where
  "no_offline_body fl \<longleftrightarrow> (\<forall>j \<in> set (job_list fl). tk_taskType (heap_at (flow_ts fl) (jb_task j)) \<noteq> TaskType_OFF_LINE)"

text \<open>The flag is set, no device is online, and no offline task is left that could reset the flag.\<close>

definition flag_stuck :: "('w, 'c) flow \<Rightarrow> bool" where
  "flag_stuck fl \<longleftrightarrow> fw_flagUnInit (fl_fw fl) \<and> online (fl_fw fl) = [] \<and> no_offline_waiting (flow_ts fl) \<and> no_offline_body fl"

lemma send_online_refused: "fw_flagUnInit f \<Longrightarrow> snd (SendOnLineEvent E P rand n uuid udid f) = f"
  by (simp add: SendOnLineEvent_def)

lemma offline_ignored: "online f = [] \<Longrightarrow> OnDeviceOffline E P rand n f = f"
  by (simp add: OnDeviceOffline_def GetUUIDByNetworkId_def first_entry_def IsIdLengthValid_def)

lemma trusted_refused: "fw_flagUnInit f \<Longrightarrow> CheckTrustedDeviceOnline E P rand devs f = f"
proof -
  assume flag: "fw_flagUnInit f"
  have "fold (\<lambda>n f1. snd (SendOnLineEvent E P rand n (GetUUIDByDm (env_dm E) n) (GetUDIDByDm (env_dm E) n) f1)) devs f = f"
    by (induction devs) (simp_all add: send_online_refused [OF flag])
  then show ?thesis by (simp add: CheckTrustedDeviceOnline_def)
qed

lemma cap_step_sys:
  "snd (fst (cap_step E rand (CapChange u cn) ((m, s), ts))) = s"
  "snd (fst (cap_step E rand (CapChangeCloud u i p d) ((m, s), ts))) = s"
  "snd (fst (meta_step E rand (MetaChange cn) ((mm, s), ts))) = s"
  "snd (fst (meta_step E rand (MetaChangeCloud i p d) ((mm, s), ts))) = s"
  by (simp_all add: case_prod_unfold Let_def CapMgr_OnChange_cloud_def MetaMgr_OnChange_cloud_def)

lemma isomerism_entries: "cx_devIdEntrySet (Isomerism_OnMessage cj topic msg cx) = cx_devIdEntrySet cx"
  by (simp add: Isomerism_OnMessage_def AddIsomerismConnectDev_def DelIsomerismConnectDev_def Let_def split: option.splits)

lemma recover_entries: "ents (rs_sys (recover_all junk E ev rs)) = ents (rs_sys rs)"
  by (simp add: recover_all_def case_prod_unfold Let_def)

text \<open>An event keeps the flag and the empty online set, and creates no offline task.\<close>

lemma stuck_event:
  assumes "fw_flagUnInit f" and "online f = []"
  shows "fw_flagUnInit (env_event junk E P rand ev f) \<and> online (env_event junk E P rand ev f) = []
    \<and> spawns {TaskType_ENABLE, TaskType_DISABLE} rand (fw_ts f) (fw_ts (env_event junk E P rand ev f))"
proof (cases ev)
  case (Ev_SendThread i)
  let ?g = "f\<lparr>fw_sendThreads := take i (fw_sendThreads f) @ drop (Suc i) (fw_sendThreads f)\<rparr>"
  have "snd (SendOnLineEvent E P rand n uuid udid ?g) = ?g" for n uuid udid using assms(1) by (simp add: send_online_refused)
  with Ev_SendThread assms show ?thesis by (simp add: env_event_def case_prod_unfold spawns_refl fw_cx_def)
next
  case (Ev_Power st)
  with assms show ?thesis by (simp add: env_event_def upd_cx_def fw_cx_def OnPowerStateChanged_def SetIsSleeping_def spawns_refl)
next
  case (Ev_Isomerism topic msg)
  with assms show ?thesis by (simp add: env_event_def upd_cx_def fw_cx_def isomerism_entries spawns_refl)
next
  case (Ev_CapChange cn)
  then show ?thesis using assms spawns_cap_event(1) [of rand f E "fw_flagUnInit f" cn]
    by (simp add: env_event_def cap_change_def fw_cx_def case_prod_unfold Let_def cap_step_sys del: cap_step.simps)
next
  case (Ev_CapCloud i u d)
  then show ?thesis using assms spawns_cap_event(2) [of rand f E "fw_flagUnInit f" i u d]
    by (simp add: env_event_def cap_change_def fw_cx_def case_prod_unfold Let_def cap_step_sys del: cap_step.simps)
next
  case (Ev_MetaChange cn)
  then show ?thesis using assms spawns_meta_event(1) [of rand f E cn]
    by (simp add: env_event_def meta_change_def fw_cx_def case_prod_unfold Let_def cap_step_sys del: meta_step.simps)
next
  case (Ev_MetaCloud i u d)
  then show ?thesis using assms spawns_meta_event(2) [of rand f E i u d]
    by (simp add: env_event_def meta_change_def fw_cx_def case_prod_unfold Let_def cap_step_sys del: meta_step.simps)
next
  case (Ev_LocalInit d1 d2)
  have "fw_flagUnInit (snd (InitLocalDevInfo E P d1 d2 f)) = fw_flagUnInit f"
    by (simp add: InitLocalDevInfo_def LocalInit_def ExitDHFWK_def case_prod_unfold Let_def)
  with Ev_LocalInit assms show ?thesis by (simp add: env_event_def spawns_refl)
qed (use assms in \<open>simp_all add: env_event_def OnDeviceReady_def send_online_refused offline_ignored trusted_refused Let_def
    OnDeviceTrustChange_def Factory_ClearDataWhenPeerLogout_def fw_cx_def recover_entries spawns_refl\<close>)

lemma spawns_no_offline:
  assumes "spawns A rand ts ts'" and "task_sys_ok rand ts" and "A \<subseteq> {TaskType_ENABLE, TaskType_DISABLE}" and "no_offline_waiting ts"
  shows "no_offline_waiting ts' \<and> task_sys_ok rand ts' \<and> types_kept ts ts'"
  using assms
proof (induction rule: spawns.induct)
  case (spawns_step ts ts1 tt p)
  then have IH: "no_offline_waiting ts1" "task_sys_ok rand ts1" "types_kept ts ts1" by blast+
  have tt: "tt \<noteq> TaskType_UNKNOWN" "tt \<noteq> TaskType_OFF_LINE" using spawns_step by auto
  let ?ts' = "create_and_push rand tt p None ts1" and ?n = "length (ts_heap ts1)"
  have kept: "types_kept ts1 ?ts'" using tt(1) by (rule types_kept_create) simp
  have new: "tk_taskType (heap_at ?ts' ?n) = tt" using create_heap(2) [OF tt(1), of None ts1 rand p] tt(1) by simp
  have "set (ts_taskQueue ?ts') \<subseteq> insert ?n (set (ts_taskQueue ts1))" "ts_posted ?ts' = ts_posted ts1"
    by (auto simp: create_and_push_Push [OF tt(1)] PushTask_def)
  then have "no_offline_waiting ?ts'"
    using IH(1,2) kept new tt(2) by (auto simp: no_offline_waiting_def types_kept_def task_sys_ok_def)
  moreover have "task_sys_ok rand ?ts'" using IH(2) by (intro create_and_push_ok) auto
  ultimately show ?case using IH(3) kept by (auto simp: types_kept_def)
qed (simp add: types_kept_def)

text \<open>An action of a body that is not an offline task.\<close>

lemma stuck_action:
  assumes inv: "pipe_inv rand J (fw_ts f)" and run: "run_job E P rand devs j f = Some (j', f')" and j: "j \<in> J"
    and off: "tk_taskType (heap_at (fw_ts f) (jb_task j)) \<noteq> TaskType_OFF_LINE" and w: "no_offline_waiting (fw_ts f)"
  shows "fw_flagUnInit f' = fw_flagUnInit f" and "online f' = online f" and "no_offline_waiting (fw_ts f')"
proof -
  let ?r = "jb_task j" and ?ts = "fw_ts f"
  from run obtain a pc result acts where pc: "jb_pc j = a # pc"
    and ex: "exec_action E P rand devs ?r (jb_ret j) a f = Some (result, acts, f')" by (rule run_jobD)
  note sok = pipe_invD(1) [OF inv] and kept = types_kept_run [OF inv run j]
  have r: "?r < length (ts_heap ?ts)" using pipe_invD(2) [OF inv] j by (auto simp: places_ok_def)
  have job: "job_ok (heap_at ?ts ?r) j" using pipe_invD(3) [OF inv] j by (auto simp: jobs_ok_def)
  have a: "a \<noteq> CheckUnInit" using job_ok_mem [OF job, of CheckUnInit] off pc by (auto simp: prog_mem)
  have step: "\<exists>s. a = DoStep s \<Longrightarrow> tk_taskType (heap_at ?ts ?r) = TaskType_ON_LINE"
  proof -
    assume "\<exists>s. a = DoStep s"
    then obtain s where s: "a = DoStep s" ..
    with job_ok_at(1) [OF job pc] have "suffix (DoStep s # pc) (prog (tk_taskType (heap_at ?ts ?r)))" by simp
    with off show ?thesis by (cases "tk_taskType (heap_at ?ts ?r)") (auto simp: prog_def suffix_Cons)
  qed
  have "fw_flagUnInit f' = fw_flagUnInit f \<and> online f' = online f"
    using ex a step
    by (cases a) (auto simp: exec_action_def Let_def upd_ts_def fw_cx_def online_step_def online_frame(5) [unfolded fw_cx_def] DoSyncInfo_def
        case_prod_unfold split: prod.splits task_step.splits)
  then show "fw_flagUnInit f' = fw_flagUnInit f" "online f' = online f" by blast+
  have same: "no_offline_waiting (fw_ts f')" if "ts_taskQueue (fw_ts f') = ts_taskQueue ?ts" "ts_posted (fw_ts f') = ts_posted ?ts"
    using w kept sok that by (auto simp: no_offline_waiting_def types_kept_def task_sys_ok_def)
  show "no_offline_waiting (fw_ts f')"
  proof (cases "\<exists>k p. a = Spawn k p")
    case True
    then obtain k p where s: "a = Spawn k p" by blast
    have k: "k \<noteq> TaskType_UNKNOWN" "k \<noteq> TaskType_OFF_LINE" using job_ok_spawn(1) [OF job pc [unfolded s]] by (auto simp: child_type_def)
    have ts': "fw_ts f' = create_and_push rand k p (Some ?r) ?ts" using ex by (auto simp: s exec_action_def)
    have "tk_taskType (heap_at (fw_ts f') (length (ts_heap ?ts))) = k"
      unfolding ts' using create_heap(2) [OF k(1), of "Some ?r" ?ts rand p] r k(1) by simp
    moreover have "set (ts_taskQueue (fw_ts f')) \<subseteq> insert (length (ts_heap ?ts)) (set (ts_taskQueue ?ts))" "ts_posted (fw_ts f') = ts_posted ?ts"
      by (auto simp: ts' create_and_push_Push [OF k(1)] PushTask_def)
    ultimately show ?thesis
      using w kept sok k(2) by (auto simp: no_offline_waiting_def types_kept_def task_sys_ok_def)
  next
    case False
    with ex show ?thesis
      by (intro same; cases a) (auto simp: exec_action_def Let_def SetTaskState_def EnableTask_end_def DisableTask_end_def SaveEnabledDevice_def
        RemoveEnabledDevice_def RemoveTask_def RemoveTaskInner_def notify_father_def NotifyFatherFinish_def fw_ts_steps
        split: prod.splits if_splits option.splits)
  qed
qed

lemma no_offline_body_kept:
  assumes "no_offline_body fl" and "types_kept (flow_ts fl) (flow_ts fl')" and "flow_inv rand fl"
    and "jb_task ` set (job_list fl') \<subseteq> jb_task ` set (job_list fl)"
  shows "no_offline_body fl'"
proof -
  have lt: "j \<in> set (job_list fl) \<Longrightarrow> jb_task j < length (ts_heap (flow_ts fl))" for j
    using pipe_invD(2) [OF flow_invD(4) [OF assms(3)]] by (simp add: places_ok_def)
  show ?thesis unfolding no_offline_body_def
  proof
    fix j assume "j \<in> set (job_list fl')"
    then obtain k where "k \<in> set (job_list fl)" "jb_task j = jb_task k" using assms(4) by blast
    with assms(1,2) lt show "tk_taskType (heap_at (flow_ts fl') (jb_task j)) \<noteq> TaskType_OFF_LINE"
      by (auto simp: no_offline_body_def types_kept_def)
  qed
qed

lemma stuck_internal:
  assumes inv: "flow_inv rand fl" and stuck: "flag_stuck fl" and step: "internal_step E P rand mv fl = Some fl'"
  shows "flag_stuck fl'"
proof -
  note I = flow_invD [OF inv] and S = stuck [unfolded flag_stuck_def]
  have run: "flag_stuck fl'" if r: "run_job E P rand devs j (fl_fw fl) = Some (j', f')" and j: "j \<in> set (job_list fl)" and f: "fl_fw fl' = f'"
    and sub: "jb_task ` set (job_list fl') \<subseteq> jb_task ` set (job_list fl)" for devs j j' f'
  proof -
    have "tk_taskType (heap_at (flow_ts fl) (jb_task j)) \<noteq> TaskType_OFF_LINE" using S j by (simp add: no_offline_body_def)
    note A = stuck_action [OF I(4) r j this] and K = types_kept_run [OF I(4) r j]
    have "no_offline_body fl'" using S K f by (intro no_offline_body_kept [OF _ _ inv sub]) auto
    then show ?thesis using A S by (simp add: flag_stuck_def f)
  qed
  show ?thesis
  proof (cases mv)
    case Mv_Trigger
    with step S show ?thesis
      by (auto simp: internal_step_def Let_def TriggerTask_def PopTask_def flag_stuck_def no_offline_waiting_def no_offline_body_def
          job_list_def fw_cx_def split: list.splits)
  next
    case Mv_Handle
    with step S show ?thesis
      by (auto simp: internal_step_def Let_def flag_stuck_def no_offline_waiting_def no_offline_body_def upd_ts_def start_job_def
          job_list_def fw_cx_def split: list.splits option.splits if_splits)
  next
    case (Mv_Handler devs)
    with step obtain j j' f' where h: "fl_handler fl = Some j" and r: "run_job E P rand devs j (fl_fw fl) = Some (j', f')"
      and fl': "fl' = fl\<lparr>fl_fw := f', fl_handler := (if jb_pc j' = [] then None else Some j')\<rparr>"
      by (auto simp: internal_step_def Let_def split: option.splits)
    show ?thesis by (rule run [OF r]) (use run_task [OF r] in \<open>auto simp: fl' job_list_def h\<close>)
  next
    case (Mv_Job i devs)
    with step obtain j' f' where i: "i < length (fl_jobs fl)" and r: "run_job E P rand devs (fl_jobs fl ! i) (fl_fw fl) = Some (j', f')"
      and fl': "fl' = fl\<lparr>fl_fw := f', fl_jobs := put_job i j' (fl_jobs fl)\<rparr>"
      by (auto simp: internal_step_def Let_def split: if_splits)
    have "jb_task ` set (put_job i j' (fl_jobs fl)) \<subseteq> jb_task ` set (fl_jobs fl)"
      using run_task [OF r] i set_update_subset_insert [of "fl_jobs fl" i j']
      by (auto simp: put_job_def dest!: in_set_takeD in_set_dropD)
    then show ?thesis by (intro run [OF r]) (use i in \<open>auto simp: fl' job_list_def\<close>)
  qed
qed

lemma stuck_env:
  assumes inv: "flow_inv rand fl" and stuck: "flag_stuck fl"
  shows "flag_stuck (fl\<lparr>fl_fw := env_event junk E P rand ev (fl_fw fl)\<rparr>)"
proof -
  note S = stuck [unfolded flag_stuck_def] and ok = pipe_invD(1) [OF flow_invD(4) [OF inv]]
  let ?f = "env_event junk E P rand ev (fl_fw fl)"
  have ev: "fw_flagUnInit ?f" "online ?f = []" and sp: "spawns {TaskType_ENABLE, TaskType_DISABLE} rand (flow_ts fl) (fw_ts ?f)"
    using stuck_event [of "fl_fw fl" junk E P rand ev] S by blast+
  from spawns_no_offline [OF sp ok] S have w: "no_offline_waiting (fw_ts ?f)" "types_kept (flow_ts fl) (fw_ts ?f)" by blast+
  have "no_offline_body (fl\<lparr>fl_fw := ?f\<rparr>)"
    by (rule no_offline_body_kept [OF _ _ inv]) (use S w in \<open>simp_all add: job_list_def\<close>)
  with ev w show ?thesis by (simp add: flag_stuck_def)
qed

lemma stuck_steps:
  assumes "(flow_step junk E P rand)\<^sup>*\<^sup>* fl fl'" and "reachable junk E P rand fl" and "ids_distinct rand (flow_ts fl')" and "flag_stuck fl"
  shows "flag_stuck fl'"
  using assms
proof (induction rule: rtranclp_induct)
  case (step s t)
  have reach: "reachable junk E P rand s" using step.hyps(1) assms(2) by (induction rule: rtranclp_induct) (auto intro: reach.reach_step)
  have ids: "ids_distinct rand (flow_ts s)" using step.prems(2) step_grows [OF step.hyps(2)] by (rule ids_back)
  have inv: "flow_inv rand s" using reach ids by (rule reachable_inv)
  have "flag_stuck s" using step.IH step.prems ids by blast
  with step.hyps(2) inv show ?case by (auto elim!: flow_stepE intro: stuck_env stuck_internal)
qed

text \<open>
  Property C2. When the last device left, the flag \<open>flagUnInit_\<close> is set, and only the release at the end of an
  offline task resets it; the offline task skips the release when another task is still on the board. From
  such a state on (the flag is set, no device is online, no offline task is left) the framework refuses
  every device, whatever happens later: the flag stays set, no device comes online, and the event of a
  device that comes online is answered with an error.
\<close>

theorem skipped_release_refuses_devices:
  assumes "reachable junk E P rand fl" and "flag_stuck fl" and "(flow_step junk E P rand)\<^sup>*\<^sup>* fl fl'"
    and "ids_distinct rand (fw_ts (fl_fw fl'))"
    and "IsIdLengthValid networkId" "IsIdLengthValid uuid" "IsIdLengthValid udid"
  shows "fw_flagUnInit (fl_fw fl') \<and> cx_devIdEntrySet (fw_cx (fl_fw fl')) = []
    \<and> SendOnLineEvent E P rand networkId uuid udid (fl_fw fl') = (ERR_DH_FWK_HARDWARE_MANAGER_INIT_FAILED, fl_fw fl')"
proof -
  have "flag_stuck fl'" using assms(3,1,4,2) by (rule stuck_steps)
  then have "fw_flagUnInit (fl_fw fl')" "online (fl_fw fl') = []" by (simp_all add: flag_stuck_def)
  then show ?thesis using assms(5-7) by (simp add: SendOnLineEvent_def)
qed

end
