(* ===== verification/DHF_Sample.thy ===== *)
theory DHF_Sample
  imports DHF_Online
begin

text \<open>
  One run of the framework in detail, for the concrete instances of the properties of reachable states: the
  only online device goes offline, its offline task creates a meta disable task and waits for it, and both
  end. The states on the way are described by what matters of them (\<open>flow_view\<close>): the task objects, the
  queue, the posted tasks, the bodies, and an upper bound of the tasks on the board.
\<close>

section \<open>Views of a state\<close>

definition flow_view ::
  "task list \<Rightarrow> nat list \<Rightarrow> nat list \<Rightarrow> job list \<Rightarrow> nat set \<Rightarrow> device_id_entry list \<Rightarrow> ('w, 'c) flow \<Rightarrow> bool" where
  "flow_view h q p js B es fl \<longleftrightarrow> ts_heap (flow_ts fl) = h \<and> ts_taskQueue (flow_ts fl) = q \<and> ts_posted (flow_ts fl) = p
     \<and> fl_jobs fl = js \<and> fl_handler fl = None \<and> im_map (rs_cap (fw_rs (fl_fw fl))) = [] \<and> im_map (rs_meta (fw_rs (fl_fw fl))) = []
     \<and> snd ` set (ts_tasks (flow_ts fl)) \<subseteq> B \<and> ents (rs_sys (fw_rs (fl_fw fl))) = es \<and> fw_flagUnInit (fl_fw fl)"

text \<open>A reachable state with a view.\<close>

definition reached ::
  "('w, 'j) env \<Rightarrow> 'c comp_api \<Rightarrow> rand \<Rightarrow> task list \<Rightarrow> nat list \<Rightarrow> nat list \<Rightarrow> job list \<Rightarrow> nat set \<Rightarrow> device_id_entry list \<Rightarrow> ('w, 'c) flow \<Rightarrow> bool" where
  "reached E P rand h q p js B es fl \<longleftrightarrow> reachable 0 E P rand fl \<and> flow_view h q p js B es fl"

lemma reached_internal:
  assumes "reached E P rand h q p js B es fl" and "internal_step E P rand mv fl = Some fl'" and "flow_view h' q' p' js' B' es' fl'"
  shows "reached E P rand h' q' p' js' B' es' fl'"
  using assms by (auto simp: reached_def intro: reach.reach_step step_internal)

lemma reached_trigger:
  assumes "reached E P rand h (r # q) p js B es fl"
  shows "\<exists>fl'. reached E P rand h q (p @ [r]) js B es fl'"
proof -
  have step: "internal_step E P rand Mv_Trigger fl = Some (fl\<lparr>fl_fw := (fl_fw fl)\<lparr>fw_ts := (flow_ts fl)\<lparr>ts_taskQueue := q, ts_posted := p @ [r]\<rparr>\<rparr>\<rparr>)"
    using assms by (simp add: reached_def flow_view_def internal_step_def Let_def TriggerTask_def PopTask_def)
  show ?thesis
    by (rule exI, rule reached_internal [OF assms step]) (use assms in \<open>simp add: reached_def flow_view_def\<close>)
qed

lemma reached_handle:
  assumes "reached E P rand h q (r # p) js B es fl" and "tk_taskType (h ! r) \<noteq> TaskType_ON_LINE"
  shows "\<exists>fl'. reached E P rand h q p (js @ [\<lparr> jb_task = r, jb_ret = DH_FWK_SUCCESS, jb_pc = program (h ! r) \<rparr>]) B es fl'"
proof -
  have step: "internal_step E P rand Mv_Handle fl = Some (fl\<lparr>fl_fw := upd_ts (\<lambda>ts. ts\<lparr>ts_posted := p\<rparr>) (fl_fw fl),
      fl_jobs := js @ [\<lparr> jb_task = r, jb_ret = DH_FWK_SUCCESS, jb_pc = program (h ! r) \<rparr>]\<rparr>)"
    using assms by (simp add: reached_def flow_view_def internal_step_def Let_def start_job_def)
  show ?thesis
    by (rule exI, rule reached_internal [OF assms(1) step]) (use assms in \<open>simp add: reached_def flow_view_def upd_ts_def\<close>)
qed

text \<open>One action of the body at position \<open>i\<close>.\<close>

lemma reached_job:
  assumes "reached E P rand h q p js B es fl" and "i < length js" "js ! i = \<lparr> jb_task = r, jb_ret = ret, jb_pc = a # pc \<rparr>"
    and "exec_action E P rand [] r ret a (fl_fw fl) = Some (ret', acts, f')"
    and "ts_heap (fw_ts f') = h'" "ts_taskQueue (fw_ts f') = q'" "ts_posted (fw_ts f') = p'"
    and "im_map (rs_cap (fw_rs f')) = []" "im_map (rs_meta (fw_rs f')) = []" "snd ` set (ts_tasks (fw_ts f')) \<subseteq> B'"
    and "ents (rs_sys (fw_rs f')) = es'" "fw_flagUnInit f'"
  shows "\<exists>fl'. reached E P rand h' q' p' (put_job i \<lparr> jb_task = r, jb_ret = ret', jb_pc = acts @ pc \<rparr> js) B' es' fl'"
proof -
  have step: "internal_step E P rand (Mv_Job i []) fl = Some (fl\<lparr>fl_fw := f', fl_jobs := put_job i \<lparr> jb_task = r, jb_ret = ret', jb_pc = acts @ pc \<rparr> js\<rparr>)"
    using assms by (simp add: reached_def flow_view_def internal_step_def Let_def run_job_def)
  show ?thesis
    by (rule exI, rule reached_internal [OF assms(1) step]) (use assms in \<open>simp add: reached_def flow_view_def\<close>)
qed

text \<open>An action that changes the task system only.\<close>

lemma reached_ts:
  assumes "reached E P rand h q p js B es fl" and "i < length js" "js ! i = \<lparr> jb_task = r, jb_ret = ret, jb_pc = a # pc \<rparr>"
    and "exec_action E P rand [] r ret a (fl_fw fl) = Some (ret, [], upd_ts g (fl_fw fl))"
    and "ts_heap (g (flow_ts fl)) = h'" "ts_taskQueue (g (flow_ts fl)) = q'" "ts_posted (g (flow_ts fl)) = p'"
    and "snd ` set (ts_tasks (g (flow_ts fl))) \<subseteq> B'"
  shows "\<exists>fl'. reached E P rand h' q' p' (put_job i \<lparr> jb_task = r, jb_ret = ret, jb_pc = pc \<rparr> js) B' es fl'"
proof -
  have "fw_rs (upd_ts g (fl_fw fl)) = fw_rs (fl_fw fl)" "fw_flagUnInit (upd_ts g (fl_fw fl)) = fw_flagUnInit (fl_fw fl)"
    by (simp_all add: upd_ts_def)
  with reached_job [OF assms(1-4), of h' q' p' B' es] assms(1,5-) show ?thesis by (auto simp: reached_def flow_view_def)
qed

lemma reached_state:
  assumes "reached E P rand h q p js B es fl" and "i < length js" "js ! i = \<lparr> jb_task = r, jb_ret = ret, jb_pc = a # pc \<rparr>"
    and "r < length h" and a: "a = SetRunning \<and> st = TaskState_RUNNING \<or> a = SetSuccess \<and> st = TaskState_SUCCESS \<or> a = EndMeta \<and> st = end_state ret"
  shows "\<exists>fl'. reached E P rand (h[r := (h ! r)\<lparr>tk_taskState := st\<rparr>]) q p (put_job i \<lparr> jb_task = r, jb_ret = ret, jb_pc = pc \<rparr> js) B es fl'"
proof (rule reached_ts [OF assms(1-3), where g = "SetTaskState r st"])
  show "exec_action E P rand [] r ret a (fl_fw fl) = Some (ret, [], upd_ts (SetTaskState r st) (fl_fw fl))"
    using a by (auto simp: exec_action_def Let_def)
qed (use assms(1,4) in \<open>auto simp: reached_def flow_view_def SetTaskState_def upd_task_def\<close>)

section \<open>The run\<close>

definition sample_api :: "unit comp_api" where
  "sample_api = \<lparr> cp_LoaderInit = id, cp_LoaderUnInit = id, cp_GetLocalDHVersion = (\<lambda>_. (ERR_DH_FWK_PARA_INVALID, \<lparr> dv_uuid = [], dv_dhVersion = [], dv_compVersions = [] \<rparr>)),
     cp_Handlers = (\<lambda>_. []), cp_CompInit = id, cp_CompUnInit = id, cp_QueryDeviceDataSyncMode = id,
     cp_IsDeviceE2ESync = (\<lambda>_. False), cp_PublishOffline = (\<lambda>_. id), cp_Enable = (\<lambda>_ _ _ _ c. (DH_FWK_SUCCESS, c)),
     cp_Disable = (\<lambda>_ _ _ _ c. (DH_FWK_SUCCESS, c)), cp_ModemSource = (\<lambda>_. True), cp_ModemHandler = id,
     cp_ModemInstance = (\<lambda>c. (True, c)), cp_ModemEnable = (\<lambda>_ c. (DH_FWK_SUCCESS, c)),
     cp_ModemDisable = (\<lambda>_ c. (DH_FWK_SUCCESS, c)), cp_ModemUnInit = id \<rparr>"

definition sample_entry :: device_id_entry where
  "sample_entry = DeviceIdEntry ''net'' ''uuid'' ''0af3'' ''udid'' ''77be''"

definition sample_sys :: "kv_world sys" where
  "sample_sys = sys_model\<lparr>sys_cx := DHContext_new\<lparr>cx_devIdEntrySet := [sample_entry],
     cx_realTimeOnLineNetworkIdSet := [''net'']\<rparr>\<rparr>"

definition sample_res :: "kv_world resources" where
  "sample_res = \<lparr> rs_sys = sample_sys, rs_cap = info_mgr_new, rs_local = info_mgr_new, rs_meta = info_mgr_new,
     rs_ver = \<lparr> vm_db = None, vm_versions = [] \<rparr>,
     rs_hw = \<lparr> lh_localDHItemsMap = [], lh_compToolFuncsMap = [], lh_pluginListenerMap = [] \<rparr> \<rparr>"

definition sample_flow :: "(kv_world, unit) flow" where
  "sample_flow = \<lparr> fl_fw = \<lparr> fw_rs = sample_res, fw_ts = task_sys_new, fw_comp = (), fw_isLocalInit = True,
     fw_isAllInit = True, fw_isInit = True, fw_flagUnInit = False, fw_sendThreads = [], fw_exitRequested = False \<rparr>,
     fl_jobs = [], fl_handler = None \<rparr>"

abbreviation (input) sample_reached ::
  "task list \<Rightarrow> nat list \<Rightarrow> nat list \<Rightarrow> job list \<Rightarrow> nat set \<Rightarrow> device_id_entry list \<Rightarrow> (kv_world, unit) flow \<Rightarrow> bool" where
  "sample_reached \<equiv> reached env_model sample_api sample_rand"

definition off_task :: "task_state \<Rightarrow> string list \<Rightarrow> task" where
  "off_task st waits = (created TaskType_OFF_LINE (random_id sample_rand 0) (line_param ''net'' ''uuid'' ''udid'') None)
     \<lparr>tk_taskState := st, tk_unFinishChildrenTasks := waits\<rparr>"

definition dis_param :: task_param where
  "dis_param = \<lparr> tp_networkId = ''net'', tp_uuid = ''uuid'', tp_udid = [], tp_dhId = [], tp_dhType = DHType_UNKNOWN \<rparr>"

definition dis_task :: "task_state \<Rightarrow> task" where
  "dis_task st = (created TaskType_META_DISABLE (random_id sample_rand 1) dis_param (Some 0))\<lparr>tk_taskState := st\<rparr>"

lemma sample_tasks:
  "tk_taskType (off_task st w) = TaskType_OFF_LINE" "tk_taskType (dis_task st) = TaskType_META_DISABLE"
  "tk_networkId (off_task st w) = ''net''" "tk_uuid (off_task st w) = ''uuid''" "tk_dhId (off_task st w) = []"
  "tk_dhType (off_task st w) = DHType_UNKNOWN" "tk_unFinishChildrenTasks (off_task st w) = w"
  "tk_networkId (dis_task st) = ''net''" "tk_fatherTask (dis_task st) = Some 0" "tk_id (dis_task st) = task_id sample_rand 1"
  "tk_id (off_task st w) = task_id sample_rand 0" "tk_taskState (dis_task st) = st"
  "(off_task st w)\<lparr>tk_taskState := st'\<rparr> = off_task st' w" "(dis_task st)\<lparr>tk_taskState := st'\<rparr> = dis_task st'"
  "(off_task st w)\<lparr>tk_unFinishChildrenTasks := w'\<rparr> = off_task st w'"
  "tk_taskSteps (off_task st w) = steps_of TaskType_OFF_LINE" "tk_taskSteps (dis_task st) = steps_of TaskType_META_DISABLE"
  by (simp_all add: off_task_def dis_task_def line_param_def dis_param_def task_id_def created_steps)

lemma sample_progs: "program (off_task st w) = prog TaskType_OFF_LINE" "program (dis_task st) = prog TaskType_META_DISABLE"
  by (simp_all add: program_prog sample_tasks)

lemma sample_start: "reachable 0 env_model sample_api sample_rand sample_flow"
  by (rule reach.reach_init) (simp add: flow_init_def sample_flow_def)

text \<open>The device goes offline: an offline task is created and queued.\<close>

lemma sample_offline:
  "\<exists>fl. sample_reached [off_task TaskState_INIT []] [0] [] [] {0} [sample_entry] fl"
proof -
  let ?f = "env_event 0 env_model sample_api sample_rand (Ev_Offline ''net'') (fl_fw sample_flow)"
  let ?ts = "create_and_push sample_rand TaskType_OFF_LINE (line_param ''net'' ''uuid'' ''udid'') None task_sys_new"
  have cx: "DeleteRealTimeOnlineDeviceNetworkId ''net'' (sys_cx sample_sys) = DHContext_new\<lparr>cx_devIdEntrySet := [sample_entry]\<rparr>"
    by (simp add: DeleteRealTimeOnlineDeviceNetworkId_def sample_sys_def DHContext_new_def sset_erase_def IsIdLengthValid_def)
  have ids: "GetUUIDByNetworkId (sys_cx sample_sys) ''net'' = ''uuid''" "GetUDIDByNetworkId (sys_cx sample_sys) ''net'' = ''udid''"
    "IsDeviceOnline (sys_cx sample_sys) ''uuid''" "IsIdLengthValid ''net''" "IsIdLengthValid ''uuid''" "IsIdLengthValid ''udid''"
    by (simp_all add: GetUUIDByNetworkId_def GetUDIDByNetworkId_def IsDeviceOnline_def first_entry_def IsIdLengthValid_def sample_sys_def
        sample_entry_def)
  have last: "GetRealTimeOnlineDeviceCount (DHContext_new\<lparr>cx_devIdEntrySet := [sample_entry]\<rparr>) = 0"
    "GetIsomerismConnectCount (DHContext_new\<lparr>cx_devIdEntrySet := [sample_entry]\<rparr>) = 0"
    by (simp_all add: GetRealTimeOnlineDeviceCount_def GetIsomerismConnectCount_def DHContext_new_def)
  have f: "fw_ts ?f = ?ts \<and> rs_cap (fw_rs ?f) = info_mgr_new \<and> rs_meta (fw_rs ?f) = info_mgr_new
      \<and> ents (rs_sys (fw_rs ?f)) = [sample_entry] \<and> fw_flagUnInit ?f"
    by (simp add: env_event_def OnDeviceOffline_def SendOffLineEvent_def Manager_SendOffLineEvent_def fw_cx_def sample_flow_def
        sample_res_def upd_cx_def Let_def cx ids last)
  have init: "(created TaskType_OFF_LINE rid p None)\<lparr>tk_taskState := TaskState_INIT, tk_unFinishChildrenTasks := []\<rparr>
      = created TaskType_OFF_LINE rid p None" for rid p
    by (rule task.equality) simp_all
  have "ts_heap ?ts = [off_task TaskState_INIT []]" "ts_taskQueue ?ts = [0]" "ts_posted ?ts = []"
    "snd ` set (ts_tasks ?ts) \<subseteq> {0}"
    by (simp_all add: create_and_push_Push CreateTask_unfold task_sys_new_def off_task_def init)
      (simp_all add: PushTask_def AddTask_def smap_get_def smap_emplace_def)
  with f have "flow_view [off_task TaskState_INIT []] [0] [] [] {0} [sample_entry] (sample_flow\<lparr>fl_fw := ?f\<rparr>)"
    by (simp add: flow_view_def info_mgr_new_def) (simp add: sample_flow_def)
  moreover have "reachable 0 env_model sample_api sample_rand (sample_flow\<lparr>fl_fw := ?f\<rparr>)"
    using sample_start by (rule reach.reach_step) (rule step_env)
  ultimately show ?thesis by (auto simp: reached_def)
qed

text \<open>A step of the offline task: it leaves everything as it is and puts creations in front.\<close>

lemma reached_step:
  assumes "sample_reached h q p js B es fl" and "i < length js" "js ! i = \<lparr> jb_task = r, jb_ret = ret, jb_pc = DoStep s # pc \<rparr>"
    and "h ! r = off_task st w"
    and "s = META_DISABLE_TASK \<and> acts = [Spawn TaskType_META_DISABLE dis_param] \<and> es' = es
       \<or> s = UNREGISTER_OFFLINE_DISTRIBUTED_HARDWARE \<and> acts = [] \<and> es' = es
       \<or> s = WAIT_UNREGISTGER_COMPLETE \<and> w = [] \<and> acts = [] \<and> es = [sample_entry] \<and> es' = []
       \<or> s = CLEAR_OFFLINE_INFO \<and> acts = [] \<and> es' = es"
  shows "\<exists>fl'. sample_reached h q p (put_job i \<lparr> jb_task = r, jb_ret = ret, jb_pc = acts @ pc \<rparr> js) B es' fl'"
proof -
  let ?f = "fl_fw fl"
  have V: "ts_heap (fw_ts ?f) = h" "im_map (rs_cap (fw_rs ?f)) = []" "im_map (rs_meta (fw_rs ?f)) = []"
    "ents (rs_sys (fw_rs ?f)) = es" "fw_flagUnInit ?f"
    using assms(1) by (simp_all add: reached_def flow_view_def)
  have none: "offline_infos env_model (off_task st w) (fw_rs ?f) = []"
    using V by (simp add: offline_infos_def Let_def dh_infos_def CapMgr_GetCapabilitiesByDeviceId_def map_by_device_def
        MetaMgr_GetMetaCapInfosByUdidHash_def)
  have clear: "im_map (rs_cap (fw_rs (ClearOffLineInfo env_model (off_task st w) ?f))) = []
      \<and> rs_meta (fw_rs (ClearOffLineInfo env_model (off_task st w) ?f)) = rs_meta (fw_rs ?f)
      \<and> ents (rs_sys (fw_rs (ClearOffLineInfo env_model (off_task st w) ?f))) = es
      \<and> fw_flagUnInit (ClearOffLineInfo env_model (off_task st w) ?f)"
    using V by (auto simp: ClearOffLineInfo_def on_cap_def CapMgr_RemoveCapabilityInfoInMem_def case_prod_unfold Let_def)
  have leave: "cx_devIdEntrySet (RemoveOnlineDeviceIdEntryByNetworkId ''net'' (fw_cx ?f)) = []" if "es = [sample_entry]"
    using that V(4) by (simp add: RemoveOnlineDeviceIdEntryByNetworkId_def IsIdLengthValid_def sample_entry_def fw_cx_def)
  have "\<exists>f'. exec_action env_model sample_api sample_rand [] r ret (DoStep s) ?f = Some (ret, acts, f')
      \<and> fw_ts f' = fw_ts ?f \<and> im_map (rs_cap (fw_rs f')) = [] \<and> rs_meta (fw_rs f') = rs_meta (fw_rs ?f)
      \<and> ents (rs_sys (fw_rs f')) = es' \<and> fw_flagUnInit f'"
    using assms(5) V(1,2,4,5) assms(4) none clear leave
    by (auto simp: exec_action_def Let_def sample_tasks offline_step_def CreateMetaDisableTask_def CreateDisableTask_def dis_param_def
        WaitDisableTaskFinish_def upd_cx_def)
  then obtain f' where f': "exec_action env_model sample_api sample_rand [] r ret (DoStep s) ?f = Some (ret, acts, f')"
    "fw_ts f' = fw_ts ?f" "im_map (rs_cap (fw_rs f')) = []" "rs_meta (fw_rs f') = rs_meta (fw_rs ?f)"
    "ents (rs_sys (fw_rs f')) = es'" "fw_flagUnInit f'" by blast
  show ?thesis
    by (rule reached_job [OF assms(1-3) f'(1)]) (use assms(1) f'(2-) in \<open>simp_all add: reached_def flow_view_def\<close>)
qed

text \<open>The creation of the meta disable task.\<close>

lemma AddTask_tasks: "snd ` set (ts_tasks (AddTask (Some r) ts)) \<subseteq> insert r (snd ` set (ts_tasks ts))"
proof -
  have "snd ` set (smap_put k v m) \<subseteq> insert v (snd ` set m)" for k :: string and v :: nat and m
    by (induction k v m rule: smap_put.induct) auto
  then show ?thesis by (auto simp: AddTask_def smap_emplace_def split: option.splits)
qed

lemma sample_spawn:
  assumes r: "sample_reached [off_task st []] [] [] js {0} es fl" and "i < length js"
    "js ! i = \<lparr> jb_task = 0, jb_ret = ret, jb_pc = Spawn TaskType_META_DISABLE dis_param # pc \<rparr>"
  shows "\<exists>fl'. sample_reached [off_task st [task_id sample_rand 1], dis_task TaskState_INIT] [1] []
      (put_job i \<lparr> jb_task = 0, jb_ret = ret, jb_pc = pc \<rparr> js) {0, 1} es fl'"
proof (rule reached_ts [OF assms, where g = "create_and_push sample_rand TaskType_META_DISABLE dis_param (Some 0)"])
  let ?ts = "flow_ts fl"
  have V: "ts_heap ?ts = [off_task st []]" "ts_taskQueue ?ts = []" "ts_posted ?ts = []" "snd ` set (ts_tasks ?ts) \<subseteq> {0}"
    using r by (simp_all add: reached_def flow_view_def)
  have init: "(created TaskType_META_DISABLE rid p f)\<lparr>tk_taskState := TaskState_INIT\<rparr> = created TaskType_META_DISABLE rid p f" for rid p f
    by (rule task.equality) simp_all
  show "ts_heap (create_and_push sample_rand TaskType_META_DISABLE dis_param (Some 0) ?ts)
      = [off_task st [task_id sample_rand 1], dis_task TaskState_INIT]"
    by (simp add: create_and_push_Push CreateTask_unfold V AddChildrenTask_def upd_task_def sample_tasks OffLineTask_AddChildrenTask_def
        dis_task_def init)
  show "ts_taskQueue (create_and_push sample_rand TaskType_META_DISABLE dis_param (Some 0) ?ts) = [1]"
    by (simp add: create_and_push_Push V) (simp add: PushTask_def V)
  show "ts_posted (create_and_push sample_rand TaskType_META_DISABLE dis_param (Some 0) ?ts) = []"
    by (simp add: create_and_push_Push V)
  show "snd ` set (ts_tasks (create_and_push sample_rand TaskType_META_DISABLE dis_param (Some 0) ?ts)) \<subseteq> {0, 1}"
  proof -
    have "snd ` set (ts_tasks (create_and_push sample_rand TaskType_META_DISABLE dis_param (Some 0) ?ts))
        \<subseteq> insert 1 (snd ` set (ts_tasks ?ts))"
      by (simp add: create_and_push_Push CreateTask_unfold V) (rule order_trans [OF AddTask_tasks], simp)
    also have "\<dots> \<subseteq> {0, 1}" using insert_mono [OF V(4), of 1] by (simp add: insert_commute)
    finally show ?thesis .
  qed
qed (simp add: exec_action_def)

text \<open>The call of the modem component, the notification and the removal.\<close>

lemma reached_call:
  assumes "sample_reached h q p js B es fl" and "i < length js" "js ! i = \<lparr> jb_task = r, jb_ret = ret, jb_pc = CallMetaDisable # pc \<rparr>"
  shows "\<exists>fl'. sample_reached h q p (put_job i \<lparr> jb_task = r, jb_ret = DH_FWK_SUCCESS, jb_pc = pc \<rparr> js) B es fl'"
proof -
  have ex: "exec_action env_model sample_api sample_rand [] r ret CallMetaDisable (fl_fw fl)
      = Some (DH_FWK_SUCCESS, [], (fl_fw fl)\<lparr>fw_comp := fw_comp (fl_fw fl)\<rparr>)"
    by (simp add: exec_action_def Let_def MetaDisable_def sample_api_def)
  show ?thesis by (rule reached_job [OF assms ex, simplified append_Nil]) (use assms(1) in \<open>simp_all add: reached_def flow_view_def\<close>)
qed

lemma sample_notify:
  assumes r: "sample_reached [off_task st [task_id sample_rand 1], dis_task st'] q p js B es fl" and "i < length js"
    "js ! i = \<lparr> jb_task = 1, jb_ret = ret, jb_pc = NotifyFather # pc \<rparr>"
  shows "\<exists>fl'. sample_reached [off_task st [], dis_task st'] q p (put_job i \<lparr> jb_task = 1, jb_ret = ret, jb_pc = pc \<rparr> js) B es fl'"
proof (rule reached_ts [OF assms, where g = "notify_father (dis_task st')"])
  show "exec_action env_model sample_api sample_rand [] 1 ret NotifyFather (fl_fw fl)
      = Some (ret, [], upd_ts (notify_father (dis_task st')) (fl_fw fl))"
    using r by (simp add: exec_action_def Let_def reached_def flow_view_def)
qed (use r in \<open>simp_all add: reached_def flow_view_def notify_father_def sample_tasks NotifyFatherFinish_def upd_task_def sset_erase_def\<close>)

lemma reached_remove:
  assumes r: "sample_reached h q p js B es fl" and "i < length js"
    "js ! i = \<lparr> jb_task = r, jb_ret = ret, jb_pc = RemoveSelf # pc \<rparr>" and h: "r < length h" and ids: "ids_distinct sample_rand (flow_ts fl)"
  shows "\<exists>fl'. sample_reached h q p (put_job i \<lparr> jb_task = r, jb_ret = ret, jb_pc = pc \<rparr> js) (B - {r}) es fl'"
proof (rule reached_ts [OF assms(1-3), where g = "RemoveTask (tk_id (h ! r))"])
  have "flow_inv sample_rand fl" using r ids by (auto simp: reached_def intro: reachable_inv)
  then have ok: "task_sys_ok sample_rand (flow_ts fl)" by (rule pipe_invD(1) [OF flow_invD(4)])
  have "task_sys_ok sample_rand (RemoveTask (tk_id (h ! r)) (flow_ts fl))" using ok by (rule task_sys_ok_board)
  then have srt: "smap_sorted (ts_tasks (RemoveTask (tk_id (h ! r)) (flow_ts fl)))"
    and keys: "smap_get (ts_tasks (RemoveTask (tk_id (h ! r)) (flow_ts fl))) k = Some x \<Longrightarrow> k = task_id sample_rand x" for k x
    by (simp_all add: task_sys_ok_def)
  have id: "tk_id (h ! r) = task_id sample_rand r" using task_sys_okD(3) [OF ok] r h by (simp add: reached_def flow_view_def)
  have get: "smap_get (ts_tasks (RemoveTask (tk_id (h ! r)) (flow_ts fl))) k
      = (if k = tk_id (h ! r) then None else smap_get (ts_tasks (flow_ts fl)) k)" for k
    using ok by (simp add: RemoveTask_def RemoveTaskInner_def task_sys_ok_def)
  show "snd ` set (ts_tasks (RemoveTask (tk_id (h ! r)) (flow_ts fl))) \<subseteq> B - {r}"
  proof
    fix x assume "x \<in> snd ` set (ts_tasks (RemoveTask (tk_id (h ! r)) (flow_ts fl)))"
    then obtain k where k: "smap_get (ts_tasks (RemoveTask (tk_id (h ! r)) (flow_ts fl))) k = Some x"
      using srt by (auto simp: smap_get_iff)
    then have "smap_get (ts_tasks (flow_ts fl)) k = Some x" "x \<noteq> r" using get keys [OF k] id by (auto split: if_splits)
    moreover have "smap_sorted (ts_tasks (flow_ts fl))" using ok by (simp add: task_sys_ok_def)
    ultimately show "x \<in> B - {r}" using r by (force simp: reached_def flow_view_def smap_get_iff)
  qed
  show "exec_action env_model sample_api sample_rand [] r ret RemoveSelf (fl_fw fl) = Some (ret, [], upd_ts (RemoveTask (tk_id (h ! r))) (fl_fw fl))"
    using r by (simp add: exec_action_def Let_def reached_def flow_view_def)
qed (use r in \<open>simp_all add: reached_def flow_view_def RemoveTask_def RemoveTaskInner_def\<close>)

text \<open>The identifiers of the two tasks differ.\<close>

lemma sample_ids: "length (ts_heap ts) \<le> 2 \<Longrightarrow> ids_distinct sample_rand ts"
proof -
  assume "length (ts_heap ts) \<le> 2"
  moreover have "inj_on (task_id sample_rand) {..<2}"
    using sample_fresh by (auto simp: inj_on_def fresh_id_def numeral_2_eq_2 less_Suc_eq)
  ultimately show ?thesis unfolding ids_distinct_def by (auto elim: inj_on_subset)
qed

definition off_body :: "action list \<Rightarrow> job" where
  "off_body pc = \<lparr> jb_task = 0, jb_ret = DH_FWK_SUCCESS, jb_pc = pc \<rparr>"

definition dis_body :: "action list \<Rightarrow> job" where
  "dis_body pc = \<lparr> jb_task = 1, jb_ret = DH_FWK_SUCCESS, jb_pc = pc \<rparr>"

text \<open>The offline task waits, its child is queued.\<close>

lemma sample_waiting:
  "\<exists>fl. sample_reached [off_task TaskState_RUNNING [task_id sample_rand 1], dis_task TaskState_INIT] [1] []
     [off_body [Wait, DoStep CLEAR_OFFLINE_INFO, SetSuccess, RemoveSelf, CheckUnInit]] {0, 1} [sample_entry] fl"
proof -
  note P = prog_def put_job_def off_body_def
  obtain fl1 where "sample_reached [off_task TaskState_INIT []] [0] [] [] {0} [sample_entry] fl1" using sample_offline by blast
  then obtain fl2 where "sample_reached [off_task TaskState_INIT []] [] [0] [] {0} [sample_entry] fl2" using reached_trigger by fastforce
  from reached_handle [OF this] obtain fl3
    where "sample_reached [off_task TaskState_INIT []] [] [] [off_body (prog TaskType_OFF_LINE)] {0} [sample_entry] fl3"
    by (auto simp: sample_tasks sample_progs off_body_def)
  from reached_state [OF this, of 0 0 DH_FWK_SUCCESS SetRunning _ TaskState_RUNNING] obtain fl4
    where "sample_reached [off_task TaskState_RUNNING []] [] [] [off_body (tl (prog TaskType_OFF_LINE))] {0} [sample_entry] fl4"
    by (auto simp: P sample_tasks)
  from reached_step [OF this, of 0 0 DH_FWK_SUCCESS META_DISABLE_TASK _ TaskState_RUNNING "[]"] obtain fl5
    where "sample_reached [off_task TaskState_RUNNING []] [] []
      [off_body (Spawn TaskType_META_DISABLE dis_param # tl (tl (prog TaskType_OFF_LINE)))] {0} [sample_entry] fl5"
    by (auto simp: P)
  from sample_spawn [OF this, of 0 DH_FWK_SUCCESS] obtain fl6
    where "sample_reached [off_task TaskState_RUNNING [task_id sample_rand 1], dis_task TaskState_INIT] [1] []
      [off_body (tl (tl (prog TaskType_OFF_LINE)))] {0, 1} [sample_entry] fl6"
    by (auto simp: P)
  from reached_step [OF this, of 0 0 DH_FWK_SUCCESS UNREGISTER_OFFLINE_DISTRIBUTED_HARDWARE
      "[Wait, DoStep CLEAR_OFFLINE_INFO, SetSuccess, RemoveSelf, CheckUnInit]" TaskState_RUNNING "[task_id sample_rand 1]" "[]"]
  show ?thesis by (auto simp: P)
qed

text \<open>The child has done its work and is about to notify its father.\<close>

lemma sample_notifying:
  "\<exists>fl. sample_reached [off_task TaskState_RUNNING [task_id sample_rand 1], dis_task TaskState_SUCCESS] [] []
     [off_body [Wait, DoStep CLEAR_OFFLINE_INFO, SetSuccess, RemoveSelf, CheckUnInit], dis_body [NotifyFather, RemoveSelf]] {0, 1} [sample_entry] fl"
proof -
  note P = prog_def put_job_def off_body_def dis_body_def
  let ?o = "off_task TaskState_RUNNING [task_id sample_rand 1]"
  let ?w = "off_body [Wait, DoStep CLEAR_OFFLINE_INFO, SetSuccess, RemoveSelf, CheckUnInit]"
  obtain fl1 where "sample_reached [?o, dis_task TaskState_INIT] [1] [] [?w] {0, 1} [sample_entry] fl1" using sample_waiting by blast
  then obtain fl2 where "sample_reached [?o, dis_task TaskState_INIT] [] [1] [?w] {0, 1} [sample_entry] fl2" using reached_trigger by fastforce
  from reached_handle [OF this] obtain fl3
    where "sample_reached [?o, dis_task TaskState_INIT] [] [] [?w, dis_body (prog TaskType_META_DISABLE)] {0, 1} [sample_entry] fl3"
    by (auto simp: sample_tasks sample_progs dis_body_def)
  from reached_state [OF this, of 1 1 DH_FWK_SUCCESS SetRunning _ TaskState_RUNNING] obtain fl4
    where "sample_reached [?o, dis_task TaskState_RUNNING] [] [] [?w, dis_body (tl (prog TaskType_META_DISABLE))] {0, 1} [sample_entry] fl4"
    by (auto simp: P sample_tasks)
  from reached_call [OF this, of 1 1 DH_FWK_SUCCESS] obtain fl5
    where "sample_reached [?o, dis_task TaskState_RUNNING] [] [] [?w, dis_body (tl (tl (prog TaskType_META_DISABLE)))] {0, 1} [sample_entry] fl5"
    by (auto simp: P)
  from reached_state [OF this, of 1 1 DH_FWK_SUCCESS EndMeta _ TaskState_SUCCESS] show ?thesis
    by (auto simp: P sample_tasks end_state_def)
qed

text \<open>The offline task has passed its wait; its child is still on the board.\<close>

lemma sample_cleared:
  "\<exists>fl. sample_reached [off_task TaskState_RUNNING [], dis_task TaskState_SUCCESS] [] []
     [off_body [DoStep CLEAR_OFFLINE_INFO, SetSuccess, RemoveSelf, CheckUnInit], dis_body [RemoveSelf]] {0, 1} [] fl"
proof -
  note P = put_job_def off_body_def dis_body_def
  let ?w = "off_body [Wait, DoStep CLEAR_OFFLINE_INFO, SetSuccess, RemoveSelf, CheckUnInit]"
  obtain fl1 where "sample_reached [off_task TaskState_RUNNING [task_id sample_rand 1], dis_task TaskState_SUCCESS] [] []
    [?w, dis_body [NotifyFather, RemoveSelf]] {0, 1} [sample_entry] fl1" using sample_notifying by blast
  from sample_notify [OF this, of 1 DH_FWK_SUCCESS] obtain fl2
    where "sample_reached [off_task TaskState_RUNNING [], dis_task TaskState_SUCCESS] [] [] [?w, dis_body [RemoveSelf]] {0, 1} [sample_entry] fl2"
    by (auto simp: P)
  from reached_step [OF this, of 0 0 DH_FWK_SUCCESS WAIT_UNREGISTGER_COMPLETE
      "[DoStep CLEAR_OFFLINE_INFO, SetSuccess, RemoveSelf, CheckUnInit]" TaskState_RUNNING "[]" "[]" "[]"]
  show ?thesis by (auto simp: P)
qed

text \<open>Both tasks have left the board; the offline task is about to check whether to release the framework.\<close>

lemma sample_checking:
  "\<exists>fl. sample_reached [off_task TaskState_SUCCESS [], dis_task TaskState_SUCCESS] [] [] [off_body [CheckUnInit]] {} [] fl"
proof -
  note P = put_job_def off_body_def dis_body_def
  obtain fl1 where r1: "sample_reached [off_task TaskState_RUNNING [], dis_task TaskState_SUCCESS] [] []
    [off_body [DoStep CLEAR_OFFLINE_INFO, SetSuccess, RemoveSelf, CheckUnInit], dis_body [RemoveSelf]] {0, 1} [] fl1"
    using sample_cleared by blast
  then have "ids_distinct sample_rand (flow_ts fl1)" by (intro sample_ids) (simp add: reached_def flow_view_def)
  from reached_remove [OF r1, of 1 1 DH_FWK_SUCCESS "[]"] this obtain fl2
    where "sample_reached [off_task TaskState_RUNNING [], dis_task TaskState_SUCCESS] [] []
      [off_body [DoStep CLEAR_OFFLINE_INFO, SetSuccess, RemoveSelf, CheckUnInit]] {0} [] fl2"
    by (auto simp: P insert_Diff_if)
  from reached_step [OF this, of 0 0 DH_FWK_SUCCESS CLEAR_OFFLINE_INFO "[SetSuccess, RemoveSelf, CheckUnInit]" TaskState_RUNNING "[]" "[]" "[]"]
  obtain fl3 where "sample_reached [off_task TaskState_RUNNING [], dis_task TaskState_SUCCESS] [] []
      [off_body [SetSuccess, RemoveSelf, CheckUnInit]] {0} [] fl3"
    by (auto simp: P)
  from reached_state [OF this, of 0 0 DH_FWK_SUCCESS SetSuccess "[RemoveSelf, CheckUnInit]" TaskState_SUCCESS] obtain fl4
    where r4: "sample_reached [off_task TaskState_SUCCESS [], dis_task TaskState_SUCCESS] [] [] [off_body [RemoveSelf, CheckUnInit]] {0} [] fl4"
    by (auto simp: P sample_tasks)
  then have "ids_distinct sample_rand (flow_ts fl4)" by (intro sample_ids) (simp add: reached_def flow_view_def)
  from reached_remove [OF r4, of 0 0 DH_FWK_SUCCESS "[CheckUnInit]"] this show ?thesis by (auto simp: P)
qed

text \<open>
  The other order: the offline task leaves the board and checks while its child, which has notified it, is
  not yet off the board. The release is skipped, and no offline task is left.
\<close>

lemma sample_skipped:
  "\<exists>fl. sample_reached [off_task TaskState_SUCCESS [], dis_task TaskState_SUCCESS] [] [] [dis_body [RemoveSelf]] {1} [] fl"
proof -
  note P = put_job_def off_body_def dis_body_def
  let ?d = "dis_body [RemoveSelf]"
  obtain fl1 where "sample_reached [off_task TaskState_RUNNING [], dis_task TaskState_SUCCESS] [] []
    [off_body [DoStep CLEAR_OFFLINE_INFO, SetSuccess, RemoveSelf, CheckUnInit], ?d] {0, 1} [] fl1" using sample_cleared by blast
  from reached_step [OF this, of 0 0 DH_FWK_SUCCESS CLEAR_OFFLINE_INFO "[SetSuccess, RemoveSelf, CheckUnInit]" TaskState_RUNNING "[]" "[]" "[]"]
  obtain fl2 where "sample_reached [off_task TaskState_RUNNING [], dis_task TaskState_SUCCESS] [] []
      [off_body [SetSuccess, RemoveSelf, CheckUnInit], ?d] {0, 1} [] fl2" by (auto simp: P)
  from reached_state [OF this, of 0 0 DH_FWK_SUCCESS SetSuccess "[RemoveSelf, CheckUnInit]" TaskState_SUCCESS] obtain fl3
    where r3: "sample_reached [off_task TaskState_SUCCESS [], dis_task TaskState_SUCCESS] [] []
      [off_body [RemoveSelf, CheckUnInit], ?d] {0, 1} [] fl3" by (auto simp: P sample_tasks)
  then have "ids_distinct sample_rand (flow_ts fl3)" by (intro sample_ids) (simp add: reached_def flow_view_def)
  from reached_remove [OF r3, of 0 0 DH_FWK_SUCCESS "[CheckUnInit]"] this obtain fl4
    where r4: "sample_reached [off_task TaskState_SUCCESS [], dis_task TaskState_SUCCESS] [] [] [off_body [CheckUnInit], ?d] {1} [] fl4"
    by (auto simp: P insert_Diff_if)
  have I: "ids_distinct sample_rand (flow_ts fl4)" using r4 by (intro sample_ids) (simp add: reached_def flow_view_def)
  have "flow_inv sample_rand fl4" using r4 I by (auto simp: reached_def intro: reachable_inv)
  then have "on_board sample_rand (flow_ts fl4) 1"
    using pipe_invD(4) [OF flow_invD(4)] r4 by (force simp: board_ok_def reached_def flow_view_def job_list_def dis_body_def)
  then have "\<not> IsAllTaskFinish (flow_ts fl4)" by (auto simp: on_board_def IsAllTaskFinish_def smap_get_def)
  then have ex: "exec_action env_model sample_api sample_rand [] 0 DH_FWK_SUCCESS CheckUnInit (fl_fw fl4) = Some (DH_FWK_SUCCESS, [], fl_fw fl4)"
    by (simp add: exec_action_def Let_def offline_end_def)
  have "\<exists>fl. sample_reached [off_task TaskState_SUCCESS [], dis_task TaskState_SUCCESS] [] []
      (put_job 0 \<lparr> jb_task = 0, jb_ret = DH_FWK_SUCCESS, jb_pc = [] @ [] \<rparr> [off_body [CheckUnInit], ?d]) {1} [] fl"
    by (rule reached_job [OF r4 _ _ ex]) (use r4 in \<open>simp_all add: reached_def flow_view_def off_body_def\<close>)
  then show ?thesis by (simp add: put_job_def)
qed

section \<open>Instances\<close>

theorem skipped_release_refuses_devices_witness:
  "\<exists>fl. reachable 0 env_model sample_api sample_rand fl \<and> fw_flagUnInit (fl_fw fl)
     \<and> fst (SendOnLineEvent env_model sample_api sample_rand ''net2'' ''uuid2'' ''udid2'' (fl_fw fl))
         = ERR_DH_FWK_HARDWARE_MANAGER_INIT_FAILED"
proof -
  obtain fl where r: "sample_reached [off_task TaskState_SUCCESS [], dis_task TaskState_SUCCESS] [] [] [dis_body [RemoveSelf]] {1} [] fl"
    using sample_skipped by blast
  then have R: "reachable 0 env_model sample_api sample_rand fl" and I: "ids_distinct sample_rand (fw_ts (fl_fw fl))"
    by (auto simp: reached_def flow_view_def intro: sample_ids)
  have "flag_stuck fl"
    using r by (simp add: reached_def flow_view_def flag_stuck_def fw_cx_def no_offline_waiting_def no_offline_body_def job_list_def
        dis_body_def sample_tasks)
  from skipped_release_refuses_devices [OF R this rtranclp.rtrancl_refl I, of "''net2''" "''uuid2''" "''udid2''"] R show ?thesis
    by (auto simp: IsIdLengthValid_def)
qed

theorem notified_father_waits_witness:
  "\<exists>fl. reachable 0 env_model sample_api sample_rand fl
     \<and> task_id sample_rand 1 \<in> set (tk_unFinishChildrenTasks (ts_heap (fw_ts (fl_fw fl)) ! 0))
     \<and> smap_get (ts_tasks (fw_ts (fl_fw fl))) (task_id sample_rand 0) = Some 0"
proof -
  let ?d = "dis_body [NotifyFather, RemoveSelf]"
  obtain fl where r: "sample_reached [off_task TaskState_RUNNING [task_id sample_rand 1], dis_task TaskState_SUCCESS] [] []
     [off_body [Wait, DoStep CLEAR_OFFLINE_INFO, SetSuccess, RemoveSelf, CheckUnInit], ?d] {0, 1} [sample_entry] fl" using sample_notifying by blast
  then have "reachable 0 env_model sample_api sample_rand fl" "ids_distinct sample_rand (fw_ts (fl_fw fl))" "?d \<in> set (job_list fl)"
    "jb_pc ?d = NotifyFather # [RemoveSelf]" "tk_fatherTask (ts_heap (fw_ts (fl_fw fl)) ! jb_task ?d) = Some 0"
    by (auto simp: reached_def flow_view_def job_list_def dis_body_def sample_tasks intro: sample_ids)
  from notified_father_waits [OF this] this(1) show ?thesis by (auto simp: dis_body_def)
qed

theorem offline_clears_after_children_witness:
  "\<exists>fl. reachable 0 env_model sample_api sample_rand fl \<and> tk_fatherTask (ts_heap (fw_ts (fl_fw fl)) ! 1) = Some 0
     \<and> terminal (tk_taskState (ts_heap (fw_ts (fl_fw fl)) ! 1))"
proof -
  let ?o = "off_body [DoStep CLEAR_OFFLINE_INFO, SetSuccess, RemoveSelf, CheckUnInit]"
  obtain fl where r: "sample_reached [off_task TaskState_RUNNING [], dis_task TaskState_SUCCESS] [] [] [?o, dis_body [RemoveSelf]] {0, 1} [] fl"
    using sample_cleared by blast
  then have fa: "tk_fatherTask (ts_heap (fw_ts (fl_fw fl)) ! 1) = Some (jb_task ?o)"
    by (simp add: reached_def flow_view_def sample_tasks off_body_def)
  from r have "reachable 0 env_model sample_api sample_rand fl" "ids_distinct sample_rand (fw_ts (fl_fw fl))" "?o \<in> set (job_list fl)"
    "tk_taskType (ts_heap (fw_ts (fl_fw fl)) ! jb_task ?o) = TaskType_OFF_LINE" "DoStep WAIT_UNREGISTGER_COMPLETE \<notin> set (jb_pc ?o)"
    "1 < length (ts_heap (fw_ts (fl_fw fl)))"
    by (auto simp: reached_def flow_view_def job_list_def off_body_def sample_tasks intro: sample_ids)
  from offline_clears_after_children [OF this fa] this(1) fa show ?thesis by (auto simp: off_body_def)
qed

theorem empty_board_is_quiet_witness:
  "\<exists>fl. reachable 0 env_model sample_api sample_rand fl \<and> job_list fl \<noteq> [] \<and> ts_taskQueue (fw_ts (fl_fw fl)) = []
     \<and> list_all (\<lambda>j. jb_pc j = [CheckUnInit]) (job_list fl)"
proof -
  obtain fl where r: "sample_reached [off_task TaskState_SUCCESS [], dis_task TaskState_SUCCESS] [] [] [off_body [CheckUnInit]] {} [] fl"
    using sample_checking by blast
  then have "reachable 0 env_model sample_api sample_rand fl" "ids_distinct sample_rand (fw_ts (fl_fw fl))"
    "IsAllTaskFinish (fw_ts (fl_fw fl))"
    by (auto simp: reached_def flow_view_def IsAllTaskFinish_def intro: sample_ids)
  from empty_board_is_quiet [OF this] this(1) r show ?thesis
    by (auto simp: list_all_iff reached_def flow_view_def job_list_def)
qed

theorem running_task_is_held_witness:
  "\<exists>fl. reachable 0 env_model sample_api sample_rand fl \<and> fl_jobs fl \<noteq> []
     \<and> smap_get (ts_tasks (fw_ts (fl_fw fl))) (task_id sample_rand 0) = Some 0"
proof -
  let ?o = "off_body [DoStep CLEAR_OFFLINE_INFO, SetSuccess, RemoveSelf, CheckUnInit]"
  obtain fl where r: "sample_reached [off_task TaskState_RUNNING [], dis_task TaskState_SUCCESS] [] [] [?o, dis_body [RemoveSelf]] {0, 1} [] fl"
    using sample_cleared by blast
  then have "reachable 0 env_model sample_api sample_rand fl" "ids_distinct sample_rand (fw_ts (fl_fw fl))" "?o \<in> set (job_list fl)"
    by (auto simp: reached_def flow_view_def job_list_def intro: sample_ids)
  from running_task_is_held [OF this] this(1) r show ?thesis by (auto simp: off_body_def reached_def flow_view_def)
qed

theorem no_deadlock_witness:
  "\<exists>fl mv fl'. reachable 0 env_model sample_api sample_rand fl \<and> internal_step env_model sample_api sample_rand mv fl = Some fl'"
proof -
  let ?d = "dis_body [NotifyFather, RemoveSelf]"
  let ?o = "off_body [Wait, DoStep CLEAR_OFFLINE_INFO, SetSuccess, RemoveSelf, CheckUnInit]"
  obtain fl where r: "sample_reached [off_task TaskState_RUNNING [task_id sample_rand 1], dis_task TaskState_SUCCESS] [] []
     [?o, ?d] {0, 1} [sample_entry] fl" using sample_notifying by blast
  have R: "reachable 0 env_model sample_api sample_rand fl" and I: "ids_distinct sample_rand (fw_ts (fl_fw fl))"
    using r by (auto simp: reached_def flow_view_def intro: sample_ids)
  have "flow_inv sample_rand fl" using R I by (rule reachable_inv)
  then have "on_board sample_rand (flow_ts fl) 0"
    using pipe_invD(4) [OF flow_invD(4)] r by (force simp: board_ok_def reached_def flow_view_def job_list_def off_body_def)
  then have busy: "\<not> IsAllTaskFinish (fw_ts (fl_fw fl))" by (auto simp: on_board_def IsAllTaskFinish_def smap_get_def)
  have "none_dropped fl"
    using r by (fastforce simp: none_dropped_def list_all_iff reached_def flow_view_def job_list_def off_body_def dis_body_def)
  from no_deadlock [OF R I this busy] R show ?thesis by blast
qed

end
