(* ===== verification/DHF_Loader.thy ===== *)
theory DHF_Loader
  imports DHF_LocalHw "HOL-Library.Multiset"
begin

text \<open>
  The component loader (\<open>componentloader/component_loader.cpp\<close>): it reads the profile that lists the
  components, opens the three libraries of each (hardware handler, source, sink), hands out the handlers
  they export, and closes the libraries at the end.

  The dynamic loader, the file system and the libraries are outside the repository: their calls are the
  fields of \<open>loader_api\<close>, over a state \<open>'h\<close>. An open library is a number, a handler object is a number, a
  null pointer is \<open>None\<close>. The members of a \<open>CompConfig\<close> that the constructor leaves uninitialised have the
  values of the argument \<open>config0\<close>.
\<close>

abbreviation (input) ERR_DH_FWK_LOADER_HANDLER_IS_NULL :: ret where "ERR_DH_FWK_LOADER_HANDLER_IS_NULL \<equiv> - 10600"
abbreviation (input) ERR_DH_FWK_LOADER_CONFIG_JSON_INVALID :: ret
  where "ERR_DH_FWK_LOADER_CONFIG_JSON_INVALID \<equiv> - 10601"
abbreviation (input) ERR_DH_FWK_LOADER_GET_LOCAL_VERSION_FAIL :: ret
  where "ERR_DH_FWK_LOADER_GET_LOCAL_VERSION_FAIL \<equiv> - 10602"
abbreviation (input) ERR_DH_FWK_LOADER_DLCLOSE_FAIL :: ret where "ERR_DH_FWK_LOADER_DLCLOSE_FAIL \<equiv> - 10603"
abbreviation (input) ERR_DH_FWK_LOADER_PROFILE_PATH_IS_NULL :: ret
  where "ERR_DH_FWK_LOADER_PROFILE_PATH_IS_NULL \<equiv> - 10604"

abbreviation (input) PATH_MAX :: nat where "PATH_MAX \<equiv> 4096"
abbreviation (input) MAX_COMP_SIZE :: nat where "MAX_COMP_SIZE \<equiv> 128"
abbreviation (input) DEFAULT_SA_ID :: int where "DEFAULT_SA_ID \<equiv> - 1"

abbreviation (input) COMP_NAME :: string where "COMP_NAME \<equiv> ''name''"
abbreviation (input) COMP_TYPE :: string where "COMP_TYPE \<equiv> ''type''"
abbreviation (input) COMP_HANDLER_LOC :: string where "COMP_HANDLER_LOC \<equiv> ''comp_handler_loc''"
abbreviation (input) COMP_HANDLER_VERSION :: string where "COMP_HANDLER_VERSION \<equiv> ''comp_handler_version''"
abbreviation (input) COMP_SOURCE_LOC :: string where "COMP_SOURCE_LOC \<equiv> ''comp_source_loc''"
abbreviation (input) COMP_SOURCE_VERSION :: string where "COMP_SOURCE_VERSION \<equiv> ''comp_source_version''"
abbreviation (input) COMP_SOURCE_SA_ID :: string where "COMP_SOURCE_SA_ID \<equiv> ''comp_source_sa_id''"
abbreviation (input) COMP_SINK_LOC :: string where "COMP_SINK_LOC \<equiv> ''comp_sink_loc''"
abbreviation (input) COMP_SINK_VERSION :: string where "COMP_SINK_VERSION \<equiv> ''comp_sink_version''"
abbreviation (input) COMP_SINK_SA_ID :: string where "COMP_SINK_SA_ID \<equiv> ''comp_sink_sa_id''"
abbreviation (input) COMP_RESOURCE_DESC :: string where "COMP_RESOURCE_DESC \<equiv> ''comp_resource_desc''"
abbreviation (input) COMP_SUBTYPE :: string where "COMP_SUBTYPE \<equiv> ''subtype''"
abbreviation (input) COMP_SENSITIVE :: string where "COMP_SENSITIVE \<equiv> ''sensitive''"
abbreviation (input) DISTRIBUTED_COMPONENTS :: string where "DISTRIBUTED_COMPONENTS \<equiv> ''distributed_components''"

abbreviation (input) GET_HARDWARE_HANDLER :: string where "GET_HARDWARE_HANDLER \<equiv> ''GetHardwareHandler''"
abbreviation (input) GET_SOURCE_HANDLER :: string where "GET_SOURCE_HANDLER \<equiv> ''GetSourceHardwareHandler''"
abbreviation (input) GET_SINK_HANDLER :: string where "GET_SINK_HANDLER \<equiv> ''GetSinkHardwareHandler''"

section \<open>State\<close>

record 'h loader_api =
  ld_GetOneCfgFile :: "string option"
  ld_realpath :: "string \<Rightarrow> string option"
  ld_file :: "string \<Rightarrow> string option"
  ld_GetSysPara :: "string \<Rightarrow> bool option"
  ld_dlopen :: "string \<Rightarrow> 'h \<Rightarrow> nat option \<times> 'h"
  ld_dlsym :: "nat \<Rightarrow> string \<Rightarrow> 'h \<Rightarrow> bool"
  ld_dlclose :: "nat \<Rightarrow> 'h \<Rightarrow> int \<times> 'h"
  ld_handler :: "nat \<Rightarrow> string \<Rightarrow> 'h \<Rightarrow> nat option \<times> 'h"
  ld_hardware :: "nat \<Rightarrow> hw_handler"

text \<open>A resource description is its subtype and whether it is sensitive.\<close>

record comp_config =
  cc_name :: string
  cc_type :: dhtype
  cc_handlerLoc :: string
  cc_handlerVersion :: string
  cc_sourceLoc :: string
  cc_sourceVersion :: string
  cc_sourceSaId :: int
  cc_sinkLoc :: string
  cc_sinkVersion :: string
  cc_sinkSaId :: int
  cc_resourceDesc :: "(string \<times> bool) list"

record comp_handler =
  ch_type :: dhtype
  ch_sourceHandler :: "nat option"
  ch_sourceSaId :: int
  ch_sinkHandler :: "nat option"
  ch_sinkSaId :: int
  ch_hardwareHandler :: "nat option"
  ch_resourceDesc :: "(string \<times> bool) list"

record loader =
  lo_localDHVersion :: dh_version
  lo_compHandlerMap :: "(dhtype, comp_handler) smap"
  lo_isLocalVersionInit :: bool
  lo_resDescMap :: "(string, bool) smap"

definition loader_new :: loader where
  "loader_new = \<lparr> lo_localDHVersion = \<lparr> dv_uuid = [], dv_dhVersion = [], dv_compVersions = [] \<rparr>,
     lo_compHandlerMap = [], lo_isLocalVersionInit = False, lo_resDescMap = [] \<rparr>"

text \<open>\<open>g_mapDhTypeName[name]\<close>: an unknown name yields the value-initialised \<open>DHType\<close>, which is \<open>UNKNOWN\<close>.\<close>

definition g_mapDhTypeName :: "(string \<times> dhtype) list" where
  "g_mapDhTypeName = [(''UNKNOWN'', DHType_UNKNOWN), (''CAMERA'', DHType_CAMERA), (''AUDIO'', DHType_AUDIO),
     (''SCREEN'', DHType_SCREEN), (''GPS'', DHType_GPS), (''INPUT'', DHType_INPUT), (''HFP'', DHType_HFP),
     (''A2D'', DHType_A2D), (''VIRMODEM_AUDIO'', DHType_VIRMODEM_AUDIO), (''MODEM'', DHType_MODEM)]"

definition dhtype_of_name :: "string \<Rightarrow> dhtype" where
  "dhtype_of_name s = (case map_of g_mapDhTypeName s of None \<Rightarrow> DHType_UNKNOWN | Some t \<Rightarrow> t)"

definition g_mapPartsParamName :: "(dhtype \<times> string) list" where
  "g_mapPartsParamName = [(DHType_CAMERA, ''sys.dhfwk.component.dcamera.enable''),
     (DHType_AUDIO, ''sys.dhfwk.component.daudio.enable''),
     (DHType_SCREEN, ''sys.dhfwk.component.dscreen.enable''),
     (DHType_INPUT, ''sys.dhfwk.component.dinput.enable'')]"

section \<open>The profile\<close>

fun ParseResourceDescFromJson :: "'j cjson \<Rightarrow> 'j list \<Rightarrow> comp_config \<Rightarrow> comp_config" where
  "ParseResourceDescFromJson cj [] config = config"
| "ParseResourceDescFromJson cj (resourceDesc # rs) config =
     (if \<not> IsString cj resourceDesc COMP_SUBTYPE then config
      else ParseResourceDescFromJson cj rs (config\<lparr>cc_resourceDesc := cc_resourceDesc config
             @ [(get_string cj resourceDesc COMP_SUBTYPE, item_is_true cj resourceDesc COMP_SENSITIVE)]\<rparr>))"

definition ParseCompConfigFromJson :: "'j cjson \<Rightarrow> 'j \<Rightarrow> comp_config \<Rightarrow> comp_config" where
  "ParseCompConfigFromJson cj component c0 =
     (let str = (\<lambda>k upd c. if IsString cj component k then upd (\<lambda>_. get_string cj component k) c else c);
          num = (\<lambda>k upd c. if IsInt32 cj component k then upd (\<lambda>_. get_int32 cj component k) c else c);
          c1 = str COMP_NAME cc_name_update c0;
          c2 = (if IsString cj component COMP_TYPE
                then c1\<lparr>cc_type := dhtype_of_name (get_string cj component COMP_TYPE)\<rparr> else c1);
          c3 = str COMP_HANDLER_LOC cc_handlerLoc_update c2;
          c4 = str COMP_HANDLER_VERSION cc_handlerVersion_update c3;
          c5 = str COMP_SOURCE_LOC cc_sourceLoc_update c4;
          c6 = str COMP_SOURCE_VERSION cc_sourceVersion_update c5;
          c7 = num COMP_SOURCE_SA_ID cc_sourceSaId_update c6;
          c8 = str COMP_SINK_LOC cc_sinkLoc_update c7;
          c9 = str COMP_SINK_VERSION cc_sinkVersion_update c8;
          c10 = num COMP_SINK_SA_ID cc_sinkSaId_update c9
      in if IsArray cj component COMP_RESOURCE_DESC
         then (case cJSON_GetObjectItem cj component COMP_RESOURCE_DESC of
                 None \<Rightarrow> c10
               | Some resourceDescs \<Rightarrow> ParseResourceDescFromJson cj (cJSON_Children cj resourceDescs) c10)
         else c10)"

definition GetCompVersionFromComConfig :: "comp_config \<Rightarrow> comp_version" where
  "GetCompVersionFromComConfig cCfg = \<lparr> cv_name = cc_name cCfg, cv_dhType = cc_type cCfg,
     cv_handlerVersion = cc_handlerVersion cCfg, cv_sourceVersion = cc_sourceVersion cCfg,
     cv_sinkVersion = cc_sinkVersion cCfg \<rparr>"

definition CheckComponentEnable :: "'h loader_api \<Rightarrow> comp_config \<Rightarrow> bool" where
  "CheckComponentEnable L config =
     (case map_of g_mapPartsParamName (cc_type config) of
        None \<Rightarrow> True
      | Some para \<Rightarrow> (case ld_GetSysPara L para of None \<Rightarrow> False | Some isEnable \<Rightarrow> isEnable))"

text \<open>One turn of the loop of \<open>GetCompPathAndVersion\<close>.\<close>

definition load_component ::
  "'j cjson \<Rightarrow> comp_config \<Rightarrow> 'j \<Rightarrow> (dhtype, comp_config) smap \<times> comp_versions
     \<Rightarrow> (dhtype, comp_config) smap \<times> comp_versions" where
  "load_component cj config0 component = (\<lambda>(dhtypeMap, vs).
     let config = ParseCompConfigFromJson cj component config0
     in (smap_emplace (cc_type config) config dhtypeMap,
         smap_emplace (cc_type config) (GetCompVersionFromComConfig config) vs))"

definition GetCompPathAndVersion ::
  "'j cjson \<Rightarrow> comp_config \<Rightarrow> string \<Rightarrow> (dhtype, comp_config) smap \<Rightarrow> loader
     \<Rightarrow> ret \<times> (dhtype, comp_config) smap \<times> loader" where
  "GetCompPathAndVersion cj config0 jsonStr dhtypeMap lo =
     (if \<not> IsJsonLengthValid jsonStr then (ERR_DH_FWK_PARA_INVALID, dhtypeMap, lo)
      else case cJSON_Parse cj (c_str jsonStr) of
        None \<Rightarrow> (ERR_DH_FWK_JSON_PARSE_FAILED, dhtypeMap, lo)
      | Some rootJson \<Rightarrow>
          if \<not> IsArray cj rootJson DISTRIBUTED_COMPONENTS then (ERR_DH_FWK_PARA_INVALID, dhtypeMap, lo)
          else (case cJSON_GetObjectItem cj rootJson DISTRIBUTED_COMPONENTS of
             None \<Rightarrow> (ERR_DH_FWK_PARA_INVALID, dhtypeMap, lo)
           | Some components \<Rightarrow>
               (let comps = cJSON_Children cj components in
                if length comps = 0 \<or> length comps > MAX_COMP_SIZE then (ERR_DH_FWK_PARA_INVALID, dhtypeMap, lo)
                else let (dhtypeMap1, vs) = fold (load_component cj config0) comps
                           (dhtypeMap, dv_compVersions (lo_localDHVersion lo))
                     in (DH_FWK_SUCCESS, dhtypeMap1,
                         lo\<lparr>lo_localDHVersion := (lo_localDHVersion lo)\<lparr>dv_compVersions := vs\<rparr>,
                            lo_isLocalVersionInit := True\<rparr>))))"

text \<open>\<open>getline\<close> drops the line ends.\<close>

definition Readfile :: "'h loader_api \<Rightarrow> string \<Rightarrow> string" where
  "Readfile L filePath = (case ld_file L filePath of None \<Rightarrow> [] | Some s \<Rightarrow> filter (\<lambda>c. c \<noteq> CHR ''\<newline>'') s)"

section \<open>Libraries and handlers\<close>

definition GetHandler :: "'h loader_api \<Rightarrow> string \<Rightarrow> 'h \<Rightarrow> nat option \<times> 'h" where
  "GetHandler L soName h =
     (if length soName = 0 \<or> length soName > PATH_MAX then (None, h) else ld_dlopen L (c_str soName) h)"

definition get_comp_handler :: "'h loader_api \<Rightarrow> comp_config \<Rightarrow> loader \<times> 'h \<Rightarrow> loader \<times> 'h" where
  "get_comp_handler L cfg = (\<lambda>(lo, h).
     let (hardware, h1) = GetHandler L (cc_handlerLoc cfg) h;
         (source, h2) = GetHandler L (cc_sourceLoc cfg) h1;
         (sink, h3) = GetHandler L (cc_sinkLoc cfg) h2;
         comHandler = \<lparr> ch_type = cc_type cfg, ch_sourceHandler = source, ch_sourceSaId = cc_sourceSaId cfg,
           ch_sinkHandler = sink, ch_sinkSaId = cc_sinkSaId cfg, ch_hardwareHandler = hardware,
           ch_resourceDesc = cc_resourceDesc cfg \<rparr>
     in (lo\<lparr>lo_resDescMap := fold (\<lambda>(subtype, sensitive). smap_put subtype sensitive) (cc_resourceDesc cfg) (lo_resDescMap lo),
            lo_compHandlerMap := smap_put (cc_type cfg) comHandler (lo_compHandlerMap lo)\<rparr>, h3))"

definition GetAllHandler :: "'h loader_api \<Rightarrow> (dhtype, comp_config) smap \<Rightarrow> loader \<times> 'h \<Rightarrow> loader \<times> 'h" where
  "GetAllHandler L dhtypeMap lh = fold (get_comp_handler L) (map snd dhtypeMap) lh"

definition ParseConfig :: "'j cjson \<Rightarrow> 'h loader_api \<Rightarrow> comp_config \<Rightarrow> loader \<times> 'h \<Rightarrow> ret \<times> loader \<times> 'h" where
  "ParseConfig cj L config0 = (\<lambda>(lo, h).
     case ld_GetOneCfgFile L of
       None \<Rightarrow> (ERR_DH_FWK_LOADER_PROFILE_PATH_IS_NULL, lo, h)
     | Some profilePath \<Rightarrow>
         if length (c_str profilePath) = 0 \<or> length (c_str profilePath) > PATH_MAX
         then (ERR_DH_FWK_LOADER_PROFILE_PATH_IS_NULL, lo, h)
         else (case ld_realpath L (c_str profilePath) of
             None \<Rightarrow> (ERR_DH_FWK_LOADER_PROFILE_PATH_IS_NULL, lo, h)
           | Some path \<Rightarrow>
               (let jsonStr = Readfile L path in
                if \<not> IsMessageLengthValid jsonStr then (ERR_DH_FWK_LOADER_CONFIG_JSON_INVALID, lo, h)
                else let (ret, dhtypeMap, lo1) = GetCompPathAndVersion cj config0 jsonStr [] lo in
                  if ret \<noteq> DH_FWK_SUCCESS then (ret, lo1, h)
                  else let (lo2, h2) = GetAllHandler L dhtypeMap (lo1, h) in (DH_FWK_SUCCESS, lo2, h2))))"

definition GetLocalDHVersion :: "loader \<Rightarrow> dh_version \<Rightarrow> ret \<times> dh_version" where
  "GetLocalDHVersion lo dhVersion =
     (if \<not> lo_isLocalVersionInit lo then (ERR_DH_FWK_LOADER_GET_LOCAL_VERSION_FAIL, dhVersion)
      else (DH_FWK_SUCCESS, lo_localDHVersion lo))"

definition StoreLocalDHVersionInDB :: "('w, 'j) env \<Rightarrow> loader \<Rightarrow> 'w resources \<Rightarrow> 'w resources" where
  "StoreLocalDHVersionInDB E lo rs =
     (if \<not> lo_isLocalVersionInit lo then rs
      else let (info, rs1) = local_device E rs;
               versionInfo = \<lparr> vi_deviceId = di_deviceId info, vi_dhVersion = DH_LOCAL_VERSION,
                 vi_compVersions = dv_compVersions (lo_localDHVersion lo) \<rparr>
           in snd (on_ver (AddVersion E versionInfo) rs1))"

definition ComponentLoader_Init ::
  "('w, 'j) env \<Rightarrow> 'h loader_api \<Rightarrow> comp_config \<Rightarrow> loader \<times> 'h \<times> 'w resources \<Rightarrow> ret \<times> loader \<times> 'h \<times> 'w resources" where
  "ComponentLoader_Init E L config0 = (\<lambda>(lo, h, rs).
     let (ret, lo1, h1) = ParseConfig (env_cj E) L config0 (lo, h)
     in (ret, lo1, h1, StoreLocalDHVersionInDB E lo1 rs))"

definition GetAllCompTypes :: "loader \<Rightarrow> dhtype list" where
  "GetAllCompTypes lo = map fst (lo_compHandlerMap lo)"

text \<open>
  \<open>GetHardwareHandler\<close>, \<open>GetSource\<close> and \<open>GetSink\<close> differ in the member they use and in the symbol; a
  library without the symbol is closed, and its member is set to null.
\<close>

definition get_exported ::
  "'h loader_api \<Rightarrow> (comp_handler \<Rightarrow> nat option) \<Rightarrow> ((nat option \<Rightarrow> nat option) \<Rightarrow> comp_handler \<Rightarrow> comp_handler)
     \<Rightarrow> string \<Rightarrow> dhtype \<Rightarrow> loader \<times> 'h \<Rightarrow> ret \<times> nat option \<times> loader \<times> 'h" where
  "get_exported L sel upd symbol dhType = (\<lambda>(lo, h).
     case smap_get (lo_compHandlerMap lo) dhType of
       None \<Rightarrow> (ERR_DH_FWK_LOADER_HANDLER_IS_NULL, None, lo, h)
     | Some c \<Rightarrow>
         (case sel c of
            None \<Rightarrow> (ERR_DH_FWK_LOADER_HANDLER_IS_NULL, None, lo, h)
          | Some lib \<Rightarrow>
              if \<not> ld_dlsym L lib symbol h
              then (ERR_DH_FWK_LOADER_HANDLER_IS_NULL, None,
                    lo\<lparr>lo_compHandlerMap := smap_put dhType (upd (\<lambda>_. None) c) (lo_compHandlerMap lo)\<rparr>,
                    snd (ld_dlclose L lib h))
              else let (ptr, h1) = ld_handler L lib symbol h in (DH_FWK_SUCCESS, ptr, lo, h1)))"

definition GetHardwareHandler :: "'h loader_api \<Rightarrow> dhtype \<Rightarrow> loader \<times> 'h \<Rightarrow> ret \<times> nat option \<times> loader \<times> 'h" where
  "GetHardwareHandler L = get_exported L ch_hardwareHandler ch_hardwareHandler_update GET_HARDWARE_HANDLER"

definition GetSource :: "'h loader_api \<Rightarrow> dhtype \<Rightarrow> loader \<times> 'h \<Rightarrow> ret \<times> nat option \<times> loader \<times> 'h" where
  "GetSource L = get_exported L ch_sourceHandler ch_sourceHandler_update GET_SOURCE_HANDLER"

definition GetSink :: "'h loader_api \<Rightarrow> dhtype \<Rightarrow> loader \<times> 'h \<Rightarrow> ret \<times> nat option \<times> loader \<times> 'h" where
  "GetSink L = get_exported L ch_sinkHandler ch_sinkHandler_update GET_SINK_HANDLER"

section \<open>Release\<close>

text \<open>The argument is the member itself, which is set to null.\<close>

definition ReleaseHandler :: "'h loader_api \<Rightarrow> nat option \<Rightarrow> 'h \<Rightarrow> ret \<times> nat option \<times> 'h" where
  "ReleaseHandler L handler h =
     (case handler of
        None \<Rightarrow> (ERR_DH_FWK_LOADER_HANDLER_IS_NULL, None, h)
      | Some lib \<Rightarrow>
          (let (r, h1) = ld_dlclose L lib h in
           if r \<noteq> 0 then (ERR_DH_FWK_LOADER_DLCLOSE_FAIL, handler, h1) else (DH_FWK_SUCCESS, None, h1)))"

definition IsDHTypeExist :: "loader \<Rightarrow> dhtype \<Rightarrow> bool" where
  "IsDHTypeExist lo dhType \<longleftrightarrow> smap_get (lo_compHandlerMap lo) dhType \<noteq> None"

definition release_member ::
  "'h loader_api \<Rightarrow> (comp_handler \<Rightarrow> nat option) \<Rightarrow> ((nat option \<Rightarrow> nat option) \<Rightarrow> comp_handler \<Rightarrow> comp_handler)
     \<Rightarrow> dhtype \<Rightarrow> loader \<times> 'h \<Rightarrow> ret \<times> loader \<times> 'h" where
  "release_member L sel upd dhType = (\<lambda>(lo, h).
     case smap_get (lo_compHandlerMap lo) dhType of
       None \<Rightarrow> (ERR_DH_FWK_TYPE_NOT_EXIST, lo, h)
     | Some c \<Rightarrow>
         (let (ret, handler, h1) = ReleaseHandler L (sel c) h
          in (ret, lo\<lparr>lo_compHandlerMap := smap_put dhType (upd (\<lambda>_. handler) c) (lo_compHandlerMap lo)\<rparr>, h1)))"

definition ReleaseHardwareHandler :: "'h loader_api \<Rightarrow> dhtype \<Rightarrow> loader \<times> 'h \<Rightarrow> ret \<times> loader \<times> 'h" where
  "ReleaseHardwareHandler L = release_member L ch_hardwareHandler ch_hardwareHandler_update"

definition ReleaseSource :: "'h loader_api \<Rightarrow> dhtype \<Rightarrow> loader \<times> 'h \<Rightarrow> ret \<times> loader \<times> 'h" where
  "ReleaseSource L = release_member L ch_sourceHandler ch_sourceHandler_update"

definition ReleaseSink :: "'h loader_api \<Rightarrow> dhtype \<Rightarrow> loader \<times> 'h \<Rightarrow> ret \<times> loader \<times> 'h" where
  "ReleaseSink L = release_member L ch_sinkHandler ch_sinkHandler_update"

definition release_type :: "'h loader_api \<Rightarrow> dhtype \<Rightarrow> ret \<times> loader \<times> 'h \<Rightarrow> ret \<times> loader \<times> 'h" where
  "release_type L dhType = (\<lambda>(ret, lh).
     let (r1, lh1) = ReleaseHardwareHandler L dhType lh;
         (r2, lh2) = ReleaseSource L dhType lh1;
         (r3, lh3) = ReleaseSink L dhType lh2
     in (ret + r1 + r2 + r3, lh3))"

definition ComponentLoader_UnInit :: "'h loader_api \<Rightarrow> loader \<times> 'h \<Rightarrow> ret \<times> loader \<times> 'h" where
  "ComponentLoader_UnInit L = (\<lambda>(lo, h).
     let (ret, lo1, h1) = fold (release_type L) (map fst (lo_compHandlerMap lo)) (DH_FWK_SUCCESS, lo, h)
     in (ret, lo1\<lparr>lo_compHandlerMap := [], lo_resDescMap := []\<rparr>, h1))"

section \<open>Look-ups\<close>

definition GetSourceSaId :: "loader \<Rightarrow> dhtype \<Rightarrow> int" where
  "GetSourceSaId lo dhType =
     (case smap_get (lo_compHandlerMap lo) dhType of None \<Rightarrow> DEFAULT_SA_ID | Some c \<Rightarrow> ch_sourceSaId c)"

definition GetDHTypeBySrcSaId :: "loader \<Rightarrow> int \<Rightarrow> dhtype" where
  "GetDHTypeBySrcSaId lo saId =
     (case List.find (\<lambda>e. ch_sourceSaId (snd e) = saId) (lo_compHandlerMap lo) of
        None \<Rightarrow> DHType_UNKNOWN
      | Some e \<Rightarrow> ch_type (snd e))"

definition GetCompResourceDesc :: "loader \<Rightarrow> (string, bool) smap" where
  "GetCompResourceDesc lo = lo_resDescMap lo"

text \<open>What the local hardware manager gets of every component (\<open>LocalHardwareManager::Init\<close>).\<close>

fun all_handlers ::
  "'h loader_api \<Rightarrow> dhtype list \<Rightarrow> loader \<times> 'h \<Rightarrow> (dhtype \<times> hw_handler) list \<times> loader \<times> 'h" where
  "all_handlers L [] lh = ([], lh)"
| "all_handlers L (t # ts) lh =
     (let (ret, ptr, lh1) = GetHardwareHandler L t lh;
          hw = (case ptr of
                  Some p \<Rightarrow> (ld_hardware L p)\<lparr>hh_found := (ret = DH_FWK_SUCCESS)\<rparr>
                | None \<Rightarrow> (ld_hardware L 0)\<lparr>hh_found := False\<rparr>);
          (hws, lh2) = all_handlers L ts lh1
      in ((t, hw) # hws, lh2))"


section \<open>Every library that is opened is closed\<close>

definition opt_mset :: "'a option \<Rightarrow> 'a multiset" where
  "opt_mset x = (case x of None \<Rightarrow> {#} | Some a \<Rightarrow> {#a#})"

text \<open>
  What the sources rely on of the dynamic loader: \<open>held\<close> is the multiset of the open libraries, counted as
  often as they were opened; \<open>dlopen\<close> adds the library it returns, \<open>dlclose\<close> of an open library succeeds and
  removes it, and a call of an exported function opens and closes nothing.
\<close>

definition dl_laws :: "'h loader_api \<Rightarrow> ('h \<Rightarrow> nat multiset) \<Rightarrow> bool" where
  "dl_laws L held \<longleftrightarrow>
     (\<forall>so h. held (snd (ld_dlopen L so h)) = held h + opt_mset (fst (ld_dlopen L so h)))
   \<and> (\<forall>lib h. lib \<in># held h \<longrightarrow> fst (ld_dlclose L lib h) = 0
        \<and> held (snd (ld_dlclose L lib h)) = held h - {#lib#})
   \<and> (\<forall>lib symbol h. held (snd (ld_handler L lib symbol h)) = held h)"

definition comp_libs :: "comp_handler \<Rightarrow> nat multiset" where
  "comp_libs c = opt_mset (ch_hardwareHandler c) + opt_mset (ch_sourceHandler c) + opt_mset (ch_sinkHandler c)"

definition map_libs :: "(dhtype, comp_handler) smap \<Rightarrow> nat multiset" where
  "map_libs m = (\<Sum>e\<leftarrow>m. comp_libs (snd e))"

text \<open>The libraries that are open are those that were open before, and those the loader holds.\<close>

definition balanced :: "('h \<Rightarrow> nat multiset) \<Rightarrow> nat multiset \<Rightarrow> loader \<times> 'h \<Rightarrow> bool" where
  "balanced held base = (\<lambda>(lo, h). smap_sorted (lo_compHandlerMap lo)
     \<and> held h = base + map_libs (lo_compHandlerMap lo))"

lemma opt_mset_simps [simp]: "opt_mset None = {#}" "opt_mset (Some a) = {#a#}"
  by (simp_all add: opt_mset_def)

lemma map_libs_simps [simp]: "map_libs [] = {#}" "map_libs (e # m) = comp_libs (snd e) + map_libs m"
  by (simp_all add: map_libs_def)

lemma map_libs_put_new: "k \<notin> fst ` set m \<Longrightarrow> map_libs (smap_put k c m) = comp_libs c + map_libs m"
  by (induction k c m rule: smap_put.induct) (auto simp: ac_simps)

lemma map_libs_put_old:
  "smap_sorted m \<Longrightarrow> smap_get m k = Some c0 \<Longrightarrow> map_libs (smap_put k c m) + comp_libs c0 = comp_libs c + map_libs m"
proof (induction m)
  case (Cons e m)
  obtain k' c' where e: "e = (k', c')" by (cases e)
  show ?case
  proof (cases "k = k'")
    case True
    with Cons.prems show ?thesis by (simp add: e smap_get_def ac_simps)
  next
    case False
    with Cons.prems have m: "smap_get m k = Some c0" and s: "smap_sorted m" and lt: "\<forall>x \<in> fst ` set m. k' < x"
      by (auto simp: e smap_get_def smap_sorted_Cons)
    from m lt have "k' < k" by (force dest: smap_get_SomeD)
    then have "\<not> k < k'" by simp
    with False Cons.IH [OF s m] show ?thesis by (simp add: e ac_simps)
  qed
qed simp

lemma GetHandler_held:
  assumes "dl_laws L held"
  shows "held (snd (GetHandler L so h)) = held h + opt_mset (fst (GetHandler L so h))"
  using assms by (simp add: dl_laws_def GetHandler_def)

lemma get_comp_handler_balanced:
  assumes laws: "dl_laws L held" and bal: "balanced held base (lo, h)"
    and new: "cc_type cfg \<notin> fst ` set (lo_compHandlerMap lo)"
  shows "balanced held base (get_comp_handler L cfg (lo, h))"
    and "fst ` set (lo_compHandlerMap (fst (get_comp_handler L cfg (lo, h))))
           = insert (cc_type cfg) (fst ` set (lo_compHandlerMap lo))"
proof -
  note held = GetHandler_held [OF laws]
  show "balanced held base (get_comp_handler L cfg (lo, h))"
    using bal new
    by (simp add: get_comp_handler_def balanced_def case_prod_unfold Let_def map_libs_put_new held comp_libs_def ac_simps)
  show "fst ` set (lo_compHandlerMap (fst (get_comp_handler L cfg (lo, h))))
          = insert (cc_type cfg) (fst ` set (lo_compHandlerMap lo))"
    by (simp add: get_comp_handler_def case_prod_unfold Let_def fst_set_smap_put)
qed

lemma GetAllHandler_balanced:
  assumes laws: "dl_laws L held"
  shows "balanced held base (lo, h) \<Longrightarrow> distinct (map (cc_type \<circ> snd) dhtypeMap)
     \<Longrightarrow> fst ` set (lo_compHandlerMap lo) \<inter> set (map (cc_type \<circ> snd) dhtypeMap) = {}
     \<Longrightarrow> balanced held base (GetAllHandler L dhtypeMap (lo, h))"
proof (induction dhtypeMap arbitrary: lo h)
  case (Cons e m)
  obtain lo1 h1 where 1: "get_comp_handler L (snd e) (lo, h) = (lo1, h1)" by fastforce
  have new: "cc_type (snd e) \<notin> fst ` set (lo_compHandlerMap lo)" using Cons.prems(3) by auto
  note step = get_comp_handler_balanced [OF laws Cons.prems(1) new, unfolded 1]
  have "fst ` set (lo_compHandlerMap lo1) \<inter> set (map (cc_type \<circ> snd) m) = {}"
    using step(2) Cons.prems(2,3) by auto
  from Cons.IH [OF step(1) _ this] Cons.prems(2) show ?case
    by (simp add: GetAllHandler_def 1)
qed (simp add: GetAllHandler_def)


text \<open>Closing or dropping a member.\<close>

lemma ReleaseHandler_held:
  assumes "dl_laws L held" and "opt_mset hd0 \<subseteq># held h"
  shows "ReleaseHandler L hd0 h = (if hd0 = None then ERR_DH_FWK_LOADER_HANDLER_IS_NULL else DH_FWK_SUCCESS, None,
           snd (snd (ReleaseHandler L hd0 h)))"
    and "held (snd (snd (ReleaseHandler L hd0 h))) = held h - opt_mset hd0"
  using assms by (auto simp: dl_laws_def ReleaseHandler_def case_prod_unfold Let_def split: option.splits)

lemma member_libs:
  assumes "smap_sorted m" and "smap_get m k = Some c" and "comp_libs c = opt_mset x + comp_libs c1"
  shows "map_libs m = opt_mset x + map_libs (smap_put k c1 m)"
proof -
  have "map_libs (smap_put k c1 m) + comp_libs c = comp_libs c1 + map_libs m"
    by (rule map_libs_put_old [OF assms(1,2)])
  then have "(opt_mset x + map_libs (smap_put k c1 m)) + comp_libs c1 = map_libs m + comp_libs c1"
    by (simp add: assms(3) ac_simps)
  then show ?thesis by simp
qed

text \<open>
  A member of the handler record: reading it, writing it, and what a null in it takes from the record's
  libraries.
\<close>

definition lib_member ::
  "(comp_handler \<Rightarrow> nat option) \<Rightarrow> ((nat option \<Rightarrow> nat option) \<Rightarrow> comp_handler \<Rightarrow> comp_handler) \<Rightarrow> bool" where
  "lib_member sel upd \<longleftrightarrow> (\<forall>c. comp_libs c = opt_mset (sel c) + comp_libs (upd (\<lambda>_. None) c) \<and> sel (upd (\<lambda>_. None) c) = None)"

lemma lib_memberD: "lib_member sel upd \<Longrightarrow> comp_libs c = opt_mset (sel c) + comp_libs (upd (\<lambda>_. None) c)"
  unfolding lib_member_def by blast

lemma lib_members:
  "lib_member ch_hardwareHandler ch_hardwareHandler_update" "lib_member ch_sourceHandler ch_sourceHandler_update"
  "lib_member ch_sinkHandler ch_sinkHandler_update"
  by (simp_all add: lib_member_def comp_libs_def ac_simps)

lemma release_member_balanced:
  assumes laws: "dl_laws L held" and mem: "lib_member sel upd" and bal: "balanced held base (lo, h)"
    and c: "smap_get (lo_compHandlerMap lo) t = Some c"
  shows "\<exists>h1. release_member L sel upd t (lo, h) =
           (if sel c = None then ERR_DH_FWK_LOADER_HANDLER_IS_NULL else DH_FWK_SUCCESS,
            lo\<lparr>lo_compHandlerMap := smap_put t (upd (\<lambda>_. None) c) (lo_compHandlerMap lo)\<rparr>, h1)
         \<and> balanced held base (lo\<lparr>lo_compHandlerMap := smap_put t (upd (\<lambda>_. None) c) (lo_compHandlerMap lo)\<rparr>, h1)"
proof -
  let ?m = "smap_put t (upd (\<lambda>_. None) c) (lo_compHandlerMap lo)"
  from bal have srt: "smap_sorted (lo_compHandlerMap lo)"
    and held: "held h = base + map_libs (lo_compHandlerMap lo)" by (auto simp: balanced_def)
  have libs: "map_libs (lo_compHandlerMap lo) = opt_mset (sel c) + map_libs ?m"
    by (rule member_libs [OF srt c lib_memberD [OF mem]])
  then have sub: "opt_mset (sel c) \<subseteq># held h" by (simp add: held)
  note rel = ReleaseHandler_held [OF laws sub]
  define h1 where "h1 = snd (snd (ReleaseHandler L (sel c) h))"
  have h1: "ReleaseHandler L (sel c) h =
      (if sel c = None then ERR_DH_FWK_LOADER_HANDLER_IS_NULL else DH_FWK_SUCCESS, None, h1)"
    unfolding h1_def by (rule rel(1))
  have "held h1 = base + map_libs ?m" using rel(2) by (simp add: h1 held libs)
  with srt h1 show ?thesis by (simp add: release_member_def c balanced_def)
qed


lemma get_exported_balanced:
  assumes laws: "dl_laws L held" and mem: "lib_member sel upd" and bal: "balanced held base (lo, h)"
  shows "balanced held base (snd (snd (get_exported L sel upd symbol t (lo, h))))"
proof (cases "smap_get (lo_compHandlerMap lo) t")
  case None
  with bal show ?thesis by (simp add: get_exported_def)
next
  case (Some c)
  let ?m = "smap_put t (upd (\<lambda>_. None) c) (lo_compHandlerMap lo)"
  from bal have srt: "smap_sorted (lo_compHandlerMap lo)"
    and held: "held h = base + map_libs (lo_compHandlerMap lo)" by (auto simp: balanced_def)
  have libs: "map_libs (lo_compHandlerMap lo) = opt_mset (sel c) + map_libs ?m"
    by (rule member_libs [OF srt Some lib_memberD [OF mem]])
  show ?thesis
  proof (cases "sel c")
    case None
    with bal Some show ?thesis by (simp add: get_exported_def)
  next
    case lib: (Some lib)
    then have "lib \<in># held h" by (simp add: held libs)
    with laws have "held (snd (ld_dlclose L lib h)) = held h - {#lib#}" by (simp add: dl_laws_def)
    moreover have "held (snd (ld_handler L lib symbol h)) = held h" using laws by (simp add: dl_laws_def)
    ultimately show ?thesis
      using Some lib srt held libs by (auto simp: get_exported_def balanced_def case_prod_unfold Let_def)
  qed
qed

text \<open>The release of all three members of a type leaves none of its libraries.\<close>

lemma release_type_balanced:
  assumes laws: "dl_laws L held" and bal: "balanced held base (lo, h)"
    and c: "smap_get (lo_compHandlerMap lo) t = Some c"
  shows "\<exists>h1 lo1. release_type L t (r, lo, h) =
      (r + (if ch_hardwareHandler c = None then ERR_DH_FWK_LOADER_HANDLER_IS_NULL else 0)
         + (if ch_sourceHandler c = None then ERR_DH_FWK_LOADER_HANDLER_IS_NULL else 0)
         + (if ch_sinkHandler c = None then ERR_DH_FWK_LOADER_HANDLER_IS_NULL else 0), lo1, h1)
     \<and> balanced held base (lo1, h1)
     \<and> (\<exists>c1. comp_libs c1 = {#} \<and> smap_get (lo_compHandlerMap lo1) = (smap_get (lo_compHandlerMap lo))(t \<mapsto> c1))
     \<and> fst ` set (lo_compHandlerMap lo1) = fst ` set (lo_compHandlerMap lo)"
proof -
  from release_member_balanced [OF laws lib_members(1) bal c]
  obtain lo1 h1 where 1: "ReleaseHardwareHandler L t (lo, h)
      = (if ch_hardwareHandler c = None then ERR_DH_FWK_LOADER_HANDLER_IS_NULL else DH_FWK_SUCCESS, lo1, h1)"
    and b1: "balanced held base (lo1, h1)"
    and lo1: "lo1 = lo\<lparr>lo_compHandlerMap := smap_put t (c\<lparr>ch_hardwareHandler := None\<rparr>) (lo_compHandlerMap lo)\<rparr>"
    unfolding ReleaseHardwareHandler_def by blast
  have c1: "smap_get (lo_compHandlerMap lo1) t = Some (c\<lparr>ch_hardwareHandler := None\<rparr>)" by (simp add: lo1)
  from release_member_balanced [OF laws lib_members(2) b1 c1]
  obtain lo2 h2 where 2: "ReleaseSource L t (lo1, h1)
      = (if ch_sourceHandler c = None then ERR_DH_FWK_LOADER_HANDLER_IS_NULL else DH_FWK_SUCCESS, lo2, h2)"
    and b2: "balanced held base (lo2, h2)"
    and lo2: "lo2 = lo1\<lparr>lo_compHandlerMap := smap_put t (c\<lparr>ch_hardwareHandler := None, ch_sourceHandler := None\<rparr>) (lo_compHandlerMap lo1)\<rparr>"
    unfolding ReleaseSource_def by auto
  have c2: "smap_get (lo_compHandlerMap lo2) t = Some (c\<lparr>ch_hardwareHandler := None, ch_sourceHandler := None\<rparr>)"
    by (simp add: lo2)
  from release_member_balanced [OF laws lib_members(3) b2 c2]
  obtain lo3 h3 where 3: "ReleaseSink L t (lo2, h2)
      = (if ch_sinkHandler c = None then ERR_DH_FWK_LOADER_HANDLER_IS_NULL else DH_FWK_SUCCESS, lo3, h3)"
    and b3: "balanced held base (lo3, h3)"
    and lo3: "lo3 = lo2\<lparr>lo_compHandlerMap := smap_put t
        (c\<lparr>ch_hardwareHandler := None, ch_sourceHandler := None, ch_sinkHandler := None\<rparr>) (lo_compHandlerMap lo2)\<rparr>"
    unfolding ReleaseSink_def by auto
  have "t \<in> fst ` set (lo_compHandlerMap lo)" using c by (force dest: smap_get_SomeD)
  then have "fst ` set (lo_compHandlerMap lo3) = fst ` set (lo_compHandlerMap lo)"
    by (auto simp: lo1 lo2 lo3 fst_set_smap_put)
  moreover have "smap_get (lo_compHandlerMap lo3) = (smap_get (lo_compHandlerMap lo))(t \<mapsto>
      c\<lparr>ch_hardwareHandler := None, ch_sourceHandler := None, ch_sinkHandler := None\<rparr>)"
    by (simp add: lo1 lo2 lo3)
  ultimately show ?thesis using 1 2 3 b3 by (force simp: release_type_def comp_libs_def)
qed


definition null_members :: "comp_handler \<Rightarrow> nat" where
  "null_members c = length (filter (\<lambda>x. x = None) [ch_hardwareHandler c, ch_sourceHandler c, ch_sinkHandler c])"

lemma release_types_balanced:
  assumes laws: "dl_laws L held"
  shows "balanced held base (lo, h) \<Longrightarrow> distinct ts \<Longrightarrow> set ts \<subseteq> fst ` set (lo_compHandlerMap lo) \<Longrightarrow>
   \<exists>lo1 h1. fold (release_type L) ts (r, lo, h) =
       (r + ERR_DH_FWK_LOADER_HANDLER_IS_NULL * (\<Sum>t\<leftarrow>ts. int (null_members (the (smap_get (lo_compHandlerMap lo) t)))), lo1, h1)
     \<and> balanced held base (lo1, h1) \<and> fst ` set (lo_compHandlerMap lo1) = fst ` set (lo_compHandlerMap lo)
     \<and> (\<forall>t. t \<notin> set ts \<longrightarrow> smap_get (lo_compHandlerMap lo1) t = smap_get (lo_compHandlerMap lo) t)
     \<and> (\<forall>t \<in> set ts. comp_libs (the (smap_get (lo_compHandlerMap lo1) t)) = {#})"
proof (induction ts arbitrary: r lo h)
  case (Cons t ts)
  from Cons.prems(3) obtain c where c: "smap_get (lo_compHandlerMap lo) t = Some c"
    by (metis insert_subset list.simps(15) not_None_eq smap_get_None_iff)
  from release_type_balanced [OF laws Cons.prems(1) c, of r]
  obtain h1 lo1 c1 where 1: "release_type L t (r, lo, h) =
      (r + ERR_DH_FWK_LOADER_HANDLER_IS_NULL * int (null_members c), lo1, h1)"
    and b1: "balanced held base (lo1, h1)" and c1: "comp_libs c1 = {#}"
    and get1: "smap_get (lo_compHandlerMap lo1) = (smap_get (lo_compHandlerMap lo))(t \<mapsto> c1)"
    and keys1: "fst ` set (lo_compHandlerMap lo1) = fst ` set (lo_compHandlerMap lo)"
    by (auto simp: null_members_def)
  have "distinct ts" and sub: "set ts \<subseteq> fst ` set (lo_compHandlerMap lo1)" and t: "t \<notin> set ts"
    using Cons.prems(2,3) keys1 by auto
  from Cons.IH [OF b1 this(1,2)]
  obtain lo2 h2 where 2: "fold (release_type L) ts (r + ERR_DH_FWK_LOADER_HANDLER_IS_NULL * int (null_members c), lo1, h1) =
      (r + ERR_DH_FWK_LOADER_HANDLER_IS_NULL * int (null_members c)
         + ERR_DH_FWK_LOADER_HANDLER_IS_NULL * (\<Sum>t\<leftarrow>ts. int (null_members (the (smap_get (lo_compHandlerMap lo1) t)))), lo2, h2)"
    and rest: "balanced held base (lo2, h2)" "fst ` set (lo_compHandlerMap lo2) = fst ` set (lo_compHandlerMap lo1)"
      "\<forall>t. t \<notin> set ts \<longrightarrow> smap_get (lo_compHandlerMap lo2) t = smap_get (lo_compHandlerMap lo1) t"
      "\<forall>t \<in> set ts. comp_libs (the (smap_get (lo_compHandlerMap lo2) t)) = {#}"
    by blast
  have sum: "(\<Sum>t\<leftarrow>ts. int (null_members (the (smap_get (lo_compHandlerMap lo1) t))))
      = (\<Sum>t\<leftarrow>ts. int (null_members (the (smap_get (lo_compHandlerMap lo) t))))"
    using t by (intro arg_cong [of _ _ sum_list] map_cong) (auto simp: get1)
  have others: "\<forall>t'. t' \<notin> set (t # ts) \<longrightarrow> smap_get (lo_compHandlerMap lo2) t' = smap_get (lo_compHandlerMap lo) t'"
    and "\<forall>t' \<in> set (t # ts). comp_libs (the (smap_get (lo_compHandlerMap lo2) t')) = {#}"
    using rest(3,4) t c1 by (auto simp: get1)
  then show ?case
    using 1 2 [unfolded sum] rest(1,2) keys1 c by (auto simp: algebra_simps)
qed simp

lemma map_libs_empty:
  assumes "smap_sorted m" and "\<forall>t \<in> fst ` set m. comp_libs (the (smap_get m t)) = {#}"
  shows "map_libs m = {#}"
proof -
  have "comp_libs (snd e) = {#}" if "e \<in> set m" for e
  proof -
    have "smap_get m (fst e) = Some (snd e)" using that assms(1) by (simp add: smap_get_iff)
    with assms(2) that show ?thesis by fastforce
  qed
  then show ?thesis by (induction m) auto
qed

lemma UnInit_balanced:
  assumes laws: "dl_laws L held" and bal: "balanced held base (lo, h)"
  shows "\<exists>lo1 h1. ComponentLoader_UnInit L (lo, h) =
      (ERR_DH_FWK_LOADER_HANDLER_IS_NULL * (\<Sum>t\<leftarrow>GetAllCompTypes lo. int (null_members (the (smap_get (lo_compHandlerMap lo) t)))),
       lo1\<lparr>lo_compHandlerMap := [], lo_resDescMap := []\<rparr>, h1) \<and> held h1 = base"
proof -
  from bal have srt: "smap_sorted (lo_compHandlerMap lo)" by (simp add: balanced_def)
  then have "distinct (map fst (lo_compHandlerMap lo))" by (rule smap_sorted_distinct)
  from release_types_balanced [OF laws bal this, of 0]
  obtain lo1 h1 where 1: "fold (release_type L) (map fst (lo_compHandlerMap lo)) (0, lo, h) =
      (ERR_DH_FWK_LOADER_HANDLER_IS_NULL * (\<Sum>t\<leftarrow>GetAllCompTypes lo. int (null_members (the (smap_get (lo_compHandlerMap lo) t)))), lo1, h1)"
    and b1: "balanced held base (lo1, h1)" and keys: "fst ` set (lo_compHandlerMap lo1) = fst ` set (lo_compHandlerMap lo)"
    and null: "\<forall>t \<in> fst ` set (lo_compHandlerMap lo). comp_libs (the (smap_get (lo_compHandlerMap lo1) t)) = {#}"
    by (auto simp: GetAllCompTypes_def)
  from b1 have "map_libs (lo_compHandlerMap lo1) = {#}"
    using null keys by (intro map_libs_empty) (auto simp: balanced_def)
  with b1 have "held h1 = base" by (simp add: balanced_def)
  with 1 show ?thesis by (auto simp: ComponentLoader_UnInit_def)
qed

section \<open>The profile\<close>

text \<open>The first component of a type counts, for the libraries as for the versions.\<close>

lemma load_component_pair:
  "load_component cj config0 j (m, vs) =
     (smap_emplace (cc_type (ParseCompConfigFromJson cj j config0)) (ParseCompConfigFromJson cj j config0) m,
      smap_emplace (cc_type (ParseCompConfigFromJson cj j config0))
        (GetCompVersionFromComConfig (ParseCompConfigFromJson cj j config0)) vs)"
  by (simp add: load_component_def Let_def)

lemma set_smap_put: "e \<in> set (smap_put k v m) \<Longrightarrow> e = (k, v) \<or> e \<in> set m"
  by (induction k v m rule: smap_put.induct) (auto split: if_splits)

lemma set_smap_emplace: "e \<in> set (smap_emplace k v m) \<Longrightarrow> e = (k, v) \<or> e \<in> set m"
  by (auto simp: smap_emplace_def split: option.splits dest: set_smap_put)

lemma load_components:
  fixes cj :: "'j cjson" and config0 :: comp_config
  defines "parse \<equiv> \<lambda>j. ParseCompConfigFromJson cj j config0"
  shows "fold (load_component cj config0) comps (m, vs) = (m1, vs1) \<Longrightarrow>
      smap_get m1 t = (case smap_get m t of
            None \<Rightarrow> List.find (\<lambda>c. cc_type c = t) (map parse comps) | Some c \<Rightarrow> Some c)
    \<and> smap_get vs1 t = (case smap_get vs t of
            None \<Rightarrow> map_option GetCompVersionFromComConfig (List.find (\<lambda>c. cc_type c = t) (map parse comps))
          | Some v \<Rightarrow> Some v)
    \<and> (smap_sorted m \<longrightarrow> smap_sorted m1)
    \<and> ((\<forall>e \<in> set m. cc_type (snd e) = fst e) \<longrightarrow> (\<forall>e \<in> set m1. cc_type (snd e) = fst e))"
proof (induction comps arbitrary: m vs)
  case (Cons j js)
  let ?c = "parse j"
  let ?m = "smap_emplace (cc_type ?c) ?c m" and ?vs = "smap_emplace (cc_type ?c) (GetCompVersionFromComConfig ?c) vs"
  from Cons.prems have "fold (load_component cj config0) js (?m, ?vs) = (m1, vs1)"
    by (simp add: load_component_pair parse_def)
  note IH = Cons.IH [OF this]
  have "cc_type (snd e) = fst e" if "\<forall>e \<in> set m. cc_type (snd e) = fst e" and "e \<in> set ?m" for e
    using that(1) set_smap_emplace [OF that(2)] by fastforce
  moreover have "smap_get m1 t = (case smap_get m t of
      None \<Rightarrow> List.find (\<lambda>c. cc_type c = t) (map parse (j # js)) | Some c \<Rightarrow> Some c)"
    using IH [THEN conjunct1] by (cases "smap_get m (cc_type ?c)"; cases "smap_get m t") (auto simp: smap_get_emplace)
  moreover have "smap_get vs1 t = (case smap_get vs t of
      None \<Rightarrow> map_option GetCompVersionFromComConfig (List.find (\<lambda>c. cc_type c = t) (map parse (j # js)))
    | Some v \<Rightarrow> Some v)"
    using IH [THEN conjunct2, THEN conjunct1] by (cases "smap_get vs (cc_type ?c)"; cases "smap_get vs t") (auto simp: smap_get_emplace)
  ultimately show ?case using IH [THEN conjunct2, THEN conjunct2] by (intro conjI) (simp, simp, simp, blast)
qed (simp split: option.splits)

text \<open>The components that a profile lists.\<close>

definition profile_configs :: "'j cjson \<Rightarrow> comp_config \<Rightarrow> string \<Rightarrow> comp_config list" where
  "profile_configs cj config0 jsonStr =
     (case cJSON_Parse cj (c_str jsonStr) of
        None \<Rightarrow> []
      | Some rootJson \<Rightarrow>
          (case cJSON_GetObjectItem cj rootJson DISTRIBUTED_COMPONENTS of
             None \<Rightarrow> []
           | Some components \<Rightarrow> map (\<lambda>j. ParseCompConfigFromJson cj j config0) (cJSON_Children cj components)))"

lemma GetCompPathAndVersion_success:
  assumes "GetCompPathAndVersion cj config0 jsonStr [] lo = (DH_FWK_SUCCESS, m, lo1)"
  shows "smap_get m t = List.find (\<lambda>c. cc_type c = t) (profile_configs cj config0 jsonStr)"
    and "dv_compVersions (lo_localDHVersion lo) = [] \<Longrightarrow> smap_get (dv_compVersions (lo_localDHVersion lo1)) t =
           map_option GetCompVersionFromComConfig (List.find (\<lambda>c. cc_type c = t) (profile_configs cj config0 jsonStr))"
    and "smap_sorted m" and "\<forall>e \<in> set m. cc_type (snd e) = fst e"
    and "lo_compHandlerMap lo1 = lo_compHandlerMap lo" and "lo_isLocalVersionInit lo1"
proof -
  from assms obtain rootJson components where p: "cJSON_Parse cj (c_str jsonStr) = Some rootJson"
    and c: "cJSON_GetObjectItem cj rootJson DISTRIBUTED_COMPONENTS = Some components"
    by (auto simp: GetCompPathAndVersion_def split: if_splits option.splits)
  obtain m' vs where f: "fold (load_component cj config0) (cJSON_Children cj components)
      ([], dv_compVersions (lo_localDHVersion lo)) = (m', vs)" by fastforce
  have lo1: "m' = m" "lo1 = lo\<lparr>lo_localDHVersion := (lo_localDHVersion lo)\<lparr>dv_compVersions := vs\<rparr>, lo_isLocalVersionInit := True\<rparr>"
    using assms f p c by (auto simp: GetCompPathAndVersion_def Let_def split: if_splits)
  note L = load_components [OF f]
  show "smap_get m t = List.find (\<lambda>c. cc_type c = t) (profile_configs cj config0 jsonStr)"
    using L [of t] lo1(1) by (simp add: profile_configs_def p c)
  show "dv_compVersions (lo_localDHVersion lo) = [] \<Longrightarrow> smap_get (dv_compVersions (lo_localDHVersion lo1)) t =
           map_option GetCompVersionFromComConfig (List.find (\<lambda>c. cc_type c = t) (profile_configs cj config0 jsonStr))"
    using L [of t] lo1(2) by (simp add: profile_configs_def p c)
  show "smap_sorted m" "\<forall>e \<in> set m. cc_type (snd e) = fst e" using L lo1(1) by auto
  show "lo_compHandlerMap lo1 = lo_compHandlerMap lo" "lo_isLocalVersionInit lo1" by (simp_all add: lo1(2))
qed

lemma ParseConfig_balanced:
  assumes laws: "dl_laws L held" and empty: "lo_compHandlerMap lo = []"
  shows "balanced held (held h) (snd (ParseConfig cj L config0 (lo, h)))"
proof -
  have start: "balanced held (held h) (lo', h)" if "lo_compHandlerMap lo' = []" for lo'
    using that by (simp add: balanced_def)
  have all: "balanced held (held h) (GetAllHandler L m (lo1, h))" and map: "lo_compHandlerMap lo1 = []"
    if g: "GetCompPathAndVersion cj config0 js [] lo = (DH_FWK_SUCCESS, m, lo1)" for js m lo1
  proof -
    note G = GetCompPathAndVersion_success [OF g]
    show map: "lo_compHandlerMap lo1 = []" using G(5) empty by simp
    have "map (cc_type \<circ> snd) m = map fst m" using G(4) by auto
    then have "distinct (map (cc_type \<circ> snd) m)" by (simp only: smap_sorted_distinct [OF G(3)])
    with map show "balanced held (held h) (GetAllHandler L m (lo1, h))"
      by (intro GetAllHandler_balanced [OF laws start [OF map]]) auto
  qed
  have fail: "lo_compHandlerMap lo1 = []" if "GetCompPathAndVersion cj config0 js [] lo = (r, m, lo1)" for js r m lo1
    using that empty by (auto simp: GetCompPathAndVersion_def Let_def split: if_splits option.splits prod.splits)
  show ?thesis
    using all fail start empty
    by (auto simp: ParseConfig_def Let_def split: option.splits prod.splits)
qed


datatype loader_op = LdHardware dhtype | LdSource dhtype | LdSink dhtype
  | LdReleaseHardware dhtype | LdReleaseSource dhtype | LdReleaseSink dhtype

fun loader_step :: "'h loader_api \<Rightarrow> loader_op \<Rightarrow> loader \<times> 'h \<Rightarrow> loader \<times> 'h" where
  "loader_step L (LdHardware t) lh = snd (snd (GetHardwareHandler L t lh))"
| "loader_step L (LdSource t) lh = snd (snd (GetSource L t lh))"
| "loader_step L (LdSink t) lh = snd (snd (GetSink L t lh))"
| "loader_step L (LdReleaseHardware t) lh = snd (ReleaseHardwareHandler L t lh)"
| "loader_step L (LdReleaseSource t) lh = snd (ReleaseSource L t lh)"
| "loader_step L (LdReleaseSink t) lh = snd (ReleaseSink L t lh)"

lemma release_member_keeps:
  assumes "dl_laws L held" and "lib_member sel upd" and "balanced held base lh"
  shows "balanced held base (snd (release_member L sel upd t lh))"
proof (cases lh)
  case (Pair lo h)
  show ?thesis
  proof (cases "smap_get (lo_compHandlerMap lo) t")
    case None
    with assms(3) show ?thesis by (simp add: Pair release_member_def)
  next
    case (Some c)
    from release_member_balanced [OF assms(1,2) assms(3) [unfolded Pair] Some] show ?thesis by (auto simp: Pair)
  qed
qed

lemma loader_step_balanced:
  assumes laws: "dl_laws L held" and bal: "balanced held base lh"
  shows "balanced held base (loader_step L op lh)"
proof (cases lh)
  case (Pair lo h)
  note ge = get_exported_balanced [OF laws _ bal [unfolded Pair]]
  show ?thesis
    using ge [OF lib_members(1)] ge [OF lib_members(2)] ge [OF lib_members(3)]
      release_member_keeps [OF laws lib_members(1) bal] release_member_keeps [OF laws lib_members(2) bal]
      release_member_keeps [OF laws lib_members(3) bal]
    by (cases op) (simp_all add: Pair GetHardwareHandler_def GetSource_def GetSink_def
        ReleaseHardwareHandler_def ReleaseSource_def ReleaseSink_def)
qed

lemma loader_steps_balanced:
  "dl_laws L held \<Longrightarrow> balanced held base lh \<Longrightarrow> balanced held base (fold (loader_step L) ops lh)"
  by (induction ops arbitrary: lh) (auto simp: loader_step_balanced)

lemma sum_counts_zero: "(\<Sum>x\<leftarrow>xs. int (f x)) = 0 \<longleftrightarrow> (\<forall>x \<in> set xs. f x = 0)"
proof (induction xs)
  case (Cons x xs)
  have "0 \<le> (\<Sum>x\<leftarrow>xs. int (f x))" by (induction xs) auto
  with Cons show ?case by auto
qed simp

section \<open>Properties\<close>

text \<open>
  Property C26. The loader neither leaks a library nor closes one twice: after the profile was loaded, and
  whatever handlers were asked for (a library without the symbol is closed then) or released one by one in between, the release
  leaves exactly the libraries open that were open at the start, and the loader is empty.
\<close>

theorem loader_closes_its_libraries:
  assumes "dl_laws L held" and "lo_compHandlerMap lo = []"
  shows "let lh1 = snd (ParseConfig cj L config0 (lo, h));
             lh2 = fold (loader_step L) ops lh1;
             (r, lo3, h3) = ComponentLoader_UnInit L lh2
         in held h3 = held h \<and> GetAllCompTypes lo3 = [] \<and> GetCompResourceDesc lo3 = []"
proof -
  let ?lh2 = "fold (loader_step L) ops (snd (ParseConfig cj L config0 (lo, h)))"
  have "balanced held (held h) (fst ?lh2, snd ?lh2)"
    using loader_steps_balanced [OF assms(1) ParseConfig_balanced [OF assms]] by simp
  from UnInit_balanced [OF assms(1) this] show ?thesis
    by (auto simp: GetAllCompTypes_def GetCompResourceDesc_def Let_def)
qed

text \<open>
  The release reports success exactly when no library was missing: the codes it adds up are
  never positive, so that they do not cancel out.
\<close>

theorem loader_release_code:
  assumes "dl_laws L held" and "lo_compHandlerMap lo = []"
  shows "let (lo1, h1) = snd (ParseConfig cj L config0 (lo, h))
         in fst (ComponentLoader_UnInit L (lo1, h1)) = DH_FWK_SUCCESS \<longleftrightarrow>
              (\<forall>(t, c) \<in> set (lo_compHandlerMap lo1).
                 ch_hardwareHandler c \<noteq> None \<and> ch_sourceHandler c \<noteq> None \<and> ch_sinkHandler c \<noteq> None)"
proof -
  obtain lo1 h1 where lh: "snd (ParseConfig cj L config0 (lo, h)) = (lo1, h1)" by fastforce
  have bal: "balanced held (held h) (lo1, h1)" using ParseConfig_balanced [OF assms, of h cj config0] lh by simp
  then have srt: "smap_sorted (lo_compHandlerMap lo1)" by (simp add: balanced_def)
  have "fst (ComponentLoader_UnInit L (lo1, h1)) = DH_FWK_SUCCESS \<longleftrightarrow>
      (\<forall>t \<in> set (GetAllCompTypes lo1). null_members (the (smap_get (lo_compHandlerMap lo1) t)) = 0)"
    using UnInit_balanced [OF assms(1) bal] by (auto simp: sum_counts_zero)
  also have "\<dots> \<longleftrightarrow> (\<forall>e \<in> set (lo_compHandlerMap lo1). null_members (snd e) = 0)"
    using srt by (auto simp: GetAllCompTypes_def smap_get_iff [THEN iffD2])
  finally show ?thesis by (auto simp: lh null_members_def)
qed


section \<open>Instances\<close>

text \<open>A dynamic loader that numbers the libraries it opens; its state is the list of the open ones.\<close>

definition sample_profile :: jnode where
  "sample_profile = JObj [(DISTRIBUTED_COMPONENTS, JArr [JObj [(COMP_NAME, JStr ''camera''), (COMP_TYPE, JStr ''CAMERA''),
     (COMP_HANDLER_LOC, JStr ''hw.so''), (COMP_SOURCE_LOC, JStr ''source.so''), (COMP_SINK_LOC, JStr ''sink.so'')]])]"

definition sample_loader_api :: "nat list loader_api" where
  "sample_loader_api = \<lparr> ld_GetOneCfgFile = Some ''/etc/profile'', ld_realpath = Some, ld_file = (\<lambda>_. Some (jn_print 10 sample_profile)),
     ld_GetSysPara = (\<lambda>_. Some True),
     ld_dlopen = (\<lambda>so h. (Some (length h), length h # h)), ld_dlsym = (\<lambda>lib symbol h. even lib),
     ld_dlclose = (\<lambda>lib h. (0, remove1 lib h)), ld_handler = (\<lambda>lib symbol h. (Some lib, h)),
     ld_hardware = (\<lambda>_. sample_handler) \<rparr>"

definition sample_config :: comp_config where
  "sample_config = \<lparr> cc_name = ''camera'', cc_type = DHType_CAMERA, cc_handlerLoc = ''hw.so'', cc_handlerVersion = ''1.0'',
     cc_sourceLoc = ''source.so'', cc_sourceVersion = ''1.0'', cc_sourceSaId = 4803, cc_sinkLoc = ''sink.so'',
     cc_sinkVersion = ''1.0'', cc_sinkSaId = 4804, cc_resourceDesc = [(''camera'', True)] \<rparr>"

lemma sample_loader_laws: "dl_laws sample_loader_api mset"
  by (simp add: dl_laws_def sample_loader_api_def)

theorem loader_closes_its_libraries_witness:
  "let lh1 = snd (ParseConfig model_cjson sample_loader_api sample_config (loader_new, [7]));
       lh2 = fold (loader_step sample_loader_api) [LdHardware DHType_CAMERA, LdSource DHType_CAMERA, LdReleaseHardware DHType_CAMERA] lh1;
       (r, lo3, h3) = ComponentLoader_UnInit sample_loader_api lh2
   in mset h3 = mset [7] \<and> GetAllCompTypes lo3 = [] \<and> GetCompResourceDesc lo3 = []"
  by (rule loader_closes_its_libraries [OF sample_loader_laws]) (simp add: loader_new_def)

theorem loader_release_code_witness:
  "let (lo1, h1) = snd (ParseConfig model_cjson sample_loader_api sample_config (loader_new, [7]))
   in fst (ComponentLoader_UnInit sample_loader_api (lo1, h1)) = DH_FWK_SUCCESS \<longleftrightarrow>
        (\<forall>(t, c) \<in> set (lo_compHandlerMap lo1).
           ch_hardwareHandler c \<noteq> None \<and> ch_sourceHandler c \<noteq> None \<and> ch_sinkHandler c \<noteq> None)"
  by (rule loader_release_code [OF sample_loader_laws]) (simp add: loader_new_def)

end
