(* ===== verification/DHF_Publisher.thy ===== *)
theory DHF_Publisher
  imports DHF_Context
begin

text \<open>
  Messages and low latency: the publisher and its items (\<open>publisher/publisher.cpp\<close>,
  \<open>publisher_item.cpp\<close>), the timer (\<open>utils/dh_timer.cpp\<close>), and the low-latency switch with its timer and
  listener (\<open>lowlatency/low_latency.cpp\<close>, \<open>low_latency_timer.cpp\<close>, \<open>low_latency_listener.cpp\<close>).

  A listener is a number; \<open>obj\<close> gives the remote object its \<open>AsObject\<close> returns. What an operation sends to
  the outside (the calls of \<open>OnMessage\<close>, the modes reported to the resource scheduler) is a list in the
  order of the calls. An access through the null pointer of a missing item is \<open>None\<close>.
\<close>

section \<open>The publisher\<close>

type_synonym topic = "32 word"

abbreviation (input) TOPIC_MIN :: topic where "TOPIC_MIN \<equiv> 0"
abbreviation (input) TOPIC_DEV_OFFLINE :: topic where "TOPIC_DEV_OFFLINE \<equiv> 4"
abbreviation (input) TOPIC_LOW_LATENCY :: topic where "TOPIC_LOW_LATENCY \<equiv> 5"
abbreviation (input) TOPIC_INIT_DHMS_READY :: topic where "TOPIC_INIT_DHMS_READY \<equiv> 6"
abbreviation (input) TOPIC_MAX :: topic where "TOPIC_MAX \<equiv> 9"

type_synonym publisher = "(topic, nat list) smap"
type_synonym delivery = "nat \<times> topic \<times> string"

definition Publisher_new :: publisher where
  "Publisher_new = [(1, []), (2, []), (3, []), (4, []), (5, []), (6, []), (7, []), (8, [])]"

definition AddListener :: "nat option \<Rightarrow> nat list \<Rightarrow> nat list" where
  "AddListener listener ls = (case listener of None \<Rightarrow> ls | Some l \<Rightarrow> sset_insert l ls)"

definition RemoveListener :: "(nat \<Rightarrow> nat option) \<Rightarrow> nat option \<Rightarrow> nat list \<Rightarrow> nat list" where
  "RemoveListener obj listener ls =
     (case listener of None \<Rightarrow> ls | Some l \<Rightarrow> sset_erase_first (\<lambda>lis. obj lis = obj l) ls)"

definition Item_PublishMessage :: "topic \<Rightarrow> string \<Rightarrow> nat list \<Rightarrow> delivery list" where
  "Item_PublishMessage topic message ls =
     (if \<not> IsMessageLengthValid message then [] else map (\<lambda>l. (l, topic, message)) ls)"

definition Publisher_RegisterListener :: "topic \<Rightarrow> nat option \<Rightarrow> publisher \<Rightarrow> publisher option" where
  "Publisher_RegisterListener topic listener p =
     map_option (\<lambda>ls. smap_put topic (AddListener listener ls) p) (smap_get p topic)"

definition Publisher_UnregisterListener ::
  "(nat \<Rightarrow> nat option) \<Rightarrow> topic \<Rightarrow> nat option \<Rightarrow> publisher \<Rightarrow> publisher option" where
  "Publisher_UnregisterListener obj topic listener p =
     map_option (\<lambda>ls. smap_put topic (RemoveListener obj listener ls) p) (smap_get p topic)"

definition Publisher_PublishMessage :: "topic \<Rightarrow> string \<Rightarrow> publisher \<Rightarrow> delivery list option" where
  "Publisher_PublishMessage topic message p = map_option (Item_PublishMessage topic message) (smap_get p topic)"

text \<open>\<open>DistributedHardwareStub::ValidTopic\<close>, which guards the three calls.\<close>

definition ValidTopic :: "topic \<Rightarrow> bool" where
  "ValidTopic topic = (if topic \<le> TOPIC_MIN \<or> topic \<ge> TOPIC_MAX then False else True)"

section \<open>The timer\<close>

text \<open>
  \<open>tm_handler\<close>: the event handler and its thread exist; \<open>tm_posted\<close>: the executions that are posted.
  \<open>runner\<close> tells whether the event runner can be created; without it \<open>InitTimer\<close> waits for ever, which is
  \<open>None\<close>. \<open>inner\<close> and \<open>stopped\<close> are the virtual \<open>ExecuteInner\<close> and \<open>HandleStopTimer\<close>.
\<close>

record timer =
  tm_handler :: bool
  tm_posted :: nat

definition DHTimer_new :: timer where
  "DHTimer_new = \<lparr> tm_handler = False, tm_posted = 0 \<rparr>"

definition InitTimer :: "bool \<Rightarrow> timer \<Rightarrow> timer option" where
  "InitTimer runner t = (if tm_handler t then Some t else if runner then Some (t\<lparr>tm_handler := True\<rparr>) else None)"

definition StartTimer :: "bool \<Rightarrow> timer \<Rightarrow> timer option" where
  "StartTimer runner t =
     (case InitTimer runner t of
        None \<Rightarrow> None
      | Some t1 \<Rightarrow> if \<not> tm_handler t1 then Some t1 else Some (t1\<lparr>tm_posted := Suc (tm_posted t1)\<rparr>))"

definition ReleaseTimer :: "timer \<Rightarrow> timer" where
  "ReleaseTimer t = (let t1 = (if tm_handler t then t\<lparr>tm_posted := 0\<rparr> else t) in t1\<lparr>tm_handler := False\<rparr>)"

definition StopTimer :: "('s \<Rightarrow> 's) \<Rightarrow> timer \<times> 's \<Rightarrow> timer \<times> 's" where
  "StopTimer stopped = (\<lambda>(t, s). (ReleaseTimer t, stopped s))"

text \<open>The body of a posted execution, when its time has come.\<close>

definition Execute :: "('s \<Rightarrow> 's) \<Rightarrow> timer \<times> 's \<Rightarrow> timer \<times> 's" where
  "Execute inner = (\<lambda>(t, s).
     if \<not> tm_handler t then (t, s) else (t\<lparr>tm_posted := Suc (tm_posted t)\<rparr>, inner s))"

definition timer_fires :: "('s \<Rightarrow> 's) \<Rightarrow> timer \<times> 's \<Rightarrow> (timer \<times> 's) option" where
  "timer_fires inner = (\<lambda>(t, s). if tm_posted t = 0 then None else Some (Execute inner (t\<lparr>tm_posted := tm_posted t - 1\<rparr>, s)))"

section \<open>Low latency\<close>

datatype latency_mode = MODE_ENABLE | MODE_DISABLE

record low_latency =
  ll_switchSet :: "dhtype list"
  ll_timer :: timer
  ll_reports :: "latency_mode list"

abbreviation (input) MAX_SWITCH_SIZE :: nat where "MAX_SWITCH_SIZE \<equiv> 256"

definition LowLatency_new :: low_latency where
  "LowLatency_new = \<lparr> ll_switchSet = [], ll_timer = DHTimer_new, ll_reports = [] \<rparr>"

definition report :: "latency_mode \<Rightarrow> latency_mode list \<Rightarrow> latency_mode list" where
  "report mode rs = rs @ [mode]"

definition ll_StopTimer :: "low_latency \<Rightarrow> low_latency" where
  "ll_StopTimer l = (let (t, rs) = StopTimer (report MODE_DISABLE) (ll_timer l, ll_reports l)
                     in l\<lparr>ll_timer := t, ll_reports := rs\<rparr>)"

definition ll_fires :: "low_latency \<Rightarrow> low_latency option" where
  "ll_fires l = map_option (\<lambda>(t, rs). l\<lparr>ll_timer := t, ll_reports := rs\<rparr>)
     (timer_fires (report MODE_ENABLE) (ll_timer l, ll_reports l))"

definition EnableLowLatency :: "bool \<Rightarrow> dhtype \<Rightarrow> low_latency \<Rightarrow> low_latency option" where
  "EnableLowLatency runner dhType l =
     (if dhType \<le> DHType_UNKNOWN \<or> dhType \<ge> DHType_MAX_DH then Some l
      else case (if ll_switchSet l = [] then StartTimer runner (ll_timer l) else Some (ll_timer l)) of
        None \<Rightarrow> None
      | Some t \<Rightarrow>
          (let l1 = l\<lparr>ll_timer := t\<rparr> in
           if length (ll_switchSet l1) \<ge> MAX_SWITCH_SIZE then Some l1
           else Some (l1\<lparr>ll_switchSet := sset_insert dhType (ll_switchSet l1)\<rparr>)))"

definition DisableLowLatency :: "dhtype \<Rightarrow> low_latency \<Rightarrow> low_latency" where
  "DisableLowLatency dhType l =
     (if dhType \<le> DHType_UNKNOWN \<or> dhType \<ge> DHType_MAX_DH then l
      else let l1 = l\<lparr>ll_switchSet := sset_erase dhType (ll_switchSet l)\<rparr> in
        if ll_switchSet l1 = [] then ll_StopTimer l1 else l1)"

definition CloseLowLatency :: "low_latency \<Rightarrow> low_latency" where
  "CloseLowLatency l = l\<lparr>ll_switchSet := [], ll_reports := report MODE_DISABLE (ll_reports l)\<rparr>"

abbreviation (input) LOW_LATENCY_ENABLE :: string where "LOW_LATENCY_ENABLE \<equiv> ''low_latency_enable''"

definition LowLatencyListener_OnMessage ::
  "'j cjson \<Rightarrow> bool \<Rightarrow> topic \<Rightarrow> string \<Rightarrow> low_latency \<Rightarrow> low_latency option" where
  "LowLatencyListener_OnMessage cj runner topic message l =
     (if topic \<le> TOPIC_MIN \<or> topic \<ge> TOPIC_MAX then Some l
      else if \<not> IsMessageLengthValid message then Some l
      else case cJSON_Parse cj (c_str message) of
        None \<Rightarrow> Some l
      | Some jsonObj \<Rightarrow>
          if \<not> IsUInt32 cj jsonObj DH_TYPE then Some l
          else if \<not> IsBool cj jsonObj LOW_LATENCY_ENABLE then Some l
          else let dhType = get_word cj jsonObj DH_TYPE in
            if item_is_true cj jsonObj LOW_LATENCY_ENABLE then EnableLowLatency runner dhType l
            else Some (DisableLowLatency dhType l))"


section \<open>Topics\<close>

datatype pub_op = PubRegister topic "nat option" | PubUnregister topic "nat option"

definition pub_step :: "(nat \<Rightarrow> nat option) \<Rightarrow> pub_op \<Rightarrow> publisher \<Rightarrow> publisher" where
  "pub_step obj op p =
     (case op of
        PubRegister topic l \<Rightarrow> (case Publisher_RegisterListener topic l p of None \<Rightarrow> p | Some p1 \<Rightarrow> p1)
      | PubUnregister topic l \<Rightarrow> (case Publisher_UnregisterListener obj topic l p of None \<Rightarrow> p | Some p1 \<Rightarrow> p1))"

definition pub_ok :: "publisher \<Rightarrow> bool" where
  "pub_ok p \<longleftrightarrow> (\<forall>topic. (smap_get p topic \<noteq> None) = ValidTopic topic)
     \<and> (\<forall>topic ls. smap_get p topic = Some ls \<longrightarrow> sset_sorted ls)"

lemma ValidTopic_iff: "ValidTopic t \<longleftrightarrow> t \<in> {1, 2, 3, 4, 5, 6, 7, 8}"
proof
  assume "ValidTopic t"
  then have "0 < t" "t < 9" by (simp_all add: ValidTopic_def not_le word_gt_0 split: if_splits)
  then have "0 < unat t" "unat t < 9" by (simp_all add: unat_gt_0 word_less_nat_alt)
  then have "unat t \<in> {1, 2, 3, 4, 5, 6, 7, 8}" by auto
  then have "(word_of_nat (unat t) :: topic) \<in> word_of_nat ` {1, 2, 3, 4, 5, 6, 7, 8 :: nat}" by blast
  then show "t \<in> {1, 2, 3, 4, 5, 6, 7, 8}" by auto
qed (auto simp: ValidTopic_def word_le_nat_alt)

lemma Publisher_new_get: "(smap_get Publisher_new t \<noteq> None) = ValidTopic t" "smap_get Publisher_new t = Some ls \<Longrightarrow> ls = []"
  unfolding ValidTopic_iff by (auto simp: Publisher_new_def smap_get_def split: if_splits)

lemma RemoveListener_sorted: "sset_sorted ls \<Longrightarrow> sset_sorted (RemoveListener obj l ls)"
  by (auto simp: RemoveListener_def split: option.splits)

lemma pub_step_ok:
  assumes "pub_ok p" shows "pub_ok (pub_step obj op p)"
proof (cases op)
  case (PubRegister topic l)
  with assms show ?thesis
    by (auto simp: pub_ok_def pub_step_def Publisher_RegisterListener_def AddListener_def split: option.splits if_splits)
next
  case (PubUnregister topic l)
  with assms show ?thesis
    by (auto simp: pub_ok_def pub_step_def Publisher_UnregisterListener_def RemoveListener_sorted split: option.splits if_splits)
qed


lemma pub_steps_ok: "pub_ok (fold (pub_step obj) ops Publisher_new)"
proof -
  have "pub_ok p \<Longrightarrow> pub_ok (fold (pub_step obj) ops p)" for p
    by (induction ops arbitrary: p) (simp_all add: pub_step_ok)
  moreover have "pub_ok Publisher_new"
    unfolding pub_ok_def using Publisher_new_get by (metis sset_sorted_Nil)
  ultimately show ?thesis by blast
qed

text \<open>
  A topic that the service's stub lets through has an item in the publisher, before and after
  any registrations, so that no call dereferences a null pointer; a published message reaches exactly the
  listeners of its topic, and each of them once.
\<close>

theorem published_to_listeners:
  fixes ops :: "pub_op list" and obj :: "nat \<Rightarrow> nat option"
  defines "p \<equiv> fold (pub_step obj) ops Publisher_new"
  shows "(Publisher_PublishMessage topic message p \<noteq> None) = ValidTopic topic
       \<and> (Publisher_RegisterListener topic listener p \<noteq> None) = ValidTopic topic
       \<and> (Publisher_UnregisterListener obj topic listener p \<noteq> None) = ValidTopic topic
       \<and> (\<forall>ls ds. smap_get p topic = Some ls \<and> Publisher_PublishMessage topic message p = Some ds
            \<longrightarrow> distinct ds \<and> (IsMessageLengthValid message \<longrightarrow> set ds = (\<lambda>l. (l, topic, message)) ` set ls))"
proof -
  have ok: "pub_ok p" unfolding p_def by (rule pub_steps_ok)
  have "distinct ls" if "smap_get p topic = Some ls" for ls
    using ok that strict_sorted_iff by (auto simp: pub_ok_def sset_sorted_def)
  then have "distinct (Item_PublishMessage topic message ls)" if "smap_get p topic = Some ls" for ls
    using that by (auto simp: Item_PublishMessage_def distinct_map inj_on_def)
  with ok show ?thesis
    by (auto simp: pub_ok_def Publisher_PublishMessage_def Publisher_RegisterListener_def Publisher_UnregisterListener_def
        Item_PublishMessage_def)
qed

theorem published_to_listeners_witness:
  "let p = fold (pub_step Some) [PubRegister TOPIC_LOW_LATENCY (Some 3)] Publisher_new in
     \<exists>ds. Publisher_PublishMessage TOPIC_LOW_LATENCY ''on'' p = Some ds \<and> distinct ds \<and> set ds = {(3, TOPIC_LOW_LATENCY, ''on'')}"
proof -
  let ?p = "fold (pub_step Some) [PubRegister TOPIC_LOW_LATENCY (Some 3)] Publisher_new"
  have item: "smap_get ?p TOPIC_LOW_LATENCY = Some [3]"
    by (simp add: pub_step_def Publisher_RegisterListener_def AddListener_def Publisher_new_def smap_get_def)
  moreover have "IsMessageLengthValid ''on''" by (simp add: IsMessageLengthValid_def)
  moreover obtain ds where "Publisher_PublishMessage TOPIC_LOW_LATENCY ''on'' ?p = Some ds"
    using item by (simp add: Publisher_PublishMessage_def)
  ultimately show ?thesis
    using published_to_listeners [of TOPIC_LOW_LATENCY "''on''" Some "[PubRegister TOPIC_LOW_LATENCY (Some 3)]"]
    by (auto simp: Let_def)
qed

section \<open>The low-latency timer\<close>

datatype ll_op = LLEnable dhtype | LLDisable dhtype | LLTimer

definition ll_step :: "ll_op \<Rightarrow> low_latency \<Rightarrow> low_latency" where
  "ll_step op l =
     (case op of
        LLEnable t \<Rightarrow> (case EnableLowLatency True t l of None \<Rightarrow> l | Some l1 \<Rightarrow> l1)
      | LLDisable t \<Rightarrow> DisableLowLatency t l
      | LLTimer \<Rightarrow> (case ll_fires l of None \<Rightarrow> l | Some l1 \<Rightarrow> l1))"

definition ll_ok :: "low_latency \<Rightarrow> bool" where
  "ll_ok l \<longleftrightarrow> tm_handler (ll_timer l) = (ll_switchSet l \<noteq> [])
     \<and> tm_posted (ll_timer l) = (if ll_switchSet l = [] then 0 else 1)
     \<and> length (ll_switchSet l) \<le> MAX_SWITCH_SIZE"

lemma sset_insert_not_Nil [simp]: "sset_insert x s \<noteq> []"
  by (cases s) auto

lemma ll_step_ok: "ll_ok l \<Longrightarrow> ll_ok (ll_step op l)"
proof (cases op)
  case (LLEnable t)
  assume "ll_ok l"
  then show ?thesis using length_sset_insert_le [of t "ll_switchSet l"]
    by (auto simp: LLEnable ll_step_def EnableLowLatency_def StartTimer_def InitTimer_def ll_ok_def Let_def split: if_splits)
next
  case (LLDisable t)
  assume "ll_ok l"
  moreover have "length (sset_erase t (ll_switchSet l)) \<le> length (ll_switchSet l)" by (simp add: sset_erase_def)
  ultimately show ?thesis
    by (auto simp: LLDisable ll_step_def DisableLowLatency_def ll_StopTimer_def StopTimer_def ReleaseTimer_def ll_ok_def
        Let_def sset_erase_def intro: order_trans [OF length_filter_le])
next
  case LLTimer
  assume "ll_ok l"
  then show ?thesis
    by (auto simp: LLTimer ll_step_def ll_fires_def timer_fires_def Execute_def ll_ok_def split: if_splits)
qed

lemma ll_steps_ok: "ll_ok l \<Longrightarrow> ll_ok (fold ll_step ops l)"
  by (induction ops arbitrary: l) (simp_all add: ll_step_ok)

text \<open>
  As long as the switch is not closed, the timer runs exactly while some hardware type has low
  latency switched on, with one execution posted, and at most 256 types are switched on.
\<close>

theorem low_latency_timer_runs_while_needed:
  "ll_ok (fold ll_step ops LowLatency_new)"
  by (rule ll_steps_ok) (simp add: ll_ok_def LowLatency_new_def DHTimer_new_def)

text \<open>
  Closing the switch does not stop the timer: after it the set is empty and normal latency was
  reported, but the timer fires again and reports low latency anew; the next type that is switched on starts
  a second series of executions beside the first.
\<close>

theorem closed_low_latency_comes_back:
  assumes "ll_switchSet (fold ll_step ops LowLatency_new) \<noteq> []" and "DHType_UNKNOWN < dhType" and "dhType < DHType_MAX_DH"
  shows "let l = CloseLowLatency (fold ll_step ops LowLatency_new) in
           ll_switchSet l = [] \<and> last (ll_reports l) = MODE_DISABLE
         \<and> (\<exists>l1. ll_fires l = Some l1 \<and> last (ll_reports l1) = MODE_ENABLE \<and> ll_fires l1 \<noteq> None)
         \<and> (\<exists>l2. EnableLowLatency True dhType l = Some l2 \<and> tm_posted (ll_timer l2) = 2)"
proof -
  let ?l = "fold ll_step ops LowLatency_new"
  have "ll_ok ?l" by (rule ll_steps_ok) (simp add: ll_ok_def LowLatency_new_def DHTimer_new_def)
  with assms(1) have "tm_handler (ll_timer ?l)" "tm_posted (ll_timer ?l) = 1" by (simp_all add: ll_ok_def)
  with assms(2,3) show ?thesis
    by (auto simp: CloseLowLatency_def report_def ll_fires_def timer_fires_def Execute_def Let_def EnableLowLatency_def
        StartTimer_def InitTimer_def not_le)
qed

theorem closed_low_latency_comes_back_witness:
  "let l = CloseLowLatency (fold ll_step [LLEnable DHType_CAMERA] LowLatency_new) in
     ll_switchSet l = [] \<and> last (ll_reports l) = MODE_DISABLE
   \<and> (\<exists>l1. ll_fires l = Some l1 \<and> last (ll_reports l1) = MODE_ENABLE \<and> ll_fires l1 \<noteq> None)
   \<and> (\<exists>l2. EnableLowLatency True DHType_AUDIO l = Some l2 \<and> tm_posted (ll_timer l2) = 2)"
  by (rule closed_low_latency_comes_back)
    (simp_all add: ll_step_def EnableLowLatency_def StartTimer_def InitTimer_def LowLatency_new_def DHTimer_new_def
      word_le_nat_alt word_less_nat_alt)


section \<open>Two threads on the timer\<close>

text \<open>
  The thread that stops the timer and the timer's own thread, at the granularity of the mutex
  \<open>timerMutex_\<close>. \<open>ReleaseTimer\<close> takes the mutex, removes the posted executions, stops the event runner and
  then, still with the mutex, joins the timer's thread, which ends when the runner has returned from the
  execution it is in. \<open>Execute\<close> takes the mutex first. \<open>timer_move\<close> is one step of a thread, \<open>None\<close> where
  the thread has to wait.
\<close>

datatype owner = StopThread | RunnerThread
datatype stop_pc = BeforeRelease | Joining | Released
datatype runner_pc = Idle | AtExecute | InExecute | Ended

record timer_threads =
  tt_mutex :: "owner option"
  tt_stop :: stop_pc
  tt_runner :: runner_pc
  tt_posted :: nat
  tt_stopped :: bool

definition stop_move :: "timer_threads \<Rightarrow> timer_threads option" where
  "stop_move s =
     (case tt_stop s of
        BeforeRelease \<Rightarrow> if tt_mutex s = None
          then Some (s\<lparr>tt_mutex := Some StopThread, tt_posted := 0, tt_stopped := True, tt_stop := Joining\<rparr>) else None
      | Joining \<Rightarrow> if tt_runner s = Ended then Some (s\<lparr>tt_mutex := None, tt_stop := Released\<rparr>) else None
      | Released \<Rightarrow> None)"

definition runner_move :: "timer_threads \<Rightarrow> timer_threads option" where
  "runner_move s =
     (case tt_runner s of
        Idle \<Rightarrow> if tt_stopped s then Some (s\<lparr>tt_runner := Ended\<rparr>)
                else if tt_posted s > 0 then Some (s\<lparr>tt_posted := tt_posted s - 1, tt_runner := AtExecute\<rparr>) else None
      | AtExecute \<Rightarrow> if tt_mutex s = None then Some (s\<lparr>tt_mutex := Some RunnerThread, tt_runner := InExecute\<rparr>) else None
      | InExecute \<Rightarrow> Some (s\<lparr>tt_mutex := None, tt_posted := Suc (tt_posted s), tt_runner := Idle\<rparr>)
      | Ended \<Rightarrow> None)"

definition timer_move :: "owner \<Rightarrow> timer_threads \<Rightarrow> timer_threads option" where
  "timer_move th s = (case th of StopThread \<Rightarrow> stop_move s | RunnerThread \<Rightarrow> runner_move s)"

definition timer_started :: timer_threads where
  "timer_started = \<lparr> tt_mutex = None, tt_stop = BeforeRelease, tt_runner = Idle, tt_posted = 1, tt_stopped = False \<rparr>"

inductive timer_reach :: "timer_threads \<Rightarrow> bool" where
  start: "timer_reach timer_started"
| move: "timer_reach s \<Longrightarrow> timer_move th s = Some s1 \<Longrightarrow> timer_reach s1"

definition timer_stuck :: "timer_threads \<Rightarrow> bool" where
  "timer_stuck s \<longleftrightarrow> tt_stop s \<noteq> Released \<and> timer_move StopThread s = None \<and> timer_move RunnerThread s = None"

lemma timer_reach_inv:
  "timer_reach s \<Longrightarrow> (tt_stop s = Joining) = (tt_mutex s = Some StopThread)
     \<and> (tt_runner s = InExecute) = (tt_mutex s = Some RunnerThread)
     \<and> (tt_stopped s = (tt_stop s \<noteq> BeforeRelease))
     \<and> (\<not> tt_stopped s \<longrightarrow> tt_posted s = (if tt_runner s = Idle then 1 else 0))"
  by (induction rule: timer_reach.induct)
    (auto simp: timer_started_def timer_move_def stop_move_def runner_move_def
      split: owner.splits stop_pc.splits runner_pc.splits if_splits)

text \<open>
  Property C27. Stopping the timer can block for ever: when the timer's thread has begun an execution and
  waits for the mutex, the thread that stops the timer holds the mutex and waits for the timer's thread. This
  state is reached, and it is the only way in which the two threads get stuck.
\<close>

theorem timer_stop_deadlock:
  "(\<exists>s. timer_reach s \<and> timer_stuck s)
   \<and> (\<forall>s. timer_reach s \<longrightarrow> timer_stuck s = (tt_stop s = Joining \<and> tt_runner s = AtExecute))"
proof
  let ?s1 = "timer_started\<lparr>tt_posted := 0, tt_runner := AtExecute\<rparr>"
  let ?s2 = "?s1\<lparr>tt_mutex := Some StopThread, tt_posted := 0, tt_stopped := True, tt_stop := Joining\<rparr>"
  have "timer_reach ?s1"
    by (rule timer_reach.move [OF timer_reach.start, of RunnerThread])
      (simp add: timer_move_def runner_move_def timer_started_def)
  then have "timer_reach ?s2"
    by (rule timer_reach.move [of _ StopThread]) (simp add: timer_move_def stop_move_def timer_started_def)
  moreover have "timer_stuck ?s2"
    by (simp add: timer_stuck_def timer_move_def stop_move_def runner_move_def timer_started_def)
  ultimately show "\<exists>s. timer_reach s \<and> timer_stuck s" by blast
  show "\<forall>s. timer_reach s \<longrightarrow> timer_stuck s = (tt_stop s = Joining \<and> tt_runner s = AtExecute)"
  proof (intro allI impI)
    fix s
    assume "timer_reach s"
    from timer_reach_inv [OF this] show "timer_stuck s = (tt_stop s = Joining \<and> tt_runner s = AtExecute)"
      by (cases "tt_mutex s"; cases "the (tt_mutex s)"; cases "tt_stop s"; cases "tt_runner s")
        (auto simp: timer_stuck_def timer_move_def stop_move_def runner_move_def split: if_splits)
  qed
qed

theorem timer_stop_deadlock_witness:
  "timer_reach timer_started \<and> timer_stuck timer_started = (tt_stop timer_started = Joining \<and> tt_runner timer_started = AtExecute)"
  using timer_stop_deadlock timer_reach.start by blast

end
