(* ===== verification/DHF_Transport.thy ===== *)
theory DHF_Transport
  imports DHF_Context
begin

text \<open>
  The transport between two frameworks: the messages (\<open>transport/dh_transport_obj.cpp\<close>), the sockets of
  \<open>DHTransport\<close> (\<open>transport/dh_transport.cpp\<close>), and \<open>Compress\<close> and \<open>Decompress\<close>, the loops around zlib that
  pack the messages (\<open>utils/src/dh_utils_tool.cpp\<close>).

  The soft bus and zlib are outside the repository: the calls of the bus are the fields of \<open>bus_api\<close>, over a
  state \<open>'h\<close>, and the calls of zlib those of \<open>zlib_api\<close>. A socket is the number the bus gives it. Allocations of
  a message buffer succeed; the copy into a buffer of the message's length succeeds unless the length is 0.
\<close>

abbreviation (input) ERR_DH_FWK_COMPONENT_TRANSPORT_OPT_FAILED :: ret
  where "ERR_DH_FWK_COMPONENT_TRANSPORT_OPT_FAILED \<equiv> - 10012"
abbreviation (input) CAPS_RSP_NETWORKID_KEY :: string where "CAPS_RSP_NETWORKID_KEY \<equiv> ''networkId''"
abbreviation (input) CAPS_RSP_CAPS_KEY :: string where "CAPS_RSP_CAPS_KEY \<equiv> ''caps''"
abbreviation (input) COMM_MSG_CODE_KEY :: string where "COMM_MSG_CODE_KEY \<equiv> ''code''"
abbreviation (input) COMM_MSG_MSG_KEY :: string where "COMM_MSG_MSG_KEY \<equiv> ''msg''"
abbreviation (input) DH_FWK_SESSION_NAME :: string where "DH_FWK_SESSION_NAME \<equiv> ''ohos.dhardware.session_''"
abbreviation (input) MAX_SEND_MSG_LENGTH :: nat where "MAX_SEND_MSG_LENGTH \<equiv> 4194304"
abbreviation (input) INTERCEPT_STRING_LENGTH :: nat where "INTERCEPT_STRING_LENGTH \<equiv> 20"

section \<open>Messages\<close>

record full_caps_rsp =
  fc_networkId :: string
  fc_caps :: "capability_info list"

record comm_msg =
  cm_code :: int
  cm_msg :: string

definition FullCapsRsp_new :: full_caps_rsp where
  "FullCapsRsp_new = \<lparr> fc_networkId = [], fc_caps = [] \<rparr>"

definition CommMsg_new :: comm_msg where
  "CommMsg_new = \<lparr> cm_code = - 1, cm_msg = [] \<rparr>"

fun add_caps :: "'j cjson \<Rightarrow> 'j \<Rightarrow> capability_info list \<Rightarrow> 'j option" where
  "add_caps cj capArr [] = Some capArr"
| "add_caps cj capArr (c # cs) =
     (case cJSON_CreateObject cj of
        None \<Rightarrow> None
      | Some capValJson \<Rightarrow> add_caps cj (cJSON_AddItemToArray cj capArr (CapabilityInfo_ToJson cj capValJson c)) cs)"

definition FullCapsRsp_ToJson :: "'j cjson \<Rightarrow> 'j \<Rightarrow> full_caps_rsp \<Rightarrow> 'j" where
  "FullCapsRsp_ToJson cj jsonObject capsRsp =
     (let j1 = cJSON_AddStringToObject cj jsonObject CAPS_RSP_NETWORKID_KEY (c_str (fc_networkId capsRsp))
      in case cJSON_CreateArray cj of
           None \<Rightarrow> j1
         | Some capArr \<Rightarrow>
             (case add_caps cj capArr (fc_caps capsRsp) of
                None \<Rightarrow> j1
              | Some capArr1 \<Rightarrow> cJSON_AddItemToObject cj j1 CAPS_RSP_CAPS_KEY capArr1))"

definition FullCapsRsp_FromJson :: "'j cjson \<Rightarrow> 'j \<Rightarrow> full_caps_rsp \<Rightarrow> full_caps_rsp" where
  "FullCapsRsp_FromJson cj jsonObject r0 =
     (let r1 = (if IsString cj jsonObject CAPS_RSP_NETWORKID_KEY
                then r0\<lparr>fc_networkId := get_string cj jsonObject CAPS_RSP_NETWORKID_KEY\<rparr> else r0)
      in if IsArray cj jsonObject CAPS_RSP_CAPS_KEY
         then (case cJSON_GetObjectItem cj jsonObject CAPS_RSP_CAPS_KEY of
                 None \<Rightarrow> r1
               | Some capsArr \<Rightarrow> r1\<lparr>fc_caps := fc_caps r1
                   @ map (\<lambda>cap. CapabilityInfo_FromJson cj cap CapabilityInfo_new) (cJSON_Children cj capsArr)\<rparr>)
         else r1)"

definition CommMsg_ToJson :: "'j cjson \<Rightarrow> 'j \<Rightarrow> comm_msg \<Rightarrow> 'j" where
  "CommMsg_ToJson cj jsonObject commMsg =
     (let j1 = cJSON_AddNumberToObject cj jsonObject COMM_MSG_CODE_KEY (of_int (cm_code commMsg))
      in cJSON_AddStringToObject cj j1 COMM_MSG_MSG_KEY (c_str (cm_msg commMsg)))"

definition CommMsg_FromJson :: "'j cjson \<Rightarrow> 'j \<Rightarrow> comm_msg \<Rightarrow> comm_msg" where
  "CommMsg_FromJson cj jsonObject m0 =
     (let m1 = (if IsInt32 cj jsonObject COMM_MSG_CODE_KEY
                then m0\<lparr>cm_code := get_int32 cj jsonObject COMM_MSG_CODE_KEY\<rparr> else m0)
      in if IsString cj jsonObject COMM_MSG_MSG_KEY
         then m1\<lparr>cm_msg := get_string cj jsonObject COMM_MSG_MSG_KEY\<rparr> else m1)"

definition GetCommMsgString :: "'j cjson \<Rightarrow> comm_msg \<Rightarrow> string" where
  "GetCommMsgString cj commMsg = json_encode cj CommMsg_ToJson commMsg"

section \<open>Compression\<close>

text \<open>
  A stream of zlib, once it has its input, is the list of what its calls write, one after the other, when each
  is offered the same number of bytes (the first argument); a call after the end of the list writes nothing.
  \<open>zl_deflate\<close> stands for \<open>deflateInit\<close> and the calls of \<open>deflate\<close> with \<open>Z_FINISH\<close>, \<open>zl_inflate\<close> for
  \<open>inflateInit\<close> and the calls of \<open>inflate\<close> with \<open>Z_NO_FLUSH\<close>. The code reads none of their results: a stream that
  could not be initialised is the empty list.
\<close>

record zlib_api =
  zl_deflate :: "nat \<Rightarrow> string \<Rightarrow> string list"
  zl_inflate :: "nat \<Rightarrow> string \<Rightarrow> string list"

abbreviation (input) COMPRESS_SLICE_SIZE :: nat where "COMPRESS_SLICE_SIZE \<equiv> 1024"

text \<open>The loop of both functions: it goes on as long as a call leaves no room in the slice.\<close>

fun slice_loop :: "string list \<Rightarrow> string \<Rightarrow> string" where
  "slice_loop [] out = out"
| "slice_loop (temp_out # calls) out =
     (let avail_out = COMPRESS_SLICE_SIZE - length temp_out;
          out1 = out @ take (COMPRESS_SLICE_SIZE - avail_out) temp_out
      in if avail_out = 0 then slice_loop calls out1 else out1)"

definition Compress :: "zlib_api \<Rightarrow> string \<Rightarrow> string" where
  "Compress Z data = slice_loop (zl_deflate Z COMPRESS_SLICE_SIZE data) []"

definition Decompress :: "zlib_api \<Rightarrow> string \<Rightarrow> string" where
  "Decompress Z data = slice_loop (zl_inflate Z COMPRESS_SLICE_SIZE data) []"

text \<open>
  What zlib documents: a call fills the bytes it is offered unless the stream ends with it; the stream of a
  compression is not empty; and to decompress that stream gives the input back, whatever sizes the calls of the
  two sides use.
\<close>

fun filled :: "nat \<Rightarrow> string list \<Rightarrow> bool" where
  "filled n [] = True"
| "filled n [p] = (length p \<le> n)"
| "filled n (p # q # ps) = (length p = n \<and> filled n (q # ps))"

definition zlib_laws :: "zlib_api \<Rightarrow> zlib_api \<Rightarrow> bool" where
  "zlib_laws Z1 Z2 \<longleftrightarrow>
     (\<forall>n data. 0 < n \<longrightarrow> filled n (zl_deflate Z1 n data) \<and> concat (zl_deflate Z1 n data) \<noteq> [])
   \<and> (\<forall>n k data. 0 < n \<longrightarrow> 0 < k \<longrightarrow> filled k (zl_inflate Z2 k (concat (zl_deflate Z1 n data)))
        \<and> concat (zl_inflate Z2 k (concat (zl_deflate Z1 n data))) = data)"

text \<open>The loop collects the whole stream, also when its length is a multiple of the slice.\<close>

lemma slice_loop_collects: "filled COMPRESS_SLICE_SIZE calls \<Longrightarrow> slice_loop calls out = out @ concat calls"
proof (induction "COMPRESS_SLICE_SIZE" calls arbitrary: out rule: filled.induct)
  case (2 p)
  then show ?case by (cases "length p = COMPRESS_SLICE_SIZE") auto
qed auto

lemma compression_round_trip:
  assumes "zlib_laws Z1 Z2"
  shows "Decompress Z2 (Compress Z1 data) = data" "Compress Z1 data \<noteq> []"
  using assms by (simp_all add: zlib_laws_def Compress_def Decompress_def slice_loop_collects del: concat_eq_Nil_conv)

section \<open>Sockets\<close>

record 'h bus_api =
  sb_Socket :: "string \<Rightarrow> string \<Rightarrow> string \<Rightarrow> 'h \<Rightarrow> int \<times> 'h"
  sb_Listen :: "int \<Rightarrow> 'h \<Rightarrow> int \<times> 'h"
  sb_Bind :: "int \<Rightarrow> 'h \<Rightarrow> int \<times> 'h"
  sb_Shutdown :: "int \<Rightarrow> 'h \<Rightarrow> 'h"
  sb_SendBytes :: "int \<Rightarrow> string \<Rightarrow> 'h \<Rightarrow> int \<times> 'h"
  sb_zlib :: zlib_api

record transport =
  tr_remoteDevSocketIds :: "(string, int) smap"
  tr_localServerSocket :: int
  tr_localSocketName :: string
  tr_isSocketSvrCreateFlag :: bool

definition DHTransport_new :: transport where
  "DHTransport_new = \<lparr> tr_remoteDevSocketIds = [], tr_localServerSocket = - 1, tr_localSocketName = [],
     tr_isSocketSvrCreateFlag = False \<rparr>"

definition OnSocketOpened :: "int \<Rightarrow> string \<Rightarrow> transport \<Rightarrow> transport" where
  "OnSocketOpened socketId networkId tr =
     tr\<lparr>tr_remoteDevSocketIds := smap_put networkId socketId (tr_remoteDevSocketIds tr)\<rparr>"

text \<open>The loop erases the first entry with the socket.\<close>

fun erase_socket :: "int \<Rightarrow> (string, int) smap \<Rightarrow> (string, int) smap" where
  "erase_socket socketId [] = []"
| "erase_socket socketId (e # m) = (if snd e = socketId then m else e # erase_socket socketId m)"

definition OnSocketClosed :: "int \<Rightarrow> transport \<Rightarrow> transport" where
  "OnSocketClosed socketId tr = tr\<lparr>tr_remoteDevSocketIds := erase_socket socketId (tr_remoteDevSocketIds tr)\<rparr>"

definition GetRemoteNetworkIdBySocketId :: "int \<Rightarrow> transport \<Rightarrow> string" where
  "GetRemoteNetworkIdBySocketId socketId tr =
     (case List.find (\<lambda>e. snd e = socketId) (tr_remoteDevSocketIds tr) of None \<Rightarrow> [] | Some e \<Rightarrow> fst e)"

definition IsDeviceSessionOpened :: "string \<Rightarrow> transport \<Rightarrow> int option" where
  "IsDeviceSessionOpened remoteNetworkId tr =
     (if \<not> IsIdLengthValid remoteNetworkId then None else smap_get (tr_remoteDevSocketIds tr) remoteNetworkId)"

definition ClearDeviceSocketOpened :: "string \<Rightarrow> transport \<Rightarrow> transport" where
  "ClearDeviceSocketOpened remoteDevId tr =
     (if \<not> IsIdLengthValid remoteDevId then tr
      else tr\<lparr>tr_remoteDevSocketIds := smap_erase remoteDevId (tr_remoteDevSocketIds tr)\<rparr>)"

definition session_name :: "string \<Rightarrow> string" where
  "session_name networkId = DH_FWK_SESSION_NAME @ take INTERCEPT_STRING_LENGTH networkId"

definition CreateServerSocket :: "dm_api \<Rightarrow> 'h bus_api \<Rightarrow> transport \<times> 'h \<Rightarrow> int \<times> transport \<times> 'h" where
  "CreateServerSocket dm B = (\<lambda>(tr, h).
     let tr1 = tr\<lparr>tr_localSocketName := session_name (GetLocalNetworkId dm)\<rparr>;
         (socket, h1) = sb_Socket B (tr_localSocketName tr1) [] [] h
     in (socket, tr1, h1))"

definition CreateClientSocket :: "'h bus_api \<Rightarrow> string \<Rightarrow> transport \<times> 'h \<Rightarrow> int \<times> 'h" where
  "CreateClientSocket B remoteNetworkId = (\<lambda>(tr, h).
     if \<not> IsIdLengthValid remoteNetworkId then (ERR_DH_FWK_PARA_INVALID, h)
     else sb_Socket B (tr_localSocketName tr) (session_name remoteNetworkId) remoteNetworkId h)"

definition DHTransport_Init :: "dm_api \<Rightarrow> 'h bus_api \<Rightarrow> transport \<times> 'h \<Rightarrow> ret \<times> transport \<times> 'h" where
  "DHTransport_Init dm B = (\<lambda>(tr, h).
     if tr_isSocketSvrCreateFlag tr then (DH_FWK_SUCCESS, tr, h)
     else let (socket, tr1, h1) = CreateServerSocket dm B (tr, h) in
       if socket < DH_FWK_SUCCESS then (ERR_DH_FWK_COMPONENT_TRANSPORT_OPT_FAILED, tr1, h1)
       else let (r, h2) = sb_Listen B socket h1 in
         if r \<noteq> DH_FWK_SUCCESS then (ERR_DH_FWK_COMPONENT_TRANSPORT_OPT_FAILED, tr1, h2)
         else (DH_FWK_SUCCESS, tr1\<lparr>tr_isSocketSvrCreateFlag := True, tr_localServerSocket := socket\<rparr>, h2))"

definition DHTransport_UnInit :: "'h bus_api \<Rightarrow> transport \<times> 'h \<Rightarrow> ret \<times> transport \<times> 'h" where
  "DHTransport_UnInit B = (\<lambda>(tr, h).
     let h1 = fold (\<lambda>e. sb_Shutdown B (snd e)) (tr_remoteDevSocketIds tr) h;
         tr1 = tr\<lparr>tr_remoteDevSocketIds := []\<rparr>
     in if \<not> tr_isSocketSvrCreateFlag tr1 then (DH_FWK_SUCCESS, tr1, h1)
        else (DH_FWK_SUCCESS, tr1\<lparr>tr_localServerSocket := - 1, tr_isSocketSvrCreateFlag := False\<rparr>,
              sb_Shutdown B (tr_localServerSocket tr1) h1))"

definition StartSocket :: "'h bus_api \<Rightarrow> string \<Rightarrow> transport \<times> 'h \<Rightarrow> ret \<times> transport \<times> 'h" where
  "StartSocket B remoteNetworkId = (\<lambda>(tr, h).
     if \<not> IsIdLengthValid remoteNetworkId then (ERR_DH_FWK_PARA_INVALID, tr, h)
     else if IsDeviceSessionOpened remoteNetworkId tr \<noteq> None then (DH_FWK_SUCCESS, tr, h)
     else let (socket, h1) = CreateClientSocket B remoteNetworkId (tr, h) in
       if socket < DH_FWK_SUCCESS then (ERR_DH_FWK_COMPONENT_TRANSPORT_OPT_FAILED, tr, h1)
       else let (r, h2) = sb_Bind B socket h1 in
         if r < DH_FWK_SUCCESS then (ERR_DH_FWK_COMPONENT_TRANSPORT_OPT_FAILED, tr, sb_Shutdown B socket h2)
         else (DH_FWK_SUCCESS, OnSocketOpened socket remoteNetworkId tr, h2))"

definition StopSocket :: "'h bus_api \<Rightarrow> string \<Rightarrow> transport \<times> 'h \<Rightarrow> ret \<times> transport \<times> 'h" where
  "StopSocket B remoteNetworkId = (\<lambda>(tr, h).
     if \<not> IsIdLengthValid remoteNetworkId then (ERR_DH_FWK_PARA_INVALID, tr, h)
     else case IsDeviceSessionOpened remoteNetworkId tr of
       None \<Rightarrow> (ERR_DH_FWK_COMPONENT_TRANSPORT_OPT_FAILED, tr, h)
     | Some socketId \<Rightarrow> (DH_FWK_SUCCESS, ClearDeviceSocketOpened remoteNetworkId tr, sb_Shutdown B socketId h))"

definition Send :: "'h bus_api \<Rightarrow> string \<Rightarrow> string \<Rightarrow> transport \<times> 'h \<Rightarrow> ret \<times> 'h" where
  "Send B remoteNetworkId payload = (\<lambda>(tr, h).
     if \<not> IsIdLengthValid remoteNetworkId \<or> \<not> IsMessageLengthValid payload then (ERR_DH_FWK_PARA_INVALID, h)
     else case IsDeviceSessionOpened remoteNetworkId tr of
       None \<Rightarrow> (ERR_DH_FWK_COMPONENT_TRANSPORT_OPT_FAILED, h)
     | Some socketId \<Rightarrow>
         (let compressedPayLoad = Compress (sb_zlib B) payload in
          if length compressedPayLoad > MAX_SEND_MSG_LENGTH then (ERR_DH_FWK_COMPONENT_TRANSPORT_OPT_FAILED, h)
          else if compressedPayLoad = [] then (ERR_DH_FWK_COMPONENT_TRANSPORT_OPT_FAILED, h)
          else let (r, h1) = sb_SendBytes B socketId compressedPayLoad h in
            if r \<noteq> DH_FWK_SUCCESS then (ERR_DH_FWK_COMPONENT_TRANSPORT_OPT_FAILED, h1) else (DH_FWK_SUCCESS, h1)))"

text \<open>The event that a received message posts, if it posts one.\<close>

definition HandleReceiveMessage :: "'j cjson \<Rightarrow> 'h bus_api \<Rightarrow> string \<Rightarrow> comm_msg option" where
  "HandleReceiveMessage cj B payload =
     (if \<not> IsMessageLengthValid payload then None
      else map_option (\<lambda>rootJson. CommMsg_FromJson cj rootJson CommMsg_new) (cJSON_Parse cj (c_str (Decompress (sb_zlib B) payload))))"

definition OnBytesReceived :: "'j cjson \<Rightarrow> 'h bus_api \<Rightarrow> int \<Rightarrow> string \<Rightarrow> transport \<Rightarrow> comm_msg option" where
  "OnBytesReceived cj B socketId data tr =
     (if socketId < 0 \<or> length data = 0 \<or> length data > MAX_SEND_MSG_LENGTH then None
      else if GetRemoteNetworkIdBySocketId socketId tr = [] then None
      else HandleReceiveMessage cj B data)"

section \<open>Messages survive the journey\<close>

definition rsp_encodable :: "'j cjson \<Rightarrow> full_caps_rsp \<Rightarrow> bool" where
  "rsp_encodable cj r \<longleftrightarrow> json_str_ok (fc_networkId r) \<and> cJSON_CreateArray cj \<noteq> None
     \<and> (\<forall>ar. cJSON_CreateArray cj = Some ar \<longrightarrow> cJSON_IsArray cj ar)
     \<and> (\<forall>ar it. cJSON_IsArray cj ar \<longrightarrow> cJSON_IsArray cj (cJSON_AddItemToArray cj ar it))
     \<and> length (fc_caps r) \<le> MAX_ARR_SIZE \<and> list_all (cap_encodable cj) (fc_caps r)"

definition msg_encodable :: "'j cjson \<Rightarrow> comm_msg \<Rightarrow> bool" where
  "msg_encodable cj m \<longleftrightarrow> 0 \<le> cm_code m \<and> cm_code m \<le> 2147483647 \<and> json_str_ok (cm_msg m)"

lemma msg_keys_differ:
  "\<not> same_key COMM_MSG_CODE_KEY COMM_MSG_MSG_KEY" "\<not> same_key COMM_MSG_MSG_KEY COMM_MSG_CODE_KEY"
  "\<not> same_key CAPS_RSP_NETWORKID_KEY CAPS_RSP_CAPS_KEY" "\<not> same_key CAPS_RSP_CAPS_KEY CAPS_RSP_NETWORKID_KEY"
  by code_simp+

lemma int32_has_number:
  assumes "has_number cj ob k n" and "n \<le> 2147483647"
  shows "IsInt32 cj ob k" and "get_int32 cj ob k = int n"
proof -
  from assms(2) have "(of_nat n :: rat) \<le> 2147483647" by (metis of_nat_le_iff of_nat_numeral)
  moreover have "(- 2147483648 :: rat) \<le> of_nat n" by (rule order_trans [of _ 0]) simp_all
  ultimately show "IsInt32 cj ob k" using assms(1) by (auto simp: has_number_def IsInt32_def number_in_def)
  show "get_int32 cj ob k = int n" using assms(1) by (auto simp: has_number_def get_int32_def trunc_def)
qed

interpretation msg_codec: json_codec CommMsg_ToJson CommMsg_FromJson CommMsg_new msg_encodable
proof unfold_locales
  fix cj :: "'j cjson" and x ob0 ob
  assume laws: "cjson_build_laws cj" and enc: "msg_encodable cj x" and ob0: "cJSON_CreateObject cj = Some ob0"
    and it: "cJSON_GetObjectItem cj ob = cJSON_GetObjectItem cj (CommMsg_ToJson cj ob0 x)"
  from enc obtain n where n: "cm_code x = int n" "n \<le> 2147483647" and msg: "json_str_ok (cm_msg x)"
    by (auto simp: msg_encodable_def intro: that [of "nat (cm_code x)"])
  have small: "n < 2 ^ 53" using n(2) by (rule le_less_trans) simp
  have "has_number cj (CommMsg_ToJson cj ob0 x) COMM_MSG_CODE_KEY n"
    unfolding CommMsg_ToJson_def Let_def n(1) of_int_of_nat_eq
    by (simp add: has_string_other [OF laws msg_keys_differ(2)] law_add_number [OF laws law_create [OF laws ob0] small])
  moreover have "has_string cj (CommMsg_ToJson cj ob0 x) COMM_MSG_MSG_KEY (c_str (cm_msg x))"
    by (simp add: CommMsg_ToJson_def json_build [OF laws] law_create [OF laws ob0] c_str_no_nul msg_keys_differ)
  ultimately show "CommMsg_FromJson cj ob CommMsg_new = x"
    using n msg item_cong [OF it]
    by (simp add: CommMsg_FromJson_def CommMsg_new_def int32_has_number json_read json_str_ok_c_str)
qed

lemma add_caps_children:
  assumes laws: "cjson_build_laws cj" and ob0: "cJSON_CreateObject cj = Some ob0"
    and arr: "\<forall>ar it. cJSON_IsArray cj ar \<longrightarrow> cJSON_IsArray cj (cJSON_AddItemToArray cj ar it)"
    and "cJSON_IsArray cj ar"
  shows "\<exists>ar1. add_caps cj ar cs = Some ar1 \<and> cJSON_IsArray cj ar1
     \<and> cJSON_Children cj ar1 = cJSON_Children cj ar @ map (CapabilityInfo_ToJson cj ob0) cs"
  using assms(4)
proof (induction cs arbitrary: ar)
  case (Cons c cs)
  from Cons.IH [of "cJSON_AddItemToArray cj ar (CapabilityInfo_ToJson cj ob0 c)"] Cons.prems arr show ?case
    by (auto simp: ob0 law_add_elem [OF laws])
qed simp

interpretation rsp_codec: json_codec FullCapsRsp_ToJson FullCapsRsp_FromJson FullCapsRsp_new rsp_encodable
proof unfold_locales
  fix cj :: "'j cjson" and x ob0 ob
  assume laws: "cjson_build_laws cj" and enc: "rsp_encodable cj x" and ob0: "cJSON_CreateObject cj = Some ob0"
    and it: "cJSON_GetObjectItem cj ob = cJSON_GetObjectItem cj (FullCapsRsp_ToJson cj ob0 x)"
  from enc obtain ar0 where ar0: "cJSON_CreateArray cj = Some ar0" and isarr: "cJSON_IsArray cj ar0"
    and keep: "\<forall>ar it. cJSON_IsArray cj ar \<longrightarrow> cJSON_IsArray cj (cJSON_AddItemToArray cj ar it)"
    and net: "json_str_ok (fc_networkId x)" and len: "length (fc_caps x) \<le> MAX_ARR_SIZE"
    and caps: "\<forall>c \<in> set (fc_caps x). cap_encodable cj c"
    by (auto simp: rsp_encodable_def list_all_iff)
  from add_caps_children [OF laws ob0 keep isarr, of "fc_caps x"] law_create_array [OF laws ar0]
  obtain ar where ar: "add_caps cj ar0 (fc_caps x) = Some ar" "cJSON_IsArray cj ar"
      "cJSON_Children cj ar = map (CapabilityInfo_ToJson cj ob0) (fc_caps x)"
    by auto
  have same: "CapabilityInfo_FromJson cj (CapabilityInfo_ToJson cj ob0 c) CapabilityInfo_new = c" if "c \<in> set (fc_caps x)" for c
    using that caps by (intro cap_codec.item_round_trip [OF laws _ ob0 refl]) simp
  have "map ((\<lambda>cap. CapabilityInfo_FromJson cj cap CapabilityInfo_new) \<circ> CapabilityInfo_ToJson cj ob0) (fc_caps x) = fc_caps x"
    by (rule map_idI) (simp add: same)
  moreover have "has_string cj (FullCapsRsp_ToJson cj ob0 x) CAPS_RSP_NETWORKID_KEY (c_str (fc_networkId x))"
    and item: "cJSON_GetObjectItem cj ob CAPS_RSP_CAPS_KEY = Some ar"
    unfolding it
    by (simp_all add: FullCapsRsp_ToJson_def ar0 ar(1) json_build [OF laws] law_create [OF laws ob0] c_str_no_nul
        msg_keys_differ)
  moreover have "IsArray cj ob CAPS_RSP_CAPS_KEY" using item ar len by (simp add: IsArray_def)
  ultimately show "FullCapsRsp_FromJson cj ob FullCapsRsp_new = x"
    using net item_cong [OF it] ar(3)
    by (simp add: FullCapsRsp_FromJson_def FullCapsRsp_new_def json_read json_str_ok_c_str)
qed

end
