(* ===== verification/DHF_CompMgr.thy ===== *)
theory DHF_CompMgr
  imports DHF_Loader DHF_Publisher DHF_Transport
begin

text \<open>
  The component manager (\<open>componentmanager/component_manager.cpp\<close>) with the objects of one registration
  (\<open>component_enable.cpp\<close>, \<open>component_disable.cpp\<close>), the monitor of the components' services
  (\<open>component_monitor.cpp\<close>), the record of the enabled hardware (\<open>hidumphelper/enabled_comps_dump.cpp\<close>) and
  the state listener (\<open>dh_state_listener.cpp\<close>).

  The source and sink handlers of the components, the service manager and the device manager's trust list
  are outside the repository; their calls are the fields of \<open>hw_api\<close>, over the state \<open>'h\<close>. The result of a call
  that runs on a detached thread is \<open>None\<close> when it is not there within the two seconds that the manager waits
  for it. A registration is answered by calls of the callback object; \<open>rr_before\<close> are those that come before
  the wait for the answer begins, \<open>rr_during\<close> those that come within its timeout.
\<close>

abbreviation (input) ERR_DH_FWK_COMPONENT_ENABLE_FAILED :: ret where "ERR_DH_FWK_COMPONENT_ENABLE_FAILED \<equiv> - 10302"
abbreviation (input) ERR_DH_FWK_COMPONENT_DISABLE_FAILED :: ret where "ERR_DH_FWK_COMPONENT_DISABLE_FAILED \<equiv> - 10303"
abbreviation (input) ERR_DH_FWK_COMPONENT_ENABLE_TIMEOUT :: ret where "ERR_DH_FWK_COMPONENT_ENABLE_TIMEOUT \<equiv> - 10304"
abbreviation (input) ERR_DH_FWK_COMPONENT_DISABLE_TIMEOUT :: ret
  where "ERR_DH_FWK_COMPONENT_DISABLE_TIMEOUT \<equiv> - 10305"
abbreviation (input) ERR_DH_FWK_COMPONENT_REGISTER_FAILED :: ret where "ERR_DH_FWK_COMPONENT_REGISTER_FAILED \<equiv> - 10306"
abbreviation (input) ERR_DH_FWK_COMPONENT_UNREGISTER_FAILED :: ret
  where "ERR_DH_FWK_COMPONENT_UNREGISTER_FAILED \<equiv> - 10007"
abbreviation (input) ERR_DH_FWK_COMPONENT_GET_SINK_VERSION_FAILED :: ret
  where "ERR_DH_FWK_COMPONENT_GET_SINK_VERSION_FAILED \<equiv> - 10009"
abbreviation (input) ERR_DH_FWK_COMPONENT_DHTYPE_NOT_FOUND :: ret
  where "ERR_DH_FWK_COMPONENT_DHTYPE_NOT_FOUND \<equiv> - 10010"
abbreviation (input) ERR_DH_FWK_COMPONENT_GET_ENABLE_PARAM_FAILED :: ret
  where "ERR_DH_FWK_COMPONENT_GET_ENABLE_PARAM_FAILED \<equiv> - 10013"
abbreviation (input) ERR_DH_FWK_RESOURCE_KEY_IS_EMPTY :: ret where "ERR_DH_FWK_RESOURCE_KEY_IS_EMPTY \<equiv> - 10410"
abbreviation (input) ENABLE_RETRY_MAX_TIMES :: nat where "ENABLE_RETRY_MAX_TIMES \<equiv> 3"
abbreviation (input) DISABLE_RETRY_MAX_TIMES :: nat where "DISABLE_RETRY_MAX_TIMES \<equiv> 3"
abbreviation (input) INVALID_SA_ID :: int where "INVALID_SA_ID \<equiv> - 1"
abbreviation (input) INT32_MAX :: int where "INT32_MAX \<equiv> 2147483647"

section \<open>State\<close>

record enable_param =
  ep_sourceVersion :: string
  ep_sourceAttrs :: string
  ep_sinkVersion :: string
  ep_sinkAttrs :: string
  ep_subtype :: string

definition EnableParam_new :: enable_param where
  "EnableParam_new = \<lparr> ep_sourceVersion = [], ep_sourceAttrs = [], ep_sinkVersion = [], ep_sinkAttrs = [], ep_subtype = [] \<rparr>"

datatype business_state = BS_UNKNOWN | BS_IDLE | BS_RUNNING | BS_PAUSING

type_synonym callback_event = "string \<times> string \<times> int"

record reg_reply =
  rr_ret :: ret
  rr_before :: "callback_event list"
  rr_during :: "callback_event list"

record 'h hw_api =
  hw_loader :: "'h loader_api"
  hw_bus :: "'h bus_api"
  hw_InitSource :: "nat \<Rightarrow> string \<Rightarrow> 'h \<Rightarrow> ret option \<times> 'h"
  hw_ReleaseSource :: "nat \<Rightarrow> 'h \<Rightarrow> ret option \<times> 'h"
  hw_InitSink :: "nat \<Rightarrow> string \<Rightarrow> 'h \<Rightarrow> ret option \<times> 'h"
  hw_ReleaseSink :: "nat \<Rightarrow> 'h \<Rightarrow> ret option \<times> 'h"
  hw_StateListener :: "nat \<Rightarrow> bool \<Rightarrow> 'h \<Rightarrow> 'h"
  hw_SyncListener :: "nat \<Rightarrow> bool \<Rightarrow> 'h \<Rightarrow> 'h"
  hw_RegisterPrivacy :: "nat \<Rightarrow> 'h \<Rightarrow> 'h"
  hw_StopPrivacePage :: "string \<Rightarrow> 'h \<Rightarrow> 'h"
  hw_UnRegisterPlugin :: "nat \<Rightarrow> 'h \<Rightarrow> 'h"
  hw_Register :: "nat \<Rightarrow> string \<Rightarrow> string \<Rightarrow> enable_param \<Rightarrow> 'h \<Rightarrow> reg_reply \<times> 'h"
  hw_Unregister :: "nat \<Rightarrow> string \<Rightarrow> string \<Rightarrow> 'h \<Rightarrow> reg_reply \<times> 'h"
  hw_Subscribe :: "int \<Rightarrow> 'h \<Rightarrow> ret option \<times> 'h"
  hw_UnSubscribe :: "int \<Rightarrow> 'h \<Rightarrow> ret option \<times> 'h"
  hw_AsObject :: "nat \<Rightarrow> nat option"
  hw_Trusted :: "'h \<Rightarrow> (string \<times> bool) list"
  hw_CHECK_RESOURCE :: bool
  hw_LOW_LATENCY :: bool

text \<open>
  The maps of the manager; a handler that is null is \<open>None\<close>. A privacy object is whether its page is open.
  \<open>mg_exited\<close> tells that the process was ended by \<open>_Exit\<close>.
\<close>

record comp_mgr =
  mg_compSource :: "(dhtype, nat option) smap"
  mg_compSink :: "(dhtype, nat option) smap"
  mg_compSrcSaId :: "(dhtype, int) smap"
  mg_audioCompPrivacy :: "bool option"
  mg_cameraCompPrivacy :: "bool option"
  mg_saListeners :: "int list"
  mg_isUnInitTimeOut :: bool
  mg_dhBizStates :: "(string \<times> string, business_state) smap"
  mg_needRefreshTaskParams :: "(string \<times> string, task_param) smap"
  mg_compInfoSet :: "(string \<times> string, dhtype) smap"
  mg_exited :: bool

definition comp_mgr_new :: comp_mgr where
  "comp_mgr_new = \<lparr> mg_compSource = [], mg_compSink = [], mg_compSrcSaId = [], mg_audioCompPrivacy = None,
     mg_cameraCompPrivacy = None, mg_saListeners = [], mg_isUnInitTimeOut = False, mg_dhBizStates = [],
     mg_needRefreshTaskParams = [], mg_compInfoSet = [], mg_exited = False \<rparr>"

text \<open>The component side of the framework as a whole.\<close>

record 'h comp_sys =
  cs_mgr :: comp_mgr
  cs_loader :: loader
  cs_tr :: "transport option"
  cs_pub :: publisher
  cs_ll :: low_latency
  cs_h :: 'h

section \<open>The record of the enabled hardware\<close>

text \<open>A set in the order of the network identifier and the hardware identifier, which ignores the type.\<close>

definition DumpEnabledComp :: "string \<Rightarrow> dhtype \<Rightarrow> string \<Rightarrow> comp_mgr \<Rightarrow> comp_mgr" where
  "DumpEnabledComp networkId dhType dhId m =
     m\<lparr>mg_compInfoSet := smap_emplace (networkId, dhId) dhType (mg_compInfoSet m)\<rparr>"

definition DumpDisabledComp :: "string \<Rightarrow> dhtype \<Rightarrow> string \<Rightarrow> comp_mgr \<Rightarrow> comp_mgr" where
  "DumpDisabledComp networkId dhType dhId m = m\<lparr>mg_compInfoSet := smap_erase (networkId, dhId) (mg_compInfoSet m)\<rparr>"

section \<open>One registration\<close>

text \<open>\<open>status_\<close> of the callback object begins as the largest \<open>int32_t\<close>, which stands for no answer yet.\<close>

definition OnRegisterResult :: "string \<Rightarrow> string \<Rightarrow> int \<Rightarrow> int \<Rightarrow> ret \<times> int" where
  "OnRegisterResult networkId dhId status status0 =
     (if \<not> IsIdLengthValid networkId \<or> \<not> IsIdLengthValid dhId then (ERR_DH_FWK_PARA_INVALID, status0)
      else (status, status))"

definition OnUnregisterResult :: "string \<Rightarrow> string \<Rightarrow> int \<Rightarrow> int \<Rightarrow> ret \<times> int" where
  "OnUnregisterResult networkId dhId status status0 =
     (if \<not> IsIdLengthValid networkId \<or> \<not> IsIdLengthValid dhId then (ERR_DH_FWK_PARA_INVALID, status0)
      else (status, status))"

definition callback :: "callback_event \<Rightarrow> int \<Rightarrow> int" where
  "callback = (\<lambda>(networkId, dhId, status) status0. snd (OnRegisterResult networkId dhId status status0))"

text \<open>The wait on the condition variable ends with the first state that is an answer.\<close>

fun wait_for :: "callback_event list \<Rightarrow> int \<Rightarrow> int" where
  "wait_for [] st = st"
| "wait_for (e # es) st = (if st \<noteq> INT32_MAX then st else wait_for es (callback e st))"

definition ComponentEnable_Enable ::
  "'h hw_api \<Rightarrow> string \<Rightarrow> string \<Rightarrow> enable_param \<Rightarrow> nat option \<Rightarrow> int \<times> 'h \<Rightarrow> ret \<times> int \<times> 'h" where
  "ComponentEnable_Enable P networkId dhId param handler = (\<lambda>(st, h).
     if \<not> IsIdLengthValid networkId \<or> \<not> IsIdLengthValid dhId then (ERR_DH_FWK_PARA_INVALID, st, h)
     else case handler of
       None \<Rightarrow> (ERR_DH_FWK_PARA_INVALID, st, h)
     | Some p \<Rightarrow>
         (let (reply, h1) = hw_Register P p networkId dhId param h;
              st1 = fold callback (rr_before reply) st
          in if rr_ret reply \<noteq> DH_FWK_SUCCESS then (ERR_DH_FWK_COMPONENT_REGISTER_FAILED, st1, h1)
             else let st2 = wait_for (rr_during reply) st1 in
               if st2 = INT32_MAX then (ERR_DH_FWK_COMPONENT_ENABLE_TIMEOUT, st2, h1)
               else (if st2 = DH_FWK_SUCCESS then DH_FWK_SUCCESS else ERR_DH_FWK_COMPONENT_ENABLE_FAILED, st2, h1)))"

definition ComponentDisable_Disable ::
  "'h hw_api \<Rightarrow> string \<Rightarrow> string \<Rightarrow> nat option \<Rightarrow> int \<times> 'h \<Rightarrow> ret \<times> int \<times> 'h" where
  "ComponentDisable_Disable P networkId dhId handler = (\<lambda>(st, h).
     if \<not> IsIdLengthValid networkId \<or> \<not> IsIdLengthValid dhId then (ERR_DH_FWK_PARA_INVALID, st, h)
     else case handler of
       None \<Rightarrow> (ERR_DH_FWK_PARA_INVALID, st, h)
     | Some p \<Rightarrow>
         (let (reply, h1) = hw_Unregister P p networkId dhId h;
              st1 = fold callback (rr_before reply) st
          in if rr_ret reply \<noteq> DH_FWK_SUCCESS then (ERR_DH_FWK_COMPONENT_UNREGISTER_FAILED, st1, h1)
             else let st2 = wait_for (rr_during reply) st1 in
               if st2 = INT32_MAX then (ERR_DH_FWK_COMPONENT_DISABLE_TIMEOUT, st2, h1)
               else (if st2 = DH_FWK_SUCCESS then DH_FWK_SUCCESS else ERR_DH_FWK_COMPONENT_DISABLE_FAILED, st2, h1)))"

section \<open>Parameters of a registration\<close>

definition GetVersionFromVerMgr :: "string \<Rightarrow> dhtype \<Rightarrow> bool \<Rightarrow> versions \<Rightarrow> string \<Rightarrow> ret \<times> string" where
  "GetVersionFromVerMgr uuid dhType isSink vs version =
     (if \<not> IsIdLengthValid uuid then (ERR_DH_FWK_PARA_INVALID, version)
      else case GetCompVersion uuid dhType vs of
        (r, None) \<Rightarrow> (r, version)
      | (r, Some c) \<Rightarrow> (DH_FWK_SUCCESS, if isSink then cv_sinkVersion c else cv_sourceVersion c))"

definition CompMgr_UpdateVersionCache :: "string \<Rightarrow> version_info \<Rightarrow> versions \<Rightarrow> versions" where
  "CompMgr_UpdateVersionCache uuid versionInfo vs =
     (if \<not> IsIdLengthValid uuid then vs
      else snd (AddDHVersion uuid \<lparr> dv_uuid = uuid, dv_dhVersion = vi_dhVersion versionInfo,
                  dv_compVersions = vi_compVersions versionInfo \<rparr> vs))"

definition GetVersionFromVerInfoMgr ::
  "dhtype \<Rightarrow> ('w, 'j) env \<Rightarrow> string \<Rightarrow> dhtype \<Rightarrow> bool \<Rightarrow> string \<Rightarrow> 'w resources \<Rightarrow> ret \<times> string \<times> 'w resources" where
  "GetVersionFromVerInfoMgr junk E uuid dhType isSink version rs =
     (if \<not> IsIdLengthValid uuid then (ERR_DH_FWK_PARA_INVALID, version, rs)
      else let (r, versionInfo, (m, s)) = GetVersionInfoByDeviceId junk E (GetDeviceIdByUUID (env_digest E) uuid)
                 VersionInfo_new (rs_ver rs, rs_sys rs);
               rs1 = rs\<lparr>rs_ver := m, rs_sys := s\<rparr>
           in if r \<noteq> DH_FWK_SUCCESS then (r, version, rs1)
              else case smap_get (vi_compVersions versionInfo) dhType of
                None \<Rightarrow> (ERR_DH_FWK_COMPONENT_DHTYPE_NOT_FOUND, version, rs1)
              | Some c \<Rightarrow>
                  (DH_FWK_SUCCESS, if isSink then cv_sinkVersion c else cv_sourceVersion c,
                   rs1\<lparr>rs_ver := m\<lparr>vm_versions := CompMgr_UpdateVersionCache uuid versionInfo (vm_versions m)\<rparr>\<rparr>))"

definition GetVersion ::
  "dhtype \<Rightarrow> ('w, 'j) env \<Rightarrow> string \<Rightarrow> dhtype \<Rightarrow> bool \<Rightarrow> string \<Rightarrow> 'w resources \<Rightarrow> ret \<times> string \<times> 'w resources" where
  "GetVersion junk E uuid dhType isSink version rs =
     (if \<not> IsIdLengthValid uuid then (ERR_DH_FWK_PARA_INVALID, version, rs)
      else let (r, version1) = GetVersionFromVerMgr uuid dhType isSink (vm_versions (rs_ver rs)) version in
        if r = DH_FWK_SUCCESS \<and> version1 \<noteq> [] then (DH_FWK_SUCCESS, version1, rs)
        else GetVersionFromVerInfoMgr junk E uuid dhType isSink version1 rs)"

text \<open>The loop over the local records keeps the attributes of the last one of the type.\<close>

definition source_attrs :: "dhtype \<Rightarrow> ('a) capability_info_scheme list \<Rightarrow> enable_param \<Rightarrow> enable_param" where
  "source_attrs dhType infos =
     fold (\<lambda>c param. if dhType = ci_dhType c then param\<lparr>ep_sourceAttrs := ci_dhAttrs c\<rparr> else param) infos"

definition GetEnableCapParam ::
  "dhtype \<Rightarrow> ('w, 'j) env \<Rightarrow> string \<Rightarrow> string \<Rightarrow> dhtype \<Rightarrow> capability_info \<Rightarrow> enable_param \<Rightarrow> 'w resources
     \<Rightarrow> ret \<times> enable_param \<times> 'w resources" where
  "GetEnableCapParam junk E networkId uuid dhType capability param rs =
     (if \<not> IsIdLengthValid networkId \<or> \<not> IsIdLengthValid uuid then (ERR_DH_FWK_PARA_INVALID, param, rs)
      else let info = GetLocalDeviceInfo (env_dm E) (env_digest E);
               param1 = source_attrs dhType
                 (CapMgr_GetCapabilitiesByDeviceId (di_deviceId info) (im_map (rs_cap rs)) []) param;
               (r, sourceVersion, rs1) = GetVersion junk E (di_uuid info) dhType False [] rs
           in if r \<noteq> DH_FWK_SUCCESS then (ERR_DH_FWK_COMPONENT_GET_SINK_VERSION_FAILED, param1, rs1)
              else let param2 = param1\<lparr>ep_sourceVersion := sourceVersion, ep_sinkAttrs := ci_dhAttrs capability\<rparr>;
                       (r2, sinkVersion, rs2) = GetVersion junk E uuid dhType True [] rs1;
                       fin = (\<lambda>v. (DH_FWK_SUCCESS, param2\<lparr>ep_sinkVersion := v, ep_subtype := ci_dhSubtype capability\<rparr>, rs2))
                   in if r2 = DH_FWK_SUCCESS then fin sinkVersion
                      else case MetaMgr_GetMetaCapInfo (GetUdidHashIdByUUID (sys_cx (rs_sys rs2)) uuid)
                             (ci_dhId capability) (im_map (rs_meta rs2)) of
                        (r3, Some metaCap) \<Rightarrow>
                          if r3 = DH_FWK_SUCCESS then fin (ci_sinkVersion metaCap)
                          else (ERR_DH_FWK_COMPONENT_GET_SINK_VERSION_FAILED, param2, rs2)
                      | (r3, None) \<Rightarrow> (ERR_DH_FWK_COMPONENT_GET_SINK_VERSION_FAILED, param2, rs2))"

definition GetEnableMetaParam ::
  "dhtype \<Rightarrow> ('w, 'j) env \<Rightarrow> string \<Rightarrow> string \<Rightarrow> dhtype \<Rightarrow> meta_capability_info \<Rightarrow> enable_param \<Rightarrow> 'w resources
     \<Rightarrow> ret \<times> enable_param \<times> 'w resources" where
  "GetEnableMetaParam junk E networkId uuid dhType metaCap param rs =
     (if \<not> IsIdLengthValid networkId \<or> \<not> IsIdLengthValid uuid then (ERR_DH_FWK_PARA_INVALID, param, rs)
      else let info = GetLocalDeviceInfo (env_dm E) (env_digest E);
               param1 = source_attrs dhType (MetaMgr_GetMetaCapInfosByUdidHash (di_udidHash info) (im_map (rs_meta rs)) []) param;
               (r, sourceVersion, rs1) = GetVersion junk E (di_uuid info) dhType False [] rs
           in if r \<noteq> DH_FWK_SUCCESS then (ERR_DH_FWK_COMPONENT_GET_SINK_VERSION_FAILED, param1, rs1)
              else (DH_FWK_SUCCESS,
                    param1\<lparr>ep_sourceVersion := sourceVersion, ep_sinkAttrs := ci_dhAttrs metaCap,
                      ep_sinkVersion := ci_sinkVersion metaCap, ep_subtype := ci_dhSubtype metaCap\<rparr>, rs1))"

definition GetCapParam :: "('w, 'j) env \<Rightarrow> string \<Rightarrow> string \<Rightarrow> 'w resources \<Rightarrow> ret \<times> capability_info option" where
  "GetCapParam E uuid dhId rs =
     (if \<not> IsIdLengthValid uuid \<or> \<not> IsIdLengthValid dhId then (ERR_DH_FWK_PARA_INVALID, None)
      else let deviceId = GetDeviceIdByUUID (env_digest E) uuid;
               (r, cap) = CapMgr_GetCapability deviceId dhId (im_map (rs_cap rs))
           in if r = DH_FWK_SUCCESS \<and> cap \<noteq> None then (r, cap)
              else LocalMgr_GetCapability deviceId dhId (im_map (rs_local rs)))"

definition GetMetaParam :: "string \<Rightarrow> string \<Rightarrow> 'w resources \<Rightarrow> ret \<times> meta_capability_info option" where
  "GetMetaParam uuid dhId rs =
     (if \<not> IsIdLengthValid uuid \<or> \<not> IsIdLengthValid dhId then (ERR_DH_FWK_PARA_INVALID, None)
      else MetaMgr_GetMetaCapInfo (GetUdidHashIdByUUID (sys_cx (rs_sys rs)) uuid) dhId (im_map (rs_meta rs)))"

definition GetEnableParam ::
  "dhtype \<Rightarrow> ('w, 'j) env \<Rightarrow> string \<Rightarrow> string \<Rightarrow> string \<Rightarrow> dhtype \<Rightarrow> enable_param \<Rightarrow> 'w resources
     \<Rightarrow> ret \<times> enable_param \<times> 'w resources" where
  "GetEnableParam junk E networkId uuid dhId dhType param rs =
     (if \<not> IsIdLengthValid networkId \<or> \<not> IsIdLengthValid uuid \<or> \<not> IsIdLengthValid dhId
      then (ERR_DH_FWK_COMPONENT_GET_ENABLE_PARAM_FAILED, param, rs)
      else let (r1, param1, rs1) =
                 (case GetCapParam E uuid dhId rs of
                    (r, Some cap) \<Rightarrow> if r = DH_FWK_SUCCESS then GetEnableCapParam junk E networkId uuid dhType cap param rs
                                    else (r, param, rs)
                  | (r, None) \<Rightarrow> (ERR_DH_FWK_COMPONENT_GET_ENABLE_PARAM_FAILED, param, rs))
           in if r1 = DH_FWK_SUCCESS then (r1, param1, rs1)
              else let (r2, param2, rs2) =
                         (case GetMetaParam uuid dhId rs1 of
                            (r, Some metaCap) \<Rightarrow>
                              if r = DH_FWK_SUCCESS then GetEnableMetaParam junk E networkId uuid dhType metaCap param1 rs1
                              else (r, param1, rs1)
                          | (r, None) \<Rightarrow> (ERR_DH_FWK_COMPONENT_GET_ENABLE_PARAM_FAILED, param1, rs1))
                   in if r2 = DH_FWK_SUCCESS then (r2, param2, rs2)
                      else (ERR_DH_FWK_COMPONENT_GET_ENABLE_PARAM_FAILED, param2, rs2))"


section \<open>Enable and disable\<close>

text \<open>
  Other threads may change the resources while the manager sleeps or waits between two attempts (a device
  goes offline, a database is synchronised): \<open>others n\<close> is what they do before the attempt \<open>n\<close>.
\<close>

definition IsIdenticalAccount :: "'h hw_api \<Rightarrow> string \<Rightarrow> 'h \<Rightarrow> bool" where
  "IsIdenticalAccount P networkId h =
     (if \<not> IsIdLengthValid networkId then False
      else let deviceList = hw_Trusted P h in
        if length deviceList = 0 \<or> length deviceList > MAX_ONLINE_DEVICE_SIZE then False
        else case List.find (\<lambda>d. fst d = networkId) deviceList of None \<Rightarrow> False | Some d \<Rightarrow> snd d)"

definition CheckSubtypeResource :: "'h hw_api \<Rightarrow> string \<Rightarrow> string \<Rightarrow> 'h comp_sys \<Rightarrow> ret" where
  "CheckSubtypeResource P subtype networkId c =
     (if \<not> hw_CHECK_RESOURCE P then DH_FWK_SUCCESS
      else case smap_get (GetCompResourceDesc (cs_loader c)) subtype of
        None \<Rightarrow> ERR_DH_FWK_RESOURCE_KEY_IS_EMPTY
      | Some sensitive \<Rightarrow>
          if sensitive \<and> \<not> IsIdenticalAccount P networkId (cs_h c) then ERR_DH_FWK_COMPONENT_ENABLE_FAILED
          else DH_FWK_SUCCESS)"

fun retry_param ::
  "dhtype \<Rightarrow> ('w, 'j) env \<Rightarrow> (nat \<Rightarrow> 'w resources \<Rightarrow> 'w resources) \<Rightarrow> string \<Rightarrow> string \<Rightarrow> string \<Rightarrow> dhtype \<Rightarrow> nat
     \<Rightarrow> enable_param \<times> 'w resources \<Rightarrow> ret \<times> enable_param \<times> 'w resources" where
  "retry_param junk E others networkId uuid dhId dhType 0 (param, rs) = (DH_FWK_SUCCESS, param, rs)"
| "retry_param junk E others networkId uuid dhId dhType (Suc n) (param, rs) =
     (let rs0 = others (Suc n) rs in
      if \<not> IsDeviceOnline (sys_cx (rs_sys rs0)) uuid then (ERR_DH_FWK_COMPONENT_ENABLE_FAILED, param, rs0)
      else let (r, param1, rs1) = GetEnableParam junk E networkId uuid dhId dhType param rs0 in
        if r = DH_FWK_SUCCESS then (DH_FWK_SUCCESS, param1, rs1)
        else retry_param junk E others networkId uuid dhId dhType n (param1, rs1))"

definition RetryGetEnableParam ::
  "dhtype \<Rightarrow> ('w, 'j) env \<Rightarrow> (nat \<Rightarrow> 'w resources \<Rightarrow> 'w resources) \<Rightarrow> string \<Rightarrow> string \<Rightarrow> string \<Rightarrow> dhtype
     \<Rightarrow> enable_param \<times> 'w resources \<Rightarrow> ret \<times> enable_param \<times> 'w resources" where
  "RetryGetEnableParam junk E others networkId uuid dhId dhType = (\<lambda>(param, rs).
     if \<not> IsIdLengthValid networkId \<or> \<not> IsIdLengthValid uuid \<or> \<not> IsIdLengthValid dhId
     then (ERR_DH_FWK_PARA_INVALID, param, rs)
     else retry_param junk E others networkId uuid dhId dhType ENABLE_RETRY_MAX_TIMES (param, rs))"

text \<open>
  The retry loops of \<open>Enable\<close> and \<open>Disable\<close>: \<open>attempt\<close> is one more call of the same callback object, \<open>may\<close> the
  test of the online set before it. The result of the first attempt is what a failure returns.
\<close>

fun retry_attempts ::
  "('w resources \<Rightarrow> bool) \<Rightarrow> (int \<times> 'h \<Rightarrow> ret \<times> int \<times> 'h) \<Rightarrow> (nat \<Rightarrow> 'w resources \<Rightarrow> 'w resources) \<Rightarrow> ret \<Rightarrow> nat
     \<Rightarrow> int \<times> 'h \<times> 'w resources \<Rightarrow> ret \<times> 'h \<times> 'w resources" where
  "retry_attempts may attempt others result 0 (st, h, rs) = (result, h, rs)"
| "retry_attempts may attempt others result (Suc n) (st, h, rs) =
     (let rs0 = others (Suc n) rs in
      if \<not> may rs0 then (result, h, rs0)
      else let (r, st1, h1) = attempt (st, h) in
        if r = DH_FWK_SUCCESS then (DH_FWK_SUCCESS, h1, rs0)
        else retry_attempts may attempt others result n (st1, h1, rs0))"

text \<open>The first attempt with a new callback object, and the retries with the same object.\<close>

definition enable_attempts ::
  "'h hw_api \<Rightarrow> (nat \<Rightarrow> 'w resources \<Rightarrow> 'w resources) \<Rightarrow> string \<Rightarrow> string \<Rightarrow> string \<Rightarrow> enable_param \<Rightarrow> nat option
     \<Rightarrow> 'h \<times> 'w resources \<Rightarrow> ret \<times> 'h \<times> 'w resources" where
  "enable_attempts P others networkId uuid dhId param handler = (\<lambda>(h, rs).
     let attempt = ComponentEnable_Enable P networkId dhId param handler;
         (result, st, h1) = attempt (INT32_MAX, h)
     in if result = DH_FWK_SUCCESS then (result, h1, rs)
        else retry_attempts (\<lambda>rs. IsDeviceOnline (sys_cx (rs_sys rs)) uuid) attempt others result
               ENABLE_RETRY_MAX_TIMES (st, h1, rs))"

definition CompMgr_Enable ::
  "dhtype \<Rightarrow> ('w, 'j) env \<Rightarrow> 'h hw_api \<Rightarrow> (nat \<Rightarrow> 'w resources \<Rightarrow> 'w resources) \<Rightarrow> (nat \<Rightarrow> 'w resources \<Rightarrow> 'w resources)
     \<Rightarrow> string \<Rightarrow> string \<Rightarrow> string \<Rightarrow> dhtype \<Rightarrow> 'h comp_sys \<times> 'w resources \<Rightarrow> ret \<times> 'h comp_sys \<times> 'w resources" where
  "CompMgr_Enable junk E P others1 others2 networkId uuid dhId dhType = (\<lambda>(c, rs).
     if \<not> IsIdLengthValid networkId \<or> \<not> IsIdLengthValid uuid \<or> \<not> IsIdLengthValid dhId
     then (ERR_DH_FWK_PARA_INVALID, c, rs)
     else case smap_get (mg_compSource (cs_mgr c)) dhType of
       None \<Rightarrow> (ERR_DH_FWK_PARA_INVALID, c, rs)
     | Some handler \<Rightarrow>
         (let (r, param, rs1) = GetEnableParam junk E networkId uuid dhId dhType EnableParam_new rs;
              (r1, param1, rs2) = (if r \<noteq> DH_FWK_SUCCESS
                then RetryGetEnableParam junk E others1 networkId uuid dhId dhType (param, rs1) else (DH_FWK_SUCCESS, param, rs1))
          in if r1 \<noteq> DH_FWK_SUCCESS then (r, c, rs2)
             else let r2 = CheckSubtypeResource P (ep_subtype param1) networkId c in
               if r2 \<noteq> DH_FWK_SUCCESS then (r2, c, rs2)
               else let (result, h, rs3) = enable_attempts P others2 networkId uuid dhId param1 handler (cs_h c, rs2);
                        c1 = c\<lparr>cs_h := h\<rparr>
                    in (result,
                        if result = DH_FWK_SUCCESS then c1\<lparr>cs_mgr := DumpEnabledComp networkId dhType dhId (cs_mgr c1)\<rparr> else c1,
                        rs3)))"

definition disable_attempts ::
  "'h hw_api \<Rightarrow> (nat \<Rightarrow> 'w resources \<Rightarrow> 'w resources) \<Rightarrow> string \<Rightarrow> string \<Rightarrow> string \<Rightarrow> nat option
     \<Rightarrow> 'h \<times> 'w resources \<Rightarrow> ret \<times> 'h \<times> 'w resources" where
  "disable_attempts P others networkId uuid dhId handler = (\<lambda>(h, rs).
     let attempt = ComponentDisable_Disable P networkId dhId handler;
         (result, st, h1) = attempt (INT32_MAX, h)
     in if result = DH_FWK_SUCCESS then (result, h1, rs)
        else retry_attempts (\<lambda>rs. \<not> IsDeviceOnline (sys_cx (rs_sys rs)) uuid) attempt others result
               DISABLE_RETRY_MAX_TIMES (st, h1, rs))"

definition CompMgr_Disable ::
  "'h hw_api \<Rightarrow> (nat \<Rightarrow> 'w resources \<Rightarrow> 'w resources) \<Rightarrow> string \<Rightarrow> string \<Rightarrow> string \<Rightarrow> dhtype
     \<Rightarrow> 'h comp_sys \<times> 'w resources \<Rightarrow> ret \<times> 'h comp_sys \<times> 'w resources" where
  "CompMgr_Disable P others networkId uuid dhId dhType = (\<lambda>(c, rs).
     if \<not> IsIdLengthValid networkId \<or> \<not> IsIdLengthValid uuid \<or> \<not> IsIdLengthValid dhId
     then (ERR_DH_FWK_PARA_INVALID, c, rs)
     else case smap_get (mg_compSource (cs_mgr c)) dhType of
       None \<Rightarrow> (ERR_DH_FWK_PARA_INVALID, c, rs)
     | Some handler \<Rightarrow>
         (let (result, h, rs1) = disable_attempts P others networkId uuid dhId handler (cs_h c, rs);
              c1 = c\<lparr>cs_h := h\<rparr>
          in (result,
              if result = DH_FWK_SUCCESS then c1\<lparr>cs_mgr := DumpDisabledComp networkId dhType dhId (cs_mgr c1)\<rparr> else c1,
              rs1)))"

section \<open>Monitor of the services\<close>

definition AddSAMonitor :: "'h hw_api \<Rightarrow> int \<Rightarrow> 'h comp_sys \<Rightarrow> 'h comp_sys" where
  "AddSAMonitor P saId c =
     (if saId \<in> set (mg_saListeners (cs_mgr c)) then c
      else let (r, h1) = hw_Subscribe P saId (cs_h c); c1 = c\<lparr>cs_h := h1\<rparr> in
        if r \<noteq> Some DH_FWK_SUCCESS then c1
        else c1\<lparr>cs_mgr := (cs_mgr c1)\<lparr>mg_saListeners := sset_insert saId (mg_saListeners (cs_mgr c1))\<rparr>\<rparr>)"

definition RemoveSAMonitor :: "'h hw_api \<Rightarrow> int \<Rightarrow> 'h comp_sys \<Rightarrow> 'h comp_sys" where
  "RemoveSAMonitor P saId c =
     (if saId \<notin> set (mg_saListeners (cs_mgr c)) then c
      else let (r, h1) = hw_UnSubscribe P saId (cs_h c); c1 = c\<lparr>cs_h := h1\<rparr> in
        if r \<noteq> Some DH_FWK_SUCCESS then c1
        else c1\<lparr>cs_mgr := (cs_mgr c1)\<lparr>mg_saListeners := sset_erase saId (mg_saListeners (cs_mgr c1))\<rparr>\<rparr>)"

definition saIdProcessNameMap :: "(int \<times> string) list" where
  "saIdProcessNameMap = [(4803, ''dcamera''), (4804, ''dcamera''), (4805, ''daudio''), (4806, ''daudio''), (4807, ''dscreen''),
     (4808, ''dscreen''), (4809, ''dinput''), (4810, ''dinput''), (66198, ''dmodem'')]"

text \<open>\<open>OnRemoveSystemAbility\<close>: the type whose recovery is asked for.\<close>

definition OnRemoveSystemAbility :: "int \<Rightarrow> 'h comp_sys \<Rightarrow> dhtype option" where
  "OnRemoveSystemAbility saId c =
     (let dhType = GetDHTypeBySrcSaId (cs_loader c) saId in
      if dhType = DHType_UNKNOWN then None
      else case map_of saIdProcessNameMap saId of None \<Rightarrow> None | Some processName \<Rightarrow> Some dhType)"

definition InitSAMonitor :: "'h hw_api \<Rightarrow> 'h comp_sys \<Rightarrow> ret \<times> 'h comp_sys" where
  "InitSAMonitor P c =
     (DH_FWK_SUCCESS,
      fold (\<lambda>comp c. case smap_get (mg_compSrcSaId (cs_mgr c)) (fst comp) of None \<Rightarrow> c | Some saId \<Rightarrow> AddSAMonitor P saId c)
        (mg_compSource (cs_mgr c)) c)"

definition UnInitSAMonitor :: "'h hw_api \<Rightarrow> 'h comp_sys \<Rightarrow> 'h comp_sys" where
  "UnInitSAMonitor P c =
     fold (\<lambda>comp c. case smap_get (mg_compSrcSaId (cs_mgr c)) (fst comp) of None \<Rightarrow> c | Some saId \<Rightarrow> RemoveSAMonitor P saId c)
       (mg_compSource (cs_mgr c)) c"


section \<open>Start and stop of the components\<close>

definition InitCompSource :: "'h hw_api \<Rightarrow> 'h comp_sys \<Rightarrow> bool \<times> 'h comp_sys" where
  "InitCompSource P c =
     (let c1 = fold (\<lambda>t c.
            let (r, ptr, lo, h) = GetSource (hw_loader P) t (cs_loader c, cs_h c); c' = c\<lparr>cs_loader := lo, cs_h := h\<rparr> in
            if r \<noteq> DH_FWK_SUCCESS \<or> ptr = None then c'
            else let saId = GetSourceSaId lo t; m = cs_mgr c';
                     m1 = m\<lparr>mg_compSource := smap_emplace t ptr (mg_compSource m)\<rparr>
                 in c'\<lparr>cs_mgr := (if saId \<noteq> INVALID_SA_ID
                      then m1\<lparr>mg_compSrcSaId := smap_emplace t saId (mg_compSrcSaId m1)\<rparr> else m1)\<rparr>)
          (GetAllCompTypes (cs_loader c)) c
      in (mg_compSource (cs_mgr c1) \<noteq> [], c1))"

definition InitCompSink :: "'h hw_api \<Rightarrow> 'h comp_sys \<Rightarrow> bool \<times> 'h comp_sys" where
  "InitCompSink P c =
     (let c1 = fold (\<lambda>t c.
            let (r, ptr, lo, h) = GetSink (hw_loader P) t (cs_loader c, cs_h c); c' = c\<lparr>cs_loader := lo, cs_h := h\<rparr> in
            if r \<noteq> DH_FWK_SUCCESS \<or> ptr = None then c'
            else c'\<lparr>cs_mgr := (cs_mgr c')\<lparr>mg_compSink := smap_emplace t ptr (mg_compSink (cs_mgr c'))\<rparr>\<rparr>)
          (GetAllCompTypes (cs_loader c)) c
      in (mg_compSink (cs_mgr c1) \<noteq> [], c1))"

definition InitComponentHandler :: "'h hw_api \<Rightarrow> 'h comp_sys \<Rightarrow> 'h comp_sys" where
  "InitComponentHandler P c = snd (InitCompSink P (snd (InitCompSource P c)))"

type_synonym action_result = "(dhtype \<times> ret option) list"

text \<open>A version record that is not found leaves the empty string as the parameter.\<close>

definition comp_params :: "(comp_version \<Rightarrow> string) \<Rightarrow> string \<Rightarrow> dhtype \<Rightarrow> versions \<Rightarrow> string" where
  "comp_params sel uuid t vs = (case GetCompVersion uuid t vs of (r, None) \<Rightarrow> [] | (r, Some cv) \<Rightarrow> sel cv)"

definition StartSource_type ::
  "'h hw_api \<Rightarrow> string \<Rightarrow> versions \<Rightarrow> dhtype \<times> nat option \<Rightarrow> action_result \<times> 'h comp_sys \<Rightarrow> action_result \<times> 'h comp_sys" where
  "StartSource_type P uuid vs item = (\<lambda>(futures, c).
     case snd item of
       None \<Rightarrow> (futures, c)
     | Some p \<Rightarrow>
         (let (f, h) = hw_InitSource P p (comp_params cv_sourceVersion uuid (fst item) vs) (cs_h c)
          in (futures @ [(fst item, f)], c\<lparr>cs_h := h\<rparr>)))"

definition StartSource ::
  "('w, 'j) env \<Rightarrow> 'h hw_api \<Rightarrow> 'h comp_sys \<times> 'w resources \<Rightarrow> action_result \<times> 'h comp_sys \<times> 'w resources" where
  "StartSource E P = (\<lambda>(c, rs).
     let (info, rs1) = local_device E rs;
         (futures, c1) = fold (StartSource_type P (di_uuid info) (vm_versions (rs_ver rs1))) (mg_compSource (cs_mgr c)) ([], c)
     in (futures, c1, rs1))"

definition register_privacy :: "'h hw_api \<Rightarrow> dhtype \<Rightarrow> nat \<Rightarrow> 'h comp_sys \<Rightarrow> 'h comp_sys" where
  "register_privacy P t p c =
     (let c1 = (if mg_cameraCompPrivacy (cs_mgr c) = None \<and> t = DHType_CAMERA
                then c\<lparr>cs_mgr := (cs_mgr c)\<lparr>mg_cameraCompPrivacy := Some False\<rparr>, cs_h := hw_RegisterPrivacy P p (cs_h c)\<rparr> else c)
      in if mg_audioCompPrivacy (cs_mgr c1) = None \<and> t = DHType_AUDIO
         then c1\<lparr>cs_mgr := (cs_mgr c1)\<lparr>mg_audioCompPrivacy := Some False\<rparr>, cs_h := hw_RegisterPrivacy P p (cs_h c1)\<rparr> else c1)"

definition StartSink_type ::
  "'h hw_api \<Rightarrow> string \<Rightarrow> versions \<Rightarrow> dhtype \<times> nat option \<Rightarrow> action_result \<times> 'h comp_sys \<Rightarrow> action_result \<times> 'h comp_sys" where
  "StartSink_type P uuid vs item = (\<lambda>(futures, c).
     case snd item of
       None \<Rightarrow> (futures, c)
     | Some p \<Rightarrow>
         (let (f, h) = hw_InitSink P p (comp_params cv_sinkVersion uuid (fst item) vs) (cs_h c)
          in (futures @ [(fst item, f)], register_privacy P (fst item) p (c\<lparr>cs_h := h\<rparr>))))"

definition StartSink ::
  "('w, 'j) env \<Rightarrow> 'h hw_api \<Rightarrow> 'h comp_sys \<times> 'w resources \<Rightarrow> action_result \<times> 'h comp_sys \<times> 'w resources" where
  "StartSink E P = (\<lambda>(c, rs).
     let (info, rs1) = local_device E rs;
         (futures, c1) = fold (StartSink_type P (di_uuid info) (vm_versions (rs_ver rs1))) (mg_compSink (cs_mgr c)) ([], c)
     in (futures, c1, rs1))"

text \<open>The overloads for one type.\<close>

definition StartSource_one ::
  "('w, 'j) env \<Rightarrow> 'h hw_api \<Rightarrow> dhtype \<Rightarrow> 'h comp_sys \<times> 'w resources \<Rightarrow> action_result \<times> 'h comp_sys \<times> 'w resources" where
  "StartSource_one E P dhType = (\<lambda>(c, rs).
     case smap_get (mg_compSource (cs_mgr c)) dhType of
       Some (Some p) \<Rightarrow>
         (let (info, rs1) = local_device E rs;
              (futures, c1) = StartSource_type P (di_uuid info) (vm_versions (rs_ver rs1)) (dhType, Some p) ([], c)
          in (futures, c1, rs1))
     | _ \<Rightarrow> ([], c, rs))"

definition StartSink_one ::
  "('w, 'j) env \<Rightarrow> 'h hw_api \<Rightarrow> dhtype \<Rightarrow> 'h comp_sys \<times> 'w resources \<Rightarrow> action_result \<times> 'h comp_sys \<times> 'w resources" where
  "StartSink_one E P dhType = (\<lambda>(c, rs).
     case smap_get (mg_compSink (cs_mgr c)) dhType of
       Some (Some p) \<Rightarrow>
         (let (info, rs1) = local_device E rs;
              (futures, c1) = StartSink_type P (di_uuid info) (vm_versions (rs_ver rs1)) (dhType, Some p) ([], c)
          in (futures, c1, rs1))
     | _ \<Rightarrow> ([], c, rs))"

definition StopSource :: "'h hw_api \<Rightarrow> 'h comp_sys \<Rightarrow> action_result \<times> 'h comp_sys" where
  "StopSource P c =
     fold (\<lambda>item (futures, c). case snd item of
         None \<Rightarrow> (futures, c)
       | Some p \<Rightarrow> (let (f, h) = hw_ReleaseSource P p (cs_h c) in (futures @ [(fst item, f)], c\<lparr>cs_h := h\<rparr>)))
       (mg_compSource (cs_mgr c)) ([], c)"

text \<open>The thread of a sink goes on to take the plug-in listener from the component's hardware handler.\<close>

definition StopSink :: "'h hw_api \<Rightarrow> 'h comp_sys \<Rightarrow> action_result \<times> 'h comp_sys" where
  "StopSink P c =
     fold (\<lambda>item (futures, c). case snd item of
         None \<Rightarrow> (futures, c)
       | Some p \<Rightarrow>
           (let (f, h) = hw_ReleaseSink P p (cs_h c);
                (r, ptr, lo, h1) = GetHardwareHandler (hw_loader P) (fst item) (cs_loader c, h);
                h2 = (case ptr of None \<Rightarrow> h1 | Some q \<Rightarrow> if r \<noteq> DH_FWK_SUCCESS then h1 else hw_UnRegisterPlugin P q h1)
            in (futures @ [(fst item, f)], c\<lparr>cs_loader := lo, cs_h := h2\<rparr>)))
       (mg_compSink (cs_mgr c)) ([], c)"

datatype comp_action = START_SOURCE | START_SINK | STOP_SOURCE | STOP_SINK

definition WaitForResult :: "comp_action \<Rightarrow> action_result \<Rightarrow> 'h comp_sys \<Rightarrow> bool \<times> 'h comp_sys" where
  "WaitForResult action actionsResult c =
     fold (\<lambda>iter (ret, c). case snd iter of
         Some result \<Rightarrow> (if result \<noteq> DH_FWK_SUCCESS then (False, c) else (ret, c))
       | None \<Rightarrow>
           (if action = STOP_SOURCE \<or> action = STOP_SINK
            then (ret, c\<lparr>cs_mgr := (cs_mgr c)\<lparr>mg_isUnInitTimeOut := True\<rparr>\<rparr>) else (ret, c)))
       actionsResult (True, c)"

definition StartComponent :: "('w, 'j) env \<Rightarrow> 'h hw_api \<Rightarrow> 'h comp_sys \<times> 'w resources \<Rightarrow> 'h comp_sys \<times> 'w resources" where
  "StartComponent E P cr =
     (let (sourceResult, cr1) = StartSource E P cr;
          (sinkResult, (c2, rs2)) = StartSink E P cr1
      in (snd (WaitForResult START_SINK sinkResult (snd (WaitForResult START_SOURCE sourceResult c2))), rs2))"

definition StopComponent :: "'h hw_api \<Rightarrow> 'h comp_sys \<Rightarrow> 'h comp_sys" where
  "StopComponent P c =
     (let (sourceResult, c1) = StopSource P c;
          (sinkResult, c2) = StopSink P c1;
          c3 = snd (WaitForResult STOP_SINK sinkResult (snd (WaitForResult STOP_SOURCE sourceResult c2)))
      in c3\<lparr>cs_mgr := (cs_mgr c3)\<lparr>mg_compSource := [], mg_compSink := []\<rparr>\<rparr>)"

definition source_listeners :: "(nat \<Rightarrow> 'h \<Rightarrow> 'h) \<Rightarrow> 'h comp_sys \<Rightarrow> 'h comp_sys" where
  "source_listeners call c =
     c\<lparr>cs_h := fold (\<lambda>item h. case snd item of None \<Rightarrow> h | Some p \<Rightarrow> call p h) (mg_compSource (cs_mgr c)) (cs_h c)\<rparr>"

definition RegisterDHStateListener :: "'h hw_api \<Rightarrow> 'h comp_sys \<Rightarrow> 'h comp_sys" where
  "RegisterDHStateListener P = source_listeners (\<lambda>p. hw_StateListener P p True)"

definition UnregisterDHStateListener :: "'h hw_api \<Rightarrow> 'h comp_sys \<Rightarrow> 'h comp_sys" where
  "UnregisterDHStateListener P = source_listeners (\<lambda>p. hw_StateListener P p False)"

definition RegisterDataSyncTriggerListener :: "'h hw_api \<Rightarrow> 'h comp_sys \<Rightarrow> 'h comp_sys" where
  "RegisterDataSyncTriggerListener P = source_listeners (\<lambda>p. hw_SyncListener P p True)"

definition UnregisterDataSyncTriggerListener :: "'h hw_api \<Rightarrow> 'h comp_sys \<Rightarrow> 'h comp_sys" where
  "UnregisterDataSyncTriggerListener P = source_listeners (\<lambda>p. hw_SyncListener P p False)"

text \<open>\<open>DHCommTool::Init\<close> makes a new transport.\<close>

definition InitDHCommTool :: "('w, 'j) env \<Rightarrow> 'h hw_api \<Rightarrow> 'h comp_sys \<Rightarrow> 'h comp_sys" where
  "InitDHCommTool E P c =
     (let (r, tr, h) = DHTransport_Init (env_dm E) (hw_bus P) (DHTransport_new, cs_h c) in c\<lparr>cs_tr := Some tr, cs_h := h\<rparr>)"

definition UnInitDHCommTool :: "'h hw_api \<Rightarrow> 'h comp_sys \<Rightarrow> 'h comp_sys" where
  "UnInitDHCommTool P c =
     (case cs_tr c of
        None \<Rightarrow> c
      | Some tr \<Rightarrow> (let (r, tr1, h) = DHTransport_UnInit (hw_bus P) (tr, cs_h c) in c\<lparr>cs_tr := Some tr1, cs_h := h\<rparr>))"

definition StopPrivacy :: "'h hw_api \<Rightarrow> 'h comp_sys \<Rightarrow> 'h comp_sys" where
  "StopPrivacy P c =
     (let c1 = (if mg_cameraCompPrivacy (cs_mgr c) = Some True
                then c\<lparr>cs_mgr := (cs_mgr c)\<lparr>mg_cameraCompPrivacy := Some False\<rparr>, cs_h := hw_StopPrivacePage P ''camera'' (cs_h c)\<rparr>
                else c)
      in if mg_audioCompPrivacy (cs_mgr c1) = Some True
         then c1\<lparr>cs_mgr := (cs_mgr c1)\<lparr>mg_audioCompPrivacy := Some False\<rparr>, cs_h := hw_StopPrivacePage P ''mic'' (cs_h c1)\<rparr>
         else c1)"

text \<open>The low-latency listener is the listener 0; its \<open>AsObject\<close> returns null.\<close>

definition listener_object :: "'h hw_api \<Rightarrow> nat \<Rightarrow> nat option" where
  "listener_object P l = (if l = 0 then None else hw_AsObject P l)"

definition with_low_latency :: "'h hw_api \<Rightarrow> (publisher \<Rightarrow> publisher option) \<Rightarrow> 'h comp_sys \<Rightarrow> 'h comp_sys" where
  "with_low_latency P f c =
     (if \<not> hw_LOW_LATENCY P then c else case f (cs_pub c) of None \<Rightarrow> c | Some p \<Rightarrow> c\<lparr>cs_pub := p\<rparr>)"

definition CompMgr_Init ::
  "('w, 'j) env \<Rightarrow> 'h hw_api \<Rightarrow> 'h comp_sys \<times> 'w resources \<Rightarrow> ret \<times> 'h comp_sys \<times> 'w resources" where
  "CompMgr_Init E P = (\<lambda>(c, rs).
     let c1 = InitComponentHandler P c;
         (r, c2) = InitSAMonitor P c1
     in if r \<noteq> DH_FWK_SUCCESS then (r, c2, rs)
        else let (c3, rs3) = StartComponent E P (c2, rs);
                 c4 = RegisterDataSyncTriggerListener P (RegisterDHStateListener P c3);
                 c5 = InitDHCommTool E P c4
             in (DH_FWK_SUCCESS, with_low_latency P (Publisher_RegisterListener TOPIC_LOW_LATENCY (Some 0)) c5, rs3))"

definition CompMgr_UnInit :: "'h hw_api \<Rightarrow> 'h comp_sys \<Rightarrow> ret \<times> 'h comp_sys" where
  "CompMgr_UnInit P c =
     (let c1 = UnInitDHCommTool P (UnregisterDataSyncTriggerListener P (UnregisterDHStateListener P c));
          c2 = StopComponent P (UnInitSAMonitor P (StopPrivacy P c1));
          c3 = with_low_latency P (Publisher_UnregisterListener (listener_object P) TOPIC_LOW_LATENCY (Some 0)) c2;
          c4 = (if hw_LOW_LATENCY P then c3\<lparr>cs_ll := CloseLowLatency (cs_ll c3)\<rparr> else c3)
      in if mg_isUnInitTimeOut (cs_mgr c4) then (DH_FWK_SUCCESS, c4\<lparr>cs_mgr := (cs_mgr c4)\<lparr>mg_exited := True\<rparr>\<rparr>)
         else (DH_FWK_SUCCESS, c4))"

section \<open>Recovery of a component\<close>

definition ReStartSA ::
  "('w, 'j) env \<Rightarrow> 'h hw_api \<Rightarrow> dhtype \<Rightarrow> 'h comp_sys \<times> 'w resources \<Rightarrow> 'h comp_sys \<times> 'w resources" where
  "ReStartSA E P dhType cr =
     (let (sourceResult, cr1) = StartSource_one E P dhType cr;
          (sinkResult, (c2, rs2)) = StartSink_one E P dhType cr1
      in (snd (WaitForResult START_SINK sinkResult (snd (WaitForResult START_SOURCE sourceResult c2))), rs2))"

definition recover_task :: "rand \<Rightarrow> dh_context \<Rightarrow> meta_capability_info \<Rightarrow> task_sys \<Rightarrow> task_sys" where
  "recover_task rand cx metaInfo ts =
     (let uuid = GetUUIDByDeviceId cx (ci_deviceId metaInfo) in
      if uuid = [] then ts
      else let networkId = GetNetworkIdByUUID cx uuid in
        if networkId = [] then ts
        else create_and_push rand TaskType_ENABLE \<lparr> tp_networkId = networkId, tp_uuid = uuid, tp_udid = [],
               tp_dhId = ci_dhId metaInfo, tp_dhType = ci_dhType metaInfo \<rparr> None ts)"

definition RecoverDistributedHardware :: "rand \<Rightarrow> dhtype \<Rightarrow> 'w resources \<Rightarrow> task_sys \<Rightarrow> task_sys" where
  "RecoverDistributedHardware rand dhType rs ts =
     (let metaInfoMap = snd (MetaMgr_GetMetaDataByDHType dhType (im_map (rs_meta rs)) [])
      in fold (recover_task rand (sys_cx (rs_sys rs))) (map snd metaInfoMap) ts)"

definition DoRecover ::
  "('w, 'j) env \<Rightarrow> 'h hw_api \<Rightarrow> rand \<Rightarrow> dhtype \<Rightarrow> 'h comp_sys \<times> 'w resources \<times> task_sys \<Rightarrow> 'h comp_sys \<times> 'w resources \<times> task_sys" where
  "DoRecover E P rand dhType = (\<lambda>(c, rs, ts).
     let (c1, rs1) = ReStartSA E P dhType (c, rs) in (c1, rs1, RecoverDistributedHardware rand dhType rs1 ts))"

section \<open>Business states\<close>

definition SaveNeedRefreshTask :: "task_param \<Rightarrow> comp_mgr \<Rightarrow> comp_mgr" where
  "SaveNeedRefreshTask taskParam m =
     m\<lparr>mg_needRefreshTaskParams := smap_put (tp_networkId taskParam, tp_dhId taskParam) taskParam (mg_needRefreshTaskParams m)\<rparr>"

definition FetchNeedRefreshTask :: "string \<times> string \<Rightarrow> comp_mgr \<Rightarrow> task_param option \<times> comp_mgr" where
  "FetchNeedRefreshTask taskKey m =
     (case smap_get (mg_needRefreshTaskParams m) taskKey of
        None \<Rightarrow> (None, m)
      | Some taskParam \<Rightarrow> (Some taskParam, m\<lparr>mg_needRefreshTaskParams := smap_erase taskKey (mg_needRefreshTaskParams m)\<rparr>))"

definition UpdateBusinessState ::
  "rand \<Rightarrow> string \<Rightarrow> string \<Rightarrow> business_state \<Rightarrow> comp_mgr \<times> task_sys \<Rightarrow> comp_mgr \<times> task_sys" where
  "UpdateBusinessState rand networkId dhId state = (\<lambda>(m, ts).
     if \<not> IsIdLengthValid networkId \<or> \<not> IsIdLengthValid dhId then (m, ts)
     else let m1 = m\<lparr>mg_dhBizStates := smap_put (networkId, dhId) state (mg_dhBizStates m)\<rparr> in
       if state \<noteq> BS_IDLE then (m1, ts)
       else case FetchNeedRefreshTask (networkId, dhId) m1 of
         (None, m2) \<Rightarrow> (m2, ts)
       | (Some taskParam, m2) \<Rightarrow> (m2, create_and_push rand TaskType_ENABLE taskParam None ts))"

definition OnStateChanged ::
  "rand \<Rightarrow> string \<Rightarrow> string \<Rightarrow> business_state \<Rightarrow> comp_mgr \<times> task_sys \<Rightarrow> comp_mgr \<times> task_sys" where
  "OnStateChanged rand networkId dhId state mt =
     (if \<not> IsIdLengthValid networkId then mt else UpdateBusinessState rand networkId dhId state mt)"

definition QueryBusinessState :: "string \<Rightarrow> string \<Rightarrow> comp_mgr \<Rightarrow> business_state" where
  "QueryBusinessState uuid dhId m =
     (if \<not> IsIdLengthValid uuid \<or> \<not> IsIdLengthValid dhId then BS_UNKNOWN
      else case smap_get (mg_dhBizStates m) (uuid, dhId) of None \<Rightarrow> BS_UNKNOWN | Some st \<Rightarrow> st)"

definition GetDHType :: "('w, 'j) env \<Rightarrow> string \<Rightarrow> string \<Rightarrow> 'w resources \<Rightarrow> dhtype" where
  "GetDHType E uuid dhId rs =
     (case CapMgr_GetCapability (GetDeviceIdByUUID (env_digest E) uuid) dhId (im_map (rs_cap rs)) of
        (r, Some cap) \<Rightarrow> if r = DH_FWK_SUCCESS then ci_dhType cap else DHType_UNKNOWN
      | (r, None) \<Rightarrow> DHType_UNKNOWN)"

definition DumpLoadedComps :: "'h comp_sys \<Rightarrow> dhtype list \<Rightarrow> dhtype list \<Rightarrow> dhtype list \<times> dhtype list" where
  "DumpLoadedComps c compSourceType compSinkType =
     (fold sset_insert (map fst (mg_compSource (cs_mgr c))) compSourceType,
      fold sset_insert (map fst (mg_compSink (cs_mgr c))) compSinkType)"

definition GetDHSourceInstance :: "dhtype \<Rightarrow> 'h comp_sys \<Rightarrow> nat option" where
  "GetDHSourceInstance dhType c =
     (case smap_get (mg_compSource (cs_mgr c)) dhType of None \<Rightarrow> None | Some handler \<Rightarrow> handler)"

end
