(* ===== verification/DHF_CompProps.thy ===== *)
theory DHF_CompProps
  imports DHF_CompMgr
begin

text \<open>
  Properties of the registration of hardware by the component manager: what a component is called with, what
  the record of the enabled hardware says afterwards, and two ways in which the retries go wrong.
\<close>

section \<open>The attempts\<close>

definition registered :: "'h hw_api \<Rightarrow> nat \<Rightarrow> string \<Rightarrow> string \<Rightarrow> enable_param \<Rightarrow> 'h \<Rightarrow> 'h" where
  "registered P p networkId dhId param h = snd (hw_Register P p networkId dhId param h)"

definition unregistered :: "'h hw_api \<Rightarrow> nat \<Rightarrow> string \<Rightarrow> string \<Rightarrow> 'h \<Rightarrow> 'h" where
  "unregistered P p networkId dhId h = snd (hw_Unregister P p networkId dhId h)"

lemma Enable_null: "ComponentEnable_Enable P networkId dhId param None x = (ERR_DH_FWK_PARA_INVALID, fst x, snd x)"
  by (cases x) (simp add: ComponentEnable_Enable_def)

lemma Disable_null: "ComponentDisable_Disable P networkId dhId None x = (ERR_DH_FWK_PARA_INVALID, fst x, snd x)"
  by (cases x) (simp add: ComponentDisable_Disable_def)

lemma Enable_calls:
  "IsIdLengthValid networkId \<Longrightarrow> IsIdLengthValid dhId \<Longrightarrow>
     snd (snd (ComponentEnable_Enable P networkId dhId param (Some p) x)) = registered P p networkId dhId param (snd x)"
  by (cases x) (simp add: ComponentEnable_Enable_def registered_def Let_def case_prod_unfold)

lemma Disable_calls:
  "IsIdLengthValid networkId \<Longrightarrow> IsIdLengthValid dhId \<Longrightarrow>
     snd (snd (ComponentDisable_Disable P networkId dhId (Some p) x)) = unregistered P p networkId dhId (snd x)"
  by (cases x) (simp add: ComponentDisable_Disable_def unregistered_def Let_def case_prod_unfold)

lemma retry_attempts_calls:
  assumes "\<forall>x. snd (snd (attempt x)) = f (snd x)"
  shows "\<exists>k\<le>n. fst (snd (retry_attempts may attempt others result n (st, h, rs))) = (f ^^ k) h"
proof (induction n arbitrary: st h rs)
  case (Suc n)
  let ?a = "attempt (st, h)" and ?rs = "others (Suc n) rs"
  obtain r st1 where a: "?a = (r, st1, f h)" using assms by (metis prod.collapse snd_conv)
  consider "\<not> may ?rs" | "may ?rs" "r = DH_FWK_SUCCESS" | "may ?rs" "r \<noteq> DH_FWK_SUCCESS" by blast
  then show ?case
  proof cases
    case 3
    from Suc [of st1 "f h" ?rs] obtain k where
      "k \<le> n" "fst (snd (retry_attempts may attempt others result n (st1, f h, ?rs))) = (f ^^ k) (f h)" by blast
    with 3 a show ?thesis by (intro exI [of _ "Suc k"]) (simp add: Let_def funpow_swap1)
  qed (use a in \<open>auto simp: Let_def intro: exI [of _ 0] exI [of _ "Suc 0"]\<close>)
qed simp

lemma retry_attempts_refused:
  assumes "\<forall>x. fst (attempt x) \<noteq> DH_FWK_SUCCESS"
  shows "fst (retry_attempts may attempt others result n (st, h, rs)) = result"
proof (induction n arbitrary: st h rs)
  case (Suc n)
  obtain r st1 h1 where "attempt (st, h) = (r, st1, h1)" by (rule prod_cases3)
  with assms [rule_format, of "(st, h)"] Suc show ?case by (simp add: Let_def)
qed simp

lemma attempts_of_object:
  assumes "\<forall>x. snd (snd (attempt x)) = f (snd x)"
  shows "\<exists>k. 1 \<le> k \<and> k \<le> Suc n \<and>
     fst (snd (let (result, st, h1) = attempt (INT32_MAX, h) in
       if result = DH_FWK_SUCCESS then (result, h1, rs)
       else retry_attempts may attempt others result n (st, h1, rs))) = (f ^^ k) h"
proof -
  obtain r st1 where a: "attempt (INT32_MAX, h) = (r, st1, f h)" using assms by (metis prod.collapse snd_conv)
  from retry_attempts_calls [OF assms] obtain k where
    "k \<le> n" "fst (snd (retry_attempts may attempt others r n (st1, f h, rs))) = (f ^^ k) (f h)" by blast
  with a show ?thesis
    by (cases "r = DH_FWK_SUCCESS") (auto simp: funpow_swap1 intro: exI [of _ "Suc 0"] exI [of _ "Suc k"])
qed

lemma enable_attempts_calls:
  assumes "IsIdLengthValid networkId" "IsIdLengthValid dhId"
  shows "\<exists>k. 1 \<le> k \<and> k \<le> Suc ENABLE_RETRY_MAX_TIMES \<and>
    fst (snd (enable_attempts P others networkId uuid dhId param (Some p) (h, rs))) = (registered P p networkId dhId param ^^ k) h"
  unfolding enable_attempts_def Let_def [of "ComponentEnable_Enable P networkId dhId param (Some p)"] prod.case
  by (rule attempts_of_object) (simp add: Enable_calls assms)

lemma enable_attempts_null:
  "fst (enable_attempts P others networkId uuid dhId param None (h, rs)) = ERR_DH_FWK_PARA_INVALID"
  "fst (snd (enable_attempts P others networkId uuid dhId param None (h, rs))) = h"
proof -
  have "\<exists>k\<le>ENABLE_RETRY_MAX_TIMES. fst (snd (retry_attempts may (ComponentEnable_Enable P networkId dhId param None) others result
      ENABLE_RETRY_MAX_TIMES (st, h, rs))) = ((\<lambda>x. x) ^^ k) h" for may result st
    by (rule retry_attempts_calls) (simp add: Enable_null)
  moreover have "((\<lambda>x. x) ^^ k) h = h" for k by (induction k) simp_all
  ultimately show "fst (snd (enable_attempts P others networkId uuid dhId param None (h, rs))) = h"
    by (simp add: enable_attempts_def Enable_null Let_def)
  show "fst (enable_attempts P others networkId uuid dhId param None (h, rs)) = ERR_DH_FWK_PARA_INVALID"
    by (simp add: enable_attempts_def Enable_null Let_def retry_attempts_refused)
qed

text \<open>The same for \<open>Disable\<close>.\<close>

lemma disable_attempts_calls:
  assumes "IsIdLengthValid networkId" "IsIdLengthValid dhId"
  shows "\<exists>k. 1 \<le> k \<and> k \<le> Suc DISABLE_RETRY_MAX_TIMES \<and>
    fst (snd (disable_attempts P others networkId uuid dhId (Some p) (h, rs))) = (unregistered P p networkId dhId ^^ k) h"
  unfolding disable_attempts_def Let_def [of "ComponentDisable_Disable P networkId dhId (Some p)"] prod.case
  by (rule attempts_of_object) (simp add: Disable_calls assms)

section \<open>What a component is called with\<close>

text \<open>The parameters that \<open>Enable\<close> goes on with: those of the first look-up, or those that its retries left.\<close>

definition enable_params ::
  "dhtype \<Rightarrow> ('w, 'j) env \<Rightarrow> (nat \<Rightarrow> 'w resources \<Rightarrow> 'w resources) \<Rightarrow> string \<Rightarrow> string \<Rightarrow> string \<Rightarrow> dhtype \<Rightarrow> 'w resources
     \<Rightarrow> ret \<times> enable_param \<times> 'w resources" where
  "enable_params junk E others networkId uuid dhId dhType rs =
     (let (r, param, rs1) = GetEnableParam junk E networkId uuid dhId dhType EnableParam_new rs in
      if r = DH_FWK_SUCCESS then (r, param, rs1)
      else RetryGetEnableParam junk E others networkId uuid dhId dhType (param, rs1))"

definition subtype_allowed :: "'h hw_api \<Rightarrow> string \<Rightarrow> string \<Rightarrow> 'h comp_sys \<Rightarrow> bool" where
  "subtype_allowed P subtype networkId c =
     (hw_CHECK_RESOURCE P \<longrightarrow> smap_get (GetCompResourceDesc (cs_loader c)) subtype = Some False
        \<or> (smap_get (GetCompResourceDesc (cs_loader c)) subtype = Some True \<and> IsIdenticalAccount P networkId (cs_h c)))"

definition enable_checks_hold ::
  "dhtype \<Rightarrow> ('w, 'j) env \<Rightarrow> 'h hw_api \<Rightarrow> (nat \<Rightarrow> 'w resources \<Rightarrow> 'w resources) \<Rightarrow> string \<Rightarrow> string \<Rightarrow> string \<Rightarrow> dhtype
     \<Rightarrow> 'h comp_sys \<times> 'w resources \<Rightarrow> bool" where
  "enable_checks_hold junk E P others1 networkId uuid dhId dhType = (\<lambda>(c, rs).
     IsIdLengthValid networkId \<and> IsIdLengthValid uuid \<and> IsIdLengthValid dhId
     \<and> (\<exists>p. smap_get (mg_compSource (cs_mgr c)) dhType = Some (Some p))
     \<and> (case enable_params junk E others1 networkId uuid dhId dhType rs of
          (r, param, rs1) \<Rightarrow> r = DH_FWK_SUCCESS \<and> subtype_allowed P (ep_subtype param) networkId c))"

lemma CheckSubtypeResource_allows: "(CheckSubtypeResource P subtype networkId c = DH_FWK_SUCCESS) = subtype_allowed P subtype networkId c"
  by (auto simp: CheckSubtypeResource_def subtype_allowed_def split: option.splits)

lemma CompMgr_Enable_unfold:
  assumes "IsIdLengthValid networkId" "IsIdLengthValid uuid" "IsIdLengthValid dhId"
    and "smap_get (mg_compSource (cs_mgr c)) dhType = Some handler"
    and params: "enable_params junk E others1 networkId uuid dhId dhType rs = (DH_FWK_SUCCESS, param, rs1)"
    and ok: "subtype_allowed P (ep_subtype param) networkId c"
    and att: "enable_attempts P others2 networkId uuid dhId param handler (cs_h c, rs1) = (result, h, rs2)"
  shows "CompMgr_Enable junk E P others1 others2 networkId uuid dhId dhType (c, rs) =
    (result, c\<lparr>cs_h := h, cs_mgr := if result = DH_FWK_SUCCESS then DumpEnabledComp networkId dhType dhId (cs_mgr c) else cs_mgr c\<rparr>, rs2)"
proof -
  obtain r q rsq where g: "GetEnableParam junk E networkId uuid dhId dhType EnableParam_new rs = (r, q, rsq)" by (rule prod_cases3)
  have "(if r \<noteq> DH_FWK_SUCCESS then RetryGetEnableParam junk E others1 networkId uuid dhId dhType (q, rsq)
         else (DH_FWK_SUCCESS, q, rsq)) = (DH_FWK_SUCCESS, param, rs1)"
    using params g by (auto simp: enable_params_def split: if_splits)
  with assms(1-4) g att ok show ?thesis
    by (simp add: CompMgr_Enable_def CheckSubtypeResource_allows)
qed

lemma CompMgr_Enable_refused:
  assumes "\<not> IsIdLengthValid networkId \<or> \<not> IsIdLengthValid uuid \<or> \<not> IsIdLengthValid dhId
    \<or> smap_get (mg_compSource (cs_mgr c)) dhType = None
    \<or> fst (enable_params junk E others1 networkId uuid dhId dhType rs) \<noteq> DH_FWK_SUCCESS
    \<or> \<not> subtype_allowed P (ep_subtype (fst (snd (enable_params junk E others1 networkId uuid dhId dhType rs)))) networkId c"
  shows "fst (CompMgr_Enable junk E P others1 others2 networkId uuid dhId dhType (c, rs)) \<noteq> DH_FWK_SUCCESS
    \<and> fst (snd (CompMgr_Enable junk E P others1 others2 networkId uuid dhId dhType (c, rs))) = c"
proof -
  obtain r q rsq where g: "GetEnableParam junk E networkId uuid dhId dhType EnableParam_new rs = (r, q, rsq)" by (rule prod_cases3)
  obtain r1 q1 rsq1 where g1: "(if r \<noteq> DH_FWK_SUCCESS then RetryGetEnableParam junk E others1 networkId uuid dhId dhType (q, rsq)
         else (DH_FWK_SUCCESS, q, rsq)) = (r1, q1, rsq1)" by (rule prod_cases3)
  have "enable_params junk E others1 networkId uuid dhId dhType rs = (r1, q1, rsq1)"
    using g g1 by (auto simp: enable_params_def split: if_splits)
  moreover have "r1 \<noteq> DH_FWK_SUCCESS \<Longrightarrow> r \<noteq> DH_FWK_SUCCESS" using g1 by (auto split: if_splits)
  ultimately show ?thesis
    using assms g g1 by (auto simp: CompMgr_Enable_def CheckSubtypeResource_allows Let_def split: option.splits)
qed

text \<open>
  Property C5. A component is only called for hardware that the manager may enable there: either a check of
  \<open>Enable\<close> fails (an identifier, a type without a component, the look-up of the parameters, the check of the
  subtype), it returns an error, no component was called and the component manager is as it was; or all the checks
  hold and the component of the type was called one to four times, every time with the parameters that were
  looked up, and the record of the enabled hardware gets the entry exactly when \<open>Enable\<close> succeeds. When the check
  of the resources is compiled in (\<open>hw_CHECK_RESOURCE\<close>), the subtype of those parameters is listed in the
  loader's description and not private, or private and the device of the same account; without it every subtype
  is allowed. The resources are not part of the claim: the look-up of the parameters synchronises versions and
  fills the version cache also when \<open>Enable\<close> fails afterwards.
\<close>

theorem enable_calls_component:
  fixes P :: "'h hw_api" and c :: "'h comp_sys" and E :: "('w, 'j) env"
  assumes run: "CompMgr_Enable junk E P others1 others2 networkId uuid dhId dhType (c, rs) = (r, c1, rs1)"
  shows "(r \<noteq> DH_FWK_SUCCESS \<and> c1 = c
        \<and> \<not> enable_checks_hold junk E P others1 networkId uuid dhId dhType (c, rs))
    \<or> (\<exists>p param rs2 k. enable_checks_hold junk E P others1 networkId uuid dhId dhType (c, rs)
        \<and> smap_get (mg_compSource (cs_mgr c)) dhType = Some (Some p)
        \<and> enable_params junk E others1 networkId uuid dhId dhType rs = (DH_FWK_SUCCESS, param, rs2)
        \<and> subtype_allowed P (ep_subtype param) networkId c
        \<and> 1 \<le> k \<and> k \<le> Suc ENABLE_RETRY_MAX_TIMES
        \<and> c1 = c\<lparr>cs_h := (registered P p networkId dhId param ^^ k) (cs_h c),
                 cs_mgr := if r = DH_FWK_SUCCESS then DumpEnabledComp networkId dhType dhId (cs_mgr c) else cs_mgr c\<rparr>)"
proof -
  obtain r1 param rs2 where params: "enable_params junk E others1 networkId uuid dhId dhType rs = (r1, param, rs2)"
    by (rule prod_cases3)
  show ?thesis
  proof (cases "IsIdLengthValid networkId \<and> IsIdLengthValid uuid \<and> IsIdLengthValid dhId
      \<and> smap_get (mg_compSource (cs_mgr c)) dhType \<noteq> None \<and> r1 = DH_FWK_SUCCESS \<and> subtype_allowed P (ep_subtype param) networkId c")
    case False
    with CompMgr_Enable_refused [of networkId uuid dhId c dhType junk E others1 rs P others2] params run show ?thesis by (auto simp: enable_checks_hold_def)
  next
    case True
    then obtain handler where handler: "smap_get (mg_compSource (cs_mgr c)) dhType = Some handler" by blast
    obtain result h rs3 where att: "enable_attempts P others2 networkId uuid dhId param handler (cs_h c, rs2) = (result, h, rs3)"
      by (rule prod_cases3)
    have "CompMgr_Enable junk E P others1 others2 networkId uuid dhId dhType (c, rs) =
        (result, c\<lparr>cs_h := h, cs_mgr := if result = DH_FWK_SUCCESS then DumpEnabledComp networkId dhType dhId (cs_mgr c) else cs_mgr c\<rparr>, rs3)"
      using True params by (intro CompMgr_Enable_unfold [OF _ _ _ handler _ _ att]) simp_all
    from trans [OF this [symmetric] run] have c1: "r = result"
        "c1 = c\<lparr>cs_h := h, cs_mgr := if r = DH_FWK_SUCCESS then DumpEnabledComp networkId dhType dhId (cs_mgr c) else cs_mgr c\<rparr>"
      by auto
    show ?thesis
    proof (cases handler)
      case None
      with att enable_attempts_null [of P others2 networkId uuid dhId param "cs_h c" rs2] c1 handler show ?thesis by (simp add: enable_checks_hold_def)
    next
      case (Some p)
      with enable_attempts_calls [of networkId dhId P others2 uuid param p "cs_h c" rs2] True att obtain k where
        "1 \<le> k" "k \<le> Suc ENABLE_RETRY_MAX_TIMES" "h = (registered P p networkId dhId param ^^ k) (cs_h c)" by auto
      moreover have "enable_checks_hold junk E P others1 networkId uuid dhId dhType (c, rs)"
        using True handler Some params by (simp add: enable_checks_hold_def)
      ultimately show ?thesis using c1 Some handler params True by blast
    qed
  qed
qed

section \<open>Parameters that were never found\<close>

lemma GetEnableParam_unknown:
  assumes "IsIdLengthValid networkId" "IsIdLengthValid uuid" "IsIdLengthValid dhId"
    and "snd (GetCapParam E uuid dhId rs) = None" "snd (GetMetaParam uuid dhId rs) = None"
  shows "GetEnableParam junk E networkId uuid dhId dhType param rs = (ERR_DH_FWK_COMPONENT_GET_ENABLE_PARAM_FAILED, param, rs)"
  using assms by (auto simp: GetEnableParam_def split: prod.splits option.splits)

lemma retry_param_unknown:
  assumes "IsIdLengthValid networkId" "IsIdLengthValid uuid" "IsIdLengthValid dhId"
    and "snd (GetCapParam E uuid dhId rs) = None" "snd (GetMetaParam uuid dhId rs) = None"
    and "IsDeviceOnline (sys_cx (rs_sys rs)) uuid"
  shows "retry_param junk E (\<lambda>n rs. rs) networkId uuid dhId dhType n (param, rs) = (DH_FWK_SUCCESS, param, rs)"
  by (induction n) (simp_all add: GetEnableParam_unknown assms)

lemma enable_params_unknown:
  assumes "IsIdLengthValid networkId" "IsIdLengthValid uuid" "IsIdLengthValid dhId"
    and "snd (GetCapParam E uuid dhId rs) = None" "snd (GetMetaParam uuid dhId rs) = None"
    and "IsDeviceOnline (sys_cx (rs_sys rs)) uuid"
  shows "RetryGetEnableParam junk E (\<lambda>n rs. rs) networkId uuid dhId dhType (EnableParam_new, rs) = (DH_FWK_SUCCESS, EnableParam_new, rs)"
    "enable_params junk E (\<lambda>n rs. rs) networkId uuid dhId dhType rs = (DH_FWK_SUCCESS, EnableParam_new, rs)"
proof -
  show "RetryGetEnableParam junk E (\<lambda>n rs. rs) networkId uuid dhId dhType (EnableParam_new, rs) = (DH_FWK_SUCCESS, EnableParam_new, rs)"
    by (simp add: RetryGetEnableParam_def retry_param_unknown assms)
  then show "enable_params junk E (\<lambda>n rs. rs) networkId uuid dhId dhType rs = (DH_FWK_SUCCESS, EnableParam_new, rs)"
    by (simp add: enable_params_def GetEnableParam_unknown assms(1-5))
qed

lemma enable_unknown_hardware:
  assumes "IsIdLengthValid networkId" "IsIdLengthValid uuid" "IsIdLengthValid dhId"
    and unknown: "snd (GetCapParam E uuid dhId rs) = None" "snd (GetMetaParam uuid dhId rs) = None"
    and online: "IsDeviceOnline (sys_cx (rs_sys rs)) uuid"
    and handler: "smap_get (mg_compSource (cs_mgr c)) dhType = Some (Some p)" and "\<not> hw_CHECK_RESOURCE P"
    and reply: "hw_Register P p networkId dhId EnableParam_new (cs_h c) = (\<lparr> rr_ret = DH_FWK_SUCCESS, rr_before = [], rr_during = [(networkId, dhId, DH_FWK_SUCCESS)] \<rparr>, h)"
  shows "RetryGetEnableParam junk E (\<lambda>n rs. rs) networkId uuid dhId dhType (EnableParam_new, rs) = (DH_FWK_SUCCESS, EnableParam_new, rs)
    \<and> CompMgr_Enable junk E P (\<lambda>n rs. rs) others2 networkId uuid dhId dhType (c, rs) =
        (DH_FWK_SUCCESS, c\<lparr>cs_h := h, cs_mgr := DumpEnabledComp networkId dhType dhId (cs_mgr c)\<rparr>, rs)"
proof
  show retry: "RetryGetEnableParam junk E (\<lambda>n rs. rs) networkId uuid dhId dhType (EnableParam_new, rs) = (DH_FWK_SUCCESS, EnableParam_new, rs)"
    by (rule enable_params_unknown [OF assms(1-6)])
  note params = enable_params_unknown(2) [OF assms(1-6)]
  have att: "enable_attempts P others2 networkId uuid dhId EnableParam_new (Some p) (cs_h c, rs) = (DH_FWK_SUCCESS, h, rs)"
    using reply assms(1-3) by (simp add: enable_attempts_def ComponentEnable_Enable_def callback_def OnRegisterResult_def)
  have "subtype_allowed P (ep_subtype EnableParam_new) networkId c" using assms(8) by (simp add: subtype_allowed_def)
  from CompMgr_Enable_unfold [OF assms(1-3) handler params this att]
  show "CompMgr_Enable junk E P (\<lambda>n rs. rs) others2 networkId uuid dhId dhType (c, rs) =
        (DH_FWK_SUCCESS, c\<lparr>cs_h := h, cs_mgr := DumpEnabledComp networkId dhType dhId (cs_mgr c)\<rparr>, rs)"
    by simp
qed

section \<open>An answer that stays\<close>

lemma Enable_stale:
  assumes "IsIdLengthValid networkId" "IsIdLengthValid dhId" and "st \<noteq> INT32_MAX" "st \<noteq> DH_FWK_SUCCESS"
    and "hw_Register P p networkId dhId param h = (reply, h1)" "rr_ret reply = DH_FWK_SUCCESS" "rr_before reply = []"
  shows "ComponentEnable_Enable P networkId dhId param (Some p) (st, h) = (ERR_DH_FWK_COMPONENT_ENABLE_FAILED, st, h1)"
proof -
  have "wait_for (rr_during reply) st = st" using assms(3) by (cases "rr_during reply") simp_all
  with assms show ?thesis by (simp add: ComponentEnable_Enable_def)
qed

lemma retry_stale:
  assumes "IsIdLengthValid networkId" "IsIdLengthValid dhId" and "st \<noteq> INT32_MAX" "st \<noteq> DH_FWK_SUCCESS"
    and later: "\<forall>h. rr_ret (fst (hw_Register P p networkId dhId param h)) = DH_FWK_SUCCESS
              \<and> rr_before (fst (hw_Register P p networkId dhId param h)) = []"
    and "IsDeviceOnline (sys_cx (rs_sys rs)) uuid"
  shows "retry_attempts (\<lambda>rs. IsDeviceOnline (sys_cx (rs_sys rs)) uuid) (ComponentEnable_Enable P networkId dhId param (Some p))
      (\<lambda>n rs. rs) result n (st, h, rs) = (result, (registered P p networkId dhId param ^^ n) h, rs)"
proof (induction n arbitrary: h)
  case (Suc n)
  obtain reply h1 where reg: "hw_Register P p networkId dhId param h = (reply, h1)" by fastforce
  then have "rr_ret reply = DH_FWK_SUCCESS" "rr_before reply = []" using later [rule_format, of h] by simp_all
  then have "ComponentEnable_Enable P networkId dhId param (Some p) (st, h) = (ERR_DH_FWK_COMPONENT_ENABLE_FAILED, st, h1)"
    by (rule Enable_stale [OF assms(1-4) reg])
  moreover have "registered P p networkId dhId param h = h1" by (simp add: registered_def reg)
  ultimately show ?case using assms(6) Suc [of h1] by (simp add: funpow_swap1)
qed simp

text \<open>
  The callback object keeps the answer of the first attempt: when a component answers the
  first registration with a failure and answers only while the manager waits, then every retry fails at
  once with the old answer, although the component is called again three times and whatever it answers then.
\<close>

theorem first_failure_stays:
  assumes "IsIdLengthValid networkId" "IsIdLengthValid dhId"
    and first: "rr_during (fst (hw_Register P p networkId dhId param h)) = (networkId, dhId, status) # es"
      "status \<noteq> DH_FWK_SUCCESS" "status \<noteq> INT32_MAX"
    and waits: "\<forall>h. rr_ret (fst (hw_Register P p networkId dhId param h)) = DH_FWK_SUCCESS
              \<and> rr_before (fst (hw_Register P p networkId dhId param h)) = []"
    and online: "IsDeviceOnline (sys_cx (rs_sys rs)) uuid"
  shows "enable_attempts P (\<lambda>n rs. rs) networkId uuid dhId param (Some p) (h, rs) =
    (ERR_DH_FWK_COMPONENT_ENABLE_FAILED, (registered P p networkId dhId param ^^ 4) h, rs)"
proof -
  obtain reply h1 where reg: "hw_Register P p networkId dhId param h = (reply, h1)" by fastforce
  have "wait_for (rr_during reply) INT32_MAX = status"
  proof -
    have "callback (networkId, dhId, status) INT32_MAX = status" by (simp add: callback_def OnRegisterResult_def assms(1,2))
    moreover have "wait_for es status = status" using first(3) by (cases es) simp_all
    ultimately show ?thesis using first(1) reg by simp
  qed
  with waits [rule_format, of h] first(2,3) reg assms(1,2)
  have "ComponentEnable_Enable P networkId dhId param (Some p) (INT32_MAX, h) = (ERR_DH_FWK_COMPONENT_ENABLE_FAILED, status, h1)"
    by (simp add: ComponentEnable_Enable_def)
  moreover have "(registered P p networkId dhId param ^^ 3) h1 = (registered P p networkId dhId param ^^ 4) h"
    using reg by (simp add: registered_def eval_nat_numeral funpow_swap1)
  ultimately show ?thesis
    using retry_stale [OF assms(1,2) first(3,2) waits online] by (simp add: enable_attempts_def)
qed

section \<open>A sample component\<close>

text \<open>
  A component that refuses the first registration and accepts the later ones, each while the manager waits;
  the state is the list of the registrations.
\<close>

text \<open>A zlib that puts one byte before the data and nothing else.\<close>

fun chunks :: "nat \<Rightarrow> string \<Rightarrow> string list" where
  "chunks n xs = (if n = 0 \<or> xs = [] then [] else take n xs # chunks n (drop n xs))"

declare chunks.simps [simp del]

lemma chunks_filled: "0 < n \<Longrightarrow> filled n (chunks n xs) \<and> concat (chunks n xs) = xs"
proof (induction n xs rule: chunks.induct)
  case (1 n xs)
  show ?case
  proof (cases "xs = [] \<or> drop n xs = []")
    case True
    then show ?thesis by (auto simp: chunks.simps [of n xs] chunks.simps [of n "[]"])
  next
    case False
    then have "chunks n xs = take n xs # take n (drop n xs) # chunks n (drop n (drop n xs))"
      using 1(2) by (auto simp: chunks.simps [of n xs] chunks.simps [of n "drop n xs"])
    moreover have "length (take n xs) = n" using False by auto
    moreover have "chunks n (drop n xs) = take n (drop n xs) # chunks n (drop n (drop n xs))"
      using 1(2) False by (auto simp: chunks.simps [of n "drop n xs"])
    ultimately show ?thesis using 1(1,2) False by (auto simp del: drop_drop take_drop)
  qed
qed

definition sample_zlib :: zlib_api where
  "sample_zlib = \<lparr> zl_deflate = (\<lambda>n data. chunks n (CHR ''x'' # data)), zl_inflate = (\<lambda>n data. chunks n (tl data)) \<rparr>"

lemma sample_zlib_laws: "zlib_laws sample_zlib sample_zlib"
  by (simp add: zlib_laws_def sample_zlib_def chunks_filled del: concat_eq_Nil_conv)

definition sample_bus :: "nat list bus_api" where
  "sample_bus = \<lparr> sb_Socket = (\<lambda>_ _ _ h. (3, h)), sb_Listen = (\<lambda>_ h. (0, h)), sb_Bind = (\<lambda>_ h. (0, h)), sb_Shutdown = (\<lambda>_ h. h),
     sb_SendBytes = (\<lambda>_ _ h. (0, 1 # h)), sb_zlib = sample_zlib \<rparr>"

definition sample_hw :: "nat list hw_api" where
  "sample_hw = \<lparr> hw_loader = sample_loader_api, hw_bus = sample_bus,
     hw_InitSource = (\<lambda>_ _ h. (Some 0, h)), hw_ReleaseSource = (\<lambda>_ h. (Some 0, h)),
     hw_InitSink = (\<lambda>_ _ h. (Some 0, h)), hw_ReleaseSink = (\<lambda>_ h. (Some 0, h)),
     hw_StateListener = (\<lambda>_ _ h. h), hw_SyncListener = (\<lambda>_ _ h. h), hw_RegisterPrivacy = (\<lambda>_ h. h),
     hw_StopPrivacePage = (\<lambda>_ h. h), hw_UnRegisterPlugin = (\<lambda>_ h. h),
     hw_Register = (\<lambda>p networkId dhId _ h. (\<lparr> rr_ret = 0, rr_before = [],
        rr_during = [(networkId, dhId, if h = [] then -1 else 0)] \<rparr>, p # h)),
     hw_Unregister = (\<lambda>_ networkId dhId h. (\<lparr> rr_ret = 0, rr_before = [], rr_during = [(networkId, dhId, 0)] \<rparr>, h)),
     hw_Subscribe = (\<lambda>_ h. (Some 0, h)), hw_UnSubscribe = (\<lambda>_ h. (Some 0, h)), hw_AsObject = Some,
     hw_Trusted = (\<lambda>_. [(''net'', True)]), hw_CHECK_RESOURCE = False, hw_LOW_LATENCY = True \<rparr>"

definition sample_comp :: "nat list comp_sys" where
  "sample_comp = \<lparr> cs_mgr = comp_mgr_new\<lparr>mg_compSource := [(DHType_CAMERA, Some 5)]\<rparr>, cs_loader = loader_new, cs_tr = None,
     cs_pub = Publisher_new, cs_ll = LowLatency_new, cs_h = [7] \<rparr>"

definition sample_online :: "kv_world resources" where
  "sample_online = sample_resources\<lparr>rs_sys := sys_model\<lparr>sys_cx := DHContext_new\<lparr>cx_devIdEntrySet :=
     [DeviceIdEntry ''net'' ''uuid'' ''0af3'' ''udid'' ''77be'']\<rparr>\<rparr>\<rparr>"

lemma sample_online_facts:
  "IsDeviceOnline (sys_cx (rs_sys sample_online)) ''uuid''"
  "snd (GetCapParam env_model ''uuid'' ''Camera_1'' sample_online) = None"
  "snd (GetMetaParam ''uuid'' ''Camera_1'' sample_online) = None"
proof -
  show "IsDeviceOnline (sys_cx (rs_sys sample_online)) ''uuid''"
    by (simp add: IsDeviceOnline_def sample_online_def IsIdLengthValid_def)
  show "snd (GetCapParam env_model ''uuid'' ''Camera_1'' sample_online) = None"
    by (simp add: GetCapParam_def sample_online_def sample_resources_def CapMgr_GetCapability_def LocalMgr_GetCapability_def
        map_get_cap_def Let_def)
  show "snd (GetMetaParam ''uuid'' ''Camera_1'' sample_online) = None"
    by (simp add: GetMetaParam_def sample_online_def sample_resources_def MetaMgr_GetMetaCapInfo_def map_get_cap_def)
qed

text \<open>The same with the check of the resources, for a private resource of a device of the same account.\<close>

definition checked_hw :: "nat list hw_api" where
  "checked_hw = sample_hw\<lparr>hw_CHECK_RESOURCE := True\<rparr>"

definition checked_comp :: "nat list comp_sys" where
  "checked_comp = sample_comp\<lparr>cs_loader := loader_new\<lparr>lo_resDescMap := [([], True)]\<rparr>\<rparr>"

lemma checked_comp_checks:
  "enable_checks_hold 0 env_model checked_hw (\<lambda>n rs. rs) ''net'' ''uuid'' ''Camera_1'' DHType_CAMERA (checked_comp, sample_online)"
proof -
  have "enable_params 0 env_model (\<lambda>n rs. rs) ''net'' ''uuid'' ''Camera_1'' DHType_CAMERA sample_online = (DH_FWK_SUCCESS, EnableParam_new, sample_online)"
    by (rule enable_params_unknown) (simp_all add: sample_online_facts IsIdLengthValid_def)
  moreover have "subtype_allowed checked_hw (ep_subtype EnableParam_new) ''net'' checked_comp"
    by (simp add: subtype_allowed_def checked_hw_def checked_comp_def sample_hw_def sample_comp_def GetCompResourceDesc_def
        IsIdenticalAccount_def IsIdLengthValid_def EnableParam_new_def smap_get_def)
  ultimately show ?thesis
    by (simp add: enable_checks_hold_def checked_comp_def sample_comp_def comp_mgr_new_def IsIdLengthValid_def smap_get_def)
qed

theorem enable_calls_component_witness:
  "\<exists>param k. 1 \<le> k \<and> k \<le> 4 \<and> hw_CHECK_RESOURCE checked_hw \<and> subtype_allowed checked_hw (ep_subtype param) ''net'' checked_comp
     \<and> cs_h (fst (snd (CompMgr_Enable 0 env_model checked_hw (\<lambda>n rs. rs) (\<lambda>n rs. rs) ''net'' ''uuid'' ''Camera_1'' DHType_CAMERA
           (checked_comp, sample_online)))) = (registered checked_hw 5 ''net'' ''Camera_1'' param ^^ k) (cs_h checked_comp)"
proof -
  obtain r c1 rs1 where run: "CompMgr_Enable 0 env_model checked_hw (\<lambda>n rs. rs) (\<lambda>n rs. rs) ''net'' ''uuid'' ''Camera_1'' DHType_CAMERA
      (checked_comp, sample_online) = (r, c1, rs1)" by (rule prod_cases3)
  have src: "smap_get (mg_compSource (cs_mgr checked_comp)) DHType_CAMERA = Some (Some 5)"
    by (simp add: checked_comp_def sample_comp_def comp_mgr_new_def smap_get_def)
  from enable_calls_component [OF run] checked_comp_checks src obtain param k where
    "1 \<le> k" "k \<le> 4" "subtype_allowed checked_hw (ep_subtype param) ''net'' checked_comp"
    and "cs_h c1 = (registered checked_hw 5 ''net'' ''Camera_1'' param ^^ k) (cs_h checked_comp)"
    by auto
  then show ?thesis unfolding run by (auto simp: checked_hw_def)
qed

text \<open>
  Property C6. The look-up of the parameters that failed on every attempt is taken for a success: for a
  device that is online and of whose hardware no record is known, \<open>RetryGetEnableParam\<close> returns success, and
  without the check of the resources \<open>Enable\<close> registers the hardware with five empty parameters and, when the
  component accepts them, records it as enabled.
\<close>

theorem enable_with_empty_parameters:
  assumes "IsIdLengthValid networkId" "IsIdLengthValid uuid" "IsIdLengthValid dhId"
    and unknown: "snd (GetCapParam E uuid dhId rs) = None" "snd (GetMetaParam uuid dhId rs) = None"
    and online: "IsDeviceOnline (sys_cx (rs_sys rs)) uuid"
    and handler: "smap_get (mg_compSource (cs_mgr c)) dhType = Some (Some p)" and "\<not> hw_CHECK_RESOURCE P"
    and reply: "hw_Register P p networkId dhId EnableParam_new (cs_h c) = (\<lparr> rr_ret = DH_FWK_SUCCESS, rr_before = [], rr_during = [(networkId, dhId, DH_FWK_SUCCESS)] \<rparr>, h)"
  shows "RetryGetEnableParam junk E (\<lambda>n rs. rs) networkId uuid dhId dhType (EnableParam_new, rs) = (DH_FWK_SUCCESS, EnableParam_new, rs)
    \<and> CompMgr_Enable junk E P (\<lambda>n rs. rs) others2 networkId uuid dhId dhType (c, rs) =
        (DH_FWK_SUCCESS, c\<lparr>cs_h := h, cs_mgr := DumpEnabledComp networkId dhType dhId (cs_mgr c)\<rparr>, rs)"
  using assms by (rule enable_unknown_hardware)

theorem enable_with_empty_parameters_witness:
  "snd (snd (RetryGetEnableParam 0 env_model (\<lambda>n rs. rs) ''net'' ''uuid'' ''Camera_1'' DHType_CAMERA (EnableParam_new, sample_online))) = sample_online
   \<and> fst (CompMgr_Enable 0 env_model sample_hw (\<lambda>n rs. rs) (\<lambda>n rs. rs) ''net'' ''uuid'' ''Camera_1'' DHType_CAMERA (sample_comp, sample_online)) = DH_FWK_SUCCESS"
proof -
  note enable_with_empty_parameters [where networkId = "''net''" and uuid = "''uuid''" and dhId = "''Camera_1''" and E = env_model
    and rs = sample_online and c = sample_comp and dhType = DHType_CAMERA and p = 5 and P = sample_hw and h = "[5, 7]" and junk = 0
    and ?others2.0 = "\<lambda>n rs. rs"]
  then show ?thesis
    by (simp add: sample_online_facts sample_comp_def sample_hw_def IsIdLengthValid_def smap_get_def comp_mgr_new_def)
qed

theorem first_failure_stays_witness:
  "enable_attempts sample_hw (\<lambda>n rs. rs) ''net'' ''uuid'' ''Camera_1'' EnableParam_new (Some 5) ([], sample_online) =
     (ERR_DH_FWK_COMPONENT_ENABLE_FAILED, [5, 5, 5, 5], sample_online)"
proof -
  have "enable_attempts sample_hw (\<lambda>n rs. rs) ''net'' ''uuid'' ''Camera_1'' EnableParam_new (Some 5) ([], sample_online) =
     (ERR_DH_FWK_COMPONENT_ENABLE_FAILED, (registered sample_hw 5 ''net'' ''Camera_1'' EnableParam_new ^^ 4) [], sample_online)"
    by (rule first_failure_stays [where status = "-1" and es = "[]"]) (simp_all add: sample_online_facts sample_hw_def IsIdLengthValid_def)
  then show ?thesis by (simp add: registered_def sample_hw_def eval_nat_numeral)
qed

end
