(* ===== verification/DHF_CommTool.thy ===== *)
theory DHF_CommTool
  imports DHF_CompProps
begin

text \<open>
  The exchange of full capabilities between two devices (\<open>transport/dh_comm_tool.cpp\<close>), the listener and the
  event that trigger it (\<open>dh_data_sync_trigger_listener.cpp\<close>, \<open>ComponentManager::TriggerFullCapsSync\<close>), and
  what the manager does with the answer: hardware that is not in use is enabled again at once, hardware in
  use when it becomes idle. An event that is posted to a handler is a value of the function that posts it.
\<close>

abbreviation (input) DH_COMM_REQ_FULL_CAPS :: int where "DH_COMM_REQ_FULL_CAPS \<equiv> 1"
abbreviation (input) DH_COMM_RSP_FULL_CAPS :: int where "DH_COMM_RSP_FULL_CAPS \<equiv> 2"

type_synonym ('h, 'w) comm_state = "'h comp_sys \<times> 'w resources \<times> task_sys"

section \<open>Request\<close>

definition TriggerReqFullDHCaps :: "('w, 'j) env \<Rightarrow> 'h hw_api \<Rightarrow> string \<Rightarrow> 'h comp_sys \<Rightarrow> 'h comp_sys" where
  "TriggerReqFullDHCaps E P remoteNetworkId c =
     (if remoteNetworkId = [] then c
      else case cs_tr c of
        None \<Rightarrow> c
      | Some tr \<Rightarrow>
          (let localNetworkId = GetLocalNetworkId (env_dm E) in
           if localNetworkId = [] then c
           else let (r, tr1, h1) = StartSocket (hw_bus P) remoteNetworkId (tr, cs_h c); c1 = c\<lparr>cs_tr := Some tr1, cs_h := h1\<rparr> in
             if r \<noteq> DH_FWK_SUCCESS then c1
             else let payload = GetCommMsgString (env_cj E) \<lparr> cm_code = DH_COMM_REQ_FULL_CAPS, cm_msg = localNetworkId \<rparr>;
                      (r2, h2) = Send (hw_bus P) remoteNetworkId payload (tr1, h1)
                  in c1\<lparr>cs_h := h2\<rparr>))"

definition TriggerFullCapsSync :: "('w, 'j) env \<Rightarrow> 'h hw_api \<Rightarrow> string \<Rightarrow> 'h comp_sys \<Rightarrow> 'h comp_sys" where
  "TriggerFullCapsSync E P networkId c =
     (if \<not> IsIdLengthValid networkId then c else TriggerReqFullDHCaps E P networkId c)"

text \<open>\<open>EVENT_DATA_SYNC_MANUAL\<close> with its network identifier, if \<open>OnDataSyncTrigger\<close> posts it.\<close>

definition OnDataSyncTrigger :: "string \<Rightarrow> string option" where
  "OnDataSyncTrigger networkId = (if \<not> IsIdLengthValid networkId \<or> networkId = [] then None else Some networkId)"

definition Manager_ProcessEvent :: "('w, 'j) env \<Rightarrow> 'h hw_api \<Rightarrow> string option \<Rightarrow> 'h comp_sys \<Rightarrow> 'h comp_sys" where
  "Manager_ProcessEvent E P sharedObj c =
     (case sharedObj of
        None \<Rightarrow> c
      | Some networkId \<Rightarrow> if networkId = [] then c else TriggerFullCapsSync E P networkId c)"

section \<open>Answer\<close>

definition GetAndSendLocalFullCaps ::
  "('w, 'j) env \<Rightarrow> 'h hw_api \<Rightarrow> string \<Rightarrow> 'h comp_sys \<times> 'w resources \<Rightarrow> 'h comp_sys \<times> 'w resources" where
  "GetAndSendLocalFullCaps E P reqNetworkId = (\<lambda>(c, rs).
     case cs_tr c of
       None \<Rightarrow> (c, rs)
     | Some tr \<Rightarrow>
         (let (info, rs1) = local_device E rs;
              resInfos = CapMgr_GetCapabilitiesByDeviceId (di_deviceId info) (im_map (rs_cap rs1)) [];
              capsRsp = \<lparr> fc_networkId = GetLocalNetworkId (env_dm E), fc_caps = resInfos \<rparr>
          in case cJSON_CreateObject (env_cj E) of
               None \<Rightarrow> (c, rs1)
             | Some rootJson \<Rightarrow>
                 (case cJSON_PrintUnformatted (env_cj E) (FullCapsRsp_ToJson (env_cj E) rootJson capsRsp) of
                    None \<Rightarrow> (c, rs1)
                  | Some msg \<Rightarrow>
                      (let payload = GetCommMsgString (env_cj E) \<lparr> cm_code = DH_COMM_RSP_FULL_CAPS, cm_msg = c_str msg \<rparr>;
                           (r, h) = Send (hw_bus P) reqNetworkId payload (tr, cs_h c)
                       in (c\<lparr>cs_h := h\<rparr>, rs1)))))"

definition ParseAndSaveRemoteDHCaps :: "('w, 'j) env \<Rightarrow> string \<Rightarrow> 'w resources \<Rightarrow> full_caps_rsp \<times> 'w resources" where
  "ParseAndSaveRemoteDHCaps E remoteCaps rs =
     (case cJSON_Parse (env_cj E) (c_str remoteCaps) of
        None \<Rightarrow> (FullCapsRsp_new, rs)
      | Some rootJson \<Rightarrow>
          (let capsRsp = FullCapsRsp_FromJson (env_cj E) rootJson FullCapsRsp_new;
               (r, rs1) = on_local (LocalMgr_AddCapability E (map Some (fc_caps capsRsp))) rs
           in (capsRsp, rs1)))"

text \<open>The body of the loop for one record of the answer.\<close>

definition full_task_param :: "string \<Rightarrow> string \<Rightarrow> capability_info \<Rightarrow> task_param" where
  "full_task_param networkId uuid cap = \<lparr> tp_networkId = networkId, tp_uuid = uuid, tp_udid = [], tp_dhId = ci_dhId cap,
     tp_dhType = ci_dhType cap \<rparr>"

definition refresh_cap :: "rand \<Rightarrow> string \<Rightarrow> string \<Rightarrow> capability_info \<Rightarrow> comp_mgr \<times> task_sys \<Rightarrow> comp_mgr \<times> task_sys" where
  "refresh_cap rand networkId uuid cap = (\<lambda>(m, ts).
     let curState = QueryBusinessState networkId (ci_dhId cap) m; taskParam = full_task_param networkId uuid cap in
     if curState \<noteq> BS_RUNNING \<and> curState \<noteq> BS_PAUSING then (m, create_and_push rand TaskType_ENABLE taskParam None ts)
     else (SaveNeedRefreshTask taskParam m, ts))"

definition ProcessFullCapsRsp :: "'h hw_api \<Rightarrow> rand \<Rightarrow> full_caps_rsp \<Rightarrow> ('h, 'w) comm_state \<Rightarrow> ('h, 'w) comm_state" where
  "ProcessFullCapsRsp P rand capsRsp = (\<lambda>(c, rs, ts).
     if fc_networkId capsRsp = [] \<or> fc_caps capsRsp = [] then (c, rs, ts)
     else case cs_tr c of
       None \<Rightarrow> (c, rs, ts)
     | Some tr \<Rightarrow>
         (let (r, tr1, h1) = StopSocket (hw_bus P) (fc_networkId capsRsp) (tr, cs_h c);
              c1 = c\<lparr>cs_tr := Some tr1, cs_h := h1\<rparr>;
              uuid = GetUUIDByNetworkId (sys_cx (rs_sys rs)) (fc_networkId capsRsp)
          in if uuid = [] then (c1, rs, ts)
             else let (m, ts1) = fold (refresh_cap rand (fc_networkId capsRsp) uuid) (fc_caps capsRsp) (cs_mgr c1, ts)
                  in (c1\<lparr>cs_mgr := m\<rparr>, rs, ts1)))"

text \<open>The identifier of the event is the code of the message as an unsigned number.\<close>

definition Comm_ProcessEvent ::
  "('w, 'j) env \<Rightarrow> 'h hw_api \<Rightarrow> rand \<Rightarrow> comm_msg option \<Rightarrow> ('h, 'w) comm_state \<Rightarrow> ('h, 'w) comm_state" where
  "Comm_ProcessEvent E P rand sharedObj = (\<lambda>(c, rs, ts).
     case sharedObj of
       None \<Rightarrow> (c, rs, ts)
     | Some commMsg \<Rightarrow>
         (let eventId = (of_int (cm_code commMsg) :: 32 word) in
          if eventId = of_int DH_COMM_REQ_FULL_CAPS
          then let (c1, rs1) = GetAndSendLocalFullCaps E P (cm_msg commMsg) (c, rs) in (c1, rs1, ts)
          else if eventId = of_int DH_COMM_RSP_FULL_CAPS
          then let (capsRsp, rs1) = ParseAndSaveRemoteDHCaps E (cm_msg commMsg) rs in ProcessFullCapsRsp P rand capsRsp (c, rs1, ts)
          else (c, rs, ts)))"

section \<open>The exchange\<close>

text \<open>The two sides have a zlib that keeps its promises, and the packed message is not too long for \<open>Send\<close>.\<close>

definition packs :: "'h bus_api \<Rightarrow> 'h bus_api \<Rightarrow> string \<Rightarrow> bool" where
  "packs B1 B2 payload \<longleftrightarrow> zlib_laws (sb_zlib B1) (sb_zlib B2)
     \<and> length (Compress (sb_zlib B1) payload) \<le> MAX_SEND_MSG_LENGTH"

lemma packs_restores:
  assumes "packs B1 B2 payload"
  shows "Decompress (sb_zlib B2) (Compress (sb_zlib B1) payload) = payload" "Compress (sb_zlib B1) payload \<noteq> []"
    "length (Compress (sb_zlib B1) payload) \<le> MAX_SEND_MSG_LENGTH"
  using assms compression_round_trip by (auto simp: packs_def)

lemma prints_back_encode:
  assumes "cJSON_CreateObject cj = Some ob0" and "cj_prints_back cj (to_json cj ob0 x)"
  shows "IsMessageLengthValid (json_encode cj to_json x)" "c_str (json_encode cj to_json x) = json_encode cj to_json x"
    "\<exists>t. cJSON_PrintUnformatted cj (to_json cj ob0 x) = Some t \<and> json_encode cj to_json x = c_str t"
    "\<exists>ob. cJSON_Parse cj (json_encode cj to_json x) = Some ob \<and> cJSON_GetObjectItem cj ob = cJSON_GetObjectItem cj (to_json cj ob0 x)"
  using assms by (auto simp: cj_prints_back_def json_encode_def c_str_id IsMessageLengthValid_def IsJsonLengthValid_def)

lemma Send_opened:
  assumes "IsIdLengthValid net" "IsMessageLengthValid payload" "IsDeviceSessionOpened net tr = Some s" "packs B B2 payload"
  shows "snd (Send B net payload (tr, h)) = snd (sb_SendBytes B s (Compress (sb_zlib B) payload) h)"
  using assms packs_restores(2,3) [OF assms(4)] by (simp add: Send_def Let_def case_prod_unfold)

lemma received_message:
  assumes laws: "cjson_build_laws cj" and ob0: "cJSON_CreateObject cj = Some ob0" and enc: "msg_encodable cj m"
    and prt: "cj_prints_back cj (CommMsg_ToJson cj ob0 m)" and r: "packs B1 B2 (GetCommMsgString cj m)"
    and "0 \<le> s" "GetRemoteNetworkIdBySocketId s tr \<noteq> []"
  shows "OnBytesReceived cj B2 s (Compress (sb_zlib B1) (GetCommMsgString cj m)) tr = Some m"
proof -
  let ?d = "Compress (sb_zlib B1) (GetCommMsgString cj m)"
  from prints_back_encode(4) [where to_json = CommMsg_ToJson, OF ob0 prt] obtain ob where
    ob: "cJSON_Parse cj (GetCommMsgString cj m) = Some ob" "cJSON_GetObjectItem cj ob = cJSON_GetObjectItem cj (CommMsg_ToJson cj ob0 m)"
    by (auto simp: GetCommMsgString_def)
  have "CommMsg_FromJson cj ob CommMsg_new = m" using msg_codec.item_round_trip [OF laws enc ob0 ob(2)] .
  moreover have "IsMessageLengthValid ?d" using packs_restores [OF r] by (simp add: IsMessageLengthValid_def)
  moreover have "c_str (GetCommMsgString cj m) = GetCommMsgString cj m"
    using prints_back_encode(2) [where to_json = CommMsg_ToJson, OF ob0 prt] by (simp add: GetCommMsgString_def)
  ultimately show ?thesis using packs_restores [OF r] ob(1) assms(6,7)
    by (simp add: OnBytesReceived_def HandleReceiveMessage_def)
qed

lemma own_caps_keyed:
  assumes "cap_keyed m" and "a \<in> set (map_by_device d m)" and "b \<in> set (map_by_device d m)"
    and "CapabilityInfo_GetKey a = CapabilityInfo_GetKey b"
  shows "a = b"
proof -
  have "smap_get m (CapabilityInfo_GetKey x) = Some x" if "x \<in> set (map_by_device d m)" for x
  proof -
    from that obtain k where "(k, x) \<in> set m" by (auto simp: map_by_device_def)
    with assms(1) have "smap_get m k = Some x" by (simp add: keyed_map_def smap_get_iff)
    with assms(1) show ?thesis by (auto simp: keyed_map_def)
  qed
  with assms(2-4) show ?thesis by (metis option.inject)
qed

lemma find_unique_key:
  assumes "c \<in> set cs" and "\<forall>a\<in>set cs. \<forall>b\<in>set cs. key a = key b \<longrightarrow> a = b"
  shows "List.find (\<lambda>x. key x = key c) (rev cs) = Some c"
proof (cases "List.find (\<lambda>x. key x = key c) (rev cs)")
  case None
  with assms(1) show ?thesis by (auto simp: find_None_iff)
next
  case (Some x)
  then have "x \<in> set cs" "key x = key c" by (auto simp: find_Some_iff) (metis nth_mem length_rev set_rev)
  with assms Some show ?thesis by blast
qed

lemma answer_parsed:
  assumes laws: "cjson_build_laws (env_cj E)" and ob0: "cJSON_CreateObject (env_cj E) = Some ob0"
    and enc: "rsp_encodable (env_cj E) rsp" and prt: "cj_prints_back (env_cj E) (FullCapsRsp_ToJson (env_cj E) ob0 rsp)"
  shows "ParseAndSaveRemoteDHCaps E (json_encode (env_cj E) FullCapsRsp_ToJson rsp) rs =
    (rsp, snd (on_local (LocalMgr_AddCapability E (map Some (fc_caps rsp))) rs))"
proof -
  let ?t = "json_encode (env_cj E) FullCapsRsp_ToJson rsp"
  from prints_back_encode(4) [where to_json = FullCapsRsp_ToJson, OF ob0 prt] obtain ob where
    ob: "cJSON_Parse (env_cj E) ?t = Some ob" "cJSON_GetObjectItem (env_cj E) ob = cJSON_GetObjectItem (env_cj E) (FullCapsRsp_ToJson (env_cj E) ob0 rsp)"
    by blast
  have "FullCapsRsp_FromJson (env_cj E) ob FullCapsRsp_new = rsp" using rsp_codec.item_round_trip [OF laws enc ob0 ob(2)] .
  moreover have "c_str ?t = ?t" using prints_back_encode(2) [where to_json = FullCapsRsp_ToJson, OF ob0 prt] .
  ultimately show ?thesis by (simp add: ParseAndSaveRemoteDHCaps_def ob(1) case_prod_unfold)
qed

lemma answer_saved:
  assumes db: "im_db (rs_local rs) \<noteq> None" and keyed: "cap_keyed (im_map (rs_local rs))"
    and len: "caps \<noteq> []" "length caps \<le> MAX_DB_RECORD_SIZE"
    and uniq: "\<forall>a\<in>set caps. \<forall>b\<in>set caps. CapabilityInfo_GetKey a = CapabilityInfo_GetKey b \<longrightarrow> a = b"
    and "cap \<in> set caps"
  shows "smap_get (im_map (rs_local (snd (on_local (LocalMgr_AddCapability E (map Some caps)) rs)))) (CapabilityInfo_GetKey cap) = Some cap"
proof -
  have all: "List.map_filter id (map Some cs) = cs" for cs :: "capability_info list"
    by (induction cs) (simp_all add: List.map_filter_simps)
  from db obtain d where "im_db (rs_local rs) = Some d" by blast
  with len have "im_map (fst (snd (LocalMgr_AddCapability E (map Some caps) (rs_local rs, rs_sys rs)))) =
      fold (\<lambda>c. smap_put (CapabilityInfo_GetKey c) c) caps (im_map (rs_local rs))"
    by (simp add: LocalMgr_AddCapability_def all Let_def case_prod_unfold)
  then show ?thesis
    by (simp add: on_local_def Let_def case_prod_unfold smap_get_put_all [OF keyed] find_unique_key [OF assms(6) uniq])
qed

text \<open>The answer that a device sends, and the message that carries it.\<close>

definition own_answer :: "('w, 'j) env \<Rightarrow> 'w resources \<Rightarrow> full_caps_rsp" where
  "own_answer E rs = \<lparr> fc_networkId = GetLocalNetworkId (env_dm E),
     fc_caps = CapMgr_GetCapabilitiesByDeviceId (di_deviceId (fst (local_device E rs))) (im_map (rs_cap rs)) [] \<rparr>"

definition answer_msg :: "'j cjson \<Rightarrow> full_caps_rsp \<Rightarrow> comm_msg" where
  "answer_msg cj rsp = \<lparr> cm_code = DH_COMM_RSP_FULL_CAPS, cm_msg = json_encode cj FullCapsRsp_ToJson rsp \<rparr>"

definition answer_travels :: "'j cjson \<Rightarrow> 'h bus_api \<Rightarrow> 'h bus_api \<Rightarrow> full_caps_rsp \<Rightarrow> bool" where
  "answer_travels cj B1 B2 rsp \<longleftrightarrow> cjson_build_laws cj \<and> rsp_encodable cj rsp \<and> msg_encodable cj (answer_msg cj rsp)
     \<and> (\<exists>ob0. cJSON_CreateObject cj = Some ob0 \<and> cj_prints_back cj (FullCapsRsp_ToJson cj ob0 rsp)
          \<and> cj_prints_back cj (CommMsg_ToJson cj ob0 (answer_msg cj rsp)))
     \<and> packs B1 B2 (GetCommMsgString cj (answer_msg cj rsp))"

lemma answer_sent:
  assumes "cs_tr c = Some tr" "IsIdLengthValid net" "IsDeviceSessionOpened net tr = Some s"
    and travels: "answer_travels (env_cj E) (hw_bus P) B2 (own_answer E rs)"
  shows "fst (GetAndSendLocalFullCaps E P net (c, rs)) =
    c\<lparr>cs_h := snd (sb_SendBytes (hw_bus P) s (Compress (sb_zlib (hw_bus P)) (GetCommMsgString (env_cj E) (answer_msg (env_cj E) (own_answer E rs)))) (cs_h c))\<rparr>"
proof -
  let ?cj = "env_cj E" and ?rsp = "own_answer E rs"
  from travels obtain ob0 where ob0: "cJSON_CreateObject ?cj = Some ob0"
    and prt: "cj_prints_back ?cj (FullCapsRsp_ToJson ?cj ob0 ?rsp)" "cj_prints_back ?cj (CommMsg_ToJson ?cj ob0 (answer_msg ?cj ?rsp))"
    and r: "packs (hw_bus P) B2 (GetCommMsgString ?cj (answer_msg ?cj ?rsp))" by (auto simp: answer_travels_def)
  from prints_back_encode(3) [where to_json = FullCapsRsp_ToJson, OF ob0 prt(1)] obtain t where
    t: "cJSON_PrintUnformatted ?cj (FullCapsRsp_ToJson ?cj ob0 ?rsp) = Some t" "json_encode ?cj FullCapsRsp_ToJson ?rsp = c_str t" by blast
  have "IsMessageLengthValid (GetCommMsgString ?cj (answer_msg ?cj ?rsp))"
    using prints_back_encode(1) [where to_json = CommMsg_ToJson, OF ob0 prt(2)] by (simp add: GetCommMsgString_def)
  from Send_opened [OF assms(2) this assms(3) r, of "cs_h c"] show ?thesis
    using t assms(1) by (simp add: GetAndSendLocalFullCaps_def own_answer_def answer_msg_def ob0 local_device_fields Let_def case_prod_unfold)
qed

text \<open>
  Property C7. The full capabilities of a device arrive at the device that asked for them: the bytes that
  \<open>GetAndSendLocalFullCaps\<close> packs with \<open>Compress\<close> and gives to the soft bus are, on the other side, unpacked by
  \<open>Decompress\<close> to the event of an answer, from which \<open>ParseAndSaveRemoteDHCaps\<close> takes back exactly the sender's
  records, each of which the receiver's local manager finds afterwards under its key. Of zlib it relies on what
  zlib documents of its single calls; that the loops of \<open>Compress\<close> and \<open>Decompress\<close> lose no slice is proved. The
  packed message has to be within the limit of \<open>Send\<close>.
\<close>

theorem full_capabilities_arrive:
  fixes EA EB :: "('w, 'j) env" and PA PB :: "'h hw_api" and rsA rsB :: "'w resources"
  defines "rsp \<equiv> own_answer EB rsB"
  assumes same: "env_cj EA = env_cj EB" and travels: "answer_travels (env_cj EB) (hw_bus PB) (hw_bus PA) rsp"
    and sender: "cs_tr cB = Some trB" "IsIdLengthValid netA" "IsDeviceSessionOpened netA trB = Some sB"
      "cap_keyed (im_map (rs_cap rsB))"
    and receiver: "0 \<le> sA" "GetRemoteNetworkIdBySocketId sA trA \<noteq> []" "im_db (rs_local rsA) \<noteq> None"
      "cap_keyed (im_map (rs_local rsA))"
    and len: "fc_caps rsp \<noteq> []" "length (fc_caps rsp) \<le> MAX_DB_RECORD_SIZE"
  shows "\<exists>data m. cs_h (fst (GetAndSendLocalFullCaps EB PB netA (cB, rsB))) = snd (sb_SendBytes (hw_bus PB) sB data (cs_h cB))
    \<and> OnBytesReceived (env_cj EA) (hw_bus PA) sA data trA = Some m \<and> cm_code m = DH_COMM_RSP_FULL_CAPS
    \<and> fst (ParseAndSaveRemoteDHCaps EA (cm_msg m) rsA) = rsp
    \<and> (\<forall>cap\<in>set (fc_caps rsp). smap_get (im_map (rs_local (snd (ParseAndSaveRemoteDHCaps EA (cm_msg m) rsA)))) (CapabilityInfo_GetKey cap) = Some cap)"
proof -
  let ?m = "answer_msg (env_cj EB) rsp"
  from travels obtain ob0 where ob0: "cJSON_CreateObject (env_cj EB) = Some ob0"
    and laws: "cjson_build_laws (env_cj EB)" "rsp_encodable (env_cj EB) rsp" "msg_encodable (env_cj EB) ?m"
    and prt: "cj_prints_back (env_cj EB) (FullCapsRsp_ToJson (env_cj EB) ob0 rsp)" "cj_prints_back (env_cj EB) (CommMsg_ToJson (env_cj EB) ob0 ?m)"
    and r: "packs (hw_bus PB) (hw_bus PA) (GetCommMsgString (env_cj EB) ?m)" by (auto simp: answer_travels_def)
  have uniq: "\<forall>a\<in>set (fc_caps rsp). \<forall>b\<in>set (fc_caps rsp). CapabilityInfo_GetKey a = CapabilityInfo_GetKey b \<longrightarrow> a = b"
    using own_caps_keyed [OF sender(4)] by (auto simp: rsp_def own_answer_def CapMgr_GetCapabilitiesByDeviceId_def)
  note parsed = answer_parsed [of EA, unfolded same, OF laws(1) ob0 laws(2) prt(1), of rsA]
  note saved = answer_saved [OF receiver(3,4) len uniq, of _ EA]
  have msg: "cm_code ?m = DH_COMM_RSP_FULL_CAPS" "cm_msg ?m = json_encode (env_cj EB) FullCapsRsp_ToJson rsp"
    by (simp_all add: answer_msg_def)
  show ?thesis
    using answer_sent [OF sender(1-3) travels [unfolded rsp_def]] received_message [OF laws(1) ob0 laws(3) prt(2) r receiver(1,2)] parsed saved
    unfolding same rsp_def [symmetric]
    by (intro exI [of _ "Compress (sb_zlib (hw_bus PB)) (GetCommMsgString (env_cj EB) ?m)"] exI [of _ ?m]) (simp add: msg)
qed

section \<open>Refresh of the hardware\<close>

definition busy :: "string \<Rightarrow> comp_mgr \<Rightarrow> capability_info \<Rightarrow> bool" where
  "busy networkId m cap \<longleftrightarrow> QueryBusinessState networkId (ci_dhId cap) m \<in> {BS_RUNNING, BS_PAUSING}"

lemma busy_saved [simp]: "busy networkId (SaveNeedRefreshTask tp m) cap = busy networkId m cap"
  by (simp add: busy_def QueryBusinessState_def SaveNeedRefreshTask_def)

lemma enable_task_heap:
  "ts_heap (create_and_push rand TaskType_ENABLE tp None ts) =
     ts_heap ts @ [created TaskType_ENABLE (random_id rand (length (ts_heap ts))) tp None]"
  by (simp add: create_and_push_def CreateTask_unfold PushTask_def)

lemma refresh_caps:
  "let (m1, ts1) = fold (refresh_cap rand networkId uuid) caps (m, ts) in
     m1 = fold (\<lambda>cap. SaveNeedRefreshTask (full_task_param networkId uuid cap)) (filter (busy networkId m) caps) m
   \<and> length (ts_heap ts1) = length (ts_heap ts) + length (filter (\<lambda>cap. \<not> busy networkId m cap) caps)"
proof (induction caps arbitrary: m ts)
  case (Cons cap caps)
  have eq: "busy networkId (SaveNeedRefreshTask tp m) = busy networkId m" for tp by (rule ext) simp
  show ?case
  proof (cases "busy networkId m cap")
    case True
    then have "refresh_cap rand networkId uuid cap (m, ts) = (SaveNeedRefreshTask (full_task_param networkId uuid cap) m, ts)"
      by (auto simp: refresh_cap_def busy_def Let_def)
    with Cons [of "SaveNeedRefreshTask (full_task_param networkId uuid cap) m" ts] True show ?thesis
      by (simp add: Let_def case_prod_unfold eq)
  next
    case False
    then have "refresh_cap rand networkId uuid cap (m, ts) =
        (m, create_and_push rand TaskType_ENABLE (full_task_param networkId uuid cap) None ts)"
      by (auto simp: refresh_cap_def busy_def Let_def)
    with Cons [of m "create_and_push rand TaskType_ENABLE (full_task_param networkId uuid cap) None ts"] False show ?thesis
      by (simp add: Let_def case_prod_unfold enable_task_heap)
  qed
qed simp

text \<open>What the tasks for one piece of hardware are: their types and parameters, in order.\<close>

definition param_of :: "task \<Rightarrow> task_param" where
  "param_of t = \<lparr> tp_networkId = tk_networkId t, tp_uuid = tk_uuid t, tp_udid = tk_udid t, tp_dhId = tk_dhId t, tp_dhType = tk_dhType t \<rparr>"

definition tasks_for :: "string \<times> string \<Rightarrow> task list \<Rightarrow> (task_type \<times> task_param) list" where
  "tasks_for key ts = filter (\<lambda>(k, p). (tp_networkId p, tp_dhId p) = key) (map (\<lambda>t. (tk_taskType t, param_of t)) ts)"

definition queued_tasks :: "task_sys \<Rightarrow> task list" where
  "queued_tasks ts = map ((!) (ts_heap ts)) (ts_taskQueue ts)"

definition queue_ok :: "task_sys \<Rightarrow> bool" where
  "queue_ok ts \<longleftrightarrow> (\<forall>r\<in>set (ts_taskQueue ts). r < length (ts_heap ts))"

definition refresh_ok :: "comp_mgr \<Rightarrow> bool" where
  "refresh_ok m \<longleftrightarrow> smap_sorted (mg_needRefreshTaskParams m)
     \<and> (\<forall>key tp. smap_get (mg_needRefreshTaskParams m) key = Some tp \<longrightarrow> (tp_networkId tp, tp_dhId tp) = key)"

lemma refresh_ok_save: "refresh_ok m \<Longrightarrow> refresh_ok (SaveNeedRefreshTask tp m)"
  by (auto simp: refresh_ok_def SaveNeedRefreshTask_def split: if_splits)

lemma refresh_ok_new: "refresh_ok comp_mgr_new"
  by (simp add: refresh_ok_def comp_mgr_new_def)

lemma tasks_for_snoc: "tasks_for key (ts @ [t]) = tasks_for key ts @ tasks_for key [t]"
  by (simp add: tasks_for_def)

lemma tasks_for_created:
  "tasks_for key [created TaskType_ENABLE rid tp None] = (if (tp_networkId tp, tp_dhId tp) = key then [(TaskType_ENABLE, tp)] else [])"
  by (simp add: tasks_for_def param_of_def)

lemma enable_task_queue:
  "ts_taskQueue (create_and_push rand TaskType_ENABLE tp None ts) =
     (if length (ts_taskQueue ts) > MAX_TASK_QUEUE_LENGTH then ts_taskQueue ts else ts_taskQueue ts @ [length (ts_heap ts)])"
  by (simp add: create_and_push_def CreateTask_unfold PushTask_def)

lemma tasks_for_create:
  "tasks_for key (ts_heap (create_and_push rand TaskType_ENABLE tp None ts)) =
     tasks_for key (ts_heap ts) @ (if (tp_networkId tp, tp_dhId tp) = key then [(TaskType_ENABLE, tp)] else [])"
  by (simp only: enable_task_heap tasks_for_snoc tasks_for_created)

lemma queued_for_create:
  assumes "queue_ok ts" and "length (ts_taskQueue ts) \<le> MAX_TASK_QUEUE_LENGTH"
  shows "queue_ok (create_and_push rand TaskType_ENABLE tp None ts)"
    and "length (ts_taskQueue (create_and_push rand TaskType_ENABLE tp None ts)) = Suc (length (ts_taskQueue ts))"
    and "tasks_for key (queued_tasks (create_and_push rand TaskType_ENABLE tp None ts)) =
     tasks_for key (queued_tasks ts) @ (if (tp_networkId tp, tp_dhId tp) = key then [(TaskType_ENABLE, tp)] else [])"
proof -
  let ?ts = "create_and_push rand TaskType_ENABLE tp None ts"
  have "ts_taskQueue ?ts = ts_taskQueue ts @ [length (ts_heap ts)]" using assms(2) by (simp add: enable_task_queue)
  moreover have "map ((!) (ts_heap ?ts)) (ts_taskQueue ts) = queued_tasks ts"
    using assms(1) by (auto simp: queued_tasks_def queue_ok_def enable_task_heap nth_append)
  ultimately have "queued_tasks ?ts = queued_tasks ts @ [created TaskType_ENABLE (random_id rand (length (ts_heap ts))) tp None]"
    by (simp add: queued_tasks_def [of ?ts]) (simp add: enable_task_heap nth_append)
  then show "tasks_for key (queued_tasks ?ts) =
     tasks_for key (queued_tasks ts) @ (if (tp_networkId tp, tp_dhId tp) = key then [(TaskType_ENABLE, tp)] else [])"
    by (simp only: tasks_for_snoc tasks_for_created)
  show "queue_ok ?ts" using assms by (auto simp: queue_ok_def enable_task_queue enable_task_heap)
  show "length (ts_taskQueue ?ts) = Suc (length (ts_taskQueue ts))" using assms(2) by (simp add: enable_task_queue)
qed

text \<open>One change of a business state: it fetches the task of its own key exactly when the hardware is idle.\<close>

lemma OnStateChanged_effect:
  assumes "refresh_ok m" and valid: "IsIdLengthValid n" "IsIdLengthValid d"
    and step: "OnStateChanged rand n d st (m, ts) = (m1, ts1)"
  defines "new key \<equiv> (if st = BS_IDLE \<and> (n, d) = key
      then case smap_get (mg_needRefreshTaskParams m) key of None \<Rightarrow> [] | Some tp \<Rightarrow> [(TaskType_ENABLE, tp)] else [])"
  shows "refresh_ok m1"
    and "smap_get (mg_needRefreshTaskParams m1) key = (if st = BS_IDLE \<and> (n, d) = key then None else smap_get (mg_needRefreshTaskParams m) key)"
    and "tasks_for key (ts_heap ts1) = tasks_for key (ts_heap ts) @ new key"
    and "\<lbrakk> queue_ok ts; length (ts_taskQueue ts) \<le> MAX_TASK_QUEUE_LENGTH \<rbrakk> \<Longrightarrow> queue_ok ts1
      \<and> length (ts_taskQueue ts1) \<le> Suc (length (ts_taskQueue ts)) \<and> tasks_for key (queued_tasks ts1) = tasks_for key (queued_tasks ts) @ new key"
proof -
  let ?m = "m\<lparr>mg_dhBizStates := smap_put (n, d) st (mg_dhBizStates m)\<rparr>"
  from assms(1) have sorted: "smap_sorted (mg_needRefreshTaskParams m)" by (simp add: refresh_ok_def)
  have own: "(tp_networkId tp, tp_dhId tp) = (n, d)" if "smap_get (mg_needRefreshTaskParams m) (n, d) = Some tp" for tp
    using assms(1) that by (auto simp: refresh_ok_def)
  consider (busy) "st \<noteq> BS_IDLE" "m1 = ?m" "ts1 = ts"
    | (none) "st = BS_IDLE" "smap_get (mg_needRefreshTaskParams m) (n, d) = None" "m1 = ?m" "ts1 = ts"
    | (fetched) tp where "st = BS_IDLE" "smap_get (mg_needRefreshTaskParams m) (n, d) = Some tp"
        "m1 = ?m\<lparr>mg_needRefreshTaskParams := smap_erase (n, d) (mg_needRefreshTaskParams m)\<rparr>"
        "ts1 = create_and_push rand TaskType_ENABLE tp None ts"
    using step valid
    by (auto simp: OnStateChanged_def UpdateBusinessState_def FetchNeedRefreshTask_def Let_def split: if_splits option.splits)
  note cases3 = this
  show "refresh_ok m1"
    by (rule cases3) (use assms(1) in \<open>auto simp: refresh_ok_def split: if_splits\<close>)
  show "smap_get (mg_needRefreshTaskParams m1) key = (if st = BS_IDLE \<and> (n, d) = key then None else smap_get (mg_needRefreshTaskParams m) key)"
    by (rule cases3) (use sorted in auto)
  show "tasks_for key (ts_heap ts1) = tasks_for key (ts_heap ts) @ new key"
    by (rule cases3) (use own in \<open>auto simp: new_def tasks_for_create split: option.splits\<close>)
  show "queue_ok ts1 \<and> length (ts_taskQueue ts1) \<le> Suc (length (ts_taskQueue ts)) \<and> tasks_for key (queued_tasks ts1) = tasks_for key (queued_tasks ts) @ new key"
    if room: "queue_ok ts" "length (ts_taskQueue ts) \<le> MAX_TASK_QUEUE_LENGTH"
    by (rule cases3) (use own room in \<open>auto simp: new_def queued_for_create [OF room] split: option.splits\<close>)
qed

definition state_run :: "rand \<Rightarrow> (string \<times> string \<times> business_state) list \<Rightarrow> comp_mgr \<times> task_sys \<Rightarrow> comp_mgr \<times> task_sys" where
  "state_run rand = fold (\<lambda>(n, d, st). OnStateChanged rand n d st)"

text \<open>The tasks that a run of events starts for the hardware of one key.\<close>

definition started_for :: "string \<times> string \<Rightarrow> (string \<times> string \<times> business_state) list \<Rightarrow> comp_mgr \<Rightarrow> (task_type \<times> task_param) list" where
  "started_for key evs m = (if (fst key, snd key, BS_IDLE) \<in> set evs
     then case smap_get (mg_needRefreshTaskParams m) key of None \<Rightarrow> [] | Some tp \<Rightarrow> [(TaskType_ENABLE, tp)] else [])"

lemma state_run_effect:
  assumes "refresh_ok m" and "\<forall>(n, d, st)\<in>set evs. IsIdLengthValid n \<and> IsIdLengthValid d"
    and "state_run rand evs (m, ts) = (m1, ts1)"
  shows "smap_get (mg_needRefreshTaskParams m1) key =
      (if (fst key, snd key, BS_IDLE) \<in> set evs then None else smap_get (mg_needRefreshTaskParams m) key)
    \<and> tasks_for key (ts_heap ts1) = tasks_for key (ts_heap ts) @ started_for key evs m
    \<and> (queue_ok ts \<and> length (ts_taskQueue ts) + length evs \<le> Suc MAX_TASK_QUEUE_LENGTH
        \<longrightarrow> tasks_for key (queued_tasks ts1) = tasks_for key (queued_tasks ts) @ started_for key evs m)"
  using assms
proof (induction evs arbitrary: m ts)
  case (Cons e evs)
  obtain n d st where e: "e = (n, d, st)" by (rule prod_cases3)
  obtain m2 ts2 where step: "OnStateChanged rand n d st (m, ts) = (m2, ts2)" by fastforce
  from Cons.prems(2) e have valid: "IsIdLengthValid n" "IsIdLengthValid d" by auto
  note eff = OnStateChanged_effect [OF Cons.prems(1) valid step]
  note key_eff = eff(2) [of key] eff(3) [of key] eff(4) [of key]
  have run: "state_run rand evs (m2, ts2) = (m1, ts1)" using Cons.prems(3) by (simp add: state_run_def e step)
  have "\<forall>(n, d, st)\<in>set evs. IsIdLengthValid n \<and> IsIdLengthValid d" using Cons.prems(2) by auto
  note ih = Cons.IH [OF eff(1) this run]
  have new: "started_for key (e # evs) m = (if st = BS_IDLE \<and> (n, d) = key
      then case smap_get (mg_needRefreshTaskParams m) key of None \<Rightarrow> [] | Some tp \<Rightarrow> [(TaskType_ENABLE, tp)] else []) @ started_for key evs m2"
    using key_eff(1) by (cases key) (auto simp: started_for_def e split: option.splits)
  show ?case using ih key_eff unfolding new by (cases key) (auto simp: e)
qed (simp add: state_run_def started_for_def)

text \<open>
  Property C8. Hardware in use when its full capabilities arrive is enabled anew exactly once, when it becomes
  idle: over any further changes of business states, of this and of other hardware, the tasks created for it
  are one task of type \<open>ENABLE\<close> with the kept parameters if it becomes idle, and none otherwise, while the
  request is kept; and as long as the queue of the executor has room for the changes, that task is also put
  into the queue, once.
\<close>

theorem deferred_refresh_once:
  fixes m :: comp_mgr and tp :: task_param
  defines "key \<equiv> (tp_networkId tp, tp_dhId tp)"
  assumes "refresh_ok m" and "\<forall>(n, d, st)\<in>set evs. IsIdLengthValid n \<and> IsIdLengthValid d"
    and "state_run rand evs (SaveNeedRefreshTask tp m, ts) = (m1, ts1)"
    and "queue_ok ts" and "length (ts_taskQueue ts) + length evs \<le> Suc MAX_TASK_QUEUE_LENGTH"
  shows "if (tp_networkId tp, tp_dhId tp, BS_IDLE) \<in> set evs
    then tasks_for key (ts_heap ts1) = tasks_for key (ts_heap ts) @ [(TaskType_ENABLE, tp)]
      \<and> tasks_for key (queued_tasks ts1) = tasks_for key (queued_tasks ts) @ [(TaskType_ENABLE, tp)]
      \<and> smap_get (mg_needRefreshTaskParams m1) key = None
    else tasks_for key (ts_heap ts1) = tasks_for key (ts_heap ts) \<and> tasks_for key (queued_tasks ts1) = tasks_for key (queued_tasks ts)
      \<and> smap_get (mg_needRefreshTaskParams m1) key = Some tp"
proof -
  have "smap_sorted (mg_needRefreshTaskParams m)" using assms(2) by (simp add: refresh_ok_def)
  then have "smap_get (mg_needRefreshTaskParams (SaveNeedRefreshTask tp m)) key = Some tp"
    by (simp add: SaveNeedRefreshTask_def key_def)
  with state_run_effect [OF refresh_ok_save [OF assms(2)] assms(3,4), of key] assms(5,6) show ?thesis
    by (simp add: key_def started_for_def)
qed

text \<open>
  An answer with a device's records closes the channel to that device, saves the records, creates
  an enable task for each record of hardware that is not in use, and keeps a request for the rest; nothing
  else of the manager changes.
\<close>

theorem answer_refreshes_hardware:
  assumes parse: "ParseAndSaveRemoteDHCaps E (cm_msg msg) rs = (rsp, rs1)" and code: "cm_code msg = DH_COMM_RSP_FULL_CAPS"
    and rsp: "IsIdLengthValid (fc_networkId rsp)" "fc_caps rsp \<noteq> []"
    and tr: "cs_tr c = Some tr" "smap_sorted (tr_remoteDevSocketIds tr)"
    and uuid: "uuid = GetUUIDByNetworkId (sys_cx (rs_sys rs1)) (fc_networkId rsp)" "uuid \<noteq> []"
    and run: "Comm_ProcessEvent E P rand (Some msg) (c, rs, ts) = (c1, rs2, ts1)"
  shows "rs2 = rs1 \<and> (\<exists>tr1. cs_tr c1 = Some tr1 \<and> IsDeviceSessionOpened (fc_networkId rsp) tr1 = None)
    \<and> cs_mgr c1 = fold (\<lambda>cap. SaveNeedRefreshTask (full_task_param (fc_networkId rsp) uuid cap))
        (filter (busy (fc_networkId rsp) (cs_mgr c)) (fc_caps rsp)) (cs_mgr c)
    \<and> length (ts_heap ts1) = length (ts_heap ts) + length (filter (\<lambda>cap. \<not> busy (fc_networkId rsp) (cs_mgr c) cap) (fc_caps rsp))"
proof -
  let ?net = "fc_networkId rsp"
  obtain r tr1 h1 where stop: "StopSocket (hw_bus P) ?net (tr, cs_h c) = (r, tr1, h1)" by (rule prod_cases3)
  obtain m ts2 where caps: "fold (refresh_cap rand ?net uuid) (fc_caps rsp) (cs_mgr c, ts) = (m, ts2)" by fastforce
  have "?net \<noteq> []" using rsp(1) by auto
  then have "ProcessFullCapsRsp P rand rsp (c, rs1, ts) = (c\<lparr>cs_tr := Some tr1, cs_h := h1, cs_mgr := m\<rparr>, rs1, ts2)"
    using rsp(2) tr(1) uuid caps by (simp add: ProcessFullCapsRsp_def stop)
  with run code parse have res: "c1 = c\<lparr>cs_tr := Some tr1, cs_h := h1, cs_mgr := m\<rparr>" "rs2 = rs1" "ts1 = ts2"
    by (simp_all add: Comm_ProcessEvent_def)
  have "IsDeviceSessionOpened ?net tr1 = None"
    using stop rsp(1) tr(2)
    by (auto simp: StopSocket_def IsDeviceSessionOpened_def ClearDeviceSocketOpened_def split: option.splits)
  with res refresh_caps [of rand ?net uuid "fc_caps rsp" "cs_mgr c" ts] caps show ?thesis by simp
qed

section \<open>A sample exchange\<close>

definition sample_own :: "kv_world resources" where
  "sample_own = sample_resources\<lparr>
     rs_sys := sys_model\<lparr>sys_cx := DHContext_new\<lparr>cx_devInfo := DeviceInfo_empty\<lparr>di_uuid := ''u'', di_deviceId := ''0af3''\<rparr>,
       cx_devIdEntrySet := [DeviceIdEntry ''local'' ''uuid'' ''0af3'' ''udid'' ''77be'']\<rparr>\<rparr>,
     rs_cap := \<lparr> im_db = Some (db_model ''cap''), im_map = [(CapabilityInfo_GetKey sample_cap, sample_cap)] \<rparr>\<rparr>"

definition sample_rsp :: full_caps_rsp where
  "sample_rsp = \<lparr> fc_networkId = ''local'', fc_caps = [sample_cap] \<rparr>"

definition sample_rsp_json :: jnode where
  "sample_rsp_json = FullCapsRsp_ToJson model_cjson (JObj []) sample_rsp"

definition sample_rsp_text :: string where
  "sample_rsp_text = jn_print 10 sample_rsp_json"

definition sample_answer_json :: jnode where
  "sample_answer_json = CommMsg_ToJson model_cjson (JObj []) \<lparr> cm_code = 2, cm_msg = sample_rsp_text \<rparr>"

definition sample_answer_text :: string where
  "sample_answer_text = jn_print 10 sample_answer_json"

lemma sample_own_answer: "own_answer env_model sample_own = sample_rsp"
  by (simp add: own_answer_def sample_rsp_def GetLocalNetworkId_def env_model_def local_device_def GetDeviceInfo_def sample_own_def
      CapMgr_GetCapabilitiesByDeviceId_def IsIdLengthValid_def map_by_device_def CapabilityInfo_GetKey_eq IsCapKeyMatch_key sample_cap_def)

lemma sample_rsp_prints_back: "cj_prints_back model_cjson sample_rsp_json"
  by (rule jn_prints_back_model [OF sample_rsp_text_def]) code_simp+

lemma sample_answer_prints_back: "cj_prints_back model_cjson sample_answer_json"
  by (rule jn_prints_back_model [OF sample_answer_text_def]) code_simp+

lemma model_encode:
  assumes "t = jn_print 10 (to_json model_cjson (JObj []) x)" and "CHR 0x00 \<notin> set t"
  shows "json_encode model_cjson to_json x = t"
proof -
  have "cJSON_PrintUnformatted model_cjson n = Some (jn_print 10 n)" for n by (simp add: model_cjson_def)
  with assms show ?thesis by (simp add: json_encode_def model_create c_str_id)
qed

lemma sample_texts:
  "CHR 0x00 \<notin> set sample_rsp_text" "int (length sample_rsp_text) \<le> 41943040" "sample_rsp_text \<noteq> []"
  "CHR 0x00 \<notin> set sample_answer_text" "int (length sample_answer_text) < 4194304" "sample_answer_text \<noteq> []"
  by code_simp+

lemma sample_rsp_encode: "json_encode model_cjson FullCapsRsp_ToJson sample_rsp = sample_rsp_text"
  using sample_texts(1) by (intro model_encode) (simp_all add: sample_rsp_text_def sample_rsp_json_def)

lemma sample_text_ok: "json_str_ok sample_rsp_text"
  using sample_texts by (simp add: json_str_ok_def)

lemma sample_packed: "length (Compress sample_zlib sample_answer_text) \<le> MAX_SEND_MSG_LENGTH"
proof -
  have "Compress sample_zlib sample_answer_text = CHR ''x'' # sample_answer_text"
    by (simp add: Compress_def sample_zlib_def slice_loop_collects chunks_filled)
  then show ?thesis using sample_texts(5) by simp
qed

lemma sample_answer_encode: "GetCommMsgString model_cjson (answer_msg model_cjson sample_rsp) = sample_answer_text"
  unfolding GetCommMsgString_def using sample_texts(4)
  by (intro model_encode) (simp_all add: answer_msg_def sample_rsp_encode sample_answer_text_def sample_answer_json_def)

lemma sample_rsp_encodable: "rsp_encodable model_cjson sample_rsp"
proof -
  have "cJSON_CreateArray model_cjson = Some (JArr [])" "cJSON_IsArray model_cjson (JArr xs)"
    "\<exists>xs. cJSON_AddItemToArray model_cjson ar it = JArr xs" for xs ar it by (simp_all add: model_cjson_def)
  then show ?thesis using sample_cap_encodable by (auto simp: rsp_encodable_def sample_rsp_def json_str_ok_def) metis
qed

lemma sample_travels: "answer_travels model_cjson sample_bus sample_bus sample_rsp"
proof -
  have "msg_encodable model_cjson (answer_msg model_cjson sample_rsp)"
    using sample_text_ok by (simp add: msg_encodable_def answer_msg_def sample_rsp_encode)
  moreover have "packs sample_bus sample_bus (GetCommMsgString model_cjson (answer_msg model_cjson sample_rsp))"
    using sample_packed by (simp add: packs_def sample_answer_encode) (simp add: sample_bus_def sample_zlib_laws)
  moreover have "cj_prints_back model_cjson (CommMsg_ToJson model_cjson (JObj []) (answer_msg model_cjson sample_rsp))"
    using sample_answer_prints_back by (simp add: sample_answer_json_def answer_msg_def sample_rsp_encode)
  ultimately show ?thesis
    using model_cjson_laws model_create sample_rsp_encodable sample_rsp_prints_back unfolding answer_travels_def sample_rsp_json_def by blast
qed

definition sample_session :: transport where
  "sample_session = DHTransport_new\<lparr>tr_remoteDevSocketIds := [(''local'', 3)]\<rparr>"

definition sample_linked :: "nat list comp_sys" where
  "sample_linked = sample_comp\<lparr>cs_tr := Some sample_session\<rparr>"

lemma sample_linked_facts:
  "cs_tr sample_linked = Some sample_session" "IsDeviceSessionOpened ''local'' sample_session = Some 3"
  "GetRemoteNetworkIdBySocketId 3 sample_session = ''local''" "smap_sorted (tr_remoteDevSocketIds sample_session)"
  by (simp_all add: sample_linked_def sample_session_def DHTransport_new_def IsDeviceSessionOpened_def IsIdLengthValid_def
      GetRemoteNetworkIdBySocketId_def smap_get_def smap_sorted_def)

lemma sample_own_facts:
  "cap_keyed (im_map (rs_cap sample_own))" "im_db (rs_local sample_own) \<noteq> None" "cap_keyed (im_map (rs_local sample_own))"
  "IsIdLengthValid ''local''"
  by (simp_all add: sample_own_def sample_resources_def keyed_map_def smap_get_def smap_sorted_def IsIdLengthValid_def)

theorem full_capabilities_arrive_witness:
  "\<exists>data m. OnBytesReceived model_cjson sample_bus 3 data sample_session = Some m \<and> cm_code m = DH_COMM_RSP_FULL_CAPS
     \<and> smap_get (im_map (rs_local (snd (ParseAndSaveRemoteDHCaps env_model (cm_msg m) sample_own)))) (CapabilityInfo_GetKey sample_cap) = Some sample_cap"
proof -
  have travels: "answer_travels (env_cj env_model) (hw_bus sample_hw) (hw_bus sample_hw) (own_answer env_model sample_own)"
    by (simp add: sample_own_answer sample_hw_def sample_travels)
  have len: "fc_caps (own_answer env_model sample_own) \<noteq> []" "length (fc_caps (own_answer env_model sample_own)) \<le> MAX_DB_RECORD_SIZE"
    by (simp_all add: sample_own_answer sample_rsp_def)
  have "GetRemoteNetworkIdBySocketId 3 sample_session \<noteq> []" by (simp add: sample_linked_facts)
  from full_capabilities_arrive [OF refl travels sample_linked_facts(1) sample_own_facts(4) sample_linked_facts(2)
      sample_own_facts(1) _ this sample_own_facts(2,3) len]
  show ?thesis by (fastforce simp: sample_own_answer sample_rsp_def sample_hw_def)
qed

theorem deferred_refresh_once_witness:
  "tasks_for (''net'', ''Camera_1'') (queued_tasks (snd (state_run sample_rand [(''net'', ''Camera_1'', BS_PAUSING), (''net'', ''Mic_1'', BS_IDLE),
       (''net'', ''Camera_1'', BS_IDLE), (''net'', ''Camera_1'', BS_IDLE)]
     (SaveNeedRefreshTask (full_task_param ''net'' ''uuid'' sample_cap) comp_mgr_new, task_sys_new))))
   = [(TaskType_ENABLE, full_task_param ''net'' ''uuid'' sample_cap)]"
proof -
  let ?evs = "[(''net'', ''Camera_1'', BS_PAUSING), (''net'', ''Mic_1'', BS_IDLE), (''net'', ''Camera_1'', BS_IDLE), (''net'', ''Camera_1'', BS_IDLE)]"
  let ?tp = "full_task_param ''net'' ''uuid'' sample_cap"
  have tp: "tp_networkId ?tp = ''net''" "tp_dhId ?tp = ''Camera_1''" by (simp_all add: full_task_param_def sample_cap_def)
  obtain m1 ts1 where run: "state_run sample_rand ?evs (SaveNeedRefreshTask ?tp comp_mgr_new, task_sys_new) = (m1, ts1)" by fastforce
  have valid: "\<forall>(n, d, st)\<in>set ?evs. IsIdLengthValid n \<and> IsIdLengthValid d" by (simp add: IsIdLengthValid_def)
  have "queue_ok task_sys_new" "length (ts_taskQueue task_sys_new) + length ?evs \<le> Suc MAX_TASK_QUEUE_LENGTH"
    by (simp_all add: queue_ok_def task_sys_new_def)
  from deferred_refresh_once [OF refresh_ok_new valid run this]
  have "tasks_for (''net'', ''Camera_1'') (queued_tasks ts1) = tasks_for (''net'', ''Camera_1'') (queued_tasks task_sys_new) @ [(TaskType_ENABLE, ?tp)]"
    by (simp add: tp)
  then show ?thesis unfolding run by (simp add: tasks_for_def queued_tasks_def task_sys_new_def)
qed

definition sample_receiver :: "kv_world resources" where
  "sample_receiver = sample_own\<lparr>rs_local := info_mgr_new\<rparr>"

lemma sample_receiver_parses: "ParseAndSaveRemoteDHCaps env_model (cm_msg (answer_msg model_cjson sample_rsp)) sample_receiver = (sample_rsp, sample_receiver)"
proof -
  have "snd (on_local (LocalMgr_AddCapability env_model (map Some (fc_caps sample_rsp))) sample_receiver) = sample_receiver"
    by (simp add: on_local_def LocalMgr_AddCapability_def sample_receiver_def info_mgr_new_def Let_def)
  with answer_parsed [of env_model, unfolded env_model_cj, OF model_cjson_laws model_create sample_rsp_encodable
      sample_rsp_prints_back [unfolded sample_rsp_json_def], of sample_receiver]
  show ?thesis by (simp add: answer_msg_def)
qed

theorem answer_refreshes_hardware_witness:
  "length (ts_heap (snd (snd (Comm_ProcessEvent env_model sample_hw sample_rand (Some (answer_msg model_cjson sample_rsp))
     (sample_linked, sample_receiver, task_sys_new))))) = 1"
proof -
  obtain c1 rs2 ts1 where run: "Comm_ProcessEvent env_model sample_hw sample_rand (Some (answer_msg model_cjson sample_rsp))
     (sample_linked, sample_receiver, task_sys_new) = (c1, rs2, ts1)" by (rule prod_cases3)
  have uuid: "''uuid'' = GetUUIDByNetworkId (sys_cx (rs_sys sample_receiver)) (fc_networkId sample_rsp)"
    by (simp add: sample_receiver_def sample_own_def sample_rsp_def GetUUIDByNetworkId_def IsIdLengthValid_def first_entry_def)
  have rsp: "IsIdLengthValid (fc_networkId sample_rsp)" "fc_caps sample_rsp \<noteq> []" "cm_code (answer_msg model_cjson sample_rsp) = DH_COMM_RSP_FULL_CAPS"
    by (simp_all add: sample_rsp_def IsIdLengthValid_def answer_msg_def)
  have "\<not> busy (fc_networkId sample_rsp) (cs_mgr sample_linked) sample_cap"
    by (simp add: busy_def QueryBusinessState_def sample_linked_def sample_comp_def comp_mgr_new_def)
  then have "length (ts_heap ts1) = length (ts_heap task_sys_new) + 1"
    using answer_refreshes_hardware [OF sample_receiver_parses rsp(3,1,2) sample_linked_facts(1,4) uuid _ run]
    by (simp add: sample_rsp_def)
  then show ?thesis by (simp add: run) (simp add: task_sys_new_def)
qed

end
