(* ===== verification/DHF_AvSync.thy ===== *)
theory DHF_AvSync
  imports DHF_Containers DHF_Json
begin

text \<open>
  The shared memory through which the engines of one device see each other's clock
  (\<open>av_transport/common/src/av_sync_utils.cpp\<close>): frame numbers and time stamps as little-endian bytes, the
  segment of one frame, and the ring of fifty clock units. A segment of anonymous shared memory is its bytes,
  found by its descriptor. Whether the system creates, protects and maps a segment is outside the repository
  and comes from \<open>shm_api\<close>. A byte outside a segment is not there: an operation that reads or writes one has
  the result \<open>None\<close>.
\<close>

unbundle bit_operations_syntax

abbreviation (input) DH_AVT_SUCCESS :: ret where "DH_AVT_SUCCESS \<equiv> 0"
abbreviation (input) ERR_DH_AVT_INVALID_PARAM :: ret where "ERR_DH_AVT_INVALID_PARAM \<equiv> - 80001"
abbreviation (input) ERR_DH_AVT_SHARED_MEMORY_FAILED :: ret where "ERR_DH_AVT_SHARED_MEMORY_FAILED \<equiv> - 80023"
abbreviation (input) ERR_DH_AVT_MASTER_NOT_READY :: ret where "ERR_DH_AVT_MASTER_NOT_READY \<equiv> - 80024"
abbreviation (input) MAX_CLOCK_UNIT_COUNT :: nat where "MAX_CLOCK_UNIT_COUNT \<equiv> 50"

section \<open>Numbers as bytes\<close>

definition U32ToU8 :: "32 word \<Rightarrow> byte list" where
  "U32ToU8 v = [ucast (v AND 0xff), ucast (drop_bit 8 v AND 0xff), ucast (drop_bit 16 v AND 0xff), ucast (drop_bit 24 v AND 0xff)]"

definition U64ToU8 :: "64 word \<Rightarrow> byte list" where
  "U64ToU8 v = [ucast (v AND 0xff), ucast (drop_bit 8 v AND 0xff), ucast (drop_bit 16 v AND 0xff), ucast (drop_bit 24 v AND 0xff),
     ucast (drop_bit 32 v AND 0xff), ucast (drop_bit 40 v AND 0xff), ucast (drop_bit 48 v AND 0xff), ucast (drop_bit 56 v AND 0xff)]"

definition U8ToU32 :: "byte list \<Rightarrow> 32 word" where
  "U8ToU32 p = ucast (p ! 0 AND 0xff) OR push_bit 8 (ucast (p ! 1 AND 0xff)) OR push_bit 16 (ucast (p ! 2 AND 0xff))
     OR push_bit 24 (ucast (p ! 3 AND 0xff))"

definition U8ToU64 :: "byte list \<Rightarrow> 64 word" where
  "U8ToU64 p = ucast (p ! 0 AND 0xff) OR push_bit 8 (ucast (p ! 1 AND 0xff)) OR push_bit 16 (ucast (p ! 2 AND 0xff))
     OR push_bit 24 (ucast (p ! 3 AND 0xff)) OR push_bit 32 (ucast (p ! 4 AND 0xff)) OR push_bit 40 (ucast (p ! 5 AND 0xff))
     OR push_bit 48 (ucast (p ! 6 AND 0xff)) OR push_bit 56 (ucast (p ! 7 AND 0xff))"

lemma low_byte: "(0xff :: 8 word) = mask 8" "(0xff :: 32 word) = mask 8" "(0xff :: 64 word) = mask 8"
  by (simp_all add: mask_eq_exp_minus_1)

lemma bit_byte32:
  "bit (push_bit k (ucast ((ucast (drop_bit k v AND 0xff) :: 8 word) AND 0xff)) :: 32 word) n \<longleftrightarrow> k \<le> n \<and> n < k + 8 \<and> bit v n"
  for v :: "32 word"
proof -
  have "bit v n \<Longrightarrow> n < 32" using bit_imp_le_length by fastforce
  then show ?thesis by (auto simp: low_byte bit_simps)
qed

lemma bit_byte64:
  "bit (push_bit k (ucast ((ucast (drop_bit k v AND 0xff) :: 8 word) AND 0xff)) :: 64 word) n \<longleftrightarrow> k \<le> n \<and> n < k + 8 \<and> bit v n"
  for v :: "64 word"
proof -
  have "bit v n \<Longrightarrow> n < 64" using bit_imp_le_length by fastforce
  then show ?thesis by (auto simp: low_byte bit_simps)
qed

lemmas bit_byte32_0 = bit_byte32 [of 0, simplified push_bit_0_id drop_bit_0 id_apply]
lemmas bit_byte64_0 = bit_byte64 [of 0, simplified push_bit_0_id drop_bit_0 id_apply]

lemma U32ToU8_nth:
  "(U32ToU8 v @ rest) ! 0 = ucast (v AND 0xff)" "(U32ToU8 v @ rest) ! 1 = ucast (drop_bit 8 v AND 0xff)"
  "(U32ToU8 v @ rest) ! 2 = ucast (drop_bit 16 v AND 0xff)" "(U32ToU8 v @ rest) ! 3 = ucast (drop_bit 24 v AND 0xff)"
  by (simp_all add: U32ToU8_def nth_append)

lemma U64ToU8_nth:
  "(U64ToU8 v @ rest) ! 0 = ucast (v AND 0xff)" "(U64ToU8 v @ rest) ! 1 = ucast (drop_bit 8 v AND 0xff)"
  "(U64ToU8 v @ rest) ! 2 = ucast (drop_bit 16 v AND 0xff)" "(U64ToU8 v @ rest) ! 3 = ucast (drop_bit 24 v AND 0xff)"
  "(U64ToU8 v @ rest) ! 4 = ucast (drop_bit 32 v AND 0xff)" "(U64ToU8 v @ rest) ! 5 = ucast (drop_bit 40 v AND 0xff)"
  "(U64ToU8 v @ rest) ! 6 = ucast (drop_bit 48 v AND 0xff)" "(U64ToU8 v @ rest) ! 7 = ucast (drop_bit 56 v AND 0xff)"
  by (simp_all add: U64ToU8_def nth_append)

lemma U32_bytes [simp]: "U8ToU32 (U32ToU8 v @ rest) = v"
proof (rule bit_word_eqI)
  fix n assume n: "n < LENGTH(32)"
  show "bit (U8ToU32 (U32ToU8 v @ rest)) n \<longleftrightarrow> bit v n"
    using n by (simp only: U8ToU32_def bit_or_iff U32ToU8_nth bit_byte32 bit_byte32_0) auto
qed

lemma U64_bytes [simp]: "U8ToU64 (U64ToU8 v @ rest) = v"
proof (rule bit_word_eqI)
  fix n assume "n < LENGTH(64)"
  then have n: "n < 64" by simp
  have "bit (U8ToU64 (U64ToU8 v @ rest)) n \<longleftrightarrow> (n < 8 \<or> (8 \<le> n \<and> n < 16) \<or> (16 \<le> n \<and> n < 24) \<or> (24 \<le> n \<and> n < 32)
      \<or> (32 \<le> n \<and> n < 40) \<or> (40 \<le> n \<and> n < 48) \<or> (48 \<le> n \<and> n < 56) \<or> (56 \<le> n \<and> n < 64)) \<and> bit v n"
    by (simp only: U8ToU64_def bit_or_iff U64ToU8_nth bit_byte64 bit_byte64_0) (cases "bit v n"; simp)
  moreover have "n < 8 \<or> (8 \<le> n \<and> n < 16) \<or> (16 \<le> n \<and> n < 24) \<or> (24 \<le> n \<and> n < 32)
      \<or> (32 \<le> n \<and> n < 40) \<or> (40 \<le> n \<and> n < 48) \<or> (48 \<le> n \<and> n < 56) \<or> (56 \<le> n \<and> n < 64)" using n by linarith
  ultimately show "bit (U8ToU64 (U64ToU8 v @ rest)) n \<longleftrightarrow> bit v n" by blast
qed

lemma U64_bytes_only [simp]: "U8ToU64 (U64ToU8 v) = v"
  using U64_bytes [of v "[]"] by simp

lemma length_U8 [simp]: "length (U32ToU8 v) = 4" "length (U64ToU8 w) = 8"
  by (simp_all add: U32ToU8_def U64ToU8_def)

section \<open>Segments\<close>

record shared_memory =
  sm_fd :: int
  sm_size :: int
  sm_name :: string

record clock_unit =
  cu_index :: "32 word"
  cu_frameNum :: "32 word"
  cu_pts :: "64 word"

type_synonym segments = "(int, byte list) smap"

text \<open>
  The system's calls. \<open>sh_mmap\<close> tells whether a descriptor can be mapped and is the same for every call, although each
  access maps the segment anew and no mapping is ever removed: that a process runs out of mappings is outside of the model.
\<close>

record shm_api =
  sh_Create :: "string \<Rightarrow> nat \<Rightarrow> segments \<Rightarrow> int"
  sh_SetProt :: "int \<Rightarrow> int"
  sh_mmap :: "int \<Rightarrow> bool"
  sh_memset :: "nat \<Rightarrow> bool"

definition IsInValidSharedMemory :: "shared_memory \<Rightarrow> bool" where
  "IsInValidSharedMemory m \<longleftrightarrow> sm_fd m \<le> 0 \<or> sm_size m \<le> 0 \<or> sm_name m = []"

text \<open>The index and the frame number are unsigned: \<open>index < 0\<close> never holds, and \<open>frameNum <= 0\<close> means zero.\<close>

definition IsInValidClockUnit :: "clock_unit \<Rightarrow> bool" where
  "IsInValidClockUnit u \<longleftrightarrow> cu_index u < 0 \<or> cu_index u \<ge> of_nat MAX_CLOCK_UNIT_COUNT \<or> cu_frameNum u \<le> 0 \<or> sint (cu_pts u) \<le> 0"

definition CreateAVTransSharedMemory :: "shm_api \<Rightarrow> string \<Rightarrow> nat \<Rightarrow> segments \<Rightarrow> shared_memory \<times> segments" where
  "CreateAVTransSharedMemory A name sz ss =
     (let fd = sh_Create A name sz ss; none = \<lparr> sm_fd = 0, sm_size = 0, sm_name = name \<rparr> in
      if fd \<le> 0 then (none, ss)
      else if sh_SetProt A fd < 0 then (none, smap_erase fd ss)
      else if \<not> sh_mmap A fd then (none, smap_erase fd ss)
      else if \<not> sh_memset A sz then (none, smap_erase fd ss)
      else (\<lparr> sm_fd = fd, sm_size = int sz, sm_name = name \<rparr>, smap_put fd (replicate sz 0) ss))"

definition CloseAVTransSharedMemory :: "shared_memory \<Rightarrow> segments \<Rightarrow> segments" where
  "CloseAVTransSharedMemory m ss =
     (if IsInValidSharedMemory m then ss else if sm_fd m > 0 then smap_erase (sm_fd m) ss else ss)"

text \<open>
  The checks that every access begins with: the size that the system knows, the protection and the mapping.
  A descriptor that is not open has the size -1.
\<close>

definition AshmemGetSize :: "int \<Rightarrow> segments \<Rightarrow> int" where
  "AshmemGetSize fd ss = (case smap_get ss fd of None \<Rightarrow> - 1 | Some b \<Rightarrow> int (length b))"

definition map_segment :: "shm_api \<Rightarrow> shared_memory \<Rightarrow> segments \<Rightarrow> ret + byte list" where
  "map_segment A m ss =
     (if AshmemGetSize (sm_fd m) ss \<noteq> sm_size m then Inl ERR_DH_AVT_SHARED_MEMORY_FAILED
      else if sh_SetProt A (sm_fd m) < 0 then Inl ERR_DH_AVT_SHARED_MEMORY_FAILED
      else if \<not> sh_mmap A (sm_fd m) then Inl ERR_DH_AVT_SHARED_MEMORY_FAILED
      else case smap_get ss (sm_fd m) of None \<Rightarrow> Inl ERR_DH_AVT_SHARED_MEMORY_FAILED | Some b \<Rightarrow> Inr b)"

definition poke :: "nat \<Rightarrow> byte list \<Rightarrow> byte list \<Rightarrow> byte list option" where
  "poke off bs mem = (if off + length bs \<le> length mem then Some (take off mem @ bs @ drop (off + length bs) mem) else None)"

definition peek32 :: "nat \<Rightarrow> byte list \<Rightarrow> 32 word option" where
  "peek32 off mem = (if off + 4 \<le> length mem then Some (U8ToU32 (drop off mem)) else None)"

definition peek64 :: "nat \<Rightarrow> byte list \<Rightarrow> 64 word option" where
  "peek64 off mem = (if off + 8 \<le> length mem then Some (U8ToU64 (drop off mem)) else None)"

abbreviation (input) UNIT_SIZE :: nat where "UNIT_SIZE \<equiv> 12"

section \<open>Frames and clock units\<close>

definition WriteFrameInfoToMemory ::
  "shm_api \<Rightarrow> shared_memory \<Rightarrow> 32 word \<Rightarrow> 64 word \<Rightarrow> segments \<Rightarrow> (ret \<times> segments) option" where
  "WriteFrameInfoToMemory A m frameNum timestamp ss =
     (if IsInValidSharedMemory m then Some (ERR_DH_AVT_INVALID_PARAM, ss)
      else if frameNum \<le> 0 then Some (ERR_DH_AVT_INVALID_PARAM, ss)
      else case map_segment A m ss of
        Inl e \<Rightarrow> Some (e, ss)
      | Inr b \<Rightarrow>
          (case poke 0 (U32ToU8 frameNum) b of
             None \<Rightarrow> None
           | Some b1 \<Rightarrow>
               (case poke 4 (U64ToU8 timestamp) b1 of
                  None \<Rightarrow> None
                | Some b2 \<Rightarrow> Some (DH_AVT_SUCCESS, smap_put (sm_fd m) b2 ss))))"

text \<open>The two values are stored in the caller's variables also when the frame number is zero.\<close>

definition ReadFrameInfoFromMemory ::
  "shm_api \<Rightarrow> shared_memory \<Rightarrow> 32 word \<times> 64 word \<Rightarrow> segments \<Rightarrow> (ret \<times> 32 word \<times> 64 word) option" where
  "ReadFrameInfoFromMemory A m old ss =
     (if IsInValidSharedMemory m then Some (ERR_DH_AVT_INVALID_PARAM, old)
      else case map_segment A m ss of
        Inl e \<Rightarrow> Some (e, old)
      | Inr b \<Rightarrow>
          (case (peek32 0 b, peek64 4 b) of
             (Some frameNum, Some timestamp) \<Rightarrow>
               Some (if frameNum \<le> 0 then ERR_DH_AVT_MASTER_NOT_READY else DH_AVT_SUCCESS, frameNum, timestamp)
           | _ \<Rightarrow> None))"

definition ResetSharedMemory :: "shm_api \<Rightarrow> shared_memory \<Rightarrow> segments \<Rightarrow> ret \<times> segments" where
  "ResetSharedMemory A m ss =
     (if IsInValidSharedMemory m then (ERR_DH_AVT_INVALID_PARAM, ss)
      else case map_segment A m ss of
        Inl e \<Rightarrow> (e, ss)
      | Inr b \<Rightarrow>
          if \<not> sh_memset A (length b) then (ERR_DH_AVT_SHARED_MEMORY_FAILED, ss)
          else (DH_AVT_SUCCESS, smap_put (sm_fd m) (replicate (length b) 0) ss))"

definition WriteClockUnitToMemory ::
  "shm_api \<Rightarrow> shared_memory \<Rightarrow> clock_unit \<Rightarrow> segments \<Rightarrow> (ret \<times> clock_unit \<times> segments) option" where
  "WriteClockUnitToMemory A m u ss =
     (if IsInValidSharedMemory m then Some (ERR_DH_AVT_INVALID_PARAM, u, ss)
      else if IsInValidClockUnit u then Some (ERR_DH_AVT_INVALID_PARAM, u, ss)
      else case map_segment A m ss of
        Inl e \<Rightarrow> Some (e, u, ss)
      | Inr b \<Rightarrow>
          (let fOffset = UNIT_SIZE * unat (cu_index u); tOffset = fOffset + 4 in
           case poke tOffset (U64ToU8 (cu_pts u)) b of
             None \<Rightarrow> None
           | Some b1 \<Rightarrow>
               (case poke fOffset (U32ToU8 (cu_frameNum u)) b1 of
                  None \<Rightarrow> None
                | Some b2 \<Rightarrow>
                    (let i = cu_index u + 1 in
                     Some (DH_AVT_SUCCESS, u\<lparr>cu_index := (if i = of_nat MAX_CLOCK_UNIT_COUNT then 0 else i)\<rparr>,
                       smap_put (sm_fd m) b2 ss)))))"

text \<open>The loop over the slots keeps the unit with the largest time stamp.\<close>

fun read_units :: "nat \<Rightarrow> nat \<Rightarrow> byte list \<Rightarrow> 64 word \<times> clock_unit \<Rightarrow> (64 word \<times> clock_unit) option" where
  "read_units 0 i b st = Some st"
| "read_units (Suc n) i b (latest, u) =
     (case (peek32 (i * UNIT_SIZE) b, peek64 (i * UNIT_SIZE + 4) b) of
        (Some frameNum, Some pts) \<Rightarrow>
          read_units n (Suc i) b (if sint pts > sint latest then (pts, u\<lparr>cu_pts := pts, cu_frameNum := frameNum\<rparr>) else (latest, u))
      | _ \<Rightarrow> None)"

definition ReadClockUnitFromMemory ::
  "shm_api \<Rightarrow> shared_memory \<Rightarrow> clock_unit \<Rightarrow> segments \<Rightarrow> (ret \<times> clock_unit) option" where
  "ReadClockUnitFromMemory A m u ss =
     (if IsInValidSharedMemory m then Some (ERR_DH_AVT_INVALID_PARAM, u)
      else if cu_frameNum u \<le> 0 then Some (ERR_DH_AVT_INVALID_PARAM, u)
      else case map_segment A m ss of
        Inl e \<Rightarrow> Some (e, u)
      | Inr b \<Rightarrow>
          (case peek32 0 b of
             None \<Rightarrow> None
           | Some firstUnit \<Rightarrow>
               if firstUnit = 0 then Some (ERR_DH_AVT_MASTER_NOT_READY, u)
               else map_option (\<lambda>st. (DH_AVT_SUCCESS, snd st)) (read_units MAX_CLOCK_UNIT_COUNT 0 b (0, u))))"

section \<open>One frame\<close>

text \<open>A segment that is open with the given bytes and that the system maps.\<close>

definition segment_ready :: "shm_api \<Rightarrow> shared_memory \<Rightarrow> segments \<Rightarrow> byte list \<Rightarrow> bool" where
  "segment_ready A m ss b \<longleftrightarrow> \<not> IsInValidSharedMemory m \<and> smap_sorted ss \<and> smap_get ss (sm_fd m) = Some b
     \<and> sm_size m = int (length b) \<and> 0 \<le> sh_SetProt A (sm_fd m) \<and> sh_mmap A (sm_fd m)"

lemma map_segment_ready: "segment_ready A m ss b \<Longrightarrow> map_segment A m ss = Inr b"
  by (auto simp: segment_ready_def map_segment_def AshmemGetSize_def)

lemma segment_ready_put:
  "segment_ready A m ss b \<Longrightarrow> length b1 = length b \<Longrightarrow> segment_ready A m (smap_put (sm_fd m) b1 ss) b1"
  by (auto simp: segment_ready_def)

lemma poke_length: "poke off bs b = Some b1 \<Longrightarrow> length b1 = length b"
  by (auto simp: poke_def split: if_splits)

lemma drop_poke: "poke off bs b = Some b1 \<Longrightarrow> drop off b1 = bs @ drop (off + length bs) b"
  by (auto simp: poke_def split: if_splits)

lemma take_poke: "poke off bs b = Some b1 \<Longrightarrow> take off b1 = take off b"
  by (auto simp: poke_def split: if_splits)

text \<open>
  A frame that one engine writes into a segment of twelve bytes is the frame that another engine
  reads from it, for every frame number but zero and every time stamp.
\<close>

theorem frame_info_round_trip:
  assumes ready: "segment_ready A m ss b" and "length b = UNIT_SIZE" and "frameNum \<noteq> 0"
  shows "\<exists>ss1. WriteFrameInfoToMemory A m frameNum timestamp ss = Some (DH_AVT_SUCCESS, ss1)
    \<and> ReadFrameInfoFromMemory A m old ss1 = Some (DH_AVT_SUCCESS, frameNum, timestamp)"
proof -
  let ?b = "U32ToU8 frameNum @ U64ToU8 timestamp"
  have b1: "poke 0 (U32ToU8 frameNum) b = Some (U32ToU8 frameNum @ drop 4 b)" using assms(2) by (simp add: poke_def)
  have b2: "poke 4 (U64ToU8 timestamp) (U32ToU8 frameNum @ drop 4 b) = Some ?b" using assms(2) by (simp add: poke_def)
  have inv: "\<not> IsInValidSharedMemory m" using ready by (simp add: segment_ready_def)
  have "segment_ready A m (smap_put (sm_fd m) ?b ss) ?b" by (rule segment_ready_put [OF ready]) (simp add: assms(2))
  then have "ReadFrameInfoFromMemory A m old (smap_put (sm_fd m) ?b ss) = Some (DH_AVT_SUCCESS, frameNum, timestamp)"
    using inv assms(3) by (simp add: ReadFrameInfoFromMemory_def map_segment_ready peek32_def peek64_def word_le_nat_alt unat_eq_0)
  with inv assms(3) b1 b2 show ?thesis
    by (simp add: WriteFrameInfoToMemory_def map_segment_ready [OF ready] word_le_nat_alt unat_eq_0)
qed

section \<open>The ring of clock units\<close>

definition slot :: "nat \<Rightarrow> byte list \<Rightarrow> 32 word \<times> 64 word" where
  "slot i b = (U8ToU32 (drop (UNIT_SIZE * i) b), U8ToU64 (drop (UNIT_SIZE * i + 4) b))"

abbreviation (input) RING_SIZE :: nat where "RING_SIZE \<equiv> 600"

lemma slot_cong:
  assumes "length b = RING_SIZE" "length b' = RING_SIZE" "j < MAX_CLOCK_UNIT_COUNT"
    and "\<And>n. UNIT_SIZE * j \<le> n \<Longrightarrow> n < UNIT_SIZE * j + UNIT_SIZE \<Longrightarrow> b' ! n = b ! n"
  shows "slot j b' = slot j b"
  using assms by (simp add: slot_def U8ToU32_def U8ToU64_def nth_drop add.commute)

definition with_unit :: "nat \<Rightarrow> 32 word \<times> 64 word \<Rightarrow> byte list \<Rightarrow> byte list" where
  "with_unit i u b = take (UNIT_SIZE * i) b @ U32ToU8 (fst u) @ U64ToU8 (snd u) @ drop (UNIT_SIZE * i + UNIT_SIZE) b"

lemma length_with_unit: "length b = RING_SIZE \<Longrightarrow> i < MAX_CLOCK_UNIT_COUNT \<Longrightarrow> length (with_unit i u b) = RING_SIZE"
  by (simp add: with_unit_def)

lemma slot_with_unit:
  assumes "length b = RING_SIZE" "i < MAX_CLOCK_UNIT_COUNT" "j < MAX_CLOCK_UNIT_COUNT"
  shows "slot j (with_unit i u b) = (if j = i then u else slot j b)"
proof (cases "j = i")
  case True
  have l: "length (take (UNIT_SIZE * i) b) = UNIT_SIZE * i" using assms by simp
  have "drop (UNIT_SIZE * i) (with_unit i u b) = U32ToU8 (fst u) @ U64ToU8 (snd u) @ drop (UNIT_SIZE * i + UNIT_SIZE) b"
    using l by (simp add: with_unit_def)
  moreover have "drop (UNIT_SIZE * i + 4) (with_unit i u b) = U64ToU8 (snd u) @ drop (UNIT_SIZE * i + UNIT_SIZE) b"
    using l by (simp add: with_unit_def)
  ultimately show ?thesis by (simp add: slot_def True)
next
  case False
  have "with_unit i u b ! n = b ! n" if n: "UNIT_SIZE * j \<le> n" "n < UNIT_SIZE * j + UNIT_SIZE" for n
  proof (cases "j < i")
    case True
    with n assms have "n < UNIT_SIZE * i" "UNIT_SIZE * i \<le> length b" by auto
    then show ?thesis by (simp add: with_unit_def nth_append)
  next
    case False
    with \<open>j \<noteq> i\<close> n assms have "UNIT_SIZE * i + UNIT_SIZE \<le> n" "UNIT_SIZE * i + UNIT_SIZE \<le> length b" by auto
    moreover have "with_unit i u b = (take (UNIT_SIZE * i) b @ U32ToU8 (fst u) @ U64ToU8 (snd u)) @ drop (UNIT_SIZE * i + UNIT_SIZE) b"
      by (simp add: with_unit_def)
    moreover have "length (take (UNIT_SIZE * i) b @ U32ToU8 (fst u) @ U64ToU8 (snd u)) = UNIT_SIZE * i + UNIT_SIZE" using assms by simp
    ultimately show ?thesis by (metis le_add_diff_inverse nth_append_right nth_drop not_le)
  qed
  with False show ?thesis
    by (simp add: slot_cong [OF assms(1) length_with_unit [OF assms(1,2)] assms(3)])
qed

lemma poke_unit:
  assumes "length b = RING_SIZE" "i < MAX_CLOCK_UNIT_COUNT"
  shows "\<exists>b1. poke (UNIT_SIZE * i + 4) (U64ToU8 p) b = Some b1 \<and> poke (UNIT_SIZE * i) (U32ToU8 f) b1 = Some (with_unit i (f, p) b)"
proof -
  let ?b1 = "take (UNIT_SIZE * i + 4) b @ U64ToU8 p @ drop (UNIT_SIZE * i + UNIT_SIZE) b"
  have "poke (UNIT_SIZE * i + 4) (U64ToU8 p) b = Some ?b1" using assms by (simp add: poke_def add.commute)
  moreover have "take (UNIT_SIZE * i) ?b1 = take (UNIT_SIZE * i) b" "drop (UNIT_SIZE * i + 4) ?b1 = U64ToU8 p @ drop (UNIT_SIZE * i + UNIT_SIZE) b"
    "length ?b1 = RING_SIZE" using assms by (simp_all add: ac_simps)
  ultimately show ?thesis using assms by (simp add: poke_def with_unit_def)
qed

text \<open>The units that a master has written, in order; the writer keeps the index from one call to the next.\<close>

fun write_clock :: "shm_api \<Rightarrow> shared_memory \<Rightarrow> (32 word \<times> 64 word) list \<Rightarrow> clock_unit \<times> segments \<Rightarrow> (clock_unit \<times> segments) option" where
  "write_clock A m [] st = Some st"
| "write_clock A m (x # xs) (u, ss) =
     (case WriteClockUnitToMemory A m (u\<lparr>cu_frameNum := fst x, cu_pts := snd x\<rparr>) ss of
        None \<Rightarrow> None
      | Some (r, u1, ss1) \<Rightarrow> write_clock A m xs (u1, ss1))"

definition unit_ok :: "32 word \<times> 64 word \<Rightarrow> bool" where
  "unit_ok x \<longleftrightarrow> fst x \<noteq> 0 \<and> 0 < sint (snd x)"

text \<open>
  The ring after the units \<open>h\<close>: a slot is empty or holds one of them, the first slot holds one as soon as there
  is one, and the slot before the index holds the last one.
\<close>

definition ring_ok :: "(32 word \<times> 64 word) list \<Rightarrow> nat \<Rightarrow> byte list \<Rightarrow> bool" where
  "ring_ok h i b \<longleftrightarrow> length b = RING_SIZE \<and> i < MAX_CLOCK_UNIT_COUNT
     \<and> (\<forall>j < MAX_CLOCK_UNIT_COUNT. slot j b \<in> set h \<or> slot j b = (0, 0))
     \<and> (h = [] \<longrightarrow> i = 0) \<and> (h \<noteq> [] \<longrightarrow> slot 0 b \<in> set h \<and> (\<exists>j < MAX_CLOCK_UNIT_COUNT. slot j b = last h))"

lemma slot_zero: "slot j (replicate n 0) = (0, 0)" if "UNIT_SIZE * j + UNIT_SIZE \<le> n"
  using that by (simp add: slot_def U8ToU32_def U8ToU64_def)

lemma ring_ok_empty: "ring_ok [] 0 (replicate RING_SIZE 0)"
  by (simp add: ring_ok_def slot_zero)

lemma ring_ok_write:
  assumes "ring_ok h i b"
  shows "ring_ok (h @ [x]) (if Suc i = MAX_CLOCK_UNIT_COUNT then 0 else Suc i) (with_unit i x b)"
proof -
  from assms have b: "length b = RING_SIZE" and i: "i < MAX_CLOCK_UNIT_COUNT" by (simp_all add: ring_ok_def)
  note slots = slot_with_unit [OF b i]
  have "\<forall>j < MAX_CLOCK_UNIT_COUNT. slot j (with_unit i x b) \<in> set (h @ [x]) \<or> slot j (with_unit i x b) = (0, 0)"
    using assms by (auto simp: slots ring_ok_def)
  moreover have "slot 0 (with_unit i x b) \<in> set (h @ [x])" using assms by (auto simp: slots ring_ok_def)
  moreover have "slot i (with_unit i x b) = x" using i by (simp add: slots)
  ultimately show ?thesis using i length_with_unit [OF b i] by (auto simp: ring_ok_def)
qed

lemma unat_index_next:
  assumes "unat (i :: 32 word) < MAX_CLOCK_UNIT_COUNT"
  shows "unat (if i + 1 = of_nat MAX_CLOCK_UNIT_COUNT then 0 else i + 1) = (if Suc (unat i) = MAX_CLOCK_UNIT_COUNT then 0 else Suc (unat i))"
proof -
  have "unat (i + 1) = Suc (unat i)" using assms by (simp add: unat_word_ariths)
  moreover have "i + 1 = of_nat MAX_CLOCK_UNIT_COUNT \<longleftrightarrow> unat (i + 1) = MAX_CLOCK_UNIT_COUNT"
    by (simp add: word_unat_eq_iff)
  ultimately show ?thesis by simp
qed

lemma write_unit_step:
  assumes ready: "segment_ready A m ss b" and ring: "ring_ok h (unat (cu_index u)) b" and x: "unit_ok x"
  shows "\<exists>u1 b1. WriteClockUnitToMemory A m (u\<lparr>cu_frameNum := fst x, cu_pts := snd x\<rparr>) ss = Some (DH_AVT_SUCCESS, u1, smap_put (sm_fd m) b1 ss)
    \<and> segment_ready A m (smap_put (sm_fd m) b1 ss) b1 \<and> ring_ok (h @ [x]) (unat (cu_index u1)) b1"
proof -
  let ?i = "unat (cu_index u)" and ?b1 = "with_unit (unat (cu_index u)) x b"
  from ring have i: "?i < MAX_CLOCK_UNIT_COUNT" and b: "length b = RING_SIZE" by (simp_all add: ring_ok_def)
  let ?u1 = "u\<lparr>cu_frameNum := fst x, cu_pts := snd x, cu_index := (if cu_index u + 1 = of_nat MAX_CLOCK_UNIT_COUNT then 0 else cu_index u + 1)\<rparr>"
  have "\<not> IsInValidClockUnit (u\<lparr>cu_frameNum := fst x, cu_pts := snd x\<rparr>)"
    using i x by (simp add: IsInValidClockUnit_def unit_ok_def word_le_nat_alt unat_eq_0)
  moreover have "\<not> IsInValidSharedMemory m" using ready by (simp add: segment_ready_def)
  moreover obtain b0 where "poke (UNIT_SIZE * ?i + 4) (U64ToU8 (snd x)) b = Some b0" "poke (UNIT_SIZE * ?i) (U32ToU8 (fst x)) b0 = Some ?b1"
    using poke_unit [OF b i, of "snd x" "fst x"] by auto
  ultimately have "WriteClockUnitToMemory A m (u\<lparr>cu_frameNum := fst x, cu_pts := snd x\<rparr>) ss = Some (DH_AVT_SUCCESS, ?u1, smap_put (sm_fd m) ?b1 ss)"
    by (simp add: WriteClockUnitToMemory_def map_segment_ready [OF ready])
  moreover have "segment_ready A m (smap_put (sm_fd m) ?b1 ss) ?b1"
    by (rule segment_ready_put [OF ready]) (simp add: length_with_unit [OF b i] b)
  moreover have "ring_ok (h @ [x]) (unat (cu_index ?u1)) ?b1"
    using ring_ok_write [OF ring, of x] unat_index_next [OF i] by simp
  ultimately show ?thesis by blast
qed

lemma write_clock_ring:
  assumes "segment_ready A m ss b" "ring_ok h (unat (cu_index u)) b" "list_all unit_ok xs"
  shows "\<exists>u1 ss1 b1. write_clock A m xs (u, ss) = Some (u1, ss1) \<and> segment_ready A m ss1 b1 \<and> ring_ok (h @ xs) (unat (cu_index u1)) b1"
  using assms
proof (induction xs arbitrary: h u ss b)
  case (Cons x xs)
  from Cons.prems(3) have x: "unit_ok x" and xs: "list_all unit_ok xs" by simp_all
  from write_unit_step [OF Cons.prems(1,2) x] obtain u1 b1 where
    w: "WriteClockUnitToMemory A m (u\<lparr>cu_frameNum := fst x, cu_pts := snd x\<rparr>) ss = Some (DH_AVT_SUCCESS, u1, smap_put (sm_fd m) b1 ss)"
    and ok: "segment_ready A m (smap_put (sm_fd m) b1 ss) b1" "ring_ok (h @ [x]) (unat (cu_index u1)) b1" by blast
  from Cons.IH [OF ok xs] show ?case by (simp add: w)
qed auto

text \<open>Reading: the largest time stamp of the slots from \<open>i\<close> on, against the one found so far.\<close>

lemma peek_slot:
  "length b = RING_SIZE \<Longrightarrow> i < MAX_CLOCK_UNIT_COUNT \<Longrightarrow> peek32 (i * UNIT_SIZE) b = Some (fst (slot i b)) \<and> peek64 (i * UNIT_SIZE + 4) b = Some (snd (slot i b))"
  by (simp add: peek32_def peek64_def slot_def mult.commute)

lemma read_units_max:
  assumes "length b = RING_SIZE" "i + n = MAX_CLOCK_UNIT_COUNT"
    and "\<forall>j. i \<le> j \<and> j < MAX_CLOCK_UNIT_COUNT \<longrightarrow> slot j b = x \<or> sint (snd (slot j b)) < sint (snd x)"
    and "(\<exists>j. i \<le> j \<and> j < MAX_CLOCK_UNIT_COUNT \<and> slot j b = x) \<and> sint latest < sint (snd x)
      \<or> latest = snd x \<and> cu_frameNum u = fst x \<and> cu_pts u = snd x"
  shows "read_units n i b (latest, u) = Some (snd x, u\<lparr>cu_pts := snd x, cu_frameNum := fst x\<rparr>)"
  using assms
proof (induction n arbitrary: i latest u)
  case 0
  then show ?case by auto
next
  case (Suc n)
  then have i: "i < MAX_CLOCK_UNIT_COUNT" by simp
  note pk = peek_slot [OF Suc.prems(1) i]
  have rest: "\<forall>j. Suc i \<le> j \<and> j < MAX_CLOCK_UNIT_COUNT \<longrightarrow> slot j b = x \<or> sint (snd (slot j b)) < sint (snd x)"
    using Suc.prems(3) by auto
  have IH: "read_units n (Suc i) b (l, v) = Some (snd x, v\<lparr>cu_pts := snd x, cu_frameNum := fst x\<rparr>)"
    if "(\<exists>j. Suc i \<le> j \<and> j < MAX_CLOCK_UNIT_COUNT \<and> slot j b = x) \<and> sint l < sint (snd x)
      \<or> l = snd x \<and> cu_frameNum v = fst x \<and> cu_pts v = snd x" for l v
    using Suc.prems(2) by (intro Suc.IH [OF Suc.prems(1) _ rest that]) simp
  consider (found) "latest = snd x" "cu_frameNum u = fst x" "cu_pts u = snd x"
    | (here) "sint latest < sint (snd x)" "slot i b = x"
    | (later) "sint latest < sint (snd x)" "sint (snd (slot i b)) < sint (snd x)" "\<exists>j. Suc i \<le> j \<and> j < MAX_CLOCK_UNIT_COUNT \<and> slot j b = x"
    using Suc.prems(3,4) i by (metis le_eq_less_or_eq Suc_leI)
  then show ?case
  proof cases
    case found
    moreover have "\<not> sint latest < sint (snd (slot i b))" using found Suc.prems(3) i by (metis le_refl less_asym less_irrefl)
    ultimately show ?thesis using pk IH [of latest u] by simp
  next
    case here
    then show ?thesis using pk IH [of "snd x" "u\<lparr>cu_pts := snd x, cu_frameNum := fst x\<rparr>"] by simp
  next
    case later
    let ?v = "u\<lparr>cu_pts := snd (slot i b), cu_frameNum := fst (slot i b)\<rparr>"
    show ?thesis
      using pk later IH [of latest u] IH [of "snd (slot i b)" ?v] by (simp del: read_units.simps add: read_units.simps(2))
  qed
qed

text \<open>
  Property C31. The ring of clock units gives the latest clock of the master: for any sequence of valid units with
  growing time stamps, however often the index wraps around, every write stays inside the segment and
  succeeds, and a slave that reads afterwards gets the last unit that was written.
\<close>

theorem latest_clock_is_read:
  assumes "segment_ready A m ss (replicate RING_SIZE 0)" and "cu_index u = 0" and "xs \<noteq> []" and "list_all unit_ok xs"
    and "sorted_wrt (\<lambda>x y. sint (snd x) < sint (snd y)) xs" and "cu_frameNum v \<noteq> 0"
  shows "\<exists>u1 ss1. write_clock A m xs (u, ss) = Some (u1, ss1)
    \<and> ReadClockUnitFromMemory A m v ss1 = Some (DH_AVT_SUCCESS, v\<lparr>cu_pts := snd (last xs), cu_frameNum := fst (last xs)\<rparr>)"
proof -
  have "ring_ok [] (unat (cu_index u)) (replicate RING_SIZE 0)" using ring_ok_empty assms(2) by simp
  from write_clock_ring [OF assms(1) this assms(4)] obtain u1 ss1 b where
    w: "write_clock A m xs (u, ss) = Some (u1, ss1)" and ready: "segment_ready A m ss1 b" and ring: "ring_ok xs (unat (cu_index u1)) b"
    by auto
  from ring assms(3) obtain k where b: "length b = RING_SIZE" and slots: "\<forall>j < MAX_CLOCK_UNIT_COUNT. slot j b \<in> set xs \<or> slot j b = (0, 0)"
    and first: "slot 0 b \<in> set xs" and k: "k < MAX_CLOCK_UNIT_COUNT" "slot k b = last xs" by (auto simp: ring_ok_def)
  have pos: "0 < sint (snd (last xs))" using assms(3,4) by (simp add: list_all_iff unit_ok_def)
  have below: "x = last xs \<or> sint (snd x) < sint (snd (last xs))" if "x \<in> set xs" for x
  proof -
    have "sorted_wrt (\<lambda>x y. sint (snd x) < sint (snd y)) (butlast xs @ [last xs])" using assms(3,5) by simp
    moreover from that assms(3) have "x \<in> set (butlast xs @ [last xs])" by simp
    ultimately show ?thesis by (auto simp only: sorted_wrt_append set_append list.set)
  qed
  have "\<forall>j. 0 \<le> j \<and> j < MAX_CLOCK_UNIT_COUNT \<longrightarrow> slot j b = last xs \<or> sint (snd (slot j b)) < sint (snd (last xs))"
    using slots below pos by (metis sint_0 snd_conv)
  then have "read_units MAX_CLOCK_UNIT_COUNT 0 b (0, v) = Some (snd (last xs), v\<lparr>cu_pts := snd (last xs), cu_frameNum := fst (last xs)\<rparr>)"
    using k pos by (intro read_units_max [OF b]) (auto simp del: read_units.simps)
  moreover have "fst (slot 0 b) \<noteq> 0" using first assms(4) by (auto simp: list_all_iff unit_ok_def)
  moreover have "peek32 0 b = Some (fst (slot 0 b))" using peek_slot [OF b, of 0] by simp
  moreover have "\<not> IsInValidSharedMemory m" using ready by (simp add: segment_ready_def)
  ultimately have "ReadClockUnitFromMemory A m v ss1 = Some (DH_AVT_SUCCESS, v\<lparr>cu_pts := snd (last xs), cu_frameNum := fst (last xs)\<rparr>)"
    using assms(6) by (simp add: ReadClockUnitFromMemory_def map_segment_ready [OF ready] word_le_nat_alt unat_eq_0)
  with w show ?thesis by blast
qed

section \<open>Samples\<close>

definition sample_shm :: shm_api where
  "sample_shm = \<lparr> sh_Create = (\<lambda>_ _ _. 5), sh_SetProt = (\<lambda>_. 0), sh_mmap = (\<lambda>_. True), sh_memset = (\<lambda>_. True) \<rparr>"

definition sample_ring :: "shared_memory \<times> segments" where
  "sample_ring = CreateAVTransSharedMemory sample_shm ''sinkSharedMemory'' RING_SIZE []"

lemma sample_ring_ready: "segment_ready sample_shm (fst sample_ring) (snd sample_ring) (replicate RING_SIZE 0)"
  by (simp add: segment_ready_def sample_ring_def CreateAVTransSharedMemory_def sample_shm_def IsInValidSharedMemory_def smap_sorted_def smap_get_def)

theorem frame_info_round_trip_witness:
  "\<exists>ss1. WriteFrameInfoToMemory sample_shm \<lparr> sm_fd = 5, sm_size = 12, sm_name = ''m'' \<rparr> 7 99 [(5, replicate 12 0)] = Some (DH_AVT_SUCCESS, ss1)
    \<and> ReadFrameInfoFromMemory sample_shm \<lparr> sm_fd = 5, sm_size = 12, sm_name = ''m'' \<rparr> (0, 0) ss1 = Some (DH_AVT_SUCCESS, 7, 99)"
  by (rule frame_info_round_trip [of _ _ _ "replicate 12 0"])
    (simp_all add: segment_ready_def sample_shm_def IsInValidSharedMemory_def smap_sorted_def smap_get_def)

theorem latest_clock_is_read_witness:
  "\<exists>u1 ss1. write_clock sample_shm (fst sample_ring) [(1, 20), (2, 40)] (\<lparr> cu_index = 0, cu_frameNum = 0, cu_pts = 0 \<rparr>, snd sample_ring) = Some (u1, ss1)
    \<and> ReadClockUnitFromMemory sample_shm (fst sample_ring) \<lparr> cu_index = 0, cu_frameNum = 1, cu_pts = 0 \<rparr> ss1
        = Some (DH_AVT_SUCCESS, \<lparr> cu_index = 0, cu_frameNum = 2, cu_pts = 40 \<rparr>)"
  using latest_clock_is_read [OF sample_ring_ready, of "\<lparr> cu_index = 0, cu_frameNum = 0, cu_pts = 0 \<rparr>" "[(1, 20), (2, 40)]"
      "\<lparr> cu_index = 0, cu_frameNum = 1, cu_pts = 0 \<rparr>"]
  by (simp add: unit_ok_def)

end
