(* ===== verification/DHF_AvChannel.thy ===== *)
theory DHF_AvChannel
  imports DHF_AvSync
begin

text \<open>
  The channels of the audio and video transport (\<open>av_transport/common/src/softbus_channel_adapter.cpp\<close>) and the
  messages on them (\<open>av_trans_message.cpp\<close>). The soft bus is outside the repository: its calls are the fields of
  \<open>av_bus\<close>, over the state \<open>'h\<close>. A listener is a number; a null listener is \<open>None\<close>. An event that the adapter
  gives to a thread of its own is kept in \<open>ca_threads\<close> until \<open>SendChannelEvent\<close> runs for it; what a listener
  is called with is a \<open>channel_call\<close>. The steps of \<open>channel_step\<close> are what the code does under one hold of
  \<open>listenerMtx_\<close>: a thread's look-up and its call are two steps, and so is every round of the two loops over listeners.
\<close>

abbreviation (input) ERR_DH_AVT_SESSION_ERROR :: ret where "ERR_DH_AVT_SESSION_ERROR \<equiv> - 81011"
abbreviation (input) ERR_DH_AVT_SEND_DATA_FAILED :: ret where "ERR_DH_AVT_SEND_DATA_FAILED \<equiv> - 81012"
abbreviation (input) ERR_DH_AVT_TIME_SYNC_FAILED :: ret where "ERR_DH_AVT_TIME_SYNC_FAILED \<equiv> - 80016"
abbreviation (input) ERR_DH_AVT_SESSION_HAS_OPENED :: ret where "ERR_DH_AVT_SESSION_HAS_OPENED \<equiv> - 80025"
abbreviation (input) INVALID_SESSION_ID :: int where "INVALID_SESSION_ID \<equiv> - 1"
abbreviation (input) DSOFTBUS_INPUT_MAX_RECV_DATA_LEN :: nat where "DSOFTBUS_INPUT_MAX_RECV_DATA_LEN \<equiv> 104857600"

definition OWNER_NAME_D_CAMERA :: string where "OWNER_NAME_D_CAMERA = ''ohos.dhardware.dcamera''"
definition OWNER_NAME_D_SCREEN :: string where "OWNER_NAME_D_SCREEN = ''ohos.dhardware.dscreen''"
definition OWNER_NAME_D_MIC :: string where "OWNER_NAME_D_MIC = ''ohos.dhardware.daudio.dmic''"
definition OWNER_NAME_D_SPEAKER :: string where "OWNER_NAME_D_SPEAKER = ''ohos.dhardware.daudio.dspeaker''"
definition OWNER_NAME_D_VIRMODEM_MIC :: string where "OWNER_NAME_D_VIRMODEM_MIC = ''ohos.dhardware.dcall.dmic''"
definition OWNER_NAME_D_VIRMODEM_SPEAKER :: string where "OWNER_NAME_D_VIRMODEM_SPEAKER = ''ohos.dhardware.dcall.dspeaker''"
definition AV_SYNC_SENDER_CONTROL_SESSION_NAME :: string
  where "AV_SYNC_SENDER_CONTROL_SESSION_NAME = ''ohos.dhardware.av.sync.sender.control''"
definition AV_SYNC_RECEIVER_CONTROL_SESSION_NAME :: string
  where "AV_SYNC_RECEIVER_CONTROL_SESSION_NAME = ''ohos.dhardware.av.sync.receiver.control''"
definition AV_TRANS_SPECIAL_DEVICE_ID :: string where "AV_TRANS_SPECIAL_DEVICE_ID = ''av.trans.special.device.id''"

section \<open>Names\<close>

text \<open>\<open>s.find_last_of(p)\<close> for a set of characters.\<close>

definition str_find_last_of :: "string \<Rightarrow> string \<Rightarrow> nat option" where
  "str_find_last_of s p = map_option (\<lambda>i. length s - Suc i) (str_find_first_of (rev s) p)"

definition session_key :: "string \<Rightarrow> string \<Rightarrow> string" where
  "session_key sessName peerDevId = sessName @ ''_'' @ peerDevId"

definition owner_pairs :: "string \<Rightarrow> string \<Rightarrow> (string \<times> string) list" where
  "owner_pairs s1 s2 =
     concat (map (\<lambda>ow. [(ow @ ''_'' @ s1, ow @ ''_'' @ s2), (ow @ ''_'' @ s2, ow @ ''_'' @ s1)])
       [OWNER_NAME_D_MIC, OWNER_NAME_D_SPEAKER, OWNER_NAME_D_SCREEN, OWNER_NAME_D_VIRMODEM_MIC, OWNER_NAME_D_VIRMODEM_SPEAKER])"

definition LOCAL_TO_PEER_SESSION_NAME_MAP :: "(string \<times> string) list" where
  "LOCAL_TO_PEER_SESSION_NAME_MAP =
     owner_pairs ''sender.avtrans.control'' ''receiver.avtrans.control''
     @ [(AV_SYNC_SENDER_CONTROL_SESSION_NAME, AV_SYNC_RECEIVER_CONTROL_SESSION_NAME),
        (AV_SYNC_RECEIVER_CONTROL_SESSION_NAME, AV_SYNC_SENDER_CONTROL_SESSION_NAME)]
     @ owner_pairs ''sender.avtrans.data'' ''receiver.avtrans.data''"

definition FindSessNameByPeerSessName :: "string \<Rightarrow> string" where
  "FindSessNameByPeerSessName peerSessionName =
     (case List.find (\<lambda>item. fst item = peerSessionName) LOCAL_TO_PEER_SESSION_NAME_MAP of None \<Rightarrow> [] | Some item \<Rightarrow> snd item)"

definition TransName2PkgName :: "string \<Rightarrow> string" where
  "TransName2PkgName ownerName =
     (case List.find (\<lambda>item. fst item = ownerName)
        [(OWNER_NAME_D_MIC, ''ohos.dhardware.daudio''), (OWNER_NAME_D_VIRMODEM_MIC, ''ohos.dhardware.dcall''),
         (OWNER_NAME_D_CAMERA, ''ohos.dhardware.dcamera''), (OWNER_NAME_D_SCREEN, ''ohos.dhardware.dscreen''),
         (OWNER_NAME_D_SPEAKER, ''ohos.dhardware.daudio''), (OWNER_NAME_D_VIRMODEM_SPEAKER, ''ohos.dhardware.dcall''),
         (AV_SYNC_SENDER_CONTROL_SESSION_NAME, ''ohos.dhardware''), (AV_SYNC_RECEIVER_CONTROL_SESSION_NAME, ''ohos.dhardware'')] of
        None \<Rightarrow> []
      | Some item \<Rightarrow> snd item)"

definition GetOwnerFromSessName :: "string \<Rightarrow> string" where
  "GetOwnerFromSessName sessName =
     (case str_find_first_of sessName ''_'' of
        Some position \<Rightarrow> take position sessName
      | None \<Rightarrow>
          if sessName = AV_SYNC_SENDER_CONTROL_SESSION_NAME \<or> sessName = AV_SYNC_RECEIVER_CONTROL_SESSION_NAME then sessName else [])"

section \<open>State\<close>

datatype event_type = EVENT_CHANNEL_OPENED | EVENT_CHANNEL_OPEN_FAIL | EVENT_CHANNEL_CLOSED | EVENT_START_SUCCESS
  | EVENT_START_FAIL | EVENT_STOP_SUCCESS | EVENT_STOP_FAIL | EVENT_ENGINE_ERROR | EVENT_REMOTE_ERROR | EVENT_DATA_RECEIVED
  | EVENT_TIME_SYNC_RESULT | EVENT_ADD_STREAM | EVENT_REMOVE_STREAM

record av_event =
  ev_type :: event_type
  ev_content :: string
  ev_peerDevId :: string

datatype channel_call = OnChannelEvent nat av_event | OnStreamReceived nat string string

record 'h av_bus =
  ab_Socket :: "string \<Rightarrow> string \<Rightarrow> string \<Rightarrow> string \<Rightarrow> bool \<Rightarrow> 'h \<Rightarrow> int \<times> 'h"
  ab_Listen :: "int \<Rightarrow> 'h \<Rightarrow> int \<times> 'h"
  ab_Bind :: "int \<Rightarrow> 'h \<Rightarrow> int \<times> 'h"
  ab_Shutdown :: "int \<Rightarrow> 'h \<Rightarrow> 'h"
  ab_SendBytes :: "int \<Rightarrow> string \<Rightarrow> 'h \<Rightarrow> int \<times> 'h"
  ab_SendStream :: "int \<Rightarrow> string \<Rightarrow> string \<Rightarrow> 'h \<Rightarrow> int \<times> 'h"
  ab_StartTimeSync :: "string \<Rightarrow> string \<Rightarrow> 'h \<Rightarrow> int \<times> 'h"
  ab_StopTimeSync :: "string \<Rightarrow> string \<Rightarrow> 'h \<Rightarrow> int \<times> 'h"

record channel_adapter =
  ca_serverMap :: "(string, int) smap"
  ca_timeSyncSessNames :: "string list"
  ca_devId2SessIdMap :: "(string, int) smap"
  ca_listenerMap :: "(string, nat option) smap"
  ca_threads :: "(string \<times> av_event) list"

definition channel_adapter_new :: channel_adapter where
  "channel_adapter_new = \<lparr> ca_serverMap = [], ca_timeSyncSessNames = [], ca_devId2SessIdMap = [], ca_listenerMap = [], ca_threads = [] \<rparr>"

type_synonym 'h channels = "channel_adapter \<times> 'h"

definition contains :: "string \<Rightarrow> string \<Rightarrow> bool" where
  "contains s p \<longleftrightarrow> str_find s p \<noteq> None"

section \<open>Servers and channels\<close>

definition CreateChannelServer :: "'h av_bus \<Rightarrow> string \<Rightarrow> string \<Rightarrow> 'h channels \<Rightarrow> ret \<times> 'h channels" where
  "CreateChannelServer B pkgName sessName = (\<lambda>(a, h).
     if pkgName = [] then (ERR_DH_AVT_INVALID_PARAM, a, h)
     else if sessName = [] then (ERR_DH_AVT_INVALID_PARAM, a, h)
     else if smap_get (ca_serverMap a) (session_key pkgName sessName) \<noteq> None then (DH_AVT_SUCCESS, a, h)
     else let (socketId, h1) = ab_Socket B (c_str sessName) [] [] (c_str pkgName) (contains sessName ''avtrans.data'') h in
       if socketId < 0 then (ERR_DH_AVT_SESSION_ERROR, a, h1)
       else let (r, h2) = ab_Listen B socketId h1 in
         if r \<noteq> 0 then (ERR_DH_AVT_SESSION_ERROR, a, h2)
         else (DH_AVT_SUCCESS, a\<lparr>ca_serverMap := smap_emplace (session_key pkgName sessName) socketId (ca_serverMap a)\<rparr>, h2))"

text \<open>The first entry whose key contains the name is taken out; \<open>Shutdown\<close> is called for -1 when there is none.\<close>

definition take_first :: "(string \<Rightarrow> bool) \<Rightarrow> (string, int) smap \<Rightarrow> int \<times> (string, int) smap" where
  "take_first p m = (case List.find (\<lambda>e. p (fst e)) m of None \<Rightarrow> (INVALID_SESSION_ID, m) | Some e \<Rightarrow> (snd e, smap_erase (fst e) m))"

definition RemoveChannelServer :: "'h av_bus \<Rightarrow> string \<Rightarrow> string \<Rightarrow> 'h channels \<Rightarrow> ret \<times> 'h channels" where
  "RemoveChannelServer B pkgName sessName = (\<lambda>(a, h).
     if pkgName = [] then (ERR_DH_AVT_INVALID_PARAM, a, h)
     else if sessName = [] then (ERR_DH_AVT_INVALID_PARAM, a, h)
     else let (serverSocketId, servers) = take_first (\<lambda>k. contains k (session_key pkgName sessName)) (ca_serverMap a);
              h1 = ab_Shutdown B serverSocketId h;
              (sessionId, sessions) = take_first (\<lambda>k. contains k sessName) (ca_devId2SessIdMap a)
          in (DH_AVT_SUCCESS, a\<lparr>ca_serverMap := servers, ca_devId2SessIdMap := sessions\<rparr>, ab_Shutdown B sessionId h1))"

text \<open>The listeners whose key contains the session name, in the order of the map.\<close>

definition listeners_of :: "string \<Rightarrow> channel_adapter \<Rightarrow> string list" where
  "listeners_of sessName a = map fst (filter (\<lambda>e. contains (fst e) sessName \<and> snd e \<noteq> None) (ca_listenerMap a))"

definition SendEventChannelOPened :: "string \<Rightarrow> string \<Rightarrow> channel_adapter \<Rightarrow> channel_adapter" where
  "SendEventChannelOPened mySessName peerDevId a =
     (let event = \<lparr> ev_type = EVENT_CHANNEL_OPENED, ev_content = mySessName, ev_peerDevId = peerDevId \<rparr>
      in a\<lparr>ca_threads := ca_threads a @ map (\<lambda>k. (k, event)) (listeners_of mySessName a)\<rparr>)"

definition GetSessIdBySessName :: "string \<Rightarrow> string \<Rightarrow> channel_adapter \<Rightarrow> int" where
  "GetSessIdBySessName sessName peerDevId a =
     (case smap_get (ca_devId2SessIdMap a) (session_key sessName peerDevId) of None \<Rightarrow> - 1 | Some i \<Rightarrow> i)"

definition GetSessionNameById :: "int \<Rightarrow> channel_adapter \<Rightarrow> string" where
  "GetSessionNameById sessionId a =
     (case List.find (\<lambda>e. snd e = sessionId) (ca_devId2SessIdMap a) of None \<Rightarrow> [] | Some e \<Rightarrow> fst e)"

definition OpenSoftbusChannel :: "'h av_bus \<Rightarrow> string \<Rightarrow> string \<Rightarrow> string \<Rightarrow> 'h channels \<Rightarrow> ret \<times> 'h channels" where
  "OpenSoftbusChannel B mySessName peerSessName peerDevId = (\<lambda>(a, h).
     if mySessName = [] \<or> peerSessName = [] \<or> peerDevId = [] then (ERR_DH_AVT_INVALID_PARAM, a, h)
     else let pkgName = TransName2PkgName (GetOwnerFromSessName mySessName) in
       if GetSessIdBySessName mySessName peerDevId a > 0 then (ERR_DH_AVT_SESSION_HAS_OPENED, a, h)
       else let (socketId, h1) = ab_Socket B (c_str mySessName) (c_str peerSessName) (c_str peerDevId) (c_str pkgName)
                  (contains mySessName ''avtrans.data'') h in
         if socketId < 0 then (ERR_DH_AVT_SESSION_ERROR, a, h1)
         else let (r, h2) = ab_Bind B socketId h1 in
           if r \<noteq> DH_AVT_SUCCESS then (ERR_DH_AVT_SESSION_ERROR, a, h2)
           else (DH_AVT_SUCCESS,
                 SendEventChannelOPened mySessName peerDevId
                   (a\<lparr>ca_devId2SessIdMap := smap_emplace (session_key mySessName peerDevId) socketId (ca_devId2SessIdMap a)\<rparr>), h2))"

definition CloseSoftbusChannel :: "'h av_bus \<Rightarrow> string \<Rightarrow> string \<Rightarrow> 'h channels \<Rightarrow> ret \<times> 'h channels" where
  "CloseSoftbusChannel B sessName peerDevId = (\<lambda>(a, h).
     if sessName = [] \<or> peerDevId = [] then (ERR_DH_AVT_INVALID_PARAM, a, h)
     else let h1 = ab_Shutdown B (GetSessIdBySessName sessName peerDevId a) h
          in (DH_AVT_SUCCESS, a\<lparr>ca_devId2SessIdMap := smap_erase (session_key sessName peerDevId) (ca_devId2SessIdMap a)\<rparr>, h1))"

definition SendBytesData :: "'h av_bus \<Rightarrow> string \<Rightarrow> string \<Rightarrow> string \<Rightarrow> 'h channels \<Rightarrow> ret \<times> 'h" where
  "SendBytesData B sessName peerDevId data = (\<lambda>(a, h).
     if sessName = [] \<or> peerDevId = [] \<or> data = [] then (ERR_DH_AVT_INVALID_PARAM, h)
     else let existSessId = GetSessIdBySessName sessName peerDevId a in
       if existSessId < 0 then (ERR_DH_AVT_SEND_DATA_FAILED, h)
       else let (r, h1) = ab_SendBytes B existSessId (c_str data) h in
         if r \<noteq> DH_AVT_SUCCESS then (ERR_DH_AVT_SEND_DATA_FAILED, h1) else (DH_AVT_SUCCESS, h1))"

text \<open>A null pointer to the stream or its extension is \<open>None\<close>.\<close>

definition SendStreamData ::
  "'h av_bus \<Rightarrow> string \<Rightarrow> string \<Rightarrow> string option \<Rightarrow> string option \<Rightarrow> 'h channels \<Rightarrow> ret \<times> 'h" where
  "SendStreamData B sessName peerDevId data ext = (\<lambda>(a, h).
     if sessName = [] \<or> peerDevId = [] then (ERR_DH_AVT_INVALID_PARAM, h)
     else case (data, ext) of
       (Some d, Some e) \<Rightarrow>
         (let existSessId = GetSessIdBySessName sessName peerDevId a in
          if existSessId < 0 then (ERR_DH_AVT_SEND_DATA_FAILED, h)
          else let (r, h1) = ab_SendStream B existSessId d e h in
            if r \<noteq> DH_AVT_SUCCESS then (ERR_DH_AVT_SEND_DATA_FAILED, h1) else (DH_AVT_SUCCESS, h1))
     | _ \<Rightarrow> (ERR_DH_AVT_INVALID_PARAM, h))"

definition RegisterChannelListener :: "string \<Rightarrow> string \<Rightarrow> nat option \<Rightarrow> channel_adapter \<Rightarrow> ret \<times> channel_adapter" where
  "RegisterChannelListener sessName peerDevId listener a =
     (if sessName = [] \<or> peerDevId = [] \<or> listener = None then (ERR_DH_AVT_INVALID_PARAM, a)
      else (DH_AVT_SUCCESS, a\<lparr>ca_listenerMap := smap_put (session_key sessName peerDevId) listener (ca_listenerMap a)\<rparr>))"

definition UnRegisterChannelListener :: "string \<Rightarrow> string \<Rightarrow> channel_adapter \<Rightarrow> ret \<times> channel_adapter" where
  "UnRegisterChannelListener sessName peerDevId a =
     (if sessName = [] \<or> peerDevId = [] then (ERR_DH_AVT_INVALID_PARAM, a)
      else (DH_AVT_SUCCESS, a\<lparr>ca_listenerMap := smap_erase (session_key sessName peerDevId) (ca_listenerMap a)\<rparr>))"

definition StartDeviceTimeSync :: "'h av_bus \<Rightarrow> string \<Rightarrow> string \<Rightarrow> string \<Rightarrow> 'h channels \<Rightarrow> ret \<times> 'h channels" where
  "StartDeviceTimeSync B pkgName sessName peerDevId = (\<lambda>(a, h).
     if peerDevId = [] then (ERR_DH_AVT_INVALID_PARAM, a, h)
     else let (r, h1) = ab_StartTimeSync B (c_str pkgName) (c_str peerDevId) h in
       if r \<noteq> 0 then (ERR_DH_AVT_TIME_SYNC_FAILED, a, h1)
       else (DH_AVT_SUCCESS, a\<lparr>ca_timeSyncSessNames := sset_insert (session_key sessName peerDevId) (ca_timeSyncSessNames a)\<rparr>, h1))"

definition StopDeviceTimeSync :: "'h av_bus \<Rightarrow> string \<Rightarrow> string \<Rightarrow> string \<Rightarrow> 'h channels \<Rightarrow> ret \<times> 'h channels" where
  "StopDeviceTimeSync B pkgName sessName peerDevId = (\<lambda>(a, h).
     if peerDevId = [] then (ERR_DH_AVT_INVALID_PARAM, a, h)
     else let (r, h1) = ab_StopTimeSync B (c_str pkgName) (c_str peerDevId) h in
       if r \<noteq> 0 then (ERR_DH_AVT_TIME_SYNC_FAILED, a, h1)
       else (DH_AVT_SUCCESS, a\<lparr>ca_timeSyncSessNames := sset_erase (session_key sessName peerDevId) (ca_timeSyncSessNames a)\<rparr>, h1))"

section \<open>Callbacks of the soft bus\<close>

definition own_peer :: "string \<Rightarrow> string option" where
  "own_peer key =
     (case str_find_last_of key ''_'' of
        None \<Rightarrow> None
      | Some position \<Rightarrow> (let d = drop (Suc position) key in if d \<noteq> AV_TRANS_SPECIAL_DEVICE_ID then Some d else None))"

fun first_peer :: "int \<Rightarrow> (string, int) smap \<Rightarrow> string" where
  "first_peer sessionId [] = []"
| "first_peer sessionId (e # m) =
     (if snd e \<noteq> sessionId then first_peer sessionId m
      else case own_peer (fst e) of None \<Rightarrow> first_peer sessionId m | Some d \<Rightarrow> d)"

definition GetPeerDevIdBySessId :: "int \<Rightarrow> channel_adapter \<Rightarrow> string" where
  "GetPeerDevIdBySessId sessionId a = first_peer sessionId (ca_devId2SessIdMap a)"

definition OnSoftbusChannelOpened :: "string \<Rightarrow> int \<Rightarrow> string \<Rightarrow> int \<Rightarrow> channel_adapter \<Rightarrow> ret \<times> channel_adapter" where
  "OnSoftbusChannelOpened peerSessionName sessionId peerDevId result a =
     (if peerSessionName = [] \<or> peerDevId = [] then (ERR_DH_AVT_INVALID_PARAM, a)
      else let mySessionName = FindSessNameByPeerSessName peerSessionName in
        if mySessionName = [] then (ERR_DH_AVT_INVALID_PARAM, a)
        else let event = \<lparr> ev_type = if result = 0 then EVENT_CHANNEL_OPENED else EVENT_CHANNEL_OPEN_FAIL,
                   ev_content = mySessionName, ev_peerDevId = peerDevId \<rparr>;
                 keys = listeners_of mySessionName a;
                 sessions = fold (\<lambda>k m. smap_emplace k sessionId (smap_erase k m)) keys (ca_devId2SessIdMap a)
             in (DH_AVT_SUCCESS,
                 a\<lparr>ca_threads := ca_threads a @ map (\<lambda>k. (k, event)) keys,
                   ca_devId2SessIdMap := smap_emplace (session_key mySessionName peerDevId) sessionId sessions\<rparr>))"

definition OnSoftbusChannelClosed :: "int \<Rightarrow> channel_adapter \<Rightarrow> channel_adapter" where
  "OnSoftbusChannelClosed sessionId a =
     (let peerDevId = GetPeerDevIdBySessId sessionId a;
          closed = map fst (filter (\<lambda>e. snd e = sessionId) (ca_devId2SessIdMap a))
      in a\<lparr>ca_threads := ca_threads a @ map (\<lambda>k. (k, \<lparr> ev_type = EVENT_CHANNEL_CLOSED, ev_content = GetOwnerFromSessName k,
             ev_peerDevId = peerDevId \<rparr>)) closed,
           ca_devId2SessIdMap := filter (\<lambda>e. snd e \<noteq> sessionId) (ca_devId2SessIdMap a)\<rparr>)"

text \<open>A null pointer to the data is \<open>None\<close>.\<close>

definition OnSoftbusBytesReceived :: "int \<Rightarrow> string option \<Rightarrow> channel_adapter \<Rightarrow> channel_adapter" where
  "OnSoftbusBytesReceived sessionId data a =
     (case data of
        None \<Rightarrow> a
      | Some d \<Rightarrow>
          if length d = 0 \<or> length d > DSOFTBUS_INPUT_MAX_RECV_DATA_LEN then a
          else let event = \<lparr> ev_type = EVENT_DATA_RECEIVED, ev_content = d, ev_peerDevId = GetPeerDevIdBySessId sessionId a \<rparr>
               in a\<lparr>ca_threads := ca_threads a
                      @ map (\<lambda>e. (fst e, event)) (filter (\<lambda>e. snd e = sessionId) (ca_devId2SessIdMap a))\<rparr>)"

text \<open>
  \<open>listenerMap_[k]\<close> puts a null listener into the map when the key is not there.
\<close>

definition listener_at :: "string \<Rightarrow> channel_adapter \<Rightarrow> nat option \<times> channel_adapter" where
  "listener_at k a =
     (case smap_get (ca_listenerMap a) k of
        Some l \<Rightarrow> (l, a)
      | None \<Rightarrow> (None, a\<lparr>ca_listenerMap := smap_emplace k None (ca_listenerMap a)\<rparr>))"

definition find_call :: "string \<Rightarrow> (nat \<Rightarrow> channel_call) \<Rightarrow> channel_adapter \<Rightarrow> channel_call option \<times> channel_adapter" where
  "find_call k call a = (case listener_at k a of (l, a1) \<Rightarrow> (map_option call l, a1))"

fun stream_loop :: "int \<Rightarrow> string \<Rightarrow> string \<Rightarrow> (string, int) smap \<Rightarrow> channel_adapter \<Rightarrow> channel_call list \<times> channel_adapter" where
  "stream_loop sessionId d e [] a = ([], a)"
| "stream_loop sessionId d e (x # xs) a =
     (if snd x \<noteq> sessionId then stream_loop sessionId d e xs a
      else case find_call (fst x) (\<lambda>l. OnStreamReceived l d e) a of
        (None, a1) \<Rightarrow> ([], a1)
      | (Some c, a1) \<Rightarrow> (let (cs, a2) = stream_loop sessionId d e xs a1 in (c # cs, a2)))"

definition OnSoftbusStreamReceived ::
  "int \<Rightarrow> string option \<Rightarrow> string option \<Rightarrow> channel_adapter \<Rightarrow> channel_call list \<times> channel_adapter" where
  "OnSoftbusStreamReceived sessionId data ext a =
     (case (data, ext) of
        (Some d, Some e) \<Rightarrow> stream_loop sessionId d e (ca_devId2SessIdMap a) a
      | _ \<Rightarrow> ([], a))"

fun time_sync_loop :: "string list \<Rightarrow> av_event \<Rightarrow> channel_adapter \<Rightarrow> channel_call list \<times> channel_adapter" where
  "time_sync_loop [] event a = ([], a)"
| "time_sync_loop (k # ks) event a =
     (let (c, a1) = find_call k (\<lambda>l. OnChannelEvent l event) a; (cs, a2) = time_sync_loop ks event a1
      in (case c of None \<Rightarrow> cs | Some x \<Rightarrow> x # cs, a2))"

text \<open>The millisecond part and the target of the result; a null pointer is \<open>None\<close>.\<close>

definition OnSoftbusTimeSyncResult ::
  "(int \<times> string) option \<Rightarrow> int \<Rightarrow> channel_adapter \<Rightarrow> channel_call list \<times> channel_adapter" where
  "OnSoftbusTimeSyncResult info result a =
     (if result = 0 then ([], a)
      else case info of
        None \<Rightarrow> ([], a)
      | Some (millisecond, targetDevId) \<Rightarrow>
          time_sync_loop (ca_timeSyncSessNames a)
            \<lparr> ev_type = EVENT_TIME_SYNC_RESULT, ev_content = int_text millisecond, ev_peerDevId = targetDevId \<rparr> a)"

text \<open>
  One of the threads runs to its end with nothing in between. In the code \<open>listenerMtx_\<close> is held for the look-up
  alone; the thread's call is a step of its own below.
\<close>

definition SendChannelEvent :: "string \<Rightarrow> av_event \<Rightarrow> channel_adapter \<Rightarrow> channel_call list \<times> channel_adapter" where
  "SendChannelEvent sessName event a =
     (case find_call sessName (\<lambda>l. OnChannelEvent l event) a of (None, a1) \<Rightarrow> ([], a1) | (Some c, a1) \<Rightarrow> ([c], a1))"

definition run_thread :: "nat \<Rightarrow> channel_adapter \<Rightarrow> channel_call list \<times> channel_adapter" where
  "run_thread i a =
     (if i < length (ca_threads a)
      then let t = ca_threads a ! i in
        SendChannelEvent (fst t) (snd t) (a\<lparr>ca_threads := take i (ca_threads a) @ drop (Suc i) (ca_threads a)\<rparr>)
      else ([], a))"

section \<open>Messages\<close>

record av_message =
  am_type :: "32 word"
  am_content :: string
  am_dstDevId :: string

definition AVTransMessage_new :: av_message where
  "AVTransMessage_new = \<lparr> am_type = 0, am_content = [], am_dstDevId = [] \<rparr>"

definition MarshalMessage :: "'j cjson \<Rightarrow> av_message \<Rightarrow> string" where
  "MarshalMessage cj m =
     (case cJSON_CreateObject cj of
        None \<Rightarrow> []
      | Some msgJson \<Rightarrow>
          (let j1 = cJSON_AddNumberToObject cj msgJson ''type'' (of_nat (unat (am_type m)));
               j2 = cJSON_AddStringToObject cj j1 ''content'' (c_str (am_content m));
               j3 = cJSON_AddStringToObject cj j2 ''dstDevId'' (c_str (am_dstDevId m))
           in case cJSON_PrintUnformatted cj j3 of None \<Rightarrow> [] | Some data \<Rightarrow> c_str data))"

text \<open>\<open>valueint\<close> of a number: the value cut to an \<open>int\<close>, or its nearest bound.\<close>

definition valueint :: "'j cjson \<Rightarrow> 'j \<Rightarrow> int" where
  "valueint cj ob =
     (let d = valuedouble cj ob in
      if d \<ge> 2147483647 then 2147483647 else if d \<le> - 2147483648 then - 2147483648 else trunc d)"

text \<open>The descriptor of a shared memory as text (\<open>av_sync_utils.cpp\<close>).\<close>

definition MarshalSharedMemory :: "'j cjson \<Rightarrow> shared_memory \<Rightarrow> string" where
  "MarshalSharedMemory cj m =
     (case cJSON_CreateObject cj of
        None \<Rightarrow> []
      | Some j \<Rightarrow>
          (let j1 = cJSON_AddNumberToObject cj j ''sharedMemoryFd'' (of_int (sm_fd m));
               j2 = cJSON_AddNumberToObject cj j1 ''sharedMemorySize'' (of_int (sm_size m));
               j3 = cJSON_AddStringToObject cj j2 ''sharedMemoryName'' (c_str (sm_name m))
           in case cJSON_PrintUnformatted cj j3 of None \<Rightarrow> [] | Some data \<Rightarrow> c_str data))"

definition UnmarshalSharedMemory :: "'j cjson \<Rightarrow> string \<Rightarrow> shared_memory" where
  "UnmarshalSharedMemory cj jsonStr =
     (let none = \<lparr> sm_fd = 0, sm_size = 0, sm_name = [] \<rparr> in
      case cJSON_Parse cj (c_str jsonStr) of
        None \<Rightarrow> none
      | Some j \<Rightarrow>
          (case (cJSON_GetObjectItemCaseSensitive cj j ''sharedMemoryFd'', cJSON_GetObjectItemCaseSensitive cj j ''sharedMemorySize'',
                 cJSON_GetObjectItemCaseSensitive cj j ''sharedMemoryName'') of
             (Some fdObj, Some sizeObj, Some nameObj) \<Rightarrow>
               if cJSON_IsNumber cj fdObj \<and> cJSON_IsNumber cj sizeObj \<and> cJSON_IsString cj nameObj
               then \<lparr> sm_fd = valueint cj fdObj, sm_size = valueint cj sizeObj, sm_name = c_str (valuestring cj nameObj) \<rparr>
               else none
           | _ \<Rightarrow> none))"

definition AvMsg_IsUInt32 :: "'j cjson \<Rightarrow> 'j \<Rightarrow> string \<Rightarrow> bool" where
  "AvMsg_IsUInt32 cj ob key =
     (case cJSON_GetObjectItemCaseSensitive cj ob key of
        None \<Rightarrow> False
      | Some k \<Rightarrow> cJSON_IsNumber cj k \<and> (of_int (valueint cj k) :: 32 word) \<le> 0xFFFFFFFF)"

definition AvMsg_IsString :: "'j cjson \<Rightarrow> 'j \<Rightarrow> string \<Rightarrow> bool" where
  "AvMsg_IsString cj ob key =
     (case cJSON_GetObjectItemCaseSensitive cj ob key of
        None \<Rightarrow> False
      | Some k \<Rightarrow> cJSON_IsString cj k \<and> length (valuestring cj k) \<le> MAX_MESSAGE_LEN)"

definition UnmarshalMessage :: "'j cjson \<Rightarrow> string \<Rightarrow> string \<Rightarrow> av_message \<Rightarrow> bool \<times> av_message" where
  "UnmarshalMessage cj jsonStr peerDevId m =
     (case cJSON_Parse cj (c_str jsonStr) of
        None \<Rightarrow> (False, m)
      | Some metaJson \<Rightarrow>
          if \<not> AvMsg_IsUInt32 cj metaJson ''type'' \<or> \<not> AvMsg_IsString cj metaJson ''content'' then (False, m)
          else case cJSON_GetObjectItemCaseSensitive cj metaJson ''type'' of
            None \<Rightarrow> (False, m)
          | Some typeObj \<Rightarrow>
              if \<not> cJSON_IsNumber cj typeObj then (False, m)
              else let m1 = m\<lparr>am_type := of_int (valueint cj typeObj)\<rparr> in
                case cJSON_GetObjectItemCaseSensitive cj metaJson ''content'' of
                  None \<Rightarrow> (False, m1)
                | Some contentObj \<Rightarrow>
                    if \<not> cJSON_IsString cj contentObj then (False, m1)
                    else (True, m1\<lparr>am_content := valuestring cj contentObj, am_dstDevId := peerDevId\<rparr>))"

text \<open>
  cJSON reads back what it printed: the parsed object has the items of the printed one, also under their exact keys.
\<close>

definition items_read_back :: "'j cjson \<Rightarrow> 'j \<Rightarrow> string set \<Rightarrow> bool" where
  "items_read_back cj ob ks \<longleftrightarrow>
     (\<exists>t ob'. cJSON_PrintUnformatted cj ob = Some t \<and> CHR 0x00 \<notin> set t \<and> cJSON_Parse cj t = Some ob'
        \<and> (\<forall>k\<in>ks. cJSON_GetObjectItemCaseSensitive cj ob' k = cJSON_GetObjectItem cj ob k))"

lemma valueint_nat: "valuedouble cj v = of_nat n \<Longrightarrow> valueint cj v = int (min n 2147483647)"
proof -
  assume v: "valuedouble cj v = of_nat n"
  have neg: "\<not> (of_nat n :: rat) \<le> - 2147483648"
  proof
    assume "(of_nat n :: rat) \<le> - 2147483648"
    moreover have "(0 :: rat) \<le> of_nat n" by simp
    ultimately show False by linarith
  qed
  show ?thesis
  proof (cases "2147483647 \<le> n")
    case True
    then have "(of_nat 2147483647 :: rat) \<le> of_nat n" by (simp only: of_nat_le_iff)
    then show ?thesis using True by (simp add: valueint_def v)
  next
    case False
    then have "(of_nat n :: rat) < of_nat 2147483647" by (simp only: of_nat_less_iff)
    then show ?thesis using False neg by (simp add: valueint_def v trunc_def)
  qed
qed

lemma uint32_is_small [simp]: "(x :: 32 word) \<le> 0xFFFFFFFF"
proof -
  have "(0xFFFFFFFF :: 32 word) = - 1" by simp
  then show ?thesis by (simp only: word_order.extremum)
qed

section \<open>Well-formed adapters\<close>

definition channel_maps_ok :: "channel_adapter \<Rightarrow> bool" where
  "channel_maps_ok a \<longleftrightarrow>
     smap_sorted (ca_serverMap a) \<and> smap_sorted (ca_devId2SessIdMap a) \<and> smap_sorted (ca_listenerMap a)
     \<and> sset_sorted (ca_timeSyncSessNames a)"



lemma fold_reopen_get:
  "smap_get (fold (\<lambda>k m. smap_emplace k v (smap_erase k m)) ks m) x = (if x \<in> set ks then Some v else smap_get m x)"
  by (induction ks arbitrary: m) (auto simp: smap_get_emplace)

lemma smap_sorted_filter: "smap_sorted m \<Longrightarrow> smap_sorted (filter p m)"
  by (induction m) (auto simp: smap_sorted_Cons)


section \<open>Every history of the adapter\<close>

text \<open>The operations and callbacks that call no listener.\<close>

inductive adapter_op :: "'h av_bus \<Rightarrow> 'h channels \<Rightarrow> 'h channels \<Rightarrow> bool" for B where
  op_create: "CreateChannelServer B p s ah = (r, ah') \<Longrightarrow> adapter_op B ah ah'"
| op_remove: "RemoveChannelServer B p s ah = (r, ah') \<Longrightarrow> adapter_op B ah ah'"
| op_open: "OpenSoftbusChannel B s q d ah = (r, ah') \<Longrightarrow> adapter_op B ah ah'"
| op_close: "CloseSoftbusChannel B s d ah = (r, ah') \<Longrightarrow> adapter_op B ah ah'"
| op_bytes: "SendBytesData B s d x (a, h) = (r, h') \<Longrightarrow> adapter_op B (a, h) (a, h')"
| op_stream: "SendStreamData B s d x e (a, h) = (r, h') \<Longrightarrow> adapter_op B (a, h) (a, h')"
| op_register: "RegisterChannelListener s d l a = (r, a') \<Longrightarrow> adapter_op B (a, h) (a', h)"
| op_unregister: "UnRegisterChannelListener s d a = (r, a') \<Longrightarrow> adapter_op B (a, h) (a', h)"
| op_start_sync: "StartDeviceTimeSync B p s d ah = (r, ah') \<Longrightarrow> adapter_op B ah ah'"
| op_stop_sync: "StopDeviceTimeSync B p s d ah = (r, ah') \<Longrightarrow> adapter_op B ah ah'"
| op_opened: "OnSoftbusChannelOpened q i d z a = (r, a') \<Longrightarrow> adapter_op B (a, h) (a', h)"
| op_closed: "adapter_op B (a, h) (OnSoftbusChannelClosed i a, h)"
| op_received: "adapter_op B (a, h) (OnSoftbusBytesReceived i x a, h)"

text \<open>
  What runs between two holds of \<open>listenerMtx_\<close>: a thread that has looked its listener up and has not called it yet;
  \<open>OnSoftbusStreamReceived\<close> with the keys it has still to serve; \<open>OnSoftbusTimeSyncResult\<close> likewise.
\<close>

datatype activity = Calling channel_call | Streaming "string list" string string | Syncing "string list" av_event

type_synonym 'h channel_conf = "'h channels \<times> activity list"

definition drop_at :: "nat \<Rightarrow> 'a list \<Rightarrow> 'a list" where
  "drop_at i xs = take i xs @ drop (Suc i) xs"

inductive channel_step :: "'h av_bus \<Rightarrow> 'h channel_conf \<Rightarrow> channel_call list \<Rightarrow> 'h channel_conf \<Rightarrow> bool" for B where
  ch_op: "adapter_op B ah ah' \<Longrightarrow> channel_step B (ah, ts) [] (ah', ts)"
| ch_find: "\<lbrakk> i < length (ca_threads a); ca_threads a ! i = (k, ev);
     find_call k (\<lambda>l. OnChannelEvent l ev) (a\<lparr>ca_threads := drop_at i (ca_threads a)\<rparr>) = (c, a') \<rbrakk>
   \<Longrightarrow> channel_step B ((a, h), ts) [] ((a', h), ts @ (case c of None \<Rightarrow> [] | Some x \<Rightarrow> [Calling x]))"
| ch_call: "\<lbrakk> i < length ts; ts ! i = Calling c \<rbrakk> \<Longrightarrow> channel_step B (ah, ts) [c] (ah, drop_at i ts)"
| ch_streamed: "channel_step B ((a, h), ts) []
     ((a, h), ts @ [Streaming (map fst (filter (\<lambda>x. snd x = i) (ca_devId2SessIdMap a))) d e])"
| ch_stream_next: "\<lbrakk> i < length ts; ts ! i = Streaming (k # ks) d e; find_call k (\<lambda>l. OnStreamReceived l d e) a = (Some c, a') \<rbrakk>
   \<Longrightarrow> channel_step B ((a, h), ts) [c] ((a', h), ts[i := Streaming ks d e])"
| ch_stream_null: "\<lbrakk> i < length ts; ts ! i = Streaming (k # ks) d e; find_call k (\<lambda>l. OnStreamReceived l d e) a = (None, a') \<rbrakk>
   \<Longrightarrow> channel_step B ((a, h), ts) [] ((a', h), drop_at i ts)"
| ch_stream_end: "\<lbrakk> i < length ts; ts ! i = Streaming [] d e \<rbrakk> \<Longrightarrow> channel_step B (ah, ts) [] (ah, drop_at i ts)"
| ch_synced: "channel_step B ((a, h), ts) [] ((a, h), ts @ [Syncing (ca_timeSyncSessNames a)
     \<lparr> ev_type = EVENT_TIME_SYNC_RESULT, ev_content = int_text t, ev_peerDevId = d \<rparr>])"
| ch_sync_next: "\<lbrakk> i < length ts; ts ! i = Syncing (k # ks) ev; find_call k (\<lambda>l. OnChannelEvent l ev) a = (c, a') \<rbrakk>
   \<Longrightarrow> channel_step B ((a, h), ts) (case c of None \<Rightarrow> [] | Some x \<Rightarrow> [x]) ((a', h), ts[i := Syncing ks ev])"
| ch_sync_end: "\<lbrakk> i < length ts; ts ! i = Syncing [] ev \<rbrakk> \<Longrightarrow> channel_step B (ah, ts) [] (ah, drop_at i ts)"

text \<open>A history keeps the states it has left.\<close>

inductive channel_run :: "'h av_bus \<Rightarrow> 'h channel_conf \<Rightarrow> channel_adapter list \<Rightarrow> channel_call list \<Rightarrow> 'h channel_conf \<Rightarrow> bool" for B where
  run_none: "channel_run B s [] [] s"
| run_more: "channel_run B s past cs (ah, ts) \<Longrightarrow> channel_step B (ah, ts) ds s' \<Longrightarrow> channel_run B s (past @ [fst ah]) (cs @ ds) s'"


lemma channel_maps_ok_threads [simp]: "channel_maps_ok (a\<lparr>ca_threads := t\<rparr>) = channel_maps_ok a"
  by (simp add: channel_maps_ok_def)





text \<open>The listener of a thread's call was found, in a state of the past, under the key of the thread.\<close>

definition looked_up :: "channel_adapter list \<Rightarrow> channel_call \<Rightarrow> bool" where
  "looked_up past c \<longleftrightarrow> (\<exists>l ev a k. c = OnChannelEvent l ev \<and> a \<in> set past
     \<and> (k, ev) \<in> set (ca_threads a) \<and> smap_get (ca_listenerMap a) k = Some (Some l))"

lemma looked_up_later: "looked_up past c \<Longrightarrow> looked_up (past @ new) c"
  by (auto simp: looked_up_def)





text \<open>
  The callbacks as one call are their steps with nothing in between.
\<close>

lemma channel_run_trans:
  "channel_run B s2 past2 cs2 s3 \<Longrightarrow> channel_run B s1 past1 cs1 s2 \<Longrightarrow> channel_run B s1 (past1 @ past2) (cs1 @ cs2) s3"
proof (induction rule: channel_run.induct)
  case (run_more s past cs ah ts ds s')
  from channel_run.run_more [OF run_more.IH [OF run_more.prems] run_more(2)] show ?case by simp
qed simp

lemma channel_run_step: "channel_step B (ah, ts) ds s' \<Longrightarrow> channel_run B (ah, ts) [fst ah] ds s'"
  using run_more [OF run_none, of B ah ts ds s'] by simp

lemma drop_at_last [simp]: "drop_at (length ts) (ts @ [t]) = ts"
  by (simp add: drop_at_def)

lemma stream_loop_steps:
  "stream_loop sid d e xs a = (cs, b) \<Longrightarrow>
     \<exists>past. channel_run B ((a, h), ts @ [Streaming (map fst (filter (\<lambda>x. snd x = sid) xs)) d e]) past cs ((b, h), ts)"
proof (induction xs arbitrary: a cs)
  case Nil
  have "channel_step B ((a, h), ts @ [Streaming [] d e]) [] ((a, h), ts)"
    using ch_stream_end [of "length ts" "ts @ [Streaming [] d e]" d e B "(a, h)"] by simp
  from channel_run_step [OF this] Nil show ?case by auto
next
  case (Cons x xs)
  show ?case
  proof (cases "snd x = sid")
    case True
    let ?ts = "ts @ [Streaming (fst x # map fst (filter (\<lambda>x. snd x = sid) xs)) d e]"
    obtain c a1 where f: "find_call (fst x) (\<lambda>l. OnStreamReceived l d e) a = (c, a1)" by fastforce
    show ?thesis
    proof (cases c)
      case None
      have "channel_step B ((a, h), ?ts) [] ((a1, h), ts)"
        using ch_stream_null [of "length ts" ?ts "fst x" _ d e a a1 B h] f None by simp
      from channel_run_step [OF this] show ?thesis using Cons.prems True f None by auto
    next
      case (Some y)
      obtain cs2 where r: "stream_loop sid d e xs a1 = (cs2, b)" and cs: "cs = y # cs2"
        using Cons.prems True f Some by (auto split: prod.splits)
      have "channel_step B ((a, h), ?ts) [y] ((a1, h), ts @ [Streaming (map fst (filter (\<lambda>x. snd x = sid) xs)) d e])"
        using ch_stream_next [of "length ts" ?ts "fst x" _ d e a y a1 B h] f Some by simp
      note first = channel_run_step [OF this]
      from Cons.IH [OF r] obtain past where
        "channel_run B ((a1, h), ts @ [Streaming (map fst (filter (\<lambda>x. snd x = sid) xs)) d e]) past cs2 ((b, h), ts)" by blast
      from channel_run_trans [OF this first] show ?thesis using True cs by auto
    qed
  next
    case False
    then show ?thesis using Cons by simp
  qed
qed

lemma time_sync_loop_steps:
  "time_sync_loop ks ev a = (cs, b) \<Longrightarrow> \<exists>past. channel_run B ((a, h), ts @ [Syncing ks ev]) past cs ((b, h), ts)"
proof (induction ks arbitrary: a cs)
  case Nil
  have "channel_step B ((a, h), ts @ [Syncing [] ev]) [] ((a, h), ts)"
    using ch_sync_end [of "length ts" "ts @ [Syncing [] ev]" ev B "(a, h)"] by simp
  from channel_run_step [OF this] Nil show ?case by auto
next
  case (Cons k ks)
  obtain c a1 where f: "find_call k (\<lambda>l. OnChannelEvent l ev) a = (c, a1)" by fastforce
  obtain cs2 where r: "time_sync_loop ks ev a1 = (cs2, b)" and cs: "cs = (case c of None \<Rightarrow> [] | Some x \<Rightarrow> [x]) @ cs2"
    using Cons.prems f by (auto split: prod.splits option.splits)
  have "channel_step B ((a, h), ts @ [Syncing (k # ks) ev]) (case c of None \<Rightarrow> [] | Some x \<Rightarrow> [x]) ((a1, h), ts @ [Syncing ks ev])"
    using ch_sync_next [of "length ts" "ts @ [Syncing (k # ks) ev]" k ks ev a c a1 B h] f by simp
  note first = channel_run_step [OF this]
  from Cons.IH [OF r] obtain past where "channel_run B ((a1, h), ts @ [Syncing ks ev]) past cs2 ((b, h), ts)" by blast
  from channel_run_trans [OF this first] show ?case using cs by auto
qed

lemma channel_run_start:
  assumes "channel_step B (ah, ts) [] s" and "\<exists>past. channel_run B s past cs s'"
  shows "\<exists>past. channel_run B (ah, ts) past cs s'"
  using assms channel_run_trans [OF _ channel_run_step [OF assms(1)]] by fastforce

lemma OnSoftbusStreamReceived_steps:
  assumes "OnSoftbusStreamReceived sid x e a = (cs, b)"
  shows "\<exists>past. channel_run B ((a, h), ts) past cs ((b, h), ts)"
proof (cases "x = None \<or> e = None")
  case True
  with assms have "cs = []" "b = a" by (auto simp: OnSoftbusStreamReceived_def split: option.splits)
  then show ?thesis using run_none by blast
next
  case False
  then obtain d f where "x = Some d" "e = Some f" by auto
  with assms have "stream_loop sid d f (ca_devId2SessIdMap a) a = (cs, b)" by (simp add: OnSoftbusStreamReceived_def)
  from channel_run_start [OF ch_streamed stream_loop_steps [OF this]] show ?thesis .
qed

lemma OnSoftbusTimeSyncResult_steps:
  assumes "OnSoftbusTimeSyncResult info z a = (cs, b)"
  shows "\<exists>past. channel_run B ((a, h), ts) past cs ((b, h), ts)"
proof (cases "z = 0 \<or> info = None")
  case True
  with assms have "cs = []" "b = a" by (auto simp: OnSoftbusTimeSyncResult_def split: option.splits if_splits)
  then show ?thesis using run_none by blast
next
  case False
  then obtain t d where "info = Some (t, d)" "z \<noteq> 0" by auto
  with assms have "time_sync_loop (ca_timeSyncSessNames a)
      \<lparr> ev_type = EVENT_TIME_SYNC_RESULT, ev_content = int_text t, ev_peerDevId = d \<rparr> a = (cs, b)"
    by (simp add: OnSoftbusTimeSyncResult_def)
  from channel_run_start [OF ch_synced time_sync_loop_steps [OF this]] show ?thesis .
qed

lemma run_thread_steps:
  assumes "run_thread i a = (cs, b)"
  shows "\<exists>past. channel_run B ((a, h), ts) past cs ((b, h), ts)"
proof (cases "i < length (ca_threads a)")
  case False
  with assms have "cs = []" "b = a" by (auto simp: run_thread_def)
  then show ?thesis using run_none by blast
next
  case True
  obtain k ev where t: "ca_threads a ! i = (k, ev)" by fastforce
  obtain c a1 where f: "find_call k (\<lambda>l. OnChannelEvent l ev) (a\<lparr>ca_threads := drop_at i (ca_threads a)\<rparr>) = (c, a1)" by fastforce
  note first = ch_find [OF True t f]
  have cs: "cs = (case c of None \<Rightarrow> [] | Some x \<Rightarrow> [x])" "b = a1"
    using assms True t f by (auto simp: run_thread_def SendChannelEvent_def drop_at_def split: option.splits)
  show ?thesis
  proof (cases c)
    case None
    with channel_run_step [OF first, of B h ts] cs show ?thesis by auto
  next
    case (Some y)
    have "channel_step B ((a1, h), ts @ [Calling y]) [y] ((a1, h), ts)"
      using ch_call [of "length ts" "ts @ [Calling y]" y B "(a1, h)"] by simp
    from channel_run_step [OF this] channel_run_start [OF first, of B h ts cs "((b, h), ts)"] Some cs show ?thesis by auto
  qed
qed

lemma listener_is_found:
  "smap_get (ca_listenerMap a) (session_key s d) = Some (Some l) \<Longrightarrow> smap_sorted (ca_listenerMap a)
   \<Longrightarrow> contains (session_key s d) s \<Longrightarrow> session_key s d \<in> set (listeners_of s a)"
  by (force simp: listeners_of_def smap_get_iff)

lemma str_find_prefix: "str_find (p @ s) p = Some 0"
  using str_prefix_append [of p s] by (cases "p @ s") auto

lemma contains_session_key [simp]: "contains (session_key s d) s"
  by (simp add: contains_def session_key_def str_find_prefix)

lemma OnSoftbusChannelOpened_sessions:
  assumes "peerSess \<noteq> []" and "devB \<noteq> []" and "FindSessNameByPeerSessName peerSess = s" and "s \<noteq> []"
  shows "smap_get (ca_devId2SessIdMap (snd (OnSoftbusChannelOpened peerSess sid devB 0 a))) k =
     (if k \<in> set (listeners_of s a) then Some sid
      else if k = session_key s devB then Some (case smap_get (ca_devId2SessIdMap a) k of None \<Rightarrow> sid | Some i \<Rightarrow> i)
      else smap_get (ca_devId2SessIdMap a) k)"
  using assms by (auto simp: OnSoftbusChannelOpened_def Let_def smap_get_emplace fold_reopen_get split: option.splits)

section \<open>Properties\<close>


text \<open>
  The look-up does not protect the call: a listener that is unregistered after a thread has looked it up, and before
  the thread calls it, is called all the same, although it is no longer in the map.
\<close>

theorem unregistered_listener_is_called:
  assumes "i < length (ca_threads a)" and "ca_threads a ! i = (session_key s d, ev)" and "s \<noteq> []" and "d \<noteq> []"
    and "smap_get (ca_listenerMap a) (session_key s d) = Some (Some l)"
    and "\<And>k. k \<noteq> session_key s d \<Longrightarrow> smap_get (ca_listenerMap a) k \<noteq> Some (Some l)"
  shows "\<exists>a1 a2 ts. channel_step B ((a, h), []) [] ((a1, h), ts) \<and> UnRegisterChannelListener s d a1 = (DH_AVT_SUCCESS, a2)
    \<and> (\<forall>k. smap_get (ca_listenerMap a2) k \<noteq> Some (Some l)) \<and> channel_step B ((a2, h), ts) [OnChannelEvent l ev] ((a2, h), [])"
proof -
  let ?a1 = "a\<lparr>ca_threads := drop_at i (ca_threads a)\<rparr>"
  let ?a2 = "?a1\<lparr>ca_listenerMap := smap_erase (session_key s d) (ca_listenerMap a)\<rparr>"
  have f: "find_call (session_key s d) (\<lambda>l. OnChannelEvent l ev) ?a1 = (Some (OnChannelEvent l ev), ?a1)"
    using assms(5) by (simp add: find_call_def listener_at_def)
  from ch_find [OF assms(1,2) f, of B h "[]"] have "channel_step B ((a, h), []) [] ((?a1, h), [Calling (OnChannelEvent l ev)])" by simp
  moreover have "channel_step B ((?a2, h), [Calling (OnChannelEvent l ev)]) [OnChannelEvent l ev] ((?a2, h), [])"
    using ch_call [of 0 "[Calling (OnChannelEvent l ev)]" _ B "(?a2, h)"] by (simp add: drop_at_def)
  moreover have "\<forall>k. smap_get (ca_listenerMap ?a2) k \<noteq> Some (Some l)" using assms(6) by simp
  moreover have "UnRegisterChannelListener s d ?a1 = (DH_AVT_SUCCESS, ?a2)" using assms(3,4) by (simp add: UnRegisterChannelListener_def)
  ultimately show ?thesis by blast
qed

text \<open>
  A channel that one device opens takes the channels of all others: after \<open>OnSoftbusChannelOpened\<close> for device \<open>B\<close> each
  device \<open>A\<close> with a listener of the same session name is recorded with the session of \<open>B\<close>, whatever session it had, and
  the bytes sent to \<open>A\<close> go to that session.
\<close>

theorem opening_takes_other_sessions:
  assumes "peerSess \<noteq> []" and "devB \<noteq> []" and "devA \<noteq> []" and "dat \<noteq> []"
    and "FindSessNameByPeerSessName peerSess = s" and "s \<noteq> []" and "sid \<ge> 0"
    and "channel_maps_ok a" and "smap_get (ca_listenerMap a) (session_key s devA) = Some (Some l)"
    and "ab_SendBytes B sid (c_str dat) h = (0, h')"
  shows "GetSessIdBySessName s devA (snd (OnSoftbusChannelOpened peerSess sid devB 0 a)) = sid
    \<and> SendBytesData B s devA dat (snd (OnSoftbusChannelOpened peerSess sid devB 0 a), h) = (DH_AVT_SUCCESS, h')"
proof -
  have "session_key s devA \<in> set (listeners_of s a)"
    using assms by (intro listener_is_found) (auto simp: channel_maps_ok_def)
  then have g: "GetSessIdBySessName s devA (snd (OnSoftbusChannelOpened peerSess sid devB 0 a)) = sid"
    using assms by (simp add: GetSessIdBySessName_def OnSoftbusChannelOpened_sessions)
  then show ?thesis using assms by (simp add: SendBytesData_def)
qed

text \<open>
  Property C29. The life of a channel: opening it records the socket of the soft bus for this session name and device and gives each
  listener of the session one event; a second opening is refused without a call to the soft bus; closing it
  shuts that socket down and forgets it, and touches no other channel.
\<close>

theorem channel_life_cycle:
  assumes "s \<noteq> []" and "q \<noteq> []" and "d \<noteq> []"
    and "smap_get (ca_devId2SessIdMap a) (session_key s d) = None"
    and "ab_Socket B (c_str s) (c_str q) (c_str d) (c_str (TransName2PkgName (GetOwnerFromSessName s))) (contains s ''avtrans.data'') h = (sid, h1)"
    and "sid > 0" and "ab_Bind B sid h1 = (0, h2)"
    and "OpenSoftbusChannel B s q d (a, h) = (r, a1, h3)"
    and "CloseSoftbusChannel B s d (a1, h3) = (r2, a2, h4)"
  shows "r = DH_AVT_SUCCESS \<and> h3 = h2 \<and> GetSessIdBySessName s d a1 = sid
    \<and> ca_threads a1 = ca_threads a @ map (\<lambda>k. (k, \<lparr> ev_type = EVENT_CHANNEL_OPENED, ev_content = s, ev_peerDevId = d \<rparr>)) (listeners_of s a)
    \<and> OpenSoftbusChannel B s q d (a1, h3) = (ERR_DH_AVT_SESSION_HAS_OPENED, a1, h3)
    \<and> r2 = DH_AVT_SUCCESS \<and> h4 = ab_Shutdown B sid h3 \<and> GetSessIdBySessName s d a2 = - 1
    \<and> (\<forall>k. k \<noteq> session_key s d \<longrightarrow> smap_get (ca_devId2SessIdMap a2) k = smap_get (ca_devId2SessIdMap a) k)"
proof -
  have a1: "r = DH_AVT_SUCCESS" "h3 = h2"
    "a1 = SendEventChannelOPened s d (a\<lparr>ca_devId2SessIdMap := smap_emplace (session_key s d) sid (ca_devId2SessIdMap a)\<rparr>)"
    using assms by (auto simp: OpenSoftbusChannel_def GetSessIdBySessName_def Let_def)
  then have g: "GetSessIdBySessName s d a1 = sid"
    using assms by (simp add: GetSessIdBySessName_def SendEventChannelOPened_def Let_def smap_get_emplace)
  have t: "ca_threads a1 = ca_threads a @ map (\<lambda>k. (k, \<lparr> ev_type = EVENT_CHANNEL_OPENED, ev_content = s, ev_peerDevId = d \<rparr>)) (listeners_of s a)"
    using a1 by (simp add: SendEventChannelOPened_def Let_def listeners_of_def)
  have o: "OpenSoftbusChannel B s q d (a1, h3) = (ERR_DH_AVT_SESSION_HAS_OPENED, a1, h3)"
    using assms g by (simp add: OpenSoftbusChannel_def)
  have c: "r2 = DH_AVT_SUCCESS" "h4 = ab_Shutdown B sid h3"
    "a2 = a1\<lparr>ca_devId2SessIdMap := smap_erase (session_key s d) (ca_devId2SessIdMap a1)\<rparr>"
    using assms g by (auto simp: CloseSoftbusChannel_def Let_def)
  from a1 have "\<forall>k. k \<noteq> session_key s d \<longrightarrow> smap_get (ca_devId2SessIdMap a2) k = smap_get (ca_devId2SessIdMap a) k"
    using assms(4) by (simp add: c(3) SendEventChannelOPened_def Let_def smap_get_emplace)
  moreover have "GetSessIdBySessName s d a2 = - 1" by (simp add: c(3) GetSessIdBySessName_def)
  ultimately show ?thesis using a1(1,2) g t o c(1,2) by blast
qed

lemma OnSoftbusChannelClosed_get:
  assumes "channel_maps_ok a"
  shows "smap_get (ca_devId2SessIdMap (OnSoftbusChannelClosed sid a)) k
      = (if smap_get (ca_devId2SessIdMap a) k = Some sid then None else smap_get (ca_devId2SessIdMap a) k)"
proof -
  define m where "m = ca_devId2SessIdMap a"
  have m: "smap_sorted m" using assms by (simp add: channel_maps_ok_def m_def)
  have f: "smap_get (filter (\<lambda>e. snd e \<noteq> sid) m) k = Some y \<longleftrightarrow> smap_get m k = Some y \<and> y \<noteq> sid" for y
    by (auto simp: smap_get_iff [OF smap_sorted_filter [OF m]] smap_get_iff [OF m])
  have "smap_get (filter (\<lambda>e. snd e \<noteq> sid) m) k = (if smap_get m k = Some sid then None else smap_get m k)"
  proof (cases "smap_get (filter (\<lambda>e. snd e \<noteq> sid) m) k")
    case None
    then show ?thesis using f by (cases "smap_get m k") auto
  next
    case (Some y)
    then show ?thesis using f [of y] by simp
  qed
  then show ?thesis by (simp add: OnSoftbusChannelClosed_def Let_def m_def)
qed

text \<open>
  When the soft bus reports that a session is closed, exactly the channels of that session are forgotten, and each of
  them gives one event to the listener of its own key, naming the owner and the peer of the session.
\<close>

theorem closed_session_is_forgotten:
  assumes "channel_maps_ok a"
  shows "smap_get (ca_devId2SessIdMap (OnSoftbusChannelClosed sid a)) k
      = (if smap_get (ca_devId2SessIdMap a) k = Some sid then None else smap_get (ca_devId2SessIdMap a) k)
    \<and> (\<exists>ks. distinct ks \<and> set ks = {k. smap_get (ca_devId2SessIdMap a) k = Some sid}
        \<and> ca_threads (OnSoftbusChannelClosed sid a) = ca_threads a @ map (\<lambda>k. (k, \<lparr> ev_type = EVENT_CHANNEL_CLOSED,
            ev_content = GetOwnerFromSessName k, ev_peerDevId = GetPeerDevIdBySessId sid a \<rparr>)) ks)
    \<and> GetSessionNameById sid (OnSoftbusChannelClosed sid a) = []"
proof -
  define m where "m = ca_devId2SessIdMap a"
  define ks where "ks = map fst (filter (\<lambda>e. snd e = sid) m)"
  have m: "smap_sorted m" using assms by (simp add: channel_maps_ok_def m_def)
  have ks: "distinct ks" using smap_sorted_distinct [OF m] by (simp add: ks_def distinct_map_filter)
  have ks_set: "set ks = {k. smap_get m k = Some sid}" by (force simp: ks_def smap_get_iff [OF m])
  have "ca_threads (OnSoftbusChannelClosed sid a) = ca_threads a @ map (\<lambda>k. (k, \<lparr> ev_type = EVENT_CHANNEL_CLOSED,
            ev_content = GetOwnerFromSessName k, ev_peerDevId = GetPeerDevIdBySessId sid a \<rparr>)) ks"
    by (simp add: OnSoftbusChannelClosed_def Let_def ks_def m_def)
  moreover have "List.find (\<lambda>e. snd e = sid) (ca_devId2SessIdMap (OnSoftbusChannelClosed sid a)) = None"
    by (simp add: OnSoftbusChannelClosed_def Let_def find_None_iff)
  ultimately show ?thesis
    unfolding OnSoftbusChannelClosed_get [OF assms] GetSessionNameById_def using ks ks_set
    by (intro conjI exI [of _ ks]) (simp_all add: m_def)
qed

section \<open>Witnesses\<close>

text \<open>A soft bus that numbers its sockets and keeps what it is asked to send and to shut down.\<close>

definition sample_av_bus :: "(int \<times> (int \<times> string) list) av_bus" where
  "sample_av_bus = \<lparr>
     ab_Socket = \<lambda>_ _ _ _ _ (n, l). (n, n + 1, l), ab_Listen = \<lambda>_ h. (0, h), ab_Bind = \<lambda>_ h. (0, h),
     ab_Shutdown = \<lambda>i (n, l). (n, l @ [(i, ''shutdown'')]), ab_SendBytes = \<lambda>i x (n, l). (0, n, l @ [(i, x)]),
     ab_SendStream = \<lambda>i x e (n, l). (0, n, l @ [(i, x)]), ab_StartTimeSync = \<lambda>_ _ h. (0, h), ab_StopTimeSync = \<lambda>_ _ h. (0, h) \<rparr>"

definition sample_session :: string where "sample_session = ''ohos.dhardware.daudio.dmic_sender.avtrans.control''"
definition sample_peer_session :: string where "sample_peer_session = ''ohos.dhardware.daudio.dmic_receiver.avtrans.control''"

definition sample_adapter :: channel_adapter where
  "sample_adapter = snd (RegisterChannelListener sample_session ''devB'' (Some 2)
     (snd (RegisterChannelListener sample_session ''devA'' (Some 1) channel_adapter_new)))"

lemma sample_adapter_ok: "channel_maps_ok sample_adapter" by code_simp

lemma sample_session_found: "FindSessNameByPeerSessName sample_peer_session = sample_session" by code_simp

theorem opening_takes_other_sessions_witness:
  "SendBytesData sample_av_bus sample_session ''devA'' ''hello''
     (snd (OnSoftbusChannelOpened sample_peer_session 7 ''devB'' 0 sample_adapter), 1, []) = (DH_AVT_SUCCESS, 1, [(7, ''hello'')])"
proof -
  have l: "smap_get (ca_listenerMap sample_adapter) (session_key sample_session ''devA'') = Some (Some 1)" by code_simp
  have b: "ab_SendBytes sample_av_bus 7 (c_str ''hello'') (1, []) = (0, 1, [(7, ''hello'')])" by code_simp
  show ?thesis
    using opening_takes_other_sessions
      [OF _ _ _ _ sample_session_found _ _ sample_adapter_ok l b, where devB = "''devB''"]
    by (simp add: sample_session_def sample_peer_session_def)
qed

theorem channel_life_cycle_witness:
  "\<exists>a1 a2 h1 h2. OpenSoftbusChannel sample_av_bus sample_session sample_peer_session ''devA'' (sample_adapter, 1, []) = (DH_AVT_SUCCESS, a1, h1)
     \<and> OpenSoftbusChannel sample_av_bus sample_session sample_peer_session ''devA'' (a1, h1) = (ERR_DH_AVT_SESSION_HAS_OPENED, a1, h1)
     \<and> CloseSoftbusChannel sample_av_bus sample_session ''devA'' (a1, h1) = (DH_AVT_SUCCESS, a2, h2)
     \<and> GetSessIdBySessName sample_session ''devA'' a2 = - 1"
proof -
  obtain r a1 h1 where o: "OpenSoftbusChannel sample_av_bus sample_session sample_peer_session ''devA'' (sample_adapter, 1, []) = (r, a1, h1)"
    by (rule prod_cases3)
  obtain r2 a2 h2 where c: "CloseSoftbusChannel sample_av_bus sample_session ''devA'' (a1, h1) = (r2, a2, h2)"
    by (rule prod_cases3)
  have n: "smap_get (ca_devId2SessIdMap sample_adapter) (session_key sample_session ''devA'') = None" by code_simp
  have s: "ab_Socket sample_av_bus x y z p b (1, []) = (1, 2, [])" for x y z p b by (simp add: sample_av_bus_def)
  have b: "ab_Bind sample_av_bus 1 (2, []) = (0, 2, [])" by (simp add: sample_av_bus_def)
  have "sample_session \<noteq> []" "sample_peer_session \<noteq> []" "''devA'' \<noteq> []" "(1::int) > 0"
    by (simp_all add: sample_session_def sample_peer_session_def)
  from channel_life_cycle [OF this(1,2,3) n s this(4) b o c] o c show ?thesis by blast
qed

theorem closed_session_is_forgotten_witness:
  "GetSessionNameById 7 (OnSoftbusChannelClosed 7 (snd (OnSoftbusChannelOpened sample_peer_session 7 ''devB'' 0 sample_adapter))) = []
   \<and> GetSessionNameById 7 (snd (OnSoftbusChannelOpened sample_peer_session 7 ''devB'' 0 sample_adapter)) \<noteq> []"
proof -
  have "channel_maps_ok (snd (OnSoftbusChannelOpened sample_peer_session 7 ''devB'' 0 sample_adapter))" by code_simp
  moreover have "GetSessionNameById 7 (snd (OnSoftbusChannelOpened sample_peer_session 7 ''devB'' 0 sample_adapter)) \<noteq> []" by code_simp
  ultimately show ?thesis using closed_session_is_forgotten by blast
qed






end
