(* ===== verification/DHF_AvCenter.thy ===== *)
theory DHF_AvCenter
  imports DHF_AvChannel
begin

text \<open>
  The control center of the audio and video transport: \<open>av_trans_control_center.cpp\<close> hands out engine numbers,
  opens the control channels and passes parameters to the engines, \<open>av_sync_manager.cpp\<close> decides when the streams
  of a device are kept in step. Both are single objects that call each other, so they share the record \<open>center\<close>.
  The world around them is the channel adapter, the soft bus, the shared memory and what the callbacks of the engines
  were called with, oldest first. A callback is a number. The center is listener 0 of the adapter.
\<close>

abbreviation (input) ERR_DH_AVT_CREATE_CHANNEL_FAILED :: ret where "ERR_DH_AVT_CREATE_CHANNEL_FAILED \<equiv> - 80010"
abbreviation (input) ERR_DH_AVT_CHANNEL_ALREADY_CREATED :: ret where "ERR_DH_AVT_CHANNEL_ALREADY_CREATED \<equiv> - 80011"
abbreviation (input) ERR_DH_AVT_INVALID_PARAM_VALUE :: ret where "ERR_DH_AVT_INVALID_PARAM_VALUE \<equiv> - 81000"
abbreviation (input) BASE_ENGINE_ID :: int where "BASE_ENGINE_ID \<equiv> 1000"
abbreviation (input) INVALID_ENGINE_ID :: int where "INVALID_ENGINE_ID \<equiv> - 1"
abbreviation (input) AV_SYNC_STREAM_COUNT :: nat where "AV_SYNC_STREAM_COUNT \<equiv> 2"
abbreviation (input) TAG_START_AV_SYNC :: "32 word" where "TAG_START_AV_SYNC \<equiv> 65544"
abbreviation (input) TAG_STOP_AV_SYNC :: "32 word" where "TAG_STOP_AV_SYNC \<equiv> 65545"
abbreviation (input) TAG_TIME_SYNC_RESULT :: "32 word" where "TAG_TIME_SYNC_RESULT \<equiv> 65546"
abbreviation (input) AVT_CENTER :: nat where "AVT_CENTER \<equiv> 0"

definition PKG_NAME_DH_FWK :: string where "PKG_NAME_DH_FWK = ''ohos.dhardware''"
definition SCENE_TYPE_D_MIC :: string where "SCENE_TYPE_D_MIC = ''dmic_stream''"
definition SCENE_TYPE_D_SCREEN :: string where "SCENE_TYPE_D_SCREEN = ''dscreen_stream''"
definition SCENE_TYPE_D_SPEAKER :: string where "SCENE_TYPE_D_SPEAKER = ''dspeaker_stream''"
definition SCENE_TYPE_D_CAMERA_STR :: string where "SCENE_TYPE_D_CAMERA_STR = ''dcamera_stream''"

section \<open>State\<close>

datatype trans_role = AV_SENDER | AV_RECEIVER | UNKNOWN_ROLE

record av_stream =
  st_sceneType :: string
  st_peerDevId :: string

record center =
  cc_transRole :: trans_role
  cc_sessionName :: string
  cc_rootEngineId :: int
  cc_initialized :: bool
  cc_connectedDevIds :: "string list"
  cc_engine2DevIdMap :: "(int, string) smap"
  cc_callbackMap :: "(int, nat) smap"
  cc_streamInfoList :: "av_stream list"
  cc_sourceMemory :: shared_memory
  cc_sinkMemory :: shared_memory

datatype engine_call = SetParameter "32 word" string | SetSharedMemory shared_memory

record 'h av_world =
  aw_center :: center
  aw_adapter :: channel_adapter
  aw_bus :: 'h
  aw_segments :: segments
  aw_calls :: "(nat \<times> engine_call) list"

text \<open>What the center calls and does not contain: the soft bus, cJSON and the shared memory of the system.\<close>

record ('h, 'j) av_env =
  ae_bus :: "'h av_bus"
  ae_json :: "'j cjson"
  ae_CreateString :: "string \<Rightarrow> 'j"
  ae_shm :: shm_api

definition no_memory :: shared_memory where "no_memory = \<lparr> sm_fd = 0, sm_size = 0, sm_name = [] \<rparr>"

definition center_new :: center where
  "center_new = \<lparr> cc_transRole = UNKNOWN_ROLE, cc_sessionName = [], cc_rootEngineId = BASE_ENGINE_ID, cc_initialized = False,
     cc_connectedDevIds = [], cc_engine2DevIdMap = [], cc_callbackMap = [], cc_streamInfoList = [],
     cc_sourceMemory = no_memory, cc_sinkMemory = no_memory \<rparr>"

text \<open>An operation of the adapter on the world.\<close>

definition on_channels :: "('h channels \<Rightarrow> ret \<times> 'h channels) \<Rightarrow> 'h av_world \<Rightarrow> ret \<times> 'h av_world" where
  "on_channels f W = (let (r, a, h) = f (aw_adapter W, aw_bus W) in (r, W\<lparr>aw_adapter := a, aw_bus := h\<rparr>))"

definition on_adapter :: "(channel_adapter \<Rightarrow> ret \<times> channel_adapter) \<Rightarrow> 'h av_world \<Rightarrow> ret \<times> 'h av_world" where
  "on_adapter f W = (let (r, a) = f (aw_adapter W) in (r, W\<lparr>aw_adapter := a\<rparr>))"

definition upd_center :: "(center \<Rightarrow> center) \<Rightarrow> 'h av_world \<Rightarrow> 'h av_world" where
  "upd_center f W = W\<lparr>aw_center := f (aw_center W)\<rparr>"

section \<open>Engines\<close>

text \<open>\<open>rootEngineId_\<close> is an atomic \<open>int32_t\<close>: its increment wraps.\<close>

definition int32_inc :: "int \<Rightarrow> int" where
  "int32_inc i = sint (of_int (i + 1) :: 32 word)"

definition InitializeAVCenter :: "('h, 'j) av_env \<Rightarrow> trans_role \<Rightarrow> 'h av_world \<Rightarrow> ret \<times> int \<times> 'h av_world" where
  "InitializeAVCenter E transRole W =
     (if transRole \<noteq> AV_SENDER \<and> transRole \<noteq> AV_RECEIVER then (ERR_DH_AVT_INVALID_PARAM_VALUE, INVALID_ENGINE_ID, W)
      else if cc_initialized (aw_center W)
      then (DH_AVT_SUCCESS, cc_rootEngineId (aw_center W), upd_center (\<lambda>c. c\<lparr>cc_rootEngineId := int32_inc (cc_rootEngineId c)\<rparr>) W)
      else let (r1, W1) = on_channels (CreateChannelServer (ae_bus E) PKG_NAME_DH_FWK AV_SYNC_RECEIVER_CONTROL_SESSION_NAME) W in
        if r1 \<noteq> DH_AVT_SUCCESS then (r1, INVALID_ENGINE_ID, W1)
        else let (r2, W2) = on_adapter (RegisterChannelListener AV_SYNC_RECEIVER_CONTROL_SESSION_NAME
                   AV_TRANS_SPECIAL_DEVICE_ID (Some AVT_CENTER)) W1 in
          if r2 \<noteq> DH_AVT_SUCCESS then (r2, INVALID_ENGINE_ID, W2)
          else (DH_AVT_SUCCESS, cc_rootEngineId (aw_center W2),
                upd_center (\<lambda>c. c\<lparr>cc_initialized := True, cc_transRole := transRole,
                  cc_rootEngineId := int32_inc (cc_rootEngineId c)\<rparr>) W2))"

definition IsInvalidEngineId :: "int \<Rightarrow> center \<Rightarrow> bool" where
  "IsInvalidEngineId engineId c \<longleftrightarrow> engineId < BASE_ENGINE_ID \<or> engineId > cc_rootEngineId c"

definition ReleaseAVCenter :: "('h, 'j) av_env \<Rightarrow> int \<Rightarrow> 'h av_world \<Rightarrow> ret \<times> 'h av_world" where
  "ReleaseAVCenter E engineId W =
     (if IsInvalidEngineId engineId (aw_center W) then (ERR_DH_AVT_INVALID_PARAM_VALUE, W)
      else let W1 = upd_center (\<lambda>c. c\<lparr>cc_callbackMap := smap_erase engineId (cc_callbackMap c)\<rparr>) W in
        case smap_get (cc_engine2DevIdMap (aw_center W1)) engineId of
          None \<Rightarrow> (DH_AVT_SUCCESS, W1)
        | Some peerDevId \<Rightarrow>
            let W2 = upd_center (\<lambda>c. c\<lparr>cc_engine2DevIdMap := smap_erase engineId (cc_engine2DevIdMap c)\<rparr>) W1 in
            if \<exists>e\<in>set (cc_engine2DevIdMap (aw_center W2)). snd e = peerDevId then (DH_AVT_SUCCESS, W2)
            else if peerDevId \<notin> set (cc_connectedDevIds (aw_center W2)) then (DH_AVT_SUCCESS, W2)
            else let W3 = upd_center (\<lambda>c. c\<lparr>cc_connectedDevIds := remove1 peerDevId (cc_connectedDevIds c)\<rparr>) W2;
                     sess = cc_sessionName (aw_center W3);
                     W4 = snd (on_channels (StopDeviceTimeSync (ae_bus E) PKG_NAME_DH_FWK sess peerDevId) W3);
                     W5 = snd (on_channels (CloseSoftbusChannel (ae_bus E) sess peerDevId) W4);
                     W6 = snd (on_adapter (UnRegisterChannelListener AV_SYNC_SENDER_CONTROL_SESSION_NAME AV_TRANS_SPECIAL_DEVICE_ID) W5);
                     W7 = snd (on_adapter (UnRegisterChannelListener AV_SYNC_RECEIVER_CONTROL_SESSION_NAME AV_TRANS_SPECIAL_DEVICE_ID) W6)
                 in (DH_AVT_SUCCESS, W7))"

definition CreateControlChannel :: "('h, 'j) av_env \<Rightarrow> int \<Rightarrow> string \<Rightarrow> 'h av_world \<Rightarrow> ret \<times> 'h av_world" where
  "CreateControlChannel E engineId peerDevId W =
     (let add = upd_center (\<lambda>c. c\<lparr>cc_engine2DevIdMap := smap_emplace engineId peerDevId (cc_engine2DevIdMap c)\<rparr>) in
      if IsInvalidEngineId engineId (aw_center W) then (ERR_DH_AVT_INVALID_PARAM_VALUE, W)
      else if \<not> cc_initialized (aw_center W) then (ERR_DH_AVT_CREATE_CHANNEL_FAILED, W)
      else if peerDevId \<in> set (cc_connectedDevIds (aw_center W)) then (ERR_DH_AVT_CHANNEL_ALREADY_CREATED, add W)
      else let (r1, W1) = on_adapter (RegisterChannelListener AV_SYNC_SENDER_CONTROL_SESSION_NAME
                 AV_TRANS_SPECIAL_DEVICE_ID (Some AVT_CENTER)) W in
        if r1 \<noteq> DH_AVT_SUCCESS then (r1, W1)
        else let (r2, W2) = on_channels (OpenSoftbusChannel (ae_bus E) AV_SYNC_SENDER_CONTROL_SESSION_NAME
                   AV_SYNC_RECEIVER_CONTROL_SESSION_NAME peerDevId) W1 in
          if r2 \<noteq> DH_AVT_SUCCESS \<and> r2 \<noteq> ERR_DH_AVT_SESSION_HAS_OPENED then (r2, W2)
          else (DH_AVT_SUCCESS, add W2))"

text \<open>A null callback is \<open>None\<close>; a callback that is there is kept.\<close>

definition RegisterCtlCenterCallback :: "int \<Rightarrow> nat option \<Rightarrow> 'h av_world \<Rightarrow> ret \<times> 'h av_world" where
  "RegisterCtlCenterCallback engineId callback W =
     (if IsInvalidEngineId engineId (aw_center W) then (ERR_DH_AVT_INVALID_PARAM_VALUE, W)
      else case callback of
        None \<Rightarrow> (ERR_DH_AVT_INVALID_PARAM_VALUE, W)
      | Some cb \<Rightarrow> (DH_AVT_SUCCESS, upd_center (\<lambda>c. c\<lparr>cc_callbackMap := smap_emplace engineId cb (cc_callbackMap c)\<rparr>) W))"

section \<open>Messages to peers and engines\<close>

definition av_SendMessage :: "('h, 'j) av_env \<Rightarrow> av_message \<Rightarrow> 'h av_world \<Rightarrow> ret \<times> 'h av_world" where
  "av_SendMessage E m W =
     (let (r, h) = SendBytesData (ae_bus E) (cc_sessionName (aw_center W)) (am_dstDevId m) (MarshalMessage (ae_json E) m)
            (aw_adapter W, aw_bus W)
      in (r, W\<lparr>aw_bus := h\<rparr>))"

definition SetParam2Engines :: "engine_call \<Rightarrow> 'h av_world \<Rightarrow> 'h av_world" where
  "SetParam2Engines x W = W\<lparr>aw_calls := aw_calls W @ map (\<lambda>e. (snd e, x)) (cc_callbackMap (aw_center W))\<rparr>"

section \<open>Streams that are kept in step\<close>

text \<open>\<open>MergeGroupInfoInner\<close>: the description of one stream, and the set of those of all; \<open>None\<close> when a call of cJSON fails.\<close>

definition stream_info :: "'j cjson \<Rightarrow> av_stream \<Rightarrow> rat \<Rightarrow> string option" where
  "stream_info cj item flag =
     (case cJSON_CreateObject cj of
        None \<Rightarrow> None
      | Some j \<Rightarrow>
          (let j1 = cJSON_AddStringToObject cj j ''sceneType'' (c_str (st_sceneType item));
               j2 = cJSON_AddStringToObject cj j1 ''peerDevId'' (c_str (st_peerDevId item));
               j3 = cJSON_AddNumberToObject cj j2 ''startFrameNum'' 0;
               j4 = cJSON_AddNumberToObject cj j3 ''avSyncFlag'' flag
           in map_option c_str (cJSON_PrintUnformatted cj j4)))"

fun MergeGroupInfoInner :: "'j cjson \<Rightarrow> av_stream list \<Rightarrow> string list \<Rightarrow> string list option" where
  "MergeGroupInfoInner cj [] groupInfoSet = Some groupInfoSet"
| "MergeGroupInfoInner cj (item # items) groupInfoSet =
     (if st_sceneType item = SCENE_TYPE_D_MIC \<or> st_sceneType item = SCENE_TYPE_D_SPEAKER
      then case stream_info cj item 0 of
          None \<Rightarrow> None
        | Some s \<Rightarrow> MergeGroupInfoInner cj items (sset_insert s groupInfoSet)
      else if st_sceneType item = SCENE_TYPE_D_SCREEN \<or> st_sceneType item = SCENE_TYPE_D_CAMERA_STR
      then case stream_info cj item 1 of
          None \<Rightarrow> None
        | Some s \<Rightarrow> MergeGroupInfoInner cj items (sset_insert s groupInfoSet)
      else MergeGroupInfoInner cj items groupInfoSet)"

definition GetsyncGroupInfo :: "('h, 'j) av_env \<Rightarrow> string list \<Rightarrow> string" where
  "GetsyncGroupInfo E groupInfoSet =
     (let cj = ae_json E in
      case cJSON_CreateObject cj of
        None \<Rightarrow> []
      | Some j \<Rightarrow>
          (let j1 = cJSON_AddStringToObject cj j ''myDevId'' [] in
           case cJSON_CreateArray cj of
             None \<Rightarrow> []
           | Some arr \<Rightarrow>
               (let arr1 = fold (\<lambda>info x. cJSON_AddItemToArray cj x (ae_CreateString E (c_str info))) groupInfoSet arr;
                    j2 = cJSON_AddItemToObject cj j1 ''groupInfoArray'' arr1
                in case cJSON_PrintUnformatted cj j2 of None \<Rightarrow> [] | Some data \<Rightarrow> c_str data)))"

definition scenes_match :: "string list \<Rightarrow> bool" where
  "scenes_match sceneTypeSet \<longleftrightarrow>
     length sceneTypeSet \<ge> AV_SYNC_STREAM_COUNT
     \<and> \<not> (SCENE_TYPE_D_MIC \<in> set sceneTypeSet \<and> SCENE_TYPE_D_SPEAKER \<in> set sceneTypeSet)
     \<and> ((SCENE_TYPE_D_SCREEN \<in> set sceneTypeSet \<and> SCENE_TYPE_D_SPEAKER \<in> set sceneTypeSet)
        \<or> (SCENE_TYPE_D_CAMERA_STR \<in> set sceneTypeSet \<and> SCENE_TYPE_D_MIC \<in> set sceneTypeSet))"

definition MergeGroupInfo :: "('h, 'j) av_env \<Rightarrow> av_stream list \<Rightarrow> string option" where
  "MergeGroupInfo E streams =
     (if \<not> scenes_match (fold (\<lambda>item. sset_insert (st_sceneType item)) streams []) then None
      else case MergeGroupInfoInner (ae_json E) streams [] of
        None \<Rightarrow> None
      | Some groupInfoSet \<Rightarrow> (let info = GetsyncGroupInfo E groupInfoSet in if info = [] then None else Some info))"

definition send_to_streams :: "('h, 'j) av_env \<Rightarrow> 32 word \<Rightarrow> string \<Rightarrow> 'h av_world \<Rightarrow> 'h av_world" where
  "send_to_streams E tag value W =
     fold (\<lambda>item V. snd (av_SendMessage E \<lparr> am_type = tag, am_content = value, am_dstDevId = st_peerDevId item \<rparr> V))
       (cc_streamInfoList (aw_center W)) W"

definition create_memory :: "('h, 'j) av_env \<Rightarrow> string \<Rightarrow> nat \<Rightarrow> 'h av_world \<Rightarrow> shared_memory \<times> 'h av_world" where
  "create_memory E name sz W =
     (let (m, ss) = CreateAVTransSharedMemory (ae_shm E) name sz (aw_segments W) in (m, W\<lparr>aw_segments := ss\<rparr>))"

definition EnableSenderAVSync :: "('h, 'j) av_env \<Rightarrow> 'h av_world \<Rightarrow> 'h av_world" where
  "EnableSenderAVSync E W =
     (case MergeGroupInfo E (cc_streamInfoList (aw_center W)) of
        None \<Rightarrow> W
      | Some syncGroupInfo \<Rightarrow>
          (let (m, W1) = create_memory E ''sourceSharedMemory'' 12 (send_to_streams E TAG_START_AV_SYNC syncGroupInfo W)
           in SetParam2Engines (SetSharedMemory m) (upd_center (\<lambda>c. c\<lparr>cc_sourceMemory := m\<rparr>) W1)))"

text \<open>\<open>CloseAVTransSharedMemory\<close> takes the memory as a constant: the record keeps its descriptor.\<close>

definition close_memory :: "shared_memory \<Rightarrow> 'h av_world \<Rightarrow> 'h av_world" where
  "close_memory m W = W\<lparr>aw_segments := CloseAVTransSharedMemory m (aw_segments W)\<rparr>"

definition DisableSenderAVSync :: "('h, 'j) av_env \<Rightarrow> 'h av_world \<Rightarrow> 'h av_world" where
  "DisableSenderAVSync E W =
     (if length (cc_streamInfoList (aw_center W)) \<ge> AV_SYNC_STREAM_COUNT then W
      else SetParam2Engines (SetSharedMemory \<lparr> sm_fd = 0, sm_size = 0, sm_name = ''sourceSharedMemory'' \<rparr>)
        (close_memory (cc_sourceMemory (aw_center W)) (send_to_streams E TAG_STOP_AV_SYNC [] W)))"

definition AddStreamInfo :: "('h, 'j) av_env \<Rightarrow> av_stream \<Rightarrow> 'h av_world \<Rightarrow> 'h av_world" where
  "AddStreamInfo E stream W =
     (let W1 = upd_center (\<lambda>c. c\<lparr>cc_streamInfoList := cc_streamInfoList c @ [stream]\<rparr>) W in
      if length (cc_streamInfoList (aw_center W1)) < AV_SYNC_STREAM_COUNT then W1 else EnableSenderAVSync E W1)"

definition RemoveStreamInfo :: "('h, 'j) av_env \<Rightarrow> av_stream \<Rightarrow> 'h av_world \<Rightarrow> 'h av_world" where
  "RemoveStreamInfo E stream W =
     DisableSenderAVSync E (upd_center (\<lambda>c. c\<lparr>cc_streamInfoList :=
       filter (\<lambda>x. \<not> (st_sceneType x = st_sceneType stream \<and> st_peerDevId x = st_peerDevId stream)) (cc_streamInfoList c)\<rparr>) W)"

definition EnableReceiverAVSync :: "('h, 'j) av_env \<Rightarrow> string \<Rightarrow> 'h av_world \<Rightarrow> 'h av_world" where
  "EnableReceiverAVSync E groupInfo W =
     (let (m, W1) = create_memory E ''sinkSharedMemory'' (12 * MAX_CLOCK_UNIT_COUNT) W
      in SetParam2Engines (SetParameter TAG_START_AV_SYNC groupInfo)
           (SetParam2Engines (SetSharedMemory m) (upd_center (\<lambda>c. c\<lparr>cc_sinkMemory := m\<rparr>) W1)))"

definition DisableReceiverAVSync :: "'h av_world \<Rightarrow> 'h av_world" where
  "DisableReceiverAVSync W =
     SetParam2Engines (SetSharedMemory \<lparr> sm_fd = 0, sm_size = 0, sm_name = ''sinkSharedMemory'' \<rparr>)
       (SetParam2Engines (SetParameter TAG_STOP_AV_SYNC []) (close_memory (cc_sinkMemory (aw_center W)) W))"

definition HandleAvSyncMessage :: "('h, 'j) av_env \<Rightarrow> av_message \<Rightarrow> 'h av_world \<Rightarrow> 'h av_world" where
  "HandleAvSyncMessage E m W =
     (if am_type m = TAG_START_AV_SYNC then EnableReceiverAVSync E (am_content m) W
      else if am_type m = TAG_STOP_AV_SYNC then DisableReceiverAVSync W else W)"

definition NotifyAVCenter :: "('h, 'j) av_env \<Rightarrow> int \<Rightarrow> av_event \<Rightarrow> 'h av_world \<Rightarrow> ret \<times> 'h av_world" where
  "NotifyAVCenter E engineId event W =
     (if IsInvalidEngineId engineId (aw_center W) then (ERR_DH_AVT_INVALID_PARAM_VALUE, W)
      else let stream = \<lparr> st_sceneType = ev_content event, st_peerDevId = ev_peerDevId event \<rparr> in
        (DH_AVT_SUCCESS,
         case ev_type event of
           EVENT_ADD_STREAM \<Rightarrow> AddStreamInfo E stream W
         | EVENT_REMOVE_STREAM \<Rightarrow> RemoveStreamInfo E stream W
         | _ \<Rightarrow> W))"

section \<open>Events of the control channels\<close>

definition HandleChannelEvent :: "('h, 'j) av_env \<Rightarrow> av_event \<Rightarrow> 'h av_world \<Rightarrow> 'h av_world" where
  "HandleChannelEvent E event W =
     (if ev_type event = EVENT_CHANNEL_CLOSED then W
      else if ev_type event = EVENT_CHANNEL_OPEN_FAIL then W
      else if ev_type event = EVENT_CHANNEL_OPENED
      then let W1 = upd_center (\<lambda>c. c\<lparr>cc_sessionName := ev_content event\<rparr>) W;
               W2 = if ev_content event = AV_SYNC_RECEIVER_CONTROL_SESSION_NAME
                 then snd (on_channels (StartDeviceTimeSync (ae_bus E) PKG_NAME_DH_FWK (ev_content event) (ev_peerDevId event)) W1) else W1
           in upd_center (\<lambda>c. c\<lparr>cc_connectedDevIds := cc_connectedDevIds c @ [ev_peerDevId event]\<rparr>) W2
      else W)"

definition HandleDataReceived :: "('h, 'j) av_env \<Rightarrow> string \<Rightarrow> string \<Rightarrow> 'h av_world \<Rightarrow> 'h av_world" where
  "HandleDataReceived E content peerDevId W =
     (case UnmarshalMessage (ae_json E) content peerDevId AVTransMessage_new of
        (False, _) \<Rightarrow> W
      | (True, m) \<Rightarrow> if am_type m = TAG_START_AV_SYNC \<or> am_type m = TAG_STOP_AV_SYNC then HandleAvSyncMessage E m W else W)"

definition center_OnChannelEvent :: "('h, 'j) av_env \<Rightarrow> av_event \<Rightarrow> 'h av_world \<Rightarrow> 'h av_world" where
  "center_OnChannelEvent E event W =
     (case ev_type event of
        EVENT_CHANNEL_OPENED \<Rightarrow> HandleChannelEvent E event W
      | EVENT_CHANNEL_CLOSED \<Rightarrow> HandleChannelEvent E event W
      | EVENT_CHANNEL_OPEN_FAIL \<Rightarrow> HandleChannelEvent E event W
      | EVENT_DATA_RECEIVED \<Rightarrow> HandleDataReceived E (ev_content event) (ev_peerDevId event) W
      | EVENT_TIME_SYNC_RESULT \<Rightarrow> SetParam2Engines (SetParameter TAG_TIME_SYNC_RESULT (ev_content event)) W
      | _ \<Rightarrow> W)"

text \<open>
  The calls that the adapter makes to listener 0 reach the center; those to other listeners are not its concern.
  \<open>thread_event\<close> lets one thread of the adapter run to its end.
\<close>

definition deliver :: "('h, 'j) av_env \<Rightarrow> channel_call list \<Rightarrow> 'h av_world \<Rightarrow> 'h av_world" where
  "deliver E cs W = fold (\<lambda>c V. case c of OnChannelEvent l ev \<Rightarrow> if l = AVT_CENTER then center_OnChannelEvent E ev V else V
     | OnStreamReceived l d e \<Rightarrow> V) cs W"

definition thread_event :: "('h, 'j) av_env \<Rightarrow> nat \<Rightarrow> 'h av_world \<Rightarrow> 'h av_world" where
  "thread_event E i W = (let (cs, a) = run_thread i (aw_adapter W) in deliver E cs (W\<lparr>aw_adapter := a\<rparr>))"

end
