(* ===== verification/DHF_AvCenterProps.thy ===== *)
theory DHF_AvCenterProps
  imports DHF_AvCenter DHF_Json_Model
begin

text \<open>
  Properties of the control center: a synchronisation message arrives at the engines of the peer as it was sent,
  and the sequences of calls in which the code loses a control channel, its listener, a callback or a segment of
  shared memory.
\<close>

section \<open>Worlds\<close>

lemma upd_center_simps [simp]:
  "aw_center (upd_center f W) = f (aw_center W)" "aw_adapter (upd_center f W) = aw_adapter W" "aw_bus (upd_center f W) = aw_bus W"
  "aw_segments (upd_center f W) = aw_segments W" "aw_calls (upd_center f W) = aw_calls W"
  by (simp_all add: upd_center_def)

lemma on_channels_simps [simp]:
  "aw_center (snd (on_channels f W)) = aw_center W" "aw_segments (snd (on_channels f W)) = aw_segments W"
  "aw_adapter (snd (on_channels f W)) = fst (snd (f (aw_adapter W, aw_bus W)))"
  "fst (on_channels f W) = fst (f (aw_adapter W, aw_bus W))"
  by (simp_all add: on_channels_def case_prod_unfold Let_def)

lemma on_adapter_simps [simp]:
  "aw_center (snd (on_adapter f W)) = aw_center W" "aw_segments (snd (on_adapter f W)) = aw_segments W"
  "aw_adapter (snd (on_adapter f W)) = snd (f (aw_adapter W))" "fst (on_adapter f W) = fst (f (aw_adapter W))"
  by (simp_all add: on_adapter_def case_prod_unfold Let_def)

lemma SetParam2Engines_simps [simp]:
  "aw_center (SetParam2Engines x W) = aw_center W" "aw_adapter (SetParam2Engines x W) = aw_adapter W"
  "aw_segments (SetParam2Engines x W) = aw_segments W"
  "aw_calls (SetParam2Engines x W) = aw_calls W @ map (\<lambda>e. (snd e, x)) (cc_callbackMap (aw_center W))"
  by (simp_all add: SetParam2Engines_def)

lemma av_SendMessage_simps [simp]:
  "aw_center (snd (av_SendMessage E m W)) = aw_center W" "aw_segments (snd (av_SendMessage E m W)) = aw_segments W"
  "aw_adapter (snd (av_SendMessage E m W)) = aw_adapter W" "aw_calls (snd (av_SendMessage E m W)) = aw_calls W"
  by (simp_all add: av_SendMessage_def case_prod_unfold Let_def)

lemma send_to_streams_simps [simp]:
  "aw_center (send_to_streams E t v W) = aw_center W" "aw_segments (send_to_streams E t v W) = aw_segments W"
  "aw_adapter (send_to_streams E t v W) = aw_adapter W" "aw_calls (send_to_streams E t v W) = aw_calls W"
proof -
  have "aw_center (fold (\<lambda>i V. snd (av_SendMessage E (f i) V)) xs W) = aw_center W
      \<and> aw_segments (fold (\<lambda>i V. snd (av_SendMessage E (f i) V)) xs W) = aw_segments W
      \<and> aw_adapter (fold (\<lambda>i V. snd (av_SendMessage E (f i) V)) xs W) = aw_adapter W
      \<and> aw_calls (fold (\<lambda>i V. snd (av_SendMessage E (f i) V)) xs W) = aw_calls W" for f and xs :: "av_stream list"
    by (induction xs arbitrary: W) auto
  then show "aw_center (send_to_streams E t v W) = aw_center W" "aw_segments (send_to_streams E t v W) = aw_segments W"
    "aw_adapter (send_to_streams E t v W) = aw_adapter W" "aw_calls (send_to_streams E t v W) = aw_calls W"
    by (simp_all add: send_to_streams_def)
qed

lemma close_memory_simps [simp]:
  "aw_center (close_memory m W) = aw_center W" "aw_adapter (close_memory m W) = aw_adapter W"
  "aw_segments (close_memory m W) = CloseAVTransSharedMemory m (aw_segments W)"
  by (simp_all add: close_memory_def)

lemma create_memory_simps [simp]:
  "aw_center (snd (create_memory E n z W)) = aw_center W" "aw_adapter (snd (create_memory E n z W)) = aw_adapter W"
  "aw_calls (snd (create_memory E n z W)) = aw_calls W"
  "aw_segments (snd (create_memory E n z W)) = snd (CreateAVTransSharedMemory (ae_shm E) n z (aw_segments W))"
  "fst (create_memory E n z W) = fst (CreateAVTransSharedMemory (ae_shm E) n z (aw_segments W))"
  by (simp_all add: create_memory_def case_prod_unfold Let_def)

lemma EnableReceiverAVSync_simps:
  "aw_center (EnableReceiverAVSync E g W) = (aw_center W)\<lparr>cc_sinkMemory := fst (create_memory E ''sinkSharedMemory'' 600 W)\<rparr>"
  "aw_segments (EnableReceiverAVSync E g W) = snd (CreateAVTransSharedMemory (ae_shm E) ''sinkSharedMemory'' 600 (aw_segments W))"
  "aw_calls (EnableReceiverAVSync E g W) = aw_calls W
     @ map (\<lambda>e. (snd e, SetSharedMemory (fst (create_memory E ''sinkSharedMemory'' 600 W)))) (cc_callbackMap (aw_center W))
     @ map (\<lambda>e. (snd e, SetParameter TAG_START_AV_SYNC g)) (cc_callbackMap (aw_center W))"
  by (simp_all add: EnableReceiverAVSync_def case_prod_unfold Let_def)

lemma RemoveStreamInfo_few:
  assumes "length (filter (\<lambda>x. \<not> (st_sceneType x = st_sceneType s \<and> st_peerDevId x = st_peerDevId s)) (cc_streamInfoList (aw_center W))) < 2"
  shows "aw_segments (RemoveStreamInfo E s W) = CloseAVTransSharedMemory (cc_sourceMemory (aw_center W)) (aw_segments W)"
    and "aw_center (RemoveStreamInfo E s W) = (aw_center W)\<lparr>cc_streamInfoList :=
       filter (\<lambda>x. \<not> (st_sceneType x = st_sceneType s \<and> st_peerDevId x = st_peerDevId s)) (cc_streamInfoList (aw_center W))\<rparr>"
  using assms by (simp_all add: RemoveStreamInfo_def DisableSenderAVSync_def)

section \<open>The message that starts the synchronisation\<close>

definition message_json :: "'j cjson \<Rightarrow> av_message \<Rightarrow> 'j \<Rightarrow> 'j" where
  "message_json cj m j = cJSON_AddStringToObject cj (cJSON_AddStringToObject cj
     (cJSON_AddNumberToObject cj j ''type'' (of_nat (unat (am_type m)))) ''content'' (c_str (am_content m))) ''dstDevId'' (c_str (am_dstDevId m))"

definition message_sendable :: "av_message \<Rightarrow> bool" where
  "message_sendable m \<longleftrightarrow> unat (am_type m) < 2147483647 \<and> CHR 0x00 \<notin> set (am_content m) \<and> length (am_content m) \<le> MAX_MESSAGE_LEN"

lemma message_keys: "\<not> same_key ''type'' ''content''" "\<not> same_key ''content'' ''type''"
  "\<not> same_key ''dstDevId'' ''type''" "\<not> same_key ''dstDevId'' ''content''"
  by (simp_all add: same_key_def)

lemma message_items:
  assumes "cjson_build_laws cj" and "cJSON_CreateObject cj = Some j" and "message_sendable m"
  shows "has_number cj (message_json cj m j) ''type'' (unat (am_type m))"
    and "has_string cj (message_json cj m j) ''content'' (am_content m)"
proof -
  have "unat (am_type m) < 2 ^ 53" using assms(3) by (simp add: message_sendable_def)
  then show "has_number cj (message_json cj m j) ''type'' (unat (am_type m))"
    unfolding message_json_def using assms(1,2) message_keys by (simp add: json_build del: of_nat_unat)
  have "CHR 0x00 \<notin> set (am_content m)" using assms(3) by (simp add: message_sendable_def)
  then show "has_string cj (message_json cj m j) ''content'' (am_content m)"
    unfolding message_json_def using assms(1,2) message_keys by (simp add: json_build c_str_id)
qed

lemma message_round_trip:
  assumes "cjson_build_laws cj" and "cJSON_CreateObject cj = Some j" and "message_sendable m"
    and "items_read_back cj (message_json cj m j) {''type'', ''content''}"
  shows "UnmarshalMessage cj (MarshalMessage cj m) peer m0 = (True, m0\<lparr>am_type := am_type m, am_content := am_content m, am_dstDevId := peer\<rparr>)"
proof -
  obtain t ob where t: "cJSON_PrintUnformatted cj (message_json cj m j) = Some t" "CHR 0x00 \<notin> set t" "cJSON_Parse cj t = Some ob"
    and it: "cJSON_GetObjectItemCaseSensitive cj ob ''type'' = cJSON_GetObjectItem cj (message_json cj m j) ''type''"
      "cJSON_GetObjectItemCaseSensitive cj ob ''content'' = cJSON_GetObjectItem cj (message_json cj m j) ''content''"
    using assms(4) by (auto simp: items_read_back_def)
  have data: "MarshalMessage cj m = t"
    using t assms(2) by (simp add: MarshalMessage_def message_json_def Let_def c_str_id)
  obtain v where v: "cJSON_GetObjectItemCaseSensitive cj ob ''type'' = Some v" "cJSON_IsNumber cj v"
      "valuedouble cj v = of_nat (unat (am_type m))"
    using message_items(1) [OF assms(1-3)] it by (auto simp: has_number_def)
  obtain w where w: "cJSON_GetObjectItemCaseSensitive cj ob ''content'' = Some w" "cJSON_IsString cj w" "valuestring cj w = am_content m"
    using message_items(2) [OF assms(1-3)] it by (auto simp: has_string_def)
  have n: "valueint cj v = int (unat (am_type m))"
    using valueint_nat [OF v(3)] assms(3) by (simp add: message_sendable_def)
  have "AvMsg_IsUInt32 cj ob ''type''" using v by (simp add: AvMsg_IsUInt32_def)
  moreover have "AvMsg_IsString cj ob ''content''" using w assms(3) by (simp add: AvMsg_IsString_def message_sendable_def)
  ultimately show ?thesis
    using t v w n by (simp add: UnmarshalMessage_def data c_str_id Let_def)
qed

text \<open>
  Property C30. A message that starts the synchronisation, marshalled by the sender and received by the center of the peer, creates
  the ring of clock units there and gives each registered engine first this memory and then the group information as the
  sender wrote it, in the order of the engine numbers.
\<close>

theorem start_sync_reaches_engines:
  assumes "cjson_build_laws (ae_json E)" and "cJSON_CreateObject (ae_json E) = Some j"
    and "am_type m = TAG_START_AV_SYNC" and "message_sendable m" and "items_read_back (ae_json E) (message_json (ae_json E) m j) {''type'', ''content''}"
    and "CreateAVTransSharedMemory (ae_shm E) ''sinkSharedMemory'' 600 (aw_segments W) = (mem, ss)"
  shows "let W' = center_OnChannelEvent E \<lparr> ev_type = EVENT_DATA_RECEIVED, ev_content = MarshalMessage (ae_json E) m, ev_peerDevId = peer \<rparr> W
    in aw_calls W' = aw_calls W @ map (\<lambda>e. (snd e, SetSharedMemory mem)) (cc_callbackMap (aw_center W))
         @ map (\<lambda>e. (snd e, SetParameter TAG_START_AV_SYNC (am_content m))) (cc_callbackMap (aw_center W))
       \<and> cc_sinkMemory (aw_center W') = mem \<and> aw_segments W' = ss"
  using message_round_trip [OF assms(1,2,4,5), of peer AVTransMessage_new] assms(3,6)
  by (simp add: center_OnChannelEvent_def HandleDataReceived_def HandleAvSyncMessage_def EnableReceiverAVSync_simps)

section \<open>Control channels\<close>

lemma control_names: "AV_SYNC_SENDER_CONTROL_SESSION_NAME \<noteq> []" "AV_SYNC_RECEIVER_CONTROL_SESSION_NAME \<noteq> []" "AV_TRANS_SPECIAL_DEVICE_ID \<noteq> []"
  by (simp_all add: AV_SYNC_SENDER_CONTROL_SESSION_NAME_def AV_SYNC_RECEIVER_CONTROL_SESSION_NAME_def AV_TRANS_SPECIAL_DEVICE_ID_def)

lemma control_session_of_sender:
  "FindSessNameByPeerSessName AV_SYNC_SENDER_CONTROL_SESSION_NAME = AV_SYNC_RECEIVER_CONTROL_SESSION_NAME"
  by code_simp

lemma int32_inc_small: "0 \<le> i \<Longrightarrow> i < 2147483647 \<Longrightarrow> int32_inc i = i + 1"
  unfolding int32_inc_def sint_sbintrunc' by (rule signed_take_bit_int_eq_self) simp_all

text \<open>
  A control channel that was closed is not opened again: the center keeps the device among the connected ones when
  the event of the closing arrives, so a later \<open>CreateControlChannel\<close> for it answers that the channel is there, calls
  neither the adapter nor the soft bus, and the messages to the device fail as long as the adapter has no session for it.
\<close>

theorem closed_channel_is_not_reopened:
  assumes "cc_initialized (aw_center W)" and "\<not> IsInvalidEngineId engineId (aw_center W)"
    and "dev \<in> set (cc_connectedDevIds (aw_center W))" and "dev \<noteq> []" and "cc_sessionName (aw_center W) \<noteq> []"
    and "smap_get (ca_devId2SessIdMap (aw_adapter W)) (session_key (cc_sessionName (aw_center W)) dev) = Some sid"
    and "channel_maps_ok (aw_adapter W)"
    and "W1 = center_OnChannelEvent E \<lparr> ev_type = EVENT_CHANNEL_CLOSED, ev_content = x, ev_peerDevId = dev \<rparr>
      (W\<lparr>aw_adapter := OnSoftbusChannelClosed sid (aw_adapter W)\<rparr>)"
    and "CreateControlChannel E engineId dev W1 = (r, W2)"
    and "am_dstDevId m = dev" and "MarshalMessage (ae_json E) m \<noteq> []"
  shows "r = ERR_DH_AVT_CHANNEL_ALREADY_CREATED \<and> aw_adapter W2 = aw_adapter W1 \<and> aw_bus W2 = aw_bus W1
    \<and> fst (av_SendMessage E m W2) = ERR_DH_AVT_SEND_DATA_FAILED"
proof -
  have W1: "W1 = W\<lparr>aw_adapter := OnSoftbusChannelClosed sid (aw_adapter W)\<rparr>"
    by (simp add: assms(8) center_OnChannelEvent_def HandleChannelEvent_def)
  have c: "r = ERR_DH_AVT_CHANNEL_ALREADY_CREATED" "aw_adapter W2 = aw_adapter W1" "aw_bus W2 = aw_bus W1"
    "cc_sessionName (aw_center W2) = cc_sessionName (aw_center W)"
    using assms(1-3,9) by (auto simp: CreateControlChannel_def W1)
  have gone: "smap_get (ca_devId2SessIdMap (OnSoftbusChannelClosed sid (aw_adapter W))) (session_key (cc_sessionName (aw_center W)) dev) = None"
    using OnSoftbusChannelClosed_get [OF assms(7)] assms(6) by simp
  have "fst (av_SendMessage E m W2) = ERR_DH_AVT_SEND_DATA_FAILED"
    using assms(4,5,10,11) gone
    by (simp add: av_SendMessage_def SendBytesData_def GetSessIdBySessName_def case_prod_unfold Let_def c W1)
  with c show ?thesis by simp
qed

text \<open>
  The release of the last engine of a connected device takes away the listener of the receiver's control session, which only the
  first \<open>InitializeAVCenter\<close> registers: the next one succeeds without registering it, and when a peer then opens its control
  channel no thread is started, so the center never hears of it.
\<close>

theorem released_center_is_deaf:
  assumes "cc_initialized (aw_center W)" and "\<not> IsInvalidEngineId engineId (aw_center W)"
    and "smap_get (cc_engine2DevIdMap (aw_center W)) engineId = Some dev" and "dev \<in> set (cc_connectedDevIds (aw_center W))"
    and "\<forall>e\<in>set (cc_engine2DevIdMap (aw_center W)). snd e = dev \<longrightarrow> fst e = engineId"
    and "\<forall>k \<in> set (listeners_of AV_SYNC_RECEIVER_CONTROL_SESSION_NAME (aw_adapter W)).
      k = session_key AV_SYNC_RECEIVER_CONTROL_SESSION_NAME AV_TRANS_SPECIAL_DEVICE_ID"
    and "ReleaseAVCenter E engineId W = (r1, W1)" and "InitializeAVCenter E AV_RECEIVER W1 = (r2, newId, W2)"
  shows "r1 = DH_AVT_SUCCESS \<and> r2 = DH_AVT_SUCCESS
    \<and> ca_threads (snd (OnSoftbusChannelOpened AV_SYNC_SENDER_CONTROL_SESSION_NAME sid peer 0 (aw_adapter W2))) = ca_threads (aw_adapter W2)"
proof -
  have map: "smap_erase engineId (cc_engine2DevIdMap (aw_center W)) = filter (\<lambda>e. fst e \<noteq> engineId) (cc_engine2DevIdMap (aw_center W))"
    by (simp add: smap_erase_def)
  have free: "\<not> (\<exists>e\<in>set (smap_erase engineId (cc_engine2DevIdMap (aw_center W))). snd e = dev)"
    using assms(5) by (auto simp: map)
  let ?a = "aw_adapter W" and ?s = "cc_sessionName (aw_center W)"
  have r1: "r1 = DH_AVT_SUCCESS" and c1: "cc_initialized (aw_center W1)"
    and l1: "ca_listenerMap (aw_adapter W1) = smap_erase (session_key AV_SYNC_RECEIVER_CONTROL_SESSION_NAME AV_TRANS_SPECIAL_DEVICE_ID)
      (smap_erase (session_key AV_SYNC_SENDER_CONTROL_SESSION_NAME AV_TRANS_SPECIAL_DEVICE_ID) (ca_listenerMap ?a))"
    using assms(1-4,7) free
    by (auto simp: ReleaseAVCenter_def Let_def UnRegisterChannelListener_def CloseSoftbusChannel_def StopDeviceTimeSync_def
        case_prod_unfold control_names split: if_splits)
  have "r2 = DH_AVT_SUCCESS" and a2: "aw_adapter W2 = aw_adapter W1"
    using assms(8) c1 by (auto simp: InitializeAVCenter_def)
  have none: "listeners_of AV_SYNC_RECEIVER_CONTROL_SESSION_NAME (aw_adapter W1) = []"
    using assms(6) by (fastforce simp: listeners_of_def l1 smap_erase_def filter_empty_conv)
  have "ca_threads (snd (OnSoftbusChannelOpened AV_SYNC_SENDER_CONTROL_SESSION_NAME sid peer 0 (aw_adapter W1))) = ca_threads (aw_adapter W1)"
    by (simp add: OnSoftbusChannelOpened_def Let_def control_session_of_sender none)
  then show ?thesis using r1 \<open>r2 = DH_AVT_SUCCESS\<close> a2 by simp
qed

text \<open>
  The check of engine numbers accepts the number that is handed out next: a callback registered under it stays when
  the number is handed out, and the callback of its owner is dropped although \<open>RegisterCtlCenterCallback\<close> reports success.
\<close>

theorem next_engine_id_is_taken:
  assumes "cc_initialized (aw_center W)" and "BASE_ENGINE_ID \<le> cc_rootEngineId (aw_center W)"
    and "cc_rootEngineId (aw_center W) < 2147483647"
    and "smap_get (cc_callbackMap (aw_center W)) (cc_rootEngineId (aw_center W)) = None"
    and "RegisterCtlCenterCallback (cc_rootEngineId (aw_center W)) (Some cb1) W = (r1, W1)"
    and "InitializeAVCenter E AV_SENDER W1 = (r2, engineId, W2)"
    and "RegisterCtlCenterCallback engineId (Some cb2) W2 = (r3, W3)"
  shows "r1 = DH_AVT_SUCCESS \<and> r2 = DH_AVT_SUCCESS \<and> r3 = DH_AVT_SUCCESS \<and> smap_get (cc_callbackMap (aw_center W3)) engineId = Some cb1"
proof -
  have W1: "r1 = DH_AVT_SUCCESS"
    "W1 = upd_center (\<lambda>c. c\<lparr>cc_callbackMap := smap_emplace (cc_rootEngineId (aw_center W)) cb1 (cc_callbackMap c)\<rparr>) W"
    using assms(2,5) by (auto simp: RegisterCtlCenterCallback_def IsInvalidEngineId_def)
  have W2: "r2 = DH_AVT_SUCCESS" "engineId = cc_rootEngineId (aw_center W)"
    "W2 = upd_center (\<lambda>c. c\<lparr>cc_rootEngineId := int32_inc (cc_rootEngineId c)\<rparr>) W1"
    using assms(1,6) W1(2) by (auto simp: InitializeAVCenter_def)
  have inc: "int32_inc (cc_rootEngineId (aw_center W)) = cc_rootEngineId (aw_center W) + 1"
    using assms(2,3) by (intro int32_inc_small) auto
  have W3: "r3 = DH_AVT_SUCCESS" "W3 = upd_center (\<lambda>c. c\<lparr>cc_callbackMap := smap_emplace engineId cb2 (cc_callbackMap c)\<rparr>) W2"
    using assms(2,7) W1(2) W2 inc by (auto simp: RegisterCtlCenterCallback_def IsInvalidEngineId_def)
  show ?thesis using W1 W2 W3 assms(4) by (simp add: smap_get_emplace)
qed

section \<open>Shared memory\<close>

text \<open>
  The descriptor of the sender's memory is closed once for each of the last two streams that is removed. When the system gives
  the descriptor in between to the memory of the receiver, the second removal closes that one: the center still holds it as
  its ring of clock units, and it is gone.
\<close>

theorem source_memory_is_closed_twice:
  assumes "cc_streamInfoList (aw_center W) = [x, y]" and "\<not> (st_sceneType x = st_sceneType y \<and> st_peerDevId x = st_peerDevId y)"
    and "cc_sourceMemory (aw_center W) = \<lparr> sm_fd = fd, sm_size = 12, sm_name = ''sourceSharedMemory'' \<rparr>" and "fd > 0"
    and "W1 = RemoveStreamInfo E x W"
    and "CreateAVTransSharedMemory (ae_shm E) ''sinkSharedMemory'' 600 (aw_segments W1)
      = (\<lparr> sm_fd = fd, sm_size = 600, sm_name = ''sinkSharedMemory'' \<rparr>, smap_put fd (replicate 600 0) (aw_segments W1))"
    and "W2 = EnableReceiverAVSync E g W1" and "W3 = RemoveStreamInfo E y W2"
  shows "smap_get (aw_segments W1) fd = None \<and> smap_get (aw_segments W2) fd = Some (replicate 600 0)
    \<and> cc_sinkMemory (aw_center W3) = \<lparr> sm_fd = fd, sm_size = 600, sm_name = ''sinkSharedMemory'' \<rparr> \<and> smap_get (aw_segments W3) fd = None"
proof -
  have close: "CloseAVTransSharedMemory (cc_sourceMemory (aw_center W)) ss = smap_erase fd ss" for ss
    using assms(3,4) by (simp add: CloseAVTransSharedMemory_def IsInValidSharedMemory_def)
  let ?p = "\<lambda>s x. \<not> (st_sceneType x = st_sceneType s \<and> st_peerDevId x = st_peerDevId s)"
  have few1: "filter (?p x) (cc_streamInfoList (aw_center W)) = [y]" using assms(1,2) by auto
  have c1: "aw_segments W1 = smap_erase fd (aw_segments W)" "aw_center W1 = (aw_center W)\<lparr>cc_streamInfoList := [y]\<rparr>"
    using RemoveStreamInfo_few [of x W E] few1 close by (simp_all add: assms(5))
  have c2: "aw_segments W2 = smap_put fd (replicate 600 0) (aw_segments W1)"
    "aw_center W2 = (aw_center W1)\<lparr>cc_sinkMemory := \<lparr> sm_fd = fd, sm_size = 600, sm_name = ''sinkSharedMemory'' \<rparr>\<rparr>"
    using assms(6) by (simp_all add: assms(7) EnableReceiverAVSync_simps)
  have c3: "aw_segments W3 = smap_erase fd (aw_segments W2)" "aw_center W3 = (aw_center W2)\<lparr>cc_streamInfoList := []\<rparr>"
    using RemoveStreamInfo_few [of y W2 E] close by (simp_all add: assms(8) c2 c1)
  show ?thesis by (simp add: c1 c2 c3)
qed

section \<open>Witnesses\<close>

definition center_shm :: shm_api where
  "center_shm = \<lparr> sh_Create = \<lambda>_ _ ss. if smap_get ss 3 = None then 3 else 4, sh_SetProt = \<lambda>_. 0, sh_mmap = \<lambda>_. True, sh_memset = \<lambda>_. True \<rparr>"

definition sample_av_env :: "(int \<times> (int \<times> string) list, jnode) av_env" where
  "sample_av_env = \<lparr> ae_bus = sample_av_bus, ae_json = model_cjson, ae_CreateString = JStr, ae_shm = center_shm \<rparr>"

definition sample_center :: center where
  "sample_center = center_new\<lparr>cc_initialized := True, cc_rootEngineId := 1002, cc_sessionName := AV_SYNC_SENDER_CONTROL_SESSION_NAME,
     cc_connectedDevIds := [''devA''], cc_engine2DevIdMap := [(1000, ''devA'')], cc_callbackMap := [(1000, 5), (1001, 6)],
     cc_streamInfoList := [\<lparr> st_sceneType = SCENE_TYPE_D_MIC, st_peerDevId = ''devA'' \<rparr>,
       \<lparr> st_sceneType = SCENE_TYPE_D_CAMERA_STR, st_peerDevId = ''devA'' \<rparr>],
     cc_sourceMemory := \<lparr> sm_fd = 3, sm_size = 12, sm_name = ''sourceSharedMemory'' \<rparr>\<rparr>"

definition sample_av_world :: "(int \<times> (int \<times> string) list) av_world" where
  "sample_av_world = \<lparr> aw_center = sample_center,
     aw_adapter = channel_adapter_new\<lparr>ca_devId2SessIdMap := [(session_key AV_SYNC_SENDER_CONTROL_SESSION_NAME ''devA'', 7)],
       ca_listenerMap := [(session_key AV_SYNC_RECEIVER_CONTROL_SESSION_NAME AV_TRANS_SPECIAL_DEVICE_ID, Some 0)]\<rparr>,
     aw_bus = (1, []), aw_segments = [(3, replicate 12 0)], aw_calls = [] \<rparr>"

definition sample_message :: av_message where
  "sample_message = \<lparr> am_type = TAG_START_AV_SYNC, am_content = ''group'', am_dstDevId = ''devA'' \<rparr>"

lemmas sample_av = sample_av_world_def sample_center_def center_new_def

lemma sample_env_simps [simp]:
  "ae_bus sample_av_env = sample_av_bus" "ae_json sample_av_env = model_cjson" "ae_shm sample_av_env = center_shm"
  by (simp_all add: sample_av_env_def)

lemma sample_message_json:
  "message_json model_cjson sample_message (JObj []) =
     JObj [(''type'', JNum 65544), (''content'', JStr ''group''), (''dstDevId'', JStr ''devA'')]"
  by (simp add: message_json_def sample_message_def model_cjson_def jn_add_def c_str_def)

lemma jn_print_nonempty: "c_str (jn_print 10 (JObj fs)) \<noteq> []"
  by (simp add: eval_nat_numeral c_str_def)

lemma sample_message_reads_back: "items_read_back model_cjson (message_json model_cjson sample_message (JObj [])) {''type'', ''content''}"
proof -
  define ob where "ob = JObj [(''type'', JNum 65544), (''content'', JStr ''group''), (''dstDevId'', JStr ''devA'')]"
  define t where "t = jn_print 10 ob"
  have "list_all (\<lambda>c. c \<noteq> CHR 0x00) t" unfolding t_def ob_def by code_simp
  then have n: "CHR 0x00 \<notin> set t" by (auto simp: list_all_iff)
  have p: "map_option fst (jn_parse (length t) t) = Some ob" unfolding t_def ob_def by code_simp
  have k: "\<forall>k\<in>{''type'', ''content''}. cJSON_GetObjectItemCaseSensitive model_cjson ob k = cJSON_GetObjectItem model_cjson ob k"
    unfolding ob_def by code_simp
  show ?thesis
    unfolding sample_message_json ob_def [symmetric] items_read_back_def using n p k
    by (intro exI [of _ t] exI [of _ ob]) (simp add: model_cjson_def t_def)
qed

theorem start_sync_reaches_engines_witness:
  "aw_calls (center_OnChannelEvent sample_av_env \<lparr> ev_type = EVENT_DATA_RECEIVED, ev_content = MarshalMessage model_cjson sample_message,
     ev_peerDevId = ''devB'' \<rparr> sample_av_world)
   = [(5, SetSharedMemory \<lparr> sm_fd = 4, sm_size = 600, sm_name = ''sinkSharedMemory'' \<rparr>),
      (6, SetSharedMemory \<lparr> sm_fd = 4, sm_size = 600, sm_name = ''sinkSharedMemory'' \<rparr>),
      (5, SetParameter TAG_START_AV_SYNC ''group''), (6, SetParameter TAG_START_AV_SYNC ''group'')]"
proof -
  have m: "CreateAVTransSharedMemory (ae_shm sample_av_env) ''sinkSharedMemory'' 600 (aw_segments sample_av_world)
      = (\<lparr> sm_fd = 4, sm_size = 600, sm_name = ''sinkSharedMemory'' \<rparr>, smap_put 4 (replicate 600 0) [(3, replicate 12 0)])"
    by (simp add: CreateAVTransSharedMemory_def center_shm_def sample_av smap_get_def Let_def)
  have j: "cJSON_CreateObject (ae_json sample_av_env) = Some (JObj [])" by (simp add: model_cjson_def)
  have l: "cjson_build_laws (ae_json sample_av_env)" by (simp add: model_cjson_laws)
  have s: "message_sendable sample_message" by (simp add: message_sendable_def sample_message_def)
  from start_sync_reaches_engines [OF l j _ s _ m, of "''devB''"] sample_message_reads_back show ?thesis
    by (simp add: sample_message_def sample_av Let_def)
qed

theorem closed_channel_is_not_reopened_witness:
  "\<exists>W1 W2. CreateControlChannel sample_av_env 1001 ''devA'' W1 = (ERR_DH_AVT_CHANNEL_ALREADY_CREATED, W2)
    \<and> W1 = center_OnChannelEvent sample_av_env \<lparr> ev_type = EVENT_CHANNEL_CLOSED, ev_content = [], ev_peerDevId = ''devA'' \<rparr>
      (sample_av_world\<lparr>aw_adapter := OnSoftbusChannelClosed 7 (aw_adapter sample_av_world)\<rparr>)
    \<and> fst (av_SendMessage sample_av_env sample_message W2) = ERR_DH_AVT_SEND_DATA_FAILED"
proof -
  define W1 where "W1 = center_OnChannelEvent sample_av_env \<lparr> ev_type = EVENT_CHANNEL_CLOSED, ev_content = [], ev_peerDevId = ''devA'' \<rparr>
      (sample_av_world\<lparr>aw_adapter := OnSoftbusChannelClosed 7 (aw_adapter sample_av_world)\<rparr>)"
  obtain r W2 where c: "CreateControlChannel sample_av_env 1001 ''devA'' W1 = (r, W2)" by (rule prod.exhaust)
  have s: "smap_get (ca_devId2SessIdMap (aw_adapter sample_av_world)) (session_key (cc_sessionName (aw_center sample_av_world)) ''devA'') = Some 7"
    by code_simp
  have ok: "channel_maps_ok (aw_adapter sample_av_world)" by code_simp
  have "MarshalMessage model_cjson sample_message = c_str (jn_print 10 (message_json model_cjson sample_message (JObj [])))"
    by (simp add: MarshalMessage_def message_json_def model_cjson_def Let_def)
  then have ne: "MarshalMessage (ae_json sample_av_env) sample_message \<noteq> []"
    by (simp add: sample_message_json jn_print_nonempty)
  have i: "cc_initialized (aw_center sample_av_world)" "\<not> IsInvalidEngineId 1001 (aw_center sample_av_world)"
    "''devA'' \<in> set (cc_connectedDevIds (aw_center sample_av_world))" "''devA'' \<noteq> []" "cc_sessionName (aw_center sample_av_world) \<noteq> []"
    "am_dstDevId sample_message = ''devA''"
    by (simp_all add: sample_av IsInvalidEngineId_def control_names sample_message_def)
  from closed_channel_is_not_reopened [OF i(1-5) s ok W1_def c i(6) ne] c show ?thesis unfolding W1_def by blast
qed

theorem released_center_is_deaf_witness:
  "\<exists>r1 W1 r2 newId W2. ReleaseAVCenter sample_av_env 1000 sample_av_world = (r1, W1) \<and> InitializeAVCenter sample_av_env AV_RECEIVER W1 = (r2, newId, W2)
    \<and> r1 = DH_AVT_SUCCESS \<and> r2 = DH_AVT_SUCCESS
    \<and> ca_threads (snd (OnSoftbusChannelOpened AV_SYNC_SENDER_CONTROL_SESSION_NAME 9 ''devB'' 0 (aw_adapter W2))) = ca_threads (aw_adapter W2)"
proof -
  obtain r1 W1 where r: "ReleaseAVCenter sample_av_env 1000 sample_av_world = (r1, W1)" by (rule prod.exhaust)
  obtain r2 newId W2 where i: "InitializeAVCenter sample_av_env AV_RECEIVER W1 = (r2, newId, W2)" by (rule prod_cases3)
  have l: "\<forall>k \<in> set (listeners_of AV_SYNC_RECEIVER_CONTROL_SESSION_NAME (aw_adapter sample_av_world)).
      k = session_key AV_SYNC_RECEIVER_CONTROL_SESSION_NAME AV_TRANS_SPECIAL_DEVICE_ID" by code_simp
  have p: "cc_initialized (aw_center sample_av_world)" "\<not> IsInvalidEngineId 1000 (aw_center sample_av_world)"
    "smap_get (cc_engine2DevIdMap (aw_center sample_av_world)) 1000 = Some ''devA''"
    "''devA'' \<in> set (cc_connectedDevIds (aw_center sample_av_world))"
    "\<forall>e\<in>set (cc_engine2DevIdMap (aw_center sample_av_world)). snd e = ''devA'' \<longrightarrow> fst e = 1000"
    by (simp_all add: sample_av IsInvalidEngineId_def smap_get_def)
  from released_center_is_deaf [OF p l r i] r i show ?thesis by blast
qed

theorem next_engine_id_is_taken_witness:
  "\<exists>W1 W2 W3 engineId. RegisterCtlCenterCallback 1002 (Some 8) sample_av_world = (DH_AVT_SUCCESS, W1)
    \<and> InitializeAVCenter sample_av_env AV_SENDER W1 = (DH_AVT_SUCCESS, engineId, W2)
    \<and> RegisterCtlCenterCallback engineId (Some 9) W2 = (DH_AVT_SUCCESS, W3) \<and> smap_get (cc_callbackMap (aw_center W3)) engineId = Some 8"
proof -
  have root: "cc_rootEngineId (aw_center sample_av_world) = 1002" by (simp add: sample_av)
  obtain r1 W1 where a: "RegisterCtlCenterCallback (cc_rootEngineId (aw_center sample_av_world)) (Some 8) sample_av_world = (r1, W1)"
    by (rule prod.exhaust)
  obtain r2 i W2 where b: "InitializeAVCenter sample_av_env AV_SENDER W1 = (r2, i, W2)" by (rule prod_cases3)
  obtain r3 W3 where c: "RegisterCtlCenterCallback i (Some 9) W2 = (r3, W3)" by (rule prod.exhaust)
  have p: "cc_initialized (aw_center sample_av_world)" "BASE_ENGINE_ID \<le> cc_rootEngineId (aw_center sample_av_world)"
    "cc_rootEngineId (aw_center sample_av_world) < 2147483647"
    "smap_get (cc_callbackMap (aw_center sample_av_world)) (cc_rootEngineId (aw_center sample_av_world)) = None"
    by (simp_all add: sample_av smap_get_def)
  from next_engine_id_is_taken [OF p a b c] a b c root show ?thesis by (metis)
qed

theorem source_memory_is_closed_twice_witness:
  "\<exists>W2 W3. W2 = EnableReceiverAVSync sample_av_env ''group''
       (RemoveStreamInfo sample_av_env \<lparr> st_sceneType = SCENE_TYPE_D_MIC, st_peerDevId = ''devA'' \<rparr> sample_av_world)
    \<and> W3 = RemoveStreamInfo sample_av_env \<lparr> st_sceneType = SCENE_TYPE_D_CAMERA_STR, st_peerDevId = ''devA'' \<rparr> W2
    \<and> smap_get (aw_segments W2) 3 = Some (replicate 600 0) \<and> smap_get (aw_segments W3) 3 = None"
proof -
  define x where "x = \<lparr> st_sceneType = SCENE_TYPE_D_MIC, st_peerDevId = ''devA'' \<rparr>"
  define y where "y = \<lparr> st_sceneType = SCENE_TYPE_D_CAMERA_STR, st_peerDevId = ''devA'' \<rparr>"
  define W1 where "W1 = RemoveStreamInfo sample_av_env x sample_av_world"
  define W2 where "W2 = EnableReceiverAVSync sample_av_env ''group'' W1"
  define W3 where "W3 = RemoveStreamInfo sample_av_env y W2"
  have s: "cc_streamInfoList (aw_center sample_av_world) = [x, y]" "\<not> (st_sceneType x = st_sceneType y \<and> st_peerDevId x = st_peerDevId y)"
    "cc_sourceMemory (aw_center sample_av_world) = \<lparr> sm_fd = 3, sm_size = 12, sm_name = ''sourceSharedMemory'' \<rparr>" "(3::int) > 0"
    by (simp_all add: sample_av x_def y_def SCENE_TYPE_D_MIC_def SCENE_TYPE_D_CAMERA_STR_def)
  have "smap_get (aw_segments W1) 3 = None"
    using RemoveStreamInfo_few(1) [of x sample_av_world sample_av_env] s
    by (simp add: W1_def CloseAVTransSharedMemory_def IsInValidSharedMemory_def)
  then have c: "CreateAVTransSharedMemory (ae_shm sample_av_env) ''sinkSharedMemory'' 600 (aw_segments W1)
      = (\<lparr> sm_fd = 3, sm_size = 600, sm_name = ''sinkSharedMemory'' \<rparr>, smap_put 3 (replicate 600 0) (aw_segments W1))"
    by (simp add: CreateAVTransSharedMemory_def center_shm_def Let_def)
  from source_memory_is_closed_twice [OF s W1_def c W2_def W3_def] show ?thesis
    unfolding W2_def W3_def W1_def x_def y_def by blast
qed

end
