(* ===== verification/DHF_AvBuffer.thy ===== *)
theory DHF_AvBuffer
  imports DHF_AvChannel "HOL-Library.Log_Nat"
begin

text \<open>
  Media buffers and what is sent along with them: \<open>av_trans_buffer.cpp\<close> (memory and meta items of a buffer),
  \<open>av_trans_meta.cpp\<close> (the time stamp and frame number of a frame as JSON) and \<open>av_trans_utils.cpp\<close> (conversions
  between the two kinds of buffer, the description of a channel, the ADTS header of an audio packet).

  \<open>size_t\<close> is a word of 64 bits. Memory is a list of bytes; an access outside it has the result \<open>None\<close>, and so
  has an exception of \<open>std::stoll\<close>. The meta objects of the media library have only the fields that this code sets.
\<close>

type_synonym size_t = "64 word"

abbreviation (input) INVALID_POSITION :: size_t where "INVALID_POSITION \<equiv> - 1"
abbreviation (input) CAPACITY_MAX_LENGTH :: size_t where "CAPACITY_MAX_LENGTH \<equiv> 8192"
abbreviation (input) BUFFER_MAX_CAPACITY :: size_t where "BUFFER_MAX_CAPACITY \<equiv> 104857600"
abbreviation (input) BUFFER_DATA_TYPE :: "32 word" where "BUFFER_DATA_TYPE \<equiv> 65538"
abbreviation (input) PRE_TIMESTAMP :: "32 word" where "PRE_TIMESTAMP \<equiv> 65539"
abbreviation (input) AUDIO_SAMPLE_RATE :: "32 word" where "AUDIO_SAMPLE_RATE \<equiv> 131074"
abbreviation (input) AUDIO_SAMPLE_FORMAT :: "32 word" where "AUDIO_SAMPLE_FORMAT \<equiv> 131077"
abbreviation (input) VIDEO_WIDTH :: "32 word" where "VIDEO_WIDTH \<equiv> 196609"
abbreviation (input) VIDEO_HEIGHT :: "32 word" where "VIDEO_HEIGHT \<equiv> 196610"
abbreviation (input) VIDEO_PIXEL_FORMAT :: "32 word" where "VIDEO_PIXEL_FORMAT \<equiv> 196612"

section \<open>Memory of a buffer\<close>

text \<open>
  The address is null or the bytes that are allocated behind it. \<open>new uint8_t[n]\<close> does not set its bytes: they are an
  argument. \<open>memcpy_s\<close> refuses a null pointer and the length 0.
\<close>

record buffer_data =
  bd_capacity :: size_t
  bd_size :: size_t
  bd_address :: "byte list option"

definition BufferData_new :: "byte list \<Rightarrow> size_t \<Rightarrow> buffer_data" where
  "BufferData_new fresh cap =
     \<lparr> bd_capacity = cap, bd_size = 0, bd_address = if cap \<le> CAPACITY_MAX_LENGTH then Some (take (unat cap) fresh) else None \<rparr>"

definition BufferData_wrap :: "size_t \<Rightarrow> byte list option \<Rightarrow> buffer_data" where
  "BufferData_wrap cap mem = \<lparr> bd_capacity = cap, bd_size = 0, bd_address = mem \<rparr>"

definition BufferData_SetSize :: "size_t \<Rightarrow> buffer_data \<Rightarrow> buffer_data" where
  "BufferData_SetSize n b = b\<lparr>bd_size := n\<rparr>"

definition BufferData_Reset :: "buffer_data \<Rightarrow> buffer_data" where
  "BufferData_Reset b = b\<lparr>bd_size := 0\<rparr>"

definition BufferData_Write :: "byte list \<Rightarrow> size_t \<Rightarrow> size_t \<Rightarrow> buffer_data \<Rightarrow> (size_t \<times> buffer_data) option" where
  "BufferData_Write inp writeSize position b =
     (let start = if position = INVALID_POSITION then bd_size b else min position (bd_capacity b);
          len = min writeSize (bd_capacity b - start)
      in case bd_address b of
           None \<Rightarrow> if start = 0 \<or> len = 0 then Some (0, b) else None
         | Some mem \<Rightarrow>
             if len = 0 then Some (0, b)
             else if length inp < unat len then None
             else case poke (unat start) (take (unat len) inp) mem of
               None \<Rightarrow> None
             | Some mem' \<Rightarrow> Some (len, b\<lparr>bd_size := start + len, bd_address := Some mem'\<rparr>))"

definition BufferData_Read :: "size_t \<Rightarrow> size_t \<Rightarrow> buffer_data \<Rightarrow> (size_t \<times> byte list) option" where
  "BufferData_Read readSize position b =
     (let start = if position \<noteq> INVALID_POSITION then min position (bd_size b) else 0;
          maxLength = if position \<noteq> INVALID_POSITION then bd_size b - start else bd_size b;
          len = min readSize maxLength
      in case bd_address b of
           None \<Rightarrow> if start = 0 \<or> len = 0 then Some (0, []) else None
         | Some mem \<Rightarrow>
             if len = 0 then Some (0, [])
             else if unat start + unat len \<le> length mem then Some (len, take (unat len) (drop (unat start) mem)) else None)"

section \<open>Buffers\<close>

datatype meta_type = META_AUDIO | META_VIDEO

record buffer_meta =
  bm_type :: meta_type
  bm_tagMap :: "(32 word, string) smap"

record trans_buffer =
  tb_data :: "buffer_data list"
  tb_meta :: "buffer_meta option"

definition BufferMeta_new :: "meta_type \<Rightarrow> buffer_meta" where
  "BufferMeta_new t = \<lparr> bm_type = t, bm_tagMap = [] \<rparr>"

definition AVTransBuffer_new :: "meta_type \<Rightarrow> trans_buffer" where
  "AVTransBuffer_new t = \<lparr> tb_data = [], tb_meta = Some (BufferMeta_new t) \<rparr>"

text \<open>The pointer that is returned is the index of the new element, or null.\<close>

definition CreateBufferData :: "byte list \<Rightarrow> size_t \<Rightarrow> trans_buffer \<Rightarrow> nat option \<times> trans_buffer" where
  "CreateBufferData fresh cap b =
     (if cap > BUFFER_MAX_CAPACITY then (None, b)
      else (Some (length (tb_data b)), b\<lparr>tb_data := tb_data b @ [BufferData_new fresh cap]\<rparr>))"

definition WrapBufferData :: "byte list option \<Rightarrow> size_t \<Rightarrow> size_t \<Rightarrow> trans_buffer \<Rightarrow> nat option \<times> trans_buffer" where
  "WrapBufferData dat cap sz b =
     (if cap > BUFFER_MAX_CAPACITY then (None, b)
      else (Some (length (tb_data b)), b\<lparr>tb_data := tb_data b @ [BufferData_SetSize sz (BufferData_wrap cap dat)]\<rparr>))"

definition GetBufferData :: "nat \<Rightarrow> trans_buffer \<Rightarrow> buffer_data option" where
  "GetBufferData index b = (if length (tb_data b) \<le> index then None else Some (tb_data b ! index))"

definition UpdateBufferMeta :: "buffer_meta option \<Rightarrow> trans_buffer \<Rightarrow> trans_buffer" where
  "UpdateBufferMeta m b = b\<lparr>tb_meta := m\<rparr>"

definition TransBuffer_IsEmpty :: "trans_buffer \<Rightarrow> bool" where
  "TransBuffer_IsEmpty b \<longleftrightarrow> tb_data b = []"

definition TransBuffer_Reset :: "trans_buffer \<Rightarrow> trans_buffer option" where
  "TransBuffer_Reset b =
     (case tb_data b of
        [] \<Rightarrow> None
      | d # ds \<Rightarrow> Some (b\<lparr>tb_data := BufferData_Reset d # ds, tb_meta := map_option (\<lambda>m. BufferMeta_new (bm_type m)) (tb_meta b)\<rparr>))"

text \<open>The item, or the value the variable had before.\<close>

definition GetMetaItem :: "32 word \<Rightarrow> string \<Rightarrow> buffer_meta \<Rightarrow> bool \<times> string" where
  "GetMetaItem tag value m = (case smap_get (bm_tagMap m) tag of Some v \<Rightarrow> (True, v) | None \<Rightarrow> (False, value))"

definition SetMetaItem :: "32 word \<Rightarrow> string \<Rightarrow> buffer_meta \<Rightarrow> buffer_meta" where
  "SetMetaItem tag value m = m\<lparr>bm_tagMap := smap_put tag value (bm_tagMap m)\<rparr>"

section \<open>Meta data of a frame\<close>

record audio_meta =
  au_pts :: int
  au_frameNum :: "32 word"
  au_sampleRate :: "32 word"
  au_dataType :: "32 word"
  au_format :: "32 word"

record video_meta =
  vi_pts :: int
  vi_frameNum :: "32 word"
  vi_extPts :: int
  vi_extFrameNum :: "32 word"
  vi_width :: "32 word"
  vi_height :: "32 word"
  vi_dataType :: "32 word"
  vi_format :: "32 word"

text \<open>An \<open>int64_t\<close> given to a \<open>double\<close>: the nearest number with 53 significant bits, the even one of two.\<close>

definition double_of_int :: "int \<Rightarrow> rat" where
  "double_of_int i =
     (let m = \<bar>i\<bar> in
      if m \<le> 2 ^ 53 then of_int i
      else let d = 2 ^ nat (bitlen m - 53); q = m div d; r = m mod d;
               q' = (if 2 * r < d \<or> (2 * r = d \<and> even q) then q else q + 1)
           in of_int (sgn i * q' * d))"

definition MarshalAudioMeta :: "'j cjson \<Rightarrow> audio_meta \<Rightarrow> string" where
  "MarshalAudioMeta cj m =
     (case cJSON_CreateObject cj of
        None \<Rightarrow> []
      | Some j \<Rightarrow>
          (let j1 = cJSON_AddNumberToObject cj j ''meta_data_type'' (of_nat (unat (au_dataType m)));
               j2 = cJSON_AddNumberToObject cj j1 ''meta_timestamp'' (double_of_int (au_pts m));
               j3 = cJSON_AddNumberToObject cj j2 ''meta_frame_number'' (of_nat (unat (au_frameNum m)))
           in case cJSON_PrintUnformatted cj j3 of None \<Rightarrow> [] | Some data \<Rightarrow> c_str data))"

text \<open>\<open>IsUInt32\<close> and \<open>IsInt64\<close> of the file compare the \<open>int\<close> of the item with bounds that it always keeps.\<close>

definition Av_IsInt64 :: "'j cjson \<Rightarrow> 'j \<Rightarrow> string \<Rightarrow> bool" where
  "Av_IsInt64 cj ob key =
     (case cJSON_GetObjectItemCaseSensitive cj ob key of
        None \<Rightarrow> False
      | Some k \<Rightarrow> cJSON_IsNumber cj k \<and> valueint cj k \<le> 9223372036854775807 \<and> valueint cj k \<ge> - 9223372036854775808)"

definition item_int :: "'j cjson \<Rightarrow> 'j \<Rightarrow> string \<Rightarrow> int option" where
  "item_int cj ob key =
     (case cJSON_GetObjectItemCaseSensitive cj ob key of
        None \<Rightarrow> None
      | Some k \<Rightarrow> if cJSON_IsNumber cj k then Some (valueint cj k) else None)"

definition UnmarshalAudioMeta :: "'j cjson \<Rightarrow> string \<Rightarrow> audio_meta \<Rightarrow> bool \<times> audio_meta" where
  "UnmarshalAudioMeta cj jsonStr m =
     (case cJSON_Parse cj (c_str jsonStr) of
        None \<Rightarrow> (False, m)
      | Some j \<Rightarrow>
          if \<not> AvMsg_IsUInt32 cj j ''meta_data_type'' \<or> \<not> Av_IsInt64 cj j ''meta_timestamp'' \<or> \<not> AvMsg_IsUInt32 cj j ''meta_frame_number''
          then (False, m)
          else (case (item_int cj j ''meta_data_type'', item_int cj j ''meta_timestamp'', item_int cj j ''meta_frame_number'') of
                  (Some t, Some p, Some f) \<Rightarrow> (True, m\<lparr>au_dataType := of_int t, au_pts := p, au_frameNum := of_int f\<rparr>)
                | _ \<Rightarrow> (False, m)))"

definition MarshalVideoMeta :: "'j cjson \<Rightarrow> video_meta \<Rightarrow> string" where
  "MarshalVideoMeta cj m =
     (case cJSON_CreateObject cj of
        None \<Rightarrow> []
      | Some j \<Rightarrow>
          (let j1 = cJSON_AddNumberToObject cj j ''meta_data_type'' (of_nat (unat (vi_dataType m)));
               j2 = cJSON_AddNumberToObject cj j1 ''meta_timestamp'' (double_of_int (vi_pts m));
               j3 = cJSON_AddNumberToObject cj j2 ''meta_frame_number'' (of_nat (unat (vi_frameNum m)));
               j4 = if vi_extPts m > 0 then cJSON_AddNumberToObject cj j3 ''meta_ext_timestamp'' (double_of_int (vi_extPts m)) else j3;
               j5 = if vi_extFrameNum m > 0
                    then cJSON_AddNumberToObject cj j4 ''meta_ext_frame_number'' (of_nat (unat (vi_extFrameNum m))) else j4
           in case cJSON_PrintUnformatted cj j5 of None \<Rightarrow> [] | Some data \<Rightarrow> c_str data))"

definition set_item :: "'j cjson \<Rightarrow> 'j \<Rightarrow> ('j cjson \<Rightarrow> 'j \<Rightarrow> string \<Rightarrow> bool) \<Rightarrow> string \<Rightarrow> (int \<Rightarrow> 'm \<Rightarrow> 'm) \<Rightarrow> 'm \<Rightarrow> 'm" where
  "set_item cj j chk key upd m =
     (case cJSON_GetObjectItemCaseSensitive cj j key of None \<Rightarrow> m | Some k \<Rightarrow> if chk cj j key then upd (valueint cj k) m else m)"

definition UnmarshalVideoMeta :: "'j cjson \<Rightarrow> string \<Rightarrow> video_meta \<Rightarrow> bool \<times> video_meta" where
  "UnmarshalVideoMeta cj jsonStr m =
     (case cJSON_Parse cj (c_str jsonStr) of
        None \<Rightarrow> (False, m)
      | Some j \<Rightarrow>
          (True,
           set_item cj j AvMsg_IsUInt32 ''meta_ext_frame_number'' (\<lambda>v m. m\<lparr>vi_extFrameNum := of_int v\<rparr>)
            (set_item cj j Av_IsInt64 ''meta_ext_timestamp'' (\<lambda>v m. m\<lparr>vi_extPts := v\<rparr>)
             (set_item cj j AvMsg_IsUInt32 ''meta_frame_number'' (\<lambda>v m. m\<lparr>vi_frameNum := of_int v\<rparr>)
              (set_item cj j Av_IsInt64 ''meta_timestamp'' (\<lambda>v m. m\<lparr>vi_pts := v\<rparr>)
               (set_item cj j AvMsg_IsUInt32 ''meta_data_type'' (\<lambda>v m. m\<lparr>vi_dataType := of_int v\<rparr>) m))))))"

section \<open>Conversions\<close>

datatype media_type = MEDIA_AUDIO | MEDIA_VIDEO | MEDIA_UNKNOWN

definition TransName2MediaType :: "string \<Rightarrow> media_type" where
  "TransName2MediaType ownerName =
     (case List.find (\<lambda>item. fst item = ownerName)
        [(OWNER_NAME_D_MIC, MEDIA_AUDIO), (OWNER_NAME_D_VIRMODEM_MIC, MEDIA_AUDIO), (OWNER_NAME_D_CAMERA, MEDIA_VIDEO),
         (OWNER_NAME_D_SCREEN, MEDIA_VIDEO), (OWNER_NAME_D_SPEAKER, MEDIA_AUDIO), (OWNER_NAME_D_VIRMODEM_SPEAKER, MEDIA_AUDIO)] of
        None \<Rightarrow> MEDIA_UNKNOWN
      | Some item \<Rightarrow> snd item)"

definition BuildChannelDescription :: "'j cjson \<Rightarrow> string \<Rightarrow> string \<Rightarrow> string" where
  "BuildChannelDescription cj ownerName peerDevId =
     (case cJSON_CreateObject cj of
        None \<Rightarrow> []
      | Some j \<Rightarrow>
          (let j1 = cJSON_AddStringToObject cj j ''ownerName'' (c_str ownerName);
               j2 = cJSON_AddStringToObject cj j1 ''peerDevId'' (c_str peerDevId)
           in case cJSON_PrintUnformatted cj j2 of None \<Rightarrow> [] | Some data \<Rightarrow> c_str data))"

definition ParseChannelDescription :: "'j cjson \<Rightarrow> string \<Rightarrow> string \<times> string \<Rightarrow> string \<times> string" where
  "ParseChannelDescription cj descJsonStr old =
     (case cJSON_Parse cj (c_str descJsonStr) of
        None \<Rightarrow> old
      | Some j \<Rightarrow>
          (case (cJSON_GetObjectItemCaseSensitive cj j ''ownerName'', cJSON_GetObjectItemCaseSensitive cj j ''peerDevId'') of
             (Some nameObj, Some devObj) \<Rightarrow>
               if AvMsg_IsString cj j ''ownerName'' \<and> AvMsg_IsString cj j ''peerDevId''
               then (valuestring cj nameObj, valuestring cj devObj) else old
           | _ \<Rightarrow> old))"

text \<open>
  \<open>Convert2HiSBufferMeta\<close>: the variable \<open>value\<close> keeps what it was when an item is missing. \<open>item_number\<close> reads an item as
  an unsigned number into it.
\<close>

definition item_number :: "32 word \<Rightarrow> string \<Rightarrow> buffer_meta \<Rightarrow> (32 word \<times> string) option" where
  "item_number tag value m = (let v = snd (GetMetaItem tag value m) in map_option (\<lambda>n. (of_int n, v)) (atoi (c_str v)))"

datatype his_meta = HisAudio audio_meta | HisVideo video_meta

definition audio_meta_new :: audio_meta where
  "audio_meta_new = \<lparr> au_pts = 0, au_frameNum = 0, au_sampleRate = 0, au_dataType = 0, au_format = 0 \<rparr>"

text \<open>The pixel format \<open>UNKNOWN\<close> is \<open>-1\<close> in the media library.\<close>

definition video_meta_new :: video_meta where
  "video_meta_new = \<lparr> vi_pts = 0, vi_frameNum = 0, vi_extPts = 0, vi_extFrameNum = 0, vi_width = 0, vi_height = 0, vi_dataType = 1, vi_format = - 1 \<rparr>"

definition Convert2HiSBufferMeta :: "buffer_meta \<Rightarrow> his_meta option" where
  "Convert2HiSBufferMeta m =
     (case bm_type m of
        META_AUDIO \<Rightarrow>
          (case item_number BUFFER_DATA_TYPE [] m of None \<Rightarrow> None | Some (dataType, v1) \<Rightarrow>
           case item_number AUDIO_SAMPLE_FORMAT v1 m of None \<Rightarrow> None | Some (format, v2) \<Rightarrow>
           case item_number AUDIO_SAMPLE_RATE v2 m of None \<Rightarrow> None | Some (rate, v3) \<Rightarrow>
             Some (HisAudio (audio_meta_new\<lparr>au_dataType := dataType, au_format := format, au_sampleRate := rate\<rparr>)))
      | META_VIDEO \<Rightarrow>
          (case item_number BUFFER_DATA_TYPE [] m of None \<Rightarrow> None | Some (dataType, v1) \<Rightarrow>
           case item_number VIDEO_PIXEL_FORMAT v1 m of None \<Rightarrow> None | Some (format, v2) \<Rightarrow>
           case item_number VIDEO_WIDTH v2 m of None \<Rightarrow> None | Some (width, v3) \<Rightarrow>
           case item_number VIDEO_HEIGHT v3 m of None \<Rightarrow> None | Some (height, v4) \<Rightarrow>
           case stoll (c_str (snd (GetMetaItem PRE_TIMESTAMP v4 m))) of None \<Rightarrow> None | Some pts \<Rightarrow>
             Some (HisVideo (video_meta_new\<lparr>vi_dataType := dataType, vi_format := format, vi_width := width, vi_height := height,
               vi_pts := pts\<rparr>))))"

definition Convert2TransBufferMeta :: "his_meta \<Rightarrow> buffer_meta" where
  "Convert2TransBufferMeta h =
     (case h of
        HisAudio a \<Rightarrow>
          SetMetaItem AUDIO_SAMPLE_RATE (int_text (uint (au_sampleRate a)))
           (SetMetaItem AUDIO_SAMPLE_FORMAT (int_text (uint (au_format a)))
            (SetMetaItem BUFFER_DATA_TYPE (int_text (uint (au_dataType a))) (BufferMeta_new META_AUDIO)))
      | HisVideo v \<Rightarrow>
          SetMetaItem PRE_TIMESTAMP (int_text (vi_pts v))
           (SetMetaItem VIDEO_HEIGHT (int_text (uint (vi_height v)))
            (SetMetaItem VIDEO_WIDTH (int_text (uint (vi_width v)))
             (SetMetaItem VIDEO_PIXEL_FORMAT (int_text (uint (vi_format v)))
              (SetMetaItem BUFFER_DATA_TYPE (int_text (uint (vi_dataType v))) (BufferMeta_new META_VIDEO))))))"

datatype plugin_event = PLUGIN_CHANNEL_OPENED | PLUGIN_CHANNEL_OPEN_FAIL | PLUGIN_CHANNEL_CLOSED | PLUGIN_OTHER

definition CastEventType :: "plugin_event \<Rightarrow> bool \<Rightarrow> event_type" where
  "CastEventType t isAbnormal =
     (case t of
        PLUGIN_CHANNEL_OPENED \<Rightarrow> EVENT_START_SUCCESS
      | PLUGIN_CHANNEL_OPEN_FAIL \<Rightarrow> EVENT_START_FAIL
      | PLUGIN_CHANNEL_CLOSED \<Rightarrow> if isAbnormal then EVENT_ENGINE_ERROR else EVENT_STOP_SUCCESS
      | PLUGIN_OTHER \<Rightarrow> EVENT_ENGINE_ERROR)"

text \<open>The header is written over the seven bytes that are given; a rate that is not in the table has the index 0.\<close>

definition freq_index :: "32 word \<Rightarrow> 32 word" where
  "freq_index sampleRate =
     (case map_of [(96000, 0), (88200, 1), (64000, 2), (48000, 3), (44100, 4), (32000, 5), (24000, 6), (16000, 8), (12000, 9),
        (11025, 10), (8000, 11), (7350, 12)] sampleRate of None \<Rightarrow> 0 | Some i \<Rightarrow> i)"

definition GenerateAdtsHeader :: "byte list \<Rightarrow> 32 word \<Rightarrow> 32 word \<Rightarrow> 32 word \<Rightarrow> 32 word \<Rightarrow> byte list" where
  "GenerateAdtsHeader adtsHeader packetLen profile sampleRate channels =
     (let h1 = adtsHeader[0 := 0xFF, 1 := 0xF9] in
      if profile < 1 then h1
      else h1[2 := ucast (push_bit 6 (profile - 1) + push_bit 2 (freq_index sampleRate) + drop_bit 2 channels),
              3 := ucast (push_bit 6 (channels AND 3) + drop_bit 11 packetLen),
              4 := ucast (drop_bit 3 (packetLen AND 0x7FF)),
              5 := ucast (push_bit 5 (packetLen AND 7) + 0x1F),
              6 := 0xFC])"

end
