(* ===== verification/DHF_AvBufferProps.thy ===== *)
theory DHF_AvBufferProps
  imports DHF_AvBuffer DHF_Json_Model
begin

text \<open>
  Properties of media buffers: writing and reading memory, meta data on its way to the peer and back,
  the description of a channel, and the ADTS header against a reader of such headers.
\<close>

section \<open>ADTS headers\<close>

text \<open>A reader of the header after ISO/IEC 13818-7: the fields of the seven bytes and the table of sampling frequencies.\<close>

definition adts_rates :: "nat list" where
  "adts_rates = [96000, 88200, 64000, 48000, 44100, 32000, 24000, 22050, 16000, 12000, 11025, 8000, 7350]"

definition adts_sync :: "byte list \<Rightarrow> nat" where "adts_sync h = unat (h ! 0) * 16 + unat (h ! 1) div 16"
definition adts_profile :: "byte list \<Rightarrow> nat" where "adts_profile h = unat (h ! 2) div 64"
definition adts_rate :: "byte list \<Rightarrow> nat" where "adts_rate h = adts_rates ! (unat (h ! 2) div 4 mod 16)"
definition adts_channels :: "byte list \<Rightarrow> nat" where "adts_channels h = unat (h ! 2) mod 2 * 4 + unat (h ! 3) div 64"
definition adts_length :: "byte list \<Rightarrow> nat" where
  "adts_length h = unat (h ! 3) mod 4 * 2048 + unat (h ! 4) * 8 + unat (h ! 5) div 32"

definition known_rate :: "32 word \<Rightarrow> bool" where
  "known_rate r \<longleftrightarrow> r \<in> {96000, 88200, 64000, 48000, 44100, 32000, 24000, 16000, 12000, 11025, 8000, 7350}"

lemma freq_index_rate: "unat (freq_index r) < 13 \<and> adts_rates ! unat (freq_index r) = (if known_rate r then unat r else 96000)"
  by (simp add: freq_index_def known_rate_def adts_rates_def)

lemma unat_push_bit32: "unat w * 2 ^ k < 2 ^ 32 \<Longrightarrow> unat (push_bit k w) = unat w * 2 ^ k" for w :: "32 word"
  unfolding unsigned_push_bit_eq by (simp add: push_bit_eq_mult take_bit_nat_eq_self)

lemma unat_add32: "unat v + unat w < 2 ^ 32 \<Longrightarrow> unat (v + w) = unat v + unat w" for v w :: "32 word"
  by (simp add: unat_word_ariths)

lemma unat_byte: "unat w < 256 \<Longrightarrow> unat (ucast w :: 8 word) = unat w" for w :: "32 word"
  by (simp add: unsigned_ucast_eq take_bit_nat_eq_self)

lemma unat_drop_bit32: "unat (drop_bit k w) = unat w div 2 ^ k" for w :: "32 word"
proof -
  have "unat w < 2 ^ LENGTH(32)" by (rule unsigned_less)
  then have "take_bit 32 (unat w) = unat w" by (simp add: take_bit_nat_eq_self)
  then show ?thesis unfolding unsigned_drop_bit_eq by (simp add: drop_bit_eq_div)
qed

lemma unat_and_mask: "unat (w AND 3) = unat w mod 4" "unat (w AND 7) = unat w mod 8" "unat (w AND 0x7FF) = unat w mod 2048"
  for w :: "32 word"
proof -
  have m: "(3 :: 32 word) = mask 2" "(7 :: 32 word) = mask 3" "(0x7FF :: 32 word) = mask 11" by (simp_all add: mask_eq_exp_minus_1)
  show "unat (w AND 3) = unat w mod 4" "unat (w AND 7) = unat w mod 8" "unat (w AND 0x7FF) = unat w mod 2048"
    unfolding m take_bit_eq_mask [symmetric] unsigned_take_bit_eq by (simp_all add: take_bit_eq_mod)
qed

lemma adts_byte2:
  assumes "1 \<le> unat profile" "unat profile \<le> 4" "unat channels < 8"
  shows "unat (ucast (push_bit 6 (profile - 1) + push_bit 2 (freq_index r) + drop_bit 2 channels) :: 8 word)
    = (unat profile - 1) * 64 + unat (freq_index r) * 4 + unat channels div 4"
proof -
  define x y z where "x = push_bit 6 (profile - 1)" and "y = push_bit 2 (freq_index r)" and "z = drop_bit 2 channels"
  have p: "unat (profile - 1) = unat profile - 1"
    using assms(1) by (metis unat_1 unat_sub word_le_nat_alt)
  have f: "unat (freq_index r) < 13" using freq_index_rate by blast
  have v: "unat x = (unat profile - 1) * 64" "unat y = unat (freq_index r) * 4" "unat z = unat channels div 4"
    unfolding x_def y_def z_def using assms(2) f by (simp_all add: unat_push_bit32 p unat_drop_bit32)
  then have le: "unat x \<le> 192" "unat y \<le> 48" "unat z \<le> 1" using assms f by auto
  then have "unat (x + y + z) = unat x + unat y + unat z" by (simp add: unat_add32)
  with le have "unat (ucast (x + y + z) :: 8 word) = unat x + unat y + unat z" by (simp add: unat_byte)
  then show ?thesis by (simp only: x_def [symmetric] y_def [symmetric] z_def [symmetric] v)
qed

lemma adts_byte3:
  fixes channels packetLen :: "32 word"
  assumes "unat packetLen < 8192"
  shows "unat (ucast (push_bit 6 (channels AND 3) + drop_bit 11 packetLen) :: 8 word) = unat channels mod 4 * 64 + unat packetLen div 2048"
proof -
  define c x z where "c = channels AND 3" and "x = push_bit 6 c" and "z = drop_bit 11 packetLen"
  have c: "unat c = unat channels mod 4" by (simp add: c_def unat_and_mask)
  have v: "unat x = unat channels mod 4 * 64" "unat z = unat packetLen div 2048"
    unfolding x_def z_def by (simp_all add: unat_push_bit32 c unat_drop_bit32)
  have le: "unat x \<le> 192" "unat z < 4" unfolding v using assms by auto
  then have "unat (ucast (x + z) :: 8 word) = unat x + unat z" by (simp add: unat_byte unat_add32)
  then show ?thesis by (simp only: c_def [symmetric] x_def [symmetric] z_def [symmetric] v)
qed

lemma adts_byte4: "unat (ucast (drop_bit 3 (packetLen AND 0x7FF)) :: 8 word) = unat packetLen mod 2048 div 8" for packetLen :: "32 word"
proof -
  define x where "x = packetLen AND 0x7FF"
  have "unat x = unat packetLen mod 2048" by (simp add: x_def unat_and_mask)
  then have "unat (drop_bit 3 x) = unat packetLen mod 2048 div 8" by (simp add: unat_drop_bit32)
  then show ?thesis unfolding x_def [symmetric] by (simp add: unat_byte less_mult_imp_div_less)
qed

lemma adts_byte5: "unat (ucast (push_bit 5 (packetLen AND 7) + 0x1F) :: 8 word) = unat packetLen mod 8 * 32 + 31" for packetLen :: "32 word"
proof -
  define x y where "x = packetLen AND 7" and "y = push_bit 5 x"
  have "unat x = unat packetLen mod 8" by (simp add: x_def unat_and_mask)
  then have y: "unat y = unat packetLen mod 8 * 32" by (simp add: y_def unat_push_bit32)
  then have le: "unat y \<le> 224" by auto
  then have "unat (y + 0x1F) = unat y + 31" by (simp add: unat_add32)
  with le have "unat (ucast (y + 0x1F) :: 8 word) = unat y + 31" by (simp add: unat_byte)
  then show ?thesis by (simp only: y x_def [symmetric] y_def [symmetric])
qed

lemma adts_arith:
  fixes p i c d n :: nat
  assumes "d div 4 < 2" and "i < 13" and "n < 8192"
  shows "(p * 64 + i * 4 + d div 4) div 64 = p" "(p * 64 + i * 4 + d div 4) div 4 mod 16 = i"
    "(p * 64 + i * 4 + d div 4) mod 2 * 4 + (d mod 4 * 64 + n div 2048) div 64 = d"
    "(c mod 4 * 64 + n div 2048) mod 4 * 2048 + n mod 2048 div 8 * 8 + (n mod 8 * 32 + 31) div 32 = n"
proof -
  have q: "n div 2048 < 4" using assms(3) by simp
  show "(p * 64 + i * 4 + d div 4) div 64 = p" using assms(1,2) by simp
  have "(p * 64 + i * 4 + d div 4) div 4 = p * 16 + i" using assms(1) by simp
  then show "(p * 64 + i * 4 + d div 4) div 4 mod 16 = i" using assms(2) by simp
  have "(p * 64 + i * 4 + d div 4) mod 2 = d div 4" using assms(1) by presburger
  moreover have "(d mod 4 * 64 + n div 2048) div 64 = d mod 4" using q by simp
  ultimately show "(p * 64 + i * 4 + d div 4) mod 2 * 4 + (d mod 4 * 64 + n div 2048) div 64 = d" by simp
  have "(c mod 4 * 64 + n div 2048) mod 4 = n div 2048"
  proof -
    have "(c mod 4 * 64 + n div 2048) mod 4 = ((c mod 4 * 16) * 4 + n div 2048) mod 4" by (simp add: mult.assoc)
    then show ?thesis using q by (simp only: mod_mult_self3) simp
  qed
  moreover have "(n mod 8 * 32 + 31) div 32 = n mod 8" by simp
  moreover have "n mod 8 = n mod 2048 mod 8" by (simp add: mod_mod_cancel)
  then have "n mod 2048 div 8 * 8 + n mod 8 = n mod 2048" by (simp only: div_mult_mod_eq)
  moreover have "n div 2048 * 2048 + n mod 2048 = n" by simp
  ultimately show "(c mod 4 * 64 + n div 2048) mod 4 * 2048 + n mod 2048 div 8 * 8 + (n mod 8 * 32 + 31) div 32 = n" by linarith
qed

text \<open>
  Property C34. A reader of ADTS headers finds in the header that \<open>GenerateAdtsHeader\<close> writes the synchronisation word, the profile
  minus one, as the format stores it, the number of channels and the length of the packet as they were given, and the sampling frequency when it is
  one of the twelve of the table of the code. Every other frequency, 22050 Hz of the standard among them,
  is read back as 96000 Hz.
\<close>

theorem adts_header_is_read_back:
  assumes "length h = 7" and "unat packetLen < 8192" and "1 \<le> unat profile" and "unat profile \<le> 4" and "unat channels < 8"
    and out: "out = GenerateAdtsHeader h packetLen profile sampleRate channels"
  shows "adts_sync out = 0xFFF \<and> adts_profile out = unat profile - 1 \<and> adts_channels out = unat channels
    \<and> adts_length out = unat packetLen \<and> adts_rate out = (if known_rate sampleRate then unat sampleRate else 96000)"
proof -
  let ?i = "unat (freq_index sampleRate)" and ?p = "unat profile - 1" and ?c = "unat channels" and ?n = "unat packetLen"
  have i: "?i < 13" "adts_rates ! ?i = (if known_rate sampleRate then unat sampleRate else 96000)" using freq_index_rate by auto
  have "\<not> profile < 1" using assms(3) by (simp add: word_less_nat_alt)
  then have b: "out ! 0 = 0xFF" "out ! 1 = 0xF9" "unat (out ! 2) = ?p * 64 + ?i * 4 + ?c div 4" "unat (out ! 3) = ?c mod 4 * 64 + ?n div 2048"
    "unat (out ! 4) = ?n mod 2048 div 8" "unat (out ! 5) = ?n mod 8 * 32 + 31"
    using assms(1) by (simp_all only: adts_byte2 [OF assms(3-5), symmetric] adts_byte3 [OF assms(2), symmetric]
        adts_byte4 [symmetric] adts_byte5 [symmetric]) (simp_all add: out GenerateAdtsHeader_def Let_def)
  have "?c div 4 < 2" using assms(5) by simp
  note ar = adts_arith [OF this i(1) assms(2)]
  have "adts_profile out = ?p" by (simp only: adts_profile_def b(3) ar)
  moreover have "adts_rate out = (if known_rate sampleRate then unat sampleRate else 96000)"
    by (simp only: adts_rate_def b(3) ar i(2))
  moreover have "adts_channels out = ?c" by (simp only: adts_channels_def b(3,4) ar)
  moreover have "adts_length out = ?n" by (simp only: adts_length_def b(4-6) ar)
  moreover have "adts_sync out = 0xFFF" unfolding adts_sync_def b(1,2) by simp
  ultimately show ?thesis by blast
qed

section \<open>Writing and reading\<close>

definition buffer_ok :: "buffer_data \<Rightarrow> bool" where
  "buffer_ok b \<longleftrightarrow> (\<exists>mem. bd_address b = Some mem \<and> length mem = unat (bd_capacity b)) \<and> bd_size b \<le> bd_capacity b"

definition contents :: "buffer_data \<Rightarrow> byte list" where
  "contents b = (case bd_address b of None \<Rightarrow> [] | Some mem \<Rightarrow> take (unat (bd_size b)) mem)"

lemma unat_min: "unat (min a b) = min (unat a) (unat b)" for a b :: "64 word"
  by (simp add: min_def word_le_nat_alt)

lemma Write_at_end:
  assumes "buffer_ok b" and "length inp = unat n"
  shows "\<exists>b'. BufferData_Write inp n INVALID_POSITION b = Some (min n (bd_capacity b - bd_size b), b') \<and> buffer_ok b'
    \<and> bd_capacity b' = bd_capacity b \<and> contents b' = contents b @ take (unat (bd_capacity b - bd_size b)) inp"
proof -
  obtain mem where mem: "bd_address b = Some mem" "length mem = unat (bd_capacity b)" and le: "bd_size b \<le> bd_capacity b"
    using assms(1) by (auto simp: buffer_ok_def)
  let ?room = "bd_capacity b - bd_size b" and ?s = "unat (bd_size b)"
  let ?len = "min n ?room"
  have room: "unat ?room = length mem - ?s" using le mem(2) by (simp add: unat_sub word_le_nat_alt)
  have s: "?s \<le> length mem" using le mem(2) by (simp add: word_le_nat_alt)
  have len: "unat ?len = min (length inp) (length mem - ?s)" by (simp add: unat_min room assms(2))
  show ?thesis
  proof (cases "?len = 0")
    case True
    then have "min (length inp) (length mem - ?s) = 0" using len by simp
    then have "take (unat ?room) inp = []" by (auto simp: room min_def split: if_splits)
    then show ?thesis using True assms(1) mem by (intro exI [of _ b]) (simp add: BufferData_Write_def Let_def)
  next
    case False
    let ?w = "take (unat ?len) inp"
    have w: "length ?w = unat ?len" by (simp add: len)
    have fit: "?s + unat ?len \<le> length mem" using s by (simp add: len)
    define mem' where "mem' = take ?s mem @ ?w @ drop (?s + unat ?len) mem"
    have p: "poke ?s ?w mem = Some mem'" using fit w by (simp add: poke_def mem'_def)
    define b' where "b' = b\<lparr>bd_size := bd_size b + ?len, bd_address := Some mem'\<rparr>"
    have "\<not> length inp < unat ?len" by (simp add: len)
    then have r: "BufferData_Write inp n INVALID_POSITION b = Some (?len, b')"
      using False mem(1) p by (simp add: BufferData_Write_def Let_def b'_def)
    have size: "unat (bd_size b + ?len) = ?s + unat ?len"
    proof -
      have "?s + unat ?len < 2 ^ LENGTH(64)" using fit mem(2) unsigned_less [of "bd_capacity b", where ?'a = nat] by linarith
      then show ?thesis by (simp add: unat_word_ariths)
    qed
    have "buffer_ok b'" using fit mem(2) w s by (simp add: buffer_ok_def b'_def mem'_def word_le_nat_alt size)
    moreover have "contents b' = contents b @ ?w" using s w mem(1) by (simp add: contents_def b'_def mem'_def size)
    moreover have "?w = take (unat ?room) inp" by (simp only: len room) (simp add: min_def)
    ultimately show ?thesis using r by (intro exI [of _ b']) (simp add: b'_def)
  qed
qed

text \<open>The buffer after a sequence of pieces was written one after the other, each at the end.\<close>

fun write_all :: "byte list list \<Rightarrow> buffer_data \<Rightarrow> buffer_data option" where
  "write_all [] b = Some b"
| "write_all (x # xs) b =
     (case BufferData_Write x (of_nat (length x)) INVALID_POSITION b of None \<Rightarrow> None | Some (n, b') \<Rightarrow> write_all xs b')"

lemma write_all_contents:
  assumes "buffer_ok b" and "\<forall>x\<in>set xs. length x < 2 ^ 64" and "length (contents b) + length (concat xs) \<le> unat (bd_capacity b)"
  shows "\<exists>b'. write_all xs b = Some b' \<and> buffer_ok b' \<and> contents b' = contents b @ concat xs"
  using assms
proof (induction xs arbitrary: b)
  case (Cons x xs)
  have n: "length x = unat (of_nat (length x) :: 64 word)" using Cons.prems(2) by (simp add: unat_of_nat)
  obtain b1 where b1: "BufferData_Write x (of_nat (length x)) INVALID_POSITION b = Some (min (of_nat (length x)) (bd_capacity b - bd_size b), b1)"
    "buffer_ok b1" "bd_capacity b1 = bd_capacity b" "contents b1 = contents b @ take (unat (bd_capacity b - bd_size b)) x"
    using Write_at_end [OF Cons.prems(1) n] by blast
  have "length (contents b) = unat (bd_size b)" "unat (bd_capacity b - bd_size b) = unat (bd_capacity b) - unat (bd_size b)"
    using Cons.prems(1) by (auto simp: buffer_ok_def contents_def unat_sub word_le_nat_alt)
  then have c: "contents b1 = contents b @ x" using b1(4) Cons.prems(3) by simp
  then obtain b2 where "write_all xs b1 = Some b2" "buffer_ok b2" "contents b2 = contents b1 @ concat xs"
    using Cons.IH [OF b1(2)] Cons.prems(2,3) b1(3) by auto
  then show ?case using b1(1) c by simp
qed simp

lemma Read_contents:
  assumes "buffer_ok b" and "bd_size b \<noteq> 0"
  shows "BufferData_Read (bd_size b) INVALID_POSITION b = Some (bd_size b, contents b)"
  using assms by (auto simp: buffer_ok_def BufferData_Read_def contents_def word_le_nat_alt Let_def)

text \<open>
  Property C35. Pieces that are written one after the other into a fresh buffer of at most 8192 bytes, and that fit, are all written, and a
  read of the whole buffer gives them back in their order.
\<close>

theorem buffer_gives_back_what_was_written:
  assumes "unat cap \<le> 8192" and "length fresh \<ge> unat cap" and "length (concat xs) \<le> unat cap" and "concat xs \<noteq> []"
    and "\<forall>x\<in>set xs. length x < 2 ^ 64"
  shows "\<exists>b. write_all xs (BufferData_new fresh cap) = Some b
    \<and> BufferData_Read (bd_size b) INVALID_POSITION b = Some (of_nat (length (concat xs)), concat xs)"
proof -
  let ?b = "BufferData_new fresh cap"
  have ok: "buffer_ok ?b" using assms(1,2) by (simp add: buffer_ok_def BufferData_new_def word_le_nat_alt)
  have e: "contents ?b = []" by (simp add: contents_def BufferData_new_def)
  obtain b where b: "write_all xs ?b = Some b" "buffer_ok b" "contents b = concat xs"
    using write_all_contents [OF ok assms(5)] assms(3) e by (auto simp: BufferData_new_def)
  have "length (contents b) = unat (bd_size b)" using b(2) by (auto simp: buffer_ok_def contents_def word_le_nat_alt)
  then have s: "bd_size b = of_nat (length (concat xs))" using b(3) by simp
  have "bd_size b \<noteq> 0" using \<open>length (contents b) = unat (bd_size b)\<close> b(3) assms(4) by auto
  from Read_contents [OF b(2) this] b(1,3) s show ?thesis by auto
qed

text \<open>
  A buffer that \<open>CreateBufferData\<close> makes with a capacity above 8192 bytes, which it accepts up to 104857600, has that capacity
  and no memory: every write at its end stores nothing and reports the length 0.
\<close>

theorem large_buffer_takes_no_data:
  assumes "8192 < unat cap" and "unat cap \<le> 104857600"
  shows "\<exists>i b' d. CreateBufferData fresh cap b = (Some i, b') \<and> GetBufferData i b' = Some d \<and> bd_capacity d = cap
    \<and> BufferData_Write inp n INVALID_POSITION d = Some (0, d)"
proof -
  have "\<not> cap > BUFFER_MAX_CAPACITY" "\<not> cap \<le> CAPACITY_MAX_LENGTH" using assms by (simp_all add: word_less_nat_alt word_le_nat_alt)
  then show ?thesis
    by (simp add: CreateBufferData_def GetBufferData_def nth_append BufferData_new_def BufferData_Write_def Let_def)
qed

section \<open>Meta data on the way to the peer\<close>

definition audio_meta_json :: "'j cjson \<Rightarrow> audio_meta \<Rightarrow> 'j \<Rightarrow> 'j" where
  "audio_meta_json cj m j = cJSON_AddNumberToObject cj (cJSON_AddNumberToObject cj (cJSON_AddNumberToObject cj j ''meta_data_type''
     (of_nat (unat (au_dataType m)))) ''meta_timestamp'' (of_nat (nat (au_pts m)))) ''meta_frame_number'' (of_nat (unat (au_frameNum m)))"

lemma meta_keys: "\<not> same_key ''meta_frame_number'' ''meta_data_type''" "\<not> same_key ''meta_timestamp'' ''meta_data_type''"
  "\<not> same_key ''meta_frame_number'' ''meta_timestamp''" "\<not> same_key ''meta_data_type'' ''meta_timestamp''"
  "\<not> same_key ''meta_data_type'' ''meta_frame_number''" "\<not> same_key ''meta_timestamp'' ''meta_frame_number''"
  by (simp_all add: same_key_def to_lower_def)

lemma word32_small: "unat (w :: 32 word) < 2 ^ 53"
proof -
  have "unat w < 2 ^ LENGTH(32)" by (rule unsigned_less)
  then show ?thesis by simp
qed

lemma audio_meta_items:
  assumes "cjson_build_laws cj" and "cJSON_CreateObject cj = Some j" and "nat (au_pts m) < 2 ^ 53"
  shows "has_number cj (audio_meta_json cj m j) ''meta_data_type'' (unat (au_dataType m))"
    and "has_number cj (audio_meta_json cj m j) ''meta_timestamp'' (nat (au_pts m))"
    and "has_number cj (audio_meta_json cj m j) ''meta_frame_number'' (unat (au_frameNum m))"
  unfolding audio_meta_json_def using assms meta_keys word32_small
  by (simp_all add: json_build del: of_nat_unat)

text \<open>
  The meta data of an audio frame, sent as JSON and read back. Every number is read through \<open>valueint\<close>, an \<open>int\<close>: the
  data type and the frame number arrive as they were up to 2147483646, and a time stamp above 2147483647 arrives as 2147483647,
  whatever it was, although the code takes it for an \<open>int64_t\<close>.
\<close>

theorem audio_time_stamp_is_cut:
  assumes "cjson_build_laws cj" and "cJSON_CreateObject cj = Some j" and "0 \<le> au_pts m" and "au_pts m < 2 ^ 53"
    and "items_read_back cj (audio_meta_json cj m j) {''meta_data_type'', ''meta_timestamp'', ''meta_frame_number''}"
  shows "UnmarshalAudioMeta cj (MarshalAudioMeta cj m) m0 =
    (True, m0\<lparr>au_dataType := of_nat (min (unat (au_dataType m)) 2147483647), au_pts := min (au_pts m) 2147483647,
       au_frameNum := of_nat (min (unat (au_frameNum m)) 2147483647)\<rparr>)"
proof -
  have pts: "nat (au_pts m) < 2 ^ 53" using assms(3,4) by simp
  have d: "double_of_int (au_pts m) = of_nat (nat (au_pts m))" using assms(3,4) by (simp add: double_of_int_def)
  obtain t ob where t: "cJSON_PrintUnformatted cj (audio_meta_json cj m j) = Some t" "CHR 0x00 \<notin> set t" "cJSON_Parse cj t = Some ob"
    and it: "\<forall>k\<in>{''meta_data_type'', ''meta_timestamp'', ''meta_frame_number''}.
      cJSON_GetObjectItemCaseSensitive cj ob k = cJSON_GetObjectItem cj (audio_meta_json cj m j) k"
    using assms(5) by (auto simp: items_read_back_def)
  have data: "MarshalAudioMeta cj m = t"
    using t assms(2) by (simp add: MarshalAudioMeta_def audio_meta_json_def Let_def c_str_id d del: of_nat_unat of_nat_nat)
  have num: "\<exists>v. cJSON_GetObjectItemCaseSensitive cj ob k = Some v \<and> cJSON_IsNumber cj v \<and> valueint cj v = int (min n 2147483647)"
    if "has_number cj (audio_meta_json cj m j) k n" "k \<in> {''meta_data_type'', ''meta_timestamp'', ''meta_frame_number''}" for k n
  proof -
    from that(1) obtain v where v: "cJSON_GetObjectItem cj (audio_meta_json cj m j) k = Some v" "cJSON_IsNumber cj v" "valuedouble cj v = of_nat n"
      unfolding has_number_def by blast
    from bspec [OF it that(2)] v(1) have "cJSON_GetObjectItemCaseSensitive cj ob k = Some v" by (rule trans)
    with v(2) valueint_nat [OF v(3)] show ?thesis by blast
  qed
  note items = audio_meta_items [OF assms(1,2) pts]
  obtain u where u: "cJSON_GetObjectItemCaseSensitive cj ob ''meta_data_type'' = Some u" "cJSON_IsNumber cj u" "valueint cj u = int (min (unat (au_dataType m)) 2147483647)"
    using num [OF items(1)] by blast
  obtain v where v: "cJSON_GetObjectItemCaseSensitive cj ob ''meta_timestamp'' = Some v" "cJSON_IsNumber cj v" "valueint cj v = int (min (nat (au_pts m)) 2147483647)"
    using num [OF items(2)] by blast
  obtain w where w: "cJSON_GetObjectItemCaseSensitive cj ob ''meta_frame_number'' = Some w" "cJSON_IsNumber cj w" "valueint cj w = int (min (unat (au_frameNum m)) 2147483647)"
    using num [OF items(3)] by blast
  have p: "int (min (nat (au_pts m)) 2147483647) = min (au_pts m) 2147483647" using assms(3) by (simp add: min_def) auto
  have "UnmarshalAudioMeta cj t m0 = (True, m0\<lparr>au_dataType := of_int (valueint cj u), au_pts := valueint cj v, au_frameNum := of_int (valueint cj w)\<rparr>)"
    using t u v w by (simp add: UnmarshalAudioMeta_def c_str_id AvMsg_IsUInt32_def Av_IsInt64_def item_int_def)
  then show ?thesis unfolding data u(3) v(3) w(3) p of_int_of_nat_eq by simp
qed

section \<open>Conversion of meta data\<close>

definition video_items_ok :: "video_meta \<Rightarrow> bool" where
  "video_items_ok v \<longleftrightarrow> unat (vi_dataType v) < 2 ^ 31 \<and> unat (vi_format v) < 2 ^ 31 \<and> unat (vi_width v) < 2 ^ 31
     \<and> unat (vi_height v) < 2 ^ 31 \<and> in_range 64 (vi_pts v)"

lemma no_nul_int_text: "c_str (int_text i) = int_text i"
proof -
  have "CHR 0x00 \<notin> set (nat_text n)" for n using nat_text_digits [of n] by (auto simp: list_all_iff is_digit_def)
  then show ?thesis by (intro c_str_id) (auto simp: int_text_def)
qed

lemma uint_small:
  assumes "unat w < 2 ^ 31"
  shows "in_range 32 (uint w) \<and> in_range 64 (uint w)"
proof -
  have "int (unat w) < int (2 ^ 31)" using assms by (simp only: of_nat_less_iff)
  then have "uint w < 2147483648" by simp
  moreover have "in_range 32 x \<and> in_range 64 x" if "0 \<le> x" "x < 2147483648" for x using that by (simp add: in_range_def)
  ultimately show ?thesis by simp
qed

lemma item_number_text:
  assumes "smap_get (bm_tagMap m) tag = Some (int_text (uint w))" and "unat w < 2 ^ 31"
  shows "item_number tag value m = Some (w, int_text (uint w))"
  using assms(1) uint_small [OF assms(2)] by (simp add: item_number_def GetMetaItem_def no_nul_int_text atoi_int_text)

text \<open>
  The meta items of a video frame, converted to text for the user of the engine and back, are the same, for data type, pixel
  format, width and height below 2147483648 and any time stamp. When the time stamp is missing from the items, the conversion
  does not fail: it takes the height of the picture for it.
\<close>

theorem video_meta_round_trip:
  assumes "video_items_ok v"
  shows "Convert2HiSBufferMeta (Convert2TransBufferMeta (HisVideo v)) =
      Some (HisVideo (video_meta_new\<lparr>vi_dataType := vi_dataType v, vi_format := vi_format v, vi_width := vi_width v,
        vi_height := vi_height v, vi_pts := vi_pts v\<rparr>))
    \<and> Convert2HiSBufferMeta (bm_tagMap_update (smap_erase PRE_TIMESTAMP) (Convert2TransBufferMeta (HisVideo v))) =
      Some (HisVideo (video_meta_new\<lparr>vi_dataType := vi_dataType v, vi_format := vi_format v, vi_width := vi_width v,
        vi_height := vi_height v, vi_pts := uint (vi_height v)\<rparr>))"
proof -
  let ?m = "Convert2TransBufferMeta (HisVideo v)"
  have items: "smap_get (bm_tagMap ?m) BUFFER_DATA_TYPE = Some (int_text (uint (vi_dataType v)))"
    "smap_get (bm_tagMap ?m) VIDEO_PIXEL_FORMAT = Some (int_text (uint (vi_format v)))"
    "smap_get (bm_tagMap ?m) VIDEO_WIDTH = Some (int_text (uint (vi_width v)))"
    "smap_get (bm_tagMap ?m) VIDEO_HEIGHT = Some (int_text (uint (vi_height v)))"
    "smap_get (bm_tagMap ?m) PRE_TIMESTAMP = Some (int_text (vi_pts v))" and ty: "bm_type ?m = META_VIDEO"
    by (simp_all add: Convert2TransBufferMeta_def SetMetaItem_def BufferMeta_new_def smap_get_def)
  have small: "unat (vi_dataType v) < 2 ^ 31" "unat (vi_format v) < 2 ^ 31" "unat (vi_width v) < 2 ^ 31" "unat (vi_height v) < 2 ^ 31"
    and pts: "in_range 64 (vi_pts v)"
    using assms by (simp_all add: video_items_ok_def)
  have h: "in_range 64 (uint (vi_height v))" using uint_small [OF small(4)] ..
  note num = item_number_text [OF items(1) small(1)] item_number_text [OF items(2) small(2)]
    item_number_text [OF items(3) small(3)] item_number_text [OF items(4) small(4)]
  have one: "Convert2HiSBufferMeta ?m = Some (HisVideo (video_meta_new\<lparr>vi_dataType := vi_dataType v, vi_format := vi_format v,
      vi_width := vi_width v, vi_height := vi_height v, vi_pts := vi_pts v\<rparr>))"
    by (simp add: Convert2HiSBufferMeta_def ty num GetMetaItem_def items(5) no_nul_int_text stoll_int_text [OF pts])
  let ?e = "bm_tagMap_update (smap_erase PRE_TIMESTAMP) ?m"
  have tye: "bm_type ?e = META_VIDEO" using ty by simp
  have e: "smap_get (bm_tagMap ?e) BUFFER_DATA_TYPE = Some (int_text (uint (vi_dataType v)))"
    "smap_get (bm_tagMap ?e) VIDEO_PIXEL_FORMAT = Some (int_text (uint (vi_format v)))"
    "smap_get (bm_tagMap ?e) VIDEO_WIDTH = Some (int_text (uint (vi_width v)))"
    "smap_get (bm_tagMap ?e) VIDEO_HEIGHT = Some (int_text (uint (vi_height v)))"
    "smap_get (bm_tagMap ?e) PRE_TIMESTAMP = None"
    using items by simp_all
  note nume = item_number_text [OF e(1) small(1)] item_number_text [OF e(2) small(2)]
    item_number_text [OF e(3) small(3)] item_number_text [OF e(4) small(4)]
  have "Convert2HiSBufferMeta ?e = Some (HisVideo (video_meta_new\<lparr>vi_dataType := vi_dataType v, vi_format := vi_format v,
      vi_width := vi_width v, vi_height := vi_height v, vi_pts := uint (vi_height v)\<rparr>))"
    unfolding Convert2HiSBufferMeta_def tye nume meta_type.case option.case prod.case GetMetaItem_def e(5) snd_conv no_nul_int_text
      stoll_int_text [OF h] ..
  with one show ?thesis by blast
qed

section \<open>Witnesses\<close>

theorem adts_header_is_read_back_witness:
  "adts_length (GenerateAdtsHeader (replicate 7 0) 1031 1 48000 2) = 1031 \<and> adts_rate (GenerateAdtsHeader (replicate 7 0) 1031 1 48000 2) = 48000
   \<and> adts_rate (GenerateAdtsHeader (replicate 7 0) 1031 1 22050 2) = 96000"
proof -
  have l: "length (replicate 7 (0 :: byte)) = 7" by simp
  have "unat (1031 :: 32 word) < 8192" "1 \<le> unat (1 :: 32 word)" "unat (1 :: 32 word) \<le> 4" "unat (2 :: 32 word) < 8" by simp_all
  from adts_header_is_read_back [OF l this refl, of 48000] adts_header_is_read_back [OF l this refl, of 22050] show ?thesis
    by (simp add: known_rate_def)
qed

theorem buffer_gives_back_what_was_written_witness:
  "\<exists>b. write_all [[1, 2], [3]] (BufferData_new (replicate 4 0) 4) = Some b \<and> BufferData_Read (bd_size b) INVALID_POSITION b = Some (3, [1, 2, 3])"
  using buffer_gives_back_what_was_written [of 4 "replicate 4 0" "[[1, 2], [3]]"] by simp

theorem large_buffer_takes_no_data_witness:
  "\<exists>i b' d. CreateBufferData [] 10000 (AVTransBuffer_new META_VIDEO) = (Some i, b') \<and> GetBufferData i b' = Some d \<and> bd_capacity d = 10000
    \<and> BufferData_Write [1] 1 INVALID_POSITION d = Some (0, d)"
  using large_buffer_takes_no_data [of 10000] by simp

definition sample_audio_meta :: audio_meta where
  "sample_audio_meta = audio_meta_new\<lparr>au_pts := 5000000000, au_frameNum := 9\<rparr>"

lemma sample_audio_json:
  "audio_meta_json model_cjson sample_audio_meta (JObj []) =
     JObj [(''meta_data_type'', JNum 0), (''meta_timestamp'', JNum 5000000000), (''meta_frame_number'', JNum 9)]"
  by (simp add: audio_meta_json_def sample_audio_meta_def audio_meta_new_def model_cjson_def jn_add_def)

lemma sample_audio_reads_back:
  "items_read_back model_cjson (audio_meta_json model_cjson sample_audio_meta (JObj [])) {''meta_data_type'', ''meta_timestamp'', ''meta_frame_number''}"
proof -
  define ob where "ob = JObj [(''meta_data_type'', JNum 0), (''meta_timestamp'', JNum 5000000000), (''meta_frame_number'', JNum 9)]"
  define t where "t = jn_print 10 ob"
  have "list_all (\<lambda>c. c \<noteq> CHR 0x00) t" unfolding t_def ob_def by code_simp
  then have n: "CHR 0x00 \<notin> set t" by (auto simp: list_all_iff)
  have p: "map_option fst (jn_parse (length t) t) = Some ob" unfolding t_def ob_def by code_simp
  have k: "\<forall>k\<in>{''meta_data_type'', ''meta_timestamp'', ''meta_frame_number''}.
      cJSON_GetObjectItemCaseSensitive model_cjson ob k = cJSON_GetObjectItem model_cjson ob k"
    unfolding ob_def by code_simp
  show ?thesis
    unfolding sample_audio_json ob_def [symmetric] items_read_back_def using n p k
    by (intro exI [of _ t] exI [of _ ob]) (simp add: model_cjson_def t_def)
qed

theorem audio_time_stamp_is_cut_witness:
  "UnmarshalAudioMeta model_cjson (MarshalAudioMeta model_cjson sample_audio_meta) audio_meta_new =
    (True, audio_meta_new\<lparr>au_pts := 2147483647, au_frameNum := 9\<rparr>)"
proof -
  have j: "cJSON_CreateObject model_cjson = Some (JObj [])" by (simp add: model_cjson_def)
  have r: "0 \<le> au_pts sample_audio_meta" "au_pts sample_audio_meta < 2 ^ 53" by (simp_all add: sample_audio_meta_def audio_meta_new_def)
  from audio_time_stamp_is_cut [OF model_cjson_laws j r sample_audio_reads_back, of audio_meta_new] show ?thesis
    by (simp add: sample_audio_meta_def audio_meta_new_def)
qed

theorem video_meta_round_trip_witness:
  "Convert2HiSBufferMeta (Convert2TransBufferMeta (HisVideo (video_meta_new\<lparr>vi_format := 3, vi_width := 1920, vi_height := 1080, vi_pts := - 7\<rparr>))) =
     Some (HisVideo (video_meta_new\<lparr>vi_format := 3, vi_width := 1920, vi_height := 1080, vi_pts := - 7\<rparr>))"
proof -
  have "video_items_ok (video_meta_new\<lparr>vi_format := 3, vi_width := 1920, vi_height := 1080, vi_pts := - 7\<rparr>)"
    by (simp add: video_items_ok_def video_meta_new_def in_range_def)
  from video_meta_round_trip [OF this] show ?thesis by (simp add: video_meta_new_def)
qed

end
