(* ===== verification/DHF_AvEngine.thy ===== *)
theory DHF_AvEngine
  imports DHF_AvCenter DHF_AvBuffer
begin

text \<open>
  The engines that send and receive media streams (\<open>av_sender_engine.cpp\<close>, \<open>av_receiver_engine.cpp\<close>): a state machine
  over the pipeline of the media library, the control channel to the peer and the control center.

  The media library is not in the repository: creating and linking filters, preparing, starting and stopping the
  pipeline and the parameters of the filters are the fields of \<open>media_api\<close>. The control center lives in another process and
  is called through the kit: what the calls answer comes from \<open>fwk_kit\<close>. A filter that an engine holds is in \<open>en_filters\<close>; a
  null pointer is absence. The calls of the user's callback are kept in \<open>ew_notes\<close>, oldest first. The result \<open>None\<close> is an exception.
  Allocation of the callback object is taken to succeed.
\<close>

abbreviation (input) ERR_DH_AVT_INIT_FAILED :: ret where "ERR_DH_AVT_INIT_FAILED \<equiv> - 80002"
abbreviation (input) ERR_DH_AVT_START_FAILED :: ret where "ERR_DH_AVT_START_FAILED \<equiv> - 80003"
abbreviation (input) ERR_DH_AVT_STOP_FAILED :: ret where "ERR_DH_AVT_STOP_FAILED \<equiv> - 80004"
abbreviation (input) ERR_DH_AVT_SETUP_FAILED :: ret where "ERR_DH_AVT_SETUP_FAILED \<equiv> - 80006"
abbreviation (input) ERR_DH_AVT_PUSH_DATA_FAILED :: ret where "ERR_DH_AVT_PUSH_DATA_FAILED \<equiv> - 80007"
abbreviation (input) ERR_DH_AVT_OUTPUT_DATA_FAILED :: ret where "ERR_DH_AVT_OUTPUT_DATA_FAILED \<equiv> - 80015"
abbreviation (input) ERR_DH_AVT_CTRL_CENTER_INIT_FAIL :: ret where "ERR_DH_AVT_CTRL_CENTER_INIT_FAIL \<equiv> - 80020"
abbreviation (input) ERR_DH_AVT_REGISTER_CALLBACK_FAIL :: ret where "ERR_DH_AVT_REGISTER_CALLBACK_FAIL \<equiv> - 80021"
abbreviation (input) ERR_DH_AVT_INVALID_OPERATION :: ret where "ERR_DH_AVT_INVALID_OPERATION \<equiv> - 81002"
abbreviation (input) ERR_DH_AVT_NULL_POINTER :: ret where "ERR_DH_AVT_NULL_POINTER \<equiv> - 81010"
abbreviation (input) ERR_DH_AVT_PREPARE_FAILED :: ret where "ERR_DH_AVT_PREPARE_FAILED \<equiv> - 81013"
abbreviation (input) ERR_DH_AVT_SET_PARAM_FAILED :: ret where "ERR_DH_AVT_SET_PARAM_FAILED \<equiv> - 81014"
abbreviation (input) SENDER_CONTROL_SESSION_NAME_SUFFIX :: string where "SENDER_CONTROL_SESSION_NAME_SUFFIX \<equiv> ''sender.avtrans.control''"
abbreviation (input) RECEIVER_CONTROL_SESSION_NAME_SUFFIX :: string where "RECEIVER_CONTROL_SESSION_NAME_SUFFIX \<equiv> ''receiver.avtrans.control''"
definition SCENE_TYPE_D_CAMERA_PIC :: string where "SCENE_TYPE_D_CAMERA_PIC = ''dcamera_picture''"

section \<open>State\<close>

datatype state_id = ST_IDLE | ST_INITIALIZED | ST_CH_CREATED | ST_STARTED | ST_PLAYING | ST_STOPPED

datatype filter_id = AV_INPUT | AV_OUTPUT | VIDEO_CODEC | AUDIO_CODEC

datatype plugin_tag = PT_VIDEO_WIDTH | PT_VIDEO_HEIGHT | PT_VIDEO_PIXEL_FORMAT | PT_VIDEO_FRAME_RATE | PT_MEDIA_BITRATE | PT_MIME
  | PT_AUDIO_CHANNELS | PT_AUDIO_SAMPLE_RATE | PT_AUDIO_CHANNEL_LAYOUT | PT_AUDIO_SAMPLE_FORMAT | PT_AUDIO_SAMPLE_PER_FRAME
  | PT_USER_SHARED_MEMORY_FD | PT_USER_TIME_SYNC_RESULT | PT_USER_AV_SYNC_GROUP_INFO | PT_MEDIA_TYPE | PT_VIDEO_BIT_STREAM_FORMAT
  | PT_INPUT_MEMORY_TYPE | PT_MEDIA_DESCRIPTION | PT_SECTION_USER_SPECIFIC_START | PT_SECTION_VIDEO_SPECIFIC_START

datatype any_value = AnyInt int | AnyString string | AnyBool bool | AnyMedia media_type | AnyConstant string

record his_buffer =
  hb_data :: "buffer_data option"
  hb_meta :: his_meta

record 'p media_api =
  md_CreateFilter :: "filter_id \<Rightarrow> 'p \<Rightarrow> bool \<times> 'p"
  md_NewPipeline :: "'p \<Rightarrow> 'p"
  md_AddFilters :: "filter_id list \<Rightarrow> 'p \<Rightarrow> bool \<times> 'p"
  md_LinkFilters :: "filter_id list \<Rightarrow> 'p \<Rightarrow> bool \<times> 'p"
  md_RemoveFilterChain :: "filter_id \<Rightarrow> 'p \<Rightarrow> 'p"
  md_Prepare :: "'p \<Rightarrow> bool \<times> 'p"
  md_Start :: "'p \<Rightarrow> bool \<times> 'p"
  md_Stop :: "'p \<Rightarrow> bool \<times> 'p"
  md_Pause :: "'p \<Rightarrow> bool \<times> 'p"
  md_Resume :: "'p \<Rightarrow> bool \<times> 'p"
  md_SetParameter :: "filter_id \<Rightarrow> plugin_tag \<Rightarrow> any_value \<Rightarrow> 'p \<Rightarrow> bool \<times> 'p"
  md_SetCodec :: "filter_id \<Rightarrow> string \<Rightarrow> 'p \<Rightarrow> 'p"
  md_PixelFormat :: "'p \<Rightarrow> string option"
  md_PushData :: "his_buffer \<Rightarrow> 'p \<Rightarrow> bool \<times> 'p"

record 'k fwk_kit =
  ki_InitializeAVCenter :: "trans_role \<Rightarrow> 'k \<Rightarrow> ret \<times> int \<times> 'k"
  ki_RegisterCtlCenterCallback :: "int \<Rightarrow> nat \<Rightarrow> 'k \<Rightarrow> ret \<times> 'k"
  ki_CreateControlChannel :: "int \<Rightarrow> string \<Rightarrow> 'k \<Rightarrow> ret \<times> 'k"
  ki_NotifyAVCenter :: "int \<Rightarrow> av_event \<Rightarrow> 'k \<Rightarrow> ret \<times> 'k"
  ki_ReleaseAVCenter :: "int \<Rightarrow> 'k \<Rightarrow> ret \<times> 'k"

record ('p, 'k, 'h, 'j) engine_env =
  ee_media :: "'p media_api"
  ee_kit :: "'k fwk_kit"
  ee_bus :: "'h av_bus"
  ee_json :: "'j cjson"

record av_engine =
  en_self :: nat
  en_engineId :: int
  en_ownerName :: string
  en_sessionName :: string
  en_peerDevId :: string
  en_isInitialized :: bool
  en_state :: state_id
  en_kit :: bool
  en_ctlCallback :: bool
  en_callback :: bool
  en_pipeline :: bool
  en_filters :: "filter_id list"

datatype engine_note = NoteEvent av_event | NoteMessage av_message | NoteData trans_buffer

record ('p, 'k, 'h) engine_world =
  ew_engine :: av_engine
  ew_media :: 'p
  ew_kit :: 'k
  ew_adapter :: channel_adapter
  ew_bus :: 'h
  ew_notes :: "engine_note list"

definition engine_new :: "nat \<Rightarrow> string \<Rightarrow> string \<Rightarrow> string \<Rightarrow> av_engine" where
  "engine_new self ownerName peerDevId suffix = \<lparr> en_self = self, en_engineId = 0, en_ownerName = ownerName,
     en_sessionName = ownerName @ ''_'' @ suffix, en_peerDevId = peerDevId, en_isInitialized = False, en_state = ST_IDLE, en_kit = False,
     en_ctlCallback = False, en_callback = False, en_pipeline = False, en_filters = [] \<rparr>"

definition AVSenderEngine_new :: "nat \<Rightarrow> string \<Rightarrow> string \<Rightarrow> av_engine" where
  "AVSenderEngine_new self ownerName peerDevId = engine_new self ownerName peerDevId SENDER_CONTROL_SESSION_NAME_SUFFIX"

definition AVReceiverEngine_new :: "nat \<Rightarrow> string \<Rightarrow> string \<Rightarrow> av_engine" where
  "AVReceiverEngine_new self ownerName peerDevId = engine_new self ownerName peerDevId RECEIVER_CONTROL_SESSION_NAME_SUFFIX"

definition upd_engine :: "(av_engine \<Rightarrow> av_engine) \<Rightarrow> ('p, 'k, 'h) engine_world \<Rightarrow> ('p, 'k, 'h) engine_world" where
  "upd_engine f W = W\<lparr>ew_engine := f (ew_engine W)\<rparr>"

definition set_state :: "state_id \<Rightarrow> ('p, 'k, 'h) engine_world \<Rightarrow> ('p, 'k, 'h) engine_world" where
  "set_state s = upd_engine (\<lambda>e. e\<lparr>en_state := s\<rparr>)"

definition state_of :: "('p, 'k, 'h) engine_world \<Rightarrow> state_id" where
  "state_of W = en_state (ew_engine W)"

definition has_filter :: "filter_id \<Rightarrow> ('p, 'k, 'h) engine_world \<Rightarrow> bool" where
  "has_filter f W \<longleftrightarrow> f \<in> set (en_filters (ew_engine W))"

definition note_call :: "engine_note \<Rightarrow> ('p, 'k, 'h) engine_world \<Rightarrow> ('p, 'k, 'h) engine_world" where
  "note_call x W = W\<lparr>ew_notes := ew_notes W @ [x]\<rparr>"

text \<open>A call of the media library, of the adapter and of the adapter with the soft bus.\<close>

definition on_media :: "('p \<Rightarrow> 'r \<times> 'p) \<Rightarrow> ('p, 'k, 'h) engine_world \<Rightarrow> 'r \<times> ('p, 'k, 'h) engine_world" where
  "on_media f W = (let (r, p) = f (ew_media W) in (r, W\<lparr>ew_media := p\<rparr>))"

definition on_kit :: "('k \<Rightarrow> 'r \<times> 'k) \<Rightarrow> ('p, 'k, 'h) engine_world \<Rightarrow> 'r \<times> ('p, 'k, 'h) engine_world" where
  "on_kit f W = (let (r, k) = f (ew_kit W) in (r, W\<lparr>ew_kit := k\<rparr>))"

definition eng_adapter :: "(channel_adapter \<Rightarrow> ret \<times> channel_adapter) \<Rightarrow> ('p, 'k, 'h) engine_world \<Rightarrow> ret \<times> ('p, 'k, 'h) engine_world" where
  "eng_adapter f W = (let (r, a) = f (ew_adapter W) in (r, W\<lparr>ew_adapter := a\<rparr>))"

definition eng_channels :: "('h channels \<Rightarrow> ret \<times> 'h channels) \<Rightarrow> ('p, 'k, 'h) engine_world \<Rightarrow> ret \<times> ('p, 'k, 'h) engine_world" where
  "eng_channels f W = (let (r, a, h) = f (ew_adapter W, ew_bus W) in (r, W\<lparr>ew_adapter := a, ew_bus := h\<rparr>))"

section \<open>Initialisation\<close>

text \<open>
  Each filter is created in turn; one that cannot be created ends the function, and its member is null. What an earlier
  initialisation left in the members that are not reached stays.
\<close>

fun create_filters :: "'p media_api \<Rightarrow> filter_id list \<Rightarrow> ('p, 'k, 'h) engine_world \<Rightarrow> bool \<times> ('p, 'k, 'h) engine_world" where
  "create_filters M [] W = (True, W)"
| "create_filters M (f # fs) W =
     (let (ok, W1) = on_media (md_CreateFilter M f) W;
          rest = filter (\<lambda>x. x \<noteq> f) (en_filters (ew_engine W1))
      in if \<not> ok then (False, upd_engine (\<lambda>e. e\<lparr>en_filters := rest\<rparr>) W1)
         else create_filters M fs (upd_engine (\<lambda>e. e\<lparr>en_filters := f # rest\<rparr>) W1))"

definition filter_chain :: "string \<Rightarrow> filter_id list option" where
  "filter_chain ownerName =
     (if ownerName = OWNER_NAME_D_SCREEN \<or> ownerName = OWNER_NAME_D_CAMERA then Some [AV_INPUT, VIDEO_CODEC, AV_OUTPUT]
      else if ownerName = OWNER_NAME_D_MIC \<or> ownerName = OWNER_NAME_D_SPEAKER \<or> ownerName = OWNER_NAME_D_VIRMODEM_MIC
        \<or> ownerName = OWNER_NAME_D_VIRMODEM_SPEAKER then Some [AV_INPUT, AV_OUTPUT]
      else None)"

definition InitPipeline :: "'p media_api \<Rightarrow> ('p, 'k, 'h) engine_world \<Rightarrow> ret \<times> ('p, 'k, 'h) engine_world" where
  "InitPipeline M W =
     (let (ok, W1) = create_filters M [AV_INPUT, AV_OUTPUT, VIDEO_CODEC, AUDIO_CODEC] W in
      if \<not> ok then (ERR_DH_AVT_NULL_POINTER, W1)
      else let W2 = upd_engine (\<lambda>e. e\<lparr>en_pipeline := True\<rparr>) (snd (on_media (\<lambda>p. ((), md_NewPipeline M p)) W1)) in
        case filter_chain (en_ownerName (ew_engine W2)) of
          None \<Rightarrow> (ERR_DH_AVT_INVALID_PARAM_VALUE, W2)
        | Some fs \<Rightarrow>
            let (added, W3) = on_media (md_AddFilters M fs) W2;
                (linked, W4) = if added then on_media (md_LinkFilters M fs) W3 else (False, W3)
            in if linked then (DH_AVT_SUCCESS, W4)
               else (ERR_DH_AVT_INVALID_OPERATION, snd (on_media (\<lambda>p. ((), md_RemoveFilterChain M AV_INPUT p)) W4)))"

definition InitControlCenter :: "'k fwk_kit \<Rightarrow> trans_role \<Rightarrow> ('p, 'k, 'h) engine_world \<Rightarrow> ret \<times> ('p, 'k, 'h) engine_world" where
  "InitControlCenter K role W =
     (let ((r, i), W1) = on_kit (\<lambda>k. let (r, i, k1) = ki_InitializeAVCenter K role k in ((r, i), k1)) W;
          W2 = upd_engine (\<lambda>e. e\<lparr>en_kit := True, en_engineId := i\<rparr>) W1
      in if r \<noteq> DH_AVT_SUCCESS then (ERR_DH_AVT_CTRL_CENTER_INIT_FAIL, W2)
         else let W3 = upd_engine (\<lambda>e. e\<lparr>en_ctlCallback := True\<rparr>) W2;
                  (r2, W4) = on_kit (ki_RegisterCtlCenterCallback K i (en_self (ew_engine W3))) W3
              in if r2 \<noteq> DH_AVT_SUCCESS then (ERR_DH_AVT_REGISTER_CALLBACK_FAIL, W4) else (DH_AVT_SUCCESS, W4))"

definition engine_Initialize :: "trans_role \<Rightarrow> ('p, 'k, 'h, 'j) engine_env \<Rightarrow> ('p, 'k, 'h) engine_world \<Rightarrow> ret \<times> ('p, 'k, 'h) engine_world" where
  "engine_Initialize role E W =
     (if en_isInitialized (ew_engine W) then (DH_AVT_SUCCESS, W)
      else let (r1, W1) = InitPipeline (ee_media E) W in
        if r1 \<noteq> DH_AVT_SUCCESS then (ERR_DH_AVT_INIT_FAILED, W1)
        else let (r2, W2) = InitControlCenter (ee_kit E) role W1 in
          if r2 \<noteq> DH_AVT_SUCCESS then (ERR_DH_AVT_INIT_FAILED, W2)
          else let e = ew_engine W2;
                   (r3, W3) = eng_adapter (RegisterChannelListener (en_sessionName e) (en_peerDevId e) (Some (en_self e))) W2 in
            if r3 \<noteq> DH_AVT_SUCCESS then (ERR_DH_AVT_INIT_FAILED, W3)
            else (DH_AVT_SUCCESS, set_state ST_INITIALIZED (upd_engine (\<lambda>e. e\<lparr>en_isInitialized := True\<rparr>) W3)))"

definition Sender_Initialize :: "('p, 'k, 'h, 'j) engine_env \<Rightarrow> ('p, 'k, 'h) engine_world \<Rightarrow> ret \<times> ('p, 'k, 'h) engine_world" where
  "Sender_Initialize = engine_Initialize AV_SENDER"

definition Receiver_Initialize :: "('p, 'k, 'h, 'j) engine_env \<Rightarrow> ('p, 'k, 'h) engine_world \<Rightarrow> ret \<times> ('p, 'k, 'h) engine_world" where
  "Receiver_Initialize = engine_Initialize AV_RECEIVER"

definition engine_CreateControlChannel ::
  "string \<Rightarrow> ('p, 'k, 'h, 'j) engine_env \<Rightarrow> string list \<Rightarrow> ('p, 'k, 'h) engine_world \<Rightarrow> ret \<times> ('p, 'k, 'h) engine_world" where
  "engine_CreateControlChannel peerSuffix E dstDevIds W =
     (case dstDevIds of
        [] \<Rightarrow> (ERR_DH_AVT_NULL_POINTER, W)
      | dev # _ \<Rightarrow>
          (let W1 = upd_engine (\<lambda>e. e\<lparr>en_peerDevId := dev\<rparr>) W;
               e = ew_engine W1;
               (r1, W2) = eng_adapter (RegisterChannelListener (en_sessionName e) dev (Some (en_self e))) W1
           in if r1 \<noteq> DH_AVT_SUCCESS then (ERR_DH_AVT_CREATE_CHANNEL_FAILED, W2)
              else let (r2, W3) = eng_channels (OpenSoftbusChannel (ee_bus E) (en_sessionName e) (en_ownerName e @ ''_'' @ peerSuffix) dev) W2 in
                if r2 = ERR_DH_AVT_SESSION_HAS_OPENED then (ERR_DH_AVT_CHANNEL_ALREADY_CREATED, W3)
                else if r2 \<noteq> DH_AVT_SUCCESS then (ERR_DH_AVT_CREATE_CHANNEL_FAILED, W3)
                else (DH_AVT_SUCCESS, W3)))"

definition Sender_CreateControlChannel ::
  "('p, 'k, 'h, 'j) engine_env \<Rightarrow> string list \<Rightarrow> ('p, 'k, 'h) engine_world \<Rightarrow> ret \<times> ('p, 'k, 'h) engine_world" where
  "Sender_CreateControlChannel = engine_CreateControlChannel RECEIVER_CONTROL_SESSION_NAME_SUFFIX"

definition Receiver_CreateControlChannel ::
  "('p, 'k, 'h, 'j) engine_env \<Rightarrow> string list \<Rightarrow> ('p, 'k, 'h) engine_world \<Rightarrow> ret \<times> ('p, 'k, 'h) engine_world" where
  "Receiver_CreateControlChannel = engine_CreateControlChannel SENDER_CONTROL_SESSION_NAME_SUFFIX"

section \<open>Start, stop and release\<close>

text \<open>
  The change of the streams of the device: the camera asks its input filter for the pixel format, and the cast of the
  answer to a text may throw.
\<close>

definition scene_of :: "'p media_api \<Rightarrow> ('p, 'k, 'h) engine_world \<Rightarrow> string option option" where
  "scene_of M W =
     (let ow = en_ownerName (ew_engine W) in
      if ow = OWNER_NAME_D_MIC then Some (Some SCENE_TYPE_D_MIC)
      else if ow = OWNER_NAME_D_SPEAKER then Some (Some SCENE_TYPE_D_SPEAKER)
      else if ow = OWNER_NAME_D_SCREEN then Some (Some SCENE_TYPE_D_SCREEN)
      else if ow = OWNER_NAME_D_CAMERA
      then if \<not> has_filter AV_INPUT W then Some None
           else case md_PixelFormat M (ew_media W) of
             None \<Rightarrow> None
           | Some f \<Rightarrow> Some (Some (if f = ''jpeg'' then SCENE_TYPE_D_CAMERA_PIC else SCENE_TYPE_D_CAMERA_STR))
      else Some None)"

definition NotifyStreamChange ::
  "('p, 'k, 'h, 'j) engine_env \<Rightarrow> event_type \<Rightarrow> ('p, 'k, 'h) engine_world \<Rightarrow> ('p, 'k, 'h) engine_world option" where
  "NotifyStreamChange E t W =
     (case scene_of (ee_media E) W of
        None \<Rightarrow> None
      | Some None \<Rightarrow> Some W
      | Some (Some sceneType) \<Rightarrow>
          if \<not> en_kit (ew_engine W) then Some W
          else Some (snd (on_kit (ki_NotifyAVCenter (ee_kit E) (en_engineId (ew_engine W))
                 \<lparr> ev_type = t, ev_content = sceneType, ev_peerDevId = en_peerDevId (ew_engine W) \<rparr>) W)))"

definition Sender_Start :: "('p, 'k, 'h, 'j) engine_env \<Rightarrow> ('p, 'k, 'h) engine_world \<Rightarrow> ret \<times> ('p, 'k, 'h) engine_world" where
  "Sender_Start E W =
     (if state_of W \<noteq> ST_CH_CREATED then (ERR_DH_AVT_START_FAILED, W)
      else if \<not> en_pipeline (ew_engine W) then (ERR_DH_AVT_START_FAILED, W)
      else let (ok, W1) = on_media (md_Start (ee_media E)) W in
        if \<not> ok then (ERR_DH_AVT_START_FAILED, W1)
        else if en_kit (ew_engine W1)
        then let (r, W2) = on_kit (ki_CreateControlChannel (ee_kit E) (en_engineId (ew_engine W1)) (en_peerDevId (ew_engine W1))) W1 in
          if r \<noteq> DH_AVT_SUCCESS then (ERR_DH_AVT_CREATE_CHANNEL_FAILED, W2) else (DH_AVT_SUCCESS, set_state ST_STARTED W2)
        else (DH_AVT_SUCCESS, set_state ST_STARTED W1))"

definition Sender_Stop :: "('p, 'k, 'h, 'j) engine_env \<Rightarrow> ('p, 'k, 'h) engine_world \<Rightarrow> (ret \<times> ('p, 'k, 'h) engine_world) option" where
  "Sender_Stop E W =
     (if \<not> en_pipeline (ew_engine W) then Some (ERR_DH_AVT_STOP_FAILED, W)
      else let (ok, W1) = on_media (md_Stop (ee_media E)) W in
        if \<not> ok then Some (ERR_DH_AVT_STOP_FAILED, W1)
        else map_option (\<lambda>W2. (DH_AVT_SUCCESS, W2)) (NotifyStreamChange E EVENT_REMOVE_STREAM (set_state ST_STOPPED W1)))"

text \<open>What both releases do; the sender drops its callback too.\<close>

definition release_engine :: "('p, 'k, 'h, 'j) engine_env \<Rightarrow> ('p, 'k, 'h) engine_world \<Rightarrow> ('p, 'k, 'h) engine_world" where
  "release_engine E W =
     (let W1 = if en_pipeline (ew_engine W) then snd (on_media (md_Stop (ee_media E)) W) else W;
          W2 = if en_kit (ew_engine W1) then snd (on_kit (ki_ReleaseAVCenter (ee_kit E) (en_engineId (ew_engine W1))) W1) else W1;
          e = ew_engine W2;
          W3 = snd (eng_channels (CloseSoftbusChannel (ee_bus E) (en_sessionName e) (en_peerDevId e)) W2);
          W4 = snd (eng_adapter (UnRegisterChannelListener (en_sessionName e) (en_peerDevId e)) W3)
      in set_state ST_IDLE (upd_engine (\<lambda>e. e\<lparr>en_isInitialized := False, en_pipeline := False, en_kit := False, en_filters := [],
           en_ctlCallback := False\<rparr>) W4))"

definition Sender_Release :: "('p, 'k, 'h, 'j) engine_env \<Rightarrow> ('p, 'k, 'h) engine_world \<Rightarrow> ret \<times> ('p, 'k, 'h) engine_world" where
  "Sender_Release E W = (DH_AVT_SUCCESS, upd_engine (\<lambda>e. e\<lparr>en_callback := False\<rparr>) (release_engine E W))"

definition Receiver_Start :: "('p, 'k, 'h, 'j) engine_env \<Rightarrow> ('p, 'k, 'h) engine_world \<Rightarrow> ret \<times> ('p, 'k, 'h) engine_world" where
  "Receiver_Start E W =
     (if state_of W \<noteq> ST_CH_CREATED then (ERR_DH_AVT_START_FAILED, W)
      else if \<not> en_pipeline (ew_engine W) then (ERR_DH_AVT_START_FAILED, W)
      else let (ok, W1) = on_media (md_Start (ee_media E)) W in
        if \<not> ok then (ERR_DH_AVT_START_FAILED, W1) else (DH_AVT_SUCCESS, set_state ST_STARTED W1))"

definition Receiver_Stop :: "('p, 'k, 'h, 'j) engine_env \<Rightarrow> ('p, 'k, 'h) engine_world \<Rightarrow> ret \<times> ('p, 'k, 'h) engine_world" where
  "Receiver_Stop E W =
     (if \<not> en_pipeline (ew_engine W) then (ERR_DH_AVT_START_FAILED, W)
      else let (ok, W1) = on_media (md_Stop (ee_media E)) W in
        if \<not> ok then (ERR_DH_AVT_STOP_FAILED, W1) else (DH_AVT_SUCCESS, set_state ST_STOPPED W1))"

definition Receiver_Release :: "('p, 'k, 'h, 'j) engine_env \<Rightarrow> ('p, 'k, 'h) engine_world \<Rightarrow> ret \<times> ('p, 'k, 'h) engine_world" where
  "Receiver_Release E W = (if state_of W = ST_IDLE then (DH_AVT_SUCCESS, W) else (DH_AVT_SUCCESS, release_engine E W))"

section \<open>Parameters\<close>

abbreviation (input) TAG_ENGINE_READY :: "32 word" where "TAG_ENGINE_READY \<equiv> 65541"
abbreviation (input) TAG_ENGINE_PAUSE :: "32 word" where "TAG_ENGINE_PAUSE \<equiv> 65542"
abbreviation (input) TAG_ENGINE_RESUME :: "32 word" where "TAG_ENGINE_RESUME \<equiv> 65543"
abbreviation (input) TAG_SHARED_MEMORY_FD :: "32 word" where "TAG_SHARED_MEMORY_FD \<equiv> 65547"
abbreviation (input) TAG_AUDIO_CODEC_TYPE :: "32 word" where "TAG_AUDIO_CODEC_TYPE \<equiv> 131075"
abbreviation (input) TAG_AUDIO_CHANNEL_MASK :: "32 word" where "TAG_AUDIO_CHANNEL_MASK \<equiv> 131076"
abbreviation (input) TAG_AUDIO_FRAME_SIZE :: "32 word" where "TAG_AUDIO_FRAME_SIZE \<equiv> 131078"
abbreviation (input) TAG_AUDIO_CHANNEL_LAYOUT :: "32 word" where "TAG_AUDIO_CHANNEL_LAYOUT \<equiv> 131082"
abbreviation (input) TAG_AUDIO_BIT_RATE :: "32 word" where "TAG_AUDIO_BIT_RATE \<equiv> 131083"
abbreviation (input) TAG_VIDEO_CODEC_TYPE :: "32 word" where "TAG_VIDEO_CODEC_TYPE \<equiv> 196611"
abbreviation (input) TAG_VIDEO_FRAME_RATE :: "32 word" where "TAG_VIDEO_FRAME_RATE \<equiv> 196613"
abbreviation (input) TAG_VIDEO_BIT_RATE :: "32 word" where "TAG_VIDEO_BIT_RATE \<equiv> 196614"

text \<open>Parameters that are set one after the other, whatever the filters answer; a number is read from the text first.\<close>

definition set_params :: "'p media_api \<Rightarrow> (filter_id \<times> plugin_tag \<times> any_value) list \<Rightarrow> ('p, 'k, 'h) engine_world \<Rightarrow> ('p, 'k, 'h) engine_world" where
  "set_params M xs W = fold (\<lambda>(f, t, v) V. snd (on_media (md_SetParameter M f t v) V)) xs W"

definition set_number ::
  "'p media_api \<Rightarrow> filter_id list \<Rightarrow> plugin_tag \<Rightarrow> string \<Rightarrow> ('p, 'k, 'h) engine_world \<Rightarrow> ('p, 'k, 'h) engine_world option" where
  "set_number M fs t value W = map_option (\<lambda>n. set_params M (map (\<lambda>f. (f, t, AnyInt n)) fs) W) (stoi value)"

text \<open>The parameters in turn until one is refused.\<close>

fun try_params ::
  "'p media_api \<Rightarrow> (filter_id \<times> plugin_tag \<times> any_value) list \<Rightarrow> ('p, 'k, 'h) engine_world \<Rightarrow> bool \<times> ('p, 'k, 'h) engine_world" where
  "try_params M [] W = (True, W)"
| "try_params M ((f, t, v) # xs) W =
     (let (ok, W1) = on_media (md_SetParameter M f t v) W in if ok then try_params M xs W1 else (False, W1))"

text \<open>
  The two \<open>PreparePipeline\<close> differ in their parameters only. Neither tests the pipeline for null; \<open>SetParameter\<close>, which
  alone calls them, does (\<open>filters_null\<close>).
\<close>

definition prepare_with ::
  "('p, 'k, 'h, 'j) engine_env \<Rightarrow> (filter_id \<times> plugin_tag \<times> any_value) list \<Rightarrow> ('p, 'k, 'h) engine_world \<Rightarrow> ret \<times> ('p, 'k, 'h) engine_world" where
  "prepare_with E xs W =
     (if state_of W \<noteq> ST_INITIALIZED \<and> state_of W \<noteq> ST_CH_CREATED then (ERR_DH_AVT_PREPARE_FAILED, W)
      else if \<not> has_filter AV_INPUT W \<or> \<not> has_filter AV_OUTPUT W then (ERR_DH_AVT_PREPARE_FAILED, W)
      else let (ok, W1) = try_params (ee_media E) xs W in
        if \<not> ok then (ERR_DH_AVT_SET_PARAM_FAILED, W1)
        else let (done1, W2) = on_media (md_Prepare (ee_media E)) W1 in
          if \<not> done1 then (ERR_DH_AVT_PREPARE_FAILED, W2) else (DH_AVT_SUCCESS, set_state ST_CH_CREATED W2))"

definition Sender_PreparePipeline :: "('p, 'k, 'h, 'j) engine_env \<Rightarrow> ('p, 'k, 'h) engine_world \<Rightarrow> ret \<times> ('p, 'k, 'h) engine_world" where
  "Sender_PreparePipeline E W =
     (let e = ew_engine W in
      prepare_with E [(AV_INPUT, PT_MEDIA_TYPE, AnyMedia (TransName2MediaType (en_ownerName e))),
        (AV_INPUT, PT_VIDEO_BIT_STREAM_FORMAT, AnyConstant ''ANNEXB''), (AV_INPUT, PT_INPUT_MEMORY_TYPE, AnyConstant ''VIRTUAL_ADDR''),
        (AV_OUTPUT, PT_MEDIA_DESCRIPTION, AnyString (BuildChannelDescription (ee_json E) (en_ownerName e) (en_peerDevId e)))] W)"

definition Receiver_PreparePipeline :: "('p, 'k, 'h, 'j) engine_env \<Rightarrow> ('p, 'k, 'h) engine_world \<Rightarrow> ret \<times> ('p, 'k, 'h) engine_world" where
  "Receiver_PreparePipeline E W =
     (let e = ew_engine W in
      prepare_with E [(AV_INPUT, PT_MEDIA_TYPE, AnyMedia (TransName2MediaType (en_ownerName e))),
        (AV_INPUT, PT_VIDEO_BIT_STREAM_FORMAT, AnyConstant ''ANNEXB''),
        (AV_INPUT, PT_MEDIA_DESCRIPTION, AnyString (BuildChannelDescription (ee_json E) (en_ownerName e) (en_peerDevId e)))] W)"

text \<open>The MIME types are constants of the media library.\<close>

definition mime_params :: "string \<Rightarrow> string \<Rightarrow> (filter_id \<times> plugin_tag \<times> any_value) list" where
  "mime_params inp outp = [(AV_INPUT, PT_MIME, AnyConstant inp), (AV_OUTPUT, PT_MIME, AnyConstant outp)]"

text \<open>
  The encoder that is set is the video encoder, the one that is tested for null the audio encoder; without the video encoder the
  call goes through a null pointer.
\<close>

definition Sender_SetVideoCodecType :: "'p media_api \<Rightarrow> string \<Rightarrow> ('p, 'k, 'h) engine_world \<Rightarrow> ('p, 'k, 'h) engine_world option" where
  "Sender_SetVideoCodecType M value W =
     (if \<not> has_filter AUDIO_CODEC W then Some W
      else if value = ''video/avc'' \<or> value = ''video/hevc''
      then if \<not> has_filter VIDEO_CODEC W then None
           else let mime = if value = ''video/avc'' then ''MEDIA_MIME_VIDEO_H264'' else ''MEDIA_MIME_VIDEO_H265'' in
             Some (set_params M (mime_params ''MEDIA_MIME_VIDEO_RAW'' mime) (snd (on_media (\<lambda>p. ((), md_SetCodec M VIDEO_CODEC mime p)) W)))
      else Some W)"

definition Sender_SetAudioCodecType :: "'p media_api \<Rightarrow> ('p, 'k, 'h) engine_world \<Rightarrow> ('p, 'k, 'h) engine_world" where
  "Sender_SetAudioCodecType M W =
     (if \<not> has_filter AUDIO_CODEC W then W
      else set_params M (mime_params ''MEDIA_MIME_AUDIO_RAW'' ''MEDIA_MIME_AUDIO_AAC'')
             (snd (on_media (\<lambda>p. ((), md_SetCodec M AUDIO_CODEC ''MEDIA_MIME_AUDIO_AAC'' p)) W)))"

text \<open>The parameters that both engines hand on as numbers.\<close>

definition number_param :: "32 word \<Rightarrow> (filter_id list \<times> plugin_tag) option" where
  "number_param tag =
     map_of [(VIDEO_WIDTH, ([AV_INPUT], PT_VIDEO_WIDTH)), (VIDEO_HEIGHT, ([AV_INPUT], PT_VIDEO_HEIGHT)),
       (TAG_VIDEO_FRAME_RATE, ([AV_INPUT, AV_OUTPUT], PT_VIDEO_FRAME_RATE)), (TAG_AUDIO_BIT_RATE, ([AV_INPUT], PT_MEDIA_BITRATE)),
       (TAG_VIDEO_BIT_RATE, ([AV_INPUT], PT_MEDIA_BITRATE)), (TAG_AUDIO_CHANNEL_MASK, ([AV_INPUT, AV_OUTPUT], PT_AUDIO_CHANNELS)),
       (AUDIO_SAMPLE_RATE, ([AV_INPUT, AV_OUTPUT], PT_AUDIO_SAMPLE_RATE)),
       (TAG_AUDIO_CHANNEL_LAYOUT, ([AV_INPUT, AV_OUTPUT], PT_AUDIO_CHANNEL_LAYOUT)),
       (AUDIO_SAMPLE_FORMAT, ([AV_INPUT], PT_AUDIO_SAMPLE_FORMAT)), (TAG_AUDIO_FRAME_SIZE, ([AV_INPUT], PT_AUDIO_SAMPLE_PER_FRAME))] tag"

definition filters_null :: "('p, 'k, 'h) engine_world \<Rightarrow> bool" where
  "filters_null W \<longleftrightarrow> \<not> has_filter AV_INPUT W \<or> \<not> has_filter AV_OUTPUT W \<or> \<not> en_pipeline (ew_engine W)"

definition Sender_SetParameter ::
  "('p, 'k, 'h, 'j) engine_env \<Rightarrow> 32 word \<Rightarrow> string \<Rightarrow> ('p, 'k, 'h) engine_world \<Rightarrow> (ret \<times> ('p, 'k, 'h) engine_world) option" where
  "Sender_SetParameter E tag value W =
     (let M = ee_media E; ok = map_option (\<lambda>V. (DH_AVT_SUCCESS, V)) in
      if filters_null W then Some (ERR_DH_AVT_SETUP_FAILED, W)
      else case number_param tag of
        Some (fs, t) \<Rightarrow> ok (set_number M fs t value W)
      | None \<Rightarrow>
          if tag = VIDEO_PIXEL_FORMAT then ok (Some (set_params M [(AV_INPUT, PT_VIDEO_PIXEL_FORMAT, AnyConstant ''RGBA'')] W))
          else if tag = TAG_VIDEO_CODEC_TYPE then ok (Sender_SetVideoCodecType M value W)
          else if tag = TAG_AUDIO_CODEC_TYPE then ok (Some (Sender_SetAudioCodecType M W))
          else if tag = TAG_SHARED_MEMORY_FD then ok (Some (set_params M [(AV_INPUT, PT_USER_SHARED_MEMORY_FD, AnyString value)] W))
          else if tag = TAG_ENGINE_READY then ok (Some (snd (Sender_PreparePipeline E W)))
          else if tag = TAG_ENGINE_PAUSE then ok (Some (snd (on_media (md_Pause M) W)))
          else if tag = TAG_ENGINE_RESUME then ok (Some (snd (on_media (md_Resume M) W)))
          else Some (ERR_DH_AVT_INVALID_PARAM, W))"

definition Receiver_SetParameter ::
  "('p, 'k, 'h, 'j) engine_env \<Rightarrow> 32 word \<Rightarrow> string \<Rightarrow> ('p, 'k, 'h) engine_world \<Rightarrow> (ret \<times> ('p, 'k, 'h) engine_world) option" where
  "Receiver_SetParameter E tag value W =
     (let M = ee_media E; ok = map_option (\<lambda>V. (DH_AVT_SUCCESS, V)) in
      if filters_null W then Some (ERR_DH_AVT_SETUP_FAILED, W)
      else case number_param tag of
        Some (fs, t) \<Rightarrow> ok (set_number M fs t value W)
      | None \<Rightarrow>
          if tag = TAG_VIDEO_CODEC_TYPE
          then ok (Some (if value = ''video/avc'' then set_params M (mime_params ''MEDIA_MIME_VIDEO_H264'' ''MEDIA_MIME_VIDEO_RAW'') W
                         else if value = ''video/hevc'' then set_params M (mime_params ''MEDIA_MIME_VIDEO_H265'' ''MEDIA_MIME_VIDEO_RAW'') W else W))
          else if tag = TAG_AUDIO_CODEC_TYPE then ok (Some (set_params M (mime_params ''MEDIA_MIME_AUDIO_AAC'' ''MEDIA_MIME_AUDIO_RAW'') W))
          else if tag = TAG_TIME_SYNC_RESULT then ok (Some (set_params M [(AV_OUTPUT, PT_USER_TIME_SYNC_RESULT, AnyString value)] W))
          else if tag = TAG_START_AV_SYNC then ok (Some (set_params M [(AV_OUTPUT, PT_USER_AV_SYNC_GROUP_INFO, AnyString value)] W))
          else if tag = TAG_STOP_AV_SYNC then ok (Some (set_params M [(AV_OUTPUT, PT_USER_AV_SYNC_GROUP_INFO, AnyString value)] W))
          else if tag = TAG_SHARED_MEMORY_FD then ok (Some (set_params M [(AV_OUTPUT, PT_USER_SHARED_MEMORY_FD, AnyString value)] W))
          else if tag = TAG_ENGINE_READY then ok (Some (snd (Receiver_PreparePipeline E W)))
          else Some (ERR_DH_AVT_INVALID_PARAM, W))"

text \<open>The dump of media data: the output filter of the sender, the input filter of the receiver.\<close>

definition dump_media :: "filter_id \<Rightarrow> plugin_tag \<Rightarrow> bool \<Rightarrow> 'p media_api \<Rightarrow> ('p, 'k, 'h) engine_world \<Rightarrow> bool \<times> ('p, 'k, 'h) engine_world" where
  "dump_media f t b M W = (if \<not> has_filter f W then (False, W) else (True, set_params M [(f, t, AnyBool b)] W))"

section \<open>Data\<close>

definition TransBuffer2HiSBuffer :: "trans_buffer option \<Rightarrow> his_buffer option option" where
  "TransBuffer2HiSBuffer b =
     (case b of
        None \<Rightarrow> Some None
      | Some tb \<Rightarrow>
          if TransBuffer_IsEmpty tb then Some None
          else case GetBufferData 0 tb of
            None \<Rightarrow> Some None
          | Some dat \<Rightarrow>
              (case tb_meta tb of
                 None \<Rightarrow> None
               | Some m \<Rightarrow> map_option (\<lambda>h. Some \<lparr> hb_data = Some dat, hb_meta = h \<rparr>) (Convert2HiSBufferMeta m)))"

definition HiSBuffer2TransBuffer :: "his_buffer \<Rightarrow> trans_buffer option" where
  "HiSBuffer2TransBuffer b =
     (case hb_data b of
        None \<Rightarrow> None
      | Some d \<Rightarrow>
          Some (UpdateBufferMeta (Some (Convert2TransBufferMeta (hb_meta b)))
            (snd (WrapBufferData (bd_address d) (bd_capacity d) (bd_size d) (AVTransBuffer_new META_VIDEO)))))"

definition PushData ::
  "('p, 'k, 'h, 'j) engine_env \<Rightarrow> trans_buffer option \<Rightarrow> ('p, 'k, 'h) engine_world \<Rightarrow> (ret \<times> ('p, 'k, 'h) engine_world) option" where
  "PushData E buffer W =
     (if state_of W \<noteq> ST_STARTED \<and> state_of W \<noteq> ST_PLAYING then Some (ERR_DH_AVT_PUSH_DATA_FAILED, W)
      else case (if state_of W = ST_STARTED then NotifyStreamChange E EVENT_ADD_STREAM W else Some W) of
        None \<Rightarrow> None
      | Some W1 \<Rightarrow>
          if \<not> has_filter AV_INPUT W1 then Some (ERR_DH_AVT_PUSH_DATA_FAILED, W1)
          else case TransBuffer2HiSBuffer buffer of
            None \<Rightarrow> None
          | Some None \<Rightarrow> Some (ERR_DH_AVT_PUSH_DATA_FAILED, W1)
          | Some (Some hb) \<Rightarrow>
              (let (ok, W2) = on_media (md_PushData (ee_media E) hb) W1 in
               if \<not> ok then Some (ERR_DH_AVT_PUSH_DATA_FAILED, W2) else Some (DH_AVT_SUCCESS, set_state ST_PLAYING W2)))"

text \<open>The answer of the callback \<open>OnDataAvailable\<close> is not used by the code that calls the function.\<close>

definition HandleOutputBuffer :: "his_buffer \<Rightarrow> ('p, 'k, 'h) engine_world \<Rightarrow> ret \<times> ('p, 'k, 'h) engine_world" where
  "HandleOutputBuffer hb W =
     (if state_of W \<noteq> ST_STARTED \<and> state_of W \<noteq> ST_PLAYING then (ERR_DH_AVT_OUTPUT_DATA_FAILED, W)
      else case HiSBuffer2TransBuffer hb of
        None \<Rightarrow> (ERR_DH_AVT_OUTPUT_DATA_FAILED, W)
      | Some tb \<Rightarrow>
          (let W1 = set_state ST_PLAYING W in
           if \<not> en_callback (ew_engine W1) then (ERR_DH_AVT_OUTPUT_DATA_FAILED, W1) else (DH_AVT_SUCCESS, note_call (NoteData tb) W1)))"

section \<open>Messages and events\<close>

definition engine_SendMessage :: "('p, 'k, 'h, 'j) engine_env \<Rightarrow> av_message option \<Rightarrow> ('p, 'k, 'h) engine_world \<Rightarrow> ret \<times> ('p, 'k, 'h) engine_world" where
  "engine_SendMessage E message W =
     (case message of
        None \<Rightarrow> (ERR_DH_AVT_INVALID_PARAM, W)
      | Some m \<Rightarrow>
          (let (r, h) = SendBytesData (ee_bus E) (en_sessionName (ew_engine W)) (am_dstDevId m) (MarshalMessage (ee_json E) m) (ew_adapter W, ew_bus W)
           in (r, W\<lparr>ew_bus := h\<rparr>)))"

definition RegisterCallback :: "bool \<Rightarrow> ('p, 'k, 'h) engine_world \<Rightarrow> ret \<times> ('p, 'k, 'h) engine_world" where
  "RegisterCallback given W = (if \<not> given then (ERR_DH_AVT_INVALID_PARAM, W) else (DH_AVT_SUCCESS, upd_engine (\<lambda>e. e\<lparr>en_callback := True\<rparr>) W))"

definition engine_OnChannelEvent :: "('p, 'k, 'h, 'j) engine_env \<Rightarrow> av_event \<Rightarrow> ('p, 'k, 'h) engine_world \<Rightarrow> ('p, 'k, 'h) engine_world" where
  "engine_OnChannelEvent E event W =
     (if \<not> en_callback (ew_engine W) then W
      else case ev_type event of
        EVENT_CHANNEL_OPENED \<Rightarrow> note_call (NoteEvent event) (set_state ST_CH_CREATED W)
      | EVENT_CHANNEL_OPEN_FAIL \<Rightarrow> note_call (NoteEvent event) (set_state ST_INITIALIZED W)
      | EVENT_CHANNEL_CLOSED \<Rightarrow>
          if state_of W \<noteq> ST_IDLE \<and> state_of W \<noteq> ST_INITIALIZED then note_call (NoteEvent event) (set_state ST_INITIALIZED W) else W
      | EVENT_DATA_RECEIVED \<Rightarrow>
          (case UnmarshalMessage (ee_json E) (ev_content event) (ev_peerDevId event) AVTransMessage_new of
             (False, _) \<Rightarrow> W
           | (True, m) \<Rightarrow> note_call (NoteMessage m) W)
      | _ \<Rightarrow> W)"

text \<open>What the pipeline reports: an event of a plugin, a buffer that is ready (null is \<open>None\<close>), or something else.\<close>

datatype pipeline_event = PipePlugin plugin_event | PipeBuffer "his_buffer option" | PipeOther

definition Sender_OnEvent :: "pipeline_event \<Rightarrow> ('p, 'k, 'h) engine_world \<Rightarrow> ('p, 'k, 'h) engine_world" where
  "Sender_OnEvent event W =
     (if \<not> en_callback (ew_engine W) then W
      else case event of
        PipePlugin t \<Rightarrow>
          note_call (NoteEvent \<lparr> ev_type = CastEventType t (state_of W = ST_PLAYING), ev_content = [], ev_peerDevId = en_peerDevId (ew_engine W) \<rparr>) W
      | _ \<Rightarrow> W)"

definition Receiver_OnEvent :: "pipeline_event \<Rightarrow> ('p, 'k, 'h) engine_world \<Rightarrow> ('p, 'k, 'h) engine_world" where
  "Receiver_OnEvent event W =
     (if \<not> en_callback (ew_engine W) then W
      else case event of
        PipeBuffer (Some hb) \<Rightarrow> snd (HandleOutputBuffer hb W)
      | PipePlugin t \<Rightarrow>
          note_call (NoteEvent \<lparr> ev_type = CastEventType t (state_of W = ST_PLAYING), ev_content = [], ev_peerDevId = en_peerDevId (ew_engine W) \<rparr>) W
      | _ \<Rightarrow> W)"

end
