(* ===== verification/DHF_AvEngineProps.thy ===== *)
theory DHF_AvEngineProps
  imports DHF_AvEngine DHF_Json_Model
begin

text \<open>
  The sender engine as a transition system: what holds in every state that its operations, the events of its
  channel and those of its pipeline can reach, and two sequences in which engine and channel adapter disagree.
\<close>

section \<open>What the operations leave alone\<close>

lemma on_media_engine [simp]: "ew_engine (snd (on_media f W)) = ew_engine W" "ew_adapter (snd (on_media f W)) = ew_adapter W"
  by (simp_all add: on_media_def case_prod_unfold Let_def)

lemma on_kit_engine [simp]: "ew_engine (snd (on_kit f W)) = ew_engine W" "ew_adapter (snd (on_kit f W)) = ew_adapter W"
  by (simp_all add: on_kit_def case_prod_unfold Let_def)

lemma eng_adapter_engine [simp]: "ew_engine (snd (eng_adapter f W)) = ew_engine W" "ew_adapter (snd (eng_adapter f W)) = snd (f (ew_adapter W))"
  "fst (eng_adapter f W) = fst (f (ew_adapter W))"
  by (simp_all add: eng_adapter_def case_prod_unfold Let_def)

lemma eng_channels_engine [simp]: "ew_engine (snd (eng_channels f W)) = ew_engine W"
  "ew_adapter (snd (eng_channels f W)) = fst (snd (f (ew_adapter W, ew_bus W)))"
  by (simp_all add: eng_channels_def case_prod_unfold Let_def)

lemma upd_engine_simps [simp]: "ew_engine (upd_engine f W) = f (ew_engine W)" "ew_adapter (upd_engine f W) = ew_adapter W"
  by (simp_all add: upd_engine_def)

lemma set_state_simps [simp]: "ew_engine (set_state s W) = (ew_engine W)\<lparr>en_state := s\<rparr>" "ew_adapter (set_state s W) = ew_adapter W"
  by (simp_all add: set_state_def)

lemma note_call_simps [simp]: "ew_engine (note_call x W) = ew_engine W" "ew_adapter (note_call x W) = ew_adapter W"
  by (simp_all add: note_call_def)

lemma set_params_engine [simp]: "ew_engine (set_params M xs W) = ew_engine W"
  unfolding set_params_def by (induction xs arbitrary: W) (auto simp: case_prod_unfold)

lemma set_number_engine: "set_number M fs t v W = Some V \<Longrightarrow> ew_engine V = ew_engine W"
  by (auto simp: set_number_def)

lemma try_params_engine: "ew_engine (snd (try_params M xs W)) = ew_engine W"
proof (induction M xs W rule: try_params.induct)
  case (2 M f t v xs W)
  obtain ok W1 where o: "on_media (md_SetParameter M f t v) W = (ok, W1)" by (cases "on_media (md_SetParameter M f t v) W")
  then have "ew_engine W1 = ew_engine W" using on_media_engine(1) [of "md_SetParameter M f t v" W] by simp
  then show ?case using 2 [OF o [symmetric] refl] o by simp
qed simp

lemma NotifyStreamChange_engine: "NotifyStreamChange E t W = Some V \<Longrightarrow> ew_engine V = ew_engine W"
  by (auto simp: NotifyStreamChange_def split: option.splits if_splits)

lemma create_filters_engine:
  "create_filters M fs W = (ok, V) \<Longrightarrow>
    (\<exists>gs. ew_engine V = (ew_engine W)\<lparr>en_filters := gs\<rparr> \<and> (ok \<longrightarrow> set fs \<subseteq> set gs) \<and> (ok \<longrightarrow> set (en_filters (ew_engine W)) \<subseteq> set gs))
    \<and> ew_adapter V = ew_adapter W"
proof (induction M fs W arbitrary: ok V rule: create_filters.induct)
  case (1 M W)
  then show ?case by (auto intro!: exI [of _ "en_filters (ew_engine W)"])
next
  case (2 M f fs W)
  obtain b W1 where o: "on_media (md_CreateFilter M f) W = (b, W1)" by (cases "on_media (md_CreateFilter M f) W")
  have e: "ew_engine W1 = ew_engine W" "ew_adapter W1 = ew_adapter W"
    using on_media_engine [of "md_CreateFilter M f" W] by (simp_all add: o)
  let ?rest = "filter (\<lambda>x. x \<noteq> f) (en_filters (ew_engine W1))"
  show ?case
  proof (cases b)
    case True
    let ?U = "upd_engine (\<lambda>e. e\<lparr>en_filters := f # ?rest\<rparr>) W1"
    have "create_filters M fs ?U = (ok, V)" using 2(2) True o by simp
    from 2(1) [OF o [symmetric] refl refl _ this] True
    obtain gs where "ew_engine V = (ew_engine ?U)\<lparr>en_filters := gs\<rparr>" "ok \<longrightarrow> set fs \<subseteq> set gs"
      "ok \<longrightarrow> set (f # ?rest) \<subseteq> set gs" "ew_adapter V = ew_adapter ?U" by auto
    then show ?thesis using e by (intro conjI exI [of _ gs]) auto
  next
    case False
    then show ?thesis using 2(2) o e by (auto intro!: exI [of _ ?rest])
  qed
qed

lemma InitPipeline_engine:
  assumes "InitPipeline M W = (r, V)"
  obtains gs p where "ew_engine V = (ew_engine W)\<lparr>en_filters := gs, en_pipeline := p\<rparr>" "en_pipeline (ew_engine W) \<longrightarrow> p"
    "r = DH_AVT_SUCCESS \<longrightarrow> p \<and> {AV_INPUT, AV_OUTPUT, VIDEO_CODEC, AUDIO_CODEC} \<subseteq> set gs" "ew_adapter V = ew_adapter W"
proof -
  obtain ok W1 where c: "create_filters M [AV_INPUT, AV_OUTPUT, VIDEO_CODEC, AUDIO_CODEC] W = (ok, W1)"
    by (cases "create_filters M [AV_INPUT, AV_OUTPUT, VIDEO_CODEC, AUDIO_CODEC] W")
  from create_filters_engine [OF c] obtain gs where g: "ew_engine W1 = (ew_engine W)\<lparr>en_filters := gs\<rparr>"
    "ok \<longrightarrow> {AV_INPUT, AV_OUTPUT, VIDEO_CODEC, AUDIO_CODEC} \<subseteq> set gs" "ew_adapter W1 = ew_adapter W" by auto
  show ?thesis
  proof (cases ok)
    case False
    then have "V = W1" "r = ERR_DH_AVT_NULL_POINTER" using assms c by (auto simp: InitPipeline_def)
    then show ?thesis using g that [where gs = gs and p = "en_pipeline (ew_engine W)"] by auto
  next
    case True
    then have "ew_engine V = (ew_engine W1)\<lparr>en_pipeline := True\<rparr> \<and> ew_adapter V = ew_adapter W1"
      using assms c by (auto simp: InitPipeline_def Let_def case_prod_unfold split: option.splits if_splits)
    then show ?thesis using g True that [where gs = gs and p = True] by auto
  qed
qed

lemma InitControlCenter_engine:
  assumes "InitControlCenter K role W = (r, V)"
  obtains i c where "ew_engine V = (ew_engine W)\<lparr>en_kit := True, en_engineId := i, en_ctlCallback := c\<rparr>" "ew_adapter V = ew_adapter W"
proof -
  obtain q i W1 where k: "on_kit (\<lambda>k. let (r, i, k1) = ki_InitializeAVCenter K role k in ((r, i), k1)) W = ((q, i), W1)"
    by (metis prod.collapse)
  then have "W1 = snd (on_kit (\<lambda>k. let (r, i, k1) = ki_InitializeAVCenter K role k in ((r, i), k1)) W)" by simp
  then have e: "ew_engine W1 = ew_engine W" "ew_adapter W1 = ew_adapter W" by simp_all
  show ?thesis
  proof (cases "q = DH_AVT_SUCCESS")
    case True
    then have "ew_engine V = (ew_engine W1)\<lparr>en_kit := True, en_engineId := i, en_ctlCallback := True\<rparr> \<and> ew_adapter V = ew_adapter W1"
      using assms k by (auto simp: InitControlCenter_def Let_def case_prod_unfold split: if_splits)
    then show ?thesis using e that by auto
  next
    case False
    then have "ew_engine V = (ew_engine W1)\<lparr>en_kit := True, en_engineId := i\<rparr> \<and> ew_adapter V = ew_adapter W1"
      using assms k by (auto simp: InitControlCenter_def Let_def case_prod_unfold)
    then show ?thesis using e that [where i = i and c = "en_ctlCallback (ew_engine W)"] by auto
  qed
qed

definition ready_parts :: "av_engine \<Rightarrow> bool" where
  "ready_parts e \<longleftrightarrow> en_pipeline e \<and> {AV_INPUT, AV_OUTPUT, VIDEO_CODEC, AUDIO_CODEC} \<subseteq> set (en_filters e) \<and> en_kit e"

text \<open>An initialisation either does nothing, or fails and leaves the state, or succeeds.\<close>

lemma engine_Initialize_cases:
  assumes "engine_Initialize role E W = (r, V)"
  obtains (again) "en_isInitialized (ew_engine W)" "V = W" "r = DH_AVT_SUCCESS"
  | (failed) "\<not> en_isInitialized (ew_engine W)" "\<not> en_isInitialized (ew_engine V)" "en_state (ew_engine V) = en_state (ew_engine W)"
      "en_pipeline (ew_engine W) \<longrightarrow> en_pipeline (ew_engine V)" "r = ERR_DH_AVT_INIT_FAILED"
  | (inited) "\<not> en_isInitialized (ew_engine W)" "en_isInitialized (ew_engine V)" "en_state (ew_engine V) = ST_INITIALIZED"
      "ready_parts (ew_engine V)" "r = DH_AVT_SUCCESS" "en_self (ew_engine V) = en_self (ew_engine W)"
      "en_sessionName (ew_engine V) = en_sessionName (ew_engine W)" "en_peerDevId (ew_engine V) = en_peerDevId (ew_engine W)"
      "ew_adapter V = snd (RegisterChannelListener (en_sessionName (ew_engine W)) (en_peerDevId (ew_engine W)) (Some (en_self (ew_engine W))) (ew_adapter W))"
      "fst (RegisterChannelListener (en_sessionName (ew_engine W)) (en_peerDevId (ew_engine W)) (Some (en_self (ew_engine W))) (ew_adapter W)) = DH_AVT_SUCCESS"
proof (cases "en_isInitialized (ew_engine W)")
  case True
  then show ?thesis by (intro that(1)) (use assms in \<open>simp_all add: engine_Initialize_def\<close>)
next
  case False
  obtain r1 W1 where i1: "InitPipeline (ee_media E) W = (r1, W1)" by (cases "InitPipeline (ee_media E) W")
  obtain gs p where g: "ew_engine W1 = (ew_engine W)\<lparr>en_filters := gs, en_pipeline := p\<rparr>" "en_pipeline (ew_engine W) \<longrightarrow> p"
    "r1 = DH_AVT_SUCCESS \<longrightarrow> p \<and> {AV_INPUT, AV_OUTPUT, VIDEO_CODEC, AUDIO_CODEC} \<subseteq> set gs" "ew_adapter W1 = ew_adapter W"
    by (rule InitPipeline_engine [OF i1])
  obtain r2 W2 where i2: "InitControlCenter (ee_kit E) role W1 = (r2, W2)" by (cases "InitControlCenter (ee_kit E) role W1")
  obtain i c where k: "ew_engine W2 = (ew_engine W1)\<lparr>en_kit := True, en_engineId := i, en_ctlCallback := c\<rparr>" "ew_adapter W2 = ew_adapter W1"
    by (rule InitControlCenter_engine [OF i2])
  let ?reg = "RegisterChannelListener (en_sessionName (ew_engine W)) (en_peerDevId (ew_engine W)) (Some (en_self (ew_engine W)))"
  show ?thesis
  proof (cases "r1 = DH_AVT_SUCCESS \<and> r2 = DH_AVT_SUCCESS \<and> fst (?reg (ew_adapter W)) = DH_AVT_SUCCESS")
    case True
    then have V: "r = DH_AVT_SUCCESS" "V = set_state ST_INITIALIZED (upd_engine (\<lambda>e. e\<lparr>en_isInitialized := True\<rparr>) (snd (eng_adapter ?reg W2)))"
      using assms False i1 i2 g k by (auto simp: engine_Initialize_def Let_def case_prod_unfold)
    show ?thesis
      by (rule that(3)) (use False True V g k in \<open>simp_all add: ready_parts_def\<close>)
  next
    case bad: False
    then have "r = ERR_DH_AVT_INIT_FAILED \<and> \<not> en_isInitialized (ew_engine V) \<and> en_state (ew_engine V) = en_state (ew_engine W)
        \<and> (en_pipeline (ew_engine W) \<longrightarrow> en_pipeline (ew_engine V))"
      using assms False i1 i2 g k by (auto simp: engine_Initialize_def Let_def case_prod_unfold split: if_splits)
    then show ?thesis using False that(2) by blast
  qed
qed

lemma engine_CreateControlChannel_engine:
  "engine_CreateControlChannel sfx E ds W = (r, V) \<Longrightarrow> \<exists>d. ew_engine V = (ew_engine W)\<lparr>en_peerDevId := d\<rparr>"
  by (cases ds) (auto simp: engine_CreateControlChannel_def Let_def case_prod_unfold split: if_splits
      intro: exI [of _ "en_peerDevId (ew_engine W)"])

lemma Sender_Start_engine:
  "Sender_Start E W = (r, V) \<Longrightarrow> ew_engine V = (ew_engine W)\<lparr>en_state := (if r = DH_AVT_SUCCESS then ST_STARTED else state_of W)\<rparr>
     \<and> (r = DH_AVT_SUCCESS \<longrightarrow> state_of W = ST_CH_CREATED \<and> en_pipeline (ew_engine W))"
  by (auto simp: Sender_Start_def state_of_def Let_def case_prod_unfold split: if_splits)

lemma Sender_Stop_engine:
  "Sender_Stop E W = Some (r, V) \<Longrightarrow> ew_engine V = (ew_engine W)\<lparr>en_state := (if r = DH_AVT_SUCCESS then ST_STOPPED else state_of W)\<rparr>"
  by (auto simp: Sender_Stop_def state_of_def Let_def case_prod_unfold split: if_splits dest!: NotifyStreamChange_engine)

lemma prepare_with_engine:
  "prepare_with E xs W = (r, V) \<Longrightarrow> ew_engine V = (ew_engine W)\<lparr>en_state := (if r = DH_AVT_SUCCESS then ST_CH_CREATED else state_of W)\<rparr>
     \<and> (r = DH_AVT_SUCCESS \<longrightarrow> state_of W \<in> {ST_INITIALIZED, ST_CH_CREATED})"
  by (auto simp: prepare_with_def state_of_def Let_def case_prod_unfold try_params_engine split: if_splits)

lemma Sender_SetVideoCodecType_engine: "Sender_SetVideoCodecType M v W = Some V \<Longrightarrow> ew_engine V = ew_engine W"
  by (auto simp: Sender_SetVideoCodecType_def Let_def split: if_splits)

lemma Sender_SetParameter_engine:
  assumes "Sender_SetParameter E tag value W = Some (r, V)"
  shows "ew_engine V = ew_engine W \<or> (state_of W \<in> {ST_INITIALIZED, ST_CH_CREATED} \<and> ew_engine V = (ew_engine W)\<lparr>en_state := ST_CH_CREATED\<rparr>)"
proof (cases "tag = TAG_ENGINE_READY \<and> \<not> filters_null W")
  case True
  then have V: "V = snd (Sender_PreparePipeline E W)" using assms by (simp add: Sender_SetParameter_def number_param_def)
  obtain r' V' where p: "Sender_PreparePipeline E W = (r', V')" by (cases "Sender_PreparePipeline E W")
  from prepare_with_engine [OF p [unfolded Sender_PreparePipeline_def Let_def]] V p show ?thesis
    by (auto simp: state_of_def split: if_splits)
next
  case False
  then show ?thesis
    using assms by (auto simp: Sender_SetParameter_def Sender_SetAudioCodecType_def Let_def split: if_splits option.splits
        dest: set_number_engine Sender_SetVideoCodecType_engine)
qed

lemma PushData_engine:
  "PushData E b W = Some (r, V) \<Longrightarrow> ew_engine V = (ew_engine W)\<lparr>en_state := (if r = DH_AVT_SUCCESS then ST_PLAYING else state_of W)\<rparr>
     \<and> (r = DH_AVT_SUCCESS \<longrightarrow> state_of W \<in> {ST_STARTED, ST_PLAYING})"
  by (auto simp: PushData_def state_of_def Let_def case_prod_unfold split: if_splits option.splits dest!: NotifyStreamChange_engine)

lemma release_engine_engine:
  "ew_engine (release_engine E W) = (ew_engine W)\<lparr>en_isInitialized := False, en_pipeline := False, en_kit := False, en_filters := [],
     en_ctlCallback := False, en_state := ST_IDLE\<rparr>"
  by (simp add: release_engine_def Let_def)

section \<open>The sender as a transition system\<close>

text \<open>
  The operations of the user of the engine other than the release, and the reports of its pipeline.
\<close>

inductive sender_api :: "('p, 'k, 'h, 'j) engine_env \<Rightarrow> ('p, 'k, 'h) engine_world \<Rightarrow> ('p, 'k, 'h) engine_world \<Rightarrow> bool" for E where
  api_initialize: "Sender_Initialize E W = (r, V) \<Longrightarrow> sender_api E W V"
| api_channel: "Sender_CreateControlChannel E ds W = (r, V) \<Longrightarrow> sender_api E W V"
| api_start: "Sender_Start E W = (r, V) \<Longrightarrow> sender_api E W V"
| api_stop: "Sender_Stop E W = Some (r, V) \<Longrightarrow> sender_api E W V"
| api_parameter: "Sender_SetParameter E tag v W = Some (r, V) \<Longrightarrow> sender_api E W V"
| api_push: "PushData E b W = Some (r, V) \<Longrightarrow> sender_api E W V"
| api_message: "engine_SendMessage E m W = (r, V) \<Longrightarrow> sender_api E W V"
| api_callback: "RegisterCallback g W = (r, V) \<Longrightarrow> sender_api E W V"
| api_dump: "dump_media AV_OUTPUT t b (ee_media E) W = (g, V) \<Longrightarrow> sender_api E W V"
| api_event: "sender_api E W (Sender_OnEvent ev W)"

text \<open>With the release, the events of the channel, and whatever happens to adapter, soft bus, media library and center meanwhile.\<close>

inductive sender_run :: "('p, 'k, 'h, 'j) engine_env \<Rightarrow> ('p, 'k, 'h) engine_world \<Rightarrow> ('p, 'k, 'h) engine_world \<Rightarrow> bool" for E where
  run_here: "sender_run E W W"
| run_api: "sender_run E W U \<Longrightarrow> sender_api E U V \<Longrightarrow> sender_run E W V"
| run_release: "sender_run E W U \<Longrightarrow> Sender_Release E U = (r, V) \<Longrightarrow> sender_run E W V"
| run_event: "sender_run E W U \<Longrightarrow> sender_run E W (engine_OnChannelEvent E ev U)"
| run_other: "sender_run E W U \<Longrightarrow> ew_engine V = ew_engine U \<Longrightarrow> sender_run E W V"

text \<open>The same without the release, with the events of the channel that the engine handled, in order.\<close>

inductive sender_trace ::
  "('p, 'k, 'h, 'j) engine_env \<Rightarrow> ('p, 'k, 'h) engine_world \<Rightarrow> av_event list \<Rightarrow> ('p, 'k, 'h) engine_world \<Rightarrow> bool" for E where
  trace_here: "sender_trace E W [] W"
| trace_api: "sender_trace E W evs U \<Longrightarrow> sender_api E U V \<Longrightarrow> sender_trace E W evs V"
| trace_event: "sender_trace E W evs U \<Longrightarrow> sender_trace E W (evs @ [ev]) (engine_OnChannelEvent E ev U)"
| trace_other: "sender_trace E W evs U \<Longrightarrow> ew_engine V = ew_engine U \<Longrightarrow> sender_trace E W evs V"

definition sender_ok :: "av_engine \<Rightarrow> bool" where
  "sender_ok e \<longleftrightarrow> (en_state e \<in> {ST_STARTED, ST_PLAYING} \<longrightarrow> en_pipeline e)
     \<and> (en_isInitialized e \<longrightarrow> ready_parts e) \<and> (en_state e = ST_IDLE \<longrightarrow> \<not> en_isInitialized e)"

lemma sender_ok_state:
  "sender_ok e \<Longrightarrow> s \<noteq> ST_IDLE \<Longrightarrow> (s \<in> {ST_STARTED, ST_PLAYING} \<longrightarrow> en_pipeline e) \<Longrightarrow> sender_ok (e\<lparr>en_state := s\<rparr>)"
  by (auto simp: sender_ok_def ready_parts_def)

lemma engine_same_state: "e\<lparr>en_state := en_state e\<rparr> = e" by simp

lemma sender_ok_peer: "sender_ok e \<Longrightarrow> sender_ok (e\<lparr>en_peerDevId := d\<rparr>)" "sender_ok e \<Longrightarrow> sender_ok (e\<lparr>en_callback := b\<rparr>)"
  by (auto simp: sender_ok_def ready_parts_def)

lemma sender_api_ok: "sender_api E W V \<Longrightarrow> sender_ok (ew_engine W) \<Longrightarrow> sender_ok (ew_engine V)"
proof (induction rule: sender_api.induct)
  case (api_initialize W r V)
  from api_initialize(1) [unfolded Sender_Initialize_def] show ?case
    by (rule engine_Initialize_cases) (use api_initialize(2) in \<open>auto simp: sender_ok_def\<close>)
next
  case (api_channel ds W r V)
  then show ?case using engine_CreateControlChannel_engine sender_ok_peer(1) unfolding Sender_CreateControlChannel_def by metis
next
  case (api_start W r V)
  from Sender_Start_engine [OF api_start(1)] api_start(2) sender_ok_state [OF api_start(2), of ST_STARTED] show ?case
    by (cases "r = DH_AVT_SUCCESS") (simp_all add: state_of_def engine_same_state)
next
  case (api_stop W r V)
  from Sender_Stop_engine [OF api_stop(1)] api_stop(2) sender_ok_state [OF api_stop(2), of ST_STOPPED] show ?case
    by (cases "r = DH_AVT_SUCCESS") (simp_all add: state_of_def engine_same_state)
next
  case (api_parameter tag v W r V)
  from Sender_SetParameter_engine [OF api_parameter(1)] api_parameter(2) sender_ok_state [OF api_parameter(2), of ST_CH_CREATED]
  show ?case by auto
next
  case (api_push b W r V)
  have "en_pipeline (ew_engine W)" if "r = DH_AVT_SUCCESS"
    using PushData_engine [OF api_push(1)] api_push(2) that by (auto simp: sender_ok_def state_of_def)
  with PushData_engine [OF api_push(1)] api_push(2) sender_ok_state [OF api_push(2), of ST_PLAYING] show ?case
    by (cases "r = DH_AVT_SUCCESS") (simp_all add: state_of_def engine_same_state)
next
  case (api_message m W r V)
  then show ?case by (auto simp: engine_SendMessage_def Let_def case_prod_unfold split: option.splits)
next
  case (api_callback g W r V)
  then show ?case by (auto simp: RegisterCallback_def sender_ok_peer(2) split: if_splits)
next
  case (api_dump t b W g V)
  then show ?case by (auto simp: dump_media_def split: if_splits)
next
  case (api_event W ev)
  then show ?case by (auto simp: Sender_OnEvent_def split: pipeline_event.splits)
qed

lemma OnChannelEvent_ok: "sender_ok (ew_engine W) \<Longrightarrow> sender_ok (ew_engine (engine_OnChannelEvent E ev W))"
  by (cases "ev_type ev")
    (simp_all add: engine_OnChannelEvent_def sender_ok_state split: prod.splits bool.splits)

lemma sender_run_ok: "sender_run E W V \<Longrightarrow> sender_ok (ew_engine W) \<Longrightarrow> sender_ok (ew_engine V)"
proof (induction rule: sender_run.induct)
  case (run_release W U r V)
  then have "V = upd_engine (\<lambda>e. e\<lparr>en_callback := False\<rparr>) (release_engine E U)" by (simp add: Sender_Release_def)
  then show ?case by (simp add: release_engine_engine sender_ok_def)
qed (simp_all add: sender_api_ok OnChannelEvent_ok)

lemma stopped_api:
  assumes "sender_api E W V" and "state_of W = ST_STOPPED" and "en_isInitialized (ew_engine W)"
  shows "state_of V = ST_STOPPED \<and> en_isInitialized (ew_engine V)"
  using assms
proof (cases rule: sender_api.cases)
  case (api_initialize r)
  then show ?thesis using assms(2,3) by (simp add: Sender_Initialize_def engine_Initialize_def)
next
  case (api_channel ds r)
  then obtain d where "ew_engine V = (ew_engine W)\<lparr>en_peerDevId := d\<rparr>"
    using engine_CreateControlChannel_engine unfolding Sender_CreateControlChannel_def by metis
  then show ?thesis using assms(2,3) by (simp add: state_of_def)
next
  case (api_start r)
  then have "V = W" using assms(2) by (simp add: Sender_Start_def)
  then show ?thesis using assms(2,3) by simp
next
  case (api_stop r)
  from Sender_Stop_engine [OF api_stop] assms(2,3) show ?thesis by (cases "r = DH_AVT_SUCCESS") (simp_all add: state_of_def)
next
  case (api_parameter tag v r)
  from Sender_SetParameter_engine [OF api_parameter] assms(2,3) show ?thesis by (auto simp: state_of_def)
next
  case (api_push b r)
  then have "V = W" using assms(2) by (simp add: PushData_def)
  then show ?thesis using assms(2,3) by simp
next
  case (api_message m r)
  then have "ew_engine V = ew_engine W" by (auto simp: engine_SendMessage_def Let_def case_prod_unfold split: option.splits)
  then show ?thesis using assms(2,3) by (simp add: state_of_def)
next
  case (api_callback g r)
  then show ?thesis using assms(2,3) by (auto simp: RegisterCallback_def state_of_def split: if_splits)
next
  case (api_dump t b g)
  then have "ew_engine V = ew_engine W" by (auto simp: dump_media_def split: if_splits)
  then show ?thesis using assms(2,3) by (simp add: state_of_def)
next
  case (api_event ev)
  then have "ew_engine V = ew_engine W" by (auto simp: Sender_OnEvent_def split: pipeline_event.splits)
  then show ?thesis using assms(2,3) by (simp add: state_of_def)
qed

lemma stopped_trace:
  assumes "sender_trace E W evs V" and "state_of W = ST_STOPPED" and "en_isInitialized (ew_engine W)"
    and "\<forall>ev\<in>set evs. ev_type ev \<notin> {EVENT_CHANNEL_OPENED, EVENT_CHANNEL_OPEN_FAIL, EVENT_CHANNEL_CLOSED}"
  shows "state_of V = ST_STOPPED \<and> en_isInitialized (ew_engine V)"
  using assms
proof (induction rule: sender_trace.induct)
  case (trace_api W evs U V)
  then show ?case using stopped_api by blast
next
  case (trace_event W evs U ev)
  then have "ew_engine (engine_OnChannelEvent E ev U) = ew_engine U"
    by (cases "ev_type ev") (auto simp: engine_OnChannelEvent_def split: prod.splits bool.splits)
  with trace_event show ?case by (simp add: state_of_def)
qed (simp_all add: state_of_def)

text \<open>The channel that the engine opens itself: one of the threads is for the engine.\<close>

lemma OpenSoftbusChannel_opened:
  assumes "OpenSoftbusChannel B s q d (a, h) = (DH_AVT_SUCCESS, a', h')"
  shows "ca_listenerMap a' = ca_listenerMap a
    \<and> ca_threads a' = ca_threads a @ map (\<lambda>k. (k, \<lparr> ev_type = EVENT_CHANNEL_OPENED, ev_content = s, ev_peerDevId = d \<rparr>)) (listeners_of s a)"
  using assms by (auto simp: OpenSoftbusChannel_def SendEventChannelOPened_def listeners_of_def Let_def case_prod_unfold split: if_splits)

lemma engine_CreateControlChannel_opens:
  assumes "engine_CreateControlChannel sfx E (dev # others) V = (DH_AVT_SUCCESS, U)"
  defines "reg \<equiv> RegisterChannelListener (en_sessionName (ew_engine V)) dev (Some (en_self (ew_engine V))) (ew_adapter V)"
  shows "\<exists>q h h'. fst reg = DH_AVT_SUCCESS
    \<and> OpenSoftbusChannel (ee_bus E) (en_sessionName (ew_engine V)) q dev (snd reg, h) = (DH_AVT_SUCCESS, ew_adapter U, h')"
proof -
  let ?s = "en_sessionName (ew_engine V)" and ?q = "en_ownerName (ew_engine V) @ ''_'' @ sfx"
  obtain r a h' where chan: "OpenSoftbusChannel (ee_bus E) ?s ?q dev (snd reg, ew_bus V) = (r, a, h')" by (rule prod_cases3)
  then have "fst reg = DH_AVT_SUCCESS \<and> r = DH_AVT_SUCCESS \<and> a = ew_adapter U"
    using assms(1) by (auto simp: engine_CreateControlChannel_def reg_def eng_adapter_def eng_channels_def upd_engine_def Let_def
        case_prod_unfold split: if_splits)
  with chan show ?thesis by blast
qed

lemma own_channel_opens:
  assumes ok: "channel_maps_ok (ew_adapter V)" and opn: "Sender_CreateControlChannel E (dev # others) V = (DH_AVT_SUCCESS, U)"
    and cb: "en_callback (ew_engine U)"
  shows "\<exists>i a ev. run_thread i (ew_adapter U) = ([OnChannelEvent (en_self (ew_engine U)) ev], a)
    \<and> state_of (engine_OnChannelEvent E ev (U\<lparr>ew_adapter := a\<rparr>)) = ST_CH_CREATED"
proof -
  let ?s = "en_sessionName (ew_engine V)" and ?l = "Some (en_self (ew_engine V))"
  let ?ev = "\<lparr> ev_type = EVENT_CHANNEL_OPENED, ev_content = ?s, ev_peerDevId = dev \<rparr>" and ?k = "session_key ?s dev"
  let ?m = "smap_put ?k ?l (ca_listenerMap (ew_adapter V))"
  have eng: "en_self (ew_engine U) = en_self (ew_engine V)"
    using opn engine_CreateControlChannel_engine unfolding Sender_CreateControlChannel_def by fastforce
  obtain q h h' where reg: "fst (RegisterChannelListener ?s dev ?l (ew_adapter V)) = DH_AVT_SUCCESS"
    and chan: "OpenSoftbusChannel (ee_bus E) ?s q dev (snd (RegisterChannelListener ?s dev ?l (ew_adapter V)), h) = (DH_AVT_SUCCESS, ew_adapter U, h')"
    using engine_CreateControlChannel_opens [OF opn [unfolded Sender_CreateControlChannel_def]] by blast
  have lm: "ca_listenerMap (ew_adapter U) = ?m" and th: "\<exists>ts. ca_threads (ew_adapter U) = ts @ map (\<lambda>k. (k, ?ev)) (listeners_of ?s (ew_adapter U))"
    using OpenSoftbusChannel_opened [OF chan] reg by (auto simp: RegisterChannelListener_def listeners_of_def split: if_splits)
  have "smap_sorted ?m" using ok by (simp add: channel_maps_ok_def)
  then have "?k \<in> set (listeners_of ?s (ew_adapter U))" by (intro listener_is_found [of _ _ _ "en_self (ew_engine V)"]) (simp_all add: lm)
  with th have "(?k, ?ev) \<in> set (ca_threads (ew_adapter U))" by auto
  then obtain i where i: "i < length (ca_threads (ew_adapter U))" "ca_threads (ew_adapter U) ! i = (?k, ?ev)" by (auto simp: in_set_conv_nth)
  then obtain a where "run_thread i (ew_adapter U) = ([OnChannelEvent (en_self (ew_engine U)) ?ev], a)"
    by (simp add: run_thread_def SendChannelEvent_def find_call_def listener_at_def lm eng Let_def)
  moreover have "state_of (engine_OnChannelEvent E ?ev (U\<lparr>ew_adapter := a\<rparr>)) = ST_CH_CREATED"
    using cb by (simp add: engine_OnChannelEvent_def state_of_def)
  ultimately show ?thesis by blast
qed

section \<open>Properties\<close>

text \<open>
  Property C32. In every state a sender can reach: it streams only with a pipeline; as long as it is initialised it has its pipeline, its four
  filters and its connection to the center; and an idle sender is not initialised.
\<close>

theorem sender_invariant:
  assumes "sender_run E W V" and "ew_engine W = AVSenderEngine_new self ownerName peerDevId"
  shows "(state_of V \<in> {ST_STARTED, ST_PLAYING} \<longrightarrow> en_pipeline (ew_engine V))
    \<and> (en_isInitialized (ew_engine V) \<longrightarrow> en_pipeline (ew_engine V) \<and> en_kit (ew_engine V)
        \<and> (\<forall>f. has_filter f V)) \<and> (state_of V = ST_IDLE \<longrightarrow> \<not> en_isInitialized (ew_engine V))"
proof -
  have "sender_ok (ew_engine W)" by (simp add: assms(2) AVSenderEngine_new_def engine_new_def sender_ok_def)
  then have "sender_ok (ew_engine V)" by (rule sender_run_ok [OF assms(1)])
  moreover have "{AV_INPUT, AV_OUTPUT, VIDEO_CODEC, AUDIO_CODEC} \<subseteq> S \<Longrightarrow> f \<in> S" for f :: filter_id and S by (cases f) auto
  ultimately show ?thesis unfolding sender_ok_def ready_parts_def state_of_def has_filter_def by blast
qed

text \<open>
  Property C33. Only its channel brings a stopped sender back. Over any operations of the user short of the release, reports of
  the pipeline, events of the channel and changes around the engine: as long as the engine handles no event that the
  channel was opened, could not be opened or was closed, the state stays \<open>STOPPED\<close>, every start fails and every
  buffer is refused, and both leave the engine as it is. The user can get such an event with an operation of the
  engine: a \<open>CreateControlChannel\<close> that succeeds, also on a stopped sender, leaves a thread of the adapter whose call takes
  the sender, if it has a callback, to the state from which it can be started.
\<close>

theorem only_channel_revives_stopped_sender:
  assumes "sender_trace E W evs V" and "state_of W = ST_STOPPED" and "en_isInitialized (ew_engine W)"
  shows "((\<forall>ev\<in>set evs. ev_type ev \<notin> {EVENT_CHANNEL_OPENED, EVENT_CHANNEL_OPEN_FAIL, EVENT_CHANNEL_CLOSED})
      \<longrightarrow> state_of V = ST_STOPPED \<and> Sender_Start E V = (ERR_DH_AVT_START_FAILED, V) \<and> PushData E b V = Some (ERR_DH_AVT_PUSH_DATA_FAILED, V))
    \<and> (\<forall>dev others U. channel_maps_ok (ew_adapter V) \<and> Sender_CreateControlChannel E (dev # others) V = (DH_AVT_SUCCESS, U)
        \<and> en_callback (ew_engine U)
      \<longrightarrow> (\<exists>i a ev. run_thread i (ew_adapter U) = ([OnChannelEvent (en_self (ew_engine U)) ev], a)
            \<and> state_of (engine_OnChannelEvent E ev (U\<lparr>ew_adapter := a\<rparr>)) = ST_CH_CREATED))"
proof -
  have "state_of V = ST_STOPPED \<and> en_isInitialized (ew_engine V)"
    if "\<forall>ev\<in>set evs. ev_type ev \<notin> {EVENT_CHANNEL_OPENED, EVENT_CHANNEL_OPEN_FAIL, EVENT_CHANNEL_CLOSED}"
    using assms that by (rule stopped_trace)
  then have "Sender_Start E V = (ERR_DH_AVT_START_FAILED, V) \<and> PushData E b V = Some (ERR_DH_AVT_PUSH_DATA_FAILED, V) \<and> state_of V = ST_STOPPED"
    if "\<forall>ev\<in>set evs. ev_type ev \<notin> {EVENT_CHANNEL_OPENED, EVENT_CHANNEL_OPEN_FAIL, EVENT_CHANNEL_CLOSED}"
    using that by (simp add: Sender_Start_def PushData_def)
  then show ?thesis using own_channel_opens by blast
qed

text \<open>
  A sender that is made for one device and given another one in \<open>CreateControlChannel\<close> stays registered after its release: the
  adapter keeps it as the listener of its first device, and will call it for each channel of its session that is opened.
\<close>

theorem released_sender_stays_registered:
  assumes "ew_engine W = AVSenderEngine_new self ownerName devA" and "Sender_Initialize E W = (DH_AVT_SUCCESS, W1)"
    and "Sender_CreateControlChannel E (devB # others) W1 = (r, W2)" and "Sender_Release E W2 = (r3, W3)" and "devA \<noteq> devB"
  shows "smap_get (ca_listenerMap (ew_adapter W3)) (session_key (en_sessionName (ew_engine W)) devA) = Some (Some self)
    \<and> session_key (en_sessionName (ew_engine W)) devA \<in> set (listeners_of (en_sessionName (ew_engine W)) (ew_adapter W3))"
proof -
  let ?s = "en_sessionName (ew_engine W)"
  have e: "en_self (ew_engine W) = self" "en_peerDevId (ew_engine W) = devA" "\<not> en_isInitialized (ew_engine W)"
    by (simp_all add: assms(1) AVSenderEngine_new_def engine_new_def)
  obtain "ew_adapter W1 = snd (RegisterChannelListener ?s devA (Some self) (ew_adapter W))"
    "fst (RegisterChannelListener ?s devA (Some self) (ew_adapter W)) = DH_AVT_SUCCESS"
    "en_sessionName (ew_engine W1) = ?s" "en_self (ew_engine W1) = self"
    using assms(2) [unfolded Sender_Initialize_def] by (rule engine_Initialize_cases) (use e in auto)
  note w1 = this
  have ne: "?s \<noteq> []" by (simp add: assms(1) AVSenderEngine_new_def engine_new_def)
  have k: "session_key ?s devA \<noteq> session_key ?s devB" using assms(5) by (simp add: session_key_def)
  have l1: "smap_get (ca_listenerMap (ew_adapter W1)) (session_key ?s devA) = Some (Some self)"
    using w1(1,2) by (simp add: RegisterChannelListener_def split: if_splits)
  have l2: "smap_get (ca_listenerMap (ew_adapter W2)) (session_key ?s devA) = Some (Some self)"
    and p2: "en_peerDevId (ew_engine W2) = devB" "en_sessionName (ew_engine W2) = ?s"
    using assms(3) l1 k w1(3,4)
    by (auto simp: Sender_CreateControlChannel_def engine_CreateControlChannel_def Let_def case_prod_unfold RegisterChannelListener_def
        OpenSoftbusChannel_def SendEventChannelOPened_def split: if_splits)
  have "smap_get (ca_listenerMap (ew_adapter (release_engine E W2))) (session_key ?s devA) = Some (Some self)"
    using l2 k ne by (simp add: release_engine_def Let_def p2 UnRegisterChannelListener_def CloseSoftbusChannel_def case_prod_unfold)
  moreover have "ew_adapter W3 = ew_adapter (release_engine E W2)" using assms(4) by (auto simp: Sender_Release_def)
  ultimately have l3: "smap_get (ca_listenerMap (ew_adapter W3)) (session_key ?s devA) = Some (Some self)" by simp
  then have "session_key ?s devA \<in> set (listeners_of ?s (ew_adapter W3))"
    using smap_get_SomeD [OF l3] by (force simp: listeners_of_def)
  with l3 show ?thesis by blast
qed

text \<open>
  A channel that another device opens interrupts a sender that is playing to its own device: among the threads the adapter starts
  there is one for this sender, and when it has run the sender is back in the state before its start and refuses every buffer.
\<close>

theorem other_device_interrupts_stream:
  assumes "state_of W = ST_PLAYING" and "en_callback (ew_engine W)" and "s = en_sessionName (ew_engine W)" and "channel_maps_ok (ew_adapter W)"
    and "smap_get (ca_listenerMap (ew_adapter W)) (session_key s devA) = Some (Some (en_self (ew_engine W)))"
    and "peerSess \<noteq> []" and "devB \<noteq> []" and "FindSessNameByPeerSessName peerSess = s" and "s \<noteq> []"
    and "a = snd (OnSoftbusChannelOpened peerSess sid devB 0 (ew_adapter W))"
  shows "\<exists>i b. run_thread i a = ([OnChannelEvent (en_self (ew_engine W)) \<lparr> ev_type = EVENT_CHANNEL_OPENED, ev_content = s, ev_peerDevId = devB \<rparr>], b)
    \<and> (let V = engine_OnChannelEvent E \<lparr> ev_type = EVENT_CHANNEL_OPENED, ev_content = s, ev_peerDevId = devB \<rparr> (W\<lparr>ew_adapter := b\<rparr>)
       in state_of V = ST_CH_CREATED \<and> PushData E buf V = Some (ERR_DH_AVT_PUSH_DATA_FAILED, V))"
proof -
  let ?ev = "\<lparr> ev_type = EVENT_CHANNEL_OPENED, ev_content = s, ev_peerDevId = devB \<rparr>" and ?k = "session_key s devA"
  have "?k \<in> set (listeners_of s (ew_adapter W))"
    using assms(4,5) by (intro listener_is_found) (auto simp: channel_maps_ok_def)
  moreover have th: "ca_threads a = ca_threads (ew_adapter W) @ map (\<lambda>k. (k, ?ev)) (listeners_of s (ew_adapter W))"
    and ls: "ca_listenerMap a = ca_listenerMap (ew_adapter W)"
    using assms(6-9) by (simp_all add: assms(10) OnSoftbusChannelOpened_def Let_def)
  ultimately have "(?k, ?ev) \<in> set (ca_threads a)" by auto
  then obtain i where i: "i < length (ca_threads a)" "ca_threads a ! i = (?k, ?ev)" by (auto simp: in_set_conv_nth)
  define b where "b = a\<lparr>ca_threads := take i (ca_threads a) @ drop (Suc i) (ca_threads a)\<rparr>"
  have "run_thread i a = ([OnChannelEvent (en_self (ew_engine W)) ?ev], b)"
    using i assms(5) by (simp add: run_thread_def SendChannelEvent_def find_call_def listener_at_def ls b_def Let_def)
  moreover have "state_of (engine_OnChannelEvent E ?ev (W\<lparr>ew_adapter := b\<rparr>)) = ST_CH_CREATED"
    using assms(2) by (simp add: engine_OnChannelEvent_def state_of_def)
  ultimately show ?thesis by (intro exI [of _ i] exI [of _ b]) (simp add: PushData_def Let_def)
qed

section \<open>Witnesses\<close>

text \<open>A media library that always succeeds, and a center that hands out the number 1000.\<close>

definition sample_media :: "unit media_api" where
  "sample_media = \<lparr> md_CreateFilter = \<lambda>_ p. (True, p), md_NewPipeline = \<lambda>p. p, md_AddFilters = \<lambda>_ p. (True, p), md_LinkFilters = \<lambda>_ p. (True, p),
     md_RemoveFilterChain = \<lambda>_ p. p, md_Prepare = \<lambda>p. (True, p), md_Start = \<lambda>p. (True, p), md_Stop = \<lambda>p. (True, p), md_Pause = \<lambda>p. (True, p),
     md_Resume = \<lambda>p. (True, p), md_SetParameter = \<lambda>_ _ _ p. (True, p), md_SetCodec = \<lambda>_ _ p. p, md_PixelFormat = \<lambda>_. Some ''jpeg'',
     md_PushData = \<lambda>_ p. (True, p) \<rparr>"

definition sample_kit :: "unit fwk_kit" where
  "sample_kit = \<lparr> ki_InitializeAVCenter = \<lambda>_ k. (0, 1000, k), ki_RegisterCtlCenterCallback = \<lambda>_ _ k. (0, k), ki_CreateControlChannel = \<lambda>_ _ k. (0, k),
     ki_NotifyAVCenter = \<lambda>_ _ k. (0, k), ki_ReleaseAVCenter = \<lambda>_ k. (0, k) \<rparr>"

definition sample_engine_env :: "(unit, unit, int \<times> (int \<times> string) list, jnode) engine_env" where
  "sample_engine_env = \<lparr> ee_media = sample_media, ee_kit = sample_kit, ee_bus = sample_av_bus, ee_json = model_cjson \<rparr>"

definition sample_engine_world :: "(unit, unit, int \<times> (int \<times> string) list) engine_world" where
  "sample_engine_world = \<lparr> ew_engine = AVSenderEngine_new 1 OWNER_NAME_D_MIC ''devA'', ew_media = (), ew_kit = (),
     ew_adapter = channel_adapter_new, ew_bus = (1, []), ew_notes = [] \<rparr>"

definition sample_ready_world :: "(unit, unit, int \<times> (int \<times> string) list) engine_world" where
  "sample_ready_world = snd (RegisterCallback True (snd (Sender_Initialize sample_engine_env sample_engine_world)))"

lemma sample_initialized: "Sender_Initialize sample_engine_env sample_engine_world = (DH_AVT_SUCCESS, snd (Sender_Initialize sample_engine_env sample_engine_world))"
  by code_simp

theorem sender_invariant_witness:
  "en_isInitialized (ew_engine sample_ready_world) \<and> en_pipeline (ew_engine sample_ready_world) \<and> (\<forall>f. has_filter f sample_ready_world)"
proof -
  let ?W1 = "snd (Sender_Initialize sample_engine_env sample_engine_world)"
  have "sender_run sample_engine_env sample_engine_world ?W1"
    by (rule run_api [OF run_here api_initialize [OF sample_initialized]])
  then have r: "sender_run sample_engine_env sample_engine_world sample_ready_world"
    unfolding sample_ready_world_def
    by (rule run_api) (rule api_callback [of True _ "fst (RegisterCallback True ?W1)"], simp)
  have n: "ew_engine sample_engine_world = AVSenderEngine_new 1 OWNER_NAME_D_MIC ''devA''" by (simp add: sample_engine_world_def)
  have "en_isInitialized (ew_engine sample_ready_world)" by code_simp
  with sender_invariant [OF r n] show ?thesis by blast
qed

text \<open>A sender that was stopped: it refuses a buffer, opens a channel to another device, and can be started.\<close>

definition sample_stopped_world :: "(unit, unit, int \<times> (int \<times> string) list) engine_world" where
  "sample_stopped_world = set_state ST_STOPPED sample_ready_world"

theorem only_channel_revives_stopped_sender_witness:
  "PushData sample_engine_env None sample_stopped_world = Some (ERR_DH_AVT_PUSH_DATA_FAILED, sample_stopped_world)
   \<and> (\<exists>U i a ev. Sender_CreateControlChannel sample_engine_env [''devB''] sample_stopped_world = (DH_AVT_SUCCESS, U)
        \<and> run_thread i (ew_adapter U) = ([OnChannelEvent 1 ev], a)
        \<and> state_of (engine_OnChannelEvent sample_engine_env ev (U\<lparr>ew_adapter := a\<rparr>)) = ST_CH_CREATED)"
proof -
  let ?c = "Sender_CreateControlChannel sample_engine_env [''devB''] sample_stopped_world"
  have st: "state_of sample_stopped_world = ST_STOPPED" by (simp add: state_of_def sample_stopped_world_def)
  have init: "en_isInitialized (ew_engine sample_stopped_world)" "channel_maps_ok (ew_adapter sample_stopped_world)" by code_simp+
  have c: "fst ?c = DH_AVT_SUCCESS" "en_callback (ew_engine (snd ?c))" "en_self (ew_engine (snd ?c)) = 1" by code_simp+
  then have opn: "?c = (DH_AVT_SUCCESS, snd ?c)" by (metis prod.collapse)
  note both = only_channel_revives_stopped_sender [OF trace_here st init(1), of sample_engine_env None]
  from both have "PushData sample_engine_env None sample_stopped_world = Some (ERR_DH_AVT_PUSH_DATA_FAILED, sample_stopped_world)" by simp
  moreover from both init(2) opn c(2) obtain i a ev where
    "run_thread i (ew_adapter (snd ?c)) = ([OnChannelEvent (en_self (ew_engine (snd ?c))) ev], a)"
    "state_of (engine_OnChannelEvent sample_engine_env ev ((snd ?c)\<lparr>ew_adapter := a\<rparr>)) = ST_CH_CREATED" by blast
  ultimately show ?thesis using opn c(3) by metis
qed

theorem released_sender_stays_registered_witness:
  "\<exists>W2 W3 r. Sender_CreateControlChannel sample_engine_env [''devB''] (snd (Sender_Initialize sample_engine_env sample_engine_world)) = (r, W2)
    \<and> Sender_Release sample_engine_env W2 = (DH_AVT_SUCCESS, W3)
    \<and> smap_get (ca_listenerMap (ew_adapter W3)) (session_key (en_sessionName (ew_engine sample_engine_world)) ''devA'') = Some (Some 1)"
proof -
  let ?W1 = "snd (Sender_Initialize sample_engine_env sample_engine_world)"
  obtain r W2 where c: "Sender_CreateControlChannel sample_engine_env [''devB''] ?W1 = (r, W2)" by (rule prod.exhaust)
  obtain W3 where d: "Sender_Release sample_engine_env W2 = (DH_AVT_SUCCESS, W3)" by (simp add: Sender_Release_def)
  have n: "ew_engine sample_engine_world = AVSenderEngine_new 1 OWNER_NAME_D_MIC ''devA''" by (simp add: sample_engine_world_def)
  have "''devA'' \<noteq> ''devB''" by simp
  from released_sender_stays_registered [OF n sample_initialized c d this] c d show ?thesis by blast
qed

theorem other_device_interrupts_stream_witness:
  "\<exists>i b ev. run_thread i (snd (OnSoftbusChannelOpened sample_peer_session 7 ''devB'' 0 (ew_adapter sample_ready_world))) = ([OnChannelEvent 1 ev], b)
    \<and> state_of (engine_OnChannelEvent sample_engine_env ev ((set_state ST_PLAYING sample_ready_world)\<lparr>ew_adapter := b\<rparr>)) = ST_CH_CREATED"
proof -
  let ?W = "set_state ST_PLAYING sample_ready_world"
  have s: "sample_session = en_sessionName (ew_engine ?W)" by code_simp
  have l: "smap_get (ca_listenerMap (ew_adapter ?W)) (session_key sample_session ''devA'') = Some (Some (en_self (ew_engine ?W)))" by code_simp
  have ok: "channel_maps_ok (ew_adapter ?W)" by code_simp
  have cb: "en_callback (ew_engine ?W)" "en_self (ew_engine ?W) = 1" by code_simp+
  have st: "state_of ?W = ST_PLAYING" by (simp add: state_of_def)
  have "sample_peer_session \<noteq> []" "''devB'' \<noteq> []" "sample_session \<noteq> []" by (simp_all add: sample_peer_session_def sample_session_def)
  from other_device_interrupts_stream [OF st cb(1) s ok l this(1,2) sample_session_found this(3) refl, of 7 sample_engine_env None]
  show ?thesis unfolding cb(2) Let_def set_state_simps(2) by blast
qed

end
