(* ===== verification/DHF_AvOutput.thy ===== *)
theory DHF_AvOutput
  imports DHF_AvEngine "HOL-Library.Log_Nat" "HOL-Library.Signed_Division" "HOL-Library.Sublist"
begin

text \<open>
  The control of the output of video frames: \<open>time_statistician.cpp\<close> (averages of the intervals between frames),
  \<open>output_controller.cpp\<close> (the queue of frames and the thread that decides how long to sleep before each),
  \<open>dscreen_output_controller.cpp\<close> (its settings for a remote screen), \<open>output_controller_listener.cpp\<close> and
  \<open>dscreen_output_plugin.cpp\<close> (the plugin of the media pipeline that owns a controller).

  Times are nanoseconds in \<open>int64_t\<close>: an overflow of one is undefined in C++, and they are \<^typ>\<open>int\<close> here. A \<open>float\<close> is modelled
  with its 24 bits and its rounding. A frame is a buffer of the media library, known by its address \<open>fr_id\<close>, with the
  parts that this code reads; every push brings a buffer of its own. The thread \<open>LooperControl\<close> works in steps from one wait
  to the next: \<open>oc_pc\<close> says where it waits and for which frame. The clock of the machine is read by the steps' time arguments, and
  the shared memory of the media clocks at a step is an argument as well. The result \<open>None\<close> is an access outside that memory or an exception.
\<close>

section \<open>Floating point numbers\<close>

text \<open>\<open>(m, e)\<close> is the number \<open>m * 2 ^ e\<close>, rounded to 24 bits to the nearest, to even in the middle.\<close>

type_synonym float32 = "int \<times> int"

definition round_half_even :: "int \<Rightarrow> nat \<Rightarrow> int" where
  "round_half_even n k =
     (let q = n div 2 ^ k; r = n mod 2 ^ k in if 2 * r < 2 ^ k \<or> (2 * r = 2 ^ k \<and> even q) then q else q + 1)"

definition float_round :: "float32 \<Rightarrow> float32" where
  "float_round = (\<lambda>(m, e). let k = nat (bitlen \<bar>m\<bar> - 24) in (round_half_even m k, e + int k))"

definition float_times :: "float32 \<Rightarrow> float32 \<Rightarrow> float32" where
  "float_times = (\<lambda>(m1, e1) (m2, e2). float_round (m1 * m2, e1 + e2))"

definition int_of_float :: "float32 \<Rightarrow> int" where
  "int_of_float = (\<lambda>(m, e). if 0 \<le> e then m * 2 ^ nat e else m sdiv 2 ^ nat (- e))"

text \<open>\<open>int64_t t = interval * factor\<close>.\<close>

definition scale :: "int \<Rightarrow> float32 \<Rightarrow> int" where
  "scale interval factor = int_of_float (float_times (float_round (interval, 0)) factor)"

definition FLOAT_ZERO :: float32 where "FLOAT_ZERO = (0, 0)"
definition FLOAT_0_1 :: float32 where "FLOAT_0_1 = (13421773, - 27)"
definition FLOAT_0_2 :: float32 where "FLOAT_0_2 = (13421773, - 26)"

section \<open>Frames\<close>

text \<open>\<open>fm_aFrameNumber\<close> is the tag \<open>AUDIO_SAMPLE_PER_FRAME\<close>, \<open>fm_aPts\<close> that \<open>MEDIA_START_TIME\<close> exists, \<open>fm_pushTime\<close> is \<open>USER_PUSH_DATA_TIME\<close>.\<close>

record frame_meta =
  fm_aFrameNumber :: "32 word option"
  fm_aPts :: bool
  fm_pushTime :: "int option"

record frame =
  fr_id :: nat
  fr_pts :: int
  fr_empty :: bool
  fr_meta :: "frame_meta option"

section \<open>Averages of the intervals\<close>

record time_stat =
  ts_pushIndex :: int
  ts_averPushInterval :: int
  ts_lastPushTime :: int
  ts_pushTime :: int
  ts_pushIntervalSum :: int
  ts_pushInterval :: int
  ts_timeStampIndex :: int
  ts_averTimeStampInterval :: int
  ts_lastTimeStamp :: int
  ts_timeStamp :: int
  ts_timeStampIntervalSum :: int
  ts_timeStampInterval :: int

definition ClearStatistics :: time_stat where
  "ClearStatistics = \<lparr> ts_pushIndex = 0, ts_averPushInterval = 0, ts_lastPushTime = 0, ts_pushTime = 0, ts_pushIntervalSum = 0,
     ts_pushInterval = 0, ts_timeStampIndex = 0, ts_averTimeStampInterval = 0, ts_lastTimeStamp = 0, ts_timeStamp = 0,
     ts_timeStampIntervalSum = 0, ts_timeStampInterval = 0 \<rparr>"

definition CalAverPushInterval :: "int \<Rightarrow> time_stat \<Rightarrow> time_stat" where
  "CalAverPushInterval pushTime s =
     (let interval = pushTime - ts_lastPushTime s; s1 = s\<lparr>ts_pushTime := pushTime, ts_pushInterval := interval\<rparr> in
      if ts_lastPushTime s = 0 then s1\<lparr>ts_lastPushTime := pushTime\<rparr>
      else let index = ts_pushIndex s + 1; total = ts_pushIntervalSum s + interval in
        s1\<lparr>ts_pushIndex := index, ts_pushIntervalSum := total, ts_averPushInterval := total sdiv index, ts_lastPushTime := pushTime\<rparr>)"

definition CalAverTimeStampInterval :: "int \<Rightarrow> time_stat \<Rightarrow> time_stat" where
  "CalAverTimeStampInterval timeStamp s =
     (let interval = timeStamp - ts_lastTimeStamp s; s1 = s\<lparr>ts_timeStamp := timeStamp, ts_timeStampInterval := interval\<rparr> in
      if ts_lastTimeStamp s = 0 then s1\<lparr>ts_lastTimeStamp := timeStamp\<rparr>
      else let index = ts_timeStampIndex s + 1; total = ts_timeStampIntervalSum s + interval in
        s1\<lparr>ts_timeStampIndex := index, ts_timeStampIntervalSum := total, ts_averTimeStampInterval := total sdiv index,
           ts_lastTimeStamp := timeStamp\<rparr>)"

definition Statistician_CalProcessTime :: "frame \<Rightarrow> time_stat \<Rightarrow> time_stat" where
  "Statistician_CalProcessTime data s =
     (case fr_meta data of
        None \<Rightarrow> s
      | Some meta \<Rightarrow>
          (case fm_pushTime meta of
             None \<Rightarrow> ClearStatistics
           | Some pushTime \<Rightarrow> CalAverTimeStampInterval (fr_pts data) (CalAverPushInterval pushTime s)))"

section \<open>The controller\<close>

datatype control_status = START | STOP | RELEASE | STARTED | STOPPED | RELEASED

datatype control_mode = SMOOTH | SYNC

datatype control_pc = No_Thread | At_Queue | Rereading frame | Sleeping frame | Ended

abbreviation (input) QUEUE_MAX_SIZE :: nat where "QUEUE_MAX_SIZE \<equiv> 100"
abbreviation (input) INVALID_TIMESTAMP :: int where "INVALID_TIMESTAMP \<equiv> 0"
abbreviation (input) INVALID_INTERVAL :: int where "INVALID_INTERVAL \<equiv> 0"
abbreviation (input) NS_ONE_MS :: int where "NS_ONE_MS \<equiv> 1000000"

text \<open>
  \<open>oc_running\<close>: the thread \<open>LooperHandle\<close> runs its event runner; \<open>oc_posted\<close>: the frames whose tasks are posted to it;
  \<open>oc_handler\<close>: the pointer \<open>handler_\<close> is set.
\<close>

record output_ctl =
  oc_dataQueue :: "frame list"
  oc_paramsMap :: "plugin_tag \<rightharpoonup> any_value"
  oc_statistician :: "time_stat option"
  oc_listener :: bool
  oc_status :: control_status
  oc_mode :: control_mode
  oc_pc :: control_pc
  oc_handler :: bool
  oc_running :: bool
  oc_posted :: "frame list"
  oc_isInDynamicBalance :: bool
  oc_isBaselineInit :: bool
  oc_isTimeInit :: bool
  oc_isAllowControl :: bool
  oc_waitClockThre :: int
  oc_trackClockThre :: int
  oc_adjustSleepFactor :: float32
  oc_waitClockFactor :: float32
  oc_trackClockFactor :: float32
  oc_dynamicBalanceThre :: "8 word"
  oc_dynamicBalanceCount :: "8 word"
  oc_averIntervalDiffThre :: "32 word"
  oc_pushOnceDiffThre :: "32 word"
  oc_timeStampOnceDiffThre :: "32 word"
  oc_bufferTime :: "32 word"
  oc_enterTime :: int
  oc_lastEnterTime :: int
  oc_lastTimeStamp :: int
  oc_leaveTime :: int
  oc_timeStampBaseline :: int
  oc_clockTime :: int
  oc_clockBaseline :: int
  oc_delta :: int
  oc_sleep :: int
  oc_sleepThre :: int
  oc_sharedMem :: shared_memory
  oc_clockUnit :: clock_unit
  oc_devClockDiff :: int
  oc_aFront :: int
  oc_aBack :: int
  oc_vFront :: int
  oc_vBack :: int

text \<open>
  The virtual methods of a subclass, the JSON library, the memory of the system, and what \<open>AnyCast\<close> of the media library gives
  for a value as a string and for a tag that does not exist as a number.
\<close>

record 'j out_env =
  oe_PrepareSmooth :: "output_ctl \<Rightarrow> output_ctl"
  oe_PrepareSync :: "output_ctl \<Rightarrow> output_ctl"
  oe_json :: "'j cjson"
  oe_shm :: shm_api
  oe_AnyCast :: "any_value \<Rightarrow> string"
  oe_missing :: "32 word"

definition OutputController_new :: output_ctl where
  "OutputController_new = \<lparr> oc_dataQueue = [], oc_paramsMap = Map.empty, oc_statistician = None, oc_listener = False,
     oc_status = RELEASE, oc_mode = SMOOTH, oc_pc = No_Thread, oc_handler = False, oc_running = False, oc_posted = [],
     oc_isInDynamicBalance = True, oc_isBaselineInit = False, oc_isTimeInit = False, oc_isAllowControl = True,
     oc_waitClockThre = 0, oc_trackClockThre = 0, oc_adjustSleepFactor = FLOAT_ZERO, oc_waitClockFactor = FLOAT_ZERO,
     oc_trackClockFactor = FLOAT_ZERO, oc_dynamicBalanceThre = 0, oc_dynamicBalanceCount = 0, oc_averIntervalDiffThre = 0,
     oc_pushOnceDiffThre = 0, oc_timeStampOnceDiffThre = 0, oc_bufferTime = 0, oc_enterTime = 0, oc_lastEnterTime = 0,
     oc_lastTimeStamp = 0, oc_leaveTime = 0, oc_timeStampBaseline = 0, oc_clockTime = 0, oc_clockBaseline = 0, oc_delta = 0,
     oc_sleep = 0, oc_sleepThre = 0, oc_sharedMem = \<lparr> sm_fd = 0, sm_size = 0, sm_name = [] \<rparr>,
     oc_clockUnit = \<lparr> cu_index = 0, cu_frameNum = 0, cu_pts = 0 \<rparr>, oc_devClockDiff = 0, oc_aFront = 0, oc_aBack = 0,
     oc_vFront = 0, oc_vBack = 0 \<rparr>"

subsection \<open>Preparing\<close>

definition PrepareSync :: "output_ctl \<Rightarrow> output_ctl" where
  "PrepareSync s = s\<lparr>oc_isInDynamicBalance := True, oc_isTimeInit := False, oc_isBaselineInit := False, oc_isAllowControl := True,
     oc_bufferTime := 0, oc_adjustSleepFactor := FLOAT_ZERO, oc_waitClockThre := 0, oc_trackClockThre := 0, oc_sleepThre := 0,
     oc_aFront := 0, oc_aBack := 0, oc_vFront := 0, oc_vBack := 0\<rparr>"

definition PrepareSmooth :: "output_ctl \<Rightarrow> output_ctl" where
  "PrepareSmooth s = s\<lparr>oc_isInDynamicBalance := False, oc_isTimeInit := False, oc_isBaselineInit := False, oc_isAllowControl := True,
     oc_bufferTime := 0, oc_adjustSleepFactor := FLOAT_ZERO, oc_waitClockFactor := FLOAT_ZERO, oc_trackClockFactor := FLOAT_ZERO,
     oc_sleepThre := 0, oc_dynamicBalanceThre := 0, oc_averIntervalDiffThre := 0, oc_pushOnceDiffThre := 0,
     oc_timeStampOnceDiffThre := 0\<rparr>"

definition InitTimeStatistician :: "output_ctl \<Rightarrow> output_ctl" where
  "InitTimeStatistician s = s\<lparr>oc_statistician := Some ClearStatistics\<rparr>"

definition PrepareControl :: "'j out_env \<Rightarrow> output_ctl \<Rightarrow> output_ctl" where
  "PrepareControl E s =
     InitTimeStatistician (if oc_mode s = SMOOTH then oe_PrepareSmooth E s else oe_PrepareSync E s)"

definition SetControlMode :: "'j out_env \<Rightarrow> control_mode \<Rightarrow> output_ctl \<Rightarrow> output_ctl" where
  "SetControlMode E mode s = PrepareControl E (s\<lparr>oc_mode := mode\<rparr>)"

text \<open>The settings for a remote screen.\<close>

definition DScreen_PrepareSmooth :: "output_ctl \<Rightarrow> output_ctl" where
  "DScreen_PrepareSmooth s = (PrepareSmooth s)\<lparr>oc_bufferTime := 0, oc_dynamicBalanceThre := 3,
     oc_averIntervalDiffThre := 2000000, oc_pushOnceDiffThre := 10000000, oc_timeStampOnceDiffThre := 3000000,
     oc_adjustSleepFactor := FLOAT_0_1, oc_waitClockFactor := FLOAT_0_1, oc_trackClockFactor := FLOAT_0_2,
     oc_sleepThre := 1000 * NS_ONE_MS\<rparr>"

definition DScreen_PrepareSync :: "output_ctl \<Rightarrow> output_ctl" where
  "DScreen_PrepareSync s = (PrepareSync s)\<lparr>oc_adjustSleepFactor := FLOAT_0_1, oc_waitClockThre := 125 * NS_ONE_MS,
     oc_trackClockThre := 45 * NS_ONE_MS, oc_sleepThre := 1000 * NS_ONE_MS, oc_aBack := 320 * NS_ONE_MS\<rparr>"

subsection \<open>Calls of the plugin\<close>

definition CheckSyncInfo :: "'j out_env \<Rightarrow> frame option \<Rightarrow> output_ctl \<Rightarrow> output_ctl" where
  "CheckSyncInfo E data s =
     (case Option.bind data fr_meta of
        None \<Rightarrow> s
      | Some meta \<Rightarrow>
          (let isAFrameNumberExist = fm_aFrameNumber meta \<noteq> None; isAPtsExist = fm_aPts meta in
           if oc_mode s = SYNC \<and> (\<not> isAFrameNumberExist \<or> \<not> isAPtsExist) then SetControlMode E SMOOTH (s\<lparr>oc_dataQueue := []\<rparr>)
           else if oc_mode s = SMOOTH \<and> isAFrameNumberExist \<and> isAPtsExist then SetControlMode E SYNC (s\<lparr>oc_dataQueue := []\<rparr>)
           else s))"

definition Output_PushData :: "'j out_env \<Rightarrow> int \<Rightarrow> frame option \<Rightarrow> output_ctl \<Rightarrow> output_ctl" where
  "Output_PushData E pushTime data s =
     (if oc_status s \<noteq> START then s
      else let s1 = if length (oc_dataQueue s) > QUEUE_MAX_SIZE then s\<lparr>oc_dataQueue := tl (oc_dataQueue s)\<rparr> else s;
               s2 = CheckSyncInfo E data s1
        in case data of
             None \<Rightarrow> s2
           | Some d \<Rightarrow>
               (case fr_meta d of
                  None \<Rightarrow> s2
                | Some meta \<Rightarrow>
                    s2\<lparr>oc_dataQueue := oc_dataQueue s2 @ [d\<lparr>fr_meta := Some (meta\<lparr>fm_pushTime := Some pushTime\<rparr>)\<rparr>]\<rparr>))"

text \<open>
  The thread of the handler makes a new handler with an empty queue of events before \<open>StartControl\<close> goes on.
\<close>

definition StartControl :: "output_ctl \<Rightarrow> control_status \<times> output_ctl" where
  "StartControl s =
     (if oc_status s = START then (STARTED, s)
      else let s1 = s\<lparr>oc_status := START\<rparr>;
               s2 = if \<not> oc_running s1 then s1\<lparr>oc_running := True, oc_handler := True, oc_posted := []\<rparr> else s1
        in (START, if oc_pc s2 = No_Thread then s2\<lparr>oc_pc := At_Queue\<rparr> else s2))"

definition StopControl :: "output_ctl \<Rightarrow> control_status \<times> output_ctl" where
  "StopControl s = (if oc_status s = STOP then (STOPPED, s) else (STOP, s\<lparr>oc_status := STOP, oc_dataQueue := []\<rparr>))"

text \<open>
  \<open>ReleaseControl\<close> up to the join of the control thread, and from there on: it goes on when the thread has ended or there was none.
\<close>

definition release_begin :: "output_ctl \<Rightarrow> output_ctl" where
  "release_begin s =
     (if oc_status s = RELEASE then s
      else s\<lparr>oc_status := RELEASE, oc_statistician := None, oc_listener := False, oc_running := False\<rparr>)"

definition release_end :: "output_ctl \<Rightarrow> output_ctl option" where
  "release_end s =
     (if oc_pc s = Ended \<or> oc_pc s = No_Thread
      then Some (s\<lparr>oc_pc := No_Thread, oc_dataQueue := [], oc_paramsMap := Map.empty\<rparr>) else None)"

datatype out_result = OUT_OK | OUT_NOT_EXISTED | OUT_WRONG_STATE | OUT_NULL_POINTER | OUT_INVALID_OPERATION | OUT_INVALID_PARAMETER | OUT_UNKNOWN

definition Output_GetParameter :: "plugin_tag \<Rightarrow> any_value \<Rightarrow> output_ctl \<Rightarrow> out_result \<times> any_value" where
  "Output_GetParameter tag old s = (case oc_paramsMap s tag of Some v \<Rightarrow> (OUT_OK, v) | None \<Rightarrow> (OUT_NOT_EXISTED, old))"

text \<open>\<open>std::map::insert\<close> leaves the value of a key that is there.\<close>

definition Output_SetParameter :: "'j out_env \<Rightarrow> plugin_tag \<Rightarrow> any_value \<Rightarrow> output_ctl \<Rightarrow> (out_result \<times> output_ctl) option" where
  "Output_SetParameter E tag v s =
     (let store = (\<lambda>s. (OUT_OK, s\<lparr>oc_paramsMap := (case oc_paramsMap s tag of None \<Rightarrow> (oc_paramsMap s)(tag \<mapsto> v) | Some _ \<Rightarrow> oc_paramsMap s)\<rparr>))
      in case tag of
           PT_USER_SHARED_MEMORY_FD \<Rightarrow> Some (store (s\<lparr>oc_sharedMem := UnmarshalSharedMemory (oe_json E) (oe_AnyCast E v)\<rparr>))
         | PT_USER_TIME_SYNC_RESULT \<Rightarrow> map_option (\<lambda>d. store (s\<lparr>oc_devClockDiff := d\<rparr>)) (atoi (c_str (oe_AnyCast E v)))
         | _ \<Rightarrow> Some (store s))"

subsection \<open>The clock\<close>

definition AcquireSyncClockTime :: "'j out_env \<Rightarrow> segments \<Rightarrow> frame \<Rightarrow> output_ctl \<Rightarrow> (ret \<times> output_ctl) option" where
  "AcquireSyncClockTime E ss data s =
     (case fr_meta data of
        None \<Rightarrow> Some (ERR_DH_AVT_INVALID_PARAM, s)
      | Some meta \<Rightarrow>
          (let m = oc_sharedMem s in
           if sm_fd m \<le> 0 \<or> sm_size m \<le> 0 \<or> sm_name m = [] then Some (ERR_DH_AVT_SHARED_MEMORY_FAILED, s)
           else let frameNum = (case fm_aFrameNumber meta of Some n \<Rightarrow> n | None \<Rightarrow> oe_missing E) in
             case ReadClockUnitFromMemory (oe_shm E) m \<lparr> cu_index = 0, cu_frameNum = frameNum, cu_pts = 0 \<rparr> ss of
               None \<Rightarrow> None
             | Some (r, u) \<Rightarrow>
                 if r = DH_AVT_SUCCESS then
                   (if sint (cu_pts u) = INVALID_TIMESTAMP then Some (ERR_DH_AVT_SHARED_MEMORY_FAILED, s)
                    else Some (r, s\<lparr>oc_clockUnit := (oc_clockUnit s)\<lparr>cu_pts := cu_pts u, cu_frameNum := cu_frameNum u\<rparr>,
                                    oc_clockTime := sint (cu_pts u)\<rparr>))
                 else Some (r, s)))"

datatype clock_check = Clock_Valid | Clock_Invalid | Clock_Wait

text \<open>\<open>CheckIsClockInvalid\<close> up to the loop of \<open>WaitRereadClockFailed\<close>, and one round of that loop after its wait.\<close>

definition reread_test :: "output_ctl \<Rightarrow> clock_check" where
  "reread_test s = (if length (oc_dataQueue s) < QUEUE_MAX_SIZE then Clock_Wait else Clock_Invalid)"

definition CheckIsClockInvalid :: "'j out_env \<Rightarrow> segments \<Rightarrow> frame \<Rightarrow> output_ctl \<Rightarrow> (clock_check \<times> output_ctl) option" where
  "CheckIsClockInvalid E ss data s =
     (if oc_mode s = SMOOTH then Some (Clock_Valid, s\<lparr>oc_clockTime := oc_enterTime s\<rparr>)
      else case AcquireSyncClockTime E ss data s of
        None \<Rightarrow> None
      | Some (r, s1) \<Rightarrow>
          Some (if r = ERR_DH_AVT_MASTER_NOT_READY then reread_test s1 else if r \<noteq> DH_AVT_SUCCESS then Clock_Invalid else Clock_Valid, s1))"

definition reread_round :: "'j out_env \<Rightarrow> segments \<Rightarrow> frame \<Rightarrow> output_ctl \<Rightarrow> (clock_check \<times> output_ctl) option" where
  "reread_round E ss data s =
     (case AcquireSyncClockTime E ss data s of
        None \<Rightarrow> None
      | Some (r, s1) \<Rightarrow> Some (if r = DH_AVT_SUCCESS \<or> oc_mode s1 = SMOOTH then Clock_Valid else reread_test s1, s1))"

subsection \<open>How long to sleep\<close>

definition Output_CalProcessTime :: "frame \<Rightarrow> output_ctl \<Rightarrow> output_ctl" where
  "Output_CalProcessTime data s = s\<lparr>oc_statistician := map_option (Statistician_CalProcessTime data) (oc_statistician s)\<rparr>"

definition RecordTime :: "int \<Rightarrow> int \<Rightarrow> int \<Rightarrow> output_ctl \<Rightarrow> output_ctl" where
  "RecordTime enterTime timeStamp now s =
     s\<lparr>oc_lastEnterTime := enterTime, oc_lastTimeStamp := timeStamp, oc_leaveTime := now, oc_isTimeInit := True\<rparr>"

definition InitTime :: "int \<Rightarrow> int \<Rightarrow> output_ctl \<Rightarrow> output_ctl" where
  "InitTime enterTime timeStamp s = s\<lparr>oc_delta := 0, oc_sleep := 0, oc_lastEnterTime := enterTime, oc_lastTimeStamp := timeStamp,
     oc_leaveTime := enterTime, oc_isTimeInit := True\<rparr>"

definition InitBaseline :: "int \<Rightarrow> int \<Rightarrow> output_ctl \<Rightarrow> output_ctl" where
  "InitBaseline timeStampBaseline clockBaseline s =
     s\<lparr>oc_timeStampBaseline := timeStampBaseline, oc_clockBaseline := clockBaseline + uint (oc_bufferTime s), oc_isBaselineInit := True\<rparr>"

definition CheckIsProcessInDynamicBalanceOnce :: "output_ctl \<Rightarrow> bool" where
  "CheckIsProcessInDynamicBalanceOnce s =
     (case oc_statistician s of
        None \<Rightarrow> False
      | Some st \<Rightarrow>
          (let averPush = ts_averPushInterval st; averStamp = ts_averTimeStampInterval st in
           averPush \<noteq> 0 \<and> averStamp \<noteq> 0 \<and> \<bar>averPush - averStamp\<bar> < uint (oc_averIntervalDiffThre s)
           \<and> \<bar>ts_pushInterval st - averPush\<bar> < uint (oc_pushOnceDiffThre s)
           \<and> \<bar>ts_timeStampInterval st - averStamp\<bar> < uint (oc_timeStampOnceDiffThre s)))"

definition CheckIsProcessInDynamicBalance :: "output_ctl \<Rightarrow> bool \<times> output_ctl" where
  "CheckIsProcessInDynamicBalance s =
     (if oc_mode s = SYNC \<or> oc_isInDynamicBalance s then (True, s)
      else let s1 = s\<lparr>oc_dynamicBalanceCount := (if CheckIsProcessInDynamicBalanceOnce s then oc_dynamicBalanceCount s + 1 else 0)\<rparr> in
        if oc_dynamicBalanceCount s1 \<ge> oc_dynamicBalanceThre s1
        then (True, s1\<lparr>oc_dataQueue := [], oc_isInDynamicBalance := True\<rparr>) else (False, s1))"

definition CalSleepTime :: "int \<Rightarrow> output_ctl \<Rightarrow> output_ctl" where
  "CalSleepTime timeStamp s =
     (let interval = timeStamp - oc_lastTimeStamp s;
          elapse = oc_enterTime s - oc_leaveTime s;
          render = oc_enterTime s - oc_lastEnterTime s;
          delta = oc_delta s + (render - oc_sleep s - elapse);
          sleep = interval - elapse;
          s1 = s\<lparr>oc_delta := delta, oc_sleep := sleep\<rparr>
      in if interval = INVALID_INTERVAL then s1
         else let adjustThre = scale interval (oc_adjustSleepFactor s) in
           if delta > adjustThre \<and> sleep > 0
           then s1\<lparr>oc_delta := delta - (if sleep - adjustThre < 0 then sleep else adjustThre), oc_sleep := sleep - adjustThre\<rparr>
           else if delta < - adjustThre then s1\<lparr>oc_sleep := sleep + delta, oc_delta := 0\<rparr>
           else s1)"

definition vcts :: "frame \<Rightarrow> output_ctl \<Rightarrow> int" where
  "vcts data s = (if oc_sleep s > 0 then fr_pts data - oc_sleep s else fr_pts data)"

definition HandleSmoothTime :: "frame \<Rightarrow> output_ctl \<Rightarrow> output_ctl" where
  "HandleSmoothTime data s =
     (case oc_statistician s of
        None \<Rightarrow> s
      | Some st \<Rightarrow>
          (let average = ts_averTimeStampInterval st in
           if ts_timeStampInterval st = INVALID_INTERVAL \<or> average = INVALID_INTERVAL then s
           else let waitClockThre = scale average (oc_waitClockFactor s);
                    trackClockThre = scale average (oc_trackClockFactor s);
                    offset = vcts data s - oc_timeStampBaseline s - (oc_clockTime s - oc_clockBaseline s)
                in if offset > waitClockThre \<or> offset < - trackClockThre then s\<lparr>oc_sleep := oc_sleep s + offset\<rparr> else s))"

text \<open>How far the video is ahead of the audio, seen from the end of the sleep.\<close>

definition sync_offset :: "frame \<Rightarrow> output_ctl \<Rightarrow> int" where
  "sync_offset data s = (vcts data s - oc_vFront s - oc_vBack s) - (oc_clockTime s - oc_aFront s - oc_aBack s) - oc_devClockDiff s"

definition HandleSyncTime :: "frame \<Rightarrow> output_ctl \<Rightarrow> output_ctl" where
  "HandleSyncTime data s =
     (if fr_meta data = None then s
      else let offset = sync_offset data s; append = (oc_trackClockThre s + oc_waitClockThre s) sdiv 2 in
        if offset > oc_waitClockThre s then s\<lparr>oc_sleep := oc_sleep s + (offset - oc_waitClockThre s + append)\<rparr>
        else if offset < - oc_trackClockThre s then s\<lparr>oc_sleep := oc_sleep s + (offset - oc_trackClockThre s - append)\<rparr>
        else s)"

text \<open>\<open>SyncClock\<close> up to its wait.\<close>

definition SyncClock :: "frame \<Rightarrow> output_ctl \<Rightarrow> output_ctl" where
  "SyncClock data s =
     (let s1 = if oc_mode s = SMOOTH then HandleSmoothTime data s else HandleSyncTime data s;
          s2 = if oc_sleep s1 > oc_sleepThre s1 then s1\<lparr>oc_sleep := oc_sleepThre s1\<rparr> else s1
      in if oc_sleep s2 < 0 then s2\<lparr>oc_sleep := 0\<rparr> else s2)"

subsection \<open>The control thread\<close>

text \<open>
  \<open>ok\<close>: the event handler takes the task. The thread goes back to the queue; a frame whose task is not taken stays in it.
\<close>

definition PostOutputEvent :: "bool \<Rightarrow> frame \<Rightarrow> output_ctl \<Rightarrow> bool \<times> output_ctl" where
  "PostOutputEvent ok data s =
     (if \<not> oc_handler s \<or> \<not> ok then (False, s) else (True, s\<lparr>oc_posted := oc_posted s @ [data]\<rparr>))"

definition pop_if_front :: "frame \<Rightarrow> frame list \<Rightarrow> frame list" where
  "pop_if_front data q = (if q \<noteq> [] \<and> fr_id (hd q) = fr_id data then tl q else q)"

text \<open>\<open>ControlOutput\<close> has the one result \<open>OUTPUT_FRAME\<close>.\<close>

definition HandleControlResult :: "bool \<Rightarrow> frame \<Rightarrow> output_ctl \<Rightarrow> output_ctl" where
  "HandleControlResult ok data s =
     (let (posted, s1) = PostOutputEvent ok data s; s2 = s1\<lparr>oc_pc := At_Queue\<rparr> in
      if \<not> posted then s2 else s2\<lparr>oc_dataQueue := pop_if_front data (oc_dataQueue s2)\<rparr>)"

text \<open>\<open>ControlOutput\<close> from the answer of \<open>CheckIsClockInvalid\<close> on: it ends, or goes to sleep in \<open>SyncClock\<close>.\<close>

definition after_clock :: "bool \<Rightarrow> int \<Rightarrow> frame \<Rightarrow> bool \<Rightarrow> output_ctl \<Rightarrow> output_ctl" where
  "after_clock ok now data invalid s =
     (let (balanced, s1) = (if invalid then (False, s) else CheckIsProcessInDynamicBalance s);
          s2 = Output_CalProcessTime data s1
      in if invalid \<or> \<not> balanced
         then HandleControlResult ok data (RecordTime (oc_enterTime s2) (fr_pts data) now s2)
         else let s3 = if \<not> oc_isTimeInit s2 then InitTime (oc_enterTime s2) (fr_pts data) s2 else s2;
                  s4 = if \<not> oc_isBaselineInit s3 then InitBaseline (fr_pts data) (oc_clockTime s3) s3 else s3
              in (SyncClock data (CalSleepTime (fr_pts data) s4))\<lparr>oc_pc := Sleeping data\<rparr>)"

definition with_clock :: "bool \<Rightarrow> int \<Rightarrow> frame \<Rightarrow> clock_check \<times> output_ctl \<Rightarrow> output_ctl" where
  "with_clock ok now data = (\<lambda>(c, s).
     if c = Clock_Wait then s\<lparr>oc_pc := Rereading data\<rparr> else after_clock ok now data (c = Clock_Invalid) s)"

definition ControlOutput :: "'j out_env \<Rightarrow> segments \<Rightarrow> bool \<Rightarrow> int \<Rightarrow> int \<Rightarrow> frame \<Rightarrow> output_ctl \<Rightarrow> output_ctl option" where
  "ControlOutput E ss ok now later data s =
     (let s1 = s\<lparr>oc_enterTime := now\<rparr> in
      if fr_pts data = INVALID_TIMESTAMP \<or> \<not> oc_isAllowControl s1 then Some (HandleControlResult ok data s1)
      else map_option (with_clock ok later data) (CheckIsClockInvalid E ss data s1))"

definition LooperControl :: "'j out_env \<Rightarrow> segments \<Rightarrow> bool \<Rightarrow> int \<Rightarrow> int \<Rightarrow> output_ctl \<Rightarrow> output_ctl option" where
  "LooperControl E ss ok now later s =
     (case oc_pc s of
        At_Queue \<Rightarrow>
          if oc_status s = RELEASE then Some (s\<lparr>oc_pc := Ended\<rparr>)
          else if oc_dataQueue s \<noteq> [] \<and> oc_status s = START then ControlOutput E ss ok now later (hd (oc_dataQueue s)) s
          else Some s
      | Rereading data \<Rightarrow> map_option (with_clock ok later data) (reread_round E ss data s)
      | Sleeping data \<Rightarrow> Some (HandleControlResult ok data (RecordTime (oc_enterTime s) (fr_pts data) later s))
      | _ \<Rightarrow> Some s)"

text \<open>
  The thread of the handler runs the task of one frame: \<open>NotifyOutput\<close> and \<open>OutputControllerListener::OnOutput\<close>, which gives the frame
  to the output when that still exists (\<open>alive\<close>).
\<close>

definition NotifyOutput :: "bool \<Rightarrow> frame \<Rightarrow> output_ctl \<Rightarrow> frame option" where
  "NotifyOutput alive data s = (if oc_listener s \<and> alive then Some data else None)"

definition LooperHandle :: "bool \<Rightarrow> output_ctl \<Rightarrow> frame option \<times> output_ctl" where
  "LooperHandle alive s =
     (case oc_posted s of
        data # rest \<Rightarrow> if oc_running s then (NotifyOutput alive data s, s\<lparr>oc_posted := rest\<rparr>) else (None, s)
      | [] \<Rightarrow> (None, s))"

section \<open>The plugin for a remote screen\<close>

datatype plugin_state = CREATED | INITIALIZED | PREPARED | RUNNING

record dscreen_plugin =
  dp_state :: plugin_state
  dp_eventsCb :: bool
  dp_dataCb :: bool
  dp_controller :: "output_ctl option"
  dp_controllerListener :: bool
  dp_delivered :: "frame list"

definition DscreenOutputPlugin_new :: dscreen_plugin where
  "DscreenOutputPlugin_new = \<lparr> dp_state = CREATED, dp_eventsCb = False, dp_dataCb = False, dp_controller = None,
     dp_controllerListener = False, dp_delivered = [] \<rparr>"

definition InitOutputController :: "dscreen_plugin \<Rightarrow> dscreen_plugin" where
  "InitOutputController p =
     (let c = (case dp_controller p of None \<Rightarrow> OutputController_new | Some c \<Rightarrow> c) in
      p\<lparr>dp_controllerListener := True, dp_controller := Some (c\<lparr>oc_listener := True\<rparr>)\<rparr>)"

definition Plugin_Init :: "dscreen_plugin \<Rightarrow> out_result \<times> dscreen_plugin" where
  "Plugin_Init p = (OUT_OK, (InitOutputController p)\<lparr>dp_state := INITIALIZED\<rparr>)"

definition on_state ::
  "plugin_state \<Rightarrow> plugin_state \<Rightarrow> (output_ctl \<Rightarrow> output_ctl) \<Rightarrow> dscreen_plugin \<Rightarrow> out_result \<times> dscreen_plugin" where
  "on_state from_state to_state f p =
     (if dp_state p \<noteq> from_state then (OUT_WRONG_STATE, p)
      else case dp_controller p of
        None \<Rightarrow> (OUT_NULL_POINTER, p)
      | Some c \<Rightarrow> (OUT_OK, p\<lparr>dp_state := to_state, dp_controller := Some (f c)\<rparr>))"

definition Plugin_Prepare :: "'j out_env \<Rightarrow> dscreen_plugin \<Rightarrow> out_result \<times> dscreen_plugin" where
  "Plugin_Prepare E = on_state INITIALIZED PREPARED (PrepareControl E)"

definition Plugin_Start :: "dscreen_plugin \<Rightarrow> out_result \<times> dscreen_plugin" where
  "Plugin_Start = on_state PREPARED RUNNING (\<lambda>c. snd (StartControl c))"

definition Plugin_Stop :: "dscreen_plugin \<Rightarrow> out_result \<times> dscreen_plugin" where
  "Plugin_Stop = on_state RUNNING PREPARED (\<lambda>c. snd (StopControl c))"

text \<open>
  \<open>Reset\<close> is the list of the steps that other threads see, in the order of the code. A step that has to wait, the join in
  \<open>ReleaseControl\<close>, is \<open>None\<close> as long as it waits. \<open>Deinit\<close> is \<open>Reset\<close>.
\<close>

datatype reset_step = Set_Initialized | Clear_EventsCb | Clear_DataCb | Clear_ControllerListener | Release_Begin | Release_End

definition exec_reset_step :: "reset_step \<Rightarrow> dscreen_plugin \<Rightarrow> dscreen_plugin option" where
  "exec_reset_step st p =
     (case st of
        Set_Initialized \<Rightarrow> Some (p\<lparr>dp_state := INITIALIZED\<rparr>)
      | Clear_EventsCb \<Rightarrow> Some (p\<lparr>dp_eventsCb := False\<rparr>)
      | Clear_DataCb \<Rightarrow> Some (p\<lparr>dp_dataCb := False\<rparr>)
      | Clear_ControllerListener \<Rightarrow> Some (p\<lparr>dp_controllerListener := False\<rparr>)
      | Release_Begin \<Rightarrow> Some (p\<lparr>dp_controller := map_option release_begin (dp_controller p)\<rparr>)
      | Release_End \<Rightarrow>
          (case dp_controller p of
             None \<Rightarrow> Some p
           | Some c \<Rightarrow> (case release_end c of None \<Rightarrow> None | Some _ \<Rightarrow> Some (p\<lparr>dp_controller := None\<rparr>))))"

definition Plugin_Reset :: "reset_step list" where
  "Plugin_Reset = [Set_Initialized, Clear_EventsCb, Clear_DataCb, Clear_ControllerListener, Release_Begin, Release_End]"

definition Plugin_Deinit :: "reset_step list" where
  "Plugin_Deinit = Plugin_Reset"

definition Plugin_SetCallback :: "bool \<Rightarrow> dscreen_plugin \<Rightarrow> out_result \<times> dscreen_plugin" where
  "Plugin_SetCallback cb p = (if \<not> cb then (OUT_NULL_POINTER, p) else (OUT_OK, p\<lparr>dp_eventsCb := True\<rparr>))"

definition Plugin_SetDataCallback :: "bool \<Rightarrow> dscreen_plugin \<Rightarrow> out_result \<times> dscreen_plugin" where
  "Plugin_SetDataCallback callable p = (OUT_OK, p\<lparr>dp_dataCb := callable\<rparr>)"

definition Plugin_GetParameter :: "plugin_tag \<Rightarrow> any_value \<Rightarrow> dscreen_plugin \<Rightarrow> out_result \<times> any_value" where
  "Plugin_GetParameter tag old p =
     (case dp_controller p of None \<Rightarrow> (OUT_NULL_POINTER, old) | Some c \<Rightarrow> Output_GetParameter tag old c)"

definition Plugin_SetParameter :: "'j out_env \<Rightarrow> plugin_tag \<Rightarrow> any_value \<Rightarrow> dscreen_plugin \<Rightarrow> (out_result \<times> dscreen_plugin) option" where
  "Plugin_SetParameter E tag v p =
     (case dp_controller p of
        None \<Rightarrow> Some (OUT_NULL_POINTER, p)
      | Some c \<Rightarrow> map_option (\<lambda>(r, c1). (r, p\<lparr>dp_controller := Some c1\<rparr>)) (Output_SetParameter E tag v c))"

definition Plugin_PushData :: "'j out_env \<Rightarrow> int \<Rightarrow> frame option \<Rightarrow> dscreen_plugin \<Rightarrow> out_result \<times> dscreen_plugin" where
  "Plugin_PushData E now buffer p =
     (case buffer of
        None \<Rightarrow> (OUT_NULL_POINTER, p)
      | Some b \<Rightarrow>
          if fr_empty b then (OUT_NULL_POINTER, p)
          else case dp_controller p of
            None \<Rightarrow> (OUT_NULL_POINTER, p)
          | Some c \<Rightarrow> (OUT_OK, p\<lparr>dp_controller := Some (Output_PushData E now buffer c)\<rparr>))"

text \<open>A frame without meta data or an empty \<open>std::function\<close> ends the process.\<close>

definition Plugin_OnOutput :: "frame \<Rightarrow> dscreen_plugin \<Rightarrow> dscreen_plugin option" where
  "Plugin_OnOutput data p =
     (if fr_meta data = None then None else if \<not> dp_dataCb p then None else Some (p\<lparr>dp_delivered := dp_delivered p @ [data]\<rparr>))"

definition plugin_handler :: "dscreen_plugin \<Rightarrow> dscreen_plugin option" where
  "plugin_handler p =
     (case dp_controller p of
        None \<Rightarrow> Some p
      | Some c \<Rightarrow>
          (let (out, c1) = LooperHandle True c; p1 = p\<lparr>dp_controller := Some c1\<rparr> in
           case out of None \<Rightarrow> Some p1 | Some data \<Rightarrow> Plugin_OnOutput data p1))"

text \<open>
  A thread that resets the plugin and the thread of the handler: what is left of the reset, and the plugin; \<open>None\<close> when the
  process has ended.
\<close>

inductive reset_race :: "reset_step list \<times> dscreen_plugin \<Rightarrow> (reset_step list \<times> dscreen_plugin) option \<Rightarrow> bool" for s where
  race_here: "reset_race s (Some s)"
| race_reset: "reset_race s (Some (st # sts, p)) \<Longrightarrow> exec_reset_step st p = Some q \<Longrightarrow> reset_race s (Some (sts, q))"
| race_handler: "reset_race s (Some (sts, p)) \<Longrightarrow> plugin_handler p = Some q \<Longrightarrow> reset_race s (Some (sts, q))"
| race_died: "reset_race s (Some (sts, p)) \<Longrightarrow> plugin_handler p = None \<Longrightarrow> reset_race s None"

end
