(* ===== verification/DHF_AvOutputProps.thy ===== *)
theory DHF_AvOutputProps
  imports DHF_AvOutput DHF_Json_Model
begin

text \<open>
  The control of the output as a whole: the averages over a run of frames, the interleaving of the pushing thread, the control
  thread and the handler's thread as a step relation with its invariant, the release of a controller that waits for a clock,
  and the correction of the sleep in synchronous mode.
\<close>

section \<open>Averages\<close>

definition timed :: "frame \<Rightarrow> bool" where
  "timed f = (fr_pts f \<noteq> 0 \<and> (case Option.bind (fr_meta f) fm_pushTime of None \<Rightarrow> False | Some t \<Rightarrow> t \<noteq> 0))"

definition push_time :: "frame \<Rightarrow> int" where
  "push_time f = (case Option.bind (fr_meta f) fm_pushTime of None \<Rightarrow> 0 | Some t \<Rightarrow> t)"

lemma timed_cases:
  assumes "timed f"
  obtains m where "fr_meta f = Some m" "fm_pushTime m = Some (push_time f)" "push_time f \<noteq> 0" "fr_pts f \<noteq> 0"
  using assms by (auto simp: timed_def push_time_def split: option.splits bind_splits)

text \<open>The average of \<open>n\<close> intervals is the distance from the first to the last point of time, divided by \<open>n\<close>.\<close>

definition stat_ok :: "frame \<Rightarrow> frame list \<Rightarrow> time_stat \<Rightarrow> bool" where
  "stat_ok f fs s =
     (ts_pushIndex s = int (length fs) \<and> ts_timeStampIndex s = int (length fs)
      \<and> ts_lastPushTime s = push_time (last (f # fs)) \<and> ts_lastTimeStamp s = fr_pts (last (f # fs))
      \<and> ts_pushIntervalSum s = push_time (last (f # fs)) - push_time f \<and> ts_timeStampIntervalSum s = fr_pts (last (f # fs)) - fr_pts f
      \<and> (fs \<noteq> [] \<longrightarrow> ts_averPushInterval s = (push_time (last fs) - push_time f) sdiv int (length fs)
           \<and> ts_averTimeStampInterval s = (fr_pts (last fs) - fr_pts f) sdiv int (length fs)))"

lemma stat_ok_first: "timed f \<Longrightarrow> stat_ok f [] (Statistician_CalProcessTime f ClearStatistics)"
  by (erule timed_cases)
    (simp add: stat_ok_def Statistician_CalProcessTime_def CalAverPushInterval_def CalAverTimeStampInterval_def ClearStatistics_def)

lemma last_timed: "timed f \<Longrightarrow> \<forall>g\<in>set fs. timed g \<Longrightarrow> timed (last (f # fs))"
  by (cases fs rule: rev_cases) auto

lemma stat_ok_next:
  assumes "stat_ok f fs s" and "timed f" and "\<forall>g\<in>set fs. timed g" and "timed g"
  shows "stat_ok f (fs @ [g]) (Statistician_CalProcessTime g s)"
proof -
  obtain m where m: "fr_meta g = Some m" "fm_pushTime m = Some (push_time g)" using \<open>timed g\<close> by (rule timed_cases)
  have "push_time (last (f # fs)) \<noteq> 0" "fr_pts (last (f # fs)) \<noteq> 0"
    using last_timed [OF assms(2,3)] by (auto elim: timed_cases)
  then show ?thesis using assms(1) m
    by (simp add: stat_ok_def Statistician_CalProcessTime_def CalAverPushInterval_def CalAverTimeStampInterval_def Let_def add.commute)
qed

lemma stat_ok_run:
  "timed f \<Longrightarrow> \<forall>g\<in>set fs. timed g \<Longrightarrow> stat_ok f fs (fold Statistician_CalProcessTime (f # fs) ClearStatistics)"
  by (induction fs rule: rev_induct) (simp_all add: stat_ok_first stat_ok_next)

text \<open>
  The running averages of \<open>TimeStatistician\<close>, which are kept frame by frame from a sum, a counter and the last
  value, are the distance of the first and the last frame since the statistics were cleared, divided by the number of the intervals
  and cut towards zero: for the times at which the frames were pushed and for their time stamps.
\<close>

theorem averages_are_telescoped:
  assumes "fs \<noteq> []" and "\<forall>g\<in>set (f # fs). timed g"
  shows "ts_averPushInterval (fold Statistician_CalProcessTime (f # fs) ClearStatistics)
       = (push_time (last fs) - push_time f) sdiv int (length fs)
    \<and> ts_averTimeStampInterval (fold Statistician_CalProcessTime (f # fs) ClearStatistics)
       = (fr_pts (last fs) - fr_pts f) sdiv int (length fs)"
  using stat_ok_run [of f fs] assms by (simp add: stat_ok_def)

section \<open>The threads\<close>

record out_world =
  ow_ctl :: output_ctl
  ow_pushed :: "frame list"
  ow_out :: "frame list"

definition world_new :: out_world where
  "world_new = \<lparr> ow_ctl = OutputController_new, ow_pushed = [], ow_out = [] \<rparr>"

definition accepted :: "frame option \<Rightarrow> output_ctl \<Rightarrow> frame list" where
  "accepted data c =
     (case data of None \<Rightarrow> [] | Some f \<Rightarrow> if oc_status c = START \<and> fr_meta f \<noteq> None then [f] else [])"

definition opt_list :: "'a option \<Rightarrow> 'a list" where
  "opt_list x = (case x of None \<Rightarrow> [] | Some a \<Rightarrow> [a])"

text \<open>
  One step of some thread. \<open>ow_pushed\<close> and \<open>ow_out\<close> are the frames taken into the queue and the frames given to the output, in order.
  A frame that is pushed is a buffer of its own.
\<close>

inductive out_step :: "'j out_env \<Rightarrow> out_world \<Rightarrow> out_world \<Rightarrow> bool" for E where
  register: "out_step E w (w\<lparr>ow_ctl := (ow_ctl w)\<lparr>oc_listener := b\<rparr>\<rparr>)"
| prepare: "out_step E w (w\<lparr>ow_ctl := PrepareControl E (ow_ctl w)\<rparr>)"
| start: "out_step E w (w\<lparr>ow_ctl := snd (StartControl (ow_ctl w))\<rparr>)"
| stop: "out_step E w (w\<lparr>ow_ctl := snd (StopControl (ow_ctl w))\<rparr>)"
| release: "out_step E w (w\<lparr>ow_ctl := release_begin (ow_ctl w)\<rparr>)"
| released: "release_end (ow_ctl w) = Some c \<Longrightarrow> out_step E w (w\<lparr>ow_ctl := c\<rparr>)"
| set_parameter: "Output_SetParameter E tag v (ow_ctl w) = Some (r, c) \<Longrightarrow> out_step E w (w\<lparr>ow_ctl := c\<rparr>)"
| push: "fr_id ` set (accepted data (ow_ctl w)) \<inter> fr_id ` set (ow_pushed w) = {} \<Longrightarrow>
    out_step E w (w\<lparr>ow_ctl := Output_PushData E now data (ow_ctl w), ow_pushed := ow_pushed w @ accepted data (ow_ctl w)\<rparr>)"
| control: "LooperControl E ss ok now later (ow_ctl w) = Some c \<Longrightarrow> out_step E w (w\<lparr>ow_ctl := c\<rparr>)"
| handle: "LooperHandle alive (ow_ctl w) = (out, c) \<Longrightarrow> out_step E w (w\<lparr>ow_ctl := c, ow_out := ow_out w @ opt_list out\<rparr>)"

section \<open>What the steps do with the frames\<close>

text \<open>The identities of the frames that are still to come out: posted, then the one being worked on, then the queue.\<close>

definition pend :: "control_pc \<Rightarrow> frame list \<Rightarrow> nat list" where
  "pend pc q = (case pc of Rereading d \<Rightarrow> map fr_id (d # pop_if_front d q) | Sleeping d \<Rightarrow> map fr_id (d # pop_if_front d q) | _ \<Rightarrow> map fr_id q)"

definition to_come :: "output_ctl \<Rightarrow> nat list" where
  "to_come c = map fr_id (oc_posted c) @ pend (oc_pc c) (oc_dataQueue c)"

lemma pend_simps [simp]:
  "pend (Rereading d) q = fr_id d # map fr_id (pop_if_front d q)" "pend (Sleeping d) q = fr_id d # map fr_id (pop_if_front d q)"
  "pend At_Queue q = map fr_id q" "pend No_Thread q = map fr_id q" "pend Ended q = map fr_id q"
  by (simp_all add: pend_def)

lemma subseq_same_prefix: "subseq xs ys \<Longrightarrow> subseq (zs @ xs) (zs @ ys)" by (induction zs) auto

lemma subseq_set: "subseq xs ys \<Longrightarrow> set xs \<subseteq> set ys" by (induction rule: list_emb.induct) auto

lemma subseq_distinct: "subseq xs ys \<Longrightarrow> distinct ys \<Longrightarrow> distinct xs"
  by (induction rule: list_emb.induct) (auto dest: subseq_set)

lemma subseq_tl [simp]: "subseq (tl q) q" by (cases q) auto

lemma subseq_pop [simp]: "subseq (pop_if_front d q) q" by (simp add: pop_if_front_def)

lemma pop_if_front_Nil [simp]: "pop_if_front d [] = []" by (simp add: pop_if_front_def)

lemma subseq_pop_tl: "subseq (pop_if_front d (tl q)) (pop_if_front d q)"
  by (auto simp: pop_if_front_def intro: subseq_order.trans [OF subseq_tl] subseq_order.trans [OF subseq_tl subseq_tl])

lemma queue_of_current: "subseq (map fr_id q) (fr_id d # map fr_id (pop_if_front d q))"
  by (cases q) (auto simp: pop_if_front_def)

lemma pop_append: "fr_id f \<noteq> fr_id d \<Longrightarrow> pop_if_front d (q @ [f]) = pop_if_front d q @ [f]"
  by (cases q) (auto simp: pop_if_front_def)

lemma pend_tl: "subseq (pend pc (tl q)) (pend pc q)"
  by (cases pc) (auto simp: subseq_map subseq_pop_tl)

lemma pend_clear: "subseq (pend pc []) (pend pc q)"
  by (cases pc) auto

lemma pend_append: "fr_id f \<notin> set (pend pc q) \<Longrightarrow> pend pc (q @ [f]) = pend pc q @ [fr_id f]"
  by (cases pc) (auto simp: pop_append)

lemma calc_frame [dhf_frame]:
  "oc_dataQueue (Output_CalProcessTime d s) = oc_dataQueue s" "oc_posted (Output_CalProcessTime d s) = oc_posted s"
  "oc_sleepThre (Output_CalProcessTime d s) = oc_sleepThre s"
  "oc_dataQueue (RecordTime e t n s) = oc_dataQueue s" "oc_posted (RecordTime e t n s) = oc_posted s"
  "oc_sleepThre (RecordTime e t n s) = oc_sleepThre s"
  "oc_dataQueue (InitTime e t s) = oc_dataQueue s" "oc_posted (InitTime e t s) = oc_posted s" "oc_sleepThre (InitTime e t s) = oc_sleepThre s"
  "oc_dataQueue (InitBaseline e t s) = oc_dataQueue s" "oc_posted (InitBaseline e t s) = oc_posted s"
  "oc_sleepThre (InitBaseline e t s) = oc_sleepThre s"
  by (simp_all add: Output_CalProcessTime_def RecordTime_def InitTime_def InitBaseline_def)

lemma CalSleepTime_frame [dhf_frame]:
  "oc_dataQueue (CalSleepTime t s) = oc_dataQueue s" "oc_posted (CalSleepTime t s) = oc_posted s"
  "oc_sleepThre (CalSleepTime t s) = oc_sleepThre s"
  by (simp_all add: CalSleepTime_def Let_def)

lemma HandleTime_frame [dhf_frame]:
  "oc_dataQueue (HandleSmoothTime d s) = oc_dataQueue s" "oc_posted (HandleSmoothTime d s) = oc_posted s"
  "oc_sleepThre (HandleSmoothTime d s) = oc_sleepThre s"
  "oc_dataQueue (HandleSyncTime d s) = oc_dataQueue s" "oc_posted (HandleSyncTime d s) = oc_posted s"
  "oc_sleepThre (HandleSyncTime d s) = oc_sleepThre s"
  by (simp_all add: HandleSmoothTime_def HandleSyncTime_def Let_def split: option.split)

lemma SyncClock_frame [dhf_frame]:
  "oc_dataQueue (SyncClock d s) = oc_dataQueue s" "oc_posted (SyncClock d s) = oc_posted s" "oc_sleepThre (SyncClock d s) = oc_sleepThre s"
  by (simp_all add: SyncClock_def Let_def dhf_frame)

text \<open>Whatever the corrections add up to, the thread sleeps no less than 0 and no more than its bound.\<close>

lemma SyncClock_sleep: "0 \<le> oc_sleep (SyncClock d s) \<and> oc_sleep (SyncClock d s) \<le> max 0 (oc_sleepThre s)"
  by (simp add: SyncClock_def Let_def dhf_frame)

lemma Acquire_frame [dhf_frame]:
  assumes "AcquireSyncClockTime E ss d s = Some (r, s1)"
  shows "oc_dataQueue s1 = oc_dataQueue s" "oc_posted s1 = oc_posted s" "oc_sleepThre s1 = oc_sleepThre s" "oc_mode s1 = oc_mode s"
    "oc_status s1 = oc_status s"
  using assms by (auto simp: AcquireSyncClockTime_def Let_def split: option.splits if_splits)

lemma CheckIsClockInvalid_frame:
  assumes "CheckIsClockInvalid E ss d s = Some (k, s1)"
  shows "oc_dataQueue s1 = oc_dataQueue s" "oc_posted s1 = oc_posted s" "oc_sleepThre s1 = oc_sleepThre s"
  using assms by (auto simp: CheckIsClockInvalid_def dhf_frame split: option.splits if_splits)

lemma reread_round_frame:
  assumes "reread_round E ss d s = Some (k, s1)"
  shows "oc_dataQueue s1 = oc_dataQueue s" "oc_posted s1 = oc_posted s" "oc_sleepThre s1 = oc_sleepThre s"
  using assms by (auto simp: reread_round_def dhf_frame split: option.splits if_splits)

lemma balance_frame [dhf_frame]:
  "oc_posted (snd (CheckIsProcessInDynamicBalance s)) = oc_posted s" "oc_sleepThre (snd (CheckIsProcessInDynamicBalance s)) = oc_sleepThre s"
  by (simp_all add: CheckIsProcessInDynamicBalance_def Let_def)

lemma balance_queue:
  "oc_dataQueue (snd (CheckIsProcessInDynamicBalance s)) = oc_dataQueue s \<or> oc_dataQueue (snd (CheckIsProcessInDynamicBalance s)) = []"
  by (simp add: CheckIsProcessInDynamicBalance_def Let_def)

section \<open>The invariant of a controller\<close>

text \<open>What a step of the control thread does with the frame \<open>d\<close> it works on, seen from a state whose queue is \<open>q\<close>.\<close>

definition works_on :: "frame \<Rightarrow> output_ctl \<Rightarrow> output_ctl \<Rightarrow> bool" where
  "works_on d s c =
     (subseq (to_come c) (map fr_id (oc_posted s) @ fr_id d # map fr_id (pop_if_front d (oc_dataQueue s)))
      \<and> length (oc_dataQueue c) \<le> length (oc_dataQueue s) \<and> oc_sleepThre c = oc_sleepThre s
      \<and> (\<forall>d'. oc_pc c = Sleeping d' \<longrightarrow> 0 \<le> oc_sleep c \<and> oc_sleep c \<le> max 0 (oc_sleepThre s)))"

lemma works_on_cong:
  "works_on d s1 c \<Longrightarrow> oc_posted s1 = oc_posted s \<Longrightarrow> oc_dataQueue s1 = oc_dataQueue s \<Longrightarrow> oc_sleepThre s1 = oc_sleepThre s
    \<Longrightarrow> works_on d s c"
  by (simp add: works_on_def)

lemma works_on_cleared:
  assumes "works_on d s1 c" and "oc_posted s1 = oc_posted s" and "oc_dataQueue s1 = []" and "oc_sleepThre s1 = oc_sleepThre s"
  shows "works_on d s c"
proof -
  have "subseq (map fr_id (oc_posted s) @ [fr_id d]) (map fr_id (oc_posted s) @ fr_id d # map fr_id (pop_if_front d (oc_dataQueue s)))"
    by (simp add: subseq_same_prefix)
  with assms show ?thesis by (auto simp: works_on_def intro: subseq_order.trans)
qed

lemma length_pop [simp]: "length (pop_if_front d q) \<le> length q" by (simp add: pop_if_front_def)

lemma works_on_result: "works_on d s (HandleControlResult ok d s)"
  by (auto simp: works_on_def HandleControlResult_def PostOutputEvent_def to_come_def Let_def queue_of_current subseq_same_prefix)

lemma works_on_after_clock: "works_on d s (after_clock ok now d invalid s)"
proof -
  define b where "b = (if invalid then (False, s) else CheckIsProcessInDynamicBalance s)"
  define s2 where "s2 = Output_CalProcessTime d (snd b)"
  have f: "oc_posted s2 = oc_posted s" "oc_sleepThre s2 = oc_sleepThre s" "oc_dataQueue s2 = oc_dataQueue s \<or> oc_dataQueue s2 = []"
    using balance_queue [of s] by (auto simp: s2_def b_def dhf_frame)
  have "works_on d s2 (after_clock ok now d invalid s)"
  proof (cases "invalid \<or> \<not> fst b")
    case True
    then have "after_clock ok now d invalid s = HandleControlResult ok d (RecordTime (oc_enterTime s2) (fr_pts d) now s2)"
      unfolding after_clock_def Let_def case_prod_beta b_def [symmetric] s2_def [symmetric] by simp
    then have "works_on d (RecordTime (oc_enterTime s2) (fr_pts d) now s2) (after_clock ok now d invalid s)" by (simp add: works_on_result)
    then show ?thesis by (rule works_on_cong) (simp_all add: dhf_frame)
  next
    case False
    define s3 where "s3 = (if \<not> oc_isTimeInit s2 then InitTime (oc_enterTime s2) (fr_pts d) s2 else s2)"
    define s4 where "s4 = (if \<not> oc_isBaselineInit s3 then InitBaseline (fr_pts d) (oc_clockTime s3) s3 else s3)"
    have g: "oc_posted s4 = oc_posted s2" "oc_dataQueue s4 = oc_dataQueue s2" "oc_sleepThre s4 = oc_sleepThre s2"
      by (simp_all add: s4_def s3_def dhf_frame)
    have "after_clock ok now d invalid s = (SyncClock d (CalSleepTime (fr_pts d) s4))\<lparr>oc_pc := Sleeping d\<rparr>"
      using False unfolding after_clock_def Let_def case_prod_beta b_def [symmetric] s2_def [symmetric] s3_def [symmetric] s4_def [symmetric]
      by simp
    with SyncClock_sleep [of d "CalSleepTime (fr_pts d) s4"] g show ?thesis
      by (simp add: works_on_def to_come_def dhf_frame)
  qed
  with f show ?thesis using works_on_cleared works_on_cong by metis
qed

lemma works_on_with_clock: "works_on d s (with_clock ok now d (k, s))"
  using works_on_after_clock by (simp add: with_clock_def works_on_def to_come_def)

lemma works_on_ControlOutput:
  assumes "ControlOutput E ss ok now later d s = Some c"
  shows "works_on d s c"
proof (cases "fr_pts d = INVALID_TIMESTAMP \<or> \<not> oc_isAllowControl (s\<lparr>oc_enterTime := now\<rparr>)")
  case True
  with assms have "c = HandleControlResult ok d (s\<lparr>oc_enterTime := now\<rparr>)" by (auto simp: ControlOutput_def)
  then have "works_on d (s\<lparr>oc_enterTime := now\<rparr>) c" by (simp add: works_on_result)
  then show ?thesis by (rule works_on_cong) simp_all
next
  case False
  with assms obtain k s1 where k: "CheckIsClockInvalid E ss d (s\<lparr>oc_enterTime := now\<rparr>) = Some (k, s1)"
    and c: "c = with_clock ok later d (k, s1)" by (auto simp: ControlOutput_def)
  have "works_on d s1 c" unfolding c by (rule works_on_with_clock)
  then show ?thesis by (rule works_on_cong) (simp_all add: CheckIsClockInvalid_frame [OF k])
qed

definition ctl_inv :: "int \<Rightarrow> output_ctl \<Rightarrow> bool" where
  "ctl_inv bound c \<longleftrightarrow> length (oc_dataQueue c) \<le> Suc QUEUE_MAX_SIZE \<and> oc_sleepThre c \<le> bound
     \<and> (\<forall>d. oc_pc c = Sleeping d \<longrightarrow> 0 \<le> oc_sleep c \<and> oc_sleep c \<le> bound)"

definition world_inv :: "int \<Rightarrow> out_world \<Rightarrow> bool" where
  "world_inv bound w \<longleftrightarrow> subseq (map fr_id (ow_out w) @ to_come (ow_ctl w)) (map fr_id (ow_pushed w))
     \<and> distinct (map fr_id (ow_pushed w)) \<and> ctl_inv bound (ow_ctl w)"

lemma works_on_inv: "works_on d s c \<Longrightarrow> ctl_inv bound s \<Longrightarrow> 0 \<le> bound \<Longrightarrow> ctl_inv bound c"
  by (fastforce simp: works_on_def ctl_inv_def)

lemma LooperControl_works:
  assumes "LooperControl E ss ok now later c = Some c1"
  shows "subseq (to_come c1) (to_come c)" and "ctl_inv bound c \<Longrightarrow> 0 \<le> bound \<Longrightarrow> ctl_inv bound c1"
proof -
  have "(subseq (to_come c1) (to_come c)) \<and> (ctl_inv bound c \<longrightarrow> 0 \<le> bound \<longrightarrow> ctl_inv bound c1)"
  proof (cases "oc_pc c")
    case At_Queue
    show ?thesis
    proof (cases "oc_status c \<noteq> RELEASE \<and> oc_dataQueue c \<noteq> [] \<and> oc_status c = START")
      case True
      then have "works_on (hd (oc_dataQueue c)) c c1"
        using assms At_Queue by (auto simp: LooperControl_def dest: works_on_ControlOutput)
      moreover have "to_come c = map fr_id (oc_posted c) @ fr_id (hd (oc_dataQueue c)) # map fr_id (pop_if_front (hd (oc_dataQueue c)) (oc_dataQueue c))"
        using True At_Queue by (cases "oc_dataQueue c") (simp_all add: to_come_def pop_if_front_def)
      ultimately show ?thesis using works_on_inv by (auto simp: works_on_def)
    next
      case False
      with assms At_Queue show ?thesis by (auto simp: LooperControl_def to_come_def ctl_inv_def split: if_splits)
    qed
  next
    case (Rereading d)
    then obtain k s1 where k: "reread_round E ss d c = Some (k, s1)" and c1: "c1 = with_clock ok later d (k, s1)"
      using assms by (auto simp: LooperControl_def)
    have "works_on d s1 c1" unfolding c1 by (rule works_on_with_clock)
    then have w: "works_on d c c1" by (rule works_on_cong) (simp_all add: reread_round_frame [OF k])
    with Rereading show ?thesis using works_on_inv [OF w] by (auto simp: works_on_def to_come_def)
  next
    case (Sleeping d)
    let ?s = "RecordTime (oc_enterTime c) (fr_pts d) later c"
    have "works_on d ?s c1" using assms Sleeping by (auto simp: LooperControl_def works_on_result)
    then have w: "works_on d c c1" by (rule works_on_cong) (simp_all add: dhf_frame)
    with Sleeping show ?thesis using works_on_inv [OF w] by (auto simp: works_on_def to_come_def)
  qed (use assms in \<open>auto simp: LooperControl_def\<close>)
  then show "subseq (to_come c1) (to_come c)" and "ctl_inv bound c \<Longrightarrow> 0 \<le> bound \<Longrightarrow> ctl_inv bound c1" by blast+
qed

section \<open>The contract of the settings\<close>

text \<open>
  What a subclass may do in \<open>PrepareSmooth\<close> and \<open>PrepareSync\<close>: it sets its bounds, of which the sleep stays below \<open>bound\<close>, and leaves
  the queue, the threads and the sleep of the frame that is being worked on.
\<close>

definition untouched :: "output_ctl \<Rightarrow> output_ctl \<Rightarrow> bool" where
  "untouched s s1 \<longleftrightarrow> oc_dataQueue s1 = oc_dataQueue s \<and> oc_posted s1 = oc_posted s \<and> oc_pc s1 = oc_pc s \<and> oc_sleep s1 = oc_sleep s
     \<and> oc_status s1 = oc_status s \<and> oc_mode s1 = oc_mode s"

locale output_class =
  fixes E :: "'j out_env" and bound :: int
  assumes smooth: "untouched s (oe_PrepareSmooth E s)" "oc_sleepThre (oe_PrepareSmooth E s) \<le> bound"
    and sync: "untouched s (oe_PrepareSync E s)" "oc_sleepThre (oe_PrepareSync E s) \<le> bound"
    and bound: "0 \<le> bound"
begin

lemma PrepareControl_untouched: "untouched s (PrepareControl E s) \<and> oc_sleepThre (PrepareControl E s) \<le> bound"
  using smooth sync by (simp add: PrepareControl_def InitTimeStatistician_def untouched_def)

lemma PrepareControl_inv: "ctl_inv bound s \<Longrightarrow> ctl_inv bound (PrepareControl E s)"
  using PrepareControl_untouched [of s] by (auto simp: ctl_inv_def untouched_def)

lemma PrepareControl_to_come: "to_come (PrepareControl E s) = to_come s"
  using PrepareControl_untouched [of s] by (simp add: to_come_def untouched_def)

lemma CheckSyncInfo_effect:
  "oc_posted (CheckSyncInfo E data s) = oc_posted s \<and> oc_pc (CheckSyncInfo E data s) = oc_pc s
    \<and> (oc_dataQueue (CheckSyncInfo E data s) = oc_dataQueue s \<or> oc_dataQueue (CheckSyncInfo E data s) = [])
    \<and> (ctl_inv bound s \<longrightarrow> ctl_inv bound (CheckSyncInfo E data s))"
proof -
  have "oc_posted t = oc_posted s \<and> oc_pc t = oc_pc s \<and> oc_dataQueue t = [] \<and> (ctl_inv bound s \<longrightarrow> ctl_inv bound t)"
    if t: "t = SetControlMode E mode (s\<lparr>oc_dataQueue := []\<rparr>)" for t mode
    using PrepareControl_untouched [of "s\<lparr>oc_dataQueue := [], oc_mode := mode\<rparr>"]
      PrepareControl_inv [of "s\<lparr>oc_dataQueue := [], oc_mode := mode\<rparr>"] t
    by (auto simp: SetControlMode_def untouched_def ctl_inv_def)
  then show ?thesis by (auto simp: CheckSyncInfo_def Let_def split: option.split)
qed

lemma PushData_effect:
  assumes fresh: "fr_id ` set (accepted data c) \<inter> set (to_come c) = {}"
  shows "subseq (to_come (Output_PushData E now data c)) (to_come c @ map fr_id (accepted data c))"
    and "ctl_inv bound c \<Longrightarrow> ctl_inv bound (Output_PushData E now data c)"
proof -
  define c1 where "c1 = (if length (oc_dataQueue c) > QUEUE_MAX_SIZE then c\<lparr>oc_dataQueue := tl (oc_dataQueue c)\<rparr> else c)"
  define c2 where "c2 = CheckSyncInfo E data c1"
  have t1: "subseq (to_come c1) (to_come c)" by (simp add: c1_def to_come_def pend_tl subseq_same_prefix)
  have e: "oc_posted c2 = oc_posted c1" "oc_pc c2 = oc_pc c1" "oc_dataQueue c2 = oc_dataQueue c1 \<or> oc_dataQueue c2 = []"
    "ctl_inv bound c1 \<longrightarrow> ctl_inv bound c2"
    using CheckSyncInfo_effect [of data c1] by (simp_all add: c2_def)
  have "subseq (to_come c2) (to_come c1)"
    using e by (auto simp: to_come_def pend_clear subseq_same_prefix)
  then have t2: "subseq (to_come c2) (to_come c)" using t1 by (rule subseq_order.trans)
  have i1: "ctl_inv bound c1 \<and> length (oc_dataQueue c1) \<le> QUEUE_MAX_SIZE" if "ctl_inv bound c"
    using that by (auto simp: ctl_inv_def c1_def)
  have "subseq (to_come (Output_PushData E now data c)) (to_come c @ map fr_id (accepted data c))
    \<and> (ctl_inv bound c \<longrightarrow> ctl_inv bound (Output_PushData E now data c))"
  proof (cases "oc_status c = START \<and> Option.bind data fr_meta \<noteq> None")
    case True
    then obtain d meta where d: "data = Some d" "fr_meta d = Some meta" by (cases data) auto
    define g where "g = d\<lparr>fr_meta := Some (meta\<lparr>fm_pushTime := Some now\<rparr>)\<rparr>"
    have p: "Output_PushData E now data c = c2\<lparr>oc_dataQueue := oc_dataQueue c2 @ [g]\<rparr>"
      using True d by (simp add: Output_PushData_def c2_def c1_def g_def Let_def)
    have "set (pend (oc_pc c2) (oc_dataQueue c2)) \<subseteq> set (to_come c)"
      using subseq_set [OF t2] by (simp add: to_come_def)
    then have "fr_id g \<notin> set (pend (oc_pc c2) (oc_dataQueue c2))"
      using fresh d True by (auto simp: accepted_def g_def)
    then have "to_come (Output_PushData E now data c) = to_come c2 @ [fr_id g]"
      by (simp add: p to_come_def pend_append)
    moreover have "accepted data c = [d]" "fr_id g = fr_id d" using True d by (simp_all add: accepted_def g_def)
    moreover have "ctl_inv bound c \<longrightarrow> ctl_inv bound (c2\<lparr>oc_dataQueue := oc_dataQueue c2 @ [g]\<rparr>)"
      using e i1 by (auto simp: ctl_inv_def)
    ultimately show ?thesis using t2 p by (simp add: list_emb_append_mono)
  next
    case False
    then have "Output_PushData E now data c = (if oc_status c = START then c2 else c)"
      by (auto simp: Output_PushData_def c2_def c1_def Let_def split: option.split)
    moreover have "accepted data c = []" using False by (auto simp: accepted_def split: option.split)
    ultimately show ?thesis using t2 e i1 by auto
  qed
  then show "subseq (to_come (Output_PushData E now data c)) (to_come c @ map fr_id (accepted data c))"
    and "ctl_inv bound c \<Longrightarrow> ctl_inv bound (Output_PushData E now data c)" by blast+
qed

lemma world_inv_new: "world_inv bound world_new"
  using bound by (simp add: world_inv_def world_new_def to_come_def OutputController_new_def ctl_inv_def)

lemma world_inv_ctl:
  assumes "world_inv bound w" and "subseq (to_come c) (to_come (ow_ctl w))" and "ctl_inv bound (ow_ctl w) \<Longrightarrow> ctl_inv bound c"
  shows "world_inv bound (w\<lparr>ow_ctl := c\<rparr>)"
  using assms by (auto simp: world_inv_def intro: subseq_order.trans subseq_same_prefix)

lemma world_inv_step:
  assumes "out_step E w w1" and "world_inv bound w"
  shows "world_inv bound w1"
  using assms
proof cases
  case (push data now)
  have "set (to_come (ow_ctl w)) \<subseteq> fr_id ` set (ow_pushed w)"
    using assms(2) subseq_set [of "map fr_id (ow_out w) @ to_come (ow_ctl w)" "map fr_id (ow_pushed w)"] by (simp add: world_inv_def)
  then have f: "fr_id ` set (accepted data (ow_ctl w)) \<inter> set (to_come (ow_ctl w)) = {}" using push(2) by blast
  have "distinct (map fr_id (accepted data (ow_ctl w)))" by (simp add: accepted_def split: option.split)
  moreover have "subseq (map fr_id (ow_out w) @ to_come (Output_PushData E now data (ow_ctl w)))
      (map fr_id (ow_out w) @ to_come (ow_ctl w) @ map fr_id (accepted data (ow_ctl w)))"
    by (intro subseq_same_prefix PushData_effect(1) f)
  moreover have "subseq (map fr_id (ow_out w) @ to_come (ow_ctl w) @ map fr_id (accepted data (ow_ctl w)))
      (map fr_id (ow_pushed w) @ map fr_id (accepted data (ow_ctl w)))"
    using assms(2) by (simp add: world_inv_def list_emb_append_mono flip: append_assoc)
  ultimately show ?thesis using push assms(2) PushData_effect(2) [OF f]
    by (auto simp: world_inv_def intro: subseq_order.trans)
next
  case (handle alive out c)
  have "subseq (map fr_id (opt_list out) @ to_come c) (to_come (ow_ctl w))"
    using handle(2) by (auto simp: LooperHandle_def NotifyOutput_def opt_list_def to_come_def split: list.splits if_splits)
  then have "subseq (map fr_id (ow_out w) @ map fr_id (opt_list out) @ to_come c) (map fr_id (ow_out w) @ to_come (ow_ctl w))"
    by (rule subseq_same_prefix)
  moreover have "ctl_inv bound c"
    using handle(2) assms(2) by (auto simp: world_inv_def ctl_inv_def LooperHandle_def split: list.splits if_splits)
  ultimately show ?thesis using handle(1) assms(2) by (auto simp: world_inv_def intro: subseq_order.trans)
next
  case prepare
  with assms(2) show ?thesis by (auto intro!: world_inv_ctl simp: PrepareControl_to_come PrepareControl_inv)
next
  case control
  with assms(2) bound show ?thesis by (auto intro: world_inv_ctl LooperControl_works)
next
  case start
  with assms(2) show ?thesis
    by (auto intro!: world_inv_ctl simp: StartControl_def to_come_def Let_def ctl_inv_def)
next
  case stop
  with assms(2) show ?thesis
    by (auto intro!: world_inv_ctl simp: StopControl_def to_come_def ctl_inv_def pend_clear subseq_same_prefix)
next
  case released
  with assms(2) show ?thesis
    by (auto intro!: world_inv_ctl simp: release_end_def to_come_def ctl_inv_def split: if_splits)
next
  case set_parameter
  then show ?thesis using assms(2)
    by (auto intro!: world_inv_ctl simp: Output_SetParameter_def to_come_def ctl_inv_def Let_def split: plugin_tag.splits)
qed (use assms(2) in \<open>auto intro!: world_inv_ctl simp: release_begin_def to_come_def ctl_inv_def\<close>)

lemma world_inv_reach: "(out_step E)\<^sup>*\<^sup>* world_new w \<Longrightarrow> world_inv bound w"
  by (induction rule: rtranclp_induct) (auto intro: world_inv_new world_inv_step)

end

section \<open>The controller of a remote screen\<close>

definition dscreen_env :: "'j cjson \<Rightarrow> shm_api \<Rightarrow> (any_value \<Rightarrow> string) \<Rightarrow> 32 word \<Rightarrow> 'j out_env" where
  "dscreen_env cj A any missing = \<lparr> oe_PrepareSmooth = DScreen_PrepareSmooth, oe_PrepareSync = DScreen_PrepareSync, oe_json = cj,
     oe_shm = A, oe_AnyCast = any, oe_missing = missing \<rparr>"

interpretation screen: output_class "dscreen_env cj A any missing" "1000 * NS_ONE_MS" for cj A any missing
  by unfold_locales
    (simp_all add: dscreen_env_def DScreen_PrepareSmooth_def DScreen_PrepareSync_def PrepareSmooth_def PrepareSync_def untouched_def)

text \<open>
  Property C13. Whatever the order in which the threads run, the frames that reach the screen come out in the order in which they
  were pushed, and none of them twice, although a frame stays in the queue while the control thread works on it and the queue is
  cleared, shortened and refilled by other threads meanwhile.
\<close>

theorem frames_come_out_once_in_order:
  assumes "(out_step (dscreen_env cj A any missing))\<^sup>*\<^sup>* world_new w"
  shows "subseq (map fr_id (ow_out w)) (map fr_id (ow_pushed w)) \<and> distinct (map fr_id (ow_out w))"
proof -
  have i: "subseq (map fr_id (ow_out w) @ to_come (ow_ctl w)) (map fr_id (ow_pushed w))" "distinct (map fr_id (ow_pushed w))"
    using screen.world_inv_reach [OF assms] by (simp_all add: world_inv_def)
  have "subseq (map fr_id (ow_out w)) (map fr_id (ow_out w) @ to_come (ow_ctl w))"
    using subseq_same_prefix [of "[]" "to_come (ow_ctl w)" "map fr_id (ow_out w)"] by simp
  then have "subseq (map fr_id (ow_out w)) (map fr_id (ow_pushed w))" using i(1) by (rule subseq_order.trans)
  then show ?thesis using i(2) by (blast intro: subseq_distinct)
qed

text \<open>
  Property C36. The queue never holds more than 101 frames, one more than \<open>QUEUE_MAX_SIZE\<close>, and the control thread never sleeps for a
  negative time or for more than a second before a frame, whatever time stamps the frames have and whatever the clock of the audio says.
\<close>

theorem queue_and_sleep_are_bounded:
  assumes "(out_step (dscreen_env cj A any missing))\<^sup>*\<^sup>* world_new w"
  shows "length (oc_dataQueue (ow_ctl w)) \<le> 101
    \<and> (oc_pc (ow_ctl w) = Sleeping d \<longrightarrow> 0 \<le> oc_sleep (ow_ctl w) \<and> oc_sleep (ow_ctl w) \<le> 1000000000)"
  using screen.world_inv_reach [OF assms] by (simp add: world_inv_def ctl_inv_def)

section \<open>Release\<close>








section \<open>Synchronous mode\<close>

text \<open>
  In synchronous mode a frame may be up to 45 ms behind and 125 ms ahead of the audio. When it is further ahead, the
  sleep is corrected so that the frame comes out 40 ms ahead, the middle of that range. When it is further behind, the correction has
  the wrong sign of the bound: as long as there is sleep to take away, the frame comes out 130 ms ahead, outside the range on the other side.
\<close>

theorem sync_correction_overshoots:
  assumes "fr_meta d \<noteq> None" and "oc_waitClockThre s = 125 * NS_ONE_MS" and "oc_trackClockThre s = 45 * NS_ONE_MS"
    and "oc_sleep s > 0" and "oc_sleep (HandleSyncTime d s) > 0"
  shows "(sync_offset d s > oc_waitClockThre s \<longrightarrow> sync_offset d (HandleSyncTime d s) = 40 * NS_ONE_MS)
    \<and> (sync_offset d s < - oc_trackClockThre s \<longrightarrow>
         sync_offset d (HandleSyncTime d s) = 130 * NS_ONE_MS \<and> sync_offset d (HandleSyncTime d s) > oc_waitClockThre s)"
proof -
  have "sync_offset d (HandleSyncTime d s) = sync_offset d s - (oc_sleep (HandleSyncTime d s) - oc_sleep s)"
    using assms(4,5) by (auto simp: sync_offset_def vcts_def HandleSyncTime_def Let_def split: if_splits)
  moreover have "(170000000 :: int) sdiv 2 = 85000000" by (simp add: signed_divide_int_def)
  ultimately show ?thesis using assms(1-3) by (auto simp: HandleSyncTime_def Let_def)
qed

section \<open>The plugin\<close>






lemma release_begin_simps [simp]:
  "oc_posted (release_begin c) = oc_posted c" "oc_status (release_begin c) = RELEASE"
  "oc_listener (release_begin c) = (oc_listener c \<and> oc_status c = RELEASE)" "oc_running (release_begin c) = (oc_running c \<and> oc_status c = RELEASE)"
  by (simp_all add: release_begin_def)








section \<open>Samples\<close>

definition sample_frame :: "nat \<Rightarrow> int \<Rightarrow> int option \<Rightarrow> frame" where
  "sample_frame i pts t = \<lparr> fr_id = i, fr_pts = pts, fr_empty = False,
     fr_meta = Some \<lparr> fm_aFrameNumber = None, fm_aPts = False, fm_pushTime = t \<rparr> \<rparr>"

lemma sample_frame_sel [simp]:
  "fr_id (sample_frame i pts t) = i" "fr_pts (sample_frame i pts t) = pts" "push_time (sample_frame i pts (Some n)) = n"
  "fr_meta (sample_frame i pts t) = Some \<lparr> fm_aFrameNumber = None, fm_aPts = False, fm_pushTime = t \<rparr>"
  by (simp_all add: sample_frame_def push_time_def)

theorem averages_are_telescoped_witness:
  "ts_averPushInterval (fold Statistician_CalProcessTime
      [sample_frame 1 100 (Some 10), sample_frame 2 200 (Some 30), sample_frame 3 301 (Some 51)] ClearStatistics) = 20
   \<and> ts_averTimeStampInterval (fold Statistician_CalProcessTime
      [sample_frame 1 100 (Some 10), sample_frame 2 200 (Some 30), sample_frame 3 301 (Some 51)] ClearStatistics) = 100"
  using averages_are_telescoped [of "[sample_frame 2 200 (Some 30), sample_frame 3 301 (Some 51)]" "sample_frame 1 100 (Some 10)"]
  by (simp add: timed_def signed_divide_int_def)

definition sample_out_env :: "jnode out_env" where
  "sample_out_env = dscreen_env model_cjson sample_shm (\<lambda>v. []) 0"

definition sample_running :: output_ctl where
  "sample_running = snd (StartControl (PrepareControl sample_out_env (OutputController_new\<lparr>oc_listener := True\<rparr>)))"

definition sample_pushed :: output_ctl where
  "sample_pushed = Output_PushData sample_out_env 5 (Some (sample_frame 7 1000 None)) sample_running"

definition sample_posted :: output_ctl where
  "sample_posted = the (LooperControl sample_out_env [] True 6 8 sample_pushed)"

lemmas sample_out_simps = sample_out_env_def dscreen_env_def sample_running_def StartControl_def PrepareControl_def
  DScreen_PrepareSmooth_def PrepareSmooth_def InitTimeStatistician_def OutputController_new_def Let_def

lemma sample_running_simps [simp]:
  "oc_status sample_running = START" "oc_mode sample_running = SMOOTH" "oc_pc sample_running = At_Queue" "oc_dataQueue sample_running = []"
  "oc_posted sample_running = []" "oc_handler sample_running" "oc_running sample_running" "oc_listener sample_running"
  "oc_isAllowControl sample_running" "\<not> oc_isInDynamicBalance sample_running" "oc_statistician sample_running = Some ClearStatistics"
  "oc_dynamicBalanceThre sample_running = 3"
  by (simp_all add: sample_out_simps)

lemma sample_pushed_eq: "sample_pushed = sample_running\<lparr>oc_dataQueue := [sample_frame 7 1000 (Some 5)]\<rparr>"
  by (simp add: sample_pushed_def Output_PushData_def CheckSyncInfo_def Let_def) (simp add: sample_frame_def)

lemma sample_control:
  "LooperControl sample_out_env [] True 6 8 sample_pushed = Some sample_posted \<and> oc_posted sample_posted = [sample_frame 7 1000 (Some 5)]
    \<and> oc_running sample_posted \<and> oc_listener sample_posted \<and> oc_status sample_posted = START \<and> oc_dataQueue sample_posted = []
    \<and> oc_pc sample_posted = At_Queue"
  by (simp add: sample_posted_def sample_pushed_eq LooperControl_def ControlOutput_def CheckIsClockInvalid_def with_clock_def after_clock_def
      CheckIsProcessInDynamicBalance_def CheckIsProcessInDynamicBalanceOnce_def ClearStatistics_def Output_CalProcessTime_def
      RecordTime_def HandleControlResult_def PostOutputEvent_def pop_if_front_def Let_def)

definition sample_world :: out_world where
  "sample_world = \<lparr> ow_ctl = sample_posted\<lparr>oc_posted := []\<rparr>, ow_pushed = [sample_frame 7 1000 None], ow_out = [sample_frame 7 1000 (Some 5)] \<rparr>"

lemma sample_world_reached: "(out_step sample_out_env)\<^sup>*\<^sup>* world_new sample_world"
proof -
  let ?w = "\<lambda>c p out. \<lparr> ow_ctl = c, ow_pushed = p, ow_out = out \<rparr>"
  let ?c1 = "OutputController_new\<lparr>oc_listener := True\<rparr>"
  let ?f = "sample_frame 7 1000 None"
  have 1: "out_step sample_out_env world_new (?w ?c1 [] [])"
    using out_step.register [of sample_out_env world_new True] by (simp add: world_new_def)
  have 2: "out_step sample_out_env (?w ?c1 [] []) (?w (PrepareControl sample_out_env ?c1) [] [])"
    using out_step.prepare [of sample_out_env "?w ?c1 [] []"] by simp
  have 3: "out_step sample_out_env (?w (PrepareControl sample_out_env ?c1) [] []) (?w sample_running [] [])"
    using out_step.start [of sample_out_env "?w (PrepareControl sample_out_env ?c1) [] []"] by (simp add: sample_running_def)
  have 4: "out_step sample_out_env (?w sample_running [] []) (?w sample_pushed [?f] [])"
    using out_step.push [of "Some ?f" "?w sample_running [] []" sample_out_env 5] by (simp add: accepted_def sample_pushed_def)
  have 5: "out_step sample_out_env (?w sample_pushed [?f] []) (?w sample_posted [?f] [])"
    using out_step.control [of sample_out_env "[]" True 6 8 "?w sample_pushed [?f] []"] sample_control by simp
  have 6: "out_step sample_out_env (?w sample_posted [?f] []) sample_world"
    using out_step.handle [of True "?w sample_posted [?f] []" "Some (sample_frame 7 1000 (Some 5))" "sample_posted\<lparr>oc_posted := []\<rparr>" sample_out_env]
      sample_control by (simp add: LooperHandle_def NotifyOutput_def opt_list_def sample_world_def)
  from 1 2 3 4 5 6 show ?thesis by (meson converse_rtranclp_into_rtranclp rtranclp.rtrancl_refl)
qed

theorem frames_come_out_once_in_order_witness:
  "map fr_id (ow_out sample_world) = [7] \<and> subseq (map fr_id (ow_out sample_world)) (map fr_id (ow_pushed sample_world))
    \<and> distinct (map fr_id (ow_out sample_world))"
  using frames_come_out_once_in_order [OF sample_world_reached [unfolded sample_out_env_def]] by (simp add: sample_world_def)

theorem queue_and_sleep_are_bounded_witness: "length (oc_dataQueue (ow_ctl sample_world)) \<le> 101"
  using queue_and_sleep_are_bounded [OF sample_world_reached [unfolded sample_out_env_def]] by blast




definition sample_late :: output_ctl where
  "sample_late = (DScreen_PrepareSync OutputController_new)\<lparr>oc_mode := SYNC, oc_aBack := 0, oc_sleep := 500 * NS_ONE_MS, oc_clockTime := 50 * NS_ONE_MS\<rparr>"

theorem sync_correction_overshoots_witness:
  "sync_offset (sample_frame 7 (500 * NS_ONE_MS) None) sample_late = - 50 * NS_ONE_MS
   \<and> sync_offset (sample_frame 7 (500 * NS_ONE_MS) None) (HandleSyncTime (sample_frame 7 (500 * NS_ONE_MS) None) sample_late) = 130 * NS_ONE_MS"
proof -
  have o: "sync_offset (sample_frame 7 (500 * NS_ONE_MS) None) sample_late = - 50 * NS_ONE_MS"
    by (simp add: sync_offset_def vcts_def sample_late_def DScreen_PrepareSync_def PrepareSync_def OutputController_new_def)
  have s: "oc_waitClockThre sample_late = 125 * NS_ONE_MS" "oc_trackClockThre sample_late = 45 * NS_ONE_MS" "oc_sleep sample_late > 0"
    by (simp_all add: sample_late_def DScreen_PrepareSync_def)
  have p: "oc_sleep (HandleSyncTime (sample_frame 7 (500 * NS_ONE_MS) None) sample_late) > 0"
    by (simp add: HandleSyncTime_def sync_offset_def vcts_def sample_late_def DScreen_PrepareSync_def PrepareSync_def OutputController_new_def
        signed_divide_int_def Let_def)
  show ?thesis using sync_correction_overshoots [OF _ s p] o s by simp
qed



end
