(* ===== verification/DHF_AvPlugin.thy ===== *)
theory DHF_AvPlugin
  imports DHF_AvOutput
begin

text \<open>
  The plugins at the two ends of the media pipeline: those that take frames in and number them (\<open>daudio_input_plugin.cpp\<close>,
  \<open>dscreen_input_plugin.cpp\<close>), those that send them over the soft bus (\<open>dsoftbus_output_plugin.cpp\<close>, \<open>dsoftbus_output_audio_plugin.cpp\<close>), those
  that receive them (\<open>dsoftbus_input_plugin.cpp\<close>, \<open>dsoftbus_input_audio_plugin.cpp\<close>) and the one that plays audio and keeps the clock
  (\<open>daudio_output_plugin.cpp\<close>).

  A buffer of the media library has the parts that this code reads; making one with memory, writing into it and copying it are the
  library's, and so are the numbers of the two types of meta data and the conversion of an \<open>Any\<close>. The pointer \<open>bufferPopTask_\<close> is \<open>None\<close> or whether
  the task runs; its thread takes one frame in a step. Files of the dump are not modelled, the flags that ask for it are. The
  result \<open>None\<close> of a step is a crash.
\<close>

abbreviation (input) DATA_QUEUE_MAX_SIZE :: nat where "DATA_QUEUE_MAX_SIZE \<equiv> 1000"
abbreviation (input) SENDER_DATA_SESSION_NAME_SUFFIX :: string where "SENDER_DATA_SESSION_NAME_SUFFIX \<equiv> ''sender.avtrans.data''"
abbreviation (input) RECEIVER_DATA_SESSION_NAME_SUFFIX :: string where "RECEIVER_DATA_SESSION_NAME_SUFFIX \<equiv> ''receiver.avtrans.data''"
abbreviation (input) AVT_DATA_META_TYPE :: string where "AVT_DATA_META_TYPE \<equiv> ''avtrans_data_meta_type''"
abbreviation (input) AVT_DATA_PARAM :: string where "AVT_DATA_PARAM \<equiv> ''avtrans_data_param''"
abbreviation (input) DEFAULT_FRAME_NUMBER :: "32 word" where "DEFAULT_FRAME_NUMBER \<equiv> 100"
abbreviation (input) DEFAULT_PTS :: int where "DEFAULT_PTS \<equiv> 100"

section \<open>Buffers\<close>

text \<open>The tags are \<open>USER_FRAME_NUMBER\<close>, \<open>USER_FRAME_PTS\<close>, \<open>MEDIA_START_TIME\<close> and \<open>AUDIO_SAMPLE_PER_FRAME\<close>.\<close>

record mbuf_meta =
  mt_type :: "32 word"
  mt_frameNumber :: "32 word option"
  mt_framePts :: "int option"
  mt_startTime :: "int option"
  mt_samples :: "32 word option"

record mbuf =
  mb_pts :: int
  mb_empty :: bool
  mb_memory :: "string option"
  mb_meta :: "mbuf_meta option"

record buffer_api =
  bu_AUDIO :: "32 word"
  bu_VIDEO :: "32 word"
  bu_CreateDefaultBuffer :: "32 word \<Rightarrow> nat \<Rightarrow> mbuf"
  bu_Write :: "string \<Rightarrow> mbuf \<Rightarrow> nat \<times> mbuf"
  bu_copy :: "mbuf \<Rightarrow> mbuf"
  bu_missing :: "32 word"

record 'j plugin_env =
  pv_buffer :: buffer_api
  pv_json :: "'j cjson"
  pv_shm :: shm_api
  pv_string :: "any_value \<Rightarrow> string"
  pv_bool :: "any_value \<Rightarrow> bool"
  pv_int :: "any_value \<Rightarrow> int"

text \<open>\<open>std::map::insert\<close> of a parameter, and the queue of frames: the oldest are dropped while it is full.\<close>

definition insert_param :: "plugin_tag \<Rightarrow> any_value \<Rightarrow> (plugin_tag \<rightharpoonup> any_value) \<Rightarrow> (plugin_tag \<rightharpoonup> any_value)" where
  "insert_param tag v m = (case m tag of None \<Rightarrow> m(tag \<mapsto> v) | Some _ \<Rightarrow> m)"

definition find_param :: "plugin_tag \<Rightarrow> any_value \<Rightarrow> (plugin_tag \<rightharpoonup> any_value) \<Rightarrow> out_result \<times> any_value" where
  "find_param tag old m = (case m tag of Some v \<Rightarrow> (OUT_OK, v) | None \<Rightarrow> (OUT_NOT_EXISTED, old))"

fun make_room :: "'a list \<Rightarrow> 'a list" where
  "make_room [] = []"
| "make_room (x # q) = (if length (x # q) \<ge> DATA_QUEUE_MAX_SIZE then make_room q else x # q)"

definition memory_set :: "shared_memory \<Rightarrow> bool" where
  "memory_set m \<longleftrightarrow> sm_fd m > 0 \<and> sm_size m > 0 \<and> sm_name m \<noteq> []"

section \<open>Taking frames in\<close>

record capture_plugin =
  cp_frameNumber :: "32 word"
  cp_paramsMap :: "plugin_tag \<rightharpoonup> any_value"
  cp_sharedMemory :: shared_memory

definition Capture_Init :: "capture_plugin \<Rightarrow> capture_plugin" where
  "Capture_Init p = p\<lparr>cp_frameNumber := 0\<rparr>"

definition Capture_Reset :: "capture_plugin \<Rightarrow> capture_plugin" where
  "Capture_Reset p = p\<lparr>cp_paramsMap := Map.empty, cp_frameNumber := 0\<rparr>"

definition DaudioInput_Pause :: "'j plugin_env \<Rightarrow> capture_plugin \<times> segments \<Rightarrow> capture_plugin \<times> segments" where
  "DaudioInput_Pause V = (\<lambda>(p, ss).
     (p, if memory_set (cp_sharedMemory p) then snd (ResetSharedMemory (pv_shm V) (cp_sharedMemory p) ss) else ss))"

definition Capture_GetParameter :: "plugin_tag \<Rightarrow> any_value \<Rightarrow> capture_plugin \<Rightarrow> out_result \<times> any_value" where
  "Capture_GetParameter tag old p = find_param tag old (cp_paramsMap p)"

definition Capture_SetParameter :: "'j plugin_env \<Rightarrow> plugin_tag \<Rightarrow> any_value \<Rightarrow> capture_plugin \<Rightarrow> capture_plugin" where
  "Capture_SetParameter V tag v p =
     (let p1 = p\<lparr>cp_paramsMap := insert_param tag v (cp_paramsMap p)\<rparr> in
      if tag = PT_USER_SHARED_MEMORY_FD then p1\<lparr>cp_sharedMemory := UnmarshalSharedMemory (pv_json V) (pv_string V v)\<rparr> else p1)"

text \<open>An audio frame gets the time of the machine and its number, which the video on this device reads.\<close>

definition DaudioInput_PushData ::
  "'j plugin_env \<Rightarrow> int \<Rightarrow> mbuf option \<Rightarrow> capture_plugin \<times> segments \<Rightarrow> (out_result \<times> mbuf option \<times> capture_plugin \<times> segments) option" where
  "DaudioInput_PushData V now buffer = (\<lambda>(p, ss).
     case buffer of
       None \<Rightarrow> Some (OUT_NULL_POINTER, None, p, ss)
     | Some b \<Rightarrow>
         if mb_empty b then Some (OUT_INVALID_PARAMETER, Some b, p, ss)
         else case mb_meta b of
           None \<Rightarrow> Some (OUT_NULL_POINTER, Some b, p, ss)
         | Some m \<Rightarrow>
             if mt_type m \<noteq> bu_AUDIO (pv_buffer V) then Some (OUT_INVALID_PARAMETER, Some b, p, ss)
             else if mb_memory b = None then None
             else let n = cp_frameNumber p + 1; p1 = p\<lparr>cp_frameNumber := n\<rparr>;
                      b1 = b\<lparr>mb_pts := now, mb_meta := Some (m\<lparr>mt_framePts := Some now, mt_frameNumber := Some n\<rparr>)\<rparr>
                  in if memory_set (cp_sharedMemory p)
                     then map_option (\<lambda>(r, ss1). (OUT_OK, Some b1, p1, ss1))
                            (WriteFrameInfoToMemory (pv_shm V) (cp_sharedMemory p) n (of_int now) ss)
                     else Some (OUT_OK, Some b1, p1, ss))"

text \<open>A video frame gets its number, and the number and the time of the audio frame that was taken in last.\<close>

definition DscreenInput_PushData ::
  "'j plugin_env \<Rightarrow> mbuf option \<Rightarrow> capture_plugin \<times> segments \<Rightarrow> (out_result \<times> mbuf option \<times> capture_plugin) option" where
  "DscreenInput_PushData V buffer = (\<lambda>(p, ss).
     case buffer of
       None \<Rightarrow> Some (OUT_NULL_POINTER, None, p)
     | Some b \<Rightarrow>
         if mb_empty b then Some (OUT_NULL_POINTER, Some b, p)
         else case mb_meta b of
           None \<Rightarrow> Some (OUT_NULL_POINTER, Some b, p)
         | Some m \<Rightarrow>
             if mt_type m \<noteq> bu_VIDEO (pv_buffer V) then Some (OUT_NULL_POINTER, Some b, p)
             else let n = cp_frameNumber p + 1; p1 = p\<lparr>cp_frameNumber := n\<rparr>; m1 = m\<lparr>mt_frameNumber := Some n\<rparr>;
                      b1 = b\<lparr>mb_meta := Some m1\<rparr>
                  in if mb_memory b = None then Some (OUT_NULL_POINTER, Some b1, p1)
                     else if \<not> memory_set (cp_sharedMemory p) then Some (OUT_OK, Some b1, p1)
                     else case ReadFrameInfoFromMemory (pv_shm V) (cp_sharedMemory p) (0, 0) ss of
                       None \<Rightarrow> None
                     | Some (r, audioFrameNum, audioTimestamp) \<Rightarrow>
                         if r = DH_AVT_SUCCESS \<and> audioFrameNum > 0 \<and> sint audioTimestamp > 0
                         then Some (OUT_OK, Some (b1\<lparr>mb_meta := Some (m1\<lparr>mt_startTime := Some (sint audioTimestamp),
                                mt_samples := Some audioFrameNum\<rparr>)\<rparr>), p1)
                         else Some (OUT_OK, Some b1, p1))"

section \<open>Plugins on the soft bus\<close>

record sb_plugin =
  sp_self :: nat
  sp_ownerName :: string
  sp_sessionName :: string
  sp_peerDevId :: string
  sp_state :: plugin_state
  sp_bufferPopTask :: "bool option"
  sp_dataQueue :: "mbuf option list"
  sp_paramsMap :: "plugin_tag \<rightharpoonup> any_value"
  sp_eventsCb :: bool
  sp_dataCb :: bool
  sp_isrunning :: bool
  sp_dumpFlag :: bool
  sp_reDumpFlag :: bool
  sp_channels :: "32 word"
  sp_sampleRate :: "32 word"

definition sb_plugin_new :: "nat \<Rightarrow> sb_plugin" where
  "sb_plugin_new self = \<lparr> sp_self = self, sp_ownerName = [], sp_sessionName = [], sp_peerDevId = [], sp_state = CREATED,
     sp_bufferPopTask = None, sp_dataQueue = [], sp_paramsMap = Map.empty, sp_eventsCb = False, sp_dataCb = False, sp_isrunning = False,
     sp_dumpFlag = False, sp_reDumpFlag = False, sp_channels = 0, sp_sampleRate = 0 \<rparr>"

definition VideoPlugin_Init :: "sb_plugin \<Rightarrow> out_result \<times> sb_plugin" where
  "VideoPlugin_Init p = (OUT_OK, p\<lparr>sp_dumpFlag := False, sp_reDumpFlag := False, sp_state := INITIALIZED\<rparr>)"

definition AudioPlugin_Init :: "sb_plugin \<Rightarrow> out_result \<times> sb_plugin" where
  "AudioPlugin_Init p = (OUT_OK, p\<lparr>sp_state := INITIALIZED\<rparr>)"

definition SbPlugin_GetParameter :: "plugin_tag \<Rightarrow> any_value \<Rightarrow> sb_plugin \<Rightarrow> out_result \<times> any_value" where
  "SbPlugin_GetParameter tag old p = find_param tag old (sp_paramsMap p)"

definition AudioPlugin_SetParameter :: "'j plugin_env \<Rightarrow> plugin_tag \<Rightarrow> any_value \<Rightarrow> sb_plugin \<Rightarrow> out_result \<times> sb_plugin" where
  "AudioPlugin_SetParameter V tag v p =
     (let (owner, peer) = (if tag = PT_MEDIA_DESCRIPTION
            then ParseChannelDescription (pv_json V) (pv_string V v) (sp_ownerName p, sp_peerDevId p) else (sp_ownerName p, sp_peerDevId p))
      in (OUT_OK, p\<lparr>sp_ownerName := owner, sp_peerDevId := peer, sp_paramsMap := insert_param tag v (sp_paramsMap p)\<rparr>))"

definition VideoPlugin_SetParameter :: "'j plugin_env \<Rightarrow> plugin_tag \<Rightarrow> any_value \<Rightarrow> sb_plugin \<Rightarrow> out_result \<times> sb_plugin" where
  "VideoPlugin_SetParameter V tag v p =
     (let (r, p1) = AudioPlugin_SetParameter V tag v p;
          p2 = if tag = PT_SECTION_USER_SPECIFIC_START then p1\<lparr>sp_dumpFlag := pv_bool V v\<rparr> else p1
      in (r, if tag = PT_SECTION_VIDEO_SPECIFIC_START then p2\<lparr>sp_reDumpFlag := pv_bool V v\<rparr> else p2))"

definition OutPlugin_SetCallback :: "bool \<Rightarrow> sb_plugin \<Rightarrow> out_result \<times> sb_plugin" where
  "OutPlugin_SetCallback cb p = (if \<not> cb then (OUT_INVALID_OPERATION, p) else (OUT_OK, p\<lparr>sp_eventsCb := True\<rparr>))"

definition InPlugin_SetCallback :: "bool \<Rightarrow> sb_plugin \<Rightarrow> out_result \<times> sb_plugin" where
  "InPlugin_SetCallback cb p = (if \<not> cb then (OUT_NULL_POINTER, p) else (OUT_OK, p\<lparr>sp_eventsCb := True\<rparr>))"

definition InPlugin_SetDataCallback :: "bool \<Rightarrow> sb_plugin \<Rightarrow> out_result \<times> sb_plugin" where
  "InPlugin_SetDataCallback callable p = (OUT_OK, p\<lparr>sp_dataCb := callable\<rparr>)"

text \<open>The events that are passed on to the callback; the text is the same in the four classes.\<close>

definition SbPlugin_OnChannelEvent :: "av_event \<Rightarrow> sb_plugin \<Rightarrow> plugin_event list" where
  "SbPlugin_OnChannelEvent event p =
     (if \<not> sp_eventsCb p then []
      else case ev_type event of
        EVENT_CHANNEL_OPENED \<Rightarrow> [PLUGIN_CHANNEL_OPENED]
      | EVENT_CHANNEL_OPEN_FAIL \<Rightarrow> [PLUGIN_CHANNEL_OPEN_FAIL]
      | EVENT_CHANNEL_CLOSED \<Rightarrow> [PLUGIN_CHANNEL_CLOSED]
      | _ \<Rightarrow> [])"

subsection \<open>Sending\<close>

type_synonym 'h sb_state = "sb_plugin \<times> 'h channels"

definition VideoOut_Prepare :: "sb_plugin \<Rightarrow> out_result \<times> sb_plugin" where
  "VideoOut_Prepare p =
     (if sp_state p \<noteq> INITIALIZED then (OUT_WRONG_STATE, p)
      else (OUT_OK, p\<lparr>sp_sessionName := sp_ownerName p @ ''_'' @ SENDER_DATA_SESSION_NAME_SUFFIX,
              sp_bufferPopTask := (case sp_bufferPopTask p of None \<Rightarrow> Some False | Some r \<Rightarrow> Some r), sp_state := PREPARED\<rparr>))"

definition AudioOut_Prepare :: "'j plugin_env \<Rightarrow> sb_plugin \<Rightarrow> out_result \<times> sb_plugin" where
  "AudioOut_Prepare V p =
     (if sp_state p \<noteq> INITIALIZED then (OUT_WRONG_STATE, p)
      else let p1 = p\<lparr>sp_sessionName := sp_ownerName p @ ''_'' @ SENDER_DATA_SESSION_NAME_SUFFIX,
                      sp_bufferPopTask := (case sp_bufferPopTask p of None \<Rightarrow> Some False | Some r \<Rightarrow> Some r)\<rparr>
           in case sp_paramsMap p PT_AUDIO_CHANNELS of
                None \<Rightarrow> (OUT_UNKNOWN, p1)
              | Some channels \<Rightarrow>
                  (let p2 = p1\<lparr>sp_channels := of_int (pv_int V channels)\<rparr> in
                   case sp_paramsMap p PT_AUDIO_SAMPLE_RATE of
                     None \<Rightarrow> (OUT_UNKNOWN, p2)
                   | Some rate \<Rightarrow> (OUT_OK, p2\<lparr>sp_sampleRate := of_int (pv_int V rate), sp_state := PREPARED\<rparr>)))"

definition Out_OpenSoftbusChannel :: "'h av_bus \<Rightarrow> 'h sb_state \<Rightarrow> out_result \<times> 'h sb_state" where
  "Out_OpenSoftbusChannel B = (\<lambda>(p, a, h).
     let (r, a1) = RegisterChannelListener (sp_sessionName p) (sp_peerDevId p) (Some (sp_self p)) a in
     if r \<noteq> DH_AVT_SUCCESS then (OUT_INVALID_OPERATION, p, a1, h)
     else let (r1, ch) = OpenSoftbusChannel B (sp_sessionName p) (sp_ownerName p @ ''_'' @ RECEIVER_DATA_SESSION_NAME_SUFFIX) (sp_peerDevId p) (a1, h)
          in (if r1 \<noteq> DH_AVT_SUCCESS \<and> r1 \<noteq> ERR_DH_AVT_SESSION_HAS_OPENED then OUT_INVALID_OPERATION else OUT_OK, p, ch))"

definition Out_CloseSoftbusChannel :: "'h av_bus \<Rightarrow> 'h sb_state \<Rightarrow> 'h sb_state" where
  "Out_CloseSoftbusChannel B = (\<lambda>(p, ch). (p, snd (CloseSoftbusChannel B (sp_sessionName p) (sp_peerDevId p) ch)))"

definition VideoOut_Start :: "'h av_bus \<Rightarrow> 'h sb_state \<Rightarrow> out_result \<times> 'h sb_state" where
  "VideoOut_Start B = (\<lambda>(p, ch).
     if sp_state p \<noteq> PREPARED then (OUT_WRONG_STATE, p, ch)
     else let (r, p1, ch1) = Out_OpenSoftbusChannel B (p, ch) in
       if r \<noteq> OUT_OK then (OUT_INVALID_OPERATION, p1, ch1)
       else (OUT_OK, p1\<lparr>sp_dataQueue := [], sp_bufferPopTask := map_option (\<lambda>_. True) (sp_bufferPopTask p1), sp_state := RUNNING\<rparr>, ch1))"

definition VideoOut_Stop :: "'h av_bus \<Rightarrow> 'h sb_state \<Rightarrow> out_result \<times> 'h sb_state" where
  "VideoOut_Stop B = (\<lambda>(p, ch).
     if sp_state p \<noteq> RUNNING then (OUT_WRONG_STATE, p, ch)
     else (OUT_OK, Out_CloseSoftbusChannel B
             (p\<lparr>sp_state := PREPARED, sp_bufferPopTask := map_option (\<lambda>_. False) (sp_bufferPopTask p), sp_dataQueue := []\<rparr>, ch)))"

definition VideoOut_Reset :: "'h sb_state \<Rightarrow> out_result \<times> 'h sb_state" where
  "VideoOut_Reset = (\<lambda>(p, a, h).
     (OUT_OK, p\<lparr>sp_paramsMap := Map.empty, sp_bufferPopTask := None, sp_dataQueue := [], sp_eventsCb := False, sp_state := INITIALIZED\<rparr>,
      snd (UnRegisterChannelListener (sp_sessionName p) (sp_peerDevId p) a), h))"

definition AudioOut_Start :: "'h av_bus \<Rightarrow> 'h sb_state \<Rightarrow> out_result \<times> 'h sb_state" where
  "AudioOut_Start = VideoOut_Start"

definition AudioOut_Stop :: "'h av_bus \<Rightarrow> 'h sb_state \<Rightarrow> out_result \<times> 'h sb_state" where
  "AudioOut_Stop = VideoOut_Stop"

text \<open>The audio plugin removes a channel server that it never made.\<close>

definition AudioOut_Reset :: "'h av_bus \<Rightarrow> 'h sb_state \<Rightarrow> out_result \<times> 'h sb_state" where
  "AudioOut_Reset B = (\<lambda>(p, ch).
     VideoOut_Reset (p, snd (RemoveChannelServer B (TransName2PkgName (sp_ownerName p)) (sp_sessionName p) ch)))"

definition VideoOut_PushData :: "mbuf option \<Rightarrow> sb_plugin \<Rightarrow> out_result \<times> sb_plugin" where
  "VideoOut_PushData buffer p =
     (case buffer of
        None \<Rightarrow> (OUT_NULL_POINTER, p)
      | Some b \<Rightarrow>
          if mb_empty b then (OUT_NULL_POINTER, p)
          else (OUT_OK, p\<lparr>sp_reDumpFlag := False, sp_dataQueue := make_room (sp_dataQueue p) @ [Some b]\<rparr>))"

definition AudioOut_PushData :: "'j plugin_env \<Rightarrow> mbuf option \<Rightarrow> sb_plugin \<Rightarrow> (out_result \<times> sb_plugin) option" where
  "AudioOut_PushData V buffer p =
     (case buffer of
        None \<Rightarrow> Some (OUT_NULL_POINTER, p)
      | Some b \<Rightarrow>
          if mb_empty b \<or> mb_memory b = None then Some (OUT_NULL_POINTER, p)
          else if mb_meta b = None then None
          else Some (OUT_OK, p\<lparr>sp_dataQueue := make_room (sp_dataQueue p) @ [Some (bu_copy (pv_buffer V) b)]\<rparr>))"

text \<open>The text that goes with a frame, and the sending of a frame.\<close>

definition frame_text :: "'j cjson \<Rightarrow> 32 word \<Rightarrow> string \<Rightarrow> string option" where
  "frame_text cj metaType param =
     (case cJSON_CreateObject cj of
        None \<Rightarrow> None
      | Some j \<Rightarrow>
          map_option c_str (cJSON_PrintUnformatted cj
            (cJSON_AddStringToObject cj (cJSON_AddNumberToObject cj j AVT_DATA_META_TYPE (of_nat (unat metaType))) AVT_DATA_PARAM (c_str param))))"

definition opt_or :: "'a \<Rightarrow> 'a option \<Rightarrow> 'a" where
  "opt_or x y = (case y of None \<Rightarrow> x | Some v \<Rightarrow> v)"

definition sent_video_meta :: "'j plugin_env \<Rightarrow> mbuf \<Rightarrow> mbuf_meta \<Rightarrow> video_meta" where
  "sent_video_meta V b m = video_meta_new\<lparr>vi_frameNum := opt_or (bu_missing (pv_buffer V)) (mt_frameNumber m), vi_pts := mb_pts b,
     vi_extPts := opt_or (vi_extPts video_meta_new) (mt_startTime m), vi_extFrameNum := opt_or (vi_extFrameNum video_meta_new) (mt_samples m)\<rparr>"

definition sent_audio_meta :: "mbuf_meta \<Rightarrow> audio_meta" where
  "sent_audio_meta m = audio_meta_new\<lparr>au_frameNum := opt_or DEFAULT_FRAME_NUMBER (mt_frameNumber m), au_pts := opt_or DEFAULT_PTS (mt_framePts m)\<rparr>"

definition send_frame :: "'h av_bus \<Rightarrow> (mbuf_meta \<Rightarrow> string option) \<Rightarrow> mbuf \<Rightarrow> 'h sb_state \<Rightarrow> 'h sb_state" where
  "send_frame B ext b = (\<lambda>(p, a, h).
     case (mb_meta b, mb_memory b) of
       (Some m, Some d) \<Rightarrow>
         (case ext m of
            None \<Rightarrow> (p, a, h)
          | Some e \<Rightarrow> (p, a, snd (SendStreamData B (sp_sessionName p) (sp_peerDevId p) (Some d) (Some e) (a, h))))
     | _ \<Rightarrow> (p, a, h))"

definition VideoOut_SendDataToSoftbus :: "'j plugin_env \<Rightarrow> 'h av_bus \<Rightarrow> mbuf \<Rightarrow> 'h sb_state \<Rightarrow> 'h sb_state" where
  "VideoOut_SendDataToSoftbus V B b = send_frame B (\<lambda>m.
     if mt_type m \<noteq> bu_VIDEO (pv_buffer V) then None
     else frame_text (pv_json V) (mt_type m) (MarshalVideoMeta (pv_json V) (sent_video_meta V b m))) b"

definition AudioOut_SendDataToSoftbus :: "'j plugin_env \<Rightarrow> 'h av_bus \<Rightarrow> mbuf \<Rightarrow> 'h sb_state \<Rightarrow> 'h sb_state" where
  "AudioOut_SendDataToSoftbus V B b = send_frame B (\<lambda>m.
     if mt_type m \<noteq> bu_AUDIO (pv_buffer V) then None
     else frame_text (pv_json V) (mt_type m) (MarshalAudioMeta (pv_json V) (sent_audio_meta m))) b"

text \<open>One round of the loop of \<open>FeedChannelData\<close>, which takes a frame off the queue and sends it.\<close>

definition FeedChannelData :: "(mbuf \<Rightarrow> 'h sb_state \<Rightarrow> 'h sb_state) \<Rightarrow> 'h sb_state \<Rightarrow> 'h sb_state" where
  "FeedChannelData send = (\<lambda>(p, ch).
     if sp_state p \<noteq> RUNNING \<or> sp_bufferPopTask p \<noteq> Some True then (p, ch)
     else case sp_dataQueue p of
       [] \<Rightarrow> (p, ch)
     | None # rest \<Rightarrow> (p\<lparr>sp_dataQueue := rest\<rparr>, ch)
     | Some b # rest \<Rightarrow> send b (p\<lparr>sp_dataQueue := rest\<rparr>, ch))"

subsection \<open>Receiving\<close>

definition VideoIn_Prepare :: "'h av_bus \<Rightarrow> 'h sb_state \<Rightarrow> out_result \<times> 'h sb_state" where
  "VideoIn_Prepare B = (\<lambda>(p, a, h).
     if sp_state p \<noteq> INITIALIZED then (OUT_WRONG_STATE, p, a, h)
     else let p1 = p\<lparr>sp_sessionName := sp_ownerName p @ ''_'' @ RECEIVER_DATA_SESSION_NAME_SUFFIX\<rparr>;
              (r, a1) = RegisterChannelListener (sp_sessionName p1) (sp_peerDevId p1) (Some (sp_self p1)) a
          in if r \<noteq> DH_AVT_SUCCESS then (OUT_INVALID_OPERATION, p1, a1, h)
             else let (r1, ch) = CreateChannelServer B (TransName2PkgName (sp_ownerName p1)) (sp_sessionName p1) (a1, h)
                  in if r1 \<noteq> DH_AVT_SUCCESS then (OUT_INVALID_OPERATION, p1, ch)
                     else (OUT_OK, p1\<lparr>sp_bufferPopTask := (case sp_bufferPopTask p1 of None \<Rightarrow> Some False | Some t \<Rightarrow> Some t), sp_state := PREPARED\<rparr>, ch))"

definition AudioIn_Prepare :: "'h av_bus \<Rightarrow> 'h sb_state \<Rightarrow> out_result \<times> 'h sb_state" where
  "AudioIn_Prepare = VideoIn_Prepare"

definition VideoIn_Start :: "sb_plugin \<Rightarrow> out_result \<times> sb_plugin" where
  "VideoIn_Start p =
     (if sp_state p \<noteq> PREPARED then (OUT_WRONG_STATE, p)
      else (OUT_OK, p\<lparr>sp_dataQueue := [], sp_isrunning := True, sp_bufferPopTask := map_option (\<lambda>_. True) (sp_bufferPopTask p),
              sp_state := RUNNING\<rparr>))"

definition VideoIn_Stop :: "sb_plugin \<Rightarrow> out_result \<times> sb_plugin" where
  "VideoIn_Stop p =
     (if sp_state p \<noteq> RUNNING then (OUT_WRONG_STATE, p)
      else (OUT_OK, p\<lparr>sp_state := PREPARED, sp_isrunning := False, sp_bufferPopTask := map_option (\<lambda>_. False) (sp_bufferPopTask p),
              sp_dataQueue := []\<rparr>))"

definition AudioIn_Start :: "sb_plugin \<Rightarrow> out_result \<times> sb_plugin" where
  "AudioIn_Start = VideoIn_Start"

definition AudioIn_Stop :: "sb_plugin \<Rightarrow> out_result \<times> sb_plugin" where
  "AudioIn_Stop = VideoIn_Stop"

text \<open>\<open>Reset\<close>: the callbacks go first; the task is stopped and its thread joined after that.\<close>

definition in_reset_callbacks :: "sb_plugin \<Rightarrow> sb_plugin" where
  "in_reset_callbacks p = p\<lparr>sp_eventsCb := False, sp_dataCb := False, sp_paramsMap := Map.empty\<rparr>"

definition in_reset_rest :: "'h av_bus \<Rightarrow> 'h sb_state \<Rightarrow> 'h sb_state" where
  "in_reset_rest B = (\<lambda>(p, ch).
     let p1 = (if sp_bufferPopTask p = None then p else p\<lparr>sp_isrunning := False, sp_bufferPopTask := None\<rparr>);
         (a1, h1) = snd (RemoveChannelServer B (TransName2PkgName (sp_ownerName p1)) (sp_sessionName p1) ch)
     in (p1\<lparr>sp_dataQueue := [], sp_state := INITIALIZED\<rparr>, snd (UnRegisterChannelListener (sp_sessionName p1) (sp_peerDevId p1) a1), h1))"

definition VideoIn_Reset :: "'h av_bus \<Rightarrow> 'h sb_state \<Rightarrow> out_result \<times> 'h sb_state" where
  "VideoIn_Reset B = (\<lambda>(p, ch). (OUT_OK, in_reset_rest B (in_reset_callbacks p, ch)))"

definition AudioIn_Reset :: "'h av_bus \<Rightarrow> 'h sb_state \<Rightarrow> out_result \<times> 'h sb_state" where
  "AudioIn_Reset = VideoIn_Reset"

text \<open>
  \<open>CreateBuffer\<close>: \<open>Some None\<close> is the null pointer it returns. A buffer into which the data could not be written is returned as it is.
\<close>

definition create_buffer ::
  "'j plugin_env \<Rightarrow> (string \<Rightarrow> mbuf \<Rightarrow> mbuf_meta \<Rightarrow> mbuf option) \<Rightarrow> mbuf option option \<Rightarrow> 32 word \<Rightarrow> string option \<Rightarrow> 'j \<Rightarrow> mbuf option option" where
  "create_buffer V fill unwritable metaType data resMsg =
     (case data of
        None \<Rightarrow> Some None
      | Some d \<Rightarrow>
          (let b = bu_CreateDefaultBuffer (pv_buffer V) metaType (length d) in
           if mb_memory b = None then unwritable
           else let (writeSize, b1) = bu_Write (pv_buffer V) d b in
             if writeSize \<noteq> length d then Some (Some b1)
             else case cJSON_GetObjectItem (pv_json V) resMsg AVT_DATA_PARAM of
               None \<Rightarrow> Some None
             | Some paramItem \<Rightarrow>
                 if \<not> cJSON_IsString (pv_json V) paramItem then Some None
                 else case mb_meta b1 of
                   None \<Rightarrow> None
                 | Some m \<Rightarrow> Some (fill (c_str (valuestring (pv_json V) paramItem)) b1 m)))"

definition VideoIn_CreateBuffer :: "'j plugin_env \<Rightarrow> 32 word \<Rightarrow> string option \<Rightarrow> 'j \<Rightarrow> mbuf option option" where
  "VideoIn_CreateBuffer V = create_buffer V (\<lambda>param b m.
     let (ok, meta) = UnmarshalVideoMeta (pv_json V) param video_meta_new in
     if \<not> ok then None
     else let m1 = m\<lparr>mt_frameNumber := Some (vi_frameNum meta)\<rparr>;
              m2 = if vi_extFrameNum meta > 0 \<and> vi_extPts meta > 0
                   then m1\<lparr>mt_startTime := Some (vi_extPts meta), mt_samples := Some (vi_extFrameNum meta)\<rparr> else m1
          in Some (b\<lparr>mb_pts := vi_pts meta, mb_meta := Some m2\<rparr>)) (Some None)"

definition AudioIn_CreateBuffer :: "'j plugin_env \<Rightarrow> 32 word \<Rightarrow> string option \<Rightarrow> 'j \<Rightarrow> mbuf option option" where
  "AudioIn_CreateBuffer V = create_buffer V (\<lambda>param b m.
     let meta = snd (UnmarshalAudioMeta (pv_json V) param audio_meta_new) in
     Some (b\<lparr>mb_pts := au_pts meta, mb_meta := Some (m\<lparr>mt_framePts := Some (au_pts meta), mt_frameNumber := Some (au_frameNum meta)\<rparr>)\<rparr>)) None"

definition VideoIn_DataEnqueue :: "mbuf option \<Rightarrow> sb_plugin \<Rightarrow> sb_plugin" where
  "VideoIn_DataEnqueue buffer p =
     (case buffer of
        None \<Rightarrow> p
      | Some b \<Rightarrow> p\<lparr>sp_reDumpFlag := False, sp_dataQueue := make_room (sp_dataQueue p) @ [Some b]\<rparr>)"

definition AudioIn_DataEnqueue :: "mbuf option \<Rightarrow> sb_plugin \<Rightarrow> sb_plugin" where
  "AudioIn_DataEnqueue buffer p = p\<lparr>sp_dataQueue := make_room (sp_dataQueue p) @ [buffer]\<rparr>"

definition stream_received ::
  "'j plugin_env \<Rightarrow> (32 word \<Rightarrow> string option \<Rightarrow> 'j \<Rightarrow> mbuf option option) \<Rightarrow> (mbuf option \<Rightarrow> sb_plugin \<Rightarrow> sb_plugin)
     \<Rightarrow> string option \<Rightarrow> string option \<Rightarrow> sb_plugin \<Rightarrow> sb_plugin option" where
  "stream_received V create enqueue data ext p =
     (case ext of
        None \<Rightarrow> Some p
      | Some message \<Rightarrow>
          (case cJSON_Parse (pv_json V) (c_str message) of
             None \<Rightarrow> Some p
           | Some resMsg \<Rightarrow>
               if \<not> AvMsg_IsUInt32 (pv_json V) resMsg AVT_DATA_META_TYPE then Some p
               else case cJSON_GetObjectItem (pv_json V) resMsg AVT_DATA_META_TYPE of
                 None \<Rightarrow> Some p
               | Some typeItem \<Rightarrow>
                   if \<not> cJSON_IsNumber (pv_json V) typeItem then Some p
                   else map_option (\<lambda>b. enqueue b p) (create (of_int (valueint (pv_json V) typeItem)) data resMsg)))"

definition VideoIn_OnStreamReceived :: "'j plugin_env \<Rightarrow> string option \<Rightarrow> string option \<Rightarrow> sb_plugin \<Rightarrow> sb_plugin option" where
  "VideoIn_OnStreamReceived V = stream_received V (VideoIn_CreateBuffer V) VideoIn_DataEnqueue"

definition AudioIn_OnStreamReceived :: "'j plugin_env \<Rightarrow> string option \<Rightarrow> string option \<Rightarrow> sb_plugin \<Rightarrow> sb_plugin option" where
  "AudioIn_OnStreamReceived V = stream_received V (AudioIn_CreateBuffer V) AudioIn_DataEnqueue"

text \<open>One round of the loop of \<open>HandleData\<close>: the frame that is given to the callback, if any.\<close>

definition VideoIn_HandleData :: "sb_plugin \<Rightarrow> (mbuf option \<times> sb_plugin) option" where
  "VideoIn_HandleData p =
     (if \<not> sp_isrunning p \<or> sp_bufferPopTask p \<noteq> Some True \<or> sp_state p \<noteq> RUNNING then Some (None, p)
      else case sp_dataQueue p of
        [] \<Rightarrow> Some (None, p)
      | None # rest \<Rightarrow> Some (None, p\<lparr>sp_dataQueue := rest\<rparr>)
      | Some b # rest \<Rightarrow> if \<not> sp_dataCb p then None else Some (Some b, p\<lparr>sp_dataQueue := rest\<rparr>))"

definition AudioIn_HandleData :: "sb_plugin \<Rightarrow> (mbuf option \<times> sb_plugin) option" where
  "AudioIn_HandleData = VideoIn_HandleData"

section \<open>Playing audio\<close>

record audio_player =
  ap_state :: plugin_state
  ap_sendPlayTask :: "bool option"
  ap_isrunning :: bool
  ap_outputBuffer :: "mbuf option list"
  ap_paramsMap :: "plugin_tag \<rightharpoonup> any_value"
  ap_eventcallback :: bool
  ap_datacallback :: bool
  ap_resample :: bool
  ap_sharedMemory :: shared_memory
  ap_smIndex :: "32 word"

definition DaudioOutput_Init :: "audio_player \<Rightarrow> out_result \<times> audio_player" where
  "DaudioOutput_Init p = (OUT_OK, p\<lparr>ap_state := INITIALIZED\<rparr>)"

definition DaudioOutput_Prepare :: "audio_player \<Rightarrow> out_result \<times> audio_player" where
  "DaudioOutput_Prepare p =
     (if ap_state p \<noteq> INITIALIZED then (OUT_WRONG_STATE, p)
      else let p1 = p\<lparr>ap_sendPlayTask := (case ap_sendPlayTask p of None \<Rightarrow> Some False | Some r \<Rightarrow> Some r)\<rparr> in
        if ap_paramsMap p PT_AUDIO_CHANNELS = None \<or> ap_paramsMap p PT_AUDIO_SAMPLE_RATE = None \<or> ap_paramsMap p PT_AUDIO_CHANNEL_LAYOUT = None
        then (OUT_UNKNOWN, p1) else (OUT_OK, p1\<lparr>ap_resample := True, ap_state := PREPARED\<rparr>))"

definition DaudioOutput_Reset :: "audio_player \<Rightarrow> out_result \<times> audio_player" where
  "DaudioOutput_Reset p =
     (let p1 = (if ap_sendPlayTask p = None then p else p\<lparr>ap_isrunning := False, ap_sendPlayTask := None\<rparr>)
      in (OUT_OK, p1\<lparr>ap_eventcallback := False, ap_resample := False, ap_smIndex := 0, ap_paramsMap := Map.empty, ap_outputBuffer := [],
            ap_state := INITIALIZED\<rparr>))"

definition DaudioOutput_GetParameter :: "plugin_tag \<Rightarrow> any_value \<Rightarrow> audio_player \<Rightarrow> out_result \<times> any_value" where
  "DaudioOutput_GetParameter tag old p = find_param tag old (ap_paramsMap p)"

definition DaudioOutput_SetParameter :: "'j plugin_env \<Rightarrow> plugin_tag \<Rightarrow> any_value \<Rightarrow> audio_player \<Rightarrow> out_result \<times> audio_player" where
  "DaudioOutput_SetParameter V tag v p =
     (let p1 = p\<lparr>ap_paramsMap := insert_param tag v (ap_paramsMap p)\<rparr> in
      (OUT_OK, if tag = PT_USER_SHARED_MEMORY_FD then p1\<lparr>ap_sharedMemory := UnmarshalSharedMemory (pv_json V) (pv_string V v)\<rparr> else p1))"

definition DaudioOutput_Start :: "audio_player \<Rightarrow> out_result \<times> audio_player" where
  "DaudioOutput_Start p =
     (if ap_state p \<noteq> PREPARED then (OUT_WRONG_STATE, p)
      else (OUT_OK, p\<lparr>ap_outputBuffer := [], ap_isrunning := True, ap_sendPlayTask := map_option (\<lambda>_. True) (ap_sendPlayTask p), ap_state := RUNNING\<rparr>))"

definition DaudioOutput_Stop :: "audio_player \<Rightarrow> out_result \<times> audio_player" where
  "DaudioOutput_Stop p =
     (if ap_state p \<noteq> RUNNING then (OUT_WRONG_STATE, p)
      else (OUT_OK, p\<lparr>ap_state := PREPARED, ap_isrunning := False, ap_sendPlayTask := map_option (\<lambda>_. False) (ap_sendPlayTask p), ap_outputBuffer := []\<rparr>))"

definition DaudioOutput_SetCallback :: "bool \<Rightarrow> audio_player \<Rightarrow> out_result \<times> audio_player" where
  "DaudioOutput_SetCallback cb p = (if \<not> cb then (OUT_NULL_POINTER, p) else (OUT_OK, p\<lparr>ap_eventcallback := True\<rparr>))"

definition DaudioOutput_SetDataCallback :: "bool \<Rightarrow> audio_player \<Rightarrow> out_result \<times> audio_player" where
  "DaudioOutput_SetDataCallback callable p = (if \<not> callable then (OUT_NULL_POINTER, p) else (OUT_OK, p\<lparr>ap_datacallback := True\<rparr>))"

definition DaudioOutput_PushData :: "mbuf option \<Rightarrow> audio_player \<Rightarrow> (out_result \<times> audio_player) option" where
  "DaudioOutput_PushData buffer p =
     (case buffer of
        None \<Rightarrow> Some (OUT_NULL_POINTER, p)
      | Some b \<Rightarrow>
          if mb_empty b \<or> mb_meta b = None then Some (OUT_NULL_POINTER, p)
          else if mb_memory b = None then None
          else Some (OUT_OK, p\<lparr>ap_outputBuffer := make_room (ap_outputBuffer p) @ [Some b]\<rparr>))"

definition WriteMasterClockToMemory :: "'j plugin_env \<Rightarrow> mbuf \<Rightarrow> audio_player \<times> segments \<Rightarrow> (audio_player \<times> segments) option" where
  "WriteMasterClockToMemory V b = (\<lambda>(p, ss).
     if \<not> memory_set (ap_sharedMemory p) then Some (p, ss)
     else case mb_meta b of
       None \<Rightarrow> Some (p, ss)
     | Some m \<Rightarrow>
         (case (mt_frameNumber m, mt_framePts m) of
            (Some frameNum, Some pts) \<Rightarrow>
              (case WriteClockUnitToMemory (pv_shm V) (ap_sharedMemory p) \<lparr> cu_index = ap_smIndex p, cu_frameNum = frameNum, cu_pts = of_int pts \<rparr> ss of
                 None \<Rightarrow> None
               | Some (r, u, ss1) \<Rightarrow> Some (if r = DH_AVT_SUCCESS then p\<lparr>ap_smIndex := cu_index u\<rparr> else p, ss1))
          | _ \<Rightarrow> Some (p, ss)))"

definition DaudioOutput_HandleData :: "'j plugin_env \<Rightarrow> audio_player \<times> segments \<Rightarrow> (mbuf option \<times> audio_player \<times> segments) option" where
  "DaudioOutput_HandleData V = (\<lambda>(p, ss).
     if \<not> ap_isrunning p \<or> ap_sendPlayTask p \<noteq> Some True \<or> ap_state p \<noteq> RUNNING then Some (None, p, ss)
     else case ap_outputBuffer p of
       [] \<Rightarrow> Some (None, p, ss)
     | None # rest \<Rightarrow> Some (None, p\<lparr>ap_outputBuffer := rest\<rparr>, ss)
     | Some b # rest \<Rightarrow>
         if \<not> ap_datacallback p then None
         else map_option (\<lambda>ps. (Some b, ps)) (WriteMasterClockToMemory V b (p\<lparr>ap_outputBuffer := rest\<rparr>, ss)))"

end
