(* ===== verification/DHF_AvPluginProps.thy ===== *)
theory DHF_AvPluginProps
  imports DHF_AvPlugin DHF_AvBufferProps
begin

text \<open>
  Frames on their way from the plugin that sends them to the plugin that receives them, the clock that the audio carries, and the
  invariant of a plugin on the soft bus. \<open>buffer_laws\<close> is what the plugins rely on of the media library: a buffer made for a number of bytes has
  memory and the meta data of its type, writes all of them, and a copy is like the original.
\<close>

definition buffer_laws :: "buffer_api \<Rightarrow> bool" where
  "buffer_laws U \<longleftrightarrow>
     (\<forall>t n. mb_memory (bu_CreateDefaultBuffer U t n) \<noteq> None
        \<and> mb_meta (bu_CreateDefaultBuffer U t n) =
            Some \<lparr> mt_type = t, mt_frameNumber = None, mt_framePts = None, mt_startTime = None, mt_samples = None \<rparr>)
   \<and> (\<forall>t d. bu_Write U d (bu_CreateDefaultBuffer U t (length d))
        = (length d, (bu_CreateDefaultBuffer U t (length d))\<lparr>mb_memory := Some d\<rparr>))
   \<and> (\<forall>b. bu_copy U b = b)"

text \<open>cJSON reads an object back that it printed, with and without regard to the case of the keys.\<close>

definition both_read_back :: "'j cjson \<Rightarrow> 'j \<Rightarrow> string set \<Rightarrow> bool" where
  "both_read_back cj ob ks \<longleftrightarrow>
     (\<exists>t ob'. cJSON_PrintUnformatted cj ob = Some t \<and> CHR 0x00 \<notin> set t \<and> cJSON_Parse cj t = Some ob'
        \<and> (\<forall>k\<in>ks. cJSON_GetObjectItemCaseSensitive cj ob' k = cJSON_GetObjectItem cj ob k
              \<and> cJSON_GetObjectItem cj ob' k = cJSON_GetObjectItem cj ob k))"

section \<open>The text that goes with a frame\<close>

definition ext_json :: "'j cjson \<Rightarrow> 32 word \<Rightarrow> string \<Rightarrow> 'j \<Rightarrow> 'j" where
  "ext_json cj metaType param j =
     cJSON_AddStringToObject cj (cJSON_AddNumberToObject cj j AVT_DATA_META_TYPE (of_nat (unat metaType))) AVT_DATA_PARAM param"

lemma ext_keys: "\<not> same_key AVT_DATA_META_TYPE AVT_DATA_PARAM" "\<not> same_key AVT_DATA_PARAM AVT_DATA_META_TYPE"
  by (simp_all add: same_key_def to_lower_def)

lemma ext_items:
  assumes "cjson_build_laws cj" and "cJSON_CreateObject cj = Some j" and "CHR 0x00 \<notin> set param"
  shows "has_number cj (ext_json cj metaType param j) AVT_DATA_META_TYPE (unat metaType)"
    and "has_string cj (ext_json cj metaType param j) AVT_DATA_PARAM param"
  unfolding ext_json_def using assms ext_keys word32_small by (simp_all add: json_build del: of_nat_unat)

lemma ext_received:
  assumes "cjson_build_laws (pv_json V)" and "cJSON_CreateObject (pv_json V) = Some j" and "CHR 0x00 \<notin> set param"
    and "unat metaType \<le> 2147483647" and "both_read_back (pv_json V) (ext_json (pv_json V) metaType param j) {AVT_DATA_META_TYPE, AVT_DATA_PARAM}"
  obtains e ob v where "frame_text (pv_json V) metaType param = Some e"
    and "cJSON_GetObjectItem (pv_json V) ob AVT_DATA_PARAM = Some v" "cJSON_IsString (pv_json V) v" "valuestring (pv_json V) v = param"
    and "\<And>create enqueue p. stream_received V create enqueue (Some d) (Some e) p = map_option (\<lambda>b. enqueue b p) (create metaType (Some d) ob)"
proof -
  let ?cj = "pv_json V" and ?o = "ext_json (pv_json V) metaType param j"
  obtain t ob where t: "cJSON_PrintUnformatted ?cj ?o = Some t" "CHR 0x00 \<notin> set t" "cJSON_Parse ?cj t = Some ob"
    and k: "\<forall>k\<in>{AVT_DATA_META_TYPE, AVT_DATA_PARAM}. cJSON_GetObjectItemCaseSensitive ?cj ob k = cJSON_GetObjectItem ?cj ?o k
      \<and> cJSON_GetObjectItem ?cj ob k = cJSON_GetObjectItem ?cj ?o k"
    using assms(5) unfolding both_read_back_def by blast
  from ext_items [OF assms(1-3), of metaType] obtain w v where
    w: "cJSON_GetObjectItem ?cj ?o AVT_DATA_META_TYPE = Some w" "cJSON_IsNumber ?cj w" "valuedouble ?cj w = of_nat (unat metaType)"
    and v: "cJSON_GetObjectItem ?cj ?o AVT_DATA_PARAM = Some v" "cJSON_IsString ?cj v" "valuestring ?cj v = param"
    unfolding has_number_def has_string_def by blast
  have "frame_text ?cj metaType param = Some t"
    using t(1,2) assms(2,3) by (simp add: frame_text_def ext_json_def c_str_id del: of_nat_unat)
  moreover have "cJSON_GetObjectItem ?cj ob AVT_DATA_PARAM = Some v" using k v(1) by simp
  moreover have vi: "valueint ?cj w = int (unat metaType)" using valueint_nat [OF w(3)] assms(4) by simp
  have "AvMsg_IsUInt32 ?cj ob AVT_DATA_META_TYPE" "cJSON_GetObjectItem ?cj ob AVT_DATA_META_TYPE = Some w"
    using k w(1,2) by (simp_all add: AvMsg_IsUInt32_def)
  then have "stream_received V create enqueue (Some d) (Some t) p = map_option (\<lambda>b. enqueue b p) (create metaType (Some d) ob)" for create enqueue p
    using t(2,3) w(2) by (simp add: stream_received_def c_str_id vi)
  ultimately show thesis using v(2,3) that by blast
qed

lemma create_buffer_received:
  assumes "buffer_laws (pv_buffer V)" and "cJSON_GetObjectItem (pv_json V) ob AVT_DATA_PARAM = Some v" and "cJSON_IsString (pv_json V) v"
    and "valuestring (pv_json V) v = param" and "CHR 0x00 \<notin> set param"
  shows "create_buffer V fill unwritable metaType (Some d) ob = Some (fill param
     ((bu_CreateDefaultBuffer (pv_buffer V) metaType (length d))\<lparr>mb_memory := Some d\<rparr>)
     \<lparr> mt_type = metaType, mt_frameNumber = None, mt_framePts = None, mt_startTime = None, mt_samples = None \<rparr>)"
proof -
  let ?b = "bu_CreateDefaultBuffer (pv_buffer V) metaType (length d)"
  have m: "mb_memory ?b \<noteq> None" "mb_meta ?b = Some \<lparr> mt_type = metaType, mt_frameNumber = None, mt_framePts = None, mt_startTime = None, mt_samples = None \<rparr>"
    and w: "bu_Write (pv_buffer V) d ?b = (length d, ?b\<lparr>mb_memory := Some d\<rparr>)"
    using assms(1) unfolding buffer_laws_def by blast+
  show ?thesis using m w assms(2-5) by (auto simp: create_buffer_def c_str_id Let_def)
qed

lemma no_nul_MarshalMeta: "CHR 0x00 \<notin> set (MarshalVideoMeta cj v)" "CHR 0x00 \<notin> set (MarshalAudioMeta cj u)"
  by (auto simp: MarshalVideoMeta_def MarshalAudioMeta_def Let_def c_str_def dest: set_takeWhileD split: option.splits)

section \<open>Meta data of a video frame\<close>

definition video_meta_json :: "'j cjson \<Rightarrow> video_meta \<Rightarrow> 'j \<Rightarrow> 'j" where
  "video_meta_json cj m j =
     (let add = (\<lambda>k n ob. cJSON_AddNumberToObject cj ob k (of_nat n));
          j3 = add ''meta_frame_number'' (unat (vi_frameNum m)) (add ''meta_timestamp'' (nat (vi_pts m)) (add ''meta_data_type'' (unat (vi_dataType m)) j));
          j4 = if vi_extPts m > 0 then add ''meta_ext_timestamp'' (nat (vi_extPts m)) j3 else j3
      in if vi_extFrameNum m > 0 then add ''meta_ext_frame_number'' (unat (vi_extFrameNum m)) j4 else j4)"

definition video_keys :: "string set" where
  "video_keys = {''meta_data_type'', ''meta_timestamp'', ''meta_frame_number'', ''meta_ext_timestamp'', ''meta_ext_frame_number''}"

definition has_or_none :: "'j cjson \<Rightarrow> 'j \<Rightarrow> string \<Rightarrow> nat \<Rightarrow> bool" where
  "has_or_none cj ob k n \<longleftrightarrow> (if n = 0 then cJSON_GetObjectItem cj ob k = None else has_number cj ob k n)"

lemma video_meta_items:
  assumes "cjson_build_laws cj" and "cJSON_CreateObject cj = Some j" and "nat (vi_pts m) < 2 ^ 53" and "nat (vi_extPts m) < 2 ^ 53"
  shows "has_number cj (video_meta_json cj m j) ''meta_data_type'' (unat (vi_dataType m))"
    and "has_number cj (video_meta_json cj m j) ''meta_timestamp'' (nat (vi_pts m))"
    and "has_number cj (video_meta_json cj m j) ''meta_frame_number'' (unat (vi_frameNum m))"
    and "has_or_none cj (video_meta_json cj m j) ''meta_ext_timestamp'' (nat (vi_extPts m))"
    and "has_or_none cj (video_meta_json cj m j) ''meta_ext_frame_number'' (unat (vi_extFrameNum m))"
  unfolding video_meta_json_def has_or_none_def using assms word32_small
  by (simp_all add: json_build same_key_def to_lower_def Let_def word_gt_0 unat_eq_0 del: of_nat_unat of_nat_nat)

lemma set_item_number:
  assumes "cJSON_GetObjectItemCaseSensitive cj ob' k = cJSON_GetObjectItem cj ob k" and "has_number cj ob k n"
  shows "set_item cj ob' AvMsg_IsUInt32 k upd m = upd (int (min n 2147483647)) m"
    and "set_item cj ob' Av_IsInt64 k upd m = upd (int (min n 2147483647)) m"
proof -
  obtain v where v: "cJSON_GetObjectItem cj ob k = Some v" "cJSON_IsNumber cj v" "valuedouble cj v = of_nat n"
    using assms(2) unfolding has_number_def by blast
  have i: "valueint cj v = int (min n 2147483647)" by (rule valueint_nat [OF v(3)])
  show "set_item cj ob' AvMsg_IsUInt32 k upd m = upd (int (min n 2147483647)) m"
    and "set_item cj ob' Av_IsInt64 k upd m = upd (int (min n 2147483647)) m"
    using assms(1) v(1,2) i by (simp_all add: set_item_def AvMsg_IsUInt32_def Av_IsInt64_def min_def)
qed

lemma set_item_or_none:
  assumes "cJSON_GetObjectItemCaseSensitive cj ob' k = cJSON_GetObjectItem cj ob k" and "has_or_none cj ob k n"
  shows "set_item cj ob' AvMsg_IsUInt32 k upd m = (if n = 0 then m else upd (int (min n 2147483647)) m)"
    and "set_item cj ob' Av_IsInt64 k upd m = (if n = 0 then m else upd (int (min n 2147483647)) m)"
  using assms set_item_number [OF assms(1)] by (auto simp: has_or_none_def set_item_def)

lemma video_meta_arrives:
  assumes "cjson_build_laws cj" and "cJSON_CreateObject cj = Some j" and "0 \<le> vi_pts m" "vi_pts m < 2 ^ 53"
    and "0 \<le> vi_extPts m" "vi_extPts m < 2 ^ 53" and "items_read_back cj (video_meta_json cj m j) video_keys"
  shows "UnmarshalVideoMeta cj (MarshalVideoMeta cj m) m0 =
    (True, m0\<lparr>vi_dataType := of_nat (min (unat (vi_dataType m)) 2147483647), vi_pts := min (vi_pts m) 2147483647,
       vi_frameNum := of_nat (min (unat (vi_frameNum m)) 2147483647),
       vi_extPts := (if vi_extPts m = 0 then vi_extPts m0 else min (vi_extPts m) 2147483647),
       vi_extFrameNum := (if vi_extFrameNum m = 0 then vi_extFrameNum m0 else of_nat (min (unat (vi_extFrameNum m)) 2147483647))\<rparr>)"
proof -
  let ?o = "video_meta_json cj m j"
  have n: "nat (vi_pts m) < 2 ^ 53" "nat (vi_extPts m) < 2 ^ 53" using assms(3-6) by simp_all
  have d: "double_of_int (vi_pts m) = of_nat (nat (vi_pts m))" "double_of_int (vi_extPts m) = of_nat (nat (vi_extPts m))"
    using assms(3-6) by (simp_all add: double_of_int_def)
  obtain t ob where t: "cJSON_PrintUnformatted cj ?o = Some t" "CHR 0x00 \<notin> set t" "cJSON_Parse cj t = Some ob"
    and k: "\<And>k. k \<in> video_keys \<Longrightarrow> cJSON_GetObjectItemCaseSensitive cj ob k = cJSON_GetObjectItem cj ?o k"
    using assms(7) unfolding items_read_back_def by blast
  have data: "MarshalVideoMeta cj m = t"
    using t(1,2) assms(2)
    by (cases "vi_extPts m > 0"; cases "vi_extFrameNum m > 0")
      (simp_all add: MarshalVideoMeta_def video_meta_json_def Let_def c_str_id d del: of_nat_unat of_nat_nat)
  note items = video_meta_items [OF assms(1,2) n]
  have keys: "''meta_data_type'' \<in> video_keys" "''meta_timestamp'' \<in> video_keys" "''meta_frame_number'' \<in> video_keys"
    "''meta_ext_timestamp'' \<in> video_keys" "''meta_ext_frame_number'' \<in> video_keys" by (simp_all add: video_keys_def)
  have cut: "int (min (nat x) 2147483647) = min x 2147483647" if "0 \<le> x" for x using that by (simp add: min_def) auto
  have "UnmarshalVideoMeta cj t m0 = (True, m0\<lparr>vi_dataType := of_nat (min (unat (vi_dataType m)) 2147483647),
       vi_pts := int (min (nat (vi_pts m)) 2147483647), vi_frameNum := of_nat (min (unat (vi_frameNum m)) 2147483647),
       vi_extPts := (if nat (vi_extPts m) = 0 then vi_extPts m0 else int (min (nat (vi_extPts m)) 2147483647)),
       vi_extFrameNum := (if unat (vi_extFrameNum m) = 0 then vi_extFrameNum m0 else of_nat (min (unat (vi_extFrameNum m)) 2147483647))\<rparr>)"
    using t(2,3)
    by (simp add: UnmarshalVideoMeta_def c_str_id set_item_number [OF k [OF keys(1)] items(1)] set_item_number [OF k [OF keys(2)] items(2)]
        set_item_number [OF k [OF keys(3)] items(3)] set_item_or_none [OF k [OF keys(4)] items(4)]
        set_item_or_none [OF k [OF keys(5)] items(5)])
  then show ?thesis using assms(3,5) by (simp add: data cut unat_eq_0)
qed

section \<open>From device to device\<close>

lemma cut_word_positive: "(of_nat (min (unat x) 2147483647) :: 32 word) > 0 \<longleftrightarrow> x > 0" for x :: "32 word"
proof (cases "unat x \<le> 2147483647")
  case True
  then show ?thesis by (simp add: min_def)
next
  case False
  then have "x \<noteq> 0" by auto
  with False show ?thesis by (simp add: min_def word_gt_0)
qed

definition positive :: "'a::{zero,linorder} option \<Rightarrow> bool" where
  "positive x \<longleftrightarrow> (case x of None \<Rightarrow> False | Some v \<Rightarrow> v > 0)"

lemma cut_word_zero: "(of_nat (min (unat x) 2147483647) :: 32 word) = 0 \<longleftrightarrow> x = 0" for x :: "32 word"
  using cut_word_positive [of x] by (simp add: word_gt_0)

text \<open>
  Property C15. A video frame that the sending plugin takes off its queue goes to the soft bus with its bytes and a text; the receiving
  plugin that is given the two makes a frame of them with the same bytes and puts it at the end of its queue. The time stamps and the numbers
  arrive unchanged up to 2147483647 and as 2147483647 above; the two tags of the audio arrive when both are positive, and are
  both left out otherwise.
\<close>

theorem video_frame_crosses_the_bus:
  assumes "cjson_build_laws (pv_json V)" and "cJSON_CreateObject (pv_json V) = Some j" and "buffer_laws (pv_buffer V)"
    and frame: "mb_memory b = Some d" "mb_meta b = Some m" "mt_type m = bu_VIDEO (pv_buffer V)" "mt_frameNumber m = Some n"
    and "unat (mt_type m) \<le> 2147483647" and "0 \<le> mb_pts b" "mb_pts b < 2 ^ 53"
    and "0 \<le> opt_or 0 (mt_startTime m)" "opt_or 0 (mt_startTime m) < 2 ^ 53"
    and "items_read_back (pv_json V) (video_meta_json (pv_json V) (sent_video_meta V b m) j) video_keys"
    and "both_read_back (pv_json V) (ext_json (pv_json V) (mt_type m) (MarshalVideoMeta (pv_json V) (sent_video_meta V b m)) j)
      {AVT_DATA_META_TYPE, AVT_DATA_PARAM}"
  shows "\<exists>e g. VideoOut_SendDataToSoftbus V B b (p, a, h)
        = (p, a, snd (SendStreamData B (sp_sessionName p) (sp_peerDevId p) (Some d) (Some e) (a, h)))
    \<and> VideoIn_OnStreamReceived V (Some d) (Some e) q
        = Some (q\<lparr>sp_reDumpFlag := False, sp_dataQueue := make_room (sp_dataQueue q) @ [Some g]\<rparr>)
    \<and> mb_memory g = Some d \<and> mb_pts g = min (mb_pts b) 2147483647
    \<and> mb_meta g = Some \<lparr> mt_type = mt_type m, mt_frameNumber = Some (of_nat (min (unat n) 2147483647)), mt_framePts = None,
        mt_startTime = (if positive (mt_startTime m) \<and> positive (mt_samples m)
          then Some (min (opt_or 0 (mt_startTime m)) 2147483647) else None),
        mt_samples = (if positive (mt_startTime m) \<and> positive (mt_samples m)
          then Some (of_nat (min (unat (opt_or 0 (mt_samples m))) 2147483647)) else None) \<rparr>"
proof -
  let ?v = "sent_video_meta V b m" and ?cj = "pv_json V"
  let ?param = "MarshalVideoMeta ?cj ?v"
  have v: "vi_pts ?v = mb_pts b" "vi_extPts ?v = opt_or 0 (mt_startTime m)" "vi_extFrameNum ?v = opt_or 0 (mt_samples m)" "vi_frameNum ?v = n"
    using frame by (simp_all add: sent_video_meta_def video_meta_new_def opt_or_def)
  obtain e ob w where e: "frame_text ?cj (mt_type m) ?param = Some e"
    and w: "cJSON_GetObjectItem ?cj ob AVT_DATA_PARAM = Some w" "cJSON_IsString ?cj w" "valuestring ?cj w = ?param"
    and r: "\<And>create enqueue p. stream_received V create enqueue (Some d) (Some e) p = map_option (\<lambda>b. enqueue b p) (create (mt_type m) (Some d) ob)"
    using ext_received [OF assms(1,2) no_nul_MarshalMeta(1) assms(8,14)] by blast
  have u: "UnmarshalVideoMeta ?cj ?param video_meta_new = (True, video_meta_new\<lparr>vi_dataType := of_nat (min (unat (vi_dataType ?v)) 2147483647),
       vi_pts := min (mb_pts b) 2147483647, vi_frameNum := of_nat (min (unat n) 2147483647),
       vi_extPts := (if vi_extPts ?v = 0 then vi_extPts video_meta_new else min (vi_extPts ?v) 2147483647),
       vi_extFrameNum := (if vi_extFrameNum ?v = 0 then vi_extFrameNum video_meta_new else of_nat (min (unat (vi_extFrameNum ?v)) 2147483647))\<rparr>)"
    using video_meta_arrives [OF assms(1,2), of ?v video_meta_new] assms(9-13) v by simp
  define both where "both = (positive (mt_startTime m) \<and> positive (mt_samples m))"
  define g where "g = (bu_CreateDefaultBuffer (pv_buffer V) (mt_type m) (length d))\<lparr>mb_memory := Some d, mb_pts := min (mb_pts b) 2147483647,
    mb_meta := Some \<lparr> mt_type = mt_type m, mt_frameNumber = Some (of_nat (min (unat n) 2147483647)), mt_framePts = None,
      mt_startTime = (if both then Some (min (opt_or 0 (mt_startTime m)) 2147483647) else None),
      mt_samples = (if both then Some (of_nat (min (unat (opt_or 0 (mt_samples m))) 2147483647)) else None) \<rparr>\<rparr>"
  have both: "both \<longleftrightarrow> vi_extFrameNum ?v \<noteq> 0 \<and> vi_extPts ?v \<noteq> 0"
    using assms(11) v by (auto simp: both_def positive_def opt_or_def word_gt_0 split: option.splits)
  have "VideoIn_CreateBuffer V (mt_type m) (Some d) ob = Some (Some g)"
    unfolding VideoIn_CreateBuffer_def create_buffer_received [OF assms(3) w no_nul_MarshalMeta(1)] u
    using both assms(11) v by (auto simp: g_def Let_def video_meta_new_def word_gt_0 cut_word_zero)
  then have "VideoIn_OnStreamReceived V (Some d) (Some e) q
      = Some (q\<lparr>sp_reDumpFlag := False, sp_dataQueue := make_room (sp_dataQueue q) @ [Some g]\<rparr>)"
    by (simp add: VideoIn_OnStreamReceived_def r VideoIn_DataEnqueue_def)
  moreover have "VideoOut_SendDataToSoftbus V B b (p, a, h)
      = (p, a, snd (SendStreamData B (sp_sessionName p) (sp_peerDevId p) (Some d) (Some e) (a, h)))"
    using frame e by (simp add: VideoOut_SendDataToSoftbus_def send_frame_def)
  ultimately show ?thesis by (intro exI [of _ e] exI [of _ g]) (simp add: g_def both_def)
qed

lemma captured_audio:
  assumes "DaudioInput_PushData V now (Some b0) (cp, ss0) = Some (OUT_OK, Some b, cp1, ss1)" and "mb_memory b0 = Some d" and "mb_meta b = Some m"
  obtains n where "mt_type m = bu_AUDIO (pv_buffer V)" "mt_framePts m = Some now" "mt_frameNumber m = Some n" "mb_memory b = Some d"
  using assms by (auto simp: DaudioInput_PushData_def Let_def split: option.splits if_splits)

text \<open>
  Property C16. The clock that keeps video and audio together does not move. The capturing plugin stamps an audio frame with
  the time of the machine in nanoseconds; the text that goes with it to the other device is read back through an \<open>int\<close>, and from the
  third second after the start of the machine on every frame arrives with the time 2147483647. That is the time the playing plugin writes into the ring
  of clocks, from which the video takes the time of the audio.
\<close>

theorem audio_clock_stands_still:
  assumes "cjson_build_laws (pv_json V)" and "cJSON_CreateObject (pv_json V) = Some j" and "buffer_laws (pv_buffer V)"
    and capture: "DaudioInput_PushData V now (Some b0) (cp, ss0) = Some (OUT_OK, Some b, cp1, ss1)" and frame: "mb_memory b0 = Some d"
    and "2147483647 \<le> now" "now < 2 ^ 53" and "unat (bu_AUDIO (pv_buffer V)) \<le> 2147483647"
    and "mb_meta b = Some m"
    and "items_read_back (pv_json V) (audio_meta_json (pv_json V) (sent_audio_meta m) j) {''meta_data_type'', ''meta_timestamp'', ''meta_frame_number''}"
    and "both_read_back (pv_json V) (ext_json (pv_json V) (mt_type m) (MarshalAudioMeta (pv_json V) (sent_audio_meta m)) j)
      {AVT_DATA_META_TYPE, AVT_DATA_PARAM}"
    and memory: "memory_set (ap_sharedMemory ap)"
  shows "\<exists>e g frameNum. AudioOut_SendDataToSoftbus V B b (p, a, h)
        = (p, a, snd (SendStreamData B (sp_sessionName p) (sp_peerDevId p) (Some d) (Some e) (a, h)))
    \<and> AudioIn_OnStreamReceived V (Some d) (Some e) q = Some (q\<lparr>sp_dataQueue := make_room (sp_dataQueue q) @ [Some g]\<rparr>)
    \<and> mb_memory g = Some d \<and> mb_pts g = 2147483647
    \<and> WriteMasterClockToMemory V g (ap, ss) =
        map_option (\<lambda>(r, u, ss1). (if r = DH_AVT_SUCCESS then ap\<lparr>ap_smIndex := cu_index u\<rparr> else ap, ss1))
          (WriteClockUnitToMemory (pv_shm V) (ap_sharedMemory ap) \<lparr> cu_index = ap_smIndex ap, cu_frameNum = frameNum, cu_pts = 2147483647 \<rparr> ss)"
proof -
  let ?v = "sent_audio_meta m" and ?cj = "pv_json V"
  let ?param = "MarshalAudioMeta ?cj ?v"
  obtain n where m: "mt_type m = bu_AUDIO (pv_buffer V)" "mt_framePts m = Some now" "mt_frameNumber m = Some n" "mb_memory b = Some d"
    using capture frame assms(9) by (rule captured_audio)
  have v: "au_pts ?v = now" "0 \<le> au_pts ?v" "au_pts ?v < 2 ^ 53" using m assms(6,7) by (simp_all add: sent_audio_meta_def opt_or_def)
  have t: "unat (mt_type m) \<le> 2147483647" using m(1) assms(8) by simp
  obtain e ob w where e: "frame_text ?cj (mt_type m) ?param = Some e"
    and w: "cJSON_GetObjectItem ?cj ob AVT_DATA_PARAM = Some w" "cJSON_IsString ?cj w" "valuestring ?cj w = ?param"
    and r: "\<And>create enqueue p. stream_received V create enqueue (Some d) (Some e) p = map_option (\<lambda>b. enqueue b p) (create (mt_type m) (Some d) ob)"
    using ext_received [OF assms(1,2) no_nul_MarshalMeta(2) t assms(11)] by blast
  define f :: "32 word" where "f = of_nat (min (unat (au_frameNum ?v)) 2147483647)"
  define g where "g = (bu_CreateDefaultBuffer (pv_buffer V) (mt_type m) (length d))\<lparr>mb_memory := Some d, mb_pts := 2147483647,
    mb_meta := Some \<lparr> mt_type = mt_type m, mt_frameNumber = Some f, mt_framePts = Some 2147483647, mt_startTime = None, mt_samples = None \<rparr>\<rparr>"
  have "au_pts (snd (UnmarshalAudioMeta ?cj ?param audio_meta_new)) = 2147483647" "au_frameNum (snd (UnmarshalAudioMeta ?cj ?param audio_meta_new)) = f"
    using audio_time_stamp_is_cut [OF assms(1,2) v(2,3) assms(10), of audio_meta_new] v(1) assms(6) by (simp_all add: f_def)
  then have "AudioIn_CreateBuffer V (mt_type m) (Some d) ob = Some (Some g)"
    unfolding AudioIn_CreateBuffer_def create_buffer_received [OF assms(3) w no_nul_MarshalMeta(2)] by (simp add: g_def Let_def)
  then have "AudioIn_OnStreamReceived V (Some d) (Some e) q = Some (q\<lparr>sp_dataQueue := make_room (sp_dataQueue q) @ [Some g]\<rparr>)"
    by (simp add: AudioIn_OnStreamReceived_def r AudioIn_DataEnqueue_def)
  moreover have "AudioOut_SendDataToSoftbus V B b (p, a, h)
      = (p, a, snd (SendStreamData B (sp_sessionName p) (sp_peerDevId p) (Some d) (Some e) (a, h)))"
    using m e assms(9) by (simp add: AudioOut_SendDataToSoftbus_def send_frame_def)
  moreover have "WriteMasterClockToMemory V g (ap, ss) =
        map_option (\<lambda>(r, u, ss1). (if r = DH_AVT_SUCCESS then ap\<lparr>ap_smIndex := cu_index u\<rparr> else ap, ss1))
          (WriteClockUnitToMemory (pv_shm V) (ap_sharedMemory ap) \<lparr> cu_index = ap_smIndex ap, cu_frameNum = f, cu_pts = 2147483647 \<rparr> ss)"
    using memory by (simp add: WriteMasterClockToMemory_def g_def split: option.split prod.split)
  ultimately show ?thesis by (intro exI [of _ e] exI [of _ g] exI [of _ f]) (simp add: g_def)
qed

section \<open>The life of a plugin on the soft bus\<close>

text \<open>The steps of the plugin that sends video: the calls of the pipeline and the rounds of its thread.\<close>

inductive video_out_step :: "'j plugin_env \<Rightarrow> 'h av_bus \<Rightarrow> 'h sb_state \<Rightarrow> 'h sb_state \<Rightarrow> bool" for V B where
  vo_init: "video_out_step V B (p, ch) (snd (VideoPlugin_Init p), ch)"
| vo_set: "video_out_step V B (p, ch) (snd (VideoPlugin_SetParameter V tag v p), ch)"
| vo_callback: "video_out_step V B (p, ch) (snd (OutPlugin_SetCallback cb p), ch)"
| vo_prepare: "video_out_step V B (p, ch) (snd (VideoOut_Prepare p), ch)"
| vo_start: "video_out_step V B s (snd (VideoOut_Start B s))"
| vo_push: "video_out_step V B (p, ch) (snd (VideoOut_PushData buffer p), ch)"
| vo_feed: "video_out_step V B s (FeedChannelData (VideoOut_SendDataToSoftbus V B) s)"
| vo_stop: "video_out_step V B s (snd (VideoOut_Stop B s))"
| vo_reset: "video_out_step V B s (snd (VideoOut_Reset s))"
| vo_adapter: "video_out_step V B (p, ch) (p, ch')"

definition sb_inv :: "sb_plugin \<Rightarrow> bool" where
  "sb_inv p \<longleftrightarrow> length (sp_dataQueue p) \<le> DATA_QUEUE_MAX_SIZE \<and> None \<notin> set (sp_dataQueue p)
     \<and> (sp_state p = PREPARED \<or> sp_state p = RUNNING \<longrightarrow> sp_bufferPopTask p \<noteq> None \<and> sp_sessionName p \<noteq> [])
     \<and> (sp_state p = RUNNING \<longrightarrow> sp_bufferPopTask p = Some True)"

lemma make_room_length: "length (make_room q) < DATA_QUEUE_MAX_SIZE" and make_room_set: "set (make_room q) \<subseteq> set q"
  by (induction q) auto

lemma send_frame_plugin: "fst (send_frame B ext b s) = fst s"
  by (cases s) (simp add: send_frame_def split: option.split)

lemma sb_inv_step:
  assumes "video_out_step V B s t" and "sb_inv (fst s)"
  shows "sb_inv (fst t)"
  using assms
proof cases
  case (vo_push p ch buffer)
  with assms(2) make_room_length [of "sp_dataQueue p"] make_room_set [of "sp_dataQueue p"] show ?thesis
    by (auto simp: sb_inv_def VideoOut_PushData_def split: option.split)
next
  case vo_feed
  obtain p ch where s: "s = (p, ch)" by (rule prod.exhaust)
  show ?thesis
  proof (cases "sp_state p \<noteq> RUNNING \<or> sp_bufferPopTask p \<noteq> Some True \<or> sp_dataQueue p = []")
    case True
    with vo_feed s assms(2) show ?thesis by (auto simp: FeedChannelData_def)
  next
    case False
    then obtain x rest where q: "sp_dataQueue p = x # rest" by (cases "sp_dataQueue p") auto
    with assms(2) s obtain b where "x = Some b" by (cases x) (auto simp: sb_inv_def)
    then have "fst t = p\<lparr>sp_dataQueue := rest\<rparr>"
      using vo_feed s False q by (simp add: FeedChannelData_def VideoOut_SendDataToSoftbus_def send_frame_plugin)
    with assms(2) s q show ?thesis by (auto simp: sb_inv_def)
  qed
next
  case vo_start
  with assms(2) show ?thesis
    by (cases s) (auto simp: sb_inv_def VideoOut_Start_def Out_OpenSoftbusChannel_def Let_def split: prod.splits if_splits)
qed (use assms(2) in \<open>auto simp: sb_inv_def VideoPlugin_Init_def VideoPlugin_SetParameter_def AudioPlugin_SetParameter_def OutPlugin_SetCallback_def
  VideoOut_Prepare_def VideoOut_Stop_def Out_CloseSoftbusChannel_def VideoOut_Reset_def Let_def split: option.splits prod.splits if_splits\<close>)

text \<open>
  Property C38. In every state that the plugin which sends video reaches, whatever is called on it and in whatever order, its queue
  holds at most 1000 frames and no null pointer, and when it runs, its thread runs and it has the name of its session.
\<close>

theorem video_sender_invariant:
  assumes "(video_out_step V B)\<^sup>*\<^sup>* (sb_plugin_new self, ch) (p, ch1)"
  shows "length (sp_dataQueue p) \<le> 1000 \<and> None \<notin> set (sp_dataQueue p)
    \<and> (sp_state p = RUNNING \<longrightarrow> sp_bufferPopTask p = Some True \<and> sp_sessionName p \<noteq> [])"
proof -
  have "sb_inv (fst s)" if "(video_out_step V B)\<^sup>*\<^sup>* (sb_plugin_new self, ch) s" for s
    using that
  proof (induction rule: rtranclp_induct)
    case base
    show ?case by (simp add: sb_inv_def sb_plugin_new_def)
  next
    case (step s t)
    then show ?case by (blast intro: sb_inv_step)
  qed
  from this [OF assms] show ?thesis by (simp add: sb_inv_def)
qed

text \<open>The receiving plugins clear their data callback before they stop their thread, as the plugin of the screen does.\<close>

lemma input_reset_clears_callback_too_early:
  assumes "sp_isrunning p" and "sp_bufferPopTask p = Some True" and "sp_state p = RUNNING" and "sp_dataQueue p = Some b # rest"
  shows "VideoIn_HandleData (in_reset_callbacks p) = None"
  using assms by (simp add: VideoIn_HandleData_def in_reset_callbacks_def)

section \<open>Samples\<close>

definition sample_buffers :: buffer_api where
  "sample_buffers = \<lparr> bu_AUDIO = 0, bu_VIDEO = 1,
     bu_CreateDefaultBuffer = (\<lambda>t n. \<lparr> mb_pts = 0, mb_empty = False, mb_memory = Some (replicate n CHR 0x00),
       mb_meta = Some \<lparr> mt_type = t, mt_frameNumber = None, mt_framePts = None, mt_startTime = None, mt_samples = None \<rparr> \<rparr>),
     bu_Write = (\<lambda>d b. (length d, b\<lparr>mb_memory := Some d\<rparr>)), bu_copy = (\<lambda>b. b), bu_missing = 0 \<rparr>"

lemma sample_buffer_laws: "buffer_laws sample_buffers"
  by (simp add: buffer_laws_def sample_buffers_def)

definition sample_plugin_env :: "jnode plugin_env" where
  "sample_plugin_env = \<lparr> pv_buffer = sample_buffers, pv_json = model_cjson, pv_shm = sample_shm, pv_string = (\<lambda>_. []), pv_bool = (\<lambda>_. False),
     pv_int = (\<lambda>_. 0) \<rparr>"

lemma sample_plugin_env_sel [simp]:
  "pv_json sample_plugin_env = model_cjson" "pv_buffer sample_plugin_env = sample_buffers" "pv_shm sample_plugin_env = sample_shm"
  "bu_VIDEO sample_buffers = 1" "bu_AUDIO sample_buffers = 0"
  by (simp_all add: sample_plugin_env_def sample_buffers_def)

lemma model_reads_back:
  assumes "list_all (\<lambda>c. c \<noteq> CHR 0x00) (jn_print 10 ob)" and "map_option fst (jn_parse (length (jn_print 10 ob)) (jn_print 10 ob)) = Some ob"
    and "\<forall>k\<in>ks. cJSON_GetObjectItemCaseSensitive model_cjson ob k = cJSON_GetObjectItem model_cjson ob k"
  shows "items_read_back model_cjson ob ks \<and> both_read_back model_cjson ob ks"
proof -
  have "CHR 0x00 \<notin> set (jn_print 10 ob)" using assms(1) by (auto simp: list_all_iff)
  moreover have "cJSON_PrintUnformatted model_cjson ob = Some (jn_print 10 ob)" "cJSON_Parse model_cjson (jn_print 10 ob) = Some ob"
    using assms(2) by (simp_all add: model_cjson_def)
  ultimately show ?thesis using assms(3) unfolding items_read_back_def both_read_back_def by blast
qed

definition sample_video :: mbuf where
  "sample_video = \<lparr> mb_pts = 5000000000, mb_empty = False, mb_memory = Some ''frame'',
     mb_meta = Some \<lparr> mt_type = 1, mt_frameNumber = Some 7, mt_framePts = None, mt_startTime = None, mt_samples = None \<rparr> \<rparr>"

definition sample_video_json :: jnode where
  "sample_video_json = JObj [(''meta_data_type'', JNum 1), (''meta_timestamp'', JNum 5000000000), (''meta_frame_number'', JNum 7)]"

definition sample_video_ext :: jnode where
  "sample_video_ext = JObj [(AVT_DATA_META_TYPE, JNum 1), (AVT_DATA_PARAM, JStr (jn_print 10 sample_video_json))]"

lemma sample_video_json_back: "items_read_back model_cjson sample_video_json video_keys"
proof -
  have "list_all (\<lambda>c. c \<noteq> CHR 0x00) (jn_print 10 sample_video_json)" by code_simp
  moreover have "map_option fst (jn_parse (length (jn_print 10 sample_video_json)) (jn_print 10 sample_video_json)) = Some sample_video_json" by code_simp
  moreover have "\<forall>k\<in>video_keys. cJSON_GetObjectItemCaseSensitive model_cjson sample_video_json k = cJSON_GetObjectItem model_cjson sample_video_json k"
    by code_simp
  ultimately show ?thesis using model_reads_back by blast
qed

lemma sample_video_ext_back: "both_read_back model_cjson sample_video_ext {AVT_DATA_META_TYPE, AVT_DATA_PARAM}"
proof -
  have "list_all (\<lambda>c. c \<noteq> CHR 0x00) (jn_print 10 sample_video_ext)" by code_simp
  moreover have "map_option fst (jn_parse (length (jn_print 10 sample_video_ext)) (jn_print 10 sample_video_ext)) = Some sample_video_ext" by code_simp
  moreover have "\<forall>k\<in>{AVT_DATA_META_TYPE, AVT_DATA_PARAM}.
      cJSON_GetObjectItemCaseSensitive model_cjson sample_video_ext k = cJSON_GetObjectItem model_cjson sample_video_ext k" by code_simp
  ultimately show ?thesis using model_reads_back by blast
qed

lemma print_no_nul: "list_all (\<lambda>c. c \<noteq> CHR 0x00) (jn_print 10 ob) \<Longrightarrow> c_str (jn_print 10 ob) = jn_print 10 ob"
  by (rule c_str_id) (auto simp: list_all_iff)

lemma sample_video_meta:
  "video_meta_json model_cjson (sent_video_meta sample_plugin_env sample_video (the (mb_meta sample_video))) (JObj []) = sample_video_json"
  "MarshalVideoMeta model_cjson (sent_video_meta sample_plugin_env sample_video (the (mb_meta sample_video))) = jn_print 10 sample_video_json"
proof -
  let ?v = "sent_video_meta sample_plugin_env sample_video (the (mb_meta sample_video))"
  have v: "?v = video_meta_new\<lparr>vi_frameNum := 7, vi_pts := 5000000000\<rparr>"
    by (simp add: sent_video_meta_def sample_video_def opt_or_def video_meta_new_def)
  show j: "video_meta_json model_cjson ?v (JObj []) = sample_video_json"
    unfolding v by (simp add: video_meta_json_def video_meta_new_def model_cjson_def jn_add_def sample_video_json_def Let_def)
  have n: "c_str (jn_print 10 sample_video_json) = jn_print 10 sample_video_json" by (rule print_no_nul) code_simp
  have "MarshalVideoMeta model_cjson ?v = c_str (jn_print 10 (video_meta_json model_cjson ?v (JObj [])))"
    unfolding v by (simp add: MarshalVideoMeta_def video_meta_json_def video_meta_new_def model_cjson_def double_of_int_def Let_def)
  then show "MarshalVideoMeta model_cjson ?v = jn_print 10 sample_video_json" using j n by simp
qed

theorem video_frame_crosses_the_bus_witness:
  "\<exists>e g. VideoIn_OnStreamReceived sample_plugin_env (Some ''frame'') (Some e) (sb_plugin_new 1)
        = Some ((sb_plugin_new 1)\<lparr>sp_reDumpFlag := False, sp_dataQueue := [Some g]\<rparr>)
    \<and> mb_memory g = Some ''frame'' \<and> mb_pts g = 2147483647
    \<and> mb_meta g = Some \<lparr> mt_type = 1, mt_frameNumber = Some 7, mt_framePts = None, mt_startTime = None, mt_samples = None \<rparr>"
proof -
  let ?m = "the (mb_meta sample_video)"
  have l: "cjson_build_laws (pv_json sample_plugin_env)" "cJSON_CreateObject (pv_json sample_plugin_env) = Some (JObj [])"
    "buffer_laws (pv_buffer sample_plugin_env)"
    by (simp_all add: model_cjson_laws sample_buffer_laws) (simp add: model_cjson_def)
  have f: "mb_memory sample_video = Some ''frame''" "mb_meta sample_video = Some ?m" "mt_type ?m = bu_VIDEO (pv_buffer sample_plugin_env)"
    "mt_frameNumber ?m = Some 7" "unat (mt_type ?m) \<le> 2147483647" "0 \<le> mb_pts sample_video" "mb_pts sample_video < 2 ^ 53"
    "0 \<le> opt_or 0 (mt_startTime ?m)" "opt_or 0 (mt_startTime ?m) < 2 ^ 53"
    by (simp_all add: sample_video_def opt_or_def)
  have i: "items_read_back (pv_json sample_plugin_env) (video_meta_json (pv_json sample_plugin_env) (sent_video_meta sample_plugin_env sample_video ?m) (JObj [])) video_keys"
    using sample_video_json_back by (simp add: sample_video_meta)
  have "ext_json model_cjson 1 (jn_print 10 sample_video_json) (JObj []) = sample_video_ext"
    by (simp add: ext_json_def model_cjson_def jn_add_def sample_video_ext_def)
  then have x: "both_read_back (pv_json sample_plugin_env) (ext_json (pv_json sample_plugin_env) (mt_type ?m)
      (MarshalVideoMeta (pv_json sample_plugin_env) (sent_video_meta sample_plugin_env sample_video ?m)) (JObj [])) {AVT_DATA_META_TYPE, AVT_DATA_PARAM}"
    using sample_video_ext_back f(3) by (simp add: sample_video_meta)
  from video_frame_crosses_the_bus [OF l f i x, where q = "sb_plugin_new 1" and B = sample_av_bus and p = "sb_plugin_new 2"
      and a = channel_adapter_new and h = "(1, [])"] show ?thesis
    by (auto simp: sample_video_def positive_def sb_plugin_new_def)
qed

definition sample_audio :: mbuf where
  "sample_audio = \<lparr> mb_pts = 0, mb_empty = False, mb_memory = Some ''sound'',
     mb_meta = Some \<lparr> mt_type = 0, mt_frameNumber = None, mt_framePts = None, mt_startTime = None, mt_samples = None \<rparr> \<rparr>"

definition sample_capture :: capture_plugin where
  "sample_capture = \<lparr> cp_frameNumber = 8, cp_paramsMap = Map.empty, cp_sharedMemory = \<lparr> sm_fd = 0, sm_size = 0, sm_name = [] \<rparr> \<rparr>"

definition captured_meta :: mbuf_meta where
  "captured_meta = \<lparr> mt_type = 0, mt_frameNumber = Some 9, mt_framePts = Some 5000000000, mt_startTime = None, mt_samples = None \<rparr>"

definition sample_audio_ext :: jnode where
  "sample_audio_ext = JObj [(AVT_DATA_META_TYPE, JNum 0), (AVT_DATA_PARAM, JStr (jn_print 10
     (JObj [(''meta_data_type'', JNum 0), (''meta_timestamp'', JNum 5000000000), (''meta_frame_number'', JNum 9)])))]"

definition sample_player :: audio_player where
  "sample_player = \<lparr> ap_state = RUNNING, ap_sendPlayTask = Some True, ap_isrunning = True, ap_outputBuffer = [], ap_paramsMap = Map.empty,
     ap_eventcallback = False, ap_datacallback = True, ap_resample = True, ap_sharedMemory = fst sample_ring, ap_smIndex = 0 \<rparr>"

lemma sample_audio_sent:
  "sent_audio_meta captured_meta = sample_audio_meta"
  "MarshalAudioMeta model_cjson sample_audio_meta =
     jn_print 10 (JObj [(''meta_data_type'', JNum 0), (''meta_timestamp'', JNum 5000000000), (''meta_frame_number'', JNum 9)])"
proof -
  let ?o = "JObj [(''meta_data_type'', JNum 0), (''meta_timestamp'', JNum 5000000000), (''meta_frame_number'', JNum 9)]"
  show "sent_audio_meta captured_meta = sample_audio_meta"
    by (simp add: sent_audio_meta_def captured_meta_def sample_audio_meta_def opt_or_def)
  have n: "c_str (jn_print 10 ?o) = jn_print 10 ?o" by (rule print_no_nul) code_simp
  have "MarshalAudioMeta model_cjson sample_audio_meta = c_str (jn_print 10 ?o)"
    by (simp add: MarshalAudioMeta_def sample_audio_meta_def audio_meta_new_def model_cjson_def jn_add_def double_of_int_def Let_def)
  then show "MarshalAudioMeta model_cjson sample_audio_meta = jn_print 10 ?o" using n by simp
qed

lemma sample_audio_ext_back: "both_read_back model_cjson sample_audio_ext {AVT_DATA_META_TYPE, AVT_DATA_PARAM}"
proof -
  have "list_all (\<lambda>c. c \<noteq> CHR 0x00) (jn_print 10 sample_audio_ext)" by code_simp
  moreover have "map_option fst (jn_parse (length (jn_print 10 sample_audio_ext)) (jn_print 10 sample_audio_ext)) = Some sample_audio_ext" by code_simp
  moreover have "\<forall>k\<in>{AVT_DATA_META_TYPE, AVT_DATA_PARAM}.
      cJSON_GetObjectItemCaseSensitive model_cjson sample_audio_ext k = cJSON_GetObjectItem model_cjson sample_audio_ext k" by code_simp
  ultimately show ?thesis using model_reads_back by blast
qed

theorem audio_clock_stands_still_witness:
  "\<exists>e g. AudioIn_OnStreamReceived sample_plugin_env (Some ''sound'') (Some e) (sb_plugin_new 1) = Some ((sb_plugin_new 1)\<lparr>sp_dataQueue := [Some g]\<rparr>)
    \<and> mb_pts g = 2147483647"
proof -
  define b where "b = sample_audio\<lparr>mb_pts := 5000000000, mb_meta := Some captured_meta\<rparr>"
  have l: "cjson_build_laws (pv_json sample_plugin_env)" "cJSON_CreateObject (pv_json sample_plugin_env) = Some (JObj [])"
    "buffer_laws (pv_buffer sample_plugin_env)"
    by (simp_all add: model_cjson_laws sample_buffer_laws) (simp add: model_cjson_def)
  have c: "DaudioInput_PushData sample_plugin_env 5000000000 (Some sample_audio) (sample_capture, []) = Some (OUT_OK, Some b, sample_capture\<lparr>cp_frameNumber := 9\<rparr>, [])"
    by (simp add: DaudioInput_PushData_def sample_audio_def sample_capture_def b_def captured_meta_def memory_set_def Let_def)
  have f: "mb_memory sample_audio = Some ''sound''" "2147483647 \<le> (5000000000 :: int)" "(5000000000 :: int) < 2 ^ 53"
    "unat (bu_AUDIO (pv_buffer sample_plugin_env)) \<le> 2147483647" "mb_meta b = Some captured_meta"
    by (simp_all add: sample_audio_def b_def)
  have i: "items_read_back (pv_json sample_plugin_env) (audio_meta_json (pv_json sample_plugin_env) (sent_audio_meta captured_meta) (JObj []))
      {''meta_data_type'', ''meta_timestamp'', ''meta_frame_number''}"
    using sample_audio_reads_back by (simp add: sample_audio_sent)
  have "ext_json model_cjson 0 (MarshalAudioMeta model_cjson sample_audio_meta) (JObj []) = sample_audio_ext"
    unfolding sample_audio_sent(2) by (simp add: ext_json_def model_cjson_def jn_add_def sample_audio_ext_def)
  then have x: "both_read_back (pv_json sample_plugin_env) (ext_json (pv_json sample_plugin_env) (mt_type captured_meta)
      (MarshalAudioMeta (pv_json sample_plugin_env) (sent_audio_meta captured_meta)) (JObj [])) {AVT_DATA_META_TYPE, AVT_DATA_PARAM}"
    using sample_audio_ext_back by (simp add: sample_audio_sent(1)) (simp add: captured_meta_def)
  have m: "memory_set (ap_sharedMemory sample_player)"
    using sample_ring_ready by (simp add: sample_player_def memory_set_def segment_ready_def IsInValidSharedMemory_def)
  from audio_clock_stands_still [OF l c f i x m, where q = "sb_plugin_new 1" and B = sample_av_bus and p = "sb_plugin_new 2"
      and a = channel_adapter_new and h = "(1, [])" and ss = "snd sample_ring"] show ?thesis by (auto simp: sb_plugin_new_def)
qed

theorem video_sender_invariant_witness:
  "sp_dataQueue (snd (VideoOut_PushData (Some sample_video) (sb_plugin_new 4))) = [Some sample_video]
   \<and> length (sp_dataQueue (snd (VideoOut_PushData (Some sample_video) (sb_plugin_new 4)))) \<le> 1000
   \<and> None \<notin> set (sp_dataQueue (snd (VideoOut_PushData (Some sample_video) (sb_plugin_new 4))))"
proof -
  have "(video_out_step sample_plugin_env sample_av_bus)\<^sup>*\<^sup>* (sb_plugin_new 4, channel_adapter_new, 1, [])
      (snd (VideoOut_PushData (Some sample_video) (sb_plugin_new 4)), channel_adapter_new, 1, [])"
    by (rule r_into_rtranclp) (rule vo_push)
  from video_sender_invariant [OF this] show ?thesis by (simp add: VideoOut_PushData_def sample_video_def sb_plugin_new_def)
qed

end
