(* ===== verification/DHF_Ipc.thy ===== *)
theory DHF_Ipc
  imports DHF_Publisher DHF_AvCenter
begin

text \<open>
  The requests of other processes: the stub in the service (\<open>distributed_hardware_stub.cpp\<close>), the proxy in the client
  (\<open>distributed_hardware_proxy.cpp\<close>), and the pair for the messages that go back to a listener
  (\<open>publisher_listener_proxy.cpp\<close>, \<open>publisher_listener_stub.cpp\<close>).

  The parcels, the transport of a request and the access tokens belong to the system and are parameters: \<open>parcel\<close> holds the
  operations of \<open>MessageParcel\<close>, \<open>ipc_env\<close> what the stub asks of the token kit and of \<open>iface_cast\<close>, and a remote object is
  the function its \<open>SendRequest\<close> is. What the code relies on is stated by \<open>parcel_laws\<close> (values are read in the order
  they were written) and \<open>request_delivered\<close>. The operations of the service that the stub calls are the fields of \<open>service\<close>;
  theory \<open>DHF_Service\<close> gives them. \<open>None\<close> is an access through a null pointer. A remote object is a number.
\<close>

abbreviation (input) NO_ERROR :: int where "NO_ERROR \<equiv> 0"
abbreviation (input) PERMISSION_GRANTED :: int where "PERMISSION_GRANTED \<equiv> 0"
abbreviation (input) ERR_DH_FWK_SERVICE_IPC_SEND_REQUEST_FAIL :: ret where "ERR_DH_FWK_SERVICE_IPC_SEND_REQUEST_FAIL \<equiv> - 10801"
abbreviation (input) ERR_DH_FWK_SERVICE_WRITE_TOKEN_FAIL :: ret where "ERR_DH_FWK_SERVICE_WRITE_TOKEN_FAIL \<equiv> - 10805"
abbreviation (input) ERR_DH_FWK_SERVICE_REMOTE_IS_NULL :: ret where "ERR_DH_FWK_SERVICE_REMOTE_IS_NULL \<equiv> - 10806"
abbreviation (input) ERR_DH_FWK_SERVICE_WRITE_INFO_FAIL :: ret where "ERR_DH_FWK_SERVICE_WRITE_INFO_FAIL \<equiv> - 10807"
abbreviation (input) ERR_DH_FWK_PUBLISHER_LISTENER_IS_NULL :: ret where "ERR_DH_FWK_PUBLISHER_LISTENER_IS_NULL \<equiv> - 10808"
abbreviation (input) ERR_DH_FWK_SERVICE_MSG_INVALID :: ret where "ERR_DH_FWK_SERVICE_MSG_INVALID \<equiv> - 10809"
abbreviation (input) ERR_DH_FWK_AVTRANS_CALLBACK_IS_NULL :: ret where "ERR_DH_FWK_AVTRANS_CALLBACK_IS_NULL \<equiv> - 10810"
abbreviation (input) ERR_DH_FWK_ACCESS_PERMISSION_CHECK_FAIL :: ret where "ERR_DH_FWK_ACCESS_PERMISSION_CHECK_FAIL \<equiv> - 11200"
abbreviation (input) ERR_DH_FWK_IS_SYSTEM_HAP_CHECK_FAIL :: ret where "ERR_DH_FWK_IS_SYSTEM_HAP_CHECK_FAIL \<equiv> - 11201"
abbreviation (input) ERR_DH_AVT_SERVICE_REMOTE_IS_NULL :: ret where "ERR_DH_AVT_SERVICE_REMOTE_IS_NULL \<equiv> - 80017"
abbreviation (input) ERR_DH_AVT_SERVICE_WRITE_TOKEN_FAIL :: ret where "ERR_DH_AVT_SERVICE_WRITE_TOKEN_FAIL \<equiv> - 80018"
abbreviation (input) ERR_DH_AVT_SERVICE_IPC_SEND_REQUEST_FAIL :: ret where "ERR_DH_AVT_SERVICE_IPC_SEND_REQUEST_FAIL \<equiv> - 80019"
abbreviation (input) ERR_DH_AVT_SERVICE_WRITE_INFO_FAIL :: ret where "ERR_DH_AVT_SERVICE_WRITE_INFO_FAIL \<equiv> - 80019"

text \<open>\<open>enum class DHMsgInterfaceCode\<close>\<close>

abbreviation (input) REG_PUBLISHER_LISTNER :: "32 word" where "REG_PUBLISHER_LISTNER \<equiv> 48001"
abbreviation (input) UNREG_PUBLISHER_LISTENER :: "32 word" where "UNREG_PUBLISHER_LISTENER \<equiv> 48002"
abbreviation (input) PUBLISH_MESSAGE :: "32 word" where "PUBLISH_MESSAGE \<equiv> 48003"
abbreviation (input) INIT_CTL_CEN :: "32 word" where "INIT_CTL_CEN \<equiv> 48004"
abbreviation (input) RELEASE_CTL_CEN :: "32 word" where "RELEASE_CTL_CEN \<equiv> 48005"
abbreviation (input) CREATE_CTL_CEN_CHANNEL :: "32 word" where "CREATE_CTL_CEN_CHANNEL \<equiv> 48006"
abbreviation (input) NOTIFY_AV_EVENT :: "32 word" where "NOTIFY_AV_EVENT \<equiv> 48007"
abbreviation (input) REGISTER_CTL_CEN_CALLBACK :: "32 word" where "REGISTER_CTL_CEN_CALLBACK \<equiv> 48008"
abbreviation (input) QUERY_LOCAL_SYS_SPEC :: "32 word" where "QUERY_LOCAL_SYS_SPEC \<equiv> 48009"
abbreviation (input) PAUSE_DISTRIBUTED_HARDWARE :: "32 word" where "PAUSE_DISTRIBUTED_HARDWARE \<equiv> 480010"
abbreviation (input) RESUME_DISTRIBUTED_HARDWARE :: "32 word" where "RESUME_DISTRIBUTED_HARDWARE \<equiv> 480011"
abbreviation (input) STOP_DISTRIBUTED_HARDWARE :: "32 word" where "STOP_DISTRIBUTED_HARDWARE \<equiv> 480012"
abbreviation (input) NOTIFY_SOURCE_DEVICE_REMOTE_DMSDP_STARTED :: "32 word" where "NOTIFY_SOURCE_DEVICE_REMOTE_DMSDP_STARTED \<equiv> 1"
abbreviation (input) ON_MESSAGE :: "32 word" where "ON_MESSAGE \<equiv> 0"

abbreviation (input) SPEC_MIN :: "32 word" where "SPEC_MIN \<equiv> 0"
abbreviation (input) SPEC_MAX :: "32 word" where "SPEC_MAX \<equiv> 5"

definition dhfwk_descriptor :: string where "dhfwk_descriptor = ''ohos.distributedhardware.accessToken''"
definition listener_descriptor :: string where "listener_descriptor = ''ohos.DistributedHardware.DistributedHardwareFwk.IPublisherListener''"
definition ACCESS_DH :: string where "ACCESS_DH = ''ohos.permission.ACCESS_DISTRIBUTED_HARDWARE''"

section \<open>What the system provides\<close>

record 'p parcel =
  pc_new :: 'p
  pc_WriteInterfaceToken :: "string \<Rightarrow> 'p \<Rightarrow> bool \<times> 'p"
  pc_WriteUint32 :: "32 word \<Rightarrow> 'p \<Rightarrow> bool \<times> 'p"
  pc_WriteInt32 :: "int \<Rightarrow> 'p \<Rightarrow> bool \<times> 'p"
  pc_WriteString :: "string \<Rightarrow> 'p \<Rightarrow> bool \<times> 'p"
  pc_WriteRemoteObject :: "nat option \<Rightarrow> 'p \<Rightarrow> bool \<times> 'p"
  pc_ReadInterfaceToken :: "'p \<Rightarrow> string \<times> 'p"
  pc_ReadUint32 :: "'p \<Rightarrow> 32 word \<times> 'p"
  pc_ReadInt32 :: "'p \<Rightarrow> int \<times> 'p"
  pc_ReadString :: "'p \<Rightarrow> string \<times> 'p"
  pc_ReadRemoteObject :: "'p \<Rightarrow> nat option \<times> 'p"

text \<open>
  The caller's tokens, the answers of the token kit, the two casts of a remote object to an interface (which make a new proxy,
  so they may depend on the state), the system's code for invalid data, and the stub of the system for the codes that are not known.
\<close>

record ('p, 's) ipc_env =
  ie_CallingTokenID :: "32 word"
  ie_CallingFullTokenID :: "64 word"
  ie_VerifyAccessToken :: "32 word \<Rightarrow> string \<Rightarrow> int"
  ie_AllocLocalTokenID :: "string \<Rightarrow> 32 word \<Rightarrow> 32 word"
  ie_IsSystemAppByFullTokenID :: "64 word \<Rightarrow> bool"
  ie_listener_cast :: "nat option \<Rightarrow> 's \<Rightarrow> nat option"
  ie_callback_cast :: "nat option \<Rightarrow> 's \<Rightarrow> nat option"
  ie_ERR_INVALID_DATA :: int
  ie_default :: "32 word \<Rightarrow> 'p \<Rightarrow> 'p \<Rightarrow> int \<times> 'p"

text \<open>\<open>IDistributedHardware\<close>, and the look-up of the context that the stub makes.\<close>

record 's service =
  sv_RegisterPublisherListener :: "topic \<Rightarrow> nat option \<Rightarrow> 's \<Rightarrow> (ret \<times> 's) option"
  sv_UnregisterPublisherListener :: "topic \<Rightarrow> nat option \<Rightarrow> 's \<Rightarrow> (ret \<times> 's) option"
  sv_PublishMessage :: "topic \<Rightarrow> string \<Rightarrow> 's \<Rightarrow> (ret \<times> 's) option"
  sv_QueryLocalSysSpec :: "32 word \<Rightarrow> 's \<Rightarrow> (string \<times> 's) option"
  sv_InitializeAVCenter :: "32 word \<Rightarrow> 's \<Rightarrow> (ret \<times> int \<times> 's) option"
  sv_ReleaseAVCenter :: "int \<Rightarrow> 's \<Rightarrow> (ret \<times> 's) option"
  sv_CreateControlChannel :: "int \<Rightarrow> string \<Rightarrow> 's \<Rightarrow> (ret \<times> 's) option"
  sv_NotifyAVCenter :: "int \<Rightarrow> 32 word \<Rightarrow> string \<Rightarrow> string \<Rightarrow> 's \<Rightarrow> (ret \<times> 's) option"
  sv_RegisterCtlCenterCallback :: "int \<Rightarrow> nat option \<Rightarrow> 's \<Rightarrow> (ret \<times> 's) option"
  sv_NotifySourceRemoteSinkStarted :: "string \<Rightarrow> 's \<Rightarrow> (ret \<times> 's) option"
  sv_PauseDistributedHardware :: "dhtype \<Rightarrow> string \<Rightarrow> 's \<Rightarrow> (ret \<times> 's) option"
  sv_ResumeDistributedHardware :: "dhtype \<Rightarrow> string \<Rightarrow> 's \<Rightarrow> (ret \<times> 's) option"
  sv_StopDistributedHardware :: "dhtype \<Rightarrow> string \<Rightarrow> 's \<Rightarrow> (ret \<times> 's) option"
  sv_GetNetworkIdByUDID :: "string \<Rightarrow> 's \<Rightarrow> string"

section \<open>The stub\<close>

type_synonym ('p, 's) answer = "(int \<times> 'p \<times> 's) option"

definition HasAccessDHPermission :: "('p, 's) ipc_env \<Rightarrow> bool" where
  "HasAccessDHPermission E \<longleftrightarrow> ie_VerifyAccessToken E (ie_CallingTokenID E) ACCESS_DH = PERMISSION_GRANTED"

definition IsSystemHap :: "('p, 's) ipc_env \<Rightarrow> bool" where
  "IsSystemHap E = (if \<not> ie_IsSystemAppByFullTokenID E (ie_CallingFullTokenID E) then False else True)"

definition ValidQueryLocalSpec :: "32 word \<Rightarrow> bool" where
  "ValidQueryLocalSpec spec = (if spec \<le> SPEC_MIN \<or> spec \<ge> SPEC_MAX then False else True)"

text \<open>The end that most of the handlers share: the result goes into the reply.\<close>

definition reply_ret :: "'p parcel \<Rightarrow> 'p \<Rightarrow> (ret \<times> 's) option \<Rightarrow> ('p, 's) answer" where
  "reply_ret P reply res =
     (case res of None \<Rightarrow> None
      | Some (r, s) \<Rightarrow>
          let (ok, reply1) = pc_WriteInt32 P r reply in
          if \<not> ok then Some (ERR_DH_FWK_SERVICE_WRITE_INFO_FAIL, reply1, s) else Some (DH_FWK_SUCCESS, reply1, s))"

definition RegisterPublisherListenerInner :: "'p parcel \<Rightarrow> ('p, 's) ipc_env \<Rightarrow> 's service \<Rightarrow> 'p \<Rightarrow> 'p \<Rightarrow> 's \<Rightarrow> ('p, 's) answer" where
  "RegisterPublisherListenerInner P E svc data reply s =
     (if \<not> HasAccessDHPermission E then Some (ERR_DH_FWK_ACCESS_PERMISSION_CHECK_FAIL, reply, s)
      else let (topicInt, data1) = pc_ReadUint32 P data in
        if \<not> ValidTopic topicInt
        then Some (ERR_DH_FWK_PARA_INVALID, snd (pc_WriteInt32 P ERR_DH_FWK_PARA_INVALID reply), s)
        else let listener = ie_listener_cast E (fst (pc_ReadRemoteObject P data1)) s in
          if listener = None then Some (ERR_DH_FWK_PARA_INVALID, snd (pc_WriteInt32 P ERR_DH_FWK_PARA_INVALID reply), s)
          else case sv_RegisterPublisherListener svc topicInt listener s of
            None \<Rightarrow> None
          | Some (r, s1) \<Rightarrow> Some (DH_FWK_SUCCESS, snd (pc_WriteInt32 P DH_FWK_SUCCESS reply), s1))"

definition UnregisterPublisherListenerInner :: "'p parcel \<Rightarrow> ('p, 's) ipc_env \<Rightarrow> 's service \<Rightarrow> 'p \<Rightarrow> 'p \<Rightarrow> 's \<Rightarrow> ('p, 's) answer" where
  "UnregisterPublisherListenerInner P E svc data reply s =
     (if \<not> HasAccessDHPermission E then Some (ERR_DH_FWK_ACCESS_PERMISSION_CHECK_FAIL, reply, s)
      else let (topicInt, data1) = pc_ReadUint32 P data in
        if \<not> ValidTopic topicInt
        then Some (ERR_DH_FWK_PARA_INVALID, snd (pc_WriteInt32 P ERR_DH_FWK_PARA_INVALID reply), s)
        else let listener = ie_listener_cast E (fst (pc_ReadRemoteObject P data1)) s in
          if listener = None then Some (ERR_DH_FWK_PARA_INVALID, snd (pc_WriteInt32 P ERR_DH_FWK_PARA_INVALID reply), s)
          else case sv_UnregisterPublisherListener svc topicInt listener s of
            None \<Rightarrow> None
          | Some (r, s1) \<Rightarrow> Some (DH_FWK_SUCCESS, snd (pc_WriteInt32 P DH_FWK_SUCCESS reply), s1))"

definition PublishMessageInner :: "'p parcel \<Rightarrow> ('p, 's) ipc_env \<Rightarrow> 's service \<Rightarrow> 'p \<Rightarrow> 'p \<Rightarrow> 's \<Rightarrow> ('p, 's) answer" where
  "PublishMessageInner P E svc data reply s =
     (if \<not> HasAccessDHPermission E then Some (ERR_DH_FWK_ACCESS_PERMISSION_CHECK_FAIL, reply, s)
      else let (topicInt, data1) = pc_ReadUint32 P data in
        if \<not> ValidTopic topicInt
        then Some (ERR_DH_FWK_PARA_INVALID, snd (pc_WriteInt32 P ERR_DH_FWK_PARA_INVALID reply), s)
        else case sv_PublishMessage svc topicInt (fst (pc_ReadString P data1)) s of
          None \<Rightarrow> None
        | Some (r, s1) \<Rightarrow> Some (DH_FWK_SUCCESS, snd (pc_WriteInt32 P DH_FWK_SUCCESS reply), s1))"

definition QueryLocalSysSpecInner :: "'p parcel \<Rightarrow> ('p, 's) ipc_env \<Rightarrow> 's service \<Rightarrow> 'p \<Rightarrow> 'p \<Rightarrow> 's \<Rightarrow> ('p, 's) answer" where
  "QueryLocalSysSpecInner P E svc data reply s =
     (if \<not> HasAccessDHPermission E then Some (ERR_DH_FWK_ACCESS_PERMISSION_CHECK_FAIL, reply, s)
      else let (specInt, data1) = pc_ReadUint32 P data in
        if \<not> ValidQueryLocalSpec specInt
        then Some (ERR_DH_FWK_PARA_INVALID, snd (pc_WriteInt32 P ERR_DH_FWK_PARA_INVALID reply), s)
        else case sv_QueryLocalSysSpec svc specInt s of
          None \<Rightarrow> None
        | Some (res, s1) \<Rightarrow> Some (DH_FWK_SUCCESS, snd (pc_WriteString P res reply), s1))"

definition InitializeAVCenterInner :: "'p parcel \<Rightarrow> ('p, 's) ipc_env \<Rightarrow> 's service \<Rightarrow> 'p \<Rightarrow> 'p \<Rightarrow> 's \<Rightarrow> ('p, 's) answer" where
  "InitializeAVCenterInner P E svc data reply s =
     (if \<not> HasAccessDHPermission E then Some (ERR_DH_FWK_ACCESS_PERMISSION_CHECK_FAIL, reply, s)
      else case sv_InitializeAVCenter svc (fst (pc_ReadUint32 P data)) s of
        None \<Rightarrow> None
      | Some (r, engineId, s1) \<Rightarrow>
          let (ok, reply1) = pc_WriteInt32 P engineId reply in
          if \<not> ok then Some (ERR_DH_FWK_SERVICE_WRITE_INFO_FAIL, reply1, s1) else reply_ret P reply1 (Some (r, s1)))"

definition ReleaseAVCenterInner :: "'p parcel \<Rightarrow> ('p, 's) ipc_env \<Rightarrow> 's service \<Rightarrow> 'p \<Rightarrow> 'p \<Rightarrow> 's \<Rightarrow> ('p, 's) answer" where
  "ReleaseAVCenterInner P E svc data reply s =
     (if \<not> HasAccessDHPermission E then Some (ERR_DH_FWK_ACCESS_PERMISSION_CHECK_FAIL, reply, s)
      else reply_ret P reply (sv_ReleaseAVCenter svc (fst (pc_ReadInt32 P data)) s))"

definition CreateControlChannelInner :: "'p parcel \<Rightarrow> ('p, 's) ipc_env \<Rightarrow> 's service \<Rightarrow> 'p \<Rightarrow> 'p \<Rightarrow> 's \<Rightarrow> ('p, 's) answer" where
  "CreateControlChannelInner P E svc data reply s =
     (if \<not> HasAccessDHPermission E then Some (ERR_DH_FWK_ACCESS_PERMISSION_CHECK_FAIL, reply, s)
      else let (engineId, data1) = pc_ReadInt32 P data
        in reply_ret P reply (sv_CreateControlChannel svc engineId (fst (pc_ReadString P data1)) s))"

definition NotifyAVCenterInner :: "'p parcel \<Rightarrow> ('p, 's) ipc_env \<Rightarrow> 's service \<Rightarrow> 'p \<Rightarrow> 'p \<Rightarrow> 's \<Rightarrow> ('p, 's) answer" where
  "NotifyAVCenterInner P E svc data reply s =
     (if \<not> HasAccessDHPermission E then Some (ERR_DH_FWK_ACCESS_PERMISSION_CHECK_FAIL, reply, s)
      else let (engineId, data1) = pc_ReadInt32 P data;
               (type, data2) = pc_ReadUint32 P data1;
               (content, data3) = pc_ReadString P data2
        in reply_ret P reply (sv_NotifyAVCenter svc engineId type content (fst (pc_ReadString P data3)) s))"

definition RegisterControlCenterCallbackInner :: "'p parcel \<Rightarrow> ('p, 's) ipc_env \<Rightarrow> 's service \<Rightarrow> 'p \<Rightarrow> 'p \<Rightarrow> 's \<Rightarrow> ('p, 's) answer" where
  "RegisterControlCenterCallbackInner P E svc data reply s =
     (if \<not> HasAccessDHPermission E then Some (ERR_DH_FWK_ACCESS_PERMISSION_CHECK_FAIL, reply, s)
      else let (engineId, data1) = pc_ReadInt32 P data;
               callback = ie_callback_cast E (fst (pc_ReadRemoteObject P data1)) s
        in if callback = None then Some (ERR_DH_FWK_PARA_INVALID, reply, s)
           else reply_ret P reply (sv_RegisterCtlCenterCallback svc engineId callback s))"

definition HandleNotifySourceRemoteSinkStarted :: "'p parcel \<Rightarrow> ('p, 's) ipc_env \<Rightarrow> 's service \<Rightarrow> 'p \<Rightarrow> 'p \<Rightarrow> 's \<Rightarrow> ('p, 's) answer" where
  "HandleNotifySourceRemoteSinkStarted P E svc data reply s =
     (let udid = fst (pc_ReadString P data);
          networkId = sv_GetNetworkIdByUDID svc udid s;
          dAccessToken = ie_AllocLocalTokenID E networkId (ie_CallingTokenID E)
      in if ie_VerifyAccessToken E dAccessToken ACCESS_DH \<noteq> PERMISSION_GRANTED
         then Some (ERR_DH_FWK_ACCESS_PERMISSION_CHECK_FAIL, reply, s)
         else reply_ret P reply (sv_NotifySourceRemoteSinkStarted svc udid s))"

text \<open>The three handlers for applications of the system differ in the operation they call.\<close>

definition system_hap_request ::
  "(dhtype \<Rightarrow> string \<Rightarrow> 's \<Rightarrow> (ret \<times> 's) option) \<Rightarrow> 'p parcel \<Rightarrow> ('p, 's) ipc_env \<Rightarrow> 'p \<Rightarrow> 'p \<Rightarrow> 's \<Rightarrow> ('p, 's) answer" where
  "system_hap_request f P E data reply s =
     (if \<not> IsSystemHap E then Some (ERR_DH_FWK_IS_SYSTEM_HAP_CHECK_FAIL, reply, s)
      else if \<not> HasAccessDHPermission E then Some (ERR_DH_FWK_ACCESS_PERMISSION_CHECK_FAIL, reply, s)
      else let (dhType, data1) = pc_ReadInt32 P data
        in reply_ret P reply (f (of_int dhType) (fst (pc_ReadString P data1)) s))"

definition PauseDistributedHardwareInner :: "'p parcel \<Rightarrow> ('p, 's) ipc_env \<Rightarrow> 's service \<Rightarrow> 'p \<Rightarrow> 'p \<Rightarrow> 's \<Rightarrow> ('p, 's) answer" where
  "PauseDistributedHardwareInner P E svc = system_hap_request (sv_PauseDistributedHardware svc) P E"

definition ResumeDistributedHardwareInner :: "'p parcel \<Rightarrow> ('p, 's) ipc_env \<Rightarrow> 's service \<Rightarrow> 'p \<Rightarrow> 'p \<Rightarrow> 's \<Rightarrow> ('p, 's) answer" where
  "ResumeDistributedHardwareInner P E svc = system_hap_request (sv_ResumeDistributedHardware svc) P E"

definition StopDistributedHardwareInner :: "'p parcel \<Rightarrow> ('p, 's) ipc_env \<Rightarrow> 's service \<Rightarrow> 'p \<Rightarrow> 'p \<Rightarrow> 's \<Rightarrow> ('p, 's) answer" where
  "StopDistributedHardwareInner P E svc = system_hap_request (sv_StopDistributedHardware svc) P E"

definition OnRemoteRequest :: "'p parcel \<Rightarrow> ('p, 's) ipc_env \<Rightarrow> 's service \<Rightarrow> 32 word \<Rightarrow> 'p \<Rightarrow> 'p \<Rightarrow> 's \<Rightarrow> ('p, 's) answer" where
  "OnRemoteRequest P E svc code data reply s =
     (let (token, data1) = pc_ReadInterfaceToken P data in
      if token \<noteq> dhfwk_descriptor then Some (ie_ERR_INVALID_DATA E, reply, s)
      else if code = REG_PUBLISHER_LISTNER then RegisterPublisherListenerInner P E svc data1 reply s
      else if code = UNREG_PUBLISHER_LISTENER then UnregisterPublisherListenerInner P E svc data1 reply s
      else if code = PUBLISH_MESSAGE then PublishMessageInner P E svc data1 reply s
      else if code = INIT_CTL_CEN then InitializeAVCenterInner P E svc data1 reply s
      else if code = RELEASE_CTL_CEN then ReleaseAVCenterInner P E svc data1 reply s
      else if code = CREATE_CTL_CEN_CHANNEL then CreateControlChannelInner P E svc data1 reply s
      else if code = NOTIFY_AV_EVENT then NotifyAVCenterInner P E svc data1 reply s
      else if code = REGISTER_CTL_CEN_CALLBACK then RegisterControlCenterCallbackInner P E svc data1 reply s
      else if code = QUERY_LOCAL_SYS_SPEC then QueryLocalSysSpecInner P E svc data1 reply s
      else if code = NOTIFY_SOURCE_DEVICE_REMOTE_DMSDP_STARTED then HandleNotifySourceRemoteSinkStarted P E svc data1 reply s
      else if code = PAUSE_DISTRIBUTED_HARDWARE then PauseDistributedHardwareInner P E svc data1 reply s
      else if code = RESUME_DISTRIBUTED_HARDWARE then ResumeDistributedHardwareInner P E svc data1 reply s
      else if code = STOP_DISTRIBUTED_HARDWARE then StopDistributedHardwareInner P E svc data1 reply s
      else let (r, reply1) = ie_default E code data1 reply in Some (r, reply1, s))"

section \<open>The proxy\<close>

text \<open>\<open>SendRequest\<close> of a remote object: the code, whether the request is asynchronous, and the data.\<close>

type_synonym ('p, 's) remote = "32 word \<Rightarrow> bool \<Rightarrow> 'p \<Rightarrow> 's \<Rightarrow> ('p, 's) answer"

definition write_or :: "bool \<times> 'p \<Rightarrow> 'a \<Rightarrow> ('p \<Rightarrow> 'a) \<Rightarrow> 'a" where
  "write_or w fail k = (if \<not> fst w then fail else k (snd w))"

text \<open>The end that the proxies share: the request is sent and its result is read from the reply.\<close>

definition send_request :: "'p parcel \<Rightarrow> ('p, 's) remote \<Rightarrow> 32 word \<Rightarrow> bool \<Rightarrow> ret \<Rightarrow> 'p \<Rightarrow> 's \<Rightarrow> (ret \<times> 's) option" where
  "send_request P remote code async fail data s =
     (case remote code async data s of
        None \<Rightarrow> None
      | Some (r, reply, s1) \<Rightarrow> if r \<noteq> NO_ERROR then Some (fail, s1) else Some (fst (pc_ReadInt32 P reply), s1))"

text \<open>\<open>RegisterPublisherListener\<close> and \<open>UnregisterPublisherListener\<close> differ in the code; \<open>obj\<close> gives \<open>AsObject\<close> of a listener.\<close>

definition listener_request ::
  "32 word \<Rightarrow> 'p parcel \<Rightarrow> (nat \<Rightarrow> nat option) \<Rightarrow> ('p, 's) remote option \<Rightarrow> topic \<Rightarrow> nat option \<Rightarrow> 's \<Rightarrow> (ret \<times> 's) option" where
  "listener_request code P obj remote topic listener s =
     (case listener of
        None \<Rightarrow> Some (ERR_DH_FWK_PUBLISHER_LISTENER_IS_NULL, s)
      | Some l \<Rightarrow>
          (case remote of
             None \<Rightarrow> Some (ERR_DH_FWK_SERVICE_REMOTE_IS_NULL, s)
           | Some f \<Rightarrow>
               if topic < TOPIC_MIN \<or> topic > TOPIC_MAX then Some (ERR_DH_FWK_PARA_INVALID, s)
               else write_or (pc_WriteInterfaceToken P dhfwk_descriptor (pc_new P)) (Some (ERR_DH_FWK_SERVICE_WRITE_TOKEN_FAIL, s)) (\<lambda>d1.
                    write_or (pc_WriteUint32 P topic d1) (Some (ERR_DH_FWK_SERVICE_WRITE_INFO_FAIL, s)) (\<lambda>d2.
                    write_or (pc_WriteRemoteObject P (obj l) d2) (Some (ERR_DH_FWK_SERVICE_WRITE_INFO_FAIL, s)) (\<lambda>d3.
                    send_request P f code False ERR_DH_FWK_SERVICE_IPC_SEND_REQUEST_FAIL d3 s)))))"

definition Proxy_RegisterPublisherListener ::
  "'p parcel \<Rightarrow> (nat \<Rightarrow> nat option) \<Rightarrow> ('p, 's) remote option \<Rightarrow> topic \<Rightarrow> nat option \<Rightarrow> 's \<Rightarrow> (ret \<times> 's) option" where
  "Proxy_RegisterPublisherListener = listener_request REG_PUBLISHER_LISTNER"

definition Proxy_UnregisterPublisherListener ::
  "'p parcel \<Rightarrow> (nat \<Rightarrow> nat option) \<Rightarrow> ('p, 's) remote option \<Rightarrow> topic \<Rightarrow> nat option \<Rightarrow> 's \<Rightarrow> (ret \<times> 's) option" where
  "Proxy_UnregisterPublisherListener = listener_request UNREG_PUBLISHER_LISTENER"

definition Proxy_PublishMessage :: "'p parcel \<Rightarrow> ('p, 's) remote option \<Rightarrow> topic \<Rightarrow> string \<Rightarrow> 's \<Rightarrow> (ret \<times> 's) option" where
  "Proxy_PublishMessage P remote topic msg s =
     (case remote of
        None \<Rightarrow> Some (ERR_DH_FWK_SERVICE_REMOTE_IS_NULL, s)
      | Some f \<Rightarrow>
          if topic < TOPIC_MIN \<or> topic > TOPIC_MAX then Some (ERR_DH_FWK_PARA_INVALID, s)
          else if \<not> IsMessageLengthValid msg then Some (ERR_DH_FWK_SERVICE_MSG_INVALID, s)
          else write_or (pc_WriteInterfaceToken P dhfwk_descriptor (pc_new P)) (Some (ERR_DH_FWK_SERVICE_WRITE_TOKEN_FAIL, s)) (\<lambda>d1.
               write_or (pc_WriteUint32 P topic d1) (Some (ERR_DH_FWK_SERVICE_WRITE_INFO_FAIL, s)) (\<lambda>d2.
               write_or (pc_WriteString P msg d2) (Some (ERR_DH_FWK_SERVICE_WRITE_INFO_FAIL, s)) (\<lambda>d3.
               send_request P f PUBLISH_MESSAGE False ERR_DH_FWK_SERVICE_IPC_SEND_REQUEST_FAIL d3 s))))"

definition Proxy_QueryLocalSysSpec :: "'p parcel \<Rightarrow> ('p, 's) remote option \<Rightarrow> 32 word \<Rightarrow> 's \<Rightarrow> (string \<times> 's) option" where
  "Proxy_QueryLocalSysSpec P remote spec s =
     (case remote of
        None \<Rightarrow> Some ([], s)
      | Some f \<Rightarrow>
          if spec < SPEC_MIN \<or> spec > SPEC_MAX then Some ([], s)
          else write_or (pc_WriteInterfaceToken P dhfwk_descriptor (pc_new P)) (Some ([], s)) (\<lambda>d1.
               write_or (pc_WriteUint32 P spec d1) (Some ([], s)) (\<lambda>d2.
               case f QUERY_LOCAL_SYS_SPEC False d2 s of
                 None \<Rightarrow> None
               | Some (r, reply, s1) \<Rightarrow> if r \<noteq> NO_ERROR then Some ([], s1) else Some (fst (pc_ReadString P reply), s1))))"

text \<open>The result, the value of \<open>engineId\<close> afterwards and the state.\<close>

definition Proxy_InitializeAVCenter :: "'p parcel \<Rightarrow> ('p, 's) remote option \<Rightarrow> 32 word \<Rightarrow> int \<Rightarrow> 's \<Rightarrow> (ret \<times> int \<times> 's) option" where
  "Proxy_InitializeAVCenter P remote transRole engineId s =
     (case remote of
        None \<Rightarrow> Some (ERR_DH_AVT_SERVICE_REMOTE_IS_NULL, engineId, s)
      | Some f \<Rightarrow>
          write_or (pc_WriteInterfaceToken P dhfwk_descriptor (pc_new P)) (Some (ERR_DH_AVT_SERVICE_WRITE_TOKEN_FAIL, engineId, s)) (\<lambda>d1.
          write_or (pc_WriteUint32 P transRole d1) (Some (ERR_DH_AVT_SERVICE_WRITE_INFO_FAIL, engineId, s)) (\<lambda>d2.
          case f INIT_CTL_CEN False d2 s of
            None \<Rightarrow> None
          | Some (r, reply, s1) \<Rightarrow>
              if r \<noteq> NO_ERROR then Some (ERR_DH_AVT_SERVICE_IPC_SEND_REQUEST_FAIL, engineId, s1)
              else let (engineId1, reply1) = pc_ReadInt32 P reply in Some (fst (pc_ReadInt32 P reply1), engineId1, s1))))"

text \<open>The requests about an engine: the token and the number, then the rest of the data.\<close>

definition engine_request ::
  "'p parcel \<Rightarrow> ('p, 's) remote option \<Rightarrow> int \<Rightarrow> (('p, 's) remote \<Rightarrow> 'p \<Rightarrow> (ret \<times> 's) option) \<Rightarrow> 's \<Rightarrow> (ret \<times> 's) option" where
  "engine_request P remote engineId k s =
     (case remote of
        None \<Rightarrow> Some (ERR_DH_AVT_SERVICE_REMOTE_IS_NULL, s)
      | Some f \<Rightarrow>
          write_or (pc_WriteInterfaceToken P dhfwk_descriptor (pc_new P)) (Some (ERR_DH_AVT_SERVICE_WRITE_TOKEN_FAIL, s)) (\<lambda>d1.
          write_or (pc_WriteInt32 P engineId d1) (Some (ERR_DH_AVT_SERVICE_WRITE_INFO_FAIL, s)) (k f)))"

definition Proxy_ReleaseAVCenter :: "'p parcel \<Rightarrow> ('p, 's) remote option \<Rightarrow> int \<Rightarrow> 's \<Rightarrow> (ret \<times> 's) option" where
  "Proxy_ReleaseAVCenter P remote engineId s =
     engine_request P remote engineId
       (\<lambda>f d. send_request P f RELEASE_CTL_CEN True ERR_DH_AVT_SERVICE_IPC_SEND_REQUEST_FAIL d s) s"

definition Proxy_CreateControlChannel :: "'p parcel \<Rightarrow> ('p, 's) remote option \<Rightarrow> int \<Rightarrow> string \<Rightarrow> 's \<Rightarrow> (ret \<times> 's) option" where
  "Proxy_CreateControlChannel P remote engineId peerDevId s =
     engine_request P remote engineId (\<lambda>f d.
       write_or (pc_WriteString P peerDevId d) (Some (ERR_DH_AVT_SERVICE_WRITE_INFO_FAIL, s)) (\<lambda>d1.
       send_request P f CREATE_CTL_CEN_CHANNEL True ERR_DH_AVT_SERVICE_IPC_SEND_REQUEST_FAIL d1 s)) s"

definition Proxy_NotifyAVCenter :: "'p parcel \<Rightarrow> ('p, 's) remote option \<Rightarrow> int \<Rightarrow> 32 word \<Rightarrow> string \<Rightarrow> string \<Rightarrow> 's \<Rightarrow> (ret \<times> 's) option" where
  "Proxy_NotifyAVCenter P remote engineId type content peerDevId s =
     engine_request P remote engineId (\<lambda>f d.
       write_or (pc_WriteUint32 P type d) (Some (ERR_DH_AVT_SERVICE_WRITE_INFO_FAIL, s)) (\<lambda>d1.
       write_or (pc_WriteString P content d1) (Some (ERR_DH_AVT_SERVICE_WRITE_INFO_FAIL, s)) (\<lambda>d2.
       write_or (pc_WriteString P peerDevId d2) (Some (ERR_DH_AVT_SERVICE_WRITE_INFO_FAIL, s)) (\<lambda>d3.
       send_request P f NOTIFY_AV_EVENT True ERR_DH_AVT_SERVICE_IPC_SEND_REQUEST_FAIL d3 s)))) s"

definition Proxy_RegisterCtlCenterCallback ::
  "'p parcel \<Rightarrow> (nat \<Rightarrow> nat option) \<Rightarrow> ('p, 's) remote option \<Rightarrow> int \<Rightarrow> nat option \<Rightarrow> 's \<Rightarrow> (ret \<times> 's) option" where
  "Proxy_RegisterCtlCenterCallback P obj remote engineId callback s =
     (case remote of
        None \<Rightarrow> Some (ERR_DH_AVT_SERVICE_REMOTE_IS_NULL, s)
      | Some _ \<Rightarrow>
          (case callback of
             None \<Rightarrow> Some (ERR_DH_FWK_AVTRANS_CALLBACK_IS_NULL, s)
           | Some cb \<Rightarrow> engine_request P remote engineId (\<lambda>f d.
               write_or (pc_WriteRemoteObject P (obj cb) d) (Some (ERR_DH_AVT_SERVICE_WRITE_INFO_FAIL, s)) (\<lambda>d1.
               send_request P f REGISTER_CTL_CEN_CALLBACK False ERR_DH_AVT_SERVICE_IPC_SEND_REQUEST_FAIL d1 s)) s))"

definition Proxy_NotifySourceRemoteSinkStarted :: "'p parcel \<Rightarrow> ('p, 's) remote option \<Rightarrow> string \<Rightarrow> 's \<Rightarrow> (ret \<times> 's) option" where
  "Proxy_NotifySourceRemoteSinkStarted P remote deviceId s =
     (case remote of
        None \<Rightarrow> Some (ERR_DH_AVT_SERVICE_REMOTE_IS_NULL, s)
      | Some f \<Rightarrow>
          write_or (pc_WriteInterfaceToken P dhfwk_descriptor (pc_new P)) (Some (ERR_DH_FWK_SERVICE_WRITE_TOKEN_FAIL, s)) (\<lambda>d1.
          write_or (pc_WriteString P deviceId d1) (Some (ERR_DH_FWK_SERVICE_WRITE_INFO_FAIL, s)) (\<lambda>d2.
          send_request P f NOTIFY_SOURCE_DEVICE_REMOTE_DMSDP_STARTED False ERR_DH_AVT_SERVICE_IPC_SEND_REQUEST_FAIL d2 s)))"

text \<open>The type is an unsigned number that is written as a signed one.\<close>

definition hardware_request :: "32 word \<Rightarrow> 'p parcel \<Rightarrow> ('p, 's) remote option \<Rightarrow> dhtype \<Rightarrow> string \<Rightarrow> 's \<Rightarrow> (ret \<times> 's) option" where
  "hardware_request code P remote dhType networkId s =
     (if \<not> IsIdLengthValid networkId then Some (ERR_DH_FWK_PARA_INVALID, s)
      else case remote of
        None \<Rightarrow> Some (ERR_DH_AVT_SERVICE_REMOTE_IS_NULL, s)
      | Some f \<Rightarrow>
          write_or (pc_WriteInterfaceToken P dhfwk_descriptor (pc_new P)) (Some (ERR_DH_AVT_SERVICE_WRITE_TOKEN_FAIL, s)) (\<lambda>d1.
          write_or (pc_WriteInt32 P (sint dhType) d1) (Some (ERR_DH_AVT_SERVICE_WRITE_INFO_FAIL, s)) (\<lambda>d2.
          write_or (pc_WriteString P networkId d2) (Some (ERR_DH_AVT_SERVICE_WRITE_INFO_FAIL, s)) (\<lambda>d3.
          send_request P f code False ERR_DH_AVT_SERVICE_IPC_SEND_REQUEST_FAIL d3 s))))"

definition Proxy_PauseDistributedHardware :: "'p parcel \<Rightarrow> ('p, 's) remote option \<Rightarrow> dhtype \<Rightarrow> string \<Rightarrow> 's \<Rightarrow> (ret \<times> 's) option" where
  "Proxy_PauseDistributedHardware = hardware_request PAUSE_DISTRIBUTED_HARDWARE"

definition Proxy_ResumeDistributedHardware :: "'p parcel \<Rightarrow> ('p, 's) remote option \<Rightarrow> dhtype \<Rightarrow> string \<Rightarrow> 's \<Rightarrow> (ret \<times> 's) option" where
  "Proxy_ResumeDistributedHardware = hardware_request RESUME_DISTRIBUTED_HARDWARE"

definition Proxy_StopDistributedHardware :: "'p parcel \<Rightarrow> ('p, 's) remote option \<Rightarrow> dhtype \<Rightarrow> string \<Rightarrow> 's \<Rightarrow> (ret \<times> 's) option" where
  "Proxy_StopDistributedHardware = hardware_request STOP_DISTRIBUTED_HARDWARE"

section \<open>Messages to a listener\<close>

text \<open>
  In the service a listener is a proxy; its state \<open>'c\<close> is that of the client. \<open>on_message\<close> is the client's own \<open>OnMessage\<close>.
  \<open>dflt\<close> is the stub of the system, \<open>invalid\<close> the system's code for invalid data.
\<close>

definition Listener_OnMessage :: "'p parcel \<Rightarrow> ('p, 'c) remote option \<Rightarrow> topic \<Rightarrow> string \<Rightarrow> 'c \<Rightarrow> 'c option" where
  "Listener_OnMessage P remote topic message c =
     (case remote of
        None \<Rightarrow> Some c
      | Some f \<Rightarrow>
          if topic < TOPIC_MIN \<or> topic > TOPIC_MAX then Some c
          else if \<not> IsMessageLengthValid message then Some c
          else write_or (pc_WriteInterfaceToken P listener_descriptor (pc_new P)) (Some c) (\<lambda>d1.
               write_or (pc_WriteUint32 P topic d1) (Some c) (\<lambda>d2.
               write_or (pc_WriteString P message d2) (Some c) (\<lambda>d3.
               map_option (\<lambda>(r, reply, c1). c1) (f ON_MESSAGE False d3 c)))))"

definition Listener_OnRemoteRequest ::
  "'p parcel \<Rightarrow> int \<Rightarrow> (32 word \<Rightarrow> 'p \<Rightarrow> 'p \<Rightarrow> int \<times> 'p) \<Rightarrow> (topic \<Rightarrow> string \<Rightarrow> 'c \<Rightarrow> 'c) \<Rightarrow> 32 word \<Rightarrow> 'p \<Rightarrow> 'p \<Rightarrow> 'c \<Rightarrow> ('p, 'c) answer" where
  "Listener_OnRemoteRequest P invalid dflt on_message code data reply c =
     (let (token, data1) = pc_ReadInterfaceToken P data in
      if token \<noteq> listener_descriptor then Some (invalid, reply, c)
      else if code = ON_MESSAGE
      then let (topic, data2) = pc_ReadUint32 P data1 in
        if topic < TOPIC_MIN \<or> topic > TOPIC_MAX then Some (invalid, reply, c)
        else let message = fst (pc_ReadString P data2) in
          if message = [] \<or> length message > MAX_MESSAGE_LEN then Some (invalid, reply, c)
          else Some (DH_FWK_SUCCESS, reply, on_message topic message c)
      else let (r, reply1) = dflt code data1 reply in Some (r, reply1, c))"

end
