(* ===== verification/DHF_IpcProps.thy ===== *)
theory DHF_IpcProps
  imports DHF_Ipc
begin

text \<open>
  What a request does on its way from the proxy to the service and back. A parcel is seen through the list of its items:
  \<open>items\<close> gives them, \<open>fits\<close> tells which lists a parcel can hold. \<open>parcel_laws\<close> states the documented behaviour of \<open>MessageParcel\<close>:
  a write that fits appends its item, a read takes the first item when it has the type that is asked for, and a number that is read from an
  empty parcel is 0. \<open>request_delivered\<close> states the one of \<open>SendRequest\<close>: the stub of the other process answers the request; an
  asynchronous request returns at once, without an answer. The locale \<open>service_contract\<close> states what the stub relies on of the service.
\<close>

section \<open>Parcels\<close>

datatype pitem = ItToken string | ItU32 "32 word" | ItI32 int | ItStr string | ItObj "nat option" | ItFd int

definition writes :: "('a \<Rightarrow> 'p \<Rightarrow> bool \<times> 'p) \<Rightarrow> ('a \<Rightarrow> pitem) \<Rightarrow> ('p \<Rightarrow> pitem list) \<Rightarrow> (pitem list \<Rightarrow> bool) \<Rightarrow> bool" where
  "writes w it items fits \<longleftrightarrow>
     (\<forall>x p. fits (items p @ [it x]) \<longrightarrow> fst (w x p) \<and> items (snd (w x p)) = items p @ [it x])"

definition reads :: "('p \<Rightarrow> 'a \<times> 'p) \<Rightarrow> ('a \<Rightarrow> pitem) \<Rightarrow> ('p \<Rightarrow> pitem list) \<Rightarrow> bool" where
  "reads r it items \<longleftrightarrow> (\<forall>x p xs. items p = it x # xs \<longrightarrow> fst (r p) = x \<and> items (snd (r p)) = xs)"

definition parcel_laws :: "'p parcel \<Rightarrow> ('p \<Rightarrow> pitem list) \<Rightarrow> (pitem list \<Rightarrow> bool) \<Rightarrow> bool" where
  "parcel_laws P items fits \<longleftrightarrow>
     items (pc_new P) = [] \<and> (\<forall>xs ys. fits (xs @ ys) \<longrightarrow> fits xs)
     \<and> writes (pc_WriteInterfaceToken P) ItToken items fits \<and> writes (pc_WriteUint32 P) ItU32 items fits
     \<and> writes (pc_WriteInt32 P) ItI32 items fits \<and> writes (pc_WriteString P) ItStr items fits
     \<and> writes (pc_WriteRemoteObject P) ItObj items fits
     \<and> reads (pc_ReadInterfaceToken P) ItToken items \<and> reads (pc_ReadUint32 P) ItU32 items
     \<and> reads (pc_ReadInt32 P) ItI32 items \<and> reads (pc_ReadString P) ItStr items \<and> reads (pc_ReadRemoteObject P) ItObj items
     \<and> (\<forall>p. items p = [] \<longrightarrow> fst (pc_ReadInt32 P p) = 0)"

lemma writesD: "writes w it items fits \<Longrightarrow> fits (items p @ [it x]) \<Longrightarrow> fst (w x p) \<and> items (snd (w x p)) = items p @ [it x]"
  by (simp add: writes_def)

lemma readsD: "reads r it items \<Longrightarrow> items p = it x # xs \<Longrightarrow> fst (r p) = x \<and> items (snd (r p)) = xs"
  by (simp add: reads_def)

lemma parcel_lawsD:
  assumes "parcel_laws P items fits"
  shows "items (pc_new P) = []" "fits (xs @ ys) \<Longrightarrow> fits xs"
    "writes (pc_WriteInterfaceToken P) ItToken items fits" "writes (pc_WriteUint32 P) ItU32 items fits"
    "writes (pc_WriteInt32 P) ItI32 items fits" "writes (pc_WriteString P) ItStr items fits"
    "writes (pc_WriteRemoteObject P) ItObj items fits" "reads (pc_ReadInterfaceToken P) ItToken items"
    "reads (pc_ReadUint32 P) ItU32 items" "reads (pc_ReadInt32 P) ItI32 items" "reads (pc_ReadString P) ItStr items"
    "reads (pc_ReadRemoteObject P) ItObj items" "items p = [] \<Longrightarrow> fst (pc_ReadInt32 P p) = 0"
  using assms unfolding parcel_laws_def by blast+

text \<open>A write that fits goes on with a parcel that has the item at its end.\<close>

lemma write_or_fits:
  assumes "writes w it items fits" and "fits (items p @ [it x])"
  obtains q where "items q = items p @ [it x]" and "write_or (w x p) fail k = k q"
  using writesD [OF assms] by (intro that [of "snd (w x p)"]) (simp_all add: write_or_def)

lemma fits_take:
  assumes "parcel_laws P items fits" and "fits xs" and "xs = ys @ zs" shows "fits ys"
  using parcel_lawsD(2) [OF assms(1)] assms(2,3) by blast

section \<open>Delivery\<close>

definition request_delivered ::
  "'p parcel \<Rightarrow> (32 word \<Rightarrow> 'p \<Rightarrow> 'p \<Rightarrow> 's \<Rightarrow> ('p, 's) answer) \<Rightarrow> ('p, 's) remote \<Rightarrow> bool" where
  "request_delivered P stub f \<longleftrightarrow>
     (\<forall>code data s. f code False data s = stub code data (pc_new P) s)
     \<and> (\<forall>code data s. f code True data s = (case stub code data (pc_new P) s of
          None \<Rightarrow> None | Some (r, reply, s1) \<Rightarrow> Some (NO_ERROR, pc_new P, s1)))"

lemma request_deliveredD:
  assumes "request_delivered P stub f"
  shows "f code False data s = stub code data (pc_new P) s"
    and "f code True data s = (case stub code data (pc_new P) s of
          None \<Rightarrow> None | Some (r, reply, s1) \<Rightarrow> Some (NO_ERROR, pc_new P, s1))"
  using assms by (simp_all add: request_delivered_def)

section \<open>What the stub relies on of the service\<close>

definition keeps :: "('s \<Rightarrow> bool) \<Rightarrow> ('a \<times> 's) option \<Rightarrow> bool" where
  "keeps ok res \<longleftrightarrow> (\<exists>r s. res = Some (r, s) \<and> ok s)"

lemma keeps_Some [simp]: "keeps ok (Some (r, s)) \<longleftrightarrow> ok s"
  by (simp add: keeps_def)

locale service_contract =
  fixes svc :: "'s service" and ok :: "'s \<Rightarrow> bool"
  assumes register: "ok s \<Longrightarrow> ValidTopic t \<Longrightarrow> keeps ok (sv_RegisterPublisherListener svc t l s)"
    and unregister: "ok s \<Longrightarrow> ValidTopic t \<Longrightarrow> keeps ok (sv_UnregisterPublisherListener svc t l s)"
    and publish: "ok s \<Longrightarrow> ValidTopic t \<Longrightarrow> keeps ok (sv_PublishMessage svc t m s)"
    and query: "ok s \<Longrightarrow> ValidQueryLocalSpec w \<Longrightarrow> keeps ok (sv_QueryLocalSysSpec svc w s)"
    and init: "ok s \<Longrightarrow> \<exists>r i s1. sv_InitializeAVCenter svc w s = Some (r, i, s1) \<and> ok s1"
    and release: "ok s \<Longrightarrow> keeps ok (sv_ReleaseAVCenter svc i s)"
    and channel: "ok s \<Longrightarrow> keeps ok (sv_CreateControlChannel svc i d s)"
    and notify: "ok s \<Longrightarrow> keeps ok (sv_NotifyAVCenter svc i w c d s)"
    and callback: "ok s \<Longrightarrow> keeps ok (sv_RegisterCtlCenterCallback svc i l s)"
    and sink_started: "ok s \<Longrightarrow> keeps ok (sv_NotifySourceRemoteSinkStarted svc d s)"
    and pause: "ok s \<Longrightarrow> keeps ok (sv_PauseDistributedHardware svc h d s)"
    and resume: "ok s \<Longrightarrow> keeps ok (sv_ResumeDistributedHardware svc h d s)"
    and stop: "ok s \<Longrightarrow> keeps ok (sv_StopDistributedHardware svc h d s)"
begin

definition answered :: "('p, 's) answer \<Rightarrow> bool" where
  "answered a \<longleftrightarrow> (\<exists>r reply s. a = Some (r, reply, s) \<and> ok s)"

lemma answered_simps [simp]: "answered (Some (r, reply, s)) \<longleftrightarrow> ok s"
  by (simp add: answered_def)

lemma answered_reply: "keeps ok res \<Longrightarrow> answered (reply_ret P reply res)"
  by (auto simp: keeps_def reply_ret_def Let_def case_prod_unfold)

lemma answered_result:
  assumes "keeps ok res" shows "answered (case res of None \<Rightarrow> None | Some (r, s1) \<Rightarrow> Some (c, f r, s1))"
  using assms by (auto simp: keeps_def)

lemma answered_publisher:
  assumes "ok s"
  shows "answered (RegisterPublisherListenerInner P E svc data reply s)"
    "answered (UnregisterPublisherListenerInner P E svc data reply s)"
    "answered (PublishMessageInner P E svc data reply s)" "answered (QueryLocalSysSpecInner P E svc data reply s)"
  using assms by (auto simp: RegisterPublisherListenerInner_def UnregisterPublisherListenerInner_def PublishMessageInner_def
      QueryLocalSysSpecInner_def Let_def case_prod_unfold intro!: answered_result register unregister publish query)

lemma answered_center:
  assumes "ok s"
  shows "answered (InitializeAVCenterInner P E svc data reply s)" "answered (ReleaseAVCenterInner P E svc data reply s)"
    "answered (CreateControlChannelInner P E svc data reply s)" "answered (NotifyAVCenterInner P E svc data reply s)"
    "answered (RegisterControlCenterCallbackInner P E svc data reply s)" "answered (HandleNotifySourceRemoteSinkStarted P E svc data reply s)"
  subgoal using init [OF assms, of "fst (pc_ReadUint32 P data)"] assms
    by (auto simp: InitializeAVCenterInner_def Let_def case_prod_unfold intro!: answered_reply)
  using assms by (auto simp: ReleaseAVCenterInner_def CreateControlChannelInner_def NotifyAVCenterInner_def
      RegisterControlCenterCallbackInner_def HandleNotifySourceRemoteSinkStarted_def Let_def case_prod_unfold
      intro!: answered_reply release channel notify callback sink_started)

lemma answered_hardware:
  assumes "ok s"
  shows "answered (PauseDistributedHardwareInner P E svc data reply s)" "answered (ResumeDistributedHardwareInner P E svc data reply s)"
    "answered (StopDistributedHardwareInner P E svc data reply s)"
  using assms by (auto simp: PauseDistributedHardwareInner_def ResumeDistributedHardwareInner_def StopDistributedHardwareInner_def
      system_hap_request_def Let_def case_prod_unfold intro!: answered_reply pause resume stop)

lemma request_answered:
  assumes "ok s" shows "\<exists>r reply1 s1. OnRemoteRequest P E svc code data reply s = Some (r, reply1, s1) \<and> ok s1"
proof -
  have "answered (OnRemoteRequest P E svc code data reply s)"
    using assms by (simp add: OnRemoteRequest_def Let_def case_prod_unfold answered_publisher answered_center answered_hardware)
  then show ?thesis unfolding answered_def .
qed

end

text \<open>Requests one after the other, each with its caller; \<open>None\<close> when one of them goes through a null pointer.\<close>

fun serve :: "'p parcel \<Rightarrow> 's service \<Rightarrow> (('p, 's) ipc_env \<times> 32 word \<times> 'p) list \<Rightarrow> 's \<Rightarrow> 's option" where
  "serve P svc [] s = Some s"
| "serve P svc ((E, code, data) # rs) s =
     (case OnRemoteRequest P E svc code data (pc_new P) s of None \<Rightarrow> None | Some (r, reply, s1) \<Rightarrow> serve P svc rs s1)"

context service_contract
begin

lemma serve_answers: "ok s \<Longrightarrow> \<exists>s1. serve P svc rs s = Some s1 \<and> ok s1"
proof (induction rs arbitrary: s)
  case (Cons q rs)
  obtain E code data where q: "q = (E, code, data)" by (cases q)
  obtain r reply s1 where "OnRemoteRequest P E svc code data (pc_new P) s = Some (r, reply, s1)" "ok s1"
    using request_answered [OF Cons.prems, of P E code data "pc_new P"] by blast
  with Cons.IH [of s1] show ?case by (simp add: q)
qed simp

end

section \<open>Requests without a right\<close>

definition no_right :: "'s service \<Rightarrow> 's \<Rightarrow> ('p, 's) ipc_env \<Rightarrow> 32 word \<Rightarrow> bool" where
  "no_right svc s E code \<longleftrightarrow>
     \<not> HasAccessDHPermission E
       \<and> (\<forall>udid. ie_VerifyAccessToken E (ie_AllocLocalTokenID E (sv_GetNetworkIdByUDID svc udid s) (ie_CallingTokenID E)) ACCESS_DH
            \<noteq> PERMISSION_GRANTED)
     \<or> \<not> IsSystemHap E \<and> code \<in> {PAUSE_DISTRIBUTED_HARDWARE, RESUME_DISTRIBUTED_HARDWARE, STOP_DISTRIBUTED_HARDWARE}"

lemma no_right_request:
  assumes "no_right svc s E code" shows "\<exists>r reply1. OnRemoteRequest P E svc code data reply s = Some (r, reply1, s)"
  using assms unfolding no_right_def
  by (auto simp: OnRemoteRequest_def Let_def case_prod_unfold RegisterPublisherListenerInner_def UnregisterPublisherListenerInner_def
      PublishMessageInner_def QueryLocalSysSpecInner_def InitializeAVCenterInner_def ReleaseAVCenterInner_def CreateControlChannelInner_def
      NotifyAVCenterInner_def RegisterControlCenterCallbackInner_def HandleNotifySourceRemoteSinkStarted_def PauseDistributedHardwareInner_def
      ResumeDistributedHardwareInner_def StopDistributedHardwareInner_def system_hap_request_def)

text \<open>
  Property C9. Requests of callers that have neither the permission themselves nor through the token of a device they name leave the service
  exactly as it is, whatever they ask and whatever their parcels hold; and so do the requests to pause, resume or
  stop hardware of callers that are not applications of the system.
\<close>

theorem requests_without_right_change_nothing:
  assumes "\<forall>(E, code, data)\<in>set rs. no_right svc s E code"
  shows "serve P svc rs s = Some s"
  using assms
proof (induction rs)
  case (Cons q rs)
  obtain E code data where q: "q = (E, code, data)" by (cases q)
  with Cons.prems have "no_right svc s E code" by simp
  then obtain r reply where "OnRemoteRequest P E svc code data (pc_new P) s = Some (r, reply, s)"
    using no_right_request [of svc s E code P data "pc_new P"] by blast
  with Cons q show ?case by simp
qed simp

section \<open>A request and its answer\<close>

lemma reply_ret_fits:
  assumes "parcel_laws P items fits" and "fits (items reply @ [ItI32 r])"
  obtains reply1 where "reply_ret P reply (Some (r, s)) = Some (DH_FWK_SUCCESS, reply1, s)" and "items reply1 = items reply @ [ItI32 r]"
  using writesD [OF parcel_lawsD(5) [OF assms(1)] assms(2)]
  by (intro that [of "snd (pc_WriteInt32 P r reply)"]) (simp_all add: reply_ret_def Let_def case_prod_unfold)

lemma send_request_returns:
  assumes "parcel_laws P items fits" and "request_delivered P stub f"
    and "stub code d (pc_new P) s = reply_ret P (pc_new P) (Some (r, s1))" and "fits [ItI32 r]"
  shows "send_request P f code False fail d s = Some (r, s1)"
proof -
  have n: "items (pc_new P) = []" by (rule parcel_lawsD(1) [OF assms(1)])
  with assms(4) have "fits (items (pc_new P) @ [ItI32 r])" by simp
  then obtain q where q: "reply_ret P (pc_new P) (Some (r, s1)) = Some (DH_FWK_SUCCESS, q, s1)" "items q = items (pc_new P) @ [ItI32 r]"
    by (rule reply_ret_fits [OF assms(1)])
  then have "fst (pc_ReadInt32 P q) = r" using readsD [OF parcel_lawsD(10) [OF assms(1)]] n by simp
  with q(1) assms(3) show ?thesis by (simp add: send_request_def request_deliveredD(1) [OF assms(2)])
qed

text \<open>The result of an asynchronous request is the number that an empty reply gives.\<close>

lemma send_request_async:
  assumes "parcel_laws P items fits" and "request_delivered P stub f" and "stub code d (pc_new P) s = Some (r, reply, s1)"
  shows "send_request P f code True fail d s = Some (0, s1)"
  using assms(3) parcel_lawsD(13) [OF assms(1) parcel_lawsD(1) [OF assms(1)]]
  by (simp add: send_request_def request_deliveredD(2) [OF assms(2)])

text \<open>The parcel after three writes.\<close>

definition written :: "'p parcel \<Rightarrow> ('p \<Rightarrow> bool \<times> 'p) \<Rightarrow> ('p \<Rightarrow> bool \<times> 'p) \<Rightarrow> ('p \<Rightarrow> bool \<times> 'p) \<Rightarrow> 'p" where
  "written P w1 w2 w3 = snd (w3 (snd (w2 (snd (w1 (pc_new P))))))"

lemma writes_three:
  assumes "parcel_laws P items fits" and "fits [it1 x1, it2 x2, it3 x3]"
    and w: "writes w1 it1 items fits" "writes w2 it2 items fits" "writes w3 it3 items fits"
  shows "items (written P (w1 x1) (w2 x2) (w3 x3)) = [it1 x1, it2 x2, it3 x3]"
    and "write_or (w1 x1 (pc_new P)) e1 (\<lambda>d1. write_or (w2 x2 d1) e2 (\<lambda>d2. write_or (w3 x3 d2) e3 k)) = k (written P (w1 x1) (w2 x2) (w3 x3))"
proof -
  have n: "items (pc_new P) = []" by (rule parcel_lawsD(1) [OF assms(1)])
  have "fits ([it1 x1] @ [it2 x2, it3 x3])" "fits ([it1 x1, it2 x2] @ [it3 x3])" using assms(2) by simp_all
  then have f: "fits [it1 x1]" "fits [it1 x1, it2 x2]" by (blast intro: parcel_lawsD(2) [OF assms(1)])+
  have "fits (items (pc_new P) @ [it1 x1])" using f(1) n by simp
  from writesD [OF w(1) this] n have 1: "fst (w1 x1 (pc_new P))" "items (snd (w1 x1 (pc_new P))) = [it1 x1]" by simp_all
  let ?d1 = "snd (w1 x1 (pc_new P))"
  have "fits (items ?d1 @ [it2 x2])" using f(2) 1(2) by simp
  from writesD [OF w(2) this] 1(2) have 2: "fst (w2 x2 ?d1)" "items (snd (w2 x2 ?d1)) = [it1 x1, it2 x2]" by simp_all
  let ?d2 = "snd (w2 x2 ?d1)"
  have "fits (items ?d2 @ [it3 x3])" using assms(2) 2(2) by simp
  from writesD [OF w(3) this] 2(2) have 3: "fst (w3 x3 ?d2)" "items (snd (w3 x3 ?d2)) = [it1 x1, it2 x2, it3 x3]" by simp_all
  from 3(2) show "items (written P (w1 x1) (w2 x2) (w3 x3)) = [it1 x1, it2 x2, it3 x3]" by (simp add: written_def)
  from 1(1) 2(1) 3(1)
  show "write_or (w1 x1 (pc_new P)) e1 (\<lambda>d1. write_or (w2 x2 d1) e2 (\<lambda>d2. write_or (w3 x3 d2) e3 k)) = k (written P (w1 x1) (w2 x2) (w3 x3))"
    by (simp add: write_or_def written_def)
qed

lemma stub_token:
  assumes "parcel_laws P items fits" and "items d = ItToken dhfwk_descriptor # xs"
  shows "fst (pc_ReadInterfaceToken P d) = dhfwk_descriptor" "items (snd (pc_ReadInterfaceToken P d)) = xs"
  using readsD [OF parcel_lawsD(8) [OF assms(1)] assms(2)] by simp_all

lemma read_string:
  assumes "parcel_laws P items fits" and "items d = ItStr x # xs" shows "fst (pc_ReadString P d) = x" "items (snd (pc_ReadString P d)) = xs"
  using readsD [OF parcel_lawsD(11) [OF assms(1)] assms(2)] by simp_all

lemma read_int32:
  assumes "parcel_laws P items fits" and "items d = ItI32 x # xs" shows "fst (pc_ReadInt32 P d) = x" "items (snd (pc_ReadInt32 P d)) = xs"
  using readsD [OF parcel_lawsD(10) [OF assms(1)] assms(2)] by simp_all

lemma read_uint32:
  assumes "parcel_laws P items fits" and "items d = ItU32 x # xs" shows "fst (pc_ReadUint32 P d) = x" "items (snd (pc_ReadUint32 P d)) = xs"
  using readsD [OF parcel_lawsD(9) [OF assms(1)] assms(2)] by simp_all

lemma read_object:
  assumes "parcel_laws P items fits" and "items d = ItObj x # xs" shows "fst (pc_ReadRemoteObject P d) = x"
  using readsD [OF parcel_lawsD(12) [OF assms(1)] assms(2)] by simp

lemma stub_hardware:
  assumes "parcel_laws P items fits" and "items d = [ItToken dhfwk_descriptor, ItI32 (sint dhType), ItStr networkId]"
    and "IsSystemHap E" and "HasAccessDHPermission E"
  shows "OnRemoteRequest P E svc PAUSE_DISTRIBUTED_HARDWARE d reply s = reply_ret P reply (sv_PauseDistributedHardware svc dhType networkId s)"
    "OnRemoteRequest P E svc RESUME_DISTRIBUTED_HARDWARE d reply s = reply_ret P reply (sv_ResumeDistributedHardware svc dhType networkId s)"
    "OnRemoteRequest P E svc STOP_DISTRIBUTED_HARDWARE d reply s = reply_ret P reply (sv_StopDistributedHardware svc dhType networkId s)"
proof -
  note t = stub_token [OF assms(1,2)]
  note n = read_int32 [OF assms(1) t(2)]
  note m = read_string [OF assms(1) n(2)]
  show "OnRemoteRequest P E svc PAUSE_DISTRIBUTED_HARDWARE d reply s = reply_ret P reply (sv_PauseDistributedHardware svc dhType networkId s)"
    "OnRemoteRequest P E svc RESUME_DISTRIBUTED_HARDWARE d reply s = reply_ret P reply (sv_ResumeDistributedHardware svc dhType networkId s)"
    "OnRemoteRequest P E svc STOP_DISTRIBUTED_HARDWARE d reply s = reply_ret P reply (sv_StopDistributedHardware svc dhType networkId s)"
    using assms(3,4) t(1) n(1) m(1)
    by (simp_all add: OnRemoteRequest_def Let_def case_prod_unfold PauseDistributedHardwareInner_def ResumeDistributedHardwareInner_def
        StopDistributedHardwareInner_def system_hap_request_def)
qed

text \<open>
  Property C18. An application of the system that pauses, resumes or stops the hardware of a device through the proxy gets the result of
  the service, and the service does what it does for this type and this device: the type survives its way as a signed number.
\<close>

theorem hardware_requests_reach_service:
  assumes "parcel_laws P items fits" and "request_delivered P (OnRemoteRequest P E svc) f" and "IsSystemHap E" and "HasAccessDHPermission E"
    and "IsIdLengthValid networkId" and "fits [ItToken dhfwk_descriptor, ItI32 (sint dhType), ItStr networkId]" and "\<forall>r. fits [ItI32 r]"
  shows "(\<forall>r s1. sv_PauseDistributedHardware svc dhType networkId s = Some (r, s1) \<longrightarrow>
       Proxy_PauseDistributedHardware P (Some f) dhType networkId s = Some (r, s1))
    \<and> (\<forall>r s1. sv_ResumeDistributedHardware svc dhType networkId s = Some (r, s1) \<longrightarrow>
       Proxy_ResumeDistributedHardware P (Some f) dhType networkId s = Some (r, s1))
    \<and> (\<forall>r s1. sv_StopDistributedHardware svc dhType networkId s = Some (r, s1) \<longrightarrow>
       Proxy_StopDistributedHardware P (Some f) dhType networkId s = Some (r, s1))"
proof -
  let ?d = "written P (pc_WriteInterfaceToken P dhfwk_descriptor) (pc_WriteInt32 P (sint dhType)) (pc_WriteString P networkId)"
  note w = writes_three [OF assms(1,6) parcel_lawsD(3,5,6) [OF assms(1)]]
  have sent: "hardware_request code P (Some f) dhType networkId s
      = send_request P f code False ERR_DH_AVT_SERVICE_IPC_SEND_REQUEST_FAIL ?d s" for code
    using assms(5) by (simp add: hardware_request_def w(2))
  have "hardware_request code P (Some f) dhType networkId s = Some (r, s1)"
    if "op s = Some (r, s1)" and "OnRemoteRequest P E svc code ?d (pc_new P) s = reply_ret P (pc_new P) (op s)" for code op r s1
    using send_request_returns [OF assms(1,2), of code ?d s r s1] that assms(7) by (simp add: sent)
  note via = this and hw = stub_hardware [OF assms(1) w(1) assms(3,4)]
  show ?thesis
    unfolding Proxy_PauseDistributedHardware_def Proxy_ResumeDistributedHardware_def Proxy_StopDistributedHardware_def
    by (intro conjI allI impI via [where op = "sv_PauseDistributedHardware svc dhType networkId", OF _ hw(1)]
        via [where op = "sv_ResumeDistributedHardware svc dhType networkId", OF _ hw(2)]
        via [where op = "sv_StopDistributedHardware svc dhType networkId", OF _ hw(3)])
qed

end
