(* ===== verification/DHF_Service.thy ===== *)
theory DHF_Service
  imports DHF_IpcProps DHF_Manager DHF_CompMgr
begin

text \<open>
  The service itself, \<open>distributed_hardware_service.cpp\<close>: its start, and the operations that the stub calls, which pass the
  requests on to the publisher, the control center of the media transport, the capability cache and the sinks of the components.
  The single objects it calls are the fields of \<open>daemon\<close>: the framework, the publisher with what it has delivered (oldest first), the
  control center with its world, the component manager, and the state \<open>'k\<close> of the sinks, whose calls are parameters.
\<close>

section \<open>State\<close>

record ('w, 'j, 'h, 'k) service_env =
  se_fwk :: "('w, 'j) env"
  se_av :: "('h, 'j) av_env"
  se_AsObject :: "nat \<Rightarrow> nat option"
  se_Pause :: "nat \<Rightarrow> string \<Rightarrow> 'k \<Rightarrow> ret \<times> 'k"
  se_Resume :: "nat \<Rightarrow> string \<Rightarrow> 'k \<Rightarrow> ret \<times> 'k"
  se_Stop :: "nat \<Rightarrow> string \<Rightarrow> 'k \<Rightarrow> ret \<times> 'k"

text \<open>\<open>sd_posted\<close>: the executions of \<open>DoBusinessInit\<close> that the event handler holds.\<close>

record ('w, 'c, 'h, 'k) daemon =
  sd_fw :: "('w, 'c) fwk"
  sd_publisher :: publisher
  sd_sent :: "delivery list"
  sd_av :: "'h av_world"
  sd_mgr :: comp_mgr
  sd_sinks :: 'k
  sd_running :: bool
  sd_registered :: bool
  sd_posted :: nat

section \<open>Start\<close>

text \<open>\<open>None\<close>: no ability manager; otherwise whether the soft bus, the database and the device manager are there.\<close>

definition IsDepSAStart :: "(bool \<times> bool \<times> bool) option \<Rightarrow> bool" where
  "IsDepSAStart saMgr =
     (case saMgr of None \<Rightarrow> False
      | Some (softbus, kvdb, dm) \<Rightarrow> if \<not> softbus then False else if \<not> kvdb then False else if \<not> dm then False else True)"

text \<open>One execution of the posted task; what the device manager answers is given: the codes of its registrations and its three lists of devices.\<close>

definition DoBusinessInit ::
  "('w, 'j) env \<Rightarrow> 'c comp_api \<Rightarrow> rand \<Rightarrow> (bool \<times> bool \<times> bool) option \<Rightarrow> ret \<times> ret \<times> ret \<Rightarrow> string list \<Rightarrow> string list \<Rightarrow> string list
    \<Rightarrow> ('w, 'c, 'h, 'k) daemon \<Rightarrow> bool \<times> ('w, 'c, 'h, 'k) daemon" where
  "DoBusinessInit E P rand saMgr dmInit list1 list2 list3 s =
     (if \<not> IsDepSAStart saMgr then (False, s\<lparr>sd_posted := Suc (sd_posted s)\<rparr>)
      else let ret = AccessManager_Init dmInit;
               f1 = snd (InitLocalDevInfo E P list1 list2 (sd_fw s));
               f2 = CheckTrustedDeviceOnline E P rand list3 f1
           in (True, s\<lparr>sd_fw := f2\<rparr>))"

definition run_posted ::
  "('w, 'j) env \<Rightarrow> 'c comp_api \<Rightarrow> rand \<Rightarrow> (bool \<times> bool \<times> bool) option \<Rightarrow> ret \<times> ret \<times> ret \<Rightarrow> string list \<Rightarrow> string list \<Rightarrow> string list
    \<Rightarrow> ('w, 'c, 'h, 'k) daemon \<Rightarrow> ('w, 'c, 'h, 'k) daemon" where
  "run_posted E P rand saMgr dmInit list1 list2 list3 s =
     (if sd_posted s = 0 then s
      else snd (DoBusinessInit E P rand saMgr dmInit list1 list2 list3 (s\<lparr>sd_posted := sd_posted s - 1\<rparr>)))"

text \<open>\<open>publish\<close> tells whether the system takes the service.\<close>

definition Service_Init :: "bool \<Rightarrow> ('w, 'c, 'h, 'k) daemon \<Rightarrow> bool \<times> ('w, 'c, 'h, 'k) daemon" where
  "Service_Init publish s =
     (if \<not> sd_registered s \<and> \<not> publish then (False, s)
      else (True, s\<lparr>sd_registered := True, sd_posted := Suc (sd_posted s)\<rparr>))"

definition OnStart :: "bool \<Rightarrow> ('w, 'c, 'h, 'k) daemon \<Rightarrow> ('w, 'c, 'h, 'k) daemon" where
  "OnStart publish s =
     (if sd_running s then s
      else let (ok, s1) = Service_Init publish s in if \<not> ok then s1 else s1\<lparr>sd_running := True\<rparr>)"

definition OnStop :: "('w, 'c, 'h, 'k) daemon \<Rightarrow> ('w, 'c, 'h, 'k) daemon" where
  "OnStop s = s\<lparr>sd_running := False, sd_registered := False\<rparr>"

section \<open>Publisher\<close>

definition Service_RegisterPublisherListener :: "topic \<Rightarrow> nat option \<Rightarrow> ('w, 'c, 'h, 'k) daemon \<Rightarrow> (ret \<times> ('w, 'c, 'h, 'k) daemon) option" where
  "Service_RegisterPublisherListener topic listener s =
     map_option (\<lambda>p. (DH_FWK_SUCCESS, s\<lparr>sd_publisher := p\<rparr>)) (Publisher_RegisterListener topic listener (sd_publisher s))"

definition Service_UnregisterPublisherListener ::
  "('w, 'j, 'h, 'k) service_env \<Rightarrow> topic \<Rightarrow> nat option \<Rightarrow> ('w, 'c, 'h, 'k) daemon \<Rightarrow> (ret \<times> ('w, 'c, 'h, 'k) daemon) option" where
  "Service_UnregisterPublisherListener SE topic listener s =
     map_option (\<lambda>p. (DH_FWK_SUCCESS, s\<lparr>sd_publisher := p\<rparr>)) (Publisher_UnregisterListener (se_AsObject SE) topic listener (sd_publisher s))"

definition Service_PublishMessage :: "topic \<Rightarrow> string \<Rightarrow> ('w, 'c, 'h, 'k) daemon \<Rightarrow> (ret \<times> ('w, 'c, 'h, 'k) daemon) option" where
  "Service_PublishMessage topic msg s =
     map_option (\<lambda>ds. (DH_FWK_SUCCESS, s\<lparr>sd_sent := sd_sent s @ ds\<rparr>)) (Publisher_PublishMessage topic msg (sd_publisher s))"

definition Service_NotifySourceRemoteSinkStarted :: "string \<Rightarrow> ('w, 'c, 'h, 'k) daemon \<Rightarrow> (ret \<times> ('w, 'c, 'h, 'k) daemon) option" where
  "Service_NotifySourceRemoteSinkStarted deviceId s =
     map_option (\<lambda>ds. (DH_FWK_SUCCESS, s\<lparr>sd_sent := sd_sent s @ ds\<rparr>)) (Publisher_PublishMessage TOPIC_INIT_DHMS_READY deviceId (sd_publisher s))"

section \<open>Specifications of the codecs\<close>

definition spec_target :: "32 word \<Rightarrow> string \<times> dhtype" where
  "spec_target spec =
     (if spec = 1 then (''histmAudEnc'', DHType_AUDIO) else if spec = 2 then (''histmAudDec'', DHType_AUDIO)
      else if spec = 3 then (''histmVidEnc'', DHType_SCREEN) else if spec = 4 then (''histmVidDec'', DHType_SCREEN)
      else ([], DHType_UNKNOWN))"

definition QueryDhSysSpec :: "'j cjson \<Rightarrow> string \<Rightarrow> string \<Rightarrow> string" where
  "QueryDhSysSpec cj targetKey attrs =
     (case cJSON_Parse cj (c_str attrs) of
        None \<Rightarrow> []
      | Some attrJson \<Rightarrow> if \<not> IsString cj attrJson targetKey then [] else get_string cj attrJson targetKey)"

definition Service_QueryLocalSysSpec ::
  "('w, 'j, 'h, 'k) service_env \<Rightarrow> 32 word \<Rightarrow> ('w, 'c, 'h, 'k) daemon \<Rightarrow> string \<times> ('w, 'c, 'h, 'k) daemon" where
  "Service_QueryLocalSysSpec SE spec s =
     (let E = se_fwk SE;
          (localDevInfo, cx) = GetDeviceInfo (env_dm E) (env_digest E) (fw_cx (sd_fw s));
          s1 = s\<lparr>sd_fw := upd_cx (\<lambda>_. cx) (sd_fw s)\<rparr>;
          resInfos = CapMgr_GetCapabilitiesByDeviceId (di_deviceId localDevInfo) (im_map (rs_cap (fw_rs (sd_fw s1)))) [];
          (targetKey, targetDhType) = spec_target spec
      in if targetDhType = DHType_UNKNOWN then ([], s1)
         else let attrs = (case List.find (\<lambda>cap. ci_dhType cap = targetDhType) resInfos of None \<Rightarrow> [] | Some cap \<Rightarrow> ci_dhAttrs cap)
           in if attrs = [] then ([], s1) else (QueryDhSysSpec (env_cj E) targetKey attrs, s1))"

section \<open>Control center\<close>

text \<open>\<open>TransRole\<close> and \<open>EventType\<close> of a number that a client sends; the center treats the numbers of no enumerator alike.\<close>

definition role_of :: "32 word \<Rightarrow> trans_role" where
  "role_of w = (if w = 0 then AV_SENDER else if w = 1 then AV_RECEIVER else UNKNOWN_ROLE)"

definition event_codes :: "(32 word \<times> event_type) list" where
  "event_codes = [(0, EVENT_CHANNEL_OPENED), (1, EVENT_CHANNEL_OPEN_FAIL), (2, EVENT_CHANNEL_CLOSED), (3, EVENT_START_SUCCESS),
     (4, EVENT_START_FAIL), (5, EVENT_STOP_SUCCESS), (6, EVENT_STOP_FAIL), (7, EVENT_ENGINE_ERROR), (8, EVENT_REMOTE_ERROR),
     (9, EVENT_DATA_RECEIVED), (10, EVENT_TIME_SYNC_RESULT), (11, EVENT_ADD_STREAM), (12, EVENT_REMOVE_STREAM)]"

definition upd_av :: "'h av_world \<Rightarrow> ('w, 'c, 'h, 'k) daemon \<Rightarrow> ('w, 'c, 'h, 'k) daemon" where
  "upd_av W s = s\<lparr>sd_av := W\<rparr>"

definition on_av :: "('h av_world \<Rightarrow> ret \<times> 'h av_world) \<Rightarrow> ('w, 'c, 'h, 'k) daemon \<Rightarrow> ret \<times> ('w, 'c, 'h, 'k) daemon" where
  "on_av f s = (let (r, W) = f (sd_av s) in (r, upd_av W s))"

definition Service_InitializeAVCenter ::
  "('w, 'j, 'h, 'k) service_env \<Rightarrow> 32 word \<Rightarrow> ('w, 'c, 'h, 'k) daemon \<Rightarrow> ret \<times> int \<times> ('w, 'c, 'h, 'k) daemon" where
  "Service_InitializeAVCenter SE transRole s =
     (let (r, engineId, W) = InitializeAVCenter (se_av SE) (role_of transRole) (sd_av s) in (r, engineId, upd_av W s))"

definition Service_ReleaseAVCenter ::
  "('w, 'j, 'h, 'k) service_env \<Rightarrow> int \<Rightarrow> ('w, 'c, 'h, 'k) daemon \<Rightarrow> ret \<times> ('w, 'c, 'h, 'k) daemon" where
  "Service_ReleaseAVCenter SE engineId = on_av (ReleaseAVCenter (se_av SE) engineId)"

definition Service_CreateControlChannel ::
  "('w, 'j, 'h, 'k) service_env \<Rightarrow> int \<Rightarrow> string \<Rightarrow> ('w, 'c, 'h, 'k) daemon \<Rightarrow> ret \<times> ('w, 'c, 'h, 'k) daemon" where
  "Service_CreateControlChannel SE engineId peerDevId = on_av (CreateControlChannel (se_av SE) engineId peerDevId)"

definition Service_NotifyAVCenter ::
  "('w, 'j, 'h, 'k) service_env \<Rightarrow> int \<Rightarrow> 32 word \<Rightarrow> string \<Rightarrow> string \<Rightarrow> ('w, 'c, 'h, 'k) daemon \<Rightarrow> ret \<times> ('w, 'c, 'h, 'k) daemon" where
  "Service_NotifyAVCenter SE engineId type content peerDevId s =
     (case map_of event_codes type of
        Some t \<Rightarrow> on_av (NotifyAVCenter (se_av SE) engineId \<lparr> ev_type = t, ev_content = content, ev_peerDevId = peerDevId \<rparr>) s
      | None \<Rightarrow> (if IsInvalidEngineId engineId (aw_center (sd_av s)) then ERR_DH_AVT_INVALID_PARAM_VALUE else DH_AVT_SUCCESS, s))"

definition Service_RegisterCtlCenterCallback :: "int \<Rightarrow> nat option \<Rightarrow> ('w, 'c, 'h, 'k) daemon \<Rightarrow> ret \<times> ('w, 'c, 'h, 'k) daemon" where
  "Service_RegisterCtlCenterCallback engineId cb = on_av (RegisterCtlCenterCallback engineId cb)"

section \<open>Sinks\<close>

text \<open>The three operations differ in the call of the sink; the entry of a type can be a null pointer.\<close>

definition on_sink ::
  "(nat \<Rightarrow> string \<Rightarrow> 'k \<Rightarrow> ret \<times> 'k) \<Rightarrow> dhtype \<Rightarrow> string \<Rightarrow> ('w, 'c, 'h, 'k) daemon \<Rightarrow> (ret \<times> ('w, 'c, 'h, 'k) daemon) option" where
  "on_sink call dhType networkId s =
     (if \<not> IsIdLengthValid networkId then Some (ERR_DH_FWK_PARA_INVALID, s)
      else case smap_get (mg_compSink (sd_mgr s)) dhType of
        None \<Rightarrow> Some (ERR_DH_FWK_PARA_INVALID, s)
      | Some None \<Rightarrow> None
      | Some (Some sink) \<Rightarrow>
          let (r, k) = call sink networkId (sd_sinks s); s1 = s\<lparr>sd_sinks := k\<rparr> in
          if r \<noteq> 0 then Some (r, s1) else Some (DH_FWK_SUCCESS, s1))"

definition Service_PauseDistributedHardware ::
  "('w, 'j, 'h, 'k) service_env \<Rightarrow> dhtype \<Rightarrow> string \<Rightarrow> ('w, 'c, 'h, 'k) daemon \<Rightarrow> (ret \<times> ('w, 'c, 'h, 'k) daemon) option" where
  "Service_PauseDistributedHardware SE = on_sink (se_Pause SE)"

definition Service_ResumeDistributedHardware ::
  "('w, 'j, 'h, 'k) service_env \<Rightarrow> dhtype \<Rightarrow> string \<Rightarrow> ('w, 'c, 'h, 'k) daemon \<Rightarrow> (ret \<times> ('w, 'c, 'h, 'k) daemon) option" where
  "Service_ResumeDistributedHardware SE = on_sink (se_Resume SE)"

definition Service_StopDistributedHardware ::
  "('w, 'j, 'h, 'k) service_env \<Rightarrow> dhtype \<Rightarrow> string \<Rightarrow> ('w, 'c, 'h, 'k) daemon \<Rightarrow> (ret \<times> ('w, 'c, 'h, 'k) daemon) option" where
  "Service_StopDistributedHardware SE = on_sink (se_Stop SE)"

definition dh_service :: "('w, 'j, 'h, 'k) service_env \<Rightarrow> ('w, 'c, 'h, 'k) daemon service" where
  "dh_service SE = \<lparr>
     sv_RegisterPublisherListener = Service_RegisterPublisherListener,
     sv_UnregisterPublisherListener = Service_UnregisterPublisherListener SE,
     sv_PublishMessage = Service_PublishMessage,
     sv_QueryLocalSysSpec = (\<lambda>spec s. Some (Service_QueryLocalSysSpec SE spec s)),
     sv_InitializeAVCenter = (\<lambda>transRole s. Some (Service_InitializeAVCenter SE transRole s)),
     sv_ReleaseAVCenter = (\<lambda>engineId s. Some (Service_ReleaseAVCenter SE engineId s)),
     sv_CreateControlChannel = (\<lambda>engineId peerDevId s. Some (Service_CreateControlChannel SE engineId peerDevId s)),
     sv_NotifyAVCenter = (\<lambda>engineId type content peerDevId s. Some (Service_NotifyAVCenter SE engineId type content peerDevId s)),
     sv_RegisterCtlCenterCallback = (\<lambda>engineId cb s. Some (Service_RegisterCtlCenterCallback engineId cb s)),
     sv_NotifySourceRemoteSinkStarted = Service_NotifySourceRemoteSinkStarted,
     sv_PauseDistributedHardware = Service_PauseDistributedHardware SE,
     sv_ResumeDistributedHardware = Service_ResumeDistributedHardware SE,
     sv_StopDistributedHardware = Service_StopDistributedHardware SE,
     sv_GetNetworkIdByUDID = (\<lambda>udid s. GetNetworkIdByUDID (fw_cx (sd_fw s)) udid) \<rparr>"

section \<open>The contract of the stub\<close>

text \<open>The publisher has an item for every topic, and no sink of the component manager is a null pointer.\<close>

definition daemon_ok :: "('w, 'c, 'h, 'k) daemon \<Rightarrow> bool" where
  "daemon_ok s \<longleftrightarrow> pub_ok (sd_publisher s) \<and> (\<forall>e\<in>set (mg_compSink (sd_mgr s)). snd e \<noteq> None)"

lemma pub_ok_item: "pub_ok p \<Longrightarrow> ValidTopic t \<Longrightarrow> \<exists>ls. smap_get p t = Some ls"
  by (auto simp: pub_ok_def)

lemma pub_ok_register: "pub_ok p \<Longrightarrow> Publisher_RegisterListener t l p = Some q \<Longrightarrow> pub_ok q"
  using pub_step_ok [of p _ "PubRegister t l"] by (simp add: pub_step_def)

lemma pub_ok_unregister: "pub_ok p \<Longrightarrow> Publisher_UnregisterListener obj t l p = Some q \<Longrightarrow> pub_ok q"
  using pub_step_ok [of p obj "PubUnregister t l"] by (simp add: pub_step_def)

lemma keeps_register:
  assumes "daemon_ok s" and "ValidTopic t"
  shows "keeps daemon_ok (Service_RegisterPublisherListener t l s)"
    and "keeps daemon_ok (Service_UnregisterPublisherListener SE t l s)"
proof -
  obtain ls where ls: "smap_get (sd_publisher s) t = Some ls" using pub_ok_item assms unfolding daemon_ok_def by blast
  show "keeps daemon_ok (Service_RegisterPublisherListener t l s)"
    using assms(1) ls pub_ok_register [of "sd_publisher s" t l]
    by (simp add: Service_RegisterPublisherListener_def Publisher_RegisterListener_def daemon_ok_def)
  show "keeps daemon_ok (Service_UnregisterPublisherListener SE t l s)"
    using assms(1) ls pub_ok_unregister [of "sd_publisher s" "se_AsObject SE" t l]
    by (simp add: Service_UnregisterPublisherListener_def Publisher_UnregisterListener_def daemon_ok_def)
qed

lemma keeps_publish:
  assumes "daemon_ok s" and "ValidTopic t" shows "keeps daemon_ok (Service_PublishMessage t m s)"
proof -
  obtain ls where "smap_get (sd_publisher s) t = Some ls" using pub_ok_item assms unfolding daemon_ok_def by blast
  with assms(1) show ?thesis by (simp add: Service_PublishMessage_def Publisher_PublishMessage_def daemon_ok_def)
qed

lemma keeps_sink_started: "daemon_ok s \<Longrightarrow> keeps daemon_ok (Service_NotifySourceRemoteSinkStarted d s)"
  using keeps_publish [of s TOPIC_INIT_DHMS_READY d]
  by (simp add: Service_NotifySourceRemoteSinkStarted_def Service_PublishMessage_def ValidTopic_iff)

lemma daemon_ok_on_av [simp]: "daemon_ok (snd (on_av f s)) = daemon_ok s" "daemon_ok (upd_av W s) = daemon_ok s"
  by (simp_all add: on_av_def upd_av_def Let_def case_prod_unfold daemon_ok_def)

lemma keeps_pair: "keeps ok (Some x) \<longleftrightarrow> ok (snd x)"
  by (cases x) simp

lemma daemon_ok_fw [simp]: "daemon_ok (s\<lparr>sd_fw := f\<rparr>) = daemon_ok s"
  by (simp add: daemon_ok_def)

lemma keeps_on_sink:
  assumes "daemon_ok s" shows "keeps daemon_ok (on_sink call dhType networkId s)"
proof (cases "smap_get (mg_compSink (sd_mgr s)) dhType")
  case (Some ptr)
  then have "(dhType, ptr) \<in> set (mg_compSink (sd_mgr s))" by (rule smap_get_SomeD)
  with assms obtain sink where "ptr = Some sink" by (force simp: daemon_ok_def)
  with Some assms show ?thesis by (auto simp: on_sink_def Let_def case_prod_unfold daemon_ok_def)
qed (use assms in \<open>simp add: on_sink_def\<close>)

interpretation fwk_service: service_contract "dh_service SE" daemon_ok for SE :: "('w, 'j, 'h, 'k) service_env"
proof unfold_locales
  fix s :: "('w, 'c, 'h, 'k) daemon" and w
  assume "daemon_ok s"
  then show "\<exists>r i s1. sv_InitializeAVCenter (dh_service SE) w s = Some (r, i, s1) \<and> daemon_ok s1"
    by (simp add: dh_service_def Service_InitializeAVCenter_def Let_def case_prod_unfold)
qed (simp_all add: dh_service_def keeps_register keeps_publish keeps_sink_started keeps_pair keeps_on_sink Service_QueryLocalSysSpec_def
    Service_ReleaseAVCenter_def Service_CreateControlChannel_def Service_NotifyAVCenter_def Service_RegisterCtlCenterCallback_def
    Service_PauseDistributedHardware_def Service_ResumeDistributedHardware_def Service_StopDistributedHardware_def Let_def case_prod_unfold
    split: option.splits)

lemma InitCompSink_not_null:
  assumes "\<forall>e\<in>set (mg_compSink (cs_mgr c)). snd e \<noteq> None"
  shows "\<forall>e\<in>set (mg_compSink (cs_mgr (snd (InitCompSink H c)))). snd e \<noteq> None"
proof -
  have "\<forall>e\<in>set (mg_compSink (cs_mgr (fold (\<lambda>t c.
            let (r, ptr, lo, h) = GetSink (hw_loader H) t (cs_loader c, cs_h c); c' = c\<lparr>cs_loader := lo, cs_h := h\<rparr> in
            if r \<noteq> DH_FWK_SUCCESS \<or> ptr = None then c'
            else c'\<lparr>cs_mgr := (cs_mgr c')\<lparr>mg_compSink := smap_emplace t ptr (mg_compSink (cs_mgr c'))\<rparr>\<rparr>) ts c))). snd e \<noteq> None"
    if "\<forall>e\<in>set (mg_compSink (cs_mgr c)). snd e \<noteq> None" for ts c
    using that
  proof (induction ts arbitrary: c)
    case (Cons t ts)
    show ?case
      unfolding fold_Cons comp_apply
      by (rule Cons.IH) (use Cons.prems in \<open>auto simp: Let_def case_prod_unfold dest!: set_smap_emplace\<close>)
  qed simp
  from this [OF assms] show ?thesis by (simp add: InitCompSink_def Let_def)
qed

end
