(* ===== verification/DHF_ServiceProps.thy ===== *)
theory DHF_ServiceProps
  imports DHF_Service DHF_AvCenterProps DHF_CompProps
begin

text \<open>
  The service and its clients together: no request goes through a null pointer, a message that one process publishes is delivered to the
  listener of another, and the results of the asynchronous requests are lost. The witnesses compute with a parcel that is the list of its items.
\<close>

section \<open>A parcel as the list of its items\<close>

definition item_parcel :: "pitem list parcel" where
  "item_parcel = \<lparr> pc_new = [],
     pc_WriteInterfaceToken = (\<lambda>x p. (True, p @ [ItToken x])), pc_WriteUint32 = (\<lambda>x p. (True, p @ [ItU32 x])),
     pc_WriteInt32 = (\<lambda>x p. (True, p @ [ItI32 x])), pc_WriteString = (\<lambda>x p. (True, p @ [ItStr x])),
     pc_WriteRemoteObject = (\<lambda>x p. (True, p @ [ItObj x])),
     pc_ReadInterfaceToken = (\<lambda>p. case p of ItToken x # q \<Rightarrow> (x, q) | _ \<Rightarrow> ([], p)),
     pc_ReadUint32 = (\<lambda>p. case p of ItU32 x # q \<Rightarrow> (x, q) | _ \<Rightarrow> (0, p)),
     pc_ReadInt32 = (\<lambda>p. case p of ItI32 x # q \<Rightarrow> (x, q) | _ \<Rightarrow> (0, p)),
     pc_ReadString = (\<lambda>p. case p of ItStr x # q \<Rightarrow> (x, q) | _ \<Rightarrow> ([], p)),
     pc_ReadRemoteObject = (\<lambda>p. case p of ItObj x # q \<Rightarrow> (x, q) | _ \<Rightarrow> (None, p)) \<rparr>"

lemma item_parcel_laws: "parcel_laws item_parcel (\<lambda>p. p) (\<lambda>_. True)"
  by (simp add: parcel_laws_def item_parcel_def writes_def reads_def)

text \<open>A transport that hands every request to the stub.\<close>

definition direct :: "'p parcel \<Rightarrow> (32 word \<Rightarrow> 'p \<Rightarrow> 'p \<Rightarrow> 's \<Rightarrow> ('p, 's) answer) \<Rightarrow> ('p, 's) remote" where
  "direct P stub code async data s =
     (case stub code data (pc_new P) s of None \<Rightarrow> None
      | Some (r, reply, s1) \<Rightarrow> if async then Some (NO_ERROR, pc_new P, s1) else Some (r, reply, s1))"

lemma direct_delivers: "request_delivered P stub (direct P stub)"
  by (auto simp: request_delivered_def direct_def split: option.splits)

section \<open>No request goes through a null pointer\<close>

text \<open>
  Property C10. Whatever clients send, with whatever rights and in whatever order: a service whose publisher is as it was constructed and whose sinks are those the
  component manager loaded answers every request, and none of them reaches a topic without an item or a sink that is a null pointer.
\<close>

theorem no_request_goes_through_null:
  assumes "sd_publisher s = Publisher_new" and "sd_mgr s = cs_mgr (snd (InitCompSink H c))" and "mg_compSink (cs_mgr c) = []"
  shows "\<exists>s1. serve P (dh_service SE) rs s = Some s1"
proof -
  have "pub_ok Publisher_new" using pub_steps_ok [of _ "[]"] by simp
  with assms InitCompSink_not_null [of c H] have "daemon_ok s" by (simp add: daemon_ok_def)
  from fwk_service.serve_answers [OF this] show ?thesis by blast
qed

section \<open>A message from one process to another\<close>

lemma topic_in_range: "ValidTopic t \<Longrightarrow> t \<le> TOPIC_MAX"
  by (auto simp: ValidTopic_def split: if_splits)

text \<open>The two handlers that always report success.\<close>

lemma write_success:
  assumes "parcel_laws P items fits" and "fits [ItI32 0]"
  shows "fst (pc_ReadInt32 P (snd (pc_WriteInt32 P 0 (pc_new P)))) = 0"
proof -
  have n: "items (pc_new P) = []" by (rule parcel_lawsD(1) [OF assms(1)])
  with assms(2) have "fits (items (pc_new P) @ [ItI32 0])" by simp
  from writesD [OF parcel_lawsD(5) [OF assms(1)] this] n have "items (snd (pc_WriteInt32 P 0 (pc_new P))) = [ItI32 0]" by simp
  then show ?thesis by (rule read_int32(1) [OF assms(1)])
qed

lemma register_arrives:
  assumes "parcel_laws P items fits" and "request_delivered P (OnRemoteRequest P E svc) f" and "HasAccessDHPermission E" and "ValidTopic t"
    and "ie_listener_cast E (obj l) s = Some l'" and "fits [ItToken dhfwk_descriptor, ItU32 t, ItObj (obj l)]" and "fits [ItI32 0]"
    and "sv_RegisterPublisherListener svc t (Some l') s = Some (r, s1)"
  shows "Proxy_RegisterPublisherListener P obj (Some f) t (Some l) s = Some (DH_FWK_SUCCESS, s1)"
proof -
  let ?d = "written P (pc_WriteInterfaceToken P dhfwk_descriptor) (pc_WriteUint32 P t) (pc_WriteRemoteObject P (obj l))"
  note w = writes_three [OF assms(1,6) parcel_lawsD(3,4,7) [OF assms(1)]]
  have sent: "Proxy_RegisterPublisherListener P obj (Some f) t (Some l) s
      = send_request P f REG_PUBLISHER_LISTNER False ERR_DH_FWK_SERVICE_IPC_SEND_REQUEST_FAIL ?d s"
    using leD [OF topic_in_range [OF assms(4)]] by (simp add: Proxy_RegisterPublisherListener_def listener_request_def w(2))
  note t = stub_token [OF assms(1) w(1)]
  note n = read_uint32 [OF assms(1) t(2)]
  note o = read_object [OF assms(1) n(2)]
  have "OnRemoteRequest P E svc REG_PUBLISHER_LISTNER ?d (pc_new P) s = Some (0, snd (pc_WriteInt32 P 0 (pc_new P)), s1)"
    using assms(3-5,8) t(1) n(1) o by (simp add: OnRemoteRequest_def RegisterPublisherListenerInner_def Let_def case_prod_unfold)
  with sent write_success [OF assms(1,7)] show ?thesis by (simp add: send_request_def request_deliveredD(1) [OF assms(2)])
qed

lemma publish_arrives:
  assumes "parcel_laws P items fits" and "request_delivered P (OnRemoteRequest P E svc) f" and "HasAccessDHPermission E" and "ValidTopic t"
    and "IsMessageLengthValid m" and "fits [ItToken dhfwk_descriptor, ItU32 t, ItStr m]" and "fits [ItI32 0]"
    and "sv_PublishMessage svc t m s = Some (r, s1)"
  shows "Proxy_PublishMessage P (Some f) t m s = Some (DH_FWK_SUCCESS, s1)"
proof -
  let ?d = "written P (pc_WriteInterfaceToken P dhfwk_descriptor) (pc_WriteUint32 P t) (pc_WriteString P m)"
  note w = writes_three [OF assms(1,6) parcel_lawsD(3,4,6) [OF assms(1)]]
  have sent: "Proxy_PublishMessage P (Some f) t m s = send_request P f PUBLISH_MESSAGE False ERR_DH_FWK_SERVICE_IPC_SEND_REQUEST_FAIL ?d s"
    using leD [OF topic_in_range [OF assms(4)]] assms(5) by (simp add: Proxy_PublishMessage_def w(2))
  note t = stub_token [OF assms(1) w(1)]
  note n = read_uint32 [OF assms(1) t(2)]
  note o = read_string [OF assms(1) n(2)]
  have "OnRemoteRequest P E svc PUBLISH_MESSAGE ?d (pc_new P) s = Some (0, snd (pc_WriteInt32 P 0 (pc_new P)), s1)"
    using assms(3,4,8) t(1) n(1) o(1) by (simp add: OnRemoteRequest_def PublishMessageInner_def Let_def case_prod_unfold)
  with sent write_success [OF assms(1,7)] show ?thesis by (simp add: send_request_def request_deliveredD(1) [OF assms(2)])
qed

lemma message_arrives:
  assumes "parcel_laws P items fits" and "request_delivered P (Listener_OnRemoteRequest P invalid dflt on_message) g" and "t \<le> TOPIC_MAX"
    and "IsMessageLengthValid m" and "fits [ItToken listener_descriptor, ItU32 t, ItStr m]"
  shows "Listener_OnMessage P (Some g) t m c = Some (on_message t m c)"
proof -
  let ?d = "written P (pc_WriteInterfaceToken P listener_descriptor) (pc_WriteUint32 P t) (pc_WriteString P m)"
  note w = writes_three [OF assms(1,5) parcel_lawsD(3,4,6) [OF assms(1)]]
  have sent: "Listener_OnMessage P (Some g) t m c = map_option (\<lambda>(r, reply, c1). c1) (g ON_MESSAGE False ?d c)"
    using leD [OF assms(3)] assms(4) by (simp add: Listener_OnMessage_def w(2))
  have t: "fst (pc_ReadInterfaceToken P ?d) = listener_descriptor" "items (snd (pc_ReadInterfaceToken P ?d)) = [ItU32 t, ItStr m]"
    using readsD [OF parcel_lawsD(8) [OF assms(1)] w(1)] by simp_all
  note n = read_uint32 [OF assms(1) t(2)]
  note o = read_string [OF assms(1) n(2)]
  have "m \<noteq> []" "\<not> length m > MAX_MESSAGE_LEN" using assms(4) by (auto simp: IsMessageLengthValid_def)
  with leD [OF assms(3)] t(1) n(1) o(1) sent show ?thesis
    by (simp add: request_deliveredD(1) [OF assms(2)] Listener_OnRemoteRequest_def Let_def case_prod_unfold)
qed

text \<open>
  Property C11. A process registers a listener for a topic and another one publishes a message under it, both with the permission: both calls succeed, the message is among the
  deliveries of the service to the listener, and the delivery calls \<open>OnMessage\<close> in the first process with the same topic and message.
\<close>

theorem message_crosses_processes:
  assumes "parcel_laws P items fits" and "request_delivered P (OnRemoteRequest P EA (dh_service SE)) fA"
    and "request_delivered P (OnRemoteRequest P EB (dh_service SE)) fB"
    and "request_delivered P (Listener_OnRemoteRequest P invalid dflt on_message) g"
    and "HasAccessDHPermission EA" and "HasAccessDHPermission EB" and "daemon_ok s" and "ValidTopic t" and "IsMessageLengthValid m"
    and "ie_listener_cast EA (obj l) s = Some l'" and "fits [ItToken dhfwk_descriptor, ItU32 t, ItObj (obj l)]" and "fits [ItI32 0]"
    and "fits [ItToken dhfwk_descriptor, ItU32 t, ItStr m]" and "fits [ItToken listener_descriptor, ItU32 t, ItStr m]"
  shows "\<exists>s1 s2. Proxy_RegisterPublisherListener P obj (Some fA) t (Some l) s = Some (DH_FWK_SUCCESS, s1)
    \<and> Proxy_PublishMessage P (Some fB) t m s1 = Some (DH_FWK_SUCCESS, s2)
    \<and> (l', t, m) \<in> set (drop (length (sd_sent s)) (sd_sent s2))
    \<and> Listener_OnMessage P (Some g) t m c = Some (on_message t m c)"
proof -
  obtain ls where ls: "smap_get (sd_publisher s) t = Some ls" using assms(7,8) pub_ok_item unfolding daemon_ok_def by blast
  define s1 where "s1 = s\<lparr>sd_publisher := smap_put t (sset_insert l' ls) (sd_publisher s)\<rparr>"
  define s2 where "s2 = s1\<lparr>sd_sent := sd_sent s @ map (\<lambda>l. (l, t, m)) (sset_insert l' ls)\<rparr>"
  have "sv_RegisterPublisherListener (dh_service SE) t (Some l') s = Some (DH_FWK_SUCCESS, s1)"
    using ls by (simp add: dh_service_def Service_RegisterPublisherListener_def Publisher_RegisterListener_def AddListener_def s1_def)
  note 1 = register_arrives [where obj = obj and l = l, OF assms(1,2,5,8,10,11,12) this]
  have "sv_PublishMessage (dh_service SE) t m s1 = Some (DH_FWK_SUCCESS, s2)"
    using assms(9) by (simp add: dh_service_def Service_PublishMessage_def Publisher_PublishMessage_def Item_PublishMessage_def s1_def s2_def)
  note 2 = publish_arrives [OF assms(1,3,6,8,9,13,12) this]
  note 3 = message_arrives [OF assms(1,4) topic_in_range [OF assms(8)] assms(9,14)]
  have "(l', t, m) \<in> set (drop (length (sd_sent s)) (sd_sent s2))" by (simp add: s2_def s1_def)
  with 1 2 3 show ?thesis by blast
qed

section \<open>Asynchronous requests\<close>

text \<open>
  \<open>CreateControlChannel\<close> is sent asynchronously, and its result is read from the empty reply: a client with the permission is told that the
  channel was created, whatever the control center answered. When the center is not initialised it answers with an error and changes nothing.
\<close>

theorem failed_channel_is_reported_created:
  assumes "parcel_laws P items fits" and "request_delivered P (OnRemoteRequest P E (dh_service SE)) f" and "HasAccessDHPermission E"
    and "fits [ItToken dhfwk_descriptor, ItI32 engineId, ItStr peerDevId]"
  shows "Proxy_CreateControlChannel P (Some f) engineId peerDevId s = Some (DH_AVT_SUCCESS, snd (Service_CreateControlChannel SE engineId peerDevId s))
    \<and> (\<not> cc_initialized (aw_center (sd_av s)) \<longrightarrow>
         fst (Service_CreateControlChannel SE engineId peerDevId s) \<in> {ERR_DH_AVT_CREATE_CHANNEL_FAILED, ERR_DH_AVT_INVALID_PARAM_VALUE}
         \<and> snd (Service_CreateControlChannel SE engineId peerDevId s) = s)"
proof -
  let ?d = "written P (pc_WriteInterfaceToken P dhfwk_descriptor) (pc_WriteInt32 P engineId) (pc_WriteString P peerDevId)"
  let ?res = "Service_CreateControlChannel SE engineId peerDevId s"
  note w = writes_three [OF assms(1,4) parcel_lawsD(3,5,6) [OF assms(1)]]
  have sent: "Proxy_CreateControlChannel P (Some f) engineId peerDevId s
      = send_request P f CREATE_CTL_CEN_CHANNEL True ERR_DH_AVT_SERVICE_IPC_SEND_REQUEST_FAIL ?d s"
    by (simp add: Proxy_CreateControlChannel_def engine_request_def w(2))
  note t = stub_token [OF assms(1) w(1)]
  note n = read_int32 [OF assms(1) t(2)]
  note o = read_string [OF assms(1) n(2)]
  have "OnRemoteRequest P E (dh_service SE) CREATE_CTL_CEN_CHANNEL ?d (pc_new P) s = reply_ret P (pc_new P) (Some ?res)"
    using assms(3) t(1) n(1) o(1) by (simp add: OnRemoteRequest_def CreateControlChannelInner_def Let_def case_prod_unfold dh_service_def)
  then obtain r reply where "OnRemoteRequest P E (dh_service SE) CREATE_CTL_CEN_CHANNEL ?d (pc_new P) s = Some (r, reply, snd ?res)"
    by (auto simp: reply_ret_def Let_def case_prod_unfold split: if_splits)
  from send_request_async [OF assms(1,2) this]
  have "Proxy_CreateControlChannel P (Some f) engineId peerDevId s = Some (DH_AVT_SUCCESS, snd ?res)" by (simp add: sent)
  moreover have "fst ?res \<in> {ERR_DH_AVT_CREATE_CHANNEL_FAILED, ERR_DH_AVT_INVALID_PARAM_VALUE} \<and> snd ?res = s"
    if "\<not> cc_initialized (aw_center (sd_av s))"
    using that by (simp add: Service_CreateControlChannel_def on_av_def upd_av_def CreateControlChannel_def Let_def)
  ultimately show ?thesis by blast
qed

section \<open>Witnesses\<close>

text \<open>A framework that has not started, a fresh publisher, a control center that is not initialised, and one sink of the cameras.\<close>

definition sample_service :: "(kv_world, jnode, int \<times> (int \<times> string) list, (nat \<times> string) list) service_env" where
  "sample_service = \<lparr> se_fwk = env_model, se_av = sample_av_env, se_AsObject = Some, se_Pause = (\<lambda>i d k. (0, k @ [(i, d)])),
     se_Resume = (\<lambda>i d k. (0, k)), se_Stop = (\<lambda>i d k. (7, k)) \<rparr>"

definition sample_daemon :: "(kv_world, unit, int \<times> (int \<times> string) list, (nat \<times> string) list) daemon" where
  "sample_daemon = \<lparr>
     sd_fw = \<lparr> fw_rs = sample_resources, fw_ts = task_sys_new, fw_comp = (), fw_isLocalInit = False, fw_isAllInit = False, fw_isInit = False,
       fw_flagUnInit = False, fw_sendThreads = [], fw_exitRequested = False \<rparr>,
     sd_publisher = Publisher_new, sd_sent = [], sd_av = sample_av_world\<lparr>aw_center := center_new\<rparr>,
     sd_mgr = comp_mgr_new\<lparr>mg_compSink := [(DHType_CAMERA, Some 2)]\<rparr>, sd_sinks = [], sd_running = True, sd_registered = True, sd_posted = 0 \<rparr>"

text \<open>A caller whose token is 1 and is granted the permission, and one whose token is not.\<close>

definition sample_caller :: "bool \<Rightarrow> (pitem list, 's) ipc_env" where
  "sample_caller granted = \<lparr> ie_CallingTokenID = (if granted then 1 else 2), ie_CallingFullTokenID = 1, ie_VerifyAccessToken = (\<lambda>t p. if t = 1 then 0 else -1),
     ie_AllocLocalTokenID = (\<lambda>n t. 3), ie_IsSystemAppByFullTokenID = (\<lambda>t. True), ie_listener_cast = (\<lambda>x s. x), ie_callback_cast = (\<lambda>x s. x),
     ie_ERR_INVALID_DATA = 5, ie_default = (\<lambda>c d r. (0, r)) \<rparr>"

lemma sample_caller_rights [simp]: "HasAccessDHPermission (sample_caller True)" "IsSystemHap (sample_caller g)" "no_right svc s (sample_caller False) code"
  by (simp_all add: HasAccessDHPermission_def IsSystemHap_def no_right_def sample_caller_def)

lemma sample_daemon_ok: "daemon_ok sample_daemon"
  using pub_steps_ok [of _ "[]"] by (simp add: daemon_ok_def sample_daemon_def)

theorem requests_without_right_change_nothing_witness:
  "serve item_parcel (dh_service sample_service)
     [(sample_caller False, PUBLISH_MESSAGE, [ItToken dhfwk_descriptor, ItU32 5, ItStr ''on'']),
      (sample_caller False, PAUSE_DISTRIBUTED_HARDWARE, [ItToken dhfwk_descriptor, ItI32 1, ItStr ''dev''])] sample_daemon = Some sample_daemon"
  by (rule requests_without_right_change_nothing) simp

theorem hardware_requests_reach_service_witness:
  "Proxy_PauseDistributedHardware item_parcel (Some (direct item_parcel (OnRemoteRequest item_parcel (sample_caller True) (dh_service sample_service))))
     DHType_CAMERA ''dev'' sample_daemon = Some (0, sample_daemon\<lparr>sd_sinks := [(2, ''dev'')]\<rparr>)"
proof -
  have "sv_PauseDistributedHardware (dh_service sample_service) DHType_CAMERA ''dev'' sample_daemon
      = Some (0, sample_daemon\<lparr>sd_sinks := [(2, ''dev'')]\<rparr>)"
    by (simp add: dh_service_def Service_PauseDistributedHardware_def on_sink_def sample_daemon_def sample_service_def IsIdLengthValid_def smap_get_def)
  moreover have "IsIdLengthValid ''dev''" by (simp add: IsIdLengthValid_def)
  ultimately show ?thesis
    using hardware_requests_reach_service [OF item_parcel_laws direct_delivers, where E = "sample_caller True" and svc = "dh_service sample_service"
        and dhType = DHType_CAMERA and networkId = "''dev''" and s = sample_daemon]
    by simp
qed

theorem no_request_goes_through_null_witness:
  "\<exists>s1. serve item_parcel (dh_service sample_service)
     [(sample_caller True, REG_PUBLISHER_LISTNER, [ItToken dhfwk_descriptor, ItU32 0xFFFF, ItObj (Some 4)]),
      (sample_caller True, STOP_DISTRIBUTED_HARDWARE, [ItToken dhfwk_descriptor])]
     (sample_daemon\<lparr>sd_mgr := cs_mgr (snd (InitCompSink sample_hw sample_comp))\<rparr>) = Some s1"
proof (rule no_request_goes_through_null)
  show "mg_compSink (cs_mgr sample_comp) = []" by (simp add: sample_comp_def comp_mgr_new_def)
qed (simp_all add: sample_daemon_def)

theorem message_crosses_processes_witness:
  "let f = direct item_parcel (OnRemoteRequest item_parcel (sample_caller True) (dh_service sample_service)) in
   \<exists>s1 s2. Proxy_RegisterPublisherListener item_parcel Some (Some f) TOPIC_LOW_LATENCY (Some 4) sample_daemon = Some (DH_FWK_SUCCESS, s1)
    \<and> Proxy_PublishMessage item_parcel (Some f) TOPIC_LOW_LATENCY ''on'' s1 = Some (DH_FWK_SUCCESS, s2) \<and> (4, TOPIC_LOW_LATENCY, ''on'') \<in> set (sd_sent s2)
    \<and> Listener_OnMessage item_parcel (Some (direct item_parcel (Listener_OnRemoteRequest item_parcel 5 (\<lambda>c d r. (0, r)) (\<lambda>t m c. c @ [(t, m)]))))
        TOPIC_LOW_LATENCY ''on'' [] = Some [(TOPIC_LOW_LATENCY, ''on'')]"
proof -
  have "ValidTopic TOPIC_LOW_LATENCY" "IsMessageLengthValid ''on''" by (simp_all add: ValidTopic_iff IsMessageLengthValid_def)
  moreover have "ie_listener_cast (sample_caller True) (Some 4) sample_daemon = Some 4" by (simp add: sample_caller_def)
  moreover have "sd_sent sample_daemon = []" by (simp add: sample_daemon_def)
  ultimately show ?thesis
    using message_crosses_processes [OF item_parcel_laws direct_delivers direct_delivers direct_delivers, where EA = "sample_caller True" and EB = "sample_caller True"
        and SE = sample_service and s = sample_daemon and t = TOPIC_LOW_LATENCY and m = "''on''" and obj = Some and l = 4 and l' = 4
        and invalid = 5 and dflt = "\<lambda>c d r. (0, r)" and on_message = "\<lambda>t m c. c @ [(t, m)]" and c = "[]"] sample_daemon_ok
    unfolding Let_def by simp
qed

theorem failed_channel_is_reported_created_witness:
  "Proxy_CreateControlChannel item_parcel (Some (direct item_parcel (OnRemoteRequest item_parcel (sample_caller True) (dh_service sample_service))))
     1000 ''dev'' sample_daemon = Some (DH_AVT_SUCCESS, sample_daemon)
   \<and> fst (Service_CreateControlChannel sample_service 1000 ''dev'' sample_daemon) \<noteq> DH_AVT_SUCCESS"
proof -
  have "\<not> cc_initialized (aw_center (sd_av sample_daemon))" by (simp add: sample_daemon_def center_new_def)
  then show ?thesis
    using failed_channel_is_reported_created [OF item_parcel_laws direct_delivers, where E = "sample_caller True" and SE = sample_service
        and engineId = 1000 and peerDevId = "''dev''" and s = sample_daemon] by auto
qed

end
