(* ===== verification/DHF_AvCallback.thy ===== *)
theory DHF_AvCallback
  imports DHF_ServiceProps DHF_AvEngineProps
begin

text \<open>
  The way of a parameter from the control center into the pipeline of an engine in another process: the proxy that the center holds
  (\<open>av_trans_control_center_callback_proxy.cpp\<close>), the stub in the process of the engine
  (\<open>av_trans_control_center_callback_stub.cpp\<close>) and the callback object that has the engine
  (\<open>av_trans_control_center_callback.cpp\<close>).

  The callback holds weak pointers: \<open>None\<close> is an engine that was not set or does not exist any more. The two operations of a parcel on file
  descriptors are the parameter \<open>fd_ops\<close>. Outside the handlers, \<open>None\<close> is a failure that ends the process, as in theory \<open>DHF_AvEngine\<close>.
\<close>

abbreviation (input) SET_PARAMETER :: "32 word" where "SET_PARAMETER \<equiv> 1"
abbreviation (input) SET_SHARED_MEMORY :: "32 word" where "SET_SHARED_MEMORY \<equiv> 2"
abbreviation (input) CB_NOTIFY_AV_EVENT :: "32 word" where "CB_NOTIFY_AV_EVENT \<equiv> 3"

definition callback_descriptor :: string where
  "callback_descriptor = ''ohos.distributedhardware.IAVTransControlCenterCallback''"

record 'c fd_ops =
  fd_Write :: "int \<Rightarrow> 'c \<Rightarrow> bool \<times> 'c"
  fd_Read :: "'c \<Rightarrow> int \<times> 'c"

section \<open>The callback\<close>

record ('p, 'k, 'h) engine_callback =
  cb_sender :: "('p, 'k, 'h) engine_world option"
  cb_receiver :: "('p, 'k, 'h) engine_world option"

definition callback_new :: "('p, 'k, 'h) engine_callback" where
  "callback_new = \<lparr> cb_sender = None, cb_receiver = None \<rparr>"

definition SetSenderEngine :: "('p, 'k, 'h) engine_world option \<Rightarrow> ('p, 'k, 'h) engine_callback \<Rightarrow> ('p, 'k, 'h) engine_callback" where
  "SetSenderEngine sender c = (if sender \<noteq> None then c\<lparr>cb_sender := sender\<rparr> else c)"

definition SetReceiverEngine :: "('p, 'k, 'h) engine_world option \<Rightarrow> ('p, 'k, 'h) engine_callback \<Rightarrow> ('p, 'k, 'h) engine_callback" where
  "SetReceiverEngine receiver c = (if receiver \<noteq> None then c\<lparr>cb_receiver := receiver\<rparr> else c)"

text \<open>A parameter for an engine that may be gone; the result of the engine is not looked at.\<close>

definition set_if_alive ::
  "('w \<Rightarrow> (ret \<times> 'w) option) \<Rightarrow> 'w option \<Rightarrow> 'w option option" where
  "set_if_alive f engine = (case engine of None \<Rightarrow> Some None | Some W \<Rightarrow> map_option (\<lambda>(r, V). Some V) (f W))"

definition Callback_SetParameter ::
  "('p, 'k, 'h, 'j) engine_env \<Rightarrow> 32 word \<Rightarrow> string \<Rightarrow> ('p, 'k, 'h) engine_callback \<Rightarrow> (ret \<times> ('p, 'k, 'h) engine_callback) option" where
  "Callback_SetParameter E tag value c =
     (if tag = TAG_START_AV_SYNC \<or> tag = TAG_STOP_AV_SYNC \<or> tag = TAG_TIME_SYNC_RESULT
      then map_option (\<lambda>x. (DH_AVT_SUCCESS, c\<lparr>cb_receiver := x\<rparr>)) (set_if_alive (Receiver_SetParameter E tag value) (cb_receiver c))
      else Some (DH_AVT_SUCCESS, c))"

definition Callback_SetSharedMemory ::
  "('p, 'k, 'h, 'j) engine_env \<Rightarrow> shared_memory \<Rightarrow> ('p, 'k, 'h) engine_callback \<Rightarrow> (ret \<times> ('p, 'k, 'h) engine_callback) option" where
  "Callback_SetSharedMemory E memory c =
     (let value = MarshalSharedMemory (ee_json E) memory in
      case set_if_alive (Sender_SetParameter E TAG_SHARED_MEMORY_FD value) (cb_sender c) of
        None \<Rightarrow> None
      | Some x \<Rightarrow> map_option (\<lambda>y. (DH_AVT_SUCCESS, c\<lparr>cb_sender := x, cb_receiver := y\<rparr>))
                    (set_if_alive (Receiver_SetParameter E TAG_SHARED_MEMORY_FD value) (cb_receiver c)))"

definition Callback_Notify :: "32 word \<Rightarrow> string \<Rightarrow> string \<Rightarrow> ('p, 'k, 'h) engine_callback \<Rightarrow> (ret \<times> ('p, 'k, 'h) engine_callback) option" where
  "Callback_Notify type content peerDevId c = Some (DH_AVT_SUCCESS, c)"

section \<open>The stub\<close>

definition reply_avt :: "'c parcel \<Rightarrow> 'c \<Rightarrow> (ret \<times> 's) option \<Rightarrow> ('c, 's) answer" where
  "reply_avt P reply res =
     (case res of None \<Rightarrow> None
      | Some (r, s) \<Rightarrow>
          let (ok, reply1) = pc_WriteInt32 P r reply in
          if \<not> ok then Some (ERR_DH_AVT_SERVICE_WRITE_INFO_FAIL, reply1, s) else Some (NO_ERROR, reply1, s))"

definition SetParameterInner ::
  "'c parcel \<Rightarrow> ('p, 'k, 'h, 'j) engine_env \<Rightarrow> 'c \<Rightarrow> 'c \<Rightarrow> ('p, 'k, 'h) engine_callback \<Rightarrow> ('c, ('p, 'k, 'h) engine_callback) answer" where
  "SetParameterInner P E data reply c =
     (let (transTag, data1) = pc_ReadUint32 P data
      in reply_avt P reply (Callback_SetParameter E transTag (fst (pc_ReadString P data1)) c))"

definition SetSharedMemoryInner ::
  "'c parcel \<Rightarrow> 'c fd_ops \<Rightarrow> ('p, 'k, 'h, 'j) engine_env \<Rightarrow> 'c \<Rightarrow> 'c \<Rightarrow> ('p, 'k, 'h) engine_callback \<Rightarrow> ('c, ('p, 'k, 'h) engine_callback) answer" where
  "SetSharedMemoryInner P F E data reply c =
     (let (fd, data1) = fd_Read F data;
          (sz, data2) = pc_ReadInt32 P data1;
          name = fst (pc_ReadString P data2)
      in reply_avt P reply (Callback_SetSharedMemory E \<lparr> sm_fd = fd, sm_size = sz, sm_name = name \<rparr> c))"

definition NotifyInner :: "'c parcel \<Rightarrow> 'c \<Rightarrow> 'c \<Rightarrow> ('p, 'k, 'h) engine_callback \<Rightarrow> ('c, ('p, 'k, 'h) engine_callback) answer" where
  "NotifyInner P data reply c =
     (let (type, data1) = pc_ReadUint32 P data;
          (content, data2) = pc_ReadString P data1
      in reply_avt P reply (Callback_Notify type content (fst (pc_ReadString P data2)) c))"

definition Callback_OnRemoteRequest ::
  "'c parcel \<Rightarrow> 'c fd_ops \<Rightarrow> int \<Rightarrow> (32 word \<Rightarrow> 'c \<Rightarrow> 'c \<Rightarrow> int \<times> 'c) \<Rightarrow> ('p, 'k, 'h, 'j) engine_env \<Rightarrow> 32 word \<Rightarrow> 'c \<Rightarrow> 'c
     \<Rightarrow> ('p, 'k, 'h) engine_callback \<Rightarrow> ('c, ('p, 'k, 'h) engine_callback) answer" where
  "Callback_OnRemoteRequest P F invalid dflt E code data reply c =
     (let (token, data1) = pc_ReadInterfaceToken P data in
      if token \<noteq> callback_descriptor then Some (invalid, reply, c)
      else if code = SET_PARAMETER then SetParameterInner P E data1 reply c
      else if code = SET_SHARED_MEMORY then SetSharedMemoryInner P F E data1 reply c
      else if code = CB_NOTIFY_AV_EVENT then NotifyInner P data1 reply c
      else let (r, reply1) = dflt code data1 reply in Some (r, reply1, c))"

section \<open>The proxy\<close>

definition CallbackProxy_SetParameter :: "'c parcel \<Rightarrow> ('c, 's) remote option \<Rightarrow> 32 word \<Rightarrow> string \<Rightarrow> 's \<Rightarrow> (ret \<times> 's) option" where
  "CallbackProxy_SetParameter P remote tag value s =
     (case remote of
        None \<Rightarrow> Some (ERR_DH_AVT_SERVICE_REMOTE_IS_NULL, s)
      | Some f \<Rightarrow>
          write_or (pc_WriteInterfaceToken P callback_descriptor (pc_new P)) (Some (ERR_DH_AVT_SERVICE_WRITE_TOKEN_FAIL, s)) (\<lambda>d1.
          write_or (pc_WriteUint32 P tag d1) (Some (ERR_DH_AVT_SERVICE_WRITE_INFO_FAIL, s)) (\<lambda>d2.
          write_or (pc_WriteString P value d2) (Some (ERR_DH_AVT_SERVICE_WRITE_INFO_FAIL, s)) (\<lambda>d3.
          send_request P f SET_PARAMETER False ERR_DH_AVT_SERVICE_IPC_SEND_REQUEST_FAIL d3 s))))"

definition CallbackProxy_SetSharedMemory :: "'c parcel \<Rightarrow> 'c fd_ops \<Rightarrow> ('c, 's) remote option \<Rightarrow> shared_memory \<Rightarrow> 's \<Rightarrow> (ret \<times> 's) option" where
  "CallbackProxy_SetSharedMemory P F remote memory s =
     (case remote of
        None \<Rightarrow> Some (ERR_DH_AVT_SERVICE_REMOTE_IS_NULL, s)
      | Some f \<Rightarrow>
          write_or (pc_WriteInterfaceToken P callback_descriptor (pc_new P)) (Some (ERR_DH_AVT_SERVICE_WRITE_TOKEN_FAIL, s)) (\<lambda>d1.
          write_or (fd_Write F (sm_fd memory) d1) (Some (ERR_DH_AVT_SERVICE_WRITE_INFO_FAIL, s)) (\<lambda>d2.
          write_or (pc_WriteInt32 P (sm_size memory) d2) (Some (ERR_DH_AVT_SERVICE_WRITE_INFO_FAIL, s)) (\<lambda>d3.
          write_or (pc_WriteString P (sm_name memory) d3) (Some (ERR_DH_AVT_SERVICE_WRITE_INFO_FAIL, s)) (\<lambda>d4.
          send_request P f SET_SHARED_MEMORY False ERR_DH_AVT_SERVICE_IPC_SEND_REQUEST_FAIL d4 s)))))"

definition CallbackProxy_Notify :: "'c parcel \<Rightarrow> ('c, 's) remote option \<Rightarrow> 32 word \<Rightarrow> string \<Rightarrow> string \<Rightarrow> 's \<Rightarrow> (ret \<times> 's) option" where
  "CallbackProxy_Notify P remote type content peerDevId s =
     (case remote of
        None \<Rightarrow> Some (ERR_DH_AVT_SERVICE_REMOTE_IS_NULL, s)
      | Some f \<Rightarrow>
          write_or (pc_WriteInterfaceToken P callback_descriptor (pc_new P)) (Some (ERR_DH_AVT_SERVICE_WRITE_TOKEN_FAIL, s)) (\<lambda>d1.
          write_or (pc_WriteUint32 P type d1) (Some (ERR_DH_AVT_SERVICE_WRITE_INFO_FAIL, s)) (\<lambda>d2.
          write_or (pc_WriteString P content d2) (Some (ERR_DH_AVT_SERVICE_WRITE_INFO_FAIL, s)) (\<lambda>d3.
          write_or (pc_WriteString P peerDevId d3) (Some (ERR_DH_AVT_SERVICE_WRITE_INFO_FAIL, s)) (\<lambda>d4.
          send_request P f CB_NOTIFY_AV_EVENT False ERR_DH_AVT_SERVICE_IPC_SEND_REQUEST_FAIL d4 s)))))"

text \<open>One call of the center to an engine, as \<open>SetParam2Engines\<close> makes it.\<close>

definition deliver_engine_call ::
  "'c parcel \<Rightarrow> 'c fd_ops \<Rightarrow> ('c, 's) remote option \<Rightarrow> engine_call \<Rightarrow> 's \<Rightarrow> (ret \<times> 's) option" where
  "deliver_engine_call P F remote x s =
     (case x of SetParameter tag value \<Rightarrow> CallbackProxy_SetParameter P remote tag value s
      | SetSharedMemory memory \<Rightarrow> CallbackProxy_SetSharedMemory P F remote memory s)"

text \<open>The calls of the center to one engine, in their order; the results are not looked at.\<close>

fun deliver_engine_calls ::
  "'c parcel \<Rightarrow> 'c fd_ops \<Rightarrow> ('c, 's) remote option \<Rightarrow> engine_call list \<Rightarrow> 's \<Rightarrow> 's option" where
  "deliver_engine_calls P F remote [] s = Some s"
| "deliver_engine_calls P F remote (x # xs) s =
     (case deliver_engine_call P F remote x s of None \<Rightarrow> None | Some (r, s1) \<Rightarrow> deliver_engine_calls P F remote xs s1)"

section \<open>The text of a shared memory\<close>

definition memory_json :: "'j cjson \<Rightarrow> shared_memory \<Rightarrow> 'j \<Rightarrow> 'j" where
  "memory_json cj m j = cJSON_AddStringToObject cj (cJSON_AddNumberToObject cj
     (cJSON_AddNumberToObject cj j ''sharedMemoryFd'' (of_int (sm_fd m))) ''sharedMemorySize'' (of_int (sm_size m)))
     ''sharedMemoryName'' (c_str (sm_name m))"

abbreviation memory_keys :: "string set" where "memory_keys \<equiv> {''sharedMemoryFd'', ''sharedMemorySize'', ''sharedMemoryName''}"

definition memory_sendable :: "shared_memory \<Rightarrow> bool" where
  "memory_sendable m \<longleftrightarrow> 0 \<le> sm_fd m \<and> sm_fd m \<le> 2147483647 \<and> 0 \<le> sm_size m \<and> sm_size m \<le> 2147483647 \<and> CHR 0x00 \<notin> set (sm_name m)"

lemma memory_keys_differ:
  "\<not> same_key ''sharedMemoryFd'' ''sharedMemorySize''" "\<not> same_key ''sharedMemoryFd'' ''sharedMemoryName''"
  "\<not> same_key ''sharedMemorySize'' ''sharedMemoryFd''" "\<not> same_key ''sharedMemorySize'' ''sharedMemoryName''"
  "\<not> same_key ''sharedMemoryName'' ''sharedMemoryFd''" "\<not> same_key ''sharedMemoryName'' ''sharedMemorySize''"
  by code_simp+

lemma memory_sendableD:
  assumes "memory_sendable m"
  shows "nat (sm_fd m) \<le> 2147483647" "nat (sm_size m) \<le> 2147483647" "0 \<le> sm_fd m" "0 \<le> sm_size m" "CHR 0x00 \<notin> set (sm_name m)"
proof -
  have a: "sm_fd m \<le> 2147483647" "sm_size m \<le> 2147483647" using assms by (simp_all add: memory_sendable_def)
  show "nat (sm_fd m) \<le> 2147483647" "nat (sm_size m) \<le> 2147483647" using a by linarith+
  show "0 \<le> sm_fd m" "0 \<le> sm_size m" "CHR 0x00 \<notin> set (sm_name m)" using assms by (simp_all add: memory_sendable_def)
qed

lemma memory_items:
  assumes "cjson_build_laws cj" and "cJSON_CreateObject cj = Some j" and "memory_sendable m"
  shows "has_number cj (memory_json cj m j) ''sharedMemoryFd'' (nat (sm_fd m))"
    and "has_number cj (memory_json cj m j) ''sharedMemorySize'' (nat (sm_size m))"
    and "has_string cj (memory_json cj m j) ''sharedMemoryName'' (sm_name m)"
proof -
  have r: "(of_int (sm_fd m) :: rat) = of_nat (nat (sm_fd m))" "(of_int (sm_size m) :: rat) = of_nat (nat (sm_size m))"
    and n: "CHR 0x00 \<notin> set (sm_name m)" using memory_sendableD [OF assms(3)] by simp_all
  have b: "nat (sm_fd m) < 2 ^ 53" "nat (sm_size m) < 2 ^ 53" using memory_sendableD(1,2) [OF assms(3)] by simp_all
  show "has_number cj (memory_json cj m j) ''sharedMemoryFd'' (nat (sm_fd m))"
    "has_number cj (memory_json cj m j) ''sharedMemorySize'' (nat (sm_size m))"
    "has_string cj (memory_json cj m j) ''sharedMemoryName'' (sm_name m)"
    unfolding memory_json_def r using assms(1,2) memory_keys_differ b n
    by (simp_all add: json_build c_str_id del: of_nat_nat)
qed

lemma shared_memory_round_trip:
  assumes "cjson_build_laws cj" and "cJSON_CreateObject cj = Some j" and "memory_sendable m"
    and "items_read_back cj (memory_json cj m j) memory_keys"
  shows "UnmarshalSharedMemory cj (MarshalSharedMemory cj m) = m"
proof -
  obtain t ob where t: "cJSON_PrintUnformatted cj (memory_json cj m j) = Some t" "CHR 0x00 \<notin> set t" "cJSON_Parse cj t = Some ob"
    and it: "\<forall>k\<in>memory_keys. cJSON_GetObjectItemCaseSensitive cj ob k = cJSON_GetObjectItem cj (memory_json cj m j) k"
    using assms(4) unfolding items_read_back_def by blast
  have data: "MarshalSharedMemory cj m = t"
    using t assms(2) by (simp add: MarshalSharedMemory_def memory_json_def Let_def c_str_id)
  obtain u v w where u: "cJSON_GetObjectItemCaseSensitive cj ob ''sharedMemoryFd'' = Some u" "cJSON_IsNumber cj u" "valuedouble cj u = of_nat (nat (sm_fd m))"
    and v: "cJSON_GetObjectItemCaseSensitive cj ob ''sharedMemorySize'' = Some v" "cJSON_IsNumber cj v" "valuedouble cj v = of_nat (nat (sm_size m))"
    and w: "cJSON_GetObjectItemCaseSensitive cj ob ''sharedMemoryName'' = Some w" "cJSON_IsString cj w" "valuestring cj w = sm_name m"
    using memory_items [OF assms(1-3)] it by (auto simp: has_number_def has_string_def)
  have "valueint cj u = sm_fd m" "valueint cj v = sm_size m"
    using valueint_nat [OF u(3)] valueint_nat [OF v(3)] memory_sendableD [OF assms(3)] by (simp_all add: min_absorb1)
  then show ?thesis
    using t u v w assms(3) by (simp add: UnmarshalSharedMemory_def data c_str_id memory_sendable_def Let_def)
qed

section \<open>One request\<close>

definition fd_laws :: "'c fd_ops \<Rightarrow> (int \<Rightarrow> int) \<Rightarrow> ('c \<Rightarrow> pitem list) \<Rightarrow> (pitem list \<Rightarrow> bool) \<Rightarrow> bool" where
  "fd_laws F dup items fits \<longleftrightarrow> writes (fd_Write F) ItFd items fits
     \<and> (\<forall>x p xs. items p = ItFd x # xs \<longrightarrow> fst (fd_Read F p) = dup x \<and> items (snd (fd_Read F p)) = xs)"

lemma fd_lawsD:
  assumes "fd_laws F dup items fits"
  shows "writes (fd_Write F) ItFd items fits" and "items p = ItFd x # xs \<Longrightarrow> fst (fd_Read F p) = dup x \<and> items (snd (fd_Read F p)) = xs"
  using assms by (simp_all add: fd_laws_def)

lemma reply_avt_returns:
  assumes "parcel_laws P items fits" and "request_delivered P stub f"
    and "stub code d (pc_new P) s = reply_avt P (pc_new P) (Some (r, s1))" and "fits [ItI32 r]"
  shows "send_request P f code False fail d s = Some (r, s1)"
proof -
  have n: "items (pc_new P) = []" by (rule parcel_lawsD(1) [OF assms(1)])
  have "fits (items (pc_new P) @ [ItI32 r])" using assms(4) n by simp
  from writesD [OF parcel_lawsD(5) [OF assms(1)] this]
  have w: "fst (pc_WriteInt32 P r (pc_new P))" "items (snd (pc_WriteInt32 P r (pc_new P))) = [ItI32 r]" using n by simp_all
  have "fst (pc_ReadInt32 P (snd (pc_WriteInt32 P r (pc_new P)))) = r" by (rule read_int32(1) [OF assms(1) w(2)])
  with w(1) assms(3) show ?thesis
    by (simp add: send_request_def request_deliveredD(1) [OF assms(2)] reply_avt_def Let_def case_prod_unfold)
qed

lemma callback_token:
  assumes "parcel_laws P items fits" and "items d = ItToken callback_descriptor # xs"
  shows "fst (pc_ReadInterfaceToken P d) = callback_descriptor" "items (snd (pc_ReadInterfaceToken P d)) = xs"
  using readsD [OF parcel_lawsD(8) [OF assms(1)] assms(2)] by simp_all

lemma parameter_arrives:
  assumes "parcel_laws P items fits" and "request_delivered P (Callback_OnRemoteRequest P F invalid dflt E) f"
    and "fits [ItToken callback_descriptor, ItU32 tag, ItStr value]" and "fits [ItI32 r]" and "Callback_SetParameter E tag value c = Some (r, c1)"
  shows "deliver_engine_call P F (Some f) (SetParameter tag value) c = Some (r, c1)"
proof -
  note w = writes_three [OF assms(1,3) parcel_lawsD(3,4,6) [OF assms(1)]]
  let ?d = "written P (pc_WriteInterfaceToken P callback_descriptor) (pc_WriteUint32 P tag) (pc_WriteString P value)"
  note t = callback_token [OF assms(1) w(1)]
  note n = read_uint32 [OF assms(1) t(2)]
  note m = read_string [OF assms(1) n(2)]
  have "Callback_OnRemoteRequest P F invalid dflt E SET_PARAMETER ?d (pc_new P) c = reply_avt P (pc_new P) (Some (r, c1))"
    using t(1) n(1) m(1) assms(5) by (simp add: Callback_OnRemoteRequest_def SetParameterInner_def Let_def case_prod_unfold)
  then show ?thesis
    using reply_avt_returns [OF assms(1,2) _ assms(4)] by (simp add: deliver_engine_call_def CallbackProxy_SetParameter_def w(2))
qed

lemma memory_arrives:
  assumes "parcel_laws P items fits" and "fd_laws F dup items fits" and "request_delivered P (Callback_OnRemoteRequest P F invalid dflt E) f"
    and "fits [ItToken callback_descriptor, ItFd (sm_fd m), ItI32 (sm_size m), ItStr (sm_name m)]" and "fits [ItI32 r]"
    and "Callback_SetSharedMemory E (m\<lparr>sm_fd := dup (sm_fd m)\<rparr>) c = Some (r, c1)"
  shows "deliver_engine_call P F (Some f) (SetSharedMemory m) c = Some (r, c1)"
proof -
  have f3: "fits [ItToken callback_descriptor, ItFd (sm_fd m), ItI32 (sm_size m)]" by (rule fits_take [OF assms(1,4)]) simp
  note w = writes_three [OF assms(1) f3 parcel_lawsD(3) [OF assms(1)] fd_lawsD(1) [OF assms(2)] parcel_lawsD(5) [OF assms(1)]]
  let ?d3 = "written P (pc_WriteInterfaceToken P callback_descriptor) (fd_Write F (sm_fd m)) (pc_WriteInt32 P (sm_size m))"
  let ?d = "snd (pc_WriteString P (sm_name m) ?d3)"
  have "fits (items ?d3 @ [ItStr (sm_name m)])" using assms(4) w(1) by simp
  from writesD [OF parcel_lawsD(6) [OF assms(1)] this] w(1)
  have l: "fst (pc_WriteString P (sm_name m) ?d3)"
    "items ?d = [ItToken callback_descriptor, ItFd (sm_fd m), ItI32 (sm_size m), ItStr (sm_name m)]" by simp_all
  note t = callback_token [OF assms(1) l(2)]
  have d: "fst (fd_Read F (snd (pc_ReadInterfaceToken P ?d))) = dup (sm_fd m)"
    "items (snd (fd_Read F (snd (pc_ReadInterfaceToken P ?d)))) = [ItI32 (sm_size m), ItStr (sm_name m)]"
    using fd_lawsD(2) [OF assms(2) t(2)] by simp_all
  note z = read_int32 [OF assms(1) d(2)]
  note q = read_string [OF assms(1) z(2)]
  have eq: "m\<lparr>sm_fd := dup (sm_fd m)\<rparr> = \<lparr>sm_fd = dup (sm_fd m), sm_size = sm_size m, sm_name = sm_name m\<rparr>" by (cases m) simp
  have "Callback_OnRemoteRequest P F invalid dflt E SET_SHARED_MEMORY ?d (pc_new P) c = reply_avt P (pc_new P) (Some (r, c1))"
    using t(1) d(1) z(1) q(1) assms(6) [unfolded eq] by (simp add: Callback_OnRemoteRequest_def SetSharedMemoryInner_def Let_def case_prod_unfold)
  with l(1) show ?thesis
    using reply_avt_returns [OF assms(1,3) _ assms(5)]
    by (simp add: deliver_engine_call_def CallbackProxy_SetSharedMemory_def w(2)) (simp add: write_or_def)
qed

lemma receiver_sets_sync:
  assumes "\<not> filters_null W"
  shows "Receiver_SetParameter E TAG_START_AV_SYNC v W
      = Some (DH_AVT_SUCCESS, set_params (ee_media E) [(AV_OUTPUT, PT_USER_AV_SYNC_GROUP_INFO, AnyString v)] W)"
    and "Receiver_SetParameter E TAG_SHARED_MEMORY_FD v W
      = Some (DH_AVT_SUCCESS, set_params (ee_media E) [(AV_OUTPUT, PT_USER_SHARED_MEMORY_FD, AnyString v)] W)"
  using assms by (simp_all add: Receiver_SetParameter_def number_param_def)

lemma set_params_append: "set_params M ys (set_params M xs W) = set_params M (xs @ ys) W"
  by (simp add: set_params_def)

lemma filters_null_set_params [simp]: "filters_null (set_params M xs W) = filters_null W"
  by (simp add: filters_null_def has_filter_def)

section \<open>From the center into the pipeline\<close>

text \<open>
  Property C17. When the center of the receiving device starts the synchronisation, the two requests that it sends to the callback
  of an engine in another process set two parameters of this engine's output filter, in this order: the text of the ring of
  clocks, from which the output plugin gets the memory back, its descriptor being the duplicate that belongs to this process, and the group information as the center
  received it. Nothing else of the callback changes.
\<close>

theorem sync_start_reaches_pipeline:
  assumes "parcel_laws P items fits" and "fd_laws F dup items fits" and "request_delivered P (Callback_OnRemoteRequest P F invalid dflt E) f"
    and "\<forall>xs. length xs \<le> 4 \<longrightarrow> fits xs"
    and "cjson_build_laws (ee_json E)" and "cJSON_CreateObject (ee_json E) = Some j"
    and "CreateAVTransSharedMemory (ae_shm A) ''sinkSharedMemory'' 600 (aw_segments V) = (m, ss)"
    and "memory_sendable (m\<lparr>sm_fd := dup (sm_fd m)\<rparr>)"
    and "items_read_back (ee_json E) (memory_json (ee_json E) (m\<lparr>sm_fd := dup (sm_fd m)\<rparr>) j) memory_keys"
    and "aw_calls V = []" and "filter (\<lambda>e. snd e = cb) (cc_callbackMap (aw_center V)) = [e]"
    and "cb_sender c = None" and "cb_receiver c = Some W" and "\<not> filters_null W"
  shows "\<exists>t. deliver_engine_calls P F (Some f) (map snd (filter (\<lambda>x. fst x = cb) (aw_calls (EnableReceiverAVSync A g V)))) c
      = Some (c\<lparr>cb_receiver := Some (set_params (ee_media E)
          [(AV_OUTPUT, PT_USER_SHARED_MEMORY_FD, AnyString t), (AV_OUTPUT, PT_USER_AV_SYNC_GROUP_INFO, AnyString g)] W)\<rparr>)
    \<and> UnmarshalSharedMemory (ee_json E) t = m\<lparr>sm_fd := dup (sm_fd m)\<rparr>"
proof -
  let ?m = "m\<lparr>sm_fd := dup (sm_fd m)\<rparr>"
  let ?t = "MarshalSharedMemory (ee_json E) ?m"
  let ?W = "set_params (ee_media E) [(AV_OUTPUT, PT_USER_SHARED_MEMORY_FD, AnyString ?t)] W"
  have "map snd (filter (\<lambda>x. fst x = cb) (map (\<lambda>e. (snd e, x)) es)) = map (\<lambda>_. x) (filter (\<lambda>e. snd e = cb) es)"
    for es :: "(int \<times> nat) list" and x :: engine_call by (induction es) auto
  with assms(7,10,11)
  have calls: "map snd (filter (\<lambda>x. fst x = cb) (aw_calls (EnableReceiverAVSync A g V))) = [SetSharedMemory m, SetParameter TAG_START_AV_SYNC g]"
    by (simp add: EnableReceiverAVSync_simps)
  have "Callback_SetSharedMemory E ?m c = Some (DH_AVT_SUCCESS, c\<lparr>cb_receiver := Some ?W\<rparr>)"
    using assms(12-14) by (simp add: Callback_SetSharedMemory_def set_if_alive_def receiver_sets_sync Let_def)
  then have first: "deliver_engine_call P F (Some f) (SetSharedMemory m) c = Some (DH_AVT_SUCCESS, c\<lparr>cb_receiver := Some ?W\<rparr>)"
    using assms(4) by (intro memory_arrives [OF assms(1-3)]) simp_all
  have "Callback_SetParameter E TAG_START_AV_SYNC g (c\<lparr>cb_receiver := Some ?W\<rparr>)
      = Some (DH_AVT_SUCCESS, c\<lparr>cb_receiver := Some (set_params (ee_media E) [(AV_OUTPUT, PT_USER_AV_SYNC_GROUP_INFO, AnyString g)] ?W)\<rparr>)"
    using assms(14) by (simp add: Callback_SetParameter_def set_if_alive_def receiver_sets_sync)
  then have second: "deliver_engine_call P F (Some f) (SetParameter TAG_START_AV_SYNC g) (c\<lparr>cb_receiver := Some ?W\<rparr>)
      = Some (DH_AVT_SUCCESS, c\<lparr>cb_receiver := Some (set_params (ee_media E) [(AV_OUTPUT, PT_USER_AV_SYNC_GROUP_INFO, AnyString g)] ?W)\<rparr>)"
    using assms(4) by (intro parameter_arrives [OF assms(1,3)]) simp_all
  show ?thesis
    using shared_memory_round_trip [OF assms(5,6,8,9)] by (intro exI [of _ ?t]) (simp add: calls first second set_params_append)
qed

section \<open>Witness\<close>

text \<open>A parcel in which a descriptor that is read is the one that was written plus ten, and a receiver engine for the screen.\<close>

definition item_fds :: "pitem list fd_ops" where
  "item_fds = \<lparr> fd_Write = (\<lambda>x p. (True, p @ [ItFd x])), fd_Read = (\<lambda>p. case p of ItFd x # q \<Rightarrow> (x + 10, q) | _ \<Rightarrow> (- 1, p)) \<rparr>"

lemma item_fds_laws: "fd_laws item_fds (\<lambda>x. x + 10) (\<lambda>p. p) (\<lambda>_. True)"
  by (simp add: fd_laws_def writes_def item_fds_def)

definition sample_receiver_world :: "(unit, unit, int \<times> (int \<times> string) list) engine_world" where
  "sample_receiver_world = snd (Receiver_Initialize sample_engine_env
     (sample_engine_world\<lparr>ew_engine := AVReceiverEngine_new 1 OWNER_NAME_D_SCREEN ''devA''\<rparr>))"

definition sample_callback :: "(unit, unit, int \<times> (int \<times> string) list) engine_callback" where
  "sample_callback = SetReceiverEngine (Some sample_receiver_world) callback_new"

definition sample_memory :: shared_memory where
  "sample_memory = \<lparr> sm_fd = 14, sm_size = 600, sm_name = ''sinkSharedMemory'' \<rparr>"

definition sample_callback_stub ::
  "32 word \<Rightarrow> pitem list \<Rightarrow> pitem list \<Rightarrow> (unit, unit, int \<times> (int \<times> string) list) engine_callback
     \<Rightarrow> (pitem list, (unit, unit, int \<times> (int \<times> string) list) engine_callback) answer" where
  "sample_callback_stub = Callback_OnRemoteRequest item_parcel item_fds 5 (\<lambda>_ _ reply. (0, reply)) sample_engine_env"

lemma sample_memory_json: "memory_json model_cjson sample_memory (JObj []) =
    JObj [(''sharedMemoryFd'', JNum 14), (''sharedMemorySize'', JNum 600), (''sharedMemoryName'', JStr ''sinkSharedMemory'')]"
  by (simp add: memory_json_def sample_memory_def model_cjson_def jn_add_def c_str_def)

lemma sample_memory_reads_back: "items_read_back model_cjson (memory_json model_cjson sample_memory (JObj [])) memory_keys"
proof -
  define ob where "ob = JObj [(''sharedMemoryFd'', JNum 14), (''sharedMemorySize'', JNum 600), (''sharedMemoryName'', JStr ''sinkSharedMemory'')]"
  define t where "t = jn_print 10 ob"
  have "list_all (\<lambda>c. c \<noteq> CHR 0x00) t" unfolding t_def ob_def by code_simp
  then have n: "CHR 0x00 \<notin> set t" by (auto simp: list_all_iff)
  have p: "map_option fst (jn_parse (length t) t) = Some ob" unfolding t_def ob_def by code_simp
  have k: "\<forall>k\<in>memory_keys. cJSON_GetObjectItemCaseSensitive model_cjson ob k = cJSON_GetObjectItem model_cjson ob k"
    unfolding ob_def by code_simp
  show ?thesis
    unfolding sample_memory_json ob_def [symmetric] items_read_back_def using n p k
    by (intro exI [of _ t] exI [of _ ob]) (simp add: model_cjson_def t_def)
qed

theorem sync_start_reaches_pipeline_witness:
  "\<exists>t. deliver_engine_calls item_parcel item_fds (Some (direct item_parcel sample_callback_stub))
        (map snd (filter (\<lambda>x. fst x = 5) (aw_calls (EnableReceiverAVSync sample_av_env ''group'' sample_av_world)))) sample_callback
      = Some (sample_callback\<lparr>cb_receiver := Some (set_params (ee_media sample_engine_env)
          [(AV_OUTPUT, PT_USER_SHARED_MEMORY_FD, AnyString t), (AV_OUTPUT, PT_USER_AV_SYNC_GROUP_INFO, AnyString ''group'')] sample_receiver_world)\<rparr>)
    \<and> UnmarshalSharedMemory (ee_json sample_engine_env) t = sample_memory"
proof -
  let ?m = "\<lparr> sm_fd = 4, sm_size = 600, sm_name = ''sinkSharedMemory'' \<rparr>"
  have m: "CreateAVTransSharedMemory (ae_shm sample_av_env) ''sinkSharedMemory'' 600 (aw_segments sample_av_world)
      = (?m, smap_put 4 (replicate 600 0) [(3, replicate 12 0)])"
    by (simp add: CreateAVTransSharedMemory_def center_shm_def sample_av smap_get_def Let_def)
  have eq: "?m\<lparr>sm_fd := sm_fd ?m + 10\<rparr> = sample_memory" by (simp add: sample_memory_def)
  have l: "cjson_build_laws (ee_json sample_engine_env)" "cJSON_CreateObject (ee_json sample_engine_env) = Some (JObj [])"
    by (simp_all add: sample_engine_env_def model_cjson_laws) (simp add: model_cjson_def)
  have s: "memory_sendable (?m\<lparr>sm_fd := sm_fd ?m + 10\<rparr>)" by (simp add: memory_sendable_def)
  have b: "items_read_back (ee_json sample_engine_env) (memory_json (ee_json sample_engine_env) (?m\<lparr>sm_fd := sm_fd ?m + 10\<rparr>) (JObj [])) memory_keys"
    unfolding eq using sample_memory_reads_back by (simp add: sample_engine_env_def)
  have c: "aw_calls sample_av_world = []" "filter (\<lambda>e. snd e = 5) (cc_callbackMap (aw_center sample_av_world)) = [(1000, 5)]"
    by (simp_all add: sample_av)
  have r: "cb_sender sample_callback = None" "cb_receiver sample_callback = Some sample_receiver_world"
    by (simp_all add: sample_callback_def SetReceiverEngine_def callback_new_def)
  have f: "\<not> filters_null sample_receiver_world" by code_simp
  have d: "request_delivered item_parcel (Callback_OnRemoteRequest item_parcel item_fds 5 (\<lambda>_ _ reply. (0, reply)) sample_engine_env)
      (direct item_parcel sample_callback_stub)"
    unfolding sample_callback_stub_def by (rule direct_delivers)
  show ?thesis
    using sync_start_reaches_pipeline [OF item_parcel_laws item_fds_laws d _ l m s b c r f, of "''group''"] unfolding eq by simp
qed

end
