(* ===== verification/DHF_AvProvider.thy ===== *)
theory DHF_AvProvider
  imports DHF_AvEngineProps
begin

text \<open>
  The providers of the engines (\<open>av_sender_engine_provider.cpp\<close>, \<open>av_receiver_engine_provider.cpp\<close>): they make the engines of one kind of
  hardware, keep them in a list and release them in their destructor. The engines of a provider share the channel adapter, the soft
  bus and the control center; each has its own pipeline. \<open>on_engine\<close> runs an operation of theory \<open>DHF_AvEngine\<close> on one of them.

  An engine is destroyed with its last owner; its destructor calls \<open>Release\<close>. Which engines a client still owns when the provider is destroyed is the
  argument \<open>held\<close>. A call of \<open>OnProviderEvent\<close> is an entry of a list.
\<close>

record ('p, 'k, 'h) provider =
  pr_self :: nat
  pr_ownerName :: string
  pr_sessionName :: string
  pr_callback :: bool
  pr_engines :: "(av_engine \<times> 'p) list"
  pr_events :: "av_event list"
  pr_kit :: 'k
  pr_adapter :: channel_adapter
  pr_bus :: 'h

definition on_engine ::
  "(('p, 'k, 'h) engine_world \<Rightarrow> ret \<times> ('p, 'k, 'h) engine_world) \<Rightarrow> av_engine \<times> 'p \<Rightarrow> ('p, 'k, 'h) provider
     \<Rightarrow> ret \<times> (av_engine \<times> 'p) \<times> ('p, 'k, 'h) provider" where
  "on_engine f em X =
     (let (r, W) = f \<lparr> ew_engine = fst em, ew_media = snd em, ew_kit = pr_kit X, ew_adapter = pr_adapter X, ew_bus = pr_bus X, ew_notes = [] \<rparr>
      in (r, (ew_engine W, ew_media W), X\<lparr>pr_kit := ew_kit W, pr_adapter := ew_adapter W, pr_bus := ew_bus W\<rparr>))"

section \<open>Construction\<close>

text \<open>The two constructors differ in the suffix of the session and in the owners for which they listen.\<close>

definition is_mic :: "string \<Rightarrow> bool" where
  "is_mic ownerName \<longleftrightarrow> ownerName = OWNER_NAME_D_MIC \<or> ownerName = OWNER_NAME_D_VIRMODEM_MIC"

definition provider_new ::
  "string \<Rightarrow> bool \<Rightarrow> 'h av_bus \<Rightarrow> nat \<Rightarrow> string \<Rightarrow> 'k \<Rightarrow> channel_adapter \<Rightarrow> 'h \<Rightarrow> ('p, 'k, 'h) provider" where
  "provider_new suffix listens B self ownerName k a h =
     (let sessionName = ownerName @ ''_'' @ suffix;
          (a1, h1) = if listens then snd (CreateChannelServer B (TransName2PkgName ownerName) sessionName (a, h)) else (a, h);
          a2 = if listens then snd (RegisterChannelListener sessionName AV_TRANS_SPECIAL_DEVICE_ID (Some self) a1) else a1
      in \<lparr> pr_self = self, pr_ownerName = ownerName, pr_sessionName = sessionName, pr_callback = False, pr_engines = [], pr_events = [],
           pr_kit = k, pr_adapter = a2, pr_bus = h1 \<rparr>)"

definition AVSenderEngineProvider_new ::
  "'h av_bus \<Rightarrow> nat \<Rightarrow> string \<Rightarrow> 'k \<Rightarrow> channel_adapter \<Rightarrow> 'h \<Rightarrow> ('p, 'k, 'h) provider" where
  "AVSenderEngineProvider_new B self ownerName = provider_new SENDER_CONTROL_SESSION_NAME_SUFFIX (is_mic ownerName) B self ownerName"

definition AVReceiverEngineProvider_new ::
  "'h av_bus \<Rightarrow> nat \<Rightarrow> string \<Rightarrow> 'k \<Rightarrow> channel_adapter \<Rightarrow> 'h \<Rightarrow> ('p, 'k, 'h) provider" where
  "AVReceiverEngineProvider_new B self ownerName =
     provider_new RECEIVER_CONTROL_SESSION_NAME_SUFFIX (\<not> is_mic ownerName) B self ownerName"

section \<open>Engines\<close>

text \<open>An engine that cannot be initialised has no other owner and is destroyed on the way out.\<close>

definition create_engine ::
  "(('p, 'k, 'h) engine_world \<Rightarrow> ret \<times> ('p, 'k, 'h) engine_world) \<Rightarrow> (('p, 'k, 'h) engine_world \<Rightarrow> ret \<times> ('p, 'k, 'h) engine_world)
     \<Rightarrow> av_engine \<times> 'p \<Rightarrow> ('p, 'k, 'h) provider \<Rightarrow> nat option \<times> ('p, 'k, 'h) provider" where
  "create_engine init release em X =
     (let (r, em1, X1) = on_engine init em X in
      if r = DH_AVT_SUCCESS then (Some (en_self (fst em1)), X1\<lparr>pr_engines := pr_engines X1 @ [em1]\<rparr>)
      else (None, snd (snd (on_engine release em1 X1))))"

definition CreateAVSenderEngine ::
  "('p, 'k, 'h, 'j) engine_env \<Rightarrow> nat \<Rightarrow> 'p \<Rightarrow> string \<Rightarrow> ('p, 'k, 'h) provider \<Rightarrow> nat option \<times> ('p, 'k, 'h) provider" where
  "CreateAVSenderEngine E self m0 peerDevId X =
     create_engine (Sender_Initialize E) (Sender_Release E) (AVSenderEngine_new self (pr_ownerName X) peerDevId, m0) X"

definition CreateAVReceiverEngine ::
  "('p, 'k, 'h, 'j) engine_env \<Rightarrow> nat \<Rightarrow> 'p \<Rightarrow> string \<Rightarrow> ('p, 'k, 'h) provider \<Rightarrow> nat option \<times> ('p, 'k, 'h) provider" where
  "CreateAVReceiverEngine E self m0 peerDevId X =
     create_engine (Receiver_Initialize E) (Receiver_Release E) (AVReceiverEngine_new self (pr_ownerName X) peerDevId, m0) X"

definition GetAVEngineList :: "('p, 'k, 'h) provider \<Rightarrow> nat list" where
  "GetAVEngineList X = map (\<lambda>em. en_self (fst em)) (pr_engines X)"

definition RegisterProviderCallback :: "bool \<Rightarrow> ('p, 'k, 'h) provider \<Rightarrow> ret \<times> ('p, 'k, 'h) provider" where
  "RegisterProviderCallback cb X = (DH_AVT_SUCCESS, X\<lparr>pr_callback := cb\<rparr>)"

definition Provider_OnChannelEvent :: "av_event \<Rightarrow> ('p, 'k, 'h) provider \<Rightarrow> ('p, 'k, 'h) provider" where
  "Provider_OnChannelEvent event X =
     (if \<not> pr_callback X then X
      else if ev_type event = EVENT_CHANNEL_OPENED \<or> ev_type event = EVENT_CHANNEL_CLOSED then X\<lparr>pr_events := pr_events X @ [event]\<rparr> else X)"

section \<open>Destruction\<close>

fun release_each ::
  "(('p, 'k, 'h) engine_world \<Rightarrow> ret \<times> ('p, 'k, 'h) engine_world) \<Rightarrow> (av_engine \<times> 'p) list \<Rightarrow> ('p, 'k, 'h) provider
     \<Rightarrow> (av_engine \<times> 'p) list \<times> ('p, 'k, 'h) provider" where
  "release_each release [] X = ([], X)"
| "release_each release (em # ems) X =
     (let (r, em1, X1) = on_engine release em X; (rest, X2) = release_each release ems X1 in (em1 # rest, X2))"

definition provider_destroy ::
  "bool \<Rightarrow> (('p, 'k, 'h) engine_world \<Rightarrow> ret \<times> ('p, 'k, 'h) engine_world) \<Rightarrow> 'h av_bus \<Rightarrow> (nat \<Rightarrow> bool) \<Rightarrow> ('p, 'k, 'h) provider
     \<Rightarrow> ('p, 'k, 'h) provider" where
  "provider_destroy listens release B held X =
     (let (ems, X1) = release_each release (pr_engines X) X;
          (a2, h2) = if listens then snd (RemoveChannelServer B (TransName2PkgName (pr_ownerName X1)) (pr_sessionName X1) (pr_adapter X1, pr_bus X1))
                     else (pr_adapter X1, pr_bus X1);
          a3 = if listens then snd (UnRegisterChannelListener (pr_sessionName X1) AV_TRANS_SPECIAL_DEVICE_ID a2) else a2;
          X3 = snd (release_each release (filter (\<lambda>em. \<not> held (en_self (fst em))) ems) (X1\<lparr>pr_adapter := a3, pr_bus := h2\<rparr>))
      in X3\<lparr>pr_ownerName := [], pr_sessionName := [], pr_engines := [], pr_callback := False\<rparr>)"

definition AVSenderEngineProvider_destroy ::
  "('p, 'k, 'h, 'j) engine_env \<Rightarrow> (nat \<Rightarrow> bool) \<Rightarrow> ('p, 'k, 'h) provider \<Rightarrow> ('p, 'k, 'h) provider" where
  "AVSenderEngineProvider_destroy E held X = provider_destroy (is_mic (pr_ownerName X)) (Sender_Release E) (ee_bus E) held X"

definition AVReceiverEngineProvider_destroy ::
  "('p, 'k, 'h, 'j) engine_env \<Rightarrow> (nat \<Rightarrow> bool) \<Rightarrow> ('p, 'k, 'h) provider \<Rightarrow> ('p, 'k, 'h) provider" where
  "AVReceiverEngineProvider_destroy E held X = provider_destroy (\<not> is_mic (pr_ownerName X)) (Receiver_Release E) (ee_bus E) held X"

section \<open>What an initialisation leaves alone\<close>

lemma engine_Initialize_names:
  assumes "engine_Initialize role E W = (r, V)"
  shows "en_sessionName (ew_engine V) = en_sessionName (ew_engine W)" "en_peerDevId (ew_engine V) = en_peerDevId (ew_engine W)"
    "r \<noteq> DH_AVT_SUCCESS \<Longrightarrow> ew_adapter V = ew_adapter W"
proof -
  obtain r1 W1 where i1: "InitPipeline (ee_media E) W = (r1, W1)" by (cases "InitPipeline (ee_media E) W")
  obtain gs p where g: "ew_engine W1 = (ew_engine W)\<lparr>en_filters := gs, en_pipeline := p\<rparr>" "ew_adapter W1 = ew_adapter W"
    by (rule InitPipeline_engine [OF i1])
  obtain r2 W2 where i2: "InitControlCenter (ee_kit E) role W1 = (r2, W2)" by (cases "InitControlCenter (ee_kit E) role W1")
  obtain i c where k: "ew_engine W2 = (ew_engine W1)\<lparr>en_kit := True, en_engineId := i, en_ctlCallback := c\<rparr>" "ew_adapter W2 = ew_adapter W1"
    by (rule InitControlCenter_engine [OF i2])
  show "en_sessionName (ew_engine V) = en_sessionName (ew_engine W)" "en_peerDevId (ew_engine V) = en_peerDevId (ew_engine W)"
    using assms i1 i2 g k by (auto simp: engine_Initialize_def Let_def case_prod_unfold split: if_splits)
  show "ew_adapter V = ew_adapter W" if "r \<noteq> DH_AVT_SUCCESS"
    using assms that i1 i2 g k
    by (auto simp: engine_Initialize_def Let_def case_prod_unfold RegisterChannelListener_def split: if_splits)
qed

lemma Sender_Release_adapter:
  assumes "en_sessionName (ew_engine W) \<noteq> []" and "en_peerDevId (ew_engine W) \<noteq> []"
  defines "key \<equiv> session_key (en_sessionName (ew_engine W)) (en_peerDevId (ew_engine W))"
  shows "ca_listenerMap (ew_adapter (snd (Sender_Release E W))) = smap_erase key (ca_listenerMap (ew_adapter W))"
    and "ca_devId2SessIdMap (ew_adapter (snd (Sender_Release E W))) = smap_erase key (ca_devId2SessIdMap (ew_adapter W))"
  using assms by (simp_all add: Sender_Release_def release_engine_def Let_def UnRegisterChannelListener_def CloseSoftbusChannel_def case_prod_unfold)

lemma Receiver_Release_adapter:
  "ew_adapter (snd (Receiver_Release E W)) = (if state_of W = ST_IDLE then ew_adapter W else ew_adapter (snd (Sender_Release E W)))"
  by (simp add: Receiver_Release_def Sender_Release_def)

section \<open>What a release promises\<close>

definition listened :: "channel_adapter \<Rightarrow> string set" where
  "listened a = fst ` set (ca_listenerMap a)"

lemma listened_iff: "smap_get (ca_listenerMap a) k = None \<longleftrightarrow> k \<notin> listened a"
  by (simp add: smap_get_def listened_def map_of_eq_None_iff)

definition engine_key :: "av_engine \<Rightarrow> string" where
  "engine_key e = session_key (en_sessionName e) (en_peerDevId e)"

text \<open>
  The contract of \<open>Release\<close> for the provider: no listener is added, and the one of an engine that was set up is gone. \<open>ready\<close> tells
  which engines were.
\<close>

locale engine_release =
  fixes release :: "('p, 'k, 'h) engine_world \<Rightarrow> ret \<times> ('p, 'k, 'h) engine_world" and ready :: "av_engine \<Rightarrow> bool"
  assumes shrinks: "listened (ew_adapter (snd (release W))) \<subseteq> listened (ew_adapter W)"
    and gone: "ready (ew_engine W) \<Longrightarrow> engine_key (ew_engine W) \<notin> listened (ew_adapter (snd (release W)))"
begin

lemma on_engine_shrinks: "listened (pr_adapter (snd (snd (on_engine release em X)))) \<subseteq> listened (pr_adapter X)"
  using shrinks [of "\<lparr> ew_engine = fst em, ew_media = snd em, ew_kit = pr_kit X, ew_adapter = pr_adapter X, ew_bus = pr_bus X, ew_notes = [] \<rparr>"]
  by (simp add: on_engine_def Let_def case_prod_unfold)

lemma on_engine_gone: "ready (fst em) \<Longrightarrow> engine_key (fst em) \<notin> listened (pr_adapter (snd (snd (on_engine release em X))))"
  using gone [of "\<lparr> ew_engine = fst em, ew_media = snd em, ew_kit = pr_kit X, ew_adapter = pr_adapter X, ew_bus = pr_bus X, ew_notes = [] \<rparr>"]
  by (simp add: on_engine_def Let_def case_prod_unfold)

lemma release_each_shrinks: "listened (pr_adapter (snd (release_each release ems X))) \<subseteq> listened (pr_adapter X)"
proof (induction ems arbitrary: X)
  case (Cons em ems)
  show ?case
    using Cons [of "snd (snd (on_engine release em X))"] on_engine_shrinks [of em X] by (auto simp: Let_def case_prod_unfold)
qed simp

lemma release_each_gone:
  "em \<in> set ems \<Longrightarrow> ready (fst em) \<Longrightarrow> engine_key (fst em) \<notin> listened (pr_adapter (snd (release_each release ems X)))"
proof (induction ems arbitrary: X)
  case (Cons x ems)
  let ?X1 = "snd (snd (on_engine release x X))"
  show ?case
  proof (cases "em = x")
    case True
    then have "engine_key (fst em) \<notin> listened (pr_adapter ?X1)" using Cons.prems(2) on_engine_gone by blast
    then show ?thesis using release_each_shrinks [of ems ?X1] by (auto simp: Let_def case_prod_unfold)
  next
    case False
    then show ?thesis using Cons.IH [of ?X1] Cons.prems by (simp add: Let_def case_prod_unfold)
  qed
qed simp

lemma release_each_names:
  "pr_sessionName (snd (release_each release ems X)) = pr_sessionName X" "pr_ownerName (snd (release_each release ems X)) = pr_ownerName X"
  by (induction ems arbitrary: X) (simp_all add: on_engine_def Let_def case_prod_unfold)

lemma destroy_unregisters:
  assumes "em \<in> set (pr_engines X)" and "ready (fst em)"
  shows "engine_key (fst em) \<notin> listened (pr_adapter (provider_destroy listens release B held X))"
proof -
  let ?X1 = "snd (release_each release (pr_engines X) X)"
  have "engine_key (fst em) \<notin> listened (pr_adapter ?X1)" by (rule release_each_gone [OF assms])
  moreover have "listened (fst (snd (RemoveChannelServer B p s (a, h)))) = listened a" for p s a h
    by (simp add: RemoveChannelServer_def listened_def Let_def case_prod_unfold)
  moreover have "listened (snd (UnRegisterChannelListener s d a)) \<subseteq> listened a" for s d a
    by (auto simp: UnRegisterChannelListener_def listened_def smap_erase_def)
  ultimately show ?thesis
    using release_each_shrinks unfolding provider_destroy_def Let_def case_prod_unfold by (fastforce split: if_splits)
qed

lemma destroy_unregisters_itself:
  assumes "listens" and "pr_sessionName X \<noteq> []"
  shows "session_key (pr_sessionName X) AV_TRANS_SPECIAL_DEVICE_ID \<notin> listened (pr_adapter (provider_destroy listens release B held X))"
proof -
  have "AV_TRANS_SPECIAL_DEVICE_ID \<noteq> []" by (simp add: AV_TRANS_SPECIAL_DEVICE_ID_def)
  then have "session_key (pr_sessionName X) AV_TRANS_SPECIAL_DEVICE_ID
      \<notin> listened (snd (UnRegisterChannelListener (pr_sessionName X) AV_TRANS_SPECIAL_DEVICE_ID a))" for a
    using assms(2) by (auto simp: UnRegisterChannelListener_def listened_def smap_erase_def)
  then show ?thesis
    using release_each_shrinks assms(1) unfolding provider_destroy_def Let_def case_prod_unfold
    by (fastforce simp: release_each_names)
qed

end

definition sender_set_up :: "av_engine \<Rightarrow> bool" where
  "sender_set_up e \<longleftrightarrow> en_sessionName e \<noteq> [] \<and> en_peerDevId e \<noteq> []"

definition receiver_set_up :: "av_engine \<Rightarrow> bool" where
  "receiver_set_up e \<longleftrightarrow> sender_set_up e \<and> en_state e \<noteq> ST_IDLE"

lemma Sender_Release_shrinks: "listened (ew_adapter (snd (Sender_Release E W))) \<subseteq> listened (ew_adapter W)"
  by (auto simp: Sender_Release_def release_engine_def Let_def UnRegisterChannelListener_def CloseSoftbusChannel_def listened_def smap_erase_def
      case_prod_unfold)

lemma Sender_Release_gone: "sender_set_up (ew_engine W) \<Longrightarrow> engine_key (ew_engine W) \<notin> listened (ew_adapter (snd (Sender_Release E W)))"
  using Sender_Release_adapter(1) [of W E] by (auto simp: sender_set_up_def engine_key_def listened_def smap_erase_def)

interpretation sender: engine_release "Sender_Release E" sender_set_up
  by unfold_locales (rule Sender_Release_shrinks, rule Sender_Release_gone)

lemma Receiver_Release_shrinks: "listened (ew_adapter (snd (Receiver_Release E W))) \<subseteq> listened (ew_adapter W)"
  using Sender_Release_shrinks [of E W] by (simp add: Receiver_Release_adapter)

lemma Receiver_Release_gone: "receiver_set_up (ew_engine W) \<Longrightarrow> engine_key (ew_engine W) \<notin> listened (ew_adapter (snd (Receiver_Release E W)))"
  using Sender_Release_gone [of W E] by (simp add: Receiver_Release_adapter receiver_set_up_def state_of_def)

interpretation receiver: engine_release "Receiver_Release E" receiver_set_up
  by unfold_locales (rule Receiver_Release_shrinks, rule Receiver_Release_gone)

section \<open>Properties\<close>

text \<open>
  After a provider is destroyed the adapter has no listener under its own key or the key of an engine in its list, whatever the client still owns, so that no event goes to a
  freed object under these keys. A receiver counts when it is set up.
\<close>

theorem destroyed_provider_is_not_called:
  assumes "pr_sessionName X \<noteq> []"
  shows "(\<forall>em\<in>set (pr_engines X). sender_set_up (fst em) \<longrightarrow>
       smap_get (ca_listenerMap (pr_adapter (AVSenderEngineProvider_destroy E held X))) (engine_key (fst em)) = None)
    \<and> (\<forall>em\<in>set (pr_engines X). receiver_set_up (fst em) \<longrightarrow>
       smap_get (ca_listenerMap (pr_adapter (AVReceiverEngineProvider_destroy E held X))) (engine_key (fst em)) = None)
    \<and> smap_get (ca_listenerMap (pr_adapter (if is_mic (pr_ownerName X) then AVSenderEngineProvider_destroy E held X
         else AVReceiverEngineProvider_destroy E held X))) (session_key (pr_sessionName X) AV_TRANS_SPECIAL_DEVICE_ID) = None"
proof (intro conjI ballI impI)
  show "smap_get (ca_listenerMap (pr_adapter (AVSenderEngineProvider_destroy E held X))) (engine_key (fst em)) = None"
    if "em \<in> set (pr_engines X)" "sender_set_up (fst em)" for em
    unfolding AVSenderEngineProvider_destroy_def listened_iff by (rule sender.destroy_unregisters [OF that])
  show "smap_get (ca_listenerMap (pr_adapter (AVReceiverEngineProvider_destroy E held X))) (engine_key (fst em)) = None"
    if "em \<in> set (pr_engines X)" "receiver_set_up (fst em)" for em
    unfolding AVReceiverEngineProvider_destroy_def listened_iff by (rule receiver.destroy_unregisters [OF that])
  show "smap_get (ca_listenerMap (pr_adapter (if is_mic (pr_ownerName X) then AVSenderEngineProvider_destroy E held X
      else AVReceiverEngineProvider_destroy E held X))) (session_key (pr_sessionName X) AV_TRANS_SPECIAL_DEVICE_ID) = None"
    unfolding AVSenderEngineProvider_destroy_def AVReceiverEngineProvider_destroy_def listened_iff
    using sender.destroy_unregisters_itself [of True X E "ee_bus E" held, OF TrueI assms]
      receiver.destroy_unregisters_itself [of True X E "ee_bus E" held, OF TrueI assms] by simp
qed

text \<open>
  Property C39. A second engine for a device that cannot be initialised silences the first one. When the provider makes a sender for a device and then
  fails to make another one for the same device, the destructor of the failed engine closes the channel and removes the listener under the key that both share:
  the first engine stays in the list of the provider, its channel is closed and the adapter does not report to it any more.
\<close>

theorem failed_sender_silences_first:
  assumes "CreateAVSenderEngine E1 s1 m1 dev X0 = (Some s, X)" and "CreateAVSenderEngine E s2 m2 dev X = (None, Y)"
  defines "session \<equiv> pr_ownerName X0 @ ''_'' @ SENDER_CONTROL_SESSION_NAME_SUFFIX"
  shows "smap_get (ca_listenerMap (pr_adapter X)) (session_key session dev) = Some (Some s1)
    \<and> s1 \<in> set (GetAVEngineList Y) \<and> GetAVEngineList Y = GetAVEngineList X
    \<and> smap_get (ca_listenerMap (pr_adapter Y)) (session_key session dev) = None \<and> GetSessIdBySessName session dev (pr_adapter Y) = - 1"
proof -
  let ?W = "\<lambda>X self m. \<lparr> ew_engine = AVSenderEngine_new self (pr_ownerName X) dev, ew_media = m, ew_kit = pr_kit X, ew_adapter = pr_adapter X,
    ew_bus = pr_bus X, ew_notes = [] \<rparr>"
  have n: "en_sessionName (AVSenderEngine_new q (pr_ownerName X0) dev) = session" "en_peerDevId (AVSenderEngine_new q ow dev) = dev"
    "en_self (AVSenderEngine_new q ow dev) = q" "\<not> en_isInitialized (AVSenderEngine_new q ow dev)" for q ow
    by (simp_all add: AVSenderEngine_new_def engine_new_def session_def)
  obtain r1 V1 where i1: "Sender_Initialize E1 (?W X0 s1 m1) = (r1, V1)" by (cases "Sender_Initialize E1 (?W X0 s1 m1)")
  with assms(1) have r1: "r1 = DH_AVT_SUCCESS"
    and X: "pr_adapter X = ew_adapter V1" "pr_ownerName X = pr_ownerName X0" "pr_engines X = pr_engines X0 @ [(ew_engine V1, ew_media V1)]"
    by (auto simp: CreateAVSenderEngine_def create_engine_def on_engine_def Let_def split: if_splits)
  obtain a1: "ew_adapter V1 = snd (RegisterChannelListener session dev (Some s1) (pr_adapter X0))" "en_self (ew_engine V1) = s1"
    "fst (RegisterChannelListener session dev (Some s1) (pr_adapter X0)) = DH_AVT_SUCCESS"
    using i1 [unfolded Sender_Initialize_def] by (rule engine_Initialize_cases) (use r1 in \<open>simp_all add: n\<close>)
  then have l: "smap_get (ca_listenerMap (pr_adapter X)) (session_key session dev) = Some (Some s1)" and ne: "session \<noteq> []" "dev \<noteq> []"
    using X(1) by (auto simp: RegisterChannelListener_def split: if_splits)
  obtain r2 V2 where i2: "Sender_Initialize E (?W X s2 m2) = (r2, V2)" by (cases "Sender_Initialize E (?W X s2 m2)")
  note v = engine_Initialize_names(1,2) [OF i2 [unfolded Sender_Initialize_def]]
  have v2: "en_sessionName (ew_engine V2) = session" "en_peerDevId (ew_engine V2) = dev" using v X(2) by (simp_all add: n)
  have "pr_adapter Y = ew_adapter (snd (Sender_Release E V2))" and e: "pr_engines Y = pr_engines X"
    using assms(2) i2
    by (auto simp: CreateAVSenderEngine_def create_engine_def on_engine_def Let_def case_prod_unfold Sender_Release_def release_engine_def
        upd_engine_def set_state_def eng_adapter_def eng_channels_def on_kit_def on_media_def split: if_splits)
  then show ?thesis
    using l a1(2) X(3) Sender_Release_adapter [of V2 E] ne
    by (simp add: v2 GetSessIdBySessName_def GetAVEngineList_def)
qed

section \<open>Witnesses\<close>

text \<open>A provider for the microphone that has made one sender, and a control center that refuses the next one.\<close>

definition sample_provider :: "(unit, unit, int \<times> (int \<times> string) list) provider" where
  "sample_provider = AVSenderEngineProvider_new sample_av_bus 7 OWNER_NAME_D_MIC () channel_adapter_new (1, [])"

definition one_sender :: "(unit, unit, int \<times> (int \<times> string) list) provider" where
  "one_sender = snd (CreateAVSenderEngine sample_engine_env 1 () ''devA'' sample_provider)"

definition refusing_env :: "(unit, unit, int \<times> (int \<times> string) list, jnode) engine_env" where
  "refusing_env = sample_engine_env\<lparr>ee_kit := sample_kit\<lparr>ki_InitializeAVCenter := \<lambda>_ k. (- 1, 0, k)\<rparr>\<rparr>"

theorem failed_sender_silences_first_witness:
  "let Y = snd (CreateAVSenderEngine refusing_env 2 () ''devA'' one_sender); session = OWNER_NAME_D_MIC @ ''_'' @ SENDER_CONTROL_SESSION_NAME_SUFFIX in
     smap_get (ca_listenerMap (pr_adapter one_sender)) (session_key session ''devA'') = Some (Some 1) \<and> 1 \<in> set (GetAVEngineList Y)
     \<and> smap_get (ca_listenerMap (pr_adapter Y)) (session_key session ''devA'') = None"
proof -
  have o: "pr_ownerName sample_provider = OWNER_NAME_D_MIC" by code_simp
  have "fst (CreateAVSenderEngine sample_engine_env 1 () ''devA'' sample_provider) = Some 1" by code_simp
  then have a: "CreateAVSenderEngine sample_engine_env 1 () ''devA'' sample_provider = (Some 1, one_sender)"
    by (simp add: one_sender_def prod_eq_iff)
  have "fst (CreateAVSenderEngine refusing_env 2 () ''devA'' one_sender) = None" by code_simp
  then have b: "CreateAVSenderEngine refusing_env 2 () ''devA'' one_sender = (None, snd (CreateAVSenderEngine refusing_env 2 () ''devA'' one_sender))"
    by (simp add: prod_eq_iff)
  show ?thesis unfolding Let_def using failed_sender_silences_first [OF a b, unfolded o] by blast
qed

theorem destroyed_provider_is_not_called_witness:
  "smap_get (ca_listenerMap (pr_adapter (AVSenderEngineProvider_destroy sample_engine_env (\<lambda>_. True) one_sender)))
     (session_key (pr_sessionName one_sender) AV_TRANS_SPECIAL_DEVICE_ID) = None
   \<and> smap_get (ca_listenerMap (pr_adapter (AVSenderEngineProvider_destroy sample_engine_env (\<lambda>_. True) one_sender)))
     (engine_key (fst (pr_engines one_sender ! 0))) = None"
proof -
  have n: "pr_sessionName one_sender \<noteq> []" by code_simp
  have m: "is_mic (pr_ownerName one_sender)" by code_simp
  have s: "sender_set_up (fst (pr_engines one_sender ! 0))" by code_simp
  have "length (pr_engines one_sender) = 1" by code_simp
  then have e: "pr_engines one_sender ! 0 \<in> set (pr_engines one_sender)" by (intro nth_mem) simp
  show ?thesis using destroyed_provider_is_not_called [OF n, of sample_engine_env "\<lambda>_. True"] m s e by auto
qed

end
