(* ===== verification/DHF_Privacy.thy ===== *)
theory DHF_Privacy
  imports DHF_CompMgr DHF_Json_Model
begin

text \<open>
  The privacy page (\<open>component_privacy.cpp\<close>): a component asks whether a resource is private, and has a page of the user interface
  opened or closed. Both go as events through a queue, the closing with a delay of one second.

  The ability manager, the device manager, the types of devices and cJSON are parameters. The queue belongs to the system: an event that is sent is an entry of
  \<open>pp_sent\<close> with the time at which it is due, and the order in which the events are handled is a hypothesis of the properties. The time of a
  call is its argument \<open>now\<close>, in milliseconds.
\<close>

abbreviation (input) COMP_START_PAGE :: nat where "COMP_START_PAGE \<equiv> 1"
abbreviation (input) COMP_STOP_PAGE :: nat where "COMP_STOP_PAGE \<equiv> 2"
abbreviation (input) COMP_PRIVACY_DELAY_TIME :: nat where "COMP_PRIVACY_DELAY_TIME \<equiv> 1000"
abbreviation (input) EVENT_TYPE_QUERY_RESOURCE :: int where "EVENT_TYPE_QUERY_RESOURCE \<equiv> 0"
abbreviation (input) EVENT_TYPE_PULL_UP_PAGE :: int where "EVENT_TYPE_PULL_UP_PAGE \<equiv> 1"
abbreviation (input) EVENT_TYPE_CLOSE_PAGE :: int where "EVENT_TYPE_CLOSE_PAGE \<equiv> 2"
abbreviation (input) DHSubtype_CAMERA :: int where "DHSubtype_CAMERA \<equiv> 1"
abbreviation (input) DHSubtype_AUDIO_MIC :: int where "DHSubtype_AUDIO_MIC \<equiv> 1024"

definition PRIVACY_SUBTYPE :: string where "PRIVACY_SUBTYPE = ''subtype''"
definition PRIVACY_NETWORKID :: string where "PRIVACY_NETWORKID = ''networkId''"

datatype dm_device_type = DEVICE_TYPE_WIFI_CAMERA | DEVICE_TYPE_AUDIO | DEVICE_TYPE_PC | DEVICE_TYPE_PHONE | DEVICE_TYPE_PAD | DEVICE_TYPE_WATCH
  | DEVICE_TYPE_CAR | DEVICE_TYPE_TV | DEVICE_TYPE_SMART_DISPLAY | DEVICE_TYPE_2IN1 | DEVICE_TYPE_OTHER

record want =
  wa_bundleName :: string
  wa_abilityName :: string
  wa_ints :: "(string \<times> int) list"
  wa_strings :: "(string \<times> string) list"

record ('j, 'a) privacy_env =
  pe_json :: "'j cjson"
  pe_resourceDesc :: "(string, bool) smap"
  pe_trusted :: "'a \<Rightarrow> (string \<times> bool) list"
  pe_deviceInfo :: "string \<Rightarrow> 'a \<Rightarrow> string \<times> 16 word"
  pe_deviceType :: "16 word \<Rightarrow> dm_device_type"
  pe_StartAbility :: "(want \<Rightarrow> 'a \<Rightarrow> int \<times> 'a) option"

record ('j, 'a) privacy =
  pp_eventHandler :: bool
  pp_isPrivacePageOpen :: bool
  pp_sent :: "(nat \<times> nat \<times> 'j) list"
  pp_system :: 'a

section \<open>Events\<close>

definition send_event :: "nat \<Rightarrow> nat \<Rightarrow> 'j \<Rightarrow> ('j, 'a) privacy \<Rightarrow> ('j, 'a) privacy" where
  "send_event due i data X = X\<lparr>pp_sent := pp_sent X @ [(due, i, data)]\<rparr>"

definition HandlePullUpPage :: "('j, 'a) privacy_env \<Rightarrow> nat \<Rightarrow> string \<Rightarrow> string \<Rightarrow> ('j, 'a) privacy \<Rightarrow> ('j, 'a) privacy" where
  "HandlePullUpPage E now subtype networkId X =
     (let cj = pe_json E in
      if \<not> IsIdLengthValid networkId then X
      else case (cJSON_CreateArray cj, cJSON_CreateObject cj) of
        (Some jsonArrayMsg, Some tmpJson) \<Rightarrow>
          if pp_eventHandler X
          then let j1 = cJSON_AddStringToObject cj tmpJson PRIVACY_SUBTYPE (c_str subtype);
                   j2 = cJSON_AddStringToObject cj j1 PRIVACY_NETWORKID (c_str networkId)
               in send_event now COMP_START_PAGE (cJSON_AddItemToArray cj jsonArrayMsg j2) X
          else X
      | _ \<Rightarrow> X)"

definition HandleClosePage :: "('j, 'a) privacy_env \<Rightarrow> nat \<Rightarrow> string \<Rightarrow> ('j, 'a) privacy \<Rightarrow> ('j, 'a) privacy" where
  "HandleClosePage E now subtype X =
     (let cj = pe_json E in
      case (cJSON_CreateArray cj, cJSON_CreateObject cj) of
        (Some jsonArrayMsg, Some tmpJson) \<Rightarrow>
          if pp_eventHandler X
          then send_event (now + COMP_PRIVACY_DELAY_TIME) COMP_STOP_PAGE
                 (cJSON_AddItemToArray cj jsonArrayMsg (cJSON_AddStringToObject cj tmpJson PRIVACY_SUBTYPE (c_str subtype))) X
          else X
      | _ \<Rightarrow> X)"

text \<open>The result and the two flags afterwards; a trusted device is its network identifier and whether it belongs to the same account.\<close>

definition OnResourceInfoCallback ::
  "('j, 'a) privacy_env \<Rightarrow> string \<Rightarrow> string \<Rightarrow> bool \<times> bool \<Rightarrow> ('j, 'a) privacy \<Rightarrow> ret \<times> bool \<times> bool" where
  "OnResourceInfoCallback E subtype networkId = (\<lambda>(isSensitive, isSameAccout) X.
     if \<not> IsIdLengthValid networkId then (ERR_DH_FWK_PARA_INVALID, isSensitive, isSameAccout)
     else case smap_get (pe_resourceDesc E) subtype of
       None \<Rightarrow> (ERR_DH_FWK_RESOURCE_KEY_IS_EMPTY, isSensitive, isSameAccout)
     | Some sensitive \<Rightarrow>
         let deviceList = pe_trusted E (pp_system X) in
         if length deviceList = 0 \<or> length deviceList > MAX_ONLINE_DEVICE_SIZE then (ERR_DH_FWK_RESOURCE_KEY_IS_EMPTY, sensitive, isSameAccout)
         else (DH_FWK_SUCCESS, sensitive,
               case List.find (\<lambda>d. fst d = networkId) deviceList of None \<Rightarrow> False | Some d \<Rightarrow> snd d))"

definition OnPrivaceResourceMessage ::
  "('j, 'a) privacy_env \<Rightarrow> nat \<Rightarrow> int \<Rightarrow> string \<Rightarrow> string \<Rightarrow> bool \<times> bool \<Rightarrow> ('j, 'a) privacy \<Rightarrow> (ret \<times> bool \<times> bool) \<times> ('j, 'a) privacy" where
  "OnPrivaceResourceMessage E now type subtype networkId flags X =
     (if type = EVENT_TYPE_QUERY_RESOURCE then (OnResourceInfoCallback E subtype networkId flags X, X)
      else if type = EVENT_TYPE_PULL_UP_PAGE then ((DH_FWK_SUCCESS, flags), HandlePullUpPage E now subtype networkId X)
      else if type = EVENT_TYPE_CLOSE_PAGE then ((DH_FWK_SUCCESS, flags), HandleClosePage E now subtype X)
      else ((DH_FWK_SUCCESS, flags), X))"

section \<open>The page\<close>

definition DeviceTypeToString :: "('j, 'a) privacy_env \<Rightarrow> 16 word \<Rightarrow> string" where
  "DeviceTypeToString E deviceTypeId =
     (case pe_deviceType E deviceTypeId of
        DEVICE_TYPE_WIFI_CAMERA \<Rightarrow> ''camera'' | DEVICE_TYPE_AUDIO \<Rightarrow> ''audio'' | DEVICE_TYPE_PC \<Rightarrow> ''pc'' | DEVICE_TYPE_PHONE \<Rightarrow> ''phone''
      | DEVICE_TYPE_PAD \<Rightarrow> ''pad'' | DEVICE_TYPE_WATCH \<Rightarrow> ''watch'' | DEVICE_TYPE_CAR \<Rightarrow> ''car'' | DEVICE_TYPE_TV \<Rightarrow> ''tv''
      | DEVICE_TYPE_SMART_DISPLAY \<Rightarrow> ''display'' | DEVICE_TYPE_2IN1 \<Rightarrow> ''2in1'' | DEVICE_TYPE_OTHER \<Rightarrow> ''unknown'')"

definition page_type :: "string \<Rightarrow> int" where
  "page_type subtype = (if subtype = ''mic'' then DHSubtype_AUDIO_MIC else if subtype = ''camera'' then DHSubtype_CAMERA else - 1)"

definition start_want :: "('j, 'a) privacy_env \<Rightarrow> string \<Rightarrow> string \<Rightarrow> 'a \<Rightarrow> want" where
  "start_want E subtype networkId a =
     (let (deviceName, deviceTypeId) = pe_deviceInfo E networkId a
      in \<lparr> wa_bundleName = ''com.ohos.dhardwareui'', wa_abilityName = ''DHardwareUIAbility'', wa_ints = [(''type'', page_type subtype)],
           wa_strings = [(''srcNetworkId'', networkId), (''deviceName'', deviceName), (''deviceType'', DeviceTypeToString E deviceTypeId)] \<rparr>)"

definition stop_want :: "string \<Rightarrow> want" where
  "stop_want subtype = \<lparr> wa_bundleName = ''com.ohos.dhardwareui'', wa_abilityName = ''DHardwareUIAbility'',
     wa_ints = [(''type'', page_type subtype), (''returnCode'', 24200102)], wa_strings = [] \<rparr>"

definition SetPageFlag :: "bool \<Rightarrow> ('j, 'a) privacy \<Rightarrow> ('j, 'a) privacy" where
  "SetPageFlag b X = X\<lparr>pp_isPrivacePageOpen := b\<rparr>"

text \<open>The flag is set whatever the ability manager answers.\<close>

definition StartPrivacePage :: "('j, 'a) privacy_env \<Rightarrow> string \<Rightarrow> string \<Rightarrow> ('j, 'a) privacy \<Rightarrow> ret \<times> ('j, 'a) privacy" where
  "StartPrivacePage E subtype networkId X =
     (if \<not> IsIdLengthValid networkId then (ERR_DH_FWK_PARA_INVALID, X)
      else case pe_StartAbility E of
        None \<Rightarrow> (ERR_DH_FWK_POINTER_IS_NULL, X)
      | Some f \<Rightarrow> let (result, a) = f (start_want E subtype networkId (pp_system X)) (pp_system X)
                  in (result, SetPageFlag True (X\<lparr>pp_system := a\<rparr>)))"

definition StopPrivacePage :: "('j, 'a) privacy_env \<Rightarrow> string \<Rightarrow> ('j, 'a) privacy \<Rightarrow> ret \<times> ('j, 'a) privacy" where
  "StopPrivacePage E subtype X =
     (case pe_StartAbility E of
        None \<Rightarrow> (ERR_DH_FWK_POINTER_IS_NULL, X)
      | Some f \<Rightarrow> let (result, a) = f (stop_want subtype) (pp_system X) in (result, SetPageFlag False (X\<lparr>pp_system := a\<rparr>)))"

section \<open>The handler of the events\<close>

definition first_item :: "'j cjson \<Rightarrow> 'j \<Rightarrow> 'j option" where
  "first_item cj data = (case cJSON_Children cj data of [] \<Rightarrow> None | x # _ \<Rightarrow> Some x)"

definition item_text :: "'j cjson \<Rightarrow> 'j \<Rightarrow> string \<Rightarrow> string" where
  "item_text cj ob key = (case cJSON_GetObjectItem cj ob key of None \<Rightarrow> [] | Some v \<Rightarrow> c_str (valuestring cj v))"

definition ProcessStartPage :: "('j, 'a) privacy_env \<Rightarrow> 'j \<Rightarrow> ('j, 'a) privacy \<Rightarrow> ('j, 'a) privacy" where
  "ProcessStartPage E data X =
     (let cj = pe_json E in
      case first_item cj data of
        None \<Rightarrow> X
      | Some innerMsg \<Rightarrow>
          if \<not> IsString cj innerMsg PRIVACY_SUBTYPE then X
          else let subtype = item_text cj innerMsg PRIVACY_SUBTYPE in
            if \<not> IsString cj innerMsg PRIVACY_NETWORKID then X
            else snd (StartPrivacePage E subtype (item_text cj innerMsg PRIVACY_NETWORKID) X))"

definition ProcessStopPage :: "('j, 'a) privacy_env \<Rightarrow> 'j \<Rightarrow> ('j, 'a) privacy \<Rightarrow> ('j, 'a) privacy" where
  "ProcessStopPage E data X =
     (let cj = pe_json E in
      case first_item cj data of
        None \<Rightarrow> X
      | Some innerMsg \<Rightarrow>
          if \<not> IsString cj innerMsg PRIVACY_SUBTYPE then X else snd (StopPrivacePage E (item_text cj innerMsg PRIVACY_SUBTYPE) X))"

definition ProcessEvent :: "('j, 'a) privacy_env \<Rightarrow> nat \<times> 'j \<Rightarrow> ('j, 'a) privacy \<Rightarrow> ('j, 'a) privacy" where
  "ProcessEvent E event X =
     (if fst event = COMP_START_PAGE then ProcessStartPage E (snd event) X
      else if fst event = COMP_STOP_PAGE then ProcessStopPage E (snd event) X
      else X)"

section \<open>The question whether a resource is private\<close>

text \<open>
  What a component is told agrees with the check of the component manager: on success the second flag is \<open>IsIdenticalAccount\<close>, and the
  manager enables the hardware exactly when the resource is not private or the account is the same.
\<close>

lemma resource_query_agrees:
  assumes "OnResourceInfoCallback E subtype networkId flags X = (DH_FWK_SUCCESS, sensitive, same)"
    and "pe_resourceDesc E = GetCompResourceDesc (cs_loader c)" and "pe_trusted E (pp_system X) = hw_Trusted P (cs_h c)" and "hw_CHECK_RESOURCE P"
  shows "same = IsIdenticalAccount P networkId (cs_h c) \<and> (CheckSubtypeResource P subtype networkId c = DH_FWK_SUCCESS \<longleftrightarrow> \<not> sensitive \<or> same)"
  using assms by (cases flags)
    (auto simp: OnResourceInfoCallback_def IsIdenticalAccount_def CheckSubtypeResource_def Let_def split: if_splits option.splits)

section \<open>Closing and opening\<close>

lemma privacy_keys: "\<not> same_key PRIVACY_SUBTYPE PRIVACY_NETWORKID" "\<not> same_key PRIVACY_NETWORKID PRIVACY_SUBTYPE"
  by code_simp+

lemma first_item_added:
  assumes "cjson_build_laws cj" and "cJSON_CreateArray cj = Some ar" shows "first_item cj (cJSON_AddItemToArray cj ar ob) = Some ob"
  using assms by (simp add: first_item_def cjson_build_laws_def)

lemma item_text_string:
  assumes "has_string cj ob k s" and "json_str_ok s" shows "IsString cj ob k" "item_text cj ob k = s"
  using assms by (auto simp: has_string_def IsString_def item_text_def json_str_ok_def c_str_id item_strlen_def)

lemma start_event_handled:
  assumes "cjson_build_laws (pe_json E)" and "cJSON_CreateArray (pe_json E) = Some ar" and "cJSON_CreateObject (pe_json E) = Some ob"
    and "pp_eventHandler X" and "json_str_ok subtype" and "json_str_ok networkId" and "IsIdLengthValid networkId" and "pe_StartAbility E = Some f"
  obtains d where "HandlePullUpPage E now subtype networkId X = send_event now COMP_START_PAGE d X"
    and "\<And>Y. ProcessEvent E (COMP_START_PAGE, d) Y
      = SetPageFlag True (Y\<lparr>pp_system := snd (f (start_want E subtype networkId (pp_system Y)) (pp_system Y))\<rparr>)"
proof -
  let ?cj = "pe_json E"
  let ?o = "cJSON_AddStringToObject ?cj (cJSON_AddStringToObject ?cj ob PRIVACY_SUBTYPE (c_str subtype)) PRIVACY_NETWORKID (c_str networkId)"
  have n: "CHR 0x00 \<notin> set subtype" "CHR 0x00 \<notin> set networkId" using assms(5,6) by (simp_all add: json_str_ok_def)
  have h: "has_string ?cj ?o PRIVACY_SUBTYPE subtype" "has_string ?cj ?o PRIVACY_NETWORKID networkId"
    using assms(1,3) privacy_keys n by (simp_all add: json_build c_str_id)
  note i = item_text_string [OF h(1) assms(5)] item_text_string [OF h(2) assms(6)]
  let ?d = "cJSON_AddItemToArray ?cj ar ?o"
  have fi: "first_item ?cj ?d = Some ?o" by (rule first_item_added [OF assms(1,2)])
  show ?thesis
  proof (rule that [of ?d])
    show "HandlePullUpPage E now subtype networkId X = send_event now COMP_START_PAGE ?d X"
      by (simp only: HandlePullUpPage_def Let_def assms(2-4,7) option.case prod.case not_True_eq_False if_True if_False)
    show "ProcessEvent E (COMP_START_PAGE, ?d) Y
        = SetPageFlag True (Y\<lparr>pp_system := snd (f (start_want E subtype networkId (pp_system Y)) (pp_system Y))\<rparr>)" for Y
      by (simp only: ProcessEvent_def ProcessStartPage_def Let_def fi i fst_conv snd_conv option.case not_True_eq_False if_True if_False
          StartPrivacePage_def assms(7,8) case_prod_unfold simp_thms)
  qed
qed

lemma stop_event_handled:
  assumes "cjson_build_laws (pe_json E)" and "cJSON_CreateArray (pe_json E) = Some ar" and "cJSON_CreateObject (pe_json E) = Some ob"
    and "pp_eventHandler X" and "json_str_ok subtype" and "pe_StartAbility E = Some f"
  obtains d where "HandleClosePage E now subtype X = send_event (now + COMP_PRIVACY_DELAY_TIME) COMP_STOP_PAGE d X"
    and "\<And>Y. ProcessEvent E (COMP_STOP_PAGE, d) Y = SetPageFlag False (Y\<lparr>pp_system := snd (f (stop_want subtype) (pp_system Y))\<rparr>)"
proof -
  let ?cj = "pe_json E"
  let ?o = "cJSON_AddStringToObject ?cj ob PRIVACY_SUBTYPE (c_str subtype)"
  have "CHR 0x00 \<notin> set subtype" using assms(5) by (simp add: json_str_ok_def)
  then have h: "has_string ?cj ?o PRIVACY_SUBTYPE subtype" using assms(1,3) by (simp add: json_build c_str_id)
  note i = item_text_string [OF h assms(5)]
  let ?d = "cJSON_AddItemToArray ?cj ar ?o"
  have fi: "first_item ?cj ?d = Some ?o" by (rule first_item_added [OF assms(1,2)])
  show ?thesis
  proof (rule that [of ?d])
    show "HandleClosePage E now subtype X = send_event (now + COMP_PRIVACY_DELAY_TIME) COMP_STOP_PAGE ?d X"
      by (simp only: HandleClosePage_def Let_def assms(2-4) option.case prod.case if_True)
    show "ProcessEvent E (COMP_STOP_PAGE, ?d) Y = SetPageFlag False (Y\<lparr>pp_system := snd (f (stop_want subtype) (pp_system Y))\<rparr>)" for Y
      by (simp add: ProcessEvent_def) (simp only: ProcessStopPage_def Let_def fi i option.case not_True_eq_False if_True if_False
          StopPrivacePage_def assms(6) snd_conv case_prod_unfold)
  qed
qed

text \<open>
  Property C40. A component closes the page and later has it opened again, with the same subtype. When the events are handled in the order in which they are due, the page is
  open in the end exactly when more than one second lies between the two requests (at exactly one second the two events are due together, which the
  claim leaves out). Otherwise the delayed closing comes after the opening: the last call of the ability manager closes the page that was just asked for, and the flag says that no page is open.
\<close>

theorem reopened_page_is_closed:
  assumes "cjson_build_laws (pe_json E)" and "cJSON_CreateArray (pe_json E) = Some ar" and "cJSON_CreateObject (pe_json E) = Some ob"
    and "pp_eventHandler X" "pp_sent X = []" and "json_str_ok subtype" and "json_str_ok networkId" and "IsIdLengthValid networkId"
    and "pe_StartAbility E = Some f" and "t' \<noteq> t + 1000"
    and "Y = snd (OnPrivaceResourceMessage E t' EVENT_TYPE_PULL_UP_PAGE subtype networkId flags
      (snd (OnPrivaceResourceMessage E t EVENT_TYPE_CLOSE_PAGE subtype networkId flags X)))"
    and "mset es = mset (pp_sent Y)" and "sorted (map fst es)"
  shows "(pp_isPrivacePageOpen (fold (\<lambda>e. ProcessEvent E (snd e)) es Y) \<longleftrightarrow> t + 1000 < t')
    \<and> (t' < t + 1000 \<longrightarrow> pp_system (fold (\<lambda>e. ProcessEvent E (snd e)) es Y)
         = snd (f (stop_want subtype) (snd (f (start_want E subtype networkId (pp_system X)) (pp_system X)))))"
proof -
  obtain d1 where d1: "HandleClosePage E t subtype X = send_event (t + 1000) COMP_STOP_PAGE d1 X"
    "\<And>Y. ProcessEvent E (COMP_STOP_PAGE, d1) Y = SetPageFlag False (Y\<lparr>pp_system := snd (f (stop_want subtype) (pp_system Y))\<rparr>)"
    using stop_event_handled [OF assms(1-4,6,9)] by blast
  have h: "pp_eventHandler (send_event (t + 1000) COMP_STOP_PAGE d1 X)" using assms(4) by (simp add: send_event_def)
  obtain d2 where d2: "HandlePullUpPage E t' subtype networkId (send_event (t + 1000) COMP_STOP_PAGE d1 X)
      = send_event t' COMP_START_PAGE d2 (send_event (t + 1000) COMP_STOP_PAGE d1 X)"
    "\<And>Y. ProcessEvent E (COMP_START_PAGE, d2) Y
      = SetPageFlag True (Y\<lparr>pp_system := snd (f (start_want E subtype networkId (pp_system Y)) (pp_system Y))\<rparr>)"
    using start_event_handled [OF assms(1-3) h assms(6-9)] by blast
  let ?x = "(t + 1000, COMP_STOP_PAGE, d1)" and ?y = "(t', COMP_START_PAGE, d2)"
  have Y: "pp_sent Y = [?x, ?y]" "pp_system Y = pp_system X"
    using assms(5,11) by (simp_all add: OnPrivaceResourceMessage_def d1(1) d2(1)) (simp_all add: send_event_def)
  then have "length es = 2" using assms(12) by (metis length_Cons list.size(3) mset_eq_length numeral_2_eq_2)
  then obtain u v where uv: "es = [u, v]" by (auto simp: numeral_2_eq_2 length_Suc_conv)
  then have es: "es = [?x, ?y] \<or> es = [?y, ?x]" using assms(12) Y(1) by (auto simp: add_eq_conv_ex)
  show ?thesis
  proof (cases "t' < t + 1000")
    case True
    then have "es = [?y, ?x]" using es assms(13) by auto
    with True show ?thesis by (simp add: d1(2) d2(2) SetPageFlag_def Y(2) del: One_nat_def)
  next
    case False
    then have "es = [?x, ?y]" using es assms(10,13) by auto
    with False assms(10) show ?thesis by (simp add: d1(2) d2(2) SetPageFlag_def del: One_nat_def)
  qed
qed

section \<open>Witness\<close>

definition sample_privacy_env :: "(jnode, want list) privacy_env" where
  "sample_privacy_env = \<lparr> pe_json = model_cjson, pe_resourceDesc = [(''mic'', True)], pe_trusted = (\<lambda>_. [(''net1'', True)]),
     pe_deviceInfo = (\<lambda>_ _. (''Phone'', 14)), pe_deviceType = (\<lambda>_. DEVICE_TYPE_PHONE), pe_StartAbility = Some (\<lambda>w ws. (0, ws @ [w])) \<rparr>"

definition sample_privacy :: "(jnode, want list) privacy" where
  "sample_privacy = \<lparr> pp_eventHandler = True, pp_isPrivacePageOpen = True, pp_sent = [], pp_system = [] \<rparr>"

definition sample_reopened :: "(jnode, want list) privacy" where
  "sample_reopened = snd (OnPrivaceResourceMessage sample_privacy_env 30 EVENT_TYPE_PULL_UP_PAGE ''mic'' ''net1'' (False, False)
     (snd (OnPrivaceResourceMessage sample_privacy_env 20 EVENT_TYPE_CLOSE_PAGE ''mic'' ''net1'' (False, False) sample_privacy)))"

theorem reopened_page_is_closed_witness:
  "\<not> pp_isPrivacePageOpen (fold (\<lambda>e. ProcessEvent sample_privacy_env (snd e)) (rev (pp_sent sample_reopened)) sample_reopened)"
proof -
  have s: "sorted (map fst (rev (pp_sent sample_reopened)))"
    by (simp add: sample_reopened_def OnPrivaceResourceMessage_def HandlePullUpPage_def HandleClosePage_def sample_privacy_env_def
        sample_privacy_def model_cjson_def send_event_def IsIdLengthValid_def Let_def)
  have c: "cjson_build_laws (pe_json sample_privacy_env)" "cJSON_CreateArray (pe_json sample_privacy_env) = Some (JArr [])"
    "cJSON_CreateObject (pe_json sample_privacy_env) = Some (JObj [])" "pe_StartAbility sample_privacy_env = Some (\<lambda>w ws. (0, ws @ [w]))"
    by (simp_all add: sample_privacy_env_def model_cjson_laws) (simp_all add: model_cjson_def)
  have p: "pp_eventHandler sample_privacy" "pp_sent sample_privacy = []" by (simp_all add: sample_privacy_def)
  have k: "json_str_ok ''mic''" "json_str_ok ''net1''" "IsIdLengthValid ''net1''" by (simp_all add: json_str_ok_def IsIdLengthValid_def)
  have t: "(30 :: nat) \<noteq> 20 + 1000" by simp
  show ?thesis
    using reopened_page_is_closed [OF c(1-3) p k c(4) t sample_reopened_def _ s] by simp
qed

end
