(* ===== verification/DHF_Kit.thy ===== *)
theory DHF_Kit
  imports DHF_ServiceProps "HOL-Library.Option_ord"
begin

text \<open>
  The client side: \<open>DHFWKSAManager\<close> (\<open>interfaces/inner_kits/src/ipc/dhfwk_sa_manager.cpp\<close>), which holds the proxy and keeps the listeners of the client so that it can
  register them again when the service comes back, and \<open>DistributedHardwareFwkKit\<close> (\<open>interfaces/inner_kits/src/distributed_hardware_fwk_kit.cpp\<close>), whose
  operations the components and the engines call.

  The ability manager is a parameter: \<open>sa_mgr\<close> tells whether it is there, \<open>sa_subscribe\<close> what the subscription returns, \<open>sa_check\<close> the remote object of the
  service (a number), \<open>sa_cast\<close> whether the cast gives a proxy, and \<open>sa_object\<close> whether \<open>AsObject\<close> of this proxy is not null (it is this number then). A proxy without
  an object is stored all the same, so that the next call returns it. \<open>ke_send\<close> is \<open>SendRequest\<close> of a remote object. The two caches are
  unordered maps; they are kept as ordered ones, whose order is the one \<open>RestoreListener\<close> walks. The proxy is asked for again before each use in the code; its answer
  does not change while an operation runs.
\<close>

abbreviation (input) ERR_DH_FWK_PUBLISH_MSG_FAILED :: ret where "ERR_DH_FWK_PUBLISH_MSG_FAILED \<equiv> - 11100"
abbreviation (input) ERR_DH_FWK_PUBLISH_LISTENER_OVER_SIZE :: ret where "ERR_DH_FWK_PUBLISH_LISTENER_OVER_SIZE \<equiv> - 11101"
abbreviation (input) MAX_TOPIC_SIZE :: nat where "MAX_TOPIC_SIZE \<equiv> 128"
abbreviation (input) MAX_LISTENER_SIZE :: nat where "MAX_LISTENER_SIZE \<equiv> 256"
abbreviation (input) DISTRIBUTED_HARDWARE_SA_ID :: int where "DISTRIBUTED_HARDWARE_SA_ID \<equiv> 4801"

record sa_answers =
  sa_mgr :: bool
  sa_subscribe :: ret
  sa_check :: "nat option"
  sa_cast :: bool
  sa_object :: bool

record ('p, 's) kit_env =
  ke_parcel :: "'p parcel"
  ke_AsObject :: "nat \<Rightarrow> nat option"
  ke_send :: "nat \<Rightarrow> ('p, 's) remote"

text \<open>\<open>kt_callback\<close> tells that the kit has registered for the state of the service, \<open>kt_kitOnLine\<close> is the flag of the kit.\<close>

record kit =
  kt_dhfwkOnLine :: bool
  kt_subscribed :: bool
  kt_dhfwkProxy :: "nat option"
  kt_callback :: bool
  kt_listeners :: "(topic, nat option list) smap"
  kt_callbacks :: "(int, nat option) smap"
  kt_kitOnLine :: bool

definition DHFWKSAManager_new :: kit where
  "DHFWKSAManager_new = \<lparr> kt_dhfwkOnLine = False, kt_subscribed = False, kt_dhfwkProxy = None, kt_callback = False, kt_listeners = [],
     kt_callbacks = [], kt_kitOnLine = False \<rparr>"

section \<open>The manager of the proxy\<close>

definition RegisterAbilityListener :: "sa_answers \<Rightarrow> kit \<Rightarrow> kit" where
  "RegisterAbilityListener A k =
     (if \<not> sa_mgr A then k
      else if \<not> kt_subscribed k then (if sa_subscribe A \<noteq> 0 then k else k\<lparr>kt_subscribed := True\<rparr>) else k)"

definition GetDHFWKProxy :: "sa_answers \<Rightarrow> kit \<Rightarrow> nat option \<times> kit" where
  "GetDHFWKProxy A k =
     (let k1 = (if \<not> kt_subscribed k then RegisterAbilityListener A k else k) in
      if kt_dhfwkProxy k1 = None
      then if \<not> sa_mgr A then (None, k1)
           else case sa_check A of
             None \<Rightarrow> (None, k1)
           | Some remoteObject \<Rightarrow>
               let k2 = k1\<lparr>kt_dhfwkProxy := if sa_cast A then Some remoteObject else None\<rparr>
               in if kt_dhfwkProxy k2 = None \<or> \<not> sa_object A then (None, k2) else (kt_dhfwkProxy k2, k2)
      else (kt_dhfwkProxy k1, k1))"

definition RegisterSAStateCallback :: "kit \<Rightarrow> kit" where
  "RegisterSAStateCallback k = k\<lparr>kt_callback := True\<rparr>"

definition AddPublisherListenerToCache :: "topic \<Rightarrow> nat option \<Rightarrow> kit \<Rightarrow> ret \<times> kit" where
  "AddPublisherListenerToCache topic listener k =
     (if length (kt_listeners k) \<ge> MAX_TOPIC_SIZE then (ERR_DH_FWK_PUBLISH_LISTENER_OVER_SIZE, k)
      else let k1 = k\<lparr>kt_listeners := smap_emplace topic [] (kt_listeners k)\<rparr>;
               ls = the (smap_get (kt_listeners k1) topic)
           in if length ls \<ge> MAX_LISTENER_SIZE then (ERR_DH_FWK_PUBLISH_LISTENER_OVER_SIZE, k1)
              else (DH_FWK_SUCCESS, k1\<lparr>kt_listeners := smap_put topic (sset_insert listener ls) (kt_listeners k1)\<rparr>))"

definition RemovePublisherListenerFromCache :: "topic \<Rightarrow> nat option \<Rightarrow> kit \<Rightarrow> kit" where
  "RemovePublisherListenerFromCache topic listener k =
     (let m = smap_emplace topic [] (kt_listeners k); ls = the (smap_get m topic)
      in k\<lparr>kt_listeners := smap_put topic (sset_erase listener ls) m\<rparr>)"

definition AddAVTransControlCenterCbToCache :: "int \<Rightarrow> nat option \<Rightarrow> kit \<Rightarrow> kit" where
  "AddAVTransControlCenterCbToCache engineId cb k = k\<lparr>kt_callbacks := smap_put engineId cb (kt_callbacks k)\<rparr>"

definition RemoveAVTransControlCenterCbFromCache :: "int \<Rightarrow> kit \<Rightarrow> kit" where
  "RemoveAVTransControlCenterCbFromCache engineId k = k\<lparr>kt_callbacks := smap_erase engineId (kt_callbacks k)\<rparr>"

text \<open>The two loops of \<open>RestoreListener\<close>. The first one tests the variable that is still 0 and not the result of the call.\<close>

fun restore_listeners :: "('p, 's) kit_env \<Rightarrow> nat \<Rightarrow> (topic \<times> nat option) list \<Rightarrow> ret \<Rightarrow> 's \<Rightarrow> (ret \<times> 's) option" where
  "restore_listeners K h [] ret s = Some (ret, s)"
| "restore_listeners K h ((topic, listener) # es) ret s =
     (case Proxy_RegisterPublisherListener (ke_parcel K) (ke_AsObject K) (Some (ke_send K h)) topic listener s of
        None \<Rightarrow> None
      | Some (innerRet, s1) \<Rightarrow> restore_listeners K h es (if ret \<noteq> DH_FWK_SUCCESS then innerRet else ret) s1)"

fun restore_callbacks :: "('p, 's) kit_env \<Rightarrow> nat \<Rightarrow> (int \<times> nat option) list \<Rightarrow> ret \<Rightarrow> 's \<Rightarrow> (ret \<times> 's) option" where
  "restore_callbacks K h [] ret s = Some (ret, s)"
| "restore_callbacks K h ((engineId, cb) # es) ret s =
     (case Proxy_RegisterCtlCenterCallback (ke_parcel K) (ke_AsObject K) (Some (ke_send K h)) engineId cb s of
        None \<Rightarrow> None
      | Some (innerRet, s1) \<Rightarrow> restore_callbacks K h es (if innerRet \<noteq> DH_FWK_SUCCESS then innerRet else ret) s1)"

definition cached_listeners :: "kit \<Rightarrow> (topic \<times> nat option) list" where
  "cached_listeners k = concat (map (\<lambda>(topic, ls). map (Pair topic) ls) (kt_listeners k))"

definition RestoreListener :: "('p, 's) kit_env \<Rightarrow> sa_answers \<Rightarrow> kit \<Rightarrow> 's \<Rightarrow> (ret \<times> kit \<times> 's) option" where
  "RestoreListener K A k s =
     (case GetDHFWKProxy A k of
        (None, k1) \<Rightarrow> Some (ERR_DH_FWK_POINTER_IS_NULL, k1, s)
      | (Some h, k1) \<Rightarrow>
          (case restore_listeners K h (cached_listeners k1) DH_FWK_SUCCESS s of
             None \<Rightarrow> None
           | Some (ret, s1) \<Rightarrow>
               (case restore_callbacks K h (kt_callbacks k1) ret s1 of None \<Rightarrow> None | Some (ret2, s2) \<Rightarrow> Some (ret2, k1, s2))))"

definition OnAddSystemAbility :: "('p, 's) kit_env \<Rightarrow> sa_answers \<Rightarrow> int \<Rightarrow> kit \<Rightarrow> 's \<Rightarrow> (kit \<times> 's) option" where
  "OnAddSystemAbility K A systemAbilityId k s =
     (if systemAbilityId \<noteq> DISTRIBUTED_HARDWARE_SA_ID then Some (k, s)
      else let k1 = k\<lparr>kt_dhfwkOnLine := True\<rparr>; k2 = (if kt_callback k1 then k1\<lparr>kt_kitOnLine := True\<rparr> else k1)
           in map_option (\<lambda>(ret, k3, s3). (k3, s3)) (RestoreListener K A k2 s))"

definition Kit_OnRemoveSystemAbility :: "int \<Rightarrow> kit \<Rightarrow> kit" where
  "Kit_OnRemoveSystemAbility systemAbilityId k =
     (if systemAbilityId \<noteq> DISTRIBUTED_HARDWARE_SA_ID then k
      else let k1 = k\<lparr>kt_dhfwkOnLine := False, kt_dhfwkProxy := None\<rparr> in if kt_callback k1 then k1\<lparr>kt_kitOnLine := False\<rparr> else k1)"

section \<open>The kit\<close>

definition DistributedHardwareFwkKit_new :: "sa_answers \<Rightarrow> kit \<Rightarrow> kit" where
  "DistributedHardwareFwkKit_new A k = RegisterAbilityListener A (RegisterSAStateCallback (k\<lparr>kt_kitOnLine := False\<rparr>))"

definition IsDHTopicValid :: "topic \<Rightarrow> bool" where
  "IsDHTopicValid topic \<longleftrightarrow> topic > TOPIC_MIN \<and> topic < TOPIC_MAX"

definition IsQueryLocalSysSpecTypeValid :: "32 word \<Rightarrow> bool" where
  "IsQueryLocalSysSpecTypeValid spec \<longleftrightarrow> spec > SPEC_MIN \<and> spec < SPEC_MAX"

text \<open>A call of the proxy, or \<open>fail\<close> without one.\<close>

definition with_proxy ::
  "('p, 's) kit_env \<Rightarrow> sa_answers \<Rightarrow> 'a \<Rightarrow> (kit \<Rightarrow> kit) \<Rightarrow> (('p, 's) remote option \<Rightarrow> ('a \<times> 's) option) \<Rightarrow> kit \<Rightarrow> 's \<Rightarrow> ('a \<times> kit \<times> 's) option" where
  "with_proxy K A fail before call k s =
     (case GetDHFWKProxy A k of
        (None, k1) \<Rightarrow> Some (fail, k1, s)
      | (Some h, k1) \<Rightarrow> map_option (\<lambda>(r, s1). (r, before k1, s1)) (call (Some (ke_send K h))))"

definition Kit_RegisterPublisherListener :: "('p, 's) kit_env \<Rightarrow> sa_answers \<Rightarrow> topic \<Rightarrow> nat option \<Rightarrow> kit \<Rightarrow> 's \<Rightarrow> (ret \<times> kit \<times> 's) option" where
  "Kit_RegisterPublisherListener K A topic listener k s =
     (if \<not> IsDHTopicValid topic then Some (ERR_DH_FWK_PARA_INVALID, k, s)
      else case GetDHFWKProxy A k of
        (None, k1) \<Rightarrow> (let (r, k2) = AddPublisherListenerToCache topic listener k1 in Some (r, k2, s))
      | (Some h, k1) \<Rightarrow>
          (case Proxy_RegisterPublisherListener (ke_parcel K) (ke_AsObject K) (Some (ke_send K h)) topic listener s of
             None \<Rightarrow> None
           | Some (ret, s1) \<Rightarrow>
               if ret = DH_FWK_SUCCESS then (let (r, k2) = AddPublisherListenerToCache topic listener k1 in Some (r, k2, s1))
               else Some (ret, k1, s1)))"

definition Kit_UnregisterPublisherListener :: "('p, 's) kit_env \<Rightarrow> sa_answers \<Rightarrow> topic \<Rightarrow> nat option \<Rightarrow> kit \<Rightarrow> 's \<Rightarrow> (ret \<times> kit \<times> 's) option" where
  "Kit_UnregisterPublisherListener K A topic listener k s =
     (if \<not> IsDHTopicValid topic then Some (ERR_DH_FWK_PARA_INVALID, k, s)
      else map_option (\<lambda>(r, k1, s1). (r, RemovePublisherListenerFromCache topic listener k1, s1))
        (with_proxy K A DH_FWK_SUCCESS (\<lambda>k. k)
           (\<lambda>remote. Proxy_UnregisterPublisherListener (ke_parcel K) (ke_AsObject K) remote topic listener s) k s))"

definition Kit_PublishMessage :: "('p, 's) kit_env \<Rightarrow> sa_answers \<Rightarrow> topic \<Rightarrow> string \<Rightarrow> kit \<Rightarrow> 's \<Rightarrow> (ret \<times> kit \<times> 's) option" where
  "Kit_PublishMessage K A topic message k s =
     (if \<not> IsDHTopicValid topic then Some (ERR_DH_FWK_PARA_INVALID, k, s)
      else if \<not> IsMessageLengthValid message then Some (ERR_DH_FWK_PARA_INVALID, k, s)
      else with_proxy K A ERR_DH_FWK_PUBLISH_MSG_FAILED (\<lambda>k. k) (\<lambda>remote. Proxy_PublishMessage (ke_parcel K) remote topic message s) k s)"

definition Kit_QueryLocalSysSpec :: "('p, 's) kit_env \<Rightarrow> sa_answers \<Rightarrow> 32 word \<Rightarrow> kit \<Rightarrow> 's \<Rightarrow> (string \<times> kit \<times> 's) option" where
  "Kit_QueryLocalSysSpec K A spec k s =
     (if \<not> IsQueryLocalSysSpecTypeValid spec then Some ([], k, s)
      else with_proxy K A [] (\<lambda>k. k) (\<lambda>remote. Proxy_QueryLocalSysSpec (ke_parcel K) remote spec s) k s)"

definition Kit_InitializeAVCenter :: "('p, 's) kit_env \<Rightarrow> sa_answers \<Rightarrow> 32 word \<Rightarrow> int \<Rightarrow> kit \<Rightarrow> 's \<Rightarrow> (ret \<times> int \<times> kit \<times> 's) option" where
  "Kit_InitializeAVCenter K A transRole engineId k s =
     (case GetDHFWKProxy A k of
        (None, k1) \<Rightarrow> Some (ERR_DH_FWK_POINTER_IS_NULL, engineId, k1, s)
      | (Some h, k1) \<Rightarrow> map_option (\<lambda>(r, i, s1). (r, i, k1, s1)) (Proxy_InitializeAVCenter (ke_parcel K) (Some (ke_send K h)) transRole engineId s))"

definition Kit_ReleaseAVCenter :: "('p, 's) kit_env \<Rightarrow> sa_answers \<Rightarrow> int \<Rightarrow> kit \<Rightarrow> 's \<Rightarrow> (ret \<times> kit \<times> 's) option" where
  "Kit_ReleaseAVCenter K A engineId =
     (\<lambda>k s. with_proxy K A ERR_DH_FWK_POINTER_IS_NULL (RemoveAVTransControlCenterCbFromCache engineId)
       (\<lambda>remote. Proxy_ReleaseAVCenter (ke_parcel K) remote engineId s) k s)"

definition Kit_CreateControlChannel :: "('p, 's) kit_env \<Rightarrow> sa_answers \<Rightarrow> int \<Rightarrow> string \<Rightarrow> kit \<Rightarrow> 's \<Rightarrow> (ret \<times> kit \<times> 's) option" where
  "Kit_CreateControlChannel K A engineId peerDevId =
     (\<lambda>k s. with_proxy K A ERR_DH_FWK_POINTER_IS_NULL (\<lambda>k. k) (\<lambda>remote. Proxy_CreateControlChannel (ke_parcel K) remote engineId peerDevId s) k s)"

definition Kit_NotifyAVCenter :: "('p, 's) kit_env \<Rightarrow> sa_answers \<Rightarrow> int \<Rightarrow> 32 word \<Rightarrow> string \<Rightarrow> string \<Rightarrow> kit \<Rightarrow> 's \<Rightarrow> (ret \<times> kit \<times> 's) option" where
  "Kit_NotifyAVCenter K A engineId type content peerDevId =
     (\<lambda>k s. with_proxy K A ERR_DH_FWK_POINTER_IS_NULL (\<lambda>k. k)
       (\<lambda>remote. Proxy_NotifyAVCenter (ke_parcel K) remote engineId type content peerDevId s) k s)"

definition Kit_RegisterCtlCenterCallback :: "('p, 's) kit_env \<Rightarrow> sa_answers \<Rightarrow> int \<Rightarrow> nat option \<Rightarrow> kit \<Rightarrow> 's \<Rightarrow> (ret \<times> kit \<times> 's) option" where
  "Kit_RegisterCtlCenterCallback K A engineId cb =
     (\<lambda>k s. with_proxy K A ERR_DH_FWK_POINTER_IS_NULL (AddAVTransControlCenterCbToCache engineId cb)
       (\<lambda>remote. Proxy_RegisterCtlCenterCallback (ke_parcel K) (ke_AsObject K) remote engineId cb s) k s)"

text \<open>\<open>PauseDistributedHardware\<close>, \<open>ResumeDistributedHardware\<close> and \<open>StopDistributedHardware\<close>.\<close>

definition kit_hardware ::
  "('p parcel \<Rightarrow> ('p, 's) remote option \<Rightarrow> dhtype \<Rightarrow> string \<Rightarrow> 's \<Rightarrow> (ret \<times> 's) option) \<Rightarrow> ('p, 's) kit_env \<Rightarrow> sa_answers \<Rightarrow> dhtype \<Rightarrow> string
    \<Rightarrow> kit \<Rightarrow> 's \<Rightarrow> (ret \<times> kit \<times> 's) option" where
  "kit_hardware call K A dhType networkId k s =
     (if \<not> IsIdLengthValid networkId then Some (ERR_DH_FWK_PARA_INVALID, k, s)
      else with_proxy K A ERR_DH_FWK_POINTER_IS_NULL (\<lambda>k. k) (\<lambda>remote. call (ke_parcel K) remote dhType networkId s) k s)"

definition Kit_PauseDistributedHardware :: "('p, 's) kit_env \<Rightarrow> sa_answers \<Rightarrow> dhtype \<Rightarrow> string \<Rightarrow> kit \<Rightarrow> 's \<Rightarrow> (ret \<times> kit \<times> 's) option" where
  "Kit_PauseDistributedHardware = kit_hardware Proxy_PauseDistributedHardware"

definition Kit_ResumeDistributedHardware :: "('p, 's) kit_env \<Rightarrow> sa_answers \<Rightarrow> dhtype \<Rightarrow> string \<Rightarrow> kit \<Rightarrow> 's \<Rightarrow> (ret \<times> kit \<times> 's) option" where
  "Kit_ResumeDistributedHardware = kit_hardware Proxy_ResumeDistributedHardware"

definition Kit_StopDistributedHardware :: "('p, 's) kit_env \<Rightarrow> sa_answers \<Rightarrow> dhtype \<Rightarrow> string \<Rightarrow> kit \<Rightarrow> 's \<Rightarrow> (ret \<times> kit \<times> 's) option" where
  "Kit_StopDistributedHardware = kit_hardware Proxy_StopDistributedHardware"

section \<open>The service comes back\<close>

text \<open>The topics in the cache are the valid ones: every operation of the kit tests them first.\<close>

definition kit_ok :: "kit \<Rightarrow> bool" where
  "kit_ok k \<longleftrightarrow> (\<forall>e\<in>set (kt_listeners k). ValidTopic (fst e))"

lemma topic_checks_agree: "IsDHTopicValid t = ValidTopic t"
  by (auto simp: IsDHTopicValid_def ValidTopic_def not_le word_gt_0)

lemma GetDHFWKProxy_caches [simp]:
  "kt_listeners (snd (GetDHFWKProxy A k)) = kt_listeners k" "kt_callbacks (snd (GetDHFWKProxy A k)) = kt_callbacks k"
  by (simp_all add: GetDHFWKProxy_def RegisterAbilityListener_def Let_def split: option.splits)

lemma kit_ok_cache:
  assumes "kit_ok k" and "ValidTopic t"
  shows "kit_ok (snd (AddPublisherListenerToCache t l k))" and "kit_ok (RemovePublisherListenerFromCache t l k)"
  using assms by (auto simp: kit_ok_def AddPublisherListenerToCache_def RemovePublisherListenerFromCache_def Let_def
      dest!: set_smap_put set_smap_emplace)

lemma kit_ok_register:
  assumes "kit_ok k" and "Kit_RegisterPublisherListener K A t l k s = Some (r, k1, s1)" shows "kit_ok k1"
proof -
  obtain p k0 where p: "GetDHFWKProxy A k = (p, k0)" by (cases "GetDHFWKProxy A k")
  then have "kt_listeners k0 = kt_listeners k" using GetDHFWKProxy_caches(1) [of A k] by simp
  then have "kit_ok k0" using assms(1) by (simp add: kit_ok_def)
  with assms p kit_ok_cache(1) [of k0 t l] show ?thesis
    by (auto simp: Kit_RegisterPublisherListener_def topic_checks_agree case_prod_unfold Let_def split: if_splits option.splits)
qed

text \<open>A parcel can hold the small requests and a result.\<close>

definition small_requests_fit :: "(pitem list \<Rightarrow> bool) \<Rightarrow> bool" where
  "small_requests_fit fits \<longleftrightarrow> (\<forall>t x. fits [ItToken dhfwk_descriptor, ItU32 t, ItObj x])
     \<and> (\<forall>i x. fits [ItToken dhfwk_descriptor, ItI32 i, ItObj x]) \<and> (\<forall>r. fits [ItI32 r])"

text \<open>\<open>kit_linked\<close>: the requests of the client reach the service, the client has the permission, and the proxy that the service makes for a listener is \<open>new\<close> of it.\<close>

definition kit_linked ::
  "('p, ('w, 'c, 'h, 'k) daemon) kit_env \<Rightarrow> ('w, 'j, 'h, 'k) service_env \<Rightarrow> ('p, ('w, 'c, 'h, 'k) daemon) ipc_env \<Rightarrow> (nat \<Rightarrow> nat) \<Rightarrow> nat \<Rightarrow> bool" where
  "kit_linked K SE E new h \<longleftrightarrow> request_delivered (ke_parcel K) (OnRemoteRequest (ke_parcel K) E (dh_service SE)) (ke_send K h)
     \<and> HasAccessDHPermission E \<and> (\<forall>l s. ie_listener_cast E (ke_AsObject K l) s = Some (new l))"

definition has_listener :: "topic \<Rightarrow> nat \<Rightarrow> publisher \<Rightarrow> bool" where
  "has_listener t l p \<longleftrightarrow> (\<exists>ls. smap_get p t = Some ls \<and> l \<in> set ls)"

lemma registered_listener:
  assumes "daemon_ok s" and "ValidTopic t"
  obtains s1 where "Service_RegisterPublisherListener t (Some l) s = Some (DH_FWK_SUCCESS, s1)" and "daemon_ok s1" and "sd_av s1 = sd_av s"
    and "has_listener t l (sd_publisher s1)" and "\<And>t' l'. has_listener t' l' (sd_publisher s) \<Longrightarrow> has_listener t' l' (sd_publisher s1)"
proof -
  obtain ls where ls: "smap_get (sd_publisher s) t = Some ls" using assms pub_ok_item unfolding daemon_ok_def by blast
  let ?s1 = "s\<lparr>sd_publisher := smap_put t (sset_insert l ls) (sd_publisher s)\<rparr>"
  have r: "Service_RegisterPublisherListener t (Some l) s = Some (DH_FWK_SUCCESS, ?s1)"
    using ls by (simp add: Service_RegisterPublisherListener_def Publisher_RegisterListener_def AddListener_def)
  from keeps_register(1) [OF assms, of "Some l"] r have "daemon_ok ?s1" by simp
  with r ls show ?thesis by (intro that [of ?s1]) (auto simp: has_listener_def)
qed

lemma restore_listeners_effect:
  assumes "parcel_laws (ke_parcel K) items fits" and "small_requests_fit fits" and "kit_linked K SE E new h"
  shows "daemon_ok s \<Longrightarrow> \<forall>e\<in>set es. ValidTopic (fst e) \<Longrightarrow>
    \<exists>s1. restore_listeners K h es DH_FWK_SUCCESS s = Some (DH_FWK_SUCCESS, s1) \<and> daemon_ok s1 \<and> sd_av s1 = sd_av s
      \<and> (\<forall>t l. has_listener t l (sd_publisher s) \<longrightarrow> has_listener t l (sd_publisher s1))
      \<and> (\<forall>t l. (t, Some l) \<in> set es \<longrightarrow> has_listener t (new l) (sd_publisher s1))"
proof (induction es arbitrary: s)
  case (Cons e es)
  obtain t x where e: "e = (t, x)" by (cases e)
  have link: "request_delivered (ke_parcel K) (OnRemoteRequest (ke_parcel K) E (dh_service SE)) (ke_send K h)" "HasAccessDHPermission E"
    "\<And>l s. ie_listener_cast E (ke_AsObject K l) s = Some (new l)" using assms(3) by (simp_all add: kit_linked_def)
  have fit: "fits [ItToken dhfwk_descriptor, ItU32 t, ItObj y]" "fits [ItI32 0]" for y using assms(2) by (simp_all add: small_requests_fit_def)
  have t: "ValidTopic t" using Cons.prems(2) e by simp
  show ?case
  proof (cases x)
    case None
    then have "Proxy_RegisterPublisherListener (ke_parcel K) (ke_AsObject K) (Some (ke_send K h)) t x s
      = Some (ERR_DH_FWK_PUBLISHER_LISTENER_IS_NULL, s)"
      by (simp add: Proxy_RegisterPublisherListener_def listener_request_def)
    with Cons.IH [OF Cons.prems(1)] Cons.prems(2) e None show ?thesis by auto
  next
    case (Some l)
    obtain s1 where s1: "Service_RegisterPublisherListener t (Some (new l)) s = Some (DH_FWK_SUCCESS, s1)" "daemon_ok s1" "sd_av s1 = sd_av s"
      "has_listener t (new l) (sd_publisher s1)" "\<And>t' l'. has_listener t' l' (sd_publisher s) \<Longrightarrow> has_listener t' l' (sd_publisher s1)"
      using registered_listener [OF Cons.prems(1) t] by blast
    have "sv_RegisterPublisherListener (dh_service SE) t (Some (new l)) s = Some (DH_FWK_SUCCESS, s1)" using s1(1) by (simp add: dh_service_def)
    from register_arrives [OF assms(1) link(1,2) t, where obj = "ke_AsObject K" and l = l, OF link(3) fit this]
    have "Proxy_RegisterPublisherListener (ke_parcel K) (ke_AsObject K) (Some (ke_send K h)) t x s = Some (DH_FWK_SUCCESS, s1)"
      using Some by simp
    moreover obtain s2 where "restore_listeners K h es DH_FWK_SUCCESS s1 = Some (DH_FWK_SUCCESS, s2)" "daemon_ok s2" "sd_av s2 = sd_av s1"
      "\<forall>t l. has_listener t l (sd_publisher s1) \<longrightarrow> has_listener t l (sd_publisher s2)"
      "\<forall>t l. (t, Some l) \<in> set es \<longrightarrow> has_listener t (new l) (sd_publisher s2)"
      using Cons.IH [OF s1(2)] Cons.prems(2) by auto
    ultimately show ?thesis using s1(3-5) e Some by auto
  qed
qed simp

text \<open>A control center of a new process has handed out no engine number yet.\<close>

definition fresh_center :: "('w, 'c, 'h, 'k) daemon \<Rightarrow> bool" where
  "fresh_center s \<longleftrightarrow> cc_rootEngineId (aw_center (sd_av s)) = BASE_ENGINE_ID
     \<and> (\<forall>i > BASE_ENGINE_ID. smap_get (cc_callbackMap (aw_center (sd_av s))) i = None)"

lemma fresh_center_register:
  assumes "fresh_center s"
  shows "fresh_center (snd (Service_RegisterCtlCenterCallback i cb s))" and "sd_publisher (snd (Service_RegisterCtlCenterCallback i cb s)) = sd_publisher s"
    and "i > BASE_ENGINE_ID \<Longrightarrow> fst (Service_RegisterCtlCenterCallback i cb s) = ERR_DH_AVT_INVALID_PARAM_VALUE"
  using assms by (auto simp: fresh_center_def Service_RegisterCtlCenterCallback_def on_av_def upd_av_def RegisterCtlCenterCallback_def
      IsInvalidEngineId_def upd_center_def Let_def smap_get_emplace split: option.splits)

lemma callback_arrives:
  assumes "parcel_laws P items fits" and "request_delivered P (OnRemoteRequest P E (dh_service SE)) f" and "HasAccessDHPermission E"
    and "fits [ItToken dhfwk_descriptor, ItI32 i, ItObj (obj c)]" and "\<forall>r. fits [ItI32 r]"
  shows "Proxy_RegisterCtlCenterCallback P obj (Some f) i (Some c) s
    = Some (if ie_callback_cast E (obj c) s = None then (ERR_DH_AVT_SERVICE_IPC_SEND_REQUEST_FAIL, s)
        else Service_RegisterCtlCenterCallback i (ie_callback_cast E (obj c) s) s)"
proof -
  let ?d = "written P (pc_WriteInterfaceToken P dhfwk_descriptor) (pc_WriteInt32 P i) (pc_WriteRemoteObject P (obj c))"
  let ?cb = "ie_callback_cast E (obj c) s"
  note w = writes_three [OF assms(1,4) parcel_lawsD(3,5,7) [OF assms(1)]]
  have sent: "Proxy_RegisterCtlCenterCallback P obj (Some f) i (Some c) s
      = send_request P f REGISTER_CTL_CEN_CALLBACK False ERR_DH_AVT_SERVICE_IPC_SEND_REQUEST_FAIL ?d s"
    by (simp add: Proxy_RegisterCtlCenterCallback_def engine_request_def w(2))
  note t = stub_token [OF assms(1) w(1)]
  note n = read_int32 [OF assms(1) t(2)]
  note o = read_object [OF assms(1) n(2)]
  have stub: "OnRemoteRequest P E (dh_service SE) REGISTER_CTL_CEN_CALLBACK ?d (pc_new P) s
      = (if ?cb = None then Some (ERR_DH_FWK_PARA_INVALID, pc_new P, s) else reply_ret P (pc_new P) (Some (Service_RegisterCtlCenterCallback i ?cb s)))"
    using assms(3) t(1) n(1) o
    by (simp add: OnRemoteRequest_def RegisterControlCenterCallbackInner_def Let_def case_prod_unfold dh_service_def)
  show ?thesis
  proof (cases "?cb = None")
    case True
    with stub show ?thesis by (simp add: sent send_request_def request_deliveredD(1) [OF assms(2)])
  next
    case False
    obtain r s1 where rs: "Service_RegisterCtlCenterCallback i ?cb s = (r, s1)" by (cases "Service_RegisterCtlCenterCallback i ?cb s")
    from stub False rs have "OnRemoteRequest P E (dh_service SE) REGISTER_CTL_CEN_CALLBACK ?d (pc_new P) s = reply_ret P (pc_new P) (Some (r, s1))"
      by simp
    from send_request_returns [OF assms(1,2) this] assms(5) rs False show ?thesis by (auto simp: sent)
  qed
qed

lemma restore_callbacks_effect:
  assumes "parcel_laws (ke_parcel K) items fits" and "small_requests_fit fits" and "kit_linked K SE E new h"
  shows "fresh_center s \<Longrightarrow> \<exists>r s1. restore_callbacks K h es ret s = Some (r, s1) \<and> fresh_center s1 \<and> sd_publisher s1 = sd_publisher s
    \<and> (ret \<noteq> 0 \<or> (\<exists>e\<in>set es. fst e > BASE_ENGINE_ID) \<longrightarrow> r \<noteq> 0)"
proof (induction es arbitrary: s ret)
  case (Cons e es)
  obtain i x where e: "e = (i, x)" by (cases e)
  have link: "request_delivered (ke_parcel K) (OnRemoteRequest (ke_parcel K) E (dh_service SE)) (ke_send K h)" "HasAccessDHPermission E"
    using assms(3) by (simp_all add: kit_linked_def)
  have fit: "fits [ItToken dhfwk_descriptor, ItI32 i, ItObj y]" "\<forall>r. fits [ItI32 r]" for y using assms(2) by (simp_all add: small_requests_fit_def)
  obtain r0 s0 where p: "Proxy_RegisterCtlCenterCallback (ke_parcel K) (ke_AsObject K) (Some (ke_send K h)) i x s = Some (r0, s0)"
    "fresh_center s0" "sd_publisher s0 = sd_publisher s" "i > BASE_ENGINE_ID \<Longrightarrow> r0 \<noteq> 0"
  proof (cases x)
    case None
    then show ?thesis using Cons.prems by (intro that [of ERR_DH_FWK_AVTRANS_CALLBACK_IS_NULL s]) (simp_all add: Proxy_RegisterCtlCenterCallback_def)
  next
    case (Some c)
    let ?cb = "ie_callback_cast E (ke_AsObject K c) s"
    let ?res = "if ?cb = None then (ERR_DH_AVT_SERVICE_IPC_SEND_REQUEST_FAIL, s) else Service_RegisterCtlCenterCallback i ?cb s"
    have "Proxy_RegisterCtlCenterCallback (ke_parcel K) (ke_AsObject K) (Some (ke_send K h)) i x s = Some ?res"
      unfolding Some by (rule callback_arrives [OF assms(1) link fit(1) fit(2)])
    then show ?thesis using fresh_center_register [OF Cons.prems, of i ?cb] Cons.prems by (intro that [of "fst ?res" "snd ?res"]) simp_all
  qed
  from Cons.IH [OF p(2), of "if r0 \<noteq> 0 then r0 else ret"]
  obtain r s1 where "restore_callbacks K h es (if r0 \<noteq> 0 then r0 else ret) s0 = Some (r, s1)" "fresh_center s1" "sd_publisher s1 = sd_publisher s0"
    "(if r0 \<noteq> 0 then r0 else ret) \<noteq> 0 \<or> (\<exists>e\<in>set es. fst e > BASE_ENGINE_ID) \<longrightarrow> r \<noteq> 0" by blast
  with p e show ?case by (auto split: if_splits)
qed simp

text \<open>
  Property C12. The service ended and a new process of it has started. When the ability manager tells the client, every listener in its cache is registered again in the new service, and no other
  listener is lost. The callbacks of the engines are not: the new control center has handed out no engine number, so it refuses the callback of every engine but the one with the number
  1000. The engines go on with numbers that the center does not know, and nobody is told; the result of \<open>RestoreListener\<close> is only logged.
\<close>

theorem restart_keeps_listeners_and_loses_callbacks:
  assumes "parcel_laws (ke_parcel K) items fits" and "small_requests_fit fits" and "kit_linked K SE E new h" and "kit_ok k"
    and "GetDHFWKProxy A k = (Some h, k1)" and "daemon_ok s" and "fresh_center s"
  shows "\<exists>k2 s2. OnAddSystemAbility K A DISTRIBUTED_HARDWARE_SA_ID k s = Some (k2, s2)
    \<and> (\<forall>t ls l. (t, ls) \<in> set (kt_listeners k) \<and> Some l \<in> set ls \<longrightarrow> has_listener t (new l) (sd_publisher s2))
    \<and> (\<forall>t l. has_listener t l (sd_publisher s) \<longrightarrow> has_listener t l (sd_publisher s2))
    \<and> (\<forall>i > BASE_ENGINE_ID. smap_get (cc_callbackMap (aw_center (sd_av s2))) i = None)"
proof -
  let ?k = "if kt_callback k then k\<lparr>kt_dhfwkOnLine := True, kt_kitOnLine := True\<rparr> else k\<lparr>kt_dhfwkOnLine := True\<rparr>"
  obtain k3 where g: "GetDHFWKProxy A ?k = (Some h, k3)" "kt_listeners k3 = kt_listeners k" "kt_callbacks k3 = kt_callbacks k"
  proof -
    have "fst (GetDHFWKProxy A ?k) = fst (GetDHFWKProxy A k)"
      by (simp add: GetDHFWKProxy_def RegisterAbilityListener_def Let_def split: option.splits)
    with assms(5) have "GetDHFWKProxy A ?k = (Some h, snd (GetDHFWKProxy A ?k))" by (simp add: prod_eq_iff)
    from that [OF this] show ?thesis by simp
  qed
  have c: "set (cached_listeners k3) = {(t, l). \<exists>ls. (t, ls) \<in> set (kt_listeners k) \<and> l \<in> set ls}" by (auto simp: cached_listeners_def g(2))
  then have "\<forall>e\<in>set (cached_listeners k3). ValidTopic (fst e)" using assms(4) by (fastforce simp: kit_ok_def)
  then obtain s1 where s1: "restore_listeners K h (cached_listeners k3) DH_FWK_SUCCESS s = Some (DH_FWK_SUCCESS, s1)" "sd_av s1 = sd_av s"
    "\<forall>t l. has_listener t l (sd_publisher s) \<longrightarrow> has_listener t l (sd_publisher s1)"
    "\<forall>t l. (t, Some l) \<in> set (cached_listeners k3) \<longrightarrow> has_listener t (new l) (sd_publisher s1)"
    using restore_listeners_effect [OF assms(1-3,6)] by blast
  have "fresh_center s1" using assms(7) s1(2) by (simp add: fresh_center_def)
  from restore_callbacks_effect [OF assms(1-3) this]
  obtain r s2 where s2: "restore_callbacks K h (kt_callbacks k3) DH_FWK_SUCCESS s1 = Some (r, s2)" "fresh_center s2" "sd_publisher s2 = sd_publisher s1"
    by blast
  have "OnAddSystemAbility K A DISTRIBUTED_HARDWARE_SA_ID k s = Some (k3, s2)"
    using g(1) s1(1) s2(1) by (simp add: OnAddSystemAbility_def Let_def RestoreListener_def)
  moreover have "has_listener t (new l) (sd_publisher s2)" if "(t, ls) \<in> set (kt_listeners k) \<and> Some l \<in> set ls" for t ls l
  proof -
    from that have "(t, Some l) \<in> set (cached_listeners k3)" unfolding c by blast
    with s1(4) s2(3) show ?thesis by simp
  qed
  ultimately show ?thesis using s1(3) s2(2,3) unfolding fresh_center_def by auto
qed

text \<open>
  A registration of a listener that fails while the listeners are restored is never reported: whatever the service answers, \<open>RestoreListener\<close> ends
  with success when no callback is in the cache.
\<close>

lemma restore_listeners_result: "restore_listeners K h es DH_FWK_SUCCESS s = Some (r, s1) \<Longrightarrow> r = DH_FWK_SUCCESS"
  by (induction es arbitrary: s) (auto split: option.splits)

lemma restore_hides_failures:
  assumes "GetDHFWKProxy A k = (Some h, k1)" and "kt_callbacks k = []" and "RestoreListener K A k s = Some (r, k2, s2)"
  shows "r = DH_FWK_SUCCESS"
proof -
  have "kt_callbacks k1 = []" using GetDHFWKProxy_caches(2) [of A k] assms(1,2) by simp
  with assms(1,3) show ?thesis by (auto simp: RestoreListener_def split: option.splits dest: restore_listeners_result)
qed

definition sample_kit_env :: "(pitem list, (kv_world, unit, int \<times> (int \<times> string) list, (nat \<times> string) list) daemon) kit_env" where
  "sample_kit_env = \<lparr> ke_parcel = item_parcel, ke_AsObject = Some,
     ke_send = (\<lambda>_. direct item_parcel (OnRemoteRequest item_parcel (sample_caller True) (dh_service sample_service))) \<rparr>"

definition sample_kit :: kit where
  "sample_kit = DHFWKSAManager_new\<lparr>kt_callback := True, kt_listeners := [(TOPIC_LOW_LATENCY, [Some 4])], kt_callbacks := [(1001, Some 7)]\<rparr>"

theorem restart_keeps_listeners_and_loses_callbacks_witness:
  "\<exists>k2 s2. OnAddSystemAbility sample_kit_env \<lparr> sa_mgr = True, sa_subscribe = 0, sa_check = Some 9, sa_cast = True, sa_object = True \<rparr> DISTRIBUTED_HARDWARE_SA_ID
       sample_kit sample_daemon = Some (k2, s2)
     \<and> has_listener TOPIC_LOW_LATENCY 4 (sd_publisher s2) \<and> smap_get (cc_callbackMap (aw_center (sd_av s2))) 1001 = None"
proof -
  let ?A = "\<lparr> sa_mgr = True, sa_subscribe = 0, sa_check = Some 9, sa_cast = True, sa_object = True \<rparr>"
  have "parcel_laws (ke_parcel sample_kit_env) (\<lambda>p. p) (\<lambda>_. True)" by (simp add: sample_kit_env_def item_parcel_laws)
  moreover have "small_requests_fit (\<lambda>_. True)" by (simp add: small_requests_fit_def)
  moreover have "kit_linked sample_kit_env sample_service (sample_caller True) (\<lambda>l. l) 9"
    by (simp add: kit_linked_def sample_kit_env_def direct_delivers) (simp add: sample_caller_def)
  moreover have "kit_ok sample_kit" by (simp add: kit_ok_def sample_kit_def ValidTopic_iff)
  moreover have "GetDHFWKProxy ?A sample_kit = (Some 9, snd (GetDHFWKProxy ?A sample_kit))"
    by (simp add: GetDHFWKProxy_def RegisterAbilityListener_def Let_def sample_kit_def DHFWKSAManager_new_def)
  moreover have "fresh_center sample_daemon" by (simp add: fresh_center_def sample_daemon_def center_new_def smap_get_def)
  ultimately obtain k2 s2 where "OnAddSystemAbility sample_kit_env ?A DISTRIBUTED_HARDWARE_SA_ID sample_kit sample_daemon = Some (k2, s2)"
    "\<forall>t ls l. (t, ls) \<in> set (kt_listeners sample_kit) \<and> Some l \<in> set ls \<longrightarrow> has_listener t l (sd_publisher s2)"
    "\<forall>i > BASE_ENGINE_ID. smap_get (cc_callbackMap (aw_center (sd_av s2))) i = None"
    using restart_keeps_listeners_and_loses_callbacks [OF _ _ _ _ _ sample_daemon_ok] by blast
  then show ?thesis by (auto simp: sample_kit_def)
qed

end
