(* ===== verification/Spec2Isabelle.thy ===== *)
theory Spec2Isabelle
  imports DHF_Sample DHF_CommTool DHF_AvCenterProps DHF_AvBufferProps DHF_AvEngineProps DHF_AvOutputProps DHF_AvPluginProps DHF_AvCallback DHF_AvProvider DHF_Privacy DHF_Kit
begin

text \<open>
  The distributed hardware framework: a verification library.

  \<^bold>\<open>The program.\<close> The framework runs as a service on each device. When a trusted device comes online, it learns which hardware the
  device has (from a distributed key-value database, or by asking the device over the soft bus) and enables each piece of hardware in
  the component of its type (camera, audio, screen, input, modem); when the device goes, it disables them. A second part moves audio and
  video between devices: engines that send and receive, the channels of the soft bus, a control center that keeps streams in step
  through clocks in shared memory. Other processes reach the service through requests.

  \<^bold>\<open>Layers, and where they are modelled.\<close> Source paths are relative to \<open>services/distributedhardwarefwkservice/src\<close> unless they start with
  \<open>utils/\<close>, \<open>interfaces/\<close> or \<open>av_transport/\<close>, which stand under \<open>src/\<close>.

  \<^item> \<open>DHF_Prelude\<close>, \<open>DHF_Containers\<close>, \<open>DHF_Utils\<close>: return codes, constants, C and C++ strings and decimal numbers; ordered maps and sets as sorted
    association lists (\<open>smap\<close>, \<open>sset\<close>); \<open>utils/src/dh_utils_tool.cpp\<close>, \<open>utils/src/anonymous_string.cpp\<close>.
  \<^item> \<open>DHF_Json\<close>, \<open>DHF_Json_Model\<close>: cJSON as the record \<open>cjson\<close> of its functions with the laws the code relies on, and one
    implementation of the laws, on which the witnesses are computed.
  \<^item> \<open>DHF_Capability\<close>, \<open>DHF_Version\<close>: \<open>resourcemanager/capability_info.cpp\<close>, \<open>meta_capability_info.cpp\<close>, \<open>capability_utils.cpp\<close>,
    \<open>version_info.cpp\<close>, \<open>version_info_manager.cpp\<close>, \<open>versionmanager/version_manager.cpp\<close>.
  \<^item> \<open>DHF_Context\<close>: \<open>utils/dh_context.cpp\<close>. \<open>DHF_DB\<close>: \<open>resourcemanager/db_adapter.cpp\<close> over an abstract store.
  \<^item> \<open>DHF_Task\<close>: \<open>task/task.cpp\<close>, \<open>task_board.cpp\<close>, \<open>task_factory.cpp\<close>, \<open>task_executor.cpp\<close>.
  \<^item> \<open>DHF_InfoMgr\<close>, \<open>DHF_CapMgr\<close>, \<open>DHF_LocalMeta\<close>: what the three information managers share, \<open>resourcemanager/capability_info_manager.cpp\<close>,
    \<open>local_capability_info_manager.cpp\<close>, \<open>meta_info_manager.cpp\<close>.
  \<^item> \<open>DHF_LocalHw\<close>: \<open>localhardwaremanager\<close>. \<open>DHF_Manager\<close>: \<open>distributed_hardware_manager.cpp\<close>, \<open>distributed_hardware_manager_factory.cpp\<close>,
    \<open>accessmanager/access_manager.cpp\<close>.
  \<^item> \<open>DHF_Jobs\<close>: the bodies of the six kinds of tasks as sequences of actions. \<open>DHF_Reach\<close>, \<open>DHF_Flow\<close>, \<open>DHF_Pipeline\<close>, \<open>DHF_FlowInv\<close>,
    \<open>DHF_FlowProps\<close>, \<open>DHF_Online\<close>, \<open>DHF_Sample\<close>: the threads of the framework as a step relation, its invariants, and the properties of
    whole runs from online to offline.
  \<^item> \<open>DHF_Loader\<close>: \<open>componentloader\<close>. \<open>DHF_Publisher\<close>: \<open>publisher\<close>, \<open>utils/dh_timer.cpp\<close>, \<open>lowlatency\<close>. \<open>DHF_Transport\<close>, \<open>DHF_CommTool\<close>: \<open>transport\<close>.
    \<open>DHF_CompMgr\<close>, \<open>DHF_CompProps\<close>: \<open>componentmanager\<close>.
  \<^item> \<open>DHF_AvSync\<close>, \<open>DHF_AvChannel\<close>, \<open>DHF_AvBuffer\<close>, \<open>DHF_AvBufferProps\<close>: \<open>av_transport/common/src\<close>. \<open>DHF_AvCenter\<close>, \<open>DHF_AvCenterProps\<close>:
    \<open>av_transport/av_trans_control_center/services/src\<close>. \<open>DHF_AvEngine\<close>, \<open>DHF_AvEngineProps\<close>: \<open>av_sender_engine.cpp\<close>, \<open>av_receiver_engine.cpp\<close>.
    \<open>DHF_AvOutput\<close>, \<open>DHF_AvOutputProps\<close>: under \<open>av_transport/av_trans_engine/plugin/plugins/av_trans_output\<close> the control of the output of frames
    (\<open>output_control\<close>) and the plugin of the remote screen (\<open>dscreen_output\<close>). \<open>DHF_AvPlugin\<close>, \<open>DHF_AvPluginProps\<close>: the other plugins under
    \<open>av_transport/av_trans_engine/plugin/plugins\<close>, which capture frames, send them over the soft bus, receive them and play audio.
  \<^item> \<open>DHF_Ipc\<close>, \<open>DHF_IpcProps\<close>: the requests of other processes, \<open>distributed_hardware_stub.cpp\<close>, \<open>ipc/publisher_listener_proxy.cpp\<close>,
    \<open>interfaces/inner_kits/src/ipc/distributed_hardware_proxy.cpp\<close> and \<open>publisher_listener_stub.cpp\<close>. \<open>DHF_Service\<close>, \<open>DHF_ServiceProps\<close>:
    \<open>distributed_hardware_service.cpp\<close> over the models of what it calls. \<open>DHF_Kit\<close>: \<open>interfaces/inner_kits/src/distributed_hardware_fwk_kit.cpp\<close>
    and \<open>ipc/dhfwk_sa_manager.cpp\<close>. \<open>DHF_AvCallback\<close>: the requests of the control center to the engines,
    \<open>av_trans_control_center_callback_proxy.cpp\<close>, \<open>av_trans_control_center_callback_stub.cpp\<close> and \<open>av_trans_control_center_callback.cpp\<close>.
    \<open>DHF_AvProvider\<close>: \<open>av_sender_engine_provider.cpp\<close> and \<open>av_receiver_engine_provider.cpp\<close>. \<open>DHF_Privacy\<close>: \<open>componentmanager/component_privacy.cpp\<close>.

  \<^bold>\<open>State and operations.\<close> A class is a record whose fields are its members without the trailing underscore and with a prefix
  (\<open>capInfoMgrMap_\<close> is a map of \<open>DHF_CapMgr\<close>, \<open>tasks_\<close> a field of the board in \<open>DHF_Task\<close>); a method is a definition of its name that takes the
  state and returns the result and the new state. A single object of the process is a field of the state of the callers. Errors are the
  integers of the sources; an access through a null pointer or past the end, and a wait that never ends, is \<open>None\<close>. Integers are
  words where the code can wrap or truncate them and \<open>int\<close> where they are only passed on.

  \<^bold>\<open>What is a parameter.\<close> The code outside of the repository is never defined: the key-value store, the device manager, cJSON, OpenSSL, zlib, the soft bus,
  the loader of libraries, the shared memory, the media library, the parcels and the tokens of the system are records of functions that the definitions
  take as arguments. The hypotheses on them are named (\<open>cjson_build_laws\<close>, \<open>cj_prints_back\<close>, \<open>items_read_back\<close>, \<open>kv_laws\<close>, \<open>zlib_laws\<close>, \<open>dl_laws\<close>, \<open>parcel_laws\<close>, \<open>request_delivered\<close>, \<open>fd_laws\<close>, \<open>buffer_laws\<close>, \<open>both_read_back\<close>) and every property that has such a hypothesis has a witness with concrete functions.

  \<^bold>\<open>Interfaces.\<close> Locales state what one component relies on of another, and their facts are used through interpretations on the definitions of the
  model: \<open>ordered_map\<close> and \<open>keyed_cache\<close> (the maps of the managers), \<open>json_codec\<close> (the five classes with the same text of \<open>FromJsonString\<close> and
  \<open>ToJsonString\<close>), \<open>bounded_fifo\<close> (the queue of the executor), \<open>guarded_system\<close> (the step relation of the threads), \<open>service_contract\<close> (what the stub relies on of
  the service), \<open>output_class\<close> (what the output controller relies on of its subclasses), \<open>engine_release\<close> (what a provider relies on of the release of an engine).

  \<^bold>\<open>What the lemmas show.\<close> Per component an invariant and that each operation keeps it; the effect of each operation on its branches; the round trips
  of the JSON records, messages and buffers; the equivalence of the in-place coders with their specifications; for the runs of the framework that an offline task
  clears a device only after its children are done, that the threads do not deadlock and, left alone, come to rest (by a measure on tasks, queue and threads, without a hypothesis); for the output of frames that they come
  out once and in order in every interleaving; and what the code does where it
  does not do what it means to (the findings).

  \<^bold>\<open>Atomicity.\<close> In the flow a step is one action of a task's thread, of the executor or of an event: the creation of a task and its push are one action, the
  check of an empty board at the end of an offline task and the release is one, an operation under one mutex is one. The flow keeps the components behind \<open>comp_api\<close>. A call
  of the channel adapter is one step, but for the callbacks that call listeners: those and the threads that the adapter detaches are also modelled as the steps between two holds of
  \<open>listenerMtx_\<close> (\<open>channel_step\<close>), which the whole calls are proved to refine. The mutex of the timer is modelled at the granularity of its lock and unlock. \<open>Reset\<close> of the
  screen's plugin is the list of its assignments and calls, between which the controller's threads run. The control thread of the output goes from one of its
  waits to the next in one step.

  \<^bold>\<open>Bounds.\<close> The slices of \<open>Compress\<close> have 1024 bytes, and the loop recurses on the calls of zlib. Retry loops recurse on the number of attempts of the code (20 for the initialisation of the database, 300 for the recovery, 3 and 6 in the local
  hardware and the component manager); the queue of tasks holds at most 257; the ring of clocks has 50 units and the queue of frames at most 101; the queues of the plugins on the soft bus hold 1000 frames. There is no other fuel: every other loop is structural
  recursion over the data.

  \<^bold>\<open>Not modelled.\<close> The dump of the state, the modem extension, the filters of the media pipeline, the query of
  the codecs, log and trace, the bindings for applications and the user
  interface: they print, or override classes of libraries that are not in the repository, or only pass calls on.
\<close>

end
